(* ===== verification/Prelude.thy ===== *)
theory Prelude
  imports Main "HOL-Library.Word" "HOL-Library.Monad_Syntax"
begin

text \<open>
  Shared vocabulary of the development: the machine integer types the C++ sources use, byte
  streams, the decoder type, the collections of rewrite rules the component theories extend,
  and generic lemmas on lists, words and ordered maps.

  \<^item> An output stream is the list of bytes written to it; an input stream is the list of bytes
    still to be read.
  \<^item> A decoder returns the value and the rest of the stream, or \<^term>\<open>None\<close> when the stream ends
    before the last byte it asks for (the C++ stream then has its fail bit set and the target
    object is left in an unspecified state).
  \<^item> A \<^verbatim>\<open>std::map\<close> whose iteration order matters is an association list kept sorted by its key.
\<close>

unbundle bit_operations_syntax

section \<open>Types\<close>

type_synonym u8 = "8 word"
type_synonym u16 = "16 word"
type_synonym u32 = "32 word"
type_synonym u64 = "64 word"

type_synonym byte = u8
type_synonym stream = "byte list"
type_synonym 'a decoder = "stream \<Rightarrow> ('a \<times> stream) option"

named_theorems codec_rt \<open>round trip equations of the binary coders\<close>
named_theorems codec_defs \<open>definitions of the binary coders\<close>

section \<open>Lists\<close>

lemma take_append_exact [simp]: "length xs = n \<Longrightarrow> take n (xs @ ys) = xs"
  by simp

lemma drop_append_exact [simp]: "length xs = n \<Longrightarrow> drop n (xs @ ys) = ys"
  by simp

lemma filter_keys_distinct:
  "distinct (map fst xs) \<Longrightarrow> distinct (map fst (filter P xs))"
  by (induction xs) auto

section \<open>Bytes and words\<close>

definition le_bytes :: "'a::len word \<Rightarrow> byte list" where
  "le_bytes w = map (\<lambda>i. ucast (drop_bit (8 * i) w)) [0..<LENGTH('a) div 8]"

fun le_word :: "byte list \<Rightarrow> 'a::len word" where
  "le_word [] = 0"
| "le_word (b # bs) = ucast b OR push_bit 8 (le_word bs)"

lemma length_le_bytes [simp]: "length (le_bytes (w :: 'a::len word)) = LENGTH('a) div 8"
  by (simp add: le_bytes_def)

lemma bit_le_word:
  "bit (le_word bs :: 'a::len word) n \<longleftrightarrow>
     n < LENGTH('a) \<and> n div 8 < length bs \<and> bit (bs ! (n div 8)) (n mod 8)"
proof (induction bs arbitrary: n)
  case Nil
  then show ?case by simp
next
  case (Cons b bs)
  show ?case
  proof (cases "n < 8")
    case True
    then show ?thesis
      by (auto simp: bit_or_iff bit_push_bit_iff bit_ucast_iff)
  next
    case False
    then obtain m where m: "n = 8 + m" by (metis add.commute le_Suc_ex not_less)
    have b: "\<not> bit b n" using False by (auto dest: bit_imp_le_length)
    have "bit (le_word (b # bs) :: 'a word) n
            \<longleftrightarrow> n < LENGTH('a) \<and> bit (le_word bs :: 'a word) m"
      using m b by (auto simp: bit_or_iff bit_push_bit_iff bit_ucast_iff)
    moreover have "n div 8 = Suc (m div 8)" "n mod 8 = m mod 8" using m by simp_all
    ultimately show ?thesis using Cons.IH [of m] m by auto
  qed
qed

lemma le_word_le_bytes:
  assumes "8 dvd LENGTH('a)"
  shows "le_word (le_bytes (w :: 'a::len word)) = w"
proof (rule bit_word_eqI)
  fix n assume n: "n < LENGTH('a)"
  then have "n div 8 < LENGTH('a) div 8"
    using assms by (auto elim!: dvdE simp: div_less_iff_less_mult mult.commute)
  then show "bit (le_word (le_bytes w) :: 'a word) n \<longleftrightarrow> bit w n"
    using n by (simp add: bit_le_word le_bytes_def bit_ucast_iff bit_drop_bit_eq)
qed

lemma le_bytes_le_word:
  assumes "8 dvd LENGTH('a)" and "length bs = LENGTH('a) div 8"
  shows "le_bytes (le_word bs :: 'a::len word) = bs"
proof (rule nth_equalityI)
  show "length (le_bytes (le_word bs :: 'a word)) = length bs"
    using assms by simp
next
  fix i assume "i < length (le_bytes (le_word bs :: 'a word))"
  then have i: "i < length bs" using assms by simp
  show "le_bytes (le_word bs :: 'a word) ! i = bs ! i"
  proof (rule bit_word_eqI)
    fix n assume n: "n < LENGTH(8)"
    have "8 * i + n < LENGTH('a)"
      using n i assms by (auto elim!: dvdE)
    moreover have "(8 * i + n) div 8 = i" "(8 * i + n) mod 8 = n" using n by auto
    ultimately show "bit (le_bytes (le_word bs :: 'a word) ! i) n \<longleftrightarrow> bit (bs ! i) n"
      using n i assms by (simp add: le_bytes_def bit_ucast_iff bit_drop_bit_eq bit_le_word)
  qed
qed

lemma sint_eq_iff: "sint (x :: 'a::len word) = sint y \<longleftrightarrow> x = y"
  by (auto intro: signed_word_eqI)

lemma sint_nonneg_u32:
  assumes "0 \<le> sint (x :: u32)"
  shows "sint x = uint x"
proof -
  have lt: "uint x < 2 ^ 32" using unsigned_less [of x] by simp
  then have "take_bit 32 (uint x) = uint x" by (simp add: take_bit_int_eq_self_iff)
  with lt assms show ?thesis
    by (auto simp: sint_uint signed_take_bit_eq_take_bit_minus split: if_splits)
qed

lemma sint_word_of_nat_u32: "n < 2 ^ 31 \<Longrightarrow> sint (word_of_nat n :: u32) = int n"
  by (simp add: signed_of_nat signed_take_bit_int_eq_self)

text \<open>Characters of a \<^verbatim>\<open>std::string\<close> are the bytes that are written.\<close>

definition byte_of_char :: "char \<Rightarrow> byte" where
  "byte_of_char c = word_of_nat (of_char c)"

definition char_of_byte :: "byte \<Rightarrow> char" where
  "char_of_byte b = char_of (unat b)"

lemma char_of_byte_of_char [simp]: "char_of_byte (byte_of_char c) = c"
proof -
  have "of_char c < (256 :: nat)" by simp
  then have "unat (word_of_nat (of_char c) :: byte) = (of_char c :: nat)"
    by (simp add: unat_of_nat)
  then show ?thesis by (simp add: char_of_byte_def byte_of_char_def)
qed

lemma byte_of_char_of_byte [simp]: "byte_of_char (char_of_byte b) = b"
proof -
  have "unat b < 256" using unsigned_less [of b] by simp
  then show ?thesis by (simp add: char_of_byte_def byte_of_char_def)
qed

lemma map_char_byte [simp]: "map (char_of_byte \<circ> byte_of_char) s = s"
  by (simp add: comp_def)

lemma map_byte_char [simp]: "map (byte_of_char \<circ> char_of_byte) bs = bs"
  by (simp add: comp_def)

end
