(* ===== verification/ByteOrder.thy ===== *)
theory ByteOrder
  imports Prelude
begin

text \<open>
  The numeric layer of the binary encoding: \<^verbatim>\<open>ByteOrder<T>\<close> (\<^verbatim>\<open>BuildInTypes/ByteOrder.h\<close>) and the
  overloads of \<^verbatim>\<open>OpcUaNumber::opcUaBinaryEncode\<close> and \<^verbatim>\<open>opcUaBinaryDecode\<close>
  (\<^verbatim>\<open>BuildInTypes/OpcUaNumber.cpp\<close>).

  The contract every binary coder of the stack is used with is the locale \<open>codec\<close>: decoding the
  bytes an encoder wrote gives the value back and leaves the rest of the stream untouched. Its
  consequences (encodings are prefix free and injective, sequences of values decode) are proved
  once there. \<open>fixed_codec\<close> adds what the numeric coders promise on top: a fixed width, a decoder
  that fails exactly on a short stream, and that every decodable input is an encoding.

  Signed integers and IEEE numbers are words of their width: the coders only move their bytes.
\<close>

section \<open>The contract of a binary coder\<close>

locale codec =
  fixes enc :: "'a \<Rightarrow> stream"
    and dec :: "'a decoder"
    and wf :: "'a \<Rightarrow> bool"
  assumes dec_enc: "wf x \<Longrightarrow> dec (enc x @ rest) = Some (x, rest)"
begin

lemma dec_enc_exact: "wf x \<Longrightarrow> dec (enc x) = Some (x, [])"
  using dec_enc [of x "[]"] by simp

lemma enc_prefix_free:
  assumes "wf x" "wf y" "enc x @ r = enc y @ s"
  shows "x = y \<and> r = s"
proof -
  have "Some (x, r) = dec (enc x @ r)" using assms(1) by (simp only: dec_enc)
  also have "\<dots> = dec (enc y @ s)" by (simp only: assms(3))
  also have "\<dots> = Some (y, s)" using assms(2) by (simp only: dec_enc)
  finally show ?thesis by simp
qed

lemma enc_inj: "inj_on enc {x. wf x}"
  by (rule inj_onI) (use enc_prefix_free [where r = "[]" and s = "[]"] in auto)

lemma concat_inj:
  assumes "list_all wf xs" "list_all wf ys" "length xs = length ys"
    and "concat (map enc xs) @ r = concat (map enc ys) @ s"
  shows "xs = ys \<and> r = s"
  using assms(3,1,2,4)
proof (induction xs ys rule: list_induct2)
  case Nil
  then show ?case by simp
next
  case (Cons x xs y ys)
  then have "x = y \<and> concat (map enc xs) @ r = concat (map enc ys) @ s"
    by (intro enc_prefix_free) auto
  then show ?case using Cons by simp
qed

end

locale fixed_codec = codec +
  fixes width :: nat
  assumes enc_width: "wf x \<Longrightarrow> length (enc x) = width"
    and dec_short: "dec bs = None \<longleftrightarrow> length bs < width"
    and enc_dec: "dec bs = Some (x, rest) \<Longrightarrow> wf x \<and> bs = enc x @ rest"
begin

lemma dec_consumes:
  assumes "dec bs = Some (x, rest)"
  shows "rest = drop width bs"
  using enc_dec [OF assms] by (auto simp: enc_width)

lemma dec_total: "width \<le> length bs \<Longrightarrow> \<exists>x rest. dec bs = Some (x, rest)"
  using dec_short [of bs] by (cases "dec bs") auto

end

section \<open>ByteOrder\<close>

text \<open>
  The bytes of an object in memory depend on the host. On the hosts the build supports the macro
  \<^verbatim>\<open>LITTLE_ENDIAN\<close> is a non-zero constant (it is \<^verbatim>\<open>true\<close> on Windows and 1234 in the C library's
  \<^verbatim>\<open>endian.h\<close>), so the test \<^verbatim>\<open>if (LITTLE_ENDIAN)\<close> of the source always takes its first branch.
\<close>

definition LITTLE_ENDIAN :: bool where
  "LITTLE_ENDIAN = True"

definition object_bytes :: "bool \<Rightarrow> 'a::len word \<Rightarrow> byte list" where
  "object_bytes host_le v = (if host_le then le_bytes v else rev (le_bytes v))"

definition object_value :: "bool \<Rightarrow> byte list \<Rightarrow> 'a::len word" where
  "object_value host_le bs = (if host_le then le_word bs else le_word (rev bs))"

text \<open>\<^verbatim>\<open>std::istream::read\<close> of \<open>n\<close> bytes.\<close>

definition stream_read :: "nat \<Rightarrow> byte list decoder" where
  "stream_read n is = (if length is < n then None else Some (take n is, drop n is))"

definition opcUaBinaryEncodeNumberLE :: "bool \<Rightarrow> 'a::len word \<Rightarrow> stream" where
  "opcUaBinaryEncodeNumberLE host_le v =
     (if LITTLE_ENDIAN then object_bytes host_le v else rev (object_bytes host_le v))"

definition opcUaBinaryEncodeNumberBE :: "bool \<Rightarrow> 'a::len word \<Rightarrow> stream" where
  "opcUaBinaryEncodeNumberBE host_le v =
     (if LITTLE_ENDIAN then rev (object_bytes host_le v) else object_bytes host_le v)"

definition opcUaBinaryDecodeNumberLE :: "bool \<Rightarrow> 'a::len word decoder" where
  "opcUaBinaryDecodeNumberLE host_le is = do {
     (bs, is) \<leftarrow> stream_read (LENGTH('a) div 8) is;
     Some (object_value host_le (if LITTLE_ENDIAN then bs else rev bs), is) }"

definition opcUaBinaryDecodeNumberBE :: "bool \<Rightarrow> 'a::len word decoder" where
  "opcUaBinaryDecodeNumberBE host_le is = do {
     (bs, is) \<leftarrow> stream_read (LENGTH('a) div 8) is;
     Some (object_value host_le (if LITTLE_ENDIAN then rev bs else bs), is) }"

definition opcUaBinaryEncodeNumber :: "bool \<Rightarrow> bool \<Rightarrow> 'a::len word \<Rightarrow> stream" where
  "opcUaBinaryEncodeNumber host_le littleEndian v =
     (if littleEndian then opcUaBinaryEncodeNumberLE host_le v
      else opcUaBinaryEncodeNumberBE host_le v)"

definition opcUaBinaryDecodeNumber :: "bool \<Rightarrow> bool \<Rightarrow> 'a::len word decoder" where
  "opcUaBinaryDecodeNumber host_le littleEndian is =
     (if littleEndian then opcUaBinaryDecodeNumberLE host_le is
      else opcUaBinaryDecodeNumberBE host_le is)"

text \<open>The overloads that work on a character buffer instead of a stream.\<close>

definition opcUaBinaryEncodeNumberLE_buf :: "bool \<Rightarrow> byte list \<Rightarrow> 'a::len word \<Rightarrow> byte list" where
  "opcUaBinaryEncodeNumberLE_buf host_le os v =
     (if LITTLE_ENDIAN then object_bytes host_le v else rev (object_bytes host_le v))
       @ drop (LENGTH('a) div 8) os"

definition opcUaBinaryEncodeNumberBE_buf :: "bool \<Rightarrow> byte list \<Rightarrow> 'a::len word \<Rightarrow> byte list" where
  "opcUaBinaryEncodeNumberBE_buf host_le os v =
     (if LITTLE_ENDIAN then rev (object_bytes host_le v) else object_bytes host_le v)
       @ drop (LENGTH('a) div 8) os"

lemmas byteOrder_defs = LITTLE_ENDIAN_def object_bytes_def object_value_def stream_read_def
  opcUaBinaryEncodeNumberLE_def opcUaBinaryEncodeNumberBE_def
  opcUaBinaryDecodeNumberLE_def opcUaBinaryDecodeNumberBE_def
  opcUaBinaryEncodeNumber_def opcUaBinaryDecodeNumber_def
  opcUaBinaryEncodeNumberLE_buf_def opcUaBinaryEncodeNumberBE_buf_def

lemma stream_read_append [simp]: "stream_read (length bs) (bs @ is) = Some (bs, is)"
  by (simp add: stream_read_def)

lemma stream_read_append_n: "length bs = n \<Longrightarrow> stream_read n (bs @ is) = Some (bs, is)"
  by (simp add: stream_read_def)

lemma stream_read_Some:
  "stream_read n is = Some (bs, rest) \<longleftrightarrow> length bs = n \<and> is = bs @ rest"
  by (auto simp: stream_read_def)

lemma stream_read_None: "stream_read n is = None \<longleftrightarrow> length is < n"
  by (simp add: stream_read_def)

lemma decodeNumber_encodeNumber:
  assumes "8 dvd LENGTH('a)"
  shows "opcUaBinaryDecodeNumber host_le le (opcUaBinaryEncodeNumber host_le le v @ rest)
           = Some (v :: 'a::len word, rest)"
  using assms by (auto simp: byteOrder_defs le_word_le_bytes)

lemma decodeNumber_None:
  "(opcUaBinaryDecodeNumber host_le le is :: ('a::len word \<times> stream) option) = None
     \<longleftrightarrow> length is < LENGTH('a) div 8"
  by (auto simp: byteOrder_defs)

lemma encodeNumber_length:
  "length (opcUaBinaryEncodeNumber host_le le (v :: 'a::len word)) = LENGTH('a) div 8"
  by (simp add: byteOrder_defs)

lemma decodeNumber_Some:
  assumes "8 dvd LENGTH('a)"
    and "opcUaBinaryDecodeNumber host_le le is = Some (v :: 'a::len word, rest)"
  shows "is = opcUaBinaryEncodeNumber host_le le v @ rest"
proof -
  let ?n = "LENGTH('a) div 8"
  from assms(2) obtain bs where bs: "stream_read ?n is = Some (bs, rest)"
    and v: "v = object_value host_le (if le then bs else rev bs)"
    by (auto simp: opcUaBinaryDecodeNumber_def opcUaBinaryDecodeNumberLE_def
        opcUaBinaryDecodeNumberBE_def LITTLE_ENDIAN_def bind_eq_Some_conv split: if_splits)
  then have len: "length bs = ?n" and "is": "is = bs @ rest" by (simp_all add: stream_read_Some)
  have "opcUaBinaryEncodeNumber host_le le v = bs"
    using assms(1) len
    by (cases le; cases host_le)
       (simp_all add: v byteOrder_defs le_bytes_le_word)
  with "is" show ?thesis by simp
qed

section \<open>OpcUaNumber\<close>

text \<open>
  The overload set of \<^verbatim>\<open>OpcUaNumber\<close>, one pair per built-in number type, on a little-endian host
  and with the default \<^verbatim>\<open>littleEndian = true\<close> where the overload has that parameter.
\<close>

definition OpcUaBoolean_encode :: "bool \<Rightarrow> stream" where
  "OpcUaBoolean_encode v = [if v then 1 else 0]"

definition OpcUaBoolean_decode :: "bool decoder" where
  "OpcUaBoolean_decode is = do { (bs, is) \<leftarrow> stream_read 1 is; Some (bs \<noteq> [0], is) }"

definition OpcUaSByte_encode :: "u8 \<Rightarrow> stream" where
  "OpcUaSByte_encode v = [v]"

definition OpcUaSByte_decode :: "u8 decoder" where
  "OpcUaSByte_decode is = do { (bs, is) \<leftarrow> stream_read 1 is; Some (hd bs, is) }"

definition OpcUaByte_encode :: "u8 \<Rightarrow> stream" where
  "OpcUaByte_encode v = [v]"

definition OpcUaByte_decode :: "u8 decoder" where
  "OpcUaByte_decode is = do { (bs, is) \<leftarrow> stream_read 1 is; Some (hd bs, is) }"

definition OpcUaInt16_encode :: "u16 \<Rightarrow> stream" where
  "OpcUaInt16_encode v = opcUaBinaryEncodeNumber True True v"

definition OpcUaInt16_decode :: "u16 decoder" where
  "OpcUaInt16_decode is = opcUaBinaryDecodeNumber True True is"

definition OpcUaUInt16_encode :: "u16 \<Rightarrow> stream" where
  "OpcUaUInt16_encode v = opcUaBinaryEncodeNumber True True v"

definition OpcUaUInt16_decode :: "u16 decoder" where
  "OpcUaUInt16_decode is = opcUaBinaryDecodeNumber True True is"

definition OpcUaInt32_encode :: "u32 \<Rightarrow> stream" where
  "OpcUaInt32_encode v = opcUaBinaryEncodeNumber True True v"

definition OpcUaInt32_decode :: "u32 decoder" where
  "OpcUaInt32_decode is = opcUaBinaryDecodeNumber True True is"

definition OpcUaUInt32_encode :: "u32 \<Rightarrow> stream" where
  "OpcUaUInt32_encode v = opcUaBinaryEncodeNumber True True v"

definition OpcUaUInt32_decode :: "u32 decoder" where
  "OpcUaUInt32_decode is = opcUaBinaryDecodeNumber True True is"

definition OpcUaInt64_encode :: "u64 \<Rightarrow> stream" where
  "OpcUaInt64_encode v = opcUaBinaryEncodeNumber True True v"

definition OpcUaInt64_decode :: "u64 decoder" where
  "OpcUaInt64_decode is = opcUaBinaryDecodeNumber True True is"

definition OpcUaUInt64_encode :: "u64 \<Rightarrow> stream" where
  "OpcUaUInt64_encode v = opcUaBinaryEncodeNumber True True v"

definition OpcUaUInt64_decode :: "u64 decoder" where
  "OpcUaUInt64_decode is = opcUaBinaryDecodeNumber True True is"

definition OpcUaFloat_encode :: "u32 \<Rightarrow> stream" where
  "OpcUaFloat_encode v = opcUaBinaryEncodeNumber True True v"

definition OpcUaFloat_decode :: "u32 decoder" where
  "OpcUaFloat_decode is = opcUaBinaryDecodeNumber True True is"

definition OpcUaDouble_encode :: "u64 \<Rightarrow> stream" where
  "OpcUaDouble_encode v = opcUaBinaryEncodeNumber True True v"

definition OpcUaDouble_decode :: "u64 decoder" where
  "OpcUaDouble_decode is = opcUaBinaryDecodeNumber True True is"

lemmas byte_coder_defs = OpcUaSByte_encode_def OpcUaSByte_decode_def
  OpcUaByte_encode_def OpcUaByte_decode_def

lemmas number_coder_defs =
  OpcUaInt16_encode_def OpcUaInt16_decode_def OpcUaUInt16_encode_def OpcUaUInt16_decode_def
  OpcUaInt32_encode_def OpcUaInt32_decode_def OpcUaUInt32_encode_def OpcUaUInt32_decode_def
  OpcUaInt64_encode_def OpcUaInt64_decode_def OpcUaUInt64_encode_def OpcUaUInt64_decode_def
  OpcUaFloat_encode_def OpcUaFloat_decode_def OpcUaDouble_encode_def OpcUaDouble_decode_def

lemma fixed_codec_number:
  assumes "8 dvd LENGTH('a)"
  shows "fixed_codec (opcUaBinaryEncodeNumber h le) (opcUaBinaryDecodeNumber h le)
           (\<lambda>_ :: 'a::len word. True) (LENGTH('a) div 8)"
  by unfold_locales
     (use assms in \<open>simp_all add: decodeNumber_encodeNumber encodeNumber_length decodeNumber_None
        decodeNumber_Some\<close>)

lemma stream_read_1_conv: "stream_read (Suc 0) is = (case is of [] \<Rightarrow> None | b # bs \<Rightarrow> Some ([b], bs))"
  by (cases "is") (auto simp: stream_read_def)

interpretation byte_codec: fixed_codec OpcUaByte_encode OpcUaByte_decode "\<lambda>_. True" 1
  by unfold_locales (auto simp: byte_coder_defs stream_read_1_conv split: list.splits)

interpretation sbyte_codec: fixed_codec OpcUaSByte_encode OpcUaSByte_decode "\<lambda>_. True" 1
  by unfold_locales (auto simp: byte_coder_defs stream_read_1_conv split: list.splits)

interpretation boolean_codec: codec OpcUaBoolean_encode OpcUaBoolean_decode "\<lambda>_. True"
  by unfold_locales (simp add: OpcUaBoolean_encode_def OpcUaBoolean_decode_def stream_read_1_conv)

interpretation int16_codec: fixed_codec OpcUaInt16_encode OpcUaInt16_decode "\<lambda>_. True" 2
  using fixed_codec_number [where 'a = 16, of True True]
  by (simp add: number_coder_defs [abs_def])

interpretation uint16_codec: fixed_codec OpcUaUInt16_encode OpcUaUInt16_decode "\<lambda>_. True" 2
  using fixed_codec_number [where 'a = 16, of True True]
  by (simp add: number_coder_defs [abs_def])

interpretation int32_codec: fixed_codec OpcUaInt32_encode OpcUaInt32_decode "\<lambda>_. True" 4
  using fixed_codec_number [where 'a = 32, of True True]
  by (simp add: number_coder_defs [abs_def])

interpretation uint32_codec: fixed_codec OpcUaUInt32_encode OpcUaUInt32_decode "\<lambda>_. True" 4
  using fixed_codec_number [where 'a = 32, of True True]
  by (simp add: number_coder_defs [abs_def])

interpretation int64_codec: fixed_codec OpcUaInt64_encode OpcUaInt64_decode "\<lambda>_. True" 8
  using fixed_codec_number [where 'a = 64, of True True]
  by (simp add: number_coder_defs [abs_def])

interpretation uint64_codec: fixed_codec OpcUaUInt64_encode OpcUaUInt64_decode "\<lambda>_. True" 8
  using fixed_codec_number [where 'a = 64, of True True]
  by (simp add: number_coder_defs [abs_def])

interpretation float_codec: fixed_codec OpcUaFloat_encode OpcUaFloat_decode "\<lambda>_. True" 4
  using fixed_codec_number [where 'a = 32, of True True]
  by (simp add: number_coder_defs [abs_def])

interpretation double_codec: fixed_codec OpcUaDouble_encode OpcUaDouble_decode "\<lambda>_. True" 8
  using fixed_codec_number [where 'a = 64, of True True]
  by (simp add: number_coder_defs [abs_def])

lemmas number_rt =
  boolean_codec.dec_enc [OF TrueI] byte_codec.dec_enc [OF TrueI] sbyte_codec.dec_enc [OF TrueI]
  int16_codec.dec_enc [OF TrueI] uint16_codec.dec_enc [OF TrueI]
  int32_codec.dec_enc [OF TrueI] uint32_codec.dec_enc [OF TrueI]
  int64_codec.dec_enc [OF TrueI] uint64_codec.dec_enc [OF TrueI]
  float_codec.dec_enc [OF TrueI] double_codec.dec_enc [OF TrueI]

declare number_rt [codec_rt]

end
