(* ===== verification/StringTypes.thy ===== *)
theory StringTypes
  imports ByteOrder
begin

text \<open>
  \<^verbatim>\<open>OpcUaString\<close>, \<^verbatim>\<open>OpcUaByteString\<close> and \<^verbatim>\<open>OpcUaGuid\<close> (\<^verbatim>\<open>BuildInTypes/\<close>): their accessors,
  comparison operators and binary coders. A string keeps a flag beside its content, a byte string
  a signed length (-1 for null) beside a heap pointer (\<open>None\<close> for a null pointer).

  The comparison of byte strings and Guids goes through \<^verbatim>\<open>strncmp\<close>, which stops at the first zero
  byte; the theory proves which order that is.
\<close>

section \<open>C string comparison\<close>

text \<open>\<^verbatim>\<open>strncmp\<close> of the C library: bytes compare unsigned, the comparison stops after \<open>n\<close> bytes or
  at a zero byte.\<close>

fun strncmp :: "nat \<Rightarrow> byte list \<Rightarrow> byte list \<Rightarrow> int" where
  "strncmp (Suc n) (x # xs) (y # ys) =
     (if x \<noteq> y then uint x - uint y else if x = 0 then 0 else strncmp n xs ys)"
| "strncmp _ _ _ = 0"

definition c_str :: "byte list \<Rightarrow> byte list" where
  "c_str = takeWhile (\<lambda>b. b \<noteq> 0)"

lemma strncmp_less:
  "length xs = n \<Longrightarrow> length ys = n \<Longrightarrow> strncmp n xs ys < 0 \<longleftrightarrow> ord_class.lexordp (c_str xs) (c_str ys)"
proof (induction n xs ys rule: strncmp.induct)
  case (1 n x xs y ys)
  consider "x < y" | "x = y" | "y < x" by (rule linorder_cases)
  then show ?case
  proof cases
    case 1
    then have "y \<noteq> 0" "uint x < uint y" by (auto simp: word_less_def)
    with 1 show ?thesis by (auto simp: c_str_def)
  next
    case 2
    with "1.IH" "1.prems" show ?thesis by (auto simp: c_str_def)
  next
    case 3
    then have "x \<noteq> 0" "uint y < uint x" by (auto simp: word_less_def)
    with 3 show ?thesis by (auto simp: c_str_def)
  qed
qed (auto simp: c_str_def)

lemma strncmp_eq_0:
  "length xs = n \<Longrightarrow> length ys = n \<Longrightarrow> strncmp n xs ys = 0 \<longleftrightarrow> c_str xs = c_str ys"
proof (induction n xs ys rule: strncmp.induct)
  case (1 n x xs y ys)
  have "uint x - uint y = 0 \<longleftrightarrow> x = y" by (simp add: word_uint_eq_iff)
  with 1 show ?case by (cases "x = y") (auto simp: c_str_def)
qed (auto simp: c_str_def)

text \<open>\<^verbatim>\<open>std::string::operator<\<close>: lexicographic on unsigned characters.\<close>

definition string_key :: "string \<Rightarrow> byte list" where
  "string_key s = map byte_of_char s"

lemma string_key_inj: "string_key s = string_key t \<longleftrightarrow> s = t"
  unfolding string_key_def
  by (metis inj_map_eq_map inj_on_def char_of_byte_of_char)

definition string_less :: "string \<Rightarrow> string \<Rightarrow> bool" where
  "string_less s t = ord_class.lexordp (string_key s) (string_key t)"

section \<open>OpcUaString\<close>

record OpcUaString =
  str_exist :: bool
  str_value :: string

definition OpcUaString_new :: OpcUaString where
  "OpcUaString_new = \<lparr>str_exist = False, str_value = []\<rparr>"

definition OpcUaString_of :: "string \<Rightarrow> OpcUaString" where
  "OpcUaString_of s = \<lparr>str_exist = True, str_value = s\<rparr>"

definition OpcUaString_reset :: "OpcUaString \<Rightarrow> OpcUaString" where
  "OpcUaString_reset this = this\<lparr>str_exist := False, str_value := []\<rparr>"

definition OpcUaString_setValue :: "string \<Rightarrow> OpcUaString \<Rightarrow> OpcUaString" where
  "OpcUaString_setValue v this =
     (if v = ''---'' then OpcUaString_reset this else this\<lparr>str_exist := True, str_value := v\<rparr>)"

definition OpcUaString_copyTo :: "OpcUaString \<Rightarrow> OpcUaString \<Rightarrow> OpcUaString" where
  "OpcUaString_copyTo this other = OpcUaString_setValue (str_value this) other"

definition OpcUaString_less :: "OpcUaString \<Rightarrow> OpcUaString \<Rightarrow> bool" where
  "OpcUaString_less a b =
     (if \<not> str_exist a \<and> \<not> str_exist b then False
      else if str_exist a \<and> \<not> str_exist b then False
      else if \<not> str_exist a \<and> str_exist b then True
      else string_less (str_value a) (str_value b))"

definition OpcUaString_equal :: "OpcUaString \<Rightarrow> OpcUaString \<Rightarrow> bool" where
  "OpcUaString_equal a b =
     (if str_exist a \<noteq> str_exist b then False
      else if \<not> str_exist a \<and> \<not> str_exist b then True
      else str_value a = str_value b)"

definition OpcUaString_opcUaBinaryEncode :: "OpcUaString \<Rightarrow> stream" where
  "OpcUaString_opcUaBinaryEncode this =
     (if \<not> str_exist this then OpcUaInt32_encode (- 1)
      else OpcUaInt32_encode (word_of_nat (length (str_value this)))
             @ map byte_of_char (str_value this))"

definition MAX_STREAMBUF_SIZE :: nat where
  "MAX_STREAMBUF_SIZE = 1000000"

text \<open>The do-while loop of the decoder, which reads the content in pieces of the buffer's size.\<close>

function OpcUaString_readLoop :: "nat \<Rightarrow> string \<Rightarrow> stream \<Rightarrow> (string \<times> stream) option" where
  "OpcUaString_readLoop len v is =
     (let sizeToRead = (if len < MAX_STREAMBUF_SIZE then len else MAX_STREAMBUF_SIZE)
      in case stream_read sizeToRead is of
           None \<Rightarrow> None
         | Some (buf, is') \<Rightarrow>
             (if len - sizeToRead > 0
              then OpcUaString_readLoop (len - sizeToRead) (v @ map char_of_byte buf) is'
              else Some (v @ map char_of_byte buf, is')))"
  by pat_completeness auto
termination
  by (relation "measure (\<lambda>(len, _, _). len)") (auto simp: MAX_STREAMBUF_SIZE_def split: if_splits)

declare OpcUaString_readLoop.simps [simp del]

definition OpcUaString_opcUaBinaryDecode :: "OpcUaString decoder" where
  "OpcUaString_opcUaBinaryDecode is = do {
     (len, is) \<leftarrow> OpcUaInt32_decode is;
     (if sint len < 0 then Some (\<lparr>str_exist = False, str_value = []\<rparr>, is)
      else if sint len = 0 then Some (\<lparr>str_exist = True, str_value = []\<rparr>, is)
      else do {
        (v, is) \<leftarrow> OpcUaString_readLoop (nat (sint len)) [] is;
        Some (\<lparr>str_exist = True, str_value = v\<rparr>, is) }) }"

text \<open>The loop reads what one unbounded read would.\<close>

lemma readLoop_eq:
  "OpcUaString_readLoop len v is =
     (if length is < len then None
      else Some (v @ map char_of_byte (take len is), drop len is))"
proof (induction len v "is" rule: OpcUaString_readLoop.induct)
  case (1 len v "is")
  let ?m = MAX_STREAMBUF_SIZE
  show ?case
  proof (cases "len \<le> ?m")
    case True
    then show ?thesis
      by (subst OpcUaString_readLoop.simps)
         (auto simp: Let_def stream_read_def)
  next
    case False
    then have "0 < len - ?m" by simp
    with False have step: "OpcUaString_readLoop len v is =
        (case stream_read ?m is of None \<Rightarrow> None
         | Some (buf, is') \<Rightarrow> OpcUaString_readLoop (len - ?m) (v @ map char_of_byte buf) is')"
      by (subst OpcUaString_readLoop.simps) (simp add: Let_def split: option.splits)
    show ?thesis
    proof (cases "length is < ?m")
      case True
      then show ?thesis using False step by (simp add: stream_read_def)
    next
      case False': False
      have split: "take len is = take ?m is @ take (len - ?m) (drop ?m is)"
        using False by (metis le_add_diff_inverse nat_le_linear take_add)
      have "OpcUaString_readLoop len v is =
          OpcUaString_readLoop (len - ?m) (v @ map char_of_byte (take ?m is)) (drop ?m is)"
        using step False' by (simp add: stream_read_def)
      also have "\<dots> = (if length (drop ?m is) < len - ?m then None
          else Some ((v @ map char_of_byte (take ?m is))
                       @ map char_of_byte (take (len - ?m) (drop ?m is)),
                     drop (len - ?m) (drop ?m is)))"
        using 1 [of ?m "(take ?m is, drop ?m is)" "take ?m is" "drop ?m is"] False False'
        by (simp add: stream_read_def)
      finally show ?thesis using False False' split by (auto simp: add.commute)
    qed
  qed
qed

definition OpcUaString_wf :: "OpcUaString \<Rightarrow> bool" where
  "OpcUaString_wf s \<longleftrightarrow> length (str_value s) < 2 ^ 31 \<and> (\<not> str_exist s \<longrightarrow> str_value s = [])"

interpretation string_codec: codec OpcUaString_opcUaBinaryEncode OpcUaString_opcUaBinaryDecode
  OpcUaString_wf
proof
  fix s :: OpcUaString and rest
  assume wf: "OpcUaString_wf s"
  show "OpcUaString_opcUaBinaryDecode (OpcUaString_opcUaBinaryEncode s @ rest) = Some (s, rest)"
  proof (cases "str_exist s")
    case False
    then show ?thesis using wf
      by (cases s) (simp add: OpcUaString_opcUaBinaryDecode_def OpcUaString_opcUaBinaryEncode_def
        OpcUaString_wf_def number_rt)
  next
    case True
    then show ?thesis using wf
      by (cases s) (auto simp: OpcUaString_opcUaBinaryDecode_def OpcUaString_opcUaBinaryEncode_def
        OpcUaString_wf_def number_rt sint_word_of_nat_u32 readLoop_eq)
  qed
qed

lemma OpcUaString_equal_iff:
  "OpcUaString_wf a \<Longrightarrow> OpcUaString_wf b \<Longrightarrow> OpcUaString_equal a b \<longleftrightarrow> a = b"
  by (cases a; cases b) (auto simp: OpcUaString_equal_def OpcUaString_wf_def)

section \<open>OpcUaByteString\<close>

record OpcUaByteString =
  bs_length :: u32
  bs_value :: "byte list option"

definition OpcUaByteString_new :: OpcUaByteString where
  "OpcUaByteString_new = \<lparr>bs_length = - 1, bs_value = None\<rparr>"

definition OpcUaByteString_reset :: "OpcUaByteString \<Rightarrow> OpcUaByteString" where
  "OpcUaByteString_reset this =
     (if bs_value this \<noteq> None then this\<lparr>bs_value := None, bs_length := - 1\<rparr> else this)"

text \<open>\<^verbatim>\<open>value(buf, length)\<close>; \<open>None\<close> is a null \<^verbatim>\<open>buf\<close>.\<close>

definition OpcUaByteString_setValue ::
  "byte list option \<Rightarrow> u32 \<Rightarrow> OpcUaByteString \<Rightarrow> OpcUaByteString" where
  "OpcUaByteString_setValue buf len this =
     (let this = OpcUaByteString_reset this
      in case buf of
           None \<Rightarrow> this
         | Some b \<Rightarrow> if sint len < 0 then this
                     else this\<lparr>bs_value := Some (take (unat len) b), bs_length := len\<rparr>)"

definition OpcUaByteString_resize :: "u32 \<Rightarrow> OpcUaByteString \<Rightarrow> OpcUaByteString" where
  "OpcUaByteString_resize sz this =
     (let this = OpcUaByteString_reset this
      in if sz = 0 then this
         else this\<lparr>bs_value := Some (replicate (unat sz) 0), bs_length := sz\<rparr>)"

definition OpcUaByteString_exist :: "OpcUaByteString \<Rightarrow> bool" where
  "OpcUaByteString_exist this \<longleftrightarrow> bs_length this \<noteq> - 1"

definition OpcUaByteString_copyTo :: "OpcUaByteString \<Rightarrow> OpcUaByteString \<Rightarrow> OpcUaByteString" where
  "OpcUaByteString_copyTo this other = OpcUaByteString_setValue (bs_value this) (bs_length this) other"

definition OpcUaByteString_less :: "OpcUaByteString \<Rightarrow> OpcUaByteString \<Rightarrow> bool" where
  "OpcUaByteString_less a b =
     (if \<not> OpcUaByteString_exist a \<and> \<not> OpcUaByteString_exist b then False
      else if OpcUaByteString_exist a \<and> \<not> OpcUaByteString_exist b then False
      else if \<not> OpcUaByteString_exist a \<and> OpcUaByteString_exist b then True
      else if sint (bs_length a) < sint (bs_length b) then True
      else if sint (bs_length b) < sint (bs_length a) then False
      else strncmp (unat (bs_length b)) (case bs_value a of None \<Rightarrow> [] | Some v \<Rightarrow> v)
             (case bs_value b of None \<Rightarrow> [] | Some v \<Rightarrow> v) < 0)"

definition OpcUaByteString_equal :: "OpcUaByteString \<Rightarrow> OpcUaByteString \<Rightarrow> bool" where
  "OpcUaByteString_equal a b =
     (if OpcUaByteString_exist a \<noteq> OpcUaByteString_exist b then False
      else if \<not> OpcUaByteString_exist a \<and> \<not> OpcUaByteString_exist b then True
      else if bs_length a \<noteq> bs_length b then False
      else if bs_length a = 0 \<and> bs_length b = 0 then True
      else bs_value a = bs_value b)"

definition OpcUaByteString_opcUaBinaryEncode :: "OpcUaByteString \<Rightarrow> stream" where
  "OpcUaByteString_opcUaBinaryEncode this =
     OpcUaInt32_encode (bs_length this) @
     (if sint (bs_length this) < 1 then []
      else (case bs_value this of None \<Rightarrow> [] | Some v \<Rightarrow> v))"

definition OpcUaByteString_opcUaBinaryDecode :: "OpcUaByteString decoder" where
  "OpcUaByteString_opcUaBinaryDecode is = do {
     (len, is) \<leftarrow> OpcUaInt32_decode is;
     (if sint len < 1 then Some (\<lparr>bs_length = len, bs_value = None\<rparr>, is)
      else do {
        (v, is) \<leftarrow> stream_read (nat (sint len)) is;
        Some (\<lparr>bs_length = len, bs_value = Some v\<rparr>, is) }) }"

text \<open>The length and the buffer agree, and an empty or null byte string has no buffer.\<close>

definition OpcUaByteString_wf :: "OpcUaByteString \<Rightarrow> bool" where
  "OpcUaByteString_wf b \<longleftrightarrow>
     (if sint (bs_length b) < 1 then bs_value b = None
      else (case bs_value b of None \<Rightarrow> False | Some v \<Rightarrow> int (length v) = sint (bs_length b)))"

interpretation bytestring_codec: codec OpcUaByteString_opcUaBinaryEncode
  OpcUaByteString_opcUaBinaryDecode OpcUaByteString_wf
  by unfold_locales
     (auto simp: OpcUaByteString_opcUaBinaryDecode_def OpcUaByteString_opcUaBinaryEncode_def
        OpcUaByteString_wf_def number_rt stream_read_append_n split: if_splits option.splits)

section \<open>OpcUaGuid\<close>

record OpcUaGuid =
  data1 :: u32
  data2 :: u16
  data3 :: u16
  data4 :: "byte list"

definition OpcUaGuid_wf :: "OpcUaGuid \<Rightarrow> bool" where
  "OpcUaGuid_wf g \<longleftrightarrow> length (data4 g) = 8"

definition OpcUaGuid_new :: OpcUaGuid where
  "OpcUaGuid_new = \<lparr>data1 = 0, data2 = 0, data3 = 0, data4 = replicate 8 0\<rparr>"

definition OpcUaGuid_copyTo :: "OpcUaGuid \<Rightarrow> OpcUaGuid \<Rightarrow> OpcUaGuid" where
  "OpcUaGuid_copyTo this other =
     other\<lparr>data1 := data1 this, data2 := data2 this, data3 := data3 this, data4 := data4 this\<rparr>"

definition OpcUaGuid_less :: "OpcUaGuid \<Rightarrow> OpcUaGuid \<Rightarrow> bool" where
  "OpcUaGuid_less a b =
     (if data1 a < data1 b then True else if data1 a > data1 b then False
      else if data2 a < data2 b then True else if data2 a > data2 b then False
      else if data3 a < data3 b then True else if data3 a > data3 b then False
      else strncmp 8 (data4 a) (data4 b) < 0)"

definition OpcUaGuid_equal :: "OpcUaGuid \<Rightarrow> OpcUaGuid \<Rightarrow> bool" where
  "OpcUaGuid_equal a b =
     (if data1 a \<noteq> data1 b then False
      else if data2 a \<noteq> data2 b then False
      else if data3 a \<noteq> data3 b then False
      else strncmp 8 (data4 a) (data4 b) = 0)"

definition OpcUaGuid_opcUaBinaryEncode :: "OpcUaGuid \<Rightarrow> stream" where
  "OpcUaGuid_opcUaBinaryEncode this =
     OpcUaUInt32_encode (data1 this) @ OpcUaUInt16_encode (data2 this)
       @ OpcUaUInt16_encode (data3 this) @ data4 this"

definition OpcUaGuid_opcUaBinaryDecode :: "OpcUaGuid decoder" where
  "OpcUaGuid_opcUaBinaryDecode is = do {
     (d1, is) \<leftarrow> OpcUaUInt32_decode is;
     (d2, is) \<leftarrow> OpcUaUInt16_decode is;
     (d3, is) \<leftarrow> OpcUaUInt16_decode is;
     (d4, is) \<leftarrow> stream_read 8 is;
     Some (\<lparr>data1 = d1, data2 = d2, data3 = d3, data4 = d4\<rparr>, is) }"

interpretation guid_codec: codec OpcUaGuid_opcUaBinaryEncode OpcUaGuid_opcUaBinaryDecode OpcUaGuid_wf
  by unfold_locales
     (auto simp: OpcUaGuid_opcUaBinaryDecode_def OpcUaGuid_opcUaBinaryEncode_def OpcUaGuid_wf_def
        number_rt stream_read_append_n)

lemma guid_equal_iff:
  "OpcUaGuid_wf a \<Longrightarrow> OpcUaGuid_wf b \<Longrightarrow>
     OpcUaGuid_equal a b \<longleftrightarrow>
       data1 a = data1 b \<and> data2 a = data2 b \<and> data3 a = data3 b \<and> c_str (data4 a) = c_str (data4 b)"
  by (simp add: OpcUaGuid_equal_def OpcUaGuid_wf_def strncmp_eq_0)

lemma guid_less_iff:
  "OpcUaGuid_wf a \<Longrightarrow> OpcUaGuid_wf b \<Longrightarrow>
     OpcUaGuid_less a b \<longleftrightarrow>
       data1 a < data1 b \<or> data1 a = data1 b \<and>
      (data2 a < data2 b \<or> data2 a = data2 b \<and>
      (data3 a < data3 b \<or> data3 a = data3 b \<and> ord_class.lexordp (c_str (data4 a)) (c_str (data4 b))))"
  by (auto simp: OpcUaGuid_less_def OpcUaGuid_wf_def strncmp_less)

declare string_codec.dec_enc [codec_rt] bytestring_codec.dec_enc [codec_rt] guid_codec.dec_enc [codec_rt]

end
