(* ===== verification/NodeIds.thy ===== *)
theory NodeIds
  imports StringTypes
begin

text \<open>
  Node identifiers and the small structured built-in types: \<^verbatim>\<open>OpcUaNodeIdBase\<close>,
  \<^verbatim>\<open>OpcUaExpandedNodeId\<close>, \<^verbatim>\<open>OpcUaQualifiedName\<close>, \<^verbatim>\<open>OpcUaLocalizedText\<close> and
  \<^verbatim>\<open>OpcUaDiagnosticInfo\<close> (\<^verbatim>\<open>BuildInTypes/\<close>).

  \<^item> The decoders of the C++ classes write into an existing object and leave the fields the
    encoding does not carry as they are; those take the object as \<open>this\<close>.
  \<^item> \<^verbatim>\<open>operator<\<close> on node identifiers is the key order of every address space map. It is proved to be
    a strict weak order, and \<^verbatim>\<open>operator==\<close>, which is defined from it, its equivalence.
\<close>

section \<open>OpcUaNodeIdBase\<close>

datatype OpcUaNodeIdValue =
    NodeIdNull
  | NodeIdNumeric u32
  | NodeIdString OpcUaString
  | NodeIdGuid OpcUaGuid
  | NodeIdByteString OpcUaByteString

record OpcUaNodeIdBase =
  namespaceIndex :: u16
  nodeIdValue :: OpcUaNodeIdValue

text \<open>The numbers of \<^verbatim>\<open>OpcUaBuildInType\<close>.\<close>

fun nodeIdType :: "OpcUaNodeIdValue \<Rightarrow> nat" where
  "nodeIdType NodeIdNull = 0"
| "nodeIdType (NodeIdNumeric _) = 7"
| "nodeIdType (NodeIdString _) = 12"
| "nodeIdType (NodeIdGuid _) = 14"
| "nodeIdType (NodeIdByteString _) = 15"

definition OpcUaNodeIdBase_new :: OpcUaNodeIdBase where
  "OpcUaNodeIdBase_new = \<lparr>namespaceIndex = 0, nodeIdValue = NodeIdNull\<rparr>"

definition OpcUaNodeIdBase_setNumeric :: "u32 \<Rightarrow> u16 \<Rightarrow> OpcUaNodeIdBase \<Rightarrow> OpcUaNodeIdBase" where
  "OpcUaNodeIdBase_setNumeric i ns this = this\<lparr>namespaceIndex := ns, nodeIdValue := NodeIdNumeric i\<rparr>"

definition OpcUaNodeIdBase_setBytes ::
  "byte list option \<Rightarrow> u32 \<Rightarrow> u16 \<Rightarrow> OpcUaNodeIdBase \<Rightarrow> OpcUaNodeIdBase" where
  "OpcUaNodeIdBase_setBytes buf bufLen ns this =
     this\<lparr>namespaceIndex := ns,
          nodeIdValue := NodeIdByteString (OpcUaByteString_setValue buf bufLen OpcUaByteString_new)\<rparr>"

definition OpcUaNodeIdBase_getNumeric :: "OpcUaNodeIdBase \<Rightarrow> (u32 \<times> u16) option" where
  "OpcUaNodeIdBase_getNumeric this =
     (case nodeIdValue this of NodeIdNumeric i \<Rightarrow> Some (i, namespaceIndex this) | _ \<Rightarrow> None)"

definition OpcUaNodeIdBase_copyTo :: "OpcUaNodeIdBase \<Rightarrow> OpcUaNodeIdBase \<Rightarrow> OpcUaNodeIdBase" where
  "OpcUaNodeIdBase_copyTo this other =
     (let other = other\<lparr>namespaceIndex := namespaceIndex this\<rparr>
      in case nodeIdValue this of
           NodeIdNumeric i \<Rightarrow> other\<lparr>nodeIdValue := NodeIdNumeric i\<rparr>
         | NodeIdString s \<Rightarrow> other\<lparr>nodeIdValue := NodeIdString (OpcUaString_copyTo s OpcUaString_new)\<rparr>
         | NodeIdGuid g \<Rightarrow> other\<lparr>nodeIdValue := NodeIdGuid (OpcUaGuid_copyTo g OpcUaGuid_new)\<rparr>
         | NodeIdByteString b \<Rightarrow>
             other\<lparr>nodeIdValue := NodeIdByteString (OpcUaByteString_copyTo b OpcUaByteString_new)\<rparr>
         | NodeIdNull \<Rightarrow> other)"

text \<open>The getter \<^verbatim>\<open>namespaceIndex()\<close> that \<^verbatim>\<open>operator<\<close> compares returns a signed 16-bit number.\<close>

fun OpcUaNodeIdValue_less :: "OpcUaNodeIdValue \<Rightarrow> OpcUaNodeIdValue \<Rightarrow> bool" where
  "OpcUaNodeIdValue_less (NodeIdNumeric v1) (NodeIdNumeric v2) = (v1 < v2)"
| "OpcUaNodeIdValue_less (NodeIdString v1) (NodeIdString v2) = OpcUaString_less v1 v2"
| "OpcUaNodeIdValue_less (NodeIdGuid v1) (NodeIdGuid v2) = OpcUaGuid_less v1 v2"
| "OpcUaNodeIdValue_less (NodeIdByteString v1) (NodeIdByteString v2) = OpcUaByteString_less v1 v2"
| "OpcUaNodeIdValue_less _ _ = False"

definition OpcUaNodeIdBase_less :: "OpcUaNodeIdBase \<Rightarrow> OpcUaNodeIdBase \<Rightarrow> bool" where
  "OpcUaNodeIdBase_less a b =
     (if sint (namespaceIndex a) < sint (namespaceIndex b) then True
      else if sint (namespaceIndex b) < sint (namespaceIndex a) then False
      else if nodeIdType (nodeIdValue a) < nodeIdType (nodeIdValue b) then True
      else if nodeIdType (nodeIdValue b) < nodeIdType (nodeIdValue a) then False
      else OpcUaNodeIdValue_less (nodeIdValue a) (nodeIdValue b))"

definition OpcUaNodeIdBase_equal :: "OpcUaNodeIdBase \<Rightarrow> OpcUaNodeIdBase \<Rightarrow> bool" where
  "OpcUaNodeIdBase_equal a b \<longleftrightarrow>
     OpcUaNodeIdBase_less b a = False \<and> OpcUaNodeIdBase_less a b = False"

text \<open>
  The encoder writes a null identifier as numeric identifier 0 of namespace 0 and leaves the object
  in that state; the result is the stream and the object. \<open>ef\<close> is \<^verbatim>\<open>encodingFlag()\<close>.
\<close>

definition OpcUaNodeIdBase_opcUaBinaryEncode :: "u8 \<Rightarrow> OpcUaNodeIdBase \<Rightarrow> stream \<times> OpcUaNodeIdBase" where
  "OpcUaNodeIdBase_opcUaBinaryEncode ef this =
     (let this = (if nodeIdValue this = NodeIdNull then OpcUaNodeIdBase_setNumeric 0 0 this else this);
          ns = namespaceIndex this
      in (case nodeIdValue this of
            NodeIdNumeric i \<Rightarrow>
              if ns = 0 \<and> i \<le> 0xFF then
                OpcUaByte_encode (0x00 + ef) @ OpcUaByte_encode (ucast i)
              else if ns \<le> 0xFF \<and> i \<le> 0xFFFF then
                OpcUaByte_encode (0x01 + ef) @ OpcUaByte_encode (ucast ns) @ OpcUaUInt16_encode (ucast i)
              else OpcUaByte_encode (0x02 + ef) @ OpcUaUInt16_encode ns @ OpcUaUInt32_encode i
          | NodeIdString s \<Rightarrow>
              OpcUaByte_encode (0x03 + ef) @ OpcUaUInt16_encode ns @ OpcUaString_opcUaBinaryEncode s
          | NodeIdGuid g \<Rightarrow>
              OpcUaByte_encode (0x04 + ef) @ OpcUaUInt16_encode ns @ OpcUaGuid_opcUaBinaryEncode g
          | NodeIdByteString b \<Rightarrow>
              OpcUaByte_encode (0x05 + ef) @ OpcUaUInt16_encode ns @ OpcUaByteString_opcUaBinaryEncode b
          | NodeIdNull \<Rightarrow> [],
          this))"

text \<open>
  The decoder returns the flag bits it hands to the virtual \<^verbatim>\<open>encodingFlag(ef)\<close> with the object. A type
  number above 5 leaves the object unchanged.
\<close>

definition OpcUaNodeIdBase_opcUaBinaryDecode ::
  "OpcUaNodeIdBase \<Rightarrow> (u8 \<times> OpcUaNodeIdBase) decoder" where
  "OpcUaNodeIdBase_opcUaBinaryDecode this is = do {
     (encodingByte, is) \<leftarrow> OpcUaByte_decode is;
     let ef = encodingByte AND 0xF0;
     let t = encodingByte AND 0x0F;
     (if t = 0x00 then do {
        (i, is) \<leftarrow> OpcUaByte_decode is;
        Some ((ef, \<lparr>namespaceIndex = 0, nodeIdValue = NodeIdNumeric (ucast i)\<rparr>), is) }
      else if t = 0x01 then do {
        (ns, is) \<leftarrow> OpcUaByte_decode is;
        (i, is) \<leftarrow> OpcUaUInt16_decode is;
        Some ((ef, \<lparr>namespaceIndex = ucast ns, nodeIdValue = NodeIdNumeric (ucast i)\<rparr>), is) }
      else if t = 0x02 then do {
        (ns, is) \<leftarrow> OpcUaUInt16_decode is;
        (i, is) \<leftarrow> OpcUaInt32_decode is;
        Some ((ef, \<lparr>namespaceIndex = ns, nodeIdValue = NodeIdNumeric i\<rparr>), is) }
      else if t = 0x03 then do {
        (ns, is) \<leftarrow> OpcUaUInt16_decode is;
        (s, is) \<leftarrow> OpcUaString_opcUaBinaryDecode is;
        Some ((ef, \<lparr>namespaceIndex = ns, nodeIdValue = NodeIdString s\<rparr>), is) }
      else if t = 0x04 then do {
        (ns, is) \<leftarrow> OpcUaUInt16_decode is;
        (g, is) \<leftarrow> OpcUaGuid_opcUaBinaryDecode is;
        Some ((ef, \<lparr>namespaceIndex = ns, nodeIdValue = NodeIdGuid g\<rparr>), is) }
      else if t = 0x05 then do {
        (ns, is) \<leftarrow> OpcUaUInt16_decode is;
        (b, is) \<leftarrow> OpcUaByteString_opcUaBinaryDecode is;
        Some ((ef, \<lparr>namespaceIndex = ns, nodeIdValue = NodeIdByteString b\<rparr>), is) }
      else Some ((ef, this), is)) }"

fun OpcUaNodeIdValue_wf :: "OpcUaNodeIdValue \<Rightarrow> bool" where
  "OpcUaNodeIdValue_wf NodeIdNull = True"
| "OpcUaNodeIdValue_wf (NodeIdNumeric _) = True"
| "OpcUaNodeIdValue_wf (NodeIdString s) = OpcUaString_wf s"
| "OpcUaNodeIdValue_wf (NodeIdGuid g) = OpcUaGuid_wf g"
| "OpcUaNodeIdValue_wf (NodeIdByteString b) = OpcUaByteString_wf b"

lemma ucast_ucast_u32_u8: "i \<le> 0xFF \<Longrightarrow> (ucast (ucast (i :: u32) :: u8) :: u32) = i"
  by (simp add: word_unat_eq_iff unsigned_ucast_eq unsigned_take_bit_eq take_bit_nat_eq_self_iff
      word_le_nat_alt)

lemma ucast_ucast_u32_u16: "i \<le> 0xFFFF \<Longrightarrow> (ucast (ucast (i :: u32) :: u16) :: u32) = i"
  by (simp add: word_unat_eq_iff unsigned_ucast_eq unsigned_take_bit_eq take_bit_nat_eq_self_iff
      word_le_nat_alt)

lemma ucast_ucast_u16_u8: "i \<le> 0xFF \<Longrightarrow> (ucast (ucast (i :: u16) :: u8) :: u16) = i"
  by (simp add: word_unat_eq_iff unsigned_ucast_eq unsigned_take_bit_eq take_bit_nat_eq_self_iff
      word_le_nat_alt)

lemmas nodeid_narrow = ucast_ucast_u32_u8 ucast_ucast_u32_u16 ucast_ucast_u16_u8

definition expanded_flags :: "u8 set" where
  "expanded_flags = {0x00, 0x40, 0x80, 0xC0}"

lemma decode_int32_encode_uint32 [codec_rt]: "OpcUaInt32_decode (OpcUaUInt32_encode v @ rest) = Some (v, rest)"
  by (simp add: number_coder_defs decodeNumber_encodeNumber)

lemma nodeIdBase_round_trip:
  assumes "ef \<in> expanded_flags" and "OpcUaNodeIdValue_wf (nodeIdValue n)"
  shows "OpcUaNodeIdBase_opcUaBinaryDecode this (fst (OpcUaNodeIdBase_opcUaBinaryEncode ef n) @ rest)
           = Some ((ef, snd (OpcUaNodeIdBase_opcUaBinaryEncode ef n)), rest)"
proof -
  have m: "(k + ef) AND 0xF0 = ef \<and> (k + ef) AND 0x0F = k" if "k \<in> {0, 1, 2, 3, 4, 5}" for k
    using assms(1) that by (auto simp: expanded_flags_def)
  have m0: "ef AND 0xF0 = ef" "ef AND 0x0F = 0" using m [of 0] by simp_all
  obtain ns v where n: "n = \<lparr>namespaceIndex = ns, nodeIdValue = v\<rparr>" by (cases n)
  show ?thesis
    using assms(2) n m [of 1] m [of 2] m [of 3] m [of 4] m [of 5]
    by (cases v)
       (simp_all add: OpcUaNodeIdBase_opcUaBinaryDecode_def OpcUaNodeIdBase_opcUaBinaryEncode_def
          OpcUaNodeIdBase_setNumeric_def Let_def codec_rt m0 nodeid_narrow)
qed

section \<open>The key order of node identifiers\<close>

text \<open>
  A key into a linear order for every identifier value: \<^verbatim>\<open>operator<\<close> compares these keys, so it is
  a strict weak order whose equivalence is equality of keys.
\<close>

fun OpcUaNodeIdValue_key :: "OpcUaNodeIdValue \<Rightarrow> int list \<times> byte list" where
  "OpcUaNodeIdValue_key NodeIdNull = ([0], [])"
| "OpcUaNodeIdValue_key (NodeIdNumeric i) = ([7, uint i], [])"
| "OpcUaNodeIdValue_key (NodeIdString s) =
     ([12, if str_exist s then 1 else 0], if str_exist s then string_key (str_value s) else [])"
| "OpcUaNodeIdValue_key (NodeIdGuid g) =
     ([14, uint (data1 g), uint (data2 g), uint (data3 g)], c_str (data4 g))"
| "OpcUaNodeIdValue_key (NodeIdByteString b) =
     (if OpcUaByteString_exist b
      then ([15, 1, sint (bs_length b)], c_str (case bs_value b of None \<Rightarrow> [] | Some v \<Rightarrow> v))
      else ([15, 0], []))"

definition key_less :: "int list \<times> byte list \<Rightarrow> int list \<times> byte list \<Rightarrow> bool" where
  "key_less k l \<longleftrightarrow> ord_class.lexordp (fst k) (fst l) \<or> fst k = fst l \<and> ord_class.lexordp (snd k) (snd l)"

lemma key_less_irrefl: "\<not> key_less k k"
  by (simp add: key_less_def lexordp_irreflexive')

lemma key_less_trans: "key_less k l \<Longrightarrow> key_less l m \<Longrightarrow> key_less k m"
  by (auto simp: key_less_def intro: lexordp_trans)

lemma key_less_linear: "key_less k l \<or> k = l \<or> key_less l k"
  using lexordp_linear [of "fst k" "fst l"] lexordp_linear [of "snd k" "snd l"]
  by (auto simp: key_less_def prod_eq_iff)

definition OpcUaNodeIdBase_key :: "OpcUaNodeIdBase \<Rightarrow> int list \<times> byte list" where
  "OpcUaNodeIdBase_key n =
     (sint (namespaceIndex n) # fst (OpcUaNodeIdValue_key (nodeIdValue n)),
      snd (OpcUaNodeIdValue_key (nodeIdValue n)))"


lemma bytestring_content_length:
  assumes "OpcUaByteString_wf b" "1 \<le> sint (bs_length b)"
  shows "length (case bs_value b of None \<Rightarrow> [] | Some v \<Rightarrow> v) = unat (bs_length b)"
proof -
  obtain v where v: "bs_value b = Some v" "int (length v) = sint (bs_length b)"
    using assms by (auto simp: OpcUaByteString_wf_def split: option.splits)
  have "sint (bs_length b) = uint (bs_length b)" using assms(2) by (intro sint_nonneg_u32) simp
  with v(2) have "uint (bs_length b) = int (length v)" by (simp only:)
  then have "unat (bs_length b) = length v" unfolding unat_eq_nat_uint by (simp only: nat_int)
  with v(1) show ?thesis by simp
qed

lemma bytestring_content_empty:
  "OpcUaByteString_wf b \<Longrightarrow> \<not> 1 \<le> sint (bs_length b) \<Longrightarrow> bs_value b = None"
  by (auto simp: OpcUaByteString_wf_def split: if_splits)

lemma bytestring_less_key:
  assumes "OpcUaByteString_wf a" "OpcUaByteString_wf b"
  shows "OpcUaByteString_less a b \<longleftrightarrow>
     key_less (OpcUaNodeIdValue_key (NodeIdByteString a)) (OpcUaNodeIdValue_key (NodeIdByteString b))"
proof (cases "OpcUaByteString_exist a \<and> OpcUaByteString_exist b \<and> bs_length a = bs_length b")
  case True
  then show ?thesis
    using bytestring_content_length [OF assms(1)] bytestring_content_length [OF assms(2)]
      bytestring_content_empty [OF assms(1)] bytestring_content_empty [OF assms(2)]
    by (cases "1 \<le> sint (bs_length b)")
       (auto simp: OpcUaByteString_less_def key_less_def strncmp_less c_str_def
          lexordp_irreflexive')
next
  case False
  then show ?thesis
    by (auto simp: OpcUaByteString_less_def key_less_def sint_eq_iff lexordp_irreflexive')
qed

lemma nodeIdValue_less_key:
  assumes "OpcUaNodeIdValue_wf v" "OpcUaNodeIdValue_wf w" "nodeIdType v = nodeIdType w"
  shows "OpcUaNodeIdValue_less v w \<longleftrightarrow> key_less (OpcUaNodeIdValue_key v) (OpcUaNodeIdValue_key w)"
proof (cases v)
  case (NodeIdByteString a)
  with assms(3) obtain b where w: "w = NodeIdByteString b" by (cases w) auto
  with NodeIdByteString assms show ?thesis using bytestring_less_key [of a b] by simp
next
  case (NodeIdGuid a)
  with assms(3) obtain b where w: "w = NodeIdGuid b" by (cases w) auto
  with NodeIdGuid assms(1,2) show ?thesis
    by (auto simp: guid_less_iff key_less_def word_less_def word_uint_eq_iff)
next
  case (NodeIdString a)
  with assms(3) obtain b where w: "w = NodeIdString b" by (cases w) auto
  with NodeIdString show ?thesis
    by (auto simp: OpcUaString_less_def key_less_def string_less_def lexordp_irreflexive')
next
  case (NodeIdNumeric a)
  with assms(3) obtain b where w: "w = NodeIdNumeric b" by (cases w) auto
  with NodeIdNumeric show ?thesis
    by (auto simp: key_less_def word_less_def)
next
  case NodeIdNull
  with assms(3) have "w = NodeIdNull" by (cases w) auto
  with NodeIdNull show ?thesis by (simp add: key_less_def lexordp_irreflexive')
qed

lemma hd_nodeIdValue_key: "fst (OpcUaNodeIdValue_key v) = int (nodeIdType v) # tl (fst (OpcUaNodeIdValue_key v))"
  by (cases v) auto

lemma nodeIdBase_less_key:
  assumes "OpcUaNodeIdValue_wf (nodeIdValue a)" "OpcUaNodeIdValue_wf (nodeIdValue b)"
  shows "OpcUaNodeIdBase_less a b \<longleftrightarrow> key_less (OpcUaNodeIdBase_key a) (OpcUaNodeIdBase_key b)"
proof (cases "nodeIdType (nodeIdValue a) = nodeIdType (nodeIdValue b)")
  case True
  then show ?thesis
    using nodeIdValue_less_key [OF assms True]
    by (auto simp: OpcUaNodeIdBase_less_def OpcUaNodeIdBase_key_def key_less_def)
next
  case False
  obtain xs ys where "fst (OpcUaNodeIdValue_key (nodeIdValue a)) = int (nodeIdType (nodeIdValue a)) # xs"
    "fst (OpcUaNodeIdValue_key (nodeIdValue b)) = int (nodeIdType (nodeIdValue b)) # ys"
    using hd_nodeIdValue_key by blast
  with False show ?thesis
    by (auto simp: OpcUaNodeIdBase_less_def OpcUaNodeIdBase_key_def key_less_def)
qed

lemma nodeIdBase_equal_key:
  "OpcUaNodeIdValue_wf (nodeIdValue a) \<Longrightarrow> OpcUaNodeIdValue_wf (nodeIdValue b) \<Longrightarrow>
     OpcUaNodeIdBase_equal a b \<longleftrightarrow> OpcUaNodeIdBase_key a = OpcUaNodeIdBase_key b"
  using key_less_linear [of "OpcUaNodeIdBase_key a" "OpcUaNodeIdBase_key b"]
  by (auto simp: OpcUaNodeIdBase_equal_def nodeIdBase_less_key key_less_irrefl)

text \<open>
  The contract \<^verbatim>\<open>std::map\<close> asks of the comparison of its keys. What a map lookup relies on follows
  from it once, in the locale.
\<close>

locale strict_weak_order =
  fixes less :: "'a \<Rightarrow> 'a \<Rightarrow> bool"
    and dom_ok :: "'a \<Rightarrow> bool"
  assumes irrefl: "dom_ok x \<Longrightarrow> \<not> less x x"
    and trans: "dom_ok x \<Longrightarrow> dom_ok y \<Longrightarrow> dom_ok z \<Longrightarrow> less x y \<Longrightarrow> less y z \<Longrightarrow> less x z"
    and incomparable_trans: "dom_ok x \<Longrightarrow> dom_ok y \<Longrightarrow> dom_ok z \<Longrightarrow>
          \<not> less x y \<Longrightarrow> \<not> less y x \<Longrightarrow> \<not> less y z \<Longrightarrow> \<not> less z y \<Longrightarrow> \<not> less x z \<and> \<not> less z x"
begin

lemma asym: "dom_ok x \<Longrightarrow> dom_ok y \<Longrightarrow> less x y \<Longrightarrow> \<not> less y x"
  using irrefl trans by blast

lemma equivalent_less_left:
  "dom_ok x \<Longrightarrow> dom_ok x' \<Longrightarrow> dom_ok y \<Longrightarrow> \<not> less x x' \<Longrightarrow> \<not> less x' x \<Longrightarrow> less x y \<Longrightarrow> less x' y"
  by (metis incomparable_trans trans irrefl)

end

interpretation nodeId_order: strict_weak_order OpcUaNodeIdBase_less "\<lambda>n. OpcUaNodeIdValue_wf (nodeIdValue n)"
proof
  fix x y z :: OpcUaNodeIdBase
  assume wf: "OpcUaNodeIdValue_wf (nodeIdValue x)"
  then show "\<not> OpcUaNodeIdBase_less x x" by (simp add: nodeIdBase_less_key key_less_irrefl)
  assume wfy: "OpcUaNodeIdValue_wf (nodeIdValue y)" and wfz: "OpcUaNodeIdValue_wf (nodeIdValue z)"
  show "OpcUaNodeIdBase_less x z" if "OpcUaNodeIdBase_less x y" "OpcUaNodeIdBase_less y z"
    using that wf wfy wfz key_less_trans by (auto simp: nodeIdBase_less_key)
  assume "\<not> OpcUaNodeIdBase_less x y" "\<not> OpcUaNodeIdBase_less y x"
    "\<not> OpcUaNodeIdBase_less y z" "\<not> OpcUaNodeIdBase_less z y"
  then have "OpcUaNodeIdBase_key x = OpcUaNodeIdBase_key z"
    using wf wfy wfz key_less_linear by (metis nodeIdBase_less_key)
  then show "\<not> OpcUaNodeIdBase_less x z \<and> \<not> OpcUaNodeIdBase_less z x"
    using wf wfz by (simp add: nodeIdBase_less_key key_less_irrefl)
qed

section \<open>OpcUaExpandedNodeId\<close>

record OpcUaExpandedNodeId =
  exp_base :: OpcUaNodeIdBase
  exp_namespaceUri :: OpcUaString
  exp_serverIndex :: u32
  exp_flag :: u8

definition OpcUaExpandedNodeId_new :: OpcUaExpandedNodeId where
  "OpcUaExpandedNodeId_new = \<lparr>exp_base = OpcUaNodeIdBase_new, exp_namespaceUri = OpcUaString_new,
     exp_serverIndex = 0, exp_flag = 0\<rparr>"

text \<open>\<^verbatim>\<open>encodingFlag()\<close> also resets the namespace index of an identifier with a namespace URI.\<close>

definition OpcUaExpandedNodeId_encodingFlag :: "OpcUaExpandedNodeId \<Rightarrow> u8 \<times> OpcUaExpandedNodeId" where
  "OpcUaExpandedNodeId_encodingFlag this =
     (let (flag, this) =
            (if str_exist (exp_namespaceUri this)
             then (0x80, this\<lparr>exp_base := (exp_base this)\<lparr>namespaceIndex := 0\<rparr>\<rparr>)
             else (0x00, this))
      in (if exp_serverIndex this \<noteq> 0 then flag OR 0x40 else flag, this))"

definition OpcUaExpandedNodeId_opcUaBinaryEncode :: "OpcUaExpandedNodeId \<Rightarrow> stream" where
  "OpcUaExpandedNodeId_opcUaBinaryEncode this =
     (let (ef, this) = OpcUaExpandedNodeId_encodingFlag this
      in fst (OpcUaNodeIdBase_opcUaBinaryEncode ef (exp_base this))
           @ (if str_exist (exp_namespaceUri this)
              then OpcUaString_opcUaBinaryEncode (exp_namespaceUri this) else [])
           @ (if exp_serverIndex this \<noteq> 0 then OpcUaUInt32_encode (exp_serverIndex this) else []))"

definition OpcUaExpandedNodeId_opcUaBinaryDecode ::
  "OpcUaExpandedNodeId \<Rightarrow> OpcUaExpandedNodeId decoder" where
  "OpcUaExpandedNodeId_opcUaBinaryDecode this is = do {
     ((ef, base), is) \<leftarrow> OpcUaNodeIdBase_opcUaBinaryDecode (exp_base this) is;
     let this = this\<lparr>exp_base := base, exp_flag := ef\<rparr>;
     (this, is) \<leftarrow>
       (if ef AND 0x80 = 0x80 then do {
          (uri, is) \<leftarrow> OpcUaString_opcUaBinaryDecode is;
          Some (this\<lparr>exp_base := (exp_base this)\<lparr>namespaceIndex := 0\<rparr>, exp_namespaceUri := uri\<rparr>, is) }
        else Some (this, is));
     (if ef AND 0x40 = 0x40 then do {
        (srv, is) \<leftarrow> OpcUaUInt32_decode is;
        Some (this\<lparr>exp_serverIndex := srv\<rparr>, is) }
      else Some (this, is)) }"

definition OpcUaExpandedNodeId_copyTo ::
  "OpcUaExpandedNodeId \<Rightarrow> OpcUaExpandedNodeId \<Rightarrow> OpcUaExpandedNodeId" where
  "OpcUaExpandedNodeId_copyTo this other =
     (let other = other\<lparr>exp_base := OpcUaNodeIdBase_copyTo (exp_base this) (exp_base other)\<rparr>;
          other = (if str_exist (exp_namespaceUri this)
                   then other\<lparr>exp_namespaceUri := exp_namespaceUri this\<rparr> else other)
      in if exp_serverIndex this \<noteq> 0 then other\<lparr>exp_serverIndex := exp_serverIndex this\<rparr> else other)"

definition OpcUaExpandedNodeId_equal :: "OpcUaExpandedNodeId \<Rightarrow> OpcUaExpandedNodeId \<Rightarrow> bool" where
  "OpcUaExpandedNodeId_equal a b \<longleftrightarrow>
     OpcUaString_equal (exp_namespaceUri a) (exp_namespaceUri b)
     \<and> exp_serverIndex a = exp_serverIndex b
     \<and> OpcUaNodeIdBase_equal (exp_base a) (exp_base b)"

text \<open>An identifier a sender can transmit without loss, with the flag the encoder derives.\<close>

definition OpcUaExpandedNodeId_wf :: "OpcUaExpandedNodeId \<Rightarrow> bool" where
  "OpcUaExpandedNodeId_wf e \<longleftrightarrow>
     OpcUaNodeIdValue_wf (nodeIdValue (exp_base e)) \<and> nodeIdValue (exp_base e) \<noteq> NodeIdNull
     \<and> OpcUaString_wf (exp_namespaceUri e)
     \<and> (str_exist (exp_namespaceUri e) \<longrightarrow> namespaceIndex (exp_base e) = 0)
     \<and> exp_flag e = fst (OpcUaExpandedNodeId_encodingFlag e)"

lemma encode_nodeIdBase_object:
  "nodeIdValue n \<noteq> NodeIdNull \<Longrightarrow> snd (OpcUaNodeIdBase_opcUaBinaryEncode ef n) = n"
  by (simp add: OpcUaNodeIdBase_opcUaBinaryEncode_def Let_def)

lemma expanded_string_absent: "OpcUaString_wf s \<Longrightarrow> \<not> str_exist s \<Longrightarrow> OpcUaString_new = s"
  by (cases s) (simp add: OpcUaString_wf_def OpcUaString_new_def)

lemma expanded_round_trip:
  assumes "OpcUaExpandedNodeId_wf e"
  shows "OpcUaExpandedNodeId_opcUaBinaryDecode OpcUaExpandedNodeId_new
           (OpcUaExpandedNodeId_opcUaBinaryEncode e @ rest) = Some (e, rest)"
proof -
  obtain b uri srv fl where e: "e = \<lparr>exp_base = b, exp_namespaceUri = uri, exp_serverIndex = srv, exp_flag = fl\<rparr>"
    by (cases e)
  obtain ef where ef: "ef = (if str_exist uri then 0x80 else 0x00) OR (if srv \<noteq> 0 then 0x40 else (0x00 :: u8))"
    by simp
  have flag: "OpcUaExpandedNodeId_encodingFlag e = (ef, e)"
    using assms by (auto simp: e ef OpcUaExpandedNodeId_encodingFlag_def OpcUaExpandedNodeId_wf_def)
  then have fl: "fl = ef" using assms by (simp add: OpcUaExpandedNodeId_wf_def e)
  have mem: "ef \<in> expanded_flags" by (auto simp: ef expanded_flags_def)
  have bits: "ef AND 0x80 = 0x80 \<longleftrightarrow> str_exist uri" "ef AND 0x40 = 0x40 \<longleftrightarrow> srv \<noteq> 0"
    by (auto simp: ef)
  have base: "OpcUaNodeIdBase_opcUaBinaryDecode this (fst (OpcUaNodeIdBase_opcUaBinaryEncode ef b) @ r)
      = Some ((ef, b), r)" for this r
    using nodeIdBase_round_trip [OF mem, of b this r] assms
    by (simp add: encode_nodeIdBase_object OpcUaExpandedNodeId_wf_def e)
  have enc: "OpcUaExpandedNodeId_opcUaBinaryEncode e = fst (OpcUaNodeIdBase_opcUaBinaryEncode ef b)
      @ (if str_exist uri then OpcUaString_opcUaBinaryEncode uri else [])
      @ (if srv \<noteq> 0 then OpcUaUInt32_encode srv else [])"
    unfolding OpcUaExpandedNodeId_opcUaBinaryEncode_def flag by (simp add: e)
  have uri: "OpcUaString_wf uri" and ns: "str_exist uri \<Longrightarrow> b\<lparr>namespaceIndex := 0\<rparr> = b"
    using assms by (auto simp: OpcUaExpandedNodeId_wf_def e)
  show ?thesis
    using expanded_string_absent [OF uri] ns
    unfolding enc
    by (simp add: OpcUaExpandedNodeId_opcUaBinaryDecode_def e base bits codec_rt uri
        OpcUaExpandedNodeId_new_def fl)
qed

interpretation expanded_codec: codec OpcUaExpandedNodeId_opcUaBinaryEncode
  "OpcUaExpandedNodeId_opcUaBinaryDecode OpcUaExpandedNodeId_new" OpcUaExpandedNodeId_wf
  by unfold_locales (rule expanded_round_trip)

section \<open>OpcUaNodeId\<close>

definition OpcUaNodeId_opcUaBinaryEncode :: "OpcUaNodeIdBase \<Rightarrow> stream" where
  "OpcUaNodeId_opcUaBinaryEncode n = fst (OpcUaNodeIdBase_opcUaBinaryEncode 0 n)"

definition OpcUaNodeId_opcUaBinaryDecode :: "OpcUaNodeIdBase decoder" where
  "OpcUaNodeId_opcUaBinaryDecode is = do {
     ((_, n), is) \<leftarrow> OpcUaNodeIdBase_opcUaBinaryDecode OpcUaNodeIdBase_new is; Some (n, is) }"

definition OpcUaNodeId_wf :: "OpcUaNodeIdBase \<Rightarrow> bool" where
  "OpcUaNodeId_wf n \<longleftrightarrow> OpcUaNodeIdValue_wf (nodeIdValue n) \<and> nodeIdValue n \<noteq> NodeIdNull"

interpretation nodeid_codec: codec OpcUaNodeId_opcUaBinaryEncode OpcUaNodeId_opcUaBinaryDecode OpcUaNodeId_wf
  by unfold_locales
     (simp add: OpcUaNodeId_opcUaBinaryEncode_def OpcUaNodeId_opcUaBinaryDecode_def OpcUaNodeId_wf_def
        nodeIdBase_round_trip expanded_flags_def encode_nodeIdBase_object)

section \<open>OpcUaQualifiedName\<close>

record OpcUaQualifiedName =
  qn_namespaceIndex :: u16
  qn_name :: OpcUaString

definition OpcUaQualifiedName_equal :: "OpcUaQualifiedName \<Rightarrow> OpcUaQualifiedName \<Rightarrow> bool" where
  "OpcUaQualifiedName_equal a b \<longleftrightarrow>
     qn_namespaceIndex a = qn_namespaceIndex b \<and> OpcUaString_equal (qn_name a) (qn_name b)"

text \<open>The source returns the result of \<^verbatim>\<open>operator==\<close> here.\<close>

definition OpcUaQualifiedName_not_equal :: "OpcUaQualifiedName \<Rightarrow> OpcUaQualifiedName \<Rightarrow> bool" where
  "OpcUaQualifiedName_not_equal a b = OpcUaQualifiedName_equal a b"

definition OpcUaQualifiedName_new :: OpcUaQualifiedName where
  "OpcUaQualifiedName_new = \<lparr>qn_namespaceIndex = 0, qn_name = OpcUaString_new\<rparr>"

definition OpcUaQualifiedName_opcUaBinaryEncode :: "OpcUaQualifiedName \<Rightarrow> stream" where
  "OpcUaQualifiedName_opcUaBinaryEncode this =
     OpcUaUInt16_encode (qn_namespaceIndex this) @ OpcUaString_opcUaBinaryEncode (qn_name this)"

definition OpcUaQualifiedName_opcUaBinaryDecode :: "OpcUaQualifiedName decoder" where
  "OpcUaQualifiedName_opcUaBinaryDecode is = do {
     (ns, is) \<leftarrow> OpcUaUInt16_decode is;
     (nm, is) \<leftarrow> OpcUaString_opcUaBinaryDecode is;
     Some (\<lparr>qn_namespaceIndex = ns, qn_name = nm\<rparr>, is) }"

interpretation qualifiedname_codec: codec OpcUaQualifiedName_opcUaBinaryEncode
  OpcUaQualifiedName_opcUaBinaryDecode "\<lambda>q. OpcUaString_wf (qn_name q)"
  by unfold_locales
     (simp add: OpcUaQualifiedName_opcUaBinaryEncode_def OpcUaQualifiedName_opcUaBinaryDecode_def codec_rt)

section \<open>OpcUaLocalizedText\<close>

record OpcUaLocalizedText =
  lt_locale :: OpcUaString
  lt_text :: OpcUaString

definition OpcUaLocalizedText_new :: OpcUaLocalizedText where
  "OpcUaLocalizedText_new = \<lparr>lt_locale = OpcUaString_new, lt_text = OpcUaString_new\<rparr>"

definition OpcUaLocalizedText_opcUaBinaryEncode :: "OpcUaLocalizedText \<Rightarrow> stream" where
  "OpcUaLocalizedText_opcUaBinaryEncode this =
     (let encodingMask = (0x00 :: u8) + (if str_exist (lt_locale this) then 0x01 else 0)
                           + (if str_exist (lt_text this) then 0x02 else 0)
      in OpcUaByte_encode encodingMask
           @ (if str_exist (lt_locale this) then OpcUaString_opcUaBinaryEncode (lt_locale this) else [])
           @ (if str_exist (lt_text this) then OpcUaString_opcUaBinaryEncode (lt_text this) else []))"

definition OpcUaLocalizedText_opcUaBinaryDecode :: "OpcUaLocalizedText \<Rightarrow> OpcUaLocalizedText decoder" where
  "OpcUaLocalizedText_opcUaBinaryDecode this is = do {
     (encodingMask, is) \<leftarrow> OpcUaByte_decode is;
     (this, is) \<leftarrow> (if encodingMask AND 0x01 = 0x01 then do {
        (s, is) \<leftarrow> OpcUaString_opcUaBinaryDecode is; Some (this\<lparr>lt_locale := s\<rparr>, is) }
      else Some (this, is));
     (if encodingMask AND 0x02 = 0x02 then do {
        (s, is) \<leftarrow> OpcUaString_opcUaBinaryDecode is; Some (this\<lparr>lt_text := s\<rparr>, is) }
      else Some (this, is)) }"

definition OpcUaLocalizedText_wf :: "OpcUaLocalizedText \<Rightarrow> bool" where
  "OpcUaLocalizedText_wf t \<longleftrightarrow> OpcUaString_wf (lt_locale t) \<and> OpcUaString_wf (lt_text t)"

interpretation localizedtext_codec: codec OpcUaLocalizedText_opcUaBinaryEncode
  "OpcUaLocalizedText_opcUaBinaryDecode OpcUaLocalizedText_new" OpcUaLocalizedText_wf
proof
  fix t rest assume wf: "OpcUaLocalizedText_wf t"
  obtain l x where t: "t = \<lparr>lt_locale = l, lt_text = x\<rparr>" by (cases t)
  show "OpcUaLocalizedText_opcUaBinaryDecode OpcUaLocalizedText_new
          (OpcUaLocalizedText_opcUaBinaryEncode t @ rest) = Some (t, rest)"
    using wf expanded_string_absent [of l] expanded_string_absent [of x]
    by (simp add: t OpcUaLocalizedText_wf_def OpcUaLocalizedText_opcUaBinaryEncode_def
        OpcUaLocalizedText_opcUaBinaryDecode_def OpcUaLocalizedText_new_def Let_def codec_rt)
qed

section \<open>OpcUaDiagnosticInfo\<close>

record OpcUaDiagnosticInfo =
  di_symbolicId :: u32
  di_namespaceUri :: u32
  di_localizedText :: u32
  di_locale :: u32
  di_additionalInfo :: OpcUaString
  di_innerStatusCode :: u32

definition OpcUaDiagnosticInfo_new :: OpcUaDiagnosticInfo where
  "OpcUaDiagnosticInfo_new = \<lparr>di_symbolicId = - 1, di_namespaceUri = - 1, di_localizedText = - 1,
     di_locale = - 1, di_additionalInfo = OpcUaString_new, di_innerStatusCode = 0\<rparr>"

definition OpcUaDiagnosticInfo_encodingMask :: "OpcUaDiagnosticInfo \<Rightarrow> u8" where
  "OpcUaDiagnosticInfo_encodingMask this =
     0x00 + (if di_symbolicId this \<noteq> - 1 then 0x01 else 0)
          + (if di_namespaceUri this \<noteq> - 1 then 0x02 else 0)
          + (if di_localizedText this \<noteq> - 1 then 0x04 else 0)
          + (if di_locale this \<noteq> - 1 then 0x08 else 0)
          + (if str_exist (di_additionalInfo this) then 0x10 else 0)
          + (if di_innerStatusCode this \<noteq> 0 then 0x20 else 0)"

definition OpcUaDiagnosticInfo_opcUaBinaryEncode :: "OpcUaDiagnosticInfo \<Rightarrow> stream" where
  "OpcUaDiagnosticInfo_opcUaBinaryEncode this =
     OpcUaByte_encode (OpcUaDiagnosticInfo_encodingMask this)
       @ (if di_symbolicId this \<noteq> - 1 then OpcUaInt32_encode (di_symbolicId this) else [])
       @ (if di_namespaceUri this \<noteq> - 1 then OpcUaInt32_encode (di_namespaceUri this) else [])
       @ (if di_localizedText this \<noteq> - 1 then OpcUaInt32_encode (di_localizedText this) else [])
       @ (if di_locale this \<noteq> - 1 then OpcUaInt32_encode (di_locale this) else [])
       @ (if str_exist (di_additionalInfo this)
          then OpcUaString_opcUaBinaryEncode (di_additionalInfo this) else [])
       @ (if di_innerStatusCode this \<noteq> 0 then OpcUaUInt32_encode (di_innerStatusCode this) else [])"

definition OpcUaDiagnosticInfo_opcUaBinaryDecode :: "OpcUaDiagnosticInfo \<Rightarrow> OpcUaDiagnosticInfo decoder" where
  "OpcUaDiagnosticInfo_opcUaBinaryDecode this is = do {
     (m, is) \<leftarrow> OpcUaByte_decode is;
     (this, is) \<leftarrow> (if m AND 0x01 = 0x01 then do {
        (v, is) \<leftarrow> OpcUaInt32_decode is; Some (this\<lparr>di_symbolicId := v\<rparr>, is) } else Some (this, is));
     (this, is) \<leftarrow> (if m AND 0x02 = 0x02 then do {
        (v, is) \<leftarrow> OpcUaInt32_decode is; Some (this\<lparr>di_namespaceUri := v\<rparr>, is) } else Some (this, is));
     (this, is) \<leftarrow> (if m AND 0x04 = 0x04 then do {
        (v, is) \<leftarrow> OpcUaInt32_decode is; Some (this\<lparr>di_localizedText := v\<rparr>, is) } else Some (this, is));
     (this, is) \<leftarrow> (if m AND 0x08 = 0x08 then do {
        (v, is) \<leftarrow> OpcUaInt32_decode is; Some (this\<lparr>di_locale := v\<rparr>, is) } else Some (this, is));
     (this, is) \<leftarrow> (if m AND 0x10 = 0x10 then do {
        (v, is) \<leftarrow> OpcUaString_opcUaBinaryDecode is; Some (this\<lparr>di_additionalInfo := v\<rparr>, is) } else Some (this, is));
     (if m AND 0x20 = 0x20 then do {
        (v, is) \<leftarrow> OpcUaInt32_decode is; Some (this\<lparr>di_innerStatusCode := v\<rparr>, is) } else Some (this, is)) }"

lemma diagnosticInfo_mask_bits:
  "OpcUaDiagnosticInfo_encodingMask d AND 0x01 = 0x01 \<longleftrightarrow> di_symbolicId d \<noteq> - 1"
  "OpcUaDiagnosticInfo_encodingMask d AND 0x02 = 0x02 \<longleftrightarrow> di_namespaceUri d \<noteq> - 1"
  "OpcUaDiagnosticInfo_encodingMask d AND 0x04 = 0x04 \<longleftrightarrow> di_localizedText d \<noteq> - 1"
  "OpcUaDiagnosticInfo_encodingMask d AND 0x08 = 0x08 \<longleftrightarrow> di_locale d \<noteq> - 1"
  "OpcUaDiagnosticInfo_encodingMask d AND 0x10 = 0x10 \<longleftrightarrow> str_exist (di_additionalInfo d)"
  "OpcUaDiagnosticInfo_encodingMask d AND 0x20 = 0x20 \<longleftrightarrow> di_innerStatusCode d \<noteq> 0"
  by (simp_all add: OpcUaDiagnosticInfo_encodingMask_def)

lemma diagnosticInfo_round_trip:
  assumes "OpcUaString_wf (di_additionalInfo d)"
  shows "OpcUaDiagnosticInfo_opcUaBinaryDecode OpcUaDiagnosticInfo_new
           (OpcUaDiagnosticInfo_opcUaBinaryEncode d @ rest) = Some (d, rest)"
proof -
  obtain a b c l s i where d: "d = \<lparr>di_symbolicId = a, di_namespaceUri = b, di_localizedText = c,
      di_locale = l, di_additionalInfo = s, di_innerStatusCode = i\<rparr>"
    by (cases d)
  show ?thesis
    using assms expanded_string_absent [of s] diagnosticInfo_mask_bits [of d]
    by (auto simp: d OpcUaDiagnosticInfo_opcUaBinaryEncode_def OpcUaDiagnosticInfo_opcUaBinaryDecode_def
        OpcUaDiagnosticInfo_new_def codec_rt)
qed

interpretation diagnosticinfo_codec: codec OpcUaDiagnosticInfo_opcUaBinaryEncode
  "OpcUaDiagnosticInfo_opcUaBinaryDecode OpcUaDiagnosticInfo_new" "\<lambda>d. OpcUaString_wf (di_additionalInfo d)"
  by unfold_locales (rule diagnosticInfo_round_trip)

declare nodeid_codec.dec_enc [codec_rt] expanded_codec.dec_enc [codec_rt]
  qualifiedname_codec.dec_enc [codec_rt] localizedtext_codec.dec_enc [codec_rt]
  diagnosticinfo_codec.dec_enc [codec_rt]

section \<open>Properties\<close>

text \<open>C25: the order of node identifiers is a strict weak order, what the maps of nodes keyed by them
  need: irreflexive, transitive, and with a transitive incomparability.\<close>

theorem nodeId_less_strict_weak_order:
  assumes "OpcUaNodeIdValue_wf (nodeIdValue x)" "OpcUaNodeIdValue_wf (nodeIdValue y)"
    and "OpcUaNodeIdValue_wf (nodeIdValue z)"
  shows "\<not> OpcUaNodeIdBase_less x x
    \<and> (OpcUaNodeIdBase_less x y \<and> OpcUaNodeIdBase_less y z \<longrightarrow> OpcUaNodeIdBase_less x z)
    \<and> (\<not> OpcUaNodeIdBase_less x y \<and> \<not> OpcUaNodeIdBase_less y x \<and>
       \<not> OpcUaNodeIdBase_less y z \<and> \<not> OpcUaNodeIdBase_less z y \<longrightarrow>
       \<not> OpcUaNodeIdBase_less x z \<and> \<not> OpcUaNodeIdBase_less z x)"
  using assms nodeId_order.irrefl nodeId_order.trans [of x y z] nodeId_order.incomparable_trans [of x y z]
  by blast

theorem nodeId_less_strict_weak_order_witness:
  "OpcUaNodeIdBase_less \<lparr>namespaceIndex = 0, nodeIdValue = NodeIdNumeric 1\<rparr> \<lparr>namespaceIndex = 2, nodeIdValue = NodeIdNumeric 1\<rparr>"
  using nodeId_less_strict_weak_order
    [of "\<lparr>namespaceIndex = 0, nodeIdValue = NodeIdNumeric 1\<rparr>" "\<lparr>namespaceIndex = 1, nodeIdValue = NodeIdNumeric 0\<rparr>"
        "\<lparr>namespaceIndex = 2, nodeIdValue = NodeIdNumeric 1\<rparr>"]
  by (simp add: OpcUaNodeIdBase_less_def)

text \<open>C29: an expanded node identifier, with its namespace URI and server index, comes back from its
  encoding, and the rest of the stream stays.\<close>

theorem expandedNodeId_round_trip:
  assumes "OpcUaExpandedNodeId_wf n"
  shows "OpcUaExpandedNodeId_opcUaBinaryDecode OpcUaExpandedNodeId_new
    (OpcUaExpandedNodeId_opcUaBinaryEncode n @ rest) = Some (n, rest)"
  using assms by (rule expanded_codec.dec_enc)

theorem expandedNodeId_round_trip_witness:
  "let n = \<lparr>exp_base = \<lparr>namespaceIndex = 3, nodeIdValue = NodeIdNumeric 70000\<rparr>,
     exp_namespaceUri = OpcUaString_new, exp_serverIndex = 5, exp_flag = 0x40\<rparr>
   in OpcUaExpandedNodeId_opcUaBinaryDecode OpcUaExpandedNodeId_new
        (OpcUaExpandedNodeId_opcUaBinaryEncode n @ [1]) = Some (n, [1])"
  unfolding Let_def
  by (rule expandedNodeId_round_trip)
     (simp add: OpcUaExpandedNodeId_wf_def OpcUaExpandedNodeId_encodingFlag_def OpcUaString_new_def OpcUaString_wf_def)

text \<open>no encoding of a node identifier is a prefix of the encoding of another one, so a sequence of
  them is read back in only one way.\<close>

theorem nodeId_encoding_prefix_free:
  assumes "OpcUaNodeId_wf m" "OpcUaNodeId_wf n"
    and "OpcUaNodeId_opcUaBinaryEncode m @ r = OpcUaNodeId_opcUaBinaryEncode n @ s"
  shows "m = n \<and> r = s"
  using assms by (rule nodeid_codec.enc_prefix_free)

theorem nodeId_encoding_prefix_free_witness:
  "OpcUaNodeId_wf \<lparr>namespaceIndex = 0, nodeIdValue = NodeIdNumeric 1\<rparr>
   \<and> OpcUaNodeId_opcUaBinaryEncode \<lparr>namespaceIndex = 0, nodeIdValue = NodeIdNumeric 1\<rparr> @ [5, 6] \<noteq>
     OpcUaNodeId_opcUaBinaryEncode \<lparr>namespaceIndex = 1, nodeIdValue = NodeIdNumeric 1\<rparr> @ [7]"
  using nodeId_encoding_prefix_free [of "\<lparr>namespaceIndex = 0, nodeIdValue = NodeIdNumeric 1\<rparr>"
      "\<lparr>namespaceIndex = 1, nodeIdValue = NodeIdNumeric 1\<rparr>" "[5, 6]" "[7]"]
  by (auto simp: OpcUaNodeId_wf_def)

end
