(* ===== verification/StandardTypes.thy ===== *)
theory StandardTypes
  imports NodeIds
begin

text \<open>
  \<^verbatim>\<open>OpcUaDateTime\<close> and the structured data types of
  \<^verbatim>\<open>OpcUaStackCore/StandardDataTypes\<close> that travel as the body of an
  \<^verbatim>\<open>OpcUaExtensionObject\<close>: their members as records, their binary coders and the sum type
  \<^verbatim>\<open>StandardObject\<close> of the objects an \<^verbatim>\<open>ExtensionObjectBase::SPtr\<close> may point to.
  Every coder is shown to be a \<^verbatim>\<open>codec\<close>.
\<close>

section \<open>OpcUaDateTime\<close>

text \<open>A date is the number of 100 ns ticks since 1601; tick 0 means that no date is set.\<close>

type_synonym OpcUaDateTime = u64

definition OpcUaDateTime_exist :: "OpcUaDateTime \<Rightarrow> bool" where
  "OpcUaDateTime_exist t \<longleftrightarrow> t \<noteq> 0"

text \<open>\<^verbatim>\<open>operator==\<close> compares the dates after both were cut to microseconds.\<close>

definition OpcUaDateTime_equal :: "OpcUaDateTime \<Rightarrow> OpcUaDateTime \<Rightarrow> bool" where
  "OpcUaDateTime_equal a b \<longleftrightarrow> a div 10 = b div 10"

definition OpcUaDateTime_opcUaBinaryEncode :: "OpcUaDateTime \<Rightarrow> stream" where
  "OpcUaDateTime_opcUaBinaryEncode t = OpcUaUInt64_encode t"

definition OpcUaDateTime_opcUaBinaryDecode :: "OpcUaDateTime decoder" where
  "OpcUaDateTime_opcUaBinaryDecode is = OpcUaUInt64_decode is"

interpretation datetime_codec: fixed_codec OpcUaDateTime_opcUaBinaryEncode
  OpcUaDateTime_opcUaBinaryDecode "\<lambda>_. True" 8
  unfolding OpcUaDateTime_opcUaBinaryEncode_def [abs_def] OpcUaDateTime_opcUaBinaryDecode_def [abs_def]
  by (rule uint64_codec.fixed_codec_axioms)

lemma datetime_equal_iff: "OpcUaDateTime_equal a b \<longleftrightarrow> uint a div 10 = uint b div 10"
  by (simp add: OpcUaDateTime_equal_def word_uint_eq_iff uint_div_distrib)

declare datetime_codec.dec_enc [OF TrueI, codec_rt]
declare string_codec.dec_enc [codec_rt] bytestring_codec.dec_enc [codec_rt]
  guid_codec.dec_enc [codec_rt] nodeid_codec.dec_enc [codec_rt]
  localizedtext_codec.dec_enc [codec_rt] qualifiedname_codec.dec_enc [codec_rt]
  expanded_codec.dec_enc [codec_rt]

section \<open>Structured types\<close>

record BuildInfo =
  bi_productUri :: OpcUaString
  bi_manufacturerName :: OpcUaString
  bi_productName :: OpcUaString
  bi_softwareVersion :: OpcUaString
  bi_buildNumber :: OpcUaString
  bi_buildDate :: OpcUaDateTime

definition BuildInfo_opcUaBinaryEncode :: "BuildInfo \<Rightarrow> stream" where
  "BuildInfo_opcUaBinaryEncode this =
     OpcUaString_opcUaBinaryEncode (bi_productUri this)
     @ OpcUaString_opcUaBinaryEncode (bi_manufacturerName this)
     @ OpcUaString_opcUaBinaryEncode (bi_productName this)
     @ OpcUaString_opcUaBinaryEncode (bi_softwareVersion this)
     @ OpcUaString_opcUaBinaryEncode (bi_buildNumber this)
     @ OpcUaDateTime_opcUaBinaryEncode (bi_buildDate this)"

definition BuildInfo_opcUaBinaryDecode :: "BuildInfo decoder" where
  "BuildInfo_opcUaBinaryDecode is = do {
     (a, is) \<leftarrow> OpcUaString_opcUaBinaryDecode is;
     (b, is) \<leftarrow> OpcUaString_opcUaBinaryDecode is;
     (c, is) \<leftarrow> OpcUaString_opcUaBinaryDecode is;
     (d, is) \<leftarrow> OpcUaString_opcUaBinaryDecode is;
     (e, is) \<leftarrow> OpcUaString_opcUaBinaryDecode is;
     (f, is) \<leftarrow> OpcUaDateTime_opcUaBinaryDecode is;
     Some (\<lparr>bi_productUri = a, bi_manufacturerName = b, bi_productName = c,
            bi_softwareVersion = d, bi_buildNumber = e, bi_buildDate = f\<rparr>, is) }"

definition BuildInfo_wf :: "BuildInfo \<Rightarrow> bool" where
  "BuildInfo_wf b \<longleftrightarrow> OpcUaString_wf (bi_productUri b) \<and> OpcUaString_wf (bi_manufacturerName b)
     \<and> OpcUaString_wf (bi_productName b) \<and> OpcUaString_wf (bi_softwareVersion b)
     \<and> OpcUaString_wf (bi_buildNumber b)"

interpretation buildinfo_codec: codec BuildInfo_opcUaBinaryEncode BuildInfo_opcUaBinaryDecode BuildInfo_wf
  by unfold_locales
     (simp add: BuildInfo_opcUaBinaryEncode_def BuildInfo_opcUaBinaryDecode_def BuildInfo_wf_def codec_rt)

declare buildinfo_codec.dec_enc [codec_rt]

record ServerStatusDataType =
  ss_startTime :: OpcUaDateTime
  ss_currentTime :: OpcUaDateTime
  ss_serverState :: u32
  ss_buildInfo :: BuildInfo
  ss_secondsTillShutdown :: u32
  ss_shutdownReason :: OpcUaLocalizedText

definition ServerStatusDataType_opcUaBinaryEncode :: "ServerStatusDataType \<Rightarrow> stream" where
  "ServerStatusDataType_opcUaBinaryEncode this =
     OpcUaDateTime_opcUaBinaryEncode (ss_startTime this)
     @ OpcUaDateTime_opcUaBinaryEncode (ss_currentTime this)
     @ OpcUaUInt32_encode (ss_serverState this)
     @ BuildInfo_opcUaBinaryEncode (ss_buildInfo this)
     @ OpcUaUInt32_encode (ss_secondsTillShutdown this)
     @ OpcUaLocalizedText_opcUaBinaryEncode (ss_shutdownReason this)"

definition ServerStatusDataType_opcUaBinaryDecode :: "ServerStatusDataType decoder" where
  "ServerStatusDataType_opcUaBinaryDecode is = do {
     (a, is) \<leftarrow> OpcUaDateTime_opcUaBinaryDecode is;
     (b, is) \<leftarrow> OpcUaDateTime_opcUaBinaryDecode is;
     (c, is) \<leftarrow> OpcUaUInt32_decode is;
     (d, is) \<leftarrow> BuildInfo_opcUaBinaryDecode is;
     (e, is) \<leftarrow> OpcUaUInt32_decode is;
     (f, is) \<leftarrow> OpcUaLocalizedText_opcUaBinaryDecode OpcUaLocalizedText_new is;
     Some (\<lparr>ss_startTime = a, ss_currentTime = b, ss_serverState = c, ss_buildInfo = d,
            ss_secondsTillShutdown = e, ss_shutdownReason = f\<rparr>, is) }"

record ModelChangeStructureDataType =
  mc_affected :: OpcUaNodeIdBase
  mc_affectedType :: OpcUaNodeIdBase
  mc_verb :: u8

definition ModelChangeStructureDataType_opcUaBinaryEncode :: "ModelChangeStructureDataType \<Rightarrow> stream" where
  "ModelChangeStructureDataType_opcUaBinaryEncode this =
     OpcUaNodeId_opcUaBinaryEncode (mc_affected this)
     @ OpcUaNodeId_opcUaBinaryEncode (mc_affectedType this)
     @ OpcUaByte_encode (mc_verb this)"

definition ModelChangeStructureDataType_opcUaBinaryDecode :: "ModelChangeStructureDataType decoder" where
  "ModelChangeStructureDataType_opcUaBinaryDecode is = do {
     (a, is) \<leftarrow> OpcUaNodeId_opcUaBinaryDecode is;
     (b, is) \<leftarrow> OpcUaNodeId_opcUaBinaryDecode is;
     (c, is) \<leftarrow> OpcUaByte_decode is;
     Some (\<lparr>mc_affected = a, mc_affectedType = b, mc_verb = c\<rparr>, is) }"

record RedundantServerDataType =
  rs_serverId :: OpcUaString
  rs_serviceLevel :: u8
  rs_serverState :: u32

definition RedundantServerDataType_opcUaBinaryEncode :: "RedundantServerDataType \<Rightarrow> stream" where
  "RedundantServerDataType_opcUaBinaryEncode this =
     OpcUaString_opcUaBinaryEncode (rs_serverId this)
     @ OpcUaByte_encode (rs_serviceLevel this)
     @ OpcUaInt32_encode (rs_serverState this)"

definition RedundantServerDataType_opcUaBinaryDecode :: "RedundantServerDataType decoder" where
  "RedundantServerDataType_opcUaBinaryDecode is = do {
     (a, is) \<leftarrow> OpcUaString_opcUaBinaryDecode is;
     (b, is) \<leftarrow> OpcUaByte_decode is;
     (c, is) \<leftarrow> OpcUaInt32_decode is;
     Some (\<lparr>rs_serverId = a, rs_serviceLevel = b, rs_serverState = c\<rparr>, is) }"

record SamplingIntervalDiagnosticsDataType =
  si_samplingRate :: u64
  si_sampledMonitoredItemsCount :: u32
  si_maxSampledMonitoredItemsCount :: u32
  si_disabledMonitoredItemsSamplingCount :: u32

definition SamplingIntervalDiagnosticsDataType_opcUaBinaryEncode ::
  "SamplingIntervalDiagnosticsDataType \<Rightarrow> stream" where
  "SamplingIntervalDiagnosticsDataType_opcUaBinaryEncode this =
     OpcUaDouble_encode (si_samplingRate this)
     @ OpcUaUInt32_encode (si_sampledMonitoredItemsCount this)
     @ OpcUaUInt32_encode (si_maxSampledMonitoredItemsCount this)
     @ OpcUaUInt32_encode (si_disabledMonitoredItemsSamplingCount this)"

definition SamplingIntervalDiagnosticsDataType_opcUaBinaryDecode ::
  "SamplingIntervalDiagnosticsDataType decoder" where
  "SamplingIntervalDiagnosticsDataType_opcUaBinaryDecode is = do {
     (a, is) \<leftarrow> OpcUaDouble_decode is;
     (b, is) \<leftarrow> OpcUaUInt32_decode is;
     (c, is) \<leftarrow> OpcUaUInt32_decode is;
     (d, is) \<leftarrow> OpcUaUInt32_decode is;
     Some (\<lparr>si_samplingRate = a, si_sampledMonitoredItemsCount = b,
            si_maxSampledMonitoredItemsCount = c, si_disabledMonitoredItemsSamplingCount = d\<rparr>, is) }"

record SemanticChangeStructureDataType =
  sc_affected :: OpcUaNodeIdBase
  sc_affectedType :: OpcUaNodeIdBase

definition SemanticChangeStructureDataType_opcUaBinaryEncode ::
  "SemanticChangeStructureDataType \<Rightarrow> stream" where
  "SemanticChangeStructureDataType_opcUaBinaryEncode this =
     OpcUaNodeId_opcUaBinaryEncode (sc_affected this)
     @ OpcUaNodeId_opcUaBinaryEncode (sc_affectedType this)"

definition SemanticChangeStructureDataType_opcUaBinaryDecode ::
  "SemanticChangeStructureDataType decoder" where
  "SemanticChangeStructureDataType_opcUaBinaryDecode is = do {
     (a, is) \<leftarrow> OpcUaNodeId_opcUaBinaryDecode is;
     (b, is) \<leftarrow> OpcUaNodeId_opcUaBinaryDecode is;
     Some (\<lparr>sc_affected = a, sc_affectedType = b\<rparr>, is) }"

record ServiceCounterDataType =
  sv_totalCount :: u32
  sv_errorCount :: u32

definition ServiceCounterDataType_opcUaBinaryEncode :: "ServiceCounterDataType \<Rightarrow> stream" where
  "ServiceCounterDataType_opcUaBinaryEncode this =
     OpcUaUInt32_encode (sv_totalCount this) @ OpcUaUInt32_encode (sv_errorCount this)"

definition ServiceCounterDataType_opcUaBinaryDecode :: "ServiceCounterDataType decoder" where
  "ServiceCounterDataType_opcUaBinaryDecode is = do {
     (a, is) \<leftarrow> OpcUaUInt32_decode is;
     (b, is) \<leftarrow> OpcUaUInt32_decode is;
     Some (\<lparr>sv_totalCount = a, sv_errorCount = b\<rparr>, is) }"

lemmas standard_coder_defs =
  ServerStatusDataType_opcUaBinaryEncode_def ServerStatusDataType_opcUaBinaryDecode_def
  ModelChangeStructureDataType_opcUaBinaryEncode_def ModelChangeStructureDataType_opcUaBinaryDecode_def
  RedundantServerDataType_opcUaBinaryEncode_def RedundantServerDataType_opcUaBinaryDecode_def
  SamplingIntervalDiagnosticsDataType_opcUaBinaryEncode_def
  SamplingIntervalDiagnosticsDataType_opcUaBinaryDecode_def
  SemanticChangeStructureDataType_opcUaBinaryEncode_def
  SemanticChangeStructureDataType_opcUaBinaryDecode_def
  ServiceCounterDataType_opcUaBinaryEncode_def ServiceCounterDataType_opcUaBinaryDecode_def

interpretation serverstatus_codec: codec ServerStatusDataType_opcUaBinaryEncode
  ServerStatusDataType_opcUaBinaryDecode
  "\<lambda>s. BuildInfo_wf (ss_buildInfo s) \<and> OpcUaLocalizedText_wf (ss_shutdownReason s)"
  by unfold_locales (simp add: standard_coder_defs codec_rt)

interpretation modelchange_codec: codec ModelChangeStructureDataType_opcUaBinaryEncode
  ModelChangeStructureDataType_opcUaBinaryDecode
  "\<lambda>s. OpcUaNodeId_wf (mc_affected s) \<and> OpcUaNodeId_wf (mc_affectedType s)"
  by unfold_locales (simp add: standard_coder_defs codec_rt)

interpretation redundantserver_codec: codec RedundantServerDataType_opcUaBinaryEncode
  RedundantServerDataType_opcUaBinaryDecode "\<lambda>s. OpcUaString_wf (rs_serverId s)"
  by unfold_locales (simp add: standard_coder_defs codec_rt)

interpretation samplinginterval_codec: codec SamplingIntervalDiagnosticsDataType_opcUaBinaryEncode
  SamplingIntervalDiagnosticsDataType_opcUaBinaryDecode "\<lambda>_. True"
  by unfold_locales (simp add: standard_coder_defs codec_rt)

interpretation semanticchange_codec: codec SemanticChangeStructureDataType_opcUaBinaryEncode
  SemanticChangeStructureDataType_opcUaBinaryDecode
  "\<lambda>s. OpcUaNodeId_wf (sc_affected s) \<and> OpcUaNodeId_wf (sc_affectedType s)"
  by unfold_locales (simp add: standard_coder_defs codec_rt)

interpretation servicecounter_codec: codec ServiceCounterDataType_opcUaBinaryEncode
  ServiceCounterDataType_opcUaBinaryDecode "\<lambda>_. True"
  by unfold_locales (simp add: standard_coder_defs codec_rt)

section \<open>Copying and comparing\<close>

text \<open>\<^verbatim>\<open>float\<close> and \<^verbatim>\<open>double\<close> members are held as their bit patterns; the comparison
  operators of C++ read them as IEEE numbers: a value with all exponent bits set and a fraction is no
  number and compares to nothing, and both zeros are equal.\<close>

definition ieee_nan :: "nat \<Rightarrow> 'a::len word \<Rightarrow> bool" where
  "ieee_nan fraction_bits w \<longleftrightarrow>
     2 ^ (LENGTH('a) - 1) - 2 ^ fraction_bits < uint w mod 2 ^ (LENGTH('a) - 1)"

definition ieee_key :: "'a::len word \<Rightarrow> int" where
  "ieee_key w = (if 2 ^ (LENGTH('a) - 1) \<le> uint w then - (uint w - 2 ^ (LENGTH('a) - 1)) else uint w)"

definition OpcUaFloat_equal :: "u32 \<Rightarrow> u32 \<Rightarrow> bool" where
  "OpcUaFloat_equal a b \<longleftrightarrow> \<not> ieee_nan 23 a \<and> \<not> ieee_nan 23 b \<and> ieee_key a = ieee_key b"

definition OpcUaFloat_less :: "u32 \<Rightarrow> u32 \<Rightarrow> bool" where
  "OpcUaFloat_less a b \<longleftrightarrow> \<not> ieee_nan 23 a \<and> \<not> ieee_nan 23 b \<and> ieee_key a < ieee_key b"

definition OpcUaDouble_equal :: "u64 \<Rightarrow> u64 \<Rightarrow> bool" where
  "OpcUaDouble_equal a b \<longleftrightarrow> \<not> ieee_nan 52 a \<and> \<not> ieee_nan 52 b \<and> ieee_key a = ieee_key b"

definition OpcUaDouble_less :: "u64 \<Rightarrow> u64 \<Rightarrow> bool" where
  "OpcUaDouble_less a b \<longleftrightarrow> \<not> ieee_nan 52 a \<and> \<not> ieee_nan 52 b \<and> ieee_key a < ieee_key b"

definition OpcUaQualifiedName_copyTo :: "OpcUaQualifiedName \<Rightarrow> OpcUaQualifiedName \<Rightarrow> OpcUaQualifiedName" where
  "OpcUaQualifiedName_copyTo this other =
     other\<lparr>qn_namespaceIndex := qn_namespaceIndex this, qn_name := OpcUaString_copyTo (qn_name this) (qn_name other)\<rparr>"

definition OpcUaLocalizedText_copyTo :: "OpcUaLocalizedText \<Rightarrow> OpcUaLocalizedText \<Rightarrow> OpcUaLocalizedText" where
  "OpcUaLocalizedText_copyTo this other =
     other\<lparr>lt_locale := OpcUaString_copyTo (lt_locale this) (lt_locale other),
           lt_text := OpcUaString_copyTo (lt_text this) (lt_text other)\<rparr>"

definition OpcUaLocalizedText_equal :: "OpcUaLocalizedText \<Rightarrow> OpcUaLocalizedText \<Rightarrow> bool" where
  "OpcUaLocalizedText_equal a b \<longleftrightarrow>
     OpcUaString_equal (lt_locale a) (lt_locale b) \<and> OpcUaString_equal (lt_text a) (lt_text b)"

definition BuildInfo_copyTo :: "BuildInfo \<Rightarrow> BuildInfo \<Rightarrow> BuildInfo" where
  "BuildInfo_copyTo this other =
     other\<lparr>bi_productUri := OpcUaString_copyTo (bi_productUri this) (bi_productUri other),
           bi_manufacturerName := OpcUaString_copyTo (bi_manufacturerName this) (bi_manufacturerName other),
           bi_productName := OpcUaString_copyTo (bi_productName this) (bi_productName other),
           bi_softwareVersion := OpcUaString_copyTo (bi_softwareVersion this) (bi_softwareVersion other),
           bi_buildNumber := OpcUaString_copyTo (bi_buildNumber this) (bi_buildNumber other),
           bi_buildDate := bi_buildDate this\<rparr>"

definition BuildInfo_equal :: "BuildInfo \<Rightarrow> BuildInfo \<Rightarrow> bool" where
  "BuildInfo_equal a b \<longleftrightarrow>
     OpcUaString_equal (bi_productUri a) (bi_productUri b)
     \<and> OpcUaString_equal (bi_manufacturerName a) (bi_manufacturerName b)
     \<and> OpcUaString_equal (bi_productName a) (bi_productName b)
     \<and> OpcUaString_equal (bi_softwareVersion a) (bi_softwareVersion b)
     \<and> OpcUaString_equal (bi_buildNumber a) (bi_buildNumber b)
     \<and> OpcUaDateTime_equal (bi_buildDate a) (bi_buildDate b)"

definition ServerStatusDataType_copyTo ::
  "ServerStatusDataType \<Rightarrow> ServerStatusDataType \<Rightarrow> ServerStatusDataType" where
  "ServerStatusDataType_copyTo this other =
     other\<lparr>ss_startTime := ss_startTime this, ss_currentTime := ss_currentTime this,
           ss_serverState := ss_serverState this,
           ss_buildInfo := BuildInfo_copyTo (ss_buildInfo this) (ss_buildInfo other),
           ss_secondsTillShutdown := ss_secondsTillShutdown this,
           ss_shutdownReason := OpcUaLocalizedText_copyTo (ss_shutdownReason this) (ss_shutdownReason other)\<rparr>"

definition ServerStatusDataType_equal :: "ServerStatusDataType \<Rightarrow> ServerStatusDataType \<Rightarrow> bool" where
  "ServerStatusDataType_equal a b \<longleftrightarrow>
     OpcUaDateTime_equal (ss_startTime a) (ss_startTime b)
     \<and> OpcUaDateTime_equal (ss_currentTime a) (ss_currentTime b)
     \<and> ss_serverState a = ss_serverState b
     \<and> BuildInfo_equal (ss_buildInfo a) (ss_buildInfo b)
     \<and> ss_secondsTillShutdown a = ss_secondsTillShutdown b
     \<and> OpcUaLocalizedText_equal (ss_shutdownReason a) (ss_shutdownReason b)"

definition ModelChangeStructureDataType_copyTo ::
  "ModelChangeStructureDataType \<Rightarrow> ModelChangeStructureDataType \<Rightarrow> ModelChangeStructureDataType" where
  "ModelChangeStructureDataType_copyTo this other =
     other\<lparr>mc_affected := OpcUaNodeIdBase_copyTo (mc_affected this) (mc_affected other),
           mc_affectedType := OpcUaNodeIdBase_copyTo (mc_affectedType this) (mc_affectedType other),
           mc_verb := mc_verb this\<rparr>"

definition ModelChangeStructureDataType_equal ::
  "ModelChangeStructureDataType \<Rightarrow> ModelChangeStructureDataType \<Rightarrow> bool" where
  "ModelChangeStructureDataType_equal a b \<longleftrightarrow>
     OpcUaNodeIdBase_equal (mc_affected a) (mc_affected b)
     \<and> OpcUaNodeIdBase_equal (mc_affectedType a) (mc_affectedType b) \<and> mc_verb a = mc_verb b"

definition RedundantServerDataType_copyTo ::
  "RedundantServerDataType \<Rightarrow> RedundantServerDataType \<Rightarrow> RedundantServerDataType" where
  "RedundantServerDataType_copyTo this other =
     other\<lparr>rs_serverId := OpcUaString_copyTo (rs_serverId this) (rs_serverId other),
           rs_serviceLevel := rs_serviceLevel this, rs_serverState := rs_serverState this\<rparr>"

definition RedundantServerDataType_equal ::
  "RedundantServerDataType \<Rightarrow> RedundantServerDataType \<Rightarrow> bool" where
  "RedundantServerDataType_equal a b \<longleftrightarrow>
     OpcUaString_equal (rs_serverId a) (rs_serverId b)
     \<and> rs_serviceLevel a = rs_serviceLevel b \<and> rs_serverState a = rs_serverState b"

definition SamplingIntervalDiagnosticsDataType_copyTo ::
  "SamplingIntervalDiagnosticsDataType \<Rightarrow> SamplingIntervalDiagnosticsDataType
     \<Rightarrow> SamplingIntervalDiagnosticsDataType" where
  "SamplingIntervalDiagnosticsDataType_copyTo this other =
     other\<lparr>si_samplingRate := si_samplingRate this,
           si_sampledMonitoredItemsCount := si_sampledMonitoredItemsCount this,
           si_maxSampledMonitoredItemsCount := si_maxSampledMonitoredItemsCount this,
           si_disabledMonitoredItemsSamplingCount := si_disabledMonitoredItemsSamplingCount this\<rparr>"

definition SamplingIntervalDiagnosticsDataType_equal ::
  "SamplingIntervalDiagnosticsDataType \<Rightarrow> SamplingIntervalDiagnosticsDataType \<Rightarrow> bool" where
  "SamplingIntervalDiagnosticsDataType_equal a b \<longleftrightarrow>
     OpcUaDouble_equal (si_samplingRate a) (si_samplingRate b)
     \<and> si_sampledMonitoredItemsCount a = si_sampledMonitoredItemsCount b
     \<and> si_maxSampledMonitoredItemsCount a = si_maxSampledMonitoredItemsCount b
     \<and> si_disabledMonitoredItemsSamplingCount a = si_disabledMonitoredItemsSamplingCount b"

definition SemanticChangeStructureDataType_copyTo ::
  "SemanticChangeStructureDataType \<Rightarrow> SemanticChangeStructureDataType \<Rightarrow> SemanticChangeStructureDataType" where
  "SemanticChangeStructureDataType_copyTo this other =
     other\<lparr>sc_affected := OpcUaNodeIdBase_copyTo (sc_affected this) (sc_affected other),
           sc_affectedType := OpcUaNodeIdBase_copyTo (sc_affectedType this) (sc_affectedType other)\<rparr>"

definition SemanticChangeStructureDataType_equal ::
  "SemanticChangeStructureDataType \<Rightarrow> SemanticChangeStructureDataType \<Rightarrow> bool" where
  "SemanticChangeStructureDataType_equal a b \<longleftrightarrow>
     OpcUaNodeIdBase_equal (sc_affected a) (sc_affected b)
     \<and> OpcUaNodeIdBase_equal (sc_affectedType a) (sc_affectedType b)"

definition ServiceCounterDataType_copyTo ::
  "ServiceCounterDataType \<Rightarrow> ServiceCounterDataType \<Rightarrow> ServiceCounterDataType" where
  "ServiceCounterDataType_copyTo this other =
     other\<lparr>sv_totalCount := sv_totalCount this, sv_errorCount := sv_errorCount this\<rparr>"

definition ServiceCounterDataType_equal :: "ServiceCounterDataType \<Rightarrow> ServiceCounterDataType \<Rightarrow> bool" where
  "ServiceCounterDataType_equal a b \<longleftrightarrow>
     sv_totalCount a = sv_totalCount b \<and> sv_errorCount a = sv_errorCount b"

end
