(* ===== verification/ExtensionObjects.thy ===== *)
theory ExtensionObjects
  imports StandardTypes
begin

text \<open>
  \<^verbatim>\<open>OpcUaExtensionObject\<close>: a value of a type the decoder finds by its type id in the static
  factory map, or a raw byte string when the type is unknown.  The virtual functions of
  \<^verbatim>\<open>ExtensionObjectBase\<close> are a record of functions over an abstract object type.  The locale
  \<^verbatim>\<open>extension_types\<close> states what the coders rely on (a factory object reads back what the type
  writes), and it is interpreted on the standard data types with their real virtual functions.
\<close>

record 'e ExtensionObjectBase =
  ep_factory :: "'e \<Rightarrow> 'e"
  ep_encode :: "'e \<Rightarrow> stream"
  ep_decode :: "'e \<Rightarrow> 'e decoder"
  ep_copyTo :: "'e \<Rightarrow> 'e \<Rightarrow> 'e"
  ep_equal :: "'e \<Rightarrow> 'e \<Rightarrow> bool"

text \<open>The factory map: one prototype per type id.  It is only searched, never iterated.\<close>

type_synonym 'e ExtensionObjectMap = "(OpcUaNodeIdBase \<times> 'e) list"

definition OpcUaExtensionObject_findElement :: "'e ExtensionObjectMap \<Rightarrow> OpcUaNodeIdBase \<Rightarrow> 'e option" where
  "OpcUaExtensionObject_findElement reg n =
     map_option snd (find (\<lambda>(k, _). OpcUaNodeIdBase_equal k n) reg)"

definition OpcUaExtensionObject_insertElement ::
  "OpcUaNodeIdBase \<Rightarrow> 'e \<Rightarrow> 'e ExtensionObjectMap \<Rightarrow> bool \<times> 'e ExtensionObjectMap" where
  "OpcUaExtensionObject_insertElement n e reg =
     (if OpcUaExtensionObject_findElement reg n \<noteq> None then (False, reg) else (True, reg @ [(n, e)]))"

definition OpcUaExtensionObject_deleteElement ::
  "OpcUaNodeIdBase \<Rightarrow> 'e ExtensionObjectMap \<Rightarrow> bool \<times> 'e ExtensionObjectMap" where
  "OpcUaExtensionObject_deleteElement n reg =
     (if OpcUaExtensionObject_findElement reg n = None then (False, reg)
      else (True, filter (\<lambda>(k, _). \<not> OpcUaNodeIdBase_equal k n) reg))"

datatype Style = S_None | S_ByteString | S_Type

record 'e OpcUaExtensionObject =
  eo_style :: Style
  eo_typeId :: OpcUaNodeIdBase
  eo_epSPtr :: "'e option"
  eo_byteString :: "OpcUaByteString option"

definition OpcUaExtensionObject_new :: "'e OpcUaExtensionObject" where
  "OpcUaExtensionObject_new = \<lparr>eo_style = S_None, eo_typeId = OpcUaNodeIdBase_new,
     eo_epSPtr = None, eo_byteString = None\<rparr>"

definition OpcUaExtensionObject_createObject ::
  "'e ExtensionObjectBase \<Rightarrow> 'e ExtensionObjectMap \<Rightarrow> 'e OpcUaExtensionObject
     \<Rightarrow> bool \<times> 'e OpcUaExtensionObject" where
  "OpcUaExtensionObject_createObject ops reg this =
     (case OpcUaExtensionObject_findElement reg (eo_typeId this) of
        None \<Rightarrow> (False, this)
      | Some p \<Rightarrow> (True, this\<lparr>eo_style := S_Type, eo_epSPtr := Some (ep_factory ops p)\<rparr>))"

definition OpcUaExtensionObject_copyTo ::
  "'e ExtensionObjectBase \<Rightarrow> 'e ExtensionObjectMap \<Rightarrow> 'e OpcUaExtensionObject
     \<Rightarrow> 'e OpcUaExtensionObject \<Rightarrow> 'e OpcUaExtensionObject" where
  "OpcUaExtensionObject_copyTo ops reg this other =
     (case eo_style this of
        S_None \<Rightarrow> other
      | S_ByteString \<Rightarrow>
          (case eo_byteString this of
             None \<Rightarrow> other
           | Some bs \<Rightarrow>
               other\<lparr>eo_typeId := OpcUaNodeIdBase_copyTo (eo_typeId this) (eo_typeId other),
                     eo_style := S_ByteString,
                     eo_byteString := Some (OpcUaByteString_copyTo bs OpcUaByteString_new)\<rparr>)
      | S_Type \<Rightarrow>
          (case eo_epSPtr this of
             None \<Rightarrow> other
           | Some ep \<Rightarrow>
               (let other = other\<lparr>eo_typeId := OpcUaNodeIdBase_copyTo (eo_typeId this) (eo_typeId other)\<rparr>;
                    (ok, other) = OpcUaExtensionObject_createObject ops reg other
                in if \<not> ok then other
                   else other\<lparr>eo_epSPtr := map_option (ep_copyTo ops ep) (eo_epSPtr other)\<rparr>)))"

text \<open>
  \<^verbatim>\<open>operator==\<close> returns false when the object has no typed body, which is always so in the
  byte string style.  Comparing with an object that has no typed body dereferences a null pointer;
  the model returns false there.
\<close>

definition OpcUaExtensionObject_equal ::
  "'e ExtensionObjectBase \<Rightarrow> 'e OpcUaExtensionObject \<Rightarrow> 'e OpcUaExtensionObject \<Rightarrow> bool" where
  "OpcUaExtensionObject_equal ops a b =
     (case eo_epSPtr a of
        None \<Rightarrow> False
      | Some ep \<Rightarrow>
          (if eo_style a = S_ByteString then
             (case (eo_byteString a, eo_byteString b) of
                (None, None) \<Rightarrow> True
              | (Some x, Some y) \<Rightarrow> OpcUaByteString_equal x y
              | _ \<Rightarrow> False)
           else (case eo_epSPtr b of None \<Rightarrow> False | Some ep' \<Rightarrow> ep_equal ops ep ep')))"

definition OpcUaExtensionObject_null_body :: stream where
  "OpcUaExtensionObject_null_body = OpcUaByte_encode 0x00 @ OpcUaByte_encode 0x00 @ OpcUaByte_encode 0x00"

definition OpcUaExtensionObject_opcUaBinaryEncode ::
  "'e ExtensionObjectBase \<Rightarrow> 'e OpcUaExtensionObject \<Rightarrow> stream" where
  "OpcUaExtensionObject_opcUaBinaryEncode ops this =
     (case eo_style this of
        S_None \<Rightarrow> OpcUaExtensionObject_null_body
      | S_ByteString \<Rightarrow>
          (case eo_byteString this of
             None \<Rightarrow> OpcUaExtensionObject_null_body
           | Some bs \<Rightarrow> OpcUaNodeId_opcUaBinaryEncode (eo_typeId this) @ OpcUaByte_encode 0x01
                        @ OpcUaByteString_opcUaBinaryEncode bs)
      | S_Type \<Rightarrow>
          (case eo_epSPtr this of
             None \<Rightarrow> OpcUaExtensionObject_null_body
           | Some ep \<Rightarrow>
               (let osb = ep_encode ops ep
                in OpcUaNodeId_opcUaBinaryEncode (eo_typeId this) @ OpcUaByte_encode 0x01
                   @ OpcUaUInt32_encode (of_nat (length osb)) @ osb)))"

definition OpcUaExtensionObject_opcUaBinaryDecode ::
  "'e ExtensionObjectBase \<Rightarrow> 'e ExtensionObjectMap \<Rightarrow> 'e OpcUaExtensionObject
     \<Rightarrow> 'e OpcUaExtensionObject decoder" where
  "OpcUaExtensionObject_opcUaBinaryDecode ops reg this is = do {
     (t, is) \<leftarrow> OpcUaNodeId_opcUaBinaryDecode is;
     (encodingMask, is) \<leftarrow> OpcUaByte_decode is;
     if encodingMask = 0x00 then Some (this\<lparr>eo_typeId := t, eo_style := S_None\<rparr>, is)
     else case OpcUaExtensionObject_findElement reg t of
       None \<Rightarrow> do {
         (bs, is) \<leftarrow> OpcUaByteString_opcUaBinaryDecode is;
         Some (this\<lparr>eo_typeId := t, eo_style := S_ByteString, eo_byteString := Some bs\<rparr>, is) }
     | Some p \<Rightarrow> do {
         (bufferLength, is) \<leftarrow> OpcUaUInt32_decode is;
         (ep, is) \<leftarrow> ep_decode ops (ep_factory ops p) is;
         Some (this\<lparr>eo_typeId := t, eo_style := S_Type, eo_epSPtr := Some ep\<rparr>, is) } }"

section \<open>The contract of a family of registered types\<close>

locale extension_types =
  fixes ops :: "'e ExtensionObjectBase"
    and reg :: "'e ExtensionObjectMap"
    and ep_wf :: "'e \<Rightarrow> 'e \<Rightarrow> bool"
  assumes factory_decodes:
    "p \<in> snd ` set reg \<Longrightarrow> ep_wf p e \<Longrightarrow>
       ep_decode ops (ep_factory ops p) (ep_encode ops e @ rest) = Some (e, rest)"
begin

lemma findElement_mem:
  "OpcUaExtensionObject_findElement reg t = Some p \<Longrightarrow> p \<in> snd ` set reg"
  by (force simp: OpcUaExtensionObject_findElement_def find_Some_iff in_set_conv_nth)

end

text \<open>
  An extension object that is written completely: an absent value is the null type id without a
  body, a byte string has an unregistered type, and a typed body has a registered one.
\<close>

definition OpcUaExtensionObject_wf ::
  "'e ExtensionObjectMap \<Rightarrow> ('e \<Rightarrow> 'e \<Rightarrow> bool) \<Rightarrow> 'e OpcUaExtensionObject \<Rightarrow> bool" where
  "OpcUaExtensionObject_wf reg ep_wf eo \<longleftrightarrow>
     (case eo_style eo of
        S_None \<Rightarrow> eo_typeId eo = \<lparr>namespaceIndex = 0, nodeIdValue = NodeIdNumeric 0\<rparr>
                  \<and> eo_epSPtr eo = None \<and> eo_byteString eo = None
      | S_ByteString \<Rightarrow>
          OpcUaNodeId_wf (eo_typeId eo) \<and> OpcUaExtensionObject_findElement reg (eo_typeId eo) = None
          \<and> eo_epSPtr eo = None
          \<and> (case eo_byteString eo of None \<Rightarrow> False | Some bs \<Rightarrow> OpcUaByteString_wf bs)
      | S_Type \<Rightarrow>
          OpcUaNodeId_wf (eo_typeId eo) \<and> eo_byteString eo = None
          \<and> (case OpcUaExtensionObject_findElement reg (eo_typeId eo) of
               None \<Rightarrow> False
             | Some p \<Rightarrow> (case eo_epSPtr eo of None \<Rightarrow> False | Some ep \<Rightarrow> ep_wf p ep)))"

lemma decode_null_nodeid [codec_rt]:
  "OpcUaNodeId_opcUaBinaryDecode (OpcUaByte_encode 0x00 @ OpcUaByte_encode 0x00 @ rest)
     = Some (\<lparr>namespaceIndex = 0, nodeIdValue = NodeIdNumeric 0\<rparr>, rest)"
  by (simp add: OpcUaNodeId_opcUaBinaryDecode_def OpcUaNodeIdBase_opcUaBinaryDecode_def codec_rt
      OpcUaNodeIdBase_new_def)

context extension_types
begin

lemma extensionObject_round_trip:
  assumes "OpcUaExtensionObject_wf reg ep_wf eo"
  shows "OpcUaExtensionObject_opcUaBinaryDecode ops reg OpcUaExtensionObject_new
           (OpcUaExtensionObject_opcUaBinaryEncode ops eo @ rest) = Some (eo, rest)"
proof (cases "eo_style eo")
  case S_None
  with assms show ?thesis
    by (cases eo) (simp add: OpcUaExtensionObject_wf_def OpcUaExtensionObject_opcUaBinaryDecode_def
        OpcUaExtensionObject_opcUaBinaryEncode_def OpcUaExtensionObject_null_body_def codec_rt
        OpcUaExtensionObject_new_def)
next
  case S_ByteString
  with assms show ?thesis
    by (cases eo) (auto simp add: OpcUaExtensionObject_wf_def OpcUaExtensionObject_opcUaBinaryDecode_def
        OpcUaExtensionObject_opcUaBinaryEncode_def codec_rt OpcUaExtensionObject_new_def
        split: option.splits)
next
  case S_Type
  then obtain p ep where p: "OpcUaExtensionObject_findElement reg (eo_typeId eo) = Some p"
    and ep: "eo_epSPtr eo = Some ep" and wf: "ep_wf p ep" and bs: "eo_byteString eo = None"
    and t: "OpcUaNodeId_wf (eo_typeId eo)"
    using assms by (auto simp: OpcUaExtensionObject_wf_def split: option.splits)
  have "ep_decode ops (ep_factory ops p) (ep_encode ops ep @ rest) = Some (ep, rest)"
    using factory_decodes findElement_mem p wf by blast
  with S_Type p ep bs t show ?thesis
    by (cases eo) (simp add: OpcUaExtensionObject_opcUaBinaryDecode_def
        OpcUaExtensionObject_opcUaBinaryEncode_def codec_rt OpcUaExtensionObject_new_def Let_def)
qed

end

sublocale extension_types \<subseteq> extension_codec: codec "OpcUaExtensionObject_opcUaBinaryEncode ops"
  "OpcUaExtensionObject_opcUaBinaryDecode ops reg OpcUaExtensionObject_new"
  "OpcUaExtensionObject_wf reg ep_wf"
  by unfold_locales (rule extensionObject_round_trip)

section \<open>The standard data types as registered objects\<close>

definition BuildInfo_new :: BuildInfo where
  "BuildInfo_new = \<lparr>bi_productUri = OpcUaString_new, bi_manufacturerName = OpcUaString_new,
     bi_productName = OpcUaString_new, bi_softwareVersion = OpcUaString_new,
     bi_buildNumber = OpcUaString_new, bi_buildDate = 0\<rparr>"

definition ServerStatusDataType_new :: ServerStatusDataType where
  "ServerStatusDataType_new = \<lparr>ss_startTime = 0, ss_currentTime = 0, ss_serverState = 0,
     ss_buildInfo = BuildInfo_new, ss_secondsTillShutdown = 0, ss_shutdownReason = OpcUaLocalizedText_new\<rparr>"

definition ModelChangeStructureDataType_new :: ModelChangeStructureDataType where
  "ModelChangeStructureDataType_new =
     \<lparr>mc_affected = OpcUaNodeIdBase_new, mc_affectedType = OpcUaNodeIdBase_new, mc_verb = 0\<rparr>"

definition RedundantServerDataType_new :: RedundantServerDataType where
  "RedundantServerDataType_new = \<lparr>rs_serverId = OpcUaString_new, rs_serviceLevel = 0, rs_serverState = 0\<rparr>"

definition SamplingIntervalDiagnosticsDataType_new :: SamplingIntervalDiagnosticsDataType where
  "SamplingIntervalDiagnosticsDataType_new = \<lparr>si_samplingRate = 0, si_sampledMonitoredItemsCount = 0,
     si_maxSampledMonitoredItemsCount = 0, si_disabledMonitoredItemsSamplingCount = 0\<rparr>"

definition SemanticChangeStructureDataType_new :: SemanticChangeStructureDataType where
  "SemanticChangeStructureDataType_new =
     \<lparr>sc_affected = OpcUaNodeIdBase_new, sc_affectedType = OpcUaNodeIdBase_new\<rparr>"

definition ServiceCounterDataType_new :: ServiceCounterDataType where
  "ServiceCounterDataType_new = \<lparr>sv_totalCount = 0, sv_errorCount = 0\<rparr>"

datatype StandardObject =
    Obj_BuildInfo BuildInfo
  | Obj_ServerStatus ServerStatusDataType
  | Obj_ModelChange ModelChangeStructureDataType
  | Obj_RedundantServer RedundantServerDataType
  | Obj_SamplingInterval SamplingIntervalDiagnosticsDataType
  | Obj_SemanticChange SemanticChangeStructureDataType
  | Obj_ServiceCounter ServiceCounterDataType

fun StandardObject_factory :: "StandardObject \<Rightarrow> StandardObject" where
  "StandardObject_factory (Obj_BuildInfo _) = Obj_BuildInfo BuildInfo_new"
| "StandardObject_factory (Obj_ServerStatus _) = Obj_ServerStatus ServerStatusDataType_new"
| "StandardObject_factory (Obj_ModelChange _) = Obj_ModelChange ModelChangeStructureDataType_new"
| "StandardObject_factory (Obj_RedundantServer _) = Obj_RedundantServer RedundantServerDataType_new"
| "StandardObject_factory (Obj_SamplingInterval _) = Obj_SamplingInterval SamplingIntervalDiagnosticsDataType_new"
| "StandardObject_factory (Obj_SemanticChange _) = Obj_SemanticChange SemanticChangeStructureDataType_new"
| "StandardObject_factory (Obj_ServiceCounter _) = Obj_ServiceCounter ServiceCounterDataType_new"

fun StandardObject_encode :: "StandardObject \<Rightarrow> stream" where
  "StandardObject_encode (Obj_BuildInfo x) = BuildInfo_opcUaBinaryEncode x"
| "StandardObject_encode (Obj_ServerStatus x) = ServerStatusDataType_opcUaBinaryEncode x"
| "StandardObject_encode (Obj_ModelChange x) = ModelChangeStructureDataType_opcUaBinaryEncode x"
| "StandardObject_encode (Obj_RedundantServer x) = RedundantServerDataType_opcUaBinaryEncode x"
| "StandardObject_encode (Obj_SamplingInterval x) = SamplingIntervalDiagnosticsDataType_opcUaBinaryEncode x"
| "StandardObject_encode (Obj_SemanticChange x) = SemanticChangeStructureDataType_opcUaBinaryEncode x"
| "StandardObject_encode (Obj_ServiceCounter x) = ServiceCounterDataType_opcUaBinaryEncode x"

text \<open>The coders of these types overwrite every member, so the decoded object does not depend on the
  contents of the target, only on its type.\<close>

fun StandardObject_decode :: "StandardObject \<Rightarrow> StandardObject decoder" where
  "StandardObject_decode (Obj_BuildInfo _) is =
     map_option (\<lambda>(x, is). (Obj_BuildInfo x, is)) (BuildInfo_opcUaBinaryDecode is)"
| "StandardObject_decode (Obj_ServerStatus _) is =
     map_option (\<lambda>(x, is). (Obj_ServerStatus x, is)) (ServerStatusDataType_opcUaBinaryDecode is)"
| "StandardObject_decode (Obj_ModelChange _) is =
     map_option (\<lambda>(x, is). (Obj_ModelChange x, is)) (ModelChangeStructureDataType_opcUaBinaryDecode is)"
| "StandardObject_decode (Obj_RedundantServer _) is =
     map_option (\<lambda>(x, is). (Obj_RedundantServer x, is)) (RedundantServerDataType_opcUaBinaryDecode is)"
| "StandardObject_decode (Obj_SamplingInterval _) is =
     map_option (\<lambda>(x, is). (Obj_SamplingInterval x, is)) (SamplingIntervalDiagnosticsDataType_opcUaBinaryDecode is)"
| "StandardObject_decode (Obj_SemanticChange _) is =
     map_option (\<lambda>(x, is). (Obj_SemanticChange x, is)) (SemanticChangeStructureDataType_opcUaBinaryDecode is)"
| "StandardObject_decode (Obj_ServiceCounter _) is =
     map_option (\<lambda>(x, is). (Obj_ServiceCounter x, is)) (ServiceCounterDataType_opcUaBinaryDecode is)"

text \<open>Copying or comparing objects of two different types dereferences the null result of
  \<^verbatim>\<open>dynamic_cast\<close>; the model leaves the target alone and compares as different.\<close>

fun StandardObject_copyTo :: "StandardObject \<Rightarrow> StandardObject \<Rightarrow> StandardObject" where
  "StandardObject_copyTo (Obj_BuildInfo x) (Obj_BuildInfo y) = Obj_BuildInfo (BuildInfo_copyTo x y)"
| "StandardObject_copyTo (Obj_ServerStatus x) (Obj_ServerStatus y) = Obj_ServerStatus (ServerStatusDataType_copyTo x y)"
| "StandardObject_copyTo (Obj_ModelChange x) (Obj_ModelChange y) = Obj_ModelChange (ModelChangeStructureDataType_copyTo x y)"
| "StandardObject_copyTo (Obj_RedundantServer x) (Obj_RedundantServer y) = Obj_RedundantServer (RedundantServerDataType_copyTo x y)"
| "StandardObject_copyTo (Obj_SamplingInterval x) (Obj_SamplingInterval y) = Obj_SamplingInterval (SamplingIntervalDiagnosticsDataType_copyTo x y)"
| "StandardObject_copyTo (Obj_SemanticChange x) (Obj_SemanticChange y) = Obj_SemanticChange (SemanticChangeStructureDataType_copyTo x y)"
| "StandardObject_copyTo (Obj_ServiceCounter x) (Obj_ServiceCounter y) = Obj_ServiceCounter (ServiceCounterDataType_copyTo x y)"
| "StandardObject_copyTo _ y = y"

fun StandardObject_equal :: "StandardObject \<Rightarrow> StandardObject \<Rightarrow> bool" where
  "StandardObject_equal (Obj_BuildInfo x) (Obj_BuildInfo y) = BuildInfo_equal x y"
| "StandardObject_equal (Obj_ServerStatus x) (Obj_ServerStatus y) = ServerStatusDataType_equal x y"
| "StandardObject_equal (Obj_ModelChange x) (Obj_ModelChange y) = ModelChangeStructureDataType_equal x y"
| "StandardObject_equal (Obj_RedundantServer x) (Obj_RedundantServer y) = RedundantServerDataType_equal x y"
| "StandardObject_equal (Obj_SamplingInterval x) (Obj_SamplingInterval y) = SamplingIntervalDiagnosticsDataType_equal x y"
| "StandardObject_equal (Obj_SemanticChange x) (Obj_SemanticChange y) = SemanticChangeStructureDataType_equal x y"
| "StandardObject_equal (Obj_ServiceCounter x) (Obj_ServiceCounter y) = ServiceCounterDataType_equal x y"
| "StandardObject_equal _ _ = False"

definition StandardObject_ops :: "StandardObject ExtensionObjectBase" where
  "StandardObject_ops = \<lparr>ep_factory = StandardObject_factory, ep_encode = StandardObject_encode,
     ep_decode = StandardObject_decode, ep_copyTo = StandardObject_copyTo, ep_equal = StandardObject_equal\<rparr>"

definition registerFactoryElement ::
  "u32 \<Rightarrow> 'e \<Rightarrow> 'e ExtensionObjectMap \<Rightarrow> 'e ExtensionObjectMap" where
  "registerFactoryElement typeId p reg =
     snd (OpcUaExtensionObject_insertElement (OpcUaNodeIdBase_setNumeric typeId 0 OpcUaNodeIdBase_new) p reg)"

text \<open>The factory map after the registrations of these types in \<^verbatim>\<open>Core::initExtensionObject\<close>.\<close>

definition Core_extensionObjectMap :: "StandardObject ExtensionObjectMap" where
  "Core_extensionObjectMap =
     registerFactoryElement 873 (Obj_ServiceCounter ServiceCounterDataType_new)
     (registerFactoryElement 899 (Obj_SemanticChange SemanticChangeStructureDataType_new)
     (registerFactoryElement 858 (Obj_SamplingInterval SamplingIntervalDiagnosticsDataType_new)
     (registerFactoryElement 855 (Obj_RedundantServer RedundantServerDataType_new)
     (registerFactoryElement 879 (Obj_ModelChange ModelChangeStructureDataType_new)
     (registerFactoryElement 864 (Obj_ServerStatus ServerStatusDataType_new)
     (registerFactoryElement 340 (Obj_BuildInfo BuildInfo_new) []))))))"

fun StandardObject_wf :: "StandardObject \<Rightarrow> StandardObject \<Rightarrow> bool" where
  "StandardObject_wf (Obj_BuildInfo _) (Obj_BuildInfo x) = BuildInfo_wf x"
| "StandardObject_wf (Obj_ServerStatus _) (Obj_ServerStatus x) =
     (BuildInfo_wf (ss_buildInfo x) \<and> OpcUaLocalizedText_wf (ss_shutdownReason x))"
| "StandardObject_wf (Obj_ModelChange _) (Obj_ModelChange x) =
     (OpcUaNodeId_wf (mc_affected x) \<and> OpcUaNodeId_wf (mc_affectedType x))"
| "StandardObject_wf (Obj_RedundantServer _) (Obj_RedundantServer x) = OpcUaString_wf (rs_serverId x)"
| "StandardObject_wf (Obj_SamplingInterval _) (Obj_SamplingInterval x) = True"
| "StandardObject_wf (Obj_SemanticChange _) (Obj_SemanticChange x) =
     (OpcUaNodeId_wf (sc_affected x) \<and> OpcUaNodeId_wf (sc_affectedType x))"
| "StandardObject_wf (Obj_ServiceCounter _) (Obj_ServiceCounter x) = True"
| "StandardObject_wf _ _ = False"

lemmas standard_rt = buildinfo_codec.dec_enc serverstatus_codec.dec_enc modelchange_codec.dec_enc
  redundantserver_codec.dec_enc samplinginterval_codec.dec_enc semanticchange_codec.dec_enc
  servicecounter_codec.dec_enc

interpretation standard_types: extension_types StandardObject_ops Core_extensionObjectMap StandardObject_wf
proof
  fix p e :: StandardObject and rest
  assume "StandardObject_wf p e"
  then show "ep_decode StandardObject_ops (ep_factory StandardObject_ops p)
      (ep_encode StandardObject_ops e @ rest) = Some (e, rest)"
    by (cases "(p, e)" rule: StandardObject_wf.cases)
       (simp_all add: StandardObject_ops_def standard_rt)
qed

end
