(* ===== verification/ArrayContainer.thy ===== *)
theory ArrayContainer
  imports ByteOrder
begin

text \<open>
  \<^verbatim>\<open>OpcUaArray<T, CODER>\<close> (\<^verbatim>\<open>BuildInTypes/OpcUaArray.h\<close>): a heap buffer of \<^verbatim>\<open>maxArrayLen_\<close> elements
  of which the first \<^verbatim>\<open>actArrayLen_\<close> are in use, with a null flag. The element type's default
  value (what \<^verbatim>\<open>new T[n]\<close> leaves in a cell) is the parameter \<open>dflt\<close>; the coder is the pair of
  functions the template parameter \<^verbatim>\<open>CODER\<close> stands for.

  \<open>OpcUaArray_list\<close> is the abstraction to the sequence of elements in use, \<open>OpcUaArray_inv\<close> the
  well-formedness every operation keeps. The locale \<open>bounded_buffer\<close> is what the services that
  fill a response array rely on.
\<close>

record 'a OpcUaArray =
  isNull :: bool
  maxArrayLen :: nat
  actArrayLen :: nat
  valueArray :: "'a list"

definition OpcUaArray_initArray :: "'a \<Rightarrow> 'a OpcUaArray \<Rightarrow> 'a OpcUaArray" where
  "OpcUaArray_initArray dflt a =
     a\<lparr>valueArray := replicate (maxArrayLen a) dflt, actArrayLen := 0\<rparr>"

definition OpcUaArray_clearArray :: "'a OpcUaArray \<Rightarrow> 'a OpcUaArray" where
  "OpcUaArray_clearArray a = a\<lparr>valueArray := [], actArrayLen := 0, maxArrayLen := 1\<rparr>"

definition OpcUaArray_new :: "'a \<Rightarrow> nat \<Rightarrow> 'a OpcUaArray" where
  "OpcUaArray_new dflt n =
     OpcUaArray_initArray dflt
       \<lparr>isNull = False, maxArrayLen = n, actArrayLen = 0, valueArray = []\<rparr>"

definition OpcUaArray_resize :: "'a \<Rightarrow> nat \<Rightarrow> 'a OpcUaArray \<Rightarrow> 'a OpcUaArray" where
  "OpcUaArray_resize dflt n a =
     (let a = a\<lparr>isNull := False\<rparr>;
          a = OpcUaArray_clearArray a;
          a = a\<lparr>maxArrayLen := n\<rparr>
      in OpcUaArray_initArray dflt a)"

definition OpcUaArray_size :: "'a OpcUaArray \<Rightarrow> nat" where
  "OpcUaArray_size a = actArrayLen a"

definition OpcUaArray_freeSize :: "'a OpcUaArray \<Rightarrow> nat" where
  "OpcUaArray_freeSize a = maxArrayLen a - actArrayLen a"

definition OpcUaArray_clear :: "'a \<Rightarrow> 'a OpcUaArray \<Rightarrow> 'a OpcUaArray" where
  "OpcUaArray_clear dflt a = OpcUaArray_initArray dflt (OpcUaArray_clearArray a)"

definition OpcUaArray_setNull :: "'a \<Rightarrow> 'a OpcUaArray \<Rightarrow> 'a OpcUaArray" where
  "OpcUaArray_setNull dflt a =
     (OpcUaArray_initArray dflt (OpcUaArray_clearArray a))\<lparr>isNull := True\<rparr>"

definition OpcUaArray_set :: "nat \<Rightarrow> 'a \<Rightarrow> 'a OpcUaArray \<Rightarrow> bool \<times> 'a OpcUaArray" where
  "OpcUaArray_set pos v a =
     (if pos \<ge> maxArrayLen a then (False, a)
      else (True, a\<lparr>valueArray := (valueArray a)[pos := v],
                    actArrayLen := (if pos + 1 > actArrayLen a then pos + 1 else actArrayLen a)\<rparr>))"

definition OpcUaArray_push_back :: "'a \<Rightarrow> 'a OpcUaArray \<Rightarrow> bool \<times> 'a OpcUaArray" where
  "OpcUaArray_push_back v a = OpcUaArray_set (actArrayLen a) v a"

definition OpcUaArray_get :: "nat \<Rightarrow> 'a OpcUaArray \<Rightarrow> 'a option" where
  "OpcUaArray_get pos a = (if pos \<ge> actArrayLen a then None else Some (valueArray a ! pos))"

fun OpcUaArray_copy_loop ::
  "('a \<Rightarrow> 'a) \<Rightarrow> nat \<Rightarrow> 'a list \<Rightarrow> 'a OpcUaArray \<Rightarrow> 'a OpcUaArray" where
  "OpcUaArray_copy_loop cp idx [] a = a"
| "OpcUaArray_copy_loop cp idx (v # vs) a =
     OpcUaArray_copy_loop cp (Suc idx) vs (snd (OpcUaArray_set idx (cp v) a))"

text \<open>
  The copy constructor reads element 0 of the array under construction, not of its argument.
\<close>

fun OpcUaArray_copyConstruct_loop :: "'a \<Rightarrow> nat \<Rightarrow> 'a OpcUaArray \<Rightarrow> 'a OpcUaArray" where
  "OpcUaArray_copyConstruct_loop dflt 0 a = a"
| "OpcUaArray_copyConstruct_loop dflt (Suc n) a =
     (let v = (case OpcUaArray_get 0 a of None \<Rightarrow> dflt | Some v \<Rightarrow> v)
      in OpcUaArray_copyConstruct_loop dflt n (snd (OpcUaArray_push_back v a)))"

definition OpcUaArray_copyConstruct :: "'a \<Rightarrow> 'a OpcUaArray \<Rightarrow> 'a OpcUaArray" where
  "OpcUaArray_copyConstruct dflt other =
     OpcUaArray_copyConstruct_loop dflt (OpcUaArray_size other)
       (OpcUaArray_new dflt (OpcUaArray_size other))"

definition OpcUaArray_fromVector :: "'a \<Rightarrow> 'a list \<Rightarrow> 'a OpcUaArray" where
  "OpcUaArray_fromVector dflt vs =
     fold (\<lambda>v a. snd (OpcUaArray_push_back v a)) vs (OpcUaArray_new dflt (length vs))"

text \<open>\<^verbatim>\<open>copyTo\<close>: an empty source leaves the target as it was.\<close>

definition OpcUaArray_copyTo ::
  "('a \<Rightarrow> 'a) \<Rightarrow> 'a \<Rightarrow> 'a OpcUaArray \<Rightarrow> 'a OpcUaArray \<Rightarrow> 'a OpcUaArray" where
  "OpcUaArray_copyTo cp dflt this array =
     (if isNull this then OpcUaArray_setNull dflt array
      else if actArrayLen this = 0 then array
      else OpcUaArray_copy_loop cp 0 (take (actArrayLen this) (valueArray this))
             (OpcUaArray_resize dflt (actArrayLen this) array))"

fun OpcUaArray_eq_loop :: "('a \<Rightarrow> 'a \<Rightarrow> bool) \<Rightarrow> 'a list \<Rightarrow> 'a list \<Rightarrow> bool" where
  "OpcUaArray_eq_loop neq (x # xs) (y # ys) =
     (if neq x y then False else OpcUaArray_eq_loop neq xs ys)"
| "OpcUaArray_eq_loop neq _ _ = True"

definition OpcUaArray_equal ::
  "('a \<Rightarrow> 'a \<Rightarrow> bool) \<Rightarrow> 'a OpcUaArray \<Rightarrow> 'a OpcUaArray \<Rightarrow> bool" where
  "OpcUaArray_equal neq a b =
     (if actArrayLen a \<noteq> actArrayLen b then False
      else if isNull a \<noteq> isNull b then False
      else OpcUaArray_eq_loop neq (take (actArrayLen a) (valueArray a))
             (take (actArrayLen b) (valueArray b)))"

definition OpcUaArray_opcUaBinaryEncode ::
  "('a \<Rightarrow> stream) \<Rightarrow> 'a OpcUaArray \<Rightarrow> stream" where
  "OpcUaArray_opcUaBinaryEncode enc a =
     OpcUaUInt32_encode (word_of_nat (actArrayLen a))
       @ concat (map enc (take (actArrayLen a) (valueArray a)))"

fun OpcUaArray_decode_loop ::
  "'a decoder \<Rightarrow> nat \<Rightarrow> 'a OpcUaArray \<Rightarrow> 'a OpcUaArray decoder" where
  "OpcUaArray_decode_loop dec 0 a is = Some (a, is)"
| "OpcUaArray_decode_loop dec (Suc n) a is = do {
     (v, is) \<leftarrow> dec is;
     OpcUaArray_decode_loop dec n (snd (OpcUaArray_push_back v a)) is }"

definition OpcUaArray_opcUaBinaryDecode ::
  "'a decoder \<Rightarrow> 'a \<Rightarrow> 'a OpcUaArray \<Rightarrow> 'a OpcUaArray decoder" where
  "OpcUaArray_opcUaBinaryDecode dec dflt this is = do {
     (arrayLength, is) \<leftarrow> OpcUaInt32_decode is;
     (if sint arrayLength \<le> 0 then Some (this, is)
      else OpcUaArray_decode_loop dec (nat (sint arrayLength))
             (OpcUaArray_resize dflt (nat (sint arrayLength)) this) is) }"

section \<open>Well-formedness and abstraction\<close>

definition OpcUaArray_inv :: "'a OpcUaArray \<Rightarrow> bool" where
  "OpcUaArray_inv a \<longleftrightarrow> length (valueArray a) = maxArrayLen a \<and> actArrayLen a \<le> maxArrayLen a"

definition OpcUaArray_list :: "'a OpcUaArray \<Rightarrow> 'a list" where
  "OpcUaArray_list a = take (actArrayLen a) (valueArray a)"

lemmas array_defs = OpcUaArray_initArray_def OpcUaArray_clearArray_def OpcUaArray_new_def
  OpcUaArray_resize_def OpcUaArray_clear_def OpcUaArray_setNull_def OpcUaArray_set_def
  OpcUaArray_push_back_def OpcUaArray_get_def OpcUaArray_size_def OpcUaArray_freeSize_def
  OpcUaArray_inv_def OpcUaArray_list_def Let_def

lemma inv_new [simp]: "OpcUaArray_inv (OpcUaArray_new d n)"
  by (simp add: array_defs)

lemma inv_resize [simp]: "OpcUaArray_inv (OpcUaArray_resize d n a)"
  by (simp add: array_defs)

lemma inv_setNull [simp]: "OpcUaArray_inv (OpcUaArray_setNull d a)"
  by (simp add: array_defs)

lemma inv_clear [simp]: "OpcUaArray_inv (OpcUaArray_clear d a)"
  by (simp add: array_defs)

lemma inv_set: "OpcUaArray_inv a \<Longrightarrow> OpcUaArray_inv (snd (OpcUaArray_set p v a))"
  by (auto simp: array_defs)

lemma inv_push_back: "OpcUaArray_inv a \<Longrightarrow> OpcUaArray_inv (snd (OpcUaArray_push_back v a))"
  by (simp add: OpcUaArray_push_back_def inv_set)

lemma list_new [simp]: "OpcUaArray_list (OpcUaArray_new d n) = []"
  by (simp add: array_defs)

lemma list_resize [simp]: "OpcUaArray_list (OpcUaArray_resize d n a) = []"
  by (simp add: array_defs)

lemma max_resize [simp]: "maxArrayLen (OpcUaArray_resize d n a) = n"
  by (simp add: array_defs)

lemma free_resize [simp]: "OpcUaArray_freeSize (OpcUaArray_resize d n a) = n"
  by (simp add: array_defs)

lemma isNull_resize [simp]: "isNull (OpcUaArray_resize d n a) = False"
  by (simp add: array_defs)

lemma length_list: "OpcUaArray_inv a \<Longrightarrow> length (OpcUaArray_list a) = actArrayLen a"
  by (simp add: array_defs)

lemma size_list: "OpcUaArray_inv a \<Longrightarrow> OpcUaArray_size a = length (OpcUaArray_list a)"
  by (simp add: array_defs)

lemma get_list:
  "OpcUaArray_inv a \<Longrightarrow> OpcUaArray_get p a =
     (if p < length (OpcUaArray_list a) then Some (OpcUaArray_list a ! p) else None)"
  by (auto simp: array_defs)

lemma set_list_inside:
  "OpcUaArray_inv a \<Longrightarrow> p < length (OpcUaArray_list a) \<Longrightarrow>
     OpcUaArray_list (snd (OpcUaArray_set p v a)) = (OpcUaArray_list a)[p := v]"
  by (auto simp: array_defs take_update_swap)

lemma push_back_ok:
  "OpcUaArray_inv a \<Longrightarrow> 0 < OpcUaArray_freeSize a \<Longrightarrow>
     fst (OpcUaArray_push_back v a)
     \<and> OpcUaArray_list (snd (OpcUaArray_push_back v a)) = OpcUaArray_list a @ [v]
     \<and> OpcUaArray_freeSize (snd (OpcUaArray_push_back v a)) = OpcUaArray_freeSize a - 1"
  by (auto simp: array_defs take_Suc_conv_app_nth)

lemma push_back_full:
  "OpcUaArray_inv a \<Longrightarrow> OpcUaArray_freeSize a = 0 \<Longrightarrow> OpcUaArray_push_back v a = (False, a)"
  by (simp add: array_defs)

lemma isNull_push_back [simp]: "isNull (snd (OpcUaArray_push_back v a)) = isNull a"
  by (simp add: array_defs)

lemma isNull_push_all [simp]:
  "isNull (fold (\<lambda>v a. snd (OpcUaArray_push_back v a)) vs a) = isNull a"
  by (induction vs arbitrary: a) auto

lemma max_push_back [simp]: "maxArrayLen (snd (OpcUaArray_push_back v a)) = maxArrayLen a"
  by (simp add: array_defs)

section \<open>The buffer contract\<close>

locale bounded_buffer =
  fixes items :: "'b \<Rightarrow> 'a list"
    and free :: "'b \<Rightarrow> nat"
    and push :: "'a \<Rightarrow> 'b \<Rightarrow> 'b"
    and invar :: "'b \<Rightarrow> bool"
  assumes push_items: "invar b \<Longrightarrow> 0 < free b \<Longrightarrow> items (push x b) = items b @ [x]"
    and push_free: "invar b \<Longrightarrow> 0 < free b \<Longrightarrow> free (push x b) = free b - 1"
    and push_full: "invar b \<Longrightarrow> free b = 0 \<Longrightarrow> push x b = b"
    and push_invar: "invar b \<Longrightarrow> invar (push x b)"
begin

lemma push_all_invar: "invar b \<Longrightarrow> invar (fold push xs b)"
  by (induction xs arbitrary: b) (auto simp: push_invar)

lemma push_all:
  "invar b \<Longrightarrow> items (fold push xs b) = items b @ take (free b) xs
                \<and> free (fold push xs b) = free b - length xs"
proof (induction xs arbitrary: b)
  case (Cons x xs)
  show ?case
  proof (cases "free b")
    case 0
    with Cons.prems have "push x b = b" by (simp add: push_full)
    with Cons 0 show ?thesis by simp
  next
    case (Suc n)
    with Cons.prems have "items (push x b) = items b @ [x]" "free (push x b) = n" "invar (push x b)"
      by (simp_all add: push_items push_free push_invar)
    with Cons.IH [of "push x b"] Suc show ?thesis by simp
  qed
qed simp

lemma push_all_fits:
  "invar b \<Longrightarrow> length xs \<le> free b \<Longrightarrow> items (fold push xs b) = items b @ xs"
  by (simp add: push_all)

end

interpretation array_buffer: bounded_buffer OpcUaArray_list OpcUaArray_freeSize
  "\<lambda>v a. snd (OpcUaArray_push_back v a)" OpcUaArray_inv
  by unfold_locales (simp_all add: push_back_ok push_back_full inv_push_back)

section \<open>Copying and comparing\<close>

lemma copy_loop_list:
  "OpcUaArray_inv a \<Longrightarrow> idx = length (OpcUaArray_list a) \<Longrightarrow> length vs \<le> OpcUaArray_freeSize a \<Longrightarrow>
     OpcUaArray_list (OpcUaArray_copy_loop cp idx vs a) = OpcUaArray_list a @ map cp vs"
proof (induction vs arbitrary: a idx)
  case (Cons v vs)
  let ?a = "snd (OpcUaArray_push_back (cp v) a)"
  have eq: "OpcUaArray_set idx (cp v) a = OpcUaArray_push_back (cp v) a"
    using Cons.prems by (simp add: OpcUaArray_push_back_def length_list)
  from Cons.prems have "OpcUaArray_list ?a = OpcUaArray_list a @ [cp v]"
      "length vs \<le> OpcUaArray_freeSize ?a" "OpcUaArray_inv ?a"
    using push_back_ok [of a "cp v"] by (auto simp: inv_push_back)
  then show ?case using Cons.IH [of ?a "Suc idx"] Cons.prems eq by simp
qed simp

lemma eq_loop_iff:
  "length xs = length ys \<Longrightarrow> (\<And>x y. neq x y \<longleftrightarrow> x \<noteq> y) \<Longrightarrow> OpcUaArray_eq_loop neq xs ys \<longleftrightarrow> xs = ys"
  by (induction xs ys rule: list_induct2) auto

lemma copyConstruct_loop_list:
  "OpcUaArray_inv a \<Longrightarrow> OpcUaArray_list a = replicate m d \<Longrightarrow> n \<le> OpcUaArray_freeSize a \<Longrightarrow>
     OpcUaArray_list (OpcUaArray_copyConstruct_loop d n a) = replicate (m + n) d"
proof (induction n arbitrary: a m)
  case (Suc n)
  let ?a = "snd (OpcUaArray_push_back d a)"
  have v: "(case OpcUaArray_get 0 a of None \<Rightarrow> d | Some v \<Rightarrow> v) = d"
    using Suc.prems by (cases m) (auto simp: get_list)
  from Suc.prems have "OpcUaArray_list ?a = replicate (Suc m) d"
      "n \<le> OpcUaArray_freeSize ?a" "OpcUaArray_inv ?a"
    using push_back_ok [of a d] by (auto simp: inv_push_back replicate_append_same)
  then show ?case using Suc.IH [of ?a "Suc m"] v by (simp add: Let_def)
qed simp

lemma fromVector_list: "OpcUaArray_list (OpcUaArray_fromVector d vs) = vs"
  using array_buffer.push_all_fits [of "OpcUaArray_new d (length vs)" vs]
  by (simp add: OpcUaArray_fromVector_def) (simp add: array_defs)

section \<open>Round trip of an array of encodable elements\<close>

lemma uint32_as_int32: "OpcUaInt32_decode is = OpcUaUInt32_decode is"
  by (simp add: number_coder_defs)

context codec
begin

lemma decode_loop:
  "list_all wf vs \<Longrightarrow> OpcUaArray_decode_loop dec (length vs) a (concat (map enc vs) @ rest)
     = Some (fold (\<lambda>v a. snd (OpcUaArray_push_back v a)) vs a, rest)"
  by (induction vs arbitrary: a) (auto simp: dec_enc)

lemma array_round_trip:
  assumes "OpcUaArray_inv a" "list_all wf (OpcUaArray_list a)" "0 < actArrayLen a"
    and "actArrayLen a < 2 ^ 31"
  shows "\<exists>b. OpcUaArray_opcUaBinaryDecode dec dflt this (OpcUaArray_opcUaBinaryEncode enc a @ rest)
               = Some (b, rest)
           \<and> OpcUaArray_list b = OpcUaArray_list a \<and> \<not> isNull b \<and> OpcUaArray_inv b"
proof -
  let ?vs = "OpcUaArray_list a" and ?n = "actArrayLen a"
  let ?r = "OpcUaArray_resize dflt ?n this"
  let ?b = "fold (\<lambda>v a. snd (OpcUaArray_push_back v a)) ?vs ?r"
  have n: "sint (word_of_nat ?n :: u32) = int ?n" by (rule sint_word_of_nat_u32) (rule assms(4))
  have len: "length ?vs = ?n" using assms(1) by (rule length_list)
  have "OpcUaArray_opcUaBinaryDecode dec dflt this (OpcUaArray_opcUaBinaryEncode enc a @ rest)
          = Some (?b, rest)"
    using assms(2,3) decode_loop [of ?vs ?r rest] len n
    by (simp add: OpcUaArray_opcUaBinaryDecode_def OpcUaArray_opcUaBinaryEncode_def
        uint32_as_int32 number_rt OpcUaArray_list_def [symmetric])
  moreover have "OpcUaArray_list ?b = ?vs"
    using array_buffer.push_all_fits [of ?r ?vs] len by simp
  moreover have "OpcUaArray_inv ?b" by (rule array_buffer.push_all_invar) simp
  ultimately show ?thesis by auto
qed

lemma empty_array_keeps_target:
  "actArrayLen a = 0 \<Longrightarrow>
     OpcUaArray_opcUaBinaryDecode dec dflt this (OpcUaArray_opcUaBinaryEncode enc a @ rest)
       = Some (this, rest)"
  by (simp add: OpcUaArray_opcUaBinaryDecode_def OpcUaArray_opcUaBinaryEncode_def
      uint32_as_int32 number_rt)

end

section \<open>Properties\<close>

text \<open>appending values to an array keeps its elements and takes the values in order as long as there
  is room, and ignores the others.\<close>

theorem array_push_back_all:
  assumes "OpcUaArray_inv a"
  shows "OpcUaArray_list (fold (\<lambda>v a. snd (OpcUaArray_push_back v a)) vs a)
           = OpcUaArray_list a @ take (OpcUaArray_freeSize a) vs"
  using array_buffer.push_all [OF assms, of vs] by simp

theorem array_push_back_all_witness:
  "OpcUaArray_list (fold (\<lambda>v a. snd (OpcUaArray_push_back v a)) [1, 2, 3 :: nat] (OpcUaArray_new 0 2)) = [1, 2]"
  using array_push_back_all [of "OpcUaArray_new (0 :: nat) 2" "[1, 2, 3]"]
  by (simp add: array_defs)

text \<open>an array of node numbers that is not empty comes back from its encoding element by element,
  whatever the target array held before.\<close>

theorem uint32_array_round_trip:
  assumes "OpcUaArray_inv a" "0 < actArrayLen a" "actArrayLen a < 2 ^ 31"
  shows "\<exists>b. OpcUaArray_opcUaBinaryDecode OpcUaUInt32_decode dflt this
      (OpcUaArray_opcUaBinaryEncode OpcUaUInt32_encode a @ rest) = Some (b, rest)
    \<and> OpcUaArray_list b = OpcUaArray_list a \<and> \<not> isNull b \<and> OpcUaArray_inv b"
  using assms by (intro uint32_codec.array_round_trip) (auto simp: list_all_iff)

theorem uint32_array_round_trip_witness:
  "\<exists>b. OpcUaArray_opcUaBinaryDecode OpcUaUInt32_decode 0 (OpcUaArray_new 0 0)
      (OpcUaArray_opcUaBinaryEncode OpcUaUInt32_encode (OpcUaArray_fromVector 0 [7, 8]) @ []) = Some (b, [])
    \<and> OpcUaArray_list b = [7, 8]"
proof -
  have "OpcUaArray_inv (OpcUaArray_fromVector 0 [7, 8 :: u32])" "actArrayLen (OpcUaArray_fromVector 0 [7, 8 :: u32]) = 2"
    by (simp_all add: OpcUaArray_fromVector_def array_defs)
  then show ?thesis
    using uint32_array_round_trip [of "OpcUaArray_fromVector 0 [7, 8]" 0 "OpcUaArray_new 0 0" "[]"]
    by (auto simp: fromVector_list)
qed

text \<open>an empty array is written as length zero, and reading it leaves the target array as it is, so
  a target that is not empty keeps its elements.\<close>

theorem empty_array_decode_keeps_target:
  assumes "actArrayLen a = 0"
  shows "OpcUaArray_opcUaBinaryDecode OpcUaUInt32_decode dflt this
      (OpcUaArray_opcUaBinaryEncode OpcUaUInt32_encode a @ rest) = Some (this, rest)"
  using assms by (rule uint32_codec.empty_array_keeps_target)

theorem empty_array_decode_keeps_target_witness:
  "OpcUaArray_opcUaBinaryDecode OpcUaUInt32_decode 0 (OpcUaArray_fromVector 0 [7])
      (OpcUaArray_opcUaBinaryEncode OpcUaUInt32_encode (OpcUaArray_new 0 3) @ []) = Some (OpcUaArray_fromVector 0 [7], [])"
  by (rule empty_array_decode_keeps_target) (simp add: array_defs)

end
