(* ===== verification/Variants.thy ===== *)
theory Variants
  imports ExtensionObjects ArrayContainer
begin

text \<open>
  \<^verbatim>\<open>OpcUaVariantValue\<close>, the tagged union of the built-in types, and \<^verbatim>\<open>OpcUaVariant\<close>, a
  scalar or (multi-dimensional) array of such values: construction, copying, comparison and the
  binary coders.  The round trip of the coders is proved once in the locale \<^verbatim>\<open>extension_types\<close>, for
  every family of extension objects that satisfies its contract.
\<close>

section \<open>OpcUaVariantValue\<close>

datatype 'e OpcUaVariantValue =
    VNull
  | VBoolean (getBoolean: bool)
  | VSByte (getSByte: u8)
  | VByte (getByte: u8)
  | VInt16 (getInt16: u16)
  | VUInt16 (getUInt16: u16)
  | VInt32 (getInt32: u32)
  | VUInt32 (getUInt32: u32)
  | VInt64 (getInt64: u64)
  | VUInt64 (getUInt64: u64)
  | VFloat (getFloat: u32)
  | VDouble (getDouble: u64)
  | VString (getString: OpcUaString)
  | VDateTime (getDateTime: OpcUaDateTime)
  | VGuid (getGuid: OpcUaGuid)
  | VByteString (getByteString: OpcUaByteString)
  | VXmlElement
  | VNodeId (getNodeId: OpcUaNodeIdBase)
  | VExpandedNodeId (getExpandedNodeId: OpcUaExpandedNodeId)
  | VStatusCode (getStatusCode: u32)
  | VQualifiedName (getQualifiedName: OpcUaQualifiedName)
  | VLocalizedText (getLocalizedText: OpcUaLocalizedText)
  | VExtensionObject (getExtensionObject: "'e OpcUaExtensionObject")

text \<open>The numbers of \<^verbatim>\<open>OpcUaBuildInType\<close>; 0 is \<^verbatim>\<open>OpcUaBuildInType_Unknown\<close>.\<close>

fun OpcUaVariantValue_variantType :: "'e OpcUaVariantValue \<Rightarrow> nat" where
  "OpcUaVariantValue_variantType VNull = 0"
| "OpcUaVariantValue_variantType (VBoolean _) = 1"
| "OpcUaVariantValue_variantType (VSByte _) = 2"
| "OpcUaVariantValue_variantType (VByte _) = 3"
| "OpcUaVariantValue_variantType (VInt16 _) = 4"
| "OpcUaVariantValue_variantType (VUInt16 _) = 5"
| "OpcUaVariantValue_variantType (VInt32 _) = 6"
| "OpcUaVariantValue_variantType (VUInt32 _) = 7"
| "OpcUaVariantValue_variantType (VInt64 _) = 8"
| "OpcUaVariantValue_variantType (VUInt64 _) = 9"
| "OpcUaVariantValue_variantType (VFloat _) = 10"
| "OpcUaVariantValue_variantType (VDouble _) = 11"
| "OpcUaVariantValue_variantType (VString _) = 12"
| "OpcUaVariantValue_variantType (VDateTime _) = 13"
| "OpcUaVariantValue_variantType (VGuid _) = 14"
| "OpcUaVariantValue_variantType (VByteString _) = 15"
| "OpcUaVariantValue_variantType VXmlElement = 16"
| "OpcUaVariantValue_variantType (VNodeId _) = 17"
| "OpcUaVariantValue_variantType (VExpandedNodeId _) = 18"
| "OpcUaVariantValue_variantType (VStatusCode _) = 19"
| "OpcUaVariantValue_variantType (VQualifiedName _) = 20"
| "OpcUaVariantValue_variantType (VLocalizedText _) = 21"
| "OpcUaVariantValue_variantType (VExtensionObject _) = 22"

definition OpcUaVariantValue_isNull :: "'e OpcUaVariantValue \<Rightarrow> bool" where
  "OpcUaVariantValue_isNull v \<longleftrightarrow> OpcUaVariantValue_variantType v = 0"

text \<open>The selectors \<^verbatim>\<open>getBoolean\<close>, \<^verbatim>\<open>getSByte\<close>, ... stand for \<^verbatim>\<open>boost::get\<close> on the
  right operand, which the type test before them makes safe.\<close>

definition OpcUaVariantValue_equal ::
  "'e ExtensionObjectBase \<Rightarrow> 'e OpcUaVariantValue \<Rightarrow> 'e OpcUaVariantValue \<Rightarrow> bool" where
  "OpcUaVariantValue_equal ops a b =
     (if OpcUaVariantValue_variantType b \<noteq> OpcUaVariantValue_variantType a then False
      else case a of
        VNull \<Rightarrow> True
      | VXmlElement \<Rightarrow> False
      | VBoolean x \<Rightarrow> x = (getBoolean b)
      | VSByte x \<Rightarrow> x = (getSByte b)
      | VByte x \<Rightarrow> x = (getByte b)
      | VInt16 x \<Rightarrow> x = (getInt16 b)
      | VUInt16 x \<Rightarrow> x = (getUInt16 b)
      | VInt32 x \<Rightarrow> x = (getInt32 b)
      | VUInt32 x \<Rightarrow> x = (getUInt32 b)
      | VInt64 x \<Rightarrow> x = (getInt64 b)
      | VUInt64 x \<Rightarrow> x = (getUInt64 b)
      | VFloat x \<Rightarrow> OpcUaFloat_equal x (getFloat b)
      | VDouble x \<Rightarrow> OpcUaDouble_equal x (getDouble b)
      | VString x \<Rightarrow> OpcUaString_equal x (getString b)
      | VDateTime x \<Rightarrow> OpcUaDateTime_equal x (getDateTime b)
      | VGuid x \<Rightarrow> OpcUaGuid_equal x (getGuid b)
      | VByteString x \<Rightarrow> OpcUaByteString_equal x (getByteString b)
      | VNodeId x \<Rightarrow> OpcUaNodeIdBase_equal x (getNodeId b)
      | VExpandedNodeId x \<Rightarrow> OpcUaExpandedNodeId_equal x (getExpandedNodeId b)
      | VStatusCode x \<Rightarrow> x = (getStatusCode b)
      | VQualifiedName x \<Rightarrow> OpcUaQualifiedName_equal x (getQualifiedName b)
      | VLocalizedText x \<Rightarrow> OpcUaLocalizedText_equal x (getLocalizedText b)
      | VExtensionObject x \<Rightarrow> OpcUaExtensionObject_equal ops x (getExtensionObject b))"

text \<open>
  \<^verbatim>\<open>operator<\<close> is false on different types.  Status codes are compared with \<^verbatim>\<open>==\<close>, and
  qualified names, which have no \<^verbatim>\<open>operator<\<close>, through their conversion to the namespace index.
\<close>

definition OpcUaVariantValue_less :: "'e OpcUaVariantValue \<Rightarrow> 'e OpcUaVariantValue \<Rightarrow> bool" where
  "OpcUaVariantValue_less a b =
     (if OpcUaVariantValue_variantType b \<noteq> OpcUaVariantValue_variantType a then False
      else case a of
        VBoolean x \<Rightarrow> \<not> x \<and> (getBoolean b)
      | VSByte x \<Rightarrow> sint x < sint (getSByte b)
      | VByte x \<Rightarrow> x < (getByte b)
      | VInt16 x \<Rightarrow> sint x < sint (getInt16 b)
      | VUInt16 x \<Rightarrow> x < (getUInt16 b)
      | VInt32 x \<Rightarrow> sint x < sint (getInt32 b)
      | VUInt32 x \<Rightarrow> x < (getUInt32 b)
      | VInt64 x \<Rightarrow> sint x < sint (getInt64 b)
      | VUInt64 x \<Rightarrow> x < (getUInt64 b)
      | VFloat x \<Rightarrow> OpcUaFloat_less x (getFloat b)
      | VDouble x \<Rightarrow> OpcUaDouble_less x (getDouble b)
      | VString x \<Rightarrow> OpcUaString_less x (getString b)
      | VDateTime x \<Rightarrow> x < (getDateTime b)
      | VGuid x \<Rightarrow> OpcUaGuid_less x (getGuid b)
      | VByteString x \<Rightarrow> OpcUaByteString_less x (getByteString b)
      | VNodeId x \<Rightarrow> OpcUaNodeIdBase_less x (getNodeId b)
      | VExpandedNodeId x \<Rightarrow> OpcUaNodeIdBase_less (exp_base x) (exp_base (getExpandedNodeId b))
      | VStatusCode x \<Rightarrow> x = (getStatusCode b)
      | VQualifiedName x \<Rightarrow> qn_namespaceIndex x < qn_namespaceIndex (getQualifiedName b)
      | _ \<Rightarrow> False)"

definition OpcUaVariantValue_less_eq ::
  "'e ExtensionObjectBase \<Rightarrow> 'e OpcUaVariantValue \<Rightarrow> 'e OpcUaVariantValue \<Rightarrow> bool" where
  "OpcUaVariantValue_less_eq ops a b \<longleftrightarrow> OpcUaVariantValue_equal ops a b \<or> OpcUaVariantValue_less a b"

definition OpcUaVariantValue_greater ::
  "'e ExtensionObjectBase \<Rightarrow> 'e OpcUaVariantValue \<Rightarrow> 'e OpcUaVariantValue \<Rightarrow> bool" where
  "OpcUaVariantValue_greater ops a b \<longleftrightarrow>
     \<not> OpcUaVariantValue_equal ops a b \<and> \<not> OpcUaVariantValue_less a b"

definition OpcUaVariantValue_greater_eq :: "'e OpcUaVariantValue \<Rightarrow> 'e OpcUaVariantValue \<Rightarrow> bool" where
  "OpcUaVariantValue_greater_eq a b \<longleftrightarrow> \<not> OpcUaVariantValue_less a b"

text \<open>\<^verbatim>\<open>copyTo\<close> a target: an XML element and a null value leave it as it is.\<close>

fun OpcUaVariantValue_copyTo ::
  "'e ExtensionObjectBase \<Rightarrow> 'e ExtensionObjectMap \<Rightarrow> 'e OpcUaVariantValue
     \<Rightarrow> 'e OpcUaVariantValue \<Rightarrow> 'e OpcUaVariantValue" where
  "OpcUaVariantValue_copyTo ops reg VNull other = other"
| "OpcUaVariantValue_copyTo ops reg (VBoolean x) other = VBoolean x"
| "OpcUaVariantValue_copyTo ops reg (VSByte x) other = VSByte x"
| "OpcUaVariantValue_copyTo ops reg (VByte x) other = VByte x"
| "OpcUaVariantValue_copyTo ops reg (VInt16 x) other = VInt16 x"
| "OpcUaVariantValue_copyTo ops reg (VUInt16 x) other = VUInt16 x"
| "OpcUaVariantValue_copyTo ops reg (VInt32 x) other = VInt32 x"
| "OpcUaVariantValue_copyTo ops reg (VUInt32 x) other = VUInt32 x"
| "OpcUaVariantValue_copyTo ops reg (VInt64 x) other = VInt64 x"
| "OpcUaVariantValue_copyTo ops reg (VUInt64 x) other = VUInt64 x"
| "OpcUaVariantValue_copyTo ops reg (VFloat x) other = VFloat x"
| "OpcUaVariantValue_copyTo ops reg (VDouble x) other = VDouble x"
| "OpcUaVariantValue_copyTo ops reg (VString x) other = VString (OpcUaString_copyTo x OpcUaString_new)"
| "OpcUaVariantValue_copyTo ops reg (VDateTime x) other = VDateTime x"
| "OpcUaVariantValue_copyTo ops reg (VGuid x) other = VGuid (OpcUaGuid_copyTo x OpcUaGuid_new)"
| "OpcUaVariantValue_copyTo ops reg (VByteString x) other = VByteString (OpcUaByteString_copyTo x OpcUaByteString_new)"
| "OpcUaVariantValue_copyTo ops reg VXmlElement other = other"
| "OpcUaVariantValue_copyTo ops reg (VNodeId x) other = VNodeId (OpcUaNodeIdBase_copyTo x OpcUaNodeIdBase_new)"
| "OpcUaVariantValue_copyTo ops reg (VExpandedNodeId x) other = VExpandedNodeId (OpcUaExpandedNodeId_copyTo x OpcUaExpandedNodeId_new)"
| "OpcUaVariantValue_copyTo ops reg (VStatusCode x) other = VStatusCode x"
| "OpcUaVariantValue_copyTo ops reg (VQualifiedName x) other = VQualifiedName (OpcUaQualifiedName_copyTo x OpcUaQualifiedName_new)"
| "OpcUaVariantValue_copyTo ops reg (VLocalizedText x) other = VLocalizedText (OpcUaLocalizedText_copyTo x OpcUaLocalizedText_new)"
| "OpcUaVariantValue_copyTo ops reg (VExtensionObject x) other = VExtensionObject (OpcUaExtensionObject_copyTo ops reg x OpcUaExtensionObject_new)"

text \<open>
  The encoder is told the type of the first element of the variant; \<^verbatim>\<open>boost::get\<close> throws when the
  value holds another type, which is \<^term>\<open>None\<close> here.  An XML element writes nothing.
\<close>

fun OpcUaVariantValue_opcUaBinaryEncode ::
  "'e ExtensionObjectBase \<Rightarrow> nat \<Rightarrow> 'e OpcUaVariantValue \<Rightarrow> stream option" where
  "OpcUaVariantValue_opcUaBinaryEncode ops variantType VNull = (if variantType = 0 then Some [] else None)"
| "OpcUaVariantValue_opcUaBinaryEncode ops variantType (VBoolean x) =
     (if variantType = 1 then Some (OpcUaBoolean_encode x) else None)"
| "OpcUaVariantValue_opcUaBinaryEncode ops variantType (VSByte x) =
     (if variantType = 2 then Some (OpcUaSByte_encode x) else None)"
| "OpcUaVariantValue_opcUaBinaryEncode ops variantType (VByte x) =
     (if variantType = 3 then Some (OpcUaByte_encode x) else None)"
| "OpcUaVariantValue_opcUaBinaryEncode ops variantType (VInt16 x) =
     (if variantType = 4 then Some (OpcUaInt16_encode x) else None)"
| "OpcUaVariantValue_opcUaBinaryEncode ops variantType (VUInt16 x) =
     (if variantType = 5 then Some (OpcUaUInt16_encode x) else None)"
| "OpcUaVariantValue_opcUaBinaryEncode ops variantType (VInt32 x) =
     (if variantType = 6 then Some (OpcUaInt32_encode x) else None)"
| "OpcUaVariantValue_opcUaBinaryEncode ops variantType (VUInt32 x) =
     (if variantType = 7 then Some (OpcUaUInt32_encode x) else None)"
| "OpcUaVariantValue_opcUaBinaryEncode ops variantType (VInt64 x) =
     (if variantType = 8 then Some (OpcUaInt64_encode x) else None)"
| "OpcUaVariantValue_opcUaBinaryEncode ops variantType (VUInt64 x) =
     (if variantType = 9 then Some (OpcUaUInt64_encode x) else None)"
| "OpcUaVariantValue_opcUaBinaryEncode ops variantType (VFloat x) =
     (if variantType = 10 then Some (OpcUaFloat_encode x) else None)"
| "OpcUaVariantValue_opcUaBinaryEncode ops variantType (VDouble x) =
     (if variantType = 11 then Some (OpcUaDouble_encode x) else None)"
| "OpcUaVariantValue_opcUaBinaryEncode ops variantType (VString x) =
     (if variantType = 12 then Some (OpcUaString_opcUaBinaryEncode x) else None)"
| "OpcUaVariantValue_opcUaBinaryEncode ops variantType (VDateTime x) =
     (if variantType = 13 then Some (OpcUaDateTime_opcUaBinaryEncode x) else None)"
| "OpcUaVariantValue_opcUaBinaryEncode ops variantType (VGuid x) =
     (if variantType = 14 then Some (OpcUaGuid_opcUaBinaryEncode x) else None)"
| "OpcUaVariantValue_opcUaBinaryEncode ops variantType (VByteString x) =
     (if variantType = 15 then Some (OpcUaByteString_opcUaBinaryEncode x) else None)"
| "OpcUaVariantValue_opcUaBinaryEncode ops variantType VXmlElement = (if variantType = 16 then Some [] else None)"
| "OpcUaVariantValue_opcUaBinaryEncode ops variantType (VNodeId x) =
     (if variantType = 17 then Some (OpcUaNodeId_opcUaBinaryEncode x) else None)"
| "OpcUaVariantValue_opcUaBinaryEncode ops variantType (VExpandedNodeId x) =
     (if variantType = 18 then Some (OpcUaExpandedNodeId_opcUaBinaryEncode x) else None)"
| "OpcUaVariantValue_opcUaBinaryEncode ops variantType (VStatusCode x) =
     (if variantType = 19 then Some (OpcUaInt32_encode x) else None)"
| "OpcUaVariantValue_opcUaBinaryEncode ops variantType (VQualifiedName x) =
     (if variantType = 20 then Some (OpcUaQualifiedName_opcUaBinaryEncode x) else None)"
| "OpcUaVariantValue_opcUaBinaryEncode ops variantType (VLocalizedText x) =
     (if variantType = 21 then Some (OpcUaLocalizedText_opcUaBinaryEncode x) else None)"
| "OpcUaVariantValue_opcUaBinaryEncode ops variantType (VExtensionObject x) =
     (if variantType = 22 then Some (OpcUaExtensionObject_opcUaBinaryEncode ops x) else None)"

text \<open>A type number that is no case of the switch reads nothing and leaves the value as it is.\<close>

definition OpcUaVariantValue_opcUaBinaryDecode ::
  "'e ExtensionObjectBase \<Rightarrow> 'e ExtensionObjectMap \<Rightarrow> nat \<Rightarrow> 'e OpcUaVariantValue
     \<Rightarrow> 'e OpcUaVariantValue decoder" where
  "OpcUaVariantValue_opcUaBinaryDecode ops reg variantType this is =
     (if variantType = 1 then map_option (\<lambda>(x, is). (VBoolean x, is)) (OpcUaBoolean_decode is)
      else if variantType = 2 then map_option (\<lambda>(x, is). (VSByte x, is)) (OpcUaSByte_decode is)
      else if variantType = 3 then map_option (\<lambda>(x, is). (VByte x, is)) (OpcUaByte_decode is)
      else if variantType = 4 then map_option (\<lambda>(x, is). (VInt16 x, is)) (OpcUaInt16_decode is)
      else if variantType = 5 then map_option (\<lambda>(x, is). (VUInt16 x, is)) (OpcUaUInt16_decode is)
      else if variantType = 6 then map_option (\<lambda>(x, is). (VInt32 x, is)) (OpcUaInt32_decode is)
      else if variantType = 7 then map_option (\<lambda>(x, is). (VUInt32 x, is)) (OpcUaUInt32_decode is)
      else if variantType = 8 then map_option (\<lambda>(x, is). (VInt64 x, is)) (OpcUaInt64_decode is)
      else if variantType = 9 then map_option (\<lambda>(x, is). (VUInt64 x, is)) (OpcUaUInt64_decode is)
      else if variantType = 10 then map_option (\<lambda>(x, is). (VFloat x, is)) (OpcUaFloat_decode is)
      else if variantType = 11 then map_option (\<lambda>(x, is). (VDouble x, is)) (OpcUaDouble_decode is)
      else if variantType = 12 then map_option (\<lambda>(x, is). (VString x, is)) (OpcUaString_opcUaBinaryDecode is)
      else if variantType = 13 then map_option (\<lambda>(x, is). (VDateTime x, is)) (OpcUaDateTime_opcUaBinaryDecode is)
      else if variantType = 14 then map_option (\<lambda>(x, is). (VGuid x, is)) (OpcUaGuid_opcUaBinaryDecode is)
      else if variantType = 15 then map_option (\<lambda>(x, is). (VByteString x, is)) (OpcUaByteString_opcUaBinaryDecode is)
      else if variantType = 16 then Some (VXmlElement, is)
      else if variantType = 17 then map_option (\<lambda>(x, is). (VNodeId x, is)) (OpcUaNodeId_opcUaBinaryDecode is)
      else if variantType = 18 then map_option (\<lambda>(x, is). (VExpandedNodeId x, is)) (OpcUaExpandedNodeId_opcUaBinaryDecode OpcUaExpandedNodeId_new is)
      else if variantType = 19 then map_option (\<lambda>(x, is). (VStatusCode x, is)) (OpcUaInt32_decode is)
      else if variantType = 20 then map_option (\<lambda>(x, is). (VQualifiedName x, is)) (OpcUaQualifiedName_opcUaBinaryDecode is)
      else if variantType = 21 then map_option (\<lambda>(x, is). (VLocalizedText x, is)) (OpcUaLocalizedText_opcUaBinaryDecode OpcUaLocalizedText_new is)
      else if variantType = 22 then map_option (\<lambda>(x, is). (VExtensionObject x, is)) (OpcUaExtensionObject_opcUaBinaryDecode ops reg OpcUaExtensionObject_new is)
      else Some (this, is))"

fun OpcUaVariantValue_wf ::
  "'e ExtensionObjectMap \<Rightarrow> ('e \<Rightarrow> 'e \<Rightarrow> bool) \<Rightarrow> 'e OpcUaVariantValue \<Rightarrow> bool" where
  "OpcUaVariantValue_wf reg ep_wf VNull = False"
| "OpcUaVariantValue_wf reg ep_wf (VString x) = OpcUaString_wf x"
| "OpcUaVariantValue_wf reg ep_wf (VGuid x) = OpcUaGuid_wf x"
| "OpcUaVariantValue_wf reg ep_wf (VByteString x) = OpcUaByteString_wf x"
| "OpcUaVariantValue_wf reg ep_wf (VNodeId x) = OpcUaNodeId_wf x"
| "OpcUaVariantValue_wf reg ep_wf (VExpandedNodeId x) = OpcUaExpandedNodeId_wf x"
| "OpcUaVariantValue_wf reg ep_wf (VQualifiedName x) = OpcUaString_wf (qn_name x)"
| "OpcUaVariantValue_wf reg ep_wf (VLocalizedText x) = OpcUaLocalizedText_wf x"
| "OpcUaVariantValue_wf reg ep_wf (VExtensionObject x) = OpcUaExtensionObject_wf reg ep_wf x"
| "OpcUaVariantValue_wf reg ep_wf _ = True"

lemma variantType_range: "OpcUaVariantValue_variantType v \<le> 22"
  by (cases v) simp_all

lemma variantType_zero: "OpcUaVariantValue_variantType v = 0 \<longleftrightarrow> v = VNull"
  by (cases v) simp_all

lemma variantValue_encode_defined:
  "OpcUaVariantValue_opcUaBinaryEncode ops n v = None \<longleftrightarrow> n \<noteq> OpcUaVariantValue_variantType v"
  by (cases v) simp_all

context extension_types
begin

lemma variantValue_round_trip:
  assumes "OpcUaVariantValue_wf reg ep_wf v"
    and "OpcUaVariantValue_opcUaBinaryEncode ops n v = Some bs"
  shows "OpcUaVariantValue_opcUaBinaryDecode ops reg n u (bs @ rest) = Some (v, rest)"
  using assms
  by (cases v) (auto simp: OpcUaVariantValue_opcUaBinaryDecode_def codec_rt extension_codec.dec_enc
      split: if_splits)

end

end
