(* ===== verification/Variant.thy ===== *)
theory Variant
  imports Variants
begin

text \<open>
  \<^verbatim>\<open>OpcUaVariant\<close>: the array length (-1 for a scalar), the array dimensions and the vector of
  values, with the operations of \<^verbatim>\<open>OpcUaVariant.cpp\<close> that change them, and its binary coders.
\<close>

record 'e OpcUaVariant =
  arrayLength :: u32
  arrayDimensionsVec :: "u32 list"
  variantValueVec :: "'e OpcUaVariantValue list"

definition OpcUaVariant_clear :: "'e OpcUaVariant \<Rightarrow> 'e OpcUaVariant" where
  "OpcUaVariant_clear this =
     this\<lparr>variantValueVec := [VNull], arrayLength := - 1, arrayDimensionsVec := []\<rparr>"

definition OpcUaVariant_new :: "'e OpcUaVariant" where
  "OpcUaVariant_new =
     OpcUaVariant_clear \<lparr>arrayLength = - 1, arrayDimensionsVec = [], variantValueVec = []\<rparr>"

definition OpcUaVariant_isArray :: "'e OpcUaVariant \<Rightarrow> bool" where
  "OpcUaVariant_isArray this \<longleftrightarrow> sint (arrayLength this) > - 1"

text \<open>
  The dimensions are taken over only when their product, computed modulo \<^term>\<open>2 ^ 32\<close>, is the
  number of elements of an array with at least two elements.
\<close>

definition OpcUaVariant_setArrayDimension :: "u32 list \<Rightarrow> 'e OpcUaVariant \<Rightarrow> 'e OpcUaVariant" where
  "OpcUaVariant_setArrayDimension dims this =
     (if sint (arrayLength this) < 2 then this
      else if length dims = 0 then this
      else let count = fold (\<lambda>d c. c * d) (tl dims) (hd dims)
           in if arrayLength this \<noteq> count then this
              else this\<lparr>arrayDimensionsVec := dims\<rparr>)"

definition OpcUaVariant_setVec :: "'e OpcUaVariantValue list \<Rightarrow> 'e OpcUaVariant \<Rightarrow> 'e OpcUaVariant" where
  "OpcUaVariant_setVec vs this =
     this\<lparr>variantValueVec := vs, arrayLength := of_nat (length vs)\<rparr>"

definition OpcUaVariant_pushBack :: "'e OpcUaVariantValue \<Rightarrow> 'e OpcUaVariant \<Rightarrow> 'e OpcUaVariant" where
  "OpcUaVariant_pushBack v this =
     (if arrayLength this = - 1 \<and> length (variantValueVec this) = 1 then
        this\<lparr>variantValueVec := (variantValueVec this)[0 := v],
             arrayLength := of_nat (length (variantValueVec this))\<rparr>
      else
        this\<lparr>variantValueVec := variantValueVec this @ [v],
             arrayLength := of_nat (length (variantValueVec this @ [v]))\<rparr>)"

definition OpcUaVariant_variantType :: "'e OpcUaVariant \<Rightarrow> nat" where
  "OpcUaVariant_variantType this =
     (if length (variantValueVec this) = 0 then 0
      else OpcUaVariantValue_variantType (variantValueVec this ! 0))"

definition OpcUaVariant_isNull :: "'e OpcUaVariant \<Rightarrow> bool" where
  "OpcUaVariant_isNull this \<longleftrightarrow> OpcUaVariant_variantType this = 0"

definition OpcUaVariant_setValue :: "'e OpcUaVariantValue \<Rightarrow> 'e OpcUaVariant \<Rightarrow> 'e OpcUaVariant" where
  "OpcUaVariant_setValue v this =
     (let this = OpcUaVariant_clear this
      in this\<lparr>variantValueVec := (variantValueVec this)[0 := v]\<rparr>)"

definition OpcUaVariant_copyTo ::
  "'e ExtensionObjectBase \<Rightarrow> 'e ExtensionObjectMap \<Rightarrow> 'e OpcUaVariant \<Rightarrow> 'e OpcUaVariant \<Rightarrow> 'e OpcUaVariant" where
  "OpcUaVariant_copyTo ops reg this other =
     OpcUaVariant_setArrayDimension (arrayDimensionsVec this)
       (other\<lparr>variantValueVec := map (\<lambda>v. OpcUaVariantValue_copyTo ops reg v VNull) (variantValueVec this),
              arrayLength := arrayLength this\<rparr>)"

definition OpcUaVariant_equal ::
  "'e ExtensionObjectBase \<Rightarrow> 'e OpcUaVariant \<Rightarrow> 'e OpcUaVariant \<Rightarrow> bool" where
  "OpcUaVariant_equal ops a b =
     (if arrayLength b \<noteq> arrayLength a then False
      else if length (variantValueVec b) \<noteq> length (variantValueVec a) then False
      else if length (arrayDimensionsVec b) \<noteq> length (arrayDimensionsVec a) then False
      else list_all2 (OpcUaVariantValue_equal ops) (variantValueVec a) (variantValueVec b)
           \<and> list_all2 (=) (arrayDimensionsVec a) (arrayDimensionsVec b))"

section \<open>Binary coders\<close>

fun OpcUaVariant_encode_loop ::
  "'e ExtensionObjectBase \<Rightarrow> nat \<Rightarrow> 'e OpcUaVariantValue list \<Rightarrow> stream option" where
  "OpcUaVariant_encode_loop ops n [] = Some []"
| "OpcUaVariant_encode_loop ops n (v # vs) = do {
     a \<leftarrow> OpcUaVariantValue_opcUaBinaryEncode ops n v;
     b \<leftarrow> OpcUaVariant_encode_loop ops n vs;
     Some (a @ b) }"

definition OpcUaVariant_opcUaBinaryEncode ::
  "'e ExtensionObjectBase \<Rightarrow> 'e OpcUaVariant \<Rightarrow> stream option" where
  "OpcUaVariant_opcUaBinaryEncode ops this =
     (let variantType = OpcUaVariant_variantType this;
          encodingMask = (of_nat variantType :: u8);
          len = arrayLength this
      in if arrayLength this = - 1 \<and> OpcUaVariant_isNull this then Some (OpcUaByte_encode 0x00)
      else let
          len = (if len \<noteq> - 1 \<and> sint len \<noteq> int (length (variantValueVec this)) then 0 else len);
          len = (if len \<noteq> - 1 \<and> variantType = 0 then 0 else len);
          encodingMask = (if len \<noteq> - 1 then encodingMask + 128 else encodingMask);
          encodingMask = (if length (arrayDimensionsVec this) > 0 then encodingMask + 64 else encodingMask)
        in do {
          vs \<leftarrow> (if variantType = 0 then Some []
                else if len = - 1 then OpcUaVariantValue_opcUaBinaryEncode ops variantType (variantValueVec this ! 0)
                else if len = 0 then Some []
                else OpcUaVariant_encode_loop ops variantType (variantValueVec this));
          Some (OpcUaByte_encode encodingMask
                @ (if len \<noteq> - 1 then OpcUaInt32_encode len else [])
                @ vs
                @ concat (map OpcUaUInt32_encode (arrayDimensionsVec this))) })"

fun OpcUaVariant_decode_loop ::
  "'e ExtensionObjectBase \<Rightarrow> 'e ExtensionObjectMap \<Rightarrow> nat \<Rightarrow> nat \<Rightarrow> 'e OpcUaVariantValue list decoder" where
  "OpcUaVariant_decode_loop ops reg n 0 is = Some ([], is)"
| "OpcUaVariant_decode_loop ops reg n (Suc k) is = do {
     (v, is) \<leftarrow> OpcUaVariantValue_opcUaBinaryDecode ops reg n VNull is;
     (vs, is) \<leftarrow> OpcUaVariant_decode_loop ops reg n k is;
     Some (v # vs, is) }"

lemma uint32_decode_shorter: "OpcUaUInt32_decode is = Some (d, rest) \<Longrightarrow> length rest < length is"
  using uint32_codec.enc_dec [of "is" d rest] uint32_codec.enc_width [of d] by auto

text \<open>
  The loop over the dimensions has no length to go by: it reads dimensions until their product
  reaches the array length.  Every turn reads four bytes, so it ends at the latest with the stream.
\<close>

function OpcUaVariant_dims_loop :: "u32 \<Rightarrow> u32 \<Rightarrow> u32 list decoder" where
  "OpcUaVariant_dims_loop len count is =
     (if \<not> count < len then Some ([], is)
      else case OpcUaUInt32_decode is of
        None \<Rightarrow> None
      | Some (d, is) \<Rightarrow> map_option (\<lambda>(ds, is). (d # ds, is)) (OpcUaVariant_dims_loop len (count * d) is))"
  by pat_completeness auto

termination
  by (relation "measure (\<lambda>(_, _, is). length is)")
     (auto dest: uint32_decode_shorter)

declare OpcUaVariant_dims_loop.simps [simp del]

definition OpcUaVariant_opcUaBinaryDecode ::
  "'e ExtensionObjectBase \<Rightarrow> 'e ExtensionObjectMap \<Rightarrow> 'e OpcUaVariant \<Rightarrow> 'e OpcUaVariant decoder" where
  "OpcUaVariant_opcUaBinaryDecode ops reg this is = do {
     (encodingMask, is) \<leftarrow> OpcUaByte_decode is;
     if encodingMask = 0x00 then Some (this, is)
     else do {
       (len, is) \<leftarrow> (if encodingMask AND 128 = 128 then OpcUaInt32_decode is else Some (- 1, is));
       let variantType = unat (encodingMask AND 0x3F);
       (vs, is) \<leftarrow>
         (if variantType = 0 then Some ([], is)
          else if len = - 1 then
            map_option (\<lambda>(v, is). ([v], is)) (OpcUaVariantValue_opcUaBinaryDecode ops reg variantType VNull is)
          else if len = 0 then Some ([], is)
          else OpcUaVariant_decode_loop ops reg variantType (unat len) is);
       let this = this\<lparr>arrayLength := len, variantValueVec := vs, arrayDimensionsVec := []\<rparr>;
       if sint len < 2 then Some (this, is)
       else if encodingMask AND 64 = 64 then do {
         (d, is) \<leftarrow> OpcUaUInt32_decode is;
         (ds, is) \<leftarrow> OpcUaVariant_dims_loop len d is;
         Some (this\<lparr>arrayDimensionsVec := d # ds\<rparr>, is) }
       else Some (this, is) } }"

section \<open>Round trip\<close>

text \<open>
  The dimensions the reading loop takes back exactly: the product stays below the array length
  until the last of them.
\<close>

fun dims_exact :: "u32 \<Rightarrow> u32 \<Rightarrow> u32 list \<Rightarrow> bool" where
  "dims_exact len count [] \<longleftrightarrow> \<not> count < len"
| "dims_exact len count (d # ds) \<longleftrightarrow> count < len \<and> dims_exact len (count * d) ds"

lemma dims_loop_reads:
  "dims_exact len count ds \<Longrightarrow>
     OpcUaVariant_dims_loop len count (concat (map OpcUaUInt32_encode ds) @ rest) = Some (ds, rest)"
proof (induction ds arbitrary: count)
  case Nil
  then show ?case by (subst OpcUaVariant_dims_loop.simps) simp
next
  case (Cons d ds)
  then show ?case by (subst OpcUaVariant_dims_loop.simps) (simp add: codec_rt)
qed

definition OpcUaVariant_wf ::
  "'e ExtensionObjectMap \<Rightarrow> ('e \<Rightarrow> 'e \<Rightarrow> bool) \<Rightarrow> 'e OpcUaVariant \<Rightarrow> bool" where
  "OpcUaVariant_wf reg ep_wf v \<longleftrightarrow>
     (if arrayLength v = - 1 then
        arrayDimensionsVec v = [] \<and>
        (case variantValueVec v of [x] \<Rightarrow> x = VNull \<or> OpcUaVariantValue_wf reg ep_wf x | _ \<Rightarrow> False)
      else
        length (variantValueVec v) < 2 ^ 31 \<and> arrayLength v = of_nat (length (variantValueVec v))
        \<and> (\<forall>x\<in>set (variantValueVec v). OpcUaVariantValue_wf reg ep_wf x
             \<and> OpcUaVariantValue_variantType x = OpcUaVariant_variantType v)
        \<and> (arrayDimensionsVec v \<noteq> [] \<longrightarrow> 2 \<le> length (variantValueVec v)
             \<and> dims_exact (arrayLength v) (hd (arrayDimensionsVec v)) (tl (arrayDimensionsVec v))))"

lemma le_22_cases:
  "(n :: nat) \<le> 22 \<Longrightarrow> n \<in> {0, 1, 2, 3, 4, 5, 6, 7, 8, 9, 10, 11, 12, 13, 14, 15, 16, 17, 18, 19, 20, 21, 22}"
  by (simp, presburger)

lemma encodingMask_bits:
  assumes "n \<le> 22"
  shows "unat ((of_nat n :: u8) AND 0x3F) = n"
    and "(of_nat n :: u8) AND 128 \<noteq> 128"
    and "unat ((of_nat n + 128 :: u8) AND 0x3F) = n"
    and "(of_nat n + 128 :: u8) AND 128 = 128"
    and "(of_nat n + 128 :: u8) AND 64 \<noteq> 64"
    and "unat ((of_nat n + 128 + 64 :: u8) AND 0x3F) = n"
    and "(of_nat n + 128 + 64 :: u8) AND 128 = 128"
    and "(of_nat n + 128 + 64 :: u8) AND 64 = 64"
    and "(of_nat n + 128 :: u8) \<noteq> 0"
    and "(of_nat n + 128 + 64 :: u8) \<noteq> 0"
    and "n \<noteq> 0 \<Longrightarrow> (of_nat n :: u8) \<noteq> 0"
  using le_22_cases [OF assms] by auto

lemma encode_loop_defined:
  "(\<forall>x\<in>set vs. OpcUaVariantValue_variantType x = n) \<Longrightarrow>
     \<exists>bs. OpcUaVariant_encode_loop ops n vs = Some bs"
proof (induction vs)
  case (Cons v vs)
  then have "OpcUaVariantValue_opcUaBinaryEncode ops n v \<noteq> None"
    by (simp add: variantValue_encode_defined)
  with Cons show ?case by auto
qed simp

lemma variantType_le: "OpcUaVariant_variantType v \<le> 22"
  by (simp add: OpcUaVariant_variantType_def variantType_range)

context extension_types
begin

lemma decode_loop_round_trip:
  "(\<forall>x\<in>set vs. OpcUaVariantValue_wf reg ep_wf x) \<Longrightarrow>
     OpcUaVariant_encode_loop ops n vs = Some bs \<Longrightarrow>
     OpcUaVariant_decode_loop ops reg n (length vs) (bs @ rest) = Some (vs, rest)"
proof (induction vs arbitrary: bs)
  case (Cons v vs)
  from Cons.prems obtain a b where a: "OpcUaVariantValue_opcUaBinaryEncode ops n v = Some a"
    and b: "OpcUaVariant_encode_loop ops n vs = Some b" and bs: "bs = a @ b"
    by (auto simp: bind_eq_Some_conv)
  have "OpcUaVariantValue_opcUaBinaryDecode ops reg n VNull (a @ b @ rest) = Some (v, b @ rest)"
    using Cons.prems(1) a by (intro variantValue_round_trip) simp_all
  with Cons b bs show ?case by simp
qed simp

lemma variant_scalar_round_trip:
  assumes "OpcUaVariant_wf reg ep_wf v" "arrayLength v = - 1"
  shows "\<exists>bs. OpcUaVariant_opcUaBinaryEncode ops v = Some bs
    \<and> OpcUaVariant_opcUaBinaryDecode ops reg OpcUaVariant_new (bs @ rest) = Some (v, rest)"
proof -
  obtain x where v: "v = \<lparr>arrayLength = - 1, arrayDimensionsVec = [], variantValueVec = [x]\<rparr>"
    and x: "x = VNull \<or> OpcUaVariantValue_wf reg ep_wf x"
    using assms by (cases v) (auto simp: OpcUaVariant_wf_def split: list.splits)
  let ?n = "OpcUaVariantValue_variantType x"
  show ?thesis
  proof (cases "?n = 0")
    case True
    then show ?thesis
      using v by (simp add: variantType_zero OpcUaVariant_opcUaBinaryEncode_def OpcUaVariant_isNull_def
          OpcUaVariant_variantType_def OpcUaVariant_opcUaBinaryDecode_def codec_rt
          OpcUaVariant_new_def OpcUaVariant_clear_def)
  next
    case False
    then have wf: "OpcUaVariantValue_wf reg ep_wf x" using x by auto
    obtain bs where bs: "OpcUaVariantValue_opcUaBinaryEncode ops ?n x = Some bs"
      using variantValue_encode_defined [of ops ?n x] by auto
    show ?thesis
      using v False bs variantValue_round_trip [OF wf bs]
        encodingMask_bits [OF variantType_range, of x]
      by (simp add: OpcUaVariant_opcUaBinaryEncode_def OpcUaVariant_isNull_def Let_def
          OpcUaVariant_variantType_def OpcUaVariant_opcUaBinaryDecode_def codec_rt
          OpcUaVariant_new_def OpcUaVariant_clear_def)
  qed
qed

lemma variant_array_round_trip:
  assumes wf: "OpcUaVariant_wf reg ep_wf v" and arr: "arrayLength v \<noteq> - 1"
  shows "\<exists>bs. OpcUaVariant_opcUaBinaryEncode ops v = Some bs
    \<and> OpcUaVariant_opcUaBinaryDecode ops reg OpcUaVariant_new (bs @ rest) = Some (v, rest)"
proof -
  obtain vs ds where v: "v = \<lparr>arrayLength = of_nat (length vs), arrayDimensionsVec = ds, variantValueVec = vs\<rparr>"
    and small: "length vs < 2 ^ 31"
    and elems: "\<forall>x\<in>set vs. OpcUaVariantValue_wf reg ep_wf x
        \<and> OpcUaVariantValue_variantType x = OpcUaVariant_variantType v"
    and dims: "ds \<noteq> [] \<longrightarrow> 2 \<le> length vs \<and> dims_exact (of_nat (length vs)) (hd ds) (tl ds)"
    using assms by (cases v) (auto simp: OpcUaVariant_wf_def split: if_splits)
  let ?n = "OpcUaVariant_variantType v"
  have sint_len: "sint (of_nat (length vs) :: u32) = int (length vs)"
    and unat_len: "unat (of_nat (length vs) :: u32) = length vs"
    using small by (simp_all add: sint_word_of_nat_u32 unsigned_of_nat take_bit_nat_eq_self)
  have zero: "?n = 0 \<longleftrightarrow> vs = []"
    using v elems by (cases vs) (auto simp: OpcUaVariant_variantType_def variantType_zero)
  have len0: "of_nat (length vs) = (0 :: u32) \<longleftrightarrow> vs = []"
    unfolding word_unat_eq_iff unat_len by simp
  obtain bs where bs: "OpcUaVariant_encode_loop ops ?n vs = Some bs"
    using encode_loop_defined [of vs ?n ops] elems by auto
  note bits = encodingMask_bits [OF variantType_le, of v]
  have loop: "OpcUaVariant_decode_loop ops reg ?n (length vs) (bs @ r) = Some (vs, r)" for r
    using decode_loop_round_trip [OF _ bs] elems by blast
  have "\<not> (arrayLength v = - 1 \<and> OpcUaVariant_isNull v)" using arr by simp
  then have enc: "OpcUaVariant_opcUaBinaryEncode ops v =
      Some (OpcUaByte_encode (if ds = [] then of_nat ?n + 128 else of_nat ?n + 128 + 64)
        @ OpcUaInt32_encode (of_nat (length vs)) @ bs @ concat (map OpcUaUInt32_encode ds))"
    using arr v bs zero sint_len len0
    by (auto simp: OpcUaVariant_opcUaBinaryEncode_def Let_def)
  have "OpcUaVariant_opcUaBinaryDecode ops reg OpcUaVariant_new
      ((OpcUaByte_encode (if ds = [] then of_nat ?n + 128 else of_nat ?n + 128 + 64)
        @ OpcUaInt32_encode (of_nat (length vs)) @ bs @ concat (map OpcUaUInt32_encode ds)) @ rest)
      = Some (v, rest)"
  proof (cases ds)
    case Nil
    then show ?thesis
      using arr v bits zero len0 unat_len sint_len loop bs
      by (auto simp: OpcUaVariant_opcUaBinaryDecode_def codec_rt Let_def
          OpcUaVariant_new_def OpcUaVariant_clear_def)
  next
    case (Cons d ds')
    have "OpcUaVariant_dims_loop (of_nat (length vs)) d
        (concat (map OpcUaUInt32_encode ds') @ rest) = Some (ds', rest)"
      using dims Cons by (intro dims_loop_reads) simp
    then show ?thesis
      using Cons arr v bits zero len0 unat_len sint_len loop dims
      by (auto simp: OpcUaVariant_opcUaBinaryDecode_def codec_rt Let_def
          OpcUaVariant_new_def OpcUaVariant_clear_def)
  qed
  with enc show ?thesis by blast
qed

lemma variant_round_trip:
  assumes "OpcUaVariant_wf reg ep_wf v"
  shows "\<exists>bs. OpcUaVariant_opcUaBinaryEncode ops v = Some bs
    \<and> OpcUaVariant_opcUaBinaryDecode ops reg OpcUaVariant_new (bs @ rest) = Some (v, rest)"
  using assms variant_scalar_round_trip variant_array_round_trip by blast

end

lemma fold_unit_dimensions: "fold (\<lambda>d c. c * d) (replicate k 1) (n :: u32) = n"
  by (induction k) simp_all

lemma variantType_dims [simp]:
  "OpcUaVariant_variantType (v\<lparr>arrayDimensionsVec := ds\<rparr>) = OpcUaVariant_variantType v"
  by (simp add: OpcUaVariant_variantType_def)

lemma encode_more_dimensions:
  "OpcUaVariant_opcUaBinaryEncode ops (v\<lparr>arrayDimensionsVec := d # ds\<rparr>) =
     map_option (\<lambda>bs. bs @ concat (map OpcUaUInt32_encode ds))
       (OpcUaVariant_opcUaBinaryEncode ops (v\<lparr>arrayDimensionsVec := [d]\<rparr>))"
  if "arrayLength v \<noteq> - 1"
  using that
  by (simp add: OpcUaVariant_opcUaBinaryEncode_def Let_def OpcUaVariant_variantType_def
      map_option_bind o_def)

section \<open>Properties\<close>



text \<open>The dimensions the setter accepts are not always read back: an array of \<^term>\<open>n\<close> elements takes
  the dimensions \<^term>\<open>n\<close>, 1, ..., 1, whose product is the array length, but the reader stops as soon as
  the product reaches the array length, drops the trailing ones and leaves their bytes in the stream,
  where the next field is expected.\<close>

theorem variant_trailing_unit_dimensions:
  assumes wf: "OpcUaVariant_wf Core_extensionObjectMap StandardObject_wf v"
    and len: "2 \<le> length (variantValueVec v)" "arrayLength v \<noteq> - 1"
  shows "OpcUaVariant_setArrayDimension (arrayLength v # replicate k 1) v
           = v\<lparr>arrayDimensionsVec := arrayLength v # replicate k 1\<rparr>
    \<and> (\<exists>bs. OpcUaVariant_opcUaBinaryEncode StandardObject_ops
              (v\<lparr>arrayDimensionsVec := arrayLength v # replicate k 1\<rparr>) = Some bs
      \<and> OpcUaVariant_opcUaBinaryDecode StandardObject_ops Core_extensionObjectMap OpcUaVariant_new (bs @ rest)
        = Some (v\<lparr>arrayDimensionsVec := [arrayLength v]\<rparr>,
                concat (map OpcUaUInt32_encode (replicate k 1)) @ rest))"
proof
  have "sint (arrayLength v) = int (length (variantValueVec v))"
    using wf len by (auto simp: OpcUaVariant_wf_def sint_word_of_nat_u32)
  then show "OpcUaVariant_setArrayDimension (arrayLength v # replicate k 1) v
           = v\<lparr>arrayDimensionsVec := arrayLength v # replicate k 1\<rparr>"
    using len by (simp add: OpcUaVariant_setArrayDimension_def fold_unit_dimensions del: fold_replicate)
next
  have "OpcUaVariant_wf Core_extensionObjectMap StandardObject_wf (v\<lparr>arrayDimensionsVec := [arrayLength v]\<rparr>)"
    using wf len by (simp add: OpcUaVariant_wf_def)
  from standard_types.variant_round_trip [OF this,
      of "concat (map OpcUaUInt32_encode (replicate k 1)) @ rest"]
  show "\<exists>bs. OpcUaVariant_opcUaBinaryEncode StandardObject_ops
              (v\<lparr>arrayDimensionsVec := arrayLength v # replicate k 1\<rparr>) = Some bs
      \<and> OpcUaVariant_opcUaBinaryDecode StandardObject_ops Core_extensionObjectMap OpcUaVariant_new (bs @ rest)
        = Some (v\<lparr>arrayDimensionsVec := [arrayLength v]\<rparr>,
                concat (map OpcUaUInt32_encode (replicate k 1)) @ rest)"
    using len(2) by (auto simp: encode_more_dimensions [where ds = "replicate k 1"])
qed

theorem variant_trailing_unit_dimensions_witness:
  "\<exists>bs. OpcUaVariant_opcUaBinaryEncode StandardObject_ops
        \<lparr>arrayLength = 2, arrayDimensionsVec = [2, 1], variantValueVec = [VBoolean True, VBoolean True]\<rparr> = Some bs
      \<and> OpcUaVariant_opcUaBinaryDecode StandardObject_ops Core_extensionObjectMap OpcUaVariant_new (bs @ [])
        = Some (\<lparr>arrayLength = 2, arrayDimensionsVec = [2], variantValueVec = [VBoolean True, VBoolean True]\<rparr>,
                OpcUaUInt32_encode 1)"
  using variant_trailing_unit_dimensions
    [of "\<lparr>arrayLength = 2, arrayDimensionsVec = [], variantValueVec = [VBoolean True, VBoolean True]\<rparr>" 1 "[]"]
  by (simp add: OpcUaVariant_wf_def OpcUaVariant_variantType_def)

end
