(* ===== verification/DataValues.thy ===== *)
theory DataValues
  imports Variant
begin

text \<open>
  \<^verbatim>\<open>OpcUaDataValue\<close>: a variant with its status code and time stamps, the change test
  \<^verbatim>\<open>trigger\<close> the monitored items use, comparison, copying and the binary coders.
\<close>

datatype DataChangeTrigger = DCT_Status | DCT_StatusValue | DCT_StatusValueTimestamp

record 'e OpcUaDataValue =
  dv_variant :: "'e OpcUaVariant option"
  dv_statusCode :: u32
  dv_sourceTimestamp :: OpcUaDateTime
  dv_sourcePicoseconds :: u16
  dv_serverTimestamp :: OpcUaDateTime
  dv_serverPicoseconds :: u16

definition OpcUaDataValue_new :: "'e OpcUaDataValue" where
  "OpcUaDataValue_new = \<lparr>dv_variant = None, dv_statusCode = 0, dv_sourceTimestamp = 0,
     dv_sourcePicoseconds = 0, dv_serverTimestamp = 0, dv_serverPicoseconds = 0\<rparr>"

definition OpcUaDataValue_reset :: "'e OpcUaDataValue \<Rightarrow> 'e OpcUaDataValue" where
  "OpcUaDataValue_reset this = this\<lparr>dv_variant := None, dv_statusCode := 0, dv_sourceTimestamp := 0,
     dv_serverTimestamp := 0, dv_sourcePicoseconds := 0, dv_serverPicoseconds := 0\<rparr>"

definition OpcUaDataValue_isNullVariant :: "'e OpcUaDataValue \<Rightarrow> bool" where
  "OpcUaDataValue_isNullVariant this \<longleftrightarrow> dv_variant this = None"

definition OpcUaDataValue_exist :: "'e OpcUaDataValue \<Rightarrow> bool" where
  "OpcUaDataValue_exist this =
     (if dv_variant this \<noteq> None then False
      else if dv_statusCode this \<noteq> 0 then False
      else if OpcUaDateTime_exist (dv_sourceTimestamp this) then False
      else if OpcUaDateTime_exist (dv_serverTimestamp this) then False
      else True)"

text \<open>The cases of the switch fall through to the weaker triggers.\<close>

definition OpcUaDataValue_trigger_Status :: "'e OpcUaDataValue \<Rightarrow> 'e OpcUaDataValue \<Rightarrow> bool" where
  "OpcUaDataValue_trigger_Status this dataValue \<longleftrightarrow> dv_statusCode dataValue \<noteq> dv_statusCode this"

definition OpcUaDataValue_trigger_StatusValue ::
  "'e ExtensionObjectBase \<Rightarrow> 'e OpcUaDataValue \<Rightarrow> 'e OpcUaDataValue \<Rightarrow> bool" where
  "OpcUaDataValue_trigger_StatusValue ops this dataValue =
     (case (dv_variant dataValue, dv_variant this) of
        (None, Some _) \<Rightarrow> True
      | (Some _, None) \<Rightarrow> True
      | (Some v, Some w) \<Rightarrow>
          if \<not> OpcUaVariant_equal ops v w then True else OpcUaDataValue_trigger_Status this dataValue
      | (None, None) \<Rightarrow> OpcUaDataValue_trigger_Status this dataValue)"

definition OpcUaDataValue_trigger ::
  "'e ExtensionObjectBase \<Rightarrow> 'e OpcUaDataValue \<Rightarrow> 'e OpcUaDataValue \<Rightarrow> DataChangeTrigger \<Rightarrow> bool" where
  "OpcUaDataValue_trigger ops this dataValue t =
     (case t of
        DCT_StatusValueTimestamp \<Rightarrow>
          if dv_sourceTimestamp dataValue \<noteq> dv_sourceTimestamp this then True
          else OpcUaDataValue_trigger_StatusValue ops this dataValue
      | DCT_StatusValue \<Rightarrow> OpcUaDataValue_trigger_StatusValue ops this dataValue
      | DCT_Status \<Rightarrow> OpcUaDataValue_trigger_Status this dataValue)"

definition OpcUaDataValue_copyTo ::
  "'e ExtensionObjectBase \<Rightarrow> 'e ExtensionObjectMap \<Rightarrow> 'e OpcUaDataValue \<Rightarrow> 'e OpcUaDataValue
     \<Rightarrow> 'e OpcUaDataValue" where
  "OpcUaDataValue_copyTo ops reg this other =
     (let other = (case dv_variant this of
                     None \<Rightarrow> other
                   | Some v \<Rightarrow> other\<lparr>dv_variant := Some (OpcUaVariant_copyTo ops reg v
                       (case dv_variant other of None \<Rightarrow> OpcUaVariant_new | Some w \<Rightarrow> w))\<rparr>);
          other = (if dv_statusCode this \<noteq> dv_statusCode other
                   then other\<lparr>dv_statusCode := dv_statusCode this\<rparr> else other);
          other = (if OpcUaDateTime_exist (dv_sourceTimestamp this)
                   then other\<lparr>dv_sourceTimestamp := dv_sourceTimestamp this\<rparr> else other);
          other = (if OpcUaDateTime_exist (dv_serverTimestamp this)
                   then other\<lparr>dv_serverTimestamp := dv_serverTimestamp this\<rparr> else other);
          other = (if dv_sourcePicoseconds this \<noteq> 0
                   then other\<lparr>dv_sourcePicoseconds := dv_sourcePicoseconds this\<rparr> else other)
      in if dv_serverPicoseconds this \<noteq> 0
         then other\<lparr>dv_serverPicoseconds := dv_serverPicoseconds this\<rparr> else other)"

text \<open>The fifth test compares the server picoseconds with the source picoseconds of the other value.\<close>

definition OpcUaDataValue_equal ::
  "'e ExtensionObjectBase \<Rightarrow> 'e OpcUaDataValue \<Rightarrow> 'e OpcUaDataValue \<Rightarrow> bool" where
  "OpcUaDataValue_equal ops act tmp =
     ((case (dv_variant act, dv_variant tmp) of
         (None, Some _) \<Rightarrow> False
       | (Some _, None) \<Rightarrow> False
       | (Some v, Some w) \<Rightarrow> OpcUaVariant_equal ops v w
       | (None, None) \<Rightarrow> True)
      \<and> dv_statusCode act = dv_statusCode tmp
      \<and> dv_sourceTimestamp act = dv_sourceTimestamp tmp
      \<and> dv_serverPicoseconds act = dv_sourcePicoseconds tmp
      \<and> dv_serverTimestamp act = dv_serverTimestamp tmp
      \<and> dv_serverPicoseconds act = dv_serverPicoseconds tmp)"

section \<open>Binary coders\<close>

definition OpcUaDataValue_encodingMask :: "'e OpcUaDataValue \<Rightarrow> u8" where
  "OpcUaDataValue_encodingMask this =
     0x00 + (if dv_variant this \<noteq> None then 0x01 else 0)
          + (if dv_statusCode this \<noteq> 0 then 0x02 else 0)
          + (if OpcUaDateTime_exist (dv_sourceTimestamp this) then 0x04 else 0)
          + (if OpcUaDateTime_exist (dv_serverTimestamp this) then 0x08 else 0)
          + (if dv_sourcePicoseconds this \<noteq> 0 then 0x10 else 0)
          + (if dv_serverPicoseconds this \<noteq> 0 then 0x20 else 0)"

definition OpcUaDataValue_opcUaBinaryEncode ::
  "'e ExtensionObjectBase \<Rightarrow> 'e OpcUaDataValue \<Rightarrow> stream option" where
  "OpcUaDataValue_opcUaBinaryEncode ops this = do {
     v \<leftarrow> (case dv_variant this of None \<Rightarrow> Some [] | Some v \<Rightarrow> OpcUaVariant_opcUaBinaryEncode ops v);
     Some (OpcUaByte_encode (OpcUaDataValue_encodingMask this)
       @ v
       @ (if dv_statusCode this \<noteq> 0 then OpcUaUInt32_encode (dv_statusCode this) else [])
       @ (if OpcUaDateTime_exist (dv_sourceTimestamp this)
          then OpcUaDateTime_opcUaBinaryEncode (dv_sourceTimestamp this) else [])
       @ (if dv_sourcePicoseconds this \<noteq> 0 then OpcUaInt16_encode (dv_sourcePicoseconds this) else [])
       @ (if OpcUaDateTime_exist (dv_serverTimestamp this)
          then OpcUaDateTime_opcUaBinaryEncode (dv_serverTimestamp this) else [])
       @ (if dv_serverPicoseconds this \<noteq> 0 then OpcUaInt16_encode (dv_serverPicoseconds this) else [])) }"

definition OpcUaDataValue_opcUaBinaryDecode ::
  "'e ExtensionObjectBase \<Rightarrow> 'e ExtensionObjectMap \<Rightarrow> 'e OpcUaDataValue \<Rightarrow> 'e OpcUaDataValue decoder" where
  "OpcUaDataValue_opcUaBinaryDecode ops reg this is = do {
     (m, is) \<leftarrow> OpcUaByte_decode is;
     (v, is) \<leftarrow> (if m AND 0x01 = 0x01
                 then map_option (\<lambda>(v, is). (Some v, is)) (OpcUaVariant_opcUaBinaryDecode ops reg OpcUaVariant_new is)
                 else Some (dv_variant this, is));
     (sc, is) \<leftarrow> (if m AND 0x02 = 0x02 then OpcUaInt32_decode is else Some (dv_statusCode this, is));
     (st, is) \<leftarrow> (if m AND 0x04 = 0x04 then OpcUaDateTime_opcUaBinaryDecode is
                  else Some (dv_sourceTimestamp this, is));
     (et, is) \<leftarrow> (if m AND 0x08 = 0x08 then OpcUaDateTime_opcUaBinaryDecode is
                  else Some (dv_serverTimestamp this, is));
     (sp, is) \<leftarrow> (if m AND 0x10 = 0x10 then OpcUaInt16_decode is else Some (dv_sourcePicoseconds this, is));
     (ep, is) \<leftarrow> (if m AND 0x20 = 0x20 then OpcUaInt16_decode is else Some (dv_serverPicoseconds this, is));
     Some (\<lparr>dv_variant = v, dv_statusCode = sc, dv_sourceTimestamp = st, dv_sourcePicoseconds = sp,
            dv_serverTimestamp = et, dv_serverPicoseconds = ep\<rparr>, is) }"

lemma dataValue_mask_bits:
  "OpcUaDataValue_encodingMask d AND 0x01 = 0x01 \<longleftrightarrow> dv_variant d \<noteq> None"
  "OpcUaDataValue_encodingMask d AND 0x02 = 0x02 \<longleftrightarrow> dv_statusCode d \<noteq> 0"
  "OpcUaDataValue_encodingMask d AND 0x04 = 0x04 \<longleftrightarrow> OpcUaDateTime_exist (dv_sourceTimestamp d)"
  "OpcUaDataValue_encodingMask d AND 0x08 = 0x08 \<longleftrightarrow> OpcUaDateTime_exist (dv_serverTimestamp d)"
  "OpcUaDataValue_encodingMask d AND 0x10 = 0x10 \<longleftrightarrow> dv_sourcePicoseconds d \<noteq> 0"
  "OpcUaDataValue_encodingMask d AND 0x20 = 0x20 \<longleftrightarrow> dv_serverPicoseconds d \<noteq> 0"
  by (simp_all add: OpcUaDataValue_encodingMask_def)

definition OpcUaDataValue_wf ::
  "'e ExtensionObjectMap \<Rightarrow> ('e \<Rightarrow> 'e \<Rightarrow> bool) \<Rightarrow> 'e OpcUaDataValue \<Rightarrow> bool" where
  "OpcUaDataValue_wf reg ep_wf d \<longleftrightarrow>
     (case dv_variant d of None \<Rightarrow> True | Some v \<Rightarrow> OpcUaVariant_wf reg ep_wf v)"

text \<open>
  The decoder reads the server time stamp before the source picoseconds, the encoder writes them
  the other way round: what comes back is the value itself when one of the two is absent.
\<close>

context extension_types
begin

lemma dataValue_round_trip:
  assumes wf: "OpcUaDataValue_wf reg ep_wf d"
    and order: "dv_sourcePicoseconds d = 0 \<or> dv_serverTimestamp d = 0"
  shows "\<exists>bs. OpcUaDataValue_opcUaBinaryEncode ops d = Some bs
    \<and> OpcUaDataValue_opcUaBinaryDecode ops reg OpcUaDataValue_new (bs @ rest) = Some (d, rest)"
proof -
  define r where "r = (if dv_statusCode d \<noteq> 0 then OpcUaUInt32_encode (dv_statusCode d) else [])
       @ (if OpcUaDateTime_exist (dv_sourceTimestamp d)
          then OpcUaDateTime_opcUaBinaryEncode (dv_sourceTimestamp d) else [])
       @ (if dv_sourcePicoseconds d \<noteq> 0 then OpcUaInt16_encode (dv_sourcePicoseconds d) else [])
       @ (if OpcUaDateTime_exist (dv_serverTimestamp d)
          then OpcUaDateTime_opcUaBinaryEncode (dv_serverTimestamp d) else [])
       @ (if dv_serverPicoseconds d \<noteq> 0 then OpcUaInt16_encode (dv_serverPicoseconds d) else [])"
  obtain bs where bs: "(case dv_variant d of None \<Rightarrow> Some [] | Some v \<Rightarrow> OpcUaVariant_opcUaBinaryEncode ops v)
        = Some bs"
    and rt: "(case dv_variant d of None \<Rightarrow> bs = []
        | Some v \<Rightarrow> OpcUaVariant_opcUaBinaryDecode ops reg OpcUaVariant_new (bs @ r @ rest)
                      = Some (v, r @ rest))"
    using wf variant_round_trip [of _ "r @ rest"]
    by (cases "dv_variant d") (auto simp: OpcUaDataValue_wf_def)
  have enc: "OpcUaDataValue_opcUaBinaryEncode ops d =
      Some (OpcUaByte_encode (OpcUaDataValue_encodingMask d) @ bs @ r)"
    using bs by (simp add: OpcUaDataValue_opcUaBinaryEncode_def r_def)
  have "OpcUaDataValue_opcUaBinaryDecode ops reg OpcUaDataValue_new
      ((OpcUaByte_encode (OpcUaDataValue_encodingMask d) @ bs @ r) @ rest) = Some (d, rest)"
    using rt order
    by (cases "dv_variant d"; cases d)
       (auto simp: OpcUaDataValue_opcUaBinaryDecode_def dataValue_mask_bits r_def codec_rt
         OpcUaDataValue_new_def OpcUaDateTime_exist_def)
  with enc show ?thesis by blast
qed

end

text \<open>
  When both are present the ten bytes are cut at the wrong place: the low bytes of the server time
  stamp are the picoseconds, and its own upper two bytes become the picoseconds.
\<close>

lemma cut_index: "\<not> n div 8 < 2 \<Longrightarrow> 8 * (n div 8 - 2) + n mod 8 = n - (16 :: nat)"
  by presburger

lemma cut_high: "\<not> n div 8 < 2 \<Longrightarrow> \<not> bit (p :: u16) n"
  by (auto dest!: bit_imp_le_length)

lemma cut_bytes:
  "OpcUaDateTime_opcUaBinaryDecode (OpcUaInt16_encode p @ OpcUaDateTime_opcUaBinaryEncode t @ rest)
     = Some (ucast p OR push_bit 16 t, drop 6 (OpcUaUInt64_encode t) @ rest)"
  "OpcUaInt16_decode (drop 6 (OpcUaUInt64_encode t) @ rest) = Some (ucast (drop_bit 48 t), rest)"
proof -
  have "le_word (le_bytes p @ take 6 (le_bytes t)) = (ucast p OR push_bit 16 t :: u64)"
    by (rule bit_word_eqI)
       (auto simp: bit_le_word bit_simps le_bytes_def nth_append cut_index cut_high split: if_splits)
  then show "OpcUaDateTime_opcUaBinaryDecode (OpcUaInt16_encode p @ OpcUaDateTime_opcUaBinaryEncode t @ rest)
     = Some (ucast p OR push_bit 16 t, drop 6 (OpcUaUInt64_encode t) @ rest)"
    by (simp add: OpcUaDateTime_opcUaBinaryDecode_def OpcUaDateTime_opcUaBinaryEncode_def
        number_coder_defs byteOrder_defs)
next
  have "le_word (drop 6 (le_bytes t)) = (ucast (drop_bit 48 t) :: u16)"
    by (rule bit_word_eqI)
       (auto simp: bit_le_word bit_simps le_bytes_def add.commute)
  then show "OpcUaInt16_decode (drop 6 (OpcUaUInt64_encode t) @ rest) = Some (ucast (drop_bit 48 t), rest)"
    by (simp add: number_coder_defs byteOrder_defs)
qed

context extension_types
begin

lemma dataValue_wrong_cut:
  assumes wf: "OpcUaDataValue_wf reg ep_wf d"
    and both: "dv_sourcePicoseconds d \<noteq> 0" "OpcUaDateTime_exist (dv_serverTimestamp d)"
  shows "\<exists>bs. OpcUaDataValue_opcUaBinaryEncode ops d = Some bs
    \<and> OpcUaDataValue_opcUaBinaryDecode ops reg OpcUaDataValue_new (bs @ rest) =
        Some (d\<lparr>dv_serverTimestamp := ucast (dv_sourcePicoseconds d) OR push_bit 16 (dv_serverTimestamp d),
                dv_sourcePicoseconds := ucast (drop_bit 48 (dv_serverTimestamp d))\<rparr>, rest)"
proof -
  define r where "r = (if dv_statusCode d \<noteq> 0 then OpcUaUInt32_encode (dv_statusCode d) else [])
       @ (if OpcUaDateTime_exist (dv_sourceTimestamp d)
          then OpcUaDateTime_opcUaBinaryEncode (dv_sourceTimestamp d) else [])
       @ OpcUaInt16_encode (dv_sourcePicoseconds d)
       @ OpcUaDateTime_opcUaBinaryEncode (dv_serverTimestamp d)
       @ (if dv_serverPicoseconds d \<noteq> 0 then OpcUaInt16_encode (dv_serverPicoseconds d) else [])"
  obtain bs where bs: "(case dv_variant d of None \<Rightarrow> Some [] | Some v \<Rightarrow> OpcUaVariant_opcUaBinaryEncode ops v)
        = Some bs"
    and rt: "(case dv_variant d of None \<Rightarrow> bs = []
        | Some v \<Rightarrow> OpcUaVariant_opcUaBinaryDecode ops reg OpcUaVariant_new (bs @ r @ rest)
                      = Some (v, r @ rest))"
    using wf variant_round_trip [of _ "r @ rest"]
    by (cases "dv_variant d") (auto simp: OpcUaDataValue_wf_def)
  have enc: "OpcUaDataValue_opcUaBinaryEncode ops d =
      Some (OpcUaByte_encode (OpcUaDataValue_encodingMask d) @ bs @ r)"
    using bs both by (simp add: OpcUaDataValue_opcUaBinaryEncode_def r_def)
  have "OpcUaDataValue_opcUaBinaryDecode ops reg OpcUaDataValue_new
      ((OpcUaByte_encode (OpcUaDataValue_encodingMask d) @ bs @ r) @ rest) =
        Some (d\<lparr>dv_serverTimestamp := ucast (dv_sourcePicoseconds d) OR push_bit 16 (dv_serverTimestamp d),
                dv_sourcePicoseconds := ucast (drop_bit 48 (dv_serverTimestamp d))\<rparr>, rest)"
    using rt both
    by (cases "dv_variant d"; cases d)
       (auto simp: OpcUaDataValue_opcUaBinaryDecode_def dataValue_mask_bits r_def codec_rt cut_bytes
         OpcUaDataValue_new_def OpcUaDateTime_exist_def)
  with enc show ?thesis by blast
qed

end

section \<open>Properties\<close>


definition sample_value :: "StandardObject OpcUaDataValue" where
  "sample_value = \<lparr>dv_variant = None, dv_statusCode = 0, dv_sourceTimestamp = 1, dv_sourcePicoseconds = 5,
     dv_serverTimestamp = 0, dv_serverPicoseconds = 0\<rparr>"


text \<open>a data value with source picoseconds and a server time stamp is decoded to other values of
  both, because the two are written and read in different orders: the server time stamp comes back
  shifted by 16 bits with the picoseconds in its low bits, and its upper bits become the picoseconds.\<close>

theorem dataValue_fields_swapped:
  assumes "OpcUaDataValue_wf Core_extensionObjectMap StandardObject_wf d"
    and "dv_sourcePicoseconds d \<noteq> 0" "OpcUaDateTime_exist (dv_serverTimestamp d)"
  shows "\<exists>bs. OpcUaDataValue_opcUaBinaryEncode StandardObject_ops d = Some bs
    \<and> OpcUaDataValue_opcUaBinaryDecode StandardObject_ops Core_extensionObjectMap OpcUaDataValue_new (bs @ rest) =
        Some (d\<lparr>dv_serverTimestamp := ucast (dv_sourcePicoseconds d) OR push_bit 16 (dv_serverTimestamp d),
                dv_sourcePicoseconds := ucast (drop_bit 48 (dv_serverTimestamp d))\<rparr>, rest)"
  using assms by (rule standard_types.dataValue_wrong_cut)

theorem dataValue_fields_swapped_witness:
  "\<exists>bs. OpcUaDataValue_opcUaBinaryEncode StandardObject_ops (sample_value\<lparr>dv_serverTimestamp := 3\<rparr>) = Some bs
    \<and> OpcUaDataValue_opcUaBinaryDecode StandardObject_ops Core_extensionObjectMap OpcUaDataValue_new (bs @ [])
      = Some (sample_value\<lparr>dv_serverTimestamp := 0x30005, dv_sourcePicoseconds := 0\<rparr>, [])"
  using dataValue_fields_swapped [of "sample_value\<lparr>dv_serverTimestamp := 3\<rparr>" "[]"]
  by (simp add: sample_value_def OpcUaDataValue_wf_def OpcUaDateTime_exist_def)

text \<open>a data value is equal to itself only when its two picosecond fields agree: the comparison
  takes the server picoseconds of one side and the source picoseconds of the other.\<close>

theorem dataValue_equal_not_reflexive:
  assumes "dv_serverPicoseconds d \<noteq> dv_sourcePicoseconds d"
  shows "\<not> OpcUaDataValue_equal ops d d"
  using assms by (simp add: OpcUaDataValue_equal_def)

theorem dataValue_equal_not_reflexive_witness:
  "\<not> OpcUaDataValue_equal StandardObject_ops sample_value sample_value"
  by (rule dataValue_equal_not_reflexive) (simp add: sample_value_def)

end
