(* ===== verification/OrderedMap.thy ===== *)
theory OrderedMap
  imports Prelude
begin

text \<open>
  \<^verbatim>\<open>std::map\<close> as the sources use it: \<^verbatim>\<open>find\<close>, \<^verbatim>\<open>insert\<close> (which keeps the element that is already
  stored under a key), \<^verbatim>\<open>erase\<close> by key or iterator, \<^verbatim>\<open>size\<close>, and iteration in key order. The model
  is an association list that is strictly sorted by its keys.

  The locale \<open>keyed_store\<close> is the interface the components rely on; what they need of a sequence of
  insertions and erasures is proved there once.
\<close>

type_synonym ('k, 'v) omap = "('k \<times> 'v) list"

definition omap_inv :: "('k::linorder, 'v) omap \<Rightarrow> bool" where
  "omap_inv m \<longleftrightarrow> sorted_wrt (<) (map fst m)"

definition omap_find :: "'k \<Rightarrow> ('k, 'v) omap \<Rightarrow> 'v option" where
  "omap_find k m = map_of m k"

fun omap_insert :: "'k::linorder \<Rightarrow> 'v \<Rightarrow> ('k, 'v) omap \<Rightarrow> ('k, 'v) omap" where
  "omap_insert k v [] = [(k, v)]"
| "omap_insert k v ((k', v') # m) =
     (if k < k' then (k, v) # (k', v') # m
      else if k = k' then (k', v') # m
      else (k', v') # omap_insert k v m)"

definition omap_erase :: "'k \<Rightarrow> ('k, 'v) omap \<Rightarrow> ('k, 'v) omap" where
  "omap_erase k m = filter (\<lambda>e. fst e \<noteq> k) m"

text \<open>Assignment through an iterator or a stored pointer: the value under an existing key changes.\<close>

definition omap_update :: "'k \<Rightarrow> ('v \<Rightarrow> 'v) \<Rightarrow> ('k, 'v) omap \<Rightarrow> ('k, 'v) omap" where
  "omap_update k f m = map (\<lambda>(k', v). (k', if k' = k then f v else v)) m"

section \<open>The interface\<close>

locale keyed_store =
  fixes empty :: "'m"
    and find :: "'k \<Rightarrow> 'm \<Rightarrow> 'v option"
    and insert :: "'k \<Rightarrow> 'v \<Rightarrow> 'm \<Rightarrow> 'm"
    and erase :: "'k \<Rightarrow> 'm \<Rightarrow> 'm"
    and count :: "'m \<Rightarrow> nat"
    and invar :: "'m \<Rightarrow> bool"
  assumes find_empty: "find k empty = None"
    and find_insert: "invar m \<Longrightarrow>
          find k (insert k' v m) = (if k = k' \<and> find k' m = None then Some v else find k m)"
    and find_erase: "invar m \<Longrightarrow> find k (erase k' m) = (if k = k' then None else find k m)"
    and invar_empty: "invar empty"
    and invar_insert: "invar m \<Longrightarrow> invar (insert k v m)"
    and invar_erase: "invar m \<Longrightarrow> invar (erase k m)"
    and count_empty: "count empty = 0"
    and count_insert: "invar m \<Longrightarrow> count (insert k v m) = (if find k m = None then Suc (count m) else count m)"
    and count_erase: "invar m \<Longrightarrow> count (erase k m) = (if find k m = None then count m else count m - 1)"
begin

lemma insert_then_find: "invar m \<Longrightarrow> find k m = None \<Longrightarrow> find k (insert k v m) = Some v"
  by (simp add: find_insert)

lemma insert_keeps: "invar m \<Longrightarrow> find k m = Some w \<Longrightarrow> find k (insert k' v m) = Some w"
  by (auto simp: find_insert)

lemma erase_then_find: "invar m \<Longrightarrow> find k (erase k m) = None"
  by (simp add: find_erase)

lemma erase_insert_find:
  "invar m \<Longrightarrow> find k m = None \<Longrightarrow> find k' (erase k (insert k v m)) = find k' m"
  by (auto simp: find_erase find_insert invar_insert)

lemma erase_insert_count:
  "invar m \<Longrightarrow> find k m = None \<Longrightarrow> count (erase k (insert k v m)) = count m"
  by (simp add: count_erase count_insert invar_insert find_insert)

lemma erase_all:
  "invar m \<Longrightarrow> find k (fold erase ks m) = (if k \<in> set ks then None else find k m)"
  by (induction ks arbitrary: m) (auto simp: find_erase invar_erase)

lemma invar_erase_all: "invar m \<Longrightarrow> invar (fold erase ks m)"
  by (induction ks arbitrary: m) (auto simp: invar_erase)

end

section \<open>The sorted association list implements it\<close>

lemma omap_inv_Nil [simp]: "omap_inv []"
  by (simp add: omap_inv_def)

lemma omap_inv_Cons: "omap_inv ((k, v) # m) \<longleftrightarrow> (\<forall>k' \<in> set (map fst m). k < k') \<and> omap_inv m"
  by (simp add: omap_inv_def)

lemma omap_inv_tail: "omap_inv (e # m) \<Longrightarrow> omap_inv m"
  by (cases e) (simp add: omap_inv_Cons)

lemma omap_inv_distinct: "omap_inv m \<Longrightarrow> distinct (map fst m)"
  unfolding omap_inv_def by (induction m) auto

lemma omap_find_None: "omap_find k m = None \<longleftrightarrow> k \<notin> set (map fst m)"
  by (simp add: omap_find_def map_of_eq_None_iff)

lemma omap_find_Some_mem: "omap_find k m = Some v \<Longrightarrow> (k, v) \<in> set m"
  by (simp add: omap_find_def map_of_SomeD)

lemma omap_find_mem: "omap_inv m \<Longrightarrow> (k, v) \<in> set m \<Longrightarrow> omap_find k m = Some v"
  by (simp add: omap_find_def omap_inv_distinct)

lemma keys_omap_insert: "set (map fst (omap_insert k v m)) = Set.insert k (set (map fst m))"
  by (induction k v m rule: omap_insert.induct) auto

lemma set_omap_insert: "set (omap_insert k v m) \<subseteq> Set.insert (k, v) (set m)"
  by (induction k v m rule: omap_insert.induct) auto

lemma set_omap_erase: "set (omap_erase k m) \<subseteq> set m"
  by (auto simp: omap_erase_def)

lemma omap_inv_insert: "omap_inv m \<Longrightarrow> omap_inv (omap_insert k v m)"
proof (induction k v m rule: omap_insert.induct)
  case (2 k v k' v' m)
  then show ?case
    using keys_omap_insert [of k v m] by (auto simp: omap_inv_Cons)
qed (simp add: omap_inv_def)

lemma omap_find_insert:
  "omap_inv m \<Longrightarrow> omap_find k (omap_insert k' v m)
     = (if k = k' \<and> omap_find k' m = None then Some v else omap_find k m)"
proof (induction k' v m rule: omap_insert.induct)
  case (2 k' v k'' v'' m)
  have "map_of m k' = None" if "k' < k''"
    using 2(2) that by (auto simp: omap_inv_Cons map_of_eq_None_iff)
  with 2 show ?case
    by (auto simp: omap_inv_Cons omap_find_def split: if_splits)
qed (simp add: omap_find_def)

lemma length_omap_insert:
  "omap_inv m \<Longrightarrow> length (omap_insert k v m)
     = (if omap_find k m = None then Suc (length m) else length m)"
proof (induction k v m rule: omap_insert.induct)
  case (2 k v k' v' m)
  then show ?case by (auto simp: omap_inv_Cons omap_find_def map_of_eq_None_iff)
qed (simp add: omap_find_def)

lemma keys_omap_erase: "set (map fst (omap_erase k m)) = set (map fst m) - {k}"
  by (auto simp: omap_erase_def)

lemma omap_inv_erase: "omap_inv m \<Longrightarrow> omap_inv (omap_erase k m)"
  by (induction m) (auto simp: omap_erase_def omap_inv_Cons)

lemma omap_find_erase: "omap_find k (omap_erase k' m) = (if k = k' then None else omap_find k m)"
  by (induction m) (auto simp: omap_erase_def omap_find_def)

lemma omap_erase_absent: "k \<notin> set (map fst m) \<Longrightarrow> omap_erase k m = m"
  by (induction m) (auto simp: omap_erase_def)

lemma length_omap_erase:
  "omap_inv m \<Longrightarrow> length (omap_erase k m)
     = (if omap_find k m = None then length m else length m - 1)"
proof (induction m)
  case (Cons e m)
  obtain k' v where e: "e = (k', v)" by (cases e)
  show ?case
  proof (cases "k' = k")
    case True
    then have "k \<notin> set (map fst m)" using Cons.prems e by (auto simp: omap_inv_Cons)
    then have "omap_erase k m = m" by (rule omap_erase_absent)
    then show ?thesis using True e by (simp add: omap_erase_def omap_find_def)
  next
    case False
    then have "length (omap_erase k (e # m)) = Suc (length (omap_erase k m))"
      using e by (simp add: omap_erase_def)
    moreover have "omap_find k (e # m) = omap_find k m"
      using False e by (simp add: omap_find_def)
    moreover have "m \<noteq> [] \<or> omap_find k m = None" by (auto simp: omap_find_def)
    ultimately show ?thesis
      using Cons.IH omap_inv_tail [OF Cons.prems] by (cases m) (auto split: if_splits)
  qed
qed (simp add: omap_erase_def omap_find_def)

lemma keys_omap_update [simp]: "map fst (omap_update k f m) = map fst m"
  by (induction m) (auto simp: omap_update_def)

lemma omap_inv_update [simp]: "omap_inv (omap_update k f m) = omap_inv m"
  by (simp add: omap_inv_def)

lemma length_omap_update [simp]: "length (omap_update k f m) = length m"
  by (simp add: omap_update_def)

lemma omap_find_update:
  "omap_find k (omap_update k' f m) = (if k = k' then map_option f (omap_find k m) else omap_find k m)"
  by (induction m) (auto simp: omap_update_def omap_find_def)

text \<open>A property of all values survives the operations.\<close>

lemma omap_ball_insert:
  "\<forall>e \<in> set m. P (snd e) \<Longrightarrow> P v \<Longrightarrow> \<forall>e \<in> set (omap_insert k v m). P (snd e)"
  using set_omap_insert [of k v m] by auto

lemma omap_ball_erase: "\<forall>e \<in> set m. P (snd e) \<Longrightarrow> \<forall>e \<in> set (omap_erase k m). P (snd e)"
  using set_omap_erase [of k m] by auto

lemma omap_ball_update:
  assumes "omap_inv m" "\<forall>e \<in> set m. P (snd e)"
    and "\<And>v. omap_find k m = Some v \<Longrightarrow> P v \<Longrightarrow> P (f v)"
  shows "\<forall>e \<in> set (omap_update k f m). P (snd e)"
  using assms omap_find_mem [OF assms(1)] by (fastforce simp: omap_update_def)

interpretation std_map: keyed_store "[]" omap_find omap_insert omap_erase length omap_inv
  by unfold_locales
     (simp_all add: omap_find_insert omap_find_erase omap_inv_insert omap_inv_erase
        length_omap_insert length_omap_erase, simp add: omap_find_def)

lemmas omap_simps = omap_find_insert omap_find_erase omap_inv_insert omap_inv_erase
  omap_find_update length_omap_insert length_omap_erase

end
