(* ===== verification/LinkedRings.thy ===== *)
theory LinkedRings
  imports Prelude
begin

text \<open>
  Circular doubly linked lists on a heap of \<^verbatim>\<open>next\<close> and \<^verbatim>\<open>last\<close> pointers: the rings
  of \<^verbatim>\<open>Container/DoublyLinkedList\<close> and the rings in which the slots of the timer wheel
  (\<^verbatim>\<open>SlotArray::add\<close>, \<^verbatim>\<open>SlotArray::del\<close>) keep their elements.  A ring refines the
  list of its elements: inserting before the head appends, and unlinking an element removes it.
\<close>

type_synonym ptr = nat

section \<open>Rings\<close>

fun path :: "(ptr \<Rightarrow> ptr option) \<Rightarrow> (ptr \<Rightarrow> ptr option) \<Rightarrow> ptr list \<Rightarrow> bool" where
  "path nxt lst (u # v # r) \<longleftrightarrow> nxt u = Some v \<and> lst v = Some u \<and> path nxt lst (v # r)"
| "path nxt lst _ \<longleftrightarrow> True"

definition ring :: "(ptr \<Rightarrow> ptr option) \<Rightarrow> (ptr \<Rightarrow> ptr option) \<Rightarrow> ptr list \<Rightarrow> bool" where
  "ring nxt lst xs \<longleftrightarrow> distinct xs \<and> (xs \<noteq> [] \<longrightarrow> path nxt lst (xs @ [hd xs]))"

lemma path_append:
  "path nxt lst (xs @ u # ys) \<longleftrightarrow> path nxt lst (xs @ [u]) \<and> path nxt lst (u # ys)"
  by (induction nxt lst xs rule: path.induct) (cases ys; auto)+

lemma path_Cons: "path nxt lst (u # xs) \<longleftrightarrow> xs = [] \<or> nxt u = Some (hd xs) \<and> lst (hd xs) = Some u \<and> path nxt lst xs"
  by (cases xs) auto

lemma path_snoc:
  "xs \<noteq> [] \<Longrightarrow> path nxt lst (xs @ [v]) \<longleftrightarrow>
     path nxt lst xs \<and> nxt (List.last xs) = Some v \<and> lst v = Some (List.last xs)"
  by (induction xs) (auto simp: path_Cons)

lemma path_cong:
  "(\<And>u. u \<in> set (butlast xs) \<Longrightarrow> nxt u = nxt' u) \<Longrightarrow> (\<And>v. v \<in> set (tl xs) \<Longrightarrow> lst v = lst' v) \<Longrightarrow>
     path nxt lst xs \<longleftrightarrow> path nxt' lst' xs"
  by (induction nxt lst xs rule: path.induct) auto

lemma ring_Nil [simp]: "ring nxt lst []"
  by (simp add: ring_def)

lemma ring_Cons:
  "ring nxt lst (x # xs) \<longleftrightarrow> distinct (x # xs) \<and> path nxt lst (x # xs)
     \<and> nxt (List.last (x # xs)) = Some x \<and> lst x = Some (List.last (x # xs))"
  using path_snoc [of "x # xs" nxt lst x] by (simp add: ring_def)

lemma ring_rotate1: "ring nxt lst (x # xs) \<longleftrightarrow> ring nxt lst (xs @ [x])"
proof (cases xs)
  case (Cons y ys)
  have "path nxt lst (x # y # ys @ [x]) \<longleftrightarrow> path nxt lst ((y # ys) @ x # [y])"
    by (subst path_append) auto
  then show ?thesis using Cons by (auto simp: ring_def)
qed simp

lemma ring_rotate: "ring nxt lst (xs @ ys) \<longleftrightarrow> ring nxt lst (ys @ xs)"
proof (induction xs arbitrary: ys)
  case (Cons x xs)
  have "ring nxt lst (x # xs @ ys) \<longleftrightarrow> ring nxt lst (xs @ ys @ [x])"
    using ring_rotate1 [of nxt lst x "xs @ ys"] by simp
  also have "\<dots> \<longleftrightarrow> ring nxt lst ((ys @ [x]) @ xs)" by (rule Cons)
  finally show ?case by simp
qed simp

lemma ring_frame:
  "ring nxt lst xs \<Longrightarrow> (\<And>u. u \<in> set xs \<Longrightarrow> nxt' u = nxt u \<and> lst' u = lst u) \<Longrightarrow> ring nxt' lst' xs"
proof (cases xs)
  case (Cons x ys)
  assume r: "ring nxt lst xs" and eq: "\<And>u. u \<in> set xs \<Longrightarrow> nxt' u = nxt u \<and> lst' u = lst u"
  have "path nxt lst (xs @ [hd xs]) \<longleftrightarrow> path nxt' lst' (xs @ [hd xs])"
    using eq Cons by (intro path_cong) (auto split: if_splits)
  with r show ?thesis by (simp add: ring_def)
qed simp

lemma last_notin_butlast: "distinct xs \<Longrightarrow> xs \<noteq> [] \<Longrightarrow> List.last xs \<notin> set (butlast xs)"
  by (induction xs) auto

lemma ring_insert_end:
  assumes r: "ring nxt lst (x # xs)" and e: "e \<notin> set (x # xs)"
    and nxt': "nxt' = nxt(e := Some x, List.last (x # xs) := Some e)"
    and lst': "lst' = lst(e := Some (List.last (x # xs)), x := Some e)"
  shows "ring nxt' lst' (x # xs @ [e])"
proof -
  let ?l = "List.last (x # xs)"
  have d: "distinct (x # xs)" and p: "path nxt lst (x # xs)" using r by (simp_all add: ring_Cons)
  have l: "?l \<in> set (x # xs)" by (rule last_in_set) simp
  have "?l \<notin> set (butlast (x # xs))" using d by (intro last_notin_butlast) simp_all
  then have "path nxt' lst' (x # xs)"
    using p d e l nxt' lst' by (subst path_cong [where nxt' = nxt and lst' = lst]) (auto dest: in_set_butlastD split: if_splits)
  then show ?thesis
    using d e l nxt' lst' path_snoc [of "x # xs" nxt' lst' e]
    by (auto simp: ring_Cons)
qed

lemma ring_unlink_hd:
  assumes r: "ring nxt lst (e # zs)" and zs: "zs \<noteq> []"
  shows "nxt e = Some (hd zs)" "lst e = Some (List.last zs)"
    and "ring (nxt(List.last zs := Some (hd zs))) (lst(hd zs := Some (List.last zs))) zs"
proof -
  obtain y ys where Cons: "zs = y # ys" using zs by (cases zs) auto
  show "nxt e = Some (hd zs)" "lst e = Some (List.last zs)"
    using r Cons by (auto simp: ring_Cons)
  let ?l = "List.last zs"
  have d: "distinct (y # ys)" and p: "path nxt lst (y # ys)"
    using r Cons by (auto simp: ring_Cons)
  have "List.last (y # ys) \<notin> set (butlast (y # ys))" using d by (intro last_notin_butlast) simp_all
  then have "path (nxt(List.last zs := Some (hd zs))) (lst(hd zs := Some (List.last zs))) (y # ys)"
    using p d Cons by (subst path_cong [where nxt' = nxt and lst' = lst]) auto
  then show "ring (nxt(List.last zs := Some (hd zs))) (lst(hd zs := Some (List.last zs))) zs"
    using d Cons by (simp add: ring_Cons)
qed

section \<open>DoublyLinkedList\<close>

record dll_heap =
  dll_next :: "ptr \<Rightarrow> ptr"
  dll_last :: "ptr \<Rightarrow> ptr"

definition DoublyLinkedList_new :: "ptr \<Rightarrow> dll_heap \<Rightarrow> dll_heap" where
  "DoublyLinkedList_new this h = h\<lparr>dll_last := (dll_last h)(this := this), dll_next := (dll_next h)(this := this)\<rparr>"

definition DoublyLinkedList_insert :: "ptr \<Rightarrow> ptr \<Rightarrow> dll_heap \<Rightarrow> dll_heap" where
  "DoublyLinkedList_insert this entry h =
     (let h = h\<lparr>dll_next := (dll_next h)(entry := dll_next h this)\<rparr>;
          h = h\<lparr>dll_last := (dll_last h)(entry := this)\<rparr>;
          h = h\<lparr>dll_last := (dll_last h)(dll_next h this := entry)\<rparr>
      in h\<lparr>dll_next := (dll_next h)(this := entry)\<rparr>)"

definition DoublyLinkedList_pushBefore :: "ptr \<Rightarrow> ptr \<Rightarrow> dll_heap \<Rightarrow> dll_heap" where
  "DoublyLinkedList_pushBefore this entry h = DoublyLinkedList_insert (dll_last h this) entry h"

definition DoublyLinkedList_remove :: "ptr \<Rightarrow> dll_heap \<Rightarrow> dll_heap" where
  "DoublyLinkedList_remove this h =
     (if dll_last h this = dll_next h this \<and> dll_last h this = this then h
      else let h = h\<lparr>dll_last := (dll_last h)(dll_next h this := dll_last h this)\<rparr>;
               h = h\<lparr>dll_next := (dll_next h)(dll_last h this := dll_next h this)\<rparr>;
               h = h\<lparr>dll_next := (dll_next h)(this := this)\<rparr>
           in h\<lparr>dll_last := (dll_last h)(this := this)\<rparr>)"

definition DoublyLinkedList_empty :: "ptr \<Rightarrow> dll_heap \<Rightarrow> bool" where
  "DoublyLinkedList_empty this h \<longleftrightarrow> dll_next h this = dll_last h this"

text \<open>The ring of a list whose anchor is its first element.\<close>

definition dll_ring :: "dll_heap \<Rightarrow> ptr list \<Rightarrow> bool" where
  "dll_ring h xs \<longleftrightarrow> ring (Some \<circ> dll_next h) (Some \<circ> dll_last h) xs"

lemma comp_Some_upd: "(Some \<circ> f)(a := Some b) = Some \<circ> f(a := b)"
  by (auto simp: fun_eq_iff)

lemma dll_insert_ring:
  assumes r: "dll_ring h (this # xs)" and e: "entry \<notin> set (this # xs)"
  shows "dll_ring (DoublyLinkedList_insert this entry h) (this # entry # xs)"
proof -
  have rot: "ring (Some \<circ> dll_next h) (Some \<circ> dll_last h) (xs @ [this])"
    using r ring_rotate1 by (simp add: dll_ring_def)
  show ?thesis
  proof (cases xs)
    case Nil
    then show ?thesis
      using r e by (auto simp: dll_ring_def ring_Cons DoublyLinkedList_insert_def Let_def)
  next
    case (Cons y ys)
    have n: "dll_next h this = y" and l: "dll_last h y = this"
      using r Cons by (auto simp: dll_ring_def ring_Cons)
    have "ring ((Some \<circ> dll_next h)(entry := Some y, List.last (y # ys @ [this]) := Some entry))
               ((Some \<circ> dll_last h)(entry := Some (List.last (y # ys @ [this])), y := Some entry))
            (y # (ys @ [this]) @ [entry])"
      using rot Cons e by (intro ring_insert_end [OF _ _ refl refl]) auto
    then have "ring (Some \<circ> dll_next (DoublyLinkedList_insert this entry h))
          (Some \<circ> dll_last (DoublyLinkedList_insert this entry h)) (xs @ [this, entry])"
      using Cons n e by (simp add: DoublyLinkedList_insert_def Let_def comp_Some_upd)
    then show ?thesis using ring_rotate [of _ _ xs "[this, entry]"] by (simp add: dll_ring_def)
  qed
qed

lemma dll_remove_ring:
  assumes r: "dll_ring h (a @ this # b)"
  shows "dll_ring (DoublyLinkedList_remove this h) (a @ b)"
    and "dll_ring (DoublyLinkedList_remove this h) [this]"
proof -
  have rot: "ring (Some \<circ> dll_next h) (Some \<circ> dll_last h) (this # b @ a)"
    using r ring_rotate [of _ _ a "this # b"] by (simp add: dll_ring_def)
  have this_notin: "this \<notin> set (b @ a)" using rot by (auto simp: ring_def)
  show "dll_ring (DoublyLinkedList_remove this h) (a @ b)"
  proof (cases "b @ a")
    case (Cons y ys)
    let ?zs = "b @ a"
    have zs: "?zs \<noteq> []" using Cons by simp
    have n: "dll_next h this = hd ?zs" and l: "dll_last h this = List.last ?zs"
      using ring_unlink_hd(1,2) [OF rot zs] by simp_all
    have mem: "hd ?zs \<in> set ?zs" "List.last ?zs \<in> set ?zs"
      using hd_in_set [OF zs] last_in_set [OF zs] by blast+
    have "ring ((Some \<circ> dll_next h)(List.last ?zs := Some (hd ?zs)))
        ((Some \<circ> dll_last h)(hd ?zs := Some (List.last ?zs))) ?zs"
      by (rule ring_unlink_hd(3) [OF rot zs])
    then have "ring (Some \<circ> dll_next (DoublyLinkedList_remove this h))
        (Some \<circ> dll_last (DoublyLinkedList_remove this h)) ?zs"
      by (rule ring_frame)
         (use this_notin n l mem in \<open>auto simp: DoublyLinkedList_remove_def Let_def\<close>)
    then show ?thesis using ring_rotate [of _ _ b a] by (simp add: dll_ring_def)
  qed (simp add: dll_ring_def)
  show "dll_ring (DoublyLinkedList_remove this h) [this]"
    by (auto simp: dll_ring_def ring_def DoublyLinkedList_remove_def Let_def)
qed

lemma dll_empty_iff:
  assumes "dll_ring h (this # xs)"
  shows "DoublyLinkedList_empty this h \<longleftrightarrow> length xs \<le> 1"
proof (cases xs)
  case (Cons y ys)
  then show ?thesis
    using assms by (cases ys) (auto simp: dll_ring_def ring_Cons DoublyLinkedList_empty_def)
qed (use assms in \<open>auto simp: dll_ring_def ring_Cons DoublyLinkedList_empty_def\<close>)

section \<open>The slots of the timer wheel\<close>

text \<open>
  One \<^verbatim>\<open>SlotArray\<close> as the C++ code keeps it: per slot a pointer to the head of a ring, and in
  every element its neighbours and the handle that names array and slot.  A null dereference is
  \<^term>\<open>None\<close>.
\<close>

record slot_rings =
  sr_next :: "ptr \<Rightarrow> ptr option"
  sr_last :: "ptr \<Rightarrow> ptr option"
  sr_handle :: "ptr \<Rightarrow> u16"
  sr_slotList :: "nat \<Rightarrow> ptr option"
  sr_count :: u32

definition SlotTimerElement_isRunning :: "ptr \<Rightarrow> slot_rings \<Rightarrow> bool" where
  "SlotTimerElement_isRunning e s \<longleftrightarrow> sr_next s e \<noteq> None \<and> sr_last s e \<noteq> None"

definition SlotArray_add :: "u16 \<Rightarrow> nat \<Rightarrow> ptr \<Rightarrow> slot_rings \<Rightarrow> slot_rings option" where
  "SlotArray_add arrayId slotNumber e s =
     (let s = s\<lparr>sr_count := sr_count s + 1\<rparr>;
          s = s\<lparr>sr_handle := (sr_handle s)(e := push_bit 8 arrayId + of_nat slotNumber)\<rparr>
      in case sr_slotList s slotNumber of
           None \<Rightarrow> Some (s\<lparr>sr_next := (sr_next s)(e := Some e), sr_last := (sr_last s)(e := Some e),
                           sr_slotList := (sr_slotList s)(slotNumber := Some e)\<rparr>)
         | Some first \<Rightarrow>
             (let s = s\<lparr>sr_next := (sr_next s)(e := Some first)\<rparr>;
                  s = s\<lparr>sr_last := (sr_last s)(e := sr_last s first)\<rparr>
              in case sr_last s first of
                   None \<Rightarrow> None
                 | Some l \<Rightarrow>
                     (let s = s\<lparr>sr_next := (sr_next s)(l := Some e)\<rparr>
                      in Some (s\<lparr>sr_last := (sr_last s)(first := Some e)\<rparr>))))"

definition SlotArray_del :: "nat \<Rightarrow> ptr \<Rightarrow> slot_rings \<Rightarrow> slot_rings option" where
  "SlotArray_del slotNumber e s =
     (let s = s\<lparr>sr_count := sr_count s - 1\<rparr>
      in case sr_slotList s slotNumber of
           None \<Rightarrow> None
         | Some first \<Rightarrow>
             if sr_next s first = Some first then
               Some (s\<lparr>sr_slotList := (sr_slotList s)(slotNumber := None),
                       sr_last := (sr_last s)(e := None), sr_next := (sr_next s)(e := None)\<rparr>)
             else
               (let s = (if first = e then s\<lparr>sr_slotList := (sr_slotList s)(slotNumber := sr_next s first)\<rparr>
                         else s)
                in case (sr_last s e, sr_next s e) of
                     (Some l, Some n) \<Rightarrow>
                       (let s = s\<lparr>sr_next := (sr_next s)(l := Some n)\<rparr>;
                            s = s\<lparr>sr_last := (sr_last s)(n := Some l)\<rparr>
                        in Some (s\<lparr>sr_last := (sr_last s)(e := None), sr_next := (sr_next s)(e := None)\<rparr>))
                   | _ \<Rightarrow> None))"

text \<open>Slot \<^term>\<open>i\<close> holds the elements \<^term>\<open>xs i\<close>, every element is in one slot at most, and
  the elements outside have no neighbours.\<close>

definition slot_repr :: "slot_rings \<Rightarrow> (nat \<Rightarrow> ptr list) \<Rightarrow> bool" where
  "slot_repr s xs \<longleftrightarrow>
     (\<forall>i. ring (sr_next s) (sr_last s) (xs i)
        \<and> sr_slotList s i = (case xs i of [] \<Rightarrow> None | x # _ \<Rightarrow> Some x))
     \<and> (\<forall>i j. i \<noteq> j \<longrightarrow> set (xs i) \<inter> set (xs j) = {})
     \<and> (\<forall>e. (\<forall>i. e \<notin> set (xs i)) \<longrightarrow> sr_next s e = None \<and> sr_last s e = None)"

lemma slot_repr_ring: "slot_repr s xs \<Longrightarrow> ring (sr_next s) (sr_last s) (xs i)"
  and slot_repr_head: "slot_repr s xs \<Longrightarrow> sr_slotList s i = (case xs i of [] \<Rightarrow> None | x # _ \<Rightarrow> Some x)"
  and slot_repr_disjoint: "slot_repr s xs \<Longrightarrow> i \<noteq> j \<Longrightarrow> e \<in> set (xs i) \<Longrightarrow> e \<notin> set (xs j)"
  by (auto simp: slot_repr_def)

lemma slot_repr_outside:
  assumes "slot_repr s xs" "u \<notin> set (xs n)" "\<forall>i. i \<noteq> n \<longrightarrow> u \<notin> set (xs i)"
  shows "sr_next s u = None \<and> sr_last s u = None"
proof -
  have "\<forall>i. u \<notin> set (xs i)" using assms(2,3) by metis
  then show ?thesis using assms(1) by (simp add: slot_repr_def)
qed

lemma ring_neighbours:
  assumes "ring nxt lst xs" "x \<in> set xs"
  shows "\<exists>n l. nxt x = Some n \<and> lst x = Some l"
proof -
  obtain a b where "xs = a @ x # b" using assms(2) by (meson split_list)
  then have "ring nxt lst (x # b @ a)" using assms(1) ring_rotate [of nxt lst a "x # b"] by simp
  then show ?thesis by (cases "b @ a") (auto simp: ring_Cons)
qed

lemma isRunning_iff:
  assumes "slot_repr s xs"
  shows "SlotTimerElement_isRunning e s \<longleftrightarrow> (\<exists>i. e \<in> set (xs i))"
proof
  assume "SlotTimerElement_isRunning e s"
  then show "\<exists>i. e \<in> set (xs i)"
    using assms by (auto simp: SlotTimerElement_isRunning_def slot_repr_def)
next
  assume "\<exists>i. e \<in> set (xs i)"
  then show "SlotTimerElement_isRunning e s"
    using ring_neighbours [OF slot_repr_ring [OF assms]] by (force simp: SlotTimerElement_isRunning_def)
qed

lemma slot_reprI:
  assumes "slot_repr s xs"
    and "ring (sr_next s') (sr_last s') ys"
    and "sr_slotList s' = (sr_slotList s)(n := case ys of [] \<Rightarrow> None | x # _ \<Rightarrow> Some x)"
    and "\<And>u. (\<exists>i. i \<noteq> n \<and> u \<in> set (xs i)) \<Longrightarrow> sr_next s' u = sr_next s u \<and> sr_last s' u = sr_last s u"
    and "\<And>i. i \<noteq> n \<Longrightarrow> set ys \<inter> set (xs i) = {}"
    and "\<And>e. e \<notin> set ys \<Longrightarrow> (\<forall>i. i \<noteq> n \<longrightarrow> e \<notin> set (xs i)) \<Longrightarrow> sr_next s' e = None \<and> sr_last s' e = None"
  shows "slot_repr s' (xs(n := ys))"
proof -
  have "ring (sr_next s') (sr_last s') (xs i)" if "i \<noteq> n" for i
    by (rule ring_frame [OF slot_repr_ring [OF assms(1), of i]]) (use assms(4) that in blast)
  moreover have "sr_slotList s i = (case xs i of [] \<Rightarrow> None | x # _ \<Rightarrow> Some x)" for i
    by (rule slot_repr_head [OF assms(1)])
  moreover have "set (xs i) \<inter> set (xs j) = {}" if "i \<noteq> j" for i j
    using assms(1) that by (simp add: slot_repr_def)
  ultimately show ?thesis
    unfolding slot_repr_def using assms(2,3,5,6) by (auto split: if_splits) blast+
qed

lemma add_refines:
  assumes repr: "slot_repr s xs" and fresh: "\<And>i. e \<notin> set (xs i)"
  shows "\<exists>s'. SlotArray_add arrayId n e s = Some s' \<and> slot_repr s' (xs(n := xs n @ [e]))
    \<and> sr_count s' = sr_count s + 1
    \<and> sr_handle s' = (sr_handle s)(e := push_bit 8 arrayId + of_nat n)"
proof (cases "xs n")
  case Nil
  then have "sr_slotList s n = None" using slot_repr_head [OF repr, of n] by simp
  moreover have "sr_next s u = None \<and> sr_last s u = None" if "\<forall>i. i \<noteq> n \<longrightarrow> u \<notin> set (xs i)" for u
    by (rule slot_repr_outside [OF repr _ that]) (simp add: Nil)
  ultimately show ?thesis
    using Nil fresh
    by (auto simp: SlotArray_add_def ring_Cons Let_def intro!: slot_reprI [OF repr])
next
  case (Cons x ys)
  let ?l = "List.last (x # ys)"
  have head: "sr_slotList s n = Some x" using slot_repr_head [OF repr, of n] Cons by simp
  have r: "ring (sr_next s) (sr_last s) (x # ys)" using slot_repr_ring [OF repr, of n] Cons by simp
  have last: "sr_last s x = Some ?l" using r by (simp add: ring_Cons)
  have e: "e \<notin> set (x # ys)" using fresh [of n] Cons by simp
  define s' where "s' = s\<lparr>sr_count := sr_count s + 1,
      sr_handle := (sr_handle s)(e := push_bit 8 arrayId + of_nat n),
      sr_next := (sr_next s)(e := Some x, ?l := Some e),
      sr_last := (sr_last s)(e := Some ?l, x := Some e)\<rparr>"
  have "SlotArray_add arrayId n e s = Some s'"
    using head last e by (simp add: SlotArray_add_def s'_def Let_def)
  moreover have "slot_repr s' (xs(n := xs n @ [e]))"
  proof (rule slot_reprI [OF repr])
    show "ring (sr_next s') (sr_last s') (xs n @ [e])"
      using ring_insert_end [OF r e refl refl] Cons by (simp add: s'_def)
    show "sr_slotList s' = (sr_slotList s)(n := case xs n @ [e] of [] \<Rightarrow> None | x # _ \<Rightarrow> Some x)"
      using head Cons by (auto simp: s'_def)
    show "set (xs n @ [e]) \<inter> set (xs i) = {}" if "i \<noteq> n" for i
      using slot_repr_disjoint [OF repr that] fresh [of i] by auto
    have l: "?l \<in> set (xs n)" unfolding Cons by (rule last_in_set) simp
    show "sr_next s' u = sr_next s u \<and> sr_last s' u = sr_last s u" if "\<exists>i. i \<noteq> n \<and> u \<in> set (xs i)" for u
    proof -
      have "u \<notin> set (xs n)" "u \<noteq> e" using that slot_repr_disjoint [OF repr, of _ n] fresh by blast+
      then show ?thesis using l Cons by (auto simp: s'_def)
    qed
    show "sr_next s' u = None \<and> sr_last s' u = None"
      if "u \<notin> set (xs n @ [e])" "\<forall>i. i \<noteq> n \<longrightarrow> u \<notin> set (xs i)" for u
      using slot_repr_outside [OF repr _ that(2)] that(1) l Cons by (auto simp: s'_def)
  qed
  ultimately show ?thesis by (auto simp: s'_def)
qed

lemma del_refines:
  assumes repr: "slot_repr s xs" and e: "e \<in> set (xs n)"
  shows "\<exists>s'. SlotArray_del n e s = Some s' \<and> slot_repr s' (xs(n := remove1 e (xs n)))
    \<and> sr_count s' = sr_count s - 1 \<and> sr_handle s' = sr_handle s"
proof -
  obtain a b where ab: "xs n = a @ e # b" "e \<notin> set a" using e by (meson split_list_first)
  have rem: "remove1 e (xs n) = a @ b" using ab by (simp add: remove1_append)
  have r: "ring (sr_next s) (sr_last s) (a @ e # b)" using slot_repr_ring [OF repr, of n] ab by simp
  have rot: "ring (sr_next s) (sr_last s) (e # b @ a)"
    using r ring_rotate [of _ _ a "e # b"] by simp
  show ?thesis
  proof (cases "b @ a")
    case Nil
    then have "sr_slotList s n = Some e" "sr_next s e = Some e" "xs n = [e]"
      using slot_repr_head [OF repr, of n] ab rot by (auto simp: ring_Cons)
    moreover have "e \<notin> set (xs i)" if "i \<noteq> n" for i
      using slot_repr_disjoint [OF repr, of n i e] that e by auto
    ultimately show ?thesis
      using Nil rem slot_repr_outside [OF repr, of _ n]
      by (auto simp: SlotArray_del_def Let_def intro!: slot_reprI [OF repr])
  next
    case (Cons y ys)
    let ?zs = "b @ a"
    have zs: "?zs \<noteq> []" using Cons by simp
    note unl = ring_unlink_hd [OF rot zs]
    have d: "distinct (e # b @ a)" using rot by (simp add: ring_def)
    obtain first where first: "sr_slotList s n = Some first" and "first = hd (a @ [e])"
      using slot_repr_head [OF repr, of n] ab by (cases a) auto
    have nf: "sr_next s first \<noteq> Some first"
    proof (cases a)
      case Nil
      then show ?thesis using \<open>first = hd (a @ [e])\<close> unl(1) zs d hd_in_set [OF zs] by auto
    next
      case (Cons f as)
      then have "sr_next s f = Some (hd (as @ [e]))"
        using r by (cases as) (auto simp: ring_Cons)
      moreover have "hd (as @ [e]) \<noteq> f" using d Cons by (cases as) auto
      ultimately show ?thesis using \<open>first = hd (a @ [e])\<close> Cons by simp
    qed
    define s' where "s' = s\<lparr>sr_count := sr_count s - 1,
        sr_slotList := (sr_slotList s)(n := if a = [] then Some (hd ?zs) else Some (hd a)),
        sr_next := (sr_next s)(List.last ?zs := Some (hd ?zs), e := None),
        sr_last := (sr_last s)(hd ?zs := Some (List.last ?zs), e := None)\<rparr>"
    have mem: "hd ?zs \<in> set ?zs" "List.last ?zs \<in> set ?zs" "e \<notin> set ?zs"
      using hd_in_set [OF zs] last_in_set [OF zs] d by auto
    have "first = e \<longleftrightarrow> a = []" using \<open>first = hd (a @ [e])\<close> ab(2) by (cases a) auto
    moreover have "a \<noteq> [] \<Longrightarrow> (sr_slotList s)(n := Some (hd a)) = sr_slotList s"
      using first \<open>first = hd (a @ [e])\<close> by (intro fun_upd_idem) simp
    ultimately have "SlotArray_del n e s = Some s'"
      using first nf unl(1,2) \<open>first = hd (a @ [e])\<close>
      by (auto simp: SlotArray_del_def Let_def s'_def)
    moreover have "slot_repr s' (xs(n := remove1 e (xs n)))"
    proof (rule slot_reprI [OF repr])
      have "ring (sr_next s') (sr_last s') ?zs"
        by (rule ring_frame [OF unl(3)]) (use mem in \<open>auto simp: s'_def\<close>)
      then show "ring (sr_next s') (sr_last s') (remove1 e (xs n))"
        using ring_rotate [of _ _ b a] rem by simp
      show "sr_slotList s' = (sr_slotList s)(n := case remove1 e (xs n) of [] \<Rightarrow> None | x # _ \<Rightarrow> Some x)"
        using Cons rem by (cases a) (auto simp: s'_def)
      show "set (remove1 e (xs n)) \<inter> set (xs i) = {}" if "i \<noteq> n" for i
        using slot_repr_disjoint [OF repr that] rem ab by auto
      have in_n: "hd ?zs \<in> set (xs n)" "List.last ?zs \<in> set (xs n)" using mem ab by auto
      show "sr_next s' u = sr_next s u \<and> sr_last s' u = sr_last s u" if "\<exists>i. i \<noteq> n \<and> u \<in> set (xs i)" for u
      proof -
        have "u \<notin> set (xs n)" using that slot_repr_disjoint [OF repr, of _ n] by blast
        then show ?thesis using in_n e by (auto simp: s'_def)
      qed
      show "sr_next s' u = None \<and> sr_last s' u = None"
        if "u \<notin> set (remove1 e (xs n))" "\<forall>i. i \<noteq> n \<longrightarrow> u \<notin> set (xs i)" for u
        using that rem ab mem slot_repr_outside [OF repr _ that(2)] by (cases "u = e") (auto simp: s'_def)
    qed
    ultimately show ?thesis by (auto simp: s'_def)
  qed
qed

section \<open>Properties\<close>

text \<open>linking an element into a slot at the level of pointers appends it to the list of the slot,
  leaves every other slot, counts it, and records array and slot in its handle.\<close>

theorem slot_add_refines:
  assumes "slot_repr s xs" "\<forall>i. e \<notin> set (xs i)"
  shows "\<exists>s'. SlotArray_add arrayId n e s = Some s' \<and> slot_repr s' (xs(n := xs n @ [e]))
    \<and> sr_count s' = sr_count s + 1
    \<and> sr_handle s' = (sr_handle s)(e := push_bit 8 arrayId + of_nat n)"
  using assms by (intro add_refines) auto

definition no_rings :: slot_rings where
  "no_rings = \<lparr>sr_next = (\<lambda>_. None), sr_last = (\<lambda>_. None), sr_handle = (\<lambda>_. 0), sr_slotList = (\<lambda>_. None), sr_count = 0\<rparr>"

lemma no_rings_repr: "slot_repr no_rings (\<lambda>_. [])"
  by (simp add: slot_repr_def no_rings_def)

theorem slot_add_refines_witness:
  "\<exists>s'. SlotArray_add 0 3 9 no_rings = Some s' \<and> slot_repr s' ((\<lambda>_. [])(3 := [9]))"
  using slot_add_refines [OF no_rings_repr, of 9 0 3] by auto

text \<open>C26: unlinking an element of a slot removes exactly this element from the list of the slot.\<close>

theorem slot_del_refines:
  assumes "slot_repr s xs" "e \<in> set (xs n)"
  shows "\<exists>s'. SlotArray_del n e s = Some s' \<and> slot_repr s' (xs(n := remove1 e (xs n)))
    \<and> sr_count s' = sr_count s - 1 \<and> sr_handle s' = sr_handle s"
  using assms by (rule del_refines)

theorem slot_del_refines_witness:
  "\<exists>s s'. SlotArray_add 0 3 9 no_rings = Some s \<and> SlotArray_del 3 9 s = Some s' \<and> slot_repr s' (\<lambda>_. [])"
proof -
  obtain s where s: "SlotArray_add 0 3 9 no_rings = Some s" "slot_repr s ((\<lambda>_. [])(3 := [9]))"
    using add_refines [OF no_rings_repr, of 9 0 3] by auto
  then show ?thesis using slot_del_refines [OF s(2), of 9 3] by (auto simp: fun_upd_idem)
qed

text \<open>removing an entry from a doubly linked ring leaves the ring of the others, and the entry as a
  ring of its own.\<close>

theorem doublyLinkedList_remove:
  assumes "dll_ring h (a @ this # b)"
  shows "dll_ring (DoublyLinkedList_remove this h) (a @ b) \<and> dll_ring (DoublyLinkedList_remove this h) [this]"
  using dll_remove_ring [OF assms] by blast

theorem doublyLinkedList_remove_witness:
  "dll_ring (DoublyLinkedList_remove 1 (DoublyLinkedList_insert 0 1 (DoublyLinkedList_new 0 \<lparr>dll_next = id, dll_last = id\<rparr>))) [0]"
proof -
  have "dll_ring (DoublyLinkedList_new 0 \<lparr>dll_next = id, dll_last = id\<rparr>) [0]"
    by (simp add: dll_ring_def ring_Cons DoublyLinkedList_new_def)
  from dll_insert_ring [OF this, of 1] show ?thesis
    using doublyLinkedList_remove [of _ "[0]" 1 "[]"] by auto
qed

end
