(* ===== verification/SlotTimer.thy ===== *)
theory SlotTimer
  imports LinkedRings "HOL-Library.Multiset"
begin

text \<open>
  The hierarchical timer wheel of \<^verbatim>\<open>Utility/SlotTimer.cpp\<close>: five slot arrays of growing
  granularity, chained by their \<^verbatim>\<open>next_\<close> pointers.  A chain is the list of the arrays from one
  of them to the last; the last one has no successor and holds the timers beyond the range of the
  others in its slot 0.  The slots hold the lists of their elements, which is what the rings of
  \<^verbatim>\<open>LinkedRings\<close> represent (\<^verbatim>\<open>add_refines\<close>, \<^verbatim>\<open>del_refines\<close>).

  A tick is 10 ms; ticks and times are natural numbers (they are 64 bit in the code, which is out
  of reach at this rate).  A dereference of a null pointer is \<^term>\<open>None\<close>.
\<close>

section \<open>State\<close>

record SlotTimerElement =
  ste_expireTime :: nat
  ste_interval :: nat
  ste_tick :: nat
  ste_handle :: nat
  ste_running :: bool

record SlotArray =
  sa_id :: nat
  numberSlots :: nat
  ticksPerSlot :: nat
  ticksPerArray :: nat
  slotList :: "ptr list list"
  actSlot :: nat
  tickOffset :: nat
  sa_count :: u32

type_synonym element_heap = "ptr \<Rightarrow> SlotTimerElement"

record SlotTimer =
  st_elements :: element_heap
  st_arrays :: "SlotArray list"
  st_startTime :: nat

section \<open>SlotArray\<close>

definition SlotArray_new :: "nat \<Rightarrow> nat \<Rightarrow> SlotArray" where
  "SlotArray_new n t = \<lparr>sa_id = 0, numberSlots = n, ticksPerSlot = t, ticksPerArray = 0,
     slotList = replicate (if n = 0 then 1 else n) [], actSlot = 0, tickOffset = 0, sa_count = 0\<rparr>"

fun SlotArray_init :: "nat \<Rightarrow> nat \<Rightarrow> SlotArray list \<Rightarrow> SlotArray list" where
  "SlotArray_init offset i [] = []"
| "SlotArray_init offset i (sa # next) =
     (let sa = sa\<lparr>sa_id := i, tickOffset := offset, ticksPerArray := numberSlots sa * ticksPerSlot sa\<rparr>
      in sa # SlotArray_init (offset + ticksPerArray sa) (i + 1) next)"

definition slot_add :: "nat \<Rightarrow> ptr \<Rightarrow> element_heap \<times> SlotArray \<Rightarrow> element_heap \<times> SlotArray" where
  "slot_add n e = (\<lambda>(h, sa).
     (h(e := (h e)\<lparr>ste_handle := 256 * sa_id sa + n, ste_running := True\<rparr>),
      sa\<lparr>sa_count := sa_count sa + 1, slotList := (slotList sa)[n := slotList sa ! n @ [e]]\<rparr>))"

text \<open>A slot with one element is emptied whatever element is asked for.  Unlinking an element
  that is not in this slot of several elements is outside the list model.\<close>

definition slot_del :: "nat \<Rightarrow> ptr \<Rightarrow> element_heap \<times> SlotArray \<Rightarrow> (element_heap \<times> SlotArray) option" where
  "slot_del n e = (\<lambda>(h, sa).
     (let rest = (case slotList sa ! n of
                    [] \<Rightarrow> None
                  | [x] \<Rightarrow> Some []
                  | xs \<Rightarrow> if e \<in> set xs then Some (remove1 e xs) else None)
      in case rest of
           None \<Rightarrow> None
         | Some xs \<Rightarrow> Some (h(e := (h e)\<lparr>ste_running := False\<rparr>),
             sa\<lparr>sa_count := sa_count sa - 1, slotList := (slotList sa)[n := xs]\<rparr>)))"

fun SlotArray_insert :: "ptr \<Rightarrow> element_heap \<times> SlotArray list \<Rightarrow> element_heap \<times> SlotArray list" where
  "SlotArray_insert e (h, []) = (h, [])"
| "SlotArray_insert e (h, [sa]) = (let (h, sa) = slot_add 0 e (h, sa) in (h, [sa]))"
| "SlotArray_insert e (h, sa # nx # rest) =
     (if ste_tick (h e) \<le> tickOffset sa then
        (let (h, sa) = slot_add (actSlot sa) e (h, sa) in (h, sa # nx # rest))
      else
        let tickTimer = ste_tick (h e) - tickOffset sa;
            tickBegin = tickOffset sa + actSlot sa * ticksPerSlot sa;
            tickEnd = tickBegin + ticksPerArray sa
        in if ste_tick (h e) \<le> tickBegin then
             (let (h, sa) = slot_add (actSlot sa) e (h, sa) in (h, sa # nx # rest))
           else if ste_tick (h e) < tickEnd then
             (let (h, sa) = slot_add ((tickTimer div ticksPerSlot sa) mod numberSlots sa) e (h, sa)
              in (h, sa # nx # rest))
           else (let (h, next) = SlotArray_insert e (h, nx # rest) in (h, sa # next)))"

fun SlotArray_count :: "SlotArray list \<Rightarrow> u32" where
  "SlotArray_count [] = 0"
| "SlotArray_count [sa] = sa_count sa"
| "SlotArray_count (sa # next) = sa_count sa + SlotArray_count next"

text \<open>In the last array the element is unlinked from slot 0, and the function then goes on.\<close>

fun SlotArray_remove :: "ptr \<Rightarrow> element_heap \<times> SlotArray list \<Rightarrow> (element_heap \<times> SlotArray list) option" where
  "SlotArray_remove e (h, []) = None"
| "SlotArray_remove e (h, [sa]) = do {
     (h, sa) \<leftarrow> slot_del 0 e (h, sa);
     if sa_id sa \<noteq> ste_handle (h e) div 256 then None
     else do {
       (h, sa) \<leftarrow> slot_del (ste_handle (h e) mod 256) e (h, sa);
       Some (h, [sa]) } }"
| "SlotArray_remove e (h, sa # nx # rest) =
     (if sa_id sa \<noteq> ste_handle (h e) div 256 then do {
        (h, next) \<leftarrow> SlotArray_remove e (h, nx # rest);
        Some (h, sa # next) }
      else do {
        (h, sa) \<leftarrow> slot_del (ste_handle (h e) mod 256) e (h, sa);
        Some (h, sa # nx # rest) })"

definition SlotArray_removeActSlot ::
  "element_heap \<times> SlotArray \<Rightarrow> (ptr option \<times> element_heap \<times> SlotArray) option" where
  "SlotArray_removeActSlot = (\<lambda>(h, sa).
     (case slotList sa ! actSlot sa of
        [] \<Rightarrow> Some (None, h, sa)
      | e # _ \<Rightarrow> do { (h, sa) \<leftarrow> slot_del (actSlot sa) e (h, sa); Some (Some e, h, sa) }))"

text \<open>
  The loop of \<^verbatim>\<open>moveSlot\<close> that takes the elements out of the current slot of the next array and
  inserts them here.  It does not return when an element goes back to the slot it came from.
\<close>

partial_function (option) SlotArray_pull ::
  "element_heap \<times> SlotArray list \<Rightarrow> (element_heap \<times> SlotArray list) option" where
  "SlotArray_pull s =
     (case s of
        (h, sa # nx # rest) \<Rightarrow>
          (case SlotArray_removeActSlot (h, nx) of
             None \<Rightarrow> None
           | Some (None, h, nx) \<Rightarrow> Some (h, sa # nx # rest)
           | Some (Some e, h, nx) \<Rightarrow> SlotArray_pull (SlotArray_insert e (h, sa # nx # rest)))
      | _ \<Rightarrow> Some s)"

lemma length_insert: "length (snd (SlotArray_insert e (h, arrs))) = length arrs"
  by (induction e "(h, arrs)" arbitrary: h arrs rule: SlotArray_insert.induct)
     (auto simp: slot_add_def Let_def split: prod.splits)

declare SlotArray_insert.simps [simp del]

lemma length_pull:
  assumes "SlotArray_pull s = Some s'"
  shows "length (snd s') = length (snd s)"
  using assms
proof (rule SlotArray_pull.raw_induct [where P = "\<lambda>s s'. length (snd s') = length (snd s)", rotated])
  fix pull s s'
  assume IH: "\<And>s s'. pull s = Some s' \<Longrightarrow> length (snd s') = length (snd s)"
    and "(case s of (h, sa # nx # rest) \<Rightarrow>
          (case SlotArray_removeActSlot (h, nx) of
             None \<Rightarrow> None
           | Some (None, h, nx) \<Rightarrow> Some (h, sa # nx # rest)
           | Some (Some e, h, nx) \<Rightarrow> pull (SlotArray_insert e (h, sa # nx # rest)))
        | _ \<Rightarrow> Some s) = Some s'"
  then show "length (snd s') = length (snd s)"
    by (auto split: prod.splits list.splits option.splits dest!: IH simp: length_insert)
qed

function SlotArray_moveSlot ::
  "element_heap \<times> SlotArray list \<Rightarrow> (element_heap \<times> SlotArray list) option" where
  "SlotArray_moveSlot (h, []) = Some (h, [])"
| "SlotArray_moveSlot (h, [sa]) = Some (h, [sa])"
| "SlotArray_moveSlot (h, sa # nx # rest) =
     (let sa = sa\<lparr>actSlot := actSlot sa + 1\<rparr>
      in if actSlot sa < numberSlots sa then Some (h, sa # nx # rest)
         else
           let sa = sa\<lparr>actSlot := 0, tickOffset := tickOffset sa + ticksPerArray sa\<rparr>
           in case SlotArray_pull (h, sa # nx # rest) of
                None \<Rightarrow> None
              | Some (h, arrs) \<Rightarrow>
                  (case SlotArray_moveSlot (h, tl arrs) of
                     None \<Rightarrow> None
                   | Some (h, next) \<Rightarrow> Some (h, hd arrs # next)))"
  by pat_completeness auto

termination
  by (relation "measure (\<lambda>(h, arrs). length arrs)") (auto dest!: length_pull)

declare SlotArray_moveSlot.simps [simp del]

section \<open>SlotTimer\<close>

definition SlotTimer_new :: "SlotTimer" where
  "SlotTimer_new = \<lparr>
     st_elements = (\<lambda>_. \<lparr>ste_expireTime = 0, ste_interval = 0, ste_tick = 0, ste_handle = 0, ste_running = False\<rparr>),
     st_arrays = SlotArray_init 0 0
       [SlotArray_new 255 1, SlotArray_new 64 255, SlotArray_new 64 (255 * 64),
        SlotArray_new 64 (255 * 64 * 64), SlotArray_new 64 0],
     st_startTime = 0\<rparr>"

text \<open>Setting the time of an element; \<^verbatim>\<open>interval\<close> and \<^verbatim>\<open>expireFromNow\<close> take it from the clock.\<close>

definition SlotTimerElement_expireTime :: "nat \<Rightarrow> nat \<Rightarrow> SlotTimerElement \<Rightarrow> SlotTimerElement" where
  "SlotTimerElement_expireTime t msecInterval e = e\<lparr>ste_expireTime := t, ste_interval := msecInterval\<rparr>"

definition SlotTimerElement_interval :: "nat \<Rightarrow> nat \<Rightarrow> SlotTimerElement \<Rightarrow> SlotTimerElement" where
  "SlotTimerElement_interval now msecInterval e =
     e\<lparr>ste_expireTime := now + msecInterval, ste_interval := msecInterval\<rparr>"

definition SlotTimerElement_expireFromNow :: "nat \<Rightarrow> nat \<Rightarrow> SlotTimerElement \<Rightarrow> SlotTimerElement" where
  "SlotTimerElement_expireFromNow now msecInterval e =
     e\<lparr>ste_expireTime := now + msecInterval, ste_interval := 0\<rparr>"

definition SlotTimer_startSlotTimerLoop :: "nat \<Rightarrow> SlotTimer \<Rightarrow> SlotTimer" where
  "SlotTimer_startSlotTimerLoop now st = st\<lparr>st_startTime := now\<rparr>"

definition SlotTimer_tick :: "nat \<Rightarrow> nat \<Rightarrow> nat" where
  "SlotTimer_tick startTime expireTime =
     (if startTime \<ge> expireTime then 0 else (expireTime - startTime) div 10)"

definition SlotTimer_internalStart :: "ptr \<Rightarrow> SlotTimer \<Rightarrow> SlotTimer" where
  "SlotTimer_internalStart e st =
     (let h = st_elements st;
          h = h(e := (h e)\<lparr>ste_tick := SlotTimer_tick (st_startTime st) (ste_expireTime (h e))\<rparr>);
          (h, arrs) = SlotArray_insert e (h, st_arrays st)
      in st\<lparr>st_elements := h, st_arrays := arrs\<rparr>)"

definition SlotTimer_stop :: "ptr \<Rightarrow> SlotTimer \<Rightarrow> SlotTimer option" where
  "SlotTimer_stop e st =
     (if \<not> ste_running (st_elements st e) then Some st
      else do {
        (h, arrs) \<leftarrow> SlotArray_remove e (st_elements st, st_arrays st);
        Some (st\<lparr>st_elements := h, st_arrays := arrs\<rparr>) })"

definition SlotTimer_count :: "SlotTimer \<Rightarrow> u32" where
  "SlotTimer_count st = SlotArray_count (st_arrays st)"

text \<open>The tick the wheel stands at: the value \<^verbatim>\<open>run\<close> returns.\<close>

definition SlotTimer_now :: "SlotTimer \<Rightarrow> nat" where
  "SlotTimer_now st =
     (let sa = hd (st_arrays st) in tickOffset sa + ticksPerSlot sa * actSlot sa)"

definition MAX_CALL_PER_LOOP :: nat where
  "MAX_CALL_PER_LOOP = 100"

text \<open>
  \<^verbatim>\<open>run\<close> on the first array: at most \<^term>\<open>MAX_CALL_PER_LOOP - 1\<close> callbacks, each after the
  element was unlinked and, when it is periodic, started again.  A callback may start and stop timers.
\<close>

fun SlotTimer_run_loop ::
  "(ptr \<Rightarrow> SlotTimer \<Rightarrow> SlotTimer option) \<Rightarrow> nat \<Rightarrow> SlotTimer \<Rightarrow> SlotTimer option" where
  "SlotTimer_run_loop callback calls st =
     (case st_arrays st of
        [] \<Rightarrow> None
      | sa # next \<Rightarrow>
          (case slotList sa ! actSlot sa of
             [] \<Rightarrow> do {
               (h, arrs) \<leftarrow> SlotArray_moveSlot (st_elements st, st_arrays st);
               Some (st\<lparr>st_elements := h, st_arrays := arrs\<rparr>) }
           | e # _ \<Rightarrow>
               (case calls of
                  0 \<Rightarrow> Some st
                | Suc calls' \<Rightarrow> do {
                    (h, sa) \<leftarrow> slot_del (actSlot sa) e (st_elements st, sa);
                    let st = st\<lparr>st_elements := h, st_arrays := sa # next\<rparr>;
                    let st = (if ste_interval (h e) \<noteq> 0 then
                                SlotTimer_internalStart e (st\<lparr>st_elements := h(e := (h e)
                                  \<lparr>ste_expireTime := ste_expireTime (h e) + ste_interval (h e)\<rparr>)\<rparr>)
                              else st);
                    st \<leftarrow> callback e st;
                    SlotTimer_run_loop callback calls' st })))"

definition SlotTimer_run :: "(ptr \<Rightarrow> SlotTimer \<Rightarrow> SlotTimer option) \<Rightarrow> SlotTimer \<Rightarrow> SlotTimer option" where
  "SlotTimer_run callback st = SlotTimer_run_loop callback (MAX_CALL_PER_LOOP - 1) st"

section \<open>Where the elements are\<close>

text \<open>
  The first tick of the current slot of an array; the slot in which an array keeps an element with a
  given tick; and the elements of an array and of a chain.
\<close>

definition slot_begin :: "SlotArray \<Rightarrow> nat" where
  "slot_begin sa = tickOffset sa + actSlot sa * ticksPerSlot sa"

definition place :: "SlotArray \<Rightarrow> nat \<Rightarrow> nat" where
  "place sa t = (if t \<le> slot_begin sa then actSlot sa
                 else ((t - tickOffset sa) div ticksPerSlot sa) mod numberSlots sa)"

definition elems :: "SlotArray \<Rightarrow> ptr list" where
  "elems sa = concat (slotList sa)"

definition pending :: "SlotArray list \<Rightarrow> ptr list" where
  "pending arrs = concat (map elems arrs)"

definition level_wf :: "SlotArray \<Rightarrow> bool" where
  "level_wf sa \<longleftrightarrow> 0 < numberSlots sa \<and> numberSlots sa \<le> 256 \<and> 0 < ticksPerSlot sa
     \<and> ticksPerArray sa = numberSlots sa * ticksPerSlot sa
     \<and> length (slotList sa) = numberSlots sa \<and> actSlot sa < numberSlots sa"

definition level_ok :: "(ptr \<Rightarrow> nat) \<Rightarrow> SlotArray \<Rightarrow> bool" where
  "level_ok tk sa \<longleftrightarrow> level_wf sa \<and>
     (\<forall>j<numberSlots sa. \<forall>e\<in>set (slotList sa ! j).
        tk e < slot_begin sa + ticksPerArray sa \<and> j = place sa (tk e))"

text \<open>
  The arrays above the first one: the current slot begins where the window of the array below ends
  (\<^verbatim>\<open>lb\<close>), it is as wide as that array (\<^verbatim>\<open>step\<close>), no element lies before it, and the
  array of the timers out of range is empty.
\<close>

fun upper_ok :: "(ptr \<Rightarrow> nat) \<Rightarrow> nat \<Rightarrow> nat \<Rightarrow> SlotArray list \<Rightarrow> bool" where
  "upper_ok tk lb step [] \<longleftrightarrow> False"
| "upper_ok tk lb step [sa] \<longleftrightarrow> actSlot sa < length (slotList sa) \<and> (\<forall>xs\<in>set (slotList sa). xs = [])"
| "upper_ok tk lb step (sa # nx # rest) \<longleftrightarrow>
     level_ok tk sa \<and> slot_begin sa = lb \<and> ticksPerSlot sa = step \<and> (\<forall>e\<in>set (elems sa). lb \<le> tk e)
     \<and> upper_ok tk (tickOffset sa + ticksPerArray sa) (ticksPerArray sa) (nx # rest)"

fun arrays_ok :: "(ptr \<Rightarrow> nat) \<Rightarrow> SlotArray list \<Rightarrow> bool" where
  "arrays_ok tk (sa # nx # rest) \<longleftrightarrow>
     level_ok tk sa \<and> upper_ok tk (tickOffset sa + ticksPerArray sa) (ticksPerArray sa) (nx # rest)"
| "arrays_ok tk _ \<longleftrightarrow> False"

text \<open>The first tick that is out of the range of the wheel.\<close>

fun horizon :: "SlotArray list \<Rightarrow> nat" where
  "horizon [sa, over] = slot_begin sa + ticksPerArray sa"
| "horizon (sa # arrs) = horizon arrs"
| "horizon [] = 0"

lemma set_elems: "level_wf sa \<Longrightarrow> e \<in> set (elems sa) \<longleftrightarrow> (\<exists>j<numberSlots sa. e \<in> set (slotList sa ! j))"
  by (auto simp: elems_def level_wf_def in_set_conv_nth) (metis nth_mem)+

lemma place_less: "level_wf sa \<Longrightarrow> place sa t < numberSlots sa"
  by (simp add: place_def level_wf_def)

lemma mset_concat_update:
  "n < length xss \<Longrightarrow> mset (concat (xss[n := ys])) + mset (xss ! n) = mset (concat xss) + mset ys"
proof (induction xss arbitrary: n)
  case (Cons xs xss)
  show ?case
  proof (cases n)
    case (Suc k)
    then show ?thesis using Cons.IH [of k] Cons.prems by (simp add: add.assoc)
  qed (simp add: ac_simps)
qed simp

section \<open>Inserting\<close>

lemma slot_add_level_ok:
  assumes "level_ok tk sa" "tk e < slot_begin sa + ticksPerArray sa"
  shows "level_ok tk (snd (slot_add (place sa (tk e)) e (h, sa)))"
  using assms place_less [of sa "tk e"]
  by (auto simp: level_ok_def slot_add_def level_wf_def slot_begin_def place_def nth_list_update
      split: if_splits)

lemma slot_add_elems:
  assumes "level_wf sa" "n < numberSlots sa"
  shows "mset (elems (snd (slot_add n e (h, sa)))) = add_mset e (mset (elems sa))"
  using assms mset_concat_update [of n "slotList sa" "slotList sa ! n @ [e]"]
  by (simp add: slot_add_def elems_def level_wf_def)

lemma slot_add_shape:
  "snd (slot_add n e (h, sa)) =
     sa\<lparr>slotList := slotList (snd (slot_add n e (h, sa))), sa_count := sa_count sa + 1\<rparr>"
  "fst (slot_add n e (h, sa)) = h(e := (h e)\<lparr>ste_handle := 256 * sa_id sa + n, ste_running := True\<rparr>)"
  by (simp_all add: slot_add_def)

lemma insert_here:
  assumes "level_wf sa" "ste_tick (h e) < slot_begin sa + ticksPerArray sa"
  shows "SlotArray_insert e (h, sa # nx # rest) =
    (fst (slot_add (place sa (ste_tick (h e))) e (h, sa)),
     snd (slot_add (place sa (ste_tick (h e))) e (h, sa)) # nx # rest)"
  using assms
  by (auto simp: SlotArray_insert.simps Let_def place_def slot_begin_def split: prod.splits)

lemma insert_last:
  "SlotArray_insert e (h, [sa]) = (fst (slot_add 0 e (h, sa)), [snd (slot_add 0 e (h, sa))])"
  by (simp add: SlotArray_insert.simps split_beta)

lemma insert_next:
  assumes "slot_begin sa + ticksPerArray sa \<le> ste_tick (h e)" "level_wf sa"
  shows "SlotArray_insert e (h, sa # nx # rest) =
    (fst (SlotArray_insert e (h, nx # rest)), sa # snd (SlotArray_insert e (h, nx # rest)))"
proof -
  have "0 < ticksPerArray sa" using assms(2) by (simp add: level_wf_def)
  then show ?thesis
    using assms by (auto simp: SlotArray_insert.simps Let_def slot_begin_def split: prod.splits)
qed

text \<open>What inserting an element does to a chain: the parameters of the arrays stay, one array gets
  the element in one of its slots, and the heap records the slot.\<close>

definition same_frame :: "SlotArray \<Rightarrow> SlotArray \<Rightarrow> bool" where
  "same_frame sa sa' \<longleftrightarrow> sa' = sa\<lparr>slotList := slotList sa', sa_count := sa_count sa'\<rparr>"

lemma same_frameD:
  assumes "same_frame sa sa'"
  shows "sa_id sa' = sa_id sa" "numberSlots sa' = numberSlots sa" "ticksPerSlot sa' = ticksPerSlot sa"
    "ticksPerArray sa' = ticksPerArray sa" "actSlot sa' = actSlot sa" "tickOffset sa' = tickOffset sa"
    "slot_begin sa' = slot_begin sa" "place sa' t = place sa t"
proof -
  obtain l c where "sa' = sa\<lparr>slotList := l, sa_count := c\<rparr>"
    using assms by (auto simp: same_frame_def)
  then show "sa_id sa' = sa_id sa" "numberSlots sa' = numberSlots sa" "ticksPerSlot sa' = ticksPerSlot sa"
    "ticksPerArray sa' = ticksPerArray sa" "actSlot sa' = actSlot sa" "tickOffset sa' = tickOffset sa"
    "slot_begin sa' = slot_begin sa" "place sa' t = place sa t"
    by (simp_all add: slot_begin_def place_def)
qed

lemma same_frame_refl [simp]: "same_frame sa sa"
  by (simp add: same_frame_def)

lemma same_frame_trans: "same_frame a b \<Longrightarrow> same_frame b c \<Longrightarrow> same_frame a c"
  unfolding same_frame_def by (metis (no_types, lifting) SlotArray.surjective SlotArray.update_convs(5,8))

lemma same_frame_add: "same_frame sa (snd (slot_add n e (h, sa)))"
  by (simp add: same_frame_def slot_add_def)

lemma upper_insert:
  assumes "upper_ok (\<lambda>e. ste_tick (h e)) lb step arrs" "2 \<le> length arrs"
    and "lb \<le> ste_tick (h e)" "ste_tick (h e) < horizon arrs"
  shows "upper_ok (\<lambda>e. ste_tick (h e)) lb step (snd (SlotArray_insert e (h, arrs)))
    \<and> list_all2 same_frame arrs (snd (SlotArray_insert e (h, arrs)))
    \<and> mset (pending (snd (SlotArray_insert e (h, arrs)))) = add_mset e (mset (pending arrs))"
  using assms
proof (induction arrs arbitrary: lb step)
  case (Cons sa rest)
  then obtain nx rest' where rest: "rest = nx # rest'" by (cases rest) auto
  let ?tk = "\<lambda>e. ste_tick (h e)"
  have ok: "level_ok ?tk sa" and wf: "level_wf sa"
    and upper: "upper_ok ?tk (tickOffset sa + ticksPerArray sa) (ticksPerArray sa) rest"
    and lb: "slot_begin sa = lb" "ticksPerSlot sa = step" "\<forall>e\<in>set (elems sa). lb \<le> ?tk e"
    using Cons.prems(1) rest by (auto simp: level_ok_def)
  show ?case
  proof (cases "?tk e < slot_begin sa + ticksPerArray sa")
    case True
    let ?sa = "snd (slot_add (place sa (?tk e)) e (h, sa))"
    have frame: "same_frame sa ?sa" by (rule same_frame_add)
    have m: "mset (elems ?sa) = add_mset e (mset (elems sa))"
      by (rule slot_add_elems [OF wf place_less [OF wf]])
    then have "set (elems ?sa) = insert e (set (elems sa))" by (metis set_mset_add_mset_insert set_mset_mset)
    then show ?thesis
      using insert_here [where h = h and e = e, OF wf, of nx rest'] True slot_add_level_ok [OF ok, of e h] m frame
        same_frameD [OF frame] upper lb Cons.prems(3) rest
      by (simp add: pending_def list_all2_same)
  next
    case False
    have "rest' \<noteq> []" using False Cons.prems(4) rest by auto
    moreover have "tickOffset sa + ticksPerArray sa \<le> ?tk e" using False by (simp add: slot_begin_def)
    moreover have "horizon (sa # rest) = horizon rest" using \<open>rest' \<noteq> []\<close> rest by (cases rest') auto
    ultimately have IH: "upper_ok ?tk (tickOffset sa + ticksPerArray sa) (ticksPerArray sa) (snd (SlotArray_insert e (h, rest)))
      \<and> list_all2 same_frame rest (snd (SlotArray_insert e (h, rest)))
      \<and> mset (pending (snd (SlotArray_insert e (h, rest)))) = add_mset e (mset (pending rest))"
      using Cons.IH [OF upper] Cons.prems(4) rest by (cases rest') auto
    then obtain nx' rest'' where "snd (SlotArray_insert e (h, rest)) = nx' # rest''"
      using rest by (cases "snd (SlotArray_insert e (h, rest))") auto
    then show ?thesis
      using insert_next [of sa h e nx rest'] False wf IH ok lb rest by (simp add: pending_def)
  qed
qed simp

lemma arrays_insert:
  assumes ok: "arrays_ok (\<lambda>e. ste_tick (h e)) arrs" and t: "ste_tick (h e) < horizon arrs" and l: "3 \<le> length arrs"
  shows "arrays_ok (\<lambda>e. ste_tick (h e)) (snd (SlotArray_insert e (h, arrs)))"
    and "list_all2 same_frame arrs (snd (SlotArray_insert e (h, arrs)))"
    and "mset (pending (snd (SlotArray_insert e (h, arrs)))) = add_mset e (mset (pending arrs))"
proof -
  let ?tk = "\<lambda>e. ste_tick (h e)"
  obtain sa nx n2 rest where arrs: "arrs = sa # nx # n2 # rest"
    using l by (metis One_nat_def Suc_le_length_iff numeral_3_eq_3)
  have okl: "level_ok ?tk sa" and wf: "level_wf sa"
    and upper: "upper_ok ?tk (tickOffset sa + ticksPerArray sa) (ticksPerArray sa) (nx # n2 # rest)"
    using ok arrs by (auto simp: level_ok_def)
  have "arrays_ok ?tk (snd (SlotArray_insert e (h, arrs)))
    \<and> list_all2 same_frame arrs (snd (SlotArray_insert e (h, arrs)))
    \<and> mset (pending (snd (SlotArray_insert e (h, arrs)))) = add_mset e (mset (pending arrs))"
  proof (cases "?tk e < slot_begin sa + ticksPerArray sa")
    case True
    with arrs show ?thesis
      using insert_here [where h = h and e = e, OF wf, of nx "n2 # rest"] slot_add_level_ok [OF okl, of e h]
        slot_add_elems [OF wf place_less [OF wf], of "?tk e" e h] upper arrs
        same_frame_add same_frameD [OF same_frame_add [of sa "place sa (?tk e)" e h]]
      by (simp add: pending_def list_all2_same)
  next
    case False
    have IH: "upper_ok ?tk (tickOffset sa + ticksPerArray sa) (ticksPerArray sa) (snd (SlotArray_insert e (h, nx # n2 # rest)))
      \<and> list_all2 same_frame (nx # n2 # rest) (snd (SlotArray_insert e (h, nx # n2 # rest)))
      \<and> mset (pending (snd (SlotArray_insert e (h, nx # n2 # rest)))) = add_mset e (mset (pending (nx # n2 # rest)))"
      by (rule upper_insert [OF upper]) (use False t arrs in \<open>auto simp: slot_begin_def\<close>)
    then obtain nx' rest'' where "snd (SlotArray_insert e (h, nx # n2 # rest)) = nx' # rest''"
      by (cases "snd (SlotArray_insert e (h, nx # n2 # rest))") auto
    then show ?thesis
      using insert_next [of sa h e nx "n2 # rest"] False wf IH okl arrs by (simp add: pending_def)
  qed
  then show "arrays_ok ?tk (snd (SlotArray_insert e (h, arrs)))"
    and "list_all2 same_frame arrs (snd (SlotArray_insert e (h, arrs)))"
    and "mset (pending (snd (SlotArray_insert e (h, arrs)))) = add_mset e (mset (pending arrs))"
    by blast+
qed

section \<open>Moving on to the next slot\<close>

definition advance :: "SlotArray \<Rightarrow> SlotArray" where
  "advance sa = (if actSlot sa + 1 < numberSlots sa then sa\<lparr>actSlot := actSlot sa + 1\<rparr>
                 else sa\<lparr>actSlot := 0, tickOffset := tickOffset sa + ticksPerArray sa\<rparr>)"

text \<open>The slot of an element, counted from the offset of the array.\<close>

lemma place_later:
  assumes wf: "level_wf sa" and t: "slot_begin sa \<le> t" "t < slot_begin sa + ticksPerArray sa"
  shows "place sa t = ((t - tickOffset sa) div ticksPerSlot sa) mod numberSlots sa"
    and "actSlot sa \<le> (t - tickOffset sa) div ticksPerSlot sa"
    and "(t - tickOffset sa) div ticksPerSlot sa < actSlot sa + numberSlots sa"
proof -
  have p: "0 < ticksPerSlot sa" "0 < numberSlots sa" "actSlot sa < numberSlots sa"
    using wf by (auto simp: level_wf_def)
  show ge: "actSlot sa \<le> (t - tickOffset sa) div ticksPerSlot sa"
    using t(1) p by (simp add: less_eq_div_iff_mult_less_eq slot_begin_def)
  have "t - tickOffset sa < (actSlot sa + numberSlots sa) * ticksPerSlot sa"
    using t wf by (auto simp: slot_begin_def level_wf_def algebra_simps)
  then show "(t - tickOffset sa) div ticksPerSlot sa < actSlot sa + numberSlots sa"
    using p by (simp add: div_less_iff_less_mult)
  show "place sa t = ((t - tickOffset sa) div ticksPerSlot sa) mod numberSlots sa"
    using t(1) p by (auto simp: place_def slot_begin_def)
qed

lemma place_not_current:
  assumes wf: "level_wf sa" and t: "slot_begin sa \<le> t" "t < slot_begin sa + ticksPerArray sa"
    and ne: "place sa t \<noteq> actSlot sa"
  shows "slot_begin sa + ticksPerSlot sa \<le> t"
proof -
  have p: "0 < ticksPerSlot sa" "actSlot sa < numberSlots sa"
    using wf by (auto simp: level_wf_def)
  have "actSlot sa \<noteq> (t - tickOffset sa) div ticksPerSlot sa"
    using ne place_later(1) [OF wf t] p by auto
  then have "actSlot sa + 1 \<le> (t - tickOffset sa) div ticksPerSlot sa"
    using place_later(2) [OF wf t] by simp
  then have "(actSlot sa + 1) * ticksPerSlot sa \<le> t - tickOffset sa"
    using p by (simp add: less_eq_div_iff_mult_less_eq)
  moreover have "tickOffset sa \<le> t" using t(1) by (simp add: slot_begin_def)
  ultimately show ?thesis by (simp add: slot_begin_def)
qed

lemma place_current:
  assumes wf: "level_wf sa" and t: "slot_begin sa \<le> t" "t < slot_begin sa + ticksPerArray sa"
    and eq: "place sa t = actSlot sa"
  shows "t < slot_begin sa + ticksPerSlot sa"
proof -
  have p: "0 < ticksPerSlot sa" "0 < numberSlots sa" "actSlot sa < numberSlots sa"
    using wf by (auto simp: level_wf_def)
  let ?q = "(t - tickOffset sa) div ticksPerSlot sa"
  have "?q mod numberSlots sa = actSlot sa" using eq place_later(1) [OF wf t] by simp
  then have "?q = actSlot sa"
    using place_later(2,3) [OF wf t] p
    by (cases "?q < numberSlots sa") (auto simp: mod_if split: if_splits)
  then have "t - tickOffset sa < (actSlot sa + 1) * ticksPerSlot sa"
    using p by (metis Suc_eq_plus1 dividend_less_times_div mult.commute mult_Suc_right)
  then show ?thesis using t(1) by (simp add: slot_begin_def)
qed

lemma advance_wf:
  assumes "level_wf sa"
  shows "level_wf (advance sa)" "slot_begin (advance sa) = slot_begin sa + ticksPerSlot sa"
    "slotList (advance sa) = slotList sa" "ticksPerSlot (advance sa) = ticksPerSlot sa"
    "numberSlots (advance sa) = numberSlots sa" "ticksPerArray (advance sa) = ticksPerArray sa"
    "sa_id (advance sa) = sa_id sa" "elems (advance sa) = elems sa" "sa_count (advance sa) = sa_count sa"
proof -
  have "numberSlots sa = actSlot sa + 1" if "\<not> actSlot sa + 1 < numberSlots sa"
    using assms that by (auto simp: level_wf_def)
  then have "ticksPerArray sa = actSlot sa * ticksPerSlot sa + ticksPerSlot sa"
    if "\<not> actSlot sa + 1 < numberSlots sa"
    using assms that by (simp add: level_wf_def algebra_simps)
  then show "slot_begin (advance sa) = slot_begin sa + ticksPerSlot sa"
    by (auto simp: advance_def slot_begin_def)
qed (use assms in \<open>auto simp: advance_def level_wf_def elems_def\<close>)

lemma advance_place:
  assumes wf: "level_wf sa"
    and t: "slot_begin sa + ticksPerSlot sa \<le> t" "t < slot_begin sa + ticksPerArray sa"
  shows "place (advance sa) t = place sa t"
proof -
  have p: "0 < ticksPerSlot sa" "0 < numberSlots sa" "actSlot sa < numberSlots sa"
    "ticksPerArray sa = numberSlots sa * ticksPerSlot sa"
    using wf by (auto simp: level_wf_def)
  have here: "place sa t = ((t - tickOffset sa) div ticksPerSlot sa) mod numberSlots sa"
    using place_later(1) [OF wf] t by simp
  have there: "place (advance sa) t =
      ((t - tickOffset (advance sa)) div ticksPerSlot sa) mod numberSlots sa"
    using place_later(1) [OF advance_wf(1) [OF wf], of t] advance_wf(2-6) [OF wf] t by simp
  show ?thesis
  proof (cases "actSlot sa + 1 < numberSlots sa")
    case True
    then show ?thesis using here there by (simp add: advance_def)
  next
    case False
    then have n: "numberSlots sa = actSlot sa + 1" using p by simp
    let ?u = "t - tickOffset sa - ticksPerArray sa"
    have "t - tickOffset sa = ?u + numberSlots sa * ticksPerSlot sa"
      using t n p by (simp add: slot_begin_def)
    then have "(t - tickOffset sa) div ticksPerSlot sa = ?u div ticksPerSlot sa + numberSlots sa"
      using p by simp
    then show ?thesis using here there False by (simp add: advance_def)
  qed
qed

lemma level_elem:
  assumes "level_ok tk sa" "e \<in> set (elems sa)"
  shows "tk e < slot_begin sa + ticksPerArray sa" "e \<in> set (slotList sa ! place sa (tk e))"
  using assms set_elems [of sa e] by (auto simp: level_ok_def)

lemma level_elem_later:
  assumes ok: "level_ok tk sa" and "slotList sa ! actSlot sa = []" and e: "e \<in> set (elems sa)"
  shows "slot_begin sa + ticksPerSlot sa \<le> tk e"
proof -
  have "place sa (tk e) \<noteq> actSlot sa" using level_elem(2) [OF ok e] assms(2) by auto
  moreover from this have "slot_begin sa \<le> tk e" by (auto simp: place_def split: if_splits)
  ultimately show ?thesis
    using place_not_current [of sa "tk e"] ok level_elem(1) [OF ok e] by (simp add: level_ok_def)
qed

lemma advance_ok:
  assumes ok: "level_ok tk sa" and empty: "slotList sa ! actSlot sa = []"
  shows "level_ok tk (advance sa)"
proof -
  have wf: "level_wf sa" using ok by (simp add: level_ok_def)
  have "tk e < slot_begin (advance sa) + ticksPerArray sa \<and> j = place (advance sa) (tk e)"
    if j: "j < numberSlots sa" "e \<in> set (slotList sa ! j)" for j e
  proof -
    have e: "e \<in> set (elems sa)" using j wf by (auto simp: set_elems)
    have "tk e < slot_begin sa + ticksPerArray sa" "j = place sa (tk e)"
      using ok j by (auto simp: level_ok_def)
    then show ?thesis
      using advance_place [OF wf level_elem_later [OF ok empty e]] advance_wf(2) [OF wf] by simp
  qed
  then show ?thesis using advance_wf [OF wf] by (auto simp: level_ok_def)
qed

section \<open>Handles\<close>

text \<open>Every element of an array knows the array and the slot it is in.\<close>

definition linked :: "element_heap \<Rightarrow> SlotArray \<Rightarrow> bool" where
  "linked h sa \<longleftrightarrow> (\<forall>j<length (slotList sa). \<forall>e\<in>set (slotList sa ! j).
     ste_handle (h e) = 256 * sa_id sa + j \<and> ste_running (h e))"

lemma linked_frame:
  assumes "linked h sa" "\<And>x. x \<in> set (elems sa) \<Longrightarrow> h' x = h x"
  shows "linked h' sa"
  using assms by (fastforce simp: linked_def elems_def in_set_conv_nth)

lemma nth_list_update_at: "j < length xs \<Longrightarrow> xs[n := y] ! j = (if n = j then y else xs ! j)"
  by (cases "n = j") auto

lemma linked_add:
  assumes "linked h sa" "e \<notin> set (elems sa)"
  shows "linked (fst (slot_add n e (h, sa))) (snd (slot_add n e (h, sa)))"
proof -
  have "x \<noteq> e" if "j < length (slotList sa)" "x \<in> set (slotList sa ! j)" for x j
    using assms(2) that by (force simp: elems_def in_set_conv_nth)
  then show ?thesis
    using assms(1) by (auto simp: linked_def slot_add_def nth_list_update_at split: if_splits)
qed

fun chain_wf :: "SlotArray list \<Rightarrow> bool" where
  "chain_wf [] \<longleftrightarrow> False"
| "chain_wf [sa] \<longleftrightarrow> slotList sa \<noteq> []"
| "chain_wf (sa # nx # rest) \<longleftrightarrow> level_wf sa \<and> chain_wf (nx # rest)"

lemma upper_chain_wf: "upper_ok tk lb step arrs \<Longrightarrow> chain_wf arrs"
  by (induction tk lb step arrs rule: upper_ok.induct) (auto simp: level_ok_def)

lemma arrays_chain_wf: "arrays_ok tk arrs \<Longrightarrow> chain_wf arrs"
  by (cases "(tk, arrs)" rule: arrays_ok.cases) (auto simp: level_ok_def dest: upper_chain_wf)

text \<open>The only change an insertion makes in the heap is to the handle and the links of the element.\<close>

definition linked_update :: "ptr \<Rightarrow> element_heap \<Rightarrow> element_heap \<Rightarrow> bool" where
  "linked_update e h h' \<longleftrightarrow>
     (\<exists>n. h' = h(e := (h e)\<lparr>ste_handle := n, ste_running := True\<rparr>))"

lemma linked_update_add: "linked_update e h (fst (slot_add n e (h, sa)))"
  unfolding linked_update_def slot_add_def by auto

lemma linked_update_other: "linked_update e h h' \<Longrightarrow> x \<noteq> e \<Longrightarrow> h' x = h x"
  by (auto simp: linked_update_def)

lemma insert_linked:
  assumes "chain_wf arrs" "\<forall>sa\<in>set arrs. linked h sa" "e \<notin> set (pending arrs)"
  shows "(\<forall>sa\<in>set (snd (SlotArray_insert e (h, arrs))). linked (fst (SlotArray_insert e (h, arrs))) sa)
    \<and> linked_update e h (fst (SlotArray_insert e (h, arrs)))"
  using assms
proof (induction arrs rule: chain_wf.induct)
  case (2 sa)
  then show ?case
    using linked_add [of h sa e 0] linked_update_add by (simp add: insert_last pending_def)
next
  case (3 sa nx rest)
  have e: "e \<notin> set (elems sa)" "e \<notin> set (pending (nx # rest))" using 3 by (auto simp: pending_def)
  show ?case
  proof (cases "ste_tick (h e) < slot_begin sa + ticksPerArray sa")
    case True
    let ?r = "slot_add (place sa (ste_tick (h e))) e (h, sa)"
    have "linked (fst ?r) sb" if "sb \<in> set (nx # rest)" for sb
      by (rule linked_frame [of h])
         (use 3 e that in \<open>auto simp: pending_def intro!: linked_update_other [OF linked_update_add]\<close>)
    then show ?thesis
      using insert_here [of sa h e nx rest] True 3 e linked_add [of h sa e]
      by (auto simp: linked_update_add)
  next
    case False
    let ?r = "SlotArray_insert e (h, nx # rest)"
    have IH: "(\<forall>sa\<in>set (snd ?r). linked (fst ?r) sa) \<and> linked_update e h (fst ?r)"
      using 3 e by (intro "3.IH") auto
    have "linked (fst ?r) sa"
      by (rule linked_frame [of h]) (use 3 e IH in \<open>auto intro: linked_update_other\<close>)
    then show ?thesis using insert_next [of sa h e nx rest] False 3 IH by auto
  qed
qed simp

section \<open>Pulling a slot down\<close>

lemma removeActSlot_Nil:
  "slotList sa ! actSlot sa = [] \<Longrightarrow> SlotArray_removeActSlot (h, sa) = Some (None, h, sa)"
  by (simp add: SlotArray_removeActSlot_def)

lemma removeActSlot_Cons:
  "slotList sa ! actSlot sa = e # xs \<Longrightarrow> SlotArray_removeActSlot (h, sa) =
     Some (Some e, h(e := (h e)\<lparr>ste_running := False\<rparr>),
       sa\<lparr>sa_count := sa_count sa - 1, slotList := (slotList sa)[actSlot sa := xs]\<rparr>)"
  by (cases xs) (auto simp: SlotArray_removeActSlot_def slot_del_def)

lemma pull_Nil:
  "slotList nx ! actSlot nx = [] \<Longrightarrow> SlotArray_pull (h, sa # nx # rest) = Some (h, sa # nx # rest)"
  by (subst SlotArray_pull.simps) (simp add: removeActSlot_Nil)

text \<open>What pulling down does: the elements of the current slot of the upper array go to the lower one.\<close>

definition pulled ::
  "(ptr \<Rightarrow> nat) \<Rightarrow> element_heap \<Rightarrow> SlotArray \<Rightarrow> SlotArray \<Rightarrow> element_heap \<Rightarrow> SlotArray \<Rightarrow> SlotArray \<Rightarrow> bool" where
  "pulled tk h sa nx h' sa' nx' \<longleftrightarrow>
     level_ok tk sa' \<and> same_frame sa sa' \<and> same_frame nx nx'
     \<and> slotList nx' = (slotList nx)[actSlot nx := []]
     \<and> mset (elems sa') = mset (elems sa) + mset (slotList nx ! actSlot nx)
     \<and> linked h' sa'
     \<and> (\<forall>x. ste_tick (h' x) = ste_tick (h x) \<and> ste_expireTime (h' x) = ste_expireTime (h x)
          \<and> ste_interval (h' x) = ste_interval (h x))
     \<and> (\<forall>x. x \<notin> set (slotList nx ! actSlot nx) \<longrightarrow> h' x = h x)"

lemma pull_ok:
  assumes "level_ok (\<lambda>e. ste_tick (h e)) sa" "linked h sa" "actSlot nx < length (slotList nx)"
    and "\<And>e. e \<in> set (slotList nx ! actSlot nx) \<Longrightarrow> ste_tick (h e) < slot_begin sa + ticksPerArray sa"
    and "distinct (slotList nx ! actSlot nx)" "set (slotList nx ! actSlot nx) \<inter> set (elems sa) = {}"
  shows "\<exists>h' sa' nx'. SlotArray_pull (h, sa # nx # rest) = Some (h', sa' # nx' # rest)
    \<and> pulled (\<lambda>e. ste_tick (h e)) h sa nx h' sa' nx'"
  using assms
proof (induction "slotList nx ! actSlot nx" arbitrary: h sa nx)
  case Nil
  have "(slotList nx)[actSlot nx := []] = slotList nx" by (metis Nil.hyps list_update_id)
  with Nil show ?case
    using pull_Nil [of nx h sa rest] by (auto simp: pulled_def)
next
  case (Cons e xs)
  let ?tk = "\<lambda>e. ste_tick (h e)"
  define h1 where "h1 = h(e := (h e)\<lparr>ste_running := False\<rparr>)"
  define nx1 where "nx1 = nx\<lparr>sa_count := sa_count nx - 1, slotList := (slotList nx)[actSlot nx := xs]\<rparr>"
  define h2 where "h2 = fst (slot_add (place sa (?tk e)) e (h1, sa))"
  define sa2 where "sa2 = snd (slot_add (place sa (?tk e)) e (h1, sa))"
  note slot = Cons.hyps(2) [symmetric]
  have wf: "level_wf sa" using Cons.prems(1) by (simp add: level_ok_def)
  have t1: "ste_tick (h1 x) = ?tk x" for x by (simp add: h1_def)
  have t2: "(\<lambda>x. ste_tick (h2 x)) = ?tk" by (auto simp: h2_def slot_add_shape(2) t1)
  have lt: "?tk e < slot_begin sa + ticksPerArray sa" using Cons.prems(4) slot by simp
  have eout: "e \<notin> set (elems sa)" using Cons.prems(6) slot by auto
  have "linked h1 sa" by (rule linked_frame [OF Cons.prems(2)]) (use eout in \<open>auto simp: h1_def\<close>)
  then have l2: "linked h2 sa2" unfolding h2_def sa2_def using eout by (rule linked_add)
  have f: "same_frame sa sa2" unfolding sa2_def by (rule same_frame_add)
  have ok2: "level_ok ?tk sa2"
    unfolding sa2_def by (rule slot_add_level_ok [OF Cons.prems(1) lt])
  have m2: "mset (elems sa2) = add_mset e (mset (elems sa))"
    unfolding sa2_def by (rule slot_add_elems [OF wf place_less [OF wf]])
  have s2: "set (elems sa2) = insert e (set (elems sa))"
    using m2 by (metis set_mset_add_mset_insert set_mset_mset)
  have act1: "slotList nx1 ! actSlot nx = xs" "actSlot nx1 = actSlot nx"
    "length (slotList nx1) = length (slotList nx)"
    using Cons.prems(3) by (simp_all add: nx1_def)
  have "SlotArray_pull (h, sa # nx # rest) = SlotArray_pull (SlotArray_insert e (h1, sa # nx1 # rest))"
    by (subst SlotArray_pull.simps) (simp add: removeActSlot_Cons [OF slot] h1_def nx1_def)
  also have "SlotArray_insert e (h1, sa # nx1 # rest) = (h2, sa2 # nx1 # rest)"
    using insert_here [of sa h1 e nx1 rest] wf lt by (simp add: h2_def sa2_def t1)
  finally have step: "SlotArray_pull (h, sa # nx # rest) = SlotArray_pull (h2, sa2 # nx1 # rest)" .
  have "\<exists>h' sa' nx'. SlotArray_pull (h2, sa2 # nx1 # rest) = Some (h', sa' # nx' # rest)
    \<and> pulled (\<lambda>e. ste_tick (h2 e)) h2 sa2 nx1 h' sa' nx'"
  proof (rule Cons.hyps(1))
    show "xs = slotList nx1 ! actSlot nx1" by (simp add: act1)
    show "level_ok (\<lambda>e. ste_tick (h2 e)) sa2" using ok2 t2 by simp
    show "actSlot nx1 < length (slotList nx1)" using Cons.prems(3) by (simp add: act1)
    show "distinct (slotList nx1 ! actSlot nx1)" using Cons.prems(5) slot by (simp add: act1)
    show "set (slotList nx1 ! actSlot nx1) \<inter> set (elems sa2) = {}"
      using Cons.prems(5,6) slot by (auto simp: act1 s2)
    show "ste_tick (h2 x) < slot_begin sa2 + ticksPerArray sa2" if "x \<in> set (slotList nx1 ! actSlot nx1)" for x
      using Cons.prems(4) slot that same_frameD [OF f] fun_cong [OF t2, of x] by (simp add: act1)
  qed (rule l2)
  then obtain h' sa' nx' where res: "SlotArray_pull (h2, sa2 # nx1 # rest) = Some (h', sa' # nx' # rest)"
    and p: "pulled ?tk h2 sa2 nx1 h' sa' nx'" using t2 by auto
  have "same_frame nx nx1" by (simp add: same_frame_def nx1_def)
  moreover have "ste_expireTime (h2 x) = ste_expireTime (h x) \<and> ste_interval (h2 x) = ste_interval (h x)
      \<and> ste_tick (h2 x) = ste_tick (h x)" for x
    by (simp add: h2_def slot_add_shape(2) h1_def)
  moreover have "x \<noteq> e \<Longrightarrow> h2 x = h x" for x by (simp add: h2_def slot_add_shape(2) h1_def)
  ultimately have "pulled ?tk h sa nx h' sa' nx'"
    using p f m2 slot act1 by (auto simp: pulled_def nx1_def intro: same_frame_trans)
  then show ?case using step res by metis
qed

text \<open>What moving on does to a chain: it keeps the elements and their times.\<close>

definition chain_moved ::
  "element_heap \<Rightarrow> SlotArray list \<Rightarrow> element_heap \<Rightarrow> SlotArray list \<Rightarrow> bool" where
  "chain_moved h arrs h' arrs' \<longleftrightarrow>
     mset (pending arrs') = mset (pending arrs) \<and> (\<forall>sa\<in>set arrs'. linked h' sa)
     \<and> map sa_id arrs' = map sa_id arrs \<and> map ticksPerArray arrs' = map ticksPerArray arrs
     \<and> (\<forall>x. ste_tick (h' x) = ste_tick (h x) \<and> ste_expireTime (h' x) = ste_expireTime (h x)
          \<and> ste_interval (h' x) = ste_interval (h x))
     \<and> (\<forall>x. x \<notin> set (pending arrs) \<longrightarrow> h' x = h x)"

lemma pending_Cons: "pending (sa # arrs) = elems sa @ pending arrs"
  by (simp add: pending_def)

lemma slot_sub_elems: "n < length (slotList sa) \<Longrightarrow> set (slotList sa ! n) \<subseteq> set (elems sa)"
  unfolding elems_def using nth_mem [of n "slotList sa"] by fastforce

lemma elems_emptied:
  assumes "n < length (slotList sa)" "slotList sa' = (slotList sa)[n := []]"
  shows "mset (elems sa) = mset (elems sa') + mset (slotList sa ! n)"
  using assms mset_concat_update [of n "slotList sa" "[]"] by (simp add: elems_def)

lemma level_ok_emptied:
  assumes "level_ok tk nx" "same_frame nx nx'" "slotList nx' = (slotList nx)[actSlot nx := []]"
  shows "level_ok tk nx'"
  using assms(1,3) same_frameD [OF assms(2)]
  by (auto simp: level_ok_def level_wf_def nth_list_update split: if_splits)

lemma linked_emptied:
  assumes l: "linked h nx" and s: "slotList nx' = (slotList nx)[n := []]" and f: "same_frame nx nx'"
    and d: "distinct (elems nx)" and n: "n < length (slotList nx)"
    and h: "\<forall>x. x \<notin> set (slotList nx ! n) \<longrightarrow> h' x = h x"
  shows "linked h' nx'"
proof -
  have "linked h nx'" using l s same_frameD(1) [OF f] by (auto simp: linked_def nth_list_update_at split: if_splits)
  moreover have "h' x = h x" if "x \<in> set (elems nx')" for x
  proof -
    have m: "mset (elems nx) = mset (elems nx') + mset (slotList nx ! n)" using n s by (rule elems_emptied)
    have "distinct (elems nx' @ slotList nx ! n)"
      using d m by (metis mset_append mset_eq_imp_distinct_iff)
    then have "x \<notin> set (slotList nx ! n)" using that by auto
    then show ?thesis using h by simp
  qed
  ultimately show ?thesis by (rule linked_frame)
qed

text \<open>An array whose current slot is empty moves on, and so do the arrays above it when it wraps.\<close>

lemma moveSlot_no_wrap:
  "actSlot sa + 1 < numberSlots sa \<Longrightarrow> SlotArray_moveSlot (h, sa # nx # rest) = Some (h, advance sa # nx # rest)"
  by (simp add: SlotArray_moveSlot.simps advance_def)

lemma moveSlot_wrap:
  "\<not> actSlot sa + 1 < numberSlots sa \<Longrightarrow>
   SlotArray_pull (h, advance sa # nx # rest) = Some (h1, sa1 # arrs1) \<Longrightarrow>
   SlotArray_moveSlot (h1, arrs1) = Some (h2, arrs2) \<Longrightarrow>
   SlotArray_moveSlot (h, sa # nx # rest) = Some (h2, sa1 # arrs2)"
  by (simp add: SlotArray_moveSlot.simps advance_def)

definition head_moved ::
  "(ptr \<Rightarrow> nat) \<Rightarrow> SlotArray \<Rightarrow> SlotArray \<Rightarrow> SlotArray list \<Rightarrow> bool" where
  "head_moved tk sa sa' arrs' \<longleftrightarrow>
     level_ok tk sa' \<and> slot_begin sa' = slot_begin sa + ticksPerSlot sa
     \<and> ticksPerSlot sa' = ticksPerSlot sa \<and> ticksPerArray sa' = ticksPerArray sa
     \<and> (\<forall>e\<in>set (elems sa'). slot_begin sa + ticksPerSlot sa \<le> tk e)
     \<and> upper_ok tk (tickOffset sa' + ticksPerArray sa) (ticksPerArray sa) arrs'"

lemma advance_head_moved:
  assumes ok: "level_ok tk sa" and empty: "slotList sa ! actSlot sa = []"
    and u: "upper_ok tk (tickOffset (advance sa) + ticksPerArray sa) (ticksPerArray sa) arrs"
  shows "head_moved tk sa (advance sa) arrs"
  using assms advance_ok [OF ok empty] advance_wf [of sa] level_elem_later [OF ok empty]
  by (auto simp: head_moved_def level_ok_def)

lemma distinct_emptied:
  assumes "distinct (elems nx)" "n < length (slotList nx)" "slotList nx' = (slotList nx)[n := []]"
  shows "distinct (elems nx' @ slotList nx ! n)"
  using assms(1) elems_emptied [OF assms(2,3)] by (metis mset_append mset_eq_imp_distinct_iff)

text \<open>When an array wraps, the current slot of the next one is within its new window.\<close>

lemma pull_next:
  assumes ok: "level_ok (\<lambda>e. ste_tick (h e)) sa" and empty: "slotList sa ! actSlot sa = []"
    and u: "upper_ok (\<lambda>e. ste_tick (h e)) (tickOffset sa + ticksPerArray sa) (ticksPerArray sa) (nx # n2 # rest)"
    and d: "distinct (pending (sa # nx # n2 # rest))" and l: "linked h sa"
    and wrap: "\<not> actSlot sa + 1 < numberSlots sa"
  shows "\<exists>h' sa' nx'. SlotArray_pull (h, advance sa # nx # n2 # rest) = Some (h', sa' # nx' # n2 # rest)
    \<and> pulled (\<lambda>e. ste_tick (h e)) h (advance sa) nx h' sa' nx'"
proof (rule pull_ok)
  let ?tk = "\<lambda>e. ste_tick (h e)"
  have wf: "level_wf sa" using ok by (simp add: level_ok_def)
  have nx: "level_ok ?tk nx" "slot_begin nx = tickOffset sa + ticksPerArray sa"
    "ticksPerSlot nx = ticksPerArray sa" "\<forall>e\<in>set (elems nx). slot_begin nx \<le> ?tk e"
    using u by auto
  have nwf: "level_wf nx" using nx by (simp add: level_ok_def)
  have beg: "slot_begin (advance sa) = slot_begin nx"
    using nx(2) wrap by (simp add: slot_begin_def advance_def)
  show act: "actSlot nx < length (slotList nx)" using nwf by (simp add: level_wf_def)
  then have sub: "set (slotList nx ! actSlot nx) \<subseteq> set (elems nx)" by (rule slot_sub_elems)
  show "level_ok ?tk (advance sa)" by (rule advance_ok [OF ok empty])
  show "linked h (advance sa)" using l advance_wf [OF wf] by (simp add: linked_def)
  show "?tk e < slot_begin (advance sa) + ticksPerArray (advance sa)"
    if "e \<in> set (slotList nx ! actSlot nx)" for e
  proof -
    have "place nx (?tk e) = actSlot nx" "?tk e < slot_begin nx + ticksPerArray nx"
      using nx(1) that nwf by (auto simp: level_ok_def level_wf_def)
    then show ?thesis using place_current [OF nwf] nx advance_wf [OF wf] beg sub that by auto
  qed
  have dn: "distinct (elems nx)" using d by (simp add: pending_Cons)
  show "distinct (slotList nx ! actSlot nx)"
    using distinct_emptied [OF dn act, of "nx\<lparr>slotList := (slotList nx)[actSlot nx := []]\<rparr>"] by simp
  show "set (slotList nx ! actSlot nx) \<inter> set (elems (advance sa)) = {}"
    using d sub advance_wf [OF wf] by (auto simp: pending_Cons)
qed

lemma wrap_head_moved:
  assumes ok: "level_ok tk sa" and empty: "slotList sa ! actSlot sa = []"
    and u: "upper_ok tk (tickOffset sa + ticksPerArray sa) (ticksPerArray sa) (nx # n2 # rest)"
    and wrap: "\<not> actSlot sa + 1 < numberSlots sa"
    and p: "pulled tk h (advance sa) nx h1 sa1 nx1" and m: "head_moved tk nx1 nx2 arrs2"
  shows "head_moved tk sa sa1 (nx2 # arrs2)"
proof -
  have wf: "level_wf sa" using ok by (simp add: level_ok_def)
  note adv = advance_wf [OF wf]
  have f: "same_frame (advance sa) sa1" "same_frame nx nx1"
    and e1: "mset (elems sa1) = mset (elems sa) + mset (slotList nx ! actSlot nx)"
    and ok1: "level_ok tk sa1" using p adv by (auto simp: pulled_def)
  note fD = same_frameD [OF f(1)] same_frameD [OF f(2)]
  have nx: "slot_begin nx = tickOffset sa + ticksPerArray sa" "ticksPerSlot nx = ticksPerArray sa"
    "\<forall>e\<in>set (elems nx). slot_begin nx \<le> tk e" "actSlot nx < length (slotList nx)"
    using u by (auto simp: level_ok_def level_wf_def)
  have off: "tickOffset (advance sa) = slot_begin nx" "slot_begin (advance sa) = slot_begin nx"
    using wrap nx by (simp_all add: advance_def slot_begin_def)
  have "slot_begin sa + ticksPerSlot sa \<le> tk e" if e: "e \<in> set (elems sa1)" for e
  proof -
    have "e \<in> set (elems sa) \<or> e \<in> set (slotList nx ! actSlot nx)"
      using e e1 by (metis Un_iff set_mset_mset set_mset_union)
    moreover have "set (slotList nx ! actSlot nx) \<subseteq> set (elems nx)"
      using nx(4) by (rule slot_sub_elems)
    ultimately show ?thesis
      using level_elem_later [OF ok empty] nx(3) off adv(2) by auto
  qed
  moreover have "arrs2 \<noteq> []" using m by (auto simp: head_moved_def)
  ultimately show ?thesis
    using m ok1 fD adv off nx by (cases arrs2) (auto simp: head_moved_def)
qed

lemma wrap_chain_moved:
  assumes d: "distinct (pending (sa # nx # rest))" and act: "actSlot nx < length (slotList nx)"
    and wf: "level_wf sa"
    and p: "pulled tk h (advance sa) nx h1 sa1 nx1" and m: "chain_moved h1 (nx1 # rest) h2 arrs2"
  shows "chain_moved h (sa # nx # rest) h2 (sa1 # arrs2)"
proof -
  have f: "same_frame (advance sa) sa1" "same_frame nx nx1"
    and e1: "mset (elems sa1) = mset (elems sa) + mset (slotList nx ! actSlot nx)"
    and s1: "slotList nx1 = (slotList nx)[actSlot nx := []]" and l1: "linked h1 sa1"
    and h1: "\<And>x. ste_tick (h1 x) = ste_tick (h x) \<and> ste_expireTime (h1 x) = ste_expireTime (h x)
      \<and> ste_interval (h1 x) = ste_interval (h x)"
    "\<And>x. x \<notin> set (slotList nx ! actSlot nx) \<Longrightarrow> h1 x = h x"
    using p advance_wf [OF wf] by (auto simp: pulled_def)
  have en: "mset (elems nx) = mset (elems nx1) + mset (slotList nx ! actSlot nx)"
    by (rule elems_emptied [OF act s1])
  have tot: "mset (elems sa1 @ pending (nx1 # rest)) = mset (pending (sa # nx # rest))"
    using e1 en by (simp add: pending_Cons)
  then have dd: "distinct (elems sa1 @ pending (nx1 # rest))"
    using d by (metis mset_eq_imp_distinct_iff)
  have h2: "h2 x = h1 x" if "x \<notin> set (pending (nx1 # rest))" for x
    using m that by (simp add: chain_moved_def)
  have "linked h2 sa1" by (rule linked_frame [OF l1]) (use dd h2 in auto)
  moreover have "mset (pending (sa1 # arrs2)) = mset (pending (sa # nx # rest))"
    using m tot by (simp add: chain_moved_def pending_Cons)
  moreover have "h2 x = h x" if "x \<notin> set (pending (sa # nx # rest))" for x
  proof -
    have "x \<notin> set (elems sa1 @ pending (nx1 # rest))" using that tot by (metis set_mset_mset)
    moreover have "x \<notin> set (slotList nx ! actSlot nx)"
      using that slot_sub_elems [OF act] by (auto simp: pending_Cons)
    ultimately show ?thesis using h1(2) h2 by simp
  qed
  ultimately show ?thesis
    using m h1(1) same_frameD(1,4) [OF f(1)] same_frameD(1,4) [OF f(2)] advance_wf(6,7) [OF wf]
    by (auto simp: chain_moved_def)
qed

lemma moveSlot_head:
  assumes "level_ok (\<lambda>e. ste_tick (h e)) sa" "slotList sa ! actSlot sa = []"
    and "upper_ok (\<lambda>e. ste_tick (h e)) (tickOffset sa + ticksPerArray sa) (ticksPerArray sa) (nx # rest)"
    and "distinct (pending (sa # nx # rest))" "\<forall>sa\<in>set (sa # nx # rest). linked h sa"
  shows "\<exists>h' sa' arrs'. SlotArray_moveSlot (h, sa # nx # rest) = Some (h', sa' # arrs')
    \<and> head_moved (\<lambda>e. ste_tick (h e)) sa sa' arrs' \<and> chain_moved h (sa # nx # rest) h' (sa' # arrs')"
  using assms
proof (induction rest arbitrary: h sa nx)
  case Nil
  have wf: "level_wf sa" using Nil by (simp add: level_ok_def)
  have over: "slotList nx ! actSlot nx = []" using Nil.prems(3) by (auto dest: nth_mem)
  have "SlotArray_moveSlot (h, [sa, nx]) = Some (h, [advance sa, nx])"
    using moveSlot_no_wrap [of sa h nx "[]"] moveSlot_wrap [of sa h nx "[]" h "advance sa" "[nx]" h "[nx]"]
      pull_Nil [OF over, of h "advance sa" "[]"]
    by (cases "actSlot sa + 1 < numberSlots sa") (simp_all add: SlotArray_moveSlot.simps(2))
  moreover have "head_moved (\<lambda>e. ste_tick (h e)) sa (advance sa) [nx]"
    using Nil.prems(3) by (intro advance_head_moved [OF Nil.prems(1,2)]) simp
  moreover have "chain_moved h [sa, nx] h [advance sa, nx]"
    using Nil.prems(5) advance_wf [OF wf] by (simp add: chain_moved_def pending_def linked_def)
  ultimately show ?case by blast
next
  case (Cons n2 rest)
  let ?tk = "\<lambda>e. ste_tick (h e)"
  have wf: "level_wf sa" using Cons.prems(1) by (simp add: level_ok_def)
  show ?case
  proof (cases "actSlot sa + 1 < numberSlots sa")
    case True
    then have "head_moved ?tk sa (advance sa) (nx # n2 # rest)"
      using Cons.prems(1-3) by (intro advance_head_moved) (auto simp: advance_def)
    moreover have "chain_moved h (sa # nx # n2 # rest) h (advance sa # nx # n2 # rest)"
      using Cons.prems(5) advance_wf [OF wf] by (simp add: chain_moved_def pending_def linked_def)
    ultimately show ?thesis using moveSlot_no_wrap [OF True] by blast
  next
    case False
    have "linked h sa" using Cons.prems(5) by simp
    from pull_next [OF Cons.prems(1-4) this False] obtain h1 sa1 nx1 where
      pull: "SlotArray_pull (h, advance sa # nx # n2 # rest) = Some (h1, sa1 # nx1 # n2 # rest)"
      and p: "pulled ?tk h (advance sa) nx h1 sa1 nx1" by blast
    have tk1: "(\<lambda>e. ste_tick (h1 e)) = ?tk" using p by (simp add: pulled_def)
    have nx: "level_ok ?tk nx" "actSlot nx < length (slotList nx)" "distinct (elems nx)" "linked h nx"
      and f: "same_frame nx nx1" and s1: "slotList nx1 = (slotList nx)[actSlot nx := []]"
      and h1: "\<forall>x. x \<notin> set (slotList nx ! actSlot nx) \<longrightarrow> h1 x = h x"
      using Cons.prems(3-5) p by (auto simp: level_ok_def level_wf_def pending_Cons pulled_def)
    have u: "upper_ok ?tk (tickOffset nx + ticksPerArray nx) (ticksPerArray nx) (n2 # rest)"
      using Cons.prems(3) by simp
    have "linked h1 sb" if "sb \<in> set (n2 # rest)" for sb
    proof (rule linked_frame [of h])
      show "linked h sb" using that Cons.prems(5) by auto
      fix x assume "x \<in> set (elems sb)"
      then have "x \<in> set (pending (n2 # rest))" using that by (auto simp: pending_def)
      then have "x \<notin> set (elems nx)" using Cons.prems(4) by (auto simp: pending_Cons)
      then show "h1 x = h x" using h1 slot_sub_elems [OF nx(2)] by blast
    qed
    then have l1: "\<forall>sb\<in>set (nx1 # n2 # rest). linked h1 sb"
      using linked_emptied [OF nx(4) s1 f nx(3,2) h1] by simp
    have "set (elems nx1) \<subseteq> set (elems nx)"
      using elems_emptied [OF nx(2) s1] by (metis Un_upper1 set_mset_mset set_mset_union)
    then have dis: "distinct (pending (nx1 # n2 # rest))"
      using Cons.prems(4) distinct_emptied [OF nx(3,2) s1] by (auto simp: pending_Cons)
    have "slotList nx1 ! actSlot nx1 = []" using same_frameD [OF f] s1 nx(2) by simp
    then have "\<exists>h' sa' arrs'. SlotArray_moveSlot (h1, nx1 # n2 # rest) = Some (h', sa' # arrs')
      \<and> head_moved ?tk nx1 sa' arrs' \<and> chain_moved h1 (nx1 # n2 # rest) h' (sa' # arrs')"
      using Cons.IH [of h1 nx1 n2] level_ok_emptied [OF nx(1) f s1] u same_frameD [OF f] l1 dis tk1
      by simp
    then obtain h2 nx2 arrs2 where mv: "SlotArray_moveSlot (h1, nx1 # n2 # rest) = Some (h2, nx2 # arrs2)"
      and m: "head_moved ?tk nx1 nx2 arrs2" "chain_moved h1 (nx1 # n2 # rest) h2 (nx2 # arrs2)" by blast
    show ?thesis
      using moveSlot_wrap [OF False pull mv] wrap_head_moved [OF Cons.prems(1-3) False p m(1)]
        wrap_chain_moved [OF Cons.prems(4) nx(2) wf p m(2)] by blast
  qed
qed

section \<open>Removing\<close>

text \<open>A chain that lost elements keeps the invariant.\<close>

definition shrunk :: "SlotArray \<Rightarrow> SlotArray \<Rightarrow> bool" where
  "shrunk sa sa' \<longleftrightarrow> same_frame sa sa' \<and> length (slotList sa') = length (slotList sa)
     \<and> (\<forall>j<length (slotList sa). set (slotList sa' ! j) \<subseteq> set (slotList sa ! j))"

lemma shrunk_refl [simp]: "shrunk sa sa"
  by (simp add: shrunk_def)

lemma shrunk_all_refl [simp]: "list_all2 shrunk arrs arrs"
  by (simp add: list_all2_same)

lemma shrunk_elems: "shrunk sa sa' \<Longrightarrow> set (elems sa') \<subseteq> set (elems sa)"
proof
  fix x assume s: "shrunk sa sa'" and "x \<in> set (elems sa')"
  then obtain j where "j < length (slotList sa')" "x \<in> set (slotList sa' ! j)"
    by (auto simp: elems_def in_set_conv_nth [where xs = "slotList sa'"])
  then show "x \<in> set (elems sa)" using s slot_sub_elems [of j sa] by (auto simp: shrunk_def)
qed

lemma shrunk_level_ok:
  assumes s: "shrunk sa sa'" and ok: "level_ok tk sa"
  shows "level_ok tk sa'"
proof -
  have f: "same_frame sa sa'" and l: "length (slotList sa') = length (slotList sa)" using s by (auto simp: shrunk_def)
  note fD = same_frameD [OF f]
  have wf: "level_wf sa" using ok by (simp add: level_ok_def)
  then have "level_wf sa'" using fD l by (simp add: level_wf_def)
  moreover have "e \<in> set (slotList sa ! j)" if "j < numberSlots sa" "e \<in> set (slotList sa' ! j)" for e j
    using s that wf by (auto simp: shrunk_def level_wf_def)
  ultimately show ?thesis using ok by (simp add: level_ok_def fD)
qed

lemma shrunk_empty:
  assumes "shrunk sa sa'" "\<forall>xs\<in>set (slotList sa). xs = []"
  shows "\<forall>xs\<in>set (slotList sa'). xs = []"
proof -
  have "set (elems sa) = {}" using assms(2) by (auto simp: elems_def)
  then have "elems sa' = []" using shrunk_elems [OF assms(1)] by simp
  then show ?thesis by (simp add: elems_def)
qed

lemma upper_shrunk:
  assumes "upper_ok tk lb step arrs" "list_all2 shrunk arrs arrs'"
  shows "upper_ok tk lb step arrs'"
  using assms
proof (induction tk lb step arrs arbitrary: arrs' rule: upper_ok.induct)
  case (2 tk lb step sa)
  then show ?case
    using same_frameD [of sa "hd arrs'"] shrunk_empty [of sa "hd arrs'"]
    by (auto simp: list_all2_Cons1 shrunk_def)
next
  case (3 tk lb step sa nx rest)
  then obtain sa' nx' rest' where arrs': "arrs' = sa' # nx' # rest'" and s: "shrunk sa sa'"
    and l: "list_all2 shrunk (nx # rest) (nx' # rest')" by (auto simp: list_all2_Cons1)
  have f: "same_frame sa sa'" using s by (simp add: shrunk_def)
  show ?case
    using 3 arrs' s l shrunk_level_ok [OF s] shrunk_elems [OF s] same_frameD [OF f] by auto
qed simp

lemma arrays_shrunk:
  assumes "arrays_ok tk arrs" "list_all2 shrunk arrs arrs'"
  shows "arrays_ok tk arrs'"
proof -
  obtain sa nx rest where arrs: "arrs = sa # nx # rest" using assms(1) by (cases "(tk, arrs)" rule: arrays_ok.cases) auto
  then obtain sa' nx' rest' where arrs': "arrs' = sa' # nx' # rest'" and s: "shrunk sa sa'"
    and l: "list_all2 shrunk (nx # rest) (nx' # rest')" using assms(2) by (auto simp: list_all2_Cons1)
  have f: "same_frame sa sa'" using s by (simp add: shrunk_def)
  show ?thesis
    using assms(1) arrs arrs' upper_shrunk [OF _ l] shrunk_level_ok [OF s] same_frameD [OF f] by simp
qed

lemma slot_del_member:
  assumes "e \<in> set (slotList sa ! n)"
  shows "slot_del n e (h, sa) = Some (h(e := (h e)\<lparr>ste_running := False\<rparr>),
    sa\<lparr>sa_count := sa_count sa - 1, slotList := (slotList sa)[n := remove1 e (slotList sa ! n)]\<rparr>)"
  using assms by (auto simp: slot_del_def split: list.splits)

lemma shrunk_del:
  "n < length (slotList sa) \<Longrightarrow>
   shrunk sa (sa\<lparr>sa_count := c, slotList := (slotList sa)[n := remove1 e (slotList sa ! n)]\<rparr>)"
  using set_remove1_subset by (fastforce simp: shrunk_def same_frame_def nth_list_update_at)

lemma elems_del:
  assumes "n < length (slotList sa)" "e \<in> set (slotList sa ! n)"
  shows "add_mset e (mset (elems (sa\<lparr>sa_count := c, slotList := (slotList sa)[n := remove1 e (slotList sa ! n)]\<rparr>)))
    = mset (elems sa)"
proof -
  have "mset (concat ((slotList sa)[n := remove1 e (slotList sa ! n)])) + mset (slotList sa ! n)
    = mset (concat (slotList sa)) + (mset (slotList sa ! n) - {#e#})"
    using mset_concat_update [OF assms(1), of "remove1 e (slotList sa ! n)"] by simp
  moreover have "mset (slotList sa ! n) = add_mset e (mset (slotList sa ! n) - {#e#})" using assms(2) by simp
  ultimately have "add_mset e (mset (concat ((slotList sa)[n := remove1 e (slotList sa ! n)])))
      + (mset (slotList sa ! n) - {#e#}) = mset (concat (slotList sa)) + (mset (slotList sa ! n) - {#e#})"
    by (metis union_mset_add_mset_left union_mset_add_mset_right)
  then show ?thesis by (simp add: elems_def)
qed

lemma upper_elem_wf:
  "upper_ok tk lb step arrs \<Longrightarrow> sb \<in> set arrs \<Longrightarrow> e \<in> set (elems sb) \<Longrightarrow> level_wf sb"
  by (induction tk lb step arrs rule: upper_ok.induct) (auto simp: level_ok_def elems_def)

lemma remove_ok:
  assumes "upper_ok tk lb step arrs \<or> arrays_ok tk arrs" "\<forall>sa\<in>set arrs. linked h sa"
    and "map sa_id arrs = [i..<i + length arrs]" "e \<in> set (pending arrs)"
  shows "\<exists>arrs'. SlotArray_remove e (h, arrs) = Some (h(e := (h e)\<lparr>ste_running := False\<rparr>), arrs')
    \<and> list_all2 shrunk arrs arrs' \<and> add_mset e (mset (pending arrs')) = mset (pending arrs)"
  using assms
proof (induction arrs arbitrary: lb step i)
  case (Cons sa rest)
  show ?case
  proof (cases rest)
    case Nil
    then show ?thesis using Cons.prems(1,4) by (auto simp: pending_def elems_def)
  next
    case (Cons nx rest')
    have wf: "level_wf sa" and upper: "\<exists>lb step. upper_ok tk lb step rest"
      using Cons.prems(1) \<open>rest = nx # rest'\<close> by (auto simp: level_ok_def)
    have ids: "sa_id sa = i" "map sa_id rest = [Suc i..<Suc i + length rest]"
      using Cons.prems(3) by (auto simp: upt_rec)
    show ?thesis
    proof (cases "e \<in> set (elems sa)")
      case True
      then obtain j where j: "j < numberSlots sa" "e \<in> set (slotList sa ! j)" using set_elems [OF wf] by auto
      have l: "j < length (slotList sa)" "numberSlots sa \<le> 256" using j wf by (auto simp: level_wf_def)
      have "ste_handle (h e) = 256 * sa_id sa + j" using Cons.prems(2) j l by (auto simp: linked_def)
      then have "ste_handle (h e) div 256 = sa_id sa" "ste_handle (h e) mod 256 = j" using j l by auto
      then show ?thesis
        using \<open>rest = nx # rest'\<close> slot_del_member [OF j(2), of h] shrunk_del [OF l(1)] elems_del [OF l(1) j(2)]
        by (simp add: pending_Cons fun_upd_def)
    next
      case False
      then have e: "e \<in> set (pending rest)" using Cons.prems(4) by (simp add: pending_Cons)
      then obtain sb where sb: "sb \<in> set rest" "e \<in> set (elems sb)" by (auto simp: pending_def)
      then have swf: "level_wf sb" using upper upper_elem_wf by blast
      then obtain j where j: "j < numberSlots sb" "e \<in> set (slotList sb ! j)" using sb(2) set_elems by blast
      have l: "j < length (slotList sb)" "numberSlots sb \<le> 256" using j swf by (auto simp: level_wf_def)
      have "ste_handle (h e) = 256 * sa_id sb + j" using Cons.prems(2) sb(1) j(2) l by (auto simp: linked_def)
      then have "ste_handle (h e) div 256 = sa_id sb" using j l by auto
      moreover have "sa_id sb \<in> set (map sa_id rest)" using sb(1) by simp
      then have "Suc i \<le> sa_id sb" using ids(2) by auto
      ultimately have "sa_id sa \<noteq> ste_handle (h e) div 256" using ids(1) by simp
      moreover have "\<exists>arrs'. SlotArray_remove e (h, rest) = Some (h(e := (h e)\<lparr>ste_running := False\<rparr>), arrs')
        \<and> list_all2 shrunk rest arrs' \<and> add_mset e (mset (pending arrs')) = mset (pending rest)"
      proof -
        obtain lb step where "upper_ok tk lb step rest" using upper by blast
        then show ?thesis using Cons.prems(2) by (intro Cons.IH [OF disjI1 _ ids(2) e]) auto
      qed
      ultimately show ?thesis
        using \<open>rest = nx # rest'\<close> by (auto simp: pending_Cons fun_upd_def simp flip: union_mset_add_mset_right)
    qed
  qed
qed (simp add: pending_def)

end
