(* ===== verification/TimerWheel.thy ===== *)
theory TimerWheel
  imports SlotTimer
begin

text \<open>
  The invariant of the timer wheel as a whole, and what starting, stopping and running timers do
  to the set of pending timers and to the tick the wheel stands at.
\<close>

section \<open>The invariant of the wheel\<close>

text \<open>The number of ticks the wheel looks ahead at least: the width of the last array with slots.\<close>

definition span :: "SlotArray list \<Rightarrow> nat" where
  "span arrs = (if length arrs < 2 then 0 else map ticksPerArray arrs ! (length arrs - 2))"

text \<open>
  The arrays are consistent, every element is in at most one slot, the handles and links agree with the
  slots, an element is running exactly when it is in the wheel, its tick is that of its expire time, and
  no period is longer than the wheel.
\<close>

definition SlotTimer_inv :: "SlotTimer \<Rightarrow> bool" where
  "SlotTimer_inv st \<longleftrightarrow>
     (let h = st_elements st; arrs = st_arrays st
      in arrays_ok (\<lambda>e. ste_tick (h e)) arrs \<and> 3 \<le> length arrs \<and> ticksPerSlot (hd arrs) = 1
         \<and> distinct (pending arrs) \<and> (\<forall>sa\<in>set arrs. linked h sa)
         \<and> map sa_id arrs = [0..<length arrs]
         \<and> (\<forall>e. ste_running (h e) \<longleftrightarrow> e \<in> set (pending arrs))
         \<and> (\<forall>e\<in>set (pending arrs). ste_tick (h e) = SlotTimer_tick (st_startTime st) (ste_expireTime (h e))
              \<and> ste_interval (h e) div 10 + 1 < span arrs))"

definition SlotTimer_pending :: "SlotTimer \<Rightarrow> ptr set" where
  "SlotTimer_pending st = set (pending (st_arrays st))"

definition SlotTimer_due :: "SlotTimer \<Rightarrow> ptr list" where
  "SlotTimer_due st = (let sa = hd (st_arrays st) in slotList sa ! actSlot sa)"

lemma level_tick_cong:
  assumes "\<forall>e\<in>set (elems sa). tk e = tk' e"
  shows "level_ok tk sa = level_ok tk' sa"
proof -
  have "tk e = tk' e" if "level_wf sa" "j < numberSlots sa" "e \<in> set (slotList sa ! j)" for e j
    using that assms set_elems by blast
  then show ?thesis by (auto simp: level_ok_def)
qed

lemma upper_tick_cong:
  "\<forall>e\<in>set (pending arrs). tk e = tk' e \<Longrightarrow> upper_ok tk lb step arrs = upper_ok tk' lb step arrs"
proof (induction tk lb step arrs rule: upper_ok.induct)
  case (3 tk lb step sa nx rest)
  then show ?case using level_tick_cong [of sa tk tk'] by (simp add: pending_Cons)
qed simp_all

lemma arrays_tick_cong:
  "\<forall>e\<in>set (pending arrs). tk e = tk' e \<Longrightarrow> arrays_ok tk arrs = arrays_ok tk' arrs"
  using level_tick_cong [of "hd arrs" tk tk'] upper_tick_cong [of "tl arrs" tk tk']
  by (cases "(tk, arrs)" rule: arrays_ok.cases) (simp_all add: pending_Cons)

lemma span_map:
  assumes "map ticksPerArray arrs' = map ticksPerArray arrs"
  shows "span arrs' = span arrs"
  using assms map_eq_imp_length_eq [OF assms] by (simp add: span_def)

lemma frame_map: "list_all2 same_frame arrs arrs' \<Longrightarrow> map ticksPerArray arrs' = map ticksPerArray arrs"
  by (induction rule: list_all2_induct) (auto simp: same_frameD)

lemmas span_frame = span_map [OF frame_map]

lemma shrunk_frame: "list_all2 shrunk arrs arrs' \<Longrightarrow> list_all2 same_frame arrs arrs'"
  by (erule list_all2_mono) (simp add: shrunk_def)

lemma frame_ids: "list_all2 same_frame arrs arrs' \<Longrightarrow> map sa_id arrs' = map sa_id arrs"
  by (induction rule: list_all2_induct) (auto simp: same_frameD)

lemma invD:
  assumes "SlotTimer_inv st"
  shows "arrays_ok (\<lambda>e. ste_tick (st_elements st e)) (st_arrays st)" "3 \<le> length (st_arrays st)"
    "ticksPerSlot (hd (st_arrays st)) = 1" "distinct (pending (st_arrays st))"
    "\<forall>sa\<in>set (st_arrays st). linked (st_elements st) sa" "map sa_id (st_arrays st) = [0..<length (st_arrays st)]"
    "ste_running (st_elements st e) \<longleftrightarrow> e \<in> SlotTimer_pending st"
    "\<forall>e\<in>SlotTimer_pending st. ste_tick (st_elements st e) = SlotTimer_tick (st_startTime st) (ste_expireTime (st_elements st e))
       \<and> ste_interval (st_elements st e) div 10 + 1 < span (st_arrays st)"
  using assms by (simp_all add: SlotTimer_inv_def SlotTimer_pending_def Let_def)

text \<open>A stopped element is taken out of the wheel, and nothing else changes.\<close>

lemma stop_running:
  assumes inv: "SlotTimer_inv st" and run: "e \<in> SlotTimer_pending st"
  shows "\<exists>st'. SlotTimer_stop e st = Some st' \<and> SlotTimer_inv st'
    \<and> SlotTimer_pending st' = SlotTimer_pending st - {e} \<and> SlotTimer_now st' = SlotTimer_now st
    \<and> st_elements st' = (st_elements st)(e := (st_elements st e)\<lparr>ste_running := False\<rparr>)
    \<and> st_startTime st' = st_startTime st \<and> list_all2 same_frame (st_arrays st) (st_arrays st')"
proof -
  let ?h = "st_elements st"
  define h' where "h' = ?h(e := (?h e)\<lparr>ste_running := False\<rparr>)"
  note D = invD [OF inv]
  obtain arrs' where rm: "SlotArray_remove e (?h, st_arrays st) = Some (h', arrs')"
    and s: "list_all2 shrunk (st_arrays st) arrs'"
    and m: "add_mset e (mset (pending arrs')) = mset (pending (st_arrays st))"
    using remove_ok [where i = 0, OF disjI2 [OF D(1)] D(5), of e] D(6) run
    unfolding SlotTimer_pending_def h'_def by auto
  note f = shrunk_frame [OF s]
  have dis: "distinct (e # pending arrs')" using m D(4) by (metis mset.simps(2) mset_eq_imp_distinct_iff)
  have p: "set (pending arrs') = set (pending (st_arrays st)) - {e}"
    using m dis by (metis Diff_insert_absorb distinct.simps(2) set_mset_add_mset_insert set_mset_mset)
  have t: "ste_tick (h' x) = ste_tick (?h x)" "ste_expireTime (h' x) = ste_expireTime (?h x)"
    "ste_interval (h' x) = ste_interval (?h x)" "ste_running (h' x) \<longleftrightarrow> x \<noteq> e \<and> ste_running (?h x)" for x
    by (simp_all add: h'_def)
  have l: "length arrs' = length (st_arrays st)" using s by (simp add: list_all2_lengthD)
  obtain sa arrs where arrs: "st_arrays st = sa # arrs" using D(2) by (cases "st_arrays st") auto
  then obtain sa' where hd: "arrs' \<noteq> []" "hd arrs' = sa'" "same_frame sa sa'"
    using f by (auto simp: list_all2_Cons1)
  have lk: "linked h' sb'" if sb': "sb' \<in> set arrs'" for sb'
  proof -
    obtain sb where sb: "sb \<in> set (st_arrays st)" "shrunk sb sb'"
      using s sb' by (metis in_set_conv_nth list_all2_conv_all_nth)
    then have "linked ?h sb'" using D(5) same_frameD(1) [of sb sb'] by (force simp: shrunk_def linked_def)
    then show ?thesis
      by (rule linked_frame) (use dis sb' in \<open>auto simp: pending_def h'_def\<close>)
  qed
  let ?st = "st\<lparr>st_elements := h', st_arrays := arrs'\<rparr>"
  have "SlotTimer_stop e st = Some ?st" using run D(7) rm by (simp add: SlotTimer_stop_def)
  moreover have "SlotTimer_inv ?st"
    using arrays_shrunk [OF D(1) s] D p dis lk l hd arrs f
    by (auto simp: SlotTimer_inv_def SlotTimer_pending_def Let_def t frame_ids span_frame same_frameD [OF hd(3)])
  moreover have "SlotTimer_now ?st = SlotTimer_now st"
    using hd arrs by (simp add: SlotTimer_now_def same_frameD [OF hd(3)])
  ultimately show ?thesis using p f by (auto simp: SlotTimer_pending_def h'_def)
qed

text \<open>The current slot of the first array holds exactly the timers that are due.\<close>

lemma upper_elem:
  "upper_ok tk lb step arrs \<Longrightarrow> e \<in> set (pending arrs) \<Longrightarrow> lb \<le> tk e"
proof (induction tk lb step arrs rule: upper_ok.induct)
  case (2 tk lb step sa)
  then show ?case by (auto simp: pending_def elems_def)
next
  case (3 tk lb step sa nx rest)
  have "actSlot sa * ticksPerSlot sa \<le> numberSlots sa * ticksPerSlot sa"
    using 3 by (simp add: level_ok_def level_wf_def)
  then have "lb \<le> tickOffset sa + ticksPerArray sa" using 3 by (auto simp: level_ok_def level_wf_def slot_begin_def)
  then show ?case using 3 by (auto simp: pending_Cons)
qed simp

lemma inv_arrays:
  assumes "SlotTimer_inv st"
  obtains sa nx n2 rest where "st_arrays st = sa # nx # n2 # rest"
    "level_ok (\<lambda>e. ste_tick (st_elements st e)) sa" "level_wf sa"
    "upper_ok (\<lambda>e. ste_tick (st_elements st e)) (tickOffset sa + ticksPerArray sa) (ticksPerArray sa) (nx # n2 # rest)"
    "ticksPerSlot sa = 1" "SlotTimer_now st = slot_begin sa" "SlotTimer_due st = slotList sa ! actSlot sa"
proof -
  obtain sa nx n2 rest where "st_arrays st = sa # nx # n2 # rest"
    using invD(2) [OF assms] by (metis One_nat_def Suc_le_length_iff numeral_3_eq_3)
  then show ?thesis
    using that [of sa nx n2 rest] invD(1,3) [OF assms]
    by (auto simp: level_ok_def SlotTimer_now_def SlotTimer_due_def slot_begin_def)
qed

lemma due_exactly:
  assumes inv: "SlotTimer_inv st"
  shows "e \<in> set (SlotTimer_due st) \<longleftrightarrow>
    e \<in> SlotTimer_pending st \<and> ste_tick (st_elements st e) \<le> SlotTimer_now st"
proof -
  let ?tk = "\<lambda>e. ste_tick (st_elements st e)"
  from inv obtain sa nx n2 rest where arrs: "st_arrays st = sa # nx # n2 # rest"
    and ok: "level_ok ?tk sa" and wf: "level_wf sa"
    and up: "upper_ok ?tk (tickOffset sa + ticksPerArray sa) (ticksPerArray sa) (nx # n2 # rest)"
    and sa: "ticksPerSlot sa = 1" "SlotTimer_now st = slot_begin sa" "SlotTimer_due st = slotList sa ! actSlot sa"
    by (rule inv_arrays)
  have act: "actSlot sa < numberSlots sa" "actSlot sa < length (slotList sa)" using wf by (auto simp: level_wf_def)
  have "?tk e \<le> slot_begin sa" if "e \<in> set (slotList sa ! actSlot sa)"
  proof (rule ccontr)
    assume "\<not> ?tk e \<le> slot_begin sa"
    moreover have "?tk e < slot_begin sa + ticksPerArray sa" "place sa (?tk e) = actSlot sa"
      using ok that act by (auto simp: level_ok_def)
    ultimately show False using place_current [OF wf, of "?tk e"] sa by simp
  qed
  moreover have "e \<in> set (slotList sa ! actSlot sa)" if "e \<in> set (elems sa)" "?tk e \<le> slot_begin sa"
    using level_elem(2) [OF ok that(1)] that(2) by (simp add: place_def)
  moreover have "slot_begin sa < ?tk e" if "e \<in> set (pending (nx # n2 # rest))"
    using upper_elem [OF up that] wf sa(1) by (simp add: slot_begin_def level_wf_def)
  moreover have "SlotTimer_pending st = set (elems sa) \<union> set (pending (nx # n2 # rest))"
    using arrs by (simp add: SlotTimer_pending_def pending_Cons)
  ultimately show ?thesis
    using sa slot_sub_elems [OF act(2)] by (metis Un_iff leD subsetD)
qed

text \<open>The wheel moves on by one tick, with the same timers, when no timer is due.\<close>

lemma move_on:
  assumes inv: "SlotTimer_inv st" and none: "SlotTimer_due st = []"
  shows "\<exists>h arrs. SlotArray_moveSlot (st_elements st, st_arrays st) = Some (h, arrs)
    \<and> SlotTimer_inv (st\<lparr>st_elements := h, st_arrays := arrs\<rparr>)
    \<and> SlotTimer_now (st\<lparr>st_elements := h, st_arrays := arrs\<rparr>) = SlotTimer_now st + 1
    \<and> set (pending arrs) = SlotTimer_pending st
    \<and> (\<forall>x. ste_tick (h x) = ste_tick (st_elements st x) \<and> ste_expireTime (h x) = ste_expireTime (st_elements st x)
          \<and> ste_interval (h x) = ste_interval (st_elements st x))"
proof -
  let ?tk = "\<lambda>e. ste_tick (st_elements st e)"
  note D = invD [OF inv]
  from inv obtain sa nx n2 rest where arrs: "st_arrays st = sa # nx # n2 # rest"
    and ok: "level_ok ?tk sa" and wf: "level_wf sa"
    and up: "upper_ok ?tk (tickOffset sa + ticksPerArray sa) (ticksPerArray sa) (nx # n2 # rest)"
    and sa: "ticksPerSlot sa = 1" "SlotTimer_now st = slot_begin sa" "SlotTimer_due st = slotList sa ! actSlot sa"
    by (rule inv_arrays)
  obtain h' sa' arrs' where mv: "SlotArray_moveSlot (st_elements st, st_arrays st) = Some (h', sa' # arrs')"
    and hm: "head_moved ?tk sa sa' arrs'" and cm: "chain_moved (st_elements st) (st_arrays st) h' (sa' # arrs')"
    using moveSlot_head [OF ok _ up] none sa D(4,5) arrs by auto
  have p: "set (pending (sa' # arrs')) = SlotTimer_pending st"
    using cm by (metis SlotTimer_pending_def chain_moved_def set_mset_mset)
  have t: "ste_tick (h' x) = ?tk x" "ste_expireTime (h' x) = ste_expireTime (st_elements st x)"
    "ste_interval (h' x) = ste_interval (st_elements st x)" for x using cm by (auto simp: chain_moved_def)
  have d: "distinct (pending (sa' # arrs'))"
    using cm D(4) by (metis chain_moved_def mset_eq_imp_distinct_iff)
  have l: "length (sa' # arrs') = length (st_arrays st)" using cm by (metis chain_moved_def length_map)
  have run: "ste_running (h' e) \<longleftrightarrow> e \<in> SlotTimer_pending st" for e
  proof (cases "e \<in> SlotTimer_pending st")
    case True
    then have "e \<in> set (pending (sa' # arrs'))" using p by simp
    then obtain sb where sb: "sb \<in> set (sa' # arrs')" "e \<in> set (elems sb)" by (auto simp: pending_def)
    then obtain xs where "xs \<in> set (slotList sb)" "e \<in> set xs" by (auto simp: elems_def)
    then obtain j where "j < length (slotList sb)" "e \<in> set (slotList sb ! j)" by (metis in_set_conv_nth)
    then show ?thesis using cm True sb(1) unfolding chain_moved_def linked_def by blast
  next
    case False
    then show ?thesis using cm D(7) by (auto simp: chain_moved_def SlotTimer_pending_def)
  qed
  obtain nx' rest' where arrs': "arrs' = nx' # rest'" using l arrs by (cases arrs') auto
  let ?st = "st\<lparr>st_elements := h', st_arrays := sa' # arrs'\<rparr>"
  have sp: "span (sa' # arrs') = span (st_arrays st)"
    by (rule span_map) (use cm in \<open>simp add: chain_moved_def\<close>)
  have "SlotTimer_inv ?st"
    unfolding SlotTimer_inv_def Let_def
  proof (intro conjI)
    show "arrays_ok (\<lambda>e. ste_tick (st_elements ?st e)) (st_arrays ?st)"
      using hm arrs' by (simp add: t head_moved_def)
    show "ticksPerSlot (hd (st_arrays ?st)) = 1" using hm sa by (simp add: head_moved_def)
    show "map sa_id (st_arrays ?st) = [0..<length (st_arrays ?st)]"
      using cm D(6) l by (simp add: chain_moved_def)
    show "\<forall>e. ste_running (st_elements ?st e) \<longleftrightarrow> e \<in> set (pending (st_arrays ?st))" using run p by simp
    show "\<forall>e\<in>set (pending (st_arrays ?st)). ste_tick (st_elements ?st e) =
        SlotTimer_tick (st_startTime ?st) (ste_expireTime (st_elements ?st e))
      \<and> ste_interval (st_elements ?st e) div 10 + 1 < span (st_arrays ?st)"
      using D(8) p sp by (simp add: t)
  qed (use d l D(2) cm in \<open>auto simp: chain_moved_def\<close>)
  moreover have "SlotTimer_now ?st = SlotTimer_now st + 1"
    using hm sa by (auto simp: SlotTimer_now_def head_moved_def slot_begin_def)
  ultimately show ?thesis using mv p t by blast
qed

text \<open>Starting a timer within the range of the wheel.\<close>

lemma start_new:
  assumes inv: "SlotTimer_inv st" and new: "e \<notin> SlotTimer_pending st"
    and t: "SlotTimer_tick (st_startTime st) (ste_expireTime (st_elements st e)) < horizon (st_arrays st)"
    and i: "ste_interval (st_elements st e) div 10 + 1 < span (st_arrays st)"
  shows "SlotTimer_inv (SlotTimer_internalStart e st)"
    and "SlotTimer_pending (SlotTimer_internalStart e st) = insert e (SlotTimer_pending st)"
    and "SlotTimer_now (SlotTimer_internalStart e st) = SlotTimer_now st"
    and "\<forall>x. x \<noteq> e \<longrightarrow> st_elements (SlotTimer_internalStart e st) x = st_elements st x"
    and "st_startTime (SlotTimer_internalStart e st) = st_startTime st"
    and "list_all2 same_frame (st_arrays st) (st_arrays (SlotTimer_internalStart e st))"
proof -
  let ?h = "st_elements st" and ?arrs = "st_arrays st"
  define h1 where "h1 = ?h(e := (?h e)\<lparr>ste_tick := SlotTimer_tick (st_startTime st) (ste_expireTime (?h e))\<rparr>)"
  obtain h2 arrs2 where ins: "SlotArray_insert e (h1, ?arrs) = (h2, arrs2)" by fastforce
  define st' where "st' = st\<lparr>st_elements := h2, st_arrays := arrs2\<rparr>"
  have st': "SlotTimer_internalStart e st = st'"
    using ins by (simp add: SlotTimer_internalStart_def Let_def h1_def st'_def)
  note D = invD [OF inv]
  have new': "e \<notin> set (pending ?arrs)" using new by (simp add: SlotTimer_pending_def)
  have "arrays_ok (\<lambda>x. ste_tick (h1 x)) ?arrs"
    using D(1) new' by (subst arrays_tick_cong [of _ _ "\<lambda>x. ste_tick (?h x)"]) (auto simp: h1_def)
  moreover have "ste_tick (h1 e) < horizon ?arrs" using t by (simp add: h1_def)
  ultimately have ok: "arrays_ok (\<lambda>x. ste_tick (h1 x)) arrs2" and f: "list_all2 same_frame ?arrs arrs2"
    and m: "mset (pending arrs2) = add_mset e (mset (pending ?arrs))"
    using arrays_insert [of h1 ?arrs e] D(2) by (simp_all add: ins)
  have "linked h1 sa" if "sa \<in> set ?arrs" for sa
    by (rule linked_frame [of ?h]) (use that D(5) new' in \<open>auto simp: h1_def pending_def\<close>)
  from insert_linked [OF arrays_chain_wf [OF D(1)] _ new', of h1] this
  have l: "\<forall>sa\<in>set arrs2. linked h2 sa" and u: "linked_update e h1 h2" by (auto simp: ins)
  have p: "set (pending arrs2) = insert e (set (pending ?arrs))"
    using m by (metis set_mset_add_mset_insert set_mset_mset)
  have d: "distinct (pending arrs2)"
    using m D(4) new' by (metis distinct.simps(2) mset.simps(2) mset_eq_imp_distinct_iff)
  have h2: "ste_tick (h2 x) = ste_tick (h1 x)" "ste_expireTime (h2 x) = ste_expireTime (?h x)"
    "ste_interval (h2 x) = ste_interval (?h x)" "ste_running (h2 x) \<longleftrightarrow> x = e \<or> ste_running (?h x)"
    "x \<noteq> e \<Longrightarrow> h2 x = ?h x" for x
    using u by (auto simp: linked_update_def h1_def split: if_splits)
  have len: "length arrs2 = length ?arrs" using f by (simp add: list_all2_lengthD)
  have hd: "same_frame (hd ?arrs) (hd arrs2)" using f D(2) by (cases ?arrs) (auto simp: list_all2_Cons1)
  have "SlotTimer_inv st'"
    unfolding SlotTimer_inv_def Let_def
  proof (intro conjI)
    show "arrays_ok (\<lambda>e. ste_tick (st_elements st' e)) (st_arrays st')" using ok by (simp add: st'_def h2)
    show "ticksPerSlot (hd (st_arrays st')) = 1" using D(3) same_frameD [OF hd] by (simp add: st'_def)
    show "map sa_id (st_arrays st') = [0..<length (st_arrays st')]"
      using frame_ids [OF f] D(6) len by (simp add: st'_def)
    show "\<forall>e. ste_running (st_elements st' e) \<longleftrightarrow> e \<in> set (pending (st_arrays st'))"
      using D(7) p by (simp add: st'_def h2 SlotTimer_pending_def)
    show "\<forall>e\<in>set (pending (st_arrays st')). ste_tick (st_elements st' e) =
        SlotTimer_tick (st_startTime st') (ste_expireTime (st_elements st' e))
      \<and> ste_interval (st_elements st' e) div 10 + 1 < span (st_arrays st')"
      using D(8) p span_frame [OF f] i by (simp add: st'_def h2 SlotTimer_pending_def h1_def)
  qed (use d l D(2) len in \<open>auto simp: st'_def\<close>)
  then show "SlotTimer_inv (SlotTimer_internalStart e st)" using st' by simp
  show "SlotTimer_pending (SlotTimer_internalStart e st) = insert e (SlotTimer_pending st)"
    using p st' by (simp add: SlotTimer_pending_def st'_def)
  show "SlotTimer_now (SlotTimer_internalStart e st) = SlotTimer_now st"
    using same_frameD [OF hd] st' by (simp add: SlotTimer_now_def st'_def Let_def)
  show "\<forall>x. x \<noteq> e \<longrightarrow> st_elements (SlotTimer_internalStart e st) x = ?h x"
    using h2(5) st' by (simp add: st'_def)
  show "st_startTime (SlotTimer_internalStart e st) = st_startTime st" using st' by (simp add: st'_def)
  show "list_all2 same_frame ?arrs (st_arrays (SlotTimer_internalStart e st))" using f st' by (simp add: st'_def)
qed

text \<open>Taking the first due timer out of its slot is the same as stopping it.\<close>

lemma due_stop:
  assumes inv: "SlotTimer_inv st" and due: "SlotTimer_due st = e # xs" and arrs: "st_arrays st = sa # next"
  shows "\<exists>sa' st1. slot_del (actSlot sa) e (st_elements st, sa) = Some (st_elements st1, sa')
    \<and> st1 = st\<lparr>st_elements := st_elements st1, st_arrays := sa' # next\<rparr>
    \<and> SlotTimer_stop e st = Some st1 \<and> SlotTimer_due st1 = xs"
proof -
  note D = invD [OF inv]
  obtain nx rest where tail: "next = nx # rest" using D(2) arrs by (cases "next") auto
  have wf: "level_wf sa" using D(1) arrs tail by (simp add: level_ok_def)
  have slot: "slotList sa ! actSlot sa = e # xs" using due arrs by (simp add: SlotTimer_due_def)
  have act: "actSlot sa < length (slotList sa)" "actSlot sa < 256" using wf by (auto simp: level_wf_def)
  have lk: "ste_handle (st_elements st e) = 256 * sa_id sa + actSlot sa" "ste_running (st_elements st e)"
    using D(5) arrs act(1) slot by (auto simp: linked_def)
  then have hd: "ste_handle (st_elements st e) div 256 = sa_id sa" "ste_handle (st_elements st e) mod 256 = actSlot sa"
    using act by auto
  define h1 where "h1 = (st_elements st)(e := (st_elements st e)\<lparr>ste_running := False\<rparr>)"
  define sa1 where "sa1 = sa\<lparr>sa_count := sa_count sa - 1, slotList := (slotList sa)[actSlot sa := xs]\<rparr>"
  have del: "slot_del (actSlot sa) e (st_elements st, sa) = Some (h1, sa1)"
    using slot_del_member [of e sa "actSlot sa" "st_elements st"] slot by (simp add: h1_def sa1_def)
  define st1 where "st1 = st\<lparr>st_elements := h1, st_arrays := sa1 # next\<rparr>"
  have "SlotTimer_stop e st = Some st1"
    using arrs tail hd lk(2) del by (simp add: SlotTimer_stop_def st1_def)
  moreover have "SlotTimer_due st1 = xs" using act(1) by (simp add: SlotTimer_due_def st1_def sa1_def)
  moreover have "st_elements st1 = h1" "st1 = st\<lparr>st_elements := st_elements st1, st_arrays := sa1 # next\<rparr>"
    by (simp_all add: st1_def)
  ultimately show ?thesis using del by metis
qed

lemma horizon_span:
  "upper_ok tk lb step arrs \<Longrightarrow> 2 \<le> length arrs \<Longrightarrow> lb + span arrs \<le> horizon arrs"
proof (induction tk lb step arrs rule: upper_ok.induct)
  case (3 tk lb step sa nx rest)
  show ?case
  proof (cases rest)
    case Nil
    then show ?thesis using 3 by (simp add: span_def)
  next
    case (Cons a b)
    have "tickOffset sa + ticksPerArray sa + span (nx # rest) \<le> horizon (nx # rest)" using 3 Cons by simp
    moreover have "actSlot sa * ticksPerSlot sa \<le> numberSlots sa * ticksPerSlot sa"
      using 3 by (simp add: level_ok_def level_wf_def)
    then have "lb \<le> tickOffset sa + ticksPerArray sa" using 3 by (auto simp: level_ok_def level_wf_def slot_begin_def)
    moreover have "span (sa # nx # rest) = span (nx # rest)" using Cons by (simp add: span_def)
    ultimately show ?thesis using Cons by simp
  qed
qed simp_all

lemma now_span:
  assumes "SlotTimer_inv st"
  shows "SlotTimer_now st + span (st_arrays st) < horizon (st_arrays st)"
proof -
  from assms obtain sa nx n2 rest where arrs: "st_arrays st = sa # nx # n2 # rest"
    and wf: "level_wf sa"
    and up: "upper_ok (\<lambda>e. ste_tick (st_elements st e)) (tickOffset sa + ticksPerArray sa) (ticksPerArray sa) (nx # n2 # rest)"
    and sa: "ticksPerSlot sa = 1" "SlotTimer_now st = slot_begin sa" by (rule inv_arrays)
  have "slot_begin sa < tickOffset sa + ticksPerArray sa" using wf sa by (simp add: slot_begin_def level_wf_def)
  moreover have "span (st_arrays st) = span (nx # n2 # rest)" "horizon (st_arrays st) = horizon (nx # n2 # rest)"
    using arrs by (simp_all add: span_def)
  ultimately show ?thesis using horizon_span [OF up] sa by simp
qed

text \<open>An element that is not in the wheel may be changed.\<close>

lemma inv_elem_update:
  assumes inv: "SlotTimer_inv st" and new: "e \<notin> SlotTimer_pending st" and off: "\<not> ste_running x"
  shows "SlotTimer_inv (st\<lparr>st_elements := (st_elements st)(e := x)\<rparr>)"
proof -
  let ?h = "st_elements st" and ?arrs = "st_arrays st"
  define h' where "h' = ?h(e := x)"
  note D = invD [OF inv]
  have same: "h' y = ?h y" if "y \<in> set (pending ?arrs)" for y
    using that new by (auto simp: h'_def SlotTimer_pending_def)
  have "arrays_ok (\<lambda>y. ste_tick (h' y)) ?arrs"
    using D(1) same by (subst arrays_tick_cong [of _ _ "\<lambda>x. ste_tick (?h x)"]) auto
  moreover have "linked h' sa" if "sa \<in> set ?arrs" for sa
    by (rule linked_frame [of ?h]) (use that D(5) same in \<open>auto simp: pending_def\<close>)
  moreover have "ste_running (h' y) \<longleftrightarrow> y \<in> set (pending ?arrs)" for y
    using D(7) [of y] off new by (auto simp: h'_def SlotTimer_pending_def)
  ultimately show ?thesis
    using D same by (simp add: SlotTimer_inv_def Let_def SlotTimer_pending_def h'_def [symmetric])
qed

text \<open>A periodic timer that was due is started again within the range of the wheel.\<close>

lemma tick_add: "SlotTimer_tick s (t + i) \<le> SlotTimer_tick s t + i div 10 + 1"
  by (auto simp: SlotTimer_tick_def)

lemma restart:
  assumes inv: "SlotTimer_inv st" and due: "e \<in> set (SlotTimer_due st)" and stop: "SlotTimer_stop e st = Some st1"
  defines "st2 \<equiv> st1\<lparr>st_elements := (st_elements st1)(e := (st_elements st1 e)
      \<lparr>ste_expireTime := ste_expireTime (st_elements st1 e) + ste_interval (st_elements st1 e)\<rparr>)\<rparr>"
  shows "SlotTimer_inv (SlotTimer_internalStart e st2)"
    and "SlotTimer_now (SlotTimer_internalStart e st2) = SlotTimer_now st"
    and "SlotTimer_pending (SlotTimer_internalStart e st2) = SlotTimer_pending st"
proof -
  let ?h = "st_elements st"
  have e: "e \<in> SlotTimer_pending st" "ste_tick (?h e) \<le> SlotTimer_now st"
    using due due_exactly [OF inv] by auto
  note D = invD [OF inv]
  have st1: "SlotTimer_inv st1" "SlotTimer_pending st1 = SlotTimer_pending st - {e}"
    "SlotTimer_now st1 = SlotTimer_now st" "st_elements st1 = ?h(e := (?h e)\<lparr>ste_running := False\<rparr>)"
    "st_startTime st1 = st_startTime st" "span (st_arrays st1) = span (st_arrays st)"
    using stop_running [OF inv e(1)] stop span_frame by auto
  have inv2: "SlotTimer_inv st2"
    unfolding st2_def using st1 by (intro inv_elem_update) auto
  have e2: "e \<notin> SlotTimer_pending st2" "st_arrays st2 = st_arrays st1" "st_startTime st2 = st_startTime st"
    "ste_expireTime (st_elements st2 e) = ste_expireTime (?h e) + ste_interval (?h e)"
    "ste_interval (st_elements st2 e) = ste_interval (?h e)" "SlotTimer_now st2 = SlotTimer_now st"
    using st1 by (auto simp: st2_def SlotTimer_pending_def SlotTimer_now_def)
  have i: "ste_interval (?h e) div 10 + 1 < span (st_arrays st2)" using D(8) e st1 e2 by simp
  have "SlotTimer_tick (st_startTime st) (ste_expireTime (?h e) + ste_interval (?h e))
      \<le> ste_tick (?h e) + ste_interval (?h e) div 10 + 1"
    using tick_add D(8) e(1) by simp
  then have t: "SlotTimer_tick (st_startTime st) (ste_expireTime (?h e) + ste_interval (?h e)) < horizon (st_arrays st2)"
    using i e(2) e2 now_span [OF inv2] by simp
  note new = start_new [OF inv2 e2(1), unfolded e2(3-5), OF t i]
  show "SlotTimer_inv (SlotTimer_internalStart e st2)" by (rule new)
  show "SlotTimer_now (SlotTimer_internalStart e st2) = SlotTimer_now st" using new(3) e2 by simp
  show "SlotTimer_pending (SlotTimer_internalStart e st2) = SlotTimer_pending st"
    using new(2) st1(2) e(1) by (auto simp: st2_def SlotTimer_pending_def)
qed

text \<open>
  A callback may start and stop timers: what the wheel needs is that it returns and keeps the
  invariant and the tick.
\<close>

definition callback_ok :: "(ptr \<Rightarrow> SlotTimer \<Rightarrow> SlotTimer option) \<Rightarrow> bool" where
  "callback_ok callback \<longleftrightarrow> (\<forall>e st. SlotTimer_inv st \<longrightarrow>
     (\<exists>st'. callback e st = Some st' \<and> SlotTimer_inv st' \<and> SlotTimer_now st' = SlotTimer_now st))"

declare SlotTimer_run_loop.simps [simp del]

text \<open>One turn of the loop.\<close>

lemma run_loop_none:
  assumes "SlotTimer_inv st" "SlotTimer_due st = []"
  shows "\<exists>st'. SlotTimer_run_loop callback n st = Some st' \<and> SlotTimer_inv st'
    \<and> SlotTimer_now st' = SlotTimer_now st + 1 \<and> SlotTimer_pending st' = SlotTimer_pending st"
proof -
  obtain sa rest where "st_arrays st = sa # rest" using invD(2) [OF assms(1)] by (cases "st_arrays st") auto
  then show ?thesis
    using move_on [OF assms] assms(2)
    by (subst SlotTimer_run_loop.simps) (auto simp: SlotTimer_due_def SlotTimer_pending_def)
qed

lemma run_loop_due:
  assumes inv: "SlotTimer_inv st" and due: "SlotTimer_due st = e # xs"
  shows "SlotTimer_run_loop callback 0 st = Some st"
    and "\<exists>st1. SlotTimer_run_loop callback (Suc n) st = Option.bind (callback e st1) (SlotTimer_run_loop callback n)
      \<and> SlotTimer_inv st1 \<and> SlotTimer_now st1 = SlotTimer_now st
      \<and> SlotTimer_pending st1 =
          (if ste_interval (st_elements st e) = 0 then SlotTimer_pending st - {e} else SlotTimer_pending st)
      \<and> (ste_interval (st_elements st e) = 0 \<longrightarrow> SlotTimer_due st1 = xs
          \<and> (\<forall>x. ste_interval (st_elements st1 x) = ste_interval (st_elements st x)))"
proof -
  obtain sa rest where arrs: "st_arrays st = sa # rest" using invD(2) [OF inv] by (cases "st_arrays st") auto
  have slot: "slotList sa ! actSlot sa = e # xs" using due arrs by (simp add: SlotTimer_due_def)
  show "SlotTimer_run_loop callback 0 st = Some st"
    by (subst SlotTimer_run_loop.simps) (simp add: arrs slot)
  obtain sa' st1 where del: "slot_del (actSlot sa) e (st_elements st, sa) = Some (st_elements st1, sa')"
    and st1: "st\<lparr>st_elements := st_elements st1, st_arrays := sa' # rest\<rparr> = st1"
    and stop: "SlotTimer_stop e st = Some st1" and d1: "SlotTimer_due st1 = xs"
    using due_stop [OF inv due arrs] by metis
  have e: "e \<in> set (SlotTimer_due st)" "e \<in> SlotTimer_pending st" using due due_exactly [OF inv] by auto
  have s: "SlotTimer_inv st1" "SlotTimer_pending st1 = SlotTimer_pending st - {e}"
    "SlotTimer_now st1 = SlotTimer_now st" "\<And>x. ste_interval (st_elements st1 x) = ste_interval (st_elements st x)"
    using stop_running [OF inv e(2)] stop by auto
  define st2 where "st2 = (if ste_interval (st_elements st e) \<noteq> 0 then
     SlotTimer_internalStart e (st1\<lparr>st_elements := (st_elements st1)(e := (st_elements st1 e)
       \<lparr>ste_expireTime := ste_expireTime (st_elements st1 e) + ste_interval (st_elements st1 e)\<rparr>)\<rparr>) else st1)"
  have "SlotTimer_run_loop callback (Suc n) st = Option.bind (callback e st2) (SlotTimer_run_loop callback n)"
    unfolding st2_def
    by (subst SlotTimer_run_loop.simps) (simp only: arrs slot del list.case nat.case bind.bind_lunit case_prod_conv Let_def st1 s(4))
  then show "\<exists>st1. SlotTimer_run_loop callback (Suc n) st = Option.bind (callback e st1) (SlotTimer_run_loop callback n)
      \<and> SlotTimer_inv st1 \<and> SlotTimer_now st1 = SlotTimer_now st
      \<and> SlotTimer_pending st1 =
          (if ste_interval (st_elements st e) = 0 then SlotTimer_pending st - {e} else SlotTimer_pending st)
      \<and> (ste_interval (st_elements st e) = 0 \<longrightarrow> SlotTimer_due st1 = xs
          \<and> (\<forall>x. ste_interval (st_elements st1 x) = ste_interval (st_elements st x)))"
    using restart [OF inv e(1) stop] s d1 by (intro exI [of _ st2]) (simp add: st2_def)
qed

lemma run_loop_ok:
  assumes "SlotTimer_inv st" "callback_ok callback"
  shows "\<exists>st'. SlotTimer_run_loop callback n st = Some st' \<and> SlotTimer_inv st'
    \<and> (SlotTimer_now st' = SlotTimer_now st + 1 \<or> SlotTimer_now st' = SlotTimer_now st \<and> SlotTimer_due st' \<noteq> [])"
  using assms(1)
proof (induction n arbitrary: st)
  case 0
  then show ?case
    using run_loop_none [OF 0] run_loop_due(1) [OF 0] by (cases "SlotTimer_due st") force+
next
  case (Suc n)
  show ?case
  proof (cases "SlotTimer_due st")
    case Nil
    then show ?thesis using run_loop_none [OF Suc.prems] by metis
  next
    case (Cons e xs)
    obtain st1 where run: "SlotTimer_run_loop callback (Suc n) st = Option.bind (callback e st1) (SlotTimer_run_loop callback n)"
      and st1: "SlotTimer_inv st1" "SlotTimer_now st1 = SlotTimer_now st"
      using run_loop_due(2) [OF Suc.prems Cons] by metis
    obtain st2 where "callback e st1 = Some st2" "SlotTimer_inv st2" "SlotTimer_now st2 = SlotTimer_now st1"
      using assms(2) st1(1) by (auto simp: callback_ok_def)
    then show ?thesis using Suc.IH [of st2] run st1 by simp
  qed
qed

lemma run_loop_one_shot:
  assumes "SlotTimer_inv st" "length (SlotTimer_due st) \<le> n"
    and "\<forall>e\<in>set (SlotTimer_due st). ste_interval (st_elements st e) = 0"
  shows "\<exists>st'. SlotTimer_run_loop (\<lambda>e. Some) n st = Some st' \<and> SlotTimer_inv st'
    \<and> SlotTimer_now st' = SlotTimer_now st + 1
    \<and> SlotTimer_pending st' = SlotTimer_pending st - set (SlotTimer_due st)"
  using assms
proof (induction n arbitrary: st)
  case 0
  then show ?case using run_loop_none [of st] by fastforce
next
  case (Suc n)
  show ?case
  proof (cases "SlotTimer_due st")
    case Nil
    then show ?thesis using run_loop_none [OF Suc.prems(1)] by fastforce
  next
    case (Cons e xs)
    obtain st1 where run: "SlotTimer_run_loop (\<lambda>e. Some) (Suc n) st = SlotTimer_run_loop (\<lambda>e. Some) n st1"
      and st1: "SlotTimer_inv st1" "SlotTimer_now st1 = SlotTimer_now st" "SlotTimer_pending st1 = SlotTimer_pending st - {e}"
        "SlotTimer_due st1 = xs" "\<forall>x. ste_interval (st_elements st1 x) = ste_interval (st_elements st x)"
      using run_loop_due(2) [OF Suc.prems(1) Cons, of "\<lambda>e. Some" n] Suc.prems(3) Cons by auto
    have "length (SlotTimer_due st1) \<le> n" "\<forall>e\<in>set (SlotTimer_due st1). ste_interval (st_elements st1 e) = 0"
      using Suc.prems(2,3) Cons st1(4,5) by simp_all
    from Suc.IH [OF st1(1) this] obtain st' where
      "SlotTimer_run_loop (\<lambda>e. Some) n st1 = Some st'" "SlotTimer_inv st'" "SlotTimer_now st' = SlotTimer_now st1 + 1"
      "SlotTimer_pending st' = SlotTimer_pending st1 - set xs" using st1(4) by auto
    moreover have "SlotTimer_pending st1 - set xs = SlotTimer_pending st - set (SlotTimer_due st)"
      using st1(3) Cons by auto
    ultimately show ?thesis using run st1(2) by simp
  qed
qed

section \<open>Timers out of range\<close>

lemma level_end: "upper_ok tk lb step (sa # nx # rest) \<Longrightarrow> slot_begin sa + ticksPerArray sa \<le> horizon (sa # nx # rest)"
proof (induction rest arbitrary: sa nx lb step)
  case (Cons n2 rest)
  have "slot_begin nx + ticksPerArray nx \<le> horizon (nx # n2 # rest)" using Cons.IH [of "tickOffset sa + ticksPerArray sa" "ticksPerArray sa" nx n2] Cons.prems by simp
  moreover have "slot_begin nx = tickOffset sa + ticksPerArray sa" "ticksPerSlot nx = ticksPerArray sa"
    "level_wf nx" "level_wf sa" using Cons.prems by (auto simp: level_ok_def)
  moreover have "actSlot sa * ticksPerSlot sa \<le> ticksPerArray nx"
  proof -
    have "actSlot sa * ticksPerSlot sa \<le> ticksPerArray sa" using \<open>level_wf sa\<close> by (simp add: level_wf_def)
    also have "\<dots> \<le> ticksPerArray nx"
      using \<open>level_wf nx\<close> \<open>ticksPerSlot nx = ticksPerArray sa\<close> by (simp add: level_wf_def)
    finally show ?thesis .
  qed
  ultimately show ?case by (simp add: slot_begin_def)
qed simp

lemma insert_far:
  assumes "upper_ok tk lb step arrs" "2 \<le> length arrs" "horizon arrs \<le> ste_tick (h e)"
  shows "SlotArray_insert e (h, arrs) =
    (fst (slot_add 0 e (h, List.last arrs)), butlast arrs @ [snd (slot_add 0 e (h, List.last arrs))])"
  using assms
proof (induction arrs arbitrary: lb step)
  case (Cons sa arrs)
  then obtain nx rest where arrs: "arrs = nx # rest" by (cases arrs) auto
  have "slot_begin sa + ticksPerArray sa \<le> ste_tick (h e)" "level_wf sa"
    using level_end [of tk lb step sa nx rest] Cons.prems arrs by (auto simp: level_ok_def)
  note step = insert_next [where h = h and e = e, OF this, of nx rest]
  show ?case
  proof (cases rest)
    case Nil
    then show ?thesis using step arrs by (simp add: insert_last)
  next
    case (Cons n2 rest')
    then show ?thesis using step Cons.IH [of "tickOffset sa + ticksPerArray sa" "ticksPerArray sa"] Cons.prems arrs by simp
  qed
qed simp

lemma remove_far:
  "\<forall>sa\<in>set arrs. sa_id sa \<noteq> ste_handle (h e) div 256 \<Longrightarrow> SlotArray_remove e (h, [over]) = None \<Longrightarrow>
   SlotArray_remove e (h, arrs @ [over]) = None"
proof (induction arrs)
  case (Cons sa arrs)
  then show ?case by (cases "arrs @ [over]") auto
qed simp

lemma upper_last_empty:
  "upper_ok tk lb step arrs \<Longrightarrow> slotList (List.last arrs) \<noteq> [] \<and> (\<forall>xs\<in>set (slotList (List.last arrs)). xs = [])"
  by (induction tk lb step arrs rule: upper_ok.induct) auto

text \<open>In the last array \<^verbatim>\<open>remove\<close> unlinks the element twice.\<close>

lemma stop_far:
  assumes inv: "SlotTimer_inv st"
    and far: "horizon (st_arrays st) \<le> SlotTimer_tick (st_startTime st) (ste_expireTime (st_elements st e))"
  shows "SlotTimer_stop e (SlotTimer_internalStart e st) = None"
proof -
  note D = invD [OF inv]
  define h1 where "h1 = (st_elements st)(e := (st_elements st e)
    \<lparr>ste_tick := SlotTimer_tick (st_startTime st) (ste_expireTime (st_elements st e))\<rparr>)"
  from inv obtain sa nx n2 rest where arrs: "st_arrays st = sa # nx # n2 # rest"
    and wf: "level_wf sa"
    and up: "upper_ok (\<lambda>e. ste_tick (st_elements st e)) (tickOffset sa + ticksPerArray sa) (ticksPerArray sa) (nx # n2 # rest)"
    and sa: "ticksPerSlot sa = 1" by (rule inv_arrays)
  let ?up = "nx # n2 # rest"
  let ?over = "List.last ?up"
  have tick: "horizon ?up \<le> ste_tick (h1 e)" using far arrs by (simp add: h1_def)
  have "slot_begin nx + ticksPerArray nx \<le> horizon ?up" "slot_begin nx = tickOffset sa + ticksPerArray sa"
    "level_wf nx" "ticksPerSlot nx = ticksPerArray sa"
    using level_end [OF up] up by (auto simp: level_ok_def)
  moreover have "actSlot sa * ticksPerSlot sa \<le> ticksPerArray sa" "ticksPerArray sa \<le> ticksPerArray nx"
    using wf \<open>level_wf nx\<close> \<open>ticksPerSlot nx = ticksPerArray sa\<close> by (auto simp: level_wf_def)
  ultimately have "slot_begin sa + ticksPerArray sa \<le> ste_tick (h1 e)"
    using tick by (simp add: slot_begin_def)
  from insert_next [where h = h1 and e = e, OF this wf] insert_far [where h = h1 and e = e, OF up _ tick]
  have ins: "SlotArray_insert e (h1, st_arrays st) =
      (fst (slot_add 0 e (h1, ?over)), (sa # butlast ?up) @ [snd (slot_add 0 e (h1, ?over))])"
    using arrs by simp
  have e: "slotList ?over \<noteq> []" "slotList ?over ! 0 = []" using upper_last_empty [OF up] by (auto simp: hd_conv_nth [symmetric])
  have ids: "sa_id ` set (sa # butlast ?up) = {0..<length (st_arrays st) - 1}" "sa_id ?over = length (st_arrays st) - 1"
  proof -
    have "butlast [0..<n] = [0..<n - 1]" for n :: nat by (cases n) simp_all
    then have "butlast (map sa_id (st_arrays st)) = [0..<length (st_arrays st) - 1]" using D(6) by simp
    moreover have "butlast (map sa_id (st_arrays st)) = map sa_id (sa # butlast ?up)" by (simp add: arrs map_butlast)
    ultimately have "map sa_id (sa # butlast ?up) = [0..<length (st_arrays st) - 1]" by simp
    then show "sa_id ` set (sa # butlast ?up) = {0..<length (st_arrays st) - 1}"
      by (metis list.set_map set_upt)
    have "List.last [0..<n] = n - 1" if "0 < n" for n :: nat using that by (cases n) simp_all
    from this [of "length (st_arrays st)"]
    have "List.last (map sa_id (st_arrays st)) = length (st_arrays st) - 1" using D(2,6) by (simp add: arrs del: upt_Suc)
    then show "sa_id ?over = length (st_arrays st) - 1" using arrs by (auto simp: last_map split: if_splits)
  qed
  let ?h = "fst (slot_add 0 e (h1, ?over))" and ?o = "snd (slot_add 0 e (h1, ?over))"
  have "SlotArray_remove e (?h, [?o]) = None"
    using e by (simp add: slot_add_def slot_del_def)
  moreover have "\<forall>sb\<in>set (sa # butlast ?up). sa_id sb \<noteq> ste_handle (?h e) div 256"
  proof
    fix sb assume "sb \<in> set (sa # butlast ?up)"
    then have "sa_id sb \<in> {0..<length (st_arrays st) - 1}" using ids(1) by blast
    then show "sa_id sb \<noteq> ste_handle (?h e) div 256" using ids(2) by (simp add: slot_add_def)
  qed
  ultimately have "SlotArray_remove e (?h, (sa # butlast ?up) @ [?o]) = None" using remove_far by blast
  moreover have "ste_running (?h e)" by (simp add: slot_add_def)
  moreover have "SlotTimer_internalStart e st = st\<lparr>st_elements := ?h, st_arrays := (sa # butlast ?up) @ [?o]\<rparr>"
    using ins by (simp add: SlotTimer_internalStart_def Let_def h1_def)
  ultimately show ?thesis by (simp add: SlotTimer_stop_def)
qed

section \<open>Reachable states\<close>

text \<open>
  What a client may do: set the time of an element that is not running, start the loop before any timer
  is started, start an element within the range of the wheel, stop one, and let the loop run.
\<close>

inductive timer_reachable :: "SlotTimer \<Rightarrow> bool" where
  new: "timer_reachable SlotTimer_new"
| loop: "timer_reachable st \<Longrightarrow> SlotTimer_pending st = {} \<Longrightarrow> timer_reachable (SlotTimer_startSlotTimerLoop now st)"
| expire: "timer_reachable st \<Longrightarrow> \<not> ste_running (st_elements st e) \<Longrightarrow> timer_reachable
    (st\<lparr>st_elements := (st_elements st)(e := SlotTimerElement_expireTime t i (st_elements st e))\<rparr>)"
| start: "timer_reachable st \<Longrightarrow> \<not> ste_running (st_elements st e) \<Longrightarrow>
    SlotTimer_tick (st_startTime st) (ste_expireTime (st_elements st e)) < horizon (st_arrays st) \<Longrightarrow>
    ste_interval (st_elements st e) div 10 + 1 < span (st_arrays st) \<Longrightarrow>
    timer_reachable (SlotTimer_internalStart e st)"
| stop: "timer_reachable st \<Longrightarrow> SlotTimer_stop e st = Some st' \<Longrightarrow> timer_reachable st'"
| run: "timer_reachable st \<Longrightarrow> callback_ok callback \<Longrightarrow> SlotTimer_run callback st = Some st' \<Longrightarrow> timer_reachable st'"

inductive_cases timer_reachableE: "timer_reachable st"

definition fresh :: "nat \<Rightarrow> nat \<Rightarrow> nat \<Rightarrow> nat \<Rightarrow> SlotArray" where
  "fresh i offset n t = (SlotArray_new n t)\<lparr>sa_id := i, tickOffset := offset, ticksPerArray := n * t\<rparr>"

lemma fresh_simps [simp]:
  "sa_id (fresh i offset n t) = i" "numberSlots (fresh i offset n t) = n" "ticksPerSlot (fresh i offset n t) = t"
  "ticksPerArray (fresh i offset n t) = n * t" "tickOffset (fresh i offset n t) = offset"
  "actSlot (fresh i offset n t) = 0" "slot_begin (fresh i offset n t) = offset" "elems (fresh i offset n t) = []"
  "linked h (fresh i offset n t)" "sa_count (fresh i offset n t) = 0"
  by (auto simp: fresh_def SlotArray_new_def slot_begin_def elems_def linked_def)

lemma fresh_level [simp]:
  "0 < n \<Longrightarrow> n \<le> 256 \<Longrightarrow> 0 < t \<Longrightarrow> level_ok tk (fresh i offset n t)"
  "slotList (fresh i offset n t) \<noteq> []"
  "xs \<in> set (slotList (fresh i offset n t)) \<Longrightarrow> xs = []"
  by (auto simp: fresh_def SlotArray_new_def level_ok_def level_wf_def split: if_splits)

lemma new_arrays:
  "st_arrays SlotTimer_new = [fresh 0 0 255 1, fresh 1 255 64 255, fresh 2 16575 64 16320,
     fresh 3 1061055 64 1044480, fresh 4 67907775 64 0]"
  by (simp add: SlotTimer_new_def fresh_def) (simp add: SlotArray_new_def)

lemma wheel_inv_new: "SlotTimer_inv SlotTimer_new"
proof -
  have p: "pending (st_arrays SlotTimer_new) = []" by (simp add: new_arrays pending_Cons) (simp add: pending_def)
  have "\<not> ste_running (st_elements SlotTimer_new e)" for e by (simp add: SlotTimer_new_def)
  moreover have "[0..<5] = [0, 1, 2, 3, 4::nat]" by (simp add: upt_rec numeral_eq_Suc)
  ultimately show ?thesis
    unfolding SlotTimer_inv_def Let_def p by (simp add: new_arrays)
qed

lemma reachable_inv:
  assumes "timer_reachable st"
  shows "SlotTimer_inv st"
  using assms
proof induction
  case new
  show ?case by (rule wheel_inv_new)
next
  case (loop st now)
  then show ?case
    by (simp add: SlotTimer_inv_def SlotTimer_startSlotTimerLoop_def SlotTimer_pending_def Let_def)
next
  case (expire st e t i)
  then show ?case
    using invD(7) [of st e] by (intro inv_elem_update) (auto simp: SlotTimerElement_expireTime_def)
next
  case (start st e)
  then show ?case using invD(7) [of st e] by (intro start_new(1)) auto
next
  case (stop st e st')
  then show ?case
    using stop_running [of st e] invD(7) [of st e] by (cases "ste_running (st_elements st e)") (auto simp: SlotTimer_stop_def)
next
  case (run st callback st')
  then show ?case using run_loop_ok [of st callback "MAX_CALL_PER_LOOP - 1"] by (auto simp: SlotTimer_run_def)
qed

section \<open>Properties\<close>

text \<open>C1: in every state a client can bring the wheel to, the slot that is run next holds exactly the
  running timers whose tick, the time to their expiry in units of 10 ms, is not after the tick of the
  wheel: no timer is early and none is overdue elsewhere.\<close>

theorem timer_wheel_precision:
  assumes "timer_reachable st"
  shows "set (SlotTimer_due st) = {e. ste_running (st_elements st e) \<and>
    SlotTimer_tick (st_startTime st) (ste_expireTime (st_elements st e)) \<le> SlotTimer_now st}"
  using due_exactly [OF reachable_inv [OF assms]] invD(7,8) [OF reachable_inv [OF assms]] by auto



text \<open>stopping a running timer takes this timer out of the wheel and leaves every other one.\<close>

theorem timer_stop_exact:
  assumes "timer_reachable st"
  shows "\<exists>st'. SlotTimer_stop e st = Some st' \<and> \<not> ste_running (st_elements st' e)
    \<and> SlotTimer_now st' = SlotTimer_now st \<and> (\<forall>x. x \<noteq> e \<longrightarrow> st_elements st' x = st_elements st x)
    \<and> SlotTimer_pending st' = SlotTimer_pending st - {e}"
proof (cases "ste_running (st_elements st e)")
  case True
  then show ?thesis
    using stop_running [OF reachable_inv [OF assms], of e] invD(7) [OF reachable_inv [OF assms]] by auto
next
  case False
  then show ?thesis
    using invD(7) [OF reachable_inv [OF assms], of e] by (auto simp: SlotTimer_stop_def)
qed


section \<open>Witnesses\<close>

definition demo :: SlotTimer where
  "demo = SlotTimer_internalStart 7 (SlotTimer_new\<lparr>st_elements := (st_elements SlotTimer_new)
     (7 := SlotTimerElement_expireTime 5 0 (st_elements SlotTimer_new 7))\<rparr>)"

lemma new_horizon: "horizon (st_arrays SlotTimer_new) = 67907775" "span (st_arrays SlotTimer_new) = 66846720"
  by (simp_all add: new_arrays span_def)

lemma demo_reachable: "timer_reachable demo"
  unfolding demo_def
  by (rule timer_reachable.start [OF timer_reachable.expire [OF timer_reachable.new]])
     (simp_all add: new_horizon, simp_all add: SlotTimer_new_def SlotTimer_tick_def SlotTimerElement_expireTime_def)

lemma demo_state:
  "SlotTimer_due demo = [7]" "ste_running (st_elements demo e) \<longleftrightarrow> e = 7" "ste_interval (st_elements demo 7) = 0"
  "SlotTimer_now demo = 0"
proof -
  have h: "st_elements SlotTimer_new x = \<lparr>ste_expireTime = 0, ste_interval = 0, ste_tick = 0, ste_handle = 0, ste_running = False\<rparr>"
    "st_startTime SlotTimer_new = 0" for x
    by (simp_all add: SlotTimer_new_def)
  note defs = demo_def SlotTimer_internalStart_def SlotTimerElement_expireTime_def SlotTimer_tick_def Let_def
    SlotArray_insert.simps new_arrays slot_add_def h SlotTimer_due_def SlotTimer_now_def
  have s: "slotList (fresh 0 0 255 1) ! 0 = []" "0 < length (slotList (fresh 0 0 255 1))" by (simp_all add: fresh_def SlotArray_new_def)
  show "SlotTimer_due demo = [7]" using s by (simp add: defs)
  show "ste_running (st_elements demo e) \<longleftrightarrow> e = 7" by (simp add: defs)
  show "ste_interval (st_elements demo 7) = 0" "SlotTimer_now demo = 0" by (simp_all add: defs)
qed

theorem timer_wheel_precision_witness:
  "timer_reachable demo \<and> {7} = {e. ste_running (st_elements demo e) \<and>
    SlotTimer_tick (st_startTime demo) (ste_expireTime (st_elements demo e)) \<le> SlotTimer_now demo}"
  using timer_wheel_precision [OF demo_reachable] demo_reachable by (simp add: demo_state)



theorem timer_stop_exact_witness:
  "\<exists>st'. SlotTimer_stop 7 demo = Some st' \<and> \<not> ste_running (st_elements st' 7)"
  using timer_stop_exact [OF demo_reachable, of 7] by blast


end
