(* ===== verification/ComparatorMap.thy ===== *)
theory ComparatorMap
  imports NodeIds
begin

text \<open>
  \<^verbatim>\<open>std::map\<close> and \<^verbatim>\<open>std::multimap\<close> with a key type whose \<^verbatim>\<open>operator<\<close> is a strict weak order only on
  well-formed keys (node identifiers): an association list in the order of the comparison.  Keys that
  are equivalent under the comparison are the same key.  The laws are proved in the locale of the
  comparison, so that they hold for every map of the address space.
\<close>

type_synonym ('k, 'v) cmap = "('k \<times> 'v) list"

fun cmap_find :: "('k \<Rightarrow> 'k \<Rightarrow> bool) \<Rightarrow> 'k \<Rightarrow> ('k, 'v) cmap \<Rightarrow> 'v option" where
  "cmap_find lt k [] = None"
| "cmap_find lt k ((k', v) # m) =
     (if lt k' k then cmap_find lt k m else if lt k k' then None else Some v)"

fun cmap_insert :: "('k \<Rightarrow> 'k \<Rightarrow> bool) \<Rightarrow> 'k \<Rightarrow> 'v \<Rightarrow> ('k, 'v) cmap \<Rightarrow> bool \<times> ('k, 'v) cmap" where
  "cmap_insert lt k v [] = (True, [(k, v)])"
| "cmap_insert lt k v ((k', v') # m) =
     (if lt k' k then (let (b, m) = cmap_insert lt k v m in (b, (k', v') # m))
      else if lt k k' then (True, (k, v) # (k', v') # m)
      else (False, (k', v') # m))"

fun cmap_erase :: "('k \<Rightarrow> 'k \<Rightarrow> bool) \<Rightarrow> 'k \<Rightarrow> ('k, 'v) cmap \<Rightarrow> ('k, 'v) cmap" where
  "cmap_erase lt k [] = []"
| "cmap_erase lt k ((k', v') # m) =
     (if lt k' k then (k', v') # cmap_erase lt k m
      else if lt k k' then (k', v') # m
      else m)"

text \<open>A change through the reference a \<^verbatim>\<open>find\<close> returns.\<close>

fun cmap_modify :: "('k \<Rightarrow> 'k \<Rightarrow> bool) \<Rightarrow> 'k \<Rightarrow> ('v \<Rightarrow> 'v) \<Rightarrow> ('k, 'v) cmap \<Rightarrow> ('k, 'v) cmap" where
  "cmap_modify lt k f [] = []"
| "cmap_modify lt k f ((k', v') # m) =
     (if lt k' k then (k', v') # cmap_modify lt k f m
      else if lt k k' then (k', v') # m
      else (k', f v') # m)"

text \<open>\<^verbatim>\<open>operator[]\<close>: a missing key is entered with the default value.\<close>

definition cmap_index :: "('k \<Rightarrow> 'k \<Rightarrow> bool) \<Rightarrow> 'k \<Rightarrow> 'v \<Rightarrow> ('k, 'v) cmap \<Rightarrow> ('k, 'v) cmap" where
  "cmap_index lt k dflt m = snd (cmap_insert lt k dflt m)"

text \<open>A \<^verbatim>\<open>multimap\<close> enters a key behind the equivalent ones.\<close>

fun cmultimap_insert :: "('k \<Rightarrow> 'k \<Rightarrow> bool) \<Rightarrow> 'k \<Rightarrow> 'v \<Rightarrow> ('k, 'v) cmap \<Rightarrow> ('k, 'v) cmap" where
  "cmultimap_insert lt k v [] = [(k, v)]"
| "cmultimap_insert lt k v ((k', v') # m) =
     (if lt k k' then (k, v) # (k', v') # m else (k', v') # cmultimap_insert lt k v m)"

definition cmultimap_equal_range :: "('k \<Rightarrow> 'k \<Rightarrow> bool) \<Rightarrow> 'k \<Rightarrow> ('k, 'v) cmap \<Rightarrow> 'v list" where
  "cmultimap_equal_range lt k m = map snd (filter (\<lambda>e. \<not> lt (fst e) k \<and> \<not> lt k (fst e)) m)"

context strict_weak_order
begin

abbreviation eqv :: "'a \<Rightarrow> 'a \<Rightarrow> bool" where
  "eqv a b \<equiv> \<not> less a b \<and> \<not> less b a"

abbreviation cinv :: "('a \<times> 'v) list \<Rightarrow> bool" where
  "cinv m \<equiv> sorted_wrt less (map fst m) \<and> (\<forall>k \<in> set (map fst m). dom_ok k)"

lemma eqv_less:
  assumes "dom_ok a" "dom_ok b" "dom_ok c" "eqv a b"
  shows "less a c \<longleftrightarrow> less b c" and "less c a \<longleftrightarrow> less c b"
  using assms equivalent_less_left [of a b c] equivalent_less_left [of b a c]
  by (blast, metis incomparable_trans trans irrefl)

lemma find_cong:
  "cinv m \<Longrightarrow> dom_ok a \<Longrightarrow> dom_ok b \<Longrightarrow> eqv a b \<Longrightarrow> cmap_find less a m = cmap_find less b m"
proof (induction m)
  case (Cons e m)
  obtain k v where "e = (k, v)" by force
  then show ?case using Cons eqv_less [of a b k] by simp
qed simp

lemma find_below: "cinv m \<Longrightarrow> dom_ok k \<Longrightarrow> \<forall>k' \<in> set (map fst m). less k k' \<Longrightarrow> cmap_find less k m = None"
  using asym by (cases m) (auto split: if_splits)

lemma find_Some_iff:
  "cinv m \<Longrightarrow> dom_ok k \<Longrightarrow>
     cmap_find less k m = Some v \<longleftrightarrow> (\<exists>k'. eqv k' k \<and> (k', v) \<in> set m)"
proof (induction m)
  case (Cons e m)
  obtain k1 v1 where e [simp]: "e = (k1, v1)" by force
  have ok: "dom_ok k1" "\<And>k2 v2. (k2, v2) \<in> set m \<Longrightarrow> less k1 k2 \<and> dom_ok k2"
    using Cons.prems by force+
  have late: "less k k2" if "\<not> less k1 k" "(k2, v2) \<in> set m" for k2 v2
    using ok(2) [OF that(2)] ok(1) Cons.prems(2) that(1) eqv_less(1) [of k k1 k2] trans by blast
  show ?case
  proof (cases "less k1 k")
    case True
    then show ?thesis using Cons by auto
  next
    case False
    then show ?thesis using late ok by auto
  qed
qed simp

lemma fst_insert: "cinv m \<Longrightarrow> dom_ok k \<Longrightarrow> fst (cmap_insert less k v m) \<longleftrightarrow> cmap_find less k m = None"
  by (induction m) (auto simp: case_prod_beta Let_def split: if_splits)

lemma keys_insert: "set (snd (cmap_insert less k v m)) \<subseteq> insert (k, v) (set m)"
  by (induction m) (auto simp: case_prod_beta Let_def split: if_splits)

lemma inv_insert: "cinv m \<Longrightarrow> dom_ok k \<Longrightarrow> cinv (snd (cmap_insert less k v m))"
proof (induction m)
  case (Cons e m)
  obtain k1 v1 where e [simp]: "e = (k1, v1)" by force
  have c: "cinv (snd (cmap_insert less k v m))" using Cons by simp
  have s: "set (map fst (snd (cmap_insert less k v m))) \<subseteq> insert k (set (map fst m))"
    using keys_insert [of k v m] by force
  have t: "less k k2" if "less k k1" "k2 \<in> fst ` set m" for k2
    using that trans [of k k1 k2] Cons.prems by auto
  consider "less k1 k" | "\<not> less k1 k" "less k k1" | "eqv k1 k" by blast
  then show ?case
  proof cases
    case 1
    moreover have "less k1 k2" if "k2 \<in> set (map fst m)" for k2 using that Cons.prems by auto
    ultimately have "\<forall>k2 \<in> set (map fst (snd (cmap_insert less k v m))). less k1 k2"
      using s by blast
    then show ?thesis using 1 c Cons.prems by (simp add: case_prod_beta)
  next
    case 2
    then show ?thesis using t Cons.prems by simp
  next
    case 3
    then show ?thesis using Cons.prems by simp
  qed
qed simp

lemma find_insert:
  "cinv m \<Longrightarrow> dom_ok k \<Longrightarrow> dom_ok k' \<Longrightarrow>
     cmap_find less k (snd (cmap_insert less k' v m))
       = (if eqv k k' \<and> cmap_find less k' m = None then Some v else cmap_find less k m)"
proof (induction m)
  case (Cons e m)
  obtain k1 v1 where e [simp]: "e = (k1, v1)" by force
  have ok: "dom_ok k1" using Cons.prems by auto
  have IH: "cmap_find less k (snd (cmap_insert less k' v m))
       = (if eqv k k' \<and> cmap_find less k' m = None then Some v else cmap_find less k m)"
    using Cons by simp
  consider (behind) "less k1 k'" | (before) "\<not> less k1 k'" "less k' k1" | (same) "eqv k1 k'" by blast
  then show ?case
  proof cases
    case behind
    have "less k1 k" if "eqv k k'" using behind that eqv_less(2) [of k k' k1] ok Cons.prems(2,3) by blast
    then show ?thesis using behind IH by (auto simp: case_prod_beta)
  next
    case before
    have "less k k1" if "less k k'" using that before trans [of k k' k1] ok Cons.prems(2,3) by blast
    moreover have "less k k1" if "eqv k k'"
      using that before eqv_less(1) [of k k' k1] ok Cons.prems(2,3) by blast
    ultimately show ?thesis using before asym [of k k1] asym [of k k'] ok Cons.prems(2,3) by auto
  next
    case same
    then show ?thesis by auto
  qed
qed auto

lemma keys_erase: "set (cmap_erase less k m) \<subseteq> set m"
  by (induction m) (auto split: if_splits)

lemma inv_erase: "cinv m \<Longrightarrow> cinv (cmap_erase less k m)"
proof (induction m)
  case (Cons e m)
  then show ?case using keys_erase [of k m] by (cases e) auto
qed simp

lemma find_erase:
  "cinv m \<Longrightarrow> dom_ok k \<Longrightarrow> dom_ok k' \<Longrightarrow>
     cmap_find less k (cmap_erase less k' m) = (if eqv k k' then None else cmap_find less k m)"
proof (induction m)
  case (Cons e m)
  obtain k1 v1 where e [simp]: "e = (k1, v1)" by force
  have ok: "dom_ok k1" "\<And>k2. k2 \<in> fst ` set m \<Longrightarrow> less k1 k2 \<and> dom_ok k2" using Cons.prems by auto
  have IH: "cmap_find less k (cmap_erase less k' m) = (if eqv k k' then None else cmap_find less k m)"
    using Cons by simp
  consider (behind) "less k1 k'" | (before) "\<not> less k1 k'" "less k' k1" | (same) "eqv k1 k'" by blast
  then show ?case
  proof cases
    case behind
    have "less k1 k" if "eqv k k'" using behind that eqv_less(2) [of k k' k1] ok Cons.prems(2,3) by blast
    then show ?thesis using behind IH by auto
  next
    case before
    have "less k k1" if "eqv k k'" using that before ok Cons.prems(2,3) eqv_less(1) [of k k' k1] by blast
    then show ?thesis using before asym [of k k1] ok Cons.prems(2) by auto
  next
    case same
    have "less k k2" if "\<not> less k1 k" "k2 \<in> set (map fst m)" for k2
      using that ok(1) ok(2) [of k2] Cons.prems(2) trans [of k k1 k2] eqv_less(1) [of k k1 k2] by auto
    then have "cmap_find less k m = None" if "\<not> less k1 k"
      using that find_below [of m k] Cons.prems(1,2) by auto
    moreover have "eqv k k' \<longleftrightarrow> eqv k k1"
      using same eqv_less [of k1 k' k] ok Cons.prems(2,3) by blast
    ultimately show ?thesis using same by auto
  qed
qed simp

lemma keys_modify [simp]: "map fst (cmap_modify less k f m) = map fst m"
  by (induction m) auto

lemma find_modify:
  "cinv m \<Longrightarrow> dom_ok k \<Longrightarrow> dom_ok k' \<Longrightarrow>
     cmap_find less k (cmap_modify less k' f m)
       = (if eqv k k' then map_option f (cmap_find less k m) else cmap_find less k m)"
proof (induction m)
  case (Cons e m)
  obtain k1 v1 where e [simp]: "e = (k1, v1)" by force
  have ok: "dom_ok k1" using Cons.prems by auto
  have IH: "cmap_find less k (cmap_modify less k' f m)
       = (if eqv k k' then map_option f (cmap_find less k m) else cmap_find less k m)"
    using Cons by simp
  have same: "eqv k k' \<longleftrightarrow> eqv k k1" if "eqv k1 k'"
    using that eqv_less [of k1 k' k] ok Cons.prems(2,3) by blast
  have cong: "(less k k1 \<longleftrightarrow> less k' k1) \<and> (less k1 k \<longleftrightarrow> less k1 k')" if "eqv k k'"
    using that eqv_less [of k k' k1] ok Cons.prems(2,3) by blast
  consider (behind) "less k1 k'" | (before) "\<not> less k1 k'" "less k' k1" | (eqv) "eqv k1 k'" by blast
  then show ?case
  proof cases
    case behind
    then show ?thesis using IH cong by (cases "eqv k k'") auto
  next
    case before
    then show ?thesis using cong by (cases "eqv k k'") auto
  next
    case eqv
    then show ?thesis using same [OF eqv] by auto
  qed
qed simp

lemma set_modify:
  assumes "cinv m" and "e \<in> set (cmap_modify less k f m)" and "dom_ok k"
  shows "(e \<in> set m \<and> \<not> eqv (fst e) k) \<or> (\<exists>v. (fst e, v) \<in> set m \<and> eqv (fst e) k \<and> snd e = f v)"
  using assms
proof (induction m)
  case (Cons e1 m)
  obtain k1 v1 where e [simp]: "e1 = (k1, v1)" by force
  have ok: "dom_ok k1" "\<And>k2 v2. (k2, v2) \<in> set m \<Longrightarrow> less k1 k2 \<and> dom_ok k2"
    using Cons.prems by force+
  have late: "less k k2" if "\<not> less k1 k" "(k2, v2) \<in> set m" for k2 v2
    using ok(2) [OF that(2)] ok(1) Cons.prems(3) that(1) eqv_less(1) [of k k1 k2] trans by blast
  show ?case
  proof (cases "less k1 k")
    case True
    then show ?thesis using Cons by auto
  next
    case False
    obtain k2 v2 where e2: "e = (k2, v2)" by force
    have "e \<in> set m \<and> less k k2 \<or> (e = (k1, v1) \<and> less k k1) \<or> (e = (k1, f v1) \<and> eqv k1 k)"
      using Cons.prems(2) False late [of k2 v2] e2 by (auto split: if_splits)
    then show ?thesis using e2 False by auto
  qed
qed simp

lemma dom_ok_mem:
  assumes "cinv m" and "(k, v) \<in> set m"
  shows "dom_ok k"
proof -
  have "k \<in> set (map fst m)" using assms(2) image_iff by fastforce
  with assms(1) show ?thesis by blast
qed

lemma find_in_set: "cinv m \<Longrightarrow> (k, v) \<in> set m \<Longrightarrow> cmap_find less k m = Some v"
proof -
  assume c: "cinv m" and m: "(k, v) \<in> set m"
  then have k: "dom_ok k" by (rule dom_ok_mem)
  have "eqv k k \<and> (k, v) \<in> set m" using irrefl [OF k] m by simp
  then show ?thesis using find_Some_iff [OF c k, of v] by blast
qed

text \<open>Entering or replacing the value under a key: \<^verbatim>\<open>m[k]\<close> followed by an assignment.\<close>

lemma inv_index: "cinv m \<Longrightarrow> dom_ok k \<Longrightarrow> cinv (cmap_index less k d m)"
  unfolding cmap_index_def by (rule inv_insert)

lemma find_index:
  "cinv m \<Longrightarrow> dom_ok k \<Longrightarrow> dom_ok k' \<Longrightarrow>
     cmap_find less k (cmap_index less k' d m)
       = (if eqv k k' \<and> cmap_find less k' m = None then Some d else cmap_find less k m)"
  unfolding cmap_index_def by (rule find_insert)

lemma find_index_same:
  assumes "cinv m" "dom_ok k"
  shows "cmap_find less k (cmap_index less k d m) = Some (case cmap_find less k m of None \<Rightarrow> d | Some v \<Rightarrow> v)"
  unfolding find_index [OF assms(1,2,2)] using irrefl [OF assms(2)]
  by (cases "cmap_find less k m") simp_all

lemma inv_put: "cinv m \<Longrightarrow> dom_ok k \<Longrightarrow> cinv (cmap_modify less k f (cmap_index less k d m))"
  unfolding keys_modify by (rule inv_index)

lemma find_put:
  assumes "cinv m" "dom_ok k" "dom_ok k'"
  shows "cmap_find less k (cmap_modify less k' (\<lambda>_. v) (cmap_index less k' d m))
           = (if eqv k k' then Some v else cmap_find less k m)"
proof -
  have "cmap_find less k (cmap_index less k' d m) = cmap_find less k' (cmap_index less k' d m)" if "eqv k k'"
    using find_cong [OF inv_index [OF assms(1,3)] assms(2,3)] that by simp
  then show ?thesis
    unfolding find_modify [OF inv_index [OF assms(1,3)] assms(2,3)]
    using find_index_same [OF assms(1,3), of d] find_index [OF assms, of d]
    by (cases "less k k'"; cases "less k' k") simp_all
qed

lemma set_put:
  assumes "cinv m" and "dom_ok k" and "e \<in> set (cmap_modify less k (\<lambda>_. v) (cmap_index less k d m))"
  shows "(e \<in> set m \<and> \<not> eqv (fst e) k) \<or> (eqv (fst e) k \<and> dom_ok (fst e) \<and> snd e = v)"
proof -
  note c = inv_index [OF assms(1,2), of d]
  have "set (cmap_index less k d m) \<subseteq> insert (k, d) (set m)"
    using keys_insert [of k d m] by (simp add: cmap_index_def)
  moreover have "dom_ok (fst e)" if "(fst e, v') \<in> set (cmap_index less k d m)" for v'
    using c that by (rule dom_ok_mem)
  moreover have "e \<in> set m" if "e \<in> set (cmap_index less k d m)" "\<not> eqv (fst e) k"
    using calculation(1) that irrefl [OF assms(2)] by (metis fst_conv insert_iff subsetD)
  ultimately show ?thesis
    using set_modify [OF c assms(3,2)] by metis
qed

end

end
