(* ===== verification/Machine.thy ===== *)
theory Machine
  imports Prelude
begin

text \<open>
  Components driven from outside: a deterministic step function that takes a command and a state
  and may stop with \<^term>\<open>None\<close> (a null pointer dereference or an access outside an array), and
  sequences of commands.

  The locale \<open>machine\<close> is the contract of a state invariant: it holds of the initial state and every
  step that returns keeps it.  The locale \<open>total_machine\<close> adds that steps from states that satisfy the
  invariant always return.  Components interpret them on their own step function and read off that
  every reachable state is good and that no sequence of commands gets stuck.
\<close>

fun run_commands :: "('c \<Rightarrow> 's \<Rightarrow> 's option) \<Rightarrow> 'c list \<Rightarrow> 's \<Rightarrow> 's option" where
  "run_commands step [] s = Some s"
| "run_commands step (c # cs) s = do { s \<leftarrow> step c s; run_commands step cs s }"

lemma run_commands_append:
  "run_commands step (cs @ ds) s = do { s \<leftarrow> run_commands step cs s; run_commands step ds s }"
  by (induction cs arbitrary: s) (auto split: bind_splits)

inductive reach :: "('c \<Rightarrow> 's \<Rightarrow> 's option) \<Rightarrow> 's \<Rightarrow> 's \<Rightarrow> bool" for step s where
  reach_refl: "reach step s s"
| reach_step: "reach step s t \<Longrightarrow> step c t = Some u \<Longrightarrow> reach step s u"

lemma run_commands_reach: "run_commands step cs t = Some u \<Longrightarrow> reach step s t \<Longrightarrow> reach step s u"
  by (induction cs arbitrary: t) (auto split: bind_splits intro: reach_step)

lemma reach_run_commands: "reach step s t \<longleftrightarrow> (\<exists>cs. run_commands step cs s = Some t)"
proof
  assume "reach step s t"
  then show "\<exists>cs. run_commands step cs s = Some t"
  proof induction
    case reach_refl
    have "run_commands step [] s = Some s" by simp
    then show ?case by blast
  next
    case (reach_step t c u)
    then obtain cs where "run_commands step cs s = Some t" by blast
    with reach_step.hyps have "run_commands step (cs @ [c]) s = Some u"
      by (simp add: run_commands_append)
    then show ?case by blast
  qed
qed (auto intro: run_commands_reach reach_refl)

locale machine =
  fixes init :: "'s"
    and step :: "'c \<Rightarrow> 's \<Rightarrow> 's option"
    and invar :: "'s \<Rightarrow> bool"
  assumes invar_init: "invar init"
    and invar_step: "invar s \<Longrightarrow> step c s = Some t \<Longrightarrow> invar t"
begin

lemma invar_run: "invar s \<Longrightarrow> run_commands step cs s = Some t \<Longrightarrow> invar t"
  by (induction cs arbitrary: s) (auto split: bind_splits intro: invar_step)

lemma invar_reach: "reach step init s \<Longrightarrow> invar s"
  by (induction rule: reach.induct) (auto intro: invar_init invar_step)

lemma invar_run_init: "run_commands step cs init = Some t \<Longrightarrow> invar t"
  using invar_run invar_init by blast

end

locale total_machine = machine +
  assumes step_total: "invar s \<Longrightarrow> step c s \<noteq> None"
begin

lemma run_total: "invar s \<Longrightarrow> \<exists>t. run_commands step cs s = Some t \<and> invar t"
proof (induction cs arbitrary: s)
  case (Cons c cs)
  then obtain t where t: "step c s = Some t" using step_total [of s c] by auto
  then have "invar t" using Cons.prems invar_step by blast
  then show ?case using Cons.IH [of t] t by simp
qed simp

lemma never_stuck: "\<exists>t. run_commands step cs init = Some t \<and> invar t"
  using run_total invar_init by blast

end

end
