(* ===== verification/References.thy ===== *)
theory References
  imports ComparatorMap Machine
begin

text \<open>
  The references of a node (\<^verbatim>\<open>AddressSpaceModel/ReferenceItem.cpp\<close>, \<^verbatim>\<open>ReferenceItemMap.cpp\<close>,
  \<^verbatim>\<open>ReferenceType.cpp\<close>): a map from reference types to tables of items that are keyed by the node
  the reference points to, and the iterator that walks through all tables.

  The invariant \<open>refs_inv\<close> (sorted maps, no empty table, every item under its own type and target) is
  what makes the iterator's assertions hold.
\<close>

definition nodeId0 :: "u32 \<Rightarrow> OpcUaNodeIdBase" where
  "nodeId0 i = \<lparr>namespaceIndex = 0, nodeIdValue = NodeIdNumeric i\<rparr>"

datatype ReferenceType =
    ReferenceType_Unknown
  | ReferenceType_HasComponent
  | ReferenceType_HasProperty
  | ReferenceType_HasModellingRule
  | ReferenceType_HasTypeDefinition
  | ReferenceType_HasModelParent
  | ReferenceType_HasEventSource
  | ReferenceType_HasNotifier
  | ReferenceType_Organizes
  | ReferenceType_HasDescription
  | ReferenceType_HasEncoding
  | ReferenceType_HasSubtype
  | ReferenceType_GenerateEvents
  | ReferenceType_AlwaysGeneratesEvent
  | ReferenceType_HierarchicalReferences

fun ReferenceTypeMap_typeNodeId :: "ReferenceType \<Rightarrow> OpcUaNodeIdBase option" where
  "ReferenceTypeMap_typeNodeId ReferenceType_HasComponent = Some (nodeId0 47)"
| "ReferenceTypeMap_typeNodeId ReferenceType_HasProperty = Some (nodeId0 46)"
| "ReferenceTypeMap_typeNodeId ReferenceType_HasModellingRule = Some (nodeId0 37)"
| "ReferenceTypeMap_typeNodeId ReferenceType_HasTypeDefinition = Some (nodeId0 40)"
| "ReferenceTypeMap_typeNodeId ReferenceType_HasModelParent = Some (nodeId0 50)"
| "ReferenceTypeMap_typeNodeId ReferenceType_HasEventSource = Some (nodeId0 36)"
| "ReferenceTypeMap_typeNodeId ReferenceType_HasNotifier = Some (nodeId0 48)"
| "ReferenceTypeMap_typeNodeId ReferenceType_Organizes = Some (nodeId0 35)"
| "ReferenceTypeMap_typeNodeId ReferenceType_HasDescription = Some (nodeId0 39)"
| "ReferenceTypeMap_typeNodeId ReferenceType_HasEncoding = Some (nodeId0 38)"
| "ReferenceTypeMap_typeNodeId ReferenceType_HasSubtype = Some (nodeId0 45)"
| "ReferenceTypeMap_typeNodeId ReferenceType_GenerateEvents = Some (nodeId0 41)"
| "ReferenceTypeMap_typeNodeId ReferenceType_AlwaysGeneratesEvent = Some (nodeId0 3065)"
| "ReferenceTypeMap_typeNodeId ReferenceType_HierarchicalReferences = Some (nodeId0 33)"
| "ReferenceTypeMap_typeNodeId ReferenceType_Unknown = None"

definition ReferenceTypeMap_nodeIdToReferenceType :: "OpcUaNodeIdBase \<Rightarrow> ReferenceType" where
  "ReferenceTypeMap_nodeIdToReferenceType nodeId =
     (if namespaceIndex nodeId \<noteq> 0 then ReferenceType_Unknown
      else case nodeIdValue nodeId of
        NodeIdNumeric i \<Rightarrow>
          if i = 46 then ReferenceType_HasProperty
          else if i = 47 then ReferenceType_HasComponent
          else if i = 37 then ReferenceType_HasModellingRule
          else if i = 40 then ReferenceType_HasTypeDefinition
          else if i = 50 then ReferenceType_HasModelParent
          else if i = 36 then ReferenceType_HasEventSource
          else if i = 48 then ReferenceType_HasNotifier
          else if i = 35 then ReferenceType_Organizes
          else if i = 39 then ReferenceType_HasDescription
          else if i = 38 then ReferenceType_HasEncoding
          else if i = 45 then ReferenceType_HasSubtype
          else if i = 41 then ReferenceType_GenerateEvents
          else if i = 3065 then ReferenceType_AlwaysGeneratesEvent
          else if i = 33 then ReferenceType_HierarchicalReferences
          else ReferenceType_Unknown
      | _ \<Rightarrow> ReferenceType_Unknown)"

section \<open>Items and tables\<close>

record ReferenceItem =
  ri_typeId :: OpcUaNodeIdBase
  ri_isForward :: bool
  ri_nodeId :: OpcUaNodeIdBase

definition ReferenceItem_new :: ReferenceItem where
  "ReferenceItem_new =
     \<lparr>ri_typeId = OpcUaNodeIdBase_new, ri_isForward = False, ri_nodeId = OpcUaNodeIdBase_new\<rparr>"

definition ReferenceItem_copyTo :: "ReferenceItem \<Rightarrow> ReferenceItem \<Rightarrow> ReferenceItem" where
  "ReferenceItem_copyTo this other =
     other\<lparr>ri_typeId := OpcUaNodeIdBase_copyTo (ri_typeId this) (ri_typeId other),
           ri_nodeId := OpcUaNodeIdBase_copyTo (ri_nodeId this) (ri_nodeId other),
           ri_isForward := ri_isForward this\<rparr>"

definition ReferenceItem_equal :: "ReferenceItem \<Rightarrow> ReferenceItem \<Rightarrow> bool" where
  "ReferenceItem_equal a b \<longleftrightarrow>
     OpcUaNodeIdBase_equal (ri_typeId a) (ri_typeId b)
     \<and> OpcUaNodeIdBase_equal (ri_nodeId a) (ri_nodeId b)
     \<and> ri_isForward a = ri_isForward b"

type_synonym ReferenceItemTable = "(OpcUaNodeIdBase, ReferenceItem) cmap"
type_synonym ReferenceItemMap = "(OpcUaNodeIdBase, ReferenceItemTable) cmap"

abbreviation table_find :: "OpcUaNodeIdBase \<Rightarrow> (OpcUaNodeIdBase, 'v) cmap \<Rightarrow> 'v option" where
  "table_find \<equiv> cmap_find OpcUaNodeIdBase_less"

text \<open>Adding an item, as a pointer that may be null, under a type.\<close>

definition ReferenceItemMap_addItem ::
  "OpcUaNodeIdBase \<Rightarrow> ReferenceItem option \<Rightarrow> ReferenceItemMap \<Rightarrow> bool \<times> ReferenceItemMap" where
  "ReferenceItemMap_addItem typeId referenceItem m =
     (case referenceItem of
        None \<Rightarrow> (False, m)
      | Some ri \<Rightarrow>
          (let ri = ri\<lparr>ri_typeId := typeId\<rparr>;
               m = cmap_index OpcUaNodeIdBase_less typeId [] m;
               (b, table) = cmap_insert OpcUaNodeIdBase_less (ri_nodeId ri) ri (the (table_find typeId m))
           in (b, cmap_modify OpcUaNodeIdBase_less typeId (\<lambda>_. table) m)))"

definition ReferenceItemMap_add ::
  "OpcUaNodeIdBase \<Rightarrow> bool \<Rightarrow> OpcUaNodeIdBase \<Rightarrow> ReferenceItemMap \<Rightarrow> bool \<times> ReferenceItemMap" where
  "ReferenceItemMap_add typeId isForward nodeId m =
     ReferenceItemMap_addItem typeId
       (Some (ReferenceItem_new\<lparr>ri_isForward := isForward, ri_nodeId := nodeId\<rparr>)) m"

definition ReferenceItemMap_addType ::
  "ReferenceType \<Rightarrow> bool \<Rightarrow> OpcUaNodeIdBase \<Rightarrow> ReferenceItemMap \<Rightarrow> (bool \<times> ReferenceItemMap) option" where
  "ReferenceItemMap_addType t isForward nodeId m = do {
     typeId \<leftarrow> ReferenceTypeMap_typeNodeId t;
     Some (ReferenceItemMap_add typeId isForward nodeId m) }"

definition ReferenceItemMap_remove ::
  "OpcUaNodeIdBase \<Rightarrow> OpcUaNodeIdBase \<Rightarrow> ReferenceItemMap \<Rightarrow> bool \<times> ReferenceItemMap" where
  "ReferenceItemMap_remove typeId nodeId m =
     (let m = cmap_index OpcUaNodeIdBase_less typeId [] m;
          table = the (table_find typeId m);
          result = (table_find nodeId table \<noteq> None);
          table = cmap_erase OpcUaNodeIdBase_less nodeId table;
          m = cmap_modify OpcUaNodeIdBase_less typeId (\<lambda>_. table) m
      in (result, if table = [] then cmap_erase OpcUaNodeIdBase_less typeId m else m))"

definition ReferenceItemMap_equal_range :: "OpcUaNodeIdBase \<Rightarrow> ReferenceItemMap \<Rightarrow> ReferenceItem list" where
  "ReferenceItemMap_equal_range typeId m =
     (case table_find typeId m of None \<Rightarrow> [] | Some table \<Rightarrow> map snd table)"

definition ReferenceItemMap_size :: "ReferenceItemMap \<Rightarrow> nat" where
  "ReferenceItemMap_size m = foldl (\<lambda>accum e. accum + length (snd e)) 0 m"

section \<open>The iterator\<close>

text \<open>
  An iterator is what is left of the types, the current one first, and what is left of its table.
  Dereferencing checks the three assertions of the code; \<^term>\<open>None\<close> is a failed assertion.
\<close>

type_synonym ReferenceItemMap_iterator = "(OpcUaNodeIdBase \<times> ReferenceItemTable) list \<times> ReferenceItemTable"

definition ReferenceItemMap_begin :: "ReferenceItemMap \<Rightarrow> ReferenceItemMap_iterator" where
  "ReferenceItemMap_begin m = (m, case m of [] \<Rightarrow> [] | (_, table) # _ \<Rightarrow> table)"

definition iterator_deref :: "ReferenceItemMap_iterator \<Rightarrow> ReferenceItem option" where
  "iterator_deref it =
     (case it of
        ((typeId, _) # _, (_, ri) # _) \<Rightarrow>
          if OpcUaNodeIdBase_equal (ri_typeId ri) typeId then Some ri else None
      | _ \<Rightarrow> None)"

definition iterator_next :: "ReferenceItemMap_iterator \<Rightarrow> ReferenceItemMap_iterator" where
  "iterator_next it =
     (let (types, items) = it; items = tl items
      in if items = [] then
           (let types = tl types
            in (types, case types of [] \<Rightarrow> items | (_, table) # _ \<Rightarrow> table))
         else (types, items))"

text \<open>The loop \<^verbatim>\<open>for (referenceItem : referenceItemMap)\<close>: the items in the order of the walk.\<close>

function ReferenceItemMap_walk :: "ReferenceItemMap_iterator \<Rightarrow> ReferenceItem list option" where
  "ReferenceItemMap_walk it =
     (if fst it = [] then Some []
      else do {
        ri \<leftarrow> iterator_deref it;
        ris \<leftarrow> ReferenceItemMap_walk (iterator_next it);
        Some (ri # ris) })"
  by pat_completeness auto

termination
proof (relation "measures [\<lambda>it. length (fst it), \<lambda>it. length (snd it)]")
  fix it :: ReferenceItemMap_iterator and ri
  assume ne: "fst it \<noteq> []" and d: "iterator_deref it = Some ri"
  obtain types items where it: "it = (types, items)" by force
  then have "items \<noteq> []" using d by (auto simp: iterator_deref_def split: list.splits)
  then show "(iterator_next it, it) \<in> measures [\<lambda>it. length (fst it), \<lambda>it. length (snd it)]"
    using ne it by (auto simp: iterator_next_def Let_def)
qed simp

declare ReferenceItemMap_walk.simps [simp del]

definition ReferenceItemMap_items :: "ReferenceItemMap \<Rightarrow> ReferenceItem list option" where
  "ReferenceItemMap_items m = ReferenceItemMap_walk (ReferenceItemMap_begin m)"

fun ReferenceItemMap_copy_loop :: "ReferenceItem list \<Rightarrow> ReferenceItemMap \<Rightarrow> ReferenceItemMap" where
  "ReferenceItemMap_copy_loop [] m = m"
| "ReferenceItemMap_copy_loop (ri # ris) m =
     (let m = cmap_index OpcUaNodeIdBase_less (ri_typeId ri) [] m;
          table = snd (cmap_insert OpcUaNodeIdBase_less (ri_nodeId ri)
                    (ReferenceItem_copyTo ri ReferenceItem_new) (the (table_find (ri_typeId ri) m)))
      in ReferenceItemMap_copy_loop ris (cmap_modify OpcUaNodeIdBase_less (ri_typeId ri) (\<lambda>_. table) m))"

definition ReferenceItemMap_copyTo :: "ReferenceItemMap \<Rightarrow> ReferenceItemMap \<Rightarrow> ReferenceItemMap option" where
  "ReferenceItemMap_copyTo this other = do {
     ris \<leftarrow> ReferenceItemMap_items this;
     Some (ReferenceItemMap_copy_loop ris other) }"

section \<open>The invariant\<close>

abbreviation id_ok :: "OpcUaNodeIdBase \<Rightarrow> bool" where
  "id_ok n \<equiv> OpcUaNodeIdValue_wf (nodeIdValue n)"

definition ids_sorted :: "(OpcUaNodeIdBase, 'v) cmap \<Rightarrow> bool" where
  "ids_sorted m \<longleftrightarrow> nodeId_order.cinv m"

definition item_at :: "OpcUaNodeIdBase \<Rightarrow> OpcUaNodeIdBase \<times> ReferenceItem \<Rightarrow> bool" where
  "item_at typeId e \<longleftrightarrow> fst e = ri_nodeId (snd e) \<and> id_ok (ri_typeId (snd e))
     \<and> OpcUaNodeIdBase_equal (ri_typeId (snd e)) typeId"

definition table_inv :: "OpcUaNodeIdBase \<Rightarrow> ReferenceItemTable \<Rightarrow> bool" where
  "table_inv typeId t \<longleftrightarrow> ids_sorted t \<and> t \<noteq> [] \<and> (\<forall>e \<in> set t. item_at typeId e)"

definition refs_inv :: "ReferenceItemMap \<Rightarrow> bool" where
  "refs_inv m \<longleftrightarrow> ids_sorted m \<and> (\<forall>e \<in> set m. table_inv (fst e) (snd e))"

definition refs_find :: "OpcUaNodeIdBase \<Rightarrow> OpcUaNodeIdBase \<Rightarrow> ReferenceItemMap \<Rightarrow> ReferenceItem option" where
  "refs_find typeId nodeId m = do { t \<leftarrow> table_find typeId m; table_find nodeId t }"

text \<open>The laws of the maps, for the order of node identifiers.\<close>

lemma equal_eqv: "OpcUaNodeIdBase_equal a b \<longleftrightarrow> nodeId_order.eqv a b"
  by (auto simp: OpcUaNodeIdBase_equal_def)

lemma equal_refl [simp]: "id_ok a \<Longrightarrow> OpcUaNodeIdBase_equal a a"
  using nodeId_order.irrefl [of a] by (simp add: equal_eqv)

lemma equal_sym: "OpcUaNodeIdBase_equal a b \<longleftrightarrow> OpcUaNodeIdBase_equal b a"
  by (auto simp: OpcUaNodeIdBase_equal_def)

lemma equal_trans:
  "id_ok a \<Longrightarrow> id_ok b \<Longrightarrow> id_ok c \<Longrightarrow> OpcUaNodeIdBase_equal a b \<Longrightarrow> OpcUaNodeIdBase_equal b c
     \<Longrightarrow> OpcUaNodeIdBase_equal a c"
  unfolding equal_eqv using nodeId_order.incomparable_trans [of a b c] by blast

lemma ids_sorted_Nil [simp]: "ids_sorted []"
  by (simp add: ids_sorted_def)

lemma ids_sorted_insert: "ids_sorted m \<Longrightarrow> id_ok k \<Longrightarrow> ids_sorted (snd (cmap_insert OpcUaNodeIdBase_less k v m))"
  unfolding ids_sorted_def by (rule nodeId_order.inv_insert)

lemma ids_sorted_erase: "ids_sorted m \<Longrightarrow> ids_sorted (cmap_erase OpcUaNodeIdBase_less k m)"
  unfolding ids_sorted_def by (rule nodeId_order.inv_erase)

lemma ids_sorted_index: "ids_sorted m \<Longrightarrow> id_ok k \<Longrightarrow> ids_sorted (cmap_index OpcUaNodeIdBase_less k v m)"
  unfolding ids_sorted_def by (rule nodeId_order.inv_index)

lemma ids_sorted_modify: "ids_sorted m \<Longrightarrow> ids_sorted (cmap_modify OpcUaNodeIdBase_less k f m)"
  unfolding ids_sorted_def nodeId_order.keys_modify .

lemma table_find_insert:
  "ids_sorted m \<Longrightarrow> id_ok k \<Longrightarrow> id_ok k' \<Longrightarrow>
     table_find k (snd (cmap_insert OpcUaNodeIdBase_less k' v m))
       = (if OpcUaNodeIdBase_equal k k' \<and> table_find k' m = None then Some v else table_find k m)"
  unfolding ids_sorted_def equal_eqv by (rule nodeId_order.find_insert)

lemma table_find_erase:
  "ids_sorted m \<Longrightarrow> id_ok k \<Longrightarrow> id_ok k' \<Longrightarrow>
     table_find k (cmap_erase OpcUaNodeIdBase_less k' m)
       = (if OpcUaNodeIdBase_equal k k' then None else table_find k m)"
  unfolding ids_sorted_def equal_eqv by (rule nodeId_order.find_erase)

lemma table_find_modify:
  "ids_sorted m \<Longrightarrow> id_ok k \<Longrightarrow> id_ok k' \<Longrightarrow>
     table_find k (cmap_modify OpcUaNodeIdBase_less k' f m)
       = (if OpcUaNodeIdBase_equal k k' then map_option f (table_find k m) else table_find k m)"
  unfolding ids_sorted_def equal_eqv by (rule nodeId_order.find_modify)

lemma table_find_index_same:
  "ids_sorted m \<Longrightarrow> id_ok k \<Longrightarrow>
     table_find k (cmap_index OpcUaNodeIdBase_less k d m)
       = Some (case table_find k m of None \<Rightarrow> d | Some v \<Rightarrow> v)"
  unfolding ids_sorted_def by (rule nodeId_order.find_index_same)

lemma table_find_put:
  "ids_sorted m \<Longrightarrow> id_ok k \<Longrightarrow> id_ok k' \<Longrightarrow>
     table_find k (cmap_modify OpcUaNodeIdBase_less k' (\<lambda>_. v) (cmap_index OpcUaNodeIdBase_less k' d m))
       = (if OpcUaNodeIdBase_equal k k' then Some v else table_find k m)"
  unfolding ids_sorted_def equal_eqv by (rule nodeId_order.find_put)

lemma table_set_put:
  assumes "ids_sorted m" and "id_ok k"
    and "e \<in> set (cmap_modify OpcUaNodeIdBase_less k (\<lambda>_. v) (cmap_index OpcUaNodeIdBase_less k d m))"
  shows "(e \<in> set m \<and> \<not> OpcUaNodeIdBase_equal (fst e) k)
     \<or> (OpcUaNodeIdBase_equal (fst e) k \<and> id_ok (fst e) \<and> snd e = v)"
  using nodeId_order.set_put [OF assms [unfolded ids_sorted_def]] unfolding equal_eqv .

lemma table_find_Some:
  "ids_sorted m \<Longrightarrow> id_ok k \<Longrightarrow>
     table_find k m = Some v \<longleftrightarrow> (\<exists>k'. OpcUaNodeIdBase_equal k' k \<and> (k', v) \<in> set m)"
  unfolding ids_sorted_def equal_eqv by (rule nodeId_order.find_Some_iff)

lemma table_find_mem: "ids_sorted m \<Longrightarrow> (k, v) \<in> set m \<Longrightarrow> table_find k m = Some v"
  unfolding ids_sorted_def by (rule nodeId_order.find_in_set)

lemma table_find_cong:
  "ids_sorted m \<Longrightarrow> id_ok a \<Longrightarrow> id_ok b \<Longrightarrow> OpcUaNodeIdBase_equal a b \<Longrightarrow> table_find a m = table_find b m"
  unfolding ids_sorted_def equal_eqv by (rule nodeId_order.find_cong) auto

lemma ids_sorted_ok: "ids_sorted m \<Longrightarrow> (k, v) \<in> set m \<Longrightarrow> id_ok k"
  unfolding ids_sorted_def by (rule nodeId_order.dom_ok_mem)

lemma table_find_inv:
  assumes "refs_inv m" "id_ok typeId" "table_find typeId m = Some t"
  shows "table_inv typeId t"
proof -
  obtain k where k: "OpcUaNodeIdBase_equal k typeId" "(k, t) \<in> set m"
    using assms table_find_Some [of m typeId t] by (auto simp: refs_inv_def)
  have ok: "id_ok k" using assms(1) k(2) ids_sorted_ok by (auto simp: refs_inv_def)
  have "table_inv k t" using assms(1) k(2) by (force simp: refs_inv_def)
  then show ?thesis
    using equal_trans [OF _ ok assms(2) _ k(1)] by (auto simp: table_inv_def item_at_def)
qed

lemma table_inv_cong:
  "id_ok a \<Longrightarrow> id_ok b \<Longrightarrow> OpcUaNodeIdBase_equal a b \<Longrightarrow> table_inv a t \<Longrightarrow> table_inv b t"
  using equal_trans [of _ a b] by (auto simp: table_inv_def item_at_def)

lemma refs_inv_put:
  assumes "refs_inv m" "id_ok typeId" "table_inv typeId t"
  shows "refs_inv (cmap_modify OpcUaNodeIdBase_less typeId (\<lambda>_. t) (cmap_index OpcUaNodeIdBase_less typeId d m))"
    (is "refs_inv ?m")
  unfolding refs_inv_def
proof
  show "ids_sorted ?m"
    using assms by (simp add: refs_inv_def ids_sorted_modify ids_sorted_index)
  show "\<forall>e \<in> set ?m. table_inv (fst e) (snd e)"
  proof
    fix e assume "e \<in> set ?m"
    from table_set_put [OF _ assms(2) this] assms(1)
    consider "e \<in> set m" | "OpcUaNodeIdBase_equal (fst e) typeId" "id_ok (fst e)" "snd e = t"
      by (auto simp: refs_inv_def)
    then show "table_inv (fst e) (snd e)"
      using assms table_inv_cong [of typeId "fst e" t] equal_sym by cases (auto simp: refs_inv_def)
  qed
qed

section \<open>Adding and removing\<close>

lemma old_table:
  assumes "refs_inv m" "id_ok typeId"
  defines "t \<equiv> the (table_find typeId (cmap_index OpcUaNodeIdBase_less typeId [] m))"
  shows "ids_sorted t" and "\<forall>e \<in> set t. item_at typeId e"
    and "t = (case table_find typeId m of None \<Rightarrow> [] | Some t \<Rightarrow> t)"
proof -
  show t: "t = (case table_find typeId m of None \<Rightarrow> [] | Some t \<Rightarrow> t)"
    using assms by (simp add: table_find_index_same refs_inv_def)
  show "ids_sorted t" "\<forall>e \<in> set t. item_at typeId e"
    using t table_find_inv [OF assms(1,2)] by (auto simp: table_inv_def split: option.splits)
qed

lemma refs_add:
  fixes f :: bool
  assumes m: "refs_inv m" and ok: "id_ok typeId" "id_ok nodeId"
  defines "m' \<equiv> snd (ReferenceItemMap_add typeId f nodeId m)"
    and "ri \<equiv> \<lparr>ri_typeId = typeId, ri_isForward = f, ri_nodeId = nodeId\<rparr>"
  shows "refs_inv m'"
    and "id_ok ty \<Longrightarrow> id_ok n \<Longrightarrow> refs_find ty n m' =
       (if OpcUaNodeIdBase_equal ty typeId \<and> OpcUaNodeIdBase_equal n nodeId \<and> refs_find typeId nodeId m = None
        then Some ri else refs_find ty n m)"
    and "fst (ReferenceItemMap_add typeId f nodeId m) \<longleftrightarrow> refs_find typeId nodeId m = None"
proof -
  let ?i = "cmap_index OpcUaNodeIdBase_less typeId [] m"
  let ?t = "the (table_find typeId ?i)"
  let ?u = "snd (cmap_insert OpcUaNodeIdBase_less nodeId ri ?t)"
  have add: "ReferenceItemMap_add typeId f nodeId m =
      (fst (cmap_insert OpcUaNodeIdBase_less nodeId ri ?t), cmap_modify OpcUaNodeIdBase_less typeId (\<lambda>_. ?u) ?i)"
    by (simp add: ReferenceItemMap_add_def ReferenceItemMap_addItem_def ri_def ReferenceItem_new_def
        case_prod_beta Let_def)
  then have m': "m' = cmap_modify OpcUaNodeIdBase_less typeId (\<lambda>_. ?u) ?i" by (simp add: m'_def)
  note t = old_table [OF m ok(1)]
  have sub: "set ?u \<subseteq> insert (nodeId, ri) (set ?t)" by (rule nodeId_order.keys_insert)
  have "item_at typeId (nodeId, ri)" using ok by (simp add: item_at_def ri_def)
  then have items: "\<forall>e \<in> set ?u. item_at typeId e" using sub t(2) by blast
  have "?u \<noteq> []" by (cases ?t) (auto simp: case_prod_beta Let_def split: if_splits)
  then have "table_inv typeId ?u"
    using items ids_sorted_insert [OF t(1) ok(2)] by (simp add: table_inv_def)
  then show "refs_inv m'" unfolding m' by (rule refs_inv_put [OF m ok(1)])
  have ft: "table_find nodeId' ?t = refs_find typeId nodeId' m" for nodeId'
    unfolding t(3) by (simp add: refs_find_def split: option.splits)
  show "fst (ReferenceItemMap_add typeId f nodeId m) \<longleftrightarrow> refs_find typeId nodeId m = None"
    unfolding add ft [symmetric] using nodeId_order.fst_insert [OF t(1) [unfolded ids_sorted_def] ok(2)] by simp
  assume n: "id_ok ty" "id_ok n"
  have sorted: "ids_sorted m" using m by (simp add: refs_inv_def)
  have cong: "refs_find ty n m = refs_find typeId n m" if "OpcUaNodeIdBase_equal ty typeId"
    using table_find_cong [OF sorted n(1) ok(1) that] by (simp add: refs_find_def)
  show "refs_find ty n m' =
       (if OpcUaNodeIdBase_equal ty typeId \<and> OpcUaNodeIdBase_equal n nodeId \<and> refs_find typeId nodeId m = None
        then Some ri else refs_find ty n m)"
    using cong ft table_find_insert [OF t(1) n(2) ok(2), of ri] table_find_put [OF sorted n(1) ok(1), of ?u "[]"]
    unfolding refs_find_def [of ty n m'] m' by (cases "OpcUaNodeIdBase_equal ty typeId") (auto simp: refs_find_def)
qed

lemma refs_remove:
  assumes m: "refs_inv m" and ok: "id_ok typeId" "id_ok nodeId"
  defines "m' \<equiv> snd (ReferenceItemMap_remove typeId nodeId m)"
  shows "refs_inv m'"
    and "id_ok ty \<Longrightarrow> id_ok n \<Longrightarrow> refs_find ty n m' =
       (if OpcUaNodeIdBase_equal ty typeId \<and> OpcUaNodeIdBase_equal n nodeId then None else refs_find ty n m)"
    and "fst (ReferenceItemMap_remove typeId nodeId m) \<longleftrightarrow> refs_find typeId nodeId m \<noteq> None"
proof -
  let ?i = "cmap_index OpcUaNodeIdBase_less typeId [] m"
  let ?t = "the (table_find typeId ?i)"
  let ?u = "cmap_erase OpcUaNodeIdBase_less nodeId ?t"
  let ?p = "cmap_modify OpcUaNodeIdBase_less typeId (\<lambda>_. ?u) ?i"
  note t = old_table [OF m ok(1)]
  have sorted: "ids_sorted m" using m by (simp add: refs_inv_def)
  have psorted: "ids_sorted ?p" using sorted ok by (simp add: ids_sorted_modify ids_sorted_index)
  have m': "m' = (if ?u = [] then cmap_erase OpcUaNodeIdBase_less typeId ?p else ?p)"
    by (simp add: m'_def ReferenceItemMap_remove_def Let_def)
  have ft: "table_find nodeId' ?t = refs_find typeId nodeId' m" for nodeId'
    unfolding t(3) by (simp add: refs_find_def split: option.splits)
  show "fst (ReferenceItemMap_remove typeId nodeId m) \<longleftrightarrow> refs_find typeId nodeId m \<noteq> None"
    using ft by (simp add: ReferenceItemMap_remove_def Let_def)
  have find_u: "table_find n ?u = (if OpcUaNodeIdBase_equal n nodeId then None else refs_find typeId n m)"
    if "id_ok n" for n
    using table_find_erase [OF t(1) that ok(2)] ft by simp
  have find_p: "table_find ty ?p = (if OpcUaNodeIdBase_equal ty typeId then Some ?u else table_find ty m)"
    if "id_ok ty" for ty
    by (rule table_find_put [OF sorted that ok(1)])
  show "refs_inv m'"
  proof (cases "?u = []")
    case False
    moreover have "set ?u \<subseteq> set ?t" by (rule nodeId_order.keys_erase)
    ultimately have "table_inv typeId ?u"
      using t(2) ids_sorted_erase [OF t(1)] by (auto simp: table_inv_def)
    then show ?thesis using False m' refs_inv_put [OF m ok(1)] by simp
  next
    case True
    let ?e = "cmap_erase OpcUaNodeIdBase_less typeId ?p"
    have "table_inv (fst e) (snd e)" if e: "e \<in> set ?e" for e
    proof -
      have esorted: "ids_sorted ?e" by (rule ids_sorted_erase [OF psorted])
      have oke: "id_ok (fst e)" using ids_sorted_ok [OF esorted, of "fst e" "snd e"] e by simp
      have "table_find (fst e) ?e = Some (snd e)" using table_find_mem [OF esorted, of "fst e" "snd e"] e by simp
      then have "\<not> OpcUaNodeIdBase_equal (fst e) typeId"
        using table_find_erase [OF psorted oke ok(1)] by auto
      moreover have "e \<in> set ?p" using e nodeId_order.keys_erase by blast
      ultimately have "e \<in> set m" using table_set_put [OF sorted ok(1)] by blast
      then show ?thesis using m by (auto simp: refs_inv_def)
    qed
    then show ?thesis using True m' ids_sorted_erase [OF psorted] by (simp add: refs_inv_def)
  qed
  assume n: "id_ok ty" "id_ok n"
  have cong: "refs_find ty n m = refs_find typeId n m" if "OpcUaNodeIdBase_equal ty typeId"
    using table_find_cong [OF sorted n(1) ok(1) that] by (simp add: refs_find_def)
  show "refs_find ty n m' =
       (if OpcUaNodeIdBase_equal ty typeId \<and> OpcUaNodeIdBase_equal n nodeId then None else refs_find ty n m)"
  proof (cases "?u = []")
    case False
    then show ?thesis
      using cong find_u [OF n(2)] find_p [OF n(1)] unfolding m'
      by (cases "OpcUaNodeIdBase_equal ty typeId") (auto simp: refs_find_def)
  next
    case True
    then have "(if OpcUaNodeIdBase_equal n nodeId then None else refs_find typeId n m) = None"
      using find_u [OF n(2)] by simp
    then show ?thesis
      using True cong table_find_erase [OF psorted n(1) ok(1)] find_p [OF n(1)] unfolding m'
      by (cases "OpcUaNodeIdBase_equal ty typeId") (auto simp: refs_find_def split: if_splits)
  qed
qed

section \<open>The walk\<close>

definition refs_items :: "ReferenceItemMap \<Rightarrow> ReferenceItem list" where
  "refs_items m = concat (map (\<lambda>e. map snd (snd e)) m)"

lemma walk_end: "ReferenceItemMap_walk ([], items) = Some []"
  by (subst ReferenceItemMap_walk.simps) simp

lemma walk_items:
  assumes "fst it \<noteq> []" and "snd it \<noteq> []" and "\<forall>e \<in> set (snd it). item_at (fst (hd (fst it))) e"
    and "\<forall>e \<in> set (tl (fst it)). table_inv (fst e) (snd e)"
  shows "ReferenceItemMap_walk it = Some (map snd (snd it) @ refs_items (tl (fst it)))"
  using assms
proof (induction it rule: ReferenceItemMap_walk.induct)
  case (1 it)
  obtain typeId t types k ri items where it: "it = ((typeId, t) # types, (k, ri) # items)"
    using "1.prems"(1,2) by (cases it; cases "fst it"; cases "snd it") auto
  have deref: "iterator_deref it = Some ri"
    using "1.prems"(3) it by (simp add: iterator_deref_def item_at_def)
  note IH = "1.IH" [OF "1.prems"(1) deref]
  show ?case
  proof (cases "items = []")
    case False
    then have next_it: "iterator_next it = ((typeId, t) # types, items)"
      using it by (simp add: iterator_next_def)
    show ?thesis
      unfolding ReferenceItemMap_walk.simps [of it] deref using IH "1.prems" False it next_it by simp
  next
    case True
    show ?thesis
    proof (cases types)
      case Nil
      then have next_it: "iterator_next it = ([], [])" using it True by (simp add: iterator_next_def)
      show ?thesis
        unfolding ReferenceItemMap_walk.simps [of it] deref using it True Nil next_it by (simp add: refs_items_def walk_end)
    next
      case (Cons e types')
      obtain ty u where e: "e = (ty, u)" by force
      have next_it: "iterator_next it = (types, u)" using it True Cons e by (simp add: iterator_next_def)
      have u: "table_inv ty u" using "1.prems"(4) it Cons e by simp
      then have "ReferenceItemMap_walk (iterator_next it) = Some (map snd u @ refs_items types')"
        using IH next_it Cons e "1.prems"(4) it by (auto simp: table_inv_def)
      then show ?thesis
        unfolding ReferenceItemMap_walk.simps [of it] deref using it True Cons e by (simp add: refs_items_def)
    qed
  qed
qed

lemma items_of_refs:
  assumes "refs_inv m"
  shows "ReferenceItemMap_items m = Some (refs_items m)"
proof (cases m)
  case Nil
  then show ?thesis
    by (simp add: ReferenceItemMap_items_def ReferenceItemMap_begin_def refs_items_def walk_end)
next
  case (Cons e m')
  obtain ty u where e: "e = (ty, u)" by force
  have "table_inv ty u" "\<forall>e \<in> set m'. table_inv (fst e) (snd e)"
    using assms Cons e by (auto simp: refs_inv_def)
  then show ?thesis
    using walk_items [of "(m, u)"] Cons e
    by (simp add: ReferenceItemMap_items_def ReferenceItemMap_begin_def table_inv_def refs_items_def)
qed

lemma refs_items_find:
  assumes m: "refs_inv m"
  shows "ri \<in> set (refs_items m) \<longleftrightarrow>
     id_ok (ri_typeId ri) \<and> id_ok (ri_nodeId ri) \<and> refs_find (ri_typeId ri) (ri_nodeId ri) m = Some ri"
proof
  assume "ri \<in> set (refs_items m)"
  then obtain ty t k where t: "(ty, t) \<in> set m" "(k, ri) \<in> set t" by (force simp: refs_items_def)
  have inv: "table_inv ty t" using m t(1) by (force simp: refs_inv_def)
  have at: "item_at ty (k, ri)" using inv t(2) by (simp add: table_inv_def)
  have sorted: "ids_sorted m" "ids_sorted t" using m inv by (simp_all add: refs_inv_def table_inv_def)
  have ok: "id_ok ty" "id_ok (ri_nodeId ri)" "id_ok (ri_typeId ri)"
    using ids_sorted_ok [OF sorted(1) t(1)] ids_sorted_ok [OF sorted(2) t(2)] at by (auto simp: item_at_def)
  have "table_find (ri_typeId ri) m = Some t"
    using table_find_mem [OF sorted(1) t(1)] table_find_cong [OF sorted(1) ok(3,1)] at by (simp add: item_at_def)
  moreover have "table_find (ri_nodeId ri) t = Some ri"
    using table_find_mem [OF sorted(2) t(2)] at by (simp add: item_at_def)
  ultimately show "id_ok (ri_typeId ri) \<and> id_ok (ri_nodeId ri) \<and> refs_find (ri_typeId ri) (ri_nodeId ri) m = Some ri"
    using ok by (simp add: refs_find_def)
next
  assume a: "id_ok (ri_typeId ri) \<and> id_ok (ri_nodeId ri) \<and> refs_find (ri_typeId ri) (ri_nodeId ri) m = Some ri"
  then obtain t where t: "table_find (ri_typeId ri) m = Some t" "table_find (ri_nodeId ri) t = Some ri"
    by (auto simp: refs_find_def split: bind_splits)
  have "ids_sorted m" "ids_sorted t"
    using m table_find_inv [OF m _ t(1)] a by (simp_all add: refs_inv_def table_inv_def)
  then obtain k k' where "(k, t) \<in> set m" "(k', ri) \<in> set t"
    using t a table_find_Some by meson
  then show "ri \<in> set (refs_items m)" by (force simp: refs_items_def)
qed

lemma refs_find_item:
  assumes m: "refs_inv m" and ok: "id_ok ty" "id_ok k" and f: "refs_find ty k m = Some ri"
  shows "OpcUaNodeIdBase_equal (ri_typeId ri) ty" and "OpcUaNodeIdBase_equal (ri_nodeId ri) k"
    and "id_ok (ri_typeId ri)" and "id_ok (ri_nodeId ri)" and "ri \<in> set (refs_items m)"
proof -
  obtain t where t: "table_find ty m = Some t" "table_find k t = Some ri"
    using f by (auto simp: refs_find_def split: bind_splits)
  have sorted: "ids_sorted m" using m by (simp add: refs_inv_def)
  have tinv: "table_inv ty t" by (rule table_find_inv [OF m ok(1) t(1)])
  then have tsorted: "ids_sorted t" by (simp add: table_inv_def)
  obtain k' where k': "OpcUaNodeIdBase_equal k' k" "(k', ri) \<in> set t"
    using t(2) table_find_Some [OF tsorted ok(2)] by blast
  have at: "item_at ty (k', ri)" using tinv k'(2) by (simp add: table_inv_def)
  then show "OpcUaNodeIdBase_equal (ri_typeId ri) ty" "OpcUaNodeIdBase_equal (ri_nodeId ri) k"
    "id_ok (ri_typeId ri)" "id_ok (ri_nodeId ri)"
    using k' ids_sorted_ok [OF tsorted k'(2)] by (auto simp: item_at_def)
  obtain ty' where "(ty', t) \<in> set m" using t(1) table_find_Some [OF sorted ok(1)] by blast
  then show "ri \<in> set (refs_items m)" using k'(2) by (force simp: refs_items_def)
qed

lemma refs_find_cong:
  assumes m: "refs_inv m" and ok: "id_ok ty" "id_ok k" "id_ok ty'" "id_ok k'"
    and eq: "OpcUaNodeIdBase_equal ty ty'" "OpcUaNodeIdBase_equal k k'"
  shows "refs_find ty k m = refs_find ty' k' m"
proof -
  have "table_find ty m = table_find ty' m"
    using m table_find_cong [OF _ ok(1,3) eq(1), of m] by (simp add: refs_inv_def)
  moreover have "table_find k t = table_find k' t" if "table_find ty' m = Some t" for t
    using table_find_inv [OF m ok(3) that] table_find_cong [OF _ ok(2,4) eq(2), of t] by (simp add: table_inv_def)
  ultimately show ?thesis by (simp add: refs_find_def split: bind_splits)
qed

lemma refs_remove_all:
  assumes "refs_inv m" and "\<forall>ri \<in> set ris. id_ok (ri_typeId ri) \<and> id_ok (ri_nodeId ri)"
  defines "m' \<equiv> fold (\<lambda>ri m. snd (ReferenceItemMap_remove (ri_typeId ri) (ri_nodeId ri) m)) ris m"
  shows "refs_inv m'"
    and "id_ok ty \<Longrightarrow> id_ok k \<Longrightarrow> refs_find ty k m' =
      (if \<exists>ri \<in> set ris. OpcUaNodeIdBase_equal ty (ri_typeId ri) \<and> OpcUaNodeIdBase_equal k (ri_nodeId ri)
       then None else refs_find ty k m)"
proof -
  have "refs_inv m' \<and> (\<forall>ty k. id_ok ty \<and> id_ok k \<longrightarrow> refs_find ty k m' =
      (if \<exists>ri \<in> set ris. OpcUaNodeIdBase_equal ty (ri_typeId ri) \<and> OpcUaNodeIdBase_equal k (ri_nodeId ri)
       then None else refs_find ty k m))"
    using assms(1,2) unfolding m'_def
  proof (induction ris arbitrary: m)
    case (Cons ri ris)
    let ?m = "snd (ReferenceItemMap_remove (ri_typeId ri) (ri_nodeId ri) m)"
    note r = refs_remove [OF Cons.prems(1), of "ri_typeId ri" "ri_nodeId ri"]
    have "refs_inv ?m" using r(1) Cons.prems(2) by simp
    with Cons.IH [of ?m] r(2) Cons.prems(2) show ?case by auto
  qed simp
  then show "refs_inv m'"
    and "id_ok ty \<Longrightarrow> id_ok k \<Longrightarrow> refs_find ty k m' =
      (if \<exists>ri \<in> set ris. OpcUaNodeIdBase_equal ty (ri_typeId ri) \<and> OpcUaNodeIdBase_equal k (ri_nodeId ri)
       then None else refs_find ty k m)"
    by blast+
qed

lemma size_items: "ReferenceItemMap_size m = length (refs_items m)"
proof -
  have "foldl (\<lambda>accum e. accum + length (snd e)) a m = a + length (refs_items m)" for a
    by (induction m arbitrary: a) (auto simp: refs_items_def)
  then show ?thesis by (simp add: ReferenceItemMap_size_def)
qed

section \<open>Properties\<close>

text \<open>What an information model does with the references of a node.\<close>

datatype refs_command = AddRef OpcUaNodeIdBase bool OpcUaNodeIdBase | RemoveRef OpcUaNodeIdBase OpcUaNodeIdBase

fun refs_step :: "refs_command \<Rightarrow> ReferenceItemMap \<Rightarrow> ReferenceItemMap option" where
  "refs_step (AddRef ty f n) m =
     (if id_ok ty \<and> id_ok n then Some (snd (ReferenceItemMap_add ty f n m)) else None)"
| "refs_step (RemoveRef ty n) m =
     (if id_ok ty \<and> id_ok n then Some (snd (ReferenceItemMap_remove ty n m)) else None)"

interpretation refs: machine "[]" refs_step refs_inv
proof
  show "refs_inv []" by (simp add: refs_inv_def)
  show "refs_inv m'" if "refs_inv m" "refs_step c m = Some m'" for m c m'
    using that refs_add(1) refs_remove(1) by (cases c) (auto split: if_splits)
qed

text \<open>
  C15: After any sequence of additions and removals of references with well-formed
  identifiers the iterator of the reference map never fails an assertion, and the loop over it yields
  exactly the references a lookup by type and target finds; their number is the size of the map.
\<close>

theorem reference_walk_complete:
  assumes "reach refs_step [] m"
  shows "\<exists>items. ReferenceItemMap_items m = Some items
     \<and> (\<forall>ri. ri \<in> set items \<longleftrightarrow>
           id_ok (ri_typeId ri) \<and> id_ok (ri_nodeId ri) \<and> refs_find (ri_typeId ri) (ri_nodeId ri) m = Some ri)
     \<and> ReferenceItemMap_size m = length items"
  using items_of_refs refs_items_find size_items refs.invar_reach [OF assms] by blast

theorem reference_walk_complete_witness:
  "\<exists>m. reach refs_step [] m \<and> m \<noteq> []
     \<and> (\<exists>items. ReferenceItemMap_items m = Some items \<and> ReferenceItemMap_size m = length items)"
proof -
  let ?m = "snd (ReferenceItemMap_add (nodeId0 47) True (nodeId0 85) [])"
  have "reach refs_step [] ?m"
    by (rule reach_step [of _ _ "[]" "AddRef (nodeId0 47) True (nodeId0 85)"])
       (simp_all add: reach_refl nodeId0_def)
  moreover have "?m \<noteq> []"
    by (simp add: ReferenceItemMap_add_def ReferenceItemMap_addItem_def cmap_index_def Let_def case_prod_beta
        nodeId_order.irrefl nodeId0_def OpcUaNodeIdBase_less_def)
  ultimately show ?thesis using reference_walk_complete [of ?m] by blast
qed

text \<open>
  A reference is identified by its type and its target alone: adding the inverse of
  a reference that is already there (the same type and target in the other direction, as when two
  nodes organise each other) reports failure and changes nothing.
\<close>

theorem reference_direction_not_in_key:
  assumes "reach refs_step [] m" and "id_ok ty" and "id_ok n" and "refs_find ty n m = Some ri"
  shows "fst (ReferenceItemMap_add ty (\<not> ri_isForward ri) n m) = False
    \<and> (\<forall>ty' n'. id_ok ty' \<and> id_ok n' \<longrightarrow>
          refs_find ty' n' (snd (ReferenceItemMap_add ty (\<not> ri_isForward ri) n m)) = refs_find ty' n' m)"
proof -
  note m = refs.invar_reach [OF assms(1)]
  have "fst (ReferenceItemMap_add ty (\<not> ri_isForward ri) n m) = False"
    using refs_add(3) [OF m assms(2,3)] assms(4) by simp
  moreover have "refs_find ty' n' (snd (ReferenceItemMap_add ty (\<not> ri_isForward ri) n m)) = refs_find ty' n' m"
    if "id_ok ty'" "id_ok n'" for ty' n'
    using refs_add(2) [OF m assms(2,3) that] assms(4) by simp
  ultimately show ?thesis by blast
qed

theorem reference_direction_not_in_key_witness:
  "\<exists>m. refs_find (nodeId0 35) (nodeId0 85) m \<noteq> None
     \<and> fst (ReferenceItemMap_add (nodeId0 35) False (nodeId0 85) m) = False"
proof -
  let ?m = "snd (ReferenceItemMap_add (nodeId0 35) True (nodeId0 85) [])"
  let ?ri = "\<lparr>ri_typeId = nodeId0 35, ri_isForward = True, ri_nodeId = nodeId0 85\<rparr>"
  have r: "reach refs_step [] ?m"
    by (rule reach_step [of _ _ "[]" "AddRef (nodeId0 35) True (nodeId0 85)"])
       (simp_all add: reach_refl nodeId0_def)
  have ok: "id_ok (nodeId0 35)" "id_ok (nodeId0 85)" by (simp_all add: nodeId0_def)
  have "refs_inv []" by (simp add: refs_inv_def)
  then have f: "refs_find (nodeId0 35) (nodeId0 85) ?m = Some ?ri"
    using refs_add(2) [of "[]" "nodeId0 35" "nodeId0 85" "nodeId0 35" "nodeId0 85" True] ok
    by (simp add: refs_find_def)
  show ?thesis using reference_direction_not_in_key [OF r ok f] f by auto
qed

end
