(* ===== verification/AttributeAccess.thy ===== *)
theory AttributeAccess
  imports DataValues References
begin

text \<open>
  The attributes of a node (\<^verbatim>\<open>AddressSpaceModel/Attribute.h\<close>) and the generic access to them
  (\<^verbatim>\<open>AttributeAccess.cpp\<close>): copying an attribute to a variant or a data value and back, and the test
  whether it changed.  An attribute is a value of the type its identifier stands for, with the flag
  whether it is set.  \<^verbatim>\<open>boost::get\<close> on a variant of another type throws, which is \<^term>\<open>None\<close>.
\<close>

section \<open>Attributes\<close>

datatype 'e AttributeData =
    NodeIdAttribute OpcUaNodeIdBase
  | NodeClassAttribute u32
  | BrowseNameAttribute OpcUaQualifiedName
  | DisplayNameAttribute OpcUaLocalizedText
  | DescriptionAttribute OpcUaLocalizedText
  | WriteMaskAttribute u32
  | UserWriteMaskAttribute u32
  | IsAbstractAttribute bool
  | SymmetricAttribute bool
  | InverseNameAttribute OpcUaLocalizedText
  | ContainsNoLoopsAttribute bool
  | EventNotifierAttribute u8
  | ValueAttribute "'e OpcUaDataValue"
  | DataTypeAttribute OpcUaNodeIdBase
  | ValueRankAttribute u32
  | ArrayDimensionsAttribute "u32 OpcUaArray"
  | AccessLevelAttribute u8
  | UserAccessLevelAttribute u8
  | MinimumSamplingIntervalAttribute u64
  | HistorizingAttribute bool
  | ExecutableAttribute bool
  | UserExecutableAttribute bool

record 'e Attribute =
  attr_data :: "'e AttributeData"
  attr_exist :: bool

fun attribute_id :: "'e AttributeData \<Rightarrow> nat" where
  "attribute_id (NodeIdAttribute _) = 1"
| "attribute_id (NodeClassAttribute _) = 2"
| "attribute_id (BrowseNameAttribute _) = 3"
| "attribute_id (DisplayNameAttribute _) = 4"
| "attribute_id (DescriptionAttribute _) = 5"
| "attribute_id (WriteMaskAttribute _) = 6"
| "attribute_id (UserWriteMaskAttribute _) = 7"
| "attribute_id (IsAbstractAttribute _) = 8"
| "attribute_id (SymmetricAttribute _) = 9"
| "attribute_id (InverseNameAttribute _) = 10"
| "attribute_id (ContainsNoLoopsAttribute _) = 11"
| "attribute_id (EventNotifierAttribute _) = 12"
| "attribute_id (ValueAttribute _) = 13"
| "attribute_id (DataTypeAttribute _) = 14"
| "attribute_id (ValueRankAttribute _) = 15"
| "attribute_id (ArrayDimensionsAttribute _) = 16"
| "attribute_id (AccessLevelAttribute _) = 17"
| "attribute_id (UserAccessLevelAttribute _) = 18"
| "attribute_id (MinimumSamplingIntervalAttribute _) = 19"
| "attribute_id (HistorizingAttribute _) = 20"
| "attribute_id (ExecutableAttribute _) = 21"
| "attribute_id (UserExecutableAttribute _) = 22"

definition Attribute_setData :: "'e AttributeData \<Rightarrow> 'e Attribute \<Rightarrow> 'e Attribute" where
  "Attribute_setData d a = a\<lparr>attr_exist := True, attr_data := d\<rparr>"

definition Attribute_copyTo :: "'e Attribute \<Rightarrow> 'e Attribute \<Rightarrow> 'e Attribute" where
  "Attribute_copyTo this other = (if attr_exist this then Attribute_setData (attr_data this) other else other)"

section \<open>The variant of a data value\<close>

text \<open>\<^verbatim>\<open>OpcUaDataValue::variant()\<close> creates the variant when there is none.\<close>

definition OpcUaDataValue_variant :: "'e OpcUaDataValue \<Rightarrow> 'e OpcUaVariant \<times> 'e OpcUaDataValue" where
  "OpcUaDataValue_variant d =
     (let v = (case dv_variant d of None \<Rightarrow> OpcUaVariant_new | Some v \<Rightarrow> v)
      in (v, d\<lparr>dv_variant := Some v\<rparr>))"

definition variant_get0 :: "'e OpcUaVariant \<Rightarrow> 'e OpcUaVariantValue" where
  "variant_get0 v = (case variantValueVec v of [] \<Rightarrow> VNull | x # _ \<Rightarrow> x)"

section \<open>Reading an attribute\<close>

text \<open>
  The node class is an enumeration and becomes a 32-bit signed integer by integral promotion.  For the
  value attribute the copy goes the wrong way round: the variant is copied to the attribute.
\<close>

fun AttributeAccess_copy_toVariant ::
  "'e ExtensionObjectBase \<Rightarrow> 'e ExtensionObjectMap \<Rightarrow> 'e AttributeData \<Rightarrow> 'e OpcUaVariant
     \<Rightarrow> 'e AttributeData \<times> 'e OpcUaVariant" where
  "AttributeAccess_copy_toVariant ops reg (NodeIdAttribute n) v =
     (NodeIdAttribute n, OpcUaVariant_setValue (VNodeId (OpcUaNodeIdBase_copyTo n OpcUaNodeIdBase_new)) v)"
| "AttributeAccess_copy_toVariant ops reg (NodeClassAttribute c) v =
     (NodeClassAttribute c, OpcUaVariant_setValue (VInt32 c) v)"
| "AttributeAccess_copy_toVariant ops reg (BrowseNameAttribute n) v =
     (BrowseNameAttribute n, OpcUaVariant_setValue (VQualifiedName (OpcUaQualifiedName_copyTo n OpcUaQualifiedName_new)) v)"
| "AttributeAccess_copy_toVariant ops reg (DisplayNameAttribute t) v =
     (DisplayNameAttribute t, OpcUaVariant_setValue (VLocalizedText (OpcUaLocalizedText_copyTo t OpcUaLocalizedText_new)) v)"
| "AttributeAccess_copy_toVariant ops reg (DescriptionAttribute t) v =
     (DescriptionAttribute t, OpcUaVariant_setValue (VLocalizedText (OpcUaLocalizedText_copyTo t OpcUaLocalizedText_new)) v)"
| "AttributeAccess_copy_toVariant ops reg (WriteMaskAttribute m) v =
     (WriteMaskAttribute m, OpcUaVariant_setValue (VUInt32 m) v)"
| "AttributeAccess_copy_toVariant ops reg (UserWriteMaskAttribute m) v =
     (UserWriteMaskAttribute m, OpcUaVariant_setValue (VUInt32 m) v)"
| "AttributeAccess_copy_toVariant ops reg (IsAbstractAttribute b) v =
     (IsAbstractAttribute b, OpcUaVariant_setValue (VBoolean b) v)"
| "AttributeAccess_copy_toVariant ops reg (SymmetricAttribute b) v =
     (SymmetricAttribute b, OpcUaVariant_setValue (VBoolean b) v)"
| "AttributeAccess_copy_toVariant ops reg (InverseNameAttribute t) v =
     (InverseNameAttribute t, OpcUaVariant_setValue (VLocalizedText (OpcUaLocalizedText_copyTo t OpcUaLocalizedText_new)) v)"
| "AttributeAccess_copy_toVariant ops reg (ContainsNoLoopsAttribute b) v =
     (ContainsNoLoopsAttribute b, OpcUaVariant_setValue (VBoolean b) v)"
| "AttributeAccess_copy_toVariant ops reg (EventNotifierAttribute n) v =
     (EventNotifierAttribute n, OpcUaVariant_setValue (VByte n) v)"
| "AttributeAccess_copy_toVariant ops reg (ValueAttribute d) v =
     (let (w, d) = OpcUaDataValue_variant d
      in (ValueAttribute (d\<lparr>dv_variant := Some (OpcUaVariant_copyTo ops reg v w)\<rparr>), v))"
| "AttributeAccess_copy_toVariant ops reg (DataTypeAttribute n) v =
     (DataTypeAttribute n, OpcUaVariant_setValue (VNodeId (OpcUaNodeIdBase_copyTo n OpcUaNodeIdBase_new)) v)"
| "AttributeAccess_copy_toVariant ops reg (ValueRankAttribute r) v =
     (ValueRankAttribute r, OpcUaVariant_setValue (VInt32 r) v)"
| "AttributeAccess_copy_toVariant ops reg (ArrayDimensionsAttribute a) v =
     (ArrayDimensionsAttribute a, fold (\<lambda>d. OpcUaVariant_pushBack (VUInt32 d)) (OpcUaArray_list a) v)"
| "AttributeAccess_copy_toVariant ops reg (AccessLevelAttribute l) v =
     (AccessLevelAttribute l, OpcUaVariant_setValue (VByte l) v)"
| "AttributeAccess_copy_toVariant ops reg (UserAccessLevelAttribute l) v =
     (UserAccessLevelAttribute l, OpcUaVariant_setValue (VByte l) v)"
| "AttributeAccess_copy_toVariant ops reg (MinimumSamplingIntervalAttribute i) v =
     (MinimumSamplingIntervalAttribute i, OpcUaVariant_setValue (VDouble i) v)"
| "AttributeAccess_copy_toVariant ops reg (HistorizingAttribute b) v =
     (HistorizingAttribute b, OpcUaVariant_setValue (VBoolean b) v)"
| "AttributeAccess_copy_toVariant ops reg (ExecutableAttribute b) v =
     (ExecutableAttribute b, OpcUaVariant_setValue (VBoolean b) v)"
| "AttributeAccess_copy_toVariant ops reg (UserExecutableAttribute b) v =
     (UserExecutableAttribute b, OpcUaVariant_setValue (VBoolean b) v)"

definition AttributeAccess_copy_toDataValue ::
  "'e ExtensionObjectBase \<Rightarrow> 'e ExtensionObjectMap \<Rightarrow> 'e AttributeData \<Rightarrow> 'e OpcUaDataValue
     \<Rightarrow> 'e AttributeData \<times> 'e OpcUaDataValue" where
  "AttributeAccess_copy_toDataValue ops reg a d =
     (case a of
        ValueAttribute x \<Rightarrow> (a, OpcUaDataValue_copyTo ops reg x d)
      | _ \<Rightarrow> (let (v, d) = OpcUaDataValue_variant d;
                 (a, v) = AttributeAccess_copy_toVariant ops reg a v
              in (a, d\<lparr>dv_variant := Some v\<rparr>)))"

section \<open>Writing an attribute\<close>

text \<open>
  The variant must have the type the code tests for.  The tests of \<^verbatim>\<open>ValueRank\<close>, \<^verbatim>\<open>AccessLevel\<close> and
  \<^verbatim>\<open>UserAccessLevel\<close> ask for another type than reading gives; \<^verbatim>\<open>InverseName\<close> and
  \<^verbatim>\<open>DataType\<close> call the getter of the flag instead of setting it; the pointer cast of
  \<^verbatim>\<open>ArrayDimensions\<close> throws on the numbers the type test lets through.
\<close>

definition attribute_written :: "'e AttributeData \<Rightarrow> 'e Attribute \<Rightarrow> (bool \<times> 'e Attribute) option" where
  "attribute_written d a = Some (True, Attribute_setData d a)"

definition AttributeAccess_copy_fromVariant ::
  "'e ExtensionObjectBase \<Rightarrow> 'e ExtensionObjectMap \<Rightarrow> 'e OpcUaVariant \<Rightarrow> 'e Attribute
     \<Rightarrow> (bool \<times> 'e Attribute) option" where
  "AttributeAccess_copy_fromVariant ops reg v a =
     (let t = OpcUaVariant_variantType v; x = variant_get0 v
      in case attr_data a of
           NodeIdAttribute n \<Rightarrow>
             if t \<noteq> 17 then Some (False, a)
             else attribute_written (NodeIdAttribute (OpcUaNodeIdBase_copyTo (getNodeId x) n)) a
         | NodeClassAttribute c \<Rightarrow>
             if t \<noteq> 7 then Some (False, a) else attribute_written (NodeClassAttribute (getUInt32 x)) a
         | BrowseNameAttribute n \<Rightarrow>
             if t \<noteq> 20 then Some (False, a)
             else attribute_written (BrowseNameAttribute (OpcUaQualifiedName_copyTo (getQualifiedName x) n)) a
         | DisplayNameAttribute l \<Rightarrow>
             if t \<noteq> 21 then Some (False, a)
             else attribute_written (DisplayNameAttribute (OpcUaLocalizedText_copyTo (getLocalizedText x) l)) a
         | DescriptionAttribute l \<Rightarrow>
             if t \<noteq> 21 then Some (False, a)
             else attribute_written (DescriptionAttribute (OpcUaLocalizedText_copyTo (getLocalizedText x) l)) a
         | WriteMaskAttribute m \<Rightarrow>
             if t \<noteq> 7 then Some (False, a) else attribute_written (WriteMaskAttribute (getUInt32 x)) a
         | UserWriteMaskAttribute m \<Rightarrow>
             if t \<noteq> 7 then Some (False, a) else attribute_written (UserWriteMaskAttribute (getUInt32 x)) a
         | IsAbstractAttribute b \<Rightarrow>
             if t \<noteq> 1 then Some (False, a) else attribute_written (IsAbstractAttribute (getBoolean x)) a
         | SymmetricAttribute b \<Rightarrow>
             if t \<noteq> 1 then Some (False, a) else attribute_written (SymmetricAttribute (getBoolean x)) a
         | InverseNameAttribute l \<Rightarrow>
             if t \<noteq> 21 then Some (False, a)
             else Some (True, a\<lparr>attr_data := InverseNameAttribute (OpcUaLocalizedText_copyTo (getLocalizedText x) l)\<rparr>)
         | ContainsNoLoopsAttribute b \<Rightarrow>
             if t \<noteq> 1 then Some (False, a) else attribute_written (ContainsNoLoopsAttribute (getBoolean x)) a
         | EventNotifierAttribute n \<Rightarrow>
             if t \<noteq> 3 then Some (False, a) else attribute_written (EventNotifierAttribute (getByte x)) a
         | ValueAttribute d \<Rightarrow>
             (let (w, d) = OpcUaDataValue_variant d
              in attribute_written (ValueAttribute (d\<lparr>dv_variant := Some (OpcUaVariant_copyTo ops reg v w)\<rparr>)) a)
         | DataTypeAttribute n \<Rightarrow>
             if t \<noteq> 17 then Some (False, a)
             else Some (True, a\<lparr>attr_data := DataTypeAttribute (OpcUaNodeIdBase_copyTo (getNodeId x) n)\<rparr>)
         | ValueRankAttribute r \<Rightarrow>
             if t \<noteq> 7 then Some (False, a) else attribute_written (ValueRankAttribute (getUInt32 x)) a
         | ArrayDimensionsAttribute ds \<Rightarrow> if t \<noteq> 7 then Some (False, a) else None
         | AccessLevelAttribute l \<Rightarrow>
             if t \<noteq> 7 then Some (False, a) else attribute_written (AccessLevelAttribute (ucast (getUInt32 x))) a
         | UserAccessLevelAttribute l \<Rightarrow>
             if t \<noteq> 7 then Some (False, a) else attribute_written (UserAccessLevelAttribute (ucast (getUInt32 x))) a
         | MinimumSamplingIntervalAttribute i \<Rightarrow>
             if t \<noteq> 11 then Some (False, a) else attribute_written (MinimumSamplingIntervalAttribute (getDouble x)) a
         | HistorizingAttribute b \<Rightarrow>
             if t \<noteq> 1 then Some (False, a) else attribute_written (HistorizingAttribute (getBoolean x)) a
         | ExecutableAttribute b \<Rightarrow>
             if t \<noteq> 1 then Some (False, a) else attribute_written (ExecutableAttribute (getBoolean x)) a
         | UserExecutableAttribute b \<Rightarrow>
             if t \<noteq> 1 then Some (False, a) else attribute_written (UserExecutableAttribute (getBoolean x)) a)"

definition AttributeAccess_copy_fromDataValue ::
  "'e ExtensionObjectBase \<Rightarrow> 'e ExtensionObjectMap \<Rightarrow> 'e OpcUaDataValue \<Rightarrow> 'e Attribute
     \<Rightarrow> (bool \<times> 'e Attribute) option" where
  "AttributeAccess_copy_fromDataValue ops reg d a =
     (case attr_data a of
        ValueAttribute x \<Rightarrow> attribute_written (ValueAttribute (OpcUaDataValue_copyTo ops reg d x)) a
      | _ \<Rightarrow> AttributeAccess_copy_fromVariant ops reg (fst (OpcUaDataValue_variant d)) a)"

section \<open>Has an attribute changed?\<close>

text \<open>
  The test compares the remembered value with the attribute.  For every attribute but the value it
  returns whether the two are equal, where the caller takes the result for a change.
\<close>

definition attribute_equals :: "'e AttributeData \<Rightarrow> 'e OpcUaVariant \<Rightarrow> bool option" where
  "attribute_equals a v =
     (let t = OpcUaVariant_variantType v; x = variant_get0 v
      in case a of
           NodeIdAttribute n \<Rightarrow> Some (t \<noteq> 17 \<or> OpcUaNodeIdBase_equal (getNodeId x) n)
         | NodeClassAttribute c \<Rightarrow> Some (t \<noteq> 7 \<or> getUInt32 x = c)
         | BrowseNameAttribute n \<Rightarrow> Some (t \<noteq> 20 \<or> OpcUaQualifiedName_equal (getQualifiedName x) n)
         | DisplayNameAttribute l \<Rightarrow> Some (t \<noteq> 21 \<or> OpcUaLocalizedText_equal (getLocalizedText x) l)
         | DescriptionAttribute l \<Rightarrow> Some (t \<noteq> 21 \<or> OpcUaLocalizedText_equal (getLocalizedText x) l)
         | WriteMaskAttribute m \<Rightarrow> Some (t \<noteq> 7 \<or> getUInt32 x = m)
         | UserWriteMaskAttribute m \<Rightarrow> Some (t \<noteq> 7 \<or> getUInt32 x = m)
         | IsAbstractAttribute b \<Rightarrow> Some (t \<noteq> 1 \<or> getBoolean x = b)
         | SymmetricAttribute b \<Rightarrow> Some (t \<noteq> 1 \<or> getBoolean x = b)
         | InverseNameAttribute l \<Rightarrow> Some (t \<noteq> 21 \<or> OpcUaLocalizedText_equal (getLocalizedText x) l)
         | ContainsNoLoopsAttribute b \<Rightarrow> Some (t \<noteq> 1 \<or> getBoolean x = b)
         | EventNotifierAttribute n \<Rightarrow> Some (t \<noteq> 3 \<or> getByte x = n)
         | ValueAttribute d \<Rightarrow> Some False
         | DataTypeAttribute n \<Rightarrow> Some (t \<noteq> 17 \<or> OpcUaNodeIdBase_equal (getNodeId x) n)
         | ValueRankAttribute r \<Rightarrow> Some (t \<noteq> 7 \<or> getUInt32 x = r)
         | ArrayDimensionsAttribute ds \<Rightarrow> if t \<noteq> 7 then Some True else None
         | AccessLevelAttribute l \<Rightarrow> Some (t \<noteq> 3 \<or> getByte x = l)
         | UserAccessLevelAttribute l \<Rightarrow> Some (t \<noteq> 3 \<or> getByte x = l)
         | MinimumSamplingIntervalAttribute i \<Rightarrow> Some (t \<noteq> 11 \<or> OpcUaDouble_equal (getDouble x) i)
         | HistorizingAttribute b \<Rightarrow> Some (t \<noteq> 1 \<or> getBoolean x = b)
         | ExecutableAttribute b \<Rightarrow> Some (t \<noteq> 1 \<or> getBoolean x = b)
         | UserExecutableAttribute b \<Rightarrow> Some (t \<noteq> 1 \<or> getBoolean x = b))"

definition AttributeAccess_trigger ::
  "'e ExtensionObjectBase \<Rightarrow> 'e OpcUaDataValue \<Rightarrow> 'e AttributeData \<Rightarrow> DataChangeTrigger
     \<Rightarrow> (bool \<times> 'e OpcUaDataValue) option" where
  "AttributeAccess_trigger ops d a dct =
     (case a of
        ValueAttribute x \<Rightarrow> Some (OpcUaDataValue_trigger ops x d dct, d)
      | _ \<Rightarrow> (let (v, d) = OpcUaDataValue_variant d
              in map_option (\<lambda>r. (r, d)) (attribute_equals a v)))"

section \<open>The attributes of a node\<close>

text \<open>
  The accessors of \<^verbatim>\<open>AttributeBase.cpp\<close>, one group per attribute in the code, are the same operations
  for every identifier; the identifiers a node class has no attribute for have none here.
\<close>

record 'e BaseNodeClass =
  node_attribute :: "nat \<Rightarrow> 'e Attribute option"
  node_references :: ReferenceItemMap

definition AttributeBase_isPart :: "nat \<Rightarrow> 'e BaseNodeClass \<Rightarrow> bool" where
  "AttributeBase_isPart i n \<longleftrightarrow> node_attribute n i \<noteq> None"

definition AttributeBase_unset :: "nat \<Rightarrow> 'e BaseNodeClass \<Rightarrow> bool \<times> 'e BaseNodeClass" where
  "AttributeBase_unset i n =
     (case node_attribute n i of
        None \<Rightarrow> (False, n)
      | Some a \<Rightarrow> (True, n\<lparr>node_attribute := (node_attribute n)(i \<mapsto> a\<lparr>attr_exist := False\<rparr>)\<rparr>))"

definition AttributeBase_isNull :: "nat \<Rightarrow> 'e BaseNodeClass \<Rightarrow> bool" where
  "AttributeBase_isNull i n = (case node_attribute n i of None \<Rightarrow> False | Some a \<Rightarrow> \<not> attr_exist a)"

definition AttributeBase_put :: "nat \<Rightarrow> 'e AttributeData \<Rightarrow> 'e BaseNodeClass \<Rightarrow> bool \<times> 'e BaseNodeClass" where
  "AttributeBase_put i d n =
     (case node_attribute n i of
        None \<Rightarrow> (False, n)
      | Some a \<Rightarrow> (True, n\<lparr>node_attribute := (node_attribute n)(i \<mapsto> Attribute_setData d a)\<rparr>))"

definition AttributeBase_getMinimumSamplingInterval :: "'e BaseNodeClass \<Rightarrow> u64 option" where
  "AttributeBase_getMinimumSamplingInterval n =
     (case node_attribute n 19 of
        Some a \<Rightarrow> (case attr_data a of
                     MinimumSamplingIntervalAttribute i \<Rightarrow> if attr_exist a then Some i else None
                   | _ \<Rightarrow> None)
      | None \<Rightarrow> None)"

text \<open>
  The setter by identifier.  It tests the types reading gives; a node class is asked for as a pointer,
  which throws, and array dimensions of a scalar ask for more memory than there is.
\<close>

definition AttributeBase_setData ::
  "'e ExtensionObjectBase \<Rightarrow> 'e ExtensionObjectMap \<Rightarrow> 'e OpcUaDataValue \<Rightarrow> 'e OpcUaVariant \<Rightarrow> 'e AttributeData
     \<Rightarrow> 'e AttributeData option option" where
  "AttributeBase_setData ops reg d v a =
     (let t = OpcUaVariant_variantType v; x = variant_get0 v
      in case a of
           NodeIdAttribute n \<Rightarrow>
             Some (if t \<noteq> 17 then None else Some (NodeIdAttribute (OpcUaNodeIdBase_copyTo (getNodeId x) n)))
         | NodeClassAttribute c \<Rightarrow> None
         | BrowseNameAttribute n \<Rightarrow>
             Some (if t \<noteq> 20 then None else Some (BrowseNameAttribute (OpcUaQualifiedName_copyTo (getQualifiedName x) n)))
         | DisplayNameAttribute l \<Rightarrow>
             Some (if t \<noteq> 21 then None else Some (DisplayNameAttribute (OpcUaLocalizedText_copyTo (getLocalizedText x) l)))
         | DescriptionAttribute l \<Rightarrow>
             Some (if t \<noteq> 21 then None else Some (DescriptionAttribute (OpcUaLocalizedText_copyTo (getLocalizedText x) l)))
         | WriteMaskAttribute m \<Rightarrow> Some (if t \<noteq> 7 then None else Some (WriteMaskAttribute (getUInt32 x)))
         | UserWriteMaskAttribute m \<Rightarrow> Some (if t \<noteq> 7 then None else Some (UserWriteMaskAttribute (getUInt32 x)))
         | IsAbstractAttribute b \<Rightarrow> Some (if t \<noteq> 1 then None else Some (IsAbstractAttribute (getBoolean x)))
         | SymmetricAttribute b \<Rightarrow> Some (if t \<noteq> 1 then None else Some (SymmetricAttribute (getBoolean x)))
         | InverseNameAttribute l \<Rightarrow>
             Some (if t \<noteq> 21 then None else Some (InverseNameAttribute (OpcUaLocalizedText_copyTo (getLocalizedText x) l)))
         | ContainsNoLoopsAttribute b \<Rightarrow> Some (if t \<noteq> 1 then None else Some (ContainsNoLoopsAttribute (getBoolean x)))
         | EventNotifierAttribute n \<Rightarrow> Some (if t \<noteq> 3 then None else Some (EventNotifierAttribute (getByte x)))
         | ValueAttribute y \<Rightarrow> Some (Some (ValueAttribute (OpcUaDataValue_copyTo ops reg d y)))
         | DataTypeAttribute n \<Rightarrow>
             Some (if t \<noteq> 17 then None else Some (DataTypeAttribute (OpcUaNodeIdBase_copyTo (getNodeId x) n)))
         | ValueRankAttribute r \<Rightarrow> Some (if t \<noteq> 6 then None else Some (ValueRankAttribute (getInt32 x)))
         | ArrayDimensionsAttribute ds \<Rightarrow>
             if t \<noteq> 7 then Some None
             else if sint (arrayLength v) < 0 then None
             else Some (Some (ArrayDimensionsAttribute (OpcUaArray_copyTo (\<lambda>x. x) 0
               (fold (\<lambda>y a. snd (OpcUaArray_push_back (getUInt32 y) a)) (variantValueVec v)
                 (OpcUaArray_new 0 (unat (arrayLength v)))) ds)))
         | AccessLevelAttribute l \<Rightarrow> Some (if t \<noteq> 3 then None else Some (AccessLevelAttribute (getByte x)))
         | UserAccessLevelAttribute l \<Rightarrow> Some (if t \<noteq> 3 then None else Some (UserAccessLevelAttribute (getByte x)))
         | MinimumSamplingIntervalAttribute i \<Rightarrow>
             Some (if t \<noteq> 11 then None else Some (MinimumSamplingIntervalAttribute (getDouble x)))
         | HistorizingAttribute b \<Rightarrow> Some (if t \<noteq> 1 then None else Some (HistorizingAttribute (getBoolean x)))
         | ExecutableAttribute b \<Rightarrow> Some (if t \<noteq> 1 then None else Some (ExecutableAttribute (getBoolean x)))
         | UserExecutableAttribute b \<Rightarrow> Some (if t \<noteq> 1 then None else Some (UserExecutableAttribute (getBoolean x))))"

definition AttributeBase_set ::
  "'e ExtensionObjectBase \<Rightarrow> 'e ExtensionObjectMap \<Rightarrow> nat \<Rightarrow> 'e OpcUaDataValue option \<Rightarrow> 'e BaseNodeClass
     \<Rightarrow> (bool \<times> 'e BaseNodeClass) option" where
  "AttributeBase_set ops reg i dataValue n =
     (case dataValue of
        None \<Rightarrow> Some (False, n)
      | Some d \<Rightarrow>
          (let (v, d) = OpcUaDataValue_variant d
           in if OpcUaVariant_variantType v = 0 then Some (False, n)
              else case node_attribute n i of
                     None \<Rightarrow> Some (False, n)
                   | Some a \<Rightarrow>
                       (case AttributeBase_setData ops reg d v (attr_data a) of
                          None \<Rightarrow> None
                        | Some None \<Rightarrow> Some (False, n)
                        | Some (Some y) \<Rightarrow> Some (AttributeBase_put i y n))))"

section \<open>What reading and writing do\<close>

text \<open>The attributes whose values are numbers and flags, of the type the change test asks for.\<close>

fun attribute_simple :: "'e AttributeData \<Rightarrow> bool" where
  "attribute_simple (WriteMaskAttribute _) = True"
| "attribute_simple (UserWriteMaskAttribute _) = True"
| "attribute_simple (IsAbstractAttribute _) = True"
| "attribute_simple (SymmetricAttribute _) = True"
| "attribute_simple (ContainsNoLoopsAttribute _) = True"
| "attribute_simple (EventNotifierAttribute _) = True"
| "attribute_simple (AccessLevelAttribute _) = True"
| "attribute_simple (UserAccessLevelAttribute _) = True"
| "attribute_simple (HistorizingAttribute _) = True"
| "attribute_simple (ExecutableAttribute _) = True"
| "attribute_simple (UserExecutableAttribute _) = True"
| "attribute_simple _ = False"

lemma set_value_simps [simp]:
  "OpcUaVariant_variantType (OpcUaVariant_setValue x v) = OpcUaVariantValue_variantType x"
  "variant_get0 (OpcUaVariant_setValue x v) = x"
  by (simp_all add: OpcUaVariant_setValue_def OpcUaVariant_clear_def OpcUaVariant_variantType_def variant_get0_def)

lemma data_value_variant [simp]:
  "OpcUaDataValue_variant (d\<lparr>dv_variant := Some v\<rparr>) = (v, d\<lparr>dv_variant := Some v\<rparr>)"
  "snd (OpcUaDataValue_variant d) = d\<lparr>dv_variant := Some (fst (OpcUaDataValue_variant d))\<rparr>"
  by (simp_all add: OpcUaDataValue_variant_def Let_def)

lemma node_put [simp]:
  "node_attribute n i = Some b \<Longrightarrow>
     AttributeBase_put i d n = (True, n\<lparr>node_attribute := (node_attribute n)(i \<mapsto> \<lparr>attr_data = d, attr_exist = True\<rparr>)\<rparr>)"
  by (cases b) (simp add: AttributeBase_put_def Attribute_setData_def)

lemma attribute_simple_other:
  assumes "attribute_simple a" "attribute_id b = attribute_id a"
  shows "attribute_simple b"
  using assms by (cases a; cases b) simp_all

text \<open>The variant value a simple attribute is read as.\<close>

fun attribute_value :: "'e AttributeData \<Rightarrow> 'e OpcUaVariantValue" where
  "attribute_value (WriteMaskAttribute m) = VUInt32 m"
| "attribute_value (UserWriteMaskAttribute m) = VUInt32 m"
| "attribute_value (IsAbstractAttribute b) = VBoolean b"
| "attribute_value (SymmetricAttribute b) = VBoolean b"
| "attribute_value (ContainsNoLoopsAttribute b) = VBoolean b"
| "attribute_value (EventNotifierAttribute n) = VByte n"
| "attribute_value (AccessLevelAttribute l) = VByte l"
| "attribute_value (UserAccessLevelAttribute l) = VByte l"
| "attribute_value (HistorizingAttribute b) = VBoolean b"
| "attribute_value (ExecutableAttribute b) = VBoolean b"
| "attribute_value (UserExecutableAttribute b) = VBoolean b"
| "attribute_value _ = VNull"

lemma read_simple:
  assumes "attribute_simple a"
  shows "AttributeAccess_copy_toDataValue ops reg a d =
    (a, d\<lparr>dv_variant := Some (OpcUaVariant_setValue (attribute_value a) (fst (OpcUaDataValue_variant d)))\<rparr>)"
  using assms by (cases a) (simp_all add: AttributeAccess_copy_toDataValue_def split_beta)

lemma attribute_value_type: "attribute_simple a \<Longrightarrow> OpcUaVariantValue_variantType (attribute_value a) \<noteq> 0"
  by (cases a) simp_all

lemma equals_simple:
  assumes "attribute_simple a" "attribute_id b = attribute_id a"
  shows "attribute_equals b (OpcUaVariant_setValue (attribute_value a) v) = Some (b = a)"
  using assms by (cases a; cases b) (auto simp: attribute_equals_def)

lemma set_simple:
  assumes "attribute_simple a" "attribute_id b = attribute_id a"
  shows "AttributeBase_setData ops reg d (OpcUaVariant_setValue (attribute_value a) v) b = Some (Some a)"
  using assms by (cases a; cases b) (auto simp: AttributeBase_setData_def)

section \<open>Properties\<close>

text \<open>C30: A number or flag read from a node into a data value and set on another node with the same
  attribute arrives there unchanged, and is then present.\<close>

theorem attribute_read_set:
  assumes "attribute_simple a" "node_attribute n (attribute_id a) = Some b" "attribute_id (attr_data b) = attribute_id a"
  shows "AttributeBase_set ops reg (attribute_id a) (Some (snd (AttributeAccess_copy_toDataValue ops reg a d))) n =
    Some (True, n\<lparr>node_attribute := (node_attribute n)(attribute_id a \<mapsto> \<lparr>attr_data = a, attr_exist = True\<rparr>)\<rparr>)"
  using assms attribute_value_type [OF assms(1)]
  by (simp add: AttributeBase_set_def read_simple set_simple)

definition sample_node :: "StandardObject BaseNodeClass" where
  "sample_node = \<lparr>node_attribute = [17 \<mapsto> \<lparr>attr_data = AccessLevelAttribute 0, attr_exist = False\<rparr>], node_references = []\<rparr>"

theorem attribute_read_set_witness:
  "AttributeBase_set StandardObject_ops Core_extensionObjectMap 17
     (Some (snd (AttributeAccess_copy_toDataValue StandardObject_ops Core_extensionObjectMap (AccessLevelAttribute 3) OpcUaDataValue_new)))
     sample_node = Some (True, \<lparr>node_attribute = [17 \<mapsto> \<lparr>attr_data = AccessLevelAttribute 3, attr_exist = True\<rparr>], node_references = []\<rparr>)"
  using attribute_read_set [of "AccessLevelAttribute 3" sample_node "\<lparr>attr_data = AccessLevelAttribute 0, attr_exist = False\<rparr>"
      StandardObject_ops Core_extensionObjectMap OpcUaDataValue_new]
  by (simp add: sample_node_def)

text \<open>C37: The change test on such an attribute answers whether the remembered value is the present one:
  it reports a change when there is none, and none when there is one.\<close>

theorem attribute_trigger_inverted:
  assumes "attribute_simple a" "attribute_id b = attribute_id a"
  shows "AttributeAccess_trigger ops (snd (AttributeAccess_copy_toDataValue ops reg a d)) b dct =
    Some (b = a, snd (AttributeAccess_copy_toDataValue ops reg a d))"
proof -
  have "attribute_simple b" using attribute_simple_other [OF assms] .
  then show ?thesis
    using assms equals_simple [OF assms] read_simple [OF assms(1)]
    by (cases b) (simp_all add: AttributeAccess_trigger_def)
qed

theorem attribute_trigger_inverted_witness:
  "map_option fst (AttributeAccess_trigger StandardObject_ops
     (snd (AttributeAccess_copy_toDataValue StandardObject_ops Core_extensionObjectMap (WriteMaskAttribute 1) OpcUaDataValue_new))
     (WriteMaskAttribute 2) DCT_StatusValue) = Some False"
  by (subst attribute_trigger_inverted) simp_all

text \<open>What \<^verbatim>\<open>AttributeAccess\<close> reads from the access levels, the value rank and the node class it
  does not write back: the type test of writing asks for another type, and the attribute stays as it is.\<close>

theorem attribute_write_rejects_read:
  assumes "attr_data a \<in> range AccessLevelAttribute \<union> range UserAccessLevelAttribute
    \<union> range ValueRankAttribute \<union> range NodeClassAttribute"
  shows "AttributeAccess_copy_fromVariant ops reg
    (snd (AttributeAccess_copy_toVariant ops reg (attr_data a) v)) a = Some (False, a)"
  using assms by (auto simp: AttributeAccess_copy_fromVariant_def)

theorem attribute_write_rejects_read_witness:
  "AttributeAccess_copy_fromVariant StandardObject_ops Core_extensionObjectMap
    (snd (AttributeAccess_copy_toVariant StandardObject_ops Core_extensionObjectMap (ValueRankAttribute 1) OpcUaVariant_new))
    \<lparr>attr_data = ValueRankAttribute 1, attr_exist = True\<rparr> = Some (False, \<lparr>attr_data = ValueRankAttribute 1, attr_exist = True\<rparr>)"
  using attribute_write_rejects_read [of "\<lparr>attr_data = ValueRankAttribute 1, attr_exist = True\<rparr>"
    StandardObject_ops Core_extensionObjectMap OpcUaVariant_new] by simp

end
