(* ===== verification/Acknowledgement.thy ===== *)
theory Acknowledgement
  imports ArrayContainer Machine
begin

text \<open>
  \<^verbatim>\<open>AcknowledgementManager\<close> (\<^verbatim>\<open>ServiceSet/AcknowledgementManager.cpp\<close>): the sequence numbers of the
  notification messages of a subscription and the messages the client has not acknowledged yet.

  The abstract specification is a counter: a notification message takes the next number, a keepalive
  message announces it without using it up.  \<open>numbering\<close> is the simulation relation.
\<close>

record 'n AcknowledgementElement =
  ae_sequenceNumber :: u32
  ae_notification :: 'n

record 'n AcknowledgementManager =
  am_keepalive :: bool
  am_maxListSize :: u32
  am_sequenceNumber :: u32
  am_list :: "'n AcknowledgementElement list"

definition AcknowledgementManager_new :: "'n AcknowledgementManager" where
  "AcknowledgementManager_new =
     \<lparr>am_keepalive = False, am_maxListSize = 20, am_sequenceNumber = 0, am_list = []\<rparr>"

definition AcknowledgementManager_nextSequenceNumber ::
  "bool \<Rightarrow> 'n AcknowledgementManager \<Rightarrow> u32 \<times> 'n AcknowledgementManager" where
  "AcknowledgementManager_nextSequenceNumber keepalive am =
     (if am_keepalive am then
        (if keepalive then (am_sequenceNumber am, am)
         else (am_sequenceNumber am, am\<lparr>am_keepalive := False\<rparr>))
      else
        (let am = (if keepalive then am\<lparr>am_keepalive := True\<rparr> else am);
             am = am\<lparr>am_sequenceNumber := am_sequenceNumber am + 1\<rparr>;
             am = (if am_sequenceNumber am = 0 then am\<lparr>am_sequenceNumber := 1\<rparr> else am)
         in (am_sequenceNumber am, am)))"

definition AcknowledgementManager_actSequenceNumber ::
  "'n AcknowledgementManager \<Rightarrow> u32 \<times> 'n AcknowledgementManager" where
  "AcknowledgementManager_actSequenceNumber am =
     (let am = (if am_sequenceNumber am = 0 then am\<lparr>am_sequenceNumber := 1\<rparr> else am)
      in (am_sequenceNumber am, am))"

definition AcknowledgementManager_size :: "'n AcknowledgementManager \<Rightarrow> u32" where
  "AcknowledgementManager_size am = word_of_nat (length (am_list am))"

definition AcknowledgementManager_setMaxListSize ::
  "u32 \<Rightarrow> 'n AcknowledgementManager \<Rightarrow> 'n AcknowledgementManager" where
  "AcknowledgementManager_setMaxListSize maxListSize am = am\<lparr>am_maxListSize := maxListSize\<rparr>"

definition AcknowledgementManager_addNotification ::
  "u32 \<Rightarrow> 'n \<Rightarrow> 'n AcknowledgementManager \<Rightarrow> 'n AcknowledgementManager" where
  "AcknowledgementManager_addNotification sequenceNumber notification am =
     (let el = \<lparr>ae_sequenceNumber = sequenceNumber, ae_notification = notification\<rparr>;
          am = am\<lparr>am_list := am_list am @ [el]\<rparr>
      in if am_maxListSize am \<noteq> 0 \<and> length (am_list am) > unat (am_maxListSize am)
         then am\<lparr>am_list := tl (am_list am)\<rparr> else am)"

fun AcknowledgementList_erase ::
  "u32 \<Rightarrow> 'n AcknowledgementElement list \<Rightarrow> 'n AcknowledgementElement list" where
  "AcknowledgementList_erase sequenceNumber [] = []"
| "AcknowledgementList_erase sequenceNumber (el # els) =
     (if ae_sequenceNumber el = sequenceNumber then els
      else el # AcknowledgementList_erase sequenceNumber els)"

definition AcknowledgementManager_deleteNotification ::
  "u32 \<Rightarrow> 'n AcknowledgementManager \<Rightarrow> 'n AcknowledgementManager" where
  "AcknowledgementManager_deleteNotification sequenceNumber am =
     am\<lparr>am_list := AcknowledgementList_erase sequenceNumber (am_list am)\<rparr>"

text \<open>
  \<^verbatim>\<open>firstNotification\<close> assigns the member \<^verbatim>\<open>sequenceNumber_\<close> and never its out parameter
  \<open>sequenceNumber\<close>; the result is the notification and the object.
\<close>

definition AcknowledgementManager_firstNotification ::
  "'n AcknowledgementManager \<Rightarrow> 'n option \<times> 'n AcknowledgementManager" where
  "AcknowledgementManager_firstNotification am =
     (case am_list am of
        [] \<Rightarrow> (None, am)
      | el # _ \<Rightarrow> (Some (ae_notification el), am\<lparr>am_sequenceNumber := ae_sequenceNumber el\<rparr>))"

fun AcknowledgementList_get ::
  "u32 \<Rightarrow> 'n AcknowledgementElement list \<Rightarrow> 'n option" where
  "AcknowledgementList_get sequenceNumber [] = None"
| "AcknowledgementList_get sequenceNumber (el # els) =
     (if ae_sequenceNumber el = sequenceNumber then Some (ae_notification el)
      else AcknowledgementList_get sequenceNumber els)"

definition AcknowledgementManager_getNotification ::
  "u32 \<Rightarrow> 'n AcknowledgementManager \<Rightarrow> 'n option" where
  "AcknowledgementManager_getNotification sequenceNumber am =
     AcknowledgementList_get sequenceNumber (am_list am)"

definition AcknowledgementManager_availableSequenceNumbers ::
  "'n AcknowledgementManager \<Rightarrow> u32 OpcUaArray \<Rightarrow> u32 OpcUaArray" where
  "AcknowledgementManager_availableSequenceNumbers am numbers =
     (if length (am_list am) = 0 then numbers
      else fold (\<lambda>el a. snd (OpcUaArray_push_back (ae_sequenceNumber el) a)) (am_list am)
             (OpcUaArray_resize 0 (length (am_list am)) numbers))"

lemmas ack_defs = AcknowledgementManager_new_def AcknowledgementManager_nextSequenceNumber_def
  AcknowledgementManager_addNotification_def AcknowledgementManager_deleteNotification_def
  AcknowledgementManager_getNotification_def AcknowledgementManager_firstNotification_def
  AcknowledgementManager_actSequenceNumber_def

section \<open>The numbers\<close>

text \<open>The successor of a number skips zero.\<close>

definition seq_succ :: "u32 \<Rightarrow> u32" where
  "seq_succ n = (if n + 1 = 0 then 1 else n + 1)"

definition numbering :: "'n AcknowledgementManager \<Rightarrow> u32 \<Rightarrow> bool" where
  "numbering am n \<longleftrightarrow> am_sequenceNumber am = (if am_keepalive am then seq_succ n else n)"

lemma next_number:
  assumes "numbering am n"
  shows "fst (AcknowledgementManager_nextSequenceNumber k am) = seq_succ n"
    and "numbering (snd (AcknowledgementManager_nextSequenceNumber k am)) (if k then n else seq_succ n)"
  using assms by (auto simp: numbering_def AcknowledgementManager_nextSequenceNumber_def seq_succ_def Let_def)

lemma seq_succ_nonzero [simp]: "seq_succ n \<noteq> 0"
  by (simp add: seq_succ_def)

lemma next_number_frame [simp]:
  "am_list (snd (AcknowledgementManager_nextSequenceNumber k am)) = am_list am"
  "am_maxListSize (snd (AcknowledgementManager_nextSequenceNumber k am)) = am_maxListSize am"
  by (simp_all add: AcknowledgementManager_nextSequenceNumber_def Let_def)

fun AcknowledgementManager_numbers ::
  "bool list \<Rightarrow> 'n AcknowledgementManager \<Rightarrow> u32 list" where
  "AcknowledgementManager_numbers [] am = []"
| "AcknowledgementManager_numbers (k # ks) am =
     (let (n, am) = AcknowledgementManager_nextSequenceNumber k am
      in n # AcknowledgementManager_numbers ks am)"

fun counter_numbers :: "bool list \<Rightarrow> u32 \<Rightarrow> u32 list" where
  "counter_numbers [] n = []"
| "counter_numbers (k # ks) n = seq_succ n # counter_numbers ks (if k then n else seq_succ n)"

lemma numbers_refine:
  "numbering am n \<Longrightarrow> AcknowledgementManager_numbers ks am = counter_numbers ks n"
proof (induction ks arbitrary: am n)
  case (Cons k ks)
  show ?case
    using Cons.IH [OF next_number(2) [OF Cons.prems, of k]] next_number(1) [OF Cons.prems, of k]
    by (simp add: case_prod_beta Let_def)
qed simp

lemma numbering_new [simp]: "numbering AcknowledgementManager_new 0"
  by (simp add: numbering_def AcknowledgementManager_new_def)

section \<open>The queue of unacknowledged notifications\<close>

text \<open>
  What a subscription does with the manager: it sends a notification message under the next
  number and keeps it, it sends a keepalive message, it drops a message the client acknowledged.
\<close>

datatype 'n ack_command = Notify 'n | Keepalive | Acknowledge u32

fun ack_step :: "'n ack_command \<Rightarrow> 'n AcknowledgementManager \<Rightarrow> 'n AcknowledgementManager option" where
  "ack_step (Notify x) am =
     (let (n, am) = AcknowledgementManager_nextSequenceNumber False am
      in Some (AcknowledgementManager_addNotification n x am))"
| "ack_step Keepalive am = Some (snd (AcknowledgementManager_nextSequenceNumber True am))"
| "ack_step (Acknowledge n) am = Some (AcknowledgementManager_deleteNotification n am)"

fun notified :: "'n ack_command list \<Rightarrow> 'n list" where
  "notified [] = []"
| "notified (Notify x # cs) = x # notified cs"
| "notified (_ # cs) = notified cs"

text \<open>The state after a history of notifications, while the number has not wrapped round.\<close>

definition ack_bounded :: "'n AcknowledgementManager \<Rightarrow> bool" where
  "ack_bounded am \<longleftrightarrow> am_maxListSize am = 20 \<and> length (am_list am) \<le> 20"

definition ack_good :: "'n list \<Rightarrow> 'n AcknowledgementManager \<Rightarrow> bool" where
  "ack_good h am \<longleftrightarrow>
     numbering am (word_of_nat (length h))
     \<and> am_maxListSize am = 20 \<and> length (am_list am) \<le> 20
     \<and> sorted_wrt (<) (map ae_sequenceNumber (am_list am))
     \<and> (\<forall>el \<in> set (am_list am). 0 < unat (ae_sequenceNumber el)
            \<and> unat (ae_sequenceNumber el) \<le> length h
            \<and> ae_notification el = h ! (unat (ae_sequenceNumber el) - 1))"

lemma seq_succ_small:
  assumes "c < 2 ^ 32 - 1"
  shows "seq_succ (word_of_nat c) = word_of_nat (Suc c)"
    and "unat (word_of_nat (Suc c) :: u32) = Suc c"
proof -
  show u: "unat (word_of_nat (Suc c) :: u32) = Suc c"
    using assms by (simp only: unat_of_nat) simp
  have e: "word_of_nat c + 1 = (word_of_nat (Suc c) :: u32)" by simp
  have "(word_of_nat (Suc c) :: u32) \<noteq> 0" by (metis u nat.distinct(1) unsigned_0)
  then show "seq_succ (word_of_nat c) = word_of_nat (Suc c)"
    unfolding seq_succ_def e by simp
qed

lemma erase_subset: "set (AcknowledgementList_erase n els) \<subseteq> set els"
  by (induction els) auto

lemma erase_length: "length (AcknowledgementList_erase n els) \<le> length els"
  by (induction els) auto

lemma erase_sorted:
  "sorted_wrt (<) (map ae_sequenceNumber els)
     \<Longrightarrow> sorted_wrt (<) (map ae_sequenceNumber (AcknowledgementList_erase n els))"
proof (induction els)
  case (Cons el els)
  then show ?case using erase_subset [of n els] by auto
qed simp

lemma erase_keeps: "el \<in> set els \<Longrightarrow> ae_sequenceNumber el \<noteq> n \<Longrightarrow> el \<in> set (AcknowledgementList_erase n els)"
  by (induction els) auto

lemma ack_get_iff:
  "sorted_wrt (<) (map ae_sequenceNumber els) \<Longrightarrow>
     AcknowledgementList_get n els = Some x \<longleftrightarrow>
       (\<exists>el \<in> set els. ae_sequenceNumber el = n \<and> ae_notification el = x)"
  by (induction els) auto

lemma ack_good_new: "ack_good [] AcknowledgementManager_new"
  by (simp add: ack_good_def) (simp add: AcknowledgementManager_new_def)

lemma ack_good_delete: "ack_good h am \<Longrightarrow> ack_good h (AcknowledgementManager_deleteNotification n am)"
  using erase_subset [of n "am_list am"] erase_length [of n "am_list am"]
  by (auto simp: ack_good_def numbering_def AcknowledgementManager_deleteNotification_def erase_sorted)

lemma ack_good_keepalive:
  "ack_good h am \<Longrightarrow> ack_good h (snd (AcknowledgementManager_nextSequenceNumber True am))"
  using next_number(2) [of am _ True] by (auto simp: ack_good_def)

interpretation ack: total_machine AcknowledgementManager_new ack_step ack_bounded
proof
  show "ack_bounded AcknowledgementManager_new"
    by (simp add: ack_bounded_def AcknowledgementManager_new_def)
  show "ack_step c am \<noteq> None" for c and am :: "'n AcknowledgementManager"
    by (cases c) (auto simp: case_prod_beta)
  show "ack_bounded am'" if "ack_bounded am" "ack_step c am = Some am'"
    for c and am am' :: "'n AcknowledgementManager"
    using that
    by (cases c) (auto simp: ack_bounded_def case_prod_beta AcknowledgementManager_addNotification_def
        AcknowledgementManager_deleteNotification_def Let_def intro: order_trans [OF erase_length])
qed

text \<open>A notification is put at the end of the queue; the oldest one is dropped when it is full.\<close>

lemma notify_list:
  assumes "ack_good h am" and "length h < 2 ^ 32 - 1"
    and "ack_step (Notify x) am = Some am'"
  defines "el \<equiv> \<lparr>ae_sequenceNumber = word_of_nat (Suc (length h)), ae_notification = x\<rparr>"
  shows "am_list am' = (if length (am_list am) < 20 then am_list am @ [el] else tl (am_list am) @ [el])"
    and "numbering am' (word_of_nat (Suc (length h)))" and "am_maxListSize am' = 20"
proof -
  let ?n = "AcknowledgementManager_nextSequenceNumber False am"
  have num: "numbering am (word_of_nat (length h))" and len: "length (am_list am) \<le> 20"
    and max: "am_maxListSize am = 20"
    using assms(1) by (auto simp: ack_good_def)
  have n1: "fst ?n = word_of_nat (Suc (length h))"
    and n2: "numbering (snd ?n) (word_of_nat (Suc (length h)))"
    using next_number [OF num, of False] seq_succ_small(1) [OF assms(2)] by simp_all
  have am': "am' = AcknowledgementManager_addNotification (word_of_nat (Suc (length h))) x (snd ?n)"
    using assms(3) n1 by (simp add: case_prod_beta)
  show "am_list am' = (if length (am_list am) < 20 then am_list am @ [el] else tl (am_list am) @ [el])"
    using am' len max
    by (cases "am_list am") (auto simp: AcknowledgementManager_addNotification_def el_def Let_def)
  show "numbering am' (word_of_nat (Suc (length h)))" "am_maxListSize am' = 20"
    using am' n2 max
    by (auto simp: AcknowledgementManager_addNotification_def Let_def numbering_def)
qed

lemma set_tl_subset: "set (tl xs) \<subseteq> set xs"
  by (cases xs) auto

lemma sorted_wrt_tl: "sorted_wrt R xs \<Longrightarrow> sorted_wrt R (tl xs)"
  by (cases xs) auto

lemma ack_good_notify:
  assumes good: "ack_good h am" and h: "length h < 2 ^ 32 - 1"
    and step: "ack_step (Notify x) am = Some am'"
  shows "ack_good (h @ [x]) am'"
proof -
  define el where "el = \<lparr>ae_sequenceNumber = (word_of_nat (Suc (length h)) :: u32), ae_notification = x\<rparr>"
  note l = notify_list [OF good h step, folded el_def]
  have u: "unat (ae_sequenceNumber el) = Suc (length h)"
    unfolding el_def using seq_succ_small(2) [OF h] by simp
  define els where "els = (if length (am_list am) < 20 then am_list am else tl (am_list am))"
  have els: "am_list am' = els @ [el]" "set els \<subseteq> set (am_list am)" "length els < 20"
    "sorted_wrt (<) (map ae_sequenceNumber els)"
    using l(1) good set_tl_subset [of "am_list am"]
    by (auto simp: els_def ack_good_def map_tl sorted_wrt_tl split: if_splits)
  have old: "\<forall>a \<in> set els. 0 < unat (ae_sequenceNumber a) \<and> unat (ae_sequenceNumber a) \<le> length h
            \<and> ae_notification a = h ! (unat (ae_sequenceNumber a) - 1)"
    using els(2) good by (auto simp: ack_good_def)
  then have lt: "\<forall>a \<in> set els. ae_sequenceNumber a < ae_sequenceNumber el"
    using u by (auto simp: word_less_nat_alt)
  have "unat (ae_sequenceNumber a) - 1 < length h" if "a \<in> set els" for a
    using old that by fastforce
  then have "\<forall>a \<in> set (els @ [el]). 0 < unat (ae_sequenceNumber a)
      \<and> unat (ae_sequenceNumber a) \<le> length (h @ [x])
      \<and> ae_notification a = (h @ [x]) ! (unat (ae_sequenceNumber a) - 1)"
    using old u by (auto simp: nth_append el_def)
  then show ?thesis
    unfolding ack_good_def els(1) using l(2,3) els(3,4) lt by (simp add: sorted_wrt_append)
qed

lemma ack_good_step:
  assumes "ack_good h am" and "length h + length (notified [c]) < 2 ^ 32" and "ack_step c am = Some am'"
  shows "ack_good (h @ notified [c]) am'"
  using assms ack_good_notify [of h am _ am'] ack_good_keepalive [of h am] ack_good_delete [of h am]
  by (cases c) (auto simp: Let_def)

lemma notified_append [simp]: "notified (cs @ ds) = notified cs @ notified ds"
proof (induction cs)
  case (Cons c cs) then show ?case by (cases c) auto
qed simp

lemma notified_Cons: "notified (c # cs) = notified [c] @ notified cs"
  by (cases c) auto

lemma ack_good_run:
  assumes "ack_good h am" and "length h + length (notified cs) < 2 ^ 32"
    and "run_commands ack_step cs am = Some am'"
  shows "ack_good (h @ notified cs) am'"
  using assms
proof (induction cs arbitrary: h am)
  case (Cons c cs)
  obtain am1 where s: "ack_step c am = Some am1" "run_commands ack_step cs am1 = Some am'"
    using Cons.prems(3) by (auto split: bind_splits)
  have "ack_good (h @ notified [c]) am1"
    using ack_good_step [OF Cons.prems(1) _ s(1)] Cons.prems(2) notified_Cons [of c cs] by simp
  from Cons.IH [OF this _ s(2)] show ?case
    using Cons.prems(2) notified_Cons [of c cs] by simp
qed simp

text \<open>An element stays in the queue while fewer than twenty notifications follow it.\<close>

lemma full_queue_old_head:
  assumes "sorted_wrt (<) (map ae_sequenceNumber (el # els))"
    and "\<forall>a \<in> set (el # els). unat (ae_sequenceNumber a) \<le> c"
  shows "unat (ae_sequenceNumber el) + length els \<le> c"
  using assms
proof (induction els arbitrary: el)
  case (Cons b els)
  have "unat (ae_sequenceNumber b) + length els \<le> c" using Cons by simp
  moreover have "unat (ae_sequenceNumber el) < unat (ae_sequenceNumber b)"
    using Cons.prems by (simp add: word_less_nat_alt)
  ultimately show ?case by simp
qed simp

lemma notify_keeps:
  assumes good: "ack_good h am" and h: "length h < 2 ^ 32 - 1"
    and step: "ack_step (Notify x) am = Some am'"
    and el: "el \<in> set (am_list am)" "length h < unat (ae_sequenceNumber el) + 19"
  shows "el \<in> set (am_list am')"
proof (cases "length (am_list am) < 20")
  case True
  then show ?thesis using notify_list(1) [OF good h step] el by simp
next
  case False
  then obtain a as where as: "am_list am = a # as" "length as = 19"
    using good by (cases "am_list am") (auto simp: ack_good_def)
  have "unat (ae_sequenceNumber a) + 19 \<le> length h"
    using full_queue_old_head [of a as "length h"] good as by (auto simp: ack_good_def)
  with el have "el \<noteq> a" by auto
  then show ?thesis using notify_list(1) [OF good h step] el as False by simp
qed

lemma run_keeps:
  assumes "ack_good h am" and "length h + length (notified cs) < 2 ^ 32"
    and "run_commands ack_step cs am = Some am'"
    and "el \<in> set (am_list am)" and "length h + length (notified cs) < unat (ae_sequenceNumber el) + 20"
    and "Acknowledge (ae_sequenceNumber el) \<notin> set cs"
  shows "el \<in> set (am_list am')"
  using assms
proof (induction cs arbitrary: h am)
  case (Cons c cs)
  obtain am1 where s: "ack_step c am = Some am1" "run_commands ack_step cs am1 = Some am'"
    using Cons.prems(3) by (auto split: bind_splits)
  have good: "ack_good (h @ notified [c]) am1"
    using ack_good_step [OF Cons.prems(1) _ s(1)] Cons.prems(2) notified_Cons [of c cs] by simp
  have "el \<in> set (am_list am1)"
  proof (cases c)
    case (Notify x)
    then show ?thesis using notify_keeps [OF Cons.prems(1) _ _ Cons.prems(4)] s(1) Cons.prems by simp
  next
    case Keepalive
    then show ?thesis using s(1) Cons.prems(4) by auto
  next
    case (Acknowledge n)
    then show ?thesis using s(1) Cons.prems(4,6) erase_keeps
      by (auto simp: AcknowledgementManager_deleteNotification_def)
  qed
  from Cons.IH [OF good _ s(2) this] show ?case
    using Cons.prems notified_Cons [of c cs] by simp
qed simp

lemma available_list:
  "am_list am \<noteq> [] \<Longrightarrow>
     OpcUaArray_list (AcknowledgementManager_availableSequenceNumbers am a) = map ae_sequenceNumber (am_list am)"
  using array_buffer.push_all_fits
    [of "OpcUaArray_resize 0 (length (am_list am)) a" "map ae_sequenceNumber (am_list am)"]
  by (simp add: AcknowledgementManager_availableSequenceNumbers_def fold_map comp_def)

lemma ack_get_erased:
  "sorted_wrt (<) (map ae_sequenceNumber els) \<Longrightarrow>
     AcknowledgementList_get n (AcknowledgementList_erase n els) = None"
proof (induction els)
  case (Cons el els)
  have "AcknowledgementList_get n els = None" if "ae_sequenceNumber el = n"
    using ack_get_iff [of els n] Cons.prems that
    by (cases "AcknowledgementList_get n els") (auto, metis order_less_irrefl)
  then show ?case using Cons by auto
qed simp

section \<open>Properties\<close>

text \<open>
  C3: The sequence numbers of a subscription follow the abstract counter, for every
  sequence of notification and keepalive messages, wrap-around included: the first notification has
  number 1, each notification has the successor of the number of the one before (the successor of
  the largest number is 1, zero is never used), and a keepalive message carries the number of the
  notification that will follow it.
\<close>

theorem acknowledgement_numbers_refine_counter:
  "AcknowledgementManager_numbers ks (AcknowledgementManager_new :: 'n AcknowledgementManager)
     = counter_numbers ks 0"
  by (rule numbers_refine) simp

text \<open>
  C20: A notification that was sent and not acknowledged can be fetched again under
  its number (its position in the sequence of notifications) as long as fewer than twenty
  notifications were sent after it, whatever keepalives and acknowledgements of other numbers came
  in between.
\<close>

theorem unacknowledged_notification_available:
  assumes "run_commands ack_step (cs @ Notify x # ds) AcknowledgementManager_new = Some am"
    and "length (notified (cs @ Notify x # ds)) < 2 ^ 32"
    and "length (notified ds) < 20"
    and "Acknowledge (word_of_nat (Suc (length (notified cs)))) \<notin> set ds"
  shows "AcknowledgementManager_getNotification (word_of_nat (Suc (length (notified cs)))) am = Some x"
proof -
  define el where
    "el = \<lparr>ae_sequenceNumber = (word_of_nat (Suc (length (notified cs))) :: u32), ae_notification = x\<rparr>"
  obtain am1 am2 where r: "run_commands ack_step cs AcknowledgementManager_new = Some am1"
      "ack_step (Notify x) am1 = Some am2" "run_commands ack_step ds am2 = Some am"
    using assms(1) by (auto simp: run_commands_append split: bind_splits)
  have g1: "ack_good (notified cs) am1"
    using ack_good_run [OF ack_good_new _ r(1)] assms(2) by simp
  have g2: "ack_good (notified cs @ [x]) am2"
    using ack_good_notify [OF g1 _ r(2)] assms(2) by simp
  have g: "ack_good (notified cs @ [x] @ notified ds) am"
    using ack_good_run [OF g2 _ r(3)] assms(2) by simp
  have u: "unat (ae_sequenceNumber el) = Suc (length (notified cs))"
    unfolding el_def using seq_succ_small(2) [of "length (notified cs)"] assms(2) by simp
  have "el \<in> set (am_list am2)"
    using notify_list(1) [OF g1 _ r(2), folded el_def] assms(2) by simp
  then have "el \<in> set (am_list am)"
    using run_keeps [OF g2 _ r(3)] assms(2,3,4) u by (simp add: el_def)
  then show ?thesis
    using g ack_get_iff [of "am_list am" "ae_sequenceNumber el" x]
    unfolding AcknowledgementManager_getNotification_def ack_good_def
    by (metis (no_types) AcknowledgementElement.select_convs el_def)
qed

theorem unacknowledged_notification_available_witness:
  "let cs = [Notify ''a'', Keepalive]; ds = [Notify ''c'', Acknowledge 1, Keepalive];
       am = the (run_commands ack_step (cs @ Notify ''b'' # ds) AcknowledgementManager_new)
   in AcknowledgementManager_getNotification 2 am = Some ''b''"
proof -
  let ?am = "the (run_commands ack_step ([Notify ''a'', Keepalive] @ Notify ''b'' #
      [Notify ''c'', Acknowledge 1, Keepalive]) AcknowledgementManager_new)"
  have "run_commands ack_step ([Notify ''a'', Keepalive] @ Notify ''b'' #
      [Notify ''c'', Acknowledge 1, Keepalive]) AcknowledgementManager_new = Some ?am"
    using ack.never_stuck by (metis option.sel)
  from unacknowledged_notification_available [OF this] show ?thesis by simp
qed

text \<open>
  C21: The queue of unacknowledged notifications never holds more than twenty
  messages; the numbers it reports to the client are increasing, without repetition, and each lies
  between 1 and the number of notifications sent; a message fetched under a number is the one that
  was sent under it; and a number that was acknowledged yields nothing any more.
\<close>

theorem acknowledgement_queue_sound:
  assumes "run_commands ack_step cs AcknowledgementManager_new = Some am"
    and "length (notified cs) < 2 ^ 32"
  shows "length (am_list am) \<le> 20
    \<and> (am_list am \<noteq> [] \<longrightarrow> sorted_wrt (<) (OpcUaArray_list
           (AcknowledgementManager_availableSequenceNumbers am (OpcUaArray_new 0 0))))
    \<and> (\<forall>n x. AcknowledgementManager_getNotification n am = Some x \<longrightarrow>
           0 < unat n \<and> unat n \<le> length (notified cs) \<and> x = notified cs ! (unat n - 1))
    \<and> (\<forall>n. AcknowledgementManager_getNotification n (AcknowledgementManager_deleteNotification n am) = None)"
proof (intro conjI allI impI)
  have g: "ack_good (notified cs) am"
    using ack_good_run [OF ack_good_new _ assms(1)] assms(2) by simp
  show "length (am_list am) \<le> 20" using g by (simp add: ack_good_def)
  show "sorted_wrt (<) (OpcUaArray_list
      (AcknowledgementManager_availableSequenceNumbers am (OpcUaArray_new 0 0)))" if "am_list am \<noteq> []"
    using g that by (simp add: available_list ack_good_def)
  fix n
  show "AcknowledgementManager_getNotification n (AcknowledgementManager_deleteNotification n am) = None"
    using g ack_get_erased [of "am_list am" n]
    by (simp add: ack_good_def AcknowledgementManager_getNotification_def
        AcknowledgementManager_deleteNotification_def)
  fix x
  assume "AcknowledgementManager_getNotification n am = Some x"
  then have "0 < unat n \<and> unat n \<le> length (notified cs) \<and> x = notified cs ! (unat n - 1)"
    using g ack_get_iff [of "am_list am" n x]
    by (auto simp: ack_good_def AcknowledgementManager_getNotification_def)
  then show "0 < unat n" "unat n \<le> length (notified cs)" "x = notified cs ! (unat n - 1)" by auto
qed

theorem acknowledgement_queue_sound_witness:
  "let am = the (run_commands ack_step [Notify ''a'', Keepalive, Notify ''b''] AcknowledgementManager_new)
   in length (am_list am) \<le> 20 \<and> ''b'' = [''a'', ''b''] ! (unat (2 :: u32) - 1)
      \<and> sorted_wrt (<) (OpcUaArray_list
           (AcknowledgementManager_availableSequenceNumbers am (OpcUaArray_new 0 0)))
      \<and> AcknowledgementManager_getNotification 2
           (AcknowledgementManager_deleteNotification 2 am) = None"
proof -
  let ?cs = "[Notify ''a'', Keepalive, Notify ''b'']"
  let ?am = "the (run_commands ack_step ?cs AcknowledgementManager_new)"
  have r: "run_commands ack_step ?cs AcknowledgementManager_new = Some ?am"
    using ack.never_stuck by (metis option.sel)
  have l: "length (notified ?cs) < 2 ^ 32" by simp
  have ne: "am_list ?am \<noteq> []" "AcknowledgementManager_getNotification 2 ?am = Some ''b''"
    by (simp_all add: ack_defs Let_def)
  show ?thesis
    using acknowledgement_queue_sound [OF r l] ne by (simp only: Let_def) simp
qed

text \<open>
  Fetching the oldest unacknowledged notification rewinds the counter: after
  \<^verbatim>\<open>firstNotification\<close> the next notification is sent under the number that follows the oldest
  unacknowledged one.  With two messages outstanding that number is in use already, so that the two
  messages cannot be told apart and the later one cannot be fetched.
\<close>

theorem firstNotification_rewinds_counter:
  "let am = the (run_commands ack_step [Notify a, Notify b] AcknowledgementManager_new);
       am = snd (AcknowledgementManager_firstNotification am);
       am = the (ack_step (Notify c) am)
   in map ae_sequenceNumber (am_list am) = [1, 2, 2]
      \<and> AcknowledgementManager_getNotification 2 am = Some b
      \<and> AcknowledgementManager_getNotification 3 am = None"
  by (simp add: ack_defs Let_def)

end
