(* ===== verification/InformationModel.thy ===== *)
theory InformationModel
  imports AttributeAccess
begin

text \<open>
  The address space (\<^verbatim>\<open>InformationModel/InformationModel.cpp\<close>, \<^verbatim>\<open>InformationModelAccess.cpp\<close>):
  nodes by node identifier, with their attributes and references.

  Nodes are shared objects, so the map leads to a pointer and the heap from the pointer to the
  node.  A pointer without an object is an expired one (the map holds the only lasting pointer to a
  node, removing the node destroys it); dereferencing it is \<^term>\<open>None\<close>.
\<close>

type_synonym node_ptr = nat

record 'e InformationModel =
  im_map :: "(OpcUaNodeIdBase, node_ptr) cmap"
  im_heap :: "node_ptr \<Rightarrow> 'e BaseNodeClass option"

definition InformationModel_new :: "'e InformationModel" where
  "InformationModel_new = \<lparr>im_map = [], im_heap = (\<lambda>_. None)\<rparr>"

definition BaseNodeClass_nodeId :: "'e BaseNodeClass \<Rightarrow> OpcUaNodeIdBase" where
  "BaseNodeClass_nodeId n =
     (case node_attribute n 1 of
        Some a \<Rightarrow> (case attr_data a of NodeIdAttribute i \<Rightarrow> i | _ \<Rightarrow> OpcUaNodeIdBase_new)
      | None \<Rightarrow> OpcUaNodeIdBase_new)"

definition AttributeBase_getNodeId :: "'e BaseNodeClass \<Rightarrow> OpcUaNodeIdBase option" where
  "AttributeBase_getNodeId n =
     (case node_attribute n 1 of
        Some a \<Rightarrow> if attr_exist a then Some (BaseNodeClass_nodeId n) else None
      | None \<Rightarrow> None)"

definition InformationModel_find :: "OpcUaNodeIdBase \<Rightarrow> 'e InformationModel \<Rightarrow> node_ptr option" where
  "InformationModel_find i im = table_find i (im_map im)"

text \<open>\<open>p\<close> is the pointer of the new node; the node is destroyed when its identifier is taken.\<close>

definition InformationModel_insert ::
  "node_ptr \<Rightarrow> 'e BaseNodeClass \<Rightarrow> 'e InformationModel \<Rightarrow> bool \<times> 'e InformationModel" where
  "InformationModel_insert p n im =
     (let (b, m) = cmap_insert OpcUaNodeIdBase_less (BaseNodeClass_nodeId n) p (im_map im)
      in (b, if b then im\<lparr>im_map := m, im_heap := (im_heap im)(p \<mapsto> n)\<rparr> else im))"

definition InformationModel_remove :: "OpcUaNodeIdBase \<Rightarrow> 'e InformationModel \<Rightarrow> bool \<times> 'e InformationModel" where
  "InformationModel_remove i im =
     (case table_find i (im_map im) of
        None \<Rightarrow> (False, im)
      | Some p \<Rightarrow> (True, im\<lparr>im_map := cmap_erase OpcUaNodeIdBase_less i (im_map im),
                         im_heap := (im_heap im)(p := None)\<rparr>))"

definition InformationModel_size :: "'e InformationModel \<Rightarrow> u32" where
  "InformationModel_size im = word_of_nat (length (im_map im))"

section \<open>Reading and writing values\<close>

definition InformationModel_put :: "node_ptr \<Rightarrow> nat \<Rightarrow> 'e Attribute \<Rightarrow> 'e InformationModel \<Rightarrow> 'e InformationModel" where
  "InformationModel_put p attributeId a im =
     im\<lparr>im_heap := (im_heap im)(p := map_option
         (\<lambda>n. n\<lparr>node_attribute := (node_attribute n)(attributeId \<mapsto> a)\<rparr>) (im_heap im p))\<rparr>"

definition InformationModel_attribute ::
  "OpcUaNodeIdBase \<Rightarrow> nat \<Rightarrow> 'e InformationModel \<Rightarrow> (node_ptr \<times> 'e Attribute) option option" where
  "InformationModel_attribute i attributeId im =
     (case InformationModel_find i im of
        None \<Rightarrow> Some None
      | Some p \<Rightarrow> map_option (\<lambda>n. map_option (\<lambda>a. (p, a)) (node_attribute n attributeId)) (im_heap im p))"

definition InformationModel_setDataValue ::
  "'e ExtensionObjectBase \<Rightarrow> 'e ExtensionObjectMap \<Rightarrow> OpcUaNodeIdBase \<Rightarrow> nat \<Rightarrow> 'e OpcUaDataValue
     \<Rightarrow> 'e InformationModel \<Rightarrow> (bool \<times> 'e InformationModel) option" where
  "InformationModel_setDataValue ops reg i attributeId dataValue im = do {
     r \<leftarrow> InformationModel_attribute i attributeId im;
     (case r of
        None \<Rightarrow> Some (False, im)
      | Some (p, a) \<Rightarrow> do {
          (b, a) \<leftarrow> AttributeAccess_copy_fromDataValue ops reg dataValue a;
          Some (b, InformationModel_put p attributeId a im) }) }"

definition InformationModel_setVariant ::
  "'e ExtensionObjectBase \<Rightarrow> 'e ExtensionObjectMap \<Rightarrow> OpcUaNodeIdBase \<Rightarrow> nat \<Rightarrow> 'e OpcUaVariant
     \<Rightarrow> 'e InformationModel \<Rightarrow> (bool \<times> 'e InformationModel) option" where
  "InformationModel_setVariant ops reg i attributeId variant im = do {
     r \<leftarrow> InformationModel_attribute i attributeId im;
     (case r of
        None \<Rightarrow> Some (False, im)
      | Some (p, a) \<Rightarrow> do {
          (b, a) \<leftarrow> AttributeAccess_copy_fromVariant ops reg variant a;
          Some (b, InformationModel_put p attributeId a im) }) }"

definition InformationModel_getDataValue ::
  "'e ExtensionObjectBase \<Rightarrow> 'e ExtensionObjectMap \<Rightarrow> OpcUaNodeIdBase \<Rightarrow> nat \<Rightarrow> 'e OpcUaDataValue
     \<Rightarrow> 'e InformationModel \<Rightarrow> (bool \<times> 'e OpcUaDataValue) option" where
  "InformationModel_getDataValue ops reg i attributeId dataValue im = do {
     r \<leftarrow> InformationModel_attribute i attributeId im;
     (case r of
        None \<Rightarrow> Some (False, dataValue)
      | Some (p, a) \<Rightarrow> Some (True, snd (AttributeAccess_copy_toDataValue ops reg (attr_data a) dataValue))) }"

definition InformationModel_getVariant ::
  "'e ExtensionObjectBase \<Rightarrow> 'e ExtensionObjectMap \<Rightarrow> OpcUaNodeIdBase \<Rightarrow> nat \<Rightarrow> 'e OpcUaVariant
     \<Rightarrow> 'e InformationModel \<Rightarrow> (bool \<times> 'e OpcUaVariant \<times> 'e InformationModel) option" where
  "InformationModel_getVariant ops reg i attributeId variant im = do {
     r \<leftarrow> InformationModel_attribute i attributeId im;
     (case r of
        None \<Rightarrow> Some (False, variant, im)
      | Some (p, a) \<Rightarrow>
          (let (d, v) = AttributeAccess_copy_toVariant ops reg (attr_data a) variant
           in Some (True, v, InformationModel_put p attributeId (a\<lparr>attr_data := d\<rparr>) im))) }"

section \<open>Walking the references\<close>

definition InformationModel_addReference ::
  "node_ptr \<Rightarrow> OpcUaNodeIdBase \<Rightarrow> bool \<Rightarrow> OpcUaNodeIdBase \<Rightarrow> 'e InformationModel \<Rightarrow> 'e InformationModel" where
  "InformationModel_addReference p typeId isForward i im =
     im\<lparr>im_heap := (im_heap im)(p := map_option
         (\<lambda>n. n\<lparr>node_references := snd (ReferenceItemMap_add typeId isForward i (node_references n))\<rparr>) (im_heap im p))\<rparr>"

definition InformationModelAccess_getNode :: "OpcUaNodeIdBase \<Rightarrow> 'e InformationModel \<Rightarrow> node_ptr option" where
  "InformationModelAccess_getNode i im = InformationModel_find i im"

text \<open>
  The loops over the references of a node that look up the other end: the nodes found, in order, and
  \<^term>\<open>False\<close> as soon as one is missing.
\<close>

fun collect_nodes ::
  "(ReferenceItem \<Rightarrow> bool option) \<Rightarrow> ReferenceItem list \<Rightarrow> 'e InformationModel
     \<Rightarrow> (bool \<times> node_ptr list) option" where
  "collect_nodes want [] im = Some (True, [])"
| "collect_nodes want (ri # ris) im = do {
     w \<leftarrow> want ri;
     (if \<not> w then collect_nodes want ris im
      else case InformationModel_find (ri_nodeId ri) im of
             None \<Rightarrow> Some (False, [])
           | Some p \<Rightarrow> do { (b, ps) \<leftarrow> collect_nodes want ris im; Some (b, p # ps) }) }"

definition InformationModelAccess_getChild ::
  "'e BaseNodeClass \<Rightarrow> 'e InformationModel \<Rightarrow> (bool \<times> node_ptr list) option" where
  "InformationModelAccess_getChild n im = do {
     ris \<leftarrow> ReferenceItemMap_items (node_references n);
     collect_nodes (\<lambda>ri. Some (ri_isForward ri)) ris im }"

definition InformationModelAccess_getParent ::
  "'e BaseNodeClass \<Rightarrow> 'e InformationModel \<Rightarrow> (bool \<times> node_ptr list) option" where
  "InformationModelAccess_getParent n im = do {
     ris \<leftarrow> ReferenceItemMap_items (node_references n);
     collect_nodes (\<lambda>ri. Some (\<not> ri_isForward ri)) ris im }"

definition InformationModelAccess_getParentIds :: "'e BaseNodeClass \<Rightarrow> OpcUaNodeIdBase list option" where
  "InformationModelAccess_getParentIds n = do {
     ris \<leftarrow> ReferenceItemMap_items (node_references n);
     Some (map ri_nodeId (filter (\<lambda>ri. \<not> ri_isForward ri) ris)) }"

definition InformationModelAccess_getParentReference :: "'e BaseNodeClass \<Rightarrow> ReferenceItem list option" where
  "InformationModelAccess_getParentReference n = do {
     ris \<leftarrow> ReferenceItemMap_items (node_references n);
     Some (filter (\<lambda>ri. \<not> ri_isForward ri) ris) }"

definition InformationModelAccess_getChildOfType ::
  "OpcUaNodeIdBase \<Rightarrow> 'e BaseNodeClass \<Rightarrow> OpcUaNodeIdBase list option" where
  "InformationModelAccess_getChildOfType typeId n = do {
     ris \<leftarrow> ReferenceItemMap_items (node_references n);
     Some (map ri_nodeId (filter (\<lambda>ri. OpcUaNodeIdBase_equal (ri_typeId ri) typeId \<and> ri_isForward ri) ris)) }"

definition InformationModelAccess_getParentOfType ::
  "OpcUaNodeIdBase \<Rightarrow> 'e BaseNodeClass \<Rightarrow> OpcUaNodeIdBase list option" where
  "InformationModelAccess_getParentOfType typeId n = do {
     ris \<leftarrow> ReferenceItemMap_items (node_references n);
     Some (map ri_nodeId (filter (\<lambda>ri. OpcUaNodeIdBase_equal (ri_typeId ri) typeId \<and> \<not> ri_isForward ri) ris)) }"

section \<open>Types\<close>

text \<open>
  \<^verbatim>\<open>getType\<close> tests that there is a type definition and then takes the first forward reference
  of any type; the overload that looks up the node takes the last one.
\<close>

definition InformationModelAccess_getTypeId :: "'e BaseNodeClass \<Rightarrow> OpcUaNodeIdBase \<Rightarrow> (bool \<times> OpcUaNodeIdBase) option" where
  "InformationModelAccess_getTypeId n typeNodeId =
     (if ReferenceItemMap_equal_range (nodeId0 40) (node_references n) = [] then Some (False, typeNodeId)
      else do {
        ris \<leftarrow> ReferenceItemMap_items (node_references n);
        Some (True, case filter ri_isForward ris of
                [] \<Rightarrow> typeNodeId
              | ri # _ \<Rightarrow> OpcUaNodeIdBase_copyTo (ri_nodeId ri) typeNodeId) })"

definition InformationModelAccess_getType ::
  "'e BaseNodeClass \<Rightarrow> 'e InformationModel \<Rightarrow> (bool \<times> node_ptr option) option" where
  "InformationModelAccess_getType n im =
     (if ReferenceItemMap_equal_range (nodeId0 40) (node_references n) = [] then Some (False, None)
      else do {
        ris \<leftarrow> ReferenceItemMap_items (node_references n);
        (b, ps) \<leftarrow> collect_nodes (\<lambda>ri. Some (ri_isForward ri)) ris im;
        Some (b, if \<not> b \<or> ps = [] then None else Some (last ps)) })"

text \<open>
  The supertype: the overload that looks up the node takes the first inverse reference of any type;
  the overload for the identifier looks only at the subtype references, and also succeeds without
  finding an inverse one.
\<close>

definition InformationModelAccess_getSubType ::
  "'e BaseNodeClass \<Rightarrow> 'e InformationModel \<Rightarrow> node_ptr option option" where
  "InformationModelAccess_getSubType n im =
     (let nodeId = (case AttributeBase_getNodeId n of None \<Rightarrow> OpcUaNodeIdBase_new | Some i \<Rightarrow> i)
      in if \<exists>i \<in> {58, 24, 2041, 31, 62}. OpcUaNodeIdBase_equal nodeId (nodeId0 i) then Some None
         else if ReferenceItemMap_equal_range (nodeId0 45) (node_references n) = [] then Some None
         else do {
           ris \<leftarrow> ReferenceItemMap_items (node_references n);
           Some (case filter (\<lambda>ri. \<not> ri_isForward ri) ris of
                   [] \<Rightarrow> None
                 | ri # _ \<Rightarrow> InformationModel_find (ri_nodeId ri) im) })"

definition InformationModelAccess_getSubTypeId ::
  "'e BaseNodeClass \<Rightarrow> OpcUaNodeIdBase \<Rightarrow> bool \<times> OpcUaNodeIdBase" where
  "InformationModelAccess_getSubTypeId n subTypeNodeId =
     (let range = ReferenceItemMap_equal_range (nodeId0 45) (node_references n)
      in if range = [] then (False, subTypeNodeId)
         else (True, case filter (\<lambda>ri. \<not> ri_isForward ri) range of
                       [] \<Rightarrow> subTypeNodeId
                     | ri # _ \<Rightarrow> OpcUaNodeIdBase_copyTo (ri_nodeId ri) subTypeNodeId))"

definition InformationModelAccess_isReferenceHierarchically0 :: "OpcUaNodeIdBase \<Rightarrow> bool" where
  "InformationModelAccess_isReferenceHierarchically0 i =
     (case nodeIdValue i of
        NodeIdNumeric n \<Rightarrow> n \<in> {33, 36, 34, 35, 48, 44, 45, 46, 47, 49}
      | _ \<Rightarrow> False)"

text \<open>The recursions along the supertypes: \<^term>\<open>None\<close> is a recursion that does not end.\<close>

partial_function (option) InformationModelAccess_isReferenceHierarchicallyNode ::
  "'e InformationModel \<Rightarrow> node_ptr \<Rightarrow> bool option" where
  "InformationModelAccess_isReferenceHierarchicallyNode im p = do {
     n \<leftarrow> im_heap im p;
     (case AttributeBase_getNodeId n of
        None \<Rightarrow> Some False
      | Some i \<Rightarrow>
          (if namespaceIndex i = 0 then Some (InformationModelAccess_isReferenceHierarchically0 i)
           else do {
             r \<leftarrow> InformationModelAccess_getSubType n im;
             (case r of None \<Rightarrow> Some False
                      | Some q \<Rightarrow> InformationModelAccess_isReferenceHierarchicallyNode im q) })) }"

definition InformationModelAccess_isReferenceHierarchically ::
  "OpcUaNodeIdBase \<Rightarrow> 'e InformationModel \<Rightarrow> bool option" where
  "InformationModelAccess_isReferenceHierarchically i im =
     (if namespaceIndex i = 0 then Some (InformationModelAccess_isReferenceHierarchically0 i)
      else case InformationModelAccess_getNode i im of
             None \<Rightarrow> Some False
           | Some p \<Rightarrow> InformationModelAccess_isReferenceHierarchicallyNode im p)"

definition InformationModelAccess_getChildHierarchically ::
  "'e BaseNodeClass \<Rightarrow> 'e InformationModel \<Rightarrow> (bool \<times> node_ptr list) option" where
  "InformationModelAccess_getChildHierarchically n im = do {
     ris \<leftarrow> ReferenceItemMap_items (node_references n);
     collect_nodes (\<lambda>ri. if \<not> ri_isForward ri then Some False
                         else InformationModelAccess_isReferenceHierarchically (ri_typeId ri) im) ris im }"

definition InformationModelAccess_getChildNonHierarchically ::
  "'e BaseNodeClass \<Rightarrow> 'e InformationModel \<Rightarrow> (bool \<times> node_ptr list) option" where
  "InformationModelAccess_getChildNonHierarchically n im = do {
     ris \<leftarrow> ReferenceItemMap_items (node_references n);
     collect_nodes (\<lambda>ri. if \<not> ri_isForward ri then Some False
                         else map_option Not (InformationModelAccess_isReferenceHierarchically (ri_typeId ri) im)) ris im }"

definition InformationModelAccess_getParentHierarchically ::
  "'e BaseNodeClass \<Rightarrow> 'e InformationModel \<Rightarrow> (bool \<times> node_ptr list) option" where
  "InformationModelAccess_getParentHierarchically n im = do {
     ris \<leftarrow> ReferenceItemMap_items (node_references n);
     collect_nodes (\<lambda>ri. if ri_isForward ri then Some False
                         else InformationModelAccess_isReferenceHierarchically (ri_typeId ri) im) ris im }"

definition InformationModelAccess_getParentNonHierarchically ::
  "'e BaseNodeClass \<Rightarrow> 'e InformationModel \<Rightarrow> (bool \<times> node_ptr list) option" where
  "InformationModelAccess_getParentNonHierarchically n im = do {
     ris \<leftarrow> ReferenceItemMap_items (node_references n);
     collect_nodes (\<lambda>ri. if ri_isForward ri then Some False
                         else map_option Not (InformationModelAccess_isReferenceHierarchically (ri_typeId ri) im)) ris im }"

text \<open>
  \<^verbatim>\<open>isDataType\<close>, \<^verbatim>\<open>isObjectType\<close> and their like differ in the root only.  A node without node
  identifier makes them dereference an empty \<^verbatim>\<open>optional\<close>.
\<close>

partial_function (option) InformationModelAccess_isSubtypeOf ::
  "u32 \<Rightarrow> 'e InformationModel \<Rightarrow> node_ptr \<Rightarrow> bool option" where
  "InformationModelAccess_isSubtypeOf root im p = do {
     n \<leftarrow> im_heap im p;
     i \<leftarrow> AttributeBase_getNodeId n;
     (if OpcUaNodeIdBase_equal i (nodeId0 root) then Some True
      else (let (b, superId) = InformationModelAccess_getSubTypeId n OpcUaNodeIdBase_new
            in if \<not> b then Some False
               else case InformationModel_find superId im of
                      None \<Rightarrow> Some False
                    | Some q \<Rightarrow> InformationModelAccess_isSubtypeOf root im q)) }"

definition InformationModelAccess_isDataType :: "'e InformationModel \<Rightarrow> node_ptr \<Rightarrow> bool option" where
  "InformationModelAccess_isDataType = InformationModelAccess_isSubtypeOf 24"

definition InformationModelAccess_isDataTypeStructure :: "'e InformationModel \<Rightarrow> node_ptr \<Rightarrow> bool option" where
  "InformationModelAccess_isDataTypeStructure = InformationModelAccess_isSubtypeOf 22"

definition InformationModelAccess_isDataTypeEnum :: "'e InformationModel \<Rightarrow> node_ptr \<Rightarrow> bool option" where
  "InformationModelAccess_isDataTypeEnum = InformationModelAccess_isSubtypeOf 29"

definition InformationModelAccess_isObjectType :: "'e InformationModel \<Rightarrow> node_ptr \<Rightarrow> bool option" where
  "InformationModelAccess_isObjectType = InformationModelAccess_isSubtypeOf 58"

definition InformationModelAccess_isVariableType :: "'e InformationModel \<Rightarrow> node_ptr \<Rightarrow> bool option" where
  "InformationModelAccess_isVariableType = InformationModelAccess_isSubtypeOf 62"

definition InformationModelAccess_isReferences :: "'e InformationModel \<Rightarrow> node_ptr \<Rightarrow> bool option" where
  "InformationModelAccess_isReferences = InformationModelAccess_isSubtypeOf 31"

definition InformationModelAccess_isBaseEventType :: "'e InformationModel \<Rightarrow> node_ptr \<Rightarrow> bool option" where
  "InformationModelAccess_isBaseEventType = InformationModelAccess_isSubtypeOf 2041"

fun any_event_type :: "OpcUaNodeIdBase list \<Rightarrow> 'e InformationModel \<Rightarrow> bool option" where
  "any_event_type [] im = Some False"
| "any_event_type (i # is) im = do {
     b \<leftarrow> (case InformationModel_find i im of
              None \<Rightarrow> Some False
            | Some p \<Rightarrow> InformationModelAccess_isBaseEventType im p);
     (if b then Some True else any_event_type is im) }"

definition InformationModelAccess_isEventProperty :: "'e BaseNodeClass \<Rightarrow> 'e InformationModel \<Rightarrow> bool option" where
  "InformationModelAccess_isEventProperty n im = do {
     (b, typeNodeId) \<leftarrow> InformationModelAccess_getTypeId n OpcUaNodeIdBase_new;
     (if \<not> OpcUaNodeIdBase_equal typeNodeId (nodeId0 68) then Some False
      else do {
        parents \<leftarrow> InformationModelAccess_getParentIds n;
        any_event_type parents im }) }"

section \<open>Changing the address space\<close>

text \<open>
  \<^verbatim>\<open>createUniqueNodeId\<close> counts up from the value of the static counter until it finds an identifier
  that is not in use.
\<close>

partial_function (option) InformationModelAccess_createUniqueNodeId ::
  "'e InformationModel \<Rightarrow> u16 \<Rightarrow> u32 \<Rightarrow> (OpcUaNodeIdBase \<times> u32) option" where
  "InformationModelAccess_createUniqueNodeId im ns counter =
     (let nodeId = OpcUaNodeIdBase_setNumeric counter ns OpcUaNodeIdBase_new
      in case InformationModel_find nodeId im of
           None \<Rightarrow> Some (nodeId, counter + 1)
         | Some _ \<Rightarrow> InformationModelAccess_createUniqueNodeId im ns (counter + 1))"

text \<open>
  Removing a node: the references to it are collected from every node of the map and erased, then
  the node goes.  An iterator is erased by its type and the target of its item.
\<close>

definition remove_references :: "OpcUaNodeIdBase \<Rightarrow> 'e BaseNodeClass \<Rightarrow> 'e BaseNodeClass option" where
  "remove_references i n = do {
     ris \<leftarrow> ReferenceItemMap_items (node_references n);
     Some (n\<lparr>node_references :=
       fold (\<lambda>ri m. snd (ReferenceItemMap_remove (ri_typeId ri) (ri_nodeId ri) m))
         (filter (\<lambda>ri. OpcUaNodeIdBase_equal (ri_nodeId ri) i) ris) (node_references n)\<rparr>) }"

fun InformationModelAccess_remove_loop ::
  "OpcUaNodeIdBase \<Rightarrow> node_ptr list \<Rightarrow> 'e InformationModel \<Rightarrow> 'e InformationModel option" where
  "InformationModelAccess_remove_loop i [] im = Some im"
| "InformationModelAccess_remove_loop i (p # ps) im = do {
     n \<leftarrow> im_heap im p;
     n \<leftarrow> remove_references i n;
     InformationModelAccess_remove_loop i ps (im\<lparr>im_heap := (im_heap im)(p \<mapsto> n)\<rparr>) }"

definition InformationModelAccess_remove ::
  "OpcUaNodeIdBase \<Rightarrow> 'e InformationModel \<Rightarrow> (bool \<times> 'e InformationModel) option" where
  "InformationModelAccess_remove i im = do {
     im \<leftarrow> InformationModelAccess_remove_loop i (map snd (im_map im)) im;
     Some (InformationModel_remove i im) }"

definition InformationModelAccess_containsNodeIds ::
  "'e InformationModel \<Rightarrow> u16 \<Rightarrow> 'e InformationModel \<Rightarrow> bool" where
  "InformationModelAccess_containsNodeIds other ns im \<longleftrightarrow>
     list_all (\<lambda>e. namespaceIndex (fst e) \<noteq> ns \<or> InformationModelAccess_getNode (fst e) im \<noteq> None) (im_map other)"

text \<open>
  \<^verbatim>\<open>checkForwardReferences\<close> enters the opposite of every reference at its other end.  A node that
  refers to itself has that item already, so its own walk is not disturbed.
\<close>

fun forward_loop :: "OpcUaNodeIdBase \<Rightarrow> ReferenceItem list \<Rightarrow> 'e InformationModel \<Rightarrow> 'e InformationModel" where
  "forward_loop i [] im = im"
| "forward_loop i (ri # ris) im =
     (case InformationModel_find (ri_nodeId ri) im of
        None \<Rightarrow> forward_loop i ris im
      | Some q \<Rightarrow> forward_loop i ris
          (InformationModel_addReference q (ri_typeId ri) (\<not> ri_isForward ri)
             (OpcUaNodeIdBase_copyTo i OpcUaNodeIdBase_new) im))"

fun InformationModel_checkForwardReferences_loop ::
  "node_ptr list \<Rightarrow> 'e InformationModel \<Rightarrow> 'e InformationModel option" where
  "InformationModel_checkForwardReferences_loop [] im = Some im"
| "InformationModel_checkForwardReferences_loop (p # ps) im = do {
     n \<leftarrow> im_heap im p;
     ris \<leftarrow> ReferenceItemMap_items (node_references n);
     InformationModel_checkForwardReferences_loop ps (forward_loop (BaseNodeClass_nodeId n) ris im) }"

definition InformationModel_checkForwardReferences :: "'e InformationModel \<Rightarrow> 'e InformationModel option" where
  "InformationModel_checkForwardReferences im =
     InformationModel_checkForwardReferences_loop (map snd (im_map im)) im"

text \<open>
  \<^verbatim>\<open>parentChange\<close> erases the forward reference of the old parent and redirects the inverse reference
  of the node by assigning to the target of the item, which stays in its table under the old key.
\<close>

definition retarget :: "ReferenceItem \<Rightarrow> OpcUaNodeIdBase \<Rightarrow> ReferenceItemMap \<Rightarrow> ReferenceItemMap" where
  "retarget ri newId m =
     cmap_modify OpcUaNodeIdBase_less (ri_typeId ri)
       (cmap_modify OpcUaNodeIdBase_less (ri_nodeId ri) (\<lambda>ri. ri\<lparr>ri_nodeId := newId\<rparr>)) m"

definition put_references :: "node_ptr \<Rightarrow> ReferenceItemMap \<Rightarrow> 'e InformationModel \<Rightarrow> 'e InformationModel" where
  "put_references p m im =
     im\<lparr>im_heap := (im_heap im)(p := map_option (\<lambda>n. n\<lparr>node_references := m\<rparr>) (im_heap im p))\<rparr>"

definition InformationModelAccess_parentChange ::
  "node_ptr \<Rightarrow> OpcUaNodeIdBase \<Rightarrow> OpcUaNodeIdBase \<Rightarrow> 'e InformationModel \<Rightarrow> (bool \<times> 'e InformationModel) option" where
  "InformationModelAccess_parentChange p oldParent newParent im = do {
     n \<leftarrow> im_heap im p;
     nodeId \<leftarrow> AttributeBase_getNodeId n;
     (case (InformationModelAccess_getNode oldParent im, InformationModelAccess_getNode newParent im) of
        (Some old, Some new) \<Rightarrow> do {
          parent \<leftarrow> im_heap im old;
          ris \<leftarrow> ReferenceItemMap_items (node_references parent);
          (case filter (\<lambda>ri. OpcUaNodeIdBase_equal (ri_nodeId ri) nodeId \<and> ri_isForward ri) ris of
             [] \<Rightarrow> Some (False, im)
           | ri # _ \<Rightarrow> do {
               let im = put_references old (snd (ReferenceItemMap_remove (ri_typeId ri) (ri_nodeId ri) (node_references parent))) im;
               n \<leftarrow> im_heap im p;
               ris \<leftarrow> ReferenceItemMap_items (node_references n);
               let im = (case filter (\<lambda>ri. OpcUaNodeIdBase_equal (ri_nodeId ri) oldParent \<and> \<not> ri_isForward ri) ris of
                           [] \<Rightarrow> im
                         | ri # _ \<Rightarrow> put_references p (retarget ri newParent (node_references n)) im);
               Some (True, InformationModel_addReference new (nodeId0 47) True nodeId im) }) }
      | _ \<Rightarrow> Some (False, im)) }"

section \<open>The invariant of the address space\<close>

text \<open>
  The identifiers are sorted, every pointer of the map leads to a node that carries the identifier it
  is stored under, no two identifiers lead to the same node, and the references of every node are
  well formed.
\<close>

definition im_inv :: "'e InformationModel \<Rightarrow> bool" where
  "im_inv im \<longleftrightarrow> ids_sorted (im_map im) \<and> distinct (map snd (im_map im))
     \<and> (\<forall>(i, p) \<in> set (im_map im). \<exists>n. im_heap im p = Some n \<and> BaseNodeClass_nodeId n = i \<and> refs_inv (node_references n))
     \<and> (\<forall>p. im_heap im p \<noteq> None \<longrightarrow> p \<in> set (map snd (im_map im)))"

lemma im_node:
  assumes "im_inv im" and "(i, p) \<in> set (im_map im)"
  obtains n where "im_heap im p = Some n" "BaseNodeClass_nodeId n = i" "refs_inv (node_references n)"
  using assms by (force simp: im_inv_def)

lemma im_new [simp]: "im_inv InformationModel_new"
  by (simp add: im_inv_def InformationModel_new_def)

lemma im_sorted: "im_inv im \<Longrightarrow> ids_sorted (im_map im)"
  by (simp add: im_inv_def)

text \<open>Changing the node of a pointer without changing its identifier.\<close>

lemma im_inv_change:
  assumes "im_inv im" and "im_heap im p = Some n" and "BaseNodeClass_nodeId n' = BaseNodeClass_nodeId n"
    and "refs_inv (node_references n')"
  shows "im_inv (im\<lparr>im_heap := (im_heap im)(p \<mapsto> n')\<rparr>)"
  using assms by (fastforce simp: im_inv_def)

lemma im_inv_addReference:
  assumes im: "im_inv im" and ok: "id_ok typeId" "id_ok i"
  shows "im_inv (InformationModel_addReference p typeId f i im)"
proof (cases "im_heap im p")
  case None
  then have "InformationModel_addReference p typeId f i im = im"
    by (simp add: InformationModel_addReference_def fun_upd_idem)
  then show ?thesis using im by simp
next
  case (Some n)
  let ?n = "n\<lparr>node_references := snd (ReferenceItemMap_add typeId f i (node_references n))\<rparr>"
  have "p \<in> set (map snd (im_map im))" using im Some by (simp add: im_inv_def)
  then have "refs_inv (node_references n)" using im Some by (fastforce simp: im_inv_def)
  then have "refs_inv (node_references ?n)" using refs_add(1) ok by simp
  moreover have "BaseNodeClass_nodeId ?n = BaseNodeClass_nodeId n" by (simp add: BaseNodeClass_nodeId_def)
  ultimately have "im_inv (im\<lparr>im_heap := (im_heap im)(p \<mapsto> ?n)\<rparr>)"
    by (intro im_inv_change [OF im Some])
  then show ?thesis using Some by (simp add: InformationModel_addReference_def)
qed

lemma keys_insert_eq:
  "fst (cmap_insert lt k v m) \<Longrightarrow> set (snd (cmap_insert lt k v m)) = insert (k, v) (set m)"
  by (induction m) (auto simp: case_prod_beta Let_def split: if_splits)

lemma distinct_insert:
  "v \<notin> set (map snd m) \<Longrightarrow> distinct (map snd m) \<Longrightarrow> distinct (map snd (snd (cmap_insert lt k v m)))"
proof (induction m)
  case (Cons e m)
  have "set (snd (cmap_insert lt k v m)) \<subseteq> insert (k, v) (set m)"
    by (induction m) (auto simp: case_prod_beta Let_def split: if_splits)
  then show ?case using Cons by (cases e) (auto simp: case_prod_beta Let_def split: if_splits)
qed simp

lemma im_inv_insert:
  assumes im: "im_inv im" and p: "im_heap im p = None"
    and n: "id_ok (BaseNodeClass_nodeId n)" "refs_inv (node_references n)"
  shows "im_inv (snd (InformationModel_insert p n im))"
proof (cases "fst (cmap_insert OpcUaNodeIdBase_less (BaseNodeClass_nodeId n) p (im_map im))")
  case False
  then show ?thesis using im by (simp add: InformationModel_insert_def case_prod_beta)
next
  case True
  let ?m = "snd (cmap_insert OpcUaNodeIdBase_less (BaseNodeClass_nodeId n) p (im_map im))"
  have fresh: "p \<notin> set (map snd (im_map im))" using im p by (force simp: im_inv_def)
  have "ids_sorted ?m" using ids_sorted_insert [of "im_map im"] im n by (simp add: im_inv_def)
  moreover have "distinct (map snd ?m)" using distinct_insert [OF fresh] im by (simp add: im_inv_def)
  ultimately show ?thesis
    using True im fresh n keys_insert_eq [OF True]
    by (fastforce simp: InformationModel_insert_def case_prod_beta im_inv_def)
qed

lemma distinct_erase: "distinct (map snd m) \<Longrightarrow> distinct (map snd (cmap_erase lt k m))"
proof (induction m)
  case (Cons e m)
  have "set (cmap_erase lt k m) \<subseteq> set m" by (induction m) (auto split: if_splits)
  then show ?case using Cons by (cases e) (auto split: if_splits)
qed simp

lemma erased_mem:
  assumes "ids_sorted m" "id_ok i" and "(k, v) \<in> set (cmap_erase OpcUaNodeIdBase_less i m)"
  shows "(k, v) \<in> set m" and "\<not> OpcUaNodeIdBase_equal k i"
proof -
  note s = ids_sorted_erase [OF assms(1), of i]
  have "table_find k (cmap_erase OpcUaNodeIdBase_less i m) = Some v"
    by (rule table_find_mem [OF s assms(3)])
  then show "\<not> OpcUaNodeIdBase_equal k i"
    using table_find_erase [OF assms(1) ids_sorted_ok [OF s assms(3)] assms(2)] by auto
  show "(k, v) \<in> set m" using assms(3) nodeId_order.keys_erase by blast
qed

lemma kept_mem:
  assumes "ids_sorted m" "id_ok i" and "(k, v) \<in> set m" "\<not> OpcUaNodeIdBase_equal k i"
  shows "(k, v) \<in> set (cmap_erase OpcUaNodeIdBase_less i m)"
  using assms
proof (induction m)
  case (Cons e m)
  have "ids_sorted m" using Cons.prems(1) by (simp add: ids_sorted_def)
  then show ?case using Cons by (cases e) (auto simp: OpcUaNodeIdBase_equal_def)
qed simp

lemma im_inv_remove:
  assumes im: "im_inv im" and i: "id_ok i"
  shows "im_inv (snd (InformationModel_remove i im))"
proof (cases "table_find i (im_map im)")
  case None
  then show ?thesis using im by (simp add: InformationModel_remove_def)
next
  case (Some p)
  let ?m = "cmap_erase OpcUaNodeIdBase_less i (im_map im)"
  note s = im_sorted [OF im]
  obtain j where j: "OpcUaNodeIdBase_equal j i" "(j, p) \<in> set (im_map im)"
    using Some table_find_Some [OF s i] by blast
  have inj: "k = j" if "(k, p) \<in> set (im_map im)" for k
  proof -
    have "distinct (map fst (map prod.swap (im_map im)))" using im by (simp add: im_inv_def comp_def)
    moreover have "(p, k) \<in> set (map prod.swap (im_map im))" "(p, j) \<in> set (map prod.swap (im_map im))"
      using that j(2) by force+
    ultimately show ?thesis by (rule eq_key_imp_eq_value)
  qed
  have gone: "p \<notin> set (map snd ?m)" using erased_mem [OF s i] inj j(1) by force
  have kept: "q \<in> set (map snd ?m)" if "im_heap im q \<noteq> None" "q \<noteq> p" for q
  proof -
    have "q \<in> set (map snd (im_map im))" using im that(1) unfolding im_inv_def by blast
    then obtain k where k: "(k, q) \<in> set (im_map im)" by auto
    have "\<not> OpcUaNodeIdBase_equal k i"
    proof
      assume "OpcUaNodeIdBase_equal k i"
      then have "table_find i (im_map im) = Some q" using k table_find_Some [OF s i] by blast
      with Some that(2) show False by simp
    qed
    from kept_mem [OF s i k this] show ?thesis by force
  qed
  have "\<exists>n. ((im_heap im)(p := None)) q = Some n \<and> BaseNodeClass_nodeId n = k \<and> refs_inv (node_references n)"
    if "(k, q) \<in> set ?m" for k q
  proof -
    have "q \<noteq> p" using gone that by force
    then show ?thesis using im_node [OF im erased_mem(1) [OF s i that]] by auto
  qed
  then have "\<forall>(k, q) \<in> set ?m. \<exists>n. ((im_heap im)(p := None)) q = Some n \<and> BaseNodeClass_nodeId n = k
      \<and> refs_inv (node_references n)"
    by blast
  moreover have "\<forall>q. ((im_heap im)(p := None)) q \<noteq> None \<longrightarrow> q \<in> set (map snd ?m)"
    using kept by (simp del: set_map)
  moreover have "distinct (map snd ?m)" using im by (intro distinct_erase) (simp add: im_inv_def)
  ultimately show ?thesis
    using Some ids_sorted_erase [OF s, of i] by (simp add: InformationModel_remove_def im_inv_def)
qed

section \<open>Removing a node\<close>

definition without :: "OpcUaNodeIdBase \<Rightarrow> 'e BaseNodeClass \<Rightarrow> 'e BaseNodeClass" where
  "without i n = the (remove_references i n)"

lemma without_simps:
  assumes "refs_inv (node_references n)"
  shows "remove_references i n = Some (without i n)"
    and "refs_inv (node_references (without i n))"
    and "BaseNodeClass_nodeId (without i n) = BaseNodeClass_nodeId n"
    and "id_ok i \<Longrightarrow> id_ok ty \<Longrightarrow> id_ok k \<Longrightarrow> refs_find ty k (node_references (without i n)) =
      (if OpcUaNodeIdBase_equal k i then None else refs_find ty k (node_references n))"
proof -
  let ?m = "node_references n"
  let ?ris = "filter (\<lambda>ri. OpcUaNodeIdBase_equal (ri_nodeId ri) i) (refs_items ?m)"
  have ok: "\<forall>ri \<in> set ?ris. id_ok (ri_typeId ri) \<and> id_ok (ri_nodeId ri)"
    using refs_items_find [OF assms] by simp
  note all = refs_remove_all [OF assms ok]
  have r: "remove_references i n = Some (n\<lparr>node_references :=
      fold (\<lambda>ri m. snd (ReferenceItemMap_remove (ri_typeId ri) (ri_nodeId ri) m)) ?ris ?m\<rparr>)"
    by (simp add: remove_references_def items_of_refs [OF assms])
  then show "remove_references i n = Some (without i n)" by (simp add: without_def)
  show "refs_inv (node_references (without i n))" using all(1) r by (simp add: without_def)
  show "BaseNodeClass_nodeId (without i n) = BaseNodeClass_nodeId n"
    using r by (simp add: without_def BaseNodeClass_nodeId_def)
  assume k: "id_ok i" "id_ok ty" "id_ok k"
  have "(\<exists>ri \<in> set ?ris. OpcUaNodeIdBase_equal ty (ri_typeId ri) \<and> OpcUaNodeIdBase_equal k (ri_nodeId ri))
      \<longleftrightarrow> OpcUaNodeIdBase_equal k i \<and> refs_find ty k ?m \<noteq> None" (is "?L \<longleftrightarrow> ?R")
  proof
    assume ?L
    then obtain ri where ri: "ri \<in> set (refs_items ?m)" "OpcUaNodeIdBase_equal (ri_nodeId ri) i"
      "OpcUaNodeIdBase_equal ty (ri_typeId ri)" "OpcUaNodeIdBase_equal k (ri_nodeId ri)" by auto
    then have o: "id_ok (ri_typeId ri)" "id_ok (ri_nodeId ri)"
      and f: "refs_find (ri_typeId ri) (ri_nodeId ri) ?m = Some ri"
      using refs_items_find [OF assms] by blast+
    have "refs_find ty k ?m = Some ri" using refs_find_cong [OF assms k(2,3) o ri(3,4)] f by simp
    moreover have "OpcUaNodeIdBase_equal k i" by (rule equal_trans [OF k(3) o(2) k(1) ri(4,2)])
    ultimately show ?R by simp
  next
    assume ?R
    then obtain ri where f: "refs_find ty k ?m = Some ri" by blast
    note it = refs_find_item [OF assms k(2,3) f]
    have "OpcUaNodeIdBase_equal (ri_nodeId ri) i"
      using equal_trans [OF it(4) k(3,1) it(2)] \<open>?R\<close> by simp
    then show ?L using it equal_sym by auto
  qed
  then show "refs_find ty k (node_references (without i n)) =
      (if OpcUaNodeIdBase_equal k i then None else refs_find ty k ?m)"
    using all(2) [OF k(2,3)] r by (auto simp: without_def)
qed

lemma remove_loop:
  fixes i :: OpcUaNodeIdBase
  assumes "im_inv im" and "set ps \<subseteq> set (map snd (im_map im))" and "distinct ps"
  defines "im' \<equiv> im\<lparr>im_heap := (\<lambda>p. if p \<in> set ps then map_option (without i) (im_heap im p) else im_heap im p)\<rparr>"
  shows "InformationModelAccess_remove_loop i ps im = Some im'" and "im_inv im'"
proof -
  have "InformationModelAccess_remove_loop i ps im = Some (im\<lparr>im_heap :=
      (\<lambda>p. if p \<in> set ps then map_option (without i) (im_heap im p) else im_heap im p)\<rparr>)
    \<and> im_inv (im\<lparr>im_heap := (\<lambda>p. if p \<in> set ps then map_option (without i) (im_heap im p) else im_heap im p)\<rparr>)"
    using assms(1-3)
  proof (induction ps arbitrary: im)
    case (Cons p ps)
    obtain j where "(j, p) \<in> set (im_map im)" using Cons.prems(2) by auto
    then obtain n where n: "im_heap im p = Some n" "refs_inv (node_references n)"
      using im_node [OF Cons.prems(1)] by metis
    let ?im = "im\<lparr>im_heap := (im_heap im)(p \<mapsto> without i n)\<rparr>"
    have inv: "im_inv ?im"
      using im_inv_change [OF Cons.prems(1) n(1)] without_simps [OF n(2), of i] by simp
    have eq: "(\<lambda>q. if q \<in> set ps then map_option (without i) (im_heap ?im q) else im_heap ?im q)
        = (\<lambda>q. if q \<in> set (p # ps) then map_option (without i) (im_heap im q) else im_heap im q)"
      using Cons.prems(3) n(1) by auto
    show ?case
      using Cons.IH [OF inv] Cons.prems(2,3) n(1) without_simps(1) [OF n(2), of i] unfolding eq by simp
  qed simp
  then show "InformationModelAccess_remove_loop i ps im = Some im'" "im_inv im'"
    by (simp_all add: im'_def)
qed

lemma access_remove:
  assumes im: "im_inv im" and i: "id_ok i"
  defines "im1 \<equiv> im\<lparr>im_heap := \<lambda>p. map_option (without i) (im_heap im p)\<rparr>"
  shows "InformationModelAccess_remove i im = Some (InformationModel_remove i im1)"
    and "im_inv im1" and "im_map im1 = im_map im"
proof -
  have eq: "(\<lambda>p. if p \<in> set (map snd (im_map im)) then map_option (without i) (im_heap im p) else im_heap im p)
      = (\<lambda>p. map_option (without i) (im_heap im p))"
  proof
    fix p show "(if p \<in> set (map snd (im_map im)) then map_option (without i) (im_heap im p) else im_heap im p)
        = map_option (without i) (im_heap im p)"
      using im by (cases "im_heap im p") (auto simp: im_inv_def)
  qed
  have "distinct (map snd (im_map im))" using im by (simp add: im_inv_def)
  from remove_loop [OF im subset_refl this, of i, unfolded eq]
  show "InformationModelAccess_remove i im = Some (InformationModel_remove i im1)" "im_inv im1"
    by (simp_all add: InformationModelAccess_remove_def im1_def)
  show "im_map im1 = im_map im" by (simp add: im1_def)
qed

section \<open>Every reachable address space\<close>

datatype 'e im_command =
    InsertNode node_ptr "'e BaseNodeClass"
  | RemoveNode OpcUaNodeIdBase
  | AddReference node_ptr OpcUaNodeIdBase bool OpcUaNodeIdBase
  | DeleteNode OpcUaNodeIdBase

fun im_step :: "'e im_command \<Rightarrow> 'e InformationModel \<Rightarrow> 'e InformationModel option" where
  "im_step (InsertNode p n) im =
     (if im_heap im p = None \<and> id_ok (BaseNodeClass_nodeId n) \<and> node_references n = []
      then Some (snd (InformationModel_insert p n im)) else None)"
| "im_step (RemoveNode i) im = (if id_ok i then Some (snd (InformationModel_remove i im)) else None)"
| "im_step (AddReference p ty f i) im =
     (if id_ok ty \<and> id_ok i then Some (InformationModel_addReference p ty f i im) else None)"
| "im_step (DeleteNode i) im = (if id_ok i then map_option snd (InformationModelAccess_remove i im) else None)"

interpretation im: machine InformationModel_new im_step im_inv
proof
  show "im_inv InformationModel_new" by simp
  show "im_inv im'" if inv: "im_inv im" and step: "im_step c im = Some im'"
    for c and im im' :: "'e InformationModel"
  proof (cases c)
    case (InsertNode p n)
    then show ?thesis using step im_inv_insert [OF inv, of p n] by (auto simp: refs_inv_def split: if_splits)
  next
    case (RemoveNode i)
    then show ?thesis using step im_inv_remove [OF inv, of i] by (auto split: if_splits)
  next
    case (AddReference p ty f i)
    then show ?thesis using step im_inv_addReference [OF inv] by (auto split: if_splits)
  next
    case (DeleteNode i)
    then show ?thesis
      using step access_remove(1,2) [OF inv, of i] im_inv_remove by (auto split: if_splits)
  qed
qed

lemma remove_find:
  assumes im: "im_inv im" and i: "id_ok i" and j: "id_ok j"
  shows "InformationModel_find j (snd (InformationModel_remove i im))
           = (if OpcUaNodeIdBase_equal j i then None else InformationModel_find j im)"
    and "fst (InformationModel_remove i im) \<longleftrightarrow> InformationModel_find i im \<noteq> None"
  using table_find_erase [OF im_sorted [OF im] j i] table_find_cong [OF im_sorted [OF im] j i]
  by (auto simp: InformationModel_find_def InformationModel_remove_def split: option.splits)

lemma find_mem:
  assumes im: "im_inv im" and j: "id_ok j" and f: "InformationModel_find j im = Some p"
  obtains k n where "OpcUaNodeIdBase_equal k j" "(k, p) \<in> set (im_map im)" "im_heap im p = Some n"
    "BaseNodeClass_nodeId n = k" "refs_inv (node_references n)" "id_ok k"
proof -
  obtain k where k: "OpcUaNodeIdBase_equal k j" "(k, p) \<in> set (im_map im)"
    using f table_find_Some [OF im_sorted [OF im] j] by (auto simp: InformationModel_find_def)
  obtain n where n: "im_heap im p = Some n" "BaseNodeClass_nodeId n = k" "refs_inv (node_references n)"
    by (rule im_node [OF im k(2)])
  show thesis using that [OF k n ids_sorted_ok [OF im_sorted [OF im] k(2)]] .
qed

lemma remove_heap:
  "im_heap (snd (InformationModel_remove i im)) q = Some n \<Longrightarrow> im_heap im q = Some n"
  by (auto simp: InformationModel_remove_def split: option.splits if_splits)

text \<open>
  C2: Deleting a node from an address space that was built by inserting and deleting
  nodes and adding references succeeds exactly when the node was there; afterwards it is not found
  any more, every other node is still found, no node refers to it, and all other references of all
  other nodes are as they were.
\<close>

theorem delete_node_leaves_no_reference:
  assumes "reach im_step InformationModel_new im" and i: "id_ok i"
  shows "\<exists>im'. InformationModelAccess_remove i im = Some (InformationModel_find i im \<noteq> None, im')
     \<and> (\<forall>j. id_ok j \<longrightarrow> InformationModel_find j im'
            = (if OpcUaNodeIdBase_equal j i then None else InformationModel_find j im))
     \<and> (\<forall>p n'. im_heap im' p = Some n' \<longrightarrow> (\<exists>n. im_heap im p = Some n \<and> (\<forall>ty k. id_ok ty \<and> id_ok k \<longrightarrow>
            refs_find ty k (node_references n')
              = (if OpcUaNodeIdBase_equal k i then None else refs_find ty k (node_references n)))))"
proof -
  note inv = im.invar_reach [OF assms(1)]
  define im1 where "im1 = im\<lparr>im_heap := \<lambda>p. map_option (without i) (im_heap im p)\<rparr>"
  note a = access_remove [OF inv i, folded im1_def]
  let ?im = "snd (InformationModel_remove i im1)"
  have same: "InformationModel_find j im1 = InformationModel_find j im" for j
    by (simp add: InformationModel_find_def im1_def)
  have "InformationModelAccess_remove i im = Some (InformationModel_find i im \<noteq> None, ?im)"
    using a(1) remove_find(2) [OF a(2) i i] same [of i] by (simp add: prod_eq_iff)
  moreover have "\<forall>j. id_ok j \<longrightarrow> InformationModel_find j ?im
      = (if OpcUaNodeIdBase_equal j i then None else InformationModel_find j im)"
    using remove_find(1) [OF a(2) i] same by simp
  moreover have "\<exists>n. im_heap im p = Some n \<and> (\<forall>ty k. id_ok ty \<and> id_ok k \<longrightarrow>
            refs_find ty k (node_references n')
              = (if OpcUaNodeIdBase_equal k i then None else refs_find ty k (node_references n)))"
    if "im_heap ?im p = Some n'" for p n'
  proof -
    have "im_heap im1 p = Some n'" using that remove_heap by blast
    then obtain n where n: "im_heap im p = Some n" "n' = without i n" by (auto simp: im1_def)
    have "p \<in> set (map snd (im_map im))" using inv n(1) unfolding im_inv_def by blast
    then obtain j where "(j, p) \<in> set (im_map im)" by auto
    then have r: "refs_inv (node_references n)" using n(1) by (auto elim: im_node [OF inv])
    show ?thesis using without_simps(4) [OF r i] n by simp
  qed
  ultimately show ?thesis by blast
qed

definition demo_node :: "u32 \<Rightarrow> unit BaseNodeClass" where
  "demo_node k = \<lparr>node_attribute = [1 \<mapsto> \<lparr>attr_data = NodeIdAttribute (nodeId0 k), attr_exist = True\<rparr>],
                  node_references = []\<rparr>"

lemma nodeId_demo [simp]: "BaseNodeClass_nodeId (demo_node k) = nodeId0 k"
  by (simp add: BaseNodeClass_nodeId_def demo_node_def)

lemma references_demo [simp]: "node_references (demo_node k) = []"
  by (simp add: demo_node_def)

lemma id_ok_nodeId0 [simp]: "id_ok (nodeId0 k)"
  by (simp add: nodeId0_def)

lemma equal_nodeId0 [simp]: "OpcUaNodeIdBase_equal (nodeId0 a) (nodeId0 b) \<longleftrightarrow> a = b"
  by (auto simp: OpcUaNodeIdBase_equal_def OpcUaNodeIdBase_less_def nodeId0_def)

lemma less_nodeId0 [simp]: "OpcUaNodeIdBase_less (nodeId0 a) (nodeId0 b) \<longleftrightarrow> a < b"
  by (simp add: OpcUaNodeIdBase_less_def nodeId0_def)

definition demo_model :: "unit InformationModel" where
  "demo_model = the (run_commands im_step [InsertNode 1 (demo_node 85), InsertNode 2 (demo_node 2253),
     AddReference 1 (nodeId0 35) True (nodeId0 2253), AddReference 2 (nodeId0 35) False (nodeId0 85)]
     InformationModel_new)"

lemma demo_model_reachable: "reach im_step InformationModel_new demo_model"
proof -
  have "run_commands im_step [InsertNode 1 (demo_node 85), InsertNode 2 (demo_node 2253),
     AddReference 1 (nodeId0 35) True (nodeId0 2253), AddReference 2 (nodeId0 35) False (nodeId0 85)]
     InformationModel_new = Some demo_model"
    by (simp add: demo_model_def InformationModel_new_def InformationModel_insert_def demo_node_def
        BaseNodeClass_nodeId_def)
  then show ?thesis unfolding reach_run_commands by blast
qed

theorem delete_node_leaves_no_reference_witness:
  "\<exists>im'. InformationModelAccess_remove (nodeId0 2253) demo_model = Some (True, im')
     \<and> InformationModel_find (nodeId0 2253) im' = None \<and> InformationModel_find (nodeId0 85) im' = Some 1"
proof -
  have "InformationModel_find (nodeId0 2253) demo_model = Some 2"
    "InformationModel_find (nodeId0 85) demo_model = Some 1"
    by (simp_all add: demo_model_def InformationModel_find_def InformationModel_insert_def
        InformationModel_new_def InformationModel_addReference_def)
  then show ?thesis
    using delete_node_leaves_no_reference [OF demo_model_reachable, of "nodeId0 2253"]
    by fastforce
qed

end
