(* ===== verification/AddressSpace.thy ===== *)
theory AddressSpace
  imports InformationModel
begin

text \<open>
  What the address space operations of \<^verbatim>\<open>InformationModel\<close> guarantee: the type tests follow the chain
  of supertypes, new identifiers are new, and \<^verbatim>\<open>checkForwardReferences\<close> makes the references
  symmetric.
\<close>

section \<open>The chain of supertypes\<close>

text \<open>The supertype of a node, and the relation between a supertype and its subtype.\<close>

definition supertype :: "'e InformationModel \<Rightarrow> node_ptr \<Rightarrow> node_ptr option" where
  "supertype im p = do {
     n \<leftarrow> im_heap im p;
     (let (b, superId) = InformationModelAccess_getSubTypeId n OpcUaNodeIdBase_new
      in if b then InformationModel_find superId im else None) }"

definition super_rel :: "'e InformationModel \<Rightarrow> (node_ptr \<times> node_ptr) set" where
  "super_rel im = {(q, p). supertype im p = Some q}"

definition is_root :: "u32 \<Rightarrow> 'e InformationModel \<Rightarrow> node_ptr \<Rightarrow> bool" where
  "is_root root im p \<longleftrightarrow> (\<exists>n i. im_heap im p = Some n \<and> AttributeBase_getNodeId n = Some i
     \<and> OpcUaNodeIdBase_equal i (nodeId0 root))"

lemma cmap_find_value: "cmap_find lt k m = Some v \<Longrightarrow> v \<in> set (map snd m)"
  by (induction m) (auto split: if_splits)

lemma find_in_map: "InformationModel_find i im = Some p \<Longrightarrow> p \<in> set (map snd (im_map im))"
  unfolding InformationModel_find_def by (rule cmap_find_value)

lemma super_rel_wf:
  assumes im: "im_inv im" and acyclic: "acyclic (super_rel im)"
  shows "wf (super_rel im)"
proof -
  have "super_rel im \<subseteq> set (map snd (im_map im)) \<times> set (map snd (im_map im))"
  proof
    fix e assume "e \<in> super_rel im"
    then obtain q p where e: "e = (q, p)" "supertype im p = Some q" by (auto simp: super_rel_def)
    have "q \<in> set (map snd (im_map im))"
      using e(2) find_in_map by (auto simp: supertype_def Let_def case_prod_beta split: bind_splits if_splits)
    moreover have "im_heap im p \<noteq> None"
      using e(2) by (auto simp: supertype_def split: bind_splits)
    then have "p \<in> set (map snd (im_map im))" using im unfolding im_inv_def by blast
    ultimately show "e \<in> set (map snd (im_map im)) \<times> set (map snd (im_map im))" using e(1) by blast
  qed
  then have "finite (super_rel im)" by (rule finite_subset) simp
  then show ?thesis using acyclic by (rule finite_acyclic_wf)
qed

lemma isSubtypeOf_step:
  assumes "im_heap im p = Some n" and "AttributeBase_getNodeId n = Some i"
  shows "InformationModelAccess_isSubtypeOf root im p =
     (if is_root root im p then Some True
      else case supertype im p of None \<Rightarrow> Some False | Some q \<Rightarrow> InformationModelAccess_isSubtypeOf root im q)"
  using assms
  by (subst InformationModelAccess_isSubtypeOf.simps)
     (auto simp: is_root_def supertype_def Let_def case_prod_beta split: option.splits)

lemma super_chain:
  "(q, p) \<in> (super_rel im)\<^sup>* \<longleftrightarrow> q = p \<or> (\<exists>r. supertype im p = Some r \<and> (q, r) \<in> (super_rel im)\<^sup>*)"
proof
  assume "(q, p) \<in> (super_rel im)\<^sup>*"
  then show "q = p \<or> (\<exists>r. supertype im p = Some r \<and> (q, r) \<in> (super_rel im)\<^sup>*)"
    by (cases rule: rtranclE) (auto simp: super_rel_def)
qed (auto simp: super_rel_def intro: rtrancl_into_rtrancl)


definition demo_types :: "unit InformationModel" where
  "demo_types = the (run_commands im_step [InsertNode 1 (demo_node 24), InsertNode 2 (demo_node 22),
     AddReference 2 (nodeId0 45) False (nodeId0 24)] InformationModel_new)"

lemma demo_types_reachable: "reach im_step InformationModel_new demo_types"
proof -
  have "run_commands im_step [InsertNode 1 (demo_node 24), InsertNode 2 (demo_node 22),
     AddReference 2 (nodeId0 45) False (nodeId0 24)] InformationModel_new = Some demo_types"
    by (simp add: demo_types_def InformationModel_new_def InformationModel_insert_def)
  then show ?thesis unfolding reach_run_commands by blast
qed

lemma copy_nodeId0 [simp]: "OpcUaNodeIdBase_copyTo (nodeId0 k) OpcUaNodeIdBase_new = nodeId0 k"
  by (simp add: OpcUaNodeIdBase_copyTo_def nodeId0_def OpcUaNodeIdBase_new_def)

lemma demo_types_heap:
  "im_heap demo_types = [1 \<mapsto> demo_node 24, 2 \<mapsto> (demo_node 22)\<lparr>node_references :=
     [(nodeId0 45, [(nodeId0 24, \<lparr>ri_typeId = nodeId0 45, ri_isForward = False, ri_nodeId = nodeId0 24\<rparr>)])]\<rparr>]"
  "im_map demo_types = [(nodeId0 22, 2), (nodeId0 24, 1)]"
  by (auto simp: demo_types_def InformationModel_insert_def InformationModel_new_def
      InformationModel_addReference_def ReferenceItemMap_add_def ReferenceItemMap_addItem_def
      cmap_index_def ReferenceItem_new_def case_prod_beta Let_def fun_eq_iff)

lemma demo_types_super: "supertype demo_types p = (if p = 2 then Some 1 else None)"
  by (auto simp: supertype_def demo_types_heap InformationModelAccess_getSubTypeId_def
      ReferenceItemMap_equal_range_def InformationModel_find_def Let_def)


section \<open>New identifiers\<close>

lemma numeric_equal:
  "OpcUaNodeIdBase_equal (OpcUaNodeIdBase_setNumeric a ns x) (OpcUaNodeIdBase_setNumeric b ns y) \<longleftrightarrow> a = b"
  by (auto simp: OpcUaNodeIdBase_equal_def OpcUaNodeIdBase_less_def OpcUaNodeIdBase_setNumeric_def)

abbreviation counter_id :: "u16 \<Rightarrow> u32 \<Rightarrow> OpcUaNodeIdBase" where
  "counter_id ns c \<equiv> OpcUaNodeIdBase_setNumeric c ns OpcUaNodeIdBase_new"

lemma some_id_free:
  assumes "ids_sorted (im_map im)" and "length (im_map im) < 2 ^ 32"
  shows "\<exists>c. InformationModel_find (counter_id ns c) im = None"
proof (rule ccontr)
  assume a: "\<not> ?thesis"
  have ok: "id_ok (counter_id ns c)" for c by (simp add: OpcUaNodeIdBase_setNumeric_def)
  have "\<exists>k. k \<in> set (map fst (im_map im)) \<and> OpcUaNodeIdBase_equal k (counter_id ns c)" for c
  proof -
    obtain p where "InformationModel_find (counter_id ns c) im = Some p" using a by auto
    then show ?thesis
      using table_find_Some [OF assms(1) ok] by (force simp: InformationModel_find_def)
  qed
  then obtain f where f: "\<And>c. f c \<in> set (map fst (im_map im))" "\<And>c. OpcUaNodeIdBase_equal (f c) (counter_id ns c)"
    by metis
  have okf: "id_ok (f c)" for c
  proof -
    obtain p where "(f c, p) \<in> set (im_map im)" using f(1) [of c] by auto
    then show ?thesis by (rule ids_sorted_ok [OF assms(1)])
  qed
  have "inj f"
  proof (rule injI)
    fix c d assume "f c = f d"
    then have "OpcUaNodeIdBase_equal (counter_id ns c) (counter_id ns d)"
      using equal_trans [OF ok okf ok] f(2) equal_sym by metis
    then show "c = d" by (simp add: numeric_equal)
  qed
  then have "card (UNIV :: u32 set) \<le> card (set (map fst (im_map im)))"
    using f(1) by (intro card_inj_on_le [of f]) auto
  also have "\<dots> \<le> length (im_map im)" using card_length [of "map fst (im_map im)"] by simp
  finally show False using assms(2) by (simp add: card_word)
qed

lemma create_unique:
  assumes "InformationModel_find (counter_id ns (counter + word_of_nat k)) im = None"
  shows "\<exists>c. InformationModelAccess_createUniqueNodeId im ns counter = Some (counter_id ns c, c + 1)
           \<and> InformationModel_find (counter_id ns c) im = None"
  using assms
proof (induction k arbitrary: counter)
  case 0
  then show ?case by (subst InformationModelAccess_createUniqueNodeId.simps) simp
next
  case (Suc k)
  have e: "counter + word_of_nat (Suc k) = (counter + 1) + word_of_nat k" by simp
  show ?case
  proof (cases "InformationModel_find (counter_id ns counter) im")
    case None
    then show ?thesis by (subst InformationModelAccess_createUniqueNodeId.simps) simp
  next
    case (Some p)
    then show ?thesis
      using Suc.IH [of "counter + 1"] Suc.prems unfolding e
      by (subst InformationModelAccess_createUniqueNodeId.simps) simp
  qed
qed

text \<open>
  C27: On an address space with fewer than \<open>2 ^ 32\<close> nodes the search for an unused
  numeric identifier ends, whatever the value of the shared counter (also when the counter wraps
  round), and the identifier is in the wanted namespace and not in use.
\<close>

theorem unique_node_id_found:
  assumes "reach im_step InformationModel_new im" and "length (im_map im) < 2 ^ 32"
  shows "\<exists>c. InformationModelAccess_createUniqueNodeId im ns counter = Some (counter_id ns c, c + 1)
           \<and> InformationModel_find (counter_id ns c) im = None"
proof -
  obtain d where d: "InformationModel_find (counter_id ns d) im = None"
    using some_id_free [OF im_sorted [OF im.invar_reach [OF assms(1)]] assms(2)] by blast
  have "counter + word_of_nat (unat (d - counter)) = d" by simp
  with d show ?thesis using create_unique [where counter = counter and k = "unat (d - counter)"] by simp
qed

theorem unique_node_id_found_witness:
  "\<exists>c. InformationModelAccess_createUniqueNodeId demo_types 0 22 = Some (counter_id 0 c, c + 1)
     \<and> InformationModel_find (counter_id 0 c) demo_types = None"
  using unique_node_id_found [OF demo_types_reachable] by (simp add: demo_types_heap)

section \<open>The type of a node\<close>

text \<open>
  \<^verbatim>\<open>getType\<close> does not return the type definition of a node that has a forward
  reference of a type with a smaller identifier: a property with a modelling rule (37) is given the
  modelling rule as its type, not the target of its \<^verbatim>\<open>HasTypeDefinition\<close> reference (40).
\<close>

theorem getType_takes_first_reference:
  "let n = (demo_node 100)\<lparr>node_references :=
         snd (ReferenceItemMap_add (nodeId0 37) True (nodeId0 78)
           (snd (ReferenceItemMap_add (nodeId0 40) True (nodeId0 68) [])))\<rparr>
   in InformationModelAccess_getTypeId n OpcUaNodeIdBase_new = Some (True, nodeId0 78)
      \<and> InformationModelAccess_isEventProperty n im = Some False"
proof -
  let ?m = "snd (ReferenceItemMap_add (nodeId0 37) True (nodeId0 78)
           (snd (ReferenceItemMap_add (nodeId0 40) True (nodeId0 68) [])))"
  have m: "?m = [(nodeId0 37, [(nodeId0 78, \<lparr>ri_typeId = nodeId0 37, ri_isForward = True, ri_nodeId = nodeId0 78\<rparr>)]),
      (nodeId0 40, [(nodeId0 68, \<lparr>ri_typeId = nodeId0 40, ri_isForward = True, ri_nodeId = nodeId0 68\<rparr>)])]"
    by (simp add: ReferenceItemMap_add_def ReferenceItemMap_addItem_def cmap_index_def ReferenceItem_new_def Let_def)
  have inv: "refs_inv ?m"
    using refs_add(1) [of "[]"] by (intro refs_add(1)) (simp_all add: refs_inv_def)
  show ?thesis
    using items_of_refs [OF inv]
    by (simp add: m InformationModelAccess_getTypeId_def ReferenceItemMap_equal_range_def refs_items_def
        InformationModelAccess_isEventProperty_def)
qed

section \<open>Symmetric references\<close>

definition has_ref :: "'e InformationModel \<Rightarrow> node_ptr \<Rightarrow> OpcUaNodeIdBase \<Rightarrow> OpcUaNodeIdBase \<Rightarrow> bool" where
  "has_ref im p ty b \<longleftrightarrow> (\<exists>n. im_heap im p = Some n \<and> refs_find ty b (node_references n) \<noteq> None)"

definition node_id :: "'e InformationModel \<Rightarrow> node_ptr \<Rightarrow> OpcUaNodeIdBase" where
  "node_id im p = BaseNodeClass_nodeId (the (im_heap im p))"

definition opposite :: "'e InformationModel \<Rightarrow> node_ptr \<Rightarrow> OpcUaNodeIdBase \<Rightarrow> OpcUaNodeIdBase \<Rightarrow> bool" where
  "opposite im p ty b \<longleftrightarrow> (\<forall>q. InformationModel_find b im = Some q \<longrightarrow> has_ref im q ty (node_id im p))"

text \<open>Same nodes under the same identifiers.\<close>

definition same_nodes :: "'e InformationModel \<Rightarrow> 'e InformationModel \<Rightarrow> bool" where
  "same_nodes im im' \<longleftrightarrow> im_map im' = im_map im
     \<and> (\<forall>p. map_option BaseNodeClass_nodeId (im_heap im' p) = map_option BaseNodeClass_nodeId (im_heap im p))"

lemma same_nodes_refl [simp]: "same_nodes im im"
  by (simp add: same_nodes_def)

lemma same_nodes_trans: "same_nodes a b \<Longrightarrow> same_nodes b c \<Longrightarrow> same_nodes a c"
  by (simp add: same_nodes_def)

lemma same_find: "same_nodes im im' \<Longrightarrow> InformationModel_find i im' = InformationModel_find i im"
  by (simp add: same_nodes_def InformationModel_find_def)

lemma same_heap: "same_nodes im im' \<Longrightarrow> im_heap im' p = None \<longleftrightarrow> im_heap im p = None"
  unfolding same_nodes_def by (metis option.map_disc_iff)

lemma same_id: "same_nodes im im' \<Longrightarrow> im_heap im p \<noteq> None \<Longrightarrow> node_id im' p = node_id im p"
  using same_heap [of im im' p] unfolding same_nodes_def node_id_def
  by (metis (no_types) option.exhaust_sel option.map_sel)

lemma node_refs_inv: "im_inv im \<Longrightarrow> im_heap im p = Some n \<Longrightarrow> refs_inv (node_references n)"
proof -
  assume im: "im_inv im" and n: "im_heap im p = Some n"
  have "p \<in> set (map snd (im_map im))" using im n unfolding im_inv_def by blast
  then obtain i where "(i, p) \<in> set (im_map im)" by auto
  then show ?thesis using n by (auto elim: im_node [OF im])
qed

lemma add_has_ref:
  assumes im: "im_inv im" and ok: "id_ok ty" "id_ok i" "id_ok ty'" "id_ok b"
  shows "has_ref (InformationModel_addReference q ty f i im) p ty' b \<longleftrightarrow>
     has_ref im p ty' b \<or> (p = q \<and> im_heap im q \<noteq> None \<and> OpcUaNodeIdBase_equal ty' ty \<and> OpcUaNodeIdBase_equal b i)"
proof (cases "im_heap im q")
  case None
  then show ?thesis by (auto simp: has_ref_def InformationModel_addReference_def)
next
  case (Some n)
  have inv: "refs_inv (node_references n)" by (rule node_refs_inv [OF im Some])
  have "refs_find ty i (node_references n) = refs_find ty' b (node_references n)"
    if "OpcUaNodeIdBase_equal ty' ty" "OpcUaNodeIdBase_equal b i"
    using refs_find_cong [OF inv ok(3,4,1,2) that] by simp
  then show ?thesis
    using Some refs_add(2) [OF inv ok, of f] by (auto simp: has_ref_def InformationModel_addReference_def)
qed

lemma nodeId_references [simp]: "BaseNodeClass_nodeId (n\<lparr>node_references := m\<rparr>) = BaseNodeClass_nodeId n"
  by (simp add: BaseNodeClass_nodeId_def)

lemma add_same_nodes: "same_nodes im (InformationModel_addReference q ty f i im)"
  by (auto simp: same_nodes_def InformationModel_addReference_def option.map_comp comp_def)

lemma forward_loop_refs:
  assumes "im_inv im" and "OpcUaNodeIdBase_copyTo i OpcUaNodeIdBase_new = i" and "id_ok i"
    and "\<forall>ri \<in> set ris. id_ok (ri_typeId ri) \<and> id_ok (ri_nodeId ri)"
  shows "im_inv (forward_loop i ris im) \<and> same_nodes im (forward_loop i ris im)
     \<and> (\<forall>p ty b. id_ok ty \<and> id_ok b \<longrightarrow> has_ref (forward_loop i ris im) p ty b \<longleftrightarrow> has_ref im p ty b
          \<or> (\<exists>ri \<in> set ris. InformationModel_find (ri_nodeId ri) im = Some p \<and> im_heap im p \<noteq> None
                \<and> OpcUaNodeIdBase_equal ty (ri_typeId ri) \<and> OpcUaNodeIdBase_equal b i))"
  using assms
proof (induction ris arbitrary: im)
  case (Cons ri ris)
  show ?case
  proof (cases "InformationModel_find (ri_nodeId ri) im")
    case None
    then show ?thesis using Cons by simp
  next
    case (Some q)
    let ?im = "InformationModel_addReference q (ri_typeId ri) (\<not> ri_isForward ri) i im"
    have inv: "im_inv ?im" using im_inv_addReference [OF Cons.prems(1)] Cons.prems(3,4) by simp
    have same: "same_nodes im ?im" by (rule add_same_nodes)
    note add = add_has_ref [OF Cons.prems(1), of "ri_typeId ri" i _ _ q "\<not> ri_isForward ri"]
    note IH = Cons.IH [OF inv Cons.prems(2,3)]
    show ?thesis
      using Some Cons.prems IH same_nodes_trans [OF same] same_find [OF same] same_heap [OF same] add
      by auto
  qed
qed simp

lemma forward_step:
  assumes im: "im_inv im" and n: "im_heap im p = Some n" "(BaseNodeClass_nodeId n, p) \<in> set (im_map im)"
    and copy: "OpcUaNodeIdBase_copyTo (BaseNodeClass_nodeId n) OpcUaNodeIdBase_new = BaseNodeClass_nodeId n"
    and todo: "\<forall>r ty b. id_ok ty \<and> id_ok b \<and> has_ref im r ty b \<longrightarrow> r \<in> insert p P \<or> opposite im r ty b"
  defines "im' \<equiv> forward_loop (BaseNodeClass_nodeId n) (refs_items (node_references n)) im"
  shows "im_inv im'" and "same_nodes im im'"
    and "\<forall>r ty b. id_ok ty \<and> id_ok b \<and> has_ref im' r ty b \<longrightarrow> r \<in> P \<or> opposite im' r ty b"
    and "\<forall>r ty b. id_ok ty \<and> id_ok b \<and> has_ref im r ty b \<longrightarrow> has_ref im' r ty b"
proof -
  let ?i = "BaseNodeClass_nodeId n" and ?ris = "refs_items (node_references n)"
  have inv: "refs_inv (node_references n)" by (rule node_refs_inv [OF im n(1)])
  have i: "id_ok ?i" by (rule ids_sorted_ok [OF im_sorted [OF im] n(2)])
  have ris: "\<forall>ri \<in> set ?ris. id_ok (ri_typeId ri) \<and> id_ok (ri_nodeId ri)"
    using refs_items_find [OF inv] by blast
  note loop = forward_loop_refs [OF im copy i ris, folded im'_def]
  show inv': "im_inv im'" and same: "same_nodes im im'" using loop by blast+
  have mono: "has_ref im' r ty b" if "has_ref im r ty b" "id_ok ty" "id_ok b" for r ty b
    using loop that by blast
  then show "\<forall>r ty b. id_ok ty \<and> id_ok b \<and> has_ref im r ty b \<longrightarrow> has_ref im' r ty b" by blast
  have idp: "node_id im p = ?i" by (simp add: node_id_def n(1))
  have live: "im_heap im q \<noteq> None" if "id_ok b" "InformationModel_find b im = Some q" for b q
    by (rule find_mem [OF im that]) simp
  have id_ok_node: "id_ok (node_id im r)" if "im_heap im r \<noteq> None" for r
  proof -
    have "r \<in> set (map snd (im_map im))" using im that unfolding im_inv_def by blast
    then obtain k where k: "(k, r) \<in> set (im_map im)" by auto
    then have "node_id im r = k" by (auto elim: im_node [OF im] simp: node_id_def)
    then show ?thesis using ids_sorted_ok [OF im_sorted [OF im] k] by simp
  qed
  have self: "opposite im' p ty b" if r: "id_ok ty" "id_ok b" "has_ref im p ty b" for ty b
    unfolding opposite_def
  proof (intro allI impI)
    fix q assume q: "InformationModel_find b im' = Some q"
    then have q': "InformationModel_find b im = Some q" using same_find [OF same] by simp
    obtain ri where f: "refs_find ty b (node_references n) = Some ri"
      using r(3) n(1) by (auto simp: has_ref_def)
    note it = refs_find_item [OF inv r(1,2) f]
    have "InformationModel_find (ri_nodeId ri) im = Some q"
      using q' table_find_cong [OF im_sorted [OF im] it(4) r(2) it(2)]
      by (simp add: InformationModel_find_def)
    then have "has_ref im' q ty ?i"
      using loop r(1) i it(1,5) live [OF r(2) q'] equal_sym equal_refl [OF i] by blast
    then show "has_ref im' q ty (node_id im' p)" using same_id [OF same, of p] n(1) idp by simp
  qed
  show "\<forall>r ty b. id_ok ty \<and> id_ok b \<and> has_ref im' r ty b \<longrightarrow> r \<in> P \<or> opposite im' r ty b"
  proof (intro allI impI)
    fix r ty b assume a: "id_ok ty \<and> id_ok b \<and> has_ref im' r ty b"
    consider (old) "has_ref im r ty b"
      | (new) ri where "ri \<in> set ?ris" "InformationModel_find (ri_nodeId ri) im = Some r" "im_heap im r \<noteq> None"
          "OpcUaNodeIdBase_equal ty (ri_typeId ri)" "OpcUaNodeIdBase_equal b ?i"
      using loop a by blast
    then show "r \<in> P \<or> opposite im' r ty b"
    proof cases
      case old
      show ?thesis
      proof (cases "r = p")
        case True
        then show ?thesis using self old a by simp
      next
        case False
        then have "r \<in> P \<or> opposite im r ty b" using todo old a by blast
        moreover have "opposite im' r ty b" if "opposite im r ty b"
        proof -
          have "im_heap im r \<noteq> None" using old by (auto simp: has_ref_def)
          then have "node_id im' r = node_id im r" "id_ok (node_id im r)"
            using same_id [OF same] id_ok_node by simp_all
          then show ?thesis using that mono a same_find [OF same] by (auto simp: opposite_def)
        qed
        ultimately show ?thesis by blast
      qed
    next
      case new
      note ok = ris [rule_format, OF new(1)]
      have hp: "has_ref im p (ri_typeId ri) (ri_nodeId ri)"
        using refs_items_find [OF inv, of ri] new(1) n(1) by (auto simp: has_ref_def)
      obtain k m where k: "OpcUaNodeIdBase_equal k (ri_nodeId ri)" "im_heap im r = Some m"
          "BaseNodeClass_nodeId m = k" "id_ok k"
        using find_mem [OF im conjunct2 [OF ok] new(2)] by metis
      have idr: "node_id im r = k" using k by (simp add: node_id_def)
      have "has_ref im p ty k"
      proof -
        have "refs_find ty k (node_references n) = refs_find (ri_typeId ri) (ri_nodeId ri) (node_references n)"
          using refs_find_cong [OF inv _ k(4) _ _ new(4) k(1)] a ok by blast
        then show ?thesis using hp n(1) by (simp add: has_ref_def)
      qed
      then have "has_ref im' p ty (node_id im' r)"
        using mono a k(4) same_id [OF same new(3)] idr by simp
      moreover have "q = p" if "InformationModel_find b im' = Some q" for q
      proof -
        have "InformationModel_find ?i im = Some p"
          using table_find_mem [OF im_sorted [OF im] n(2)] by (simp add: InformationModel_find_def)
        moreover have "InformationModel_find b im = InformationModel_find ?i im"
          using table_find_cong [OF im_sorted [OF im] _ i new(5)] a by (simp add: InformationModel_find_def)
        ultimately show ?thesis using that same_find [OF same, of b] by simp
      qed
      ultimately have "opposite im' r ty b" by (auto simp: opposite_def)
      then show ?thesis by simp
    qed
  qed
qed

lemma check_loop:
  assumes "im_inv im" and "set ps \<subseteq> set (map snd (im_map im))"
    and "\<forall>i \<in> set (map fst (im_map im)). OpcUaNodeIdBase_copyTo i OpcUaNodeIdBase_new = i"
    and "\<forall>r ty b. id_ok ty \<and> id_ok b \<and> has_ref im r ty b \<longrightarrow> r \<in> set ps \<or> opposite im r ty b"
  shows "\<exists>im'. InformationModel_checkForwardReferences_loop ps im = Some im' \<and> same_nodes im im'
    \<and> (\<forall>r ty b. id_ok ty \<and> id_ok b \<and> has_ref im r ty b \<longrightarrow> has_ref im' r ty b)
    \<and> (\<forall>r ty b. id_ok ty \<and> id_ok b \<and> has_ref im' r ty b \<longrightarrow> opposite im' r ty b)"
  using assms
proof (induction ps arbitrary: im)
  case Nil
  then have "InformationModel_checkForwardReferences_loop [] im = Some im \<and> same_nodes im im
    \<and> (\<forall>r ty b. id_ok ty \<and> id_ok b \<and> has_ref im r ty b \<longrightarrow> has_ref im r ty b)
    \<and> (\<forall>r ty b. id_ok ty \<and> id_ok b \<and> has_ref im r ty b \<longrightarrow> opposite im r ty b)"
    by simp
  then show ?case by blast
next
  case (Cons p ps)
  obtain i where i: "(i, p) \<in> set (im_map im)" using Cons.prems(2) by auto
  obtain n where n: "im_heap im p = Some n" "BaseNodeClass_nodeId n = i" "refs_inv (node_references n)"
    by (rule im_node [OF Cons.prems(1) i])
  let ?im = "forward_loop (BaseNodeClass_nodeId n) (refs_items (node_references n)) im"
  have m: "(BaseNodeClass_nodeId n, p) \<in> set (im_map im)" using i n(2) by simp
  have c: "OpcUaNodeIdBase_copyTo (BaseNodeClass_nodeId n) OpcUaNodeIdBase_new = BaseNodeClass_nodeId n"
    using Cons.prems(3) m by force
  have todo: "\<forall>r ty b. id_ok ty \<and> id_ok b \<and> has_ref im r ty b \<longrightarrow> r \<in> insert p (set ps) \<or> opposite im r ty b"
    using Cons.prems(4) by simp
  note step = forward_step [OF Cons.prems(1) n(1) m c todo]
  have map: "im_map ?im = im_map im" using step(2) by (simp add: same_nodes_def)
  obtain im' where im': "InformationModel_checkForwardReferences_loop ps ?im = Some im'" "same_nodes ?im im'"
      "\<forall>r ty b. id_ok ty \<and> id_ok b \<and> has_ref ?im r ty b \<longrightarrow> has_ref im' r ty b"
      "\<forall>r ty b. id_ok ty \<and> id_ok b \<and> has_ref im' r ty b \<longrightarrow> opposite im' r ty b"
    using Cons.IH [OF step(1) _ _ step(3)] Cons.prems(2,3) unfolding map by auto
  have "InformationModel_checkForwardReferences_loop (p # ps) im = Some im'"
    using im'(1) n(1) items_of_refs [OF n(3)] by simp
  moreover have "\<forall>r ty b. id_ok ty \<and> id_ok b \<and> has_ref im r ty b \<longrightarrow> has_ref im' r ty b"
    using step(4) im'(3) by blast
  ultimately show ?case using im'(4) same_nodes_trans [OF step(2) im'(2)] by blast
qed

text \<open>
  C23: \<^verbatim>\<open>checkForwardReferences\<close> returns on every reachable address space, keeps the nodes
  and all references, and makes the references symmetric: whenever a node refers to a node of the
  model, that node has a reference of the same type back.
\<close>

theorem references_symmetric_after_check:
  assumes "reach im_step InformationModel_new im"
    and "\<forall>i \<in> set (map fst (im_map im)). OpcUaNodeIdBase_copyTo i OpcUaNodeIdBase_new = i"
  shows "\<exists>im'. InformationModel_checkForwardReferences im = Some im' \<and> im_map im' = im_map im
    \<and> (\<forall>p ty b. id_ok ty \<and> id_ok b \<and> has_ref im p ty b \<longrightarrow> has_ref im' p ty b)
    \<and> (\<forall>p ty b q. id_ok ty \<and> id_ok b \<and> has_ref im' p ty b \<and> InformationModel_find b im' = Some q
          \<longrightarrow> has_ref im' q ty (node_id im p))"
proof -
  note inv = im.invar_reach [OF assms(1)]
  have "\<forall>r ty b. id_ok ty \<and> id_ok b \<and> has_ref im r ty b \<longrightarrow> r \<in> set (map snd (im_map im)) \<or> opposite im r ty b"
  proof (intro allI impI)
    fix r ty b assume "id_ok ty \<and> id_ok b \<and> has_ref im r ty b"
    then have "im_heap im r \<noteq> None" by (auto simp: has_ref_def)
    then have "r \<in> set (map snd (im_map im))" using inv unfolding im_inv_def by blast
    then show "r \<in> set (map snd (im_map im)) \<or> opposite im r ty b" by blast
  qed
  from check_loop [OF inv subset_refl assms(2) this] obtain im' where
      im': "InformationModel_checkForwardReferences im = Some im'" "same_nodes im im'"
        "\<forall>r ty b. id_ok ty \<and> id_ok b \<and> has_ref im r ty b \<longrightarrow> has_ref im' r ty b"
        "\<forall>r ty b. id_ok ty \<and> id_ok b \<and> has_ref im' r ty b \<longrightarrow> opposite im' r ty b"
    unfolding InformationModel_checkForwardReferences_def by blast
  have "node_id im' p = node_id im p" if "has_ref im' p ty b" for p ty b
    using that same_heap [OF im'(2), of p] same_id [OF im'(2), of p] by (auto simp: has_ref_def)
  moreover have "im_map im' = im_map im" using im'(2) by (simp add: same_nodes_def)
  ultimately show ?thesis using im'(1,3,4) unfolding opposite_def by metis
qed

theorem references_symmetric_after_check_witness:
  "\<exists>im'. InformationModel_checkForwardReferences demo_types = Some im' \<and> has_ref im' 1 (nodeId0 45) (nodeId0 22)"
proof -
  have "\<forall>i \<in> set (map fst (im_map demo_types)). OpcUaNodeIdBase_copyTo i OpcUaNodeIdBase_new = i"
    by (simp add: demo_types_heap)
  then obtain im' where im': "InformationModel_checkForwardReferences demo_types = Some im'"
      "im_map im' = im_map demo_types"
      "\<forall>p ty b. id_ok ty \<and> id_ok b \<and> has_ref demo_types p ty b \<longrightarrow> has_ref im' p ty b"
      "\<forall>p ty b q. id_ok ty \<and> id_ok b \<and> has_ref im' p ty b \<and> InformationModel_find b im' = Some q
          \<longrightarrow> has_ref im' q ty (node_id demo_types p)"
    using references_symmetric_after_check [OF demo_types_reachable] by blast
  have "has_ref demo_types 2 (nodeId0 45) (nodeId0 24)"
    by (simp add: has_ref_def demo_types_heap refs_find_def)
  then have "has_ref im' 2 (nodeId0 45) (nodeId0 24)" using im'(3) by simp
  moreover have "InformationModel_find (nodeId0 24) im' = Some 1"
    using im'(2) by (simp add: InformationModel_find_def demo_types_heap)
  ultimately have "has_ref im' 1 (nodeId0 45) (node_id demo_types 2)"
    using im'(4) id_ok_nodeId0 by blast
  moreover have "node_id demo_types 2 = nodeId0 22" by (simp add: node_id_def demo_types_heap)
  ultimately show ?thesis using im'(1) by auto
qed

end
