(* ===== verification/Doubles.thy ===== *)
theory Doubles
  imports StandardTypes
begin

text \<open>
  Comparisons and conversions of \<^verbatim>\<open>double\<close> values as the services use them on intervals.  A double is
  its 64 bits; \<open>dbl_scaled\<close> is its value times \<open>2 ^ 1074\<close>, which is an integer for every finite
  double, and larger than every finite value for an infinity.
\<close>

definition dbl_scaled :: "u64 \<Rightarrow> int" where
  "dbl_scaled d =
     (let e = unat (drop_bit 52 d AND 0x7FF); f = unat (d AND 0xFFFFFFFFFFFFF);
          m = (if e = 0 then f else (2 ^ 52 + f) * 2 ^ (e - 1))
      in if bit d 63 then - int m else int m)"

definition dbl_less :: "u64 \<Rightarrow> u64 \<Rightarrow> bool" where
  "dbl_less a b \<longleftrightarrow> \<not> ieee_nan 52 a \<and> \<not> ieee_nan 52 b \<and> dbl_scaled a < dbl_scaled b"

text \<open>A 32-bit number, converted exactly, compared with a double.\<close>

definition u32_dbl_less :: "u32 \<Rightarrow> u64 \<Rightarrow> bool" where
  "u32_dbl_less n d \<longleftrightarrow> \<not> ieee_nan 52 d \<and> uint n * 2 ^ 1074 < dbl_scaled d"

text \<open>
  The conversion to \<^verbatim>\<open>uint32_t\<close> truncates; it is undefined (\<^term>\<open>None\<close>) for a value outside the range
  and for a NaN.
\<close>

definition dbl_trunc :: "u64 \<Rightarrow> int" where
  "dbl_trunc d = (let v = dbl_scaled d in if v < 0 then - (- v div 2 ^ 1074) else v div 2 ^ 1074)"

definition dbl_to_u32 :: "u64 \<Rightarrow> u32 option" where
  "dbl_to_u32 d =
     (if ieee_nan 52 d \<or> dbl_trunc d < 0 \<or> dbl_trunc d \<ge> 2 ^ 32 then None
      else Some (word_of_int (dbl_trunc d)))"

definition dbl_10 :: u64 where "dbl_10 = 0x4024000000000000"
definition dbl_200 :: u64 where "dbl_200 = 0x4069000000000000"

lemma dbl_10_scaled: "dbl_scaled dbl_10 = 10 * 2 ^ 1074"
  by (simp add: dbl_scaled_def dbl_10_def)

lemma dbl_200_scaled: "dbl_scaled dbl_200 = 200 * 2 ^ 1074"
  by (simp add: dbl_scaled_def dbl_200_def)

lemma dbl_200_not_nan [simp]: "\<not> ieee_nan 52 dbl_200"
  by (simp add: ieee_nan_def dbl_200_def)

lemma dbl_10_not_nan [simp]: "\<not> ieee_nan 52 dbl_10"
  by (simp add: ieee_nan_def dbl_10_def)

text \<open>The conversion and the order of doubles agree.\<close>

lemma dbl_to_u32_lower:
  assumes "dbl_to_u32 d = Some n" and "c * 2 ^ 1074 \<le> dbl_scaled d" and "0 \<le> c"
  shows "c \<le> uint n"
proof -
  have r: "0 \<le> dbl_trunc d" "dbl_trunc d < 2 ^ 32" "n = word_of_int (dbl_trunc d)"
    using assms(1) by (auto simp: dbl_to_u32_def split: if_splits)
  have "uint n = dbl_trunc d" using r by (simp add: uint_word_of_int)
  moreover have "0 \<le> dbl_scaled d" using assms(2,3) by (meson dual_order.trans mult_nonneg_nonneg zero_le_numeral zero_le_power)
  then have "dbl_trunc d = dbl_scaled d div 2 ^ 1074" by (simp only: dbl_trunc_def Let_def) simp
  moreover have "c \<le> dbl_scaled d div 2 ^ 1074"
    using assms(2) zdiv_mono1 [of "c * 2 ^ 1074" "dbl_scaled d" "2 ^ 1074"] by simp
  ultimately show ?thesis by simp
qed

lemma dbl_200_u32: "dbl_to_u32 dbl_200 = Some 200"
  by (simp add: dbl_to_u32_def dbl_trunc_def dbl_200_scaled)

lemma dbl_10_u32: "dbl_to_u32 dbl_10 = Some 10"
  by (simp add: dbl_to_u32_def dbl_trunc_def dbl_10_scaled)

end
