(* ===== verification/MonitorItems.thy ===== *)
theory MonitorItems
  imports InformationModel Doubles SlotTimer
begin

text \<open>
  A monitored item (\<^verbatim>\<open>ServiceSet/MonitorItem.cpp\<close>): it samples an attribute of a node and queues a
  notification for every change, up to the queue size of the item.

  The node is held by a weak pointer: when the heap of the address space has no object for it any
  more, the node was deleted.  The attribute pointer is the identifier of the attribute in that node.
\<close>

definition status_Success :: u32 where "status_Success = 0x00000000"
definition status_BadOutOfMemory :: u32 where "status_BadOutOfMemory = 0x80030000"
definition status_BadNodeIdUnknown :: u32 where "status_BadNodeIdUnknown = 0x80340000"
definition status_BadNotFound :: u32 where "status_BadNotFound = 0x803E0000"
definition status_BadNotImplemented :: u32 where "status_BadNotImplemented = 0x80400000"
definition status_BadNodeClassInvalid :: u32 where "status_BadNodeClassInvalid = 0x805F0000"
definition status_BadNoSubscription :: u32 where "status_BadNoSubscription = 0x80790000"
definition status_BadSubscriptionIdInvalid :: u32 where "status_BadSubscriptionIdInvalid = 0x80280000"
definition status_BadDataUnavailable :: u32 where "status_BadDataUnavailable = 0x809E0000"
definition status_BadInvalidArgument :: u32 where "status_BadInvalidArgument = 0x80AB0000"

lemmas status_defs = status_Success_def status_BadOutOfMemory_def status_BadNodeIdUnknown_def
  status_BadNotFound_def status_BadNotImplemented_def status_BadNodeClassInvalid_def
  status_BadNoSubscription_def status_BadSubscriptionIdInvalid_def status_BadDataUnavailable_def
  status_BadInvalidArgument_def

text \<open>The part of the request the item uses (the sampling interval is a double).\<close>

record MonitoredItemCreateRequest =
  itemToMonitor_nodeId :: OpcUaNodeIdBase
  itemToMonitor_attributeId :: u32
  rp_clientHandle :: u32
  rp_samplingInterval :: u64
  rp_queueSize :: u32
  rp_discardOldest :: bool

record 'e MonitoredItemNotification =
  mn_clientHandle :: u32
  mn_dataValue :: "'e OpcUaDataValue"

definition MonitoredItemNotification_new :: "'e MonitoredItemNotification" where
  "MonitoredItemNotification_new = \<lparr>mn_clientHandle = 0, mn_dataValue = OpcUaDataValue_new\<rparr>"

record 'e MonitorItem =
  mi_monitorItemId :: u32
  mi_samplingInterval :: u32
  mi_queSize :: u32
  mi_discardOldest :: bool
  mi_clientHandle :: u32
  mi_list :: "'e MonitoredItemNotification list"
  mi_node :: node_ptr
  mi_nodeId :: OpcUaNodeIdBase
  mi_attribute :: "nat option"
  mi_dataValue :: "'e OpcUaDataValue"
  mi_slotTimerElement :: ptr
  mi_userContext :: nat

text \<open>The identifier and the timer element of a new item are fresh.\<close>

definition MonitorItem_new :: "u32 \<Rightarrow> ptr \<Rightarrow> 'e MonitorItem" where
  "MonitorItem_new i e = \<lparr>mi_monitorItemId = i, mi_samplingInterval = 100, mi_queSize = 0,
     mi_discardOldest = False, mi_clientHandle = 0, mi_list = [], mi_node = 0,
     mi_nodeId = OpcUaNodeIdBase_new, mi_attribute = None, mi_dataValue = OpcUaDataValue_new,
     mi_slotTimerElement = e, mi_userContext = 0\<rparr>"

text \<open>With a full queue the oldest or the newest entry goes; \<^verbatim>\<open>pop\<close> on an empty list is undefined.\<close>

definition MonitorItem_monitorItemListPushBack ::
  "'e MonitoredItemNotification \<Rightarrow> 'e MonitorItem \<Rightarrow> 'e MonitorItem option" where
  "MonitorItem_monitorItemListPushBack n mi = do {
     list \<leftarrow> (if word_of_nat (length (mi_list mi)) \<ge> mi_queSize mi then
                (if mi_list mi = [] then None
                 else if mi_discardOldest mi then Some (tl (mi_list mi)) else Some (butlast (mi_list mi)))
              else Some (mi_list mi));
     Some (mi\<lparr>mi_list := list @ [n\<lparr>mn_clientHandle := mi_clientHandle mi\<rparr>]\<rparr>) }"

text \<open>
  Binding the item to a node: parameters, attribute, and the first notification, whose status code is
  always overwritten.  Copying an attribute to a data value never fails in \<^verbatim>\<open>AttributeAccess\<close>.
\<close>

definition MonitorItem_setParameters ::
  "'e BaseNodeClass \<Rightarrow> node_ptr \<Rightarrow> MonitoredItemCreateRequest \<Rightarrow> 'e MonitorItem \<Rightarrow> 'e MonitorItem option" where
  "MonitorItem_setParameters node p req mi = do {
     samplingInterval \<leftarrow> dbl_to_u32 (rp_samplingInterval req);
     samplingInterval \<leftarrow> (case AttributeBase_getMinimumSamplingInterval node of
           None \<Rightarrow> Some samplingInterval
         | Some nodeInterval \<Rightarrow>
             if u32_dbl_less samplingInterval nodeInterval then dbl_to_u32 nodeInterval
             else Some samplingInterval);
     Some (mi\<lparr>mi_node := p, mi_nodeId := BaseNodeClass_nodeId node, mi_queSize := rp_queueSize req,
              mi_discardOldest := rp_discardOldest req, mi_clientHandle := rp_clientHandle req,
              mi_samplingInterval := samplingInterval\<rparr>) }"

definition MonitorItem_receive ::
  "'e ExtensionObjectBase \<Rightarrow> 'e ExtensionObjectMap \<Rightarrow> 'e InformationModel \<Rightarrow> node_ptr
     \<Rightarrow> MonitoredItemCreateRequest \<Rightarrow> 'e MonitorItem \<Rightarrow> (u32 \<times> 'e MonitorItem) option" where
  "MonitorItem_receive ops reg im p req mi = do {
     node \<leftarrow> im_heap im p;
     mi \<leftarrow> MonitorItem_setParameters node p req mi;
     (let attributeId = unat (itemToMonitor_attributeId req)
      in case node_attribute node attributeId of
           None \<Rightarrow> Some (status_BadNodeIdUnknown, mi)
         | Some attribute \<Rightarrow> do {
             let mi = mi\<lparr>mi_attribute := Some attributeId\<rparr>;
             let n = MonitoredItemNotification_new;
             let n = (if \<not> attr_exist attribute
                      then n\<lparr>mn_dataValue := (mn_dataValue n)\<lparr>dv_statusCode := status_BadDataUnavailable\<rparr>\<rparr>
                      else n\<lparr>mn_dataValue :=
                        (snd (AttributeAccess_copy_toDataValue ops reg (attr_data attribute) (mn_dataValue n)))
                          \<lparr>dv_statusCode := status_Success\<rparr>\<rparr>);
             mi \<leftarrow> MonitorItem_monitorItemListPushBack n mi;
             Some (status_Success, mi) }) }"

text \<open>Draining a queue into an array with room for \<open>freeSize\<close> elements (also used for event items).\<close>

fun drain_queue :: "nat \<Rightarrow> 'n list \<Rightarrow> 'n OpcUaArray \<Rightarrow> u32 \<times> 'n list \<times> 'n OpcUaArray" where
  "drain_queue freeSize [] a = (status_Success, [], a)"
| "drain_queue 0 (n # ns) a = (status_BadOutOfMemory, n # ns, a)"
| "drain_queue (Suc freeSize) (n # ns) a = drain_queue freeSize ns (snd (OpcUaArray_push_back n a))"

definition MonitorItem_receiveArray ::
  "'e MonitoredItemNotification OpcUaArray \<Rightarrow> 'e MonitorItem
     \<Rightarrow> u32 \<times> 'e MonitorItem \<times> 'e MonitoredItemNotification OpcUaArray" where
  "MonitorItem_receiveArray a mi =
     (let (statusCode, list, a) = drain_queue (OpcUaArray_freeSize a) (mi_list mi) a
      in (statusCode, mi\<lparr>mi_list := list\<rparr>, a))"

datatype SampleResult = Ok | NodeNoLongerExist

definition MonitorItem_sample ::
  "'e ExtensionObjectBase \<Rightarrow> 'e ExtensionObjectMap \<Rightarrow> 'e InformationModel \<Rightarrow> 'e MonitorItem
     \<Rightarrow> (SampleResult \<times> 'e MonitorItem) option" where
  "MonitorItem_sample ops reg im mi =
     (case im_heap im (mi_node mi) of
        None \<Rightarrow>
          (if dv_statusCode (mi_dataValue mi) = status_BadNodeClassInvalid then Some (NodeNoLongerExist, mi)
           else do {
             let n = MonitoredItemNotification_new;
             mi \<leftarrow> MonitorItem_monitorItemListPushBack
               (n\<lparr>mn_dataValue := (mn_dataValue n)\<lparr>dv_statusCode := status_BadNodeClassInvalid\<rparr>\<rparr>) mi;
             Some (NodeNoLongerExist, mi) })
      | Some node \<Rightarrow> do {
          attributeId \<leftarrow> mi_attribute mi;
          attribute \<leftarrow> node_attribute node attributeId;
          (triggered, dataValue) \<leftarrow>
            AttributeAccess_trigger ops (mi_dataValue mi) (attr_data attribute) DCT_StatusValue;
          let mi = mi\<lparr>mi_dataValue := dataValue\<rparr>;
          (if \<not> triggered then Some (Ok, mi)
           else do {
             let n = MonitoredItemNotification_new;
             let n = n\<lparr>mn_dataValue :=
               snd (AttributeAccess_copy_toDataValue ops reg (attr_data attribute) (mn_dataValue n))\<rparr>;
             let mi = mi\<lparr>mi_dataValue :=
               snd (AttributeAccess_copy_toDataValue ops reg (attr_data attribute) (mi_dataValue mi))\<rparr>;
             mi \<leftarrow> MonitorItem_monitorItemListPushBack n mi;
             Some (Ok, mi) }) })"

lemmas monitor_item_defs = MonitorItem_monitorItemListPushBack_def MonitorItem_receiveArray_def
  MonitorItem_sample_def MonitorItem_receive_def

section \<open>The queue\<close>

text \<open>The specification: a bounded queue that, when full, forgets its oldest or its newest entry.\<close>

definition bounded_push :: "nat \<Rightarrow> bool \<Rightarrow> 'n \<Rightarrow> 'n list \<Rightarrow> 'n list" where
  "bounded_push m oldest n q =
     (if length q < m then q @ [n] else if oldest then tl q @ [n] else butlast q @ [n])"

definition queue_ok :: "'e MonitorItem \<Rightarrow> bool" where
  "queue_ok mi \<longleftrightarrow> 0 < mi_queSize mi \<and> length (mi_list mi) \<le> unat (mi_queSize mi)"

lemma push_back_spec:
  assumes "queue_ok mi"
  shows "MonitorItem_monitorItemListPushBack n mi =
     Some (mi\<lparr>mi_list := bounded_push (unat (mi_queSize mi)) (mi_discardOldest mi)
                (n\<lparr>mn_clientHandle := mi_clientHandle mi\<rparr>) (mi_list mi)\<rparr>)"
proof -
  have "unat (mi_queSize mi) < 2 ^ 32" using unsigned_less [of "mi_queSize mi"] by simp
  then have l: "length (mi_list mi) < 2 ^ 32" using assms by (simp add: queue_ok_def)
  then have u: "unat (word_of_nat (length (mi_list mi)) :: u32) = length (mi_list mi)"
    by (simp add: unat_of_nat)
  have "0 < unat (mi_queSize mi)" using assms by (simp add: queue_ok_def word_less_nat_alt)
  then show ?thesis
    using assms u
    by (auto simp: MonitorItem_monitorItemListPushBack_def bounded_push_def queue_ok_def word_le_nat_alt)
qed

lemma bounded_push_length: "length q \<le> m \<Longrightarrow> 0 < m \<Longrightarrow> length (bounded_push m b n q) \<le> m"
  by (auto simp: bounded_push_def)

lemma queue_push_ok:
  "queue_ok mi \<Longrightarrow> MonitorItem_monitorItemListPushBack n mi = Some mi' \<Longrightarrow>
     queue_ok mi' \<and> mi_queSize mi' = mi_queSize mi \<and> mi_discardOldest mi' = mi_discardOldest mi"
  using bounded_push_length [of "mi_list mi" "unat (mi_queSize mi)"]
  by (auto simp: push_back_spec queue_ok_def word_less_nat_alt)

lemma drain_queue_spec:
  "OpcUaArray_inv a \<Longrightarrow> drain_queue (OpcUaArray_freeSize a) q a =
     (if length q \<le> OpcUaArray_freeSize a then status_Success else status_BadOutOfMemory,
      drop (OpcUaArray_freeSize a) q, fold (\<lambda>v a. snd (OpcUaArray_push_back v a)) (take (OpcUaArray_freeSize a) q) a)"
proof (induction q arbitrary: a)
  case (Cons n q)
  show ?case
  proof (cases "OpcUaArray_freeSize a")
    case (Suc k)
    then have "OpcUaArray_freeSize (snd (OpcUaArray_push_back n a)) = k"
      using array_buffer.push_free [OF Cons.prems, of n] by simp
    with Suc Cons.IH [OF inv_push_back [OF Cons.prems, of n]] show ?thesis by simp
  qed simp
qed simp

lemma drain_queue_list:
  assumes "OpcUaArray_inv a" and "drain_queue (OpcUaArray_freeSize a) q a = (s, q', a')"
  shows "OpcUaArray_inv a'" and "OpcUaArray_list a' @ q' = OpcUaArray_list a @ q"
    and "OpcUaArray_freeSize a' = OpcUaArray_freeSize a - length q"
    and "s = status_Success \<longleftrightarrow> length q \<le> OpcUaArray_freeSize a"
    and "s = status_Success \<or> s = status_BadOutOfMemory"
proof -
  let ?k = "OpcUaArray_freeSize a"
  have q': "q' = drop ?k q" and a': "a' = fold (\<lambda>v a. snd (OpcUaArray_push_back v a)) (take ?k q) a"
    and s: "s = (if length q \<le> ?k then status_Success else status_BadOutOfMemory)"
    using assms(2) drain_queue_spec [OF assms(1), of q] by simp_all
  show "OpcUaArray_inv a'" unfolding a' by (rule array_buffer.push_all_invar [OF assms(1)])
  show "OpcUaArray_list a' @ q' = OpcUaArray_list a @ q"
    using array_buffer.push_all_fits [OF assms(1), of "take ?k q"] unfolding a' q' by simp
  show "OpcUaArray_freeSize a' = ?k - length q"
    using array_buffer.push_all [OF assms(1), of "take ?k q"] unfolding a' by simp
  show "s = status_Success \<longleftrightarrow> length q \<le> ?k" "s = status_Success \<or> s = status_BadOutOfMemory"
    unfolding s by (simp_all add: status_defs)
qed

lemma bounded_push_oldest:
  "0 < m \<Longrightarrow> length q \<le> m \<Longrightarrow> fold (bounded_push m True) ns q = drop (length (q @ ns) - m) (q @ ns)"
proof (induction ns arbitrary: q)
  case (Cons n ns)
  show ?case
  proof (cases "length q < m")
    case True
    then show ?thesis using Cons.IH [of "q @ [n]"] Cons.prems by (simp add: bounded_push_def)
  next
    case False
    then obtain a q' where q: "q = a # q'" "length q = m" using Cons.prems by (cases q) auto
    then have "length (tl q @ [n]) = m" using Cons.prems by simp
    moreover have "length (q @ n # ns) - m = Suc (length ns)" using q by simp
    moreover have "drop (Suc (length ns)) (q @ n # ns) = drop (length ns) (tl q @ n # ns)" using q by simp
    ultimately show ?thesis using Cons.IH [of "tl q @ [n]"] False Cons.prems by (simp add: bounded_push_def)
  qed
qed simp

lemma bounded_push_newest:
  "0 < m \<Longrightarrow> length q \<le> m \<Longrightarrow> fold (bounded_push m False) ns q =
     (if length (q @ ns) \<le> m then q @ ns else take (m - 1) (q @ ns) @ [last ns])"
proof (induction ns arbitrary: q)
  case (Cons n ns)
  show ?case
  proof (cases "length q < m")
    case True
    then have "fold (bounded_push m False) ns (q @ [n]) =
        (if length (q @ n # ns) \<le> m then q @ n # ns else take (m - 1) (q @ n # ns) @ [last ns])"
      using Cons.IH [of "q @ [n]"] Cons.prems by simp
    moreover have "ns \<noteq> []" if "m < length (q @ n # ns)" using that True by auto
    moreover have "bounded_push m False n q = q @ [n]" using True by (simp add: bounded_push_def)
    ultimately show ?thesis by auto
  next
    case False
    then have q: "length q = m" using Cons.prems by simp
    have b: "length (butlast q @ [n]) = m" using q Cons.prems by simp
    have t: "take (m - 1) (butlast q @ [n]) = take (m - 1) q" using q by (simp add: take_butlast butlast_conv_take)
    have "bounded_push m False n q = butlast q @ [n]" using False by (simp add: bounded_push_def)
    then show ?thesis
      using Cons.IH [of "butlast q @ [n]"] Cons.prems(1) b q t
      by (cases ns) (auto simp: butlast_conv_take)
  qed
qed simp

fun MonitorItem_pushAll :: "'e MonitoredItemNotification list \<Rightarrow> 'e MonitorItem \<Rightarrow> 'e MonitorItem option" where
  "MonitorItem_pushAll [] mi = Some mi"
| "MonitorItem_pushAll (n # ns) mi = do {
     mi \<leftarrow> MonitorItem_monitorItemListPushBack n mi;
     MonitorItem_pushAll ns mi }"

lemma push_all_spec:
  "queue_ok mi \<Longrightarrow> MonitorItem_pushAll ns mi =
     Some (mi\<lparr>mi_list := fold (bounded_push (unat (mi_queSize mi)) (mi_discardOldest mi))
        (map (\<lambda>n. n\<lparr>mn_clientHandle := mi_clientHandle mi\<rparr>) ns) (mi_list mi)\<rparr>)"
proof (induction ns arbitrary: mi)
  case (Cons n ns)
  let ?mi = "mi\<lparr>mi_list := bounded_push (unat (mi_queSize mi)) (mi_discardOldest mi)
                (n\<lparr>mn_clientHandle := mi_clientHandle mi\<rparr>) (mi_list mi)\<rparr>"
  have "queue_ok ?mi" using queue_push_ok [OF Cons.prems push_back_spec [OF Cons.prems]] by simp
  with Cons.IH [of ?mi] show ?case by (simp add: push_back_spec [OF Cons.prems])
qed simp

section \<open>Properties\<close>

text \<open>
  C16: The notification queue of a monitored item with queue size \<open>m\<close> is a bounded queue:
  whatever is queued, no operation fails, and an item that discards the oldest entries holds the last
  \<open>m\<close> notifications in order, one that discards the newest holds the first \<open>m - 1\<close> and the last one,
  each under the client handle of the item.
\<close>

theorem monitor_item_queue:
  assumes "0 < mi_queSize mi" and "mi_list mi = []"
  defines "m \<equiv> unat (mi_queSize mi)"
    and "own \<equiv> map (\<lambda>n. n\<lparr>mn_clientHandle := mi_clientHandle mi\<rparr>)"
  shows "\<exists>mi'. MonitorItem_pushAll ns mi = Some mi' \<and> length (mi_list mi') \<le> m
     \<and> mi_list mi' = (if mi_discardOldest mi then drop (length ns - m) (own ns)
                      else if length ns \<le> m then own ns else take (m - 1) (own ns) @ [last (own ns)])"
proof -
  have ok: "queue_ok mi" using assms by (simp add: queue_ok_def)
  have m: "0 < m" using assms(1) by (simp add: m_def word_less_nat_alt)
  have "mi_list (mi\<lparr>mi_list := fold (bounded_push m b) (own ns) []\<rparr>) =
      (if b then drop (length ns - m) (own ns)
       else if length ns \<le> m then own ns else take (m - 1) (own ns) @ [last (own ns)])" for b
    using bounded_push_oldest [OF m, of "[]" "own ns"] bounded_push_newest [OF m, of "[]" "own ns"]
    by (cases b) (simp_all add: own_def)
  then show ?thesis
    using push_all_spec [OF ok, of ns] m assms(2) by (auto simp: m_def own_def)
qed

definition demo_item :: "StandardObject MonitorItem" where
  "demo_item = (MonitorItem_new 1 0)\<lparr>mi_queSize := 2, mi_discardOldest := True, mi_attribute := Some 13\<rparr>"

definition demo_notification :: "u32 \<Rightarrow> StandardObject MonitoredItemNotification" where
  "demo_notification k = \<lparr>mn_clientHandle = 0,
     mn_dataValue = OpcUaDataValue_new\<lparr>dv_variant := Some (OpcUaVariant_setValue (VUInt32 k) OpcUaVariant_new)\<rparr>\<rparr>"

theorem monitor_item_queue_witness:
  "\<exists>mi'. MonitorItem_pushAll [demo_notification 1, demo_notification 2, demo_notification 3] demo_item = Some mi'
     \<and> mi_list mi' = [demo_notification 2, demo_notification 3]"
proof -
  have i: "0 < mi_queSize demo_item" "mi_list demo_item = []" "mi_discardOldest demo_item"
      "unat (mi_queSize demo_item) = 2" "mi_clientHandle demo_item = 0"
    by (simp_all add: demo_item_def MonitorItem_new_def)
  have n: "(demo_notification k)\<lparr>mn_clientHandle := 0\<rparr> = demo_notification k" for k
    by (simp add: demo_notification_def)
  show ?thesis
    using monitor_item_queue [OF i(1,2), of "[demo_notification 1, demo_notification 2, demo_notification 3]"]
    unfolding i(4,5) using i(3) n by (auto simp del: MonitorItem_pushAll.simps)
qed

text \<open>
  C38: The first value of a monitored variable is reported twice, and the first report hides
  its status.  Creating the item queues a notification whose status code is always good, but does not
  remember the value; the first sample, with nothing changed, finds a difference to the empty
  remembered value and queues the value again, this time with its own status code.
\<close>

theorem initial_value_reported_twice:
  assumes node: "im_heap im p = Some node" "node_attribute node 13 = Some \<lparr>attr_data = ValueAttribute x, attr_exist = True\<rparr>"
    and x: "dv_variant x = Some v"
    and req: "itemToMonitor_attributeId req = 13" "1 < rp_queueSize req"
      "AttributeBase_getMinimumSamplingInterval node = None" "dbl_to_u32 (rp_samplingInterval req) = Some interval"
  shows "\<exists>mi mi' n1 n2. MonitorItem_receive ops reg im p req (MonitorItem_new i e) = Some (status_Success, mi)
     \<and> MonitorItem_sample ops reg im mi = Some (Ok, mi') \<and> mi_list mi' = [n1, n2]
     \<and> dv_variant (mn_dataValue n1) = dv_variant (mn_dataValue n2) \<and> dv_variant (mn_dataValue n1) \<noteq> None
     \<and> dv_statusCode (mn_dataValue n1) = status_Success
     \<and> dv_statusCode (mn_dataValue n2) = dv_statusCode x"
proof -
  let ?d = "OpcUaDataValue_copyTo ops reg x OpcUaDataValue_new"
  let ?c = "rp_clientHandle req"
  let ?n1 = "\<lparr>mn_clientHandle = ?c, mn_dataValue = ?d\<lparr>dv_statusCode := status_Success\<rparr>\<rparr>"
  let ?n2 = "\<lparr>mn_clientHandle = ?c, mn_dataValue = ?d\<rparr>"
  define mi where "mi = (MonitorItem_new i e :: 'a MonitorItem)\<lparr>mi_node := p, mi_nodeId := BaseNodeClass_nodeId node,
      mi_queSize := rp_queueSize req, mi_discardOldest := rp_discardOldest req, mi_clientHandle := ?c,
      mi_samplingInterval := interval, mi_attribute := Some 13, mi_list := [?n1]\<rparr>"
  have q: "rp_queueSize req \<noteq> 0" "\<not> rp_queueSize req \<le> 0" "\<not> rp_queueSize req \<le> 1"
    using req(2) by (auto simp: not_le intro: order.strict_trans [of 0 1])
  have create: "MonitorItem_receive ops reg im p req (MonitorItem_new i e) = Some (status_Success, mi)"
    using node req q
    by (simp add: MonitorItem_receive_def MonitorItem_setParameters_def MonitorItem_monitorItemListPushBack_def
        mi_def MonitorItem_new_def MonitoredItemNotification_new_def AttributeAccess_copy_toDataValue_def)
  have trigger: "AttributeAccess_trigger ops OpcUaDataValue_new (ValueAttribute x) DCT_StatusValue
      = Some (True, OpcUaDataValue_new)"
    using x by (simp add: AttributeAccess_trigger_def OpcUaDataValue_trigger_def
        OpcUaDataValue_trigger_StatusValue_def OpcUaDataValue_new_def)
  have sample: "MonitorItem_sample ops reg im mi =
      Some (Ok, mi\<lparr>mi_dataValue := ?d, mi_list := [?n1, ?n2]\<rparr>)"
    using node req q trigger
    by (simp add: MonitorItem_sample_def MonitorItem_monitorItemListPushBack_def mi_def MonitorItem_new_def
        MonitoredItemNotification_new_def AttributeAccess_copy_toDataValue_def)
  have d: "dv_variant ?d \<noteq> None" "dv_statusCode ?d = dv_statusCode x"
    using x by (simp_all add: OpcUaDataValue_copyTo_def OpcUaDataValue_new_def Let_def)
  have "mi_list (mi\<lparr>mi_dataValue := ?d, mi_list := [?n1, ?n2]\<rparr>) = [?n1, ?n2]" by simp
  with create sample d show ?thesis by fastforce
qed

definition demo_value :: "StandardObject OpcUaDataValue" where
  "demo_value = OpcUaDataValue_new\<lparr>dv_variant := Some (OpcUaVariant_setValue (VUInt32 7) OpcUaVariant_new),
     dv_statusCode := status_BadDataUnavailable\<rparr>"

definition demo_variable :: "StandardObject BaseNodeClass" where
  "demo_variable = \<lparr>node_attribute = [13 \<mapsto> \<lparr>attr_data = ValueAttribute demo_value, attr_exist = True\<rparr>],
     node_references = []\<rparr>"

definition demo_request :: MonitoredItemCreateRequest where
  "demo_request = \<lparr>itemToMonitor_nodeId = nodeId0 2258, itemToMonitor_attributeId = 13, rp_clientHandle = 3,
     rp_samplingInterval = dbl_200, rp_queueSize = 2, rp_discardOldest = True\<rparr>"

definition demo_space :: "StandardObject InformationModel" where
  "demo_space = \<lparr>im_map = [(nodeId0 2258, 1)], im_heap = [1 \<mapsto> demo_variable]\<rparr>"

theorem initial_value_reported_twice_witness:
  "\<exists>mi mi' n1 n2. MonitorItem_receive StandardObject_ops Core_extensionObjectMap demo_space 1 demo_request (MonitorItem_new 1 0)
       = Some (status_Success, mi)
     \<and> MonitorItem_sample StandardObject_ops Core_extensionObjectMap demo_space mi = Some (Ok, mi') \<and> mi_list mi' = [n1, n2]
     \<and> dv_statusCode (mn_dataValue n1) = status_Success
     \<and> dv_statusCode (mn_dataValue n2) = status_BadDataUnavailable"
proof -
  have 1: "im_heap demo_space 1 = Some demo_variable" by (simp add: demo_space_def)
  have 2: "node_attribute demo_variable 13 = Some \<lparr>attr_data = ValueAttribute demo_value, attr_exist = True\<rparr>"
    by (simp add: demo_variable_def)
  have 3: "dv_variant demo_value = Some (OpcUaVariant_setValue (VUInt32 7) OpcUaVariant_new)"
    by (simp add: demo_value_def)
  have 4: "itemToMonitor_attributeId demo_request = 13" "1 < rp_queueSize demo_request"
      "AttributeBase_getMinimumSamplingInterval demo_variable = None"
      "dbl_to_u32 (rp_samplingInterval demo_request) = Some 200"
    by (simp_all add: demo_request_def AttributeBase_getMinimumSamplingInterval_def demo_variable_def dbl_200_u32)
  have "dv_statusCode demo_value = status_BadDataUnavailable" by (simp add: demo_value_def)
  then show ?thesis
    using initial_value_reported_twice [OF 1 2 3 4, of StandardObject_ops Core_extensionObjectMap 1 0]
    by metis
qed

end
