(* ===== verification/TypeConversion.thy ===== *)
theory TypeConversion
  imports DataValues
begin

text \<open>
  \<^verbatim>\<open>OpcUaTypeConversion\<close>: the precedence of the built-in types, the table that says which conversion
  is implicit (I), explicit (E) or impossible (X), and the conversions between the integer types.

  The conversions that print or parse text (\<^verbatim>\<open>boost::lexical_cast\<close>), do floating point
  arithmetic or rebuild identifiers are the parameter \<open>lib_cast\<close>: it is asked only where the table
  allows a conversion.
\<close>

type_synonym 'e lib_cast = "'e OpcUaVariantValue \<Rightarrow> nat \<Rightarrow> 'e OpcUaVariantValue option"

text \<open>Types are the numbers of \<^verbatim>\<open>OpcUaBuildInType\<close>; the default -1 becomes 255.\<close>

definition OpcUaTypeConversion_precedenceRank :: "nat \<Rightarrow> nat" where
  "OpcUaTypeConversion_precedenceRank t =
     (case map_of [(11, 0), (10, 1), (8, 2), (9, 3), (6, 4), (7, 5), (19, 6), (4, 7), (5, 8), (2, 9), (3, 10),
        (1, 11), (14, 12), (12, 13), (18, 14), (17, 15), (21, 16), (20, 17), (15, 18), (13, 19), (16, 20)] t of
        Some r \<Rightarrow> r | None \<Rightarrow> 255)"

definition OpcUaTypeConversion_index :: "nat \<Rightarrow> nat option" where
  "OpcUaTypeConversion_index t =
     map_of [(1, 0), (3, 1), (15, 2), (13, 3), (11, 4), (18, 5), (10, 6), (14, 7), (4, 8), (6, 9), (8, 10), (17, 11),
       (2, 12), (19, 13), (12, 14), (21, 15), (20, 16), (5, 17), (7, 18), (9, 19), (16, 20)] t"

definition conversationTypeTable :: "string list" where
  "conversationTypeTable =
     [''-IXXIXIXIIIXIXEXXIIIX'',
      ''E-XXIXIXIIIXIXEXXIIIX'',
      ''XX-XXXXEXXXXXXXXXXXXX'',
      ''XXX-XXXXXXXXXXEXXXXXX'',
      ''EEXX-XEXEEEXEXEXXEEEX'',
      ''XXXXX-XXXXXEXXIXXXXXX'',
      ''EEXXIX-XEEEXEXEXXEEEX'',
      ''XXEXXXX-XXXXXXEXXXXXX'',
      ''EEXXIXIX-IIXEXEXXEIIX'',
      ''EEXXIXIXE-IXEEEXXEEIX'',
      ''EEXXIXIXEE-XEEEXXEEEX'',
      ''XXXXXIXXXXX-XXIXXXXXX'',
      ''EEXXIXIXIIIX-XEXXIIIX'',
      ''XXXXXXXXXIIXX-XXXEIIX'',
      ''IIXEIEIIIIIEIX-EEIIIX'',
      ''XXXXXXXXXXXXXXI-XXXXX'',
      ''XXXXXXXXXXXXXXII-XXXX'',
      ''EEXXIXIXIIIXEIEXX-IIX'',
      ''EEXXIXIXEIIXEEEXXE-IX'',
      ''EEXXIXIXEEIXEEEXXEE-X'',
      ''XXXXXXXXXXXXXXXXXXXX-'']"

definition OpcUaTypeConversion_conversionType :: "nat \<Rightarrow> nat \<Rightarrow> char" where
  "OpcUaTypeConversion_conversionType s t =
     (case (OpcUaTypeConversion_index s, OpcUaTypeConversion_index t) of
        (Some i, Some j) \<Rightarrow> conversationTypeTable ! i ! j
      | _ \<Rightarrow> CHR ''X'')"

section \<open>The integer types\<close>

fun variant_integer :: "'e OpcUaVariantValue \<Rightarrow> int option" where
  "variant_integer (VBoolean b) = Some (if b then 1 else 0)"
| "variant_integer (VSByte x) = Some (sint x)"
| "variant_integer (VByte x) = Some (uint x)"
| "variant_integer (VInt16 x) = Some (sint x)"
| "variant_integer (VUInt16 x) = Some (uint x)"
| "variant_integer (VInt32 x) = Some (sint x)"
| "variant_integer (VUInt32 x) = Some (uint x)"
| "variant_integer (VInt64 x) = Some (sint x)"
| "variant_integer (VUInt64 x) = Some (uint x)"
| "variant_integer (VStatusCode x) = Some (uint x)"
| "variant_integer _ = None"

text \<open>The value range of a type and the implicit conversion of C++, which wraps round.\<close>

definition integer_range :: "nat \<Rightarrow> (int \<times> int) option" where
  "integer_range t = map_of [(2, (- (2 ^ 7), 2 ^ 7 - 1)), (3, (0, 2 ^ 8 - 1)), (4, (- (2 ^ 15), 2 ^ 15 - 1)),
     (5, (0, 2 ^ 16 - 1)), (6, (- (2 ^ 31), 2 ^ 31 - 1)), (7, (0, 2 ^ 32 - 1)), (8, (- (2 ^ 63), 2 ^ 63 - 1)),
     (9, (0, 2 ^ 64 - 1))] t"

definition integer_value :: "nat \<Rightarrow> int \<Rightarrow> 'e OpcUaVariantValue option" where
  "integer_value t i =
     (if t = 1 then Some (VBoolean (i \<noteq> 0))
      else if t = 2 then Some (VSByte (word_of_int i))
      else if t = 3 then Some (VByte (word_of_int i))
      else if t = 4 then Some (VInt16 (word_of_int i))
      else if t = 5 then Some (VUInt16 (word_of_int i))
      else if t = 6 then Some (VInt32 (word_of_int i))
      else if t = 7 then Some (VUInt32 (word_of_int i))
      else if t = 8 then Some (VInt64 (word_of_int i))
      else if t = 9 then Some (VUInt64 (word_of_int i))
      else None)"

text \<open>
  The pairs of types the code converts with an assignment; all other pairs of integer types go through
  \<^verbatim>\<open>boost::numeric_cast\<close>, which refuses a value outside the range of the target.
\<close>

definition assigned_from_boolean_byte :: "nat \<Rightarrow> nat \<Rightarrow> bool" where
  "assigned_from_boolean_byte s t \<longleftrightarrow> s = 1 \<or> (s = 3 \<and> t \<in> {1, 4, 5, 6, 7, 8, 9})"

definition assigned_from_signed :: "nat \<Rightarrow> nat \<Rightarrow> bool" where
  "assigned_from_signed s t \<longleftrightarrow>
     (s = 4 \<and> t \<in> {1, 6, 7, 8, 9}) \<or> (s = 6 \<and> t \<in> {1, 8, 9}) \<or> (s = 8 \<and> t = 1)"

definition assigned_from_sbyte_status :: "nat \<Rightarrow> nat \<Rightarrow> bool" where
  "assigned_from_sbyte_status s t \<longleftrightarrow> (s = 2 \<and> t \<in> {1, 4, 6, 8}) \<or> (s = 19 \<and> t \<in> {1, 6, 7, 8, 9})"

definition assigned_from_unsigned :: "nat \<Rightarrow> nat \<Rightarrow> bool" where
  "assigned_from_unsigned s t \<longleftrightarrow>
     (s = 5 \<and> t \<in> {1, 6, 7, 8, 9}) \<or> (s = 7 \<and> t \<in> {1, 8, 9}) \<or> (s = 9 \<and> t = 1)"

definition cast_by_assignment :: "nat \<Rightarrow> nat \<Rightarrow> bool" where
  "cast_by_assignment s t \<longleftrightarrow>
     assigned_from_boolean_byte s t \<or> assigned_from_signed s t \<or> assigned_from_sbyte_status s t
       \<or> assigned_from_unsigned s t"

lemmas cast_by_assignment_defs = cast_by_assignment_def assigned_from_boolean_byte_def
  assigned_from_signed_def assigned_from_sbyte_status_def assigned_from_unsigned_def

definition integer_cast :: "nat \<Rightarrow> nat \<Rightarrow> int \<Rightarrow> 'e OpcUaVariantValue option" where
  "integer_cast s t i =
     (if s = 19 \<and> t = 5 then integer_value 5 (i div 2 ^ 16)
      else if cast_by_assignment s t then integer_value t i
      else case integer_range t of
             None \<Rightarrow> None
           | Some (lo, hi) \<Rightarrow> if lo \<le> i \<and> i \<le> hi then integer_value t i else None)"

definition OpcUaTypeConversion_cast ::
  "'e lib_cast \<Rightarrow> 'e OpcUaVariant \<Rightarrow> nat \<Rightarrow> 'e OpcUaVariant option" where
  "OpcUaTypeConversion_cast lib_cast source targetType =
     (if OpcUaVariant_isArray source then None
      else let v = variantValueVec source ! 0; s = OpcUaVariantValue_variantType v
           in map_option (\<lambda>x. OpcUaVariant_setValue x OpcUaVariant_new)
                (if targetType \<in> {1, 2, 3, 4, 5, 6, 7, 8, 9} \<and> variant_integer v \<noteq> None
                 then integer_cast s targetType (the (variant_integer v))
                 else lib_cast v targetType))"

definition OpcUaTypeConversion_conversion ::
  "'e ExtensionObjectBase \<Rightarrow> 'e ExtensionObjectMap \<Rightarrow> 'e lib_cast \<Rightarrow> 'e OpcUaVariant \<Rightarrow> nat
     \<Rightarrow> 'e OpcUaVariant option" where
  "OpcUaTypeConversion_conversion ops reg lib_cast source targetType =
     (let c = OpcUaTypeConversion_conversionType (OpcUaVariant_variantType source) targetType
      in if c = CHR ''-'' then Some (OpcUaVariant_copyTo ops reg source OpcUaVariant_new)
         else if c = CHR ''I'' \<or> c = CHR ''E'' then OpcUaTypeConversion_cast lib_cast source targetType
         else None)"

section \<open>Properties\<close>

text \<open>Scalars.\<close>

abbreviation scalar :: "'e OpcUaVariantValue \<Rightarrow> 'e OpcUaVariant" where
  "scalar v \<equiv> OpcUaVariant_setValue v OpcUaVariant_new"

lemma scalar_simps [simp]:
  "variantValueVec (scalar v) = [v]" "arrayLength (scalar v) = - 1" "arrayDimensionsVec (scalar v) = []"
  "OpcUaVariant_variantType (scalar v) = OpcUaVariantValue_variantType v"
  "\<not> OpcUaVariant_isArray (scalar v)"
  by (simp_all add: OpcUaVariant_setValue_def OpcUaVariant_new_def OpcUaVariant_clear_def
      OpcUaVariant_variantType_def OpcUaVariant_isArray_def)

lemma scalar_eq [simp]: "scalar v = scalar w \<longleftrightarrow> v = w"
  using scalar_simps(1) by (metis list.inject)

lemma copy_scalar_boolean [simp]:
  "OpcUaVariant_copyTo ops reg (scalar (VBoolean b)) OpcUaVariant_new = scalar (VBoolean b)"
  by (simp add: OpcUaVariant_copyTo_def OpcUaVariant_setArrayDimension_def OpcUaVariant_setValue_def
      OpcUaVariant_new_def OpcUaVariant_clear_def)

lemma convert_boolean [simp]:
  "OpcUaTypeConversion_conversion ops reg lib (scalar (VBoolean b)) 1 = Some (scalar (VBoolean b))"
  by (simp add: OpcUaTypeConversion_conversion_def OpcUaTypeConversion_conversionType_def
      OpcUaTypeConversion_index_def conversationTypeTable_def)

lemma convert_null [simp]:
  "OpcUaVariant_variantType v = 0 \<Longrightarrow> OpcUaTypeConversion_conversion ops reg lib v t = None"
  by (simp add: OpcUaTypeConversion_conversion_def OpcUaTypeConversion_conversionType_def OpcUaTypeConversion_index_def)

lemma variant_integer_type: "variant_integer v \<noteq> None \<Longrightarrow> OpcUaVariantValue_variantType v \<in> {1, 2, 3, 4, 5, 6, 7, 8, 9, 19}"
  by (cases v) auto

lemma uint_range: "0 \<le> uint (x :: 'a::len word)" "uint x < 2 ^ LENGTH('a)"
  by simp_all

lemma sint_range: "- (2 ^ (LENGTH('a) - 1)) \<le> sint (x :: 'a::len word)" "sint x < 2 ^ (LENGTH('a) - 1)"
  by (simp_all add: sint_greater_eq sint_less)

text \<open>The value of an integer variant lies in the range of its type.\<close>

lemma variant_integer_range:
  assumes "variant_integer v = Some i" and "integer_range (OpcUaVariantValue_variantType v) = Some (lo, hi)"
  shows "lo \<le> i \<and> i \<le> hi"
proof (cases v)
  case (VSByte x) then show ?thesis using assms sint_range [of x] by (auto simp: integer_range_def)
next
  case (VByte x) then show ?thesis using assms uint_range [of x] by (auto simp: integer_range_def)
next
  case (VInt16 x) then show ?thesis using assms sint_range [of x] by (auto simp: integer_range_def)
next
  case (VUInt16 x) then show ?thesis using assms uint_range [of x] by (auto simp: integer_range_def)
next
  case (VInt32 x) then show ?thesis using assms sint_range [of x] by (auto simp: integer_range_def)
next
  case (VUInt32 x) then show ?thesis using assms uint_range [of x] by (auto simp: integer_range_def)
next
  case (VInt64 x) then show ?thesis using assms sint_range [of x] by (auto simp: integer_range_def)
next
  case (VUInt64 x) then show ?thesis using assms uint_range [of x] by (auto simp: integer_range_def)
qed (use assms in \<open>simp_all add: integer_range_def\<close>)

lemma sint_word_of_int_in:
  "- (2 ^ (LENGTH('a) - 1)) \<le> i \<Longrightarrow> i < 2 ^ (LENGTH('a) - 1) \<Longrightarrow> sint (word_of_int i :: 'a::len word) = i"
  by (simp add: signed_of_int signed_take_bit_int_eq_self)

lemma uint_word_of_int_in: "0 \<le> i \<Longrightarrow> i < 2 ^ LENGTH('a) \<Longrightarrow> uint (word_of_int i :: 'a::len word) = i"
  by (simp add: unsigned_of_int take_bit_int_eq_self)

lemma integer_value_in_range:
  assumes "integer_range t = Some (lo, hi)" "lo \<le> i" "i \<le> hi"
  shows "\<exists>v. integer_value t i = Some v \<and> variant_integer v = Some i"
proof -
  consider "t = 2" | "t = 3" | "t = 4" | "t = 5" | "t = 6" | "t = 7" | "t = 8" | "t = 9"
    using assms(1) by (auto simp: integer_range_def split: if_splits)
  then show ?thesis
    using assms
    by cases (auto simp: integer_range_def integer_value_def sint_word_of_int_in uint_word_of_int_in)
qed

text \<open>
  The assignment keeps the value unless it is negative and the target unsigned, or a status code is
  assigned to a signed 32-bit integer.
\<close>

lemma assignment_in_range:
  assumes "variant_integer v = Some i" and "cast_by_assignment (OpcUaVariantValue_variantType v) t"
    and "integer_range t = Some (lo, hi)" and "i < 0 \<longrightarrow> lo < 0" and "OpcUaVariantValue_variantType v \<noteq> 19"
  shows "lo \<le> i \<and> i \<le> hi"
proof (cases v)
  case (VBoolean b)
  have "0 < hi" "lo \<le> 0" using assms(3) by (auto simp: integer_range_def split: if_splits)
  then show ?thesis using assms(1) VBoolean by auto
next
  case (VSByte x)
  then show ?thesis using assms sint_range [of x]
    by (auto simp: integer_range_def cast_by_assignment_defs split: if_splits)
next
  case (VByte x)
  then show ?thesis using assms uint_range [of x]
    by (auto simp: integer_range_def cast_by_assignment_defs split: if_splits)
next
  case (VInt16 x)
  then show ?thesis using assms sint_range [of x]
    by (auto simp: integer_range_def cast_by_assignment_defs split: if_splits)
next
  case (VUInt16 x)
  then show ?thesis using assms uint_range [of x]
    by (auto simp: integer_range_def cast_by_assignment_defs split: if_splits)
next
  case (VInt32 x)
  then show ?thesis using assms sint_range [of x]
    by (auto simp: integer_range_def cast_by_assignment_defs split: if_splits)
next
  case (VUInt32 x)
  then show ?thesis using assms uint_range [of x]
    by (auto simp: integer_range_def cast_by_assignment_defs split: if_splits)
next
  case (VInt64 x)
  then show ?thesis using assms by (auto simp: integer_range_def cast_by_assignment_defs split: if_splits)
next
  case (VUInt64 x)
  then show ?thesis using assms by (auto simp: integer_range_def cast_by_assignment_defs split: if_splits)
qed (use assms in auto)

text \<open>
  C28: A conversion between the integer types (and from Boolean) that the table allows
  keeps the number, or fails exactly when the number is outside the range of the target type; the
  exceptions, which wrap round, are negative numbers converted to an unsigned type that the source
  type is assigned to, and status codes.
\<close>

theorem integer_conversion_keeps_value:
  fixes v :: "'e OpcUaVariantValue"
  assumes "variant_integer v = Some i" and "integer_range t = Some (lo, hi)"
    and "OpcUaTypeConversion_conversionType (OpcUaVariantValue_variantType v) t \<in> {CHR ''I'', CHR ''E''}"
    and "OpcUaVariantValue_variantType v \<noteq> 19"
    and "0 \<le> i \<or> lo < 0 \<or> \<not> cast_by_assignment (OpcUaVariantValue_variantType v) t"
  shows "(\<exists>w. OpcUaTypeConversion_conversion ops reg lib_cast (scalar v) t = Some (scalar w)
              \<and> variant_integer w = Some i \<and> lo \<le> i \<and> i \<le> hi)
       \<or> (OpcUaTypeConversion_conversion ops reg lib_cast (scalar v) t = None \<and> \<not> (lo \<le> i \<and> i \<le> hi))"
proof -
  let ?s = "OpcUaVariantValue_variantType v"
  have t: "t \<in> {1, 2, 3, 4, 5, 6, 7, 8, 9}"
    using assms(2) by (auto simp: integer_range_def split: if_splits)
  have c: "OpcUaTypeConversion_conversion ops reg lib_cast (scalar v) t
      = map_option scalar (integer_cast ?s t i)"
    using assms(1,3) t
    by (auto simp: OpcUaTypeConversion_conversion_def OpcUaTypeConversion_cast_def Let_def)
  show ?thesis
  proof (cases "lo \<le> i \<and> i \<le> hi")
    case True
    then obtain w :: "'e OpcUaVariantValue" where "integer_value t i = Some w" "variant_integer w = Some i"
      using integer_value_in_range [OF assms(2)] by blast
    then show ?thesis using True c assms(2,4) by (simp add: integer_cast_def)
  next
    case False
    then have "\<not> cast_by_assignment ?s t"
      using assignment_in_range [OF assms(1) _ assms(2)] assms(4,5) by auto
    then show ?thesis using False c assms(2,4) by (auto simp: integer_cast_def)
  qed
qed

theorem integer_conversion_keeps_value_witness:
  "OpcUaTypeConversion_conversion StandardObject_ops Core_extensionObjectMap (\<lambda>_ _. None) (scalar (VInt32 70000)) 5 = None"
  using integer_conversion_keeps_value [of "VInt32 70000 :: StandardObject OpcUaVariantValue" 70000 5 0 65535
      StandardObject_ops Core_extensionObjectMap "\<lambda>_ _. None"]
  by (simp add: integer_range_def OpcUaTypeConversion_conversionType_def OpcUaTypeConversion_index_def
      conversationTypeTable_def)

end
