(* ===== verification/Filters.thy ===== *)
theory Filters
  imports TypeConversion
begin

text \<open>
  Event and content filters (\<^verbatim>\<open>OpcUaStackCore/Filter/\<close>): the tree of filter nodes, its evaluation
  on variants, and \<^verbatim>\<open>FilterStack\<close>, which builds the tree from the elements of a
  \<^verbatim>\<open>ContentFilter\<close> and reads the result as a Boolean.

  \<^item> \<open>evaluate\<close> returns the value where the C++ function returns true, \<^term>\<open>Some None\<close> where it returns
    false, and \<^term>\<open>None\<close> where it dereferences a null pointer or takes the wrong alternative of a variant.
  \<^item> The environment holds what the nodes ask outside the filter: the attribute interfaces and the
    conversions of \<open>TypeConversion\<close> that are a parameter.
  \<^item> A node whose operand count is wrong has a bad status and evaluates to false: \<open>InvalidNode\<close>.
\<close>

datatype OpcUaOperator = Equals | GreaterThan | LessThan | GreaterThanOrEqual | LessThanOrEqual

datatype LogicalOperator = And | Or

datatype BitwiseOperator = BitwiseAnd | BitwiseOr

record SimpleAttributeOperand =
  sao_typeId :: OpcUaNodeIdBase
  sao_browsePath :: "OpcUaQualifiedName list"
  sao_attributeId :: u32
  sao_indexRange :: OpcUaString

record RelativePathElement =
  rpe_referenceTypeId :: OpcUaNodeIdBase
  rpe_isInverse :: bool
  rpe_includeSubtypes :: bool
  rpe_targetName :: OpcUaQualifiedName

record AttributeOperand =
  ao_nodeId :: OpcUaNodeIdBase
  ao_alias :: OpcUaString
  ao_browsePath :: "RelativePathElement list"
  ao_attributeId :: u32
  ao_indexRange :: OpcUaString

datatype 'e FilterNode =
    LiteralFilterNode "'e OpcUaVariant"
  | AttributeFilterNode AttributeOperand
  | SimpleAttributeFilterNode SimpleAttributeOperand
  | ComparisonFilterNode OpcUaOperator "'e FilterNode" "'e FilterNode"
  | IsNullFilterNode "'e FilterNode"
  | LikeFilterNode "'e FilterNode" "'e FilterNode"
  | NotFilterNode "'e FilterNode"
  | BetweenFilterNode "'e FilterNode" "'e FilterNode" "'e FilterNode"
  | InListFilterNode "'e FilterNode" "'e FilterNode list"
  | LogicalOpFilterNode LogicalOperator "'e FilterNode" "'e FilterNode"
  | CastFilterNode "'e FilterNode" "'e FilterNode"
  | BitwiseOpFilterNode BitwiseOperator "'e FilterNode" "'e FilterNode"
  | InvalidNode

record 'e FilterEnv =
  fe_ops :: "'e ExtensionObjectBase"
  fe_reg :: "'e ExtensionObjectMap"
  fe_cast :: "'e lib_cast"
  fe_attribute :: "AttributeOperand \<Rightarrow> 'e OpcUaVariant option"
  fe_simpleAttribute :: "SimpleAttributeOperand \<Rightarrow> 'e OpcUaVariant option"

abbreviation conversion :: "'e FilterEnv \<Rightarrow> 'e OpcUaVariant \<Rightarrow> nat \<Rightarrow> 'e OpcUaVariant option" where
  "conversion env \<equiv> OpcUaTypeConversion_conversion (fe_ops env) (fe_reg env) (fe_cast env)"

abbreviation variant_copy :: "'e FilterEnv \<Rightarrow> 'e OpcUaVariant \<Rightarrow> 'e OpcUaVariant" where
  "variant_copy env v \<equiv> OpcUaVariant_copyTo (fe_ops env) (fe_reg env) v OpcUaVariant_new"

abbreviation rank :: "'e OpcUaVariant \<Rightarrow> nat" where
  "rank v \<equiv> OpcUaTypeConversion_precedenceRank (OpcUaVariant_variantType v)"

abbreviation first_value :: "'e OpcUaVariant \<Rightarrow> 'e OpcUaVariantValue" where
  "first_value v \<equiv> variantValueVec v ! 0"

section \<open>The Like matcher\<close>

text \<open>
  Reading a \<^verbatim>\<open>std::string\<close> at its size yields the null character; reading behind it is undefined
  (\<^term>\<open>None\<close>).  \<^verbatim>\<open>char\<close> is signed.
\<close>

definition string_at :: "string \<Rightarrow> nat \<Rightarrow> char option" where
  "string_at s k = (if k < length s then Some (s ! k) else if k = length s then Some (CHR 0x00) else None)"

definition signed_char :: "char \<Rightarrow> int" where
  "signed_char c = sint (byte_of_char c)"

definition char_succ :: "char \<Rightarrow> char" where
  "char_succ c = char_of_byte (byte_of_char c + 1)"

partial_function (option) char_range :: "char \<Rightarrow> char \<Rightarrow> char list option" where
  "char_range limit c =
     (if signed_char limit \<ge> signed_char c then do {
        cs \<leftarrow> char_range limit (char_succ c);
        Some (c # cs) }
      else Some [])"

text \<open>The characters of a bracket expression; the result is the list and the position behind it.\<close>

partial_function (option) LikeFilterNode_charList :: "string \<Rightarrow> nat \<Rightarrow> (char list \<times> nat) option" where
  "LikeFilterNode_charList pattern j =
     (if j < length pattern then do {
        c \<leftarrow> string_at pattern (j + 1);
        (if c = CHR '']'' then Some ([], j + 2)
         else if c = CHR ''-'' then do {
           from \<leftarrow> string_at pattern j;
           limit \<leftarrow> string_at pattern (j + 2);
           cs \<leftarrow> char_range limit from;
           (ds, k) \<leftarrow> LikeFilterNode_charList pattern (j + 2);
           Some (cs @ ds, k) }
         else if c = CHR 0x5C then do {
           d \<leftarrow> string_at pattern (j + 2);
           (ds, k) \<leftarrow> LikeFilterNode_charList pattern (j + 2);
           Some (d # ds, k) }
         else do {
           (ds, k) \<leftarrow> LikeFilterNode_charList pattern (j + 1);
           Some (c # ds, k) }) }
      else Some ([], j))"

text \<open>One round of the loop: the next \<open>i\<close>, \<open>j\<close> and \<open>result\<close>.\<close>

definition LikeFilterNode_step ::
  "string \<Rightarrow> string \<Rightarrow> nat \<Rightarrow> nat \<Rightarrow> (nat \<times> nat \<times> bool) option" where
  "LikeFilterNode_step string pattern i j =
     (let p = pattern ! j; s = string ! i
      in if p = CHR ''%'' then
           (if j + 1 = length pattern then Some (length string, j, True)
            else do {
              q \<leftarrow> string_at pattern (j + 1);
              Some (i + 1, if q = s then j + 2 else j, i + 1 < length string) })
         else if p = CHR ''_'' then Some (i + 1, j + 1, True)
         else if p = CHR 0x5C then
           (if j + 1 \<ge> length pattern then Some (i, j, p = s)
            else Some (i + 1, j + 2, pattern ! (j + 1) = s))
         else if p = CHR ''['' then do {
           q \<leftarrow> string_at pattern (j + 1);
           let inversed = (q = CHR ''^'');
           (cs, k) \<leftarrow> LikeFilterNode_charList pattern (if inversed then j + 1 else j);
           Some (i + 1, k, (s \<in> set cs) \<noteq> inversed) }
         else Some (i + 1, j + 1, p = s))"

partial_function (option) LikeFilterNode_loop ::
  "string \<Rightarrow> string \<Rightarrow> nat \<Rightarrow> nat \<Rightarrow> bool \<Rightarrow> bool option" where
  "LikeFilterNode_loop string pattern i j result =
     (if i < length string \<and> j < length pattern \<and> result then do {
        (i, j, result) \<leftarrow> LikeFilterNode_step string pattern i j;
        LikeFilterNode_loop string pattern i j result }
      else Some (if i < length string then False else result))"

definition LikeFilterNode_matches :: "string \<Rightarrow> string \<Rightarrow> bool option" where
  "LikeFilterNode_matches string pattern = LikeFilterNode_loop string pattern 0 0 True"

section \<open>Evaluation\<close>

datatype LogicalValue = LTrue | LFalse | LNull

fun andTable :: "LogicalValue \<Rightarrow> LogicalValue \<Rightarrow> LogicalValue" where
  "andTable LTrue LTrue = LTrue"
| "andTable LTrue LFalse = LFalse"
| "andTable LTrue LNull = LNull"
| "andTable LFalse LTrue = LFalse"
| "andTable LFalse LFalse = LFalse"
| "andTable LFalse LNull = LFalse"
| "andTable LNull LTrue = LNull"
| "andTable LNull LFalse = LFalse"
| "andTable LNull LNull = LNull"

fun orTable :: "LogicalValue \<Rightarrow> LogicalValue \<Rightarrow> LogicalValue" where
  "orTable LTrue LTrue = LTrue"
| "orTable LTrue LFalse = LTrue"
| "orTable LTrue LNull = LTrue"
| "orTable LFalse LTrue = LTrue"
| "orTable LFalse LFalse = LFalse"
| "orTable LFalse LNull = LNull"
| "orTable LNull LTrue = LTrue"
| "orTable LNull LFalse = LNull"
| "orTable LNull LNull = LNull"

definition LogicalOpFilterNode_toLogicalValue :: "'e FilterEnv \<Rightarrow> 'e OpcUaVariant option \<Rightarrow> LogicalValue" where
  "LogicalOpFilterNode_toLogicalValue env r =
     (case r of
        None \<Rightarrow> LNull
      | Some v \<Rightarrow>
          if OpcUaVariant_isNull v then LNull
          else case conversion env (variant_copy env v) 1 of
                 None \<Rightarrow> LNull
               | Some b \<Rightarrow> if getBoolean (first_value b) then LTrue else LFalse)"

definition LogicalOpFilterNode_value :: "LogicalValue \<Rightarrow> 'e OpcUaVariant" where
  "LogicalOpFilterNode_value l =
     (case l of LNull \<Rightarrow> OpcUaVariant_new | LTrue \<Rightarrow> scalar (VBoolean True) | LFalse \<Rightarrow> scalar (VBoolean False))"

definition ComparisonFilterNode_compare ::
  "'e ExtensionObjectBase \<Rightarrow> OpcUaOperator \<Rightarrow> 'e OpcUaVariantValue \<Rightarrow> 'e OpcUaVariantValue \<Rightarrow> bool" where
  "ComparisonFilterNode_compare ops operator a b =
     (case operator of
        Equals \<Rightarrow> OpcUaVariantValue_equal ops a b
      | GreaterThan \<Rightarrow> OpcUaVariantValue_greater ops a b
      | LessThan \<Rightarrow> OpcUaVariantValue_less a b
      | GreaterThanOrEqual \<Rightarrow> OpcUaVariantValue_greater_eq a b
      | LessThanOrEqual \<Rightarrow> OpcUaVariantValue_less_eq ops a b)"

definition ComparisonFilterNode_apply ::
  "'e FilterEnv \<Rightarrow> OpcUaOperator \<Rightarrow> 'e OpcUaVariant \<Rightarrow> 'e OpcUaVariant \<Rightarrow> 'e OpcUaVariant" where
  "ComparisonFilterNode_apply env operator v1 v2 =
     (let converted = (if rank v1 > rank v2
                       then map_option (\<lambda>v1. (v1, v2)) (conversion env v1 (OpcUaVariant_variantType v2))
                       else if rank v1 < rank v2
                       then map_option (\<lambda>v2. (v1, v2)) (conversion env v2 (OpcUaVariant_variantType v1))
                       else Some (v1, v2))
      in case converted of
           None \<Rightarrow> scalar (VBoolean False)
         | Some (v1, v2) \<Rightarrow>
             scalar (VBoolean (ComparisonFilterNode_compare (fe_ops env) operator (first_value v1) (first_value v2))))"

text \<open>The operand that did not evaluate is an empty variant in \<^verbatim>\<open>Between\<close>.\<close>

definition BetweenFilterNode_apply ::
  "'e FilterEnv \<Rightarrow> 'e OpcUaVariant \<Rightarrow> 'e OpcUaVariant \<Rightarrow> 'e OpcUaVariant \<Rightarrow> 'e OpcUaVariant" where
  "BetweenFilterNode_apply env x lo hi =
     (let t = (if rank x < rank lo then OpcUaVariant_variantType x else OpcUaVariant_variantType lo);
          t = (if OpcUaTypeConversion_precedenceRank t < rank hi then t else OpcUaVariant_variantType hi)
      in case (conversion env (variant_copy env x) t, conversion env (variant_copy env lo) t,
               conversion env (variant_copy env hi) t) of
           (Some x, Some lo, Some hi) \<Rightarrow>
             scalar (VBoolean (OpcUaVariantValue_greater_eq (first_value x) (first_value lo)
               \<and> OpcUaVariantValue_less_eq (fe_ops env) (first_value x) (first_value hi)))
         | _ \<Rightarrow> scalar (VBoolean False))"

text \<open>The operands up to the first that does not evaluate.\<close>

fun evaluated_prefix :: "'e OpcUaVariant option list \<Rightarrow> 'e OpcUaVariant list" where
  "evaluated_prefix (Some v # rs) = v # evaluated_prefix rs"
| "evaluated_prefix _ = []"

definition InListFilterNode_apply ::
  "'e FilterEnv \<Rightarrow> 'e OpcUaVariant option \<Rightarrow> 'e OpcUaVariant option list \<Rightarrow> 'e OpcUaVariant" where
  "InListFilterNode_apply env arg rs =
     (case arg of
        None \<Rightarrow> scalar (VBoolean False)
      | Some v \<Rightarrow>
          (let operands = evaluated_prefix rs;
               t = foldl (\<lambda>t w. if OpcUaTypeConversion_precedenceRank t < rank w then t
                                else OpcUaVariant_variantType w) (OpcUaVariant_variantType v) operands
           in case conversion env (variant_copy env v) t of
                None \<Rightarrow> scalar (VBoolean False)
              | Some v \<Rightarrow> scalar (VBoolean (list_ex
                  (\<lambda>w. case conversion env (variant_copy env w) t of
                         None \<Rightarrow> False | Some w \<Rightarrow> OpcUaVariant_equal (fe_ops env) w v) operands))))"

definition BitwiseOpFilterNode_findBiggestIntegerType :: "'e OpcUaVariant \<Rightarrow> 'e OpcUaVariant \<Rightarrow> nat" where
  "BitwiseOpFilterNode_findBiggestIntegerType v1 v2 =
     (let t = (if rank v1 < rank v2 then OpcUaVariant_variantType v1 else OpcUaVariant_variantType v2)
      in if t \<in> {11, 10} then 8
         else if t \<in> {8, 9, 6, 7} then t
         else if t = 19 then 6
         else if t \<in> {4, 5, 2, 3} then t
         else if t = 1 then 3
         else 8)"

definition BitwiseOpFilterNode_apply ::
  "'e FilterEnv \<Rightarrow> BitwiseOperator \<Rightarrow> 'e OpcUaVariant \<Rightarrow> 'e OpcUaVariant \<Rightarrow> 'e OpcUaVariant option" where
  "BitwiseOpFilterNode_apply env operator v1 v2 = do {
     let t = BitwiseOpFilterNode_findBiggestIntegerType v1 v2;
     w1 \<leftarrow> conversion env (variant_copy env v1) 8;
     w2 \<leftarrow> conversion env (variant_copy env v2) 8;
     let x = getInt64 (first_value w1);
     let y = getInt64 (first_value w2);
     conversion env (scalar (VInt64 (case operator of BitwiseAnd \<Rightarrow> x AND y | BitwiseOr \<Rightarrow> x OR y))) t }"

text \<open>
  \<^verbatim>\<open>Like\<close> goes on when an operand does not evaluate: the first is then empty, the second the first one
  again.  A pattern that drives the loop for ever, or behind the string, is \<^term>\<open>None\<close>.
\<close>

definition variant_string :: "'e OpcUaVariant \<Rightarrow> string" where
  "variant_string v = str_value (getString (first_value v))"

definition LikeFilterNode_apply ::
  "'e FilterEnv \<Rightarrow> 'e OpcUaVariant option \<Rightarrow> 'e OpcUaVariant option \<Rightarrow> 'e OpcUaVariant option option" where
  "LikeFilterNode_apply env r1 r2 =
     (let argValue = (case r1 of None \<Rightarrow> OpcUaVariant_new | Some v \<Rightarrow> v)
      in case conversion env argValue 12 of
           None \<Rightarrow> Some None
         | Some s \<Rightarrow>
             (let argValue = (case r2 of None \<Rightarrow> argValue | Some v \<Rightarrow> v)
              in case conversion env argValue 12 of
                   None \<Rightarrow> Some None
                 | Some p \<Rightarrow> map_option (\<lambda>b. Some (scalar (VBoolean b)))
                     (LikeFilterNode_matches (variant_string s) (variant_string p))))"

text \<open>The type operand of \<^verbatim>\<open>Cast\<close> must hold a numeric node identifier.\<close>

definition CastFilterNode_apply ::
  "'e FilterEnv \<Rightarrow> 'e OpcUaVariant \<Rightarrow> 'e OpcUaVariant \<Rightarrow> 'e OpcUaVariant option option" where
  "CastFilterNode_apply env v typeId =
     (case first_value typeId of
        VNodeId n \<Rightarrow>
          (case OpcUaNodeIdBase_getNumeric n of
             None \<Rightarrow> None
           | Some (i, _) \<Rightarrow> Some (Some (case conversion env v (unat i) of None \<Rightarrow> OpcUaVariant_new | Some w \<Rightarrow> w)))
      | _ \<Rightarrow> None)"

definition FilterNode_toBoolean :: "'e FilterEnv \<Rightarrow> 'e OpcUaVariant option \<Rightarrow> bool option" where
  "FilterNode_toBoolean env r = do { v \<leftarrow> r; b \<leftarrow> conversion env v 1; Some (getBoolean (first_value b)) }"

definition NotFilterNode_apply :: "'e FilterEnv \<Rightarrow> 'e OpcUaVariant option \<Rightarrow> 'e OpcUaVariant option" where
  "NotFilterNode_apply env r = map_option (\<lambda>b. scalar (VBoolean (\<not> b))) (FilterNode_toBoolean env r)"

fun FilterNode_evaluate :: "'e FilterEnv \<Rightarrow> 'e FilterNode \<Rightarrow> 'e OpcUaVariant option option" where
  "FilterNode_evaluate env (LiteralFilterNode v) = Some (Some (variant_copy env (variant_copy env v)))"
| "FilterNode_evaluate env (AttributeFilterNode a) = Some (fe_attribute env a)"
| "FilterNode_evaluate env (SimpleAttributeFilterNode a) = Some (fe_simpleAttribute env a)"
| "FilterNode_evaluate env (ComparisonFilterNode operator a b) = do {
     r1 \<leftarrow> FilterNode_evaluate env a;
     (case r1 of
        None \<Rightarrow> Some None
      | Some v1 \<Rightarrow> do {
          r2 \<leftarrow> FilterNode_evaluate env b;
          Some (map_option (ComparisonFilterNode_apply env operator v1) r2) }) }"
| "FilterNode_evaluate env (IsNullFilterNode a) = do {
     r \<leftarrow> FilterNode_evaluate env a;
     Some (Some (scalar (VBoolean (case r of None \<Rightarrow> True | Some v \<Rightarrow> OpcUaVariant_isNull v)))) }"
| "FilterNode_evaluate env (LikeFilterNode a b) = do {
     r1 \<leftarrow> FilterNode_evaluate env a;
     r2 \<leftarrow> FilterNode_evaluate env b;
     LikeFilterNode_apply env r1 r2 }"
| "FilterNode_evaluate env (NotFilterNode a) = do {
     r \<leftarrow> FilterNode_evaluate env a;
     Some (NotFilterNode_apply env r) }"
| "FilterNode_evaluate env (BetweenFilterNode a b c) = do {
     x \<leftarrow> FilterNode_evaluate env a;
     lo \<leftarrow> FilterNode_evaluate env b;
     hi \<leftarrow> FilterNode_evaluate env c;
     (let the_value = (\<lambda>r. case r of None \<Rightarrow> OpcUaVariant_new | Some v \<Rightarrow> v)
      in Some (Some (BetweenFilterNode_apply env (the_value x) (the_value lo) (the_value hi)))) }"
| "FilterNode_evaluate env (InListFilterNode a as) = do {
     r \<leftarrow> FilterNode_evaluate env a;
     (if r = None then Some (Some (InListFilterNode_apply env None []))
      else do {
        rs \<leftarrow> those (map (FilterNode_evaluate env) as);
        Some (Some (InListFilterNode_apply env r rs)) }) }"
| "FilterNode_evaluate env (LogicalOpFilterNode operator a b) = do {
     r1 \<leftarrow> FilterNode_evaluate env a;
     r2 \<leftarrow> FilterNode_evaluate env b;
     (let l1 = LogicalOpFilterNode_toLogicalValue env r1; l2 = LogicalOpFilterNode_toLogicalValue env r2
      in Some (Some (LogicalOpFilterNode_value
           (case operator of And \<Rightarrow> andTable l1 l2 | Or \<Rightarrow> orTable l1 l2)))) }"
| "FilterNode_evaluate env (CastFilterNode a b) = do {
     r1 \<leftarrow> FilterNode_evaluate env a;
     (case r1 of
        None \<Rightarrow> Some None
      | Some v \<Rightarrow> do {
          r2 \<leftarrow> FilterNode_evaluate env b;
          (case r2 of None \<Rightarrow> Some None | Some typeId \<Rightarrow> CastFilterNode_apply env v typeId) }) }"
| "FilterNode_evaluate env (BitwiseOpFilterNode operator a b) = do {
     r1 \<leftarrow> FilterNode_evaluate env a;
     (case r1 of
        None \<Rightarrow> Some None
      | Some v1 \<Rightarrow> do {
          r2 \<leftarrow> FilterNode_evaluate env b;
          Some (do { v2 \<leftarrow> r2; BitwiseOpFilterNode_apply env operator v1 v2 }) }) }"
| "FilterNode_evaluate env InvalidNode = Some None"

end
