(* ===== verification/FilterStack.thy ===== *)
theory FilterStack
  imports Filters
begin

text \<open>
  \<^verbatim>\<open>FilterStack\<close>: the tree of filter nodes is built from the elements of a content filter, element
  0 being the root; an element refers to others by their index, which must be greater than its own.
  A null shared pointer is \<^term>\<open>None\<close>, and so is the result of an operation that dereferences one.
\<close>

section \<open>Content filters\<close>

datatype 'e FilterOperand =
    LiteralOperand "'e OpcUaVariant"
  | ElementOperand u32
  | AttributeOperand AttributeOperand
  | SimpleAttributeOperand SimpleAttributeOperand
  | OtherOperand

record 'e ContentFilterElement =
  filterOperator :: u32
  filterOperands :: "'e FilterOperand list"

record ContentFilterElementResult =
  cfer_statusCode :: u32
  cfer_operandStatusCodes :: "u32 OpcUaArray"

type_synonym ContentFilterResult = "ContentFilterElementResult option OpcUaArray"

definition ContentFilterElementResult_new :: ContentFilterElementResult where
  "ContentFilterElementResult_new =
     \<lparr>cfer_statusCode = 0, cfer_operandStatusCodes = OpcUaArray_new 0 1\<rparr>"

definition BadTypeMismatch :: u32 where "BadTypeMismatch = 0x80740000"
definition BadFilterOperatorUnsupported :: u32 where "BadFilterOperatorUnsupported = 0x80C20000"
definition BadFilterOperandCountMismatch :: u32 where "BadFilterOperandCountMismatch = 0x80C30000"
definition BadFilterOperandInvalid :: u32 where "BadFilterOperandInvalid = 0x80490000"
definition BadFilterElementInvalid :: u32 where "BadFilterElementInvalid = 0x80C40000"

lemmas filter_status_defs = BadTypeMismatch_def BadFilterOperatorUnsupported_def
  BadFilterOperandCountMismatch_def BadFilterOperandInvalid_def BadFilterElementInvalid_def

text \<open>The constructors of the nodes check the number of their operands.\<close>

definition unary_node :: "('e FilterNode \<Rightarrow> 'e FilterNode) \<Rightarrow> 'e FilterNode list \<Rightarrow> 'e FilterNode" where
  "unary_node c args = (case args of [a] \<Rightarrow> c a | _ \<Rightarrow> InvalidNode)"

definition binary_node ::
  "('e FilterNode \<Rightarrow> 'e FilterNode \<Rightarrow> 'e FilterNode) \<Rightarrow> 'e FilterNode list \<Rightarrow> 'e FilterNode" where
  "binary_node c args = (case args of [a, b] \<Rightarrow> c a b | _ \<Rightarrow> InvalidNode)"

definition BetweenFilterNode_new :: "'e FilterNode list \<Rightarrow> 'e FilterNode" where
  "BetweenFilterNode_new args = (case args of [a, b, c] \<Rightarrow> BetweenFilterNode a b c | _ \<Rightarrow> InvalidNode)"

definition InListFilterNode_new :: "'e FilterNode list \<Rightarrow> 'e FilterNode" where
  "InListFilterNode_new args = (case args of a # b # cs \<Rightarrow> InListFilterNode a (b # cs) | _ \<Rightarrow> InvalidNode)"

definition FilterNode_status :: "'e FilterNode \<Rightarrow> u32" where
  "FilterNode_status node = (case node of InvalidNode \<Rightarrow> BadFilterOperandCountMismatch | _ \<Rightarrow> 0)"

text \<open>The switch over the operator; \<^term>\<open>None\<close> is the default branch.\<close>

definition FilterStack_operatorNode :: "u32 \<Rightarrow> 'e FilterNode list \<Rightarrow> 'e FilterNode option" where
  "FilterStack_operatorNode operator args =
     (if operator = 1 then Some (unary_node IsNullFilterNode args)
      else if operator = 0 then Some (binary_node (ComparisonFilterNode Equals) args)
      else if operator = 2 then Some (binary_node (ComparisonFilterNode GreaterThan) args)
      else if operator = 3 then Some (binary_node (ComparisonFilterNode LessThan) args)
      else if operator = 4 then Some (binary_node (ComparisonFilterNode GreaterThanOrEqual) args)
      else if operator = 5 then Some (binary_node (ComparisonFilterNode LessThanOrEqual) args)
      else if operator = 6 then Some (binary_node LikeFilterNode args)
      else if operator = 7 then Some (unary_node NotFilterNode args)
      else if operator = 8 then Some (BetweenFilterNode_new args)
      else if operator = 9 then Some (InListFilterNode_new args)
      else if operator = 10 then Some (binary_node (LogicalOpFilterNode And) args)
      else if operator = 11 then Some (binary_node (LogicalOpFilterNode Or) args)
      else if operator = 12 then Some (binary_node CastFilterNode args)
      else if operator = 16 then Some (binary_node (BitwiseOpFilterNode BitwiseAnd) args)
      else if operator = 17 then Some (binary_node (BitwiseOpFilterNode BitwiseOr) args)
      else None)"

section \<open>Building the tree\<close>

text \<open>
  \<open>buildOperatorNode\<close> returns whether the element is valid, the node it has set (if any) and the
  results; \<open>operandLoop\<close> is its loop over the operands, which returns the arguments, the operand
  statuses, \<open>hasOperandError\<close> and the results.  An argument that was not built is not in the list
  (\<open>args\<close> is not read then).
\<close>

function FilterStack_buildOperatorNode ::
  "'e ContentFilterElement list \<Rightarrow> nat \<Rightarrow> ContentFilterResult
     \<Rightarrow> (bool \<times> 'e FilterNode option \<times> ContentFilterResult) option"
and FilterStack_operandLoop ::
  "'e ContentFilterElement list \<Rightarrow> nat \<Rightarrow> 'e FilterOperand list \<Rightarrow> 'e FilterNode list \<Rightarrow> u32 OpcUaArray
     \<Rightarrow> bool \<Rightarrow> ContentFilterResult
     \<Rightarrow> ('e FilterNode list \<times> u32 OpcUaArray \<times> bool \<times> ContentFilterResult) option" where
  "FilterStack_buildOperatorNode elements idx results =
     (if idx < length elements then do {
        let el = elements ! idx;
        let statuses = OpcUaArray_resize 0 (length (filterOperands el)) (OpcUaArray_new 0 1);
        (args, statuses, hasOperandError, results) \<leftarrow>
          FilterStack_operandLoop elements idx (filterOperands el) [] statuses False results;
        let node = (if hasOperandError then None else FilterStack_operatorNode (filterOperator el) args);
        let operatorStatus = (if hasOperandError then BadFilterOperandInvalid
                              else case node of None \<Rightarrow> BadFilterOperatorUnsupported
                                              | Some n \<Rightarrow> FilterNode_status n);
        let elementResult = (if hasOperandError
                             then ContentFilterElementResult_new\<lparr>cfer_operandStatusCodes := statuses\<rparr>
                             else ContentFilterElementResult_new)\<lparr>cfer_statusCode := operatorStatus\<rparr>;
        Some (operatorStatus = 0, node, snd (OpcUaArray_set idx (Some elementResult) results)) }
      else None)"
| "FilterStack_operandLoop elements idx [] args statuses hasOperandError results =
     Some (args, statuses, hasOperandError, results)"
| "FilterStack_operandLoop elements idx (operand # operands) args statuses hasOperandError results =
     (case operand of
        LiteralOperand v \<Rightarrow>
          FilterStack_operandLoop elements idx operands (args @ [LiteralFilterNode v])
            (snd (OpcUaArray_push_back 0 statuses)) hasOperandError results
      | ElementOperand operatorIdx \<Rightarrow>
          (if unat operatorIdx > idx then do {
             (ok, node, results) \<leftarrow> FilterStack_buildOperatorNode elements (unat operatorIdx) results;
             FilterStack_operandLoop elements idx operands
               (args @ (case node of None \<Rightarrow> [] | Some n \<Rightarrow> [n]))
               (snd (OpcUaArray_push_back (if ok then 0 else BadFilterOperandInvalid) statuses))
               (hasOperandError \<or> \<not> ok) results }
           else FilterStack_operandLoop elements idx operands args
                  (snd (OpcUaArray_push_back BadFilterElementInvalid statuses)) True results)
      | AttributeOperand a \<Rightarrow>
          FilterStack_operandLoop elements idx operands (args @ [AttributeFilterNode a])
            (snd (OpcUaArray_push_back 0 statuses)) hasOperandError results
      | SimpleAttributeOperand a \<Rightarrow>
          FilterStack_operandLoop elements idx operands (args @ [SimpleAttributeFilterNode a])
            (snd (OpcUaArray_push_back 0 statuses)) hasOperandError results
      | OtherOperand \<Rightarrow>
          FilterStack_operandLoop elements idx operands args
            (snd (OpcUaArray_push_back BadTypeMismatch statuses)) True results)"
  by pat_completeness auto

termination FilterStack_buildOperatorNode
  by (relation "inv_image (less_than <*lex*> less_than)
        (case_sum
           (\<lambda>(elements, idx, _). (length elements - idx,
              if idx < length elements then Suc (Suc (length (filterOperands (elements ! idx)))) else 0))
           (\<lambda>(elements, idx, operands, _). (length elements - idx, Suc (length operands))))")
    auto

declare FilterStack_buildOperatorNode.simps [simp del]

section \<open>receive and process\<close>

definition FilterStack_new :: "'e FilterNode" where
  "FilterStack_new = LiteralFilterNode (scalar (VBoolean True))"

text \<open>The check of the results; a result that was not set is a null pointer.\<close>

fun FilterStack_checkResults :: "ContentFilterElementResult option list \<Rightarrow> bool option" where
  "FilterStack_checkResults [] = Some True"
| "FilterStack_checkResults (None # _) = None"
| "FilterStack_checkResults (Some r # rs) =
     (if cfer_statusCode r \<noteq> 0 then Some False
      else if list_ex (\<lambda>s. s \<noteq> 0) (OpcUaArray_list (cfer_operandStatusCodes r)) then Some False
      else FilterStack_checkResults rs)"

definition FilterStack_receive ::
  "'e ContentFilterElement list \<Rightarrow> ContentFilterResult \<Rightarrow> 'e FilterNode
     \<Rightarrow> (bool \<times> 'e FilterNode \<times> ContentFilterResult) option" where
  "FilterStack_receive elements results root = do {
     (_, node, results) \<leftarrow> FilterStack_buildOperatorNode elements 0
       (OpcUaArray_resize None (length elements) results);
     ok \<leftarrow> FilterStack_checkResults (OpcUaArray_list results);
     Some (ok, case node of None \<Rightarrow> root | Some n \<Rightarrow> n, results) }"

text \<open>\<^verbatim>\<open>process\<close>: the value of the root as a Boolean.\<close>

definition FilterStack_process :: "'e FilterEnv \<Rightarrow> 'e FilterNode \<Rightarrow> bool option option" where
  "FilterStack_process env root = do {
     r \<leftarrow> FilterNode_evaluate env root;
     Some (FilterNode_toBoolean env r) }"

section \<open>Three-valued logic\<close>

text \<open>The truth values in Kleene's order: false below null below true.\<close>

instantiation LogicalValue :: linorder
begin

definition truth_degree :: "LogicalValue \<Rightarrow> nat" where
  "truth_degree l = (case l of LFalse \<Rightarrow> 0 | LNull \<Rightarrow> 1 | LTrue \<Rightarrow> 2)"

definition less_eq_LogicalValue :: "LogicalValue \<Rightarrow> LogicalValue \<Rightarrow> bool" where
  "less_eq_LogicalValue a b \<longleftrightarrow> truth_degree a \<le> truth_degree b"

definition less_LogicalValue :: "LogicalValue \<Rightarrow> LogicalValue \<Rightarrow> bool" where
  "less_LogicalValue a b \<longleftrightarrow> truth_degree a < truth_degree b"

instance
  by standard (auto simp: less_eq_LogicalValue_def less_LogicalValue_def truth_degree_def
      split: LogicalValue.splits)

end

lemma tables_min_max: "andTable a b = min a b" "orTable a b = max a b"
  by (cases a; cases b; simp add: min_def max_def less_eq_LogicalValue_def truth_degree_def)+

definition kleene_not :: "LogicalValue \<Rightarrow> LogicalValue" where
  "kleene_not l = (case l of LTrue \<Rightarrow> LFalse | LFalse \<Rightarrow> LTrue | LNull \<Rightarrow> LNull)"

text \<open>What a filter does with an event whose filter has this truth value.\<close>

definition decision :: "LogicalValue \<Rightarrow> bool option" where
  "decision l = (case l of LTrue \<Rightarrow> Some True | LFalse \<Rightarrow> Some False | LNull \<Rightarrow> None)"

text \<open>The results of the nodes that answer a question: nothing, null or a Boolean.\<close>

definition truth_result :: "'e OpcUaVariant option \<Rightarrow> bool" where
  "truth_result r \<longleftrightarrow> (case r of None \<Rightarrow> True | Some v \<Rightarrow> v = OpcUaVariant_new \<or> (\<exists>b. v = scalar (VBoolean b)))"

fun question :: "'e FilterNode \<Rightarrow> bool" where
  "question (ComparisonFilterNode _ _ _) = True"
| "question (IsNullFilterNode _) = True"
| "question (LikeFilterNode _ _) = True"
| "question (BetweenFilterNode _ _ _) = True"
| "question (InListFilterNode _ _) = True"
| "question InvalidNode = True"
| "question _ = False"

lemma variant_new_type [simp]: "OpcUaVariant_variantType OpcUaVariant_new = 0" "OpcUaVariant_isNull OpcUaVariant_new"
  by (simp_all add: OpcUaVariant_variantType_def OpcUaVariant_new_def OpcUaVariant_clear_def OpcUaVariant_isNull_def)

lemma scalar_not_null [simp]: "\<not> OpcUaVariant_isNull (scalar (VBoolean b))"
  by (simp add: OpcUaVariant_isNull_def)

lemma truth_result_simps [simp]:
  "truth_result None" "truth_result (Some OpcUaVariant_new)" "truth_result (Some (scalar (VBoolean b)))"
  by (auto simp: truth_result_def)

lemma truth_result_value [simp]: "truth_result (Some (LogicalOpFilterNode_value l))"
  by (cases l) (simp_all add: LogicalOpFilterNode_value_def)

lemma truth_result_cases:
  assumes "truth_result r"
  obtains "r = None" | "r = Some OpcUaVariant_new" | b where "r = Some (scalar (VBoolean b))"
  using assms by (auto simp: truth_result_def split: option.splits)

lemma comparison_result [simp]: "truth_result (Some (ComparisonFilterNode_apply env operator v w))"
  by (simp add: ComparisonFilterNode_apply_def Let_def split: option.splits prod.splits)

lemma between_result [simp]: "truth_result (Some (BetweenFilterNode_apply env x lo hi))"
  by (simp add: BetweenFilterNode_apply_def Let_def split: option.splits)

lemma inlist_result [simp]: "truth_result (Some (InListFilterNode_apply env arg rs))"
  by (simp add: InListFilterNode_apply_def Let_def split: option.splits)

lemma like_result: "LikeFilterNode_apply env r1 r2 = Some r \<Longrightarrow> truth_result r"
  by (auto simp: LikeFilterNode_apply_def Let_def split: option.splits)

lemma comparison_results [simp]: "truth_result (map_option (ComparisonFilterNode_apply env operator v) r)"
  by (cases r) simp_all

lemma question_result: "question a \<Longrightarrow> FilterNode_evaluate env a = Some r \<Longrightarrow> truth_result r"
  by (cases a) (auto simp: bind_eq_Some_conv Let_def like_result split: option.splits if_splits)

lemmas convert_boolean_Suc [simp] = convert_boolean [unfolded One_nat_def]

lemma truth_value_None [simp]: "LogicalOpFilterNode_toLogicalValue env None = LNull"
  by (simp add: LogicalOpFilterNode_toLogicalValue_def)

lemma truth_value_null [simp]: "LogicalOpFilterNode_toLogicalValue env (Some OpcUaVariant_new) = LNull"
  by (simp add: LogicalOpFilterNode_toLogicalValue_def)

lemma truth_value_boolean [simp]:
  "LogicalOpFilterNode_toLogicalValue env (Some (scalar (VBoolean b))) = (if b then LTrue else LFalse)"
  by (simp add: LogicalOpFilterNode_toLogicalValue_def)

lemma truth_value_value [simp]:
  "LogicalOpFilterNode_toLogicalValue env (Some (LogicalOpFilterNode_value l)) = l"
  by (cases l) (simp_all add: LogicalOpFilterNode_value_def)

text \<open>
  The logical operators over questions, and their value by Kleene's tables from the truth values of the
  questions.
\<close>

fun logic_tree :: "'e FilterNode \<Rightarrow> bool" where
  "logic_tree (LogicalOpFilterNode _ a b) = (logic_tree a \<and> logic_tree b)"
| "logic_tree (NotFilterNode a) = logic_tree a"
| "logic_tree (LiteralFilterNode v) = (v = scalar (VBoolean True) \<or> v = scalar (VBoolean False))"
| "logic_tree a = question a"

fun kleene :: "'e FilterEnv \<Rightarrow> 'e FilterNode \<Rightarrow> LogicalValue option" where
  "kleene env (LogicalOpFilterNode And a b) = do { x \<leftarrow> kleene env a; y \<leftarrow> kleene env b; Some (min x y) }"
| "kleene env (LogicalOpFilterNode Or a b) = do { x \<leftarrow> kleene env a; y \<leftarrow> kleene env b; Some (max x y) }"
| "kleene env (NotFilterNode a) = map_option kleene_not (kleene env a)"
| "kleene env a = map_option (LogicalOpFilterNode_toLogicalValue env) (FilterNode_evaluate env a)"

lemma toBoolean_simps [simp]:
  "FilterNode_toBoolean env None = None"
  "FilterNode_toBoolean env (Some OpcUaVariant_new) = None"
  "FilterNode_toBoolean env (Some (scalar (VBoolean b))) = Some b"
  unfolding FilterNode_toBoolean_def by simp_all

lemma not_result:
  assumes "truth_result r"
  shows "truth_result (NotFilterNode_apply env r)"
    and "LogicalOpFilterNode_toLogicalValue env (NotFilterNode_apply env r)
         = kleene_not (LogicalOpFilterNode_toLogicalValue env r)"
  using assms by (cases rule: truth_result_cases; simp add: kleene_not_def NotFilterNode_apply_def)+

lemma logic_tree_evaluate:
  assumes "logic_tree a"
  shows "(\<forall>r. FilterNode_evaluate env a = Some r \<longrightarrow> truth_result r)
       \<and> kleene env a = map_option (LogicalOpFilterNode_toLogicalValue env) (FilterNode_evaluate env a)"
  using assms
proof (induction a)
  case (NotFilterNode a)
  then show ?case by (cases "FilterNode_evaluate env a") (auto simp: not_result)
next
  case (LogicalOpFilterNode operator a b)
  then show ?case
    by (cases operator; cases "FilterNode_evaluate env a"; cases "FilterNode_evaluate env b")
      (auto simp: tables_min_max)
next
  case (ComparisonFilterNode operator a b)
  then show ?case using question_result [of "ComparisonFilterNode operator a b" env] by simp
next
  case (IsNullFilterNode a)
  then show ?case using question_result [of "IsNullFilterNode a" env] by simp
next
  case (LikeFilterNode a b)
  then show ?case using question_result [of "LikeFilterNode a b" env] by simp
next
  case (BetweenFilterNode a b c)
  then show ?case using question_result [of "BetweenFilterNode a b c" env] by simp
next
  case (InListFilterNode a bs)
  then show ?case using question_result [of "InListFilterNode a bs" env] by simp
qed auto

lemma process_truth_result:
  assumes "truth_result r"
  shows "FilterNode_toBoolean env r = decision (LogicalOpFilterNode_toLogicalValue env r)"
  using assms by (cases rule: truth_result_cases) (simp_all add: decision_def)

text \<open>
  C4: A filter of \<^verbatim>\<open>And\<close>, \<^verbatim>\<open>Or\<close> and \<^verbatim>\<open>Not\<close> over Boolean literals and the nodes that answer a
  question (comparisons, \<^verbatim>\<open>IsNull\<close>, \<^verbatim>\<open>Like\<close>, \<^verbatim>\<open>Between\<close>, \<^verbatim>\<open>InList\<close>) is decided by Kleene's three-valued
  logic, null standing for every operand that does not evaluate: conjunction is the minimum and
  disjunction the maximum in the order false, null, true; \<^verbatim>\<open>process\<close> fails exactly for null.
\<close>

theorem filter_logic_kleene:
  assumes "logic_tree root"
  shows "FilterStack_process env root = map_option decision (kleene env root)"
  using logic_tree_evaluate [OF assms, of env]
  by (cases "FilterNode_evaluate env root") (auto simp: FilterStack_process_def process_truth_result)

abbreviation demo_env :: "StandardObject FilterEnv" where
  "demo_env \<equiv> \<lparr>fe_ops = StandardObject_ops, fe_reg = Core_extensionObjectMap, fe_cast = (\<lambda>_ _. None),
    fe_attribute = (\<lambda>_. None), fe_simpleAttribute = (\<lambda>_. None)\<rparr>"

theorem filter_logic_kleene_witness:
  "FilterStack_process demo_env
     (LogicalOpFilterNode Or (NotFilterNode InvalidNode) (LiteralFilterNode (scalar (VBoolean True)))) = Some (Some True)"
  using filter_logic_kleene [of "LogicalOpFilterNode Or (NotFilterNode InvalidNode)
      (LiteralFilterNode (scalar (VBoolean True)))" demo_env]
  by (simp add: kleene_not_def decision_def max_def less_eq_LogicalValue_def truth_degree_def)

section \<open>What the builder accepts\<close>

definition operands_in_range :: "'e ContentFilterElement list \<Rightarrow> bool" where
  "operands_in_range elements \<longleftrightarrow>
     (\<forall>el \<in> set elements. \<forall>i. ElementOperand i \<in> set (filterOperands el) \<longrightarrow> unat i < length elements)"

definition arity_ok :: "u32 \<Rightarrow> nat \<Rightarrow> bool" where
  "arity_ok operator n \<longleftrightarrow>
     (operator \<in> {1, 7} \<and> n = 1) \<or> (operator \<in> {0, 2, 3, 4, 5, 6, 10, 11, 12, 16, 17} \<and> n = 2)
       \<or> (operator = 8 \<and> n = 3) \<or> (operator = 9 \<and> n > 1)"

fun operand_ok :: "nat \<Rightarrow> 'e FilterOperand \<Rightarrow> bool" where
  "operand_ok idx (ElementOperand i) = (idx < unat i)"
| "operand_ok idx OtherOperand = False"
| "operand_ok idx _ = True"

definition element_ok :: "'e ContentFilterElement list \<Rightarrow> nat \<Rightarrow> bool" where
  "element_ok elements idx \<longleftrightarrow>
     arity_ok (filterOperator (elements ! idx)) (length (filterOperands (elements ! idx)))
       \<and> list_all (operand_ok idx) (filterOperands (elements ! idx))"

text \<open>One element refers to another; the reference is followed only forwards.\<close>

definition refers :: "'e ContentFilterElement list \<Rightarrow> nat \<Rightarrow> nat \<Rightarrow> bool" where
  "refers elements i j \<longleftrightarrow> (\<exists>k. ElementOperand k \<in> set (filterOperands (elements ! i)) \<and> j = unat k \<and> i < j)"

definition part_ok :: "'e ContentFilterElement list \<Rightarrow> nat \<Rightarrow> bool" where
  "part_ok elements i \<longleftrightarrow> (\<forall>j. (refers elements)\<^sup>*\<^sup>* i j \<longrightarrow> element_ok elements j)"

fun valid_node :: "'e FilterNode \<Rightarrow> bool" where
  "valid_node InvalidNode = False"
| "valid_node (ComparisonFilterNode _ a b) = (valid_node a \<and> valid_node b)"
| "valid_node (IsNullFilterNode a) = valid_node a"
| "valid_node (LikeFilterNode a b) = (valid_node a \<and> valid_node b)"
| "valid_node (NotFilterNode a) = valid_node a"
| "valid_node (BetweenFilterNode a b c) = (valid_node a \<and> valid_node b \<and> valid_node c)"
| "valid_node (InListFilterNode a bs) = (valid_node a \<and> (\<forall>b \<in> set bs. valid_node b))"
| "valid_node (LogicalOpFilterNode _ a b) = (valid_node a \<and> valid_node b)"
| "valid_node (CastFilterNode a b) = (valid_node a \<and> valid_node b)"
| "valid_node (BitwiseOpFilterNode _ a b) = (valid_node a \<and> valid_node b)"
| "valid_node _ = True"

lemma part_ok_unfold:
  "part_ok elements i \<longleftrightarrow> element_ok elements i \<and> (\<forall>j. refers elements i j \<longrightarrow> part_ok elements j)"
  unfolding part_ok_def by (blast elim: converse_rtranclpE intro: converse_rtranclp_into_rtranclp)

lemma unary_node_status: "FilterNode_status (unary_node c args) = 0 \<longleftrightarrow> length args = 1"
  if "\<And>a. c a \<noteq> InvalidNode"
  using that by (auto simp: unary_node_def FilterNode_status_def filter_status_defs split: list.splits FilterNode.splits)

lemma binary_node_status: "FilterNode_status (binary_node c args) = 0 \<longleftrightarrow> length args = 2"
  if "\<And>a b. c a b \<noteq> InvalidNode"
  using that by (auto simp: binary_node_def FilterNode_status_def filter_status_defs split: list.splits FilterNode.splits)

lemma other_node_status:
  "FilterNode_status (BetweenFilterNode_new args) = 0 \<longleftrightarrow> length args = 3"
  "FilterNode_status (InListFilterNode_new args) = 0 \<longleftrightarrow> length args > 1"
  by (auto simp: BetweenFilterNode_new_def InListFilterNode_new_def FilterNode_status_def filter_status_defs
      split: list.splits)

lemma operatorNode_status:
  "(case FilterStack_operatorNode operator args of None \<Rightarrow> BadFilterOperatorUnsupported | Some n \<Rightarrow> FilterNode_status n) = 0
     \<longleftrightarrow> arity_ok operator (length args)"
proof -
  have u: "BadFilterOperatorUnsupported \<noteq> 0" by (simp add: filter_status_defs)
  show ?thesis
    unfolding FilterStack_operatorNode_def arity_ok_def
    by (simp add: unary_node_status binary_node_status other_node_status u)
qed

lemma operatorNode_valid:
  assumes "FilterStack_operatorNode operator args = Some n" "FilterNode_status n = 0" "\<forall>a \<in> set args. valid_node a"
  shows "valid_node n"
  using assms
  by (auto simp: FilterStack_operatorNode_def unary_node_def binary_node_def BetweenFilterNode_new_def
      InListFilterNode_new_def FilterNode_status_def filter_status_defs split: if_splits list.splits)

text \<open>What a call of the builder returns, and what its loop over the operands returns.\<close>

definition build_spec ::
  "'e ContentFilterElement list \<Rightarrow> nat \<Rightarrow> (bool \<times> 'e FilterNode option \<times> ContentFilterResult) option \<Rightarrow> bool" where
  "build_spec elements idx r \<longleftrightarrow>
     (\<exists>node results. r = Some (part_ok elements idx, node, results)
        \<and> (part_ok elements idx \<longrightarrow> (\<exists>t. node = Some t \<and> valid_node t)))"

definition operand_part_ok :: "'e ContentFilterElement list \<Rightarrow> nat \<Rightarrow> 'e FilterOperand \<Rightarrow> bool" where
  "operand_part_ok elements idx operand \<longleftrightarrow>
     operand_ok idx operand \<and> (\<forall>k. operand = ElementOperand k \<longrightarrow> part_ok elements (unat k))"

definition loop_spec where
  "loop_spec elements idx operands args err r \<longleftrightarrow>
     (\<exists>args' statuses results. r = Some (args', statuses,
          err \<or> \<not> (\<forall>operand \<in> set operands. operand_part_ok elements idx operand), results)
        \<and> (\<not> err \<and> (\<forall>operand \<in> set operands. operand_part_ok elements idx operand) \<longrightarrow>
             length args' = length args + length operands
             \<and> ((\<forall>a \<in> set args. valid_node a) \<longrightarrow> (\<forall>a \<in> set args'. valid_node a))))"

lemma operand_part_ok_simps [simp]:
  "operand_part_ok elements idx (LiteralOperand v)"
  "operand_part_ok elements idx (AttributeOperand a)"
  "operand_part_ok elements idx (SimpleAttributeOperand sa)"
  "\<not> operand_part_ok elements idx OtherOperand"
  "operand_part_ok elements idx (ElementOperand k) \<longleftrightarrow> idx < unat k \<and> part_ok elements (unat k)"
  by (auto simp: operand_part_ok_def)

lemma part_ok_operands:
  "part_ok elements idx \<longleftrightarrow>
     arity_ok (filterOperator (elements ! idx)) (length (filterOperands (elements ! idx)))
       \<and> (\<forall>operand \<in> set (filterOperands (elements ! idx)). operand_part_ok elements idx operand)"
proof -
  have "(\<forall>j. refers elements idx j \<longrightarrow> part_ok elements j) \<longleftrightarrow>
      (\<forall>k. ElementOperand k \<in> set (filterOperands (elements ! idx)) \<longrightarrow> idx < unat k \<longrightarrow> part_ok elements (unat k))"
    by (auto simp: refers_def)
  then show ?thesis
    by (subst part_ok_unfold) (fastforce simp: element_ok_def operand_part_ok_def list_all_iff)
qed

lemma loop_spec_step:
  assumes "loop_spec elements idx operands (args @ [t]) err r" "valid_node t"
    "operand_part_ok elements idx operand"
  shows "loop_spec elements idx (operand # operands) args err r"
  using assms unfolding loop_spec_def by auto

lemma loop_spec_error:
  assumes "loop_spec elements idx operands args' True r" "\<not> operand_part_ok elements idx operand"
  shows "loop_spec elements idx (operand # operands) args err r"
  using assms unfolding loop_spec_def by auto

lemma build_from_loop:
  assumes "idx < length elements"
    and "loop_spec elements idx (filterOperands (elements ! idx)) [] False
           (FilterStack_operandLoop elements idx (filterOperands (elements ! idx)) []
             (OpcUaArray_resize 0 (length (filterOperands (elements ! idx))) (OpcUaArray_new 0 1)) False results)"
  shows "build_spec elements idx (FilterStack_buildOperatorNode elements idx results)"
proof -
  let ?ops = "filterOperands (elements ! idx)" and ?operator = "filterOperator (elements ! idx)"
  let ?good = "\<forall>operand \<in> set ?ops. operand_part_ok elements idx operand"
  obtain args statuses results' where
    loop: "FilterStack_operandLoop elements idx ?ops [] (OpcUaArray_resize 0 (length ?ops) (OpcUaArray_new 0 1)) False results
      = Some (args, statuses, \<not> ?good, results')"
    and good: "?good \<Longrightarrow> length args = length ?ops \<and> (\<forall>a \<in> set args. valid_node a)"
    using assms(2) unfolding loop_spec_def by fastforce
  show ?thesis
  proof (cases ?good)
    case False
    moreover have "BadFilterOperandInvalid \<noteq> 0" by (simp add: filter_status_defs)
    moreover have "\<not> part_ok elements idx" using False part_ok_operands by blast
    ultimately show ?thesis
      using assms(1) loop by (simp add: FilterStack_buildOperatorNode.simps build_spec_def Let_def)
  next
    case True
    then have part: "part_ok elements idx \<longleftrightarrow> arity_ok ?operator (length args)"
      using good part_ok_operands by metis
    have "part_ok elements idx \<Longrightarrow> \<exists>t. FilterStack_operatorNode ?operator args = Some t \<and> valid_node t"
      using part operatorNode_status [of ?operator args] operatorNode_valid [of ?operator args] good True
      by (auto simp: filter_status_defs split: option.splits)
    then show ?thesis
      using assms(1) loop True part operatorNode_status [of ?operator args]
      by (simp add: FilterStack_buildOperatorNode.simps build_spec_def Let_def)
  qed
qed

lemma build_and_loop_spec:
  fixes elements :: "'e ContentFilterElement list"
  shows "operands_in_range elements \<Longrightarrow> idx < length elements \<Longrightarrow>
     build_spec elements idx (FilterStack_buildOperatorNode elements idx results)"
    and "operands_in_range elements \<Longrightarrow> idx < length elements \<Longrightarrow>
     set operands \<subseteq> set (filterOperands (elements ! idx)) \<Longrightarrow>
     loop_spec elements idx operands args err
       (FilterStack_operandLoop elements idx operands args statuses err results)"
proof (induction elements idx results and elements idx operands args statuses err results
    rule: FilterStack_buildOperatorNode_FilterStack_operandLoop.induct)
  case (1 elements idx results)
  then show ?case by (intro build_from_loop) auto
next
  case (2 elements idx args statuses hasOperandError results)
  then show ?case by (simp add: loop_spec_def)
next
  case (3 elements idx operand operands args statuses err results)
  have sub: "set operands \<subseteq> set (filterOperands (elements ! idx))" using 3 by simp
  show ?case
  proof (cases operand)
    case (LiteralOperand v)
    then show ?thesis
      using loop_spec_step [OF 3(1) [OF LiteralOperand 3(8,9) sub], of operand] by simp
  next
    case (AttributeOperand a)
    then show ?thesis
      using loop_spec_step [OF 3(5) [OF AttributeOperand 3(8,9) sub], of operand] by simp
  next
    case (SimpleAttributeOperand a)
    then show ?thesis
      using loop_spec_step [OF 3(6) [OF SimpleAttributeOperand 3(8,9) sub], of operand] by simp
  next
    case OtherOperand
    then show ?thesis
      using loop_spec_error [of elements idx operands args _ operand args err]
        3(7) [OF OtherOperand 3(8,9) sub] by simp
  next
    case (ElementOperand k)
    show ?thesis
    proof (cases "idx < unat k")
      case False
      then show ?thesis
        using loop_spec_error [of elements idx operands args _ operand args err]
          3(4) [OF ElementOperand False 3(8,9) sub] ElementOperand by simp
    next
      case True
      have "unat k < length elements"
        using 3(8,9,10) ElementOperand by (auto simp: operands_in_range_def)
      then obtain node results' where
        b: "FilterStack_buildOperatorNode elements (unat k) results = Some (part_ok elements (unat k), node, results')"
        and t: "part_ok elements (unat k) \<Longrightarrow> \<exists>t. node = Some t \<and> valid_node t"
        using 3(2) [OF ElementOperand True 3(8)] unfolding build_spec_def by blast
      note rest = 3(3) [OF ElementOperand True b refl refl 3(8,9) sub]
      show ?thesis
      proof (cases "part_ok elements (unat k)")
        case ok: True
        then obtain u where "node = Some u" "valid_node u" using t by blast
        then show ?thesis
          using loop_spec_step [of elements idx operands args u err _ operand] rest b ok True ElementOperand by simp
      next
        case bad: False
        then show ?thesis
          using loop_spec_error [of elements idx operands _ _ operand args err] rest b True ElementOperand by simp
      qed
    qed
  qed
qed

text \<open>
  C17: The builder of a filter returns for every content filter whose element operands are in range,
  whatever the elements refer to; it accepts the filter exactly when every element reached from the
  root has a supported operator with the right number of operands, known operand types and only
  forward references, and then sets a tree in which every node is valid.
\<close>

theorem filter_build_accepts:
  assumes "elements \<noteq> []" and "operands_in_range elements"
  shows "\<exists>node results'. FilterStack_buildOperatorNode elements 0 results = Some (part_ok elements 0, node, results')
           \<and> (part_ok elements 0 \<longrightarrow> (\<exists>t. node = Some t \<and> valid_node t))"
  using build_and_loop_spec(1) [OF assms(2), of 0 results] assms(1) by (auto simp: build_spec_def)

theorem filter_build_accepts_witness:
  "\<exists>node results'. FilterStack_buildOperatorNode
     [\<lparr>filterOperator = 7, filterOperands = [ElementOperand 1]\<rparr>,
      \<lparr>filterOperator = 1, filterOperands = [LiteralOperand (OpcUaVariant_new :: StandardObject OpcUaVariant)]\<rparr>]
     0 (OpcUaArray_new None 1) = Some (True, Some node, results')"
proof -
  let ?els = "[\<lparr>filterOperator = 7, filterOperands = [ElementOperand 1]\<rparr>,
      \<lparr>filterOperator = 1, filterOperands = [LiteralOperand (OpcUaVariant_new :: StandardObject OpcUaVariant)]\<rparr>]"
  have "part_ok ?els 0"
    by (subst part_ok_operands, simp add: arity_ok_def) (subst part_ok_operands, simp add: arity_ok_def)
  moreover have "operands_in_range ?els" by (simp add: operands_in_range_def)
  ultimately show ?thesis
    using filter_build_accepts [of ?els "OpcUaArray_new None 1"] by auto
qed


section \<open>The Like matcher\<close>

definition plain_char :: "char \<Rightarrow> bool" where
  "plain_char c \<longleftrightarrow> c \<notin> {CHR ''%'', CHR ''_'', CHR 0x5C, CHR ''[''}"

lemma like_step_plain:
  "plain_char (pattern ! j) \<Longrightarrow> LikeFilterNode_step string pattern i j = Some (i + 1, j + 1, pattern ! j = string ! i)"
  by (simp add: LikeFilterNode_step_def plain_char_def Let_def)

lemma like_loop_plain:
  assumes "list_all plain_char pattern" "k \<le> length string" "k \<le> length pattern"
  shows "LikeFilterNode_loop string pattern k k True
       = Some (length string \<le> length pattern
               \<and> take (length string - k) (drop k string) = take (length string - k) (drop k pattern))"
  using assms
proof (induction "length string - k" arbitrary: k)
  case 0
  then show ?case by (subst LikeFilterNode_loop.simps) simp
next
  case (Suc n)
  then have k: "k < length string" by simp
  show ?case
  proof (cases "k < length pattern")
    case False
    then show ?thesis using k by (subst LikeFilterNode_loop.simps) simp
  next
    case True
    have d: "drop k string = string ! k # drop (Suc k) string" "drop k pattern = pattern ! k # drop (Suc k) pattern"
      using k True by (simp_all add: Cons_nth_drop_Suc)
    have n: "length string - k = Suc (length string - Suc k)" using k by simp
    have step: "LikeFilterNode_step string pattern k k = Some (k + 1, k + 1, pattern ! k = string ! k)"
      using True Suc.prems(1) by (intro like_step_plain) (simp add: list_all_length)
    show ?thesis
    proof (cases "pattern ! k = string ! k")
      case eq: True
      have "LikeFilterNode_loop string pattern (Suc k) (Suc k) True
          = Some (length string \<le> length pattern \<and> take (length string - Suc k) (drop (Suc k) string)
                   = take (length string - Suc k) (drop (Suc k) pattern))"
        using Suc k True by (intro Suc.hyps(1)) auto
      then show ?thesis
        using k True step eq by (subst LikeFilterNode_loop.simps) (simp add: d n)
    next
      case False
      have "LikeFilterNode_loop string pattern (Suc k) (Suc k) False = Some False"
        by (subst LikeFilterNode_loop.simps) simp
      then show ?thesis
        using k True step False by (subst LikeFilterNode_loop.simps) (simp add: d n)
    qed
  qed
qed

text \<open>
  C31: A \<^verbatim>\<open>Like\<close> pattern without wildcards accepts exactly the strings that are a prefix of it,
  not only the pattern itself: what is left of the pattern when the string ends is not looked at.
\<close>

theorem like_plain_pattern:
  assumes "list_all plain_char pattern"
  shows "LikeFilterNode_matches string pattern = Some (take (length string) pattern = string)"
proof -
  have "length string \<le> length pattern \<and> string = take (length string) pattern
      \<longleftrightarrow> take (length string) pattern = string"
    by (metis length_take min.cobounded1)
  then show ?thesis
    using like_loop_plain [of pattern 0 string] assms by (simp add: LikeFilterNode_matches_def)
qed

theorem like_plain_pattern_witness:
  "LikeFilterNode_matches ''ab'' ''abc'' = Some True \<and> LikeFilterNode_matches ''abc'' ''abc'' = Some True"
  using like_plain_pattern [of "''abc''" "''ab''"] like_plain_pattern [of "''abc''" "''abc''"]
  by (simp add: plain_char_def)

text \<open>The loop stays where it is when the pattern ends with a backslash and the string has one there.\<close>

lemma like_backslash_loop:
  assumes "LikeFilterNode_loop string pattern i j result = Some b"
  shows "\<not> (i < length string \<and> j + 1 = length pattern \<and> result \<and> pattern ! j = CHR 0x5C \<and> string ! i = CHR 0x5C)"
proof (rule LikeFilterNode_loop.raw_induct [where P = "\<lambda>string pattern i j result b.
      \<not> (i < length string \<and> j + 1 = length pattern \<and> result \<and> pattern ! j = CHR 0x5C \<and> string ! i = CHR 0x5C)",
      OF _ assms])
  fix loop :: "string \<Rightarrow> string \<Rightarrow> nat \<Rightarrow> nat \<Rightarrow> bool \<Rightarrow> bool option"
    and string pattern :: string and i j :: nat and result b :: bool
  assume ih: "\<And>string pattern i j result b. loop string pattern i j result = Some b \<Longrightarrow>
      \<not> (i < length string \<and> j + 1 = length pattern \<and> result \<and> pattern ! j = CHR 0x5C \<and> string ! i = CHR 0x5C)"
    and body: "(if i < length string \<and> j < length pattern \<and> result
      then LikeFilterNode_step string pattern i j \<bind> (\<lambda>(i, j, result). loop string pattern i j result)
      else Some (if i < length string then False else result)) = Some b"
  show "\<not> (i < length string \<and> j + 1 = length pattern \<and> result \<and> pattern ! j = CHR 0x5C \<and> string ! i = CHR 0x5C)"
  proof
    assume a: "i < length string \<and> j + 1 = length pattern \<and> result \<and> pattern ! j = CHR 0x5C \<and> string ! i = CHR 0x5C"
    then have "LikeFilterNode_step string pattern i j = Some (i, j, True)"
      by (simp add: LikeFilterNode_step_def Let_def)
    then have "loop string pattern i j True = Some b" using body a by simp
    then show False using ih a by blast
  qed
qed

text \<open>
  C32: The \<^verbatim>\<open>Like\<close> matcher does not return for a pattern that is one backslash and a string that
  starts with one: the position in neither moves.
\<close>

theorem like_trailing_backslash_hangs:
  "LikeFilterNode_matches (CHR 0x5C # rest) [CHR 0x5C] = None"
  using like_backslash_loop [of "CHR 0x5C # rest" "[CHR 0x5C]" 0 0 True]
  by (cases "LikeFilterNode_matches (CHR 0x5C # rest) [CHR 0x5C]") (simp_all add: LikeFilterNode_matches_def)

text \<open>
  A comparison of a negative signed integer with a wider unsigned one wraps round: minus one
  is greater than every 32-bit value but the largest.
\<close>

theorem comparison_wraps_negative:
  "ComparisonFilterNode_apply env GreaterThan (scalar (VInt16 (- 1))) (scalar (VUInt32 x))
     = scalar (VBoolean (x < 0xFFFFFFFF))"
proof -
  have "conversion env (scalar (VInt16 (- 1))) 7 = Some (scalar (VUInt32 0xFFFFFFFF))"
    by (simp add: OpcUaTypeConversion_conversion_def OpcUaTypeConversion_conversionType_def Let_def
        OpcUaTypeConversion_index_def conversationTypeTable_def OpcUaTypeConversion_cast_def integer_cast_def
        cast_by_assignment_defs integer_value_def)
  moreover have "unat x < 2 ^ 32" using unsigned_less [of x] by simp
  then have "x \<le> 0xFFFFFFFF" by (simp add: word_le_nat_alt)
  then have "0xFFFFFFFF \<noteq> x \<and> \<not> 0xFFFFFFFF < x \<longleftrightarrow> x < 0xFFFFFFFF" by auto
  ultimately show ?thesis
    by (simp add: ComparisonFilterNode_apply_def OpcUaTypeConversion_precedenceRank_def
        ComparisonFilterNode_compare_def OpcUaVariantValue_greater_def OpcUaVariantValue_equal_def
        OpcUaVariantValue_less_def)
qed

end
