(* ===== verification/Events.thy ===== *)
theory Events
  imports OrderedMap Variant "HOL-Library.List_Lexorder" "HOL-Library.Char_ord"
begin

text \<open>
  Events (\<^verbatim>\<open>OpcUaStackCore/EventType\<close>).  Every class of the event hierarchy keeps the variables it
  declares in an \<^verbatim>\<open>EventVariables\<close> object of its own; an event object is the list of these objects
  from its most derived class to \<^verbatim>\<open>BaseEventType\<close>, which comes last.  The virtual operations
  \<^verbatim>\<open>mapNamespaceUri\<close> and \<^verbatim>\<open>get\<close> call the operation of the base class first; all 59 event
  classes of \<^verbatim>\<open>StandardEventType\<close> repeat the bodies of \<^verbatim>\<open>BaseEventType\<close>, so that one definition by
  recursion over the classes models them.  A null shared pointer is \<^term>\<open>None\<close>.
\<close>

section \<open>EventVariables\<close>

datatype EventResult =
    EventSuccess
  | BadEventTypeNotExist
  | BadBrowseNameListEmpty
  | BadBrowseNameNotExist
  | BadValueNotExist

record 'e EventVariable =
  ev_variable :: "'e OpcUaVariant option"
  ev_buildInType :: nat

record 'e EventVariables =
  evs_eventType :: OpcUaNodeIdBase
  evs_namespaceUri :: string
  evs_browseName :: OpcUaQualifiedName
  evs_namespaceIndex :: u32
  evs_map :: "(string, 'e EventVariable) omap"

definition EventVariable_new :: "nat \<Rightarrow> 'e EventVariable" where
  "EventVariable_new buildInType = \<lparr>ev_variable = None, ev_buildInType = buildInType\<rparr>"

definition EventVariables_new :: "'e EventVariables" where
  "EventVariables_new = \<lparr>evs_eventType = OpcUaNodeIdBase_new, evs_namespaceUri = [],
     evs_browseName = OpcUaQualifiedName_new, evs_namespaceIndex = 0, evs_map = []\<rparr>"

definition EventVariables_registerEventVariable ::
  "string \<Rightarrow> nat \<Rightarrow> 'e EventVariables \<Rightarrow> bool \<times> 'e EventVariables" where
  "EventVariables_registerEventVariable variableName buildInType evs =
     (case omap_find variableName (evs_map evs) of
        Some _ \<Rightarrow> (False, evs)
      | None \<Rightarrow>
          (True, evs\<lparr>evs_map := omap_insert variableName (EventVariable_new buildInType) (evs_map evs)\<rparr>))"

definition EventVariables_deregisterEventVariable ::
  "string \<Rightarrow> 'e EventVariables \<Rightarrow> bool \<times> 'e EventVariables" where
  "EventVariables_deregisterEventVariable variableName evs =
     (case omap_find variableName (evs_map evs) of
        None \<Rightarrow> (True, evs)
      | Some _ \<Rightarrow> (True, evs\<lparr>evs_map := omap_erase variableName (evs_map evs)\<rparr>))"

text \<open>A variable of built-in type 24 (\<^verbatim>\<open>OpcUaVariant\<close>) takes values of every type.\<close>

definition EventVariables_setValue ::
  "string \<Rightarrow> 'e OpcUaVariant option \<Rightarrow> 'e EventVariables \<Rightarrow> bool \<times> 'e EventVariables" where
  "EventVariables_setValue variableName value evs =
     (case value of
        None \<Rightarrow> (False, evs)
      | Some v \<Rightarrow>
          (case omap_find variableName (evs_map evs) of
             None \<Rightarrow> (False, evs)
           | Some var \<Rightarrow>
               (if ev_buildInType var \<noteq> 24 \<and> OpcUaVariant_variantType v \<noteq> ev_buildInType var
                then (False, evs)
                else (True, evs\<lparr>evs_map :=
                  omap_update variableName (\<lambda>var. var\<lparr>ev_variable := Some v\<rparr>) (evs_map evs)\<rparr>))))"

definition EventVariables_getValue :: "string \<Rightarrow> 'e EventVariables \<Rightarrow> bool \<times> 'e OpcUaVariant option" where
  "EventVariables_getValue variableName evs =
     (case omap_find variableName (evs_map evs) of
        None \<Rightarrow> (False, None)
      | Some var \<Rightarrow> (True, ev_variable var))"

section \<open>Looking up a field\<close>

definition OpcUaQualifiedName_of :: "string \<Rightarrow> u16 \<Rightarrow> OpcUaQualifiedName" where
  "OpcUaQualifiedName_of name ns = \<lparr>qn_namespaceIndex = ns, qn_name = OpcUaString_of name\<rparr>"

fun EventVariables_find ::
  "OpcUaQualifiedName \<Rightarrow> u32 \<Rightarrow> (string \<times> 'e EventVariable) list \<Rightarrow> EventResult \<times> 'e OpcUaVariant option" where
  "EventVariables_find browseName ns [] = (BadBrowseNameNotExist, None)"
| "EventVariables_find browseName ns ((name, var) # vars) =
     (if OpcUaQualifiedName_equal browseName (OpcUaQualifiedName_of name (ucast ns))
      then (if ev_variable var = None then BadValueNotExist else EventSuccess, ev_variable var)
      else EventVariables_find browseName ns vars)"

definition EventVariables_getName ::
  "OpcUaQualifiedName \<Rightarrow> 'e EventVariables \<Rightarrow> EventResult \<times> 'e OpcUaVariant option" where
  "EventVariables_getName browseName evs =
     EventVariables_find browseName (evs_namespaceIndex evs) (evs_map evs)"

text \<open>
  The names of a path joined by underscores, with the namespace of the first name that is not empty
  (the source leaves the namespace unset only when there is no name).
\<close>

fun browseNameString :: "string \<Rightarrow> u16 \<Rightarrow> OpcUaQualifiedName list \<Rightarrow> string \<times> u16" where
  "browseNameString s ns [] = (s, ns)"
| "browseNameString s ns (b # bs) =
     (let (s, ns) = (if s \<noteq> [] then (s @ ''_'', ns) else (s, qn_namespaceIndex b))
      in browseNameString (s @ str_value (qn_name b)) ns bs)"

text \<open>The result code, the variant and what is left of the path; \<^verbatim>\<open>front\<close> of an empty list is undefined.\<close>

definition EventVariables_getPath ::
  "OpcUaQualifiedName list \<Rightarrow> 'e EventVariables
     \<Rightarrow> (EventResult \<times> 'e OpcUaVariant option \<times> OpcUaQualifiedName list) option" where
  "EventVariables_getPath names evs =
     (let whole = (if length names > 1 then
                     (let (s, ns) = browseNameString [] 0 names
                      in EventVariables_getName (OpcUaQualifiedName_of s ns) evs)
                   else (BadBrowseNameNotExist, None))
      in if fst whole = EventSuccess then Some (EventSuccess, snd whole, [])
         else (case names of
                 [] \<Rightarrow> None
               | front # rest \<Rightarrow>
                   (let (resultCode, variant) = EventVariables_getName front evs
                    in if resultCode = EventSuccess then Some (EventSuccess, variant, rest)
                       else Some (EventSuccess, variant, names))))"

section \<open>Events\<close>

type_synonym 'e Event = "'e EventVariables list"

fun Event_get ::
  "OpcUaNodeIdBase \<Rightarrow> OpcUaQualifiedName list \<Rightarrow> 'e Event
     \<Rightarrow> (EventResult \<times> 'e OpcUaVariant option \<times> OpcUaQualifiedName list) option" where
  "Event_get eventType names [] = Some (BadEventTypeNotExist, None, names)"
| "Event_get eventType names (evs # base) =
     (if OpcUaNodeIdBase_equal eventType (evs_eventType evs) then EventVariables_getPath names evs
      else do {
        (resultCode, variant, names) \<leftarrow> Event_get eventType names base;
        (if resultCode \<noteq> EventSuccess \<or> names = [] then Some (resultCode, variant, names)
         else EventVariables_getPath names evs) })"

text \<open>The entry point; an empty path stands for the pseudo variable \<^verbatim>\<open>EMPTY\<close>.\<close>

definition EventBase_get ::
  "OpcUaNodeIdBase \<Rightarrow> OpcUaQualifiedName list \<Rightarrow> 'e Event \<Rightarrow> (EventResult \<times> 'e OpcUaVariant option) option" where
  "EventBase_get eventType browseNameList event = do {
     let names = (if browseNameList = [] then [OpcUaQualifiedName_of ''EMPTY'' (namespaceIndex eventType)]
                  else browseNameList);
     (resultCode, variant, names) \<leftarrow> Event_get eventType names event;
     (if resultCode \<noteq> EventSuccess then Some (resultCode, variant)
      else if names \<noteq> [] then Some (BadValueNotExist, variant)
      else Some (EventSuccess, variant)) }"

text \<open>The attribute identifier and the numeric range are not looked at.\<close>

definition EventBase_getAttribute ::
  "'e ExtensionObjectBase \<Rightarrow> 'e ExtensionObjectMap \<Rightarrow> OpcUaNodeIdBase \<Rightarrow> OpcUaQualifiedName list \<Rightarrow> 'e Event
     \<Rightarrow> 'e OpcUaVariant option option" where
  "EventBase_getAttribute ops reg typeId browsePath event = do {
     (resultCode, variant) \<leftarrow> EventBase_get typeId browsePath event;
     (if resultCode \<noteq> EventSuccess then Some None
      else do {
        v \<leftarrow> variant;
        Some (Some (OpcUaVariant_copyTo ops reg v OpcUaVariant_new)) }) }"

section \<open>Namespaces\<close>

text \<open>The index is an \<^verbatim>\<open>int32_t\<close>; -1 when the URI is not there or there is no array.\<close>

fun findUri :: "nat \<Rightarrow> string \<Rightarrow> string list \<Rightarrow> u32" where
  "findUri idx uri [] = - 1"
| "findUri idx uri (u # us) = (if u = uri then word_of_nat idx else findUri (Suc idx) uri us)"

definition EventBase_findNamespaceIndex :: "string list option \<Rightarrow> string \<Rightarrow> u32" where
  "EventBase_findNamespaceIndex namespaceArray namespaceUri =
     (case namespaceArray of None \<Rightarrow> - 1 | Some uris \<Rightarrow> findUri 0 namespaceUri uris)"

definition OpcUaVariant_setNodeId :: "OpcUaNodeIdBase \<Rightarrow> 'e OpcUaVariant \<Rightarrow> 'e OpcUaVariant" where
  "OpcUaVariant_setNodeId n v = OpcUaVariant_setValue (VNodeId (OpcUaNodeIdBase_copyTo n OpcUaNodeIdBase_new)) v"

definition OpcUaVariant_getNodeId :: "'e OpcUaVariant \<Rightarrow> OpcUaNodeIdBase \<Rightarrow> OpcUaNodeIdBase" where
  "OpcUaVariant_getNodeId v n =
     (if OpcUaVariant_variantType v \<noteq> 17 then n
      else case variantValueVec v ! 0 of VNodeId m \<Rightarrow> OpcUaNodeIdBase_copyTo m n | _ \<Rightarrow> n)"

text \<open>The index, the browse name and the variant of the event type with this index.\<close>

definition EventBase_setNamespaceIndex ::
  "string list option \<Rightarrow> string \<Rightarrow> OpcUaQualifiedName \<Rightarrow> 'e OpcUaVariant
     \<Rightarrow> u32 \<times> OpcUaQualifiedName \<times> 'e OpcUaVariant" where
  "EventBase_setNamespaceIndex namespaceArray namespaceUri browseName eventType =
     (let ns = EventBase_findNamespaceIndex namespaceArray namespaceUri;
          ns = (if sint ns < 0 then 0 else ns);
          browseName = browseName\<lparr>qn_namespaceIndex := ucast ns\<rparr>;
          typeNodeId = OpcUaVariant_getNodeId eventType OpcUaNodeIdBase_new;
          typeNodeId = typeNodeId\<lparr>namespaceIndex := ucast ns\<rparr>
      in (ns, browseName, OpcUaVariant_setNodeId typeNodeId eventType))"

text \<open>The accessors of \<^verbatim>\<open>BaseEventType\<close> work on the last class of the list.\<close>

definition BaseEventType_set :: "string \<Rightarrow> 'e OpcUaVariant option \<Rightarrow> 'e Event \<Rightarrow> bool \<times> 'e Event" where
  "BaseEventType_set name value event =
     (case event of
        [] \<Rightarrow> (False, [])
      | _ \<Rightarrow> (let (ok, evs) = EventVariables_setValue name value (last event)
              in (ok, butlast event @ [evs])))"

definition BaseEventType_get :: "string \<Rightarrow> 'e Event \<Rightarrow> 'e OpcUaVariant option" where
  "BaseEventType_get name event =
     (case event of [] \<Rightarrow> None | _ \<Rightarrow> snd (EventVariables_getValue name (last event)))"

fun Event_mapNamespaceUri :: "string list option \<Rightarrow> 'e Event \<Rightarrow> 'e Event" where
  "Event_mapNamespaceUri namespaceArray [] = []"
| "Event_mapNamespaceUri namespaceArray (evs # base) =
     (let base = Event_mapNamespaceUri namespaceArray base;
          eventTypeVariable = OpcUaVariant_setNodeId (evs_eventType evs) OpcUaVariant_new;
          (ns, browseName, eventTypeVariable) =
            EventBase_setNamespaceIndex namespaceArray (evs_namespaceUri evs) (evs_browseName evs) eventTypeVariable;
          event = evs\<lparr>evs_browseName := browseName\<rparr> # base;
          event = snd (BaseEventType_set ''EventType'' (Some eventTypeVariable) event);
          evs = (hd event)\<lparr>evs_eventType := OpcUaVariant_getNodeId eventTypeVariable (evs_eventType (hd event)),
                          evs_namespaceIndex := ns\<rparr>
      in evs # tl event)"

definition EventBase_namespaceArray :: "string list option \<Rightarrow> 'e Event \<Rightarrow> 'e Event" where
  "EventBase_namespaceArray namespaceArray event = Event_mapNamespaceUri namespaceArray event"

section \<open>Well-typed variables\<close>

text \<open>Every variable that is set holds a value of the built-in type it was declared with.\<close>

definition variable_ok :: "'e EventVariable \<Rightarrow> bool" where
  "variable_ok var \<longleftrightarrow> (case ev_variable var of
     None \<Rightarrow> True
   | Some v \<Rightarrow> ev_buildInType var = 24 \<or> OpcUaVariant_variantType v = ev_buildInType var)"

definition variables_ok :: "'e EventVariables \<Rightarrow> bool" where
  "variables_ok evs \<longleftrightarrow> omap_inv (evs_map evs) \<and> (\<forall>e \<in> set (evs_map evs). variable_ok (snd e))"

definition event_ok :: "'e Event \<Rightarrow> bool" where
  "event_ok event \<longleftrightarrow> event \<noteq> [] \<and> (\<forall>evs \<in> set event. variables_ok evs)"

lemma variables_ok_new [simp]: "variables_ok EventVariables_new"
  by (simp add: variables_ok_def EventVariables_new_def)

lemma variables_ok_register:
  assumes "variables_ok evs"
  shows "variables_ok (snd (EventVariables_registerEventVariable name t evs))"
proof -
  have "variable_ok (EventVariable_new t :: 'a EventVariable)"
    by (simp add: variable_ok_def EventVariable_new_def)
  then show ?thesis
    using assms omap_ball_insert [of "evs_map evs" variable_ok]
    by (simp add: variables_ok_def EventVariables_registerEventVariable_def omap_inv_insert split: option.split)
qed

lemma variables_ok_deregister:
  "variables_ok evs \<Longrightarrow> variables_ok (snd (EventVariables_deregisterEventVariable name evs))"
  using omap_ball_erase [of "evs_map evs" variable_ok]
  by (simp add: variables_ok_def EventVariables_deregisterEventVariable_def omap_inv_erase split: option.split)

lemma variables_ok_setValue:
  assumes "variables_ok evs"
  shows "variables_ok (snd (EventVariables_setValue name v evs))"
proof -
  have "\<forall>e \<in> set (omap_update name (\<lambda>var. var\<lparr>ev_variable := Some x\<rparr>) (evs_map evs)). variable_ok (snd e)"
    if "omap_find name (evs_map evs) = Some var"
      "\<not> (ev_buildInType var \<noteq> 24 \<and> OpcUaVariant_variantType x \<noteq> ev_buildInType var)" for x var
    using assms that
    by (intro omap_ball_update) (auto simp: variables_ok_def variable_ok_def)
  then show ?thesis
    using assms by (auto simp: variables_ok_def EventVariables_setValue_def split: option.splits)
qed

lemma setValue_getValue:
  assumes "EventVariables_setValue name v evs = (True, evs')"
  shows "EventVariables_getValue name evs' = (True, v)"
  using assms
  by (auto simp: EventVariables_setValue_def EventVariables_getValue_def omap_find_update
      split: option.splits if_splits)

lemma variables_ok_frame [simp]:
  "variables_ok (evs\<lparr>evs_browseName := b\<rparr>) = variables_ok evs"
  "variables_ok (evs\<lparr>evs_eventType := t\<rparr>) = variables_ok evs"
  "variables_ok (evs\<lparr>evs_namespaceIndex := n\<rparr>) = variables_ok evs"
  by (simp_all add: variables_ok_def)

lemma event_ok_Cons: "event_ok (evs # base) \<longleftrightarrow> variables_ok evs \<and> (base = [] \<or> event_ok base)"
  by (auto simp: event_ok_def)

lemma BaseEventType_set_eq:
  "event \<noteq> [] \<Longrightarrow> BaseEventType_set name v event =
     (fst (EventVariables_setValue name v (last event)),
      butlast event @ [snd (EventVariables_setValue name v (last event))])"
  by (cases event) (simp_all add: BaseEventType_set_def case_prod_beta)

lemma event_ok_set: "event_ok event \<Longrightarrow> event_ok (snd (BaseEventType_set name v event))"
  using variables_ok_setValue [of "last event" name v]
  by (auto simp: BaseEventType_set_eq event_ok_def dest: in_set_butlastD)

lemma length_BaseEventType_set [simp]: "length (snd (BaseEventType_set name v event)) = length event"
  by (cases event) (simp_all add: BaseEventType_set_def case_prod_beta)

lemma length_mapNamespaceUri [simp]: "length (Event_mapNamespaceUri uris event) = length event"
  by (induction event) (simp_all add: case_prod_beta Let_def)

lemma mapNamespaceUri_Nil_iff [simp]: "Event_mapNamespaceUri uris event = [] \<longleftrightarrow> event = []"
  using length_mapNamespaceUri [of uris event] by (cases "Event_mapNamespaceUri uris event"; cases event) auto

lemma event_ok_mapNamespaceUri: "event_ok event \<Longrightarrow> event_ok (Event_mapNamespaceUri uris event)"
proof (induction event)
  case (Cons evs base)
  define base' where "base' = Event_mapNamespaceUri uris base"
  have b: "base' = [] \<or> event_ok base'"
    using Cons by (cases "base = []") (auto simp: base'_def event_ok_Cons)
  have "event_ok (evs\<lparr>evs_browseName := n\<rparr> # base')" for n
    using b Cons.prems by (simp add: event_ok_Cons)
  then have s: "event_ok (snd (BaseEventType_set name v (evs\<lparr>evs_browseName := n\<rparr> # base')))" for n name v
    by (rule event_ok_set)
  have "event_ok ((hd e)\<lparr>evs_eventType := t, evs_namespaceIndex := i\<rparr> # tl e)" if "event_ok e"
    for e :: "'a Event" and t i
    using that by (cases e) (auto simp: event_ok_def)
  then show ?case using s by (simp add: case_prod_beta Let_def base'_def)
qed (simp add: event_ok_def)

section \<open>Lookup\<close>

text \<open>The value a class holds under a name.\<close>

definition level_field :: "OpcUaQualifiedName \<Rightarrow> 'e EventVariables \<Rightarrow> 'e OpcUaVariant option" where
  "level_field q evs =
     (if qn_namespaceIndex q = ucast (evs_namespaceIndex evs) \<and> str_exist (qn_name q)
      then Option.bind (omap_find (str_value (qn_name q)) (evs_map evs)) ev_variable else None)"

fun first_some :: "('a \<Rightarrow> 'b option) \<Rightarrow> 'a list \<Rightarrow> 'b option" where
  "first_some f [] = None"
| "first_some f (x # xs) = (case f x of None \<Rightarrow> first_some f xs | Some y \<Rightarrow> Some y)"

lemma first_some_append:
  "first_some f (xs @ ys) = (case first_some f xs of None \<Rightarrow> first_some f ys | Some y \<Rightarrow> Some y)"
  by (induction xs) (auto split: option.splits)

lemma qualifiedName_of_iff:
  "OpcUaQualifiedName_equal q (OpcUaQualifiedName_of s ns) \<longleftrightarrow>
     qn_namespaceIndex q = ns \<and> str_exist (qn_name q) \<and> str_value (qn_name q) = s"
  by (auto simp: OpcUaQualifiedName_equal_def OpcUaQualifiedName_of_def OpcUaString_equal_def OpcUaString_of_def)

lemma EventVariables_find_eq:
  "EventVariables_find q ns m =
     (if qn_namespaceIndex q = ucast ns \<and> str_exist (qn_name q)
      then (case omap_find (str_value (qn_name q)) m of
              None \<Rightarrow> (BadBrowseNameNotExist, None)
            | Some var \<Rightarrow> (if ev_variable var = None then BadValueNotExist else EventSuccess, ev_variable var))
      else (BadBrowseNameNotExist, None))"
  by (induction m) (auto simp: omap_find_def qualifiedName_of_iff)

lemma getName_spec:
  "snd (EventVariables_getName q evs) = level_field q evs"
  "fst (EventVariables_getName q evs) = EventSuccess \<longleftrightarrow> level_field q evs \<noteq> None"
  by (auto simp: EventVariables_getName_def EventVariables_find_eq level_field_def split: option.split)

lemma getPath_single:
  "EventVariables_getPath [q] evs =
     Some (EventSuccess, level_field q evs, if level_field q evs = None then [q] else [])"
  using getName_spec [of q evs]
  by (auto simp: EventVariables_getPath_def case_prod_beta Let_def split: option.splits)

lemma Event_get_single:
  "\<lbrakk>\<forall>d \<in> set ds. \<not> OpcUaNodeIdBase_equal t (evs_eventType d); OpcUaNodeIdBase_equal t (evs_eventType l)\<rbrakk>
     \<Longrightarrow> Event_get t [q] (ds @ l # bs) =
       Some (EventSuccess, first_some (level_field q) (l # rev ds),
             if first_some (level_field q) (l # rev ds) = None then [q] else [])"
  by (induction ds) (auto simp: getPath_single first_some_append split: option.splits)

end
