(* ===== verification/StandardEvents.thy ===== *)
theory StandardEvents
  imports Events Machine
begin

text \<open>
  The event classes of \<^verbatim>\<open>OpcUaStackCore/StandardEventType\<close>: for each the variables its constructor
  registers, the node identifier of its event type and its browse name, in front of what the
  constructor of its base class does.  The namespace URI of all of them is empty.
\<close>

fun EventVariables_registerAll :: "(string \<times> nat) list \<Rightarrow> 'e EventVariables \<Rightarrow> 'e EventVariables" where
  "EventVariables_registerAll [] evs = evs"
| "EventVariables_registerAll ((name, t) # vars) evs =
     EventVariables_registerAll vars (snd (EventVariables_registerEventVariable name t evs))"

definition EventVariables_declare :: "(string \<times> nat) list \<Rightarrow> u32 \<Rightarrow> string \<Rightarrow> 'e EventVariables" where
  "EventVariables_declare vars eventType browseName =
     (EventVariables_registerAll vars EventVariables_new)
       \<lparr>evs_eventType := \<lparr>namespaceIndex = 0, nodeIdValue = NodeIdNumeric eventType\<rparr>, evs_namespaceIndex := 0,
        evs_browseName := OpcUaQualifiedName_of browseName 0, evs_namespaceUri := []\<rparr>"

definition BaseEventType_new :: "'e Event" where
  "BaseEventType_new = EventVariables_declare
     [(''EventId'', 15), (''EventType'', 17), (''SourceName'', 12), (''LocalTime'', 13),
      (''Message'', 21), (''ReceiveTime'', 13), (''Severity'', 5), (''SourceNode'', 17),
      (''Time'', 13)]
     2041 ''BaseEventType'' # []"

definition ConditionType_new :: "'e Event" where
  "ConditionType_new = EventVariables_declare
     [(''ConditionClassId'', 17), (''ConditionClassName'', 21), (''ConditionName'', 12),
      (''BranchId'', 17), (''Retain'', 1), (''ClientUserId'', 12), (''EnabledState'', 21),
      (''EnabledState_Id'', 1), (''EnabledState_EffectiveDisplayName'', 21),
      (''EnabledState_TransitionTime'', 13), (''EnabledState_EffectiveTransitionTime'', 13),
      (''Quality'', 19), (''Quality_SourceTimestamp'', 13), (''LastSeverity'', 5),
      (''LastSeverity_SourceTimestamp'', 13), (''Comment'', 21),
      (''Comment_SourceTimestamp'', 13), (''EMPTY'', 24)]
     2782 ''ConditionType'' # BaseEventType_new"

definition AcknowledgeableConditionType_new :: "'e Event" where
  "AcknowledgeableConditionType_new = EventVariables_declare
     [(''EnabledState'', 21), (''EnabledState_Id'', 1), (''AckedState'', 21),
      (''AckedState_Id'', 1), (''AckedState_TransitionTime'', 13), (''ConfirmedState'', 21),
      (''ConfirmedState_Id'', 1), (''ConfirmedState_TransitionTime'', 13), (''EMPTY'', 24)]
     2881 ''AcknowledgeableConditionType'' # ConditionType_new"

definition AlarmConditionType_new :: "'e Event" where
  "AlarmConditionType_new = EventVariables_declare
     [(''InputNode'', 17), (''SuppressedOrShelved'', 1), (''MaxTimeShelved'', 11),
      (''EnabledState'', 21), (''EnabledState_Id'', 1), (''ActiveState'', 21),
      (''ActiveState_Id'', 1), (''ActiveState_EffectiveDisplayName'', 21),
      (''ActiveState_TransitionTime'', 13), (''ActiveState_EffectiveTransitionTime'', 13),
      (''SuppressedState'', 21), (''SuppressedState_Id'', 1),
      (''SuppressedState_TransitionTime'', 13), (''EMPTY'', 24)]
     2915 ''AlarmConditionType'' # AcknowledgeableConditionType_new"

definition AuditEventType_new :: "'e Event" where
  "AuditEventType_new = EventVariables_declare
     [(''ActionTimeStamp'', 13), (''Status'', 1), (''ServerId'', 12),
      (''ClientAuditEntryId'', 12), (''ClientUserId'', 12), (''EMPTY'', 24)]
     2052 ''AuditEventType'' # BaseEventType_new"

definition AuditSessionEventType_new :: "'e Event" where
  "AuditSessionEventType_new = EventVariables_declare
     [(''SessionId'', 17), (''EMPTY'', 24)]
     2069 ''AuditSessionEventType'' # AuditEventType_new"

definition AuditCancelEventType_new :: "'e Event" where
  "AuditCancelEventType_new = EventVariables_declare
     [(''RequestHandle'', 7), (''EMPTY'', 24)]
     2078 ''AuditCancelEventType'' # AuditSessionEventType_new"

definition AuditSecurityEventType_new :: "'e Event" where
  "AuditSecurityEventType_new = EventVariables_declare
     [(''EMPTY'', 24)]
     2058 ''AuditSecurityEventType'' # AuditEventType_new"

definition AuditCertificateEventType_new :: "'e Event" where
  "AuditCertificateEventType_new = EventVariables_declare
     [(''Certificate'', 15), (''EMPTY'', 24)]
     2080 ''AuditCertificateEventType'' # AuditSecurityEventType_new"

definition AuditCertificateDataMismatchEventType_new :: "'e Event" where
  "AuditCertificateDataMismatchEventType_new = EventVariables_declare
     [(''InvalidHostname'', 12), (''InvalidUri'', 12), (''EMPTY'', 24)]
     2082 ''AuditCertificateDataMismatchEventType'' # AuditCertificateEventType_new"

definition AuditCertificateExpiredEventType_new :: "'e Event" where
  "AuditCertificateExpiredEventType_new = EventVariables_declare
     [(''EMPTY'', 24)]
     2085 ''AuditCertificateExpiredEventType'' # AuditCertificateEventType_new"

definition AuditCertificateInvalidEventType_new :: "'e Event" where
  "AuditCertificateInvalidEventType_new = EventVariables_declare
     [(''EMPTY'', 24)]
     2086 ''AuditCertificateInvalidEventType'' # AuditCertificateEventType_new"

definition AuditCertificateMismatchEventType_new :: "'e Event" where
  "AuditCertificateMismatchEventType_new = EventVariables_declare
     [(''EMPTY'', 24)]
     2089 ''AuditCertificateMismatchEventType'' # AuditCertificateEventType_new"

definition AuditCertificateRevokedEventType_new :: "'e Event" where
  "AuditCertificateRevokedEventType_new = EventVariables_declare
     [(''EMPTY'', 24)]
     2088 ''AuditCertificateRevokedEventType'' # AuditCertificateEventType_new"

definition AuditCertificateUntrustedEventType_new :: "'e Event" where
  "AuditCertificateUntrustedEventType_new = EventVariables_declare
     [(''EMPTY'', 24)]
     2087 ''AuditCertificateUntrustedEventType'' # AuditCertificateEventType_new"

definition AuditChannelEventType_new :: "'e Event" where
  "AuditChannelEventType_new = EventVariables_declare
     [(''SecureChannelId'', 12), (''EMPTY'', 24)]
     2059 ''AuditChannelEventType'' # AuditSecurityEventType_new"

definition AuditUpdateMethodEventType_new :: "'e Event" where
  "AuditUpdateMethodEventType_new = EventVariables_declare
     [(''MethodId'', 17), (''InputArguments'', 24), (''EMPTY'', 24)]
     2127 ''AuditUpdateMethodEventType'' # AuditEventType_new"

definition AuditConditionEventType_new :: "'e Event" where
  "AuditConditionEventType_new = EventVariables_declare
     [(''EMPTY'', 24)]
     2790 ''AuditConditionEventType'' # AuditUpdateMethodEventType_new"

definition AuditConditionAcknowledgeEventType_new :: "'e Event" where
  "AuditConditionAcknowledgeEventType_new = EventVariables_declare
     [(''EventId'', 15), (''Comment'', 21), (''EMPTY'', 24)]
     8944 ''AuditConditionAcknowledgeEventType'' # AuditConditionEventType_new"

definition AuditConditionCommentEventType_new :: "'e Event" where
  "AuditConditionCommentEventType_new = EventVariables_declare
     [(''EventId'', 15), (''Comment'', 21), (''EMPTY'', 24)]
     2829 ''AuditConditionCommentEventType'' # AuditConditionEventType_new"

definition AuditConditionConfirmEventType_new :: "'e Event" where
  "AuditConditionConfirmEventType_new = EventVariables_declare
     [(''EventId'', 15), (''Comment'', 21), (''EMPTY'', 24)]
     8961 ''AuditConditionConfirmEventType'' # AuditConditionEventType_new"

definition AuditConditionEnableEventType_new :: "'e Event" where
  "AuditConditionEnableEventType_new = EventVariables_declare
     [(''EMPTY'', 24)]
     2803 ''AuditConditionEnableEventType'' # AuditConditionEventType_new"

definition AuditConditionRespondEventType_new :: "'e Event" where
  "AuditConditionRespondEventType_new = EventVariables_declare
     [(''SelectedResponse'', 6), (''EMPTY'', 24)]
     8927 ''AuditConditionRespondEventType'' # AuditConditionEventType_new"

definition AuditConditionShelvingEventType_new :: "'e Event" where
  "AuditConditionShelvingEventType_new = EventVariables_declare
     [(''ShelvingTime'', 11), (''EMPTY'', 24)]
     11093 ''AuditConditionShelvingEventType'' # AuditConditionEventType_new"

definition AuditCreateSessionEventType_new :: "'e Event" where
  "AuditCreateSessionEventType_new = EventVariables_declare
     [(''SecureChannelId'', 12), (''ClientCertificate'', 15),
      (''ClientCertificateThumbprint'', 12), (''RevisedSessionTimeout'', 11), (''EMPTY'', 24)]
     2071 ''AuditCreateSessionEventType'' # AuditSessionEventType_new"

definition AuditUpdateEventType_new :: "'e Event" where
  "AuditUpdateEventType_new = EventVariables_declare
     [(''EMPTY'', 24)]
     2099 ''AuditUpdateEventType'' # AuditEventType_new"

definition AuditHistoryUpdateEventType_new :: "'e Event" where
  "AuditHistoryUpdateEventType_new = EventVariables_declare
     [(''ParameterDataTypeId'', 17), (''EMPTY'', 24)]
     2104 ''AuditHistoryUpdateEventType'' # AuditUpdateEventType_new"

definition AuditHistoryDeleteEventType_new :: "'e Event" where
  "AuditHistoryDeleteEventType_new = EventVariables_declare
     [(''UpdatedNode'', 17), (''EMPTY'', 24)]
     3012 ''AuditHistoryDeleteEventType'' # AuditHistoryUpdateEventType_new"

definition AuditHistoryAtTimeDeleteEventType_new :: "'e Event" where
  "AuditHistoryAtTimeDeleteEventType_new = EventVariables_declare
     [(''ReqTimes'', 13), (''OldValues'', 23), (''EMPTY'', 24)]
     3019 ''AuditHistoryAtTimeDeleteEventType'' # AuditHistoryDeleteEventType_new"

definition AuditHistoryRawModifyDeleteEventType_new :: "'e Event" where
  "AuditHistoryRawModifyDeleteEventType_new = EventVariables_declare
     [(''IsDeleteModified'', 1), (''StartTime'', 13), (''EndTime'', 13), (''OldValues'', 23),
      (''EMPTY'', 24)]
     3014 ''AuditHistoryRawModifyDeleteEventType'' # AuditHistoryDeleteEventType_new"

definition AuditNodeManagementEventType_new :: "'e Event" where
  "AuditNodeManagementEventType_new = EventVariables_declare
     [(''EMPTY'', 24)]
     2090 ''AuditNodeManagementEventType'' # AuditEventType_new"

definition AuditUpdateStateEventType_new :: "'e Event" where
  "AuditUpdateStateEventType_new = EventVariables_declare
     [(''OldStateId'', 24), (''NewStateId'', 24), (''EMPTY'', 24)]
     2315 ''AuditUpdateStateEventType'' # AuditUpdateMethodEventType_new"

definition AuditProgramTransitionEventType_new :: "'e Event" where
  "AuditProgramTransitionEventType_new = EventVariables_declare
     [(''TransitionNumber'', 7), (''EMPTY'', 24)]
     11856 ''AuditProgramTransitionEventType'' # AuditUpdateStateEventType_new"

definition AuditUrlMismatchEventType_new :: "'e Event" where
  "AuditUrlMismatchEventType_new = EventVariables_declare
     [(''EndpointUrl'', 12), (''EMPTY'', 24)]
     2748 ''AuditUrlMismatchEventType'' # AuditCreateSessionEventType_new"

definition BaseModelChangeEventType_new :: "'e Event" where
  "BaseModelChangeEventType_new = EventVariables_declare
     [(''EMPTY'', 24)]
     2132 ''BaseModelChangeEventType'' # BaseEventType_new"

definition SystemEventType_new :: "'e Event" where
  "SystemEventType_new = EventVariables_declare
     [(''EMPTY'', 24)]
     2130 ''SystemEventType'' # BaseEventType_new"

definition DeviceFailureEventType_new :: "'e Event" where
  "DeviceFailureEventType_new = EventVariables_declare
     [(''EMPTY'', 24)]
     2131 ''DeviceFailureEventType'' # SystemEventType_new"

definition DialogConditionType_new :: "'e Event" where
  "DialogConditionType_new = EventVariables_declare
     [(''Prompt'', 21), (''ResponseOptionSet'', 21), (''DefaultResponse'', 6),
      (''OkResponse'', 6), (''CancelResponse'', 6), (''LastResponse'', 6),
      (''EnabledState'', 21), (''EnabledState_Id'', 1), (''DialogState'', 21),
      (''DialogState_Id'', 1), (''DialogState_TransitionTime'', 13), (''EMPTY'', 24)]
     2830 ''DialogConditionType'' # ConditionType_new"

definition DiscreteAlarmType_new :: "'e Event" where
  "DiscreteAlarmType_new = EventVariables_declare
     [(''EMPTY'', 24)]
     10523 ''DiscreteAlarmType'' # AlarmConditionType_new"

definition EventQueueOverflowEventType_new :: "'e Event" where
  "EventQueueOverflowEventType_new = EventVariables_declare
     [(''EMPTY'', 24)]
     3035 ''EventQueueOverflowEventType'' # BaseEventType_new"

definition LimitAlarmType_new :: "'e Event" where
  "LimitAlarmType_new = EventVariables_declare
     [(''HighHighLimit'', 11), (''HighLimit'', 11), (''LowLimit'', 11),
      (''LowLowLimit'', 11), (''EMPTY'', 24)]
     2955 ''LimitAlarmType'' # AlarmConditionType_new"

definition ExclusiveLimitAlarmType_new :: "'e Event" where
  "ExclusiveLimitAlarmType_new = EventVariables_declare
     [(''ActiveState'', 21), (''ActiveState_Id'', 1), (''EMPTY'', 24)]
     9341 ''ExclusiveLimitAlarmType'' # LimitAlarmType_new"

definition ExclusiveDeviationAlarmType_new :: "'e Event" where
  "ExclusiveDeviationAlarmType_new = EventVariables_declare
     [(''SetpointNode'', 17), (''EMPTY'', 24)]
     9764 ''ExclusiveDeviationAlarmType'' # ExclusiveLimitAlarmType_new"

definition ExclusiveLevelAlarmType_new :: "'e Event" where
  "ExclusiveLevelAlarmType_new = EventVariables_declare
     [(''EMPTY'', 24)]
     9482 ''ExclusiveLevelAlarmType'' # ExclusiveLimitAlarmType_new"

definition ExclusiveRateOfChangeAlarmType_new :: "'e Event" where
  "ExclusiveRateOfChangeAlarmType_new = EventVariables_declare
     [(''EMPTY'', 24)]
     9623 ''ExclusiveRateOfChangeAlarmType'' # ExclusiveLimitAlarmType_new"

definition NonExclusiveLimitAlarmType_new :: "'e Event" where
  "NonExclusiveLimitAlarmType_new = EventVariables_declare
     [(''ActiveState'', 21), (''ActiveState_Id'', 1), (''HighHighState'', 21),
      (''HighHighState_Id'', 1), (''HighHighState_TransitionTime'', 13), (''HighState'', 21),
      (''HighState_Id'', 1), (''HighState_TransitionTime'', 13), (''LowState'', 21),
      (''LowState_Id'', 1), (''LowState_TransitionTime'', 13), (''LowLowState'', 21),
      (''LowLowState_Id'', 1), (''LowLowState_TransitionTime'', 13), (''EMPTY'', 24)]
     9906 ''NonExclusiveLimitAlarmType'' # LimitAlarmType_new"

definition NonExclusiveDeviationAlarmType_new :: "'e Event" where
  "NonExclusiveDeviationAlarmType_new = EventVariables_declare
     [(''SetpointNode'', 17), (''EMPTY'', 24)]
     10368 ''NonExclusiveDeviationAlarmType'' # NonExclusiveLimitAlarmType_new"

definition NonExclusiveLevelAlarmType_new :: "'e Event" where
  "NonExclusiveLevelAlarmType_new = EventVariables_declare
     [(''EMPTY'', 24)]
     10060 ''NonExclusiveLevelAlarmType'' # NonExclusiveLimitAlarmType_new"

definition NonExclusiveRateOfChangeAlarmType_new :: "'e Event" where
  "NonExclusiveRateOfChangeAlarmType_new = EventVariables_declare
     [(''EMPTY'', 24)]
     10214 ''NonExclusiveRateOfChangeAlarmType'' # NonExclusiveLimitAlarmType_new"

definition OffNormalAlarmType_new :: "'e Event" where
  "OffNormalAlarmType_new = EventVariables_declare
     [(''NormalState'', 17), (''EMPTY'', 24)]
     10637 ''OffNormalAlarmType'' # DiscreteAlarmType_new"

definition ProgramTransitionAuditEventType_new :: "'e Event" where
  "ProgramTransitionAuditEventType_new = EventVariables_declare
     [(''Transition'', 21), (''Transition_Id'', 17), (''EMPTY'', 24)]
     3806 ''ProgramTransitionAuditEventType'' # AuditUpdateStateEventType_new"

definition TransitionEventType_new :: "'e Event" where
  "TransitionEventType_new = EventVariables_declare
     [(''Transition'', 21), (''Transition_Id'', 24), (''FromState'', 21),
      (''FromState_Id'', 24), (''ToState'', 21), (''ToState_Id'', 24), (''EMPTY'', 24)]
     2311 ''TransitionEventType'' # BaseEventType_new"

definition ProgramTransitionEventType_new :: "'e Event" where
  "ProgramTransitionEventType_new = EventVariables_declare
     [(''IntermediateResult'', 24), (''EMPTY'', 24)]
     2378 ''ProgramTransitionEventType'' # TransitionEventType_new"

definition ProgressEventType_new :: "'e Event" where
  "ProgressEventType_new = EventVariables_declare
     [(''EMPTY'', 24)]
     11436 ''ProgressEventType'' # BaseEventType_new"

definition RefreshEndEventType_new :: "'e Event" where
  "RefreshEndEventType_new = EventVariables_declare
     [(''EMPTY'', 24)]
     2788 ''RefreshEndEventType'' # SystemEventType_new"

definition RefreshRequiredEventType_new :: "'e Event" where
  "RefreshRequiredEventType_new = EventVariables_declare
     [(''EMPTY'', 24)]
     2789 ''RefreshRequiredEventType'' # SystemEventType_new"

definition RefreshStartEventType_new :: "'e Event" where
  "RefreshStartEventType_new = EventVariables_declare
     [(''EMPTY'', 24)]
     2787 ''RefreshStartEventType'' # SystemEventType_new"

definition SystemOffNormalAlarmType_new :: "'e Event" where
  "SystemOffNormalAlarmType_new = EventVariables_declare
     [(''EMPTY'', 24)]
     11753 ''SystemOffNormalAlarmType'' # OffNormalAlarmType_new"

definition TripAlarmType_new :: "'e Event" where
  "TripAlarmType_new = EventVariables_declare
     [(''EMPTY'', 24)]
     10751 ''TripAlarmType'' # OffNormalAlarmType_new"

definition StandardEventTypes :: "'e Event list" where
  "StandardEventTypes = [
     BaseEventType_new, ConditionType_new, AcknowledgeableConditionType_new,
     AlarmConditionType_new, AuditEventType_new, AuditSessionEventType_new,
     AuditCancelEventType_new, AuditSecurityEventType_new, AuditCertificateEventType_new,
     AuditCertificateDataMismatchEventType_new, AuditCertificateExpiredEventType_new,
     AuditCertificateInvalidEventType_new, AuditCertificateMismatchEventType_new,
     AuditCertificateRevokedEventType_new, AuditCertificateUntrustedEventType_new,
     AuditChannelEventType_new, AuditUpdateMethodEventType_new, AuditConditionEventType_new,
     AuditConditionAcknowledgeEventType_new, AuditConditionCommentEventType_new,
     AuditConditionConfirmEventType_new, AuditConditionEnableEventType_new,
     AuditConditionRespondEventType_new, AuditConditionShelvingEventType_new,
     AuditCreateSessionEventType_new, AuditUpdateEventType_new, AuditHistoryUpdateEventType_new,
     AuditHistoryDeleteEventType_new, AuditHistoryAtTimeDeleteEventType_new,
     AuditHistoryRawModifyDeleteEventType_new, AuditNodeManagementEventType_new,
     AuditUpdateStateEventType_new, AuditProgramTransitionEventType_new,
     AuditUrlMismatchEventType_new, BaseModelChangeEventType_new, SystemEventType_new,
     DeviceFailureEventType_new, DialogConditionType_new, DiscreteAlarmType_new,
     EventQueueOverflowEventType_new, LimitAlarmType_new, ExclusiveLimitAlarmType_new,
     ExclusiveDeviationAlarmType_new, ExclusiveLevelAlarmType_new,
     ExclusiveRateOfChangeAlarmType_new, NonExclusiveLimitAlarmType_new,
     NonExclusiveDeviationAlarmType_new, NonExclusiveLevelAlarmType_new,
     NonExclusiveRateOfChangeAlarmType_new, OffNormalAlarmType_new,
     ProgramTransitionAuditEventType_new, TransitionEventType_new,
     ProgramTransitionEventType_new, ProgressEventType_new, RefreshEndEventType_new,
     RefreshRequiredEventType_new, RefreshStartEventType_new, SystemOffNormalAlarmType_new,
     TripAlarmType_new]"

lemmas standard_event_defs =
  BaseEventType_new_def ConditionType_new_def AcknowledgeableConditionType_new_def
  AlarmConditionType_new_def AuditEventType_new_def AuditSessionEventType_new_def
  AuditCancelEventType_new_def AuditSecurityEventType_new_def
  AuditCertificateEventType_new_def AuditCertificateDataMismatchEventType_new_def
  AuditCertificateExpiredEventType_new_def AuditCertificateInvalidEventType_new_def
  AuditCertificateMismatchEventType_new_def AuditCertificateRevokedEventType_new_def
  AuditCertificateUntrustedEventType_new_def AuditChannelEventType_new_def
  AuditUpdateMethodEventType_new_def AuditConditionEventType_new_def
  AuditConditionAcknowledgeEventType_new_def AuditConditionCommentEventType_new_def
  AuditConditionConfirmEventType_new_def AuditConditionEnableEventType_new_def
  AuditConditionRespondEventType_new_def AuditConditionShelvingEventType_new_def
  AuditCreateSessionEventType_new_def AuditUpdateEventType_new_def
  AuditHistoryUpdateEventType_new_def AuditHistoryDeleteEventType_new_def
  AuditHistoryAtTimeDeleteEventType_new_def AuditHistoryRawModifyDeleteEventType_new_def
  AuditNodeManagementEventType_new_def AuditUpdateStateEventType_new_def
  AuditProgramTransitionEventType_new_def AuditUrlMismatchEventType_new_def
  BaseModelChangeEventType_new_def SystemEventType_new_def DeviceFailureEventType_new_def
  DialogConditionType_new_def DiscreteAlarmType_new_def EventQueueOverflowEventType_new_def
  LimitAlarmType_new_def ExclusiveLimitAlarmType_new_def ExclusiveDeviationAlarmType_new_def
  ExclusiveLevelAlarmType_new_def ExclusiveRateOfChangeAlarmType_new_def
  NonExclusiveLimitAlarmType_new_def NonExclusiveDeviationAlarmType_new_def
  NonExclusiveLevelAlarmType_new_def NonExclusiveRateOfChangeAlarmType_new_def
  OffNormalAlarmType_new_def ProgramTransitionAuditEventType_new_def
  TransitionEventType_new_def ProgramTransitionEventType_new_def ProgressEventType_new_def
  RefreshEndEventType_new_def RefreshRequiredEventType_new_def RefreshStartEventType_new_def
  SystemOffNormalAlarmType_new_def TripAlarmType_new_def

section \<open>What is done with an event\<close>

text \<open>
  A field is set through an accessor of the class that declares it, a variable is registered or
  removed, the namespaces are mapped.  The class is given by its position in the list.
\<close>

datatype 'e event_command =
    SetField nat string "'e OpcUaVariant option"
  | RegisterField nat string nat
  | DeregisterField nat string
  | MapNamespaces "string list option"

definition at_level :: "nat \<Rightarrow> ('e EventVariables \<Rightarrow> 'e EventVariables) \<Rightarrow> 'e Event \<Rightarrow> 'e Event" where
  "at_level i f event = (if i < length event then event[i := f (event ! i)] else event)"

fun event_step :: "'e event_command \<Rightarrow> 'e Event \<Rightarrow> 'e Event option" where
  "event_step (SetField i name v) event = Some (at_level i (\<lambda>evs. snd (EventVariables_setValue name v evs)) event)"
| "event_step (RegisterField i name t) event =
     Some (at_level i (\<lambda>evs. snd (EventVariables_registerEventVariable name t evs)) event)"
| "event_step (DeregisterField i name) event =
     Some (at_level i (\<lambda>evs. snd (EventVariables_deregisterEventVariable name evs)) event)"
| "event_step (MapNamespaces uris) event = Some (EventBase_namespaceArray uris event)"

lemma event_ok_at_level:
  "event_ok event \<Longrightarrow> (\<And>evs. variables_ok evs \<Longrightarrow> variables_ok (f evs)) \<Longrightarrow> event_ok (at_level i f event)"
  by (auto simp: event_ok_def at_level_def dest!: subsetD [OF set_update_subset_insert])

lemma variables_ok_declare [simp]: "variables_ok (EventVariables_declare vars t name)"
proof -
  have "variables_ok evs \<Longrightarrow> variables_ok (EventVariables_registerAll vars evs)" for evs :: "'a EventVariables"
    by (induction vars arbitrary: evs) (auto simp: variables_ok_register)
  then have "variables_ok (EventVariables_registerAll vars (EventVariables_new :: 'a EventVariables))" by simp
  then show ?thesis by (simp add: EventVariables_declare_def variables_ok_def)
qed

lemma declare_find [simp]:
  "omap_find n (evs_map (EventVariables_declare vars t name)) = map_option EventVariable_new (map_of vars n)"
proof -
  have "variables_ok evs \<Longrightarrow> omap_find n (evs_map (EventVariables_registerAll vars evs)) =
      (case omap_find n (evs_map evs) of Some var \<Rightarrow> Some var | None \<Rightarrow> map_option EventVariable_new (map_of vars n))"
    for evs :: "'a EventVariables"
  proof (induction vars arbitrary: evs)
    case (Cons e vars)
    then show ?case
      using variables_ok_register [OF Cons.prems, of "fst e" "snd e"]
      by (cases e) (auto simp: EventVariables_registerEventVariable_def omap_find_insert variables_ok_def
          split: option.splits)
  qed (simp split: option.splits)
  then have "omap_find n (evs_map (EventVariables_registerAll vars (EventVariables_new :: 'a EventVariables)))
      = map_option EventVariable_new (map_of vars n)"
    by (simp add: EventVariables_new_def [THEN arg_cong [where f = evs_map], simplified] omap_find_def)
  then show ?thesis by (simp add: EventVariables_declare_def)
qed

lemma declare_level_field [simp]: "level_field q (EventVariables_declare vars t name) = None"
  by (cases "map_of vars (str_value (qn_name q))") (auto simp: level_field_def EventVariable_new_def)

lemma declare_frame [simp]:
  "evs_eventType (EventVariables_declare vars t name) = \<lparr>namespaceIndex = 0, nodeIdValue = NodeIdNumeric t\<rparr>"
  "evs_namespaceUri (EventVariables_declare vars t name) = []"
  "evs_namespaceIndex (EventVariables_declare vars t name) = 0"
  by (simp_all add: EventVariables_declare_def)

lemma event_ok_declare: "event_ok (EventVariables_declare vars t name # base) \<longleftrightarrow> base = [] \<or> event_ok base"
  by (simp add: event_ok_Cons)

lemma event_ok_base: "event_ok BaseEventType_new"
  by (simp add: BaseEventType_new_def event_ok_declare)

lemma standard_events_ok: "event \<in> set StandardEventTypes \<Longrightarrow> event_ok event"
  unfolding StandardEventTypes_def standard_event_defs
  by (simp only: list.set insert_iff empty_iff) (elim disjE; simp add: event_ok_declare)

interpretation events: total_machine BaseEventType_new event_step event_ok
proof
  show "event_ok BaseEventType_new" by (rule event_ok_base)
  show "event_step c event \<noteq> None" for c and event :: "'e Event" by (cases c) auto
  show "event_ok event'" if "event_ok event" "event_step c event = Some event'"
    for c and event event' :: "'e Event"
    using that
    by (cases c) (auto simp: EventBase_namespaceArray_def intro: event_ok_at_level variables_ok_setValue
        variables_ok_register variables_ok_deregister event_ok_mapNamespaceUri)
qed

section \<open>Namespaces\<close>

lemma setValue_type [simp]:
  "map_option ev_buildInType (omap_find k (evs_map (snd (EventVariables_setValue name v evs)))) =
     map_option ev_buildInType (omap_find k (evs_map evs))"
  by (auto simp: EventVariables_setValue_def omap_find_update option.map_comp comp_def split: option.split)

lemma setNamespaceIndex_numeric:
  fixes evs :: "'e EventVariables" and uris :: "string list option"
  assumes "nodeIdValue (evs_eventType evs) = NodeIdNumeric i"
  defines "ns \<equiv> EventBase_findNamespaceIndex uris (evs_namespaceUri evs)"
  shows "\<exists>b v. EventBase_setNamespaceIndex uris (evs_namespaceUri evs) (evs_browseName evs)
       (OpcUaVariant_setNodeId (evs_eventType evs) OpcUaVariant_new) = (if sint ns < 0 then 0 else ns, b, v)
     \<and> variantValueVec v = [VNodeId \<lparr>namespaceIndex = ucast (if sint ns < 0 then 0 else ns), nodeIdValue = NodeIdNumeric i\<rparr>]"
  using assms(1)
  by (simp add: EventBase_setNamespaceIndex_def ns_def OpcUaVariant_setNodeId_def OpcUaVariant_getNodeId_def
      OpcUaVariant_setValue_def OpcUaVariant_clear_def OpcUaVariant_new_def OpcUaVariant_variantType_def
      OpcUaNodeIdBase_copyTo_def OpcUaNodeIdBase_new_def Let_def)

lemma mapNamespaceUri_types:
  "event \<noteq> [] \<Longrightarrow> map_option ev_buildInType (omap_find k (evs_map (last (Event_mapNamespaceUri uris event)))) =
     map_option ev_buildInType (omap_find k (evs_map (last event)))"
proof (induction event)
  case (Cons evs base)
  have b: "Event_mapNamespaceUri uris base = [] \<longleftrightarrow> base = []"
    using length_mapNamespaceUri [of uris base] by (metis length_0_conv)
  show ?case
  proof (cases "base = []")
    case True
    then show ?thesis by (simp add: case_prod_beta Let_def BaseEventType_set_eq)
  next
    case False
    then show ?thesis using Cons b by (simp add: case_prod_beta Let_def BaseEventType_set_eq)
  qed
qed simp

section \<open>Properties\<close>

text \<open>
  C9: Whatever is done with an event of a standard class, every variable that is set holds a value of the
  built-in type the variable was declared with, or the variable was declared as a variant.
\<close>

theorem event_variables_well_typed:
  assumes "event \<in> set StandardEventTypes" and "run_commands event_step cs event = Some event'"
    and "evs \<in> set event'" and "(name, var) \<in> set (evs_map evs)" and "ev_variable var = Some v"
  shows "ev_buildInType var = 24 \<or> OpcUaVariant_variantType v = ev_buildInType var"
proof -
  have "event_ok event'" using events.invar_run [OF standard_events_ok [OF assms(1)] assms(2)] .
  then have "variable_ok var" using assms(3,4) by (force simp: event_ok_def variables_ok_def)
  then show ?thesis using assms(5) by (simp add: variable_ok_def)
qed

definition demo_eventId :: "StandardObject OpcUaVariant" where
  "demo_eventId = OpcUaVariant_setValue (VByteString OpcUaByteString_new) OpcUaVariant_new"

definition demo_alarm :: "StandardObject Event" where
  "demo_alarm = snd (BaseEventType_set ''EventId'' (Some demo_eventId) AlarmConditionType_new)"

lemma demo_eventId_type: "OpcUaVariant_variantType demo_eventId = 15"
  by (simp add: demo_eventId_def OpcUaVariant_setValue_def OpcUaVariant_variantType_def OpcUaVariant_clear_def
      OpcUaVariant_new_def)

definition demo_base :: "StandardObject EventVariables" where
  "demo_base = snd (EventVariables_setValue ''EventId'' (Some demo_eventId) (hd BaseEventType_new))"

lemma demo_alarm_levels:
  "demo_alarm = [hd AlarmConditionType_new, hd AcknowledgeableConditionType_new, hd ConditionType_new, demo_base]"
  by (simp add: demo_alarm_def demo_base_def BaseEventType_set_def case_prod_beta AlarmConditionType_new_def
      AcknowledgeableConditionType_new_def ConditionType_new_def BaseEventType_new_def)

lemma demo_base_find:
  "omap_find ''EventId'' (evs_map demo_base) = Some \<lparr>ev_variable = Some demo_eventId, ev_buildInType = 15\<rparr>"
  by (simp add: demo_base_def EventVariables_setValue_def BaseEventType_new_def omap_find_update
      demo_eventId_type EventVariable_new_def)

theorem event_variables_well_typed_witness:
  "(''EventId'', \<lparr>ev_variable = Some demo_eventId, ev_buildInType = 15\<rparr>) \<in> set (evs_map demo_base)
     \<and> (15 = (24::nat) \<or> OpcUaVariant_variantType demo_eventId = 15)"
proof -
  let ?c = "SetField 3 ''EventId'' (Some demo_eventId)"
  have run: "run_commands event_step [?c] AlarmConditionType_new = Some demo_alarm"
    unfolding demo_alarm_levels
    by (simp add: demo_base_def at_level_def AlarmConditionType_new_def
        AcknowledgeableConditionType_new_def ConditionType_new_def BaseEventType_new_def)
  have mem: "AlarmConditionType_new \<in> set StandardEventTypes" "demo_base \<in> set demo_alarm"
    by (simp_all add: StandardEventTypes_def demo_alarm_levels)
  have el: "(''EventId'', \<lparr>ev_variable = Some demo_eventId, ev_buildInType = 15\<rparr>) \<in> set (evs_map demo_base)"
    by (rule omap_find_Some_mem [OF demo_base_find])
  show ?thesis
    using event_variables_well_typed [OF mem(1) run mem(2) el, of demo_eventId] el by simp
qed

text \<open>
  C10: A field is looked up by the event type of a select clause and a name: the classes are searched
  from the one with this event type towards the most derived class, and the first that holds a value
  under the name answers.  The classes the event type inherits from are never searched, so that a
  field can only be selected through the class that declares it or a base class of it, not through
  the type of the event.
\<close>

theorem event_field_lookup:
  assumes "\<forall>d \<in> set derived. \<not> OpcUaNodeIdBase_equal eventType (evs_eventType d)"
    and "OpcUaNodeIdBase_equal eventType (evs_eventType level)"
  shows "EventBase_get eventType [name] (derived @ level # bases) =
     Some (case first_some (level_field name) (level # rev derived) of
             Some v \<Rightarrow> (EventSuccess, Some v)
           | None \<Rightarrow> (BadValueNotExist, None))"
  using Event_get_single [OF assms, of name bases]
  by (auto simp: EventBase_get_def simp del: first_some.simps split: option.splits)

theorem event_field_lookup_witness:
  "level_field (OpcUaQualifiedName_of ''EventId'' 0) demo_base = Some demo_eventId
     \<and> EventBase_get \<lparr>namespaceIndex = 0, nodeIdValue = NodeIdNumeric 2041\<rparr>
          [OpcUaQualifiedName_of ''EventId'' 0] demo_alarm = Some (EventSuccess, Some demo_eventId)
     \<and> EventBase_get \<lparr>namespaceIndex = 0, nodeIdValue = NodeIdNumeric 2915\<rparr>
          [OpcUaQualifiedName_of ''EventId'' 0] demo_alarm = Some (BadValueNotExist, None)"
proof -
  let ?n = "OpcUaQualifiedName_of ''EventId'' 0"
  let ?t = "\<lambda>i. \<lparr>namespaceIndex = 0, nodeIdValue = NodeIdNumeric i\<rparr>"
  note defs = AlarmConditionType_new_def AcknowledgeableConditionType_new_def ConditionType_new_def
  have e: "OpcUaNodeIdBase_equal (?t a) (?t b) \<longleftrightarrow> a = b" for a b
    by (auto simp: OpcUaNodeIdBase_equal_def OpcUaNodeIdBase_less_def)
  have b: "evs_eventType demo_base = ?t 2041"
    by (simp add: demo_base_def EventVariables_setValue_def BaseEventType_new_def demo_eventId_type EventVariable_new_def)
  have f: "level_field ?n demo_base = Some demo_eventId"
    using demo_base_find
    by (simp add: level_field_def OpcUaQualifiedName_of_def OpcUaString_of_def)
      (simp add: demo_base_def EventVariables_setValue_def BaseEventType_new_def demo_eventId_type EventVariable_new_def)
  have "EventBase_get (?t 2041) [?n] demo_alarm = Some (EventSuccess, Some demo_eventId)"
    using event_field_lookup [of "[hd AlarmConditionType_new, hd AcknowledgeableConditionType_new, hd ConditionType_new]"
        "?t 2041" demo_base ?n "[]"]
    by (simp add: demo_alarm_levels e b f defs)
  moreover have "EventBase_get (?t 2915) [?n] demo_alarm = Some (BadValueNotExist, None)"
    using event_field_lookup [of "[]" "?t 2915" "hd AlarmConditionType_new" ?n
        "[hd AcknowledgeableConditionType_new, hd ConditionType_new, demo_base]"]
    by (simp add: demo_alarm_levels e defs)
  ultimately show ?thesis using f by blast
qed

text \<open>
  Mapping the namespaces leaves in the variable \<^verbatim>\<open>EventType\<close> of the base class the event type of the
  most derived class, under the index its namespace has in the array (0 when it is not there).
\<close>

theorem event_type_most_derived:
  fixes uris :: "string list option" and event :: "'e Event"
  defines "ns \<equiv> EventBase_findNamespaceIndex uris (evs_namespaceUri (hd event))"
  assumes "nodeIdValue (evs_eventType (hd event)) = NodeIdNumeric i" and "event \<noteq> []"
    and "omap_find ''EventType'' (evs_map (last event)) = Some var" and "ev_buildInType var \<in> {17, 24}"
  shows "\<exists>v. BaseEventType_get ''EventType'' (EventBase_namespaceArray uris event) = Some v
     \<and> variantValueVec v = [VNodeId \<lparr>namespaceIndex = ucast (if sint ns < 0 then 0 else ns), nodeIdValue = NodeIdNumeric i\<rparr>]"
proof -
  obtain evs base where event: "event = evs # base" using assms(3) by (cases event) auto
  define n where "n = \<lparr>namespaceIndex = (ucast (if sint ns < 0 then 0 else ns) :: u16), nodeIdValue = NodeIdNumeric i\<rparr>"
  have ns: "ns = EventBase_findNamespaceIndex uris (evs_namespaceUri evs)" using event by (simp add: ns_def)
  obtain b and v :: "'e OpcUaVariant" where sn: "EventBase_setNamespaceIndex uris (evs_namespaceUri evs) (evs_browseName evs)
        (OpcUaVariant_setNodeId (evs_eventType evs) OpcUaVariant_new) = (if sint ns < 0 then 0 else ns, b, v)"
      and v: "variantValueVec v = [VNodeId n]"
    using setNamespaceIndex_numeric [of evs i uris, folded ns, folded n_def] assms(2) event by auto
  let ?base = "Event_mapNamespaceUri uris base"
  let ?event = "evs\<lparr>evs_browseName := b\<rparr> # ?base"
  have vt: "OpcUaVariant_variantType v = 17" using v by (simp add: OpcUaVariant_variantType_def)
  obtain var' where var': "omap_find ''EventType'' (evs_map (last ?event)) = Some var'"
      "ev_buildInType var' = ev_buildInType var"
    using mapNamespaceUri_types [where event = base and uris = uris and k = "''EventType''"] assms(4) event
    by (cases "base = []") auto
  have set: "fst (EventVariables_setValue ''EventType'' (Some v) (last ?event))"
    using var' assms(5) vt by (auto simp: EventVariables_setValue_def)
  have "BaseEventType_get ''EventType'' (EventBase_namespaceArray uris event) =
      snd (EventVariables_getValue ''EventType'' (snd (EventVariables_setValue ''EventType'' (Some v) (last ?event))))"
    using event sn by (cases "base = []")
      (auto simp: EventBase_namespaceArray_def BaseEventType_set_eq BaseEventType_get_def
        EventVariables_getValue_def Let_def split: list.splits)
  then show ?thesis
    using setValue_getValue [of "''EventType''" "Some v" "last ?event"] set v n_def
    by (cases "EventVariables_setValue ''EventType'' (Some v) (last ?event)") auto
qed

theorem event_type_most_derived_witness:
  "\<exists>v. BaseEventType_get ''EventType'' (EventBase_namespaceArray (Some [''http://opcfoundation.org/UA/'']) demo_alarm) = Some v
     \<and> variantValueVec v = [VNodeId \<lparr>namespaceIndex = 0, nodeIdValue = NodeIdNumeric 2915\<rparr>]"
proof -
  have l: "omap_find ''EventType'' (evs_map (last demo_alarm)) = Some (EventVariable_new 17)"
    by (simp add: demo_alarm_levels demo_base_def EventVariables_setValue_def BaseEventType_new_def
        omap_find_update EventVariable_new_def demo_eventId_type)
  have "nodeIdValue (evs_eventType (hd demo_alarm)) = NodeIdNumeric 2915" "demo_alarm \<noteq> []"
    "evs_namespaceUri (hd demo_alarm) = []"
    by (simp_all add: demo_alarm_levels AlarmConditionType_new_def)
  then show ?thesis
    using event_type_most_derived [OF _ _ l, of 2915 "Some [''http://opcfoundation.org/UA/'']"]
    by (simp add: EventVariable_new_def EventBase_findNamespaceIndex_def)
qed

end
