(* ===== verification/EventItems.thy ===== *)
theory EventItems
  imports StandardEvents FilterStack MonitorItems
begin

text \<open>
  Event items (\<^verbatim>\<open>ServiceSet/EventItem.cpp\<close>), the map of event handlers of the address space
  (\<^verbatim>\<open>InformationModel/EventHandlerMap.cpp\<close>) and the delivery of an event to the handlers
  (\<^verbatim>\<open>ApplicationService::receiveFireEventRequest\<close>).

  A handler is known by the identifier of the event item whose \<^verbatim>\<open>fireEvent\<close> it is bound to; only event
  items register handlers.  The event object is shared by all handlers, so it is threaded through them.
\<close>

definition status_BadMonitoredItemFilterInvalid :: u32 where "status_BadMonitoredItemFilterInvalid = 0x80430000"
definition status_BadContentFilterInvalid :: u32 where "status_BadContentFilterInvalid = 0x80480000"

record 'e EventFilter =
  ef_selectClauses :: "SimpleAttributeOperand list option"
  ef_whereClause :: "'e ContentFilterElement list"

record 'e CreateItemRequest = MonitoredItemCreateRequest +
  rp_filter :: "'e EventFilter option"

record 'e EventFieldList =
  efl_clientHandle :: u32
  efl_eventFields :: "'e OpcUaVariant option OpcUaArray"

record 'e EventItem =
  ei_eventItemId :: u32
  ei_clientHandle :: u32
  ei_nodeId :: OpcUaNodeIdBase
  ei_browseName :: OpcUaQualifiedName
  ei_whereFilter :: "'e FilterNode option"
  ei_selectClauses :: "SimpleAttributeOperand list"
  ei_handlerId :: u32
  ei_list :: "'e EventFieldList list"
  ei_userContext :: nat

definition EventItem_new :: "u32 \<Rightarrow> 'e EventItem" where
  "EventItem_new i = \<lparr>ei_eventItemId = i, ei_clientHandle = 0, ei_nodeId = OpcUaNodeIdBase_new,
     ei_browseName = OpcUaQualifiedName_new, ei_whereFilter = None, ei_selectClauses = [],
     ei_handlerId = 0, ei_list = [], ei_userContext = 0\<rparr>"

section \<open>EventHandlerMap\<close>

type_synonym EventHandlerMap = "(OpcUaNodeIdBase, u32) cmap"

definition EventHandlerMap_existEvent :: "OpcUaNodeIdBase \<Rightarrow> EventHandlerMap \<Rightarrow> bool" where
  "EventHandlerMap_existEvent nodeId m \<longleftrightarrow> cmap_find OpcUaNodeIdBase_less nodeId m \<noteq> None"

definition EventHandlerMap_registerEvent :: "OpcUaNodeIdBase \<Rightarrow> u32 \<Rightarrow> EventHandlerMap \<Rightarrow> EventHandlerMap" where
  "EventHandlerMap_registerEvent nodeId eventId m = cmultimap_insert OpcUaNodeIdBase_less nodeId eventId m"

fun EventHandlerMap_deregisterEvent :: "OpcUaNodeIdBase \<Rightarrow> u32 \<Rightarrow> EventHandlerMap \<Rightarrow> EventHandlerMap" where
  "EventHandlerMap_deregisterEvent nodeId eventId [] = []"
| "EventHandlerMap_deregisterEvent nodeId eventId ((k, i) # m) =
     (if OpcUaNodeIdBase_equal k nodeId \<and> i = eventId then m
      else (k, i) # EventHandlerMap_deregisterEvent nodeId eventId m)"

definition EventHandlerMap_getEvent :: "OpcUaNodeIdBase \<Rightarrow> EventHandlerMap \<Rightarrow> u32 list \<Rightarrow> u32 list" where
  "EventHandlerMap_getEvent nodeId m eventHandlerBaseVec =
     eventHandlerBaseVec @ cmultimap_equal_range OpcUaNodeIdBase_less nodeId m"

section \<open>Creating an item\<close>

definition EventItem_receiveSelectClauses ::
  "SimpleAttributeOperand list option \<Rightarrow> 'e EventItem \<Rightarrow> u32 \<times> 'e EventItem" where
  "EventItem_receiveSelectClauses selectClauses ei =
     (case selectClauses of
        None \<Rightarrow> (status_BadContentFilterInvalid, ei)
      | Some [] \<Rightarrow> (status_BadContentFilterInvalid, ei)
      | Some clauses \<Rightarrow> (status_Success, ei\<lparr>ei_selectClauses := clauses\<rparr>))"

definition EventItem_receive ::
  "'e CreateItemRequest \<Rightarrow> 'e EventItem \<Rightarrow> EventHandlerMap \<Rightarrow> (u32 \<times> 'e EventItem \<times> EventHandlerMap) option" where
  "EventItem_receive req ei handlers =
     (let ei = ei\<lparr>ei_nodeId := itemToMonitor_nodeId req, ei_clientHandle := rp_clientHandle req\<rparr>
      in case rp_filter req of
           None \<Rightarrow> Some (status_BadInvalidArgument, ei, handlers)
         | Some eventFilter \<Rightarrow>
             (let (statusCode, ei) = EventItem_receiveSelectClauses (ef_selectClauses eventFilter) ei
              in if statusCode \<noteq> status_Success then Some (statusCode, ei, handlers)
                 else do {
                   (whereFilterIsValid, whereFilter, _) \<leftarrow>
                     (if ef_whereClause eventFilter \<noteq> []
                      then FilterStack_receive (ef_whereClause eventFilter) (OpcUaArray_new None 1) FilterStack_new
                      else Some (True, FilterStack_new, OpcUaArray_new None 1));
                   let ei = ei\<lparr>ei_whereFilter := Some whereFilter\<rparr>;
                   (if \<not> whereFilterIsValid then Some (status_BadMonitoredItemFilterInvalid, ei, handlers)
                    else Some (status_Success, ei\<lparr>ei_handlerId := ei_eventItemId ei\<rparr>,
                           EventHandlerMap_registerEvent (ei_nodeId ei) (ei_eventItemId ei) handlers)) }))"

definition EventItem_clear :: "'e EventItem \<Rightarrow> EventHandlerMap \<Rightarrow> EventHandlerMap" where
  "EventItem_clear ei handlers = EventHandlerMap_deregisterEvent (ei_nodeId ei) (ei_handlerId ei) handlers"

section \<open>Firing an event\<close>

text \<open>What an item finds around it: the clock, the namespace array and the typed operations.\<close>

record 'e FireEnv =
  fi_ops :: "'e ExtensionObjectBase"
  fi_reg :: "'e ExtensionObjectMap"
  fi_cast :: "'e lib_cast"
  fi_namespaces :: "string list"
  fi_now :: OpcUaDateTime
  fi_timeBytes :: "byte list"

definition BaseEventType_default :: "string \<Rightarrow> string \<Rightarrow> 'e OpcUaVariantValue \<Rightarrow> 'e Event \<Rightarrow> 'e Event" where
  "BaseEventType_default tested name value event =
     (if BaseEventType_get tested event = None
      then snd (BaseEventType_set name (Some (OpcUaVariant_setValue value OpcUaVariant_new)) event)
      else event)"

text \<open>Receive time, message and severity are set when the variable \<^verbatim>\<open>Time\<close> is missing.\<close>

definition EventItem_setDefaults :: "'e FireEnv \<Rightarrow> 'e EventItem \<Rightarrow> 'e Event \<Rightarrow> 'e Event" where
  "EventItem_setDefaults env ei event =
     (let byteString = OpcUaByteString_setValue (Some (fi_timeBytes env)) (word_of_nat (length (fi_timeBytes env)))
                         OpcUaByteString_new;
          name = OpcUaString_copyTo (qn_name (ei_browseName ei)) OpcUaString_new;
          event = BaseEventType_default ''EventId'' ''EventId''
                    (VByteString (OpcUaByteString_copyTo byteString OpcUaByteString_new)) event;
          event = BaseEventType_default ''SourceNode'' ''SourceNode''
                    (VNodeId (OpcUaNodeIdBase_copyTo (ei_nodeId ei) OpcUaNodeIdBase_new)) event;
          event = BaseEventType_default ''SourceName'' ''SourceName'' (VString name) event;
          event = BaseEventType_default ''Time'' ''Time'' (VDateTime (fi_now env)) event;
          event = BaseEventType_default ''Time'' ''ReceiveTime'' (VDateTime (fi_now env)) event;
          event = BaseEventType_default ''Time'' ''Message''
                    (VLocalizedText (OpcUaLocalizedText_copyTo
                       \<lparr>lt_locale = OpcUaString_of [], lt_text = OpcUaString_of (str_value (qn_name (ei_browseName ei)))\<rparr>
                       OpcUaLocalizedText_new)) event;
          event = BaseEventType_default ''Time'' ''Severity'' (VUInt16 100) event
      in event)"

text \<open>The attributes a where clause reads; no \<^verbatim>\<open>AttributeIf\<close> is set, and a path that fails has no value.\<close>

definition EventItem_filterEnv :: "'e FireEnv \<Rightarrow> 'e Event \<Rightarrow> 'e FilterEnv" where
  "EventItem_filterEnv env event = \<lparr>fe_ops = fi_ops env, fe_reg = fi_reg env, fe_cast = fi_cast env,
     fe_attribute = (\<lambda>_. None),
     fe_simpleAttribute = (\<lambda>a. case EventBase_getAttribute (fi_ops env) (fi_reg env) (sao_typeId a) (sao_browsePath a) event
                                of Some (Some v) \<Rightarrow> Some v | _ \<Rightarrow> None)\<rparr>"

fun EventItem_fields ::
  "SimpleAttributeOperand list \<Rightarrow> 'e Event \<Rightarrow> 'e OpcUaVariant option OpcUaArray
     \<Rightarrow> 'e OpcUaVariant option OpcUaArray option" where
  "EventItem_fields [] event fs = Some fs"
| "EventItem_fields (clause # clauses) event fs = do {
     (resultCode, value) \<leftarrow> EventBase_get (sao_typeId clause) (sao_browsePath clause) event;
     let value = (if resultCode \<noteq> EventSuccess then Some OpcUaVariant_new else value);
     EventItem_fields clauses event (snd (OpcUaArray_push_back value fs)) }"

definition EventItem_fireEvent :: "'e FireEnv \<Rightarrow> 'e Event \<Rightarrow> 'e EventItem \<Rightarrow> ('e Event \<times> 'e EventItem) option" where
  "EventItem_fireEvent env event ei = do {
     let event = EventBase_namespaceArray (Some (fi_namespaces env)) event;
     let event = EventItem_setDefaults env ei event;
     whereFilter \<leftarrow> ei_whereFilter ei;
     rc \<leftarrow> FilterStack_process (EventItem_filterEnv env event) whereFilter;
     (case rc of
        None \<Rightarrow> Some (event, ei)
      | Some resultCode \<Rightarrow>
          (if \<not> resultCode then Some (event, ei)
           else do {
             fs \<leftarrow> EventItem_fields (ei_selectClauses ei) event
                (OpcUaArray_resize None (length (ei_selectClauses ei)) (OpcUaArray_new None 1));
             let eventFieldList = \<lparr>efl_clientHandle = ei_clientHandle ei, efl_eventFields = fs\<rparr>;
             Some (event, ei\<lparr>ei_list := ei_list ei @ [eventFieldList]\<rparr>) })) }"

definition EventItem_receiveArray ::
  "'e EventFieldList OpcUaArray \<Rightarrow> 'e EventItem \<Rightarrow> u32 \<times> 'e EventItem \<times> 'e EventFieldList OpcUaArray" where
  "EventItem_receiveArray a ei =
     (let (statusCode, list, a) = drain_queue (OpcUaArray_freeSize a) (ei_list ei) a
      in (statusCode, ei\<lparr>ei_list := list\<rparr>, a))"

section \<open>Delivering an event\<close>

text \<open>
  The nodes whose handlers are called: the loop works on two sets of node identifiers.  The parents are
  those of the node of the request in every iteration.
\<close>

partial_function (option) ApplicationService_hierarchyLoop ::
  "(OpcUaNodeIdBase \<Rightarrow> bool) \<Rightarrow> OpcUaNodeIdBase list \<Rightarrow> (OpcUaNodeIdBase, unit) cmap
     \<Rightarrow> (OpcUaNodeIdBase, unit) cmap \<Rightarrow> OpcUaNodeIdBase list \<Rightarrow> OpcUaNodeIdBase list option" where
  "ApplicationService_hierarchyLoop exists parents duplicate work nodeIdVec =
     (case work of
        [] \<Rightarrow> Some nodeIdVec
      | (nodeId, _) # work \<Rightarrow>
          (let nodeIdVec = nodeIdVec @ [nodeId];
               duplicate = snd (cmap_insert OpcUaNodeIdBase_less nodeId () duplicate)
           in if \<not> exists nodeId then ApplicationService_hierarchyLoop exists parents duplicate work nodeIdVec
              else ApplicationService_hierarchyLoop exists parents duplicate
                (fold (\<lambda>p work. if table_find p duplicate \<noteq> None then work
                               else snd (cmap_insert OpcUaNodeIdBase_less p () work)) parents work) nodeIdVec))"

text \<open>\<open>fire\<close> calls the handler with a given identifier; the vector of handlers grows from node to node.\<close>

fun run_handlers :: "(u32 \<Rightarrow> 's \<Rightarrow> 's option) \<Rightarrow> u32 list \<Rightarrow> 's \<Rightarrow> 's option" where
  "run_handlers fire [] s = Some s"
| "run_handlers fire (i # is) s = do { s \<leftarrow> fire i s; run_handlers fire is s }"

fun ApplicationService_fireNodes ::
  "(u32 \<Rightarrow> 's \<Rightarrow> 's option) \<Rightarrow> EventHandlerMap \<Rightarrow> OpcUaNodeIdBase list \<Rightarrow> u32 list \<Rightarrow> 's \<Rightarrow> 's option" where
  "ApplicationService_fireNodes fire handlers [] eventHandlerBaseVec s = Some s"
| "ApplicationService_fireNodes fire handlers (nodeId # nodeIds) eventHandlerBaseVec s = do {
     let eventHandlerBaseVec = EventHandlerMap_getEvent nodeId handlers eventHandlerBaseVec;
     s \<leftarrow> run_handlers fire eventHandlerBaseVec s;
     ApplicationService_fireNodes fire handlers nodeIds eventHandlerBaseVec s }"

definition ApplicationService_receiveFireEventRequest ::
  "'e InformationModel \<Rightarrow> EventHandlerMap \<Rightarrow> (u32 \<Rightarrow> 's \<Rightarrow> 's option) \<Rightarrow> OpcUaNodeIdBase \<Rightarrow> 's
     \<Rightarrow> (u32 \<times> 's) option" where
  "ApplicationService_receiveFireEventRequest im handlers fire nodeId s =
     (case InformationModel_find nodeId im of
        None \<Rightarrow> Some (status_BadNodeIdUnknown, s)
      | Some p \<Rightarrow> do {
          baseNodeClass \<leftarrow> im_heap im p;
          parents \<leftarrow> InformationModelAccess_getParentOfType (nodeId0 48) baseNodeClass;
          nodeIdVec \<leftarrow> ApplicationService_hierarchyLoop (\<lambda>i. InformationModel_find i im \<noteq> None) parents []
             (snd (cmap_insert OpcUaNodeIdBase_less nodeId () [])) [];
          s \<leftarrow> ApplicationService_fireNodes fire handlers nodeIdVec [] s;
          Some (status_Success, s) })"

section \<open>Lemmas\<close>

lemma setValue_other:
  "name \<noteq> k \<Longrightarrow> EventVariables_getValue k (snd (EventVariables_setValue name v evs)) = EventVariables_getValue k evs"
  by (auto simp: EventVariables_setValue_def EventVariables_getValue_def omap_find_update split: option.split)

lemma BaseEventType_get_eq: "event \<noteq> [] \<Longrightarrow> BaseEventType_get k event = snd (EventVariables_getValue k (last event))"
  by (cases event) (simp_all add: BaseEventType_get_def)

lemma BaseEventType_get_other:
  "name \<noteq> k \<Longrightarrow> BaseEventType_get k (snd (BaseEventType_set name v event)) = BaseEventType_get k event"
  by (cases "event = []") (simp_all add: BaseEventType_get_eq BaseEventType_set_eq setValue_other,
      simp add: BaseEventType_get_def BaseEventType_set_def)

lemma BaseEventType_get_default_other:
  "name \<noteq> k \<Longrightarrow> BaseEventType_get k (BaseEventType_default t name v event) = BaseEventType_get k event"
  by (simp add: BaseEventType_default_def BaseEventType_get_other)

lemma BaseEventType_default_idle:
  "BaseEventType_get t event \<noteq> None \<Longrightarrow> BaseEventType_default t name v event = event"
  by (auto simp: BaseEventType_default_def)

definition declares :: "'e Event \<Rightarrow> string \<Rightarrow> nat \<Rightarrow> bool" where
  "declares event name t \<longleftrightarrow> event \<noteq> []
     \<and> map_option ev_buildInType (omap_find name (evs_map (last event))) = Some t"

lemma declares_set [simp]: "declares (snd (BaseEventType_set k v event)) name t = declares event name t"
  by (cases "event = []")
    (simp_all add: declares_def BaseEventType_set_eq, simp add: BaseEventType_set_def)

lemma declares_default [simp]: "declares (BaseEventType_default k n v event) name t = declares event name t"
  by (simp add: BaseEventType_default_def)

lemma setValue_typed:
  "map_option ev_buildInType (omap_find name (evs_map evs)) = Some (OpcUaVariant_variantType v)
     \<Longrightarrow> fst (EventVariables_setValue name (Some v) evs)"
  by (auto simp: EventVariables_setValue_def)

lemma BaseEventType_default_sets:
  assumes "declares event name t" and "OpcUaVariantValue_variantType v = t"
  shows "BaseEventType_get name (BaseEventType_default name name v event) \<noteq> None"
proof (cases "BaseEventType_get name event")
  case None
  have st: "OpcUaVariant_variantType (scalar v) = t"
    using assms(2) by (simp add: OpcUaVariant_setValue_def OpcUaVariant_variantType_def OpcUaVariant_clear_def OpcUaVariant_new_def)
  then have "fst (EventVariables_setValue name (Some (scalar v)) (last event))"
    using assms(1) st setValue_typed [of name "last event" "scalar v"] by (auto simp: declares_def)
  then have "snd (EventVariables_getValue name (snd (EventVariables_setValue name (Some (scalar v)) (last event)))) = Some (scalar v)"
    using setValue_getValue [of name "Some (scalar v)" "last event"]
    by (cases "EventVariables_setValue name (Some (scalar v)) (last event)") auto
  then show ?thesis
    using None assms(1) by (auto simp: BaseEventType_default_def declares_def BaseEventType_set_eq BaseEventType_get_eq)
qed (simp add: BaseEventType_default_idle)

lemma event_ok_default: "event_ok event \<Longrightarrow> event_ok (BaseEventType_default t name v event)"
  by (simp add: BaseEventType_default_def event_ok_set)

section \<open>The nodes an event is delivered to\<close>

lemma insert_known:
  "nodeId_order.cinv m \<Longrightarrow> id_ok k \<Longrightarrow> table_find k m \<noteq> None \<Longrightarrow> snd (cmap_insert OpcUaNodeIdBase_less k v m) = m"
  by (induction m) (auto simp: case_prod_beta split: if_splits)

lemma insert_work_known:
  "\<lbrakk>nodeId_order.cinv work; \<forall>p \<in> set parents. id_ok p \<and> (table_find p dup \<noteq> None \<or> table_find p work \<noteq> None)\<rbrakk>
     \<Longrightarrow> fold (\<lambda>p work. if table_find p dup \<noteq> None then work
               else snd (cmap_insert OpcUaNodeIdBase_less p () work)) parents work = work"
  by (induction parents) (auto simp: insert_known)

lemma hierarchy_loop_known:
  assumes "nodeId_order.cinv work" "nodeId_order.cinv dup"
    and "\<forall>p \<in> set parents. id_ok p \<and> (table_find p dup \<noteq> None \<or> table_find p work \<noteq> None)"
  shows "ApplicationService_hierarchyLoop ex parents dup work vec = Some (vec @ map fst work)"
  using assms
proof (induction work arbitrary: dup vec)
  case Nil
  then show ?case by (subst ApplicationService_hierarchyLoop.simps) simp
next
  case (Cons e work)
  obtain w where e: "e = (w, ())" by (cases e) auto
  have wf: "id_ok w" "nodeId_order.cinv work" using Cons.prems(1) e by auto
  define dup' where "dup' = snd (cmap_insert OpcUaNodeIdBase_less w () dup)"
  have c: "nodeId_order.cinv dup'" unfolding dup'_def by (rule nodeId_order.inv_insert [OF Cons.prems(2) wf(1)])
  have f: "table_find p dup' \<noteq> None \<or> table_find p work \<noteq> None" if "p \<in> set parents" for p
    using Cons.prems(3) that e nodeId_order.find_insert [OF Cons.prems(2) _ wf(1), of p "()"]
      nodeId_order.find_cong [OF Cons.prems(2) _ wf(1), of p]
    by (auto simp: dup'_def split: if_splits)
  have "ApplicationService_hierarchyLoop ex parents dup' work (vec @ [w]) = Some ((vec @ [w]) @ map fst work)"
    using Cons.IH [OF wf(2) c] Cons.prems(3) f by blast
  moreover have "fold (\<lambda>p work. if table_find p dup' \<noteq> None then work
               else snd (cmap_insert OpcUaNodeIdBase_less p () work)) parents work = work"
    using insert_work_known [OF wf(2)] Cons.prems(3) f by blast
  ultimately show ?case
    by (subst ApplicationService_hierarchyLoop.simps) (simp add: e dup'_def [symmetric] Let_def)
qed

lemma hierarchy_parents:
  fixes work :: "(OpcUaNodeIdBase, unit) cmap"
  assumes "id_ok n" "nodeId_order.cinv work" "\<forall>p \<in> set parents. id_ok p"
  defines "dup \<equiv> [(n, ())]"
  defines "work' \<equiv> fold (\<lambda>p work. if table_find p dup \<noteq> None then work
               else snd (cmap_insert OpcUaNodeIdBase_less p () work)) parents work"
  shows "nodeId_order.cinv work' \<and> set (map fst work') \<subseteq> set (map fst work) \<union> set parents
     \<and> (\<forall>p. id_ok p \<longrightarrow> table_find p work \<noteq> None \<longrightarrow> table_find p work' \<noteq> None)
     \<and> (\<forall>p \<in> set parents. table_find p dup \<noteq> None \<or> table_find p work' \<noteq> None)"
  using assms(2,3) unfolding work'_def
proof (induction parents arbitrary: work)
  case (Cons p parents)
  define step where "step = (\<lambda>p work. if table_find p dup \<noteq> None then work
      else snd (cmap_insert OpcUaNodeIdBase_less p () work))"
  define w1 where "w1 = step p work"
  define w2 where "w2 = fold step parents w1"
  have wf: "id_ok p" "\<forall>p \<in> set parents. id_ok p" using Cons.prems(2) by auto
  have c: "nodeId_order.cinv w1"
    using Cons.prems(1) nodeId_order.inv_insert [OF Cons.prems(1) wf(1), of "()"] by (simp add: w1_def step_def)
  have IH: "nodeId_order.cinv w2 \<and> set (map fst w2) \<subseteq> set (map fst w1) \<union> set parents
     \<and> (\<forall>p. id_ok p \<longrightarrow> table_find p w1 \<noteq> None \<longrightarrow> table_find p w2 \<noteq> None)
     \<and> (\<forall>p \<in> set parents. table_find p dup \<noteq> None \<or> table_find p w2 \<noteq> None)"
    using Cons.IH [OF c wf(2)] unfolding w2_def step_def .
  have s: "set (map fst w1) \<subseteq> insert p (set (map fst work))"
    using nodeId_order.keys_insert [of p "()" work] by (auto simp: w1_def step_def)
  have k: "table_find q w1 \<noteq> None" if "table_find q work \<noteq> None" "id_ok q" for q
    using that nodeId_order.find_insert [OF Cons.prems(1) that(2) wf(1), of "()"] by (simp add: w1_def step_def)
  have "table_find p dup \<noteq> None \<or> table_find p w1 \<noteq> None"
    using nodeId_order.find_insert [OF Cons.prems(1) wf(1) wf(1), of "()"] nodeId_order.irrefl [OF wf(1)]
    by (simp add: w1_def step_def)
  then have p: "table_find p dup \<noteq> None \<or> table_find p w2 \<noteq> None" using IH wf(1) by blast
  have "set (map fst w2) \<subseteq> set (map fst work) \<union> set (p # parents)" using IH s unfolding list.set by blast
  moreover have "fold (\<lambda>p work. if table_find p dup \<noteq> None then work
      else snd (cmap_insert OpcUaNodeIdBase_less p () work)) (p # parents) work = w2"
    by (simp add: w2_def w1_def step_def)
  ultimately show ?case using IH k p by auto
qed auto

text \<open>The handlers called for a list of nodes: those of a node once for it and once for each later node.\<close>

lemma run_handlers_append:
  "run_handlers fire (is @ js) s = do { s \<leftarrow> run_handlers fire is s; run_handlers fire js s }"
  by (induction "is" arbitrary: s) (auto split: bind_splits)

lemma fire_nodes_calls:
  "ApplicationService_fireNodes fire m nodes acc s =
     run_handlers fire (concat (map (\<lambda>k. acc @ concat (map (\<lambda>n. cmultimap_equal_range OpcUaNodeIdBase_less n m) (take (Suc k) nodes)))
       [0..<length nodes])) s"
proof (induction nodes arbitrary: acc s)
  case (Cons n nodes)
  have "[0..<length (n # nodes)] = 0 # map Suc [0..<length nodes]"
    by (simp add: map_Suc_upt upt_conv_Cons del: upt_Suc)
  moreover have "ApplicationService_fireNodes fire m nodes a = run_handlers fire (concat (map (\<lambda>k. a @
       concat (map (\<lambda>n. cmultimap_equal_range OpcUaNodeIdBase_less n m) (take (Suc k) nodes))) [0..<length nodes]))" for a
    by (rule ext) (rule Cons.IH)
  ultimately show ?case
    by (simp add: EventHandlerMap_getEvent_def run_handlers_append comp_def del: upt_Suc)
qed simp

section \<open>Properties\<close>

text \<open>
  Firing completes an event that lacks them with an event identifier, a source and a time, but never
  with a receive time, a message or a severity: these three defaults test the variable \<^verbatim>\<open>Time\<close>, which
  has just been set.
\<close>

theorem event_defaults_incomplete:
  fixes env :: "'e FireEnv" and ei :: "'e EventItem" and event :: "'e Event"
  assumes "declares event ''Time'' 13"
  shows "BaseEventType_get ''Time'' (EventItem_setDefaults env ei event) \<noteq> None
     \<and> (\<forall>name \<in> {''ReceiveTime'', ''Message'', ''Severity''}.
           BaseEventType_get name (EventItem_setDefaults env ei event) = BaseEventType_get name event)"
proof -
  define e1 where "e1 = BaseEventType_default ''SourceName'' ''SourceName''
      (VString (OpcUaString_copyTo (qn_name (ei_browseName ei)) OpcUaString_new))
      (BaseEventType_default ''SourceNode'' ''SourceNode'' (VNodeId (OpcUaNodeIdBase_copyTo (ei_nodeId ei) OpcUaNodeIdBase_new))
        (BaseEventType_default ''EventId'' ''EventId''
          (VByteString (OpcUaByteString_copyTo (OpcUaByteString_setValue (Some (fi_timeBytes env))
             (word_of_nat (length (fi_timeBytes env))) OpcUaByteString_new) OpcUaByteString_new)) event))"
  define e2 where "e2 = BaseEventType_default ''Time'' ''Time'' (VDateTime (fi_now env)) e1"
  have "declares e1 ''Time'' 13" using assms(1) by (simp add: e1_def)
  then have t: "BaseEventType_get ''Time'' e2 \<noteq> None"
    unfolding e2_def by (rule BaseEventType_default_sets) simp
  then have "EventItem_setDefaults env ei event = e2"
    unfolding EventItem_setDefaults_def Let_def e1_def [symmetric] e2_def [symmetric]
    by (simp add: BaseEventType_default_idle)
  moreover have "BaseEventType_get name e2 = BaseEventType_get name event"
    if "name \<in> {''ReceiveTime'', ''Message'', ''Severity''}" for name
    using that by (auto simp: e2_def e1_def BaseEventType_get_default_other)
  ultimately show ?thesis using t by blast
qed

definition demo_fire :: "StandardObject FireEnv" where
  "demo_fire = \<lparr>fi_ops = StandardObject_ops, fi_reg = Core_extensionObjectMap, fi_cast = \<lambda>_ _. None,
     fi_namespaces = [], fi_now = 1000, fi_timeBytes = [1, 2]\<rparr>"

theorem event_defaults_incomplete_witness:
  "BaseEventType_get ''Time'' (EventItem_setDefaults demo_fire (EventItem_new 1) (BaseEventType_new :: StandardObject Event)) \<noteq> None
     \<and> BaseEventType_get ''Severity'' (EventItem_setDefaults demo_fire (EventItem_new 1) (BaseEventType_new :: StandardObject Event)) = None"
proof -
  have "declares (BaseEventType_new :: StandardObject Event) ''Time'' 13"
    by (simp add: declares_def BaseEventType_new_def EventVariable_new_def)
  moreover have "BaseEventType_get ''Severity'' (BaseEventType_new :: StandardObject Event) = None"
    by (simp add: BaseEventType_get_def BaseEventType_new_def EventVariables_getValue_def EventVariable_new_def)
  ultimately show ?thesis
    using event_defaults_incomplete [of "BaseEventType_new :: StandardObject Event" demo_fire "EventItem_new 1"] by simp
qed

text \<open>
  C11: The handlers called for an event at a node: with \<open>ups\<close> the targets of the inverse \<^verbatim>\<open>HasNotifier\<close>
  references of this node, each once and in order, the handlers of the node come first, then those of
  the node again and those of the first of \<open>ups\<close>, and so on, because the vector of handlers is not
  cleared between two nodes.  The notifiers further up are not reached.
\<close>

theorem fire_event_handlers:
  assumes "InformationModel_find nodeId im = Some p" and "im_heap im p = Some node"
    and "InformationModelAccess_getParentOfType (nodeId0 48) node = Some parents"
    and "id_ok nodeId" and "\<forall>q \<in> set parents. id_ok q"
  shows "\<exists>ups. set ups \<subseteq> set parents \<and> sorted_wrt OpcUaNodeIdBase_less ups
     \<and> (\<forall>q \<in> set parents. \<exists>q' \<in> set (nodeId # ups). OpcUaNodeIdBase_equal q' q)
     \<and> ApplicationService_receiveFireEventRequest im handlers fire nodeId s =
         map_option (Pair status_Success)
           (run_handlers fire
              (concat (map (\<lambda>k. concat (map (\<lambda>n. cmultimap_equal_range OpcUaNodeIdBase_less n handlers)
                                     (take (Suc k) (nodeId # ups)))) [0..<Suc (length ups)])) s)"
proof -
  define dup :: "(OpcUaNodeIdBase, unit) cmap" where "dup = [(nodeId, ())]"
  define work' where "work' = fold (\<lambda>p work. if table_find p dup \<noteq> None then work
               else snd (cmap_insert OpcUaNodeIdBase_less p () work)) parents []"
  have w: "nodeId_order.cinv work'" "set (map fst work') \<subseteq> set parents"
    "\<forall>q \<in> set parents. table_find q dup \<noteq> None \<or> table_find q work' \<noteq> None"
    using hierarchy_parents [OF assms(4) _ assms(5), of "[]", folded dup_def, folded work'_def] by simp_all
  have d: "nodeId_order.cinv dup" using assms(4) by (simp add: dup_def)
  have "ApplicationService_hierarchyLoop (\<lambda>i. InformationModel_find i im \<noteq> None) parents dup work' [nodeId]
      = Some ([nodeId] @ map fst work')"
    using w(3) assms(5) by (intro hierarchy_loop_known [OF w(1) d]) auto
  then have loop: "ApplicationService_hierarchyLoop (\<lambda>i. InformationModel_find i im \<noteq> None) parents []
      (snd (cmap_insert OpcUaNodeIdBase_less nodeId () [])) [] = Some (nodeId # map fst work')"
    using assms(1) unfolding dup_def work'_def by (subst ApplicationService_hierarchyLoop.simps) simp
  have up: "\<exists>q' \<in> set (nodeId # map fst work'). OpcUaNodeIdBase_equal q' q" if q: "q \<in> set parents" for q
  proof -
    have wf: "id_ok q" using bspec [OF assms(5) q] .
    consider "table_find q dup \<noteq> None" | "table_find q work' \<noteq> None" using bspec [OF w(3) q] by blast
    then show ?thesis
    proof cases
      case 1
      then show ?thesis by (auto simp: dup_def OpcUaNodeIdBase_equal_def split: if_splits)
    next
      case 2
      show ?thesis
      proof -
        obtain u where "table_find q work' = Some u" using 2 by blast
        then obtain q' where "\<not> OpcUaNodeIdBase_less q' q \<and> \<not> OpcUaNodeIdBase_less q q'" "(q', u) \<in> set work'"
          unfolding nodeId_order.find_Some_iff [OF w(1) wf] by blast
        then show ?thesis by (force simp: OpcUaNodeIdBase_equal_def)
      qed
    qed
  qed
  have "ApplicationService_receiveFireEventRequest im handlers fire nodeId s =
         map_option (Pair status_Success)
           (run_handlers fire
              (concat (map (\<lambda>k. concat (map (\<lambda>n. cmultimap_equal_range OpcUaNodeIdBase_less n handlers)
                                     (take (Suc k) (nodeId # map fst work')))) [0..<Suc (length (map fst work'))])) s)"
    using assms(1-3) loop
    by (simp add: ApplicationService_receiveFireEventRequest_def fire_nodes_calls option.map_comp
        map_conv_bind_option comp_def del: upt_Suc)
  moreover have "sorted_wrt OpcUaNodeIdBase_less (map fst work')" using w(1) by (elim conjE)
  ultimately show ?thesis using w(2) up by (intro exI [of _ "map fst work'"] conjI ballI) assumption+
qed

definition demo_notifier :: "StandardObject BaseNodeClass" where
  "demo_notifier = \<lparr>node_attribute = (\<lambda>_. None),
     node_references = snd (ReferenceItemMap_add (nodeId0 48) False (nodeId0 2253) [])\<rparr>"

definition demo_notifiers :: "StandardObject InformationModel" where
  "demo_notifiers = \<lparr>im_map = [(nodeId0 100, 1)], im_heap = [1 \<mapsto> demo_notifier]\<rparr>"

text \<open>A handler at the node and one at its notifier: the first is called twice.\<close>

theorem fire_event_handlers_witness:
  "ApplicationService_receiveFireEventRequest demo_notifiers [(nodeId0 100, 1), (nodeId0 2253, 2)]
     (\<lambda>i calls. Some (calls @ [i])) (nodeId0 100) [] = Some (status_Success, [1, 1, 2])"
proof -
  have 1: "InformationModel_find (nodeId0 100) demo_notifiers = Some 1" "im_heap demo_notifiers 1 = Some demo_notifier"
    by (simp_all add: InformationModel_find_def demo_notifiers_def OpcUaNodeIdBase_less_def nodeId0_def)
  have 2: "InformationModelAccess_getParentOfType (nodeId0 48) demo_notifier = Some [nodeId0 2253]"
    by (simp add: demo_notifier_def) code_simp
  have e: "OpcUaNodeIdBase_equal (nodeId0 a) (nodeId0 b) \<longleftrightarrow> a = b" for a b
    by (auto simp: OpcUaNodeIdBase_equal_def OpcUaNodeIdBase_less_def nodeId0_def)
  obtain ups where ups: "set ups \<subseteq> {nodeId0 2253}" "sorted_wrt OpcUaNodeIdBase_less ups"
      "\<exists>q' \<in> set (nodeId0 100 # ups). OpcUaNodeIdBase_equal q' (nodeId0 2253)"
    and calls: "ApplicationService_receiveFireEventRequest demo_notifiers [(nodeId0 100, 1), (nodeId0 2253, 2)]
       (\<lambda>i calls. Some (calls @ [i])) (nodeId0 100) [] = map_option (Pair status_Success)
           (run_handlers (\<lambda>i calls. Some (calls @ [i]))
              (concat (map (\<lambda>k. concat (map (\<lambda>n. cmultimap_equal_range OpcUaNodeIdBase_less n [(nodeId0 100, 1), (nodeId0 2253, 2)])
                                     (take (Suc k) (nodeId0 100 # ups)))) [0..<Suc (length ups)])) [])"
    using fire_event_handlers [OF 1 2, where fire = "\<lambda>i calls. Some (calls @ [i])"
        and handlers = "[(nodeId0 100, 1), (nodeId0 2253, 2)]" and s = "[]"]
    by (auto simp: nodeId0_def)
  have ir: "\<not> OpcUaNodeIdBase_less (nodeId0 2253) (nodeId0 2253)"
    by (rule nodeId_order.irrefl) (simp add: nodeId0_def)
  have "ups = [nodeId0 2253]"
    using ups ir by (cases ups; cases "tl ups") (auto simp: e)
  then show ?thesis
    unfolding calls by (simp add: cmultimap_equal_range_def OpcUaNodeIdBase_less_def nodeId0_def)
qed

end
