(* ===== verification/MonitorManager.thy ===== *)
theory MonitorManager
  imports EventItems TimerWheel
begin

text \<open>
  The monitored items of a subscription (\<^verbatim>\<open>ServiceSet/MonitorManager.cpp\<close>) and the part of the server
  they work on: the address space, the slot timer of the I/O thread with the clock, the counter of item
  identifiers, the handlers of events and the calls made to the application.

  Timer elements are allocated one after the other.  The arrays of a request come from the decoder and
  are full, so that they are lists here and the branch for a missing element is dead.
\<close>

section \<open>The server around the items\<close>

datatype ForwardCall =
    MonitoredItemStart OpcUaNodeIdBase nat
  | MonitoredItemStop OpcUaNodeIdBase nat
  | EventItemStart u32 nat
  | EventItemStop u32 nat

text \<open>
  What the callback of a timer element is bound to: a subscription, or a monitored item of one.  The
  element of a callback that was reset has none.
\<close>

datatype TimerCallback = PublishTimeout u32 u32 | SampleTimeout u32 u32

record 'e World =
  w_informationModel :: "'e InformationModel"
  w_slotTimer :: SlotTimer
  w_now :: nat
  w_nextElement :: ptr
  w_callback :: "ptr \<Rightarrow> TimerCallback option"
  w_uniqueMonitorItemId :: u32
  w_uniqueSubscriptionId :: u32
  w_eventHandlerMap :: EventHandlerMap
  w_forwarded :: "ForwardCall list"

text \<open>
  What the application has registered: the global callbacks (or none) and the nodes whose start and
  stop of monitored items it wants to see.  The authorisation depends on the user, the service
  operation (\<^term>\<open>True\<close> for event items) and the node.
\<close>

record 'e ServerEnv =
  se_ops :: "'e ExtensionObjectBase"
  se_reg :: "'e ExtensionObjectMap"
  se_cast :: "'e lib_cast"
  se_autorization :: "(nat \<Rightarrow> bool \<Rightarrow> OpcUaNodeIdBase \<Rightarrow> u32) option"
  se_eventItemStart :: bool
  se_eventItemStop :: bool
  se_monitoredItemStart :: "node_ptr \<Rightarrow> bool"
  se_monitoredItemStop :: "node_ptr \<Rightarrow> bool"
  se_namespaces :: "string list"

definition MonitorItemId_monitorItemId :: "'e World \<Rightarrow> u32 \<times> 'e World" where
  "MonitorItemId_monitorItemId w =
     (let w = w\<lparr>w_uniqueMonitorItemId := w_uniqueMonitorItemId w + 1\<rparr> in (w_uniqueMonitorItemId w, w))"

definition World_newElement :: "'e World \<Rightarrow> ptr \<times> 'e World" where
  "World_newElement w = (w_nextElement w, w\<lparr>w_nextElement := Suc (w_nextElement w)\<rparr>)"

text \<open>Setting the interval and the callback of an element and starting it; stopping it.\<close>

definition World_start :: "ptr \<Rightarrow> u32 \<Rightarrow> TimerCallback \<Rightarrow> 'e World \<Rightarrow> 'e World" where
  "World_start e interval callback w =
     (let st = w_slotTimer w;
          st = st\<lparr>st_elements := (st_elements st)
                 (e := SlotTimerElement_interval (w_now w) (unat interval) (st_elements st e))\<rparr>
      in w\<lparr>w_callback := (w_callback w)(e \<mapsto> callback), w_slotTimer := SlotTimer_internalStart e st\<rparr>)"

definition World_stop :: "ptr \<Rightarrow> 'e World \<Rightarrow> 'e World option" where
  "World_stop e w = do {
     st \<leftarrow> SlotTimer_stop e (w_slotTimer w);
     Some (w\<lparr>w_slotTimer := st\<rparr>) }"

definition World_forward :: "ForwardCall \<Rightarrow> 'e World \<Rightarrow> 'e World" where
  "World_forward call w = w\<lparr>w_forwarded := w_forwarded w @ [call]\<rparr>"

section \<open>The manager\<close>

record 'e MonitorManager =
  mm_monitorItemMap :: "(u32, 'e MonitorItem) omap"
  mm_eventItemMap :: "(u32, 'e EventItem) omap"
  mm_monitoredItemIds :: "(OpcUaNodeIdBase, u32 list) cmap"
  mm_subscriptionId :: u32

definition MonitorManager_new :: "'e MonitorManager" where
  "MonitorManager_new = \<lparr>mm_monitorItemMap = [], mm_eventItemMap = [], mm_monitoredItemIds = [],
     mm_subscriptionId = 0\<rparr>"

text \<open>\<^verbatim>\<open>size()\<close> of an item and the sums over them are 32-bit numbers.\<close>

definition MonitorManager_noticicationNumber :: "'e MonitorManager \<Rightarrow> u32" where
  "MonitorManager_noticicationNumber mm =
     fold (\<lambda>e n. n + word_of_nat (length (mi_list (snd e)))) (mm_monitorItemMap mm) 0"

definition MonitorManager_notificationAvailable :: "'e MonitorManager \<Rightarrow> bool" where
  "MonitorManager_notificationAvailable mm \<longleftrightarrow>
     list_ex (\<lambda>e. (word_of_nat (length (mi_list (snd e))) :: u32) > 0) (mm_monitorItemMap mm)"

definition MonitorManager_forwardStartMonitoredItem ::
  "'e ServerEnv \<Rightarrow> nat \<Rightarrow> node_ptr \<Rightarrow> u32 \<Rightarrow> 'e MonitorManager \<Rightarrow> 'e World
     \<Rightarrow> ('e MonitorManager \<times> 'e World) option" where
  "MonitorManager_forwardStartMonitoredItem env userContext p monitoredItemId mm w = do {
     node \<leftarrow> im_heap (w_informationModel w) p;
     let nodeId = BaseNodeClass_nodeId node;
     let ids = mm_monitoredItemIds mm;
     (case cmap_find OpcUaNodeIdBase_less nodeId ids of
        Some monitoredItemIds \<Rightarrow>
          Some (mm\<lparr>mm_monitoredItemIds := snd (cmap_insert OpcUaNodeIdBase_less nodeId
                     (monitoredItemIds @ [monitoredItemId]) (cmap_erase OpcUaNodeIdBase_less nodeId ids))\<rparr>, w)
      | None \<Rightarrow>
          Some (mm\<lparr>mm_monitoredItemIds := snd (cmap_insert OpcUaNodeIdBase_less nodeId [monitoredItemId] ids)\<rparr>,
                if se_monitoredItemStart env p then World_forward (MonitoredItemStart nodeId userContext) w else w)) }"

definition MonitorManager_forwardStopMonitoredItem ::
  "'e ServerEnv \<Rightarrow> nat \<Rightarrow> node_ptr \<Rightarrow> u32 \<Rightarrow> 'e MonitorManager \<Rightarrow> 'e World
     \<Rightarrow> ('e MonitorManager \<times> 'e World) option" where
  "MonitorManager_forwardStopMonitoredItem env userContext p monitoredItemId mm w = do {
     node \<leftarrow> im_heap (w_informationModel w) p;
     let nodeId = BaseNodeClass_nodeId node;
     let ids = mm_monitoredItemIds mm;
     (case cmap_find OpcUaNodeIdBase_less nodeId ids of
        None \<Rightarrow> Some (mm, w)
      | Some monitoredItemIds \<Rightarrow>
          (let newMonitoredItemIds = filter (\<lambda>i. i \<noteq> monitoredItemId) monitoredItemIds;
               ids = cmap_erase OpcUaNodeIdBase_less nodeId ids
           in if newMonitoredItemIds \<noteq> []
              then Some (mm\<lparr>mm_monitoredItemIds :=
                           snd (cmap_insert OpcUaNodeIdBase_less nodeId newMonitoredItemIds ids)\<rparr>, w)
              else Some (mm\<lparr>mm_monitoredItemIds := ids\<rparr>,
                     if se_monitoredItemStop env p then World_forward (MonitoredItemStop nodeId userContext) w else w))) }"

definition MonitorManager_forwardAutorization ::
  "'e ServerEnv \<Rightarrow> nat \<Rightarrow> bool \<Rightarrow> OpcUaNodeIdBase \<Rightarrow> u32" where
  "MonitorManager_forwardAutorization env userContext eventItem nodeId =
     (case se_autorization env of None \<Rightarrow> status_Success | Some callback \<Rightarrow> callback userContext eventItem nodeId)"

section \<open>Creating items\<close>

text \<open>The revised sampling interval is given by its number of milliseconds.\<close>

record MonitoredItemCreateResult =
  mcr_statusCode :: u32
  mcr_monitoredItemId :: u32
  mcr_revisedSamplingInterval :: u32
  mcr_revisedQueueSize :: u32

definition MonitoredItemCreateResult_new :: MonitoredItemCreateResult where
  "MonitoredItemCreateResult_new = \<lparr>mcr_statusCode = 0, mcr_monitoredItemId = 0,
     mcr_revisedSamplingInterval = 0, mcr_revisedQueueSize = 0\<rparr>"

definition MonitorManager_createMonitoredItem ::
  "'e ServerEnv \<Rightarrow> nat \<Rightarrow> 'e CreateItemRequest \<Rightarrow> 'e MonitorManager \<Rightarrow> 'e World
     \<Rightarrow> (MonitoredItemCreateResult \<times> 'e MonitorManager \<times> 'e World) option" where
  "MonitorManager_createMonitoredItem env userContext req mm w =
     (let r = MonitoredItemCreateResult_new;
          statusCode = MonitorManager_forwardAutorization env userContext False (itemToMonitor_nodeId req)
      in if statusCode \<noteq> status_Success then Some (r\<lparr>mcr_statusCode := statusCode\<rparr>, mm, w)
         else case InformationModel_find (itemToMonitor_nodeId req) (w_informationModel w) of
           None \<Rightarrow> Some (r\<lparr>mcr_statusCode := status_BadNodeIdUnknown\<rparr>, mm, w)
         | Some p \<Rightarrow> do {
             let req = (if dbl_less (rp_samplingInterval req) dbl_200 then req\<lparr>rp_samplingInterval := dbl_200\<rparr> else req);
             let req = (if rp_queueSize req < 1 then req\<lparr>rp_queueSize := 1\<rparr> else req);
             let (i, w) = MonitorItemId_monitorItemId w;
             let (e, w) = World_newElement w;
             let mi = (MonitorItem_new i e)\<lparr>mi_userContext := userContext\<rparr>;
             (statusCode, mi) \<leftarrow> MonitorItem_receive (se_ops env) (se_reg env) (w_informationModel w) p
                (MonitoredItemCreateRequest.truncate req) mi;
             (if statusCode \<noteq> status_Success then Some (r\<lparr>mcr_statusCode := statusCode\<rparr>, mm, w)
              else do {
                let r = \<lparr>mcr_statusCode = status_Success, mcr_monitoredItemId = mi_monitorItemId mi,
                         mcr_revisedSamplingInterval = mi_samplingInterval mi,
                         mcr_revisedQueueSize = mi_queSize mi\<rparr>;
                let mm = mm\<lparr>mm_monitorItemMap := omap_insert (mi_monitorItemId mi) mi (mm_monitorItemMap mm)\<rparr>;
                (mm, w) \<leftarrow> MonitorManager_forwardStartMonitoredItem env (mi_userContext mi) p (mi_monitorItemId mi) mm w;
                Some (r, mm, World_start (mi_slotTimerElement mi) (mi_samplingInterval mi)
                               (SampleTimeout (mm_subscriptionId mm) (mi_monitorItemId mi)) w) }) })"

definition AttributeBase_getBrowseName :: "'e BaseNodeClass \<Rightarrow> OpcUaQualifiedName \<Rightarrow> bool \<times> OpcUaQualifiedName" where
  "AttributeBase_getBrowseName n browseName =
     (case node_attribute n 3 of
        Some a \<Rightarrow> (case attr_data a of
                     BrowseNameAttribute b \<Rightarrow>
                       if attr_exist a then (True, OpcUaQualifiedName_copyTo b browseName) else (False, browseName)
                   | _ \<Rightarrow> (False, browseName))
      | None \<Rightarrow> (False, browseName))"

definition MonitorManager_createEventItem ::
  "'e ServerEnv \<Rightarrow> nat \<Rightarrow> 'e CreateItemRequest \<Rightarrow> 'e MonitorManager \<Rightarrow> 'e World
     \<Rightarrow> (MonitoredItemCreateResult \<times> 'e MonitorManager \<times> 'e World) option" where
  "MonitorManager_createEventItem env userContext req mm w =
     (let r = MonitoredItemCreateResult_new;
          statusCode = MonitorManager_forwardAutorization env userContext True (itemToMonitor_nodeId req)
      in if statusCode \<noteq> status_Success then Some (r\<lparr>mcr_statusCode := statusCode\<rparr>, mm, w)
         else case InformationModel_find (itemToMonitor_nodeId req) (w_informationModel w) of
           None \<Rightarrow> Some (r\<lparr>mcr_statusCode := status_BadNodeIdUnknown\<rparr>, mm, w)
         | Some p \<Rightarrow> do {
             baseNodeClass \<leftarrow> im_heap (w_informationModel w) p;
             let browseName = snd (AttributeBase_getBrowseName baseNodeClass OpcUaQualifiedName_new);
             let (i, w) = MonitorItemId_monitorItemId w;
             let ei = (EventItem_new i)\<lparr>ei_userContext := userContext, ei_browseName := OpcUaQualifiedName_copyTo browseName OpcUaQualifiedName_new\<rparr>;
             (statusCode, ei, handlers) \<leftarrow> EventItem_receive req ei (w_eventHandlerMap w);
             let w = w\<lparr>w_eventHandlerMap := handlers\<rparr>;
             (if statusCode \<noteq> status_Success
              then Some (r\<lparr>mcr_statusCode := statusCode\<rparr>, mm,
                     w\<lparr>w_eventHandlerMap := EventItem_clear ei (w_eventHandlerMap w)\<rparr>)
              else
                (let r = \<lparr>mcr_statusCode = status_Success, mcr_monitoredItemId = ei_eventItemId ei,
                         mcr_revisedSamplingInterval = 0, mcr_revisedQueueSize = 0\<rparr>;
                     mm = mm\<lparr>mm_eventItemMap := omap_insert (ei_eventItemId ei) ei (mm_eventItemMap mm)\<rparr>;
                     w = (if se_eventItemStart env
                          then World_forward (EventItemStart (ei_eventItemId ei) (ei_userContext ei)) w else w)
                 in Some (r, mm, w))) })"

fun MonitorManager_receiveCreate ::
  "'e ServerEnv \<Rightarrow> nat \<Rightarrow> 'e CreateItemRequest list \<Rightarrow> 'e MonitorManager \<Rightarrow> 'e World
     \<Rightarrow> (MonitoredItemCreateResult list \<times> 'e MonitorManager \<times> 'e World) option" where
  "MonitorManager_receiveCreate env userContext [] mm w = Some ([], mm, w)"
| "MonitorManager_receiveCreate env userContext (req # reqs) mm w = do {
     (r, mm, w) \<leftarrow> (if rp_filter req \<noteq> None then MonitorManager_createEventItem env userContext req mm w
                   else MonitorManager_createMonitoredItem env userContext req mm w);
     (rs, mm, w) \<leftarrow> MonitorManager_receiveCreate env userContext reqs mm w;
     Some (r # rs, mm, w) }"

section \<open>Deleting items\<close>

text \<open>
  The result of an event item is not set: its place in the array keeps what \<^verbatim>\<open>resize\<close> left there, and
  the array ends before it when no later result is set.  An event item is deregistered by \<^verbatim>\<open>erase\<close> and
  once more by its destructor.
\<close>

definition MonitorManager_eraseEventItem :: "'e ServerEnv \<Rightarrow> 'e EventItem \<Rightarrow> 'e World \<Rightarrow> 'e World" where
  "MonitorManager_eraseEventItem env ei w =
     (let w = (if se_eventItemStop env
               then World_forward (EventItemStop (ei_eventItemId ei) (ei_userContext ei)) w else w)
      in w\<lparr>w_eventHandlerMap := EventItem_clear ei (w_eventHandlerMap w)\<rparr>)"

definition MonitorManager_stopMonitorItem ::
  "'e ServerEnv \<Rightarrow> u32 \<Rightarrow> 'e MonitorItem \<Rightarrow> 'e MonitorManager \<Rightarrow> 'e World
     \<Rightarrow> ('e MonitorManager \<times> 'e World) option" where
  "MonitorManager_stopMonitorItem env i mi mm w = do {
     (mm, w) \<leftarrow> (case im_heap (w_informationModel w) (mi_node mi) of
                   None \<Rightarrow> Some (mm, w)
                 | Some _ \<Rightarrow> MonitorManager_forwardStopMonitoredItem env (mi_userContext mi) (mi_node mi) i mm w);
     w \<leftarrow> World_stop (mi_slotTimerElement mi) w;
     Some (mm, w) }"

definition MonitorManager_deleteItem ::
  "'e ServerEnv \<Rightarrow> u32 \<Rightarrow> 'e MonitorManager \<Rightarrow> 'e World \<Rightarrow> (bool \<times> 'e MonitorManager \<times> 'e World) option" where
  "MonitorManager_deleteItem env i mm w =
     (case omap_find i (mm_monitorItemMap mm) of
        Some mi \<Rightarrow> do {
          (mm, w) \<leftarrow> MonitorManager_stopMonitorItem env i mi mm w;
          Some (True, mm\<lparr>mm_monitorItemMap := omap_erase i (mm_monitorItemMap mm)\<rparr>, w) }
      | None \<Rightarrow>
          (case omap_find i (mm_eventItemMap mm) of
             None \<Rightarrow> Some (True, mm, w)
           | Some ei \<Rightarrow>
               (let w = MonitorManager_eraseEventItem env ei w;
                    mm = mm\<lparr>mm_eventItemMap := omap_erase i (mm_eventItemMap mm)\<rparr>
                in Some (False, mm, w\<lparr>w_eventHandlerMap := EventItem_clear ei (w_eventHandlerMap w)\<rparr>))))"

fun MonitorManager_deleteLoop ::
  "'e ServerEnv \<Rightarrow> nat \<Rightarrow> u32 list \<Rightarrow> u32 OpcUaArray \<Rightarrow> 'e MonitorManager \<Rightarrow> 'e World
     \<Rightarrow> (u32 OpcUaArray \<times> 'e MonitorManager \<times> 'e World) option" where
  "MonitorManager_deleteLoop env idx [] results mm w = Some (results, mm, w)"
| "MonitorManager_deleteLoop env idx (i # is) results mm w = do {
     (resultSet, mm, w) \<leftarrow> MonitorManager_deleteItem env i mm w;
     let results = (if resultSet then snd (OpcUaArray_set idx status_Success results) else results);
     MonitorManager_deleteLoop env (Suc idx) is results mm w }"

definition MonitorManager_receiveDelete ::
  "'e ServerEnv \<Rightarrow> u32 list \<Rightarrow> 'e MonitorManager \<Rightarrow> 'e World
     \<Rightarrow> (u32 OpcUaArray \<times> 'e MonitorManager \<times> 'e World) option" where
  "MonitorManager_receiveDelete env monitoredItemIds mm w =
     MonitorManager_deleteLoop env 0 monitoredItemIds
       (OpcUaArray_resize 0 (length monitoredItemIds) (OpcUaArray_new 0 1)) mm w"

definition MonitorManager_receiveModify :: "'e MonitorManager \<Rightarrow> u32" where
  "MonitorManager_receiveModify mm = status_BadNotImplemented"

definition MonitorManager_receiveSetMonitoringMode :: "'e MonitorManager \<Rightarrow> u32" where
  "MonitorManager_receiveSetMonitoringMode mm = status_BadNotImplemented"

definition MonitorManager_receiveSetTriggering :: "'e MonitorManager \<Rightarrow> u32" where
  "MonitorManager_receiveSetTriggering mm = status_BadNotImplemented"

text \<open>The destructor: all items are stopped in the order of their identifiers, then the event items.\<close>

fun MonitorManager_stopAll ::
  "'e ServerEnv \<Rightarrow> (u32 \<times> 'e MonitorItem) list \<Rightarrow> 'e MonitorManager \<Rightarrow> 'e World
     \<Rightarrow> ('e MonitorManager \<times> 'e World) option" where
  "MonitorManager_stopAll env [] mm w = Some (mm, w)"
| "MonitorManager_stopAll env ((i, mi) # mis) mm w = do {
     (mm, w) \<leftarrow> MonitorManager_stopMonitorItem env i mi mm w;
     MonitorManager_stopAll env mis mm w }"

definition MonitorManager_destroy :: "'e ServerEnv \<Rightarrow> 'e MonitorManager \<Rightarrow> 'e World \<Rightarrow> 'e World option" where
  "MonitorManager_destroy env mm w = do {
     (mm, w) \<leftarrow> MonitorManager_stopAll env (mm_monitorItemMap mm) mm w;
     let w = fold (\<lambda>e w. if se_eventItemStop env
                 then World_forward (EventItemStop (ei_eventItemId (snd e)) (ei_userContext (snd e))) w else w)
               (mm_eventItemMap mm) w;
     Some (w\<lparr>w_eventHandlerMap := fold (\<lambda>e. EventItem_clear (snd e)) (mm_eventItemMap mm) (w_eventHandlerMap w)\<rparr>) }"

section \<open>Sampling and collecting\<close>

text \<open>
  The callback of a timer element holds the item; the manager samples the item stored under its
  identifier, which is the same object as long as it is in the map.
\<close>

definition MonitorManager_sampleTimeout ::
  "'e ServerEnv \<Rightarrow> u32 \<Rightarrow> 'e MonitorManager \<Rightarrow> 'e World \<Rightarrow> ('e MonitorManager \<times> 'e World) option" where
  "MonitorManager_sampleTimeout env i mm w = do {
     monitorItem \<leftarrow> omap_find i (mm_monitorItemMap mm);
     (sampleResult, monitorItem) \<leftarrow> MonitorItem_sample (se_ops env) (se_reg env) (w_informationModel w) monitorItem;
     let mm = mm\<lparr>mm_monitorItemMap := omap_update i (\<lambda>_. monitorItem) (mm_monitorItemMap mm)\<rparr>;
     (case sampleResult of
        Ok \<Rightarrow> Some (mm, w)
      | NodeNoLongerExist \<Rightarrow> do {
          w \<leftarrow> World_stop (mi_slotTimerElement monitorItem) w;
          Some (mm\<lparr>mm_monitorItemMap := omap_erase i (mm_monitorItemMap mm)\<rparr>, w) }) }"

fun MonitorManager_collectItems ::
  "(u32 \<times> 'e MonitorItem) list \<Rightarrow> 'e MonitoredItemNotification OpcUaArray
     \<Rightarrow> u32 \<times> (u32 \<times> 'e MonitorItem) list \<times> 'e MonitoredItemNotification OpcUaArray" where
  "MonitorManager_collectItems [] a = (status_Success, [], a)"
| "MonitorManager_collectItems ((i, mi) # mis) a =
     (let (statusCode, mi, a) = MonitorItem_receiveArray a mi
      in if statusCode = status_BadOutOfMemory then (statusCode, (i, mi) # mis, a)
         else (let (statusCode, mis, a) = MonitorManager_collectItems mis a in (statusCode, (i, mi) # mis, a)))"

definition MonitorManager_receiveItems ::
  "'e MonitorManager \<Rightarrow> 'e MonitoredItemNotification OpcUaArray
     \<Rightarrow> u32 \<times> 'e MonitorManager \<times> 'e MonitoredItemNotification OpcUaArray" where
  "MonitorManager_receiveItems mm a =
     (let numberNotifications = MonitorManager_noticicationNumber mm
      in if numberNotifications = 0 then (status_Success, mm, a)
         else (let a = OpcUaArray_resize MonitoredItemNotification_new (unat numberNotifications) a;
                   (statusCode, items, a) = MonitorManager_collectItems (mm_monitorItemMap mm) a
               in (statusCode, mm\<lparr>mm_monitorItemMap := items\<rparr>, a)))"

fun MonitorManager_collectEvents ::
  "(u32 \<times> 'e EventItem) list \<Rightarrow> 'e EventFieldList OpcUaArray
     \<Rightarrow> u32 \<times> (u32 \<times> 'e EventItem) list \<times> 'e EventFieldList OpcUaArray" where
  "MonitorManager_collectEvents [] a = (status_Success, [], a)"
| "MonitorManager_collectEvents ((i, ei) # eis) a =
     (let (statusCode, ei, a) = EventItem_receiveArray a ei
      in if statusCode = status_BadOutOfMemory then (statusCode, (i, ei) # eis, a)
         else (let (statusCode, eis, a) = MonitorManager_collectEvents eis a in (statusCode, (i, ei) # eis, a)))"

definition MonitorManager_receiveEvents ::
  "'e MonitorManager \<Rightarrow> 'e EventFieldList OpcUaArray \<Rightarrow> u32 \<times> 'e MonitorManager \<times> 'e EventFieldList OpcUaArray" where
  "MonitorManager_receiveEvents mm a =
     (let numberNotifications = fold (\<lambda>e n. n + word_of_nat (length (ei_list (snd e)))) (mm_eventItemMap mm) (0 :: u32)
      in if numberNotifications = 0 then (status_Success, mm, a)
         else (let a = OpcUaArray_resize \<lparr>efl_clientHandle = 0, efl_eventFields = OpcUaArray_new None 1\<rparr>
                         (unat numberNotifications) a;
                   (statusCode, items, a) = MonitorManager_collectEvents (mm_eventItemMap mm) a
               in (statusCode, mm\<lparr>mm_eventItemMap := items\<rparr>, a)))"

end
