(* ===== verification/ChannelMessages.thy ===== *)
theory ChannelMessages
  imports StandardTypes ArrayContainer
begin

text \<open>
  The messages of the connection and of the secure channel (\<^verbatim>\<open>OpcUaStackCore/SecureChannel\<close>):
  the headers of a message, the handshake of the connection and the opening of a channel, with their
  binary coders.  Members that are shared pointers to objects made by the constructor are the objects, and
  an array is the list of its elements: \<open>array_opcUaBinaryEncode\<close> and \<open>array_opcUaBinaryDecode\<close> relate
  the list coders to those of \<^verbatim>\<open>OpcUaArray\<close>.  A decoder fills an object that was just constructed.
\<close>

section \<open>Arrays as lists\<close>

definition array_encode :: "('a \<Rightarrow> stream) \<Rightarrow> 'a list \<Rightarrow> stream" where
  "array_encode enc xs = OpcUaUInt32_encode (word_of_nat (length xs)) @ concat (map enc xs)"

fun array_decode_loop :: "'a decoder \<Rightarrow> nat \<Rightarrow> 'a list decoder" where
  "array_decode_loop dec 0 is = Some ([], is)"
| "array_decode_loop dec (Suc n) is = do {
     (x, is) \<leftarrow> dec is;
     (xs, is) \<leftarrow> array_decode_loop dec n is;
     Some (x # xs, is) }"

definition array_decode :: "'a decoder \<Rightarrow> 'a list decoder" where
  "array_decode dec is = do {
     (arrayLength, is) \<leftarrow> OpcUaInt32_decode is;
     (if sint arrayLength \<le> 0 then Some ([], is)
      else array_decode_loop dec (nat (sint arrayLength)) is) }"

definition array_wf :: "('a \<Rightarrow> bool) \<Rightarrow> 'a list \<Rightarrow> bool" where
  "array_wf P xs \<longleftrightarrow> length xs < 2 ^ 31 \<and> list_all P xs"

text \<open>The list coders are the coders of the container, seen through its abstraction.\<close>

lemma array_opcUaBinaryEncode:
  "OpcUaArray_inv a \<Longrightarrow> OpcUaArray_opcUaBinaryEncode enc a = array_encode enc (OpcUaArray_list a)"
  by (simp add: OpcUaArray_opcUaBinaryEncode_def array_encode_def length_list)
     (simp add: OpcUaArray_list_def)

lemma array_loop_opcUaBinaryDecode:
  assumes "OpcUaArray_inv a" "n \<le> OpcUaArray_freeSize a"
  shows "map_option (\<lambda>(b, is). (OpcUaArray_list b, is)) (OpcUaArray_decode_loop dec n a is)
       = map_option (\<lambda>(xs, is). (OpcUaArray_list a @ xs, is)) (array_decode_loop dec n is)"
  using assms
proof (induction n arbitrary: a "is")
  case (Suc n)
  show ?case
  proof (cases "dec is")
    case (Some r)
    let ?a = "snd (OpcUaArray_push_back (fst r) a)"
    from Suc.prems have "OpcUaArray_inv ?a" "n \<le> OpcUaArray_freeSize ?a"
      "OpcUaArray_list ?a = OpcUaArray_list a @ [fst r]"
      using push_back_ok [of a "fst r"] by (auto simp: inv_push_back)
    with Suc.IH [of ?a "snd r"] Some show ?thesis
      by (cases r; cases "array_decode_loop dec n (snd r)") auto
  qed simp
qed simp

lemma array_opcUaBinaryDecode:
  "map_option (\<lambda>(b, is). (OpcUaArray_list b, is))
       (OpcUaArray_opcUaBinaryDecode dec dflt (OpcUaArray_new dflt m) is)
     = array_decode dec is"
  by (cases "OpcUaInt32_decode is")
     (auto simp: OpcUaArray_opcUaBinaryDecode_def array_decode_def array_loop_opcUaBinaryDecode
        option.map_id)

context codec
begin

lemma array_loop_rt:
  "list_all wf xs \<Longrightarrow> array_decode_loop dec (length xs) (concat (map enc xs) @ rest) = Some (xs, rest)"
  by (induction xs) (auto simp: dec_enc)

lemma array_rt:
  assumes "array_wf wf xs"
  shows "array_decode dec (array_encode enc xs @ rest) = Some (xs, rest)"
proof -
  have "sint (word_of_nat (length xs) :: u32) = int (length xs)"
    by (rule sint_word_of_nat_u32) (use assms in \<open>simp add: array_wf_def\<close>)
  moreover have "array_decode_loop dec (length xs) (concat (map enc xs) @ rest) = Some (xs, rest)"
    by (rule array_loop_rt) (use assms in \<open>simp add: array_wf_def\<close>)
  ultimately show ?thesis
    by (auto simp add: array_encode_def array_decode_def uint32_as_int32 number_rt)
qed

end

declare uint32_codec.array_rt [codec_rt] int32_codec.array_rt [codec_rt] string_codec.array_rt [codec_rt]
  bytestring_codec.array_rt [codec_rt] nodeid_codec.array_rt [codec_rt] datetime_codec.array_rt [codec_rt]
  localizedtext_codec.array_rt [codec_rt] qualifiedname_codec.array_rt [codec_rt]
  diagnosticinfo_codec.array_rt [codec_rt]

section \<open>Headers\<close>

text \<open>The type of a message is three letters on the wire; what else is read is an unknown message.\<close>

datatype MessageType =
    MessageType_Unknown
  | MessageType_Hello
  | MessageType_Acknowledge
  | MessageType_OpenSecureChannel
  | MessageType_CloseSecureChannel
  | MessageType_Error
  | MessageType_Message

record MessageHeader =
  mh_messageType :: MessageType
  mh_segmentFlag :: u8
  mh_messageSize :: u32
  mh_channelId :: u32

definition MessageHeader_new :: MessageHeader where
  "MessageHeader_new = \<lparr>mh_messageType = MessageType_Unknown, mh_segmentFlag = 0x46,
     mh_messageSize = 0, mh_channelId = 0\<rparr>"

fun MessageHeader_letters :: "MessageType \<Rightarrow> stream" where
  "MessageHeader_letters MessageType_Hello = [0x48, 0x45, 0x4C]"
| "MessageHeader_letters MessageType_Acknowledge = [0x41, 0x43, 0x4B]"
| "MessageHeader_letters MessageType_Error = [0x45, 0x52, 0x52]"
| "MessageHeader_letters MessageType_OpenSecureChannel = [0x4F, 0x50, 0x4E]"
| "MessageHeader_letters MessageType_CloseSecureChannel = [0x43, 0x4C, 0x4F]"
| "MessageHeader_letters MessageType_Message = [0x4D, 0x53, 0x47]"
| "MessageHeader_letters MessageType_Unknown = [0x58, 0x58, 0x58]"

definition MessageHeader_messageType :: "stream \<Rightarrow> MessageType" where
  "MessageHeader_messageType s =
     (if s = [0x48, 0x45, 0x4C] then MessageType_Hello
      else if s = [0x41, 0x43, 0x4B] then MessageType_Acknowledge
      else if s = [0x45, 0x52, 0x52] then MessageType_Error
      else if s = [0x4F, 0x50, 0x4E] then MessageType_OpenSecureChannel
      else if s = [0x43, 0x4C, 0x4F] then MessageType_CloseSecureChannel
      else if s = [0x4D, 0x53, 0x47] then MessageType_Message
      else MessageType_Unknown)"

definition MessageHeader_opcUaBinaryEncode :: "bool \<Rightarrow> MessageHeader \<Rightarrow> stream" where
  "MessageHeader_opcUaBinaryEncode full this =
     MessageHeader_letters (mh_messageType this)
     @ [mh_segmentFlag this]
     @ OpcUaUInt32_encode (mh_messageSize this)
     @ (if full then OpcUaUInt32_encode (mh_channelId this) else [])"

definition MessageHeader_opcUaBinaryDecode :: "bool \<Rightarrow> MessageHeader decoder" where
  "MessageHeader_opcUaBinaryDecode full is = do {
     (letters, is) \<leftarrow> stream_read 3 is;
     (flag, is) \<leftarrow> stream_read 1 is;
     (size, is) \<leftarrow> OpcUaUInt32_decode is;
     (channel, is) \<leftarrow> (if full then OpcUaUInt32_decode is else Some (mh_channelId MessageHeader_new, is));
     Some (\<lparr>mh_messageType = MessageHeader_messageType letters, mh_segmentFlag = hd flag,
            mh_messageSize = size, mh_channelId = channel\<rparr>, is) }"

lemma messageType_letters [simp]: "MessageHeader_messageType (MessageHeader_letters t) = t"
  by (cases t) (simp_all add: MessageHeader_messageType_def)

lemma length_letters [simp]: "length (MessageHeader_letters t) = 3"
  by (cases t) simp_all

lemma read_letters [simp]:
  "stream_read 3 (MessageHeader_letters t @ rest) = Some (MessageHeader_letters t, rest)"
  by (simp add: stream_read_def)

lemma messageHeader_length:
  "length (MessageHeader_opcUaBinaryEncode full h) = (if full then 12 else 8)"
  by (simp add: MessageHeader_opcUaBinaryEncode_def uint32_codec.enc_width)

interpretation messageheader_codec: codec "MessageHeader_opcUaBinaryEncode True"
  "MessageHeader_opcUaBinaryDecode True" "\<lambda>_. True"
  by unfold_locales
     (simp add: MessageHeader_opcUaBinaryEncode_def MessageHeader_opcUaBinaryDecode_def codec_rt
        stream_read_1_conv)

interpretation shortheader_codec: codec "MessageHeader_opcUaBinaryEncode False"
  "MessageHeader_opcUaBinaryDecode False" "\<lambda>h. mh_channelId h = 0"
  by unfold_locales
     (simp add: MessageHeader_opcUaBinaryEncode_def MessageHeader_opcUaBinaryDecode_def codec_rt
        stream_read_1_conv MessageHeader_new_def)

text \<open>
  The security header of an asymmetric message.  The chain of certificates is read from the sender's
  certificate by OpenSSL: \<open>parse\<close> tells whether that worked.
\<close>

record SecurityHeader =
  SecurityHeader_securityPolicyUri :: OpcUaByteString
  SecurityHeader_senderCertificate :: OpcUaByteString
  SecurityHeader_receiverCertificateThumbprint :: OpcUaByteString

definition SecurityHeader_isEncryptionEnabled :: "SecurityHeader \<Rightarrow> bool" where
  "SecurityHeader_isEncryptionEnabled this = OpcUaByteString_exist (SecurityHeader_senderCertificate this)"

definition SecurityHeader_isSignatureEnabled :: "SecurityHeader \<Rightarrow> bool" where
  "SecurityHeader_isSignatureEnabled this =
     OpcUaByteString_exist (SecurityHeader_receiverCertificateThumbprint this)"

definition SecurityHeader_opcUaBinaryEncode :: "SecurityHeader \<Rightarrow> stream" where
  "SecurityHeader_opcUaBinaryEncode this =
     OpcUaByteString_opcUaBinaryEncode (SecurityHeader_securityPolicyUri this)
     @ OpcUaByteString_opcUaBinaryEncode (SecurityHeader_senderCertificate this)
     @ OpcUaByteString_opcUaBinaryEncode (SecurityHeader_receiverCertificateThumbprint this)"

definition SecurityHeader_opcUaBinaryDecode ::
  "(OpcUaByteString \<Rightarrow> bool) \<Rightarrow> (bool \<times> SecurityHeader) decoder" where
  "SecurityHeader_opcUaBinaryDecode parse is = do {
     (uri, is) \<leftarrow> OpcUaByteString_opcUaBinaryDecode is;
     (cert, is) \<leftarrow> OpcUaByteString_opcUaBinaryDecode is;
     (thumb, is) \<leftarrow> OpcUaByteString_opcUaBinaryDecode is;
     Some ((if OpcUaByteString_exist cert then parse cert else True,
            \<lparr>SecurityHeader_securityPolicyUri = uri, SecurityHeader_senderCertificate = cert,
             SecurityHeader_receiverCertificateThumbprint = thumb\<rparr>), is) }"

definition SecurityHeader_wf :: "SecurityHeader \<Rightarrow> bool" where
  "SecurityHeader_wf h \<longleftrightarrow> OpcUaByteString_wf (SecurityHeader_securityPolicyUri h)
     \<and> OpcUaByteString_wf (SecurityHeader_senderCertificate h)
     \<and> OpcUaByteString_wf (SecurityHeader_receiverCertificateThumbprint h)"

lemma securityHeader_rt [codec_rt]:
  "SecurityHeader_wf h \<Longrightarrow>
     SecurityHeader_opcUaBinaryDecode parse (SecurityHeader_opcUaBinaryEncode h @ rest)
       = Some ((OpcUaByteString_exist (SecurityHeader_senderCertificate h)
                  \<longrightarrow> parse (SecurityHeader_senderCertificate h), h), rest)"
  by (simp add: SecurityHeader_opcUaBinaryEncode_def SecurityHeader_opcUaBinaryDecode_def
      SecurityHeader_wf_def codec_rt)

text \<open>
  The headers of a service message.  The constructors read the clock.  The additional header is written
  as the three bytes of an absent one, and read as three bytes of any content.
\<close>

record RequestHeader =
  rqh_sessionAuthenticationToken :: OpcUaNodeIdBase
  rqh_time :: OpcUaDateTime
  rqh_requestHandle :: u32
  rqh_returnDisagnostics :: u32
  rqh_auditEntryId :: OpcUaString
  rqh_timeoutHint :: u32

definition RequestHeader_new :: "OpcUaDateTime \<Rightarrow> RequestHeader" where
  "RequestHeader_new now =
     \<lparr>rqh_sessionAuthenticationToken = \<lparr>namespaceIndex = 0, nodeIdValue = NodeIdNumeric 0\<rparr>,
      rqh_time = now, rqh_requestHandle = 0, rqh_returnDisagnostics = 0,
      rqh_auditEntryId = OpcUaString_new, rqh_timeoutHint = 0\<rparr>"

definition RequestHeader_opcUaBinaryEncode :: "RequestHeader \<Rightarrow> stream" where
  "RequestHeader_opcUaBinaryEncode this =
     OpcUaNodeId_opcUaBinaryEncode (rqh_sessionAuthenticationToken this)
     @ OpcUaDateTime_opcUaBinaryEncode (rqh_time this)
     @ OpcUaUInt32_encode (rqh_requestHandle this)
     @ OpcUaUInt32_encode (rqh_returnDisagnostics this)
     @ OpcUaString_opcUaBinaryEncode (rqh_auditEntryId this)
     @ OpcUaUInt32_encode (rqh_timeoutHint this)
     @ OpcUaByte_encode 0x00
     @ OpcUaByte_encode 0x00
     @ OpcUaByte_encode 0x00"

definition RequestHeader_opcUaBinaryDecode :: "RequestHeader decoder" where
  "RequestHeader_opcUaBinaryDecode is = do {
     (t, is) \<leftarrow> OpcUaNodeId_opcUaBinaryDecode is;
     (d, is) \<leftarrow> OpcUaDateTime_opcUaBinaryDecode is;
     (h, is) \<leftarrow> OpcUaUInt32_decode is;
     (r, is) \<leftarrow> OpcUaUInt32_decode is;
     (a, is) \<leftarrow> OpcUaString_opcUaBinaryDecode is;
     (m, is) \<leftarrow> OpcUaUInt32_decode is;
     (tmp, is) \<leftarrow> OpcUaByte_decode is;
     (tmp, is) \<leftarrow> OpcUaByte_decode is;
     (tmp, is) \<leftarrow> OpcUaByte_decode is;
     Some (\<lparr>rqh_sessionAuthenticationToken = t, rqh_time = d, rqh_requestHandle = h,
            rqh_returnDisagnostics = r, rqh_auditEntryId = a, rqh_timeoutHint = m\<rparr>, is) }"

definition RequestHeader_wf :: "RequestHeader \<Rightarrow> bool" where
  "RequestHeader_wf h \<longleftrightarrow>
     OpcUaNodeId_wf (rqh_sessionAuthenticationToken h) \<and> OpcUaString_wf (rqh_auditEntryId h)"

interpretation requestheader_codec: codec RequestHeader_opcUaBinaryEncode RequestHeader_opcUaBinaryDecode
  RequestHeader_wf
  by unfold_locales
     (simp add: RequestHeader_opcUaBinaryEncode_def RequestHeader_opcUaBinaryDecode_def
        RequestHeader_wf_def codec_rt)

declare requestheader_codec.dec_enc [codec_rt]

record ResponseHeader =
  rsh_time :: OpcUaDateTime
  rsh_requestHandle :: u32
  rsh_serviceResult :: u32
  rsh_diagnosticInfo :: OpcUaDiagnosticInfo
  rsh_stringTable :: "OpcUaString list"

definition ResponseHeader_new :: "OpcUaDateTime \<Rightarrow> ResponseHeader" where
  "ResponseHeader_new now = \<lparr>rsh_time = now, rsh_requestHandle = 0, rsh_serviceResult = 0,
     rsh_diagnosticInfo = OpcUaDiagnosticInfo_new, rsh_stringTable = []\<rparr>"

definition ResponseHeader_opcUaBinaryEncode :: "ResponseHeader \<Rightarrow> stream" where
  "ResponseHeader_opcUaBinaryEncode this =
     OpcUaDateTime_opcUaBinaryEncode (rsh_time this)
     @ OpcUaUInt32_encode (rsh_requestHandle this)
     @ OpcUaUInt32_encode (rsh_serviceResult this)
     @ OpcUaDiagnosticInfo_opcUaBinaryEncode (rsh_diagnosticInfo this)
     @ array_encode OpcUaString_opcUaBinaryEncode (rsh_stringTable this)
     @ OpcUaByte_encode 0x00
     @ OpcUaByte_encode 0x00
     @ OpcUaByte_encode 0x00"

definition ResponseHeader_opcUaBinaryDecode :: "ResponseHeader decoder" where
  "ResponseHeader_opcUaBinaryDecode is = do {
     (d, is) \<leftarrow> OpcUaDateTime_opcUaBinaryDecode is;
     (h, is) \<leftarrow> OpcUaUInt32_decode is;
     (r, is) \<leftarrow> OpcUaInt32_decode is;
     (i, is) \<leftarrow> OpcUaDiagnosticInfo_opcUaBinaryDecode OpcUaDiagnosticInfo_new is;
     (s, is) \<leftarrow> array_decode OpcUaString_opcUaBinaryDecode is;
     (tmp, is) \<leftarrow> OpcUaByte_decode is;
     (tmp, is) \<leftarrow> OpcUaByte_decode is;
     (tmp, is) \<leftarrow> OpcUaByte_decode is;
     Some (\<lparr>rsh_time = d, rsh_requestHandle = h, rsh_serviceResult = r, rsh_diagnosticInfo = i,
            rsh_stringTable = s\<rparr>, is) }"

definition ResponseHeader_wf :: "ResponseHeader \<Rightarrow> bool" where
  "ResponseHeader_wf h \<longleftrightarrow> OpcUaString_wf (di_additionalInfo (rsh_diagnosticInfo h))
     \<and> array_wf OpcUaString_wf (rsh_stringTable h)"

interpretation responseheader_codec: codec ResponseHeader_opcUaBinaryEncode
  ResponseHeader_opcUaBinaryDecode ResponseHeader_wf
  by unfold_locales
     (simp add: ResponseHeader_opcUaBinaryEncode_def ResponseHeader_opcUaBinaryDecode_def
        ResponseHeader_wf_def codec_rt uint32_as_int32)

declare responseheader_codec.dec_enc [codec_rt]

definition MessageDefaults_protocolVersionDefault :: u32 where
  "MessageDefaults_protocolVersionDefault = 0"

definition MessageDefaults_receivedBufferSizeDefault :: u32 where
  "MessageDefaults_receivedBufferSizeDefault = 65536"

definition MessageDefaults_sendBufferSizeDefault :: u32 where
  "MessageDefaults_sendBufferSizeDefault = 65536"

definition MessageDefaults_maxMessageSizeDefault :: u32 where
  "MessageDefaults_maxMessageSizeDefault = 16777216"

definition MessageDefaults_maxChunkCountDefault :: u32 where
  "MessageDefaults_maxChunkCountDefault = 5000"

record SequenceHeader =
  SequenceHeader_sequenceNumber :: u32
  SequenceHeader_requestId :: u32

definition SequenceHeader_new :: SequenceHeader where
  "SequenceHeader_new =
     \<lparr>SequenceHeader_sequenceNumber = 0, SequenceHeader_requestId = 0\<rparr>"

definition SequenceHeader_opcUaBinaryEncode :: "SequenceHeader \<Rightarrow> stream" where
  "SequenceHeader_opcUaBinaryEncode this =
     OpcUaUInt32_encode (SequenceHeader_sequenceNumber this)
     @ OpcUaUInt32_encode (SequenceHeader_requestId this)"

definition SequenceHeader_opcUaBinaryDecode :: "SequenceHeader decoder" where
  "SequenceHeader_opcUaBinaryDecode is = do {
     (x1, is) \<leftarrow> OpcUaUInt32_decode is;
     (x2, is) \<leftarrow> OpcUaUInt32_decode is;
     Some (\<lparr>SequenceHeader_sequenceNumber = x1, SequenceHeader_requestId = x2\<rparr>, is) }"

interpretation sequenceheader_codec: codec SequenceHeader_opcUaBinaryEncode
  SequenceHeader_opcUaBinaryDecode "\<lambda>_. True"
  by unfold_locales
     (simp add: SequenceHeader_opcUaBinaryEncode_def SequenceHeader_opcUaBinaryDecode_def codec_rt)

declare sequenceheader_codec.dec_enc [OF TrueI, codec_rt]

section \<open>Connection\<close>

record HelloMessage =
  HelloMessage_protocolVersion :: u32
  HelloMessage_receivedBufferSize :: u32
  HelloMessage_sendBufferSize :: u32
  HelloMessage_maxMessageSize :: u32
  HelloMessage_maxChunkCount :: u32
  HelloMessage_endpointUrl :: OpcUaString

definition HelloMessage_new :: HelloMessage where
  "HelloMessage_new =
     \<lparr>HelloMessage_protocolVersion = MessageDefaults_protocolVersionDefault,
       HelloMessage_receivedBufferSize = MessageDefaults_receivedBufferSizeDefault,
       HelloMessage_sendBufferSize = MessageDefaults_sendBufferSizeDefault,
       HelloMessage_maxMessageSize = MessageDefaults_maxMessageSizeDefault,
       HelloMessage_maxChunkCount = MessageDefaults_maxChunkCountDefault,
       HelloMessage_endpointUrl = OpcUaString_of ''opc.tcp://127.0.0.1:4841''\<rparr>"

definition HelloMessage_opcUaBinaryEncode :: "HelloMessage \<Rightarrow> stream" where
  "HelloMessage_opcUaBinaryEncode this =
     OpcUaUInt32_encode (HelloMessage_protocolVersion this)
     @ OpcUaUInt32_encode (HelloMessage_receivedBufferSize this)
     @ OpcUaUInt32_encode (HelloMessage_sendBufferSize this)
     @ OpcUaUInt32_encode (HelloMessage_maxMessageSize this)
     @ OpcUaUInt32_encode (HelloMessage_maxChunkCount this)
     @ OpcUaString_opcUaBinaryEncode (HelloMessage_endpointUrl this)"

definition HelloMessage_opcUaBinaryDecode :: "HelloMessage decoder" where
  "HelloMessage_opcUaBinaryDecode is = do {
     (x1, is) \<leftarrow> OpcUaUInt32_decode is;
     (x2, is) \<leftarrow> OpcUaUInt32_decode is;
     (x3, is) \<leftarrow> OpcUaUInt32_decode is;
     (x4, is) \<leftarrow> OpcUaUInt32_decode is;
     (x5, is) \<leftarrow> OpcUaUInt32_decode is;
     (x6, is) \<leftarrow> OpcUaString_opcUaBinaryDecode is;
     Some (\<lparr>HelloMessage_protocolVersion = x1, HelloMessage_receivedBufferSize = x2,
            HelloMessage_sendBufferSize = x3, HelloMessage_maxMessageSize = x4,
            HelloMessage_maxChunkCount = x5, HelloMessage_endpointUrl = x6\<rparr>, is) }"

definition HelloMessage_wf :: "HelloMessage \<Rightarrow> bool" where
  "HelloMessage_wf m \<longleftrightarrow>
     OpcUaString_wf (HelloMessage_endpointUrl m)"

interpretation hellomessage_codec: codec HelloMessage_opcUaBinaryEncode
  HelloMessage_opcUaBinaryDecode HelloMessage_wf
  by unfold_locales
     (simp add: HelloMessage_opcUaBinaryEncode_def HelloMessage_opcUaBinaryDecode_def
        HelloMessage_wf_def codec_rt)

declare hellomessage_codec.dec_enc [codec_rt]

record AcknowledgeMessage =
  AcknowledgeMessage_protocolVersion :: u32
  AcknowledgeMessage_receivedBufferSize :: u32
  AcknowledgeMessage_sendBufferSize :: u32
  AcknowledgeMessage_maxMessageSize :: u32
  AcknowledgeMessage_maxChunkCount :: u32

definition AcknowledgeMessage_new :: AcknowledgeMessage where
  "AcknowledgeMessage_new =
     \<lparr>AcknowledgeMessage_protocolVersion = MessageDefaults_protocolVersionDefault,
       AcknowledgeMessage_receivedBufferSize = MessageDefaults_receivedBufferSizeDefault,
       AcknowledgeMessage_sendBufferSize = MessageDefaults_sendBufferSizeDefault,
       AcknowledgeMessage_maxMessageSize = MessageDefaults_maxMessageSizeDefault,
       AcknowledgeMessage_maxChunkCount = MessageDefaults_maxChunkCountDefault\<rparr>"

definition AcknowledgeMessage_opcUaBinaryEncode :: "AcknowledgeMessage \<Rightarrow> stream" where
  "AcknowledgeMessage_opcUaBinaryEncode this =
     OpcUaUInt32_encode (AcknowledgeMessage_protocolVersion this)
     @ OpcUaUInt32_encode (AcknowledgeMessage_receivedBufferSize this)
     @ OpcUaUInt32_encode (AcknowledgeMessage_sendBufferSize this)
     @ OpcUaUInt32_encode (AcknowledgeMessage_maxMessageSize this)
     @ OpcUaUInt32_encode (AcknowledgeMessage_maxChunkCount this)"

definition AcknowledgeMessage_opcUaBinaryDecode :: "AcknowledgeMessage decoder" where
  "AcknowledgeMessage_opcUaBinaryDecode is = do {
     (x1, is) \<leftarrow> OpcUaUInt32_decode is;
     (x2, is) \<leftarrow> OpcUaUInt32_decode is;
     (x3, is) \<leftarrow> OpcUaUInt32_decode is;
     (x4, is) \<leftarrow> OpcUaUInt32_decode is;
     (x5, is) \<leftarrow> OpcUaUInt32_decode is;
     Some (\<lparr>AcknowledgeMessage_protocolVersion = x1, AcknowledgeMessage_receivedBufferSize = x2,
            AcknowledgeMessage_sendBufferSize = x3, AcknowledgeMessage_maxMessageSize = x4,
            AcknowledgeMessage_maxChunkCount = x5\<rparr>, is) }"

interpretation acknowledgemessage_codec: codec AcknowledgeMessage_opcUaBinaryEncode
  AcknowledgeMessage_opcUaBinaryDecode "\<lambda>_. True"
  by unfold_locales
     (simp add: AcknowledgeMessage_opcUaBinaryEncode_def AcknowledgeMessage_opcUaBinaryDecode_def
        codec_rt)

declare acknowledgemessage_codec.dec_enc [OF TrueI, codec_rt]

record ErrorMessage =
  ErrorMessage_error :: u32
  ErrorMessage_reason :: OpcUaString

definition ErrorMessage_new :: ErrorMessage where
  "ErrorMessage_new =
     \<lparr>ErrorMessage_error = 0, ErrorMessage_reason = OpcUaString_new\<rparr>"

definition ErrorMessage_opcUaBinaryEncode :: "ErrorMessage \<Rightarrow> stream" where
  "ErrorMessage_opcUaBinaryEncode this =
     OpcUaUInt32_encode (ErrorMessage_error this)
     @ OpcUaString_opcUaBinaryEncode (ErrorMessage_reason this)"

definition ErrorMessage_opcUaBinaryDecode :: "ErrorMessage decoder" where
  "ErrorMessage_opcUaBinaryDecode is = do {
     (x1, is) \<leftarrow> OpcUaUInt32_decode is;
     (x2, is) \<leftarrow> OpcUaString_opcUaBinaryDecode is;
     Some (\<lparr>ErrorMessage_error = x1, ErrorMessage_reason = x2\<rparr>, is) }"

definition ErrorMessage_wf :: "ErrorMessage \<Rightarrow> bool" where
  "ErrorMessage_wf m \<longleftrightarrow>
     OpcUaString_wf (ErrorMessage_reason m)"

interpretation errormessage_codec: codec ErrorMessage_opcUaBinaryEncode
  ErrorMessage_opcUaBinaryDecode ErrorMessage_wf
  by unfold_locales
     (simp add: ErrorMessage_opcUaBinaryEncode_def ErrorMessage_opcUaBinaryDecode_def
        ErrorMessage_wf_def codec_rt)

declare errormessage_codec.dec_enc [codec_rt]

section \<open>Secure channel\<close>

record SecurityToken =
  SecurityToken_channelId :: u32
  SecurityToken_tokenId :: u32
  SecurityToken_createAt :: OpcUaDateTime
  SecurityToken_revisedLifetime :: u32

definition SecurityToken_new :: "OpcUaDateTime \<Rightarrow> SecurityToken" where
  "SecurityToken_new now =
     \<lparr>SecurityToken_channelId = 0, SecurityToken_tokenId = 0,
       SecurityToken_createAt = now, SecurityToken_revisedLifetime = 0\<rparr>"

definition SecurityToken_opcUaBinaryEncode :: "SecurityToken \<Rightarrow> stream" where
  "SecurityToken_opcUaBinaryEncode this =
     OpcUaUInt32_encode (SecurityToken_channelId this)
     @ OpcUaUInt32_encode (SecurityToken_tokenId this)
     @ OpcUaDateTime_opcUaBinaryEncode (SecurityToken_createAt this)
     @ OpcUaInt32_encode (SecurityToken_revisedLifetime this)"

definition SecurityToken_opcUaBinaryDecode :: "SecurityToken decoder" where
  "SecurityToken_opcUaBinaryDecode is = do {
     (x1, is) \<leftarrow> OpcUaUInt32_decode is;
     (x2, is) \<leftarrow> OpcUaUInt32_decode is;
     (x3, is) \<leftarrow> OpcUaDateTime_opcUaBinaryDecode is;
     (x4, is) \<leftarrow> OpcUaInt32_decode is;
     Some (\<lparr>SecurityToken_channelId = x1, SecurityToken_tokenId = x2,
            SecurityToken_createAt = x3, SecurityToken_revisedLifetime = x4\<rparr>, is) }"

interpretation securitytoken_codec: codec SecurityToken_opcUaBinaryEncode
  SecurityToken_opcUaBinaryDecode "\<lambda>_. True"
  by unfold_locales
     (simp add: SecurityToken_opcUaBinaryEncode_def SecurityToken_opcUaBinaryDecode_def codec_rt)

declare securitytoken_codec.dec_enc [OF TrueI, codec_rt]

record OpenSecureChannelRequest =
  OpenSecureChannelRequest_requestHeader :: RequestHeader
  OpenSecureChannelRequest_clientProtocolVersion :: u32
  OpenSecureChannelRequest_requestType :: u32
  OpenSecureChannelRequest_securityMode :: u32
  OpenSecureChannelRequest_clientNonce :: OpcUaByteString
  OpenSecureChannelRequest_requestedLifetime :: u32

definition OpenSecureChannelRequest_new :: "OpcUaDateTime \<Rightarrow> OpenSecureChannelRequest" where
  "OpenSecureChannelRequest_new now =
     \<lparr>OpenSecureChannelRequest_requestHeader = RequestHeader_new now,
       OpenSecureChannelRequest_clientProtocolVersion = 0,
       OpenSecureChannelRequest_requestType = 0, OpenSecureChannelRequest_securityMode = 0,
       OpenSecureChannelRequest_clientNonce = OpcUaByteString_new,
       OpenSecureChannelRequest_requestedLifetime = 0\<rparr>"

definition OpenSecureChannelRequest_opcUaBinaryEncode :: "OpenSecureChannelRequest \<Rightarrow> stream" where
  "OpenSecureChannelRequest_opcUaBinaryEncode this =
     RequestHeader_opcUaBinaryEncode (OpenSecureChannelRequest_requestHeader this)
     @ OpcUaInt32_encode (OpenSecureChannelRequest_clientProtocolVersion this)
     @ OpcUaUInt32_encode (OpenSecureChannelRequest_requestType this)
     @ OpcUaUInt32_encode (OpenSecureChannelRequest_securityMode this)
     @ OpcUaByteString_opcUaBinaryEncode (OpenSecureChannelRequest_clientNonce this)
     @ OpcUaInt32_encode (OpenSecureChannelRequest_requestedLifetime this)"

definition OpenSecureChannelRequest_opcUaBinaryDecode :: "OpenSecureChannelRequest decoder" where
  "OpenSecureChannelRequest_opcUaBinaryDecode is = do {
     (x1, is) \<leftarrow> RequestHeader_opcUaBinaryDecode is;
     (x2, is) \<leftarrow> OpcUaInt32_decode is;
     (x3, is) \<leftarrow> OpcUaUInt32_decode is;
     (x4, is) \<leftarrow> OpcUaUInt32_decode is;
     (x5, is) \<leftarrow> OpcUaByteString_opcUaBinaryDecode is;
     (x6, is) \<leftarrow> OpcUaInt32_decode is;
     Some (\<lparr>OpenSecureChannelRequest_requestHeader = x1,
            OpenSecureChannelRequest_clientProtocolVersion = x2,
            OpenSecureChannelRequest_requestType = x3,
            OpenSecureChannelRequest_securityMode = x4,
            OpenSecureChannelRequest_clientNonce = x5,
            OpenSecureChannelRequest_requestedLifetime = x6\<rparr>, is) }"

definition OpenSecureChannelRequest_wf :: "OpenSecureChannelRequest \<Rightarrow> bool" where
  "OpenSecureChannelRequest_wf m \<longleftrightarrow>
     RequestHeader_wf (OpenSecureChannelRequest_requestHeader m)
     \<and> OpcUaByteString_wf (OpenSecureChannelRequest_clientNonce m)"

interpretation opensecurechannelrequest_codec: codec OpenSecureChannelRequest_opcUaBinaryEncode
  OpenSecureChannelRequest_opcUaBinaryDecode OpenSecureChannelRequest_wf
  by unfold_locales
     (simp add: OpenSecureChannelRequest_opcUaBinaryEncode_def
        OpenSecureChannelRequest_opcUaBinaryDecode_def OpenSecureChannelRequest_wf_def codec_rt)

declare opensecurechannelrequest_codec.dec_enc [codec_rt]

record OpenSecureChannelResponse =
  OpenSecureChannelResponse_responseHeader :: ResponseHeader
  OpenSecureChannelResponse_serverProtocolVersion :: u32
  OpenSecureChannelResponse_securityToken :: SecurityToken
  OpenSecureChannelResponse_serverNonce :: OpcUaByteString

definition OpenSecureChannelResponse_new :: "OpcUaDateTime \<Rightarrow> OpenSecureChannelResponse" where
  "OpenSecureChannelResponse_new now =
     \<lparr>OpenSecureChannelResponse_responseHeader = ResponseHeader_new now,
       OpenSecureChannelResponse_serverProtocolVersion = 0,
       OpenSecureChannelResponse_securityToken = SecurityToken_new now,
       OpenSecureChannelResponse_serverNonce = OpcUaByteString_new\<rparr>"

definition OpenSecureChannelResponse_opcUaBinaryEncode :: "OpenSecureChannelResponse \<Rightarrow> stream" where
  "OpenSecureChannelResponse_opcUaBinaryEncode this =
     ResponseHeader_opcUaBinaryEncode (OpenSecureChannelResponse_responseHeader this)
     @ OpcUaUInt32_encode (OpenSecureChannelResponse_serverProtocolVersion this)
     @ SecurityToken_opcUaBinaryEncode (OpenSecureChannelResponse_securityToken this)
     @ OpcUaByteString_opcUaBinaryEncode (OpenSecureChannelResponse_serverNonce this)"

definition OpenSecureChannelResponse_opcUaBinaryDecode :: "OpenSecureChannelResponse decoder" where
  "OpenSecureChannelResponse_opcUaBinaryDecode is = do {
     (x1, is) \<leftarrow> ResponseHeader_opcUaBinaryDecode is;
     (x2, is) \<leftarrow> OpcUaUInt32_decode is;
     (x3, is) \<leftarrow> SecurityToken_opcUaBinaryDecode is;
     (x4, is) \<leftarrow> OpcUaByteString_opcUaBinaryDecode is;
     Some (\<lparr>OpenSecureChannelResponse_responseHeader = x1,
            OpenSecureChannelResponse_serverProtocolVersion = x2,
            OpenSecureChannelResponse_securityToken = x3,
            OpenSecureChannelResponse_serverNonce = x4\<rparr>, is) }"

definition OpenSecureChannelResponse_wf :: "OpenSecureChannelResponse \<Rightarrow> bool" where
  "OpenSecureChannelResponse_wf m \<longleftrightarrow>
     ResponseHeader_wf (OpenSecureChannelResponse_responseHeader m)
     \<and> OpcUaByteString_wf (OpenSecureChannelResponse_serverNonce m)"

interpretation opensecurechannelresponse_codec: codec OpenSecureChannelResponse_opcUaBinaryEncode
  OpenSecureChannelResponse_opcUaBinaryDecode OpenSecureChannelResponse_wf
  by unfold_locales
     (simp add: OpenSecureChannelResponse_opcUaBinaryEncode_def
        OpenSecureChannelResponse_opcUaBinaryDecode_def OpenSecureChannelResponse_wf_def codec_rt)

declare opensecurechannelresponse_codec.dec_enc [codec_rt]

record CloseSecureChannelRequest =
  CloseSecureChannelRequest_requestHeader :: RequestHeader
  CloseSecureChannelRequest_secureChannelId :: OpcUaByteString

definition CloseSecureChannelRequest_new :: "OpcUaDateTime \<Rightarrow> CloseSecureChannelRequest" where
  "CloseSecureChannelRequest_new now =
     \<lparr>CloseSecureChannelRequest_requestHeader = RequestHeader_new now,
       CloseSecureChannelRequest_secureChannelId = OpcUaByteString_new\<rparr>"

definition CloseSecureChannelRequest_opcUaBinaryEncode :: "CloseSecureChannelRequest \<Rightarrow> stream" where
  "CloseSecureChannelRequest_opcUaBinaryEncode this =
     RequestHeader_opcUaBinaryEncode (CloseSecureChannelRequest_requestHeader this)
     @ OpcUaByteString_opcUaBinaryEncode (CloseSecureChannelRequest_secureChannelId this)"

definition CloseSecureChannelRequest_opcUaBinaryDecode :: "CloseSecureChannelRequest decoder" where
  "CloseSecureChannelRequest_opcUaBinaryDecode is = do {
     (x1, is) \<leftarrow> RequestHeader_opcUaBinaryDecode is;
     (x2, is) \<leftarrow> OpcUaByteString_opcUaBinaryDecode is;
     Some (\<lparr>CloseSecureChannelRequest_requestHeader = x1,
            CloseSecureChannelRequest_secureChannelId = x2\<rparr>, is) }"

definition CloseSecureChannelRequest_wf :: "CloseSecureChannelRequest \<Rightarrow> bool" where
  "CloseSecureChannelRequest_wf m \<longleftrightarrow>
     RequestHeader_wf (CloseSecureChannelRequest_requestHeader m)
     \<and> OpcUaByteString_wf (CloseSecureChannelRequest_secureChannelId m)"

interpretation closesecurechannelrequest_codec: codec CloseSecureChannelRequest_opcUaBinaryEncode
  CloseSecureChannelRequest_opcUaBinaryDecode CloseSecureChannelRequest_wf
  by unfold_locales
     (simp add: CloseSecureChannelRequest_opcUaBinaryEncode_def
        CloseSecureChannelRequest_opcUaBinaryDecode_def CloseSecureChannelRequest_wf_def codec_rt)

declare closesecurechannelrequest_codec.dec_enc [codec_rt]

record CloseSecureChannelResponse =
  CloseSecureChannelResponse_responseHeader :: ResponseHeader

definition CloseSecureChannelResponse_new :: "OpcUaDateTime \<Rightarrow> CloseSecureChannelResponse" where
  "CloseSecureChannelResponse_new now =
     \<lparr>CloseSecureChannelResponse_responseHeader = ResponseHeader_new now\<rparr>"

definition CloseSecureChannelResponse_opcUaBinaryEncode :: "CloseSecureChannelResponse \<Rightarrow> stream" where
  "CloseSecureChannelResponse_opcUaBinaryEncode this =
     ResponseHeader_opcUaBinaryEncode (CloseSecureChannelResponse_responseHeader this)"

definition CloseSecureChannelResponse_opcUaBinaryDecode :: "CloseSecureChannelResponse decoder" where
  "CloseSecureChannelResponse_opcUaBinaryDecode is = do {
     (x1, is) \<leftarrow> ResponseHeader_opcUaBinaryDecode is;
     Some (\<lparr>CloseSecureChannelResponse_responseHeader = x1\<rparr>, is) }"

definition CloseSecureChannelResponse_wf :: "CloseSecureChannelResponse \<Rightarrow> bool" where
  "CloseSecureChannelResponse_wf m \<longleftrightarrow>
     ResponseHeader_wf (CloseSecureChannelResponse_responseHeader m)"

interpretation closesecurechannelresponse_codec: codec CloseSecureChannelResponse_opcUaBinaryEncode
  CloseSecureChannelResponse_opcUaBinaryDecode CloseSecureChannelResponse_wf
  by unfold_locales
     (simp add: CloseSecureChannelResponse_opcUaBinaryEncode_def
        CloseSecureChannelResponse_opcUaBinaryDecode_def CloseSecureChannelResponse_wf_def codec_rt)

declare closesecurechannelresponse_codec.dec_enc [codec_rt]

end
