(* ===== verification/SubscriptionMessages.thy ===== *)
theory SubscriptionMessages
  imports ChannelMessages
begin

text \<open>
  The messages of the subscription and monitored item services (\<^verbatim>\<open>OpcUaStackCore/ServiceSet\<close>) whose
  members have no polymorphic value, with their binary coders.
\<close>

section \<open>Subscriptions\<close>

record CreateSubscriptionRequest =
  CreateSubscriptionRequest_requestedPublishingInterval :: u64
  CreateSubscriptionRequest_requestedLifetimeCount :: u32
  CreateSubscriptionRequest_requestedMaxKeepAliveCount :: u32
  CreateSubscriptionRequest_maxNotificationsPerPublish :: u32
  CreateSubscriptionRequest_publishingEnabled :: bool
  CreateSubscriptionRequest_priority :: u8

definition CreateSubscriptionRequest_new :: CreateSubscriptionRequest where
  "CreateSubscriptionRequest_new =
     \<lparr>CreateSubscriptionRequest_requestedPublishingInterval = 0x4059000000000000,
       CreateSubscriptionRequest_requestedLifetimeCount = 2400,
       CreateSubscriptionRequest_requestedMaxKeepAliveCount = 10,
       CreateSubscriptionRequest_maxNotificationsPerPublish = 65536,
       CreateSubscriptionRequest_publishingEnabled = True, CreateSubscriptionRequest_priority = 0\<rparr>"

definition CreateSubscriptionRequest_opcUaBinaryEncode :: "CreateSubscriptionRequest \<Rightarrow> stream" where
  "CreateSubscriptionRequest_opcUaBinaryEncode this =
     OpcUaDouble_encode (CreateSubscriptionRequest_requestedPublishingInterval this)
     @ OpcUaUInt32_encode (CreateSubscriptionRequest_requestedLifetimeCount this)
     @ OpcUaUInt32_encode (CreateSubscriptionRequest_requestedMaxKeepAliveCount this)
     @ OpcUaUInt32_encode (CreateSubscriptionRequest_maxNotificationsPerPublish this)
     @ OpcUaBoolean_encode (CreateSubscriptionRequest_publishingEnabled this)
     @ OpcUaByte_encode (CreateSubscriptionRequest_priority this)"

definition CreateSubscriptionRequest_opcUaBinaryDecode :: "CreateSubscriptionRequest decoder" where
  "CreateSubscriptionRequest_opcUaBinaryDecode is = do {
     (x1, is) \<leftarrow> OpcUaDouble_decode is;
     (x2, is) \<leftarrow> OpcUaUInt32_decode is;
     (x3, is) \<leftarrow> OpcUaUInt32_decode is;
     (x4, is) \<leftarrow> OpcUaUInt32_decode is;
     (x5, is) \<leftarrow> OpcUaBoolean_decode is;
     (x6, is) \<leftarrow> OpcUaByte_decode is;
     Some (\<lparr>CreateSubscriptionRequest_requestedPublishingInterval = x1,
            CreateSubscriptionRequest_requestedLifetimeCount = x2,
            CreateSubscriptionRequest_requestedMaxKeepAliveCount = x3,
            CreateSubscriptionRequest_maxNotificationsPerPublish = x4,
            CreateSubscriptionRequest_publishingEnabled = x5,
            CreateSubscriptionRequest_priority = x6\<rparr>, is) }"

interpretation createsubscriptionrequest_codec: codec CreateSubscriptionRequest_opcUaBinaryEncode
  CreateSubscriptionRequest_opcUaBinaryDecode "\<lambda>_. True"
  by unfold_locales
     (simp add: CreateSubscriptionRequest_opcUaBinaryEncode_def
        CreateSubscriptionRequest_opcUaBinaryDecode_def codec_rt)

declare createsubscriptionrequest_codec.dec_enc [OF TrueI, codec_rt]

record CreateSubscriptionResponse =
  CreateSubscriptionResponse_subscriptionId :: u32
  CreateSubscriptionResponse_revisedPublishingInterval :: u64
  CreateSubscriptionResponse_revisedLifetimeCount :: u32
  CreateSubscriptionResponse_revisedMaxKeepAliveCount :: u32

definition CreateSubscriptionResponse_new :: CreateSubscriptionResponse where
  "CreateSubscriptionResponse_new =
     \<lparr>CreateSubscriptionResponse_subscriptionId = 0,
       CreateSubscriptionResponse_revisedPublishingInterval = 0,
       CreateSubscriptionResponse_revisedLifetimeCount = 0,
       CreateSubscriptionResponse_revisedMaxKeepAliveCount = 0\<rparr>"

definition CreateSubscriptionResponse_opcUaBinaryEncode :: "CreateSubscriptionResponse \<Rightarrow> stream" where
  "CreateSubscriptionResponse_opcUaBinaryEncode this =
     OpcUaUInt32_encode (CreateSubscriptionResponse_subscriptionId this)
     @ OpcUaDouble_encode (CreateSubscriptionResponse_revisedPublishingInterval this)
     @ OpcUaUInt32_encode (CreateSubscriptionResponse_revisedLifetimeCount this)
     @ OpcUaUInt32_encode (CreateSubscriptionResponse_revisedMaxKeepAliveCount this)"

definition CreateSubscriptionResponse_opcUaBinaryDecode :: "CreateSubscriptionResponse decoder" where
  "CreateSubscriptionResponse_opcUaBinaryDecode is = do {
     (x1, is) \<leftarrow> OpcUaUInt32_decode is;
     (x2, is) \<leftarrow> OpcUaDouble_decode is;
     (x3, is) \<leftarrow> OpcUaUInt32_decode is;
     (x4, is) \<leftarrow> OpcUaUInt32_decode is;
     Some (\<lparr>CreateSubscriptionResponse_subscriptionId = x1,
            CreateSubscriptionResponse_revisedPublishingInterval = x2,
            CreateSubscriptionResponse_revisedLifetimeCount = x3,
            CreateSubscriptionResponse_revisedMaxKeepAliveCount = x4\<rparr>, is) }"

interpretation createsubscriptionresponse_codec: codec CreateSubscriptionResponse_opcUaBinaryEncode
  CreateSubscriptionResponse_opcUaBinaryDecode "\<lambda>_. True"
  by unfold_locales
     (simp add: CreateSubscriptionResponse_opcUaBinaryEncode_def
        CreateSubscriptionResponse_opcUaBinaryDecode_def codec_rt)

declare createsubscriptionresponse_codec.dec_enc [OF TrueI, codec_rt]

record ModifySubscriptionRequest =
  ModifySubscriptionRequest_subscriptionId :: u32
  ModifySubscriptionRequest_requestedPublishingInterval :: u64
  ModifySubscriptionRequest_requestedLifetimeCount :: u32
  ModifySubscriptionRequest_requestedMaxKeepAliveCount :: u32
  ModifySubscriptionRequest_maxNotificationsPerPublish :: u32
  ModifySubscriptionRequest_priority :: u8

definition ModifySubscriptionRequest_new :: ModifySubscriptionRequest where
  "ModifySubscriptionRequest_new =
     \<lparr>ModifySubscriptionRequest_subscriptionId = 0,
       ModifySubscriptionRequest_requestedPublishingInterval = 0,
       ModifySubscriptionRequest_requestedLifetimeCount = 0,
       ModifySubscriptionRequest_requestedMaxKeepAliveCount = 0,
       ModifySubscriptionRequest_maxNotificationsPerPublish = 0,
       ModifySubscriptionRequest_priority = 0\<rparr>"

definition ModifySubscriptionRequest_opcUaBinaryEncode :: "ModifySubscriptionRequest \<Rightarrow> stream" where
  "ModifySubscriptionRequest_opcUaBinaryEncode this =
     OpcUaUInt32_encode (ModifySubscriptionRequest_subscriptionId this)
     @ OpcUaDouble_encode (ModifySubscriptionRequest_requestedPublishingInterval this)
     @ OpcUaUInt32_encode (ModifySubscriptionRequest_requestedLifetimeCount this)
     @ OpcUaUInt32_encode (ModifySubscriptionRequest_requestedMaxKeepAliveCount this)
     @ OpcUaUInt32_encode (ModifySubscriptionRequest_maxNotificationsPerPublish this)
     @ OpcUaByte_encode (ModifySubscriptionRequest_priority this)"

definition ModifySubscriptionRequest_opcUaBinaryDecode :: "ModifySubscriptionRequest decoder" where
  "ModifySubscriptionRequest_opcUaBinaryDecode is = do {
     (x1, is) \<leftarrow> OpcUaUInt32_decode is;
     (x2, is) \<leftarrow> OpcUaDouble_decode is;
     (x3, is) \<leftarrow> OpcUaUInt32_decode is;
     (x4, is) \<leftarrow> OpcUaUInt32_decode is;
     (x5, is) \<leftarrow> OpcUaUInt32_decode is;
     (x6, is) \<leftarrow> OpcUaByte_decode is;
     Some (\<lparr>ModifySubscriptionRequest_subscriptionId = x1,
            ModifySubscriptionRequest_requestedPublishingInterval = x2,
            ModifySubscriptionRequest_requestedLifetimeCount = x3,
            ModifySubscriptionRequest_requestedMaxKeepAliveCount = x4,
            ModifySubscriptionRequest_maxNotificationsPerPublish = x5,
            ModifySubscriptionRequest_priority = x6\<rparr>, is) }"

interpretation modifysubscriptionrequest_codec: codec ModifySubscriptionRequest_opcUaBinaryEncode
  ModifySubscriptionRequest_opcUaBinaryDecode "\<lambda>_. True"
  by unfold_locales
     (simp add: ModifySubscriptionRequest_opcUaBinaryEncode_def
        ModifySubscriptionRequest_opcUaBinaryDecode_def codec_rt)

declare modifysubscriptionrequest_codec.dec_enc [OF TrueI, codec_rt]

record ModifySubscriptionResponse =
  ModifySubscriptionResponse_revisedPublishingInterval :: u64
  ModifySubscriptionResponse_revisedLifetimeCount :: u32
  ModifySubscriptionResponse_revisedMaxKeepAliveCount :: u32

definition ModifySubscriptionResponse_new :: ModifySubscriptionResponse where
  "ModifySubscriptionResponse_new =
     \<lparr>ModifySubscriptionResponse_revisedPublishingInterval = 0,
       ModifySubscriptionResponse_revisedLifetimeCount = 0,
       ModifySubscriptionResponse_revisedMaxKeepAliveCount = 0\<rparr>"

definition ModifySubscriptionResponse_opcUaBinaryEncode :: "ModifySubscriptionResponse \<Rightarrow> stream" where
  "ModifySubscriptionResponse_opcUaBinaryEncode this =
     OpcUaDouble_encode (ModifySubscriptionResponse_revisedPublishingInterval this)
     @ OpcUaUInt32_encode (ModifySubscriptionResponse_revisedLifetimeCount this)
     @ OpcUaUInt32_encode (ModifySubscriptionResponse_revisedMaxKeepAliveCount this)"

definition ModifySubscriptionResponse_opcUaBinaryDecode :: "ModifySubscriptionResponse decoder" where
  "ModifySubscriptionResponse_opcUaBinaryDecode is = do {
     (x1, is) \<leftarrow> OpcUaDouble_decode is;
     (x2, is) \<leftarrow> OpcUaUInt32_decode is;
     (x3, is) \<leftarrow> OpcUaUInt32_decode is;
     Some (\<lparr>ModifySubscriptionResponse_revisedPublishingInterval = x1,
            ModifySubscriptionResponse_revisedLifetimeCount = x2,
            ModifySubscriptionResponse_revisedMaxKeepAliveCount = x3\<rparr>, is) }"

interpretation modifysubscriptionresponse_codec: codec ModifySubscriptionResponse_opcUaBinaryEncode
  ModifySubscriptionResponse_opcUaBinaryDecode "\<lambda>_. True"
  by unfold_locales
     (simp add: ModifySubscriptionResponse_opcUaBinaryEncode_def
        ModifySubscriptionResponse_opcUaBinaryDecode_def codec_rt)

declare modifysubscriptionresponse_codec.dec_enc [OF TrueI, codec_rt]

record SetPublishingModeRequest =
  SetPublishingModeRequest_publishingEnabled :: bool
  SetPublishingModeRequest_subscriptionIdArray :: "u32 list"

definition SetPublishingModeRequest_new :: SetPublishingModeRequest where
  "SetPublishingModeRequest_new =
     \<lparr>SetPublishingModeRequest_publishingEnabled = False,
       SetPublishingModeRequest_subscriptionIdArray = []\<rparr>"

definition SetPublishingModeRequest_opcUaBinaryEncode :: "SetPublishingModeRequest \<Rightarrow> stream" where
  "SetPublishingModeRequest_opcUaBinaryEncode this =
     OpcUaBoolean_encode (SetPublishingModeRequest_publishingEnabled this)
     @ array_encode OpcUaUInt32_encode (SetPublishingModeRequest_subscriptionIdArray this)"

definition SetPublishingModeRequest_opcUaBinaryDecode :: "SetPublishingModeRequest decoder" where
  "SetPublishingModeRequest_opcUaBinaryDecode is = do {
     (x1, is) \<leftarrow> OpcUaBoolean_decode is;
     (x2, is) \<leftarrow> array_decode OpcUaUInt32_decode is;
     Some (\<lparr>SetPublishingModeRequest_publishingEnabled = x1,
            SetPublishingModeRequest_subscriptionIdArray = x2\<rparr>, is) }"

definition SetPublishingModeRequest_wf :: "SetPublishingModeRequest \<Rightarrow> bool" where
  "SetPublishingModeRequest_wf m \<longleftrightarrow>
     array_wf (\<lambda>_. True) (SetPublishingModeRequest_subscriptionIdArray m)"

interpretation setpublishingmoderequest_codec: codec SetPublishingModeRequest_opcUaBinaryEncode
  SetPublishingModeRequest_opcUaBinaryDecode SetPublishingModeRequest_wf
  by unfold_locales
     (simp add: SetPublishingModeRequest_opcUaBinaryEncode_def
        SetPublishingModeRequest_opcUaBinaryDecode_def SetPublishingModeRequest_wf_def codec_rt)

declare setpublishingmoderequest_codec.dec_enc [codec_rt]

record SetPublishingModeResponse =
  SetPublishingModeResponse_statusCodeArray :: "u32 list"
  SetPublishingModeResponse_diagnosticInfoArray :: "OpcUaDiagnosticInfo list"

definition SetPublishingModeResponse_new :: SetPublishingModeResponse where
  "SetPublishingModeResponse_new =
     \<lparr>SetPublishingModeResponse_statusCodeArray = [],
       SetPublishingModeResponse_diagnosticInfoArray = []\<rparr>"

definition SetPublishingModeResponse_opcUaBinaryEncode :: "SetPublishingModeResponse \<Rightarrow> stream" where
  "SetPublishingModeResponse_opcUaBinaryEncode this =
     array_encode OpcUaInt32_encode (SetPublishingModeResponse_statusCodeArray this)
     @ array_encode OpcUaDiagnosticInfo_opcUaBinaryEncode (SetPublishingModeResponse_diagnosticInfoArray this)"

definition SetPublishingModeResponse_opcUaBinaryDecode :: "SetPublishingModeResponse decoder" where
  "SetPublishingModeResponse_opcUaBinaryDecode is = do {
     (x1, is) \<leftarrow> array_decode OpcUaInt32_decode is;
     (x2, is) \<leftarrow> array_decode (OpcUaDiagnosticInfo_opcUaBinaryDecode OpcUaDiagnosticInfo_new) is;
     Some (\<lparr>SetPublishingModeResponse_statusCodeArray = x1,
            SetPublishingModeResponse_diagnosticInfoArray = x2\<rparr>, is) }"

definition SetPublishingModeResponse_wf :: "SetPublishingModeResponse \<Rightarrow> bool" where
  "SetPublishingModeResponse_wf m \<longleftrightarrow>
     array_wf (\<lambda>_. True) (SetPublishingModeResponse_statusCodeArray m)
     \<and> array_wf (\<lambda>d. OpcUaString_wf (di_additionalInfo d)) (SetPublishingModeResponse_diagnosticInfoArray m)"

interpretation setpublishingmoderesponse_codec: codec SetPublishingModeResponse_opcUaBinaryEncode
  SetPublishingModeResponse_opcUaBinaryDecode SetPublishingModeResponse_wf
  by unfold_locales
     (simp add: SetPublishingModeResponse_opcUaBinaryEncode_def
        SetPublishingModeResponse_opcUaBinaryDecode_def SetPublishingModeResponse_wf_def codec_rt)

declare setpublishingmoderesponse_codec.dec_enc [codec_rt]

record DeleteSubscriptionsRequest =
  DeleteSubscriptionsRequest_subscriptionIdArray :: "u32 list"

definition DeleteSubscriptionsRequest_new :: DeleteSubscriptionsRequest where
  "DeleteSubscriptionsRequest_new =
     \<lparr>DeleteSubscriptionsRequest_subscriptionIdArray = []\<rparr>"

definition DeleteSubscriptionsRequest_opcUaBinaryEncode :: "DeleteSubscriptionsRequest \<Rightarrow> stream" where
  "DeleteSubscriptionsRequest_opcUaBinaryEncode this =
     array_encode OpcUaUInt32_encode (DeleteSubscriptionsRequest_subscriptionIdArray this)"

definition DeleteSubscriptionsRequest_opcUaBinaryDecode :: "DeleteSubscriptionsRequest decoder" where
  "DeleteSubscriptionsRequest_opcUaBinaryDecode is = do {
     (x1, is) \<leftarrow> array_decode OpcUaUInt32_decode is;
     Some (\<lparr>DeleteSubscriptionsRequest_subscriptionIdArray = x1\<rparr>, is) }"

definition DeleteSubscriptionsRequest_wf :: "DeleteSubscriptionsRequest \<Rightarrow> bool" where
  "DeleteSubscriptionsRequest_wf m \<longleftrightarrow>
     array_wf (\<lambda>_. True) (DeleteSubscriptionsRequest_subscriptionIdArray m)"

interpretation deletesubscriptionsrequest_codec: codec DeleteSubscriptionsRequest_opcUaBinaryEncode
  DeleteSubscriptionsRequest_opcUaBinaryDecode DeleteSubscriptionsRequest_wf
  by unfold_locales
     (simp add: DeleteSubscriptionsRequest_opcUaBinaryEncode_def
        DeleteSubscriptionsRequest_opcUaBinaryDecode_def DeleteSubscriptionsRequest_wf_def codec_rt)

declare deletesubscriptionsrequest_codec.dec_enc [codec_rt]

record DeleteSubscriptionsResponse =
  DeleteSubscriptionsResponse_statusCodeArray :: "u32 list"
  DeleteSubscriptionsResponse_diagnosticInfoArray :: "OpcUaDiagnosticInfo list"

definition DeleteSubscriptionsResponse_new :: DeleteSubscriptionsResponse where
  "DeleteSubscriptionsResponse_new =
     \<lparr>DeleteSubscriptionsResponse_statusCodeArray = [],
       DeleteSubscriptionsResponse_diagnosticInfoArray = []\<rparr>"

definition DeleteSubscriptionsResponse_opcUaBinaryEncode :: "DeleteSubscriptionsResponse \<Rightarrow> stream" where
  "DeleteSubscriptionsResponse_opcUaBinaryEncode this =
     array_encode OpcUaInt32_encode (DeleteSubscriptionsResponse_statusCodeArray this)
     @ array_encode OpcUaDiagnosticInfo_opcUaBinaryEncode (DeleteSubscriptionsResponse_diagnosticInfoArray this)"

definition DeleteSubscriptionsResponse_opcUaBinaryDecode :: "DeleteSubscriptionsResponse decoder" where
  "DeleteSubscriptionsResponse_opcUaBinaryDecode is = do {
     (x1, is) \<leftarrow> array_decode OpcUaInt32_decode is;
     (x2, is) \<leftarrow> array_decode (OpcUaDiagnosticInfo_opcUaBinaryDecode OpcUaDiagnosticInfo_new) is;
     Some (\<lparr>DeleteSubscriptionsResponse_statusCodeArray = x1,
            DeleteSubscriptionsResponse_diagnosticInfoArray = x2\<rparr>, is) }"

definition DeleteSubscriptionsResponse_wf :: "DeleteSubscriptionsResponse \<Rightarrow> bool" where
  "DeleteSubscriptionsResponse_wf m \<longleftrightarrow>
     array_wf (\<lambda>_. True) (DeleteSubscriptionsResponse_statusCodeArray m)
     \<and> array_wf (\<lambda>d. OpcUaString_wf (di_additionalInfo d)) (DeleteSubscriptionsResponse_diagnosticInfoArray m)"

interpretation deletesubscriptionsresponse_codec: codec
  DeleteSubscriptionsResponse_opcUaBinaryEncode DeleteSubscriptionsResponse_opcUaBinaryDecode
  DeleteSubscriptionsResponse_wf
  by unfold_locales
     (simp add: DeleteSubscriptionsResponse_opcUaBinaryEncode_def
        DeleteSubscriptionsResponse_opcUaBinaryDecode_def DeleteSubscriptionsResponse_wf_def
        codec_rt)

declare deletesubscriptionsresponse_codec.dec_enc [codec_rt]

record TransferResult =
  TransferResult_statusCode :: u32
  TransferResult_availableSequenceNumberArray :: "u32 list"

definition TransferResult_new :: TransferResult where
  "TransferResult_new =
     \<lparr>TransferResult_statusCode = 0, TransferResult_availableSequenceNumberArray = []\<rparr>"

definition TransferResult_opcUaBinaryEncode :: "TransferResult \<Rightarrow> stream" where
  "TransferResult_opcUaBinaryEncode this =
     OpcUaUInt32_encode (TransferResult_statusCode this)
     @ array_encode OpcUaUInt32_encode (TransferResult_availableSequenceNumberArray this)"

definition TransferResult_opcUaBinaryDecode :: "TransferResult decoder" where
  "TransferResult_opcUaBinaryDecode is = do {
     (x1, is) \<leftarrow> OpcUaUInt32_decode is;
     (x2, is) \<leftarrow> array_decode OpcUaUInt32_decode is;
     Some (\<lparr>TransferResult_statusCode = x1, TransferResult_availableSequenceNumberArray = x2\<rparr>, is) }"

definition TransferResult_wf :: "TransferResult \<Rightarrow> bool" where
  "TransferResult_wf m \<longleftrightarrow>
     array_wf (\<lambda>_. True) (TransferResult_availableSequenceNumberArray m)"

interpretation transferresult_codec: codec TransferResult_opcUaBinaryEncode
  TransferResult_opcUaBinaryDecode TransferResult_wf
  by unfold_locales
     (simp add: TransferResult_opcUaBinaryEncode_def TransferResult_opcUaBinaryDecode_def
        TransferResult_wf_def codec_rt)

declare transferresult_codec.dec_enc [codec_rt]

record TransferSubscriptionsRequest =
  TransferSubscriptionsRequest_subscriptionIdArray :: "u32 list"
  TransferSubscriptionsRequest_sendInitialValues :: bool

definition TransferSubscriptionsRequest_new :: TransferSubscriptionsRequest where
  "TransferSubscriptionsRequest_new =
     \<lparr>TransferSubscriptionsRequest_subscriptionIdArray = [],
       TransferSubscriptionsRequest_sendInitialValues = False\<rparr>"

definition TransferSubscriptionsRequest_opcUaBinaryEncode :: "TransferSubscriptionsRequest \<Rightarrow> stream" where
  "TransferSubscriptionsRequest_opcUaBinaryEncode this =
     array_encode OpcUaUInt32_encode (TransferSubscriptionsRequest_subscriptionIdArray this)
     @ OpcUaBoolean_encode (TransferSubscriptionsRequest_sendInitialValues this)"

definition TransferSubscriptionsRequest_opcUaBinaryDecode :: "TransferSubscriptionsRequest decoder" where
  "TransferSubscriptionsRequest_opcUaBinaryDecode is = do {
     (x1, is) \<leftarrow> array_decode OpcUaUInt32_decode is;
     (x2, is) \<leftarrow> OpcUaBoolean_decode is;
     Some (\<lparr>TransferSubscriptionsRequest_subscriptionIdArray = x1,
            TransferSubscriptionsRequest_sendInitialValues = x2\<rparr>, is) }"

definition TransferSubscriptionsRequest_wf :: "TransferSubscriptionsRequest \<Rightarrow> bool" where
  "TransferSubscriptionsRequest_wf m \<longleftrightarrow>
     array_wf (\<lambda>_. True) (TransferSubscriptionsRequest_subscriptionIdArray m)"

interpretation transfersubscriptionsrequest_codec: codec
  TransferSubscriptionsRequest_opcUaBinaryEncode TransferSubscriptionsRequest_opcUaBinaryDecode
  TransferSubscriptionsRequest_wf
  by unfold_locales
     (simp add: TransferSubscriptionsRequest_opcUaBinaryEncode_def
        TransferSubscriptionsRequest_opcUaBinaryDecode_def TransferSubscriptionsRequest_wf_def
        codec_rt)

declare transfersubscriptionsrequest_codec.dec_enc [codec_rt]

record TransferSubscriptionsResponse =
  TransferSubscriptionsResponse_transferResultArray :: "TransferResult list"
  TransferSubscriptionsResponse_diagnosticInfoArray :: "OpcUaDiagnosticInfo list"

definition TransferSubscriptionsResponse_new :: TransferSubscriptionsResponse where
  "TransferSubscriptionsResponse_new =
     \<lparr>TransferSubscriptionsResponse_transferResultArray = [],
       TransferSubscriptionsResponse_diagnosticInfoArray = []\<rparr>"

definition TransferSubscriptionsResponse_opcUaBinaryEncode :: "TransferSubscriptionsResponse \<Rightarrow> stream" where
  "TransferSubscriptionsResponse_opcUaBinaryEncode this =
     array_encode TransferResult_opcUaBinaryEncode (TransferSubscriptionsResponse_transferResultArray this)
     @ array_encode OpcUaDiagnosticInfo_opcUaBinaryEncode (TransferSubscriptionsResponse_diagnosticInfoArray this)"

definition TransferSubscriptionsResponse_opcUaBinaryDecode :: "TransferSubscriptionsResponse decoder" where
  "TransferSubscriptionsResponse_opcUaBinaryDecode is = do {
     (x1, is) \<leftarrow> array_decode TransferResult_opcUaBinaryDecode is;
     (x2, is) \<leftarrow> array_decode (OpcUaDiagnosticInfo_opcUaBinaryDecode OpcUaDiagnosticInfo_new) is;
     Some (\<lparr>TransferSubscriptionsResponse_transferResultArray = x1,
            TransferSubscriptionsResponse_diagnosticInfoArray = x2\<rparr>, is) }"

definition TransferSubscriptionsResponse_wf :: "TransferSubscriptionsResponse \<Rightarrow> bool" where
  "TransferSubscriptionsResponse_wf m \<longleftrightarrow>
     array_wf TransferResult_wf (TransferSubscriptionsResponse_transferResultArray m)
     \<and> array_wf (\<lambda>d. OpcUaString_wf (di_additionalInfo d)) (TransferSubscriptionsResponse_diagnosticInfoArray m)"

declare transferresult_codec.array_rt [codec_rt]

interpretation transfersubscriptionsresponse_codec: codec
  TransferSubscriptionsResponse_opcUaBinaryEncode TransferSubscriptionsResponse_opcUaBinaryDecode
  TransferSubscriptionsResponse_wf
  by unfold_locales
     (simp add: TransferSubscriptionsResponse_opcUaBinaryEncode_def
        TransferSubscriptionsResponse_opcUaBinaryDecode_def TransferSubscriptionsResponse_wf_def
        codec_rt)

declare transfersubscriptionsresponse_codec.dec_enc [codec_rt]

section \<open>Publishing\<close>

record SubscriptionAcknowledgement =
  SubscriptionAcknowledgement_subscriptionId :: u32
  SubscriptionAcknowledgement_sequenceNumber :: u32

definition SubscriptionAcknowledgement_new :: SubscriptionAcknowledgement where
  "SubscriptionAcknowledgement_new =
     \<lparr>SubscriptionAcknowledgement_subscriptionId = 0,
       SubscriptionAcknowledgement_sequenceNumber = 0\<rparr>"

definition SubscriptionAcknowledgement_opcUaBinaryEncode :: "SubscriptionAcknowledgement \<Rightarrow> stream" where
  "SubscriptionAcknowledgement_opcUaBinaryEncode this =
     OpcUaUInt32_encode (SubscriptionAcknowledgement_subscriptionId this)
     @ OpcUaUInt32_encode (SubscriptionAcknowledgement_sequenceNumber this)"

definition SubscriptionAcknowledgement_opcUaBinaryDecode :: "SubscriptionAcknowledgement decoder" where
  "SubscriptionAcknowledgement_opcUaBinaryDecode is = do {
     (x1, is) \<leftarrow> OpcUaUInt32_decode is;
     (x2, is) \<leftarrow> OpcUaUInt32_decode is;
     Some (\<lparr>SubscriptionAcknowledgement_subscriptionId = x1,
            SubscriptionAcknowledgement_sequenceNumber = x2\<rparr>, is) }"

interpretation subscriptionacknowledgement_codec: codec
  SubscriptionAcknowledgement_opcUaBinaryEncode SubscriptionAcknowledgement_opcUaBinaryDecode
  "\<lambda>_. True"
  by unfold_locales
     (simp add: SubscriptionAcknowledgement_opcUaBinaryEncode_def
        SubscriptionAcknowledgement_opcUaBinaryDecode_def codec_rt)

declare subscriptionacknowledgement_codec.dec_enc [OF TrueI, codec_rt]

record PublishRequest =
  PublishRequest_subscriptionAcknowledgementArray :: "SubscriptionAcknowledgement list"

definition PublishRequest_new :: PublishRequest where
  "PublishRequest_new =
     \<lparr>PublishRequest_subscriptionAcknowledgementArray = []\<rparr>"

definition PublishRequest_opcUaBinaryEncode :: "PublishRequest \<Rightarrow> stream" where
  "PublishRequest_opcUaBinaryEncode this =
     array_encode SubscriptionAcknowledgement_opcUaBinaryEncode (PublishRequest_subscriptionAcknowledgementArray this)"

definition PublishRequest_opcUaBinaryDecode :: "PublishRequest decoder" where
  "PublishRequest_opcUaBinaryDecode is = do {
     (x1, is) \<leftarrow> array_decode SubscriptionAcknowledgement_opcUaBinaryDecode is;
     Some (\<lparr>PublishRequest_subscriptionAcknowledgementArray = x1\<rparr>, is) }"

definition PublishRequest_wf :: "PublishRequest \<Rightarrow> bool" where
  "PublishRequest_wf m \<longleftrightarrow>
     array_wf (\<lambda>_. True) (PublishRequest_subscriptionAcknowledgementArray m)"

declare subscriptionacknowledgement_codec.array_rt [codec_rt]

interpretation publishrequest_codec: codec PublishRequest_opcUaBinaryEncode
  PublishRequest_opcUaBinaryDecode PublishRequest_wf
  by unfold_locales
     (simp add: PublishRequest_opcUaBinaryEncode_def PublishRequest_opcUaBinaryDecode_def
        PublishRequest_wf_def codec_rt)

declare publishrequest_codec.dec_enc [codec_rt]

record RepublishRequest =
  RepublishRequest_subscriptionId :: u32
  RepublishRequest_retransmitSequenceNumber :: u32

definition RepublishRequest_new :: RepublishRequest where
  "RepublishRequest_new =
     \<lparr>RepublishRequest_subscriptionId = 0, RepublishRequest_retransmitSequenceNumber = 0\<rparr>"

definition RepublishRequest_opcUaBinaryEncode :: "RepublishRequest \<Rightarrow> stream" where
  "RepublishRequest_opcUaBinaryEncode this =
     OpcUaUInt32_encode (RepublishRequest_subscriptionId this)
     @ OpcUaUInt32_encode (RepublishRequest_retransmitSequenceNumber this)"

definition RepublishRequest_opcUaBinaryDecode :: "RepublishRequest decoder" where
  "RepublishRequest_opcUaBinaryDecode is = do {
     (x1, is) \<leftarrow> OpcUaUInt32_decode is;
     (x2, is) \<leftarrow> OpcUaUInt32_decode is;
     Some (\<lparr>RepublishRequest_subscriptionId = x1, RepublishRequest_retransmitSequenceNumber = x2\<rparr>, is) }"

interpretation republishrequest_codec: codec RepublishRequest_opcUaBinaryEncode
  RepublishRequest_opcUaBinaryDecode "\<lambda>_. True"
  by unfold_locales
     (simp add: RepublishRequest_opcUaBinaryEncode_def RepublishRequest_opcUaBinaryDecode_def
        codec_rt)

declare republishrequest_codec.dec_enc [OF TrueI, codec_rt]

record StatusChangeNotification =
  StatusChangeNotification_statusCode :: u32
  StatusChangeNotification_diagnosticInfo :: OpcUaDiagnosticInfo

definition StatusChangeNotification_new :: StatusChangeNotification where
  "StatusChangeNotification_new =
     \<lparr>StatusChangeNotification_statusCode = 0,
       StatusChangeNotification_diagnosticInfo = OpcUaDiagnosticInfo_new\<rparr>"

definition StatusChangeNotification_opcUaBinaryEncode :: "StatusChangeNotification \<Rightarrow> stream" where
  "StatusChangeNotification_opcUaBinaryEncode this =
     OpcUaUInt32_encode (StatusChangeNotification_statusCode this)
     @ OpcUaDiagnosticInfo_opcUaBinaryEncode (StatusChangeNotification_diagnosticInfo this)"

definition StatusChangeNotification_opcUaBinaryDecode :: "StatusChangeNotification decoder" where
  "StatusChangeNotification_opcUaBinaryDecode is = do {
     (x1, is) \<leftarrow> OpcUaUInt32_decode is;
     (x2, is) \<leftarrow> OpcUaDiagnosticInfo_opcUaBinaryDecode OpcUaDiagnosticInfo_new is;
     Some (\<lparr>StatusChangeNotification_statusCode = x1,
            StatusChangeNotification_diagnosticInfo = x2\<rparr>, is) }"

definition StatusChangeNotification_wf :: "StatusChangeNotification \<Rightarrow> bool" where
  "StatusChangeNotification_wf m \<longleftrightarrow>
     OpcUaString_wf (di_additionalInfo (StatusChangeNotification_diagnosticInfo m))"

interpretation statuschangenotification_codec: codec StatusChangeNotification_opcUaBinaryEncode
  StatusChangeNotification_opcUaBinaryDecode StatusChangeNotification_wf
  by unfold_locales
     (simp add: StatusChangeNotification_opcUaBinaryEncode_def
        StatusChangeNotification_opcUaBinaryDecode_def StatusChangeNotification_wf_def codec_rt)

declare statuschangenotification_codec.dec_enc [codec_rt]

section \<open>Monitored items\<close>

record DeleteMonitoredItemsRequest =
  DeleteMonitoredItemsRequest_subscriptionId :: u32
  DeleteMonitoredItemsRequest_monitoredItemIdArray :: "u32 list"

definition DeleteMonitoredItemsRequest_new :: DeleteMonitoredItemsRequest where
  "DeleteMonitoredItemsRequest_new =
     \<lparr>DeleteMonitoredItemsRequest_subscriptionId = 0,
       DeleteMonitoredItemsRequest_monitoredItemIdArray = []\<rparr>"

definition DeleteMonitoredItemsRequest_opcUaBinaryEncode :: "DeleteMonitoredItemsRequest \<Rightarrow> stream" where
  "DeleteMonitoredItemsRequest_opcUaBinaryEncode this =
     OpcUaUInt32_encode (DeleteMonitoredItemsRequest_subscriptionId this)
     @ array_encode OpcUaUInt32_encode (DeleteMonitoredItemsRequest_monitoredItemIdArray this)"

definition DeleteMonitoredItemsRequest_opcUaBinaryDecode :: "DeleteMonitoredItemsRequest decoder" where
  "DeleteMonitoredItemsRequest_opcUaBinaryDecode is = do {
     (x1, is) \<leftarrow> OpcUaUInt32_decode is;
     (x2, is) \<leftarrow> array_decode OpcUaUInt32_decode is;
     Some (\<lparr>DeleteMonitoredItemsRequest_subscriptionId = x1,
            DeleteMonitoredItemsRequest_monitoredItemIdArray = x2\<rparr>, is) }"

definition DeleteMonitoredItemsRequest_wf :: "DeleteMonitoredItemsRequest \<Rightarrow> bool" where
  "DeleteMonitoredItemsRequest_wf m \<longleftrightarrow>
     array_wf (\<lambda>_. True) (DeleteMonitoredItemsRequest_monitoredItemIdArray m)"

interpretation deletemonitoreditemsrequest_codec: codec
  DeleteMonitoredItemsRequest_opcUaBinaryEncode DeleteMonitoredItemsRequest_opcUaBinaryDecode
  DeleteMonitoredItemsRequest_wf
  by unfold_locales
     (simp add: DeleteMonitoredItemsRequest_opcUaBinaryEncode_def
        DeleteMonitoredItemsRequest_opcUaBinaryDecode_def DeleteMonitoredItemsRequest_wf_def
        codec_rt)

declare deletemonitoreditemsrequest_codec.dec_enc [codec_rt]

record DeleteMonitoredItemsResponse =
  DeleteMonitoredItemsResponse_resultArray :: "u32 list"
  DeleteMonitoredItemsResponse_diagnosticInfoArray :: "OpcUaDiagnosticInfo list"

definition DeleteMonitoredItemsResponse_new :: DeleteMonitoredItemsResponse where
  "DeleteMonitoredItemsResponse_new =
     \<lparr>DeleteMonitoredItemsResponse_resultArray = [],
       DeleteMonitoredItemsResponse_diagnosticInfoArray = []\<rparr>"

definition DeleteMonitoredItemsResponse_opcUaBinaryEncode :: "DeleteMonitoredItemsResponse \<Rightarrow> stream" where
  "DeleteMonitoredItemsResponse_opcUaBinaryEncode this =
     array_encode OpcUaInt32_encode (DeleteMonitoredItemsResponse_resultArray this)
     @ array_encode OpcUaDiagnosticInfo_opcUaBinaryEncode (DeleteMonitoredItemsResponse_diagnosticInfoArray this)"

definition DeleteMonitoredItemsResponse_opcUaBinaryDecode :: "DeleteMonitoredItemsResponse decoder" where
  "DeleteMonitoredItemsResponse_opcUaBinaryDecode is = do {
     (x1, is) \<leftarrow> array_decode OpcUaInt32_decode is;
     (x2, is) \<leftarrow> array_decode (OpcUaDiagnosticInfo_opcUaBinaryDecode OpcUaDiagnosticInfo_new) is;
     Some (\<lparr>DeleteMonitoredItemsResponse_resultArray = x1,
            DeleteMonitoredItemsResponse_diagnosticInfoArray = x2\<rparr>, is) }"

definition DeleteMonitoredItemsResponse_wf :: "DeleteMonitoredItemsResponse \<Rightarrow> bool" where
  "DeleteMonitoredItemsResponse_wf m \<longleftrightarrow>
     array_wf (\<lambda>_. True) (DeleteMonitoredItemsResponse_resultArray m)
     \<and> array_wf (\<lambda>d. OpcUaString_wf (di_additionalInfo d)) (DeleteMonitoredItemsResponse_diagnosticInfoArray m)"

interpretation deletemonitoreditemsresponse_codec: codec
  DeleteMonitoredItemsResponse_opcUaBinaryEncode DeleteMonitoredItemsResponse_opcUaBinaryDecode
  DeleteMonitoredItemsResponse_wf
  by unfold_locales
     (simp add: DeleteMonitoredItemsResponse_opcUaBinaryEncode_def
        DeleteMonitoredItemsResponse_opcUaBinaryDecode_def DeleteMonitoredItemsResponse_wf_def
        codec_rt)

declare deletemonitoreditemsresponse_codec.dec_enc [codec_rt]

record SetMonitoringModeRequest =
  SetMonitoringModeRequest_subscriptionId :: u32
  SetMonitoringModeRequest_monitoringMode :: u32
  SetMonitoringModeRequest_monitoredItemIdArray :: "u32 list"

definition SetMonitoringModeRequest_new :: SetMonitoringModeRequest where
  "SetMonitoringModeRequest_new =
     \<lparr>SetMonitoringModeRequest_subscriptionId = 0,
       SetMonitoringModeRequest_monitoringMode = 0,
       SetMonitoringModeRequest_monitoredItemIdArray = []\<rparr>"

definition SetMonitoringModeRequest_opcUaBinaryEncode :: "SetMonitoringModeRequest \<Rightarrow> stream" where
  "SetMonitoringModeRequest_opcUaBinaryEncode this =
     OpcUaUInt32_encode (SetMonitoringModeRequest_subscriptionId this)
     @ OpcUaInt32_encode (SetMonitoringModeRequest_monitoringMode this)
     @ array_encode OpcUaUInt32_encode (SetMonitoringModeRequest_monitoredItemIdArray this)"

definition SetMonitoringModeRequest_opcUaBinaryDecode :: "SetMonitoringModeRequest decoder" where
  "SetMonitoringModeRequest_opcUaBinaryDecode is = do {
     (x1, is) \<leftarrow> OpcUaUInt32_decode is;
     (x2, is) \<leftarrow> OpcUaInt32_decode is;
     (x3, is) \<leftarrow> array_decode OpcUaUInt32_decode is;
     Some (\<lparr>SetMonitoringModeRequest_subscriptionId = x1,
            SetMonitoringModeRequest_monitoringMode = x2,
            SetMonitoringModeRequest_monitoredItemIdArray = x3\<rparr>, is) }"

definition SetMonitoringModeRequest_wf :: "SetMonitoringModeRequest \<Rightarrow> bool" where
  "SetMonitoringModeRequest_wf m \<longleftrightarrow>
     array_wf (\<lambda>_. True) (SetMonitoringModeRequest_monitoredItemIdArray m)"

interpretation setmonitoringmoderequest_codec: codec SetMonitoringModeRequest_opcUaBinaryEncode
  SetMonitoringModeRequest_opcUaBinaryDecode SetMonitoringModeRequest_wf
  by unfold_locales
     (simp add: SetMonitoringModeRequest_opcUaBinaryEncode_def
        SetMonitoringModeRequest_opcUaBinaryDecode_def SetMonitoringModeRequest_wf_def codec_rt)

declare setmonitoringmoderequest_codec.dec_enc [codec_rt]

record SetMonitoringModeResponse =
  SetMonitoringModeResponse_resultArray :: "u32 list"
  SetMonitoringModeResponse_diagnosticInfoArray :: "OpcUaDiagnosticInfo list"

definition SetMonitoringModeResponse_new :: SetMonitoringModeResponse where
  "SetMonitoringModeResponse_new =
     \<lparr>SetMonitoringModeResponse_resultArray = [],
       SetMonitoringModeResponse_diagnosticInfoArray = []\<rparr>"

definition SetMonitoringModeResponse_opcUaBinaryEncode :: "SetMonitoringModeResponse \<Rightarrow> stream" where
  "SetMonitoringModeResponse_opcUaBinaryEncode this =
     array_encode OpcUaInt32_encode (SetMonitoringModeResponse_resultArray this)
     @ array_encode OpcUaDiagnosticInfo_opcUaBinaryEncode (SetMonitoringModeResponse_diagnosticInfoArray this)"

definition SetMonitoringModeResponse_opcUaBinaryDecode :: "SetMonitoringModeResponse decoder" where
  "SetMonitoringModeResponse_opcUaBinaryDecode is = do {
     (x1, is) \<leftarrow> array_decode OpcUaInt32_decode is;
     (x2, is) \<leftarrow> array_decode (OpcUaDiagnosticInfo_opcUaBinaryDecode OpcUaDiagnosticInfo_new) is;
     Some (\<lparr>SetMonitoringModeResponse_resultArray = x1,
            SetMonitoringModeResponse_diagnosticInfoArray = x2\<rparr>, is) }"

definition SetMonitoringModeResponse_wf :: "SetMonitoringModeResponse \<Rightarrow> bool" where
  "SetMonitoringModeResponse_wf m \<longleftrightarrow>
     array_wf (\<lambda>_. True) (SetMonitoringModeResponse_resultArray m)
     \<and> array_wf (\<lambda>d. OpcUaString_wf (di_additionalInfo d)) (SetMonitoringModeResponse_diagnosticInfoArray m)"

interpretation setmonitoringmoderesponse_codec: codec SetMonitoringModeResponse_opcUaBinaryEncode
  SetMonitoringModeResponse_opcUaBinaryDecode SetMonitoringModeResponse_wf
  by unfold_locales
     (simp add: SetMonitoringModeResponse_opcUaBinaryEncode_def
        SetMonitoringModeResponse_opcUaBinaryDecode_def SetMonitoringModeResponse_wf_def codec_rt)

declare setmonitoringmoderesponse_codec.dec_enc [codec_rt]

record SetTriggeringRequest =
  SetTriggeringRequest_subscriptionId :: u32
  SetTriggeringRequest_triggeringItemId :: u32
  SetTriggeringRequest_linksToAddArray :: "u32 list"
  SetTriggeringRequest_linksToRemoveArray :: "u32 list"

definition SetTriggeringRequest_new :: SetTriggeringRequest where
  "SetTriggeringRequest_new =
     \<lparr>SetTriggeringRequest_subscriptionId = 0, SetTriggeringRequest_triggeringItemId = 0,
       SetTriggeringRequest_linksToAddArray = [], SetTriggeringRequest_linksToRemoveArray = []\<rparr>"

definition SetTriggeringRequest_opcUaBinaryEncode :: "SetTriggeringRequest \<Rightarrow> stream" where
  "SetTriggeringRequest_opcUaBinaryEncode this =
     OpcUaUInt32_encode (SetTriggeringRequest_subscriptionId this)
     @ OpcUaUInt32_encode (SetTriggeringRequest_triggeringItemId this)
     @ array_encode OpcUaUInt32_encode (SetTriggeringRequest_linksToAddArray this)
     @ array_encode OpcUaUInt32_encode (SetTriggeringRequest_linksToRemoveArray this)"

definition SetTriggeringRequest_opcUaBinaryDecode :: "SetTriggeringRequest decoder" where
  "SetTriggeringRequest_opcUaBinaryDecode is = do {
     (x1, is) \<leftarrow> OpcUaUInt32_decode is;
     (x2, is) \<leftarrow> OpcUaUInt32_decode is;
     (x3, is) \<leftarrow> array_decode OpcUaUInt32_decode is;
     (x4, is) \<leftarrow> array_decode OpcUaUInt32_decode is;
     Some (\<lparr>SetTriggeringRequest_subscriptionId = x1, SetTriggeringRequest_triggeringItemId = x2,
            SetTriggeringRequest_linksToAddArray = x3,
            SetTriggeringRequest_linksToRemoveArray = x4\<rparr>, is) }"

definition SetTriggeringRequest_wf :: "SetTriggeringRequest \<Rightarrow> bool" where
  "SetTriggeringRequest_wf m \<longleftrightarrow>
     array_wf (\<lambda>_. True) (SetTriggeringRequest_linksToAddArray m)
     \<and> array_wf (\<lambda>_. True) (SetTriggeringRequest_linksToRemoveArray m)"

interpretation settriggeringrequest_codec: codec SetTriggeringRequest_opcUaBinaryEncode
  SetTriggeringRequest_opcUaBinaryDecode SetTriggeringRequest_wf
  by unfold_locales
     (simp add: SetTriggeringRequest_opcUaBinaryEncode_def
        SetTriggeringRequest_opcUaBinaryDecode_def SetTriggeringRequest_wf_def codec_rt)

declare settriggeringrequest_codec.dec_enc [codec_rt]

record SetTriggeringResponse =
  SetTriggeringResponse_addResultArray :: "u32 list"
  SetTriggeringResponse_addDiagnosticInfoArray :: "OpcUaDiagnosticInfo list"
  SetTriggeringResponse_removeResultArray :: "u32 list"
  SetTriggeringResponse_removeDiagnosticInfoArray :: "OpcUaDiagnosticInfo list"

definition SetTriggeringResponse_new :: SetTriggeringResponse where
  "SetTriggeringResponse_new =
     \<lparr>SetTriggeringResponse_addResultArray = [],
       SetTriggeringResponse_addDiagnosticInfoArray = [],
       SetTriggeringResponse_removeResultArray = [],
       SetTriggeringResponse_removeDiagnosticInfoArray = []\<rparr>"

definition SetTriggeringResponse_opcUaBinaryEncode :: "SetTriggeringResponse \<Rightarrow> stream" where
  "SetTriggeringResponse_opcUaBinaryEncode this =
     array_encode OpcUaInt32_encode (SetTriggeringResponse_addResultArray this)
     @ array_encode OpcUaDiagnosticInfo_opcUaBinaryEncode (SetTriggeringResponse_addDiagnosticInfoArray this)
     @ array_encode OpcUaInt32_encode (SetTriggeringResponse_removeResultArray this)
     @ array_encode OpcUaDiagnosticInfo_opcUaBinaryEncode (SetTriggeringResponse_removeDiagnosticInfoArray this)"

definition SetTriggeringResponse_opcUaBinaryDecode :: "SetTriggeringResponse decoder" where
  "SetTriggeringResponse_opcUaBinaryDecode is = do {
     (x1, is) \<leftarrow> array_decode OpcUaInt32_decode is;
     (x2, is) \<leftarrow> array_decode (OpcUaDiagnosticInfo_opcUaBinaryDecode OpcUaDiagnosticInfo_new) is;
     (x3, is) \<leftarrow> array_decode OpcUaInt32_decode is;
     (x4, is) \<leftarrow> array_decode (OpcUaDiagnosticInfo_opcUaBinaryDecode OpcUaDiagnosticInfo_new) is;
     Some (\<lparr>SetTriggeringResponse_addResultArray = x1,
            SetTriggeringResponse_addDiagnosticInfoArray = x2,
            SetTriggeringResponse_removeResultArray = x3,
            SetTriggeringResponse_removeDiagnosticInfoArray = x4\<rparr>, is) }"

definition SetTriggeringResponse_wf :: "SetTriggeringResponse \<Rightarrow> bool" where
  "SetTriggeringResponse_wf m \<longleftrightarrow>
     array_wf (\<lambda>_. True) (SetTriggeringResponse_addResultArray m)
     \<and> array_wf (\<lambda>d. OpcUaString_wf (di_additionalInfo d)) (SetTriggeringResponse_addDiagnosticInfoArray m)
     \<and> array_wf (\<lambda>_. True) (SetTriggeringResponse_removeResultArray m)
     \<and> array_wf (\<lambda>d. OpcUaString_wf (di_additionalInfo d)) (SetTriggeringResponse_removeDiagnosticInfoArray m)"

interpretation settriggeringresponse_codec: codec SetTriggeringResponse_opcUaBinaryEncode
  SetTriggeringResponse_opcUaBinaryDecode SetTriggeringResponse_wf
  by unfold_locales
     (simp add: SetTriggeringResponse_opcUaBinaryEncode_def
        SetTriggeringResponse_opcUaBinaryDecode_def SetTriggeringResponse_wf_def codec_rt)

declare settriggeringresponse_codec.dec_enc [codec_rt]

section \<open>Filter results\<close>

record ContentFilterElementResultMessage =
  ContentFilterElementResultMessage_statusCode :: u32
  ContentFilterElementResultMessage_operandStatusCodeArray :: "u32 list"
  ContentFilterElementResultMessage_operandDiagnosticInfoArray :: "OpcUaDiagnosticInfo list"
  ContentFilterElementResultMessage_elementDiagnosticInfoArray :: "OpcUaDiagnosticInfo list"

definition ContentFilterElementResultMessage_new :: ContentFilterElementResultMessage where
  "ContentFilterElementResultMessage_new =
     \<lparr>ContentFilterElementResultMessage_statusCode = 0,
       ContentFilterElementResultMessage_operandStatusCodeArray = [],
       ContentFilterElementResultMessage_operandDiagnosticInfoArray = [],
       ContentFilterElementResultMessage_elementDiagnosticInfoArray = []\<rparr>"

definition ContentFilterElementResultMessage_opcUaBinaryEncode :: "ContentFilterElementResultMessage \<Rightarrow> stream" where
  "ContentFilterElementResultMessage_opcUaBinaryEncode this =
     OpcUaUInt32_encode (ContentFilterElementResultMessage_statusCode this)
     @ array_encode OpcUaInt32_encode (ContentFilterElementResultMessage_operandStatusCodeArray this)
     @ array_encode OpcUaDiagnosticInfo_opcUaBinaryEncode (ContentFilterElementResultMessage_operandDiagnosticInfoArray this)
     @ array_encode OpcUaDiagnosticInfo_opcUaBinaryEncode (ContentFilterElementResultMessage_elementDiagnosticInfoArray this)"

definition ContentFilterElementResultMessage_opcUaBinaryDecode :: "ContentFilterElementResultMessage decoder" where
  "ContentFilterElementResultMessage_opcUaBinaryDecode is = do {
     (x1, is) \<leftarrow> OpcUaUInt32_decode is;
     (x2, is) \<leftarrow> array_decode OpcUaInt32_decode is;
     (x3, is) \<leftarrow> array_decode (OpcUaDiagnosticInfo_opcUaBinaryDecode OpcUaDiagnosticInfo_new) is;
     (x4, is) \<leftarrow> array_decode (OpcUaDiagnosticInfo_opcUaBinaryDecode OpcUaDiagnosticInfo_new) is;
     Some (\<lparr>ContentFilterElementResultMessage_statusCode = x1,
            ContentFilterElementResultMessage_operandStatusCodeArray = x2,
            ContentFilterElementResultMessage_operandDiagnosticInfoArray = x3,
            ContentFilterElementResultMessage_elementDiagnosticInfoArray = x4\<rparr>, is) }"

definition ContentFilterElementResultMessage_wf :: "ContentFilterElementResultMessage \<Rightarrow> bool" where
  "ContentFilterElementResultMessage_wf m \<longleftrightarrow>
     array_wf (\<lambda>_. True) (ContentFilterElementResultMessage_operandStatusCodeArray m)
     \<and> array_wf (\<lambda>d. OpcUaString_wf (di_additionalInfo d)) (ContentFilterElementResultMessage_operandDiagnosticInfoArray m)
     \<and> array_wf (\<lambda>d. OpcUaString_wf (di_additionalInfo d)) (ContentFilterElementResultMessage_elementDiagnosticInfoArray m)"

interpretation contentfilterelementresult_codec: codec
  ContentFilterElementResultMessage_opcUaBinaryEncode
  ContentFilterElementResultMessage_opcUaBinaryDecode ContentFilterElementResultMessage_wf
  by unfold_locales
     (simp add: ContentFilterElementResultMessage_opcUaBinaryEncode_def
        ContentFilterElementResultMessage_opcUaBinaryDecode_def
        ContentFilterElementResultMessage_wf_def codec_rt)

declare contentfilterelementresult_codec.dec_enc [codec_rt]

record ContentFilterResultMessage =
  ContentFilterResultMessage_elementResultArray :: "ContentFilterElementResultMessage list"

definition ContentFilterResultMessage_new :: ContentFilterResultMessage where
  "ContentFilterResultMessage_new =
     \<lparr>ContentFilterResultMessage_elementResultArray = []\<rparr>"

definition ContentFilterResultMessage_opcUaBinaryEncode :: "ContentFilterResultMessage \<Rightarrow> stream" where
  "ContentFilterResultMessage_opcUaBinaryEncode this =
     array_encode ContentFilterElementResultMessage_opcUaBinaryEncode (ContentFilterResultMessage_elementResultArray this)"

definition ContentFilterResultMessage_opcUaBinaryDecode :: "ContentFilterResultMessage decoder" where
  "ContentFilterResultMessage_opcUaBinaryDecode is = do {
     (x1, is) \<leftarrow> array_decode ContentFilterElementResultMessage_opcUaBinaryDecode is;
     Some (\<lparr>ContentFilterResultMessage_elementResultArray = x1\<rparr>, is) }"

definition ContentFilterResultMessage_wf :: "ContentFilterResultMessage \<Rightarrow> bool" where
  "ContentFilterResultMessage_wf m \<longleftrightarrow>
     array_wf ContentFilterElementResultMessage_wf (ContentFilterResultMessage_elementResultArray m)"

declare contentfilterelementresult_codec.array_rt [codec_rt]

interpretation contentfilterresult_codec: codec ContentFilterResultMessage_opcUaBinaryEncode
  ContentFilterResultMessage_opcUaBinaryDecode ContentFilterResultMessage_wf
  by unfold_locales
     (simp add: ContentFilterResultMessage_opcUaBinaryEncode_def
        ContentFilterResultMessage_opcUaBinaryDecode_def ContentFilterResultMessage_wf_def codec_rt)

declare contentfilterresult_codec.dec_enc [codec_rt]

record EventFilterResult =
  EventFilterResult_selectClauseResultArray :: "u32 list"
  EventFilterResult_selectClauseDiagnosticInfoArray :: "OpcUaDiagnosticInfo list"
  EventFilterResult_whereClauseResult :: ContentFilterResultMessage

definition EventFilterResult_new :: EventFilterResult where
  "EventFilterResult_new =
     \<lparr>EventFilterResult_selectClauseResultArray = [],
       EventFilterResult_selectClauseDiagnosticInfoArray = [],
       EventFilterResult_whereClauseResult = ContentFilterResultMessage_new\<rparr>"

definition EventFilterResult_opcUaBinaryEncode :: "EventFilterResult \<Rightarrow> stream" where
  "EventFilterResult_opcUaBinaryEncode this =
     array_encode OpcUaInt32_encode (EventFilterResult_selectClauseResultArray this)
     @ array_encode OpcUaDiagnosticInfo_opcUaBinaryEncode (EventFilterResult_selectClauseDiagnosticInfoArray this)
     @ ContentFilterResultMessage_opcUaBinaryEncode (EventFilterResult_whereClauseResult this)"

definition EventFilterResult_opcUaBinaryDecode :: "EventFilterResult decoder" where
  "EventFilterResult_opcUaBinaryDecode is = do {
     (x1, is) \<leftarrow> array_decode OpcUaInt32_decode is;
     (x2, is) \<leftarrow> array_decode (OpcUaDiagnosticInfo_opcUaBinaryDecode OpcUaDiagnosticInfo_new) is;
     (x3, is) \<leftarrow> ContentFilterResultMessage_opcUaBinaryDecode is;
     Some (\<lparr>EventFilterResult_selectClauseResultArray = x1,
            EventFilterResult_selectClauseDiagnosticInfoArray = x2,
            EventFilterResult_whereClauseResult = x3\<rparr>, is) }"

definition EventFilterResult_wf :: "EventFilterResult \<Rightarrow> bool" where
  "EventFilterResult_wf m \<longleftrightarrow>
     array_wf (\<lambda>_. True) (EventFilterResult_selectClauseResultArray m)
     \<and> array_wf (\<lambda>d. OpcUaString_wf (di_additionalInfo d)) (EventFilterResult_selectClauseDiagnosticInfoArray m)
     \<and> ContentFilterResultMessage_wf (EventFilterResult_whereClauseResult m)"

interpretation eventfilterresult_codec: codec EventFilterResult_opcUaBinaryEncode
  EventFilterResult_opcUaBinaryDecode EventFilterResult_wf
  by unfold_locales
     (simp add: EventFilterResult_opcUaBinaryEncode_def EventFilterResult_opcUaBinaryDecode_def
        EventFilterResult_wf_def codec_rt)

declare eventfilterresult_codec.dec_enc [codec_rt]

section \<open>Data change filter\<close>

text \<open>The value of the deadband is on the wire only when the filter looks at values and has a deadband.\<close>

record DataChangeFilter =
  DataChangeFilter_trigger :: u32
  DataChangeFilter_deadbandType :: u32
  DataChangeFilter_deadbandValue :: u64

definition DataChangeFilter_new :: DataChangeFilter where
  "DataChangeFilter_new = \<lparr>DataChangeFilter_trigger = 1, DataChangeFilter_deadbandType = 0,
     DataChangeFilter_deadbandValue = 0\<rparr>"

definition DataChangeFilter_opcUaBinaryEncode :: "DataChangeFilter \<Rightarrow> stream" where
  "DataChangeFilter_opcUaBinaryEncode this =
     OpcUaUInt32_encode (DataChangeFilter_trigger this)
     @ OpcUaUInt32_encode (DataChangeFilter_deadbandType this)
     @ (if DataChangeFilter_trigger this \<noteq> 0 \<and> DataChangeFilter_deadbandType this \<noteq> 0
        then OpcUaDouble_encode (DataChangeFilter_deadbandValue this) else [])"

definition DataChangeFilter_opcUaBinaryDecode :: "DataChangeFilter decoder" where
  "DataChangeFilter_opcUaBinaryDecode is = do {
     (t, is) \<leftarrow> OpcUaUInt32_decode is;
     (d, is) \<leftarrow> OpcUaUInt32_decode is;
     (v, is) \<leftarrow> (if t \<noteq> 0 \<and> d \<noteq> 0 then OpcUaDouble_decode is
                 else Some (DataChangeFilter_deadbandValue DataChangeFilter_new, is));
     Some (\<lparr>DataChangeFilter_trigger = t, DataChangeFilter_deadbandType = d,
            DataChangeFilter_deadbandValue = v\<rparr>, is) }"

definition DataChangeFilter_wf :: "DataChangeFilter \<Rightarrow> bool" where
  "DataChangeFilter_wf f \<longleftrightarrow>
     (DataChangeFilter_trigger f = 0 \<or> DataChangeFilter_deadbandType f = 0
        \<longrightarrow> DataChangeFilter_deadbandValue f = 0)"

interpretation datachangefilter_codec: codec DataChangeFilter_opcUaBinaryEncode
  DataChangeFilter_opcUaBinaryDecode DataChangeFilter_wf
  by unfold_locales
     (auto simp add: DataChangeFilter_opcUaBinaryEncode_def DataChangeFilter_opcUaBinaryDecode_def
        DataChangeFilter_wf_def DataChangeFilter_new_def codec_rt)

end
