(* ===== verification/Subscriptions.thy ===== *)
theory Subscriptions
  imports MonitorManager Acknowledgement SubscriptionMessages
begin

text \<open>
  Subscriptions of a session (\<^verbatim>\<open>ServiceSet/Subscription.cpp\<close>, \<^verbatim>\<open>SubscriptionManager.cpp\<close>) and the
  service in front of them (\<^verbatim>\<open>SubscriptionService.cpp\<close>).  A subscription publishes on its timer: it
  answers the oldest waiting publish request with the notifications of its items, or keeps the session
  alive, or ends when no request came for its lifetime.

  A publish transaction is one object from its arrival to its answer: its response is filled in place.
\<close>

section \<open>Publish transactions\<close>

datatype 'e Notification =
    EventNotificationList "'e EventFieldList OpcUaArray"
  | DataChangeNotification "'e MonitoredItemNotification OpcUaArray"

record 'e PublishResponse =
  pr_subscriptionId :: u32
  pr_availableSequenceNumbers :: "u32 OpcUaArray"
  pr_moreNotifications :: bool
  pr_sequenceNumber :: u32
  pr_publishTime :: nat
  pr_notificationData :: "'e Notification option OpcUaArray"
  pr_results :: "u32 OpcUaArray"

definition PublishResponse_new :: "'e PublishResponse" where
  "PublishResponse_new = \<lparr>pr_subscriptionId = 0, pr_availableSequenceNumbers = OpcUaArray_new 0 1,
     pr_moreNotifications = False, pr_sequenceNumber = 0, pr_publishTime = 0,
     pr_notificationData = OpcUaArray_new None 1, pr_results = OpcUaArray_new 0 1\<rparr>"

record 'e ServiceTransactionPublish =
  tp_transactionId :: nat
  tp_subscriptionAcknowledgements :: "(u32 \<times> u32) list"
  tp_response :: "'e PublishResponse"
  tp_statusCode :: u32

section \<open>Subscription\<close>

datatype PublishResult = NothingTodo | NeedAttention | SendPublish | SendPublishKeepalive | SubscriptionTimeout

record 'e Subscription =
  sub_subscriptionId :: u32
  sub_publishingInterval :: u64
  sub_lifetimeCount :: u32
  sub_actLifetimeCount :: u32
  sub_maxKeepAliveCount :: u32
  sub_actMaxKeepAliveCount :: u32
  sub_slotTimerElement :: ptr
  sub_monitorManager :: "'e MonitorManager"
  sub_acknowledgementManager :: "'e Notification AcknowledgementManager"

definition Subscription_uniqueSubscriptionId :: "'e World \<Rightarrow> u32 \<times> 'e World" where
  "Subscription_uniqueSubscriptionId w =
     (let w = w\<lparr>w_uniqueSubscriptionId := w_uniqueSubscriptionId w + 1\<rparr> in (w_uniqueSubscriptionId w, w))"

text \<open>The counters are set right after the construction.\<close>

definition Subscription_new :: "'e World \<Rightarrow> 'e Subscription \<times> 'e World" where
  "Subscription_new w =
     (let (i, w) = Subscription_uniqueSubscriptionId w;
          (e, w) = World_newElement w
      in (\<lparr>sub_subscriptionId = i, sub_publishingInterval = 0, sub_lifetimeCount = 0, sub_actLifetimeCount = 0,
           sub_maxKeepAliveCount = 0, sub_actMaxKeepAliveCount = 0, sub_slotTimerElement = e,
           sub_monitorManager = MonitorManager_new\<lparr>mm_subscriptionId := i\<rparr>,
           sub_acknowledgementManager = AcknowledgementManager_new\<rparr>, w))"

definition Subscription_setLifetimeCount :: "u32 \<Rightarrow> 'e Subscription \<Rightarrow> 'e Subscription" where
  "Subscription_setLifetimeCount n sub = sub\<lparr>sub_lifetimeCount := n, sub_actLifetimeCount := n\<rparr>"

definition Subscription_setMaxKeepAliveCount :: "u32 \<Rightarrow> 'e Subscription \<Rightarrow> 'e Subscription" where
  "Subscription_setMaxKeepAliveCount n sub = sub\<lparr>sub_maxKeepAliveCount := n, sub_actMaxKeepAliveCount := n\<rparr>"

definition Subscription_receiveAcknowledgement :: "u32 \<Rightarrow> 'e Subscription \<Rightarrow> u32 \<times> 'e Subscription" where
  "Subscription_receiveAcknowledgement n sub =
     (status_Success, sub\<lparr>sub_acknowledgementManager :=
        AcknowledgementManager_deleteNotification n (sub_acknowledgementManager sub)\<rparr>)"

text \<open>What \<^verbatim>\<open>publish\<close> does with the notifications it collected, for events and for data changes.\<close>

definition Subscription_notify ::
  "nat \<Rightarrow> 'e Notification \<Rightarrow> 'e ServiceTransactionPublish \<Rightarrow> 'e Subscription
     \<Rightarrow> 'e ServiceTransactionPublish \<times> 'e Subscription" where
  "Subscription_notify now notification trx sub =
     (let sub = sub\<lparr>sub_actMaxKeepAliveCount := sub_maxKeepAliveCount sub\<rparr>;
          (n, am) = AcknowledgementManager_nextSequenceNumber False (sub_acknowledgementManager sub);
          am = AcknowledgementManager_addNotification n notification am;
          r = tp_response trx;
          r = r\<lparr>pr_notificationData := snd (OpcUaArray_set 0 (Some notification) (pr_notificationData r)),
                pr_publishTime := now, pr_sequenceNumber := n, pr_subscriptionId := sub_subscriptionId sub,
                pr_moreNotifications := False,
                pr_availableSequenceNumbers :=
                  AcknowledgementManager_availableSequenceNumbers am (pr_availableSequenceNumbers r)\<rparr>
      in (trx\<lparr>tp_response := r\<rparr>, sub\<lparr>sub_acknowledgementManager := am\<rparr>))"

definition Subscription_createKeepalive ::
  "nat \<Rightarrow> 'e ServiceTransactionPublish \<Rightarrow> 'e Subscription \<Rightarrow> 'e ServiceTransactionPublish \<times> 'e Subscription" where
  "Subscription_createKeepalive now trx sub =
     (let (n, am) = AcknowledgementManager_nextSequenceNumber True (sub_acknowledgementManager sub);
          r = tp_response trx;
          r = r\<lparr>pr_publishTime := now, pr_sequenceNumber := n, pr_subscriptionId := sub_subscriptionId sub,
                pr_moreNotifications := False,
                pr_availableSequenceNumbers :=
                  AcknowledgementManager_availableSequenceNumbers am (pr_availableSequenceNumbers r)\<rparr>
      in (trx\<lparr>tp_response := r\<rparr>, sub\<lparr>sub_acknowledgementManager := am\<rparr>))"

text \<open>On the timer without a waiting request, and with one.\<close>

definition Subscription_publishNone :: "'e Subscription \<Rightarrow> PublishResult \<times> 'e Subscription" where
  "Subscription_publishNone sub =
     (let sub = sub\<lparr>sub_actLifetimeCount := sub_actLifetimeCount sub - 1\<rparr>
      in if sub_actLifetimeCount sub = 0 then (SubscriptionTimeout, sub)
         else if sub_actMaxKeepAliveCount sub = 0 then (NothingTodo, sub)
         else (let sub = sub\<lparr>sub_actMaxKeepAliveCount := sub_actMaxKeepAliveCount sub - 1\<rparr>
               in if sub_actMaxKeepAliveCount sub = 0 then (NeedAttention, sub) else (NothingTodo, sub)))"

definition Subscription_publishTrx ::
  "nat \<Rightarrow> 'e ServiceTransactionPublish \<Rightarrow> 'e Subscription
     \<Rightarrow> PublishResult \<times> 'e ServiceTransactionPublish \<times> 'e Subscription" where
  "Subscription_publishTrx now trx sub =
     (let sub = sub\<lparr>sub_actLifetimeCount := sub_lifetimeCount sub\<rparr>;
          (statusCode, mm, events) = MonitorManager_receiveEvents (sub_monitorManager sub)
             (OpcUaArray_new \<lparr>efl_clientHandle = 0, efl_eventFields = OpcUaArray_new None 1\<rparr> 1);
          sub = sub\<lparr>sub_monitorManager := mm\<rparr>
      in if OpcUaArray_size events > 0
         then (let (trx, sub) = Subscription_notify now (EventNotificationList events) trx sub
               in (if statusCode = status_BadOutOfMemory then NeedAttention else SendPublish, trx, sub))
         else
           (let (statusCode, mm, items) = MonitorManager_receiveItems (sub_monitorManager sub)
                  (OpcUaArray_new MonitoredItemNotification_new 1);
                sub = sub\<lparr>sub_monitorManager := mm\<rparr>
            in if OpcUaArray_size items > 0
               then (let (trx, sub) = Subscription_notify now (DataChangeNotification items) trx sub
                     in (if statusCode = status_BadOutOfMemory then NeedAttention else SendPublish, trx, sub))
               else
                 (let sub = sub\<lparr>sub_actMaxKeepAliveCount := sub_actMaxKeepAliveCount sub - 1\<rparr>
                  in if sub_actMaxKeepAliveCount sub = 0
                     then (let sub = sub\<lparr>sub_actMaxKeepAliveCount := sub_maxKeepAliveCount sub\<rparr>;
                               (trx, sub) = Subscription_createKeepalive now trx sub
                           in (SendPublishKeepalive, trx, sub))
                     else (NothingTodo, trx, sub))))"

definition Subscription_publish ::
  "nat \<Rightarrow> 'e ServiceTransactionPublish option \<Rightarrow> 'e Subscription
     \<Rightarrow> PublishResult \<times> 'e ServiceTransactionPublish option \<times> 'e Subscription" where
  "Subscription_publish now trx sub =
     (case trx of
        None \<Rightarrow> (let (result, sub) = Subscription_publishNone sub in (result, None, sub))
      | Some t \<Rightarrow> (let (result, t, sub) = Subscription_publishTrx now t sub in (result, Some t, sub)))"

section \<open>SubscriptionManager\<close>

text \<open>The operations return the publish transactions they answered, in order.\<close>

record 'e SubscriptionManager =
  sm_subscriptionMap :: "(u32, 'e Subscription) omap"
  sm_publishList :: "'e ServiceTransactionPublish list"
  sm_sessionId :: u32

definition SubscriptionManager_new :: "'e SubscriptionManager" where
  "SubscriptionManager_new = \<lparr>sm_subscriptionMap = [], sm_publishList = [], sm_sessionId = 0\<rparr>"

definition minLifetimeCount :: u32 where "minLifetimeCount = 2"
definition minMaxKeepAliveCount :: u32 where "minMaxKeepAliveCount = 2"

text \<open>
  The subscription is in the map before its parameters are set and its timer is started; both hold a
  shared pointer to it.
\<close>

definition SubscriptionManager_receiveCreate ::
  "CreateSubscriptionRequest \<Rightarrow> 'e SubscriptionManager \<Rightarrow> 'e World
     \<Rightarrow> (u32 \<times> CreateSubscriptionResponse \<times> 'e SubscriptionManager \<times> 'e World) option" where
  "SubscriptionManager_receiveCreate req sm w = do {
     let (sub, w) = Subscription_new w;
     let publishingInterval =
       (if dbl_less (CreateSubscriptionRequest_requestedPublishingInterval req) dbl_10 then dbl_10
        else CreateSubscriptionRequest_requestedPublishingInterval req);
     let sub = sub\<lparr>sub_publishingInterval := publishingInterval\<rparr>;
     let lifetimeCount =
       (if CreateSubscriptionRequest_requestedLifetimeCount req < minLifetimeCount then minLifetimeCount
        else CreateSubscriptionRequest_requestedLifetimeCount req);
     let sub = Subscription_setLifetimeCount lifetimeCount sub;
     let maxKeepAliveCount =
       (if CreateSubscriptionRequest_requestedMaxKeepAliveCount req < minMaxKeepAliveCount
        then minMaxKeepAliveCount
        else CreateSubscriptionRequest_requestedMaxKeepAliveCount req);
     let sub = Subscription_setMaxKeepAliveCount maxKeepAliveCount sub;
     let sm = sm\<lparr>sm_subscriptionMap := omap_insert (sub_subscriptionId sub) sub (sm_subscriptionMap sm)\<rparr>;
     interval \<leftarrow> dbl_to_u32 publishingInterval;
     let w = World_start (sub_slotTimerElement sub) interval
               (PublishTimeout (sm_sessionId sm) (sub_subscriptionId sub)) w;
     Some (status_Success,
           \<lparr>CreateSubscriptionResponse_subscriptionId = sub_subscriptionId sub,
            CreateSubscriptionResponse_revisedPublishingInterval = publishingInterval,
            CreateSubscriptionResponse_revisedLifetimeCount = lifetimeCount,
            CreateSubscriptionResponse_revisedMaxKeepAliveCount = maxKeepAliveCount\<rparr>, sm, w) }"

text \<open>
  A subscription is taken out of the map; with the callback of its timer gone this is the last pointer
  to it, and its destructor stops its items.
\<close>

definition SubscriptionManager_eraseSubscription ::
  "'e ServerEnv \<Rightarrow> u32 \<Rightarrow> 'e Subscription \<Rightarrow> 'e SubscriptionManager \<Rightarrow> 'e World
     \<Rightarrow> ('e SubscriptionManager \<times> 'e World) option" where
  "SubscriptionManager_eraseSubscription env i sub sm w = do {
     w \<leftarrow> World_stop (sub_slotTimerElement sub) w;
     let w = w\<lparr>w_callback := (w_callback w)(sub_slotTimerElement sub := None)\<rparr>;
     w \<leftarrow> MonitorManager_destroy env (sub_monitorManager sub) w;
     Some (sm\<lparr>sm_subscriptionMap := omap_erase i (sm_subscriptionMap sm)\<rparr>, w) }"

fun SubscriptionManager_deleteLoop ::
  "'e ServerEnv \<Rightarrow> u32 list \<Rightarrow> 'e SubscriptionManager \<Rightarrow> 'e World \<Rightarrow> ('e SubscriptionManager \<times> 'e World) option" where
  "SubscriptionManager_deleteLoop env [] sm w = Some (sm, w)"
| "SubscriptionManager_deleteLoop env (i # is) sm w = do {
     (sm, w) \<leftarrow> (case omap_find i (sm_subscriptionMap sm) of
                   None \<Rightarrow> Some (sm, w)
                 | Some sub \<Rightarrow> SubscriptionManager_eraseSubscription env i sub sm w);
     SubscriptionManager_deleteLoop env is sm w }"

definition SubscriptionManager_receiveDelete ::
  "'e ServerEnv \<Rightarrow> u32 list \<Rightarrow> 'e SubscriptionManager \<Rightarrow> 'e World
     \<Rightarrow> (u32 list \<times> 'e ServiceTransactionPublish list \<times> 'e SubscriptionManager \<times> 'e World) option" where
  "SubscriptionManager_receiveDelete env ids sm w = do {
     (sm, w) \<leftarrow> SubscriptionManager_deleteLoop env ids sm w;
     let results = replicate (length ids) status_Success;
     (if sm_subscriptionMap sm = []
      then Some (results, map (\<lambda>t. t\<lparr>tp_statusCode := status_BadNoSubscription\<rparr>) (sm_publishList sm),
                 sm\<lparr>sm_publishList := []\<rparr>, w)
      else Some (results, [], sm, w)) }"

definition SubscriptionManager_receiveAcknowledgement ::
  "u32 \<Rightarrow> u32 \<Rightarrow> 'e SubscriptionManager \<Rightarrow> u32 \<times> 'e SubscriptionManager" where
  "SubscriptionManager_receiveAcknowledgement i n sm =
     (case omap_find i (sm_subscriptionMap sm) of
        None \<Rightarrow> (status_BadNotFound, sm)
      | Some sub \<Rightarrow>
          (let (statusCode, sub) = Subscription_receiveAcknowledgement n sub
           in (statusCode, sm\<lparr>sm_subscriptionMap := omap_update i (\<lambda>_. sub) (sm_subscriptionMap sm)\<rparr>)))"

fun SubscriptionManager_acknowledgeAll ::
  "(u32 \<times> u32) list \<Rightarrow> nat \<Rightarrow> u32 OpcUaArray \<Rightarrow> 'e SubscriptionManager \<Rightarrow> u32 OpcUaArray \<times> 'e SubscriptionManager" where
  "SubscriptionManager_acknowledgeAll [] idx results sm = (results, sm)"
| "SubscriptionManager_acknowledgeAll ((i, n) # acks) idx results sm =
     (let (statusCode, sm) = SubscriptionManager_receiveAcknowledgement i n sm
      in SubscriptionManager_acknowledgeAll acks (Suc idx) (snd (OpcUaArray_set idx statusCode results)) sm)"

definition SubscriptionManager_receivePublish ::
  "'e ServiceTransactionPublish \<Rightarrow> 'e SubscriptionManager \<Rightarrow> u32 \<times> 'e SubscriptionManager" where
  "SubscriptionManager_receivePublish trx sm =
     (let acks = tp_subscriptionAcknowledgements trx;
          (trx, sm) =
            (if length acks > 0
             then (let (results, sm) = SubscriptionManager_acknowledgeAll acks 0
                         (OpcUaArray_resize 0 (length acks) (pr_results (tp_response trx))) sm
                   in (trx\<lparr>tp_response := (tp_response trx)\<lparr>pr_results := results\<rparr>\<rparr>, sm))
             else (trx, sm))
      in (status_Success, sm\<lparr>sm_publishList := sm_publishList sm @ [trx]\<rparr>))"

text \<open>On the timer of a subscription.  A request that is not answered stays at the front of the list.\<close>

definition SubscriptionManager_subscriptionPublishTimeout ::
  "'e ServerEnv \<Rightarrow> u32 \<Rightarrow> 'e SubscriptionManager \<Rightarrow> 'e World
     \<Rightarrow> ('e ServiceTransactionPublish list \<times> 'e SubscriptionManager \<times> 'e World) option" where
  "SubscriptionManager_subscriptionPublishTimeout env i sm w = do {
     subscription \<leftarrow> omap_find i (sm_subscriptionMap sm);
     let trx = (case sm_publishList sm of [] \<Rightarrow> None | t # _ \<Rightarrow> Some t);
     let (publishResult, trx, subscription) = Subscription_publish (w_now w) trx subscription;
     let sm = sm\<lparr>sm_subscriptionMap := omap_update i (\<lambda>_. subscription) (sm_subscriptionMap sm),
                 sm_publishList := (case trx of None \<Rightarrow> sm_publishList sm | Some t \<Rightarrow> t # tl (sm_publishList sm))\<rparr>;
     (case publishResult of
        NothingTodo \<Rightarrow> Some ([], sm, w)
      | NeedAttention \<Rightarrow> Some ([], sm, w)
      | SubscriptionTimeout \<Rightarrow> do {
          (sm, w) \<leftarrow> SubscriptionManager_eraseSubscription env i subscription sm w;
          Some ([], sm, w) }
      | _ \<Rightarrow> do {
          t \<leftarrow> trx;
          Some ([t\<lparr>tp_statusCode := status_Success\<rparr>], sm\<lparr>sm_publishList := tl (sm_publishList sm)\<rparr>, w) }) }"

text \<open>Requests about monitored items go to the manager of the subscription.\<close>

definition SubscriptionManager_monitorManager ::
  "u32 \<Rightarrow> ('e MonitorManager \<Rightarrow> ('r \<times> 'e MonitorManager \<times> 'e World) option) \<Rightarrow> 'e SubscriptionManager \<Rightarrow> 'e World
     \<Rightarrow> (u32 \<times> 'r option \<times> 'e SubscriptionManager \<times> 'e World) option" where
  "SubscriptionManager_monitorManager i f sm w =
     (case omap_find i (sm_subscriptionMap sm) of
        None \<Rightarrow> Some (status_BadSubscriptionIdInvalid, None, sm, w)
      | Some sub \<Rightarrow> do {
          (r, mm, w) \<leftarrow> f (sub_monitorManager sub);
          Some (status_Success, Some r,
            sm\<lparr>sm_subscriptionMap := omap_update i (\<lambda>sub. sub\<lparr>sub_monitorManager := mm\<rparr>) (sm_subscriptionMap sm)\<rparr>, w) })"

definition SubscriptionManager_receiveCreateMonitoredItems ::
  "'e ServerEnv \<Rightarrow> u32 \<Rightarrow> nat \<Rightarrow> 'e CreateItemRequest list \<Rightarrow> 'e SubscriptionManager \<Rightarrow> 'e World
     \<Rightarrow> (u32 \<times> MonitoredItemCreateResult list option \<times> 'e SubscriptionManager \<times> 'e World) option" where
  "SubscriptionManager_receiveCreateMonitoredItems env i userContext reqs sm w =
     SubscriptionManager_monitorManager i (\<lambda>mm. MonitorManager_receiveCreate env userContext reqs mm w) sm w"

definition SubscriptionManager_receiveDeleteMonitoredItems ::
  "'e ServerEnv \<Rightarrow> u32 \<Rightarrow> u32 list \<Rightarrow> 'e SubscriptionManager \<Rightarrow> 'e World
     \<Rightarrow> (u32 \<times> u32 OpcUaArray option \<times> 'e SubscriptionManager \<times> 'e World) option" where
  "SubscriptionManager_receiveDeleteMonitoredItems env i ids sm w =
     SubscriptionManager_monitorManager i (\<lambda>mm. MonitorManager_receiveDelete env ids mm w) sm w"

definition SubscriptionManager_receiveModifyMonitoredItems :: "u32 \<Rightarrow> 'e SubscriptionManager \<Rightarrow> u32" where
  "SubscriptionManager_receiveModifyMonitoredItems i sm =
     (case omap_find i (sm_subscriptionMap sm) of
        None \<Rightarrow> status_BadSubscriptionIdInvalid
      | Some sub \<Rightarrow> MonitorManager_receiveModify (sub_monitorManager sub))"

definition SubscriptionManager_receiveSetMonitoringMode :: "u32 \<Rightarrow> 'e SubscriptionManager \<Rightarrow> u32" where
  "SubscriptionManager_receiveSetMonitoringMode i sm =
     (case omap_find i (sm_subscriptionMap sm) of
        None \<Rightarrow> status_BadSubscriptionIdInvalid
      | Some sub \<Rightarrow> MonitorManager_receiveSetMonitoringMode (sub_monitorManager sub))"

definition SubscriptionManager_receiveSetTriggering :: "u32 \<Rightarrow> 'e SubscriptionManager \<Rightarrow> u32" where
  "SubscriptionManager_receiveSetTriggering i sm =
     (case omap_find i (sm_subscriptionMap sm) of
        None \<Rightarrow> status_BadSubscriptionIdInvalid
      | Some sub \<Rightarrow> MonitorManager_receiveSetTriggering (sub_monitorManager sub))"

end
