(* ===== verification/SubscriptionServer.thy ===== *)
theory SubscriptionServer
  imports Subscriptions Machine
begin

text \<open>
  \<^verbatim>\<open>SubscriptionService\<close>: the subscription managers of all sessions over the one server state.  The
  publish transactions that were answered are recorded with their session; they are the messages handed
  to the component session.

  The timers of subscriptions and monitored items call back with the element that expired.
\<close>

definition status_BadNothingToDo :: u32 where "status_BadNothingToDo = 0x800F0000"
definition status_BadInternalError :: u32 where "status_BadInternalError = 0x80020000"
definition status_BadMessageNotAvailable :: u32 where "status_BadMessageNotAvailable = 0x807B0000"

record 'e Server =
  sv_world :: "'e World"
  sv_managers :: "(u32, 'e SubscriptionManager) omap"
  sv_answered :: "(u32 \<times> 'e ServiceTransactionPublish) list"

definition Server_put :: "u32 \<Rightarrow> 'e SubscriptionManager \<Rightarrow> 'e World \<Rightarrow> 'e Server \<Rightarrow> 'e Server" where
  "Server_put session sm w sv =
     sv\<lparr>sv_world := w, sv_managers := omap_update session (\<lambda>_. sm) (sv_managers sv)\<rparr>"

definition Server_answer :: "u32 \<Rightarrow> 'e ServiceTransactionPublish list \<Rightarrow> 'e Server \<Rightarrow> 'e Server" where
  "Server_answer session ts sv = sv\<lparr>sv_answered := sv_answered sv @ map (Pair session) ts\<rparr>"

section \<open>Subscriptions\<close>

definition SubscriptionService_receiveCreateSubscription ::
  "u32 \<Rightarrow> CreateSubscriptionRequest \<Rightarrow> 'e Server \<Rightarrow> (u32 \<times> CreateSubscriptionResponse \<times> 'e Server) option" where
  "SubscriptionService_receiveCreateSubscription session req sv = do {
     let sv = (case omap_find session (sv_managers sv) of
                 None \<Rightarrow> sv\<lparr>sv_managers := omap_insert session
                            (SubscriptionManager_new\<lparr>sm_sessionId := session\<rparr>) (sv_managers sv)\<rparr>
               | Some _ \<Rightarrow> sv);
     sm \<leftarrow> omap_find session (sv_managers sv);
     (statusCode, response, sm, w) \<leftarrow> SubscriptionManager_receiveCreate req sm (sv_world sv);
     Some (statusCode, response, Server_put session sm w sv) }"

definition SubscriptionService_receiveDeleteSubscriptions ::
  "'e ServerEnv \<Rightarrow> u32 \<Rightarrow> u32 list \<Rightarrow> 'e Server \<Rightarrow> (u32 \<times> u32 list \<times> 'e Server) option" where
  "SubscriptionService_receiveDeleteSubscriptions env session ids sv =
     (case omap_find session (sv_managers sv) of
        None \<Rightarrow> Some (status_BadNothingToDo, [], sv)
      | Some sm \<Rightarrow> do {
          (results, answered, sm, w) \<leftarrow> SubscriptionManager_receiveDelete env ids sm (sv_world sv);
          let sv = Server_answer session answered (Server_put session sm w sv);
          let sv = (if sm_subscriptionMap sm = [] then sv\<lparr>sv_managers := omap_erase session (sv_managers sv)\<rparr> else sv);
          Some (status_Success, results, sv) })"

definition SubscriptionService_receivePublish ::
  "u32 \<Rightarrow> 'e ServiceTransactionPublish \<Rightarrow> 'e Server \<Rightarrow> 'e Server" where
  "SubscriptionService_receivePublish session trx sv =
     (case omap_find session (sv_managers sv) of
        None \<Rightarrow> Server_answer session [trx\<lparr>tp_statusCode := status_BadNothingToDo\<rparr>] sv
      | Some sm \<Rightarrow> Server_put session (snd (SubscriptionManager_receivePublish trx sm)) (sv_world sv) sv)"

definition SubscriptionService_receiveModifySubscription :: "'e Server \<Rightarrow> u32" where
  "SubscriptionService_receiveModifySubscription sv = status_BadInternalError"

definition SubscriptionService_receiveRepublish :: "'e Server \<Rightarrow> u32" where
  "SubscriptionService_receiveRepublish sv = status_BadMessageNotAvailable"

definition SubscriptionService_receiveSetPublishingMode :: "'e Server \<Rightarrow> u32" where
  "SubscriptionService_receiveSetPublishingMode sv = status_BadInternalError"

definition SubscriptionService_receiveTransferSubscriptions :: "'e Server \<Rightarrow> u32" where
  "SubscriptionService_receiveTransferSubscriptions sv = status_BadInternalError"

section \<open>Monitored items\<close>

definition SubscriptionService_receiveCreateMonitoredItems ::
  "'e ServerEnv \<Rightarrow> u32 \<Rightarrow> u32 \<Rightarrow> nat \<Rightarrow> 'e CreateItemRequest list \<Rightarrow> 'e Server
     \<Rightarrow> (u32 \<times> MonitoredItemCreateResult list option \<times> 'e Server) option" where
  "SubscriptionService_receiveCreateMonitoredItems env session i userContext reqs sv =
     (case omap_find session (sv_managers sv) of
        None \<Rightarrow> Some (status_BadSubscriptionIdInvalid, None, sv)
      | Some sm \<Rightarrow> do {
          (statusCode, r, sm, w) \<leftarrow>
            SubscriptionManager_receiveCreateMonitoredItems env i userContext reqs sm (sv_world sv);
          Some (statusCode, r, Server_put session sm w sv) })"

definition SubscriptionService_receiveDeleteMonitoredItems ::
  "'e ServerEnv \<Rightarrow> u32 \<Rightarrow> u32 \<Rightarrow> u32 list \<Rightarrow> 'e Server \<Rightarrow> (u32 \<times> u32 OpcUaArray option \<times> 'e Server) option" where
  "SubscriptionService_receiveDeleteMonitoredItems env session i ids sv =
     (case omap_find session (sv_managers sv) of
        None \<Rightarrow> Some (status_BadSubscriptionIdInvalid, None, sv)
      | Some sm \<Rightarrow> do {
          (statusCode, r, sm, w) \<leftarrow> SubscriptionManager_receiveDeleteMonitoredItems env i ids sm (sv_world sv);
          Some (statusCode, r, Server_put session sm w sv) })"

definition SubscriptionService_receiveModifyMonitoredItems :: "u32 \<Rightarrow> u32 \<Rightarrow> 'e Server \<Rightarrow> u32" where
  "SubscriptionService_receiveModifyMonitoredItems session i sv =
     (case omap_find session (sv_managers sv) of
        None \<Rightarrow> status_BadSubscriptionIdInvalid
      | Some sm \<Rightarrow> SubscriptionManager_receiveModifyMonitoredItems i sm)"

definition SubscriptionService_receiveSetMonitoringMode :: "u32 \<Rightarrow> u32 \<Rightarrow> 'e Server \<Rightarrow> u32" where
  "SubscriptionService_receiveSetMonitoringMode session i sv =
     (case omap_find session (sv_managers sv) of
        None \<Rightarrow> status_BadSubscriptionIdInvalid
      | Some sm \<Rightarrow> SubscriptionManager_receiveSetMonitoringMode i sm)"

definition SubscriptionService_receiveSetTriggering :: "u32 \<Rightarrow> u32 \<Rightarrow> 'e Server \<Rightarrow> u32" where
  "SubscriptionService_receiveSetTriggering session i sv =
     (case omap_find session (sv_managers sv) of
        None \<Rightarrow> status_BadSubscriptionIdInvalid
      | Some sm \<Rightarrow> SubscriptionManager_receiveSetTriggering i sm)"

section \<open>Timers\<close>

text \<open>A callback on a manager or an item that does not exist any more uses a dangling pointer.\<close>

definition Server_sessionOf :: "u32 \<Rightarrow> 'e Server \<Rightarrow> u32 option" where
  "Server_sessionOf i sv =
     map_option fst (find (\<lambda>(session, sm). omap_find i (sm_subscriptionMap sm) \<noteq> None) (sv_managers sv))"

definition Server_publishTimeout :: "'e ServerEnv \<Rightarrow> u32 \<Rightarrow> u32 \<Rightarrow> 'e Server \<Rightarrow> 'e Server option" where
  "Server_publishTimeout env session i sv = do {
     sm \<leftarrow> omap_find session (sv_managers sv);
     (answered, sm, w) \<leftarrow> SubscriptionManager_subscriptionPublishTimeout env i sm (sv_world sv);
     Some (Server_answer session answered (Server_put session sm w sv)) }"

definition Server_sampleTimeout :: "'e ServerEnv \<Rightarrow> u32 \<Rightarrow> u32 \<Rightarrow> 'e Server \<Rightarrow> 'e Server option" where
  "Server_sampleTimeout env i item sv = do {
     session \<leftarrow> Server_sessionOf i sv;
     sm \<leftarrow> omap_find session (sv_managers sv);
     sub \<leftarrow> omap_find i (sm_subscriptionMap sm);
     (mm, w) \<leftarrow> MonitorManager_sampleTimeout env item (sub_monitorManager sub) (sv_world sv);
     Some (Server_put session
       (sm\<lparr>sm_subscriptionMap := omap_update i (\<lambda>sub. sub\<lparr>sub_monitorManager := mm\<rparr>) (sm_subscriptionMap sm)\<rparr>) w sv) }"

definition Server_callback :: "'e ServerEnv \<Rightarrow> ptr \<Rightarrow> 'e Server \<Rightarrow> 'e Server option" where
  "Server_callback env e sv = do {
     callback \<leftarrow> w_callback (sv_world sv) e;
     (case callback of
        PublishTimeout session i \<Rightarrow> Server_publishTimeout env session i sv
      | SampleTimeout i item \<Rightarrow> Server_sampleTimeout env i item sv) }"

end
