(* ===== verification/Publishing.thy ===== *)
theory Publishing
  imports SubscriptionServer
begin

text \<open>
  What the subscription service promises over whole histories: the commands a server receives, and for
  every history that publish requests are answered in the order they came, each once.
\<close>

section \<open>Histories\<close>

text \<open>
  Requests of the sessions, the expiry of a timer element, and what the server only observes: the clock
  and the address space.
\<close>

datatype 'e ServerCommand =
    CreateSubscription u32 CreateSubscriptionRequest
  | DeleteSubscriptions u32 "u32 list"
  | Publish u32 "'e ServiceTransactionPublish"
  | CreateMonitoredItems u32 u32 nat "'e CreateItemRequest list"
  | DeleteMonitoredItems u32 u32 "u32 list"
  | TimerExpired ptr
  | ClockAt nat
  | AddressSpaceAs "'e InformationModel"

fun server_step :: "'e ServerEnv \<Rightarrow> 'e ServerCommand \<Rightarrow> 'e Server \<Rightarrow> 'e Server option" where
  "server_step env (CreateSubscription session req) sv =
     map_option (snd \<circ> snd) (SubscriptionService_receiveCreateSubscription session req sv)"
| "server_step env (DeleteSubscriptions session ids) sv =
     map_option (snd \<circ> snd) (SubscriptionService_receiveDeleteSubscriptions env session ids sv)"
| "server_step env (Publish session trx) sv = Some (SubscriptionService_receivePublish session trx sv)"
| "server_step env (CreateMonitoredItems session i userContext reqs) sv =
     map_option (snd \<circ> snd) (SubscriptionService_receiveCreateMonitoredItems env session i userContext reqs sv)"
| "server_step env (DeleteMonitoredItems session i ids) sv =
     map_option (snd \<circ> snd) (SubscriptionService_receiveDeleteMonitoredItems env session i ids sv)"
| "server_step env (TimerExpired e) sv = Server_callback env e sv"
| "server_step env (ClockAt t) sv = Some (sv\<lparr>sv_world := (sv_world sv)\<lparr>w_now := t\<rparr>\<rparr>)"
| "server_step env (AddressSpaceAs im) sv = Some (sv\<lparr>sv_world := (sv_world sv)\<lparr>w_informationModel := im\<rparr>\<rparr>)"

definition Server_new :: "'e World \<Rightarrow> 'e Server" where
  "Server_new w = \<lparr>sv_world = w, sv_managers = [], sv_answered = []\<rparr>"

section \<open>Publish requests\<close>

definition publish_ids :: "'e ServiceTransactionPublish list \<Rightarrow> nat list" where
  "publish_ids = map tp_transactionId"

definition answered_ids :: "u32 \<Rightarrow> 'e Server \<Rightarrow> nat list" where
  "answered_ids session sv = publish_ids (map snd (filter (\<lambda>a. fst a = session) (sv_answered sv)))"

definition waiting_ids :: "u32 \<Rightarrow> 'e Server \<Rightarrow> nat list" where
  "waiting_ids session sv =
     (case omap_find session (sv_managers sv) of None \<Rightarrow> [] | Some sm \<Rightarrow> publish_ids (sm_publishList sm))"

fun received_ids :: "u32 \<Rightarrow> 'e ServerCommand list \<Rightarrow> nat list" where
  "received_ids session [] = []"
| "received_ids session (Publish s trx # cs) =
     (if s = session then [tp_transactionId trx] else []) @ received_ids session cs"
| "received_ids session (_ # cs) = received_ids session cs"

lemma received_Cons: "received_ids session (c # cs) = received_ids session [c] @ received_ids session cs"
  by (cases c) auto

definition requests :: "u32 \<Rightarrow> 'e Server \<Rightarrow> nat list" where
  "requests session sv = answered_ids session sv @ waiting_ids session sv"

named_theorems publish_list \<open>what an operation does to the list of waiting publish requests\<close>

lemma ids_simps [simp]:
  "publish_ids [] = []" "publish_ids (t # ts) = tp_transactionId t # publish_ids ts"
  "publish_ids (ts @ us) = publish_ids ts @ publish_ids us"
  "publish_ids (map (\<lambda>t. t\<lparr>tp_statusCode := c\<rparr>) ts) = publish_ids ts"
  by (simp_all add: publish_ids_def)

lemma erase_publishList [publish_list]:
  "SubscriptionManager_eraseSubscription env i sub sm w = Some (sm', w')
     \<Longrightarrow> sm_publishList sm' = sm_publishList sm"
  by (auto simp: SubscriptionManager_eraseSubscription_def split: bind_splits)

lemma deleteLoop_publishList [publish_list]:
  "SubscriptionManager_deleteLoop env is sm w = Some (sm', w') \<Longrightarrow> sm_publishList sm' = sm_publishList sm"
  by (induction env "is" sm w rule: SubscriptionManager_deleteLoop.induct)
     (auto split: bind_splits option.splits dest: erase_publishList)

lemma delete_publishList [publish_list]:
  assumes "SubscriptionManager_receiveDelete env is sm w = Some (results, answered, sm', w')"
  shows "publish_ids answered @ publish_ids (sm_publishList sm') = publish_ids (sm_publishList sm)"
    and "sm_subscriptionMap sm' = [] \<Longrightarrow> sm_publishList sm' = []"
  using assms
  by (auto simp: SubscriptionManager_receiveDelete_def Let_def split: bind_splits if_splits
      dest!: deleteLoop_publishList)

lemma create_publishList [publish_list]:
  "SubscriptionManager_receiveCreate req sm w = Some (c, r, sm', w') \<Longrightarrow> sm_publishList sm' = sm_publishList sm"
  by (auto simp: SubscriptionManager_receiveCreate_def Let_def case_prod_beta split: bind_splits)

lemma monitorManager_publishList [publish_list]:
  "SubscriptionManager_monitorManager i f sm w = Some (c, r, sm', w') \<Longrightarrow> sm_publishList sm' = sm_publishList sm"
  by (auto simp: SubscriptionManager_monitorManager_def split: bind_splits option.splits)

lemma acknowledgement_publishList [publish_list]:
  "sm_publishList (snd (SubscriptionManager_receiveAcknowledgement i n sm)) = sm_publishList sm"
  by (simp add: SubscriptionManager_receiveAcknowledgement_def case_prod_beta split: option.splits)

lemma acknowledgeAll_publishList [publish_list]:
  "sm_publishList (snd (SubscriptionManager_acknowledgeAll acks idx results sm)) = sm_publishList sm"
  by (induction acks idx results sm rule: SubscriptionManager_acknowledgeAll.induct)
     (simp_all add: case_prod_beta acknowledgement_publishList)

lemma publish_publishList [publish_list]:
  "publish_ids (sm_publishList (snd (SubscriptionManager_receivePublish trx sm)))
     = publish_ids (sm_publishList sm) @ [tp_transactionId trx]"
  by (simp add: SubscriptionManager_receivePublish_def Let_def case_prod_beta acknowledgeAll_publishList)

lemma notify_transactionId [simp]:
  "tp_transactionId (fst (Subscription_notify now n trx sub)) = tp_transactionId trx"
  "tp_transactionId (fst (Subscription_createKeepalive now trx sub)) = tp_transactionId trx"
  by (simp_all add: Subscription_notify_def Subscription_createKeepalive_def Let_def case_prod_beta)

lemma publishTrx_transactionId [simp]:
  "tp_transactionId (fst (snd (Subscription_publishTrx now trx sub))) = tp_transactionId trx"
  by (simp add: Subscription_publishTrx_def Let_def case_prod_beta)

text \<open>The timer of a subscription answers no request, or the first one.\<close>

lemma publishNone_result:
  "fst (Subscription_publishNone sub) \<in> {SubscriptionTimeout, NothingTodo, NeedAttention}"
  by (simp add: Subscription_publishNone_def Let_def)

lemma publishTrx_result:
  "fst (Subscription_publishTrx now trx sub) \<in> {NothingTodo, NeedAttention, SendPublish, SendPublishKeepalive}"
  by (simp add: Subscription_publishTrx_def Let_def case_prod_beta)

lemma timeout_publishList [publish_list]:
  assumes "SubscriptionManager_subscriptionPublishTimeout env i sm w = Some (answered, sm', w')"
  shows "publish_ids answered @ publish_ids (sm_publishList sm') = publish_ids (sm_publishList sm)"
proof (cases "sm_publishList sm")
  case Nil
  obtain sub where "omap_find i (sm_subscriptionMap sm) = Some sub"
    using assms by (auto simp: SubscriptionManager_subscriptionPublishTimeout_def split: bind_splits)
  then show ?thesis
    using assms Nil publishNone_result [of sub]
    by (auto simp: SubscriptionManager_subscriptionPublishTimeout_def Subscription_publish_def case_prod_beta
        split: bind_splits dest!: erase_publishList)
next
  case (Cons t ts)
  obtain sub where "omap_find i (sm_subscriptionMap sm) = Some sub"
    using assms by (auto simp: SubscriptionManager_subscriptionPublishTimeout_def split: bind_splits)
  then show ?thesis
    using assms Cons publishTrx_result [of "w_now w" t sub]
    by (auto simp: SubscriptionManager_subscriptionPublishTimeout_def Subscription_publish_def case_prod_beta
        split: bind_splits dest!: erase_publishList)
qed

section \<open>The service\<close>

lemma answered_simps [simp]:
  "answered_ids s (Server_put session sm w sv) = answered_ids s sv"
  "answered_ids s (Server_answer session ts sv) = answered_ids s sv @ (if s = session then publish_ids ts else [])"
  "answered_ids s (sv\<lparr>sv_managers := ms\<rparr>) = answered_ids s sv"
  "answered_ids s (sv\<lparr>sv_world := w\<rparr>) = answered_ids s sv"
proof -
  have "filter (\<lambda>a. fst a = s) (map (Pair session) ts) = (if s = session then map (Pair session) ts else [])"
    by (induction ts) auto
  then show "answered_ids s (Server_answer session ts sv)
      = answered_ids s sv @ (if s = session then publish_ids ts else [])"
    by (simp add: answered_ids_def Server_answer_def comp_def)
qed (simp_all add: answered_ids_def Server_put_def)

lemma waiting_simps [simp]:
  "waiting_ids s (Server_answer session ts sv) = waiting_ids s sv"
  "waiting_ids s (sv\<lparr>sv_world := w\<rparr>) = waiting_ids s sv"
  by (simp_all add: waiting_ids_def Server_answer_def)

lemma waiting_put:
  "omap_find session (sv_managers sv) \<noteq> None \<Longrightarrow>
     waiting_ids s (Server_put session sm w sv)
       = (if s = session then publish_ids (sm_publishList sm) else waiting_ids s sv)"
  by (auto simp: waiting_ids_def Server_put_def omap_find_update)

lemma waiting_found:
  "omap_find session (sv_managers sv) = Some sm \<Longrightarrow> waiting_ids session sv = publish_ids (sm_publishList sm)"
  by (simp add: waiting_ids_def)

lemma put_managers [simp]:
  "omap_inv (sv_managers (Server_put session sm w sv)) = omap_inv (sv_managers sv)"
  "sv_managers (Server_answer session ts sv) = sv_managers sv"
  by (simp_all add: Server_put_def Server_answer_def)

text \<open>A step of a manager is one of the service when the requests of its session agree.\<close>

lemma put_requests:
  assumes "omap_find session (sv_managers sv) = Some sm"
    and "publish_ids ts @ publish_ids (sm_publishList sm') = publish_ids (sm_publishList sm) @ new"
  shows "requests s (Server_answer session ts (Server_put session sm' w sv))
           = requests s sv @ (if s = session then new else [])"
  using assms waiting_found [OF assms(1)] by (simp add: requests_def waiting_put)

lemma put_requests_same:
  assumes "omap_find session (sv_managers sv) = Some sm"
    and "sm_publishList sm' = sm_publishList sm"
  shows "requests s (Server_put session sm' w sv) = requests s sv"
  using assms waiting_found [OF assms(1)] by (simp add: requests_def waiting_put)

lemma create_step:
  assumes inv: "omap_inv (sv_managers sv)"
    and "SubscriptionService_receiveCreateSubscription session req sv = Some (c, r, sv')"
  shows "omap_inv (sv_managers sv') \<and> requests s sv' = requests s sv"
proof (cases "omap_find session (sv_managers sv)")
  case None
  define sv0 where "sv0 = sv\<lparr>sv_managers := omap_insert session
    (SubscriptionManager_new\<lparr>sm_sessionId := session\<rparr>) (sv_managers sv)\<rparr>"
  have found: "omap_find session (sv_managers sv0) = Some (SubscriptionManager_new\<lparr>sm_sessionId := session\<rparr>)"
    and inv0: "omap_inv (sv_managers sv0)"
    using None inv by (simp_all add: sv0_def omap_simps)
  have same: "requests s sv0 = requests s sv"
    using None inv by (auto simp: sv0_def requests_def waiting_ids_def omap_simps SubscriptionManager_new_def
        split: option.splits)
  obtain r' sm w where o: "SubscriptionManager_receiveCreate req (SubscriptionManager_new\<lparr>sm_sessionId := session\<rparr>)
      (sv_world sv0) = Some (c, r', sm, w)" "sv' = Server_put session sm w sv0"
    using assms(2) None found
    by (auto simp: SubscriptionService_receiveCreateSubscription_def sv0_def [symmetric] split: bind_splits)
  show ?thesis
    using put_requests_same [OF found create_publishList [OF o(1)]] inv0 same o(2) by simp
next
  case (Some sm0)
  obtain r' sm w where o: "SubscriptionManager_receiveCreate req sm0 (sv_world sv) = Some (c, r', sm, w)"
    "sv' = Server_put session sm w sv"
    using assms(2) Some
    by (auto simp: SubscriptionService_receiveCreateSubscription_def split: bind_splits)
  show ?thesis using put_requests_same [OF Some create_publishList [OF o(1)]] inv o(2) by simp
qed

lemma delete_step:
  assumes inv: "omap_inv (sv_managers sv)"
    and "SubscriptionService_receiveDeleteSubscriptions env session ids sv = Some (c, r, sv')"
  shows "omap_inv (sv_managers sv') \<and> requests s sv' = requests s sv"
proof (cases "omap_find session (sv_managers sv)")
  case None
  then show ?thesis using assms by (simp add: SubscriptionService_receiveDeleteSubscriptions_def)
next
  case (Some sm0)
  obtain results answered sm w where d:
    "SubscriptionManager_receiveDelete env ids sm0 (sv_world sv) = Some (results, answered, sm, w)"
    using assms(2) Some by (auto simp: SubscriptionService_receiveDeleteSubscriptions_def split: bind_splits)
  define sv1 where "sv1 = Server_answer session answered (Server_put session sm w sv)"
  have sv': "sv' = (if sm_subscriptionMap sm = []
      then sv1\<lparr>sv_managers := omap_erase session (sv_managers sv1)\<rparr> else sv1)"
    using assms(2) Some d
    by (auto simp: SubscriptionService_receiveDeleteSubscriptions_def sv1_def Let_def split: if_splits)
  have "publish_ids answered @ publish_ids (sm_publishList sm) = publish_ids (sm_publishList sm0) @ []"
    using delete_publishList(1) [OF d] by simp
  then have r1: "requests s sv1 = requests s sv"
    using put_requests [OF Some] by (simp add: sv1_def)
  have inv1: "omap_inv (sv_managers sv1)" and found: "omap_find session (sv_managers sv1) = Some sm"
    using inv Some by (auto simp: sv1_def Server_put_def Server_answer_def omap_find_update)
  have "waiting_ids s (sv1\<lparr>sv_managers := omap_erase session (sv_managers sv1)\<rparr>) = waiting_ids s sv1"
    if "sm_subscriptionMap sm = []"
    using delete_publishList(2) [OF d that] found by (auto simp: waiting_ids_def omap_simps)
  then show ?thesis using sv' r1 inv1 by (simp add: requests_def omap_simps)
qed

lemma items_step:
  assumes "(case omap_find session (sv_managers sv) of
        None \<Rightarrow> Some (c0, None, sv)
      | Some sm \<Rightarrow> do {
          (statusCode, r, sm, w) \<leftarrow> SubscriptionManager_monitorManager i f sm (sv_world sv);
          Some (statusCode, r, Server_put session sm w sv) }) = Some (c, r, sv')"
    and "omap_inv (sv_managers sv)"
  shows "omap_inv (sv_managers sv') \<and> requests s sv' = requests s sv"
  using assms by (auto split: bind_splits option.splits simp: put_requests_same dest!: monitorManager_publishList)

lemma publish_step:
  assumes "omap_inv (sv_managers sv)"
  shows "omap_inv (sv_managers (SubscriptionService_receivePublish session trx sv))
    \<and> requests s (SubscriptionService_receivePublish session trx sv)
        = requests s sv @ (if s = session then [tp_transactionId trx] else [])"
proof (cases "omap_find session (sv_managers sv)")
  case None
  then have "waiting_ids session sv = []" by (simp add: waiting_ids_def)
  then show ?thesis
    using None assms by (simp add: SubscriptionService_receivePublish_def requests_def)
next
  case (Some sm)
  then show ?thesis
    using assms put_requests [OF Some, of "[]" _ "[tp_transactionId trx]"] publish_publishList [of trx sm]
    by (simp add: SubscriptionService_receivePublish_def requests_def waiting_put waiting_found)
qed

lemma callback_step:
  assumes inv: "omap_inv (sv_managers sv)" and "Server_callback env e sv = Some sv'"
  shows "omap_inv (sv_managers sv') \<and> requests s sv' = requests s sv"
proof -
  have p: ?thesis if p: "Server_publishTimeout env session i sv = Some sv'" for session i
  proof -
    obtain sm0 answered sm w where o: "omap_find session (sv_managers sv) = Some sm0"
      "SubscriptionManager_subscriptionPublishTimeout env i sm0 (sv_world sv) = Some (answered, sm, w)"
      "sv' = Server_answer session answered (Server_put session sm w sv)"
      using p by (auto simp: Server_publishTimeout_def split: bind_splits)
    then show ?thesis
      using inv put_requests [OF o(1), of answered sm "[]"] timeout_publishList [OF o(2)] by simp
  qed
  have q: ?thesis if q: "Server_sampleTimeout env i item sv = Some sv'" for i item
  proof -
    obtain session sm0 mm w where o: "omap_find session (sv_managers sv) = Some sm0"
      "sv' = Server_put session (sm0\<lparr>sm_subscriptionMap :=
         omap_update i (\<lambda>sub. sub\<lparr>sub_monitorManager := mm\<rparr>) (sm_subscriptionMap sm0)\<rparr>) w sv"
      using q by (auto simp: Server_sampleTimeout_def split: bind_splits)
    then show ?thesis using inv put_requests_same [OF o(1)] by simp
  qed
  show ?thesis
    using assms(2) p q by (auto simp: Server_callback_def split: bind_splits TimerCallback.splits)
qed

lemma server_step_requests:
  assumes inv: "omap_inv (sv_managers sv)" and "server_step env c sv = Some sv'"
  shows "omap_inv (sv_managers sv') \<and> requests s sv' = requests s sv @ received_ids s [c]"
proof (cases c)
  case (CreateSubscription session req)
  then show ?thesis using assms create_step [OF inv] by auto
next
  case (DeleteSubscriptions session ids)
  then show ?thesis using assms delete_step [OF inv] by auto
next
  case (Publish session trx)
  then show ?thesis using assms publish_step [OF inv, of session trx s] by auto
next
  case (CreateMonitoredItems session i userContext reqs)
  then obtain r where "SubscriptionService_receiveCreateMonitoredItems env session i userContext reqs sv = Some (fst r, snd r, sv')"
    using assms(2) by auto
  from items_step [OF this [unfolded SubscriptionService_receiveCreateMonitoredItems_def
      SubscriptionManager_receiveCreateMonitoredItems_def] inv]
  show ?thesis using CreateMonitoredItems by simp
next
  case (DeleteMonitoredItems session i ids)
  then obtain r where "SubscriptionService_receiveDeleteMonitoredItems env session i ids sv = Some (fst r, snd r, sv')"
    using assms(2) by auto
  from items_step [OF this [unfolded SubscriptionService_receiveDeleteMonitoredItems_def
      SubscriptionManager_receiveDeleteMonitoredItems_def] inv]
  show ?thesis using DeleteMonitoredItems by simp
next
  case (TimerExpired e)
  then show ?thesis using assms callback_step [OF inv] by auto
qed (use assms in \<open>auto simp: requests_def waiting_ids_def\<close>)

lemma run_requests:
  "omap_inv (sv_managers sv) \<Longrightarrow> run_commands (server_step env) cs sv = Some sv'
     \<Longrightarrow> requests s sv' = requests s sv @ received_ids s cs"
proof (induction cs arbitrary: sv)
  case (Cons c cs)
  then obtain sv1 where "server_step env c sv = Some sv1" "run_commands (server_step env) cs sv1 = Some sv'"
    by (auto split: bind_splits)
  then show ?case
    using Cons.IH [of sv1] server_step_requests [OF Cons.prems(1), of env c sv1 s] received_Cons [of s c cs] by simp
qed simp

text \<open>
  A session whose last subscription ended on its timer keeps its manager: the service does not discard it,
  and nothing answers the requests that wait or still come.
\<close>

definition orphaned :: "u32 \<Rightarrow> 'e Server \<Rightarrow> bool" where
  "orphaned session sv \<longleftrightarrow>
     (case omap_find session (sv_managers sv) of None \<Rightarrow> False | Some sm \<Rightarrow> sm_subscriptionMap sm = [])"

fun creates_or_deletes :: "u32 \<Rightarrow> 'e ServerCommand \<Rightarrow> bool" where
  "creates_or_deletes session (CreateSubscription s req) \<longleftrightarrow> s = session"
| "creates_or_deletes session (DeleteSubscriptions s ids) \<longleftrightarrow> s = session"
| "creates_or_deletes session _ \<longleftrightarrow> False"

lemma managers_put:
  "omap_find s (sv_managers (Server_put session sm w sv))
     = (if s = session then map_option (\<lambda>_. sm) (omap_find s (sv_managers sv)) else omap_find s (sv_managers sv))"
  by (simp add: Server_put_def omap_find_update)

lemma orphaned_put:
  "orphaned s sv \<Longrightarrow> s = session \<longrightarrow> sm_subscriptionMap sm = [] \<Longrightarrow> orphaned s (Server_put session sm w sv)"
  by (auto simp: orphaned_def managers_put split: option.splits)

lemma orphaned_simps [simp]:
  "orphaned s (Server_answer session ts sv) = orphaned s sv"
  "orphaned s (sv\<lparr>sv_world := w\<rparr>) = orphaned s sv"
  by (simp_all add: orphaned_def)

lemma acknowledgeAll_empty:
  "sm_subscriptionMap sm = [] \<Longrightarrow> sm_subscriptionMap (snd (SubscriptionManager_acknowledgeAll acks idx results sm)) = []"
  by (induction acks idx results sm rule: SubscriptionManager_acknowledgeAll.induct)
     (simp_all add: case_prod_beta SubscriptionManager_receiveAcknowledgement_def omap_find_def)

lemma items_orphaned:
  assumes eq: "(case omap_find s (sv_managers sv) of
        None \<Rightarrow> Some (c0, None, sv)
      | Some sm \<Rightarrow> do {
          (statusCode, r, sm, w) \<leftarrow> SubscriptionManager_monitorManager i f sm (sv_world sv);
          Some (statusCode, r, Server_put s sm w sv) }) = Some (c, r, sv')"
    and orphan: "orphaned session sv"
  shows "orphaned session sv' \<and> answered_ids session sv' = answered_ids session sv"
proof (cases "omap_find s (sv_managers sv)")
  case None
  then show ?thesis using assms by simp
next
  case (Some sm)
  then obtain sm' w where o: "SubscriptionManager_monitorManager i f sm (sv_world sv) = Some (c, r, sm', w)"
    "sv' = Server_put s sm' w sv"
    using eq by (auto split: bind_splits)
  have "sm_subscriptionMap sm' = []" if "session = s"
  proof -
    have "sm_subscriptionMap sm = []" using that orphan Some by (simp add: orphaned_def)
    then show ?thesis using o(1) by (simp add: SubscriptionManager_monitorManager_def omap_find_def)
  qed
  then show ?thesis using o(2) orphan by (simp add: orphaned_put)
qed

lemma orphaned_step:
  assumes inv: "omap_inv (sv_managers sv)" and orphan: "orphaned session sv"
    and step: "server_step env c sv = Some sv'" and c: "\<not> creates_or_deletes session c"
  shows "orphaned session sv' \<and> answered_ids session sv' = answered_ids session sv"
proof (cases c)
  case (CreateSubscription s req)
  then have s: "s \<noteq> session" using c by auto
  define sv0 where "sv0 = (case omap_find s (sv_managers sv) of
      None \<Rightarrow> sv\<lparr>sv_managers := omap_insert s (SubscriptionManager_new\<lparr>sm_sessionId := s\<rparr>) (sv_managers sv)\<rparr>
    | Some _ \<Rightarrow> sv)"
  obtain sm w where sv': "sv' = Server_put s sm w sv0"
    using step CreateSubscription
    by (auto simp: SubscriptionService_receiveCreateSubscription_def sv0_def [symmetric] split: bind_splits)
  have "orphaned session sv0" "answered_ids session sv0 = answered_ids session sv"
    using orphan s inv by (auto simp: sv0_def orphaned_def omap_simps split: option.splits)
  then show ?thesis using s sv' orphaned_put [of session sv0 s] by simp
next
  case (DeleteSubscriptions s ids)
  then have s: "s \<noteq> session" using c by auto
  show ?thesis
  proof (cases "omap_find s (sv_managers sv)")
    case None
    then show ?thesis
      using step DeleteSubscriptions orphan by (simp add: SubscriptionService_receiveDeleteSubscriptions_def)
  next
    case (Some sm0)
    obtain answered sm w where o: "let sv1 = Server_answer s answered (Server_put s sm w sv)
        in sv' = (if sm_subscriptionMap sm = [] then sv1\<lparr>sv_managers := omap_erase s (sv_managers sv1)\<rparr> else sv1)"
      using step DeleteSubscriptions Some
      by (auto simp: SubscriptionService_receiveDeleteSubscriptions_def Let_def split: bind_splits if_splits)
    have "orphaned session (Server_put s sm w sv)" using orphan s by (simp add: orphaned_put)
    then show ?thesis
      using o s by (auto simp: Let_def orphaned_def omap_find_erase split: option.splits if_splits)
  qed
next
  case (Publish s trx)
  then have sv': "sv' = SubscriptionService_receivePublish s trx sv" using step by simp
  show ?thesis
  proof (cases "omap_find s (sv_managers sv)")
    case None
    then have "s \<noteq> session" using orphan by (auto simp: orphaned_def)
    then show ?thesis using None sv' orphan by (simp add: SubscriptionService_receivePublish_def)
  next
    case (Some sm)
    have "sm_subscriptionMap (snd (SubscriptionManager_receivePublish trx sm)) = []" if "s = session"
      using that Some orphan acknowledgeAll_empty [of sm]
      by (simp add: orphaned_def SubscriptionManager_receivePublish_def Let_def case_prod_beta)
    then show ?thesis
      using Some sv' orphan by (simp add: SubscriptionService_receivePublish_def orphaned_put)
  qed
next
  case (CreateMonitoredItems s i u reqs)
  then obtain r where "SubscriptionService_receiveCreateMonitoredItems env s i u reqs sv = Some (fst r, snd r, sv')"
    using step by auto
  from items_orphaned [OF this [unfolded SubscriptionService_receiveCreateMonitoredItems_def
      SubscriptionManager_receiveCreateMonitoredItems_def] orphan]
  show ?thesis .
next
  case (DeleteMonitoredItems s i ids)
  then obtain r where "SubscriptionService_receiveDeleteMonitoredItems env s i ids sv = Some (fst r, snd r, sv')"
    using step by auto
  from items_orphaned [OF this [unfolded SubscriptionService_receiveDeleteMonitoredItems_def
      SubscriptionManager_receiveDeleteMonitoredItems_def] orphan]
  show ?thesis .
next
  case (TimerExpired e)
  have p: ?thesis if p: "Server_publishTimeout env s i sv = Some sv'" for s i
  proof -
    obtain sm0 answered sm w where o: "omap_find s (sv_managers sv) = Some sm0"
      "SubscriptionManager_subscriptionPublishTimeout env i sm0 (sv_world sv) = Some (answered, sm, w)"
      "sv' = Server_answer s answered (Server_put s sm w sv)"
      using p by (auto simp: Server_publishTimeout_def split: bind_splits)
    have "sm_subscriptionMap sm0 \<noteq> []"
      using o(2) by (auto simp: SubscriptionManager_subscriptionPublishTimeout_def omap_find_def split: bind_splits)
    then have "s \<noteq> session" using orphan o(1) by (auto simp: orphaned_def)
    then show ?thesis using o(3) orphan by (simp add: orphaned_put)
  qed
  have q: ?thesis if q: "Server_sampleTimeout env i item sv = Some sv'" for i item
  proof -
    obtain s sm0 sub mm w where o: "omap_find s (sv_managers sv) = Some sm0"
      "omap_find i (sm_subscriptionMap sm0) = Some sub"
      "sv' = Server_put s (sm0\<lparr>sm_subscriptionMap :=
         omap_update i (\<lambda>sub. sub\<lparr>sub_monitorManager := mm\<rparr>) (sm_subscriptionMap sm0)\<rparr>) w sv"
      using q by (auto simp: Server_sampleTimeout_def split: bind_splits)
    then have "s \<noteq> session" using orphan by (auto simp: orphaned_def omap_find_def)
    then show ?thesis using o(3) orphan by (simp add: orphaned_put)
  qed
  show ?thesis
    using step TimerExpired p q by (auto simp: Server_callback_def split: bind_splits TimerCallback.splits)
qed (use step orphan in \<open>auto simp: orphaned_def\<close>)

lemma orphaned_run:
  assumes "omap_inv (sv_managers sv)" "orphaned session sv" "run_commands (server_step env) cs sv = Some sv'"
    and "\<forall>c\<in>set cs. \<not> creates_or_deletes session c"
  shows "answered_ids session sv' = answered_ids session sv"
  using assms
proof (induction cs arbitrary: sv)
  case (Cons c cs)
  then obtain sv1 where 1: "server_step env c sv = Some sv1" "run_commands (server_step env) cs sv1 = Some sv'"
    by (auto split: bind_splits)
  then show ?case
    using Cons.IH [of sv1] Cons.prems orphaned_step [OF Cons.prems(1,2) 1(1)] server_step_requests [OF Cons.prems(1) 1(1)]
    by simp
qed simp

text \<open>
  C5: for every history of the server, the publish requests of a session that were answered, followed by
  those that still wait, are the ones it sent, in the order it sent them: none is lost, answered twice or
  overtaken, also when subscriptions end, when requests come before there is a subscription and when the
  service discards the manager of a session.
\<close>

theorem publish_requests_in_order:
  assumes "run_commands (server_step env) cs (Server_new w) = Some sv"
  shows "answered_ids session sv @ waiting_ids session sv = received_ids session cs"
proof -
  have "requests session (Server_new w) = []"
    by (simp add: requests_def answered_ids_def waiting_ids_def Server_new_def omap_find_def)
  then show ?thesis
    using run_requests [OF _ assms, of session] by (simp add: requests_def Server_new_def)
qed


end
