(* ===== verification/SubscriptionLife.thy ===== *)
theory SubscriptionLife
  imports Publishing
begin

text \<open>
  What a subscription does on its timer: it hands over all queued notifications, keeps the session alive,
  and ends after its lifetime without a request.
\<close>

section \<open>Collecting notifications\<close>

definition item_queue :: "'e MonitorManager \<Rightarrow> 'e MonitoredItemNotification list" where
  "item_queue mm = concat (map (\<lambda>e. mi_list (snd e)) (mm_monitorItemMap mm))"

definition event_queue :: "'e MonitorManager \<Rightarrow> 'e EventFieldList list" where
  "event_queue mm = concat (map (\<lambda>e. ei_list (snd e)) (mm_eventItemMap mm))"

text \<open>The manager with its queues emptied.\<close>

definition items_drained :: "'e MonitorManager \<Rightarrow> 'e MonitorManager" where
  "items_drained mm = mm\<lparr>mm_monitorItemMap := map (\<lambda>(i, mi). (i, mi\<lparr>mi_list := []\<rparr>)) (mm_monitorItemMap mm)\<rparr>"

definition events_drained :: "'e MonitorManager \<Rightarrow> 'e MonitorManager" where
  "events_drained mm = mm\<lparr>mm_eventItemMap := map (\<lambda>(i, ei). (i, ei\<lparr>ei_list := []\<rparr>)) (mm_eventItemMap mm)\<rparr>"

lemma drain_all:
  assumes "OpcUaArray_inv a" "length q \<le> OpcUaArray_freeSize a"
  obtains a' where "drain_queue (OpcUaArray_freeSize a) q a = (status_Success, [], a')"
    "OpcUaArray_inv a'" "OpcUaArray_list a' = OpcUaArray_list a @ q"
    "OpcUaArray_freeSize a' = OpcUaArray_freeSize a - length q"
proof -
  obtain s q' a' where d: "drain_queue (OpcUaArray_freeSize a) q a = (s, q', a')"
    by (cases "drain_queue (OpcUaArray_freeSize a) q a") auto
  note l = drain_queue_list [OF assms(1) d]
  have "q' = []" using d drain_queue_spec [OF assms(1), of q] assms(2) by simp
  then show ?thesis using that d l assms(2) by simp
qed

lemma collect_items:
  assumes "OpcUaArray_inv a" "length (concat (map (\<lambda>e. mi_list (snd e)) mis)) \<le> OpcUaArray_freeSize a"
  shows "\<exists>a'. MonitorManager_collectItems mis a
        = (status_Success, map (\<lambda>(i, mi). (i, mi\<lparr>mi_list := []\<rparr>)) mis, a')
      \<and> OpcUaArray_inv a' \<and> OpcUaArray_list a' = OpcUaArray_list a @ concat (map (\<lambda>e. mi_list (snd e)) mis)"
  using assms
proof (induction mis arbitrary: a)
  case (Cons e mis)
  obtain i mi where e: "e = (i, mi)" by (cases e)
  have "length (mi_list mi) \<le> OpcUaArray_freeSize a" using Cons.prems(2) e by simp
  then obtain a1 where d: "drain_queue (OpcUaArray_freeSize a) (mi_list mi) a = (status_Success, [], a1)"
    and a1: "OpcUaArray_inv a1" "OpcUaArray_list a1 = OpcUaArray_list a @ mi_list mi"
    and free: "OpcUaArray_freeSize a1 = OpcUaArray_freeSize a - length (mi_list mi)"
    by (rule drain_all [OF Cons.prems(1)])
  have "length (concat (map (\<lambda>e. mi_list (snd e)) mis)) \<le> OpcUaArray_freeSize a1"
    using Cons.prems(2) e free by simp
  from Cons.IH [OF a1(1) this] show ?case
    using d a1(2) by (auto simp: e MonitorItem_receiveArray_def status_defs)
qed simp

lemma collect_events:
  assumes "OpcUaArray_inv a" "length (concat (map (\<lambda>e. ei_list (snd e)) eis)) \<le> OpcUaArray_freeSize a"
  shows "\<exists>a'. MonitorManager_collectEvents eis a
        = (status_Success, map (\<lambda>(i, ei). (i, ei\<lparr>ei_list := []\<rparr>)) eis, a')
      \<and> OpcUaArray_inv a' \<and> OpcUaArray_list a' = OpcUaArray_list a @ concat (map (\<lambda>e. ei_list (snd e)) eis)"
  using assms
proof (induction eis arbitrary: a)
  case (Cons e eis)
  obtain i ei where e: "e = (i, ei)" by (cases e)
  have "length (ei_list ei) \<le> OpcUaArray_freeSize a" using Cons.prems(2) e by simp
  then obtain a1 where d: "drain_queue (OpcUaArray_freeSize a) (ei_list ei) a = (status_Success, [], a1)"
    and a1: "OpcUaArray_inv a1" "OpcUaArray_list a1 = OpcUaArray_list a @ ei_list ei"
    and free: "OpcUaArray_freeSize a1 = OpcUaArray_freeSize a - length (ei_list ei)"
    by (rule drain_all [OF Cons.prems(1)])
  have "length (concat (map (\<lambda>e. ei_list (snd e)) eis)) \<le> OpcUaArray_freeSize a1"
    using Cons.prems(2) e free by simp
  from Cons.IH [OF a1(1) this] show ?case
    using d a1(2) by (auto simp: e EventItem_receiveArray_def status_defs)
qed simp

text \<open>The 32-bit sum of the lengths is the length of the whole queue, when that fits.\<close>

lemma sum_lengths:
  "fold (\<lambda>e n. n + word_of_nat (length (f e))) es (word_of_nat k :: u32)
     = word_of_nat (k + length (concat (map f es)))"
proof (induction es arbitrary: k)
  case (Cons e es)
  then show ?case using Cons.IH [of "k + length (f e)"] by (simp add: add.assoc)
qed simp

lemma count_fits:
  assumes "length q < 2 ^ 32"
  shows "unat (word_of_nat (length q) :: u32) = length q" "(word_of_nat (length q) :: u32) = 0 \<longleftrightarrow> q = []"
proof -
  show u: "unat (word_of_nat (length q) :: u32) = length q" using assms by (simp add: unat_of_nat)
  then show "(word_of_nat (length q) :: u32) = 0 \<longleftrightarrow> q = []" by (metis length_0_conv unat_eq_zero)
qed

lemma receive_items:
  assumes "length (item_queue mm) < 2 ^ 32" "OpcUaArray_inv a" "OpcUaArray_list a = []"
  shows "\<exists>a'. MonitorManager_receiveItems mm a
        = (status_Success, if item_queue mm = [] then mm else items_drained mm, a')
      \<and> OpcUaArray_inv a' \<and> OpcUaArray_list a' = item_queue mm"
proof -
  have n: "MonitorManager_noticicationNumber mm = word_of_nat (length (item_queue mm))"
    using sum_lengths [of "\<lambda>e. mi_list (snd e)" "mm_monitorItemMap mm" 0]
    by (simp add: MonitorManager_noticicationNumber_def item_queue_def)
  let ?a = "OpcUaArray_resize MonitoredItemNotification_new (length (item_queue mm)) a"
  obtain a' where "MonitorManager_collectItems (mm_monitorItemMap mm) ?a
        = (status_Success, map (\<lambda>(i, mi). (i, mi\<lparr>mi_list := []\<rparr>)) (mm_monitorItemMap mm), a')"
      "OpcUaArray_inv a'" "OpcUaArray_list a' = item_queue mm"
    using collect_items [of ?a "mm_monitorItemMap mm"] by (auto simp: item_queue_def)
  then show ?thesis
    using n count_fits [OF assms(1)] assms(2,3)
    by (auto simp: MonitorManager_receiveItems_def items_drained_def)
qed

lemma receive_events:
  assumes "length (event_queue mm) < 2 ^ 32" "OpcUaArray_inv a" "OpcUaArray_list a = []"
  shows "\<exists>a'. MonitorManager_receiveEvents mm a
        = (status_Success, if event_queue mm = [] then mm else events_drained mm, a')
      \<and> OpcUaArray_inv a' \<and> OpcUaArray_list a' = event_queue mm"
proof -
  have n: "fold (\<lambda>e n. n + word_of_nat (length (ei_list (snd e)))) (mm_eventItemMap mm) (0 :: u32)
      = word_of_nat (length (event_queue mm))"
    using sum_lengths [of "\<lambda>e. ei_list (snd e)" "mm_eventItemMap mm" 0] by (simp add: event_queue_def)
  let ?a = "OpcUaArray_resize \<lparr>efl_clientHandle = 0, efl_eventFields = OpcUaArray_new None 1\<rparr>
     (length (event_queue mm)) a"
  obtain a' where "MonitorManager_collectEvents (mm_eventItemMap mm) ?a
        = (status_Success, map (\<lambda>(i, ei). (i, ei\<lparr>ei_list := []\<rparr>)) (mm_eventItemMap mm), a')"
      "OpcUaArray_inv a'" "OpcUaArray_list a' = event_queue mm"
    using collect_events [of ?a "mm_eventItemMap mm"] by (auto simp: event_queue_def)
  then show ?thesis
    using n count_fits [OF assms(1)] assms(2,3)
    by (auto simp: MonitorManager_receiveEvents_def events_drained_def)
qed

section \<open>The timer with a waiting request\<close>

lemma drained_queues [simp]:
  "item_queue (items_drained mm) = []" "event_queue (items_drained mm) = event_queue mm"
  "event_queue (events_drained mm) = []" "item_queue (events_drained mm) = item_queue mm"
  by (simp_all add: item_queue_def event_queue_def items_drained_def events_drained_def comp_def case_prod_beta)

lemma array_size: "OpcUaArray_inv a \<Longrightarrow> 0 < OpcUaArray_size a \<longleftrightarrow> OpcUaArray_list a \<noteq> []"
  by (simp add: size_list)

text \<open>The notification that goes out next: the events when there are any, else the data changes.\<close>

definition next_notification :: "'e MonitorManager \<Rightarrow> 'e Notification \<Rightarrow> bool" where
  "next_notification mm n \<longleftrightarrow>
     (case n of
        EventNotificationList a \<Rightarrow> event_queue mm \<noteq> [] \<and> OpcUaArray_list a = event_queue mm
      | DataChangeNotification a \<Rightarrow>
          event_queue mm = [] \<and> item_queue mm \<noteq> [] \<and> OpcUaArray_list a = item_queue mm)"

definition without_notification :: "'e MonitorManager \<Rightarrow> 'e MonitorManager" where
  "without_notification mm = (if event_queue mm \<noteq> [] then events_drained mm else items_drained mm)"

lemma publishTrx_notify:
  assumes ev: "length (event_queue (sub_monitorManager sub)) < 2 ^ 32"
    and it: "length (item_queue (sub_monitorManager sub)) < 2 ^ 32"
    and some: "event_queue (sub_monitorManager sub) \<noteq> [] \<or> item_queue (sub_monitorManager sub) \<noteq> []"
  obtains n where "next_notification (sub_monitorManager sub) n"
    "Subscription_publishTrx now trx sub
       = (let (trx, sub) = Subscription_notify now n trx
             (sub\<lparr>sub_actLifetimeCount := sub_lifetimeCount sub,
                  sub_monitorManager := without_notification (sub_monitorManager sub)\<rparr>)
          in (SendPublish, trx, sub))"
proof -
  let ?mm = "sub_monitorManager sub"
  obtain a where a: "MonitorManager_receiveEvents ?mm
      (OpcUaArray_new \<lparr>efl_clientHandle = 0, efl_eventFields = OpcUaArray_new None 1\<rparr> 1)
        = (status_Success, if event_queue ?mm = [] then ?mm else events_drained ?mm, a)"
      "OpcUaArray_inv a" "OpcUaArray_list a = event_queue ?mm"
    using receive_events [OF ev] by (metis inv_new list_new)
  obtain b where b: "MonitorManager_receiveItems ?mm (OpcUaArray_new MonitoredItemNotification_new 1)
        = (status_Success, if item_queue ?mm = [] then ?mm else items_drained ?mm, b)"
      "OpcUaArray_inv b" "OpcUaArray_list b = item_queue ?mm"
    using receive_items [OF it] by (metis inv_new list_new)
  have ok: "status_Success \<noteq> status_BadOutOfMemory" by (simp add: status_defs)
  show ?thesis
  proof (cases "event_queue ?mm = []")
    case True
    show ?thesis
      by (rule that [of "DataChangeNotification b"])
         (use True a b some ok in \<open>simp_all add: next_notification_def Subscription_publishTrx_def Let_def
            array_size without_notification_def\<close>)
  next
    case False
    show ?thesis
      by (rule that [of "EventNotificationList a"])
         (use False a ok in \<open>simp_all add: next_notification_def Subscription_publishTrx_def Let_def
            array_size without_notification_def\<close>)
  qed
qed

lemma publishTrx_idle:
  assumes "event_queue (sub_monitorManager sub) = []" "item_queue (sub_monitorManager sub) = []"
  shows "Subscription_publishTrx now trx sub
     = (let sub = sub\<lparr>sub_actLifetimeCount := sub_lifetimeCount sub,
                      sub_actMaxKeepAliveCount := sub_actMaxKeepAliveCount sub - 1\<rparr>
        in if sub_actMaxKeepAliveCount sub = 0
           then (let (trx, sub) = Subscription_createKeepalive now trx
                       (sub\<lparr>sub_actMaxKeepAliveCount := sub_maxKeepAliveCount sub\<rparr>)
                 in (SendPublishKeepalive, trx, sub))
           else (NothingTodo, trx, sub))"
proof -
  let ?mm = "sub_monitorManager sub"
  have l: "length (event_queue ?mm) < 2 ^ 32" "length (item_queue ?mm) < 2 ^ 32" using assms by simp_all
  obtain a where a: "MonitorManager_receiveEvents ?mm
      (OpcUaArray_new \<lparr>efl_clientHandle = 0, efl_eventFields = OpcUaArray_new None 1\<rparr> 1)
        = (status_Success, ?mm, a)" "OpcUaArray_inv a" "OpcUaArray_list a = []"
    using receive_events [OF l(1) inv_new list_new, unfolded assms(1)] by auto
  obtain b where b: "MonitorManager_receiveItems ?mm (OpcUaArray_new MonitoredItemNotification_new 1)
        = (status_Success, ?mm, b)" "OpcUaArray_inv b" "OpcUaArray_list b = []"
    using receive_items [OF l(2) inv_new list_new, unfolded assms(2)] by auto
  have "\<not> 0 < OpcUaArray_size a" "\<not> 0 < OpcUaArray_size b" using a b by (simp_all add: size_list)
  then show ?thesis
    using a(1) b(1) by (simp add: Subscription_publishTrx_def Let_def)
qed

text \<open>What goes out with a notification.\<close>

lemma notify_response:
  assumes "numbering (sub_acknowledgementManager sub) n"
    and "pr_notificationData (tp_response trx) = OpcUaArray_new None 1"
    and "Subscription_notify now x trx sub = (trx', sub')"
    and "am_maxListSize (sub_acknowledgementManager sub) = 20"
  shows "OpcUaArray_list (pr_notificationData (tp_response trx')) = [Some x]"
    and "pr_sequenceNumber (tp_response trx') = seq_succ n"
    and "pr_subscriptionId (tp_response trx') = sub_subscriptionId sub"
    and "numbering (sub_acknowledgementManager sub') (seq_succ n)"
    and "OpcUaArray_list (pr_availableSequenceNumbers (tp_response trx'))
           = map ae_sequenceNumber (am_list (sub_acknowledgementManager sub'))"
    and "\<lparr>ae_sequenceNumber = seq_succ n, ae_notification = x\<rparr> \<in> set (am_list (sub_acknowledgementManager sub'))"
    and "sub_monitorManager sub' = sub_monitorManager sub"
    and "tp_transactionId trx' = tp_transactionId trx"
proof -
  let ?am = "sub_acknowledgementManager sub"
  let ?next = "AcknowledgementManager_nextSequenceNumber False ?am"
  let ?el = "\<lparr>ae_sequenceNumber = seq_succ n, ae_notification = x\<rparr>"
  define am where "am = AcknowledgementManager_addNotification (fst ?next) x (snd ?next)"
  note nx = next_number [OF assms(1), of False]
  have am: "am_list am = (if am_maxListSize ?am \<noteq> 0 \<and> Suc (length (am_list ?am)) > unat (am_maxListSize ?am)
      then tl (am_list ?am @ [?el]) else am_list ?am @ [?el])" "numbering am (seq_succ n)"
    using nx by (auto simp: am_def AcknowledgementManager_addNotification_def Let_def numbering_def)
  have r: "trx' = trx\<lparr>tp_response := (tp_response trx)
        \<lparr>pr_notificationData := snd (OpcUaArray_set 0 (Some x) (pr_notificationData (tp_response trx))),
         pr_publishTime := now, pr_sequenceNumber := seq_succ n, pr_subscriptionId := sub_subscriptionId sub,
         pr_moreNotifications := False,
         pr_availableSequenceNumbers :=
           AcknowledgementManager_availableSequenceNumbers am (pr_availableSequenceNumbers (tp_response trx))\<rparr>\<rparr>"
    "sub' = sub\<lparr>sub_actMaxKeepAliveCount := sub_maxKeepAliveCount sub, sub_acknowledgementManager := am\<rparr>"
    using assms(3) nx(1) by (auto simp: Subscription_notify_def Let_def case_prod_beta am_def)
  show "OpcUaArray_list (pr_notificationData (tp_response trx')) = [Some x]"
    using assms(2) r(1) by (simp add: OpcUaArray_list_def OpcUaArray_set_def OpcUaArray_new_def OpcUaArray_initArray_def)
  show "pr_sequenceNumber (tp_response trx') = seq_succ n"
    and "pr_subscriptionId (tp_response trx') = sub_subscriptionId sub"
    and "numbering (sub_acknowledgementManager sub') (seq_succ n)"
    and "sub_monitorManager sub' = sub_monitorManager sub" "tp_transactionId trx' = tp_transactionId trx"
    using r am by simp_all
  show in_list: "?el \<in> set (am_list (sub_acknowledgementManager sub'))"
    using r(2) am(1) assms(4) by (cases "am_list ?am") auto
  then have "am_list am \<noteq> []" using r(2) by auto
  then show "OpcUaArray_list (pr_availableSequenceNumbers (tp_response trx'))
      = map ae_sequenceNumber (am_list (sub_acknowledgementManager sub'))"
    using r available_list by simp
qed

section \<open>The timer of a subscription, once and again and again\<close>

lemma timeout_notifies:
  assumes found: "omap_find i (sm_subscriptionMap sm) = Some sub" and wait: "sm_publishList sm = t # ts"
    and "length (event_queue (sub_monitorManager sub)) < 2 ^ 32"
    and "length (item_queue (sub_monitorManager sub)) < 2 ^ 32"
    and "event_queue (sub_monitorManager sub) \<noteq> [] \<or> item_queue (sub_monitorManager sub) \<noteq> []"
  obtains x t' sub' where "next_notification (sub_monitorManager sub) x"
    "Subscription_notify (w_now w) x t (sub\<lparr>sub_actLifetimeCount := sub_lifetimeCount sub,
        sub_monitorManager := without_notification (sub_monitorManager sub)\<rparr>) = (t', sub')"
    "SubscriptionManager_subscriptionPublishTimeout env i sm w =
       Some ([t'\<lparr>tp_statusCode := status_Success\<rparr>],
             sm\<lparr>sm_subscriptionMap := omap_update i (\<lambda>_. sub') (sm_subscriptionMap sm), sm_publishList := ts\<rparr>, w)"
proof -
  obtain x where x: "next_notification (sub_monitorManager sub) x"
    "Subscription_publishTrx (w_now w) t sub
       = (let (trx, sub) = Subscription_notify (w_now w) x t
             (sub\<lparr>sub_actLifetimeCount := sub_lifetimeCount sub,
                  sub_monitorManager := without_notification (sub_monitorManager sub)\<rparr>)
          in (SendPublish, trx, sub))"
    by (rule publishTrx_notify [OF assms(3-5)])
  obtain t' sub' where n: "Subscription_notify (w_now w) x t (sub\<lparr>sub_actLifetimeCount := sub_lifetimeCount sub,
        sub_monitorManager := without_notification (sub_monitorManager sub)\<rparr>) = (t', sub')" by fastforce
  show ?thesis
    by (rule that [OF x(1) n])
       (simp add: SubscriptionManager_subscriptionPublishTimeout_def found wait Subscription_publish_def x(2) n)
qed

fun SubscriptionManager_timeouts ::
  "'e ServerEnv \<Rightarrow> u32 \<Rightarrow> nat \<Rightarrow> 'e SubscriptionManager \<Rightarrow> 'e World
     \<Rightarrow> ('e ServiceTransactionPublish list \<times> 'e SubscriptionManager \<times> 'e World) option" where
  "SubscriptionManager_timeouts env i 0 sm w = Some ([], sm, w)"
| "SubscriptionManager_timeouts env i (Suc n) sm w = do {
     (answered, sm, w) \<leftarrow> SubscriptionManager_subscriptionPublishTimeout env i sm w;
     (more, sm, w) \<leftarrow> SubscriptionManager_timeouts env i n sm w;
     Some (answered @ more, sm, w) }"

text \<open>The number of steps a 32-bit counter that is decremented takes to reach zero: from zero, all.\<close>

definition countdown :: "u32 \<Rightarrow> nat" where
  "countdown c = (if c = 0 then 2 ^ 32 else unat c)"

lemma countdown_Suc: "countdown c = Suc n \<longleftrightarrow> unat (c - 1) = n"
proof (cases "c = 0")
  case True
  have "unat (0 - 1 :: u32) = 2 ^ 32 - 1" by (simp add: unsigned_minus_1_eq_mask mask_eq_exp_minus_1)
  then show ?thesis using True by (auto simp: countdown_def)
next
  case False
  then have "unat c = Suc (unat (c - 1))" by (simp add: unat_minus_one unat_gt_0)
  then show ?thesis using False by (simp add: countdown_def)
qed

lemma countdown_step: "countdown c = Suc n \<Longrightarrow> c - 1 = 0 \<longleftrightarrow> n = 0"
  by (metis countdown_Suc unat_eq_zero)

lemma countdown_next: "countdown c = Suc n \<Longrightarrow> n \<noteq> 0 \<Longrightarrow> countdown (c - 1) = n"
  using countdown_Suc [of c n] by (auto simp: countdown_def)

text \<open>An idle subscription with a waiting request counts down to the next keepalive message.\<close>

definition idle :: "'e Subscription \<Rightarrow> bool" where
  "idle sub \<longleftrightarrow> event_queue (sub_monitorManager sub) = [] \<and> item_queue (sub_monitorManager sub) = []"

definition counted :: "u32 \<Rightarrow> u32 \<Rightarrow> u32 \<Rightarrow> 'e SubscriptionManager \<Rightarrow> 'e SubscriptionManager" where
  "counted i keepalive lifetime sm = sm\<lparr>sm_subscriptionMap :=
     omap_update i (\<lambda>sub. sub\<lparr>sub_actMaxKeepAliveCount := keepalive, sub_actLifetimeCount := lifetime\<rparr>)
       (sm_subscriptionMap sm)\<rparr>"

lemma omap_update_twice: "omap_update i g (omap_update i f m) = omap_update i (g \<circ> f) m"
  by (simp add: omap_update_def case_prod_beta comp_def)

lemma omap_update_found: "omap_inv m \<Longrightarrow> omap_find i m = Some v \<Longrightarrow> omap_update i (\<lambda>_. f v) m = omap_update i f m"
  by (auto simp: omap_update_def dest!: omap_find_mem)

lemma omap_update_same:
  assumes "omap_inv m" "omap_find i m = Some v" "f v = v"
  shows "omap_update i f m = m"
proof -
  have "w = v" if "(i, w) \<in> set m" for w using omap_find_mem [OF assms(1) that] assms(2) by simp
  then show ?thesis unfolding omap_update_def using assms(3) by (intro map_idI) auto
qed

lemma counted_twice [simp]: "counted i k l (counted i k' l' sm) = counted i k l sm"
  by (simp add: counted_def omap_update_twice comp_def)

lemma counted_frame [simp]:
  "sm_publishList (counted i k l sm) = sm_publishList sm"
  "omap_inv (sm_subscriptionMap (counted i k l sm)) = omap_inv (sm_subscriptionMap sm)"
  "omap_find i (sm_subscriptionMap sm) = Some sub \<Longrightarrow> omap_find i (sm_subscriptionMap (counted i k l sm))
     = Some (sub\<lparr>sub_actMaxKeepAliveCount := k, sub_actLifetimeCount := l\<rparr>)"
  "idle (sub\<lparr>sub_actMaxKeepAliveCount := k, sub_actLifetimeCount := l\<rparr>) = idle sub"
  by (simp_all add: counted_def omap_find_update idle_def)

lemma timeout_idle:
  assumes inv: "omap_inv (sm_subscriptionMap sm)" and found: "omap_find i (sm_subscriptionMap sm) = Some sub"
    and wait: "sm_publishList sm = t # ts" and "idle sub" and "sub_actMaxKeepAliveCount sub - 1 \<noteq> 0"
  shows "SubscriptionManager_subscriptionPublishTimeout env i sm w =
     Some ([], counted i (sub_actMaxKeepAliveCount sub - 1) (sub_lifetimeCount sub) sm, w)"
proof -
  let ?f = "\<lambda>k l sub. sub\<lparr>sub_actMaxKeepAliveCount := k, sub_actLifetimeCount := l\<rparr>"
  let ?k = "sub_actMaxKeepAliveCount sub - 1" and ?l = "sub_lifetimeCount sub"
  have p: "Subscription_publish (w_now w) (Some t) sub = (NothingTodo, Some t, ?f ?k ?l sub)"
    using publishTrx_idle [of sub] assms(4,5) by (simp add: Subscription_publish_def idle_def Let_def)
  have "sm\<lparr>sm_subscriptionMap := omap_update i (\<lambda>_. ?f ?k ?l sub) (sm_subscriptionMap sm), sm_publishList := t # ts\<rparr>
      = counted i ?k ?l sm"
    using omap_update_found [OF inv found, of "?f ?k ?l"] wait by (simp add: counted_def)
  then show ?thesis
    using found wait p by (simp add: SubscriptionManager_subscriptionPublishTimeout_def)
qed

lemma timeouts_idle:
  assumes "omap_inv (sm_subscriptionMap sm)" "omap_find i (sm_subscriptionMap sm) = Some sub"
    and "sm_publishList sm = t # ts" and "idle sub" and "k < countdown (sub_actMaxKeepAliveCount sub)"
  shows "\<exists>c l. SubscriptionManager_timeouts env i k sm w = Some ([], counted i c l sm, w)
      \<and> countdown c = countdown (sub_actMaxKeepAliveCount sub) - k"
  using assms
proof (induction k arbitrary: sm sub)
  case 0
  have "counted i (sub_actMaxKeepAliveCount sub) (sub_actLifetimeCount sub) sm = sm"
    using omap_update_same [OF 0(1,2)] by (simp add: counted_def)
  then show ?case by (metis SubscriptionManager_timeouts.simps(1) diff_zero)
next
  case (Suc k)
  obtain n where n: "countdown (sub_actMaxKeepAliveCount sub) = Suc n" "k < n"
    using Suc.prems(5) by (cases "countdown (sub_actMaxKeepAliveCount sub)") auto
  let ?c = "sub_actMaxKeepAliveCount sub - 1" and ?l = "sub_lifetimeCount sub"
  have c: "?c \<noteq> 0" "countdown ?c = n" using countdown_step [OF n(1)] countdown_next [OF n(1)] n(2) by auto
  from timeout_idle [OF Suc.prems(1-4) c(1), of env w]
    Suc.IH [of "counted i ?c ?l sm" "sub\<lparr>sub_actMaxKeepAliveCount := ?c, sub_actLifetimeCount := ?l\<rparr>"]
  show ?case using Suc.prems c n by auto
qed

text \<open>Without a waiting request the lifetime runs out.\<close>

lemma timeout_without_request:
  assumes inv: "omap_inv (sm_subscriptionMap sm)" and found: "omap_find i (sm_subscriptionMap sm) = Some sub"
    and wait: "sm_publishList sm = []"
  shows "SubscriptionManager_subscriptionPublishTimeout env i sm w =
     (if sub_actLifetimeCount sub - 1 = 0
      then (let sub' = sub\<lparr>sub_actLifetimeCount := 0\<rparr>
            in map_option (Pair []) (SubscriptionManager_eraseSubscription env i sub'
                 (counted i (sub_actMaxKeepAliveCount sub) 0 sm) w))
      else Some ([], counted i (sub_actMaxKeepAliveCount sub - (if sub_actMaxKeepAliveCount sub = 0 then 0 else 1))
                       (sub_actLifetimeCount sub - 1) sm, w))"
proof -
  have upd: "omap_update i (\<lambda>_. sub\<lparr>sub_actMaxKeepAliveCount := k, sub_actLifetimeCount := l\<rparr>) (sm_subscriptionMap sm)
      = omap_update i (\<lambda>sub. sub\<lparr>sub_actMaxKeepAliveCount := k, sub_actLifetimeCount := l\<rparr>) (sm_subscriptionMap sm)" for k l
    using omap_update_found [OF inv found, of "\<lambda>sub. sub\<lparr>sub_actMaxKeepAliveCount := k, sub_actLifetimeCount := l\<rparr>"] .
  have pl: "sm\<lparr>sm_subscriptionMap := m, sm_publishList := []\<rparr> = sm\<lparr>sm_subscriptionMap := m\<rparr>" for m
    using wait by simp
  show ?thesis
  proof (cases "sub_actLifetimeCount sub - 1 = 0")
    case True
    let ?sub = "sub\<lparr>sub_actLifetimeCount := 0\<rparr>"
    have p: "Subscription_publish (w_now w) None sub = (SubscriptionTimeout, None, ?sub)"
      using True by (simp add: Subscription_publish_def Subscription_publishNone_def Let_def)
    have "(\<lambda>_. sub\<lparr>sub_actMaxKeepAliveCount := sub_actMaxKeepAliveCount sub, sub_actLifetimeCount := 0\<rparr>) = (\<lambda>_. ?sub)"
      by simp
    then have "omap_update i (\<lambda>_. ?sub) (sm_subscriptionMap sm)
        = sm_subscriptionMap (counted i (sub_actMaxKeepAliveCount sub) 0 sm)"
      using upd [of 0 "sub_actMaxKeepAliveCount sub"] by (simp add: counted_def)
    then have "sm\<lparr>sm_subscriptionMap := omap_update i (\<lambda>_. ?sub) (sm_subscriptionMap sm)\<rparr>
        = counted i (sub_actMaxKeepAliveCount sub) 0 sm" by (simp add: counted_def)
    moreover have pl2: "(counted i k l sm)\<lparr>sm_publishList := []\<rparr> = counted i k l sm" for k l
      using wait by (simp add: counted_def)
    ultimately show ?thesis
      using True found wait p
      by (cases "SubscriptionManager_eraseSubscription env i ?sub (counted i (sub_actMaxKeepAliveCount sub) 0 sm) w")
         (auto simp: SubscriptionManager_subscriptionPublishTimeout_def Let_def pl2)
  next
    case False
    define r where "r = fst (Subscription_publishNone sub)"
    have r: "r \<in> {NothingTodo, NeedAttention}"
      using False by (simp add: r_def Subscription_publishNone_def Let_def)
    have "snd (Subscription_publishNone sub) =
        sub\<lparr>sub_actMaxKeepAliveCount := sub_actMaxKeepAliveCount sub - (if sub_actMaxKeepAliveCount sub = 0 then 0 else 1),
            sub_actLifetimeCount := sub_actLifetimeCount sub - 1\<rparr>"
      using False by (simp add: Subscription_publishNone_def Let_def)
    then have p: "Subscription_publish (w_now w) None sub = (r, None,
        sub\<lparr>sub_actMaxKeepAliveCount := sub_actMaxKeepAliveCount sub - (if sub_actMaxKeepAliveCount sub = 0 then 0 else 1),
            sub_actLifetimeCount := sub_actLifetimeCount sub - 1\<rparr>)"
      by (simp add: Subscription_publish_def r_def case_prod_beta)
    show ?thesis
      using False found wait p upd r
      by (auto simp: SubscriptionManager_subscriptionPublishTimeout_def counted_def Let_def pl)
  qed
qed

lemma timeouts_without_request:
  assumes "omap_inv (sm_subscriptionMap sm)" "omap_find i (sm_subscriptionMap sm) = Some sub"
    and "sm_publishList sm = []" and "k < countdown (sub_actLifetimeCount sub)"
  shows "\<exists>c l. SubscriptionManager_timeouts env i k sm w = Some ([], counted i c l sm, w)
      \<and> countdown l = countdown (sub_actLifetimeCount sub) - k"
  using assms
proof (induction k arbitrary: sm sub)
  case 0
  have "counted i (sub_actMaxKeepAliveCount sub) (sub_actLifetimeCount sub) sm = sm"
    using omap_update_same [OF 0(1,2)] by (simp add: counted_def)
  then show ?case by (metis SubscriptionManager_timeouts.simps(1) diff_zero)
next
  case (Suc k)
  obtain n where n: "countdown (sub_actLifetimeCount sub) = Suc n" "k < n"
    using Suc.prems(4) by (cases "countdown (sub_actLifetimeCount sub)") auto
  let ?l = "sub_actLifetimeCount sub - 1"
    and ?c = "sub_actMaxKeepAliveCount sub - (if sub_actMaxKeepAliveCount sub = 0 then 0 else 1)"
  have c: "?l \<noteq> 0" "countdown ?l = n" using countdown_step [OF n(1)] countdown_next [OF n(1)] n(2) by auto
  from timeout_without_request [OF Suc.prems(1-3), of env w]
    Suc.IH [of "counted i ?c ?l sm" "sub\<lparr>sub_actMaxKeepAliveCount := ?c, sub_actLifetimeCount := ?l\<rparr>"]
  show ?case using Suc.prems c n by auto
qed

text \<open>Ending a subscription stops its timer and those of its items, and always succeeds.\<close>

lemma World_stop_total:
  assumes "SlotTimer_inv (w_slotTimer w)"
  shows "\<exists>w'. World_stop e w = Some w' \<and> SlotTimer_inv (w_slotTimer w')
    \<and> SlotTimer_pending (w_slotTimer w') = SlotTimer_pending (w_slotTimer w) - {e}
    \<and> w' = w\<lparr>w_slotTimer := w_slotTimer w'\<rparr>"
proof (cases "e \<in> SlotTimer_pending (w_slotTimer w)")
  case True
  then show ?thesis using stop_running [OF assms True] by (auto simp: World_stop_def)
next
  case False
  then show ?thesis using assms invD(7) [OF assms, of e] by (auto simp: World_stop_def SlotTimer_stop_def)
qed

lemma forwardStop_total:
  assumes "im_heap (w_informationModel w) p \<noteq> None"
  shows "\<exists>mm' w'. MonitorManager_forwardStopMonitoredItem env u p i mm w = Some (mm', w')
    \<and> w_slotTimer w' = w_slotTimer w \<and> mm_monitorItemMap mm' = mm_monitorItemMap mm
    \<and> mm_eventItemMap mm' = mm_eventItemMap mm"
  using assms
  by (auto simp: MonitorManager_forwardStopMonitoredItem_def World_forward_def Let_def split: option.splits)

lemma stopMonitorItem_total:
  assumes "SlotTimer_inv (w_slotTimer w)"
  shows "\<exists>mm' w'. MonitorManager_stopMonitorItem env i mi mm w = Some (mm', w') \<and> SlotTimer_inv (w_slotTimer w')
    \<and> SlotTimer_pending (w_slotTimer w') = SlotTimer_pending (w_slotTimer w) - {mi_slotTimerElement mi}
    \<and> mm_monitorItemMap mm' = mm_monitorItemMap mm \<and> mm_eventItemMap mm' = mm_eventItemMap mm"
proof (cases "im_heap (w_informationModel w) (mi_node mi)")
  case None
  then show ?thesis
    using World_stop_total [OF assms, of "mi_slotTimerElement mi"] by (auto simp: MonitorManager_stopMonitorItem_def)
next
  case (Some node)
  then obtain mm' w1 where f: "MonitorManager_forwardStopMonitoredItem env (mi_userContext mi) (mi_node mi) i mm w = Some (mm', w1)"
    "w_slotTimer w1 = w_slotTimer w" "mm_monitorItemMap mm' = mm_monitorItemMap mm" "mm_eventItemMap mm' = mm_eventItemMap mm"
    using forwardStop_total by blast
  then show ?thesis
    using World_stop_total [of w1 "mi_slotTimerElement mi"] assms Some
    by (auto simp: MonitorManager_stopMonitorItem_def)
qed

lemma stopAll_total:
  assumes "SlotTimer_inv (w_slotTimer w)"
  shows "\<exists>mm' w'. MonitorManager_stopAll env mis mm w = Some (mm', w') \<and> SlotTimer_inv (w_slotTimer w')
    \<and> SlotTimer_pending (w_slotTimer w') = SlotTimer_pending (w_slotTimer w) - mi_slotTimerElement ` snd ` set mis"
  using assms
proof (induction mis arbitrary: mm w)
  case (Cons e mis)
  obtain i mi where e: "e = (i, mi)" by (cases e)
  obtain mm1 w1 where 1: "MonitorManager_stopMonitorItem env i mi mm w = Some (mm1, w1)" "SlotTimer_inv (w_slotTimer w1)"
    "SlotTimer_pending (w_slotTimer w1) = SlotTimer_pending (w_slotTimer w) - {mi_slotTimerElement mi}"
    using stopMonitorItem_total [OF Cons.prems] by blast
  obtain mm2 w2 where 2: "MonitorManager_stopAll env mis mm1 w1 = Some (mm2, w2)" "SlotTimer_inv (w_slotTimer w2)"
    "SlotTimer_pending (w_slotTimer w2) = SlotTimer_pending (w_slotTimer w1) - mi_slotTimerElement ` snd ` set mis"
    using Cons.IH [OF 1(2)] by blast
  show ?case using 1 2 e by auto
qed simp

lemma forward_slotTimer [simp]: "w_slotTimer (World_forward c w) = w_slotTimer w"
  by (simp add: World_forward_def)

lemma forward_all [simp]:
  "w_slotTimer (fold (\<lambda>e w. if b then World_forward (f e) w else w) es w) = w_slotTimer w"
  by (induction es arbitrary: w) auto

lemma destroy_total:
  assumes "SlotTimer_inv (w_slotTimer w)"
  shows "\<exists>w'. MonitorManager_destroy env mm w = Some w' \<and> SlotTimer_inv (w_slotTimer w')
    \<and> SlotTimer_pending (w_slotTimer w') =
        SlotTimer_pending (w_slotTimer w) - mi_slotTimerElement ` snd ` set (mm_monitorItemMap mm)"
proof -
  obtain mm1 w1 where "MonitorManager_stopAll env (mm_monitorItemMap mm) mm w = Some (mm1, w1)"
    "SlotTimer_inv (w_slotTimer w1)" "SlotTimer_pending (w_slotTimer w1) =
        SlotTimer_pending (w_slotTimer w) - mi_slotTimerElement ` snd ` set (mm_monitorItemMap mm)"
    using stopAll_total [OF assms] by blast
  then show ?thesis by (simp add: MonitorManager_destroy_def Let_def)
qed

definition sub_elements :: "'e Subscription \<Rightarrow> ptr set" where
  "sub_elements sub = insert (sub_slotTimerElement sub)
     (mi_slotTimerElement ` snd ` set (mm_monitorItemMap (sub_monitorManager sub)))"

lemma erase_total:
  assumes "SlotTimer_inv (w_slotTimer w)"
  shows "\<exists>w'. SubscriptionManager_eraseSubscription env i sub sm w =
      Some (sm\<lparr>sm_subscriptionMap := omap_erase i (sm_subscriptionMap sm)\<rparr>, w')
    \<and> SlotTimer_inv (w_slotTimer w')
    \<and> SlotTimer_pending (w_slotTimer w') = SlotTimer_pending (w_slotTimer w) - sub_elements sub"
proof -
  let ?e = "sub_slotTimerElement sub"
  obtain w1 where 1: "World_stop ?e w = Some w1" "SlotTimer_inv (w_slotTimer w1)"
    "SlotTimer_pending (w_slotTimer w1) = SlotTimer_pending (w_slotTimer w) - {?e}"
    using World_stop_total [OF assms] by blast
  obtain w2 where 2: "MonitorManager_destroy env (sub_monitorManager sub)
      (w1\<lparr>w_callback := (w_callback w1)(?e := None)\<rparr>) = Some w2" "SlotTimer_inv (w_slotTimer w2)"
    "SlotTimer_pending (w_slotTimer w2) = SlotTimer_pending (w_slotTimer w1)
       - mi_slotTimerElement ` snd ` set (mm_monitorItemMap (sub_monitorManager sub))"
    using destroy_total [of "w1\<lparr>w_callback := (w_callback w1)(?e := None)\<rparr>" env "sub_monitorManager sub"] 1(2) by auto
  show ?thesis
    using 1 2 by (auto simp: SubscriptionManager_eraseSubscription_def sub_elements_def)
qed

lemma timeouts_Suc:
  "SubscriptionManager_timeouts env i (Suc n) sm w = do {
     (answered, sm, w) \<leftarrow> SubscriptionManager_timeouts env i n sm w;
     (more, sm, w) \<leftarrow> SubscriptionManager_subscriptionPublishTimeout env i sm w;
     Some (answered @ more, sm, w) }"
proof (induction n arbitrary: sm w)
  case 0
  then show ?case
    by (cases "SubscriptionManager_subscriptionPublishTimeout env i sm w") auto
next
  case (Suc n)
  show ?case
    by (subst SubscriptionManager_timeouts.simps(2), subst Suc.IH)
       (cases "SubscriptionManager_subscriptionPublishTimeout env i sm w"; auto simp: Option.bind_assoc split: bind_splits)
qed

lemma timeout_keepalive:
  assumes inv: "omap_inv (sm_subscriptionMap sm)" and found: "omap_find i (sm_subscriptionMap sm) = Some sub"
    and wait: "sm_publishList sm = t # ts" and "idle sub" and last: "sub_actMaxKeepAliveCount sub - 1 = 0"
    and num: "numbering (sub_acknowledgementManager sub) n"
  shows "\<exists>t' sm' sub'. SubscriptionManager_subscriptionPublishTimeout env i sm w = Some ([t'], sm', w)
     \<and> tp_transactionId t' = tp_transactionId t \<and> tp_statusCode t' = status_Success
     \<and> pr_notificationData (tp_response t') = pr_notificationData (tp_response t)
     \<and> pr_sequenceNumber (tp_response t') = seq_succ n \<and> pr_subscriptionId (tp_response t') = sub_subscriptionId sub
     \<and> sm_publishList sm' = ts \<and> omap_find i (sm_subscriptionMap sm') = Some sub'
     \<and> sub_actMaxKeepAliveCount sub' = sub_maxKeepAliveCount sub \<and> numbering (sub_acknowledgementManager sub') n"
proof -
  let ?sub = "sub\<lparr>sub_actLifetimeCount := sub_lifetimeCount sub, sub_actMaxKeepAliveCount := sub_maxKeepAliveCount sub\<rparr>"
  obtain t' sub' where k: "Subscription_createKeepalive (w_now w) t ?sub = (t', sub')" by fastforce
  have p: "Subscription_publish (w_now w) (Some t) sub = (SendPublishKeepalive, Some t', sub')"
    using publishTrx_idle [of sub "w_now w" t] assms(4) last k
    by (simp add: Subscription_publish_def idle_def Let_def)
  note nx = next_number [OF num, of True]
  have r: "tp_transactionId t' = tp_transactionId t"
     "pr_notificationData (tp_response t') = pr_notificationData (tp_response t)"
     "pr_sequenceNumber (tp_response t') = seq_succ n" "pr_subscriptionId (tp_response t') = sub_subscriptionId sub"
     "sub_actMaxKeepAliveCount sub' = sub_maxKeepAliveCount sub" "numbering (sub_acknowledgementManager sub') n"
    using k nx by (auto simp: Subscription_createKeepalive_def Let_def case_prod_beta)
  show ?thesis
    using found wait p r
    by (simp add: SubscriptionManager_subscriptionPublishTimeout_def omap_find_update)
qed

text \<open>Event items are deleted without a result.\<close>

lemma delete_event_items:
  assumes "distinct ids" "\<forall>i\<in>set ids. omap_find i (mm_monitorItemMap mm) = None \<and> omap_find i (mm_eventItemMap mm) \<noteq> None"
  shows "\<exists>mm' w'. MonitorManager_deleteLoop env idx ids results mm w = Some (results, mm', w')
     \<and> mm_monitorItemMap mm' = mm_monitorItemMap mm
     \<and> (\<forall>i. omap_find i (mm_eventItemMap mm') = (if i \<in> set ids then None else omap_find i (mm_eventItemMap mm)))"
  using assms
proof (induction ids arbitrary: idx mm w)
  case (Cons i ids)
  obtain ei where "omap_find i (mm_monitorItemMap mm) = None" "omap_find i (mm_eventItemMap mm) = Some ei"
    using Cons.prems(2) by auto
  then obtain w1 where d: "MonitorManager_deleteItem env i mm w =
      Some (False, mm\<lparr>mm_eventItemMap := omap_erase i (mm_eventItemMap mm)\<rparr>, w1)"
    by (simp add: MonitorManager_deleteItem_def Let_def)
  let ?mm = "mm\<lparr>mm_eventItemMap := omap_erase i (mm_eventItemMap mm)\<rparr>"
  have "\<forall>j\<in>set ids. omap_find j (mm_monitorItemMap ?mm) = None \<and> omap_find j (mm_eventItemMap ?mm) \<noteq> None"
    using Cons.prems by (auto simp: omap_find_erase)
  then obtain mm' w' where "MonitorManager_deleteLoop env (Suc idx) ids results ?mm w1 = Some (results, mm', w')"
     "mm_monitorItemMap mm' = mm_monitorItemMap ?mm"
     "\<forall>j. omap_find j (mm_eventItemMap mm') = (if j \<in> set ids then None else omap_find j (mm_eventItemMap ?mm))"
    using Cons.IH [of ?mm "Suc idx" w1] Cons.prems(1) by auto
  then show ?case using d by (auto simp: omap_find_erase)
qed simp

lemma start_far:
  assumes "SlotTimer_inv (w_slotTimer w)" "\<not> ste_running (st_elements (w_slotTimer w) e)"
    and "horizon (st_arrays (w_slotTimer w)) \<le> SlotTimer_tick (st_startTime (w_slotTimer w)) (w_now w + unat n)"
  shows "World_stop e (World_start e n cb w) = None"
proof -
  let ?st = "w_slotTimer w"
  define x where "x = SlotTimerElement_interval (w_now w) (unat n) (st_elements ?st e)"
  let ?st' = "?st\<lparr>st_elements := (st_elements ?st)(e := x)\<rparr>"
  have "e \<notin> SlotTimer_pending ?st" using assms(1,2) invD(7) by blast
  then have inv: "SlotTimer_inv ?st'"
    by (rule inv_elem_update [OF assms(1)]) (simp add: x_def SlotTimerElement_interval_def assms(2))
  have "SlotTimer_stop e (SlotTimer_internalStart e ?st') = None"
    by (rule stop_far [OF inv]) (use assms(3) in \<open>simp add: x_def SlotTimerElement_interval_def\<close>)
  then show ?thesis by (simp add: World_stop_def World_start_def Let_def x_def)
qed

section \<open>Properties\<close>

text \<open>
  C6: when the timer of a subscription expires while a publish request waits and notifications are
  queued, the oldest request is answered at once with all events of all items, or without events with all
  data changes, in the order of the items and of their queues; these queues are empty afterwards, no
  notification is lost or sent twice.  The message has the number after the last one, is kept for
  retransmission, and reports the numbers that are.
\<close>

theorem subscription_publishes_queue:
  assumes "omap_find i (sm_subscriptionMap sm) = Some sub" "sm_publishList sm = t # ts"
    and "length (event_queue (sub_monitorManager sub)) < 2 ^ 32"
    and "length (item_queue (sub_monitorManager sub)) < 2 ^ 32"
    and "event_queue (sub_monitorManager sub) \<noteq> [] \<or> item_queue (sub_monitorManager sub) \<noteq> []"
    and "numbering (sub_acknowledgementManager sub) n" "am_maxListSize (sub_acknowledgementManager sub) = 20"
    and "pr_notificationData (tp_response t) = OpcUaArray_new None 1"
  shows "\<exists>x t' sm' sub'. SubscriptionManager_subscriptionPublishTimeout env i sm w = Some ([t'], sm', w)
     \<and> tp_transactionId t' = tp_transactionId t \<and> tp_statusCode t' = status_Success
     \<and> next_notification (sub_monitorManager sub) x
     \<and> OpcUaArray_list (pr_notificationData (tp_response t')) = [Some x]
     \<and> pr_sequenceNumber (tp_response t') = seq_succ n \<and> pr_subscriptionId (tp_response t') = sub_subscriptionId sub
     \<and> sm_publishList sm' = ts \<and> omap_find i (sm_subscriptionMap sm') = Some sub'
     \<and> sub_monitorManager sub' = without_notification (sub_monitorManager sub)
     \<and> numbering (sub_acknowledgementManager sub') (seq_succ n)
     \<and> \<lparr>ae_sequenceNumber = seq_succ n, ae_notification = x\<rparr> \<in> set (am_list (sub_acknowledgementManager sub'))
     \<and> OpcUaArray_list (pr_availableSequenceNumbers (tp_response t'))
         = map ae_sequenceNumber (am_list (sub_acknowledgementManager sub'))"
proof -
  let ?sub = "sub\<lparr>sub_actLifetimeCount := sub_lifetimeCount sub,
        sub_monitorManager := without_notification (sub_monitorManager sub)\<rparr>"
  obtain x t' sub' where x: "next_notification (sub_monitorManager sub) x"
    and nt: "Subscription_notify (w_now w) x t ?sub = (t', sub')"
    and run: "SubscriptionManager_subscriptionPublishTimeout env i sm w =
       Some ([t'\<lparr>tp_statusCode := status_Success\<rparr>],
             sm\<lparr>sm_subscriptionMap := omap_update i (\<lambda>_. sub') (sm_subscriptionMap sm), sm_publishList := ts\<rparr>, w)"
    by (rule timeout_notifies [OF assms(1-5), of w env])
  have "numbering (sub_acknowledgementManager ?sub) n" "am_maxListSize (sub_acknowledgementManager ?sub) = 20"
    using assms(6,7) by simp_all
  from notify_response [OF this(1) assms(8) nt this(2)] show ?thesis
    using x run assms(1) by (auto simp: omap_find_update)
qed

text \<open>
  C8: while a request waits and nothing is to be reported, the subscription answers it with a keepalive
  message when its keepalive counter has run down, not before: the message carries the number of the next
  notification without using it up, and the counter starts again.  A counter that is zero already, because
  it ran down while no request waited, takes all 2 ^ 32 steps (about one and a half years at an interval
  of 10 ms).
\<close>

theorem subscription_keepalive:
  assumes "omap_inv (sm_subscriptionMap sm)" "omap_find i (sm_subscriptionMap sm) = Some sub"
    and "sm_publishList sm = t # ts" "idle sub" "numbering (sub_acknowledgementManager sub) n"
  defines "m \<equiv> countdown (sub_actMaxKeepAliveCount sub)"
  shows "(\<forall>k<m. \<exists>sm'. SubscriptionManager_timeouts env i k sm w = Some ([], sm', w))
     \<and> (\<exists>t' sm' sub'. SubscriptionManager_timeouts env i m sm w = Some ([t'], sm', w)
         \<and> tp_transactionId t' = tp_transactionId t \<and> tp_statusCode t' = status_Success
         \<and> pr_notificationData (tp_response t') = pr_notificationData (tp_response t)
         \<and> pr_sequenceNumber (tp_response t') = seq_succ n \<and> pr_subscriptionId (tp_response t') = sub_subscriptionId sub
         \<and> sm_publishList sm' = ts \<and> omap_find i (sm_subscriptionMap sm') = Some sub'
         \<and> sub_actMaxKeepAliveCount sub' = sub_maxKeepAliveCount sub \<and> numbering (sub_acknowledgementManager sub') n)"
proof (rule conjI, safe)
  fix k assume "k < m"
  then show "\<exists>sm'. SubscriptionManager_timeouts env i k sm w = Some ([], sm', w)"
    using timeouts_idle [OF assms(1-4)] unfolding m_def by blast
next
  obtain m' where m': "m = Suc m'" unfolding m_def countdown_def by (metis not0_implies_Suc power_not_zero unat_eq_zero zero_neq_numeral)
  then obtain c l where c: "SubscriptionManager_timeouts env i m' sm w = Some ([], counted i c l sm, w)" "countdown c = 1"
    using timeouts_idle [OF assms(1-4), of m' env w] unfolding m_def by auto
  let ?sub = "sub\<lparr>sub_actMaxKeepAliveCount := c, sub_actLifetimeCount := l\<rparr>"
  have "c - 1 = 0" using countdown_step [of c 0] c(2) by simp
  from timeout_keepalive [of "counted i c l sm" i ?sub t ts n env w] this
  show "\<exists>t' sm' sub'. SubscriptionManager_timeouts env i m sm w = Some ([t'], sm', w)
         \<and> tp_transactionId t' = tp_transactionId t \<and> tp_statusCode t' = status_Success
         \<and> pr_notificationData (tp_response t') = pr_notificationData (tp_response t)
         \<and> pr_sequenceNumber (tp_response t') = seq_succ n \<and> pr_subscriptionId (tp_response t') = sub_subscriptionId sub
         \<and> sm_publishList sm' = ts \<and> omap_find i (sm_subscriptionMap sm') = Some sub'
         \<and> sub_actMaxKeepAliveCount sub' = sub_maxKeepAliveCount sub \<and> numbering (sub_acknowledgementManager sub') n"
    using assms(1-5) c(1) unfolding m' timeouts_Suc by auto
qed

text \<open>
  C7: without publish requests a subscription lives for exactly its lifetime count of expiries: it is
  there after each earlier one, and gone after the last, which stops its timer and the timers of all its
  items and nothing else, and never fails while the timer wheel is consistent.
\<close>

theorem subscription_lifetime:
  assumes "omap_inv (sm_subscriptionMap sm)" "omap_find i (sm_subscriptionMap sm) = Some sub"
    and "sm_publishList sm = []" and "SlotTimer_inv (w_slotTimer w)"
  defines "m \<equiv> countdown (sub_actLifetimeCount sub)"
  shows "(\<forall>k<m. \<exists>sm'. SubscriptionManager_timeouts env i k sm w = Some ([], sm', w)
              \<and> omap_find i (sm_subscriptionMap sm') \<noteq> None)
     \<and> (\<exists>sm' w'. SubscriptionManager_timeouts env i m sm w = Some ([], sm', w')
         \<and> map fst (sm_subscriptionMap sm') = filter (\<lambda>j. j \<noteq> i) (map fst (sm_subscriptionMap sm))
         \<and> SlotTimer_inv (w_slotTimer w')
         \<and> SlotTimer_pending (w_slotTimer w') = SlotTimer_pending (w_slotTimer w) - sub_elements sub)"
proof (rule conjI, safe)
  fix k assume "k < m"
  then obtain c l where "SubscriptionManager_timeouts env i k sm w = Some ([], counted i c l sm, w)"
    using timeouts_without_request [OF assms(1-3)] unfolding m_def by blast
  then show "\<exists>sm'. SubscriptionManager_timeouts env i k sm w = Some ([], sm', w)
      \<and> omap_find i (sm_subscriptionMap sm') \<noteq> None" using assms(2) by auto
next
  obtain m' where m': "m = Suc m'" unfolding m_def countdown_def by (metis not0_implies_Suc power_not_zero unat_eq_zero zero_neq_numeral)
  then obtain c l where c: "SubscriptionManager_timeouts env i m' sm w = Some ([], counted i c l sm, w)" "countdown l = 1"
    using timeouts_without_request [OF assms(1-3), of m' env w] unfolding m_def by auto
  let ?sub = "sub\<lparr>sub_actMaxKeepAliveCount := c, sub_actLifetimeCount := l\<rparr>"
  let ?sm = "counted i c 0 (counted i c l sm)"
  have "l - 1 = 0" using countdown_step [of l 0] c(2) by simp
  then have t: "SubscriptionManager_subscriptionPublishTimeout env i (counted i c l sm) w =
      map_option (Pair []) (SubscriptionManager_eraseSubscription env i (?sub\<lparr>sub_actLifetimeCount := 0\<rparr>) ?sm w)"
    using timeout_without_request [of "counted i c l sm" i ?sub env w] assms(1-3) by simp
  obtain w' where e: "SubscriptionManager_eraseSubscription env i (?sub\<lparr>sub_actLifetimeCount := 0\<rparr>) ?sm w =
      Some (?sm\<lparr>sm_subscriptionMap := omap_erase i (sm_subscriptionMap ?sm)\<rparr>, w')" "SlotTimer_inv (w_slotTimer w')"
      "SlotTimer_pending (w_slotTimer w') = SlotTimer_pending (w_slotTimer w) - sub_elements (?sub\<lparr>sub_actLifetimeCount := 0\<rparr>)"
    using erase_total [OF assms(4)] by blast
  have "map fst (omap_erase i (sm_subscriptionMap ?sm)) = filter (\<lambda>j. j \<noteq> i) (map fst (sm_subscriptionMap sm))"
    by (simp add: omap_erase_def counted_def filter_map comp_def) (simp add: omap_update_def filter_map comp_def case_prod_beta)
  then show "\<exists>sm' w'. SubscriptionManager_timeouts env i m sm w = Some ([], sm', w')
         \<and> map fst (sm_subscriptionMap sm') = filter (\<lambda>j. j \<noteq> i) (map fst (sm_subscriptionMap sm))
         \<and> SlotTimer_inv (w_slotTimer w')
         \<and> SlotTimer_pending (w_slotTimer w') = SlotTimer_pending (w_slotTimer w) - sub_elements sub"
    using c(1) t e unfolding m' timeouts_Suc by (auto simp: sub_elements_def)
qed

text \<open>
  deleting event items works, but the response has no results for them: the array of results is as
  empty as the service left it, and a response to a request for event items only has none.
\<close>

theorem event_item_deletion_without_result:
  assumes "distinct ids" "ids \<noteq> []"
    and "\<forall>i\<in>set ids. omap_find i (mm_monitorItemMap mm) = None \<and> omap_find i (mm_eventItemMap mm) \<noteq> None"
  shows "\<exists>results mm' w'. MonitorManager_receiveDelete env ids mm w = Some (results, mm', w')
     \<and> OpcUaArray_list results = []
     \<and> (\<forall>i. omap_find i (mm_eventItemMap mm') = (if i \<in> set ids then None else omap_find i (mm_eventItemMap mm)))"
  using delete_event_items [OF assms(1,3), of env 0 "OpcUaArray_resize 0 (length ids) (OpcUaArray_new 0 1)" w]
  by (auto simp: MonitorManager_receiveDelete_def)


section \<open>Witnesses\<close>

definition demo_server_env :: "StandardObject ServerEnv" where
  "demo_server_env = \<lparr>se_ops = StandardObject_ops, se_reg = Core_extensionObjectMap, se_cast = \<lambda>_ _. None,
     se_autorization = None, se_eventItemStart = False, se_eventItemStop = False,
     se_monitoredItemStart = \<lambda>_. False, se_monitoredItemStop = \<lambda>_. False, se_namespaces = []\<rparr>"

definition demo_world :: "StandardObject World" where
  "demo_world = \<lparr>w_informationModel = demo_space, w_slotTimer = SlotTimer_new, w_now = 0, w_nextElement = 0,
     w_callback = (\<lambda>_. None), w_uniqueMonitorItemId = 0, w_uniqueSubscriptionId = 0, w_eventHandlerMap = [],
     w_forwarded = []\<rparr>"

definition demo_trx :: "nat \<Rightarrow> StandardObject ServiceTransactionPublish" where
  "demo_trx i = \<lparr>tp_transactionId = i, tp_subscriptionAcknowledgements = [], tp_response = PublishResponse_new,
     tp_statusCode = 0\<rparr>"

definition demo_data_item :: "StandardObject MonitorItem" where
  "demo_data_item = (MonitorItem_new 9 1)\<lparr>mi_list := [MonitoredItemNotification_new, MonitoredItemNotification_new]\<rparr>"

definition demo_subscription :: "(u32 \<times> StandardObject MonitorItem) list \<Rightarrow> StandardObject Subscription" where
  "demo_subscription items = \<lparr>sub_subscriptionId = 1, sub_publishingInterval = dbl_200, sub_lifetimeCount = 3,
     sub_actLifetimeCount = 3, sub_maxKeepAliveCount = 2, sub_actMaxKeepAliveCount = 2, sub_slotTimerElement = 0,
     sub_monitorManager = MonitorManager_new\<lparr>mm_subscriptionId := 1, mm_monitorItemMap := items\<rparr>,
     sub_acknowledgementManager = AcknowledgementManager_new\<rparr>"

definition demo_manager ::
  "(u32 \<times> StandardObject MonitorItem) list \<Rightarrow> StandardObject ServiceTransactionPublish list \<Rightarrow> StandardObject SubscriptionManager" where
  "demo_manager items ts = \<lparr>sm_subscriptionMap = [(1, demo_subscription items)], sm_publishList = ts, sm_sessionId = 5\<rparr>"

lemma demo_simps [simp]:
  "omap_inv (sm_subscriptionMap (demo_manager items ts))" "sm_publishList (demo_manager items ts) = ts"
  "omap_find 1 (sm_subscriptionMap (demo_manager items ts)) = Some (demo_subscription items)"
  "event_queue (sub_monitorManager (demo_subscription items)) = []"
  "item_queue (sub_monitorManager (demo_subscription items)) = concat (map (\<lambda>e. mi_list (snd e)) items)"
  "idle (demo_subscription [])" "numbering (sub_acknowledgementManager (demo_subscription items)) 0"
  "am_maxListSize (sub_acknowledgementManager (demo_subscription items)) = 20"
  "pr_notificationData (tp_response (demo_trx i)) = OpcUaArray_new None 1" "tp_transactionId (demo_trx i) = i"
  "seq_succ 0 = 1"
  by (simp_all add: demo_manager_def demo_subscription_def omap_inv_def omap_find_def event_queue_def item_queue_def
      MonitorManager_new_def idle_def AcknowledgementManager_new_def numbering_def demo_trx_def PublishResponse_new_def
      seq_succ_def)

theorem subscription_publishes_queue_witness:
  "\<exists>t sm' x. SubscriptionManager_subscriptionPublishTimeout demo_server_env 1
        (demo_manager [(9, demo_data_item)] [demo_trx 4, demo_trx 6]) demo_world = Some ([t], sm', demo_world)
     \<and> tp_transactionId t = 4 \<and> pr_sequenceNumber (tp_response t) = 1
     \<and> OpcUaArray_list (pr_notificationData (tp_response t)) = [Some (DataChangeNotification x)]
     \<and> OpcUaArray_list x = [MonitoredItemNotification_new, MonitoredItemNotification_new]
     \<and> publish_ids (sm_publishList sm') = [6]"
proof -
  let ?sm = "demo_manager [(9, demo_data_item)] [demo_trx 4, demo_trx 6]"
  have q: "mi_list demo_data_item = [MonitoredItemNotification_new, MonitoredItemNotification_new]"
    by (simp add: demo_data_item_def)
  obtain x t sm' where 1: "SubscriptionManager_subscriptionPublishTimeout demo_server_env 1 ?sm demo_world = Some ([t], sm', demo_world)"
     "tp_transactionId t = 4" "next_notification (sub_monitorManager (demo_subscription [(9, demo_data_item)])) x"
     "OpcUaArray_list (pr_notificationData (tp_response t)) = [Some x]" "pr_sequenceNumber (tp_response t) = 1"
     "sm_publishList sm' = [demo_trx 6]"
    using subscription_publishes_queue [where i = 1 and sm = ?sm and t = "demo_trx 4" and ts = "[demo_trx 6]"
        and sub = "demo_subscription [(9, demo_data_item)]" and n = 0 and env = demo_server_env and w = demo_world]
    by (auto simp: q)
  then show ?thesis
    using q by (cases x) (auto simp: next_notification_def)
qed

theorem subscription_keepalive_witness:
  "\<exists>t sm'. SubscriptionManager_timeouts demo_server_env 1 2 (demo_manager [] [demo_trx 4]) demo_world = Some ([t], sm', demo_world)
     \<and> tp_transactionId t = 4 \<and> pr_sequenceNumber (tp_response t) = 1"
proof -
  have m: "countdown (sub_actMaxKeepAliveCount (demo_subscription [])) = 2"
    by (simp add: demo_subscription_def countdown_def)
  show ?thesis
    using subscription_keepalive [where i = 1 and sm = "demo_manager [] [demo_trx 4]" and t = "demo_trx 4" and ts = "[]"
        and sub = "demo_subscription []" and n = 0 and env = demo_server_env and w = demo_world]
    unfolding m by auto
qed

theorem subscription_lifetime_witness:
  "\<exists>sm' w'. SubscriptionManager_timeouts demo_server_env 1 3 (demo_manager [] []) demo_world = Some ([], sm', w')
     \<and> sm_subscriptionMap sm' = []"
proof -
  have m: "countdown (sub_actLifetimeCount (demo_subscription [])) = 3"
    by (simp add: demo_subscription_def countdown_def)
  have "SlotTimer_inv (w_slotTimer demo_world)" by (simp add: demo_world_def wheel_inv_new)
  then show ?thesis
    using subscription_lifetime [where i = 1 and sm = "demo_manager [] []"
        and sub = "demo_subscription []" and env = demo_server_env and w = demo_world]
    unfolding m using demo_simps(1,3) [of "[]" "[]"] by (auto simp: demo_manager_def)
qed

theorem event_item_deletion_without_result_witness:
  "\<exists>results mm' w'. MonitorManager_receiveDelete demo_server_env [3, 2]
        (MonitorManager_new\<lparr>mm_eventItemMap := [(2, EventItem_new 2), (3, EventItem_new 3)]\<rparr>) demo_world
     = Some (results, mm', w') \<and> OpcUaArray_list results = []"
  using event_item_deletion_without_result [where ids = "[3, 2]" and env = demo_server_env and w = demo_world
      and mm = "MonitorManager_new\<lparr>mm_eventItemMap := [(2, EventItem_new 2), (3, EventItem_new 3)]\<rparr>"]
  by (auto simp: MonitorManager_new_def omap_find_def)

definition demo_far :: CreateSubscriptionRequest where
  "demo_far = CreateSubscriptionRequest_new
     \<lparr>CreateSubscriptionRequest_requestedPublishingInterval := 0x41C65A0BC0000000,
      CreateSubscriptionRequest_requestedLifetimeCount := 3,
      CreateSubscriptionRequest_requestedMaxKeepAliveCount := 2\<rparr>"


definition demo_near :: CreateSubscriptionRequest where
  "demo_near = CreateSubscriptionRequest_new
     \<lparr>CreateSubscriptionRequest_requestedPublishingInterval := dbl_10,
      CreateSubscriptionRequest_requestedLifetimeCount := 3,
      CreateSubscriptionRequest_requestedMaxKeepAliveCount := 2\<rparr>"

text \<open>The first request comes before there is a subscription and is answered at once.\<close>

theorem publish_requests_in_order_witness:
  "\<exists>sv. run_commands (server_step demo_server_env) [Publish 5 (demo_trx 1), CreateSubscription 5 demo_near,
        Publish 5 (demo_trx 2), Publish 6 (demo_trx 3), Publish 5 (demo_trx 4)] (Server_new demo_world) = Some sv
     \<and> answered_ids 5 sv @ waiting_ids 5 sv = [1, 2, 4]"
proof -
  have "dbl_to_u32 (CreateSubscriptionRequest_requestedPublishingInterval demo_near) = Some 10" "\<not> dbl_less (CreateSubscriptionRequest_requestedPublishingInterval demo_near) dbl_10"
    by (simp_all add: demo_near_def dbl_10_u32 dbl_less_def)
  then have "\<exists>sv. run_commands (server_step demo_server_env) [Publish 5 (demo_trx 1), CreateSubscription 5 demo_near,
        Publish 5 (demo_trx 2), Publish 6 (demo_trx 3), Publish 5 (demo_trx 4)] (Server_new demo_world) = Some sv"
    by (simp add: SubscriptionService_receivePublish_def Server_new_def omap_find_def Server_answer_def
        SubscriptionService_receiveCreateSubscription_def SubscriptionManager_receiveCreate_def Let_def case_prod_beta)
  then obtain sv where sv: "run_commands (server_step demo_server_env) [Publish 5 (demo_trx 1), CreateSubscription 5 demo_near,
        Publish 5 (demo_trx 2), Publish 6 (demo_trx 3), Publish 5 (demo_trx 4)] (Server_new demo_world) = Some sv" by blast
  show ?thesis using publish_requests_in_order [OF sv, of 5] sv by auto
qed


end
