(* ===== verification/MessageCoders.thy ===== *)
theory MessageCoders
  imports ChannelMessages DataValues
begin

text \<open>
  Messages with polymorphic members: variants and data values, whose structured values are the extension
  objects registered with \<^verbatim>\<open>OpcUaExtensionObject\<close>, and extensible parameters
  (\<^verbatim>\<open>ServiceSet/ExtensibleParameter.cpp\<close>), whose types are registered with \<^verbatim>\<open>ExtensibleParameter\<close>.
  Writing a variant of an impossible type throws, so their encoders are partial.

  The record \<open>Coders\<close> has the two registries and the virtual methods of the registered classes; the
  locale \<open>message_types\<close> is the contract of the registered classes.  It is interpreted by the classes
  that \<^verbatim>\<open>Core::init\<close> registers.
\<close>

section \<open>Round trips of partial encoders\<close>

definition rt :: "('a \<Rightarrow> stream option) \<Rightarrow> 'a decoder \<Rightarrow> 'a \<Rightarrow> bool" where
  "rt enc dec x \<longleftrightarrow> (\<exists>bs. enc x = Some bs \<and> (\<forall>rest. dec (bs @ rest) = Some (x, rest)))"

lemma rtE:
  assumes "rt enc dec x"
  obtains bs where "enc x = Some bs" "\<And>rest. dec (bs @ rest) = Some (x, rest)"
  using assms by (auto simp: rt_def)

lemma rtI:
  assumes "\<And>rest. \<exists>bs. enc x = Some bs \<and> dec (bs @ rest) = Some (x, rest)"
  shows "rt enc dec x"
  using assms by (cases "enc x") (auto simp: rt_def)

fun encode_all :: "('a \<Rightarrow> stream option) \<Rightarrow> 'a list \<Rightarrow> stream option" where
  "encode_all enc [] = Some []"
| "encode_all enc (x # xs) = do { b \<leftarrow> enc x; bs \<leftarrow> encode_all enc xs; Some (b @ bs) }"

definition parray_encode :: "('a \<Rightarrow> stream option) \<Rightarrow> 'a list \<Rightarrow> stream option" where
  "parray_encode enc xs =
     do { bs \<leftarrow> encode_all enc xs; Some (OpcUaUInt32_encode (word_of_nat (length xs)) @ bs) }"

lemma encode_all_rt:
  "list_all (rt enc dec) xs \<Longrightarrow>
     \<exists>bs. encode_all enc xs = Some bs
        \<and> (\<forall>rest. array_decode_loop dec (length xs) (bs @ rest) = Some (xs, rest))"
  by (induction xs) (auto elim!: rtE)

lemma parray_rt:
  assumes "array_wf P xs" "\<And>x. P x \<Longrightarrow> rt enc dec x"
  shows "rt (parray_encode enc) (array_decode dec) xs"
proof -
  have "sint (word_of_nat (length xs) :: u32) = int (length xs)"
    by (rule sint_word_of_nat_u32) (use assms in \<open>simp add: array_wf_def\<close>)
  moreover have "list_all (rt enc dec) xs"
    using assms by (auto simp: array_wf_def list_all_iff)
  from encode_all_rt [OF this] obtain bs where "encode_all enc xs = Some bs"
    "\<And>rest. array_decode_loop dec (length xs) (bs @ rest) = Some (xs, rest)" by blast
  ultimately show ?thesis
    by (cases xs) (auto simp add: rt_def parray_encode_def array_decode_def uint32_as_int32 number_rt
        simp del: of_nat_Suc array_decode_loop.simps(2))
qed

section \<open>Registered types\<close>

record 'p ExtensibleParameter =
  xp_parameterTypeId :: OpcUaNodeIdBase
  xp_parameter :: "'p option"

record ('e, 'p) Coders =
  cd_objects :: "'e ExtensionObjectBase"
  cd_objectMap :: "'e ExtensionObjectMap"
  cd_parameterMap :: "(OpcUaNodeIdBase \<times> 'p) list"
  cd_parameterEncode :: "'p \<Rightarrow> stream option"
  cd_parameterDecode :: "'p \<Rightarrow> 'p decoder"

definition ExtensibleParameter_new :: "'p ExtensibleParameter" where
  "ExtensibleParameter_new = \<lparr>xp_parameterTypeId = OpcUaNodeIdBase_new, xp_parameter = None\<rparr>"

definition ExtensibleParameter_exist :: "'p ExtensibleParameter \<Rightarrow> bool" where
  "ExtensibleParameter_exist this \<longleftrightarrow> xp_parameter this \<noteq> None"

definition ExtensibleParameter_findElement :: "(OpcUaNodeIdBase \<times> 'p) list \<Rightarrow> OpcUaNodeIdBase \<Rightarrow> 'p option" where
  "ExtensibleParameter_findElement reg n =
     map_option snd (find (\<lambda>(k, _). OpcUaNodeIdBase_equal k n) reg)"

definition ExtensibleParameter_insertElement ::
  "OpcUaNodeIdBase \<Rightarrow> 'p \<Rightarrow> (OpcUaNodeIdBase \<times> 'p) list \<Rightarrow> bool \<times> (OpcUaNodeIdBase \<times> 'p) list" where
  "ExtensibleParameter_insertElement n p reg =
     (if ExtensibleParameter_findElement reg n \<noteq> None then (False, reg) else (True, reg @ [(n, p)]))"

definition ExtensibleParameter_deleteElement ::
  "OpcUaNodeIdBase \<Rightarrow> (OpcUaNodeIdBase \<times> 'p) list \<Rightarrow> bool \<times> (OpcUaNodeIdBase \<times> 'p) list" where
  "ExtensibleParameter_deleteElement n reg =
     (if ExtensibleParameter_findElement reg n = None then (False, reg)
      else (True, filter (\<lambda>(k, _). \<not> OpcUaNodeIdBase_equal k n) reg))"

text \<open>
  The body of a parameter is written behind its length.  The reader looks at neither the encoding byte nor
  the length: it decodes the body of a registered type, and when the type is not registered it returns
  right behind the encoding byte.  (It also notes the type in \<^verbatim>\<open>errorTypeSet_\<close>, which nothing else reads.)
\<close>

definition ExtensibleParameter_opcUaBinaryEncode ::
  "('e, 'p) Coders \<Rightarrow> 'p ExtensibleParameter \<Rightarrow> stream option" where
  "ExtensibleParameter_opcUaBinaryEncode cd this =
     (case xp_parameter this of
        None \<Rightarrow> Some (OpcUaByte_encode 0x00 @ OpcUaByte_encode 0x00 @ OpcUaByte_encode 0x00)
      | Some p \<Rightarrow> do {
          body \<leftarrow> cd_parameterEncode cd p;
          Some (OpcUaNodeId_opcUaBinaryEncode (xp_parameterTypeId this)
                @ OpcUaByte_encode 0x01
                @ OpcUaUInt32_encode (word_of_nat (length body)) @ body) })"

definition ExtensibleParameter_opcUaBinaryDecode ::
  "('e, 'p) Coders \<Rightarrow> 'p ExtensibleParameter decoder" where
  "ExtensibleParameter_opcUaBinaryDecode cd is = do {
     (t, is) \<leftarrow> OpcUaNodeId_opcUaBinaryDecode is;
     (encodingMask, is) \<leftarrow> OpcUaByte_decode is;
     case ExtensibleParameter_findElement (cd_parameterMap cd) t of
       None \<Rightarrow> Some (\<lparr>xp_parameterTypeId = t, xp_parameter = None\<rparr>, is)
     | Some proto \<Rightarrow> do {
         (bufferLength, is) \<leftarrow> OpcUaUInt32_decode is;
         (p, is) \<leftarrow> cd_parameterDecode cd proto is;
         Some (\<lparr>xp_parameterTypeId = t, xp_parameter = Some p\<rparr>, is) } }"

section \<open>The contract of the registered types\<close>

text \<open>\<open>ml_object p x\<close> and \<open>ml_parameter p x\<close>: \<open>x\<close> is a well-formed object of the class of the
  prototype \<open>p\<close>.\<close>

record ('e, 'p) MessageLaws =
  ml_object :: "'e \<Rightarrow> 'e \<Rightarrow> bool"
  ml_parameter :: "'p \<Rightarrow> 'p \<Rightarrow> bool"

definition ExtensibleParameter_wf ::
  "('e, 'p) Coders \<Rightarrow> ('e, 'p) MessageLaws \<Rightarrow> 'p ExtensibleParameter \<Rightarrow> bool" where
  "ExtensibleParameter_wf cd laws x \<longleftrightarrow>
     (case xp_parameter x of
        None \<Rightarrow> xp_parameterTypeId x = \<lparr>namespaceIndex = 0, nodeIdValue = NodeIdNumeric 0\<rparr>
                \<and> ExtensibleParameter_findElement (cd_parameterMap cd) (xp_parameterTypeId x) = None
      | Some p \<Rightarrow> OpcUaNodeId_wf (xp_parameterTypeId x)
                  \<and> (case ExtensibleParameter_findElement (cd_parameterMap cd) (xp_parameterTypeId x) of
                       None \<Rightarrow> False
                     | Some proto \<Rightarrow> ml_parameter laws proto p))"

definition Variant_wf :: "('e, 'p) Coders \<Rightarrow> ('e, 'p) MessageLaws \<Rightarrow> 'e OpcUaVariant \<Rightarrow> bool" where
  "Variant_wf cd laws v \<longleftrightarrow> OpcUaVariant_wf (cd_objectMap cd) (ml_object laws) v"

text \<open>A data value with source picoseconds and a server time stamp is not read back, see
  \<open>dataValue_wrong_cut\<close>.\<close>

definition DataValue_wf :: "('e, 'p) Coders \<Rightarrow> ('e, 'p) MessageLaws \<Rightarrow> 'e OpcUaDataValue \<Rightarrow> bool" where
  "DataValue_wf cd laws d \<longleftrightarrow>
     OpcUaDataValue_wf (cd_objectMap cd) (ml_object laws) d
     \<and> (dv_sourcePicoseconds d = 0 \<or> dv_serverTimestamp d = 0)"

locale message_types =
  fixes cd :: "('e, 'p) Coders"
    and laws :: "('e, 'p) MessageLaws"
  assumes object_law:
      "e \<in> snd ` set (cd_objectMap cd) \<Longrightarrow> ml_object laws e x \<Longrightarrow>
         ep_decode (cd_objects cd) (ep_factory (cd_objects cd) e) (ep_encode (cd_objects cd) x @ rest)
           = Some (x, rest)"
    and parameter_law:
      "proto \<in> snd ` set (cd_parameterMap cd) \<Longrightarrow> ml_parameter laws proto p \<Longrightarrow>
         rt (cd_parameterEncode cd) (cd_parameterDecode cd proto) p"

sublocale message_types \<subseteq> extension_types "cd_objects cd" "cd_objectMap cd" "ml_object laws"
  by unfold_locales (rule object_law)

context message_types
begin

lemma variant_rt:
  assumes "Variant_wf cd laws v"
  shows "rt (OpcUaVariant_opcUaBinaryEncode (cd_objects cd))
           (OpcUaVariant_opcUaBinaryDecode (cd_objects cd) (cd_objectMap cd) OpcUaVariant_new) v"
  by (rule rtI) (rule variant_round_trip [OF assms [unfolded Variant_wf_def]])

lemma dataValue_rt:
  assumes "DataValue_wf cd laws v"
  shows "rt (OpcUaDataValue_opcUaBinaryEncode (cd_objects cd))
           (OpcUaDataValue_opcUaBinaryDecode (cd_objects cd) (cd_objectMap cd) OpcUaDataValue_new) v"
  by (rule rtI) (use assms in \<open>auto simp: DataValue_wf_def intro!: dataValue_round_trip\<close>)

lemma findParameter_mem:
  "ExtensibleParameter_findElement (cd_parameterMap cd) t = Some p \<Longrightarrow> p \<in> snd ` set (cd_parameterMap cd)"
  by (force simp: ExtensibleParameter_findElement_def find_Some_iff in_set_conv_nth)

lemma parameter_rt:
  assumes "ExtensibleParameter_wf cd laws x"
  shows "rt (ExtensibleParameter_opcUaBinaryEncode cd) (ExtensibleParameter_opcUaBinaryDecode cd) x"
proof (cases "xp_parameter x")
  case None
  with assms show ?thesis
    by (cases x) (simp add: rt_def ExtensibleParameter_wf_def ExtensibleParameter_opcUaBinaryEncode_def
        ExtensibleParameter_opcUaBinaryDecode_def codec_rt)
next
  case (Some p)
  with assms obtain proto where p: "ExtensibleParameter_findElement (cd_parameterMap cd) (xp_parameterTypeId x) = Some proto"
    "ml_parameter laws proto p" "OpcUaNodeId_wf (xp_parameterTypeId x)"
    by (auto simp: ExtensibleParameter_wf_def split: option.splits)
  then have "rt (cd_parameterEncode cd) (cd_parameterDecode cd proto) p"
    by (intro parameter_law findParameter_mem)
  with Some p show ?thesis
    by (cases x) (auto simp: rt_def ExtensibleParameter_opcUaBinaryEncode_def
        ExtensibleParameter_opcUaBinaryDecode_def codec_rt)
qed

lemmas variantE = rtE [OF variant_rt]
  and dataValueE = rtE [OF dataValue_rt]
  and parameterE = rtE [OF parameter_rt]
  and variant_arrayE = rtE [OF parray_rt [OF _ variant_rt]]
  and dataValue_arrayE = rtE [OF parray_rt [OF _ dataValue_rt]]
  and parameter_arrayE = rtE [OF parray_rt [OF _ parameter_rt]]

end

text \<open>
  A parameter of a type that is not registered is lost, and its length and body stay in the stream where
  the next member is read.
\<close>

lemma unregistered_parameter:
  assumes "ExtensibleParameter_findElement (cd_parameterMap cd) (xp_parameterTypeId x) = None"
    and "OpcUaNodeId_wf (xp_parameterTypeId x)"
    and "xp_parameter x = Some p" "cd_parameterEncode cd p = Some body"
  shows "\<exists>bs. ExtensibleParameter_opcUaBinaryEncode cd x = Some bs
    \<and> ExtensibleParameter_opcUaBinaryDecode cd (bs @ rest)
        = Some (x\<lparr>xp_parameter := None\<rparr>, OpcUaUInt32_encode (word_of_nat (length body)) @ body @ rest)"
  using assms by (cases x) (simp add: ExtensibleParameter_opcUaBinaryEncode_def
      ExtensibleParameter_opcUaBinaryDecode_def codec_rt)

end
