(* ===== verification/ViewMessages.thy ===== *)
theory ViewMessages
  imports ChannelMessages Filters
begin

text \<open>
  The messages of the view services: browsing, the translation of paths and the registration of nodes
  (\<^verbatim>\<open>OpcUaStackCore/ServiceSet\<close>), and the operands of filters that hold paths.
\<close>

section \<open>Browsing\<close>

record ViewDescription =
  ViewDescription_viewId :: OpcUaNodeIdBase
  ViewDescription_timestamp :: OpcUaDateTime
  ViewDescription_viewVersion :: u32

definition ViewDescription_new :: ViewDescription where
  "ViewDescription_new =
     \<lparr>ViewDescription_viewId = OpcUaNodeIdBase_new, ViewDescription_timestamp = 0,
       ViewDescription_viewVersion = 0\<rparr>"

definition ViewDescription_opcUaBinaryEncode :: "ViewDescription \<Rightarrow> stream" where
  "ViewDescription_opcUaBinaryEncode this =
     OpcUaNodeId_opcUaBinaryEncode (ViewDescription_viewId this)
     @ OpcUaDateTime_opcUaBinaryEncode (ViewDescription_timestamp this)
     @ OpcUaUInt32_encode (ViewDescription_viewVersion this)"

definition ViewDescription_opcUaBinaryDecode :: "ViewDescription decoder" where
  "ViewDescription_opcUaBinaryDecode is = do {
     (x1, is) \<leftarrow> OpcUaNodeId_opcUaBinaryDecode is;
     (x2, is) \<leftarrow> OpcUaDateTime_opcUaBinaryDecode is;
     (x3, is) \<leftarrow> OpcUaUInt32_decode is;
     Some (\<lparr>ViewDescription_viewId = x1, ViewDescription_timestamp = x2,
            ViewDescription_viewVersion = x3\<rparr>, is) }"

definition ViewDescription_wf :: "ViewDescription \<Rightarrow> bool" where
  "ViewDescription_wf m \<longleftrightarrow>
     OpcUaNodeId_wf (ViewDescription_viewId m)"

interpretation viewdescription_codec: codec ViewDescription_opcUaBinaryEncode
  ViewDescription_opcUaBinaryDecode ViewDescription_wf
  by unfold_locales
     (simp add: ViewDescription_opcUaBinaryEncode_def ViewDescription_opcUaBinaryDecode_def
        ViewDescription_wf_def codec_rt)

declare viewdescription_codec.dec_enc [codec_rt]

record BrowseDescription =
  BrowseDescription_nodeId :: OpcUaNodeIdBase
  BrowseDescription_browseDirection :: u32
  BrowseDescription_referenceTypeId :: OpcUaNodeIdBase
  BrowseDescription_includeSubtypes :: bool
  BrowseDescription_nodeClassMask :: u32
  BrowseDescription_resultMask :: u32

definition BrowseDescription_new :: BrowseDescription where
  "BrowseDescription_new =
     \<lparr>BrowseDescription_nodeId = OpcUaNodeIdBase_new,
       BrowseDescription_browseDirection = 0,
       BrowseDescription_referenceTypeId = OpcUaNodeIdBase_new,
       BrowseDescription_includeSubtypes = False, BrowseDescription_nodeClassMask = 0,
       BrowseDescription_resultMask = 0\<rparr>"

definition BrowseDescription_opcUaBinaryEncode :: "BrowseDescription \<Rightarrow> stream" where
  "BrowseDescription_opcUaBinaryEncode this =
     OpcUaNodeId_opcUaBinaryEncode (BrowseDescription_nodeId this)
     @ OpcUaUInt32_encode (BrowseDescription_browseDirection this)
     @ OpcUaNodeId_opcUaBinaryEncode (BrowseDescription_referenceTypeId this)
     @ OpcUaBoolean_encode (BrowseDescription_includeSubtypes this)
     @ OpcUaUInt32_encode (BrowseDescription_nodeClassMask this)
     @ OpcUaUInt32_encode (BrowseDescription_resultMask this)"

definition BrowseDescription_opcUaBinaryDecode :: "BrowseDescription decoder" where
  "BrowseDescription_opcUaBinaryDecode is = do {
     (x1, is) \<leftarrow> OpcUaNodeId_opcUaBinaryDecode is;
     (x2, is) \<leftarrow> OpcUaUInt32_decode is;
     (x3, is) \<leftarrow> OpcUaNodeId_opcUaBinaryDecode is;
     (x4, is) \<leftarrow> OpcUaBoolean_decode is;
     (x5, is) \<leftarrow> OpcUaUInt32_decode is;
     (x6, is) \<leftarrow> OpcUaUInt32_decode is;
     Some (\<lparr>BrowseDescription_nodeId = x1, BrowseDescription_browseDirection = x2,
            BrowseDescription_referenceTypeId = x3, BrowseDescription_includeSubtypes = x4,
            BrowseDescription_nodeClassMask = x5, BrowseDescription_resultMask = x6\<rparr>, is) }"

definition BrowseDescription_wf :: "BrowseDescription \<Rightarrow> bool" where
  "BrowseDescription_wf m \<longleftrightarrow>
     OpcUaNodeId_wf (BrowseDescription_nodeId m)
     \<and> OpcUaNodeId_wf (BrowseDescription_referenceTypeId m)"

interpretation browsedescription_codec: codec BrowseDescription_opcUaBinaryEncode
  BrowseDescription_opcUaBinaryDecode BrowseDescription_wf
  by unfold_locales
     (simp add: BrowseDescription_opcUaBinaryEncode_def BrowseDescription_opcUaBinaryDecode_def
        BrowseDescription_wf_def codec_rt)

declare browsedescription_codec.dec_enc [codec_rt]

record BrowseRequest =
  BrowseRequest_view :: ViewDescription
  BrowseRequest_requestMaxReferencesPerNode :: u32
  BrowseRequest_nodesToBrowseArray :: "BrowseDescription list"

definition BrowseRequest_new :: BrowseRequest where
  "BrowseRequest_new =
     \<lparr>BrowseRequest_view = ViewDescription_new,
       BrowseRequest_requestMaxReferencesPerNode = 0, BrowseRequest_nodesToBrowseArray = []\<rparr>"

definition BrowseRequest_opcUaBinaryEncode :: "BrowseRequest \<Rightarrow> stream" where
  "BrowseRequest_opcUaBinaryEncode this =
     ViewDescription_opcUaBinaryEncode (BrowseRequest_view this)
     @ OpcUaUInt32_encode (BrowseRequest_requestMaxReferencesPerNode this)
     @ array_encode BrowseDescription_opcUaBinaryEncode (BrowseRequest_nodesToBrowseArray this)"

definition BrowseRequest_opcUaBinaryDecode :: "BrowseRequest decoder" where
  "BrowseRequest_opcUaBinaryDecode is = do {
     (x1, is) \<leftarrow> ViewDescription_opcUaBinaryDecode is;
     (x2, is) \<leftarrow> OpcUaUInt32_decode is;
     (x3, is) \<leftarrow> array_decode BrowseDescription_opcUaBinaryDecode is;
     Some (\<lparr>BrowseRequest_view = x1, BrowseRequest_requestMaxReferencesPerNode = x2,
            BrowseRequest_nodesToBrowseArray = x3\<rparr>, is) }"

definition BrowseRequest_wf :: "BrowseRequest \<Rightarrow> bool" where
  "BrowseRequest_wf m \<longleftrightarrow>
     ViewDescription_wf (BrowseRequest_view m)
     \<and> array_wf BrowseDescription_wf (BrowseRequest_nodesToBrowseArray m)"

declare browsedescription_codec.array_rt [codec_rt]

interpretation browserequest_codec: codec BrowseRequest_opcUaBinaryEncode
  BrowseRequest_opcUaBinaryDecode BrowseRequest_wf
  by unfold_locales
     (simp add: BrowseRequest_opcUaBinaryEncode_def BrowseRequest_opcUaBinaryDecode_def
        BrowseRequest_wf_def codec_rt)

declare browserequest_codec.dec_enc [codec_rt]

record ReferenceDescription =
  ReferenceDescription_referenceTypeId :: OpcUaNodeIdBase
  ReferenceDescription_isForward :: bool
  ReferenceDescription_nodeId :: OpcUaExpandedNodeId
  ReferenceDescription_browseName :: OpcUaQualifiedName
  ReferenceDescription_displayName :: OpcUaLocalizedText
  ReferenceDescription_nodeClass :: u32
  ReferenceDescription_typeDefinition :: OpcUaExpandedNodeId

definition ReferenceDescription_new :: ReferenceDescription where
  "ReferenceDescription_new =
     \<lparr>ReferenceDescription_referenceTypeId = OpcUaNodeIdBase_new,
       ReferenceDescription_isForward = False,
       ReferenceDescription_nodeId = OpcUaExpandedNodeId_new,
       ReferenceDescription_browseName = OpcUaQualifiedName_new,
       ReferenceDescription_displayName = OpcUaLocalizedText_new,
       ReferenceDescription_nodeClass = 0,
       ReferenceDescription_typeDefinition = OpcUaExpandedNodeId_new\<rparr>"

definition ReferenceDescription_opcUaBinaryEncode :: "ReferenceDescription \<Rightarrow> stream" where
  "ReferenceDescription_opcUaBinaryEncode this =
     OpcUaNodeId_opcUaBinaryEncode (ReferenceDescription_referenceTypeId this)
     @ OpcUaBoolean_encode (ReferenceDescription_isForward this)
     @ OpcUaExpandedNodeId_opcUaBinaryEncode (ReferenceDescription_nodeId this)
     @ OpcUaQualifiedName_opcUaBinaryEncode (ReferenceDescription_browseName this)
     @ OpcUaLocalizedText_opcUaBinaryEncode (ReferenceDescription_displayName this)
     @ OpcUaUInt32_encode (ReferenceDescription_nodeClass this)
     @ OpcUaExpandedNodeId_opcUaBinaryEncode (ReferenceDescription_typeDefinition this)"

definition ReferenceDescription_opcUaBinaryDecode :: "ReferenceDescription decoder" where
  "ReferenceDescription_opcUaBinaryDecode is = do {
     (x1, is) \<leftarrow> OpcUaNodeId_opcUaBinaryDecode is;
     (x2, is) \<leftarrow> OpcUaBoolean_decode is;
     (x3, is) \<leftarrow> OpcUaExpandedNodeId_opcUaBinaryDecode OpcUaExpandedNodeId_new is;
     (x4, is) \<leftarrow> OpcUaQualifiedName_opcUaBinaryDecode is;
     (x5, is) \<leftarrow> OpcUaLocalizedText_opcUaBinaryDecode OpcUaLocalizedText_new is;
     (x6, is) \<leftarrow> OpcUaUInt32_decode is;
     (x7, is) \<leftarrow> OpcUaExpandedNodeId_opcUaBinaryDecode OpcUaExpandedNodeId_new is;
     Some (\<lparr>ReferenceDescription_referenceTypeId = x1, ReferenceDescription_isForward = x2,
            ReferenceDescription_nodeId = x3, ReferenceDescription_browseName = x4,
            ReferenceDescription_displayName = x5, ReferenceDescription_nodeClass = x6,
            ReferenceDescription_typeDefinition = x7\<rparr>, is) }"

definition ReferenceDescription_wf :: "ReferenceDescription \<Rightarrow> bool" where
  "ReferenceDescription_wf m \<longleftrightarrow>
     OpcUaNodeId_wf (ReferenceDescription_referenceTypeId m)
     \<and> OpcUaExpandedNodeId_wf (ReferenceDescription_nodeId m)
     \<and> OpcUaString_wf (qn_name (ReferenceDescription_browseName m))
     \<and> OpcUaLocalizedText_wf (ReferenceDescription_displayName m)
     \<and> OpcUaExpandedNodeId_wf (ReferenceDescription_typeDefinition m)"

interpretation referencedescription_codec: codec ReferenceDescription_opcUaBinaryEncode
  ReferenceDescription_opcUaBinaryDecode ReferenceDescription_wf
  by unfold_locales
     (simp add: ReferenceDescription_opcUaBinaryEncode_def
        ReferenceDescription_opcUaBinaryDecode_def ReferenceDescription_wf_def codec_rt)

declare referencedescription_codec.dec_enc [codec_rt]

record BrowseResult =
  BrowseResult_statusCode :: u32
  BrowseResult_continuationPoint :: OpcUaByteString
  BrowseResult_referenceArray :: "ReferenceDescription list"

definition BrowseResult_new :: BrowseResult where
  "BrowseResult_new =
     \<lparr>BrowseResult_statusCode = 0, BrowseResult_continuationPoint = OpcUaByteString_new,
       BrowseResult_referenceArray = []\<rparr>"

definition BrowseResult_opcUaBinaryEncode :: "BrowseResult \<Rightarrow> stream" where
  "BrowseResult_opcUaBinaryEncode this =
     OpcUaUInt32_encode (BrowseResult_statusCode this)
     @ OpcUaByteString_opcUaBinaryEncode (BrowseResult_continuationPoint this)
     @ array_encode ReferenceDescription_opcUaBinaryEncode (BrowseResult_referenceArray this)"

definition BrowseResult_opcUaBinaryDecode :: "BrowseResult decoder" where
  "BrowseResult_opcUaBinaryDecode is = do {
     (x1, is) \<leftarrow> OpcUaUInt32_decode is;
     (x2, is) \<leftarrow> OpcUaByteString_opcUaBinaryDecode is;
     (x3, is) \<leftarrow> array_decode ReferenceDescription_opcUaBinaryDecode is;
     Some (\<lparr>BrowseResult_statusCode = x1, BrowseResult_continuationPoint = x2,
            BrowseResult_referenceArray = x3\<rparr>, is) }"

definition BrowseResult_wf :: "BrowseResult \<Rightarrow> bool" where
  "BrowseResult_wf m \<longleftrightarrow>
     OpcUaByteString_wf (BrowseResult_continuationPoint m)
     \<and> array_wf ReferenceDescription_wf (BrowseResult_referenceArray m)"

declare referencedescription_codec.array_rt [codec_rt]

interpretation browseresult_codec: codec BrowseResult_opcUaBinaryEncode
  BrowseResult_opcUaBinaryDecode BrowseResult_wf
  by unfold_locales
     (simp add: BrowseResult_opcUaBinaryEncode_def BrowseResult_opcUaBinaryDecode_def
        BrowseResult_wf_def codec_rt)

declare browseresult_codec.dec_enc [codec_rt]

record BrowseResponse =
  BrowseResponse_resultArray :: "BrowseResult list"
  BrowseResponse_diagnosticInfoArray :: "OpcUaDiagnosticInfo list"

definition BrowseResponse_new :: BrowseResponse where
  "BrowseResponse_new =
     \<lparr>BrowseResponse_resultArray = [], BrowseResponse_diagnosticInfoArray = []\<rparr>"

definition BrowseResponse_opcUaBinaryEncode :: "BrowseResponse \<Rightarrow> stream" where
  "BrowseResponse_opcUaBinaryEncode this =
     array_encode BrowseResult_opcUaBinaryEncode (BrowseResponse_resultArray this)
     @ array_encode OpcUaDiagnosticInfo_opcUaBinaryEncode (BrowseResponse_diagnosticInfoArray this)"

definition BrowseResponse_opcUaBinaryDecode :: "BrowseResponse decoder" where
  "BrowseResponse_opcUaBinaryDecode is = do {
     (x1, is) \<leftarrow> array_decode BrowseResult_opcUaBinaryDecode is;
     (x2, is) \<leftarrow> array_decode (OpcUaDiagnosticInfo_opcUaBinaryDecode OpcUaDiagnosticInfo_new) is;
     Some (\<lparr>BrowseResponse_resultArray = x1, BrowseResponse_diagnosticInfoArray = x2\<rparr>, is) }"

definition BrowseResponse_wf :: "BrowseResponse \<Rightarrow> bool" where
  "BrowseResponse_wf m \<longleftrightarrow>
     array_wf BrowseResult_wf (BrowseResponse_resultArray m)
     \<and> array_wf (\<lambda>d. OpcUaString_wf (di_additionalInfo d)) (BrowseResponse_diagnosticInfoArray m)"

declare browseresult_codec.array_rt [codec_rt]

interpretation browseresponse_codec: codec BrowseResponse_opcUaBinaryEncode
  BrowseResponse_opcUaBinaryDecode BrowseResponse_wf
  by unfold_locales
     (simp add: BrowseResponse_opcUaBinaryEncode_def BrowseResponse_opcUaBinaryDecode_def
        BrowseResponse_wf_def codec_rt)

declare browseresponse_codec.dec_enc [codec_rt]

record BrowseNextRequest =
  BrowseNextRequest_releaseContinuationPoints :: bool
  BrowseNextRequest_continuationPointArray :: "OpcUaByteString list"

definition BrowseNextRequest_new :: BrowseNextRequest where
  "BrowseNextRequest_new =
     \<lparr>BrowseNextRequest_releaseContinuationPoints = False,
       BrowseNextRequest_continuationPointArray = []\<rparr>"

definition BrowseNextRequest_opcUaBinaryEncode :: "BrowseNextRequest \<Rightarrow> stream" where
  "BrowseNextRequest_opcUaBinaryEncode this =
     OpcUaBoolean_encode (BrowseNextRequest_releaseContinuationPoints this)
     @ array_encode OpcUaByteString_opcUaBinaryEncode (BrowseNextRequest_continuationPointArray this)"

definition BrowseNextRequest_opcUaBinaryDecode :: "BrowseNextRequest decoder" where
  "BrowseNextRequest_opcUaBinaryDecode is = do {
     (x1, is) \<leftarrow> OpcUaBoolean_decode is;
     (x2, is) \<leftarrow> array_decode OpcUaByteString_opcUaBinaryDecode is;
     Some (\<lparr>BrowseNextRequest_releaseContinuationPoints = x1,
            BrowseNextRequest_continuationPointArray = x2\<rparr>, is) }"

definition BrowseNextRequest_wf :: "BrowseNextRequest \<Rightarrow> bool" where
  "BrowseNextRequest_wf m \<longleftrightarrow>
     array_wf OpcUaByteString_wf (BrowseNextRequest_continuationPointArray m)"

interpretation browsenextrequest_codec: codec BrowseNextRequest_opcUaBinaryEncode
  BrowseNextRequest_opcUaBinaryDecode BrowseNextRequest_wf
  by unfold_locales
     (simp add: BrowseNextRequest_opcUaBinaryEncode_def BrowseNextRequest_opcUaBinaryDecode_def
        BrowseNextRequest_wf_def codec_rt)

declare browsenextrequest_codec.dec_enc [codec_rt]

record BrowseNextResponse =
  BrowseNextResponse_resultArray :: "BrowseResult list"
  BrowseNextResponse_diagnosticInfoArray :: "OpcUaDiagnosticInfo list"

definition BrowseNextResponse_new :: BrowseNextResponse where
  "BrowseNextResponse_new =
     \<lparr>BrowseNextResponse_resultArray = [], BrowseNextResponse_diagnosticInfoArray = []\<rparr>"

definition BrowseNextResponse_opcUaBinaryEncode :: "BrowseNextResponse \<Rightarrow> stream" where
  "BrowseNextResponse_opcUaBinaryEncode this =
     array_encode BrowseResult_opcUaBinaryEncode (BrowseNextResponse_resultArray this)
     @ array_encode OpcUaDiagnosticInfo_opcUaBinaryEncode (BrowseNextResponse_diagnosticInfoArray this)"

definition BrowseNextResponse_opcUaBinaryDecode :: "BrowseNextResponse decoder" where
  "BrowseNextResponse_opcUaBinaryDecode is = do {
     (x1, is) \<leftarrow> array_decode BrowseResult_opcUaBinaryDecode is;
     (x2, is) \<leftarrow> array_decode (OpcUaDiagnosticInfo_opcUaBinaryDecode OpcUaDiagnosticInfo_new) is;
     Some (\<lparr>BrowseNextResponse_resultArray = x1, BrowseNextResponse_diagnosticInfoArray = x2\<rparr>, is) }"

definition BrowseNextResponse_wf :: "BrowseNextResponse \<Rightarrow> bool" where
  "BrowseNextResponse_wf m \<longleftrightarrow>
     array_wf BrowseResult_wf (BrowseNextResponse_resultArray m)
     \<and> array_wf (\<lambda>d. OpcUaString_wf (di_additionalInfo d)) (BrowseNextResponse_diagnosticInfoArray m)"

interpretation browsenextresponse_codec: codec BrowseNextResponse_opcUaBinaryEncode
  BrowseNextResponse_opcUaBinaryDecode BrowseNextResponse_wf
  by unfold_locales
     (simp add: BrowseNextResponse_opcUaBinaryEncode_def BrowseNextResponse_opcUaBinaryDecode_def
        BrowseNextResponse_wf_def codec_rt)

declare browsenextresponse_codec.dec_enc [codec_rt]

section \<open>Paths\<close>

definition RelativePathElement_new :: RelativePathElement where
  "RelativePathElement_new =
     \<lparr>rpe_referenceTypeId = OpcUaNodeIdBase_new, rpe_isInverse = False,
       rpe_includeSubtypes = False, rpe_targetName = OpcUaQualifiedName_new\<rparr>"

definition RelativePathElement_opcUaBinaryEncode :: "RelativePathElement \<Rightarrow> stream" where
  "RelativePathElement_opcUaBinaryEncode this =
     OpcUaNodeId_opcUaBinaryEncode (rpe_referenceTypeId this)
     @ OpcUaBoolean_encode (rpe_isInverse this)
     @ OpcUaBoolean_encode (rpe_includeSubtypes this)
     @ OpcUaQualifiedName_opcUaBinaryEncode (rpe_targetName this)"

definition RelativePathElement_opcUaBinaryDecode :: "RelativePathElement decoder" where
  "RelativePathElement_opcUaBinaryDecode is = do {
     (x1, is) \<leftarrow> OpcUaNodeId_opcUaBinaryDecode is;
     (x2, is) \<leftarrow> OpcUaBoolean_decode is;
     (x3, is) \<leftarrow> OpcUaBoolean_decode is;
     (x4, is) \<leftarrow> OpcUaQualifiedName_opcUaBinaryDecode is;
     Some (\<lparr>rpe_referenceTypeId = x1, rpe_isInverse = x2, rpe_includeSubtypes = x3,
            rpe_targetName = x4\<rparr>, is) }"

definition RelativePathElement_wf :: "RelativePathElement \<Rightarrow> bool" where
  "RelativePathElement_wf m \<longleftrightarrow>
     OpcUaNodeId_wf (rpe_referenceTypeId m)
     \<and> OpcUaString_wf (qn_name (rpe_targetName m))"

interpretation relativepathelement_codec: codec RelativePathElement_opcUaBinaryEncode
  RelativePathElement_opcUaBinaryDecode RelativePathElement_wf
  by unfold_locales
     (simp add: RelativePathElement_opcUaBinaryEncode_def RelativePathElement_opcUaBinaryDecode_def
        RelativePathElement_wf_def codec_rt)

declare relativepathelement_codec.dec_enc [codec_rt]

text \<open>A relative path is the array of its elements.\<close>

type_synonym RelativePath = "RelativePathElement list"

definition RelativePath_opcUaBinaryEncode :: "RelativePath \<Rightarrow> stream" where
  "RelativePath_opcUaBinaryEncode this = array_encode RelativePathElement_opcUaBinaryEncode this"

definition RelativePath_opcUaBinaryDecode :: "RelativePath decoder" where
  "RelativePath_opcUaBinaryDecode is = array_decode RelativePathElement_opcUaBinaryDecode is"

interpretation relativepath_codec: codec RelativePath_opcUaBinaryEncode RelativePath_opcUaBinaryDecode
  "array_wf RelativePathElement_wf"
  by unfold_locales
     (simp add: RelativePath_opcUaBinaryEncode_def RelativePath_opcUaBinaryDecode_def
        relativepathelement_codec.array_rt)

declare relativepath_codec.dec_enc [codec_rt]

record BrowsePath =
  BrowsePath_startingNode :: OpcUaNodeIdBase
  BrowsePath_relativePath :: RelativePath

definition BrowsePath_new :: BrowsePath where
  "BrowsePath_new =
     \<lparr>BrowsePath_startingNode = OpcUaNodeIdBase_new, BrowsePath_relativePath = []\<rparr>"

definition BrowsePath_opcUaBinaryEncode :: "BrowsePath \<Rightarrow> stream" where
  "BrowsePath_opcUaBinaryEncode this =
     OpcUaNodeId_opcUaBinaryEncode (BrowsePath_startingNode this)
     @ RelativePath_opcUaBinaryEncode (BrowsePath_relativePath this)"

definition BrowsePath_opcUaBinaryDecode :: "BrowsePath decoder" where
  "BrowsePath_opcUaBinaryDecode is = do {
     (x1, is) \<leftarrow> OpcUaNodeId_opcUaBinaryDecode is;
     (x2, is) \<leftarrow> RelativePath_opcUaBinaryDecode is;
     Some (\<lparr>BrowsePath_startingNode = x1, BrowsePath_relativePath = x2\<rparr>, is) }"

definition BrowsePath_wf :: "BrowsePath \<Rightarrow> bool" where
  "BrowsePath_wf m \<longleftrightarrow>
     OpcUaNodeId_wf (BrowsePath_startingNode m)
     \<and> array_wf RelativePathElement_wf (BrowsePath_relativePath m)"

interpretation browsepath_codec: codec BrowsePath_opcUaBinaryEncode BrowsePath_opcUaBinaryDecode
  BrowsePath_wf
  by unfold_locales
     (simp add: BrowsePath_opcUaBinaryEncode_def BrowsePath_opcUaBinaryDecode_def BrowsePath_wf_def
        codec_rt)

declare browsepath_codec.dec_enc [codec_rt]

record BrowsePathTarget =
  BrowsePathTarget_targetId :: OpcUaExpandedNodeId
  BrowsePathTarget_remainingPathIndex :: u32

definition BrowsePathTarget_new :: BrowsePathTarget where
  "BrowsePathTarget_new =
     \<lparr>BrowsePathTarget_targetId = OpcUaExpandedNodeId_new,
       BrowsePathTarget_remainingPathIndex = 0\<rparr>"

definition BrowsePathTarget_opcUaBinaryEncode :: "BrowsePathTarget \<Rightarrow> stream" where
  "BrowsePathTarget_opcUaBinaryEncode this =
     OpcUaExpandedNodeId_opcUaBinaryEncode (BrowsePathTarget_targetId this)
     @ OpcUaUInt32_encode (BrowsePathTarget_remainingPathIndex this)"

definition BrowsePathTarget_opcUaBinaryDecode :: "BrowsePathTarget decoder" where
  "BrowsePathTarget_opcUaBinaryDecode is = do {
     (x1, is) \<leftarrow> OpcUaExpandedNodeId_opcUaBinaryDecode OpcUaExpandedNodeId_new is;
     (x2, is) \<leftarrow> OpcUaUInt32_decode is;
     Some (\<lparr>BrowsePathTarget_targetId = x1, BrowsePathTarget_remainingPathIndex = x2\<rparr>, is) }"

definition BrowsePathTarget_wf :: "BrowsePathTarget \<Rightarrow> bool" where
  "BrowsePathTarget_wf m \<longleftrightarrow>
     OpcUaExpandedNodeId_wf (BrowsePathTarget_targetId m)"

interpretation browsepathtarget_codec: codec BrowsePathTarget_opcUaBinaryEncode
  BrowsePathTarget_opcUaBinaryDecode BrowsePathTarget_wf
  by unfold_locales
     (simp add: BrowsePathTarget_opcUaBinaryEncode_def BrowsePathTarget_opcUaBinaryDecode_def
        BrowsePathTarget_wf_def codec_rt)

declare browsepathtarget_codec.dec_enc [codec_rt]

record BrowsePathResult =
  BrowsePathResult_statusCode :: u32
  BrowsePathResult_targetArray :: "BrowsePathTarget list"

definition BrowsePathResult_new :: BrowsePathResult where
  "BrowsePathResult_new =
     \<lparr>BrowsePathResult_statusCode = 0, BrowsePathResult_targetArray = []\<rparr>"

definition BrowsePathResult_opcUaBinaryEncode :: "BrowsePathResult \<Rightarrow> stream" where
  "BrowsePathResult_opcUaBinaryEncode this =
     OpcUaUInt32_encode (BrowsePathResult_statusCode this)
     @ array_encode BrowsePathTarget_opcUaBinaryEncode (BrowsePathResult_targetArray this)"

definition BrowsePathResult_opcUaBinaryDecode :: "BrowsePathResult decoder" where
  "BrowsePathResult_opcUaBinaryDecode is = do {
     (x1, is) \<leftarrow> OpcUaUInt32_decode is;
     (x2, is) \<leftarrow> array_decode BrowsePathTarget_opcUaBinaryDecode is;
     Some (\<lparr>BrowsePathResult_statusCode = x1, BrowsePathResult_targetArray = x2\<rparr>, is) }"

definition BrowsePathResult_wf :: "BrowsePathResult \<Rightarrow> bool" where
  "BrowsePathResult_wf m \<longleftrightarrow>
     array_wf BrowsePathTarget_wf (BrowsePathResult_targetArray m)"

declare browsepathtarget_codec.array_rt [codec_rt]

interpretation browsepathresult_codec: codec BrowsePathResult_opcUaBinaryEncode
  BrowsePathResult_opcUaBinaryDecode BrowsePathResult_wf
  by unfold_locales
     (simp add: BrowsePathResult_opcUaBinaryEncode_def BrowsePathResult_opcUaBinaryDecode_def
        BrowsePathResult_wf_def codec_rt)

declare browsepathresult_codec.dec_enc [codec_rt]

record TranslateBrowsePathsToNodeIdsRequest =
  TranslateBrowsePathsToNodeIdsRequest_browsePathArray :: "BrowsePath list"

definition TranslateBrowsePathsToNodeIdsRequest_new :: TranslateBrowsePathsToNodeIdsRequest where
  "TranslateBrowsePathsToNodeIdsRequest_new =
     \<lparr>TranslateBrowsePathsToNodeIdsRequest_browsePathArray = []\<rparr>"

definition TranslateBrowsePathsToNodeIdsRequest_opcUaBinaryEncode :: "TranslateBrowsePathsToNodeIdsRequest \<Rightarrow> stream" where
  "TranslateBrowsePathsToNodeIdsRequest_opcUaBinaryEncode this =
     array_encode BrowsePath_opcUaBinaryEncode (TranslateBrowsePathsToNodeIdsRequest_browsePathArray this)"

definition TranslateBrowsePathsToNodeIdsRequest_opcUaBinaryDecode :: "TranslateBrowsePathsToNodeIdsRequest decoder" where
  "TranslateBrowsePathsToNodeIdsRequest_opcUaBinaryDecode is = do {
     (x1, is) \<leftarrow> array_decode BrowsePath_opcUaBinaryDecode is;
     Some (\<lparr>TranslateBrowsePathsToNodeIdsRequest_browsePathArray = x1\<rparr>, is) }"

definition TranslateBrowsePathsToNodeIdsRequest_wf :: "TranslateBrowsePathsToNodeIdsRequest \<Rightarrow> bool" where
  "TranslateBrowsePathsToNodeIdsRequest_wf m \<longleftrightarrow>
     array_wf BrowsePath_wf (TranslateBrowsePathsToNodeIdsRequest_browsePathArray m)"

declare browsepath_codec.array_rt [codec_rt]

interpretation translatebrowsepathstonodeidsrequest_codec: codec
  TranslateBrowsePathsToNodeIdsRequest_opcUaBinaryEncode
  TranslateBrowsePathsToNodeIdsRequest_opcUaBinaryDecode TranslateBrowsePathsToNodeIdsRequest_wf
  by unfold_locales
     (simp add: TranslateBrowsePathsToNodeIdsRequest_opcUaBinaryEncode_def
        TranslateBrowsePathsToNodeIdsRequest_opcUaBinaryDecode_def
        TranslateBrowsePathsToNodeIdsRequest_wf_def codec_rt)

declare translatebrowsepathstonodeidsrequest_codec.dec_enc [codec_rt]

record TranslateBrowsePathsToNodeIdsResponse =
  TranslateBrowsePathsToNodeIdsResponse_resultArray :: "BrowsePathResult list"
  TranslateBrowsePathsToNodeIdsResponse_diagnosticInfoArray :: "OpcUaDiagnosticInfo list"

definition TranslateBrowsePathsToNodeIdsResponse_new :: TranslateBrowsePathsToNodeIdsResponse where
  "TranslateBrowsePathsToNodeIdsResponse_new =
     \<lparr>TranslateBrowsePathsToNodeIdsResponse_resultArray = [],
       TranslateBrowsePathsToNodeIdsResponse_diagnosticInfoArray = []\<rparr>"

definition TranslateBrowsePathsToNodeIdsResponse_opcUaBinaryEncode :: "TranslateBrowsePathsToNodeIdsResponse \<Rightarrow> stream" where
  "TranslateBrowsePathsToNodeIdsResponse_opcUaBinaryEncode this =
     array_encode BrowsePathResult_opcUaBinaryEncode (TranslateBrowsePathsToNodeIdsResponse_resultArray this)
     @ array_encode OpcUaDiagnosticInfo_opcUaBinaryEncode (TranslateBrowsePathsToNodeIdsResponse_diagnosticInfoArray this)"

definition TranslateBrowsePathsToNodeIdsResponse_opcUaBinaryDecode :: "TranslateBrowsePathsToNodeIdsResponse decoder" where
  "TranslateBrowsePathsToNodeIdsResponse_opcUaBinaryDecode is = do {
     (x1, is) \<leftarrow> array_decode BrowsePathResult_opcUaBinaryDecode is;
     (x2, is) \<leftarrow> array_decode (OpcUaDiagnosticInfo_opcUaBinaryDecode OpcUaDiagnosticInfo_new) is;
     Some (\<lparr>TranslateBrowsePathsToNodeIdsResponse_resultArray = x1,
            TranslateBrowsePathsToNodeIdsResponse_diagnosticInfoArray = x2\<rparr>, is) }"

definition TranslateBrowsePathsToNodeIdsResponse_wf :: "TranslateBrowsePathsToNodeIdsResponse \<Rightarrow> bool" where
  "TranslateBrowsePathsToNodeIdsResponse_wf m \<longleftrightarrow>
     array_wf BrowsePathResult_wf (TranslateBrowsePathsToNodeIdsResponse_resultArray m)
     \<and> array_wf (\<lambda>d. OpcUaString_wf (di_additionalInfo d)) (TranslateBrowsePathsToNodeIdsResponse_diagnosticInfoArray m)"

declare browsepathresult_codec.array_rt [codec_rt]

interpretation translatebrowsepathstonodeidsresponse_codec: codec
  TranslateBrowsePathsToNodeIdsResponse_opcUaBinaryEncode
  TranslateBrowsePathsToNodeIdsResponse_opcUaBinaryDecode TranslateBrowsePathsToNodeIdsResponse_wf
  by unfold_locales
     (simp add: TranslateBrowsePathsToNodeIdsResponse_opcUaBinaryEncode_def
        TranslateBrowsePathsToNodeIdsResponse_opcUaBinaryDecode_def
        TranslateBrowsePathsToNodeIdsResponse_wf_def codec_rt)

declare translatebrowsepathstonodeidsresponse_codec.dec_enc [codec_rt]

record QueryDataDescription =
  QueryDataDescription_relativePath :: RelativePath
  QueryDataDescription_attributeId :: u32
  QueryDataDescription_indexRange :: OpcUaString

definition QueryDataDescription_new :: QueryDataDescription where
  "QueryDataDescription_new =
     \<lparr>QueryDataDescription_relativePath = [], QueryDataDescription_attributeId = 0,
       QueryDataDescription_indexRange = OpcUaString_new\<rparr>"

definition QueryDataDescription_opcUaBinaryEncode :: "QueryDataDescription \<Rightarrow> stream" where
  "QueryDataDescription_opcUaBinaryEncode this =
     RelativePath_opcUaBinaryEncode (QueryDataDescription_relativePath this)
     @ OpcUaUInt32_encode (QueryDataDescription_attributeId this)
     @ OpcUaString_opcUaBinaryEncode (QueryDataDescription_indexRange this)"

definition QueryDataDescription_opcUaBinaryDecode :: "QueryDataDescription decoder" where
  "QueryDataDescription_opcUaBinaryDecode is = do {
     (x1, is) \<leftarrow> RelativePath_opcUaBinaryDecode is;
     (x2, is) \<leftarrow> OpcUaUInt32_decode is;
     (x3, is) \<leftarrow> OpcUaString_opcUaBinaryDecode is;
     Some (\<lparr>QueryDataDescription_relativePath = x1, QueryDataDescription_attributeId = x2,
            QueryDataDescription_indexRange = x3\<rparr>, is) }"

definition QueryDataDescription_wf :: "QueryDataDescription \<Rightarrow> bool" where
  "QueryDataDescription_wf m \<longleftrightarrow>
     array_wf RelativePathElement_wf (QueryDataDescription_relativePath m)
     \<and> OpcUaString_wf (QueryDataDescription_indexRange m)"

interpretation querydatadescription_codec: codec QueryDataDescription_opcUaBinaryEncode
  QueryDataDescription_opcUaBinaryDecode QueryDataDescription_wf
  by unfold_locales
     (simp add: QueryDataDescription_opcUaBinaryEncode_def
        QueryDataDescription_opcUaBinaryDecode_def QueryDataDescription_wf_def codec_rt)

declare querydatadescription_codec.dec_enc [codec_rt]

record NodeTypeDescription =
  NodeTypeDescription_typeDefinitionNode :: OpcUaExpandedNodeId
  NodeTypeDescription_includeSubtypes :: bool
  NodeTypeDescription_dataToReturnArray :: "QueryDataDescription list"

definition NodeTypeDescription_new :: NodeTypeDescription where
  "NodeTypeDescription_new =
     \<lparr>NodeTypeDescription_typeDefinitionNode = OpcUaExpandedNodeId_new,
       NodeTypeDescription_includeSubtypes = False, NodeTypeDescription_dataToReturnArray = []\<rparr>"

definition NodeTypeDescription_opcUaBinaryEncode :: "NodeTypeDescription \<Rightarrow> stream" where
  "NodeTypeDescription_opcUaBinaryEncode this =
     OpcUaExpandedNodeId_opcUaBinaryEncode (NodeTypeDescription_typeDefinitionNode this)
     @ OpcUaBoolean_encode (NodeTypeDescription_includeSubtypes this)
     @ array_encode QueryDataDescription_opcUaBinaryEncode (NodeTypeDescription_dataToReturnArray this)"

definition NodeTypeDescription_opcUaBinaryDecode :: "NodeTypeDescription decoder" where
  "NodeTypeDescription_opcUaBinaryDecode is = do {
     (x1, is) \<leftarrow> OpcUaExpandedNodeId_opcUaBinaryDecode OpcUaExpandedNodeId_new is;
     (x2, is) \<leftarrow> OpcUaBoolean_decode is;
     (x3, is) \<leftarrow> array_decode QueryDataDescription_opcUaBinaryDecode is;
     Some (\<lparr>NodeTypeDescription_typeDefinitionNode = x1,
            NodeTypeDescription_includeSubtypes = x2,
            NodeTypeDescription_dataToReturnArray = x3\<rparr>, is) }"

definition NodeTypeDescription_wf :: "NodeTypeDescription \<Rightarrow> bool" where
  "NodeTypeDescription_wf m \<longleftrightarrow>
     OpcUaExpandedNodeId_wf (NodeTypeDescription_typeDefinitionNode m)
     \<and> array_wf QueryDataDescription_wf (NodeTypeDescription_dataToReturnArray m)"

declare querydatadescription_codec.array_rt [codec_rt]

interpretation nodetypedescription_codec: codec NodeTypeDescription_opcUaBinaryEncode
  NodeTypeDescription_opcUaBinaryDecode NodeTypeDescription_wf
  by unfold_locales
     (simp add: NodeTypeDescription_opcUaBinaryEncode_def NodeTypeDescription_opcUaBinaryDecode_def
        NodeTypeDescription_wf_def codec_rt)

declare nodetypedescription_codec.dec_enc [codec_rt]

record QueryNextRequest =
  QueryNextRequest_releaseContinuationPoint :: bool
  QueryNextRequest_continuationPoint :: OpcUaByteString

definition QueryNextRequest_new :: QueryNextRequest where
  "QueryNextRequest_new =
     \<lparr>QueryNextRequest_releaseContinuationPoint = False,
       QueryNextRequest_continuationPoint = OpcUaByteString_new\<rparr>"

definition QueryNextRequest_opcUaBinaryEncode :: "QueryNextRequest \<Rightarrow> stream" where
  "QueryNextRequest_opcUaBinaryEncode this =
     OpcUaBoolean_encode (QueryNextRequest_releaseContinuationPoint this)
     @ OpcUaByteString_opcUaBinaryEncode (QueryNextRequest_continuationPoint this)"

definition QueryNextRequest_opcUaBinaryDecode :: "QueryNextRequest decoder" where
  "QueryNextRequest_opcUaBinaryDecode is = do {
     (x1, is) \<leftarrow> OpcUaBoolean_decode is;
     (x2, is) \<leftarrow> OpcUaByteString_opcUaBinaryDecode is;
     Some (\<lparr>QueryNextRequest_releaseContinuationPoint = x1,
            QueryNextRequest_continuationPoint = x2\<rparr>, is) }"

definition QueryNextRequest_wf :: "QueryNextRequest \<Rightarrow> bool" where
  "QueryNextRequest_wf m \<longleftrightarrow>
     OpcUaByteString_wf (QueryNextRequest_continuationPoint m)"

interpretation querynextrequest_codec: codec QueryNextRequest_opcUaBinaryEncode
  QueryNextRequest_opcUaBinaryDecode QueryNextRequest_wf
  by unfold_locales
     (simp add: QueryNextRequest_opcUaBinaryEncode_def QueryNextRequest_opcUaBinaryDecode_def
        QueryNextRequest_wf_def codec_rt)

declare querynextrequest_codec.dec_enc [codec_rt]

record ParsingResult =
  ParsingResult_statusCode :: u32
  ParsingResult_dataStatusCodeArray :: "u32 list"
  ParsingResult_dataDiagnosticInfoArray :: "OpcUaDiagnosticInfo list"

definition ParsingResult_new :: ParsingResult where
  "ParsingResult_new =
     \<lparr>ParsingResult_statusCode = 0, ParsingResult_dataStatusCodeArray = [],
       ParsingResult_dataDiagnosticInfoArray = []\<rparr>"

definition ParsingResult_opcUaBinaryEncode :: "ParsingResult \<Rightarrow> stream" where
  "ParsingResult_opcUaBinaryEncode this =
     OpcUaUInt32_encode (ParsingResult_statusCode this)
     @ array_encode OpcUaInt32_encode (ParsingResult_dataStatusCodeArray this)
     @ array_encode OpcUaDiagnosticInfo_opcUaBinaryEncode (ParsingResult_dataDiagnosticInfoArray this)"

definition ParsingResult_opcUaBinaryDecode :: "ParsingResult decoder" where
  "ParsingResult_opcUaBinaryDecode is = do {
     (x1, is) \<leftarrow> OpcUaUInt32_decode is;
     (x2, is) \<leftarrow> array_decode OpcUaInt32_decode is;
     (x3, is) \<leftarrow> array_decode (OpcUaDiagnosticInfo_opcUaBinaryDecode OpcUaDiagnosticInfo_new) is;
     Some (\<lparr>ParsingResult_statusCode = x1, ParsingResult_dataStatusCodeArray = x2,
            ParsingResult_dataDiagnosticInfoArray = x3\<rparr>, is) }"

definition ParsingResult_wf :: "ParsingResult \<Rightarrow> bool" where
  "ParsingResult_wf m \<longleftrightarrow>
     array_wf (\<lambda>_. True) (ParsingResult_dataStatusCodeArray m)
     \<and> array_wf (\<lambda>d. OpcUaString_wf (di_additionalInfo d)) (ParsingResult_dataDiagnosticInfoArray m)"

interpretation parsingresult_codec: codec ParsingResult_opcUaBinaryEncode
  ParsingResult_opcUaBinaryDecode ParsingResult_wf
  by unfold_locales
     (simp add: ParsingResult_opcUaBinaryEncode_def ParsingResult_opcUaBinaryDecode_def
        ParsingResult_wf_def codec_rt)

declare parsingresult_codec.dec_enc [codec_rt]

section \<open>Operands of filters\<close>

definition AttributeOperand_new :: AttributeOperand where
  "AttributeOperand_new =
     \<lparr>ao_nodeId = OpcUaNodeIdBase_new, ao_alias = OpcUaString_new, ao_browsePath = [],
       ao_attributeId = 0, ao_indexRange = OpcUaString_new\<rparr>"

definition AttributeOperand_opcUaBinaryEncode :: "AttributeOperand \<Rightarrow> stream" where
  "AttributeOperand_opcUaBinaryEncode this =
     OpcUaNodeId_opcUaBinaryEncode (ao_nodeId this)
     @ OpcUaString_opcUaBinaryEncode (ao_alias this)
     @ RelativePath_opcUaBinaryEncode (ao_browsePath this)
     @ OpcUaUInt32_encode (ao_attributeId this)
     @ OpcUaString_opcUaBinaryEncode (ao_indexRange this)"

definition AttributeOperand_opcUaBinaryDecode :: "AttributeOperand decoder" where
  "AttributeOperand_opcUaBinaryDecode is = do {
     (x1, is) \<leftarrow> OpcUaNodeId_opcUaBinaryDecode is;
     (x2, is) \<leftarrow> OpcUaString_opcUaBinaryDecode is;
     (x3, is) \<leftarrow> RelativePath_opcUaBinaryDecode is;
     (x4, is) \<leftarrow> OpcUaUInt32_decode is;
     (x5, is) \<leftarrow> OpcUaString_opcUaBinaryDecode is;
     Some (\<lparr>ao_nodeId = x1, ao_alias = x2, ao_browsePath = x3, ao_attributeId = x4,
            ao_indexRange = x5\<rparr>, is) }"

definition AttributeOperand_wf :: "AttributeOperand \<Rightarrow> bool" where
  "AttributeOperand_wf m \<longleftrightarrow>
     OpcUaNodeId_wf (ao_nodeId m)
     \<and> OpcUaString_wf (ao_alias m)
     \<and> array_wf RelativePathElement_wf (ao_browsePath m)
     \<and> OpcUaString_wf (ao_indexRange m)"

interpretation attributeoperand_codec: codec AttributeOperand_opcUaBinaryEncode
  AttributeOperand_opcUaBinaryDecode AttributeOperand_wf
  by unfold_locales
     (simp add: AttributeOperand_opcUaBinaryEncode_def AttributeOperand_opcUaBinaryDecode_def
        AttributeOperand_wf_def codec_rt)

declare attributeoperand_codec.dec_enc [codec_rt]

definition SimpleAttributeOperand_new :: SimpleAttributeOperand where
  "SimpleAttributeOperand_new =
     \<lparr>sao_typeId = OpcUaNodeIdBase_new, sao_browsePath = [], sao_attributeId = 0,
       sao_indexRange = OpcUaString_new\<rparr>"

definition SimpleAttributeOperand_opcUaBinaryEncode :: "SimpleAttributeOperand \<Rightarrow> stream" where
  "SimpleAttributeOperand_opcUaBinaryEncode this =
     OpcUaNodeId_opcUaBinaryEncode (sao_typeId this)
     @ array_encode OpcUaQualifiedName_opcUaBinaryEncode (sao_browsePath this)
     @ OpcUaUInt32_encode (sao_attributeId this)
     @ OpcUaString_opcUaBinaryEncode (sao_indexRange this)"

definition SimpleAttributeOperand_opcUaBinaryDecode :: "SimpleAttributeOperand decoder" where
  "SimpleAttributeOperand_opcUaBinaryDecode is = do {
     (x1, is) \<leftarrow> OpcUaNodeId_opcUaBinaryDecode is;
     (x2, is) \<leftarrow> array_decode OpcUaQualifiedName_opcUaBinaryDecode is;
     (x3, is) \<leftarrow> OpcUaUInt32_decode is;
     (x4, is) \<leftarrow> OpcUaString_opcUaBinaryDecode is;
     Some (\<lparr>sao_typeId = x1, sao_browsePath = x2, sao_attributeId = x3, sao_indexRange = x4\<rparr>, is) }"

definition SimpleAttributeOperand_wf :: "SimpleAttributeOperand \<Rightarrow> bool" where
  "SimpleAttributeOperand_wf m \<longleftrightarrow>
     OpcUaNodeId_wf (sao_typeId m)
     \<and> array_wf (\<lambda>q. OpcUaString_wf (qn_name q)) (sao_browsePath m)
     \<and> OpcUaString_wf (sao_indexRange m)"

interpretation simpleattributeoperand_codec: codec SimpleAttributeOperand_opcUaBinaryEncode
  SimpleAttributeOperand_opcUaBinaryDecode SimpleAttributeOperand_wf
  by unfold_locales
     (simp add: SimpleAttributeOperand_opcUaBinaryEncode_def
        SimpleAttributeOperand_opcUaBinaryDecode_def SimpleAttributeOperand_wf_def codec_rt)

declare simpleattributeoperand_codec.dec_enc [codec_rt]

record ElementOperand =
  ElementOperand_index :: u32

definition ElementOperand_new :: ElementOperand where
  "ElementOperand_new =
     \<lparr>ElementOperand_index = 0\<rparr>"

definition ElementOperand_opcUaBinaryEncode :: "ElementOperand \<Rightarrow> stream" where
  "ElementOperand_opcUaBinaryEncode this =
     OpcUaUInt32_encode (ElementOperand_index this)"

definition ElementOperand_opcUaBinaryDecode :: "ElementOperand decoder" where
  "ElementOperand_opcUaBinaryDecode is = do {
     (x1, is) \<leftarrow> OpcUaUInt32_decode is;
     Some (\<lparr>ElementOperand_index = x1\<rparr>, is) }"

interpretation elementoperand_codec: codec ElementOperand_opcUaBinaryEncode
  ElementOperand_opcUaBinaryDecode "\<lambda>_. True"
  by unfold_locales
     (simp add: ElementOperand_opcUaBinaryEncode_def ElementOperand_opcUaBinaryDecode_def codec_rt)

declare elementoperand_codec.dec_enc [OF TrueI, codec_rt]

section \<open>Registration of nodes\<close>

record RegisterNodesRequest =
  RegisterNodesRequest_nodesToRegisterArray :: "OpcUaNodeIdBase list"

definition RegisterNodesRequest_new :: RegisterNodesRequest where
  "RegisterNodesRequest_new =
     \<lparr>RegisterNodesRequest_nodesToRegisterArray = []\<rparr>"

definition RegisterNodesRequest_opcUaBinaryEncode :: "RegisterNodesRequest \<Rightarrow> stream" where
  "RegisterNodesRequest_opcUaBinaryEncode this =
     array_encode OpcUaNodeId_opcUaBinaryEncode (RegisterNodesRequest_nodesToRegisterArray this)"

definition RegisterNodesRequest_opcUaBinaryDecode :: "RegisterNodesRequest decoder" where
  "RegisterNodesRequest_opcUaBinaryDecode is = do {
     (x1, is) \<leftarrow> array_decode OpcUaNodeId_opcUaBinaryDecode is;
     Some (\<lparr>RegisterNodesRequest_nodesToRegisterArray = x1\<rparr>, is) }"

definition RegisterNodesRequest_wf :: "RegisterNodesRequest \<Rightarrow> bool" where
  "RegisterNodesRequest_wf m \<longleftrightarrow>
     array_wf OpcUaNodeId_wf (RegisterNodesRequest_nodesToRegisterArray m)"

interpretation registernodesrequest_codec: codec RegisterNodesRequest_opcUaBinaryEncode
  RegisterNodesRequest_opcUaBinaryDecode RegisterNodesRequest_wf
  by unfold_locales
     (simp add: RegisterNodesRequest_opcUaBinaryEncode_def
        RegisterNodesRequest_opcUaBinaryDecode_def RegisterNodesRequest_wf_def codec_rt)

declare registernodesrequest_codec.dec_enc [codec_rt]

record RegisterNodesResponse =
  RegisterNodesResponse_registeredNodeIdArray :: "OpcUaNodeIdBase list"

definition RegisterNodesResponse_new :: RegisterNodesResponse where
  "RegisterNodesResponse_new =
     \<lparr>RegisterNodesResponse_registeredNodeIdArray = []\<rparr>"

definition RegisterNodesResponse_opcUaBinaryEncode :: "RegisterNodesResponse \<Rightarrow> stream" where
  "RegisterNodesResponse_opcUaBinaryEncode this =
     array_encode OpcUaNodeId_opcUaBinaryEncode (RegisterNodesResponse_registeredNodeIdArray this)"

definition RegisterNodesResponse_opcUaBinaryDecode :: "RegisterNodesResponse decoder" where
  "RegisterNodesResponse_opcUaBinaryDecode is = do {
     (x1, is) \<leftarrow> array_decode OpcUaNodeId_opcUaBinaryDecode is;
     Some (\<lparr>RegisterNodesResponse_registeredNodeIdArray = x1\<rparr>, is) }"

definition RegisterNodesResponse_wf :: "RegisterNodesResponse \<Rightarrow> bool" where
  "RegisterNodesResponse_wf m \<longleftrightarrow>
     array_wf OpcUaNodeId_wf (RegisterNodesResponse_registeredNodeIdArray m)"

interpretation registernodesresponse_codec: codec RegisterNodesResponse_opcUaBinaryEncode
  RegisterNodesResponse_opcUaBinaryDecode RegisterNodesResponse_wf
  by unfold_locales
     (simp add: RegisterNodesResponse_opcUaBinaryEncode_def
        RegisterNodesResponse_opcUaBinaryDecode_def RegisterNodesResponse_wf_def codec_rt)

declare registernodesresponse_codec.dec_enc [codec_rt]

record UnregisterNodesRequest =
  UnregisterNodesRequest_nodesToUnregisterArray :: "OpcUaNodeIdBase list"

definition UnregisterNodesRequest_new :: UnregisterNodesRequest where
  "UnregisterNodesRequest_new =
     \<lparr>UnregisterNodesRequest_nodesToUnregisterArray = []\<rparr>"

definition UnregisterNodesRequest_opcUaBinaryEncode :: "UnregisterNodesRequest \<Rightarrow> stream" where
  "UnregisterNodesRequest_opcUaBinaryEncode this =
     array_encode OpcUaNodeId_opcUaBinaryEncode (UnregisterNodesRequest_nodesToUnregisterArray this)"

definition UnregisterNodesRequest_opcUaBinaryDecode :: "UnregisterNodesRequest decoder" where
  "UnregisterNodesRequest_opcUaBinaryDecode is = do {
     (x1, is) \<leftarrow> array_decode OpcUaNodeId_opcUaBinaryDecode is;
     Some (\<lparr>UnregisterNodesRequest_nodesToUnregisterArray = x1\<rparr>, is) }"

definition UnregisterNodesRequest_wf :: "UnregisterNodesRequest \<Rightarrow> bool" where
  "UnregisterNodesRequest_wf m \<longleftrightarrow>
     array_wf OpcUaNodeId_wf (UnregisterNodesRequest_nodesToUnregisterArray m)"

interpretation unregisternodesrequest_codec: codec UnregisterNodesRequest_opcUaBinaryEncode
  UnregisterNodesRequest_opcUaBinaryDecode UnregisterNodesRequest_wf
  by unfold_locales
     (simp add: UnregisterNodesRequest_opcUaBinaryEncode_def
        UnregisterNodesRequest_opcUaBinaryDecode_def UnregisterNodesRequest_wf_def codec_rt)

declare unregisternodesrequest_codec.dec_enc [codec_rt]

text \<open>The body of the response to the unregistering of nodes is empty.\<close>

type_synonym UnregisterNodesResponse = unit

definition UnregisterNodesResponse_opcUaBinaryEncode :: "UnregisterNodesResponse \<Rightarrow> stream" where
  "UnregisterNodesResponse_opcUaBinaryEncode this = []"

definition UnregisterNodesResponse_opcUaBinaryDecode :: "UnregisterNodesResponse decoder" where
  "UnregisterNodesResponse_opcUaBinaryDecode is = Some ((), is)"

interpretation unregisternodesresponse_codec: codec UnregisterNodesResponse_opcUaBinaryEncode
  UnregisterNodesResponse_opcUaBinaryDecode "\<lambda>_. True"
  by unfold_locales
     (simp add: UnregisterNodesResponse_opcUaBinaryEncode_def UnregisterNodesResponse_opcUaBinaryDecode_def)

end
