(* ===== verification/HistoryMessages.thy ===== *)
theory HistoryMessages
  imports ChannelMessages
begin

text \<open>
  The messages of reading, writing and of the history services (\<^verbatim>\<open>OpcUaStackCore/ServiceSet\<close>) whose
  members have no polymorphic value, with their binary coders.
\<close>

section \<open>Reading and writing\<close>

record ReadValueId =
  ReadValueId_nodeId :: OpcUaNodeIdBase
  ReadValueId_attributeId :: u32
  ReadValueId_indexRange :: OpcUaString
  ReadValueId_dataEncoding :: OpcUaQualifiedName

definition ReadValueId_new :: ReadValueId where
  "ReadValueId_new =
     \<lparr>ReadValueId_nodeId = OpcUaNodeIdBase_new, ReadValueId_attributeId = 13,
       ReadValueId_indexRange = OpcUaString_new, ReadValueId_dataEncoding = OpcUaQualifiedName_new\<rparr>"

definition ReadValueId_opcUaBinaryEncode :: "ReadValueId \<Rightarrow> stream" where
  "ReadValueId_opcUaBinaryEncode this =
     OpcUaNodeId_opcUaBinaryEncode (ReadValueId_nodeId this)
     @ OpcUaInt32_encode (ReadValueId_attributeId this)
     @ OpcUaString_opcUaBinaryEncode (ReadValueId_indexRange this)
     @ OpcUaQualifiedName_opcUaBinaryEncode (ReadValueId_dataEncoding this)"

definition ReadValueId_opcUaBinaryDecode :: "ReadValueId decoder" where
  "ReadValueId_opcUaBinaryDecode is = do {
     (x1, is) \<leftarrow> OpcUaNodeId_opcUaBinaryDecode is;
     (x2, is) \<leftarrow> OpcUaInt32_decode is;
     (x3, is) \<leftarrow> OpcUaString_opcUaBinaryDecode is;
     (x4, is) \<leftarrow> OpcUaQualifiedName_opcUaBinaryDecode is;
     Some (\<lparr>ReadValueId_nodeId = x1, ReadValueId_attributeId = x2, ReadValueId_indexRange = x3,
            ReadValueId_dataEncoding = x4\<rparr>, is) }"

definition ReadValueId_wf :: "ReadValueId \<Rightarrow> bool" where
  "ReadValueId_wf m \<longleftrightarrow>
     OpcUaNodeId_wf (ReadValueId_nodeId m)
     \<and> OpcUaString_wf (ReadValueId_indexRange m)
     \<and> OpcUaString_wf (qn_name (ReadValueId_dataEncoding m))"

interpretation readvalueid_codec: codec ReadValueId_opcUaBinaryEncode ReadValueId_opcUaBinaryDecode
  ReadValueId_wf
  by unfold_locales
     (simp add: ReadValueId_opcUaBinaryEncode_def ReadValueId_opcUaBinaryDecode_def
        ReadValueId_wf_def codec_rt)

declare readvalueid_codec.dec_enc [codec_rt]

record ReadRequest =
  ReadRequest_maxAge :: u64
  ReadRequest_timestampsToReturn :: u32
  ReadRequest_readValueIdArray :: "ReadValueId list"

definition ReadRequest_new :: ReadRequest where
  "ReadRequest_new =
     \<lparr>ReadRequest_maxAge = 0, ReadRequest_timestampsToReturn = 0,
       ReadRequest_readValueIdArray = []\<rparr>"

definition ReadRequest_opcUaBinaryEncode :: "ReadRequest \<Rightarrow> stream" where
  "ReadRequest_opcUaBinaryEncode this =
     OpcUaDouble_encode (ReadRequest_maxAge this)
     @ OpcUaInt32_encode (ReadRequest_timestampsToReturn this)
     @ array_encode ReadValueId_opcUaBinaryEncode (ReadRequest_readValueIdArray this)"

definition ReadRequest_opcUaBinaryDecode :: "ReadRequest decoder" where
  "ReadRequest_opcUaBinaryDecode is = do {
     (x1, is) \<leftarrow> OpcUaDouble_decode is;
     (x2, is) \<leftarrow> OpcUaInt32_decode is;
     (x3, is) \<leftarrow> array_decode ReadValueId_opcUaBinaryDecode is;
     Some (\<lparr>ReadRequest_maxAge = x1, ReadRequest_timestampsToReturn = x2,
            ReadRequest_readValueIdArray = x3\<rparr>, is) }"

definition ReadRequest_wf :: "ReadRequest \<Rightarrow> bool" where
  "ReadRequest_wf m \<longleftrightarrow>
     array_wf ReadValueId_wf (ReadRequest_readValueIdArray m)"

declare readvalueid_codec.array_rt [codec_rt]

interpretation readrequest_codec: codec ReadRequest_opcUaBinaryEncode ReadRequest_opcUaBinaryDecode
  ReadRequest_wf
  by unfold_locales
     (simp add: ReadRequest_opcUaBinaryEncode_def ReadRequest_opcUaBinaryDecode_def
        ReadRequest_wf_def codec_rt)

declare readrequest_codec.dec_enc [codec_rt]

record WriteResponse =
  WriteResponse_statusCodeArray :: "u32 list"
  WriteResponse_diagnosticInfoArray :: "OpcUaDiagnosticInfo list"

definition WriteResponse_new :: WriteResponse where
  "WriteResponse_new =
     \<lparr>WriteResponse_statusCodeArray = [], WriteResponse_diagnosticInfoArray = []\<rparr>"

definition WriteResponse_opcUaBinaryEncode :: "WriteResponse \<Rightarrow> stream" where
  "WriteResponse_opcUaBinaryEncode this =
     array_encode OpcUaInt32_encode (WriteResponse_statusCodeArray this)
     @ array_encode OpcUaDiagnosticInfo_opcUaBinaryEncode (WriteResponse_diagnosticInfoArray this)"

definition WriteResponse_opcUaBinaryDecode :: "WriteResponse decoder" where
  "WriteResponse_opcUaBinaryDecode is = do {
     (x1, is) \<leftarrow> array_decode OpcUaInt32_decode is;
     (x2, is) \<leftarrow> array_decode (OpcUaDiagnosticInfo_opcUaBinaryDecode OpcUaDiagnosticInfo_new) is;
     Some (\<lparr>WriteResponse_statusCodeArray = x1, WriteResponse_diagnosticInfoArray = x2\<rparr>, is) }"

definition WriteResponse_wf :: "WriteResponse \<Rightarrow> bool" where
  "WriteResponse_wf m \<longleftrightarrow>
     array_wf (\<lambda>_. True) (WriteResponse_statusCodeArray m)
     \<and> array_wf (\<lambda>d. OpcUaString_wf (di_additionalInfo d)) (WriteResponse_diagnosticInfoArray m)"

interpretation writeresponse_codec: codec WriteResponse_opcUaBinaryEncode
  WriteResponse_opcUaBinaryDecode WriteResponse_wf
  by unfold_locales
     (simp add: WriteResponse_opcUaBinaryEncode_def WriteResponse_opcUaBinaryDecode_def
        WriteResponse_wf_def codec_rt)

declare writeresponse_codec.dec_enc [codec_rt]

section \<open>History\<close>

record AggregateConfiguration =
  AggregateConfiguration_useServerCapabilitiesDefaults :: bool
  AggregateConfiguration_treatUncertainAsBad :: bool
  AggregateConfiguration_percentDataBad :: u8
  AggregateConfiguration_percentDataGood :: u8
  AggregateConfiguration_steppedSlopedExtrapolation :: bool

definition AggregateConfiguration_new :: AggregateConfiguration where
  "AggregateConfiguration_new =
     \<lparr>AggregateConfiguration_useServerCapabilitiesDefaults = False,
       AggregateConfiguration_treatUncertainAsBad = False,
       AggregateConfiguration_percentDataBad = 0, AggregateConfiguration_percentDataGood = 0,
       AggregateConfiguration_steppedSlopedExtrapolation = False\<rparr>"

definition AggregateConfiguration_opcUaBinaryEncode :: "AggregateConfiguration \<Rightarrow> stream" where
  "AggregateConfiguration_opcUaBinaryEncode this =
     OpcUaBoolean_encode (AggregateConfiguration_useServerCapabilitiesDefaults this)
     @ OpcUaBoolean_encode (AggregateConfiguration_treatUncertainAsBad this)
     @ OpcUaByte_encode (AggregateConfiguration_percentDataBad this)
     @ OpcUaByte_encode (AggregateConfiguration_percentDataGood this)
     @ OpcUaBoolean_encode (AggregateConfiguration_steppedSlopedExtrapolation this)"

definition AggregateConfiguration_opcUaBinaryDecode :: "AggregateConfiguration decoder" where
  "AggregateConfiguration_opcUaBinaryDecode is = do {
     (x1, is) \<leftarrow> OpcUaBoolean_decode is;
     (x2, is) \<leftarrow> OpcUaBoolean_decode is;
     (x3, is) \<leftarrow> OpcUaByte_decode is;
     (x4, is) \<leftarrow> OpcUaByte_decode is;
     (x5, is) \<leftarrow> OpcUaBoolean_decode is;
     Some (\<lparr>AggregateConfiguration_useServerCapabilitiesDefaults = x1,
            AggregateConfiguration_treatUncertainAsBad = x2,
            AggregateConfiguration_percentDataBad = x3,
            AggregateConfiguration_percentDataGood = x4,
            AggregateConfiguration_steppedSlopedExtrapolation = x5\<rparr>, is) }"

interpretation aggregateconfiguration_codec: codec AggregateConfiguration_opcUaBinaryEncode
  AggregateConfiguration_opcUaBinaryDecode "\<lambda>_. True"
  by unfold_locales
     (simp add: AggregateConfiguration_opcUaBinaryEncode_def
        AggregateConfiguration_opcUaBinaryDecode_def codec_rt)

declare aggregateconfiguration_codec.dec_enc [OF TrueI, codec_rt]

record AggregateFilter =
  AggregateFilter_startTime :: OpcUaDateTime
  AggregateFilter_aggregateType :: OpcUaNodeIdBase
  AggregateFilter_processingInterval :: u64
  AggregateFilter_aggregateConfiguration :: AggregateConfiguration

definition AggregateFilter_new :: AggregateFilter where
  "AggregateFilter_new =
     \<lparr>AggregateFilter_startTime = 0, AggregateFilter_aggregateType = OpcUaNodeIdBase_new,
       AggregateFilter_processingInterval = 0,
       AggregateFilter_aggregateConfiguration = AggregateConfiguration_new\<rparr>"

definition AggregateFilter_opcUaBinaryEncode :: "AggregateFilter \<Rightarrow> stream" where
  "AggregateFilter_opcUaBinaryEncode this =
     OpcUaDateTime_opcUaBinaryEncode (AggregateFilter_startTime this)
     @ OpcUaNodeId_opcUaBinaryEncode (AggregateFilter_aggregateType this)
     @ OpcUaDouble_encode (AggregateFilter_processingInterval this)
     @ AggregateConfiguration_opcUaBinaryEncode (AggregateFilter_aggregateConfiguration this)"

definition AggregateFilter_opcUaBinaryDecode :: "AggregateFilter decoder" where
  "AggregateFilter_opcUaBinaryDecode is = do {
     (x1, is) \<leftarrow> OpcUaDateTime_opcUaBinaryDecode is;
     (x2, is) \<leftarrow> OpcUaNodeId_opcUaBinaryDecode is;
     (x3, is) \<leftarrow> OpcUaDouble_decode is;
     (x4, is) \<leftarrow> AggregateConfiguration_opcUaBinaryDecode is;
     Some (\<lparr>AggregateFilter_startTime = x1, AggregateFilter_aggregateType = x2,
            AggregateFilter_processingInterval = x3,
            AggregateFilter_aggregateConfiguration = x4\<rparr>, is) }"

definition AggregateFilter_wf :: "AggregateFilter \<Rightarrow> bool" where
  "AggregateFilter_wf m \<longleftrightarrow>
     OpcUaNodeId_wf (AggregateFilter_aggregateType m)"

interpretation aggregatefilter_codec: codec AggregateFilter_opcUaBinaryEncode
  AggregateFilter_opcUaBinaryDecode AggregateFilter_wf
  by unfold_locales
     (simp add: AggregateFilter_opcUaBinaryEncode_def AggregateFilter_opcUaBinaryDecode_def
        AggregateFilter_wf_def codec_rt)

declare aggregatefilter_codec.dec_enc [codec_rt]

record AggregateFilterResult =
  AggregateFilterResult_revisedStartTime :: OpcUaDateTime
  AggregateFilterResult_revisedProcessingInterval :: u64

definition AggregateFilterResult_new :: AggregateFilterResult where
  "AggregateFilterResult_new =
     \<lparr>AggregateFilterResult_revisedStartTime = 0,
       AggregateFilterResult_revisedProcessingInterval = 0\<rparr>"

definition AggregateFilterResult_opcUaBinaryEncode :: "AggregateFilterResult \<Rightarrow> stream" where
  "AggregateFilterResult_opcUaBinaryEncode this =
     OpcUaDateTime_opcUaBinaryEncode (AggregateFilterResult_revisedStartTime this)
     @ OpcUaDouble_encode (AggregateFilterResult_revisedProcessingInterval this)"

definition AggregateFilterResult_opcUaBinaryDecode :: "AggregateFilterResult decoder" where
  "AggregateFilterResult_opcUaBinaryDecode is = do {
     (x1, is) \<leftarrow> OpcUaDateTime_opcUaBinaryDecode is;
     (x2, is) \<leftarrow> OpcUaDouble_decode is;
     Some (\<lparr>AggregateFilterResult_revisedStartTime = x1,
            AggregateFilterResult_revisedProcessingInterval = x2\<rparr>, is) }"

interpretation aggregatefilterresult_codec: codec AggregateFilterResult_opcUaBinaryEncode
  AggregateFilterResult_opcUaBinaryDecode "\<lambda>_. True"
  by unfold_locales
     (simp add: AggregateFilterResult_opcUaBinaryEncode_def
        AggregateFilterResult_opcUaBinaryDecode_def codec_rt)

declare aggregatefilterresult_codec.dec_enc [OF TrueI, codec_rt]

record ReadRawModifiedDetails =
  ReadRawModifiedDetails_isReadModified :: bool
  ReadRawModifiedDetails_startTime :: OpcUaDateTime
  ReadRawModifiedDetails_endTime :: OpcUaDateTime
  ReadRawModifiedDetails_numValuesPerNode :: u32
  ReadRawModifiedDetails_returnBoolean :: bool

definition ReadRawModifiedDetails_new :: ReadRawModifiedDetails where
  "ReadRawModifiedDetails_new =
     \<lparr>ReadRawModifiedDetails_isReadModified = False, ReadRawModifiedDetails_startTime = 0,
       ReadRawModifiedDetails_endTime = 0, ReadRawModifiedDetails_numValuesPerNode = 0,
       ReadRawModifiedDetails_returnBoolean = True\<rparr>"

definition ReadRawModifiedDetails_opcUaBinaryEncode :: "ReadRawModifiedDetails \<Rightarrow> stream" where
  "ReadRawModifiedDetails_opcUaBinaryEncode this =
     OpcUaBoolean_encode (ReadRawModifiedDetails_isReadModified this)
     @ OpcUaDateTime_opcUaBinaryEncode (ReadRawModifiedDetails_startTime this)
     @ OpcUaDateTime_opcUaBinaryEncode (ReadRawModifiedDetails_endTime this)
     @ OpcUaUInt32_encode (ReadRawModifiedDetails_numValuesPerNode this)
     @ OpcUaBoolean_encode (ReadRawModifiedDetails_returnBoolean this)"

definition ReadRawModifiedDetails_opcUaBinaryDecode :: "ReadRawModifiedDetails decoder" where
  "ReadRawModifiedDetails_opcUaBinaryDecode is = do {
     (x1, is) \<leftarrow> OpcUaBoolean_decode is;
     (x2, is) \<leftarrow> OpcUaDateTime_opcUaBinaryDecode is;
     (x3, is) \<leftarrow> OpcUaDateTime_opcUaBinaryDecode is;
     (x4, is) \<leftarrow> OpcUaUInt32_decode is;
     (x5, is) \<leftarrow> OpcUaBoolean_decode is;
     Some (\<lparr>ReadRawModifiedDetails_isReadModified = x1, ReadRawModifiedDetails_startTime = x2,
            ReadRawModifiedDetails_endTime = x3, ReadRawModifiedDetails_numValuesPerNode = x4,
            ReadRawModifiedDetails_returnBoolean = x5\<rparr>, is) }"

interpretation readrawmodifieddetails_codec: codec ReadRawModifiedDetails_opcUaBinaryEncode
  ReadRawModifiedDetails_opcUaBinaryDecode "\<lambda>_. True"
  by unfold_locales
     (simp add: ReadRawModifiedDetails_opcUaBinaryEncode_def
        ReadRawModifiedDetails_opcUaBinaryDecode_def codec_rt)

declare readrawmodifieddetails_codec.dec_enc [OF TrueI, codec_rt]

record ReadProcessedDetails =
  ReadProcessedDetails_startTime :: OpcUaDateTime
  ReadProcessedDetails_endTime :: OpcUaDateTime
  ReadProcessedDetails_resampleInterval :: u64
  ReadProcessedDetails_aggregateTypeArray :: "OpcUaNodeIdBase list"
  ReadProcessedDetails_aggregateConfiguration :: AggregateConfiguration

definition ReadProcessedDetails_new :: ReadProcessedDetails where
  "ReadProcessedDetails_new =
     \<lparr>ReadProcessedDetails_startTime = 0, ReadProcessedDetails_endTime = 0,
       ReadProcessedDetails_resampleInterval = 0, ReadProcessedDetails_aggregateTypeArray = [],
       ReadProcessedDetails_aggregateConfiguration = AggregateConfiguration_new\<rparr>"

definition ReadProcessedDetails_opcUaBinaryEncode :: "ReadProcessedDetails \<Rightarrow> stream" where
  "ReadProcessedDetails_opcUaBinaryEncode this =
     OpcUaDateTime_opcUaBinaryEncode (ReadProcessedDetails_startTime this)
     @ OpcUaDateTime_opcUaBinaryEncode (ReadProcessedDetails_endTime this)
     @ OpcUaDouble_encode (ReadProcessedDetails_resampleInterval this)
     @ array_encode OpcUaNodeId_opcUaBinaryEncode (ReadProcessedDetails_aggregateTypeArray this)
     @ AggregateConfiguration_opcUaBinaryEncode (ReadProcessedDetails_aggregateConfiguration this)"

definition ReadProcessedDetails_opcUaBinaryDecode :: "ReadProcessedDetails decoder" where
  "ReadProcessedDetails_opcUaBinaryDecode is = do {
     (x1, is) \<leftarrow> OpcUaDateTime_opcUaBinaryDecode is;
     (x2, is) \<leftarrow> OpcUaDateTime_opcUaBinaryDecode is;
     (x3, is) \<leftarrow> OpcUaDouble_decode is;
     (x4, is) \<leftarrow> array_decode OpcUaNodeId_opcUaBinaryDecode is;
     (x5, is) \<leftarrow> AggregateConfiguration_opcUaBinaryDecode is;
     Some (\<lparr>ReadProcessedDetails_startTime = x1, ReadProcessedDetails_endTime = x2,
            ReadProcessedDetails_resampleInterval = x3,
            ReadProcessedDetails_aggregateTypeArray = x4,
            ReadProcessedDetails_aggregateConfiguration = x5\<rparr>, is) }"

definition ReadProcessedDetails_wf :: "ReadProcessedDetails \<Rightarrow> bool" where
  "ReadProcessedDetails_wf m \<longleftrightarrow>
     array_wf OpcUaNodeId_wf (ReadProcessedDetails_aggregateTypeArray m)"

interpretation readprocesseddetails_codec: codec ReadProcessedDetails_opcUaBinaryEncode
  ReadProcessedDetails_opcUaBinaryDecode ReadProcessedDetails_wf
  by unfold_locales
     (simp add: ReadProcessedDetails_opcUaBinaryEncode_def
        ReadProcessedDetails_opcUaBinaryDecode_def ReadProcessedDetails_wf_def codec_rt)

declare readprocesseddetails_codec.dec_enc [codec_rt]

record ReadAtTimeDetails =
  ReadAtTimeDetails_reqTimeArray :: "OpcUaDateTime list"

definition ReadAtTimeDetails_new :: ReadAtTimeDetails where
  "ReadAtTimeDetails_new =
     \<lparr>ReadAtTimeDetails_reqTimeArray = []\<rparr>"

definition ReadAtTimeDetails_opcUaBinaryEncode :: "ReadAtTimeDetails \<Rightarrow> stream" where
  "ReadAtTimeDetails_opcUaBinaryEncode this =
     array_encode OpcUaDateTime_opcUaBinaryEncode (ReadAtTimeDetails_reqTimeArray this)"

definition ReadAtTimeDetails_opcUaBinaryDecode :: "ReadAtTimeDetails decoder" where
  "ReadAtTimeDetails_opcUaBinaryDecode is = do {
     (x1, is) \<leftarrow> array_decode OpcUaDateTime_opcUaBinaryDecode is;
     Some (\<lparr>ReadAtTimeDetails_reqTimeArray = x1\<rparr>, is) }"

definition ReadAtTimeDetails_wf :: "ReadAtTimeDetails \<Rightarrow> bool" where
  "ReadAtTimeDetails_wf m \<longleftrightarrow>
     array_wf (\<lambda>_. True) (ReadAtTimeDetails_reqTimeArray m)"

interpretation readattimedetails_codec: codec ReadAtTimeDetails_opcUaBinaryEncode
  ReadAtTimeDetails_opcUaBinaryDecode ReadAtTimeDetails_wf
  by unfold_locales
     (simp add: ReadAtTimeDetails_opcUaBinaryEncode_def ReadAtTimeDetails_opcUaBinaryDecode_def
        ReadAtTimeDetails_wf_def codec_rt)

declare readattimedetails_codec.dec_enc [codec_rt]

record DeleteRawModifiedDetails =
  DeleteRawModifiedDetails_nodeId :: OpcUaNodeIdBase
  DeleteRawModifiedDetails_isDeleteModified :: bool
  DeleteRawModifiedDetails_startTime :: OpcUaDateTime
  DeleteRawModifiedDetails_endTime :: OpcUaDateTime

definition DeleteRawModifiedDetails_new :: DeleteRawModifiedDetails where
  "DeleteRawModifiedDetails_new =
     \<lparr>DeleteRawModifiedDetails_nodeId = OpcUaNodeIdBase_new,
       DeleteRawModifiedDetails_isDeleteModified = False, DeleteRawModifiedDetails_startTime = 0,
       DeleteRawModifiedDetails_endTime = 0\<rparr>"

definition DeleteRawModifiedDetails_opcUaBinaryEncode :: "DeleteRawModifiedDetails \<Rightarrow> stream" where
  "DeleteRawModifiedDetails_opcUaBinaryEncode this =
     OpcUaNodeId_opcUaBinaryEncode (DeleteRawModifiedDetails_nodeId this)
     @ OpcUaBoolean_encode (DeleteRawModifiedDetails_isDeleteModified this)
     @ OpcUaDateTime_opcUaBinaryEncode (DeleteRawModifiedDetails_startTime this)
     @ OpcUaDateTime_opcUaBinaryEncode (DeleteRawModifiedDetails_endTime this)"

definition DeleteRawModifiedDetails_opcUaBinaryDecode :: "DeleteRawModifiedDetails decoder" where
  "DeleteRawModifiedDetails_opcUaBinaryDecode is = do {
     (x1, is) \<leftarrow> OpcUaNodeId_opcUaBinaryDecode is;
     (x2, is) \<leftarrow> OpcUaBoolean_decode is;
     (x3, is) \<leftarrow> OpcUaDateTime_opcUaBinaryDecode is;
     (x4, is) \<leftarrow> OpcUaDateTime_opcUaBinaryDecode is;
     Some (\<lparr>DeleteRawModifiedDetails_nodeId = x1, DeleteRawModifiedDetails_isDeleteModified = x2,
            DeleteRawModifiedDetails_startTime = x3, DeleteRawModifiedDetails_endTime = x4\<rparr>, is) }"

definition DeleteRawModifiedDetails_wf :: "DeleteRawModifiedDetails \<Rightarrow> bool" where
  "DeleteRawModifiedDetails_wf m \<longleftrightarrow>
     OpcUaNodeId_wf (DeleteRawModifiedDetails_nodeId m)"

interpretation deleterawmodifieddetails_codec: codec DeleteRawModifiedDetails_opcUaBinaryEncode
  DeleteRawModifiedDetails_opcUaBinaryDecode DeleteRawModifiedDetails_wf
  by unfold_locales
     (simp add: DeleteRawModifiedDetails_opcUaBinaryEncode_def
        DeleteRawModifiedDetails_opcUaBinaryDecode_def DeleteRawModifiedDetails_wf_def codec_rt)

declare deleterawmodifieddetails_codec.dec_enc [codec_rt]

record DeleteAtTimeDetails =
  DeleteAtTimeDetails_nodeId :: OpcUaNodeIdBase
  DeleteAtTimeDetails_reqTimeArray :: "OpcUaDateTime list"

definition DeleteAtTimeDetails_new :: DeleteAtTimeDetails where
  "DeleteAtTimeDetails_new =
     \<lparr>DeleteAtTimeDetails_nodeId = OpcUaNodeIdBase_new,
       DeleteAtTimeDetails_reqTimeArray = []\<rparr>"

definition DeleteAtTimeDetails_opcUaBinaryEncode :: "DeleteAtTimeDetails \<Rightarrow> stream" where
  "DeleteAtTimeDetails_opcUaBinaryEncode this =
     OpcUaNodeId_opcUaBinaryEncode (DeleteAtTimeDetails_nodeId this)
     @ array_encode OpcUaDateTime_opcUaBinaryEncode (DeleteAtTimeDetails_reqTimeArray this)"

definition DeleteAtTimeDetails_opcUaBinaryDecode :: "DeleteAtTimeDetails decoder" where
  "DeleteAtTimeDetails_opcUaBinaryDecode is = do {
     (x1, is) \<leftarrow> OpcUaNodeId_opcUaBinaryDecode is;
     (x2, is) \<leftarrow> array_decode OpcUaDateTime_opcUaBinaryDecode is;
     Some (\<lparr>DeleteAtTimeDetails_nodeId = x1, DeleteAtTimeDetails_reqTimeArray = x2\<rparr>, is) }"

definition DeleteAtTimeDetails_wf :: "DeleteAtTimeDetails \<Rightarrow> bool" where
  "DeleteAtTimeDetails_wf m \<longleftrightarrow>
     OpcUaNodeId_wf (DeleteAtTimeDetails_nodeId m)
     \<and> array_wf (\<lambda>_. True) (DeleteAtTimeDetails_reqTimeArray m)"

interpretation deleteattimedetails_codec: codec DeleteAtTimeDetails_opcUaBinaryEncode
  DeleteAtTimeDetails_opcUaBinaryDecode DeleteAtTimeDetails_wf
  by unfold_locales
     (simp add: DeleteAtTimeDetails_opcUaBinaryEncode_def DeleteAtTimeDetails_opcUaBinaryDecode_def
        DeleteAtTimeDetails_wf_def codec_rt)

declare deleteattimedetails_codec.dec_enc [codec_rt]

record DeleteEventDetails =
  DeleteEventDetails_nodeId :: OpcUaNodeIdBase
  DeleteEventDetails_eventIdArray :: "OpcUaByteString list"

definition DeleteEventDetails_new :: DeleteEventDetails where
  "DeleteEventDetails_new =
     \<lparr>DeleteEventDetails_nodeId = OpcUaNodeIdBase_new,
       DeleteEventDetails_eventIdArray = []\<rparr>"

definition DeleteEventDetails_opcUaBinaryEncode :: "DeleteEventDetails \<Rightarrow> stream" where
  "DeleteEventDetails_opcUaBinaryEncode this =
     OpcUaNodeId_opcUaBinaryEncode (DeleteEventDetails_nodeId this)
     @ array_encode OpcUaByteString_opcUaBinaryEncode (DeleteEventDetails_eventIdArray this)"

definition DeleteEventDetails_opcUaBinaryDecode :: "DeleteEventDetails decoder" where
  "DeleteEventDetails_opcUaBinaryDecode is = do {
     (x1, is) \<leftarrow> OpcUaNodeId_opcUaBinaryDecode is;
     (x2, is) \<leftarrow> array_decode OpcUaByteString_opcUaBinaryDecode is;
     Some (\<lparr>DeleteEventDetails_nodeId = x1, DeleteEventDetails_eventIdArray = x2\<rparr>, is) }"

definition DeleteEventDetails_wf :: "DeleteEventDetails \<Rightarrow> bool" where
  "DeleteEventDetails_wf m \<longleftrightarrow>
     OpcUaNodeId_wf (DeleteEventDetails_nodeId m)
     \<and> array_wf OpcUaByteString_wf (DeleteEventDetails_eventIdArray m)"

interpretation deleteeventdetails_codec: codec DeleteEventDetails_opcUaBinaryEncode
  DeleteEventDetails_opcUaBinaryDecode DeleteEventDetails_wf
  by unfold_locales
     (simp add: DeleteEventDetails_opcUaBinaryEncode_def DeleteEventDetails_opcUaBinaryDecode_def
        DeleteEventDetails_wf_def codec_rt)

declare deleteeventdetails_codec.dec_enc [codec_rt]

record ModificationInfo =
  ModificationInfo_username :: OpcUaString
  ModificationInfo_modificationTime :: OpcUaDateTime
  ModificationInfo_updateType :: u32

definition ModificationInfo_new :: ModificationInfo where
  "ModificationInfo_new =
     \<lparr>ModificationInfo_username = OpcUaString_new, ModificationInfo_modificationTime = 0,
       ModificationInfo_updateType = 0\<rparr>"

definition ModificationInfo_opcUaBinaryEncode :: "ModificationInfo \<Rightarrow> stream" where
  "ModificationInfo_opcUaBinaryEncode this =
     OpcUaString_opcUaBinaryEncode (ModificationInfo_username this)
     @ OpcUaDateTime_opcUaBinaryEncode (ModificationInfo_modificationTime this)
     @ OpcUaUInt32_encode (ModificationInfo_updateType this)"

definition ModificationInfo_opcUaBinaryDecode :: "ModificationInfo decoder" where
  "ModificationInfo_opcUaBinaryDecode is = do {
     (x1, is) \<leftarrow> OpcUaString_opcUaBinaryDecode is;
     (x2, is) \<leftarrow> OpcUaDateTime_opcUaBinaryDecode is;
     (x3, is) \<leftarrow> OpcUaUInt32_decode is;
     Some (\<lparr>ModificationInfo_username = x1, ModificationInfo_modificationTime = x2,
            ModificationInfo_updateType = x3\<rparr>, is) }"

definition ModificationInfo_wf :: "ModificationInfo \<Rightarrow> bool" where
  "ModificationInfo_wf m \<longleftrightarrow>
     OpcUaString_wf (ModificationInfo_username m)"

interpretation modificationinfo_codec: codec ModificationInfo_opcUaBinaryEncode
  ModificationInfo_opcUaBinaryDecode ModificationInfo_wf
  by unfold_locales
     (simp add: ModificationInfo_opcUaBinaryEncode_def ModificationInfo_opcUaBinaryDecode_def
        ModificationInfo_wf_def codec_rt)

declare modificationinfo_codec.dec_enc [codec_rt]

record HistoryReadValueId =
  HistoryReadValueId_nodeId :: OpcUaNodeIdBase
  HistoryReadValueId_indexRange :: OpcUaString
  HistoryReadValueId_dataEncoding :: OpcUaQualifiedName
  HistoryReadValueId_continuationPoint :: OpcUaByteString

definition HistoryReadValueId_new :: HistoryReadValueId where
  "HistoryReadValueId_new =
     \<lparr>HistoryReadValueId_nodeId = OpcUaNodeIdBase_new,
       HistoryReadValueId_indexRange = OpcUaString_new,
       HistoryReadValueId_dataEncoding = OpcUaQualifiedName_new,
       HistoryReadValueId_continuationPoint = OpcUaByteString_new\<rparr>"

definition HistoryReadValueId_opcUaBinaryEncode :: "HistoryReadValueId \<Rightarrow> stream" where
  "HistoryReadValueId_opcUaBinaryEncode this =
     OpcUaNodeId_opcUaBinaryEncode (HistoryReadValueId_nodeId this)
     @ OpcUaString_opcUaBinaryEncode (HistoryReadValueId_indexRange this)
     @ OpcUaQualifiedName_opcUaBinaryEncode (HistoryReadValueId_dataEncoding this)
     @ OpcUaByteString_opcUaBinaryEncode (HistoryReadValueId_continuationPoint this)"

definition HistoryReadValueId_opcUaBinaryDecode :: "HistoryReadValueId decoder" where
  "HistoryReadValueId_opcUaBinaryDecode is = do {
     (x1, is) \<leftarrow> OpcUaNodeId_opcUaBinaryDecode is;
     (x2, is) \<leftarrow> OpcUaString_opcUaBinaryDecode is;
     (x3, is) \<leftarrow> OpcUaQualifiedName_opcUaBinaryDecode is;
     (x4, is) \<leftarrow> OpcUaByteString_opcUaBinaryDecode is;
     Some (\<lparr>HistoryReadValueId_nodeId = x1, HistoryReadValueId_indexRange = x2,
            HistoryReadValueId_dataEncoding = x3, HistoryReadValueId_continuationPoint = x4\<rparr>, is) }"

definition HistoryReadValueId_wf :: "HistoryReadValueId \<Rightarrow> bool" where
  "HistoryReadValueId_wf m \<longleftrightarrow>
     OpcUaNodeId_wf (HistoryReadValueId_nodeId m)
     \<and> OpcUaString_wf (HistoryReadValueId_indexRange m)
     \<and> OpcUaString_wf (qn_name (HistoryReadValueId_dataEncoding m))
     \<and> OpcUaByteString_wf (HistoryReadValueId_continuationPoint m)"

interpretation historyreadvalueid_codec: codec HistoryReadValueId_opcUaBinaryEncode
  HistoryReadValueId_opcUaBinaryDecode HistoryReadValueId_wf
  by unfold_locales
     (simp add: HistoryReadValueId_opcUaBinaryEncode_def HistoryReadValueId_opcUaBinaryDecode_def
        HistoryReadValueId_wf_def codec_rt)

declare historyreadvalueid_codec.dec_enc [codec_rt]

record HistoryUpdateResult =
  HistoryUpdateResult_statusCode :: u32
  HistoryUpdateResult_operationResultArray :: "u32 list"
  HistoryUpdateResult_diagnosticInfoArray :: "OpcUaDiagnosticInfo list"

definition HistoryUpdateResult_new :: HistoryUpdateResult where
  "HistoryUpdateResult_new =
     \<lparr>HistoryUpdateResult_statusCode = 0, HistoryUpdateResult_operationResultArray = [],
       HistoryUpdateResult_diagnosticInfoArray = []\<rparr>"

definition HistoryUpdateResult_opcUaBinaryEncode :: "HistoryUpdateResult \<Rightarrow> stream" where
  "HistoryUpdateResult_opcUaBinaryEncode this =
     OpcUaUInt32_encode (HistoryUpdateResult_statusCode this)
     @ array_encode OpcUaInt32_encode (HistoryUpdateResult_operationResultArray this)
     @ array_encode OpcUaDiagnosticInfo_opcUaBinaryEncode (HistoryUpdateResult_diagnosticInfoArray this)"

definition HistoryUpdateResult_opcUaBinaryDecode :: "HistoryUpdateResult decoder" where
  "HistoryUpdateResult_opcUaBinaryDecode is = do {
     (x1, is) \<leftarrow> OpcUaUInt32_decode is;
     (x2, is) \<leftarrow> array_decode OpcUaInt32_decode is;
     (x3, is) \<leftarrow> array_decode (OpcUaDiagnosticInfo_opcUaBinaryDecode OpcUaDiagnosticInfo_new) is;
     Some (\<lparr>HistoryUpdateResult_statusCode = x1, HistoryUpdateResult_operationResultArray = x2,
            HistoryUpdateResult_diagnosticInfoArray = x3\<rparr>, is) }"

definition HistoryUpdateResult_wf :: "HistoryUpdateResult \<Rightarrow> bool" where
  "HistoryUpdateResult_wf m \<longleftrightarrow>
     array_wf (\<lambda>_. True) (HistoryUpdateResult_operationResultArray m)
     \<and> array_wf (\<lambda>d. OpcUaString_wf (di_additionalInfo d)) (HistoryUpdateResult_diagnosticInfoArray m)"

interpretation historyupdateresult_codec: codec HistoryUpdateResult_opcUaBinaryEncode
  HistoryUpdateResult_opcUaBinaryDecode HistoryUpdateResult_wf
  by unfold_locales
     (simp add: HistoryUpdateResult_opcUaBinaryEncode_def HistoryUpdateResult_opcUaBinaryDecode_def
        HistoryUpdateResult_wf_def codec_rt)

declare historyupdateresult_codec.dec_enc [codec_rt]

record HistoryUpdateResponse =
  HistoryUpdateResponse_resultArray :: "HistoryUpdateResult list"
  HistoryUpdateResponse_diagnosticInfoArray :: "OpcUaDiagnosticInfo list"

definition HistoryUpdateResponse_new :: HistoryUpdateResponse where
  "HistoryUpdateResponse_new =
     \<lparr>HistoryUpdateResponse_resultArray = [],
       HistoryUpdateResponse_diagnosticInfoArray = []\<rparr>"

definition HistoryUpdateResponse_opcUaBinaryEncode :: "HistoryUpdateResponse \<Rightarrow> stream" where
  "HistoryUpdateResponse_opcUaBinaryEncode this =
     array_encode HistoryUpdateResult_opcUaBinaryEncode (HistoryUpdateResponse_resultArray this)
     @ array_encode OpcUaDiagnosticInfo_opcUaBinaryEncode (HistoryUpdateResponse_diagnosticInfoArray this)"

definition HistoryUpdateResponse_opcUaBinaryDecode :: "HistoryUpdateResponse decoder" where
  "HistoryUpdateResponse_opcUaBinaryDecode is = do {
     (x1, is) \<leftarrow> array_decode HistoryUpdateResult_opcUaBinaryDecode is;
     (x2, is) \<leftarrow> array_decode (OpcUaDiagnosticInfo_opcUaBinaryDecode OpcUaDiagnosticInfo_new) is;
     Some (\<lparr>HistoryUpdateResponse_resultArray = x1,
            HistoryUpdateResponse_diagnosticInfoArray = x2\<rparr>, is) }"

definition HistoryUpdateResponse_wf :: "HistoryUpdateResponse \<Rightarrow> bool" where
  "HistoryUpdateResponse_wf m \<longleftrightarrow>
     array_wf HistoryUpdateResult_wf (HistoryUpdateResponse_resultArray m)
     \<and> array_wf (\<lambda>d. OpcUaString_wf (di_additionalInfo d)) (HistoryUpdateResponse_diagnosticInfoArray m)"

declare historyupdateresult_codec.array_rt [codec_rt]

interpretation historyupdateresponse_codec: codec HistoryUpdateResponse_opcUaBinaryEncode
  HistoryUpdateResponse_opcUaBinaryDecode HistoryUpdateResponse_wf
  by unfold_locales
     (simp add: HistoryUpdateResponse_opcUaBinaryEncode_def
        HistoryUpdateResponse_opcUaBinaryDecode_def HistoryUpdateResponse_wf_def codec_rt)

declare historyupdateresponse_codec.dec_enc [codec_rt]

end
