(* ===== verification/NodeMessages.thy ===== *)
theory NodeMessages
  imports ChannelMessages
begin

text \<open>
  The messages of the node management services (\<^verbatim>\<open>OpcUaStackCore/ServiceSet\<close>) and the attributes a new
  node is described with.
\<close>

section \<open>Classes and attributes\<close>

text \<open>The class of a node with its name.\<close>

type_synonym NodeClass = u32

definition NodeClass_new :: NodeClass where
  "NodeClass_new = 0"

definition NodeClass_toString :: "NodeClass \<Rightarrow> string" where
  "NodeClass_toString nodeClassType =
     (if nodeClassType = 1 then ''Object'' else if nodeClassType = 2 then ''Variable''
      else if nodeClassType = 4 then ''Method'' else if nodeClassType = 8 then ''ObjectType''
      else if nodeClassType = 16 then ''VariableType'' else if nodeClassType = 32 then ''ReferenceType''
      else if nodeClassType = 64 then ''DataType'' else if nodeClassType = 128 then ''View''
      else ''Unspecified'')"

definition NodeClass_toNodeClassType :: "string \<Rightarrow> NodeClass" where
  "NodeClass_toNodeClassType s =
     (if s = ''Object'' then 1 else if s = ''Variable'' then 2 else if s = ''Method'' then 4
      else if s = ''ObjectType'' then 8 else if s = ''VariableType'' then 16
      else if s = ''ReferenceType'' then 32 else if s = ''DataType'' then 64
      else if s = ''View'' then 128 else 0)"

definition NodeClass_opcUaBinaryEncode :: "NodeClass \<Rightarrow> stream" where
  "NodeClass_opcUaBinaryEncode this = OpcUaUInt32_encode this"

definition NodeClass_opcUaBinaryDecode :: "NodeClass decoder" where
  "NodeClass_opcUaBinaryDecode is = OpcUaUInt32_decode is"

interpretation nodeclass_codec: codec NodeClass_opcUaBinaryEncode NodeClass_opcUaBinaryDecode "\<lambda>_. True"
  by unfold_locales (simp add: NodeClass_opcUaBinaryEncode_def NodeClass_opcUaBinaryDecode_def codec_rt)

declare nodeclass_codec.dec_enc [OF TrueI, codec_rt]

lemma nodeClass_name_round_trip:
  "NodeClass_toNodeClassType (NodeClass_toString c) =
     (if c \<in> {1, 2, 4, 8, 16, 32, 64, 128} then c else 0)"
  by (simp add: NodeClass_toString_def NodeClass_toNodeClassType_def)

text \<open>
  The bits of \<^verbatim>\<open>specifiedAttributes\<close> (\<^verbatim>\<open>AttributesDescription.h\<close>).  The constants are written
  \<^verbatim>\<open>(n << 1)\<close>, so they are even numbers and not bits.
\<close>

definition SpecifiedAttributes_AccessLevel :: u32 where "SpecifiedAttributes_AccessLevel = 1"
definition SpecifiedAttributes_ArrayDimensions :: u32 where "SpecifiedAttributes_ArrayDimensions = push_bit 1 2"
definition SpecifiedAttributes_ContainsNoLoops :: u32 where "SpecifiedAttributes_ContainsNoLoops = push_bit 1 4"
definition SpecifiedAttributes_DataType :: u32 where "SpecifiedAttributes_DataType = push_bit 1 5"
definition SpecifiedAttributes_Description :: u32 where "SpecifiedAttributes_Description = push_bit 1 6"
definition SpecifiedAttributes_DisplayName :: u32 where "SpecifiedAttributes_DisplayName = push_bit 1 7"
definition SpecifiedAttributes_EventNotifier :: u32 where "SpecifiedAttributes_EventNotifier = push_bit 1 8"
definition SpecifiedAttributes_Executable :: u32 where "SpecifiedAttributes_Executable = push_bit 1 9"
definition SpecifiedAttributes_Historizing :: u32 where "SpecifiedAttributes_Historizing = push_bit 1 10"
definition SpecifiedAttributes_InverseName :: u32 where "SpecifiedAttributes_InverseName = push_bit 1 11"
definition SpecifiedAttributes_IsAbstract :: u32 where "SpecifiedAttributes_IsAbstract = push_bit 1 12"
definition SpecifiedAttributes_MinimumSamplingInterval :: u32 where "SpecifiedAttributes_MinimumSamplingInterval = push_bit 1 13"
definition SpecifiedAttributes_Symmetric :: u32 where "SpecifiedAttributes_Symmetric = push_bit 1 16"
definition SpecifiedAttributes_UserAccessLevel :: u32 where "SpecifiedAttributes_UserAccessLevel = push_bit 1 17"
definition SpecifiedAttributes_UserExecutable :: u32 where "SpecifiedAttributes_UserExecutable = push_bit 1 18"
definition SpecifiedAttributes_UserWriteMask :: u32 where "SpecifiedAttributes_UserWriteMask = push_bit 1 19"
definition SpecifiedAttributes_ValueRank :: u32 where "SpecifiedAttributes_ValueRank = push_bit 1 20"
definition SpecifiedAttributes_WriteMask :: u32 where "SpecifiedAttributes_WriteMask = push_bit 1 21"
definition SpecifiedAttributes_Value :: u32 where "SpecifiedAttributes_Value = push_bit 1 22"

lemmas specifiedAttributes_defs = SpecifiedAttributes_AccessLevel_def
  SpecifiedAttributes_ArrayDimensions_def SpecifiedAttributes_ContainsNoLoops_def
  SpecifiedAttributes_DataType_def SpecifiedAttributes_Description_def
  SpecifiedAttributes_DisplayName_def SpecifiedAttributes_EventNotifier_def
  SpecifiedAttributes_Executable_def SpecifiedAttributes_Historizing_def
  SpecifiedAttributes_InverseName_def SpecifiedAttributes_IsAbstract_def
  SpecifiedAttributes_MinimumSamplingInterval_def SpecifiedAttributes_Symmetric_def
  SpecifiedAttributes_UserAccessLevel_def SpecifiedAttributes_UserExecutable_def
  SpecifiedAttributes_UserWriteMask_def SpecifiedAttributes_ValueRank_def
  SpecifiedAttributes_WriteMask_def SpecifiedAttributes_Value_def

record ObjectAttributes =
  ObjectAttributes_specifiedAttributes :: u32
  ObjectAttributes_displayName :: OpcUaLocalizedText
  ObjectAttributes_description :: OpcUaLocalizedText
  ObjectAttributes_eventNotifier :: u8
  ObjectAttributes_writeMask :: u32
  ObjectAttributes_userWriteMask :: u32

definition ObjectAttributes_new :: ObjectAttributes where
  "ObjectAttributes_new =
     \<lparr>
       ObjectAttributes_specifiedAttributes = SpecifiedAttributes_Description OR SpecifiedAttributes_DisplayName OR SpecifiedAttributes_EventNotifier OR SpecifiedAttributes_WriteMask OR SpecifiedAttributes_UserWriteMask,
       ObjectAttributes_displayName = OpcUaLocalizedText_new,
       ObjectAttributes_description = OpcUaLocalizedText_new, ObjectAttributes_eventNotifier = 0,
       ObjectAttributes_writeMask = 0, ObjectAttributes_userWriteMask = 0\<rparr>"

definition ObjectAttributes_opcUaBinaryEncode :: "ObjectAttributes \<Rightarrow> stream" where
  "ObjectAttributes_opcUaBinaryEncode this =
     OpcUaUInt32_encode (ObjectAttributes_specifiedAttributes this)
     @ OpcUaLocalizedText_opcUaBinaryEncode (ObjectAttributes_displayName this)
     @ OpcUaLocalizedText_opcUaBinaryEncode (ObjectAttributes_description this)
     @ OpcUaByte_encode (ObjectAttributes_eventNotifier this)
     @ OpcUaUInt32_encode (ObjectAttributes_writeMask this)
     @ OpcUaUInt32_encode (ObjectAttributes_userWriteMask this)"

definition ObjectAttributes_opcUaBinaryDecode :: "ObjectAttributes decoder" where
  "ObjectAttributes_opcUaBinaryDecode is = do {
     (x1, is) \<leftarrow> OpcUaUInt32_decode is;
     (x2, is) \<leftarrow> OpcUaLocalizedText_opcUaBinaryDecode OpcUaLocalizedText_new is;
     (x3, is) \<leftarrow> OpcUaLocalizedText_opcUaBinaryDecode OpcUaLocalizedText_new is;
     (x4, is) \<leftarrow> OpcUaByte_decode is;
     (x5, is) \<leftarrow> OpcUaUInt32_decode is;
     (x6, is) \<leftarrow> OpcUaUInt32_decode is;
     Some (\<lparr>ObjectAttributes_specifiedAttributes = x1, ObjectAttributes_displayName = x2,
            ObjectAttributes_description = x3, ObjectAttributes_eventNotifier = x4,
            ObjectAttributes_writeMask = x5, ObjectAttributes_userWriteMask = x6\<rparr>, is) }"

definition ObjectAttributes_wf :: "ObjectAttributes \<Rightarrow> bool" where
  "ObjectAttributes_wf m \<longleftrightarrow>
     OpcUaLocalizedText_wf (ObjectAttributes_displayName m)
     \<and> OpcUaLocalizedText_wf (ObjectAttributes_description m)"

interpretation objectattributes_codec: codec ObjectAttributes_opcUaBinaryEncode
  ObjectAttributes_opcUaBinaryDecode ObjectAttributes_wf
  by unfold_locales
     (simp add: ObjectAttributes_opcUaBinaryEncode_def ObjectAttributes_opcUaBinaryDecode_def
        ObjectAttributes_wf_def codec_rt)

declare objectattributes_codec.dec_enc [codec_rt]

record MethodAttributes =
  MethodAttributes_specifiedAttributes :: u32
  MethodAttributes_displayName :: OpcUaLocalizedText
  MethodAttributes_description :: OpcUaLocalizedText
  MethodAttributes_executable :: bool
  MethodAttributes_userExecutable :: bool
  MethodAttributes_writeMask :: u32
  MethodAttributes_userWriteMask :: u32

definition MethodAttributes_new :: MethodAttributes where
  "MethodAttributes_new =
     \<lparr>
       MethodAttributes_specifiedAttributes = SpecifiedAttributes_Description OR SpecifiedAttributes_DisplayName OR SpecifiedAttributes_Executable OR SpecifiedAttributes_UserExecutable OR SpecifiedAttributes_WriteMask OR SpecifiedAttributes_UserWriteMask,
       MethodAttributes_displayName = OpcUaLocalizedText_new,
       MethodAttributes_description = OpcUaLocalizedText_new, MethodAttributes_executable = False,
       MethodAttributes_userExecutable = False, MethodAttributes_writeMask = 0,
       MethodAttributes_userWriteMask = 0\<rparr>"

definition MethodAttributes_opcUaBinaryEncode :: "MethodAttributes \<Rightarrow> stream" where
  "MethodAttributes_opcUaBinaryEncode this =
     OpcUaUInt32_encode (MethodAttributes_specifiedAttributes this)
     @ OpcUaLocalizedText_opcUaBinaryEncode (MethodAttributes_displayName this)
     @ OpcUaLocalizedText_opcUaBinaryEncode (MethodAttributes_description this)
     @ OpcUaBoolean_encode (MethodAttributes_executable this)
     @ OpcUaBoolean_encode (MethodAttributes_userExecutable this)
     @ OpcUaUInt32_encode (MethodAttributes_writeMask this)
     @ OpcUaUInt32_encode (MethodAttributes_userWriteMask this)"

definition MethodAttributes_opcUaBinaryDecode :: "MethodAttributes decoder" where
  "MethodAttributes_opcUaBinaryDecode is = do {
     (x1, is) \<leftarrow> OpcUaUInt32_decode is;
     (x2, is) \<leftarrow> OpcUaLocalizedText_opcUaBinaryDecode OpcUaLocalizedText_new is;
     (x3, is) \<leftarrow> OpcUaLocalizedText_opcUaBinaryDecode OpcUaLocalizedText_new is;
     (x4, is) \<leftarrow> OpcUaBoolean_decode is;
     (x5, is) \<leftarrow> OpcUaBoolean_decode is;
     (x6, is) \<leftarrow> OpcUaUInt32_decode is;
     (x7, is) \<leftarrow> OpcUaUInt32_decode is;
     Some (\<lparr>MethodAttributes_specifiedAttributes = x1, MethodAttributes_displayName = x2,
            MethodAttributes_description = x3, MethodAttributes_executable = x4,
            MethodAttributes_userExecutable = x5, MethodAttributes_writeMask = x6,
            MethodAttributes_userWriteMask = x7\<rparr>, is) }"

definition MethodAttributes_wf :: "MethodAttributes \<Rightarrow> bool" where
  "MethodAttributes_wf m \<longleftrightarrow>
     OpcUaLocalizedText_wf (MethodAttributes_displayName m)
     \<and> OpcUaLocalizedText_wf (MethodAttributes_description m)"

interpretation methodattributes_codec: codec MethodAttributes_opcUaBinaryEncode
  MethodAttributes_opcUaBinaryDecode MethodAttributes_wf
  by unfold_locales
     (simp add: MethodAttributes_opcUaBinaryEncode_def MethodAttributes_opcUaBinaryDecode_def
        MethodAttributes_wf_def codec_rt)

declare methodattributes_codec.dec_enc [codec_rt]

record ObjectTypeAttributes =
  ObjectTypeAttributes_specifiedAttributes :: u32
  ObjectTypeAttributes_displayName :: OpcUaLocalizedText
  ObjectTypeAttributes_description :: OpcUaLocalizedText
  ObjectTypeAttributes_isAbstract :: bool
  ObjectTypeAttributes_writeMask :: u32
  ObjectTypeAttributes_userWriteMask :: u32

definition ObjectTypeAttributes_new :: ObjectTypeAttributes where
  "ObjectTypeAttributes_new =
     \<lparr>
       ObjectTypeAttributes_specifiedAttributes = SpecifiedAttributes_Description OR SpecifiedAttributes_DisplayName OR SpecifiedAttributes_IsAbstract OR SpecifiedAttributes_WriteMask OR SpecifiedAttributes_UserWriteMask,
       ObjectTypeAttributes_displayName = OpcUaLocalizedText_new,
       ObjectTypeAttributes_description = OpcUaLocalizedText_new,
       ObjectTypeAttributes_isAbstract = False, ObjectTypeAttributes_writeMask = 0,
       ObjectTypeAttributes_userWriteMask = 0\<rparr>"

definition ObjectTypeAttributes_opcUaBinaryEncode :: "ObjectTypeAttributes \<Rightarrow> stream" where
  "ObjectTypeAttributes_opcUaBinaryEncode this =
     OpcUaUInt32_encode (ObjectTypeAttributes_specifiedAttributes this)
     @ OpcUaLocalizedText_opcUaBinaryEncode (ObjectTypeAttributes_displayName this)
     @ OpcUaLocalizedText_opcUaBinaryEncode (ObjectTypeAttributes_description this)
     @ OpcUaBoolean_encode (ObjectTypeAttributes_isAbstract this)
     @ OpcUaUInt32_encode (ObjectTypeAttributes_writeMask this)
     @ OpcUaUInt32_encode (ObjectTypeAttributes_userWriteMask this)"

definition ObjectTypeAttributes_opcUaBinaryDecode :: "ObjectTypeAttributes decoder" where
  "ObjectTypeAttributes_opcUaBinaryDecode is = do {
     (x1, is) \<leftarrow> OpcUaUInt32_decode is;
     (x2, is) \<leftarrow> OpcUaLocalizedText_opcUaBinaryDecode OpcUaLocalizedText_new is;
     (x3, is) \<leftarrow> OpcUaLocalizedText_opcUaBinaryDecode OpcUaLocalizedText_new is;
     (x4, is) \<leftarrow> OpcUaBoolean_decode is;
     (x5, is) \<leftarrow> OpcUaUInt32_decode is;
     (x6, is) \<leftarrow> OpcUaUInt32_decode is;
     Some (\<lparr>ObjectTypeAttributes_specifiedAttributes = x1, ObjectTypeAttributes_displayName = x2,
            ObjectTypeAttributes_description = x3, ObjectTypeAttributes_isAbstract = x4,
            ObjectTypeAttributes_writeMask = x5, ObjectTypeAttributes_userWriteMask = x6\<rparr>, is) }"

definition ObjectTypeAttributes_wf :: "ObjectTypeAttributes \<Rightarrow> bool" where
  "ObjectTypeAttributes_wf m \<longleftrightarrow>
     OpcUaLocalizedText_wf (ObjectTypeAttributes_displayName m)
     \<and> OpcUaLocalizedText_wf (ObjectTypeAttributes_description m)"

interpretation objecttypeattributes_codec: codec ObjectTypeAttributes_opcUaBinaryEncode
  ObjectTypeAttributes_opcUaBinaryDecode ObjectTypeAttributes_wf
  by unfold_locales
     (simp add: ObjectTypeAttributes_opcUaBinaryEncode_def
        ObjectTypeAttributes_opcUaBinaryDecode_def ObjectTypeAttributes_wf_def codec_rt)

declare objecttypeattributes_codec.dec_enc [codec_rt]

record ReferenceTypeAttributes =
  ReferenceTypeAttributes_specifiedAttributes :: u32
  ReferenceTypeAttributes_displayName :: OpcUaLocalizedText
  ReferenceTypeAttributes_description :: OpcUaLocalizedText
  ReferenceTypeAttributes_isAbstract :: bool
  ReferenceTypeAttributes_symmetric :: bool
  ReferenceTypeAttributes_inverseName :: OpcUaLocalizedText
  ReferenceTypeAttributes_writeMask :: u32
  ReferenceTypeAttributes_userWriteMask :: u32

definition ReferenceTypeAttributes_new :: ReferenceTypeAttributes where
  "ReferenceTypeAttributes_new =
     \<lparr>
       ReferenceTypeAttributes_specifiedAttributes = SpecifiedAttributes_Description OR SpecifiedAttributes_DisplayName OR SpecifiedAttributes_IsAbstract OR SpecifiedAttributes_Symmetric OR SpecifiedAttributes_InverseName OR SpecifiedAttributes_WriteMask OR SpecifiedAttributes_UserWriteMask,
       ReferenceTypeAttributes_displayName = OpcUaLocalizedText_new,
       ReferenceTypeAttributes_description = OpcUaLocalizedText_new,
       ReferenceTypeAttributes_isAbstract = False, ReferenceTypeAttributes_symmetric = False,
       ReferenceTypeAttributes_inverseName = OpcUaLocalizedText_new,
       ReferenceTypeAttributes_writeMask = 0, ReferenceTypeAttributes_userWriteMask = 0\<rparr>"

definition ReferenceTypeAttributes_opcUaBinaryEncode :: "ReferenceTypeAttributes \<Rightarrow> stream" where
  "ReferenceTypeAttributes_opcUaBinaryEncode this =
     OpcUaUInt32_encode (ReferenceTypeAttributes_specifiedAttributes this)
     @ OpcUaLocalizedText_opcUaBinaryEncode (ReferenceTypeAttributes_displayName this)
     @ OpcUaLocalizedText_opcUaBinaryEncode (ReferenceTypeAttributes_description this)
     @ OpcUaBoolean_encode (ReferenceTypeAttributes_isAbstract this)
     @ OpcUaBoolean_encode (ReferenceTypeAttributes_symmetric this)
     @ OpcUaLocalizedText_opcUaBinaryEncode (ReferenceTypeAttributes_inverseName this)
     @ OpcUaUInt32_encode (ReferenceTypeAttributes_writeMask this)
     @ OpcUaUInt32_encode (ReferenceTypeAttributes_userWriteMask this)"

definition ReferenceTypeAttributes_opcUaBinaryDecode :: "ReferenceTypeAttributes decoder" where
  "ReferenceTypeAttributes_opcUaBinaryDecode is = do {
     (x1, is) \<leftarrow> OpcUaUInt32_decode is;
     (x2, is) \<leftarrow> OpcUaLocalizedText_opcUaBinaryDecode OpcUaLocalizedText_new is;
     (x3, is) \<leftarrow> OpcUaLocalizedText_opcUaBinaryDecode OpcUaLocalizedText_new is;
     (x4, is) \<leftarrow> OpcUaBoolean_decode is;
     (x5, is) \<leftarrow> OpcUaBoolean_decode is;
     (x6, is) \<leftarrow> OpcUaLocalizedText_opcUaBinaryDecode OpcUaLocalizedText_new is;
     (x7, is) \<leftarrow> OpcUaUInt32_decode is;
     (x8, is) \<leftarrow> OpcUaUInt32_decode is;
     Some (\<lparr>ReferenceTypeAttributes_specifiedAttributes = x1,
            ReferenceTypeAttributes_displayName = x2,
            ReferenceTypeAttributes_description = x3, ReferenceTypeAttributes_isAbstract = x4,
            ReferenceTypeAttributes_symmetric = x5, ReferenceTypeAttributes_inverseName = x6,
            ReferenceTypeAttributes_writeMask = x7, ReferenceTypeAttributes_userWriteMask = x8\<rparr>, is) }"

definition ReferenceTypeAttributes_wf :: "ReferenceTypeAttributes \<Rightarrow> bool" where
  "ReferenceTypeAttributes_wf m \<longleftrightarrow>
     OpcUaLocalizedText_wf (ReferenceTypeAttributes_displayName m)
     \<and> OpcUaLocalizedText_wf (ReferenceTypeAttributes_description m)
     \<and> OpcUaLocalizedText_wf (ReferenceTypeAttributes_inverseName m)"

interpretation referencetypeattributes_codec: codec ReferenceTypeAttributes_opcUaBinaryEncode
  ReferenceTypeAttributes_opcUaBinaryDecode ReferenceTypeAttributes_wf
  by unfold_locales
     (simp add: ReferenceTypeAttributes_opcUaBinaryEncode_def
        ReferenceTypeAttributes_opcUaBinaryDecode_def ReferenceTypeAttributes_wf_def codec_rt)

declare referencetypeattributes_codec.dec_enc [codec_rt]

record DataTypeAttributes =
  DataTypeAttributes_specifiedAttributes :: u32
  DataTypeAttributes_displayName :: OpcUaLocalizedText
  DataTypeAttributes_description :: OpcUaLocalizedText
  DataTypeAttributes_isAbstract :: bool
  DataTypeAttributes_writeMask :: u32
  DataTypeAttributes_userWriteMask :: u32

definition DataTypeAttributes_new :: DataTypeAttributes where
  "DataTypeAttributes_new =
     \<lparr>
       DataTypeAttributes_specifiedAttributes = SpecifiedAttributes_Description OR SpecifiedAttributes_DisplayName OR SpecifiedAttributes_IsAbstract OR SpecifiedAttributes_WriteMask OR SpecifiedAttributes_UserWriteMask,
       DataTypeAttributes_displayName = OpcUaLocalizedText_new,
       DataTypeAttributes_description = OpcUaLocalizedText_new,
       DataTypeAttributes_isAbstract = False, DataTypeAttributes_writeMask = 0,
       DataTypeAttributes_userWriteMask = 0\<rparr>"

definition DataTypeAttributes_opcUaBinaryEncode :: "DataTypeAttributes \<Rightarrow> stream" where
  "DataTypeAttributes_opcUaBinaryEncode this =
     OpcUaUInt32_encode (DataTypeAttributes_specifiedAttributes this)
     @ OpcUaLocalizedText_opcUaBinaryEncode (DataTypeAttributes_displayName this)
     @ OpcUaLocalizedText_opcUaBinaryEncode (DataTypeAttributes_description this)
     @ OpcUaBoolean_encode (DataTypeAttributes_isAbstract this)
     @ OpcUaUInt32_encode (DataTypeAttributes_writeMask this)
     @ OpcUaUInt32_encode (DataTypeAttributes_userWriteMask this)"

definition DataTypeAttributes_opcUaBinaryDecode :: "DataTypeAttributes decoder" where
  "DataTypeAttributes_opcUaBinaryDecode is = do {
     (x1, is) \<leftarrow> OpcUaUInt32_decode is;
     (x2, is) \<leftarrow> OpcUaLocalizedText_opcUaBinaryDecode OpcUaLocalizedText_new is;
     (x3, is) \<leftarrow> OpcUaLocalizedText_opcUaBinaryDecode OpcUaLocalizedText_new is;
     (x4, is) \<leftarrow> OpcUaBoolean_decode is;
     (x5, is) \<leftarrow> OpcUaUInt32_decode is;
     (x6, is) \<leftarrow> OpcUaUInt32_decode is;
     Some (\<lparr>DataTypeAttributes_specifiedAttributes = x1, DataTypeAttributes_displayName = x2,
            DataTypeAttributes_description = x3, DataTypeAttributes_isAbstract = x4,
            DataTypeAttributes_writeMask = x5, DataTypeAttributes_userWriteMask = x6\<rparr>, is) }"

definition DataTypeAttributes_wf :: "DataTypeAttributes \<Rightarrow> bool" where
  "DataTypeAttributes_wf m \<longleftrightarrow>
     OpcUaLocalizedText_wf (DataTypeAttributes_displayName m)
     \<and> OpcUaLocalizedText_wf (DataTypeAttributes_description m)"

interpretation datatypeattributes_codec: codec DataTypeAttributes_opcUaBinaryEncode
  DataTypeAttributes_opcUaBinaryDecode DataTypeAttributes_wf
  by unfold_locales
     (simp add: DataTypeAttributes_opcUaBinaryEncode_def DataTypeAttributes_opcUaBinaryDecode_def
        DataTypeAttributes_wf_def codec_rt)

declare datatypeattributes_codec.dec_enc [codec_rt]

record ViewAttributes =
  ViewAttributes_specifiedAttributes :: u32
  ViewAttributes_displayName :: OpcUaLocalizedText
  ViewAttributes_description :: OpcUaLocalizedText
  ViewAttributes_containsNoLoops :: bool
  ViewAttributes_eventNotifier :: u8
  ViewAttributes_writeMask :: u32
  ViewAttributes_userWriteMask :: u32

definition ViewAttributes_new :: ViewAttributes where
  "ViewAttributes_new =
     \<lparr>
       ViewAttributes_specifiedAttributes = SpecifiedAttributes_Description OR SpecifiedAttributes_DisplayName OR SpecifiedAttributes_ContainsNoLoops OR SpecifiedAttributes_EventNotifier OR SpecifiedAttributes_WriteMask OR SpecifiedAttributes_UserWriteMask,
       ViewAttributes_displayName = OpcUaLocalizedText_new,
       ViewAttributes_description = OpcUaLocalizedText_new,
       ViewAttributes_containsNoLoops = False, ViewAttributes_eventNotifier = 0,
       ViewAttributes_writeMask = 0, ViewAttributes_userWriteMask = 0\<rparr>"

definition ViewAttributes_opcUaBinaryEncode :: "ViewAttributes \<Rightarrow> stream" where
  "ViewAttributes_opcUaBinaryEncode this =
     OpcUaUInt32_encode (ViewAttributes_specifiedAttributes this)
     @ OpcUaLocalizedText_opcUaBinaryEncode (ViewAttributes_displayName this)
     @ OpcUaLocalizedText_opcUaBinaryEncode (ViewAttributes_description this)
     @ OpcUaBoolean_encode (ViewAttributes_containsNoLoops this)
     @ OpcUaByte_encode (ViewAttributes_eventNotifier this)
     @ OpcUaUInt32_encode (ViewAttributes_writeMask this)
     @ OpcUaUInt32_encode (ViewAttributes_userWriteMask this)"

definition ViewAttributes_opcUaBinaryDecode :: "ViewAttributes decoder" where
  "ViewAttributes_opcUaBinaryDecode is = do {
     (x1, is) \<leftarrow> OpcUaUInt32_decode is;
     (x2, is) \<leftarrow> OpcUaLocalizedText_opcUaBinaryDecode OpcUaLocalizedText_new is;
     (x3, is) \<leftarrow> OpcUaLocalizedText_opcUaBinaryDecode OpcUaLocalizedText_new is;
     (x4, is) \<leftarrow> OpcUaBoolean_decode is;
     (x5, is) \<leftarrow> OpcUaByte_decode is;
     (x6, is) \<leftarrow> OpcUaUInt32_decode is;
     (x7, is) \<leftarrow> OpcUaUInt32_decode is;
     Some (\<lparr>ViewAttributes_specifiedAttributes = x1, ViewAttributes_displayName = x2,
            ViewAttributes_description = x3, ViewAttributes_containsNoLoops = x4,
            ViewAttributes_eventNotifier = x5, ViewAttributes_writeMask = x6,
            ViewAttributes_userWriteMask = x7\<rparr>, is) }"

definition ViewAttributes_wf :: "ViewAttributes \<Rightarrow> bool" where
  "ViewAttributes_wf m \<longleftrightarrow>
     OpcUaLocalizedText_wf (ViewAttributes_displayName m)
     \<and> OpcUaLocalizedText_wf (ViewAttributes_description m)"

interpretation viewattributes_codec: codec ViewAttributes_opcUaBinaryEncode
  ViewAttributes_opcUaBinaryDecode ViewAttributes_wf
  by unfold_locales
     (simp add: ViewAttributes_opcUaBinaryEncode_def ViewAttributes_opcUaBinaryDecode_def
        ViewAttributes_wf_def codec_rt)

declare viewattributes_codec.dec_enc [codec_rt]

section \<open>Nodes and references\<close>

record AddNodesResult =
  AddNodesResult_statusCode :: u32
  AddNodesResult_addedNodeId :: OpcUaNodeIdBase

definition AddNodesResult_new :: AddNodesResult where
  "AddNodesResult_new =
     \<lparr>AddNodesResult_statusCode = 0, AddNodesResult_addedNodeId = OpcUaNodeIdBase_new\<rparr>"

definition AddNodesResult_opcUaBinaryEncode :: "AddNodesResult \<Rightarrow> stream" where
  "AddNodesResult_opcUaBinaryEncode this =
     OpcUaUInt32_encode (AddNodesResult_statusCode this)
     @ OpcUaNodeId_opcUaBinaryEncode (AddNodesResult_addedNodeId this)"

definition AddNodesResult_opcUaBinaryDecode :: "AddNodesResult decoder" where
  "AddNodesResult_opcUaBinaryDecode is = do {
     (x1, is) \<leftarrow> OpcUaUInt32_decode is;
     (x2, is) \<leftarrow> OpcUaNodeId_opcUaBinaryDecode is;
     Some (\<lparr>AddNodesResult_statusCode = x1, AddNodesResult_addedNodeId = x2\<rparr>, is) }"

definition AddNodesResult_wf :: "AddNodesResult \<Rightarrow> bool" where
  "AddNodesResult_wf m \<longleftrightarrow>
     OpcUaNodeId_wf (AddNodesResult_addedNodeId m)"

interpretation addnodesresult_codec: codec AddNodesResult_opcUaBinaryEncode
  AddNodesResult_opcUaBinaryDecode AddNodesResult_wf
  by unfold_locales
     (simp add: AddNodesResult_opcUaBinaryEncode_def AddNodesResult_opcUaBinaryDecode_def
        AddNodesResult_wf_def codec_rt)

declare addnodesresult_codec.dec_enc [codec_rt]

record AddNodesResponse =
  AddNodesResponse_addNodesResultArray :: "AddNodesResult list"
  AddNodesResponse_diagnosticInfoArray :: "OpcUaDiagnosticInfo list"

definition AddNodesResponse_new :: AddNodesResponse where
  "AddNodesResponse_new =
     \<lparr>AddNodesResponse_addNodesResultArray = [], AddNodesResponse_diagnosticInfoArray = []\<rparr>"

definition AddNodesResponse_opcUaBinaryEncode :: "AddNodesResponse \<Rightarrow> stream" where
  "AddNodesResponse_opcUaBinaryEncode this =
     array_encode AddNodesResult_opcUaBinaryEncode (AddNodesResponse_addNodesResultArray this)
     @ array_encode OpcUaDiagnosticInfo_opcUaBinaryEncode (AddNodesResponse_diagnosticInfoArray this)"

definition AddNodesResponse_opcUaBinaryDecode :: "AddNodesResponse decoder" where
  "AddNodesResponse_opcUaBinaryDecode is = do {
     (x1, is) \<leftarrow> array_decode AddNodesResult_opcUaBinaryDecode is;
     (x2, is) \<leftarrow> array_decode (OpcUaDiagnosticInfo_opcUaBinaryDecode OpcUaDiagnosticInfo_new) is;
     Some (\<lparr>AddNodesResponse_addNodesResultArray = x1, AddNodesResponse_diagnosticInfoArray = x2\<rparr>, is) }"

definition AddNodesResponse_wf :: "AddNodesResponse \<Rightarrow> bool" where
  "AddNodesResponse_wf m \<longleftrightarrow>
     array_wf AddNodesResult_wf (AddNodesResponse_addNodesResultArray m)
     \<and> array_wf (\<lambda>d. OpcUaString_wf (di_additionalInfo d)) (AddNodesResponse_diagnosticInfoArray m)"

declare addnodesresult_codec.array_rt [codec_rt]

interpretation addnodesresponse_codec: codec AddNodesResponse_opcUaBinaryEncode
  AddNodesResponse_opcUaBinaryDecode AddNodesResponse_wf
  by unfold_locales
     (simp add: AddNodesResponse_opcUaBinaryEncode_def AddNodesResponse_opcUaBinaryDecode_def
        AddNodesResponse_wf_def codec_rt)

declare addnodesresponse_codec.dec_enc [codec_rt]

record AddReferencesItem =
  AddReferencesItem_sourceNodeId :: OpcUaNodeIdBase
  AddReferencesItem_referenceTypeId :: OpcUaNodeIdBase
  AddReferencesItem_isForward :: bool
  AddReferencesItem_targetServerUri :: OpcUaString
  AddReferencesItem_targetNodeId :: OpcUaExpandedNodeId
  AddReferencesItem_targetNodeClass :: NodeClass

definition AddReferencesItem_new :: AddReferencesItem where
  "AddReferencesItem_new =
     \<lparr>AddReferencesItem_sourceNodeId = OpcUaNodeIdBase_new,
       AddReferencesItem_referenceTypeId = OpcUaNodeIdBase_new,
       AddReferencesItem_isForward = False, AddReferencesItem_targetServerUri = OpcUaString_new,
       AddReferencesItem_targetNodeId = OpcUaExpandedNodeId_new,
       AddReferencesItem_targetNodeClass = NodeClass_new\<rparr>"

definition AddReferencesItem_opcUaBinaryEncode :: "AddReferencesItem \<Rightarrow> stream" where
  "AddReferencesItem_opcUaBinaryEncode this =
     OpcUaNodeId_opcUaBinaryEncode (AddReferencesItem_sourceNodeId this)
     @ OpcUaNodeId_opcUaBinaryEncode (AddReferencesItem_referenceTypeId this)
     @ OpcUaBoolean_encode (AddReferencesItem_isForward this)
     @ OpcUaString_opcUaBinaryEncode (AddReferencesItem_targetServerUri this)
     @ OpcUaExpandedNodeId_opcUaBinaryEncode (AddReferencesItem_targetNodeId this)
     @ NodeClass_opcUaBinaryEncode (AddReferencesItem_targetNodeClass this)"

definition AddReferencesItem_opcUaBinaryDecode :: "AddReferencesItem decoder" where
  "AddReferencesItem_opcUaBinaryDecode is = do {
     (x1, is) \<leftarrow> OpcUaNodeId_opcUaBinaryDecode is;
     (x2, is) \<leftarrow> OpcUaNodeId_opcUaBinaryDecode is;
     (x3, is) \<leftarrow> OpcUaBoolean_decode is;
     (x4, is) \<leftarrow> OpcUaString_opcUaBinaryDecode is;
     (x5, is) \<leftarrow> OpcUaExpandedNodeId_opcUaBinaryDecode OpcUaExpandedNodeId_new is;
     (x6, is) \<leftarrow> NodeClass_opcUaBinaryDecode is;
     Some (\<lparr>AddReferencesItem_sourceNodeId = x1, AddReferencesItem_referenceTypeId = x2,
            AddReferencesItem_isForward = x3, AddReferencesItem_targetServerUri = x4,
            AddReferencesItem_targetNodeId = x5, AddReferencesItem_targetNodeClass = x6\<rparr>, is) }"

definition AddReferencesItem_wf :: "AddReferencesItem \<Rightarrow> bool" where
  "AddReferencesItem_wf m \<longleftrightarrow>
     OpcUaNodeId_wf (AddReferencesItem_sourceNodeId m)
     \<and> OpcUaNodeId_wf (AddReferencesItem_referenceTypeId m)
     \<and> OpcUaString_wf (AddReferencesItem_targetServerUri m)
     \<and> OpcUaExpandedNodeId_wf (AddReferencesItem_targetNodeId m)"

interpretation addreferencesitem_codec: codec AddReferencesItem_opcUaBinaryEncode
  AddReferencesItem_opcUaBinaryDecode AddReferencesItem_wf
  by unfold_locales
     (simp add: AddReferencesItem_opcUaBinaryEncode_def AddReferencesItem_opcUaBinaryDecode_def
        AddReferencesItem_wf_def codec_rt)

declare addreferencesitem_codec.dec_enc [codec_rt]

record AddReferencesRequest =
  AddReferencesRequest_addReferencesItemArray :: "AddReferencesItem list"

definition AddReferencesRequest_new :: AddReferencesRequest where
  "AddReferencesRequest_new =
     \<lparr>AddReferencesRequest_addReferencesItemArray = []\<rparr>"

definition AddReferencesRequest_opcUaBinaryEncode :: "AddReferencesRequest \<Rightarrow> stream" where
  "AddReferencesRequest_opcUaBinaryEncode this =
     array_encode AddReferencesItem_opcUaBinaryEncode (AddReferencesRequest_addReferencesItemArray this)"

definition AddReferencesRequest_opcUaBinaryDecode :: "AddReferencesRequest decoder" where
  "AddReferencesRequest_opcUaBinaryDecode is = do {
     (x1, is) \<leftarrow> array_decode AddReferencesItem_opcUaBinaryDecode is;
     Some (\<lparr>AddReferencesRequest_addReferencesItemArray = x1\<rparr>, is) }"

definition AddReferencesRequest_wf :: "AddReferencesRequest \<Rightarrow> bool" where
  "AddReferencesRequest_wf m \<longleftrightarrow>
     array_wf AddReferencesItem_wf (AddReferencesRequest_addReferencesItemArray m)"

declare addreferencesitem_codec.array_rt [codec_rt]

interpretation addreferencesrequest_codec: codec AddReferencesRequest_opcUaBinaryEncode
  AddReferencesRequest_opcUaBinaryDecode AddReferencesRequest_wf
  by unfold_locales
     (simp add: AddReferencesRequest_opcUaBinaryEncode_def
        AddReferencesRequest_opcUaBinaryDecode_def AddReferencesRequest_wf_def codec_rt)

declare addreferencesrequest_codec.dec_enc [codec_rt]

record AddReferencesResult =
  AddReferencesResult_statusCode :: u32

definition AddReferencesResult_new :: AddReferencesResult where
  "AddReferencesResult_new =
     \<lparr>AddReferencesResult_statusCode = 0\<rparr>"

definition AddReferencesResult_opcUaBinaryEncode :: "AddReferencesResult \<Rightarrow> stream" where
  "AddReferencesResult_opcUaBinaryEncode this =
     OpcUaUInt32_encode (AddReferencesResult_statusCode this)"

definition AddReferencesResult_opcUaBinaryDecode :: "AddReferencesResult decoder" where
  "AddReferencesResult_opcUaBinaryDecode is = do {
     (x1, is) \<leftarrow> OpcUaUInt32_decode is;
     Some (\<lparr>AddReferencesResult_statusCode = x1\<rparr>, is) }"

interpretation addreferencesresult_codec: codec AddReferencesResult_opcUaBinaryEncode
  AddReferencesResult_opcUaBinaryDecode "\<lambda>_. True"
  by unfold_locales
     (simp add: AddReferencesResult_opcUaBinaryEncode_def AddReferencesResult_opcUaBinaryDecode_def
        codec_rt)

declare addreferencesresult_codec.dec_enc [OF TrueI, codec_rt]

record AddReferencesResponse =
  AddReferencesResponse_addReferencesResultArray :: "AddReferencesResult list"
  AddReferencesResponse_diagnosticInfoArray :: "OpcUaDiagnosticInfo list"

definition AddReferencesResponse_new :: AddReferencesResponse where
  "AddReferencesResponse_new =
     \<lparr>AddReferencesResponse_addReferencesResultArray = [],
       AddReferencesResponse_diagnosticInfoArray = []\<rparr>"

definition AddReferencesResponse_opcUaBinaryEncode :: "AddReferencesResponse \<Rightarrow> stream" where
  "AddReferencesResponse_opcUaBinaryEncode this =
     array_encode AddReferencesResult_opcUaBinaryEncode (AddReferencesResponse_addReferencesResultArray this)
     @ array_encode OpcUaDiagnosticInfo_opcUaBinaryEncode (AddReferencesResponse_diagnosticInfoArray this)"

definition AddReferencesResponse_opcUaBinaryDecode :: "AddReferencesResponse decoder" where
  "AddReferencesResponse_opcUaBinaryDecode is = do {
     (x1, is) \<leftarrow> array_decode AddReferencesResult_opcUaBinaryDecode is;
     (x2, is) \<leftarrow> array_decode (OpcUaDiagnosticInfo_opcUaBinaryDecode OpcUaDiagnosticInfo_new) is;
     Some (\<lparr>AddReferencesResponse_addReferencesResultArray = x1,
            AddReferencesResponse_diagnosticInfoArray = x2\<rparr>, is) }"

definition AddReferencesResponse_wf :: "AddReferencesResponse \<Rightarrow> bool" where
  "AddReferencesResponse_wf m \<longleftrightarrow>
     array_wf (\<lambda>_. True) (AddReferencesResponse_addReferencesResultArray m)
     \<and> array_wf (\<lambda>d. OpcUaString_wf (di_additionalInfo d)) (AddReferencesResponse_diagnosticInfoArray m)"

declare addreferencesresult_codec.array_rt [codec_rt]

interpretation addreferencesresponse_codec: codec AddReferencesResponse_opcUaBinaryEncode
  AddReferencesResponse_opcUaBinaryDecode AddReferencesResponse_wf
  by unfold_locales
     (simp add: AddReferencesResponse_opcUaBinaryEncode_def
        AddReferencesResponse_opcUaBinaryDecode_def AddReferencesResponse_wf_def codec_rt)

declare addreferencesresponse_codec.dec_enc [codec_rt]

record DeleteNodesItem =
  DeleteNodesItem_nodeId :: OpcUaNodeIdBase
  DeleteNodesItem_deleteTargetReferences :: bool

definition DeleteNodesItem_new :: DeleteNodesItem where
  "DeleteNodesItem_new =
     \<lparr>DeleteNodesItem_nodeId = OpcUaNodeIdBase_new,
       DeleteNodesItem_deleteTargetReferences = False\<rparr>"

definition DeleteNodesItem_opcUaBinaryEncode :: "DeleteNodesItem \<Rightarrow> stream" where
  "DeleteNodesItem_opcUaBinaryEncode this =
     OpcUaNodeId_opcUaBinaryEncode (DeleteNodesItem_nodeId this)
     @ OpcUaBoolean_encode (DeleteNodesItem_deleteTargetReferences this)"

definition DeleteNodesItem_opcUaBinaryDecode :: "DeleteNodesItem decoder" where
  "DeleteNodesItem_opcUaBinaryDecode is = do {
     (x1, is) \<leftarrow> OpcUaNodeId_opcUaBinaryDecode is;
     (x2, is) \<leftarrow> OpcUaBoolean_decode is;
     Some (\<lparr>DeleteNodesItem_nodeId = x1, DeleteNodesItem_deleteTargetReferences = x2\<rparr>, is) }"

definition DeleteNodesItem_wf :: "DeleteNodesItem \<Rightarrow> bool" where
  "DeleteNodesItem_wf m \<longleftrightarrow>
     OpcUaNodeId_wf (DeleteNodesItem_nodeId m)"

interpretation deletenodesitem_codec: codec DeleteNodesItem_opcUaBinaryEncode
  DeleteNodesItem_opcUaBinaryDecode DeleteNodesItem_wf
  by unfold_locales
     (simp add: DeleteNodesItem_opcUaBinaryEncode_def DeleteNodesItem_opcUaBinaryDecode_def
        DeleteNodesItem_wf_def codec_rt)

declare deletenodesitem_codec.dec_enc [codec_rt]

record DeleteNodesRequest =
  DeleteNodesRequest_deleteNodesItemArray :: "DeleteNodesItem list"

definition DeleteNodesRequest_new :: DeleteNodesRequest where
  "DeleteNodesRequest_new =
     \<lparr>DeleteNodesRequest_deleteNodesItemArray = []\<rparr>"

definition DeleteNodesRequest_opcUaBinaryEncode :: "DeleteNodesRequest \<Rightarrow> stream" where
  "DeleteNodesRequest_opcUaBinaryEncode this =
     array_encode DeleteNodesItem_opcUaBinaryEncode (DeleteNodesRequest_deleteNodesItemArray this)"

definition DeleteNodesRequest_opcUaBinaryDecode :: "DeleteNodesRequest decoder" where
  "DeleteNodesRequest_opcUaBinaryDecode is = do {
     (x1, is) \<leftarrow> array_decode DeleteNodesItem_opcUaBinaryDecode is;
     Some (\<lparr>DeleteNodesRequest_deleteNodesItemArray = x1\<rparr>, is) }"

definition DeleteNodesRequest_wf :: "DeleteNodesRequest \<Rightarrow> bool" where
  "DeleteNodesRequest_wf m \<longleftrightarrow>
     array_wf DeleteNodesItem_wf (DeleteNodesRequest_deleteNodesItemArray m)"

declare deletenodesitem_codec.array_rt [codec_rt]

interpretation deletenodesrequest_codec: codec DeleteNodesRequest_opcUaBinaryEncode
  DeleteNodesRequest_opcUaBinaryDecode DeleteNodesRequest_wf
  by unfold_locales
     (simp add: DeleteNodesRequest_opcUaBinaryEncode_def DeleteNodesRequest_opcUaBinaryDecode_def
        DeleteNodesRequest_wf_def codec_rt)

declare deletenodesrequest_codec.dec_enc [codec_rt]

record DeleteNodesResult =
  DeleteNodesResult_statusCode :: u32

definition DeleteNodesResult_new :: DeleteNodesResult where
  "DeleteNodesResult_new =
     \<lparr>DeleteNodesResult_statusCode = 0\<rparr>"

definition DeleteNodesResult_opcUaBinaryEncode :: "DeleteNodesResult \<Rightarrow> stream" where
  "DeleteNodesResult_opcUaBinaryEncode this =
     OpcUaUInt32_encode (DeleteNodesResult_statusCode this)"

definition DeleteNodesResult_opcUaBinaryDecode :: "DeleteNodesResult decoder" where
  "DeleteNodesResult_opcUaBinaryDecode is = do {
     (x1, is) \<leftarrow> OpcUaUInt32_decode is;
     Some (\<lparr>DeleteNodesResult_statusCode = x1\<rparr>, is) }"

interpretation deletenodesresult_codec: codec DeleteNodesResult_opcUaBinaryEncode
  DeleteNodesResult_opcUaBinaryDecode "\<lambda>_. True"
  by unfold_locales
     (simp add: DeleteNodesResult_opcUaBinaryEncode_def DeleteNodesResult_opcUaBinaryDecode_def
        codec_rt)

declare deletenodesresult_codec.dec_enc [OF TrueI, codec_rt]

record DeleteNodesResponse =
  DeleteNodesResponse_deleteNodesResultArray :: "DeleteNodesResult list"
  DeleteNodesResponse_diagnosticInfoArray :: "OpcUaDiagnosticInfo list"

definition DeleteNodesResponse_new :: DeleteNodesResponse where
  "DeleteNodesResponse_new =
     \<lparr>DeleteNodesResponse_deleteNodesResultArray = [],
       DeleteNodesResponse_diagnosticInfoArray = []\<rparr>"

definition DeleteNodesResponse_opcUaBinaryEncode :: "DeleteNodesResponse \<Rightarrow> stream" where
  "DeleteNodesResponse_opcUaBinaryEncode this =
     array_encode DeleteNodesResult_opcUaBinaryEncode (DeleteNodesResponse_deleteNodesResultArray this)
     @ array_encode OpcUaDiagnosticInfo_opcUaBinaryEncode (DeleteNodesResponse_diagnosticInfoArray this)"

definition DeleteNodesResponse_opcUaBinaryDecode :: "DeleteNodesResponse decoder" where
  "DeleteNodesResponse_opcUaBinaryDecode is = do {
     (x1, is) \<leftarrow> array_decode DeleteNodesResult_opcUaBinaryDecode is;
     (x2, is) \<leftarrow> array_decode (OpcUaDiagnosticInfo_opcUaBinaryDecode OpcUaDiagnosticInfo_new) is;
     Some (\<lparr>DeleteNodesResponse_deleteNodesResultArray = x1,
            DeleteNodesResponse_diagnosticInfoArray = x2\<rparr>, is) }"

definition DeleteNodesResponse_wf :: "DeleteNodesResponse \<Rightarrow> bool" where
  "DeleteNodesResponse_wf m \<longleftrightarrow>
     array_wf (\<lambda>_. True) (DeleteNodesResponse_deleteNodesResultArray m)
     \<and> array_wf (\<lambda>d. OpcUaString_wf (di_additionalInfo d)) (DeleteNodesResponse_diagnosticInfoArray m)"

declare deletenodesresult_codec.array_rt [codec_rt]

interpretation deletenodesresponse_codec: codec DeleteNodesResponse_opcUaBinaryEncode
  DeleteNodesResponse_opcUaBinaryDecode DeleteNodesResponse_wf
  by unfold_locales
     (simp add: DeleteNodesResponse_opcUaBinaryEncode_def DeleteNodesResponse_opcUaBinaryDecode_def
        DeleteNodesResponse_wf_def codec_rt)

declare deletenodesresponse_codec.dec_enc [codec_rt]

record DeleteReferencesItem =
  DeleteReferencesItem_sourceNodeId :: OpcUaNodeIdBase
  DeleteReferencesItem_referenceTypeId :: OpcUaNodeIdBase
  DeleteReferencesItem_isForward :: bool
  DeleteReferencesItem_targetNodeId :: OpcUaExpandedNodeId
  DeleteReferencesItem_deleteBidirectional :: bool

definition DeleteReferencesItem_new :: DeleteReferencesItem where
  "DeleteReferencesItem_new =
     \<lparr>DeleteReferencesItem_sourceNodeId = OpcUaNodeIdBase_new,
       DeleteReferencesItem_referenceTypeId = OpcUaNodeIdBase_new,
       DeleteReferencesItem_isForward = False,
       DeleteReferencesItem_targetNodeId = OpcUaExpandedNodeId_new,
       DeleteReferencesItem_deleteBidirectional = False\<rparr>"

definition DeleteReferencesItem_opcUaBinaryEncode :: "DeleteReferencesItem \<Rightarrow> stream" where
  "DeleteReferencesItem_opcUaBinaryEncode this =
     OpcUaNodeId_opcUaBinaryEncode (DeleteReferencesItem_sourceNodeId this)
     @ OpcUaNodeId_opcUaBinaryEncode (DeleteReferencesItem_referenceTypeId this)
     @ OpcUaBoolean_encode (DeleteReferencesItem_isForward this)
     @ OpcUaExpandedNodeId_opcUaBinaryEncode (DeleteReferencesItem_targetNodeId this)
     @ OpcUaBoolean_encode (DeleteReferencesItem_deleteBidirectional this)"

definition DeleteReferencesItem_opcUaBinaryDecode :: "DeleteReferencesItem decoder" where
  "DeleteReferencesItem_opcUaBinaryDecode is = do {
     (x1, is) \<leftarrow> OpcUaNodeId_opcUaBinaryDecode is;
     (x2, is) \<leftarrow> OpcUaNodeId_opcUaBinaryDecode is;
     (x3, is) \<leftarrow> OpcUaBoolean_decode is;
     (x4, is) \<leftarrow> OpcUaExpandedNodeId_opcUaBinaryDecode OpcUaExpandedNodeId_new is;
     (x5, is) \<leftarrow> OpcUaBoolean_decode is;
     Some (\<lparr>DeleteReferencesItem_sourceNodeId = x1, DeleteReferencesItem_referenceTypeId = x2,
            DeleteReferencesItem_isForward = x3, DeleteReferencesItem_targetNodeId = x4,
            DeleteReferencesItem_deleteBidirectional = x5\<rparr>, is) }"

definition DeleteReferencesItem_wf :: "DeleteReferencesItem \<Rightarrow> bool" where
  "DeleteReferencesItem_wf m \<longleftrightarrow>
     OpcUaNodeId_wf (DeleteReferencesItem_sourceNodeId m)
     \<and> OpcUaNodeId_wf (DeleteReferencesItem_referenceTypeId m)
     \<and> OpcUaExpandedNodeId_wf (DeleteReferencesItem_targetNodeId m)"

interpretation deletereferencesitem_codec: codec DeleteReferencesItem_opcUaBinaryEncode
  DeleteReferencesItem_opcUaBinaryDecode DeleteReferencesItem_wf
  by unfold_locales
     (simp add: DeleteReferencesItem_opcUaBinaryEncode_def
        DeleteReferencesItem_opcUaBinaryDecode_def DeleteReferencesItem_wf_def codec_rt)

declare deletereferencesitem_codec.dec_enc [codec_rt]

record DeleteReferencesRequest =
  DeleteReferencesRequest_deleteReferencesItemArray :: "DeleteReferencesItem list"

definition DeleteReferencesRequest_new :: DeleteReferencesRequest where
  "DeleteReferencesRequest_new =
     \<lparr>DeleteReferencesRequest_deleteReferencesItemArray = []\<rparr>"

definition DeleteReferencesRequest_opcUaBinaryEncode :: "DeleteReferencesRequest \<Rightarrow> stream" where
  "DeleteReferencesRequest_opcUaBinaryEncode this =
     array_encode DeleteReferencesItem_opcUaBinaryEncode (DeleteReferencesRequest_deleteReferencesItemArray this)"

definition DeleteReferencesRequest_opcUaBinaryDecode :: "DeleteReferencesRequest decoder" where
  "DeleteReferencesRequest_opcUaBinaryDecode is = do {
     (x1, is) \<leftarrow> array_decode DeleteReferencesItem_opcUaBinaryDecode is;
     Some (\<lparr>DeleteReferencesRequest_deleteReferencesItemArray = x1\<rparr>, is) }"

definition DeleteReferencesRequest_wf :: "DeleteReferencesRequest \<Rightarrow> bool" where
  "DeleteReferencesRequest_wf m \<longleftrightarrow>
     array_wf DeleteReferencesItem_wf (DeleteReferencesRequest_deleteReferencesItemArray m)"

declare deletereferencesitem_codec.array_rt [codec_rt]

interpretation deletereferencesrequest_codec: codec DeleteReferencesRequest_opcUaBinaryEncode
  DeleteReferencesRequest_opcUaBinaryDecode DeleteReferencesRequest_wf
  by unfold_locales
     (simp add: DeleteReferencesRequest_opcUaBinaryEncode_def
        DeleteReferencesRequest_opcUaBinaryDecode_def DeleteReferencesRequest_wf_def codec_rt)

declare deletereferencesrequest_codec.dec_enc [codec_rt]

record DeleteReferencesResult =
  DeleteReferencesResult_statusCode :: u32

definition DeleteReferencesResult_new :: DeleteReferencesResult where
  "DeleteReferencesResult_new =
     \<lparr>DeleteReferencesResult_statusCode = 0\<rparr>"

definition DeleteReferencesResult_opcUaBinaryEncode :: "DeleteReferencesResult \<Rightarrow> stream" where
  "DeleteReferencesResult_opcUaBinaryEncode this =
     OpcUaUInt32_encode (DeleteReferencesResult_statusCode this)"

definition DeleteReferencesResult_opcUaBinaryDecode :: "DeleteReferencesResult decoder" where
  "DeleteReferencesResult_opcUaBinaryDecode is = do {
     (x1, is) \<leftarrow> OpcUaUInt32_decode is;
     Some (\<lparr>DeleteReferencesResult_statusCode = x1\<rparr>, is) }"

interpretation deletereferencesresult_codec: codec DeleteReferencesResult_opcUaBinaryEncode
  DeleteReferencesResult_opcUaBinaryDecode "\<lambda>_. True"
  by unfold_locales
     (simp add: DeleteReferencesResult_opcUaBinaryEncode_def
        DeleteReferencesResult_opcUaBinaryDecode_def codec_rt)

declare deletereferencesresult_codec.dec_enc [OF TrueI, codec_rt]

record DeleteReferencesResponse =
  DeleteReferencesResponse_deleteReferencesResultArray :: "DeleteReferencesResult list"
  DeleteReferencesResponse_diagnosticInfoArray :: "OpcUaDiagnosticInfo list"

definition DeleteReferencesResponse_new :: DeleteReferencesResponse where
  "DeleteReferencesResponse_new =
     \<lparr>DeleteReferencesResponse_deleteReferencesResultArray = [],
       DeleteReferencesResponse_diagnosticInfoArray = []\<rparr>"

definition DeleteReferencesResponse_opcUaBinaryEncode :: "DeleteReferencesResponse \<Rightarrow> stream" where
  "DeleteReferencesResponse_opcUaBinaryEncode this =
     array_encode DeleteReferencesResult_opcUaBinaryEncode (DeleteReferencesResponse_deleteReferencesResultArray this)
     @ array_encode OpcUaDiagnosticInfo_opcUaBinaryEncode (DeleteReferencesResponse_diagnosticInfoArray this)"

definition DeleteReferencesResponse_opcUaBinaryDecode :: "DeleteReferencesResponse decoder" where
  "DeleteReferencesResponse_opcUaBinaryDecode is = do {
     (x1, is) \<leftarrow> array_decode DeleteReferencesResult_opcUaBinaryDecode is;
     (x2, is) \<leftarrow> array_decode (OpcUaDiagnosticInfo_opcUaBinaryDecode OpcUaDiagnosticInfo_new) is;
     Some (\<lparr>DeleteReferencesResponse_deleteReferencesResultArray = x1,
            DeleteReferencesResponse_diagnosticInfoArray = x2\<rparr>, is) }"

definition DeleteReferencesResponse_wf :: "DeleteReferencesResponse \<Rightarrow> bool" where
  "DeleteReferencesResponse_wf m \<longleftrightarrow>
     array_wf (\<lambda>_. True) (DeleteReferencesResponse_deleteReferencesResultArray m)
     \<and> array_wf (\<lambda>d. OpcUaString_wf (di_additionalInfo d)) (DeleteReferencesResponse_diagnosticInfoArray m)"

declare deletereferencesresult_codec.array_rt [codec_rt]

interpretation deletereferencesresponse_codec: codec DeleteReferencesResponse_opcUaBinaryEncode
  DeleteReferencesResponse_opcUaBinaryDecode DeleteReferencesResponse_wf
  by unfold_locales
     (simp add: DeleteReferencesResponse_opcUaBinaryEncode_def
        DeleteReferencesResponse_opcUaBinaryDecode_def DeleteReferencesResponse_wf_def codec_rt)

declare deletereferencesresponse_codec.dec_enc [codec_rt]

end
