(* ===== verification/ValueMessages.thy ===== *)
theory ValueMessages
  imports MessageCoders ViewMessages HistoryMessages NodeMessages
begin

text \<open>
  The messages that carry variants, data values and extensible parameters: reading and writing, methods,
  history and queries, and the attributes of variables (\<^verbatim>\<open>OpcUaStackCore/ServiceSet\<close>).
\<close>

section \<open>Values\<close>

record 'e ReadResponse =
  ReadResponse_dataValueArray :: "'e OpcUaDataValue list"
  ReadResponse_diagnosticInfoArray :: "OpcUaDiagnosticInfo list"

definition ReadResponse_new :: "'e ReadResponse" where
  "ReadResponse_new =
     \<lparr>ReadResponse_dataValueArray = [], ReadResponse_diagnosticInfoArray = []\<rparr>"

definition ReadResponse_opcUaBinaryEncode ::
  "('e, 'p) Coders \<Rightarrow> 'e ReadResponse \<Rightarrow> stream option" where
  "ReadResponse_opcUaBinaryEncode cd this = do {
     b1 \<leftarrow> parray_encode (OpcUaDataValue_opcUaBinaryEncode (cd_objects cd)) (ReadResponse_dataValueArray this);
     Some (b1
           @ array_encode OpcUaDiagnosticInfo_opcUaBinaryEncode (ReadResponse_diagnosticInfoArray this)) }"

definition ReadResponse_opcUaBinaryDecode :: "('e, 'p) Coders \<Rightarrow> 'e ReadResponse decoder" where
  "ReadResponse_opcUaBinaryDecode cd is = do {
     (x1, is) \<leftarrow> array_decode (OpcUaDataValue_opcUaBinaryDecode (cd_objects cd) (cd_objectMap cd) OpcUaDataValue_new) is;
     (x2, is) \<leftarrow> array_decode (OpcUaDiagnosticInfo_opcUaBinaryDecode OpcUaDiagnosticInfo_new) is;
     Some (\<lparr>ReadResponse_dataValueArray = x1, ReadResponse_diagnosticInfoArray = x2\<rparr>, is) }"

definition ReadResponse_wf ::
  "('e, 'p) Coders \<Rightarrow> ('e, 'p) MessageLaws \<Rightarrow> 'e ReadResponse \<Rightarrow> bool" where
  "ReadResponse_wf cd laws m \<longleftrightarrow>
     array_wf (DataValue_wf cd laws) (ReadResponse_dataValueArray m)
     \<and> array_wf (\<lambda>d. OpcUaString_wf (di_additionalInfo d)) (ReadResponse_diagnosticInfoArray m)"

context message_types
begin

lemma readResponse_rt:
  "ReadResponse_wf cd laws m \<Longrightarrow> rt (ReadResponse_opcUaBinaryEncode cd) (ReadResponse_opcUaBinaryDecode cd) m"
  by (auto simp: rt_def ReadResponse_wf_def ReadResponse_opcUaBinaryEncode_def
      ReadResponse_opcUaBinaryDecode_def codec_rt
      elim!: rtE [OF parray_rt [OF _ dataValue_rt]])

end

record 'e WriteValue =
  WriteValue_nodeId :: OpcUaNodeIdBase
  WriteValue_attributeId :: u32
  WriteValue_indexRange :: OpcUaString
  WriteValue_dataValue :: "'e OpcUaDataValue"

definition WriteValue_new :: "'e WriteValue" where
  "WriteValue_new =
     \<lparr>WriteValue_nodeId = OpcUaNodeIdBase_new, WriteValue_attributeId = 0,
       WriteValue_indexRange = OpcUaString_new, WriteValue_dataValue = OpcUaDataValue_new\<rparr>"

definition WriteValue_opcUaBinaryEncode ::
  "('e, 'p) Coders \<Rightarrow> 'e WriteValue \<Rightarrow> stream option" where
  "WriteValue_opcUaBinaryEncode cd this = do {
     b4 \<leftarrow> OpcUaDataValue_opcUaBinaryEncode (cd_objects cd) (WriteValue_dataValue this);
     Some (OpcUaNodeId_opcUaBinaryEncode (WriteValue_nodeId this)
           @ OpcUaInt32_encode (WriteValue_attributeId this)
           @ OpcUaString_opcUaBinaryEncode (WriteValue_indexRange this)
           @ b4) }"

definition WriteValue_opcUaBinaryDecode :: "('e, 'p) Coders \<Rightarrow> 'e WriteValue decoder" where
  "WriteValue_opcUaBinaryDecode cd is = do {
     (x1, is) \<leftarrow> OpcUaNodeId_opcUaBinaryDecode is;
     (x2, is) \<leftarrow> OpcUaInt32_decode is;
     (x3, is) \<leftarrow> OpcUaString_opcUaBinaryDecode is;
     (x4, is) \<leftarrow> OpcUaDataValue_opcUaBinaryDecode (cd_objects cd) (cd_objectMap cd) OpcUaDataValue_new is;
     Some (\<lparr>WriteValue_nodeId = x1, WriteValue_attributeId = x2, WriteValue_indexRange = x3,
            WriteValue_dataValue = x4\<rparr>, is) }"

definition WriteValue_wf ::
  "('e, 'p) Coders \<Rightarrow> ('e, 'p) MessageLaws \<Rightarrow> 'e WriteValue \<Rightarrow> bool" where
  "WriteValue_wf cd laws m \<longleftrightarrow>
     OpcUaNodeId_wf (WriteValue_nodeId m)
     \<and> OpcUaString_wf (WriteValue_indexRange m)
     \<and> DataValue_wf cd laws (WriteValue_dataValue m)"

context message_types
begin

lemma writeValue_rt:
  "WriteValue_wf cd laws m \<Longrightarrow> rt (WriteValue_opcUaBinaryEncode cd) (WriteValue_opcUaBinaryDecode cd) m"
  by (auto simp: rt_def WriteValue_wf_def WriteValue_opcUaBinaryEncode_def
      WriteValue_opcUaBinaryDecode_def codec_rt
      elim!: rtE [OF dataValue_rt])

end

record 'e WriteRequest =
  WriteRequest_writeValueArray :: "'e WriteValue list"

definition WriteRequest_new :: "'e WriteRequest" where
  "WriteRequest_new =
     \<lparr>WriteRequest_writeValueArray = []\<rparr>"

definition WriteRequest_opcUaBinaryEncode ::
  "('e, 'p) Coders \<Rightarrow> 'e WriteRequest \<Rightarrow> stream option" where
  "WriteRequest_opcUaBinaryEncode cd this = do {
     b1 \<leftarrow> parray_encode (WriteValue_opcUaBinaryEncode cd) (WriteRequest_writeValueArray this);
     Some (b1) }"

definition WriteRequest_opcUaBinaryDecode :: "('e, 'p) Coders \<Rightarrow> 'e WriteRequest decoder" where
  "WriteRequest_opcUaBinaryDecode cd is = do {
     (x1, is) \<leftarrow> array_decode (WriteValue_opcUaBinaryDecode cd) is;
     Some (\<lparr>WriteRequest_writeValueArray = x1\<rparr>, is) }"

definition WriteRequest_wf ::
  "('e, 'p) Coders \<Rightarrow> ('e, 'p) MessageLaws \<Rightarrow> 'e WriteRequest \<Rightarrow> bool" where
  "WriteRequest_wf cd laws m \<longleftrightarrow>
     array_wf (WriteValue_wf cd laws) (WriteRequest_writeValueArray m)"

context message_types
begin

lemma writeRequest_rt:
  "WriteRequest_wf cd laws m \<Longrightarrow> rt (WriteRequest_opcUaBinaryEncode cd) (WriteRequest_opcUaBinaryDecode cd) m"
  by (auto simp: rt_def WriteRequest_wf_def WriteRequest_opcUaBinaryEncode_def
      WriteRequest_opcUaBinaryDecode_def codec_rt
      elim!: rtE [OF parray_rt [OF _ writeValue_rt]])

end

section \<open>Methods\<close>

record 'e CallMethodRequest =
  CallMethodRequest_objectId :: OpcUaNodeIdBase
  CallMethodRequest_methodId :: OpcUaNodeIdBase
  CallMethodRequest_inputArgumentArray :: "'e OpcUaVariant list"

definition CallMethodRequest_new :: "'e CallMethodRequest" where
  "CallMethodRequest_new =
     \<lparr>CallMethodRequest_objectId = OpcUaNodeIdBase_new,
       CallMethodRequest_methodId = OpcUaNodeIdBase_new, CallMethodRequest_inputArgumentArray = []\<rparr>"

definition CallMethodRequest_opcUaBinaryEncode ::
  "('e, 'p) Coders \<Rightarrow> 'e CallMethodRequest \<Rightarrow> stream option" where
  "CallMethodRequest_opcUaBinaryEncode cd this = do {
     b3 \<leftarrow> parray_encode (OpcUaVariant_opcUaBinaryEncode (cd_objects cd)) (CallMethodRequest_inputArgumentArray this);
     Some (OpcUaNodeId_opcUaBinaryEncode (CallMethodRequest_objectId this)
           @ OpcUaNodeId_opcUaBinaryEncode (CallMethodRequest_methodId this)
           @ b3) }"

definition CallMethodRequest_opcUaBinaryDecode :: "('e, 'p) Coders \<Rightarrow> 'e CallMethodRequest decoder" where
  "CallMethodRequest_opcUaBinaryDecode cd is = do {
     (x1, is) \<leftarrow> OpcUaNodeId_opcUaBinaryDecode is;
     (x2, is) \<leftarrow> OpcUaNodeId_opcUaBinaryDecode is;
     (x3, is) \<leftarrow> array_decode (OpcUaVariant_opcUaBinaryDecode (cd_objects cd) (cd_objectMap cd) OpcUaVariant_new) is;
     Some (\<lparr>CallMethodRequest_objectId = x1, CallMethodRequest_methodId = x2,
            CallMethodRequest_inputArgumentArray = x3\<rparr>, is) }"

definition CallMethodRequest_wf ::
  "('e, 'p) Coders \<Rightarrow> ('e, 'p) MessageLaws \<Rightarrow> 'e CallMethodRequest \<Rightarrow> bool" where
  "CallMethodRequest_wf cd laws m \<longleftrightarrow>
     OpcUaNodeId_wf (CallMethodRequest_objectId m)
     \<and> OpcUaNodeId_wf (CallMethodRequest_methodId m)
     \<and> array_wf (Variant_wf cd laws) (CallMethodRequest_inputArgumentArray m)"

context message_types
begin

lemma callMethodRequest_rt:
  "CallMethodRequest_wf cd laws m \<Longrightarrow> rt (CallMethodRequest_opcUaBinaryEncode cd) (CallMethodRequest_opcUaBinaryDecode cd) m"
  by (auto simp: rt_def CallMethodRequest_wf_def CallMethodRequest_opcUaBinaryEncode_def
      CallMethodRequest_opcUaBinaryDecode_def codec_rt
      elim!: rtE [OF parray_rt [OF _ variant_rt]])

end

record 'e CallRequest =
  CallRequest_callMethodRequestArray :: "'e CallMethodRequest list"

definition CallRequest_new :: "'e CallRequest" where
  "CallRequest_new =
     \<lparr>CallRequest_callMethodRequestArray = []\<rparr>"

definition CallRequest_opcUaBinaryEncode ::
  "('e, 'p) Coders \<Rightarrow> 'e CallRequest \<Rightarrow> stream option" where
  "CallRequest_opcUaBinaryEncode cd this = do {
     b1 \<leftarrow> parray_encode (CallMethodRequest_opcUaBinaryEncode cd) (CallRequest_callMethodRequestArray this);
     Some (b1) }"

definition CallRequest_opcUaBinaryDecode :: "('e, 'p) Coders \<Rightarrow> 'e CallRequest decoder" where
  "CallRequest_opcUaBinaryDecode cd is = do {
     (x1, is) \<leftarrow> array_decode (CallMethodRequest_opcUaBinaryDecode cd) is;
     Some (\<lparr>CallRequest_callMethodRequestArray = x1\<rparr>, is) }"

definition CallRequest_wf ::
  "('e, 'p) Coders \<Rightarrow> ('e, 'p) MessageLaws \<Rightarrow> 'e CallRequest \<Rightarrow> bool" where
  "CallRequest_wf cd laws m \<longleftrightarrow>
     array_wf (CallMethodRequest_wf cd laws) (CallRequest_callMethodRequestArray m)"

context message_types
begin

lemma callRequest_rt:
  "CallRequest_wf cd laws m \<Longrightarrow> rt (CallRequest_opcUaBinaryEncode cd) (CallRequest_opcUaBinaryDecode cd) m"
  by (auto simp: rt_def CallRequest_wf_def CallRequest_opcUaBinaryEncode_def
      CallRequest_opcUaBinaryDecode_def codec_rt
      elim!: rtE [OF parray_rt [OF _ callMethodRequest_rt]])

end

record 'e CallMethodResult =
  CallMethodResult_statusCode :: u32
  CallMethodResult_inputArgumentResultArray :: "u32 list"
  CallMethodResult_inputArgumentDiagnosticInfoArray :: "OpcUaDiagnosticInfo list"
  CallMethodResult_outputArgumentArray :: "'e OpcUaVariant list"

definition CallMethodResult_new :: "'e CallMethodResult" where
  "CallMethodResult_new =
     \<lparr>CallMethodResult_statusCode = 0, CallMethodResult_inputArgumentResultArray = [],
       CallMethodResult_inputArgumentDiagnosticInfoArray = [],
       CallMethodResult_outputArgumentArray = []\<rparr>"

definition CallMethodResult_opcUaBinaryEncode ::
  "('e, 'p) Coders \<Rightarrow> 'e CallMethodResult \<Rightarrow> stream option" where
  "CallMethodResult_opcUaBinaryEncode cd this = do {
     b4 \<leftarrow> parray_encode (OpcUaVariant_opcUaBinaryEncode (cd_objects cd)) (CallMethodResult_outputArgumentArray this);
     Some (OpcUaUInt32_encode (CallMethodResult_statusCode this)
           @ array_encode OpcUaInt32_encode (CallMethodResult_inputArgumentResultArray this)
           @ array_encode OpcUaDiagnosticInfo_opcUaBinaryEncode (CallMethodResult_inputArgumentDiagnosticInfoArray this)
           @ b4) }"

definition CallMethodResult_opcUaBinaryDecode :: "('e, 'p) Coders \<Rightarrow> 'e CallMethodResult decoder" where
  "CallMethodResult_opcUaBinaryDecode cd is = do {
     (x1, is) \<leftarrow> OpcUaUInt32_decode is;
     (x2, is) \<leftarrow> array_decode OpcUaInt32_decode is;
     (x3, is) \<leftarrow> array_decode (OpcUaDiagnosticInfo_opcUaBinaryDecode OpcUaDiagnosticInfo_new) is;
     (x4, is) \<leftarrow> array_decode (OpcUaVariant_opcUaBinaryDecode (cd_objects cd) (cd_objectMap cd) OpcUaVariant_new) is;
     Some (\<lparr>CallMethodResult_statusCode = x1, CallMethodResult_inputArgumentResultArray = x2,
            CallMethodResult_inputArgumentDiagnosticInfoArray = x3,
            CallMethodResult_outputArgumentArray = x4\<rparr>, is) }"

definition CallMethodResult_wf ::
  "('e, 'p) Coders \<Rightarrow> ('e, 'p) MessageLaws \<Rightarrow> 'e CallMethodResult \<Rightarrow> bool" where
  "CallMethodResult_wf cd laws m \<longleftrightarrow>
     array_wf (\<lambda>_. True) (CallMethodResult_inputArgumentResultArray m)
     \<and> array_wf (\<lambda>d. OpcUaString_wf (di_additionalInfo d)) (CallMethodResult_inputArgumentDiagnosticInfoArray m)
     \<and> array_wf (Variant_wf cd laws) (CallMethodResult_outputArgumentArray m)"

context message_types
begin

lemma callMethodResult_rt:
  "CallMethodResult_wf cd laws m \<Longrightarrow> rt (CallMethodResult_opcUaBinaryEncode cd) (CallMethodResult_opcUaBinaryDecode cd) m"
  by (auto simp: rt_def CallMethodResult_wf_def CallMethodResult_opcUaBinaryEncode_def
      CallMethodResult_opcUaBinaryDecode_def codec_rt
      elim!: rtE [OF parray_rt [OF _ variant_rt]])

end

record 'e CallResponse =
  CallResponse_callMethodResultArray :: "'e CallMethodResult list"
  CallResponse_diagnosticInfoArray :: "OpcUaDiagnosticInfo list"

definition CallResponse_new :: "'e CallResponse" where
  "CallResponse_new =
     \<lparr>CallResponse_callMethodResultArray = [], CallResponse_diagnosticInfoArray = []\<rparr>"

definition CallResponse_opcUaBinaryEncode ::
  "('e, 'p) Coders \<Rightarrow> 'e CallResponse \<Rightarrow> stream option" where
  "CallResponse_opcUaBinaryEncode cd this = do {
     b1 \<leftarrow> parray_encode (CallMethodResult_opcUaBinaryEncode cd) (CallResponse_callMethodResultArray this);
     Some (b1
           @ array_encode OpcUaDiagnosticInfo_opcUaBinaryEncode (CallResponse_diagnosticInfoArray this)) }"

definition CallResponse_opcUaBinaryDecode :: "('e, 'p) Coders \<Rightarrow> 'e CallResponse decoder" where
  "CallResponse_opcUaBinaryDecode cd is = do {
     (x1, is) \<leftarrow> array_decode (CallMethodResult_opcUaBinaryDecode cd) is;
     (x2, is) \<leftarrow> array_decode (OpcUaDiagnosticInfo_opcUaBinaryDecode OpcUaDiagnosticInfo_new) is;
     Some (\<lparr>CallResponse_callMethodResultArray = x1, CallResponse_diagnosticInfoArray = x2\<rparr>, is) }"

definition CallResponse_wf ::
  "('e, 'p) Coders \<Rightarrow> ('e, 'p) MessageLaws \<Rightarrow> 'e CallResponse \<Rightarrow> bool" where
  "CallResponse_wf cd laws m \<longleftrightarrow>
     array_wf (CallMethodResult_wf cd laws) (CallResponse_callMethodResultArray m)
     \<and> array_wf (\<lambda>d. OpcUaString_wf (di_additionalInfo d)) (CallResponse_diagnosticInfoArray m)"

context message_types
begin

lemma callResponse_rt:
  "CallResponse_wf cd laws m \<Longrightarrow> rt (CallResponse_opcUaBinaryEncode cd) (CallResponse_opcUaBinaryDecode cd) m"
  by (auto simp: rt_def CallResponse_wf_def CallResponse_opcUaBinaryEncode_def
      CallResponse_opcUaBinaryDecode_def codec_rt
      elim!: rtE [OF parray_rt [OF _ callMethodResult_rt]])

end

section \<open>Filters\<close>

record 'e LiteralOperand =
  LiteralOperand_variant :: "'e OpcUaVariant"

definition LiteralOperand_new :: "'e LiteralOperand" where
  "LiteralOperand_new =
     \<lparr>LiteralOperand_variant = OpcUaVariant_new\<rparr>"

definition LiteralOperand_opcUaBinaryEncode ::
  "('e, 'p) Coders \<Rightarrow> 'e LiteralOperand \<Rightarrow> stream option" where
  "LiteralOperand_opcUaBinaryEncode cd this = do {
     b1 \<leftarrow> OpcUaVariant_opcUaBinaryEncode (cd_objects cd) (LiteralOperand_variant this);
     Some (b1) }"

definition LiteralOperand_opcUaBinaryDecode :: "('e, 'p) Coders \<Rightarrow> 'e LiteralOperand decoder" where
  "LiteralOperand_opcUaBinaryDecode cd is = do {
     (x1, is) \<leftarrow> OpcUaVariant_opcUaBinaryDecode (cd_objects cd) (cd_objectMap cd) OpcUaVariant_new is;
     Some (\<lparr>LiteralOperand_variant = x1\<rparr>, is) }"

definition LiteralOperand_wf ::
  "('e, 'p) Coders \<Rightarrow> ('e, 'p) MessageLaws \<Rightarrow> 'e LiteralOperand \<Rightarrow> bool" where
  "LiteralOperand_wf cd laws m \<longleftrightarrow>
     Variant_wf cd laws (LiteralOperand_variant m)"

context message_types
begin

lemma literalOperand_rt:
  "LiteralOperand_wf cd laws m \<Longrightarrow> rt (LiteralOperand_opcUaBinaryEncode cd) (LiteralOperand_opcUaBinaryDecode cd) m"
  by (auto simp: rt_def LiteralOperand_wf_def LiteralOperand_opcUaBinaryEncode_def
      LiteralOperand_opcUaBinaryDecode_def codec_rt
      elim!: rtE [OF variant_rt])

end

record 'p ContentFilterElementMessage =
  ContentFilterElementMessage_filterOperator :: u32
  ContentFilterElementMessage_filterOperandsArray :: "'p ExtensibleParameter list"

definition ContentFilterElementMessage_new :: "'p ContentFilterElementMessage" where
  "ContentFilterElementMessage_new =
     \<lparr>ContentFilterElementMessage_filterOperator = 0,
       ContentFilterElementMessage_filterOperandsArray = []\<rparr>"

definition ContentFilterElementMessage_opcUaBinaryEncode ::
  "('e, 'p) Coders \<Rightarrow> 'p ContentFilterElementMessage \<Rightarrow> stream option" where
  "ContentFilterElementMessage_opcUaBinaryEncode cd this = do {
     b2 \<leftarrow> parray_encode (ExtensibleParameter_opcUaBinaryEncode cd) (ContentFilterElementMessage_filterOperandsArray this);
     Some (OpcUaUInt32_encode (ContentFilterElementMessage_filterOperator this)
           @ b2) }"

definition ContentFilterElementMessage_opcUaBinaryDecode :: "('e, 'p) Coders \<Rightarrow> 'p ContentFilterElementMessage decoder" where
  "ContentFilterElementMessage_opcUaBinaryDecode cd is = do {
     (x1, is) \<leftarrow> OpcUaUInt32_decode is;
     (x2, is) \<leftarrow> array_decode (ExtensibleParameter_opcUaBinaryDecode cd) is;
     Some (\<lparr>ContentFilterElementMessage_filterOperator = x1,
            ContentFilterElementMessage_filterOperandsArray = x2\<rparr>, is) }"

definition ContentFilterElementMessage_wf ::
  "('e, 'p) Coders \<Rightarrow> ('e, 'p) MessageLaws \<Rightarrow> 'p ContentFilterElementMessage \<Rightarrow> bool" where
  "ContentFilterElementMessage_wf cd laws m \<longleftrightarrow>
     array_wf (ExtensibleParameter_wf cd laws) (ContentFilterElementMessage_filterOperandsArray m)"

context message_types
begin

lemma contentFilterElementMessage_rt:
  "ContentFilterElementMessage_wf cd laws m \<Longrightarrow> rt (ContentFilterElementMessage_opcUaBinaryEncode cd) (ContentFilterElementMessage_opcUaBinaryDecode cd) m"
  by (auto simp: rt_def ContentFilterElementMessage_wf_def
      ContentFilterElementMessage_opcUaBinaryEncode_def
      ContentFilterElementMessage_opcUaBinaryDecode_def codec_rt
      elim!: rtE [OF parray_rt [OF _ parameter_rt]])

end

record 'p ContentFilter =
  ContentFilter_elementsArray :: "'p ContentFilterElementMessage list"

definition ContentFilter_new :: "'p ContentFilter" where
  "ContentFilter_new =
     \<lparr>ContentFilter_elementsArray = []\<rparr>"

definition ContentFilter_opcUaBinaryEncode ::
  "('e, 'p) Coders \<Rightarrow> 'p ContentFilter \<Rightarrow> stream option" where
  "ContentFilter_opcUaBinaryEncode cd this = do {
     b1 \<leftarrow> parray_encode (ContentFilterElementMessage_opcUaBinaryEncode cd) (ContentFilter_elementsArray this);
     Some (b1) }"

definition ContentFilter_opcUaBinaryDecode :: "('e, 'p) Coders \<Rightarrow> 'p ContentFilter decoder" where
  "ContentFilter_opcUaBinaryDecode cd is = do {
     (x1, is) \<leftarrow> array_decode (ContentFilterElementMessage_opcUaBinaryDecode cd) is;
     Some (\<lparr>ContentFilter_elementsArray = x1\<rparr>, is) }"

definition ContentFilter_wf ::
  "('e, 'p) Coders \<Rightarrow> ('e, 'p) MessageLaws \<Rightarrow> 'p ContentFilter \<Rightarrow> bool" where
  "ContentFilter_wf cd laws m \<longleftrightarrow>
     array_wf (ContentFilterElementMessage_wf cd laws) (ContentFilter_elementsArray m)"

context message_types
begin

lemma contentFilter_rt:
  "ContentFilter_wf cd laws m \<Longrightarrow> rt (ContentFilter_opcUaBinaryEncode cd) (ContentFilter_opcUaBinaryDecode cd) m"
  by (auto simp: rt_def ContentFilter_wf_def ContentFilter_opcUaBinaryEncode_def
      ContentFilter_opcUaBinaryDecode_def codec_rt
      elim!: rtE [OF parray_rt [OF _ contentFilterElementMessage_rt]])

end

record 'p EventFilterMessage =
  EventFilterMessage_selectClausesArray :: "SimpleAttributeOperand list"
  EventFilterMessage_whereClause :: "'p ContentFilter"

definition EventFilterMessage_new :: "'p EventFilterMessage" where
  "EventFilterMessage_new =
     \<lparr>EventFilterMessage_selectClausesArray = [],
       EventFilterMessage_whereClause = ContentFilter_new\<rparr>"

definition EventFilterMessage_opcUaBinaryEncode ::
  "('e, 'p) Coders \<Rightarrow> 'p EventFilterMessage \<Rightarrow> stream option" where
  "EventFilterMessage_opcUaBinaryEncode cd this = do {
     b2 \<leftarrow> ContentFilter_opcUaBinaryEncode cd (EventFilterMessage_whereClause this);
     Some (array_encode SimpleAttributeOperand_opcUaBinaryEncode (EventFilterMessage_selectClausesArray this)
           @ b2) }"

definition EventFilterMessage_opcUaBinaryDecode :: "('e, 'p) Coders \<Rightarrow> 'p EventFilterMessage decoder" where
  "EventFilterMessage_opcUaBinaryDecode cd is = do {
     (x1, is) \<leftarrow> array_decode SimpleAttributeOperand_opcUaBinaryDecode is;
     (x2, is) \<leftarrow> ContentFilter_opcUaBinaryDecode cd is;
     Some (\<lparr>EventFilterMessage_selectClausesArray = x1, EventFilterMessage_whereClause = x2\<rparr>, is) }"

definition EventFilterMessage_wf ::
  "('e, 'p) Coders \<Rightarrow> ('e, 'p) MessageLaws \<Rightarrow> 'p EventFilterMessage \<Rightarrow> bool" where
  "EventFilterMessage_wf cd laws m \<longleftrightarrow>
     array_wf SimpleAttributeOperand_wf (EventFilterMessage_selectClausesArray m)
     \<and> ContentFilter_wf cd laws (EventFilterMessage_whereClause m)"

declare simpleattributeoperand_codec.array_rt [codec_rt]

context message_types
begin

lemma eventFilterMessage_rt:
  "EventFilterMessage_wf cd laws m \<Longrightarrow> rt (EventFilterMessage_opcUaBinaryEncode cd) (EventFilterMessage_opcUaBinaryDecode cd) m"
  by (auto simp: rt_def EventFilterMessage_wf_def EventFilterMessage_opcUaBinaryEncode_def
      EventFilterMessage_opcUaBinaryDecode_def codec_rt
      elim!: rtE [OF contentFilter_rt])

end

section \<open>Events\<close>

record 'e EventField =
  EventField_variant :: "'e OpcUaVariant"

definition EventField_new :: "'e EventField" where
  "EventField_new =
     \<lparr>EventField_variant = OpcUaVariant_new\<rparr>"

definition EventField_opcUaBinaryEncode ::
  "('e, 'p) Coders \<Rightarrow> 'e EventField \<Rightarrow> stream option" where
  "EventField_opcUaBinaryEncode cd this = do {
     b1 \<leftarrow> OpcUaVariant_opcUaBinaryEncode (cd_objects cd) (EventField_variant this);
     Some (b1) }"

definition EventField_opcUaBinaryDecode :: "('e, 'p) Coders \<Rightarrow> 'e EventField decoder" where
  "EventField_opcUaBinaryDecode cd is = do {
     (x1, is) \<leftarrow> OpcUaVariant_opcUaBinaryDecode (cd_objects cd) (cd_objectMap cd) OpcUaVariant_new is;
     Some (\<lparr>EventField_variant = x1\<rparr>, is) }"

definition EventField_wf ::
  "('e, 'p) Coders \<Rightarrow> ('e, 'p) MessageLaws \<Rightarrow> 'e EventField \<Rightarrow> bool" where
  "EventField_wf cd laws m \<longleftrightarrow>
     Variant_wf cd laws (EventField_variant m)"

context message_types
begin

lemma eventField_rt:
  "EventField_wf cd laws m \<Longrightarrow> rt (EventField_opcUaBinaryEncode cd) (EventField_opcUaBinaryDecode cd) m"
  by (auto simp: rt_def EventField_wf_def EventField_opcUaBinaryEncode_def
      EventField_opcUaBinaryDecode_def codec_rt
      elim!: rtE [OF variant_rt])

end

record 'e EventFieldListMessage =
  EventFieldListMessage_clientHandle :: u32
  EventFieldListMessage_eventFields :: "'e EventField list"

definition EventFieldListMessage_new :: "'e EventFieldListMessage" where
  "EventFieldListMessage_new =
     \<lparr>EventFieldListMessage_clientHandle = 0, EventFieldListMessage_eventFields = []\<rparr>"

definition EventFieldListMessage_opcUaBinaryEncode ::
  "('e, 'p) Coders \<Rightarrow> 'e EventFieldListMessage \<Rightarrow> stream option" where
  "EventFieldListMessage_opcUaBinaryEncode cd this = do {
     b2 \<leftarrow> parray_encode (EventField_opcUaBinaryEncode cd) (EventFieldListMessage_eventFields this);
     Some (OpcUaUInt32_encode (EventFieldListMessage_clientHandle this)
           @ b2) }"

definition EventFieldListMessage_opcUaBinaryDecode :: "('e, 'p) Coders \<Rightarrow> 'e EventFieldListMessage decoder" where
  "EventFieldListMessage_opcUaBinaryDecode cd is = do {
     (x1, is) \<leftarrow> OpcUaUInt32_decode is;
     (x2, is) \<leftarrow> array_decode (EventField_opcUaBinaryDecode cd) is;
     Some (\<lparr>EventFieldListMessage_clientHandle = x1, EventFieldListMessage_eventFields = x2\<rparr>, is) }"

definition EventFieldListMessage_wf ::
  "('e, 'p) Coders \<Rightarrow> ('e, 'p) MessageLaws \<Rightarrow> 'e EventFieldListMessage \<Rightarrow> bool" where
  "EventFieldListMessage_wf cd laws m \<longleftrightarrow>
     array_wf (EventField_wf cd laws) (EventFieldListMessage_eventFields m)"

context message_types
begin

lemma eventFieldListMessage_rt:
  "EventFieldListMessage_wf cd laws m \<Longrightarrow> rt (EventFieldListMessage_opcUaBinaryEncode cd) (EventFieldListMessage_opcUaBinaryDecode cd) m"
  by (auto simp: rt_def EventFieldListMessage_wf_def EventFieldListMessage_opcUaBinaryEncode_def
      EventFieldListMessage_opcUaBinaryDecode_def codec_rt
      elim!: rtE [OF parray_rt [OF _ eventField_rt]])

end

record 'e HistoryEventFieldList =
  HistoryEventFieldList_eventFields :: "'e EventField list"

definition HistoryEventFieldList_new :: "'e HistoryEventFieldList" where
  "HistoryEventFieldList_new =
     \<lparr>HistoryEventFieldList_eventFields = []\<rparr>"

definition HistoryEventFieldList_opcUaBinaryEncode ::
  "('e, 'p) Coders \<Rightarrow> 'e HistoryEventFieldList \<Rightarrow> stream option" where
  "HistoryEventFieldList_opcUaBinaryEncode cd this = do {
     b1 \<leftarrow> parray_encode (EventField_opcUaBinaryEncode cd) (HistoryEventFieldList_eventFields this);
     Some (b1) }"

definition HistoryEventFieldList_opcUaBinaryDecode :: "('e, 'p) Coders \<Rightarrow> 'e HistoryEventFieldList decoder" where
  "HistoryEventFieldList_opcUaBinaryDecode cd is = do {
     (x1, is) \<leftarrow> array_decode (EventField_opcUaBinaryDecode cd) is;
     Some (\<lparr>HistoryEventFieldList_eventFields = x1\<rparr>, is) }"

definition HistoryEventFieldList_wf ::
  "('e, 'p) Coders \<Rightarrow> ('e, 'p) MessageLaws \<Rightarrow> 'e HistoryEventFieldList \<Rightarrow> bool" where
  "HistoryEventFieldList_wf cd laws m \<longleftrightarrow>
     array_wf (EventField_wf cd laws) (HistoryEventFieldList_eventFields m)"

context message_types
begin

lemma historyEventFieldList_rt:
  "HistoryEventFieldList_wf cd laws m \<Longrightarrow> rt (HistoryEventFieldList_opcUaBinaryEncode cd) (HistoryEventFieldList_opcUaBinaryDecode cd) m"
  by (auto simp: rt_def HistoryEventFieldList_wf_def HistoryEventFieldList_opcUaBinaryEncode_def
      HistoryEventFieldList_opcUaBinaryDecode_def codec_rt
      elim!: rtE [OF parray_rt [OF _ eventField_rt]])

end

section \<open>History\<close>

record 'p ReadEventDetails =
  ReadEventDetails_numValuesPerNode :: u32
  ReadEventDetails_startTime :: OpcUaDateTime
  ReadEventDetails_endTime :: OpcUaDateTime
  ReadEventDetails_filter :: "'p EventFilterMessage"

definition ReadEventDetails_new :: "'p ReadEventDetails" where
  "ReadEventDetails_new =
     \<lparr>ReadEventDetails_numValuesPerNode = 0, ReadEventDetails_startTime = 0,
       ReadEventDetails_endTime = 0, ReadEventDetails_filter = EventFilterMessage_new\<rparr>"

definition ReadEventDetails_opcUaBinaryEncode ::
  "('e, 'p) Coders \<Rightarrow> 'p ReadEventDetails \<Rightarrow> stream option" where
  "ReadEventDetails_opcUaBinaryEncode cd this = do {
     b4 \<leftarrow> EventFilterMessage_opcUaBinaryEncode cd (ReadEventDetails_filter this);
     Some (OpcUaUInt32_encode (ReadEventDetails_numValuesPerNode this)
           @ OpcUaDateTime_opcUaBinaryEncode (ReadEventDetails_startTime this)
           @ OpcUaDateTime_opcUaBinaryEncode (ReadEventDetails_endTime this)
           @ b4) }"

definition ReadEventDetails_opcUaBinaryDecode :: "('e, 'p) Coders \<Rightarrow> 'p ReadEventDetails decoder" where
  "ReadEventDetails_opcUaBinaryDecode cd is = do {
     (x1, is) \<leftarrow> OpcUaUInt32_decode is;
     (x2, is) \<leftarrow> OpcUaDateTime_opcUaBinaryDecode is;
     (x3, is) \<leftarrow> OpcUaDateTime_opcUaBinaryDecode is;
     (x4, is) \<leftarrow> EventFilterMessage_opcUaBinaryDecode cd is;
     Some (\<lparr>ReadEventDetails_numValuesPerNode = x1, ReadEventDetails_startTime = x2,
            ReadEventDetails_endTime = x3, ReadEventDetails_filter = x4\<rparr>, is) }"

definition ReadEventDetails_wf ::
  "('e, 'p) Coders \<Rightarrow> ('e, 'p) MessageLaws \<Rightarrow> 'p ReadEventDetails \<Rightarrow> bool" where
  "ReadEventDetails_wf cd laws m \<longleftrightarrow>
     EventFilterMessage_wf cd laws (ReadEventDetails_filter m)"

context message_types
begin

lemma readEventDetails_rt:
  "ReadEventDetails_wf cd laws m \<Longrightarrow> rt (ReadEventDetails_opcUaBinaryEncode cd) (ReadEventDetails_opcUaBinaryDecode cd) m"
  by (auto simp: rt_def ReadEventDetails_wf_def ReadEventDetails_opcUaBinaryEncode_def
      ReadEventDetails_opcUaBinaryDecode_def codec_rt
      elim!: rtE [OF eventFilterMessage_rt])

end

record 'e UpdateDataDetails =
  UpdateDataDetails_nodeId :: OpcUaNodeIdBase
  UpdateDataDetails_performInsertReplace :: u32
  UpdateDataDetails_updateValueArray :: "'e OpcUaDataValue list"

definition UpdateDataDetails_new :: "'e UpdateDataDetails" where
  "UpdateDataDetails_new =
     \<lparr>UpdateDataDetails_nodeId = OpcUaNodeIdBase_new,
       UpdateDataDetails_performInsertReplace = 0, UpdateDataDetails_updateValueArray = []\<rparr>"

definition UpdateDataDetails_opcUaBinaryEncode ::
  "('e, 'p) Coders \<Rightarrow> 'e UpdateDataDetails \<Rightarrow> stream option" where
  "UpdateDataDetails_opcUaBinaryEncode cd this = do {
     b3 \<leftarrow> parray_encode (OpcUaDataValue_opcUaBinaryEncode (cd_objects cd)) (UpdateDataDetails_updateValueArray this);
     Some (OpcUaNodeId_opcUaBinaryEncode (UpdateDataDetails_nodeId this)
           @ OpcUaUInt32_encode (UpdateDataDetails_performInsertReplace this)
           @ b3) }"

definition UpdateDataDetails_opcUaBinaryDecode :: "('e, 'p) Coders \<Rightarrow> 'e UpdateDataDetails decoder" where
  "UpdateDataDetails_opcUaBinaryDecode cd is = do {
     (x1, is) \<leftarrow> OpcUaNodeId_opcUaBinaryDecode is;
     (x2, is) \<leftarrow> OpcUaUInt32_decode is;
     (x3, is) \<leftarrow> array_decode (OpcUaDataValue_opcUaBinaryDecode (cd_objects cd) (cd_objectMap cd) OpcUaDataValue_new) is;
     Some (\<lparr>UpdateDataDetails_nodeId = x1, UpdateDataDetails_performInsertReplace = x2,
            UpdateDataDetails_updateValueArray = x3\<rparr>, is) }"

definition UpdateDataDetails_wf ::
  "('e, 'p) Coders \<Rightarrow> ('e, 'p) MessageLaws \<Rightarrow> 'e UpdateDataDetails \<Rightarrow> bool" where
  "UpdateDataDetails_wf cd laws m \<longleftrightarrow>
     OpcUaNodeId_wf (UpdateDataDetails_nodeId m)
     \<and> array_wf (DataValue_wf cd laws) (UpdateDataDetails_updateValueArray m)"

context message_types
begin

lemma updateDataDetails_rt:
  "UpdateDataDetails_wf cd laws m \<Longrightarrow> rt (UpdateDataDetails_opcUaBinaryEncode cd) (UpdateDataDetails_opcUaBinaryDecode cd) m"
  by (auto simp: rt_def UpdateDataDetails_wf_def UpdateDataDetails_opcUaBinaryEncode_def
      UpdateDataDetails_opcUaBinaryDecode_def codec_rt
      elim!: rtE [OF parray_rt [OF _ dataValue_rt]])

end

record 'e UpdateStructureDataDetails =
  UpdateStructureDataDetails_nodeId :: OpcUaNodeIdBase
  UpdateStructureDataDetails_performInsertReplace :: u32
  UpdateStructureDataDetails_updateValueArray :: "'e OpcUaDataValue list"

definition UpdateStructureDataDetails_new :: "'e UpdateStructureDataDetails" where
  "UpdateStructureDataDetails_new =
     \<lparr>UpdateStructureDataDetails_nodeId = OpcUaNodeIdBase_new,
       UpdateStructureDataDetails_performInsertReplace = 0,
       UpdateStructureDataDetails_updateValueArray = []\<rparr>"

definition UpdateStructureDataDetails_opcUaBinaryEncode ::
  "('e, 'p) Coders \<Rightarrow> 'e UpdateStructureDataDetails \<Rightarrow> stream option" where
  "UpdateStructureDataDetails_opcUaBinaryEncode cd this = do {
     b3 \<leftarrow> parray_encode (OpcUaDataValue_opcUaBinaryEncode (cd_objects cd)) (UpdateStructureDataDetails_updateValueArray this);
     Some (OpcUaNodeId_opcUaBinaryEncode (UpdateStructureDataDetails_nodeId this)
           @ OpcUaUInt32_encode (UpdateStructureDataDetails_performInsertReplace this)
           @ b3) }"

definition UpdateStructureDataDetails_opcUaBinaryDecode :: "('e, 'p) Coders \<Rightarrow> 'e UpdateStructureDataDetails decoder" where
  "UpdateStructureDataDetails_opcUaBinaryDecode cd is = do {
     (x1, is) \<leftarrow> OpcUaNodeId_opcUaBinaryDecode is;
     (x2, is) \<leftarrow> OpcUaUInt32_decode is;
     (x3, is) \<leftarrow> array_decode (OpcUaDataValue_opcUaBinaryDecode (cd_objects cd) (cd_objectMap cd) OpcUaDataValue_new) is;
     Some (\<lparr>UpdateStructureDataDetails_nodeId = x1,
            UpdateStructureDataDetails_performInsertReplace = x2,
            UpdateStructureDataDetails_updateValueArray = x3\<rparr>, is) }"

definition UpdateStructureDataDetails_wf ::
  "('e, 'p) Coders \<Rightarrow> ('e, 'p) MessageLaws \<Rightarrow> 'e UpdateStructureDataDetails \<Rightarrow> bool" where
  "UpdateStructureDataDetails_wf cd laws m \<longleftrightarrow>
     OpcUaNodeId_wf (UpdateStructureDataDetails_nodeId m)
     \<and> array_wf (DataValue_wf cd laws) (UpdateStructureDataDetails_updateValueArray m)"

context message_types
begin

lemma updateStructureDataDetails_rt:
  "UpdateStructureDataDetails_wf cd laws m \<Longrightarrow> rt (UpdateStructureDataDetails_opcUaBinaryEncode cd) (UpdateStructureDataDetails_opcUaBinaryDecode cd) m"
  by (auto simp: rt_def UpdateStructureDataDetails_wf_def
      UpdateStructureDataDetails_opcUaBinaryEncode_def
      UpdateStructureDataDetails_opcUaBinaryDecode_def codec_rt
      elim!: rtE [OF parray_rt [OF _ dataValue_rt]])

end

record ('e, 'p) UpdateEventDetails =
  UpdateEventDetails_nodeId :: OpcUaNodeIdBase
  UpdateEventDetails_performInsertReplace :: u32
  UpdateEventDetails_filter :: "'p EventFilterMessage"
  UpdateEventDetails_eventDataArray :: "'e EventFieldListMessage list"

definition UpdateEventDetails_new :: "('e, 'p) UpdateEventDetails" where
  "UpdateEventDetails_new =
     \<lparr>UpdateEventDetails_nodeId = OpcUaNodeIdBase_new,
       UpdateEventDetails_performInsertReplace = 0,
       UpdateEventDetails_filter = EventFilterMessage_new, UpdateEventDetails_eventDataArray = []\<rparr>"

definition UpdateEventDetails_opcUaBinaryEncode ::
  "('e, 'p) Coders \<Rightarrow> ('e, 'p) UpdateEventDetails \<Rightarrow> stream option" where
  "UpdateEventDetails_opcUaBinaryEncode cd this = do {
     b3 \<leftarrow> EventFilterMessage_opcUaBinaryEncode cd (UpdateEventDetails_filter this);
     b4 \<leftarrow> parray_encode (EventFieldListMessage_opcUaBinaryEncode cd) (UpdateEventDetails_eventDataArray this);
     Some (OpcUaNodeId_opcUaBinaryEncode (UpdateEventDetails_nodeId this)
           @ OpcUaUInt32_encode (UpdateEventDetails_performInsertReplace this)
           @ b3
           @ b4) }"

definition UpdateEventDetails_opcUaBinaryDecode :: "('e, 'p) Coders \<Rightarrow> ('e, 'p) UpdateEventDetails decoder" where
  "UpdateEventDetails_opcUaBinaryDecode cd is = do {
     (x1, is) \<leftarrow> OpcUaNodeId_opcUaBinaryDecode is;
     (x2, is) \<leftarrow> OpcUaUInt32_decode is;
     (x3, is) \<leftarrow> EventFilterMessage_opcUaBinaryDecode cd is;
     (x4, is) \<leftarrow> array_decode (EventFieldListMessage_opcUaBinaryDecode cd) is;
     Some (\<lparr>UpdateEventDetails_nodeId = x1, UpdateEventDetails_performInsertReplace = x2,
            UpdateEventDetails_filter = x3, UpdateEventDetails_eventDataArray = x4\<rparr>, is) }"

definition UpdateEventDetails_wf ::
  "('e, 'p) Coders \<Rightarrow> ('e, 'p) MessageLaws \<Rightarrow> ('e, 'p) UpdateEventDetails \<Rightarrow> bool" where
  "UpdateEventDetails_wf cd laws m \<longleftrightarrow>
     OpcUaNodeId_wf (UpdateEventDetails_nodeId m)
     \<and> EventFilterMessage_wf cd laws (UpdateEventDetails_filter m)
     \<and> array_wf (EventFieldListMessage_wf cd laws) (UpdateEventDetails_eventDataArray m)"

context message_types
begin

lemma updateEventDetails_rt:
  "UpdateEventDetails_wf cd laws m \<Longrightarrow> rt (UpdateEventDetails_opcUaBinaryEncode cd) (UpdateEventDetails_opcUaBinaryDecode cd) m"
  by (auto simp: rt_def UpdateEventDetails_wf_def UpdateEventDetails_opcUaBinaryEncode_def
      UpdateEventDetails_opcUaBinaryDecode_def codec_rt
      elim!: rtE [OF eventFilterMessage_rt]
        rtE [OF parray_rt [OF _ eventFieldListMessage_rt]])

end

record 'e HistoryData =
  HistoryData_dataValueArray :: "'e OpcUaDataValue list"

definition HistoryData_new :: "'e HistoryData" where
  "HistoryData_new =
     \<lparr>HistoryData_dataValueArray = []\<rparr>"

definition HistoryData_opcUaBinaryEncode ::
  "('e, 'p) Coders \<Rightarrow> 'e HistoryData \<Rightarrow> stream option" where
  "HistoryData_opcUaBinaryEncode cd this = do {
     b1 \<leftarrow> parray_encode (OpcUaDataValue_opcUaBinaryEncode (cd_objects cd)) (HistoryData_dataValueArray this);
     Some (b1) }"

definition HistoryData_opcUaBinaryDecode :: "('e, 'p) Coders \<Rightarrow> 'e HistoryData decoder" where
  "HistoryData_opcUaBinaryDecode cd is = do {
     (x1, is) \<leftarrow> array_decode (OpcUaDataValue_opcUaBinaryDecode (cd_objects cd) (cd_objectMap cd) OpcUaDataValue_new) is;
     Some (\<lparr>HistoryData_dataValueArray = x1\<rparr>, is) }"

definition HistoryData_wf ::
  "('e, 'p) Coders \<Rightarrow> ('e, 'p) MessageLaws \<Rightarrow> 'e HistoryData \<Rightarrow> bool" where
  "HistoryData_wf cd laws m \<longleftrightarrow>
     array_wf (DataValue_wf cd laws) (HistoryData_dataValueArray m)"

context message_types
begin

lemma historyData_rt:
  "HistoryData_wf cd laws m \<Longrightarrow> rt (HistoryData_opcUaBinaryEncode cd) (HistoryData_opcUaBinaryDecode cd) m"
  by (auto simp: rt_def HistoryData_wf_def HistoryData_opcUaBinaryEncode_def
      HistoryData_opcUaBinaryDecode_def codec_rt
      elim!: rtE [OF parray_rt [OF _ dataValue_rt]])

end

record 'e HistoryModifiedData =
  HistoryModifiedData_dataValueArray :: "'e OpcUaDataValue list"
  HistoryModifiedData_modificationInfoArray :: "ModificationInfo list"

definition HistoryModifiedData_new :: "'e HistoryModifiedData" where
  "HistoryModifiedData_new =
     \<lparr>HistoryModifiedData_dataValueArray = [],
       HistoryModifiedData_modificationInfoArray = []\<rparr>"

definition HistoryModifiedData_opcUaBinaryEncode ::
  "('e, 'p) Coders \<Rightarrow> 'e HistoryModifiedData \<Rightarrow> stream option" where
  "HistoryModifiedData_opcUaBinaryEncode cd this = do {
     b1 \<leftarrow> parray_encode (OpcUaDataValue_opcUaBinaryEncode (cd_objects cd)) (HistoryModifiedData_dataValueArray this);
     Some (b1
           @ array_encode ModificationInfo_opcUaBinaryEncode (HistoryModifiedData_modificationInfoArray this)) }"

definition HistoryModifiedData_opcUaBinaryDecode :: "('e, 'p) Coders \<Rightarrow> 'e HistoryModifiedData decoder" where
  "HistoryModifiedData_opcUaBinaryDecode cd is = do {
     (x1, is) \<leftarrow> array_decode (OpcUaDataValue_opcUaBinaryDecode (cd_objects cd) (cd_objectMap cd) OpcUaDataValue_new) is;
     (x2, is) \<leftarrow> array_decode ModificationInfo_opcUaBinaryDecode is;
     Some (\<lparr>HistoryModifiedData_dataValueArray = x1,
            HistoryModifiedData_modificationInfoArray = x2\<rparr>, is) }"

definition HistoryModifiedData_wf ::
  "('e, 'p) Coders \<Rightarrow> ('e, 'p) MessageLaws \<Rightarrow> 'e HistoryModifiedData \<Rightarrow> bool" where
  "HistoryModifiedData_wf cd laws m \<longleftrightarrow>
     array_wf (DataValue_wf cd laws) (HistoryModifiedData_dataValueArray m)
     \<and> array_wf ModificationInfo_wf (HistoryModifiedData_modificationInfoArray m)"

declare modificationinfo_codec.array_rt [codec_rt]

context message_types
begin

lemma historyModifiedData_rt:
  "HistoryModifiedData_wf cd laws m \<Longrightarrow> rt (HistoryModifiedData_opcUaBinaryEncode cd) (HistoryModifiedData_opcUaBinaryDecode cd) m"
  by (auto simp: rt_def HistoryModifiedData_wf_def HistoryModifiedData_opcUaBinaryEncode_def
      HistoryModifiedData_opcUaBinaryDecode_def codec_rt
      elim!: rtE [OF parray_rt [OF _ dataValue_rt]])

end

record 'e HistoryEvent =
  HistoryEvent_eventArray :: "'e HistoryEventFieldList list"

definition HistoryEvent_new :: "'e HistoryEvent" where
  "HistoryEvent_new =
     \<lparr>HistoryEvent_eventArray = []\<rparr>"

definition HistoryEvent_opcUaBinaryEncode ::
  "('e, 'p) Coders \<Rightarrow> 'e HistoryEvent \<Rightarrow> stream option" where
  "HistoryEvent_opcUaBinaryEncode cd this = do {
     b1 \<leftarrow> parray_encode (HistoryEventFieldList_opcUaBinaryEncode cd) (HistoryEvent_eventArray this);
     Some (b1) }"

definition HistoryEvent_opcUaBinaryDecode :: "('e, 'p) Coders \<Rightarrow> 'e HistoryEvent decoder" where
  "HistoryEvent_opcUaBinaryDecode cd is = do {
     (x1, is) \<leftarrow> array_decode (HistoryEventFieldList_opcUaBinaryDecode cd) is;
     Some (\<lparr>HistoryEvent_eventArray = x1\<rparr>, is) }"

definition HistoryEvent_wf ::
  "('e, 'p) Coders \<Rightarrow> ('e, 'p) MessageLaws \<Rightarrow> 'e HistoryEvent \<Rightarrow> bool" where
  "HistoryEvent_wf cd laws m \<longleftrightarrow>
     array_wf (HistoryEventFieldList_wf cd laws) (HistoryEvent_eventArray m)"

context message_types
begin

lemma historyEvent_rt:
  "HistoryEvent_wf cd laws m \<Longrightarrow> rt (HistoryEvent_opcUaBinaryEncode cd) (HistoryEvent_opcUaBinaryDecode cd) m"
  by (auto simp: rt_def HistoryEvent_wf_def HistoryEvent_opcUaBinaryEncode_def
      HistoryEvent_opcUaBinaryDecode_def codec_rt
      elim!: rtE [OF parray_rt [OF _ historyEventFieldList_rt]])

end

record 'p HistoryReadRequest =
  HistoryReadRequest_historyReadDetails :: "'p ExtensibleParameter"
  HistoryReadRequest_timestampsToReturn :: u32
  HistoryReadRequest_releaseContinuationPoints :: bool
  HistoryReadRequest_nodesToReadArray :: "HistoryReadValueId list"

definition HistoryReadRequest_new :: "'p HistoryReadRequest" where
  "HistoryReadRequest_new =
     \<lparr>HistoryReadRequest_historyReadDetails = ExtensibleParameter_new,
       HistoryReadRequest_timestampsToReturn = 0,
       HistoryReadRequest_releaseContinuationPoints = False,
       HistoryReadRequest_nodesToReadArray = []\<rparr>"

definition HistoryReadRequest_opcUaBinaryEncode ::
  "('e, 'p) Coders \<Rightarrow> 'p HistoryReadRequest \<Rightarrow> stream option" where
  "HistoryReadRequest_opcUaBinaryEncode cd this = do {
     b1 \<leftarrow> ExtensibleParameter_opcUaBinaryEncode cd (HistoryReadRequest_historyReadDetails this);
     Some (b1
           @ OpcUaUInt32_encode (HistoryReadRequest_timestampsToReturn this)
           @ OpcUaBoolean_encode (HistoryReadRequest_releaseContinuationPoints this)
           @ array_encode HistoryReadValueId_opcUaBinaryEncode (HistoryReadRequest_nodesToReadArray this)) }"

definition HistoryReadRequest_opcUaBinaryDecode :: "('e, 'p) Coders \<Rightarrow> 'p HistoryReadRequest decoder" where
  "HistoryReadRequest_opcUaBinaryDecode cd is = do {
     (x1, is) \<leftarrow> ExtensibleParameter_opcUaBinaryDecode cd is;
     (x2, is) \<leftarrow> OpcUaUInt32_decode is;
     (x3, is) \<leftarrow> OpcUaBoolean_decode is;
     (x4, is) \<leftarrow> array_decode HistoryReadValueId_opcUaBinaryDecode is;
     Some (\<lparr>HistoryReadRequest_historyReadDetails = x1,
            HistoryReadRequest_timestampsToReturn = x2,
            HistoryReadRequest_releaseContinuationPoints = x3,
            HistoryReadRequest_nodesToReadArray = x4\<rparr>, is) }"

definition HistoryReadRequest_wf ::
  "('e, 'p) Coders \<Rightarrow> ('e, 'p) MessageLaws \<Rightarrow> 'p HistoryReadRequest \<Rightarrow> bool" where
  "HistoryReadRequest_wf cd laws m \<longleftrightarrow>
     ExtensibleParameter_wf cd laws (HistoryReadRequest_historyReadDetails m)
     \<and> array_wf HistoryReadValueId_wf (HistoryReadRequest_nodesToReadArray m)"

declare historyreadvalueid_codec.array_rt [codec_rt]

context message_types
begin

lemma historyReadRequest_rt:
  "HistoryReadRequest_wf cd laws m \<Longrightarrow> rt (HistoryReadRequest_opcUaBinaryEncode cd) (HistoryReadRequest_opcUaBinaryDecode cd) m"
  by (auto simp: rt_def HistoryReadRequest_wf_def HistoryReadRequest_opcUaBinaryEncode_def
      HistoryReadRequest_opcUaBinaryDecode_def codec_rt
      elim!: rtE [OF parameter_rt])

end

record 'p HistoryReadResult =
  HistoryReadResult_statusCode :: u32
  HistoryReadResult_continuationPoint :: OpcUaByteString
  HistoryReadResult_historyData :: "'p ExtensibleParameter"

definition HistoryReadResult_new :: "'p HistoryReadResult" where
  "HistoryReadResult_new =
     \<lparr>HistoryReadResult_statusCode = 0,
       HistoryReadResult_continuationPoint = OpcUaByteString_new,
       HistoryReadResult_historyData = ExtensibleParameter_new\<rparr>"

definition HistoryReadResult_opcUaBinaryEncode ::
  "('e, 'p) Coders \<Rightarrow> 'p HistoryReadResult \<Rightarrow> stream option" where
  "HistoryReadResult_opcUaBinaryEncode cd this = do {
     b3 \<leftarrow> ExtensibleParameter_opcUaBinaryEncode cd (HistoryReadResult_historyData this);
     Some (OpcUaUInt32_encode (HistoryReadResult_statusCode this)
           @ OpcUaByteString_opcUaBinaryEncode (HistoryReadResult_continuationPoint this)
           @ b3) }"

definition HistoryReadResult_opcUaBinaryDecode :: "('e, 'p) Coders \<Rightarrow> 'p HistoryReadResult decoder" where
  "HistoryReadResult_opcUaBinaryDecode cd is = do {
     (x1, is) \<leftarrow> OpcUaUInt32_decode is;
     (x2, is) \<leftarrow> OpcUaByteString_opcUaBinaryDecode is;
     (x3, is) \<leftarrow> ExtensibleParameter_opcUaBinaryDecode cd is;
     Some (\<lparr>HistoryReadResult_statusCode = x1, HistoryReadResult_continuationPoint = x2,
            HistoryReadResult_historyData = x3\<rparr>, is) }"

definition HistoryReadResult_wf ::
  "('e, 'p) Coders \<Rightarrow> ('e, 'p) MessageLaws \<Rightarrow> 'p HistoryReadResult \<Rightarrow> bool" where
  "HistoryReadResult_wf cd laws m \<longleftrightarrow>
     OpcUaByteString_wf (HistoryReadResult_continuationPoint m)
     \<and> ExtensibleParameter_wf cd laws (HistoryReadResult_historyData m)"

context message_types
begin

lemma historyReadResult_rt:
  "HistoryReadResult_wf cd laws m \<Longrightarrow> rt (HistoryReadResult_opcUaBinaryEncode cd) (HistoryReadResult_opcUaBinaryDecode cd) m"
  by (auto simp: rt_def HistoryReadResult_wf_def HistoryReadResult_opcUaBinaryEncode_def
      HistoryReadResult_opcUaBinaryDecode_def codec_rt
      elim!: rtE [OF parameter_rt])

end

record 'p HistoryReadResponse =
  HistoryReadResponse_resultArray :: "'p HistoryReadResult list"
  HistoryReadResponse_diagnosticInfoArray :: "OpcUaDiagnosticInfo list"

definition HistoryReadResponse_new :: "'p HistoryReadResponse" where
  "HistoryReadResponse_new =
     \<lparr>HistoryReadResponse_resultArray = [], HistoryReadResponse_diagnosticInfoArray = []\<rparr>"

definition HistoryReadResponse_opcUaBinaryEncode ::
  "('e, 'p) Coders \<Rightarrow> 'p HistoryReadResponse \<Rightarrow> stream option" where
  "HistoryReadResponse_opcUaBinaryEncode cd this = do {
     b1 \<leftarrow> parray_encode (HistoryReadResult_opcUaBinaryEncode cd) (HistoryReadResponse_resultArray this);
     Some (b1
           @ array_encode OpcUaDiagnosticInfo_opcUaBinaryEncode (HistoryReadResponse_diagnosticInfoArray this)) }"

definition HistoryReadResponse_opcUaBinaryDecode :: "('e, 'p) Coders \<Rightarrow> 'p HistoryReadResponse decoder" where
  "HistoryReadResponse_opcUaBinaryDecode cd is = do {
     (x1, is) \<leftarrow> array_decode (HistoryReadResult_opcUaBinaryDecode cd) is;
     (x2, is) \<leftarrow> array_decode (OpcUaDiagnosticInfo_opcUaBinaryDecode OpcUaDiagnosticInfo_new) is;
     Some (\<lparr>HistoryReadResponse_resultArray = x1, HistoryReadResponse_diagnosticInfoArray = x2\<rparr>, is) }"

definition HistoryReadResponse_wf ::
  "('e, 'p) Coders \<Rightarrow> ('e, 'p) MessageLaws \<Rightarrow> 'p HistoryReadResponse \<Rightarrow> bool" where
  "HistoryReadResponse_wf cd laws m \<longleftrightarrow>
     array_wf (HistoryReadResult_wf cd laws) (HistoryReadResponse_resultArray m)
     \<and> array_wf (\<lambda>d. OpcUaString_wf (di_additionalInfo d)) (HistoryReadResponse_diagnosticInfoArray m)"

context message_types
begin

lemma historyReadResponse_rt:
  "HistoryReadResponse_wf cd laws m \<Longrightarrow> rt (HistoryReadResponse_opcUaBinaryEncode cd) (HistoryReadResponse_opcUaBinaryDecode cd) m"
  by (auto simp: rt_def HistoryReadResponse_wf_def HistoryReadResponse_opcUaBinaryEncode_def
      HistoryReadResponse_opcUaBinaryDecode_def codec_rt
      elim!: rtE [OF parray_rt [OF _ historyReadResult_rt]])

end

record 'p HistoryUpdateRequest =
  HistoryUpdateRequest_historyUpdateDetails :: "'p ExtensibleParameter list"

definition HistoryUpdateRequest_new :: "'p HistoryUpdateRequest" where
  "HistoryUpdateRequest_new =
     \<lparr>HistoryUpdateRequest_historyUpdateDetails = []\<rparr>"

definition HistoryUpdateRequest_opcUaBinaryEncode ::
  "('e, 'p) Coders \<Rightarrow> 'p HistoryUpdateRequest \<Rightarrow> stream option" where
  "HistoryUpdateRequest_opcUaBinaryEncode cd this = do {
     b1 \<leftarrow> parray_encode (ExtensibleParameter_opcUaBinaryEncode cd) (HistoryUpdateRequest_historyUpdateDetails this);
     Some (b1) }"

definition HistoryUpdateRequest_opcUaBinaryDecode :: "('e, 'p) Coders \<Rightarrow> 'p HistoryUpdateRequest decoder" where
  "HistoryUpdateRequest_opcUaBinaryDecode cd is = do {
     (x1, is) \<leftarrow> array_decode (ExtensibleParameter_opcUaBinaryDecode cd) is;
     Some (\<lparr>HistoryUpdateRequest_historyUpdateDetails = x1\<rparr>, is) }"

definition HistoryUpdateRequest_wf ::
  "('e, 'p) Coders \<Rightarrow> ('e, 'p) MessageLaws \<Rightarrow> 'p HistoryUpdateRequest \<Rightarrow> bool" where
  "HistoryUpdateRequest_wf cd laws m \<longleftrightarrow>
     array_wf (ExtensibleParameter_wf cd laws) (HistoryUpdateRequest_historyUpdateDetails m)"

context message_types
begin

lemma historyUpdateRequest_rt:
  "HistoryUpdateRequest_wf cd laws m \<Longrightarrow> rt (HistoryUpdateRequest_opcUaBinaryEncode cd) (HistoryUpdateRequest_opcUaBinaryDecode cd) m"
  by (auto simp: rt_def HistoryUpdateRequest_wf_def HistoryUpdateRequest_opcUaBinaryEncode_def
      HistoryUpdateRequest_opcUaBinaryDecode_def codec_rt
      elim!: rtE [OF parray_rt [OF _ parameter_rt]])

end

section \<open>Attributes of variables\<close>

record 'e VariableAttributes =
  VariableAttributes_specifiedAttributes :: u32
  VariableAttributes_displayName :: OpcUaLocalizedText
  VariableAttributes_description :: OpcUaLocalizedText
  VariableAttributes_value :: "'e OpcUaDataValue"
  VariableAttributes_dataType :: OpcUaNodeIdBase
  VariableAttributes_valueRank :: u32
  VariableAttributes_arrayDimensions :: "u32 list"
  VariableAttributes_accessLevel :: u8
  VariableAttributes_userAccessLevel :: u8
  VariableAttributes_minimumSamplingInterval :: u64
  VariableAttributes_historizing :: bool
  VariableAttributes_writeMask :: u32
  VariableAttributes_userWriteMask :: u32

definition VariableAttributes_new :: "'e VariableAttributes" where
  "VariableAttributes_new =
     \<lparr>
       VariableAttributes_specifiedAttributes = SpecifiedAttributes_Description OR SpecifiedAttributes_DisplayName OR SpecifiedAttributes_Value OR SpecifiedAttributes_DataType OR SpecifiedAttributes_ValueRank OR SpecifiedAttributes_ArrayDimensions OR SpecifiedAttributes_AccessLevel OR SpecifiedAttributes_UserAccessLevel OR SpecifiedAttributes_MinimumSamplingInterval OR SpecifiedAttributes_Historizing OR SpecifiedAttributes_WriteMask OR SpecifiedAttributes_UserWriteMask,
       VariableAttributes_displayName = OpcUaLocalizedText_new,
       VariableAttributes_description = OpcUaLocalizedText_new,
       VariableAttributes_value = OpcUaDataValue_new,
       VariableAttributes_dataType = OpcUaNodeIdBase_new, VariableAttributes_valueRank = - 1,
       VariableAttributes_arrayDimensions = [], VariableAttributes_accessLevel = 0,
       VariableAttributes_userAccessLevel = 0, VariableAttributes_minimumSamplingInterval = 0,
       VariableAttributes_historizing = False, VariableAttributes_writeMask = 0,
       VariableAttributes_userWriteMask = 0\<rparr>"

definition VariableAttributes_opcUaBinaryEncode ::
  "('e, 'p) Coders \<Rightarrow> 'e VariableAttributes \<Rightarrow> stream option" where
  "VariableAttributes_opcUaBinaryEncode cd this = do {
     b4 \<leftarrow> OpcUaDataValue_opcUaBinaryEncode (cd_objects cd) (VariableAttributes_value this);
     Some (OpcUaUInt32_encode (VariableAttributes_specifiedAttributes this)
           @ OpcUaLocalizedText_opcUaBinaryEncode (VariableAttributes_displayName this)
           @ OpcUaLocalizedText_opcUaBinaryEncode (VariableAttributes_description this)
           @ b4
           @ OpcUaNodeId_opcUaBinaryEncode (VariableAttributes_dataType this)
           @ OpcUaInt32_encode (VariableAttributes_valueRank this)
           @ array_encode OpcUaUInt32_encode (VariableAttributes_arrayDimensions this)
           @ OpcUaByte_encode (VariableAttributes_accessLevel this)
           @ OpcUaByte_encode (VariableAttributes_userAccessLevel this)
           @ OpcUaDouble_encode (VariableAttributes_minimumSamplingInterval this)
           @ OpcUaBoolean_encode (VariableAttributes_historizing this)
           @ OpcUaUInt32_encode (VariableAttributes_writeMask this)
           @ OpcUaUInt32_encode (VariableAttributes_userWriteMask this)) }"

definition VariableAttributes_opcUaBinaryDecode :: "('e, 'p) Coders \<Rightarrow> 'e VariableAttributes decoder" where
  "VariableAttributes_opcUaBinaryDecode cd is = do {
     (x1, is) \<leftarrow> OpcUaUInt32_decode is;
     (x2, is) \<leftarrow> OpcUaLocalizedText_opcUaBinaryDecode OpcUaLocalizedText_new is;
     (x3, is) \<leftarrow> OpcUaLocalizedText_opcUaBinaryDecode OpcUaLocalizedText_new is;
     (x4, is) \<leftarrow> OpcUaDataValue_opcUaBinaryDecode (cd_objects cd) (cd_objectMap cd) OpcUaDataValue_new is;
     (x5, is) \<leftarrow> OpcUaNodeId_opcUaBinaryDecode is;
     (x6, is) \<leftarrow> OpcUaInt32_decode is;
     (x7, is) \<leftarrow> array_decode OpcUaUInt32_decode is;
     (x8, is) \<leftarrow> OpcUaByte_decode is;
     (x9, is) \<leftarrow> OpcUaByte_decode is;
     (x10, is) \<leftarrow> OpcUaDouble_decode is;
     (x11, is) \<leftarrow> OpcUaBoolean_decode is;
     (x12, is) \<leftarrow> OpcUaUInt32_decode is;
     (x13, is) \<leftarrow> OpcUaUInt32_decode is;
     Some (\<lparr>VariableAttributes_specifiedAttributes = x1, VariableAttributes_displayName = x2,
            VariableAttributes_description = x3, VariableAttributes_value = x4,
            VariableAttributes_dataType = x5, VariableAttributes_valueRank = x6,
            VariableAttributes_arrayDimensions = x7, VariableAttributes_accessLevel = x8,
            VariableAttributes_userAccessLevel = x9,
            VariableAttributes_minimumSamplingInterval = x10,
            VariableAttributes_historizing = x11, VariableAttributes_writeMask = x12,
            VariableAttributes_userWriteMask = x13\<rparr>, is) }"

definition VariableAttributes_wf ::
  "('e, 'p) Coders \<Rightarrow> ('e, 'p) MessageLaws \<Rightarrow> 'e VariableAttributes \<Rightarrow> bool" where
  "VariableAttributes_wf cd laws m \<longleftrightarrow>
     OpcUaLocalizedText_wf (VariableAttributes_displayName m)
     \<and> OpcUaLocalizedText_wf (VariableAttributes_description m)
     \<and> DataValue_wf cd laws (VariableAttributes_value m)
     \<and> OpcUaNodeId_wf (VariableAttributes_dataType m)
     \<and> array_wf (\<lambda>_. True) (VariableAttributes_arrayDimensions m)"

context message_types
begin

lemma variableAttributes_rt:
  "VariableAttributes_wf cd laws m \<Longrightarrow> rt (VariableAttributes_opcUaBinaryEncode cd) (VariableAttributes_opcUaBinaryDecode cd) m"
  by (auto simp: rt_def VariableAttributes_wf_def VariableAttributes_opcUaBinaryEncode_def
      VariableAttributes_opcUaBinaryDecode_def codec_rt
      elim!: rtE [OF dataValue_rt])

end

record 'e VariableTypeAttributes =
  VariableTypeAttributes_specifiedAttributes :: u32
  VariableTypeAttributes_displayName :: OpcUaLocalizedText
  VariableTypeAttributes_description :: OpcUaLocalizedText
  VariableTypeAttributes_value :: "'e OpcUaDataValue"
  VariableTypeAttributes_dataType :: OpcUaNodeIdBase
  VariableTypeAttributes_valueRank :: u32
  VariableTypeAttributes_arrayDimensions :: "u32 list"
  VariableTypeAttributes_isAbstract :: bool
  VariableTypeAttributes_writeMask :: u32
  VariableTypeAttributes_userWriteMask :: u32

definition VariableTypeAttributes_new :: "'e VariableTypeAttributes" where
  "VariableTypeAttributes_new =
     \<lparr>
       VariableTypeAttributes_specifiedAttributes = SpecifiedAttributes_Description OR SpecifiedAttributes_DisplayName OR SpecifiedAttributes_Value OR SpecifiedAttributes_DataType OR SpecifiedAttributes_ValueRank OR SpecifiedAttributes_ArrayDimensions OR SpecifiedAttributes_IsAbstract OR SpecifiedAttributes_WriteMask OR SpecifiedAttributes_UserWriteMask,
       VariableTypeAttributes_displayName = OpcUaLocalizedText_new,
       VariableTypeAttributes_description = OpcUaLocalizedText_new,
       VariableTypeAttributes_value = OpcUaDataValue_new,
       VariableTypeAttributes_dataType = OpcUaNodeIdBase_new,
       VariableTypeAttributes_valueRank = - 1, VariableTypeAttributes_arrayDimensions = [],
       VariableTypeAttributes_isAbstract = False, VariableTypeAttributes_writeMask = 0,
       VariableTypeAttributes_userWriteMask = 0\<rparr>"

definition VariableTypeAttributes_opcUaBinaryEncode ::
  "('e, 'p) Coders \<Rightarrow> 'e VariableTypeAttributes \<Rightarrow> stream option" where
  "VariableTypeAttributes_opcUaBinaryEncode cd this = do {
     b4 \<leftarrow> OpcUaDataValue_opcUaBinaryEncode (cd_objects cd) (VariableTypeAttributes_value this);
     Some (OpcUaUInt32_encode (VariableTypeAttributes_specifiedAttributes this)
           @ OpcUaLocalizedText_opcUaBinaryEncode (VariableTypeAttributes_displayName this)
           @ OpcUaLocalizedText_opcUaBinaryEncode (VariableTypeAttributes_description this)
           @ b4
           @ OpcUaNodeId_opcUaBinaryEncode (VariableTypeAttributes_dataType this)
           @ OpcUaInt32_encode (VariableTypeAttributes_valueRank this)
           @ array_encode OpcUaUInt32_encode (VariableTypeAttributes_arrayDimensions this)
           @ OpcUaBoolean_encode (VariableTypeAttributes_isAbstract this)
           @ OpcUaUInt32_encode (VariableTypeAttributes_writeMask this)
           @ OpcUaUInt32_encode (VariableTypeAttributes_userWriteMask this)) }"

definition VariableTypeAttributes_opcUaBinaryDecode :: "('e, 'p) Coders \<Rightarrow> 'e VariableTypeAttributes decoder" where
  "VariableTypeAttributes_opcUaBinaryDecode cd is = do {
     (x1, is) \<leftarrow> OpcUaUInt32_decode is;
     (x2, is) \<leftarrow> OpcUaLocalizedText_opcUaBinaryDecode OpcUaLocalizedText_new is;
     (x3, is) \<leftarrow> OpcUaLocalizedText_opcUaBinaryDecode OpcUaLocalizedText_new is;
     (x4, is) \<leftarrow> OpcUaDataValue_opcUaBinaryDecode (cd_objects cd) (cd_objectMap cd) OpcUaDataValue_new is;
     (x5, is) \<leftarrow> OpcUaNodeId_opcUaBinaryDecode is;
     (x6, is) \<leftarrow> OpcUaInt32_decode is;
     (x7, is) \<leftarrow> array_decode OpcUaUInt32_decode is;
     (x8, is) \<leftarrow> OpcUaBoolean_decode is;
     (x9, is) \<leftarrow> OpcUaUInt32_decode is;
     (x10, is) \<leftarrow> OpcUaUInt32_decode is;
     Some (\<lparr>VariableTypeAttributes_specifiedAttributes = x1,
            VariableTypeAttributes_displayName = x2, VariableTypeAttributes_description = x3,
            VariableTypeAttributes_value = x4, VariableTypeAttributes_dataType = x5,
            VariableTypeAttributes_valueRank = x6,
            VariableTypeAttributes_arrayDimensions = x7,
            VariableTypeAttributes_isAbstract = x8, VariableTypeAttributes_writeMask = x9,
            VariableTypeAttributes_userWriteMask = x10\<rparr>, is) }"

definition VariableTypeAttributes_wf ::
  "('e, 'p) Coders \<Rightarrow> ('e, 'p) MessageLaws \<Rightarrow> 'e VariableTypeAttributes \<Rightarrow> bool" where
  "VariableTypeAttributes_wf cd laws m \<longleftrightarrow>
     OpcUaLocalizedText_wf (VariableTypeAttributes_displayName m)
     \<and> OpcUaLocalizedText_wf (VariableTypeAttributes_description m)
     \<and> DataValue_wf cd laws (VariableTypeAttributes_value m)
     \<and> OpcUaNodeId_wf (VariableTypeAttributes_dataType m)
     \<and> array_wf (\<lambda>_. True) (VariableTypeAttributes_arrayDimensions m)"

context message_types
begin

lemma variableTypeAttributes_rt:
  "VariableTypeAttributes_wf cd laws m \<Longrightarrow> rt (VariableTypeAttributes_opcUaBinaryEncode cd) (VariableTypeAttributes_opcUaBinaryDecode cd) m"
  by (auto simp: rt_def VariableTypeAttributes_wf_def VariableTypeAttributes_opcUaBinaryEncode_def
      VariableTypeAttributes_opcUaBinaryDecode_def codec_rt
      elim!: rtE [OF dataValue_rt])

end

section \<open>Nodes\<close>

record 'p AddNodesItem =
  AddNodesItem_parentNodeId :: OpcUaExpandedNodeId
  AddNodesItem_referenceTypeId :: OpcUaNodeIdBase
  AddNodesItem_requestedNewNodeId :: OpcUaExpandedNodeId
  AddNodesItem_browseName :: OpcUaQualifiedName
  AddNodesItem_nodeClass :: NodeClass
  AddNodesItem_nodeAttributes :: "'p ExtensibleParameter"
  AddNodesItem_typeDefinition :: OpcUaExpandedNodeId

definition AddNodesItem_new :: "'p AddNodesItem" where
  "AddNodesItem_new =
     \<lparr>AddNodesItem_parentNodeId = OpcUaExpandedNodeId_new,
       AddNodesItem_referenceTypeId = OpcUaNodeIdBase_new,
       AddNodesItem_requestedNewNodeId = OpcUaExpandedNodeId_new,
       AddNodesItem_browseName = OpcUaQualifiedName_new, AddNodesItem_nodeClass = NodeClass_new,
       AddNodesItem_nodeAttributes = ExtensibleParameter_new,
       AddNodesItem_typeDefinition = OpcUaExpandedNodeId_new\<rparr>"

definition AddNodesItem_opcUaBinaryEncode ::
  "('e, 'p) Coders \<Rightarrow> 'p AddNodesItem \<Rightarrow> stream option" where
  "AddNodesItem_opcUaBinaryEncode cd this = do {
     b6 \<leftarrow> ExtensibleParameter_opcUaBinaryEncode cd (AddNodesItem_nodeAttributes this);
     Some (OpcUaExpandedNodeId_opcUaBinaryEncode (AddNodesItem_parentNodeId this)
           @ OpcUaNodeId_opcUaBinaryEncode (AddNodesItem_referenceTypeId this)
           @ OpcUaExpandedNodeId_opcUaBinaryEncode (AddNodesItem_requestedNewNodeId this)
           @ OpcUaQualifiedName_opcUaBinaryEncode (AddNodesItem_browseName this)
           @ NodeClass_opcUaBinaryEncode (AddNodesItem_nodeClass this)
           @ b6
           @ OpcUaExpandedNodeId_opcUaBinaryEncode (AddNodesItem_typeDefinition this)) }"

definition AddNodesItem_opcUaBinaryDecode :: "('e, 'p) Coders \<Rightarrow> 'p AddNodesItem decoder" where
  "AddNodesItem_opcUaBinaryDecode cd is = do {
     (x1, is) \<leftarrow> OpcUaExpandedNodeId_opcUaBinaryDecode OpcUaExpandedNodeId_new is;
     (x2, is) \<leftarrow> OpcUaNodeId_opcUaBinaryDecode is;
     (x3, is) \<leftarrow> OpcUaExpandedNodeId_opcUaBinaryDecode OpcUaExpandedNodeId_new is;
     (x4, is) \<leftarrow> OpcUaQualifiedName_opcUaBinaryDecode is;
     (x5, is) \<leftarrow> NodeClass_opcUaBinaryDecode is;
     (x6, is) \<leftarrow> ExtensibleParameter_opcUaBinaryDecode cd is;
     (x7, is) \<leftarrow> OpcUaExpandedNodeId_opcUaBinaryDecode OpcUaExpandedNodeId_new is;
     Some (\<lparr>AddNodesItem_parentNodeId = x1, AddNodesItem_referenceTypeId = x2,
            AddNodesItem_requestedNewNodeId = x3, AddNodesItem_browseName = x4,
            AddNodesItem_nodeClass = x5, AddNodesItem_nodeAttributes = x6,
            AddNodesItem_typeDefinition = x7\<rparr>, is) }"

definition AddNodesItem_wf ::
  "('e, 'p) Coders \<Rightarrow> ('e, 'p) MessageLaws \<Rightarrow> 'p AddNodesItem \<Rightarrow> bool" where
  "AddNodesItem_wf cd laws m \<longleftrightarrow>
     OpcUaExpandedNodeId_wf (AddNodesItem_parentNodeId m)
     \<and> OpcUaNodeId_wf (AddNodesItem_referenceTypeId m)
     \<and> OpcUaExpandedNodeId_wf (AddNodesItem_requestedNewNodeId m)
     \<and> OpcUaString_wf (qn_name (AddNodesItem_browseName m))
     \<and> ExtensibleParameter_wf cd laws (AddNodesItem_nodeAttributes m)
     \<and> OpcUaExpandedNodeId_wf (AddNodesItem_typeDefinition m)"

context message_types
begin

lemma addNodesItem_rt:
  "AddNodesItem_wf cd laws m \<Longrightarrow> rt (AddNodesItem_opcUaBinaryEncode cd) (AddNodesItem_opcUaBinaryDecode cd) m"
  by (auto simp: rt_def AddNodesItem_wf_def AddNodesItem_opcUaBinaryEncode_def
      AddNodesItem_opcUaBinaryDecode_def codec_rt
      elim!: rtE [OF parameter_rt])

end

record 'p AddNodesRequest =
  AddNodesRequest_addNodesItemArray :: "'p AddNodesItem list"

definition AddNodesRequest_new :: "'p AddNodesRequest" where
  "AddNodesRequest_new =
     \<lparr>AddNodesRequest_addNodesItemArray = []\<rparr>"

definition AddNodesRequest_opcUaBinaryEncode ::
  "('e, 'p) Coders \<Rightarrow> 'p AddNodesRequest \<Rightarrow> stream option" where
  "AddNodesRequest_opcUaBinaryEncode cd this = do {
     b1 \<leftarrow> parray_encode (AddNodesItem_opcUaBinaryEncode cd) (AddNodesRequest_addNodesItemArray this);
     Some (b1) }"

definition AddNodesRequest_opcUaBinaryDecode :: "('e, 'p) Coders \<Rightarrow> 'p AddNodesRequest decoder" where
  "AddNodesRequest_opcUaBinaryDecode cd is = do {
     (x1, is) \<leftarrow> array_decode (AddNodesItem_opcUaBinaryDecode cd) is;
     Some (\<lparr>AddNodesRequest_addNodesItemArray = x1\<rparr>, is) }"

definition AddNodesRequest_wf ::
  "('e, 'p) Coders \<Rightarrow> ('e, 'p) MessageLaws \<Rightarrow> 'p AddNodesRequest \<Rightarrow> bool" where
  "AddNodesRequest_wf cd laws m \<longleftrightarrow>
     array_wf (AddNodesItem_wf cd laws) (AddNodesRequest_addNodesItemArray m)"

context message_types
begin

lemma addNodesRequest_rt:
  "AddNodesRequest_wf cd laws m \<Longrightarrow> rt (AddNodesRequest_opcUaBinaryEncode cd) (AddNodesRequest_opcUaBinaryDecode cd) m"
  by (auto simp: rt_def AddNodesRequest_wf_def AddNodesRequest_opcUaBinaryEncode_def
      AddNodesRequest_opcUaBinaryDecode_def codec_rt
      elim!: rtE [OF parray_rt [OF _ addNodesItem_rt]])

end

end
