(* ===== verification/SessionMessages.thy ===== *)
theory SessionMessages
  imports ChannelMessages ExtensionObjects
begin

text \<open>
  The messages of discovery and of sessions (\<^verbatim>\<open>OpcUaStackCore/ServiceSet\<close>) whose members have no
  polymorphic value, with their binary coders.  The request and response headers are not part of the
  body: the session writes them in front of it.
\<close>

section \<open>Discovery\<close>

record ApplicationDescription =
  ApplicationDescription_applicationUri :: OpcUaString
  ApplicationDescription_productUri :: OpcUaString
  ApplicationDescription_applicationName :: OpcUaLocalizedText
  ApplicationDescription_applicationType :: u32
  ApplicationDescription_gatewayServerUri :: OpcUaString
  ApplicationDescription_discoveryProfileUri :: OpcUaString
  ApplicationDescription_discoveryUrls :: "OpcUaString list"

definition ApplicationDescription_new :: ApplicationDescription where
  "ApplicationDescription_new =
     \<lparr>ApplicationDescription_applicationUri = OpcUaString_new,
       ApplicationDescription_productUri = OpcUaString_new,
       ApplicationDescription_applicationName = OpcUaLocalizedText_new,
       ApplicationDescription_applicationType = 0,
       ApplicationDescription_gatewayServerUri = OpcUaString_new,
       ApplicationDescription_discoveryProfileUri = OpcUaString_new,
       ApplicationDescription_discoveryUrls = []\<rparr>"

definition ApplicationDescription_opcUaBinaryEncode :: "ApplicationDescription \<Rightarrow> stream" where
  "ApplicationDescription_opcUaBinaryEncode this =
     OpcUaString_opcUaBinaryEncode (ApplicationDescription_applicationUri this)
     @ OpcUaString_opcUaBinaryEncode (ApplicationDescription_productUri this)
     @ OpcUaLocalizedText_opcUaBinaryEncode (ApplicationDescription_applicationName this)
     @ OpcUaUInt32_encode (ApplicationDescription_applicationType this)
     @ OpcUaString_opcUaBinaryEncode (ApplicationDescription_gatewayServerUri this)
     @ OpcUaString_opcUaBinaryEncode (ApplicationDescription_discoveryProfileUri this)
     @ array_encode OpcUaString_opcUaBinaryEncode (ApplicationDescription_discoveryUrls this)"

definition ApplicationDescription_opcUaBinaryDecode :: "ApplicationDescription decoder" where
  "ApplicationDescription_opcUaBinaryDecode is = do {
     (x1, is) \<leftarrow> OpcUaString_opcUaBinaryDecode is;
     (x2, is) \<leftarrow> OpcUaString_opcUaBinaryDecode is;
     (x3, is) \<leftarrow> OpcUaLocalizedText_opcUaBinaryDecode OpcUaLocalizedText_new is;
     (x4, is) \<leftarrow> OpcUaUInt32_decode is;
     (x5, is) \<leftarrow> OpcUaString_opcUaBinaryDecode is;
     (x6, is) \<leftarrow> OpcUaString_opcUaBinaryDecode is;
     (x7, is) \<leftarrow> array_decode OpcUaString_opcUaBinaryDecode is;
     Some (\<lparr>ApplicationDescription_applicationUri = x1, ApplicationDescription_productUri = x2,
            ApplicationDescription_applicationName = x3,
            ApplicationDescription_applicationType = x4,
            ApplicationDescription_gatewayServerUri = x5,
            ApplicationDescription_discoveryProfileUri = x6,
            ApplicationDescription_discoveryUrls = x7\<rparr>, is) }"

definition ApplicationDescription_wf :: "ApplicationDescription \<Rightarrow> bool" where
  "ApplicationDescription_wf m \<longleftrightarrow>
     OpcUaString_wf (ApplicationDescription_applicationUri m)
     \<and> OpcUaString_wf (ApplicationDescription_productUri m)
     \<and> OpcUaLocalizedText_wf (ApplicationDescription_applicationName m)
     \<and> OpcUaString_wf (ApplicationDescription_gatewayServerUri m)
     \<and> OpcUaString_wf (ApplicationDescription_discoveryProfileUri m)
     \<and> array_wf OpcUaString_wf (ApplicationDescription_discoveryUrls m)"

interpretation applicationdescription_codec: codec ApplicationDescription_opcUaBinaryEncode
  ApplicationDescription_opcUaBinaryDecode ApplicationDescription_wf
  by unfold_locales
     (simp add: ApplicationDescription_opcUaBinaryEncode_def
        ApplicationDescription_opcUaBinaryDecode_def ApplicationDescription_wf_def codec_rt)

declare applicationdescription_codec.dec_enc [codec_rt]

record UserTokenPolicy =
  UserTokenPolicy_policyId :: OpcUaString
  UserTokenPolicy_tokenType :: u32
  UserTokenPolicy_issuedTokenType :: OpcUaString
  UserTokenPolicy_issuerEndpointUrl :: OpcUaString
  UserTokenPolicy_securityPolicyUri :: OpcUaString

definition UserTokenPolicy_new :: UserTokenPolicy where
  "UserTokenPolicy_new =
     \<lparr>UserTokenPolicy_policyId = OpcUaString_new, UserTokenPolicy_tokenType = 0,
       UserTokenPolicy_issuedTokenType = OpcUaString_new,
       UserTokenPolicy_issuerEndpointUrl = OpcUaString_new,
       UserTokenPolicy_securityPolicyUri = OpcUaString_new\<rparr>"

definition UserTokenPolicy_opcUaBinaryEncode :: "UserTokenPolicy \<Rightarrow> stream" where
  "UserTokenPolicy_opcUaBinaryEncode this =
     OpcUaString_opcUaBinaryEncode (UserTokenPolicy_policyId this)
     @ OpcUaUInt32_encode (UserTokenPolicy_tokenType this)
     @ OpcUaString_opcUaBinaryEncode (UserTokenPolicy_issuedTokenType this)
     @ OpcUaString_opcUaBinaryEncode (UserTokenPolicy_issuerEndpointUrl this)
     @ OpcUaString_opcUaBinaryEncode (UserTokenPolicy_securityPolicyUri this)"

definition UserTokenPolicy_opcUaBinaryDecode :: "UserTokenPolicy decoder" where
  "UserTokenPolicy_opcUaBinaryDecode is = do {
     (x1, is) \<leftarrow> OpcUaString_opcUaBinaryDecode is;
     (x2, is) \<leftarrow> OpcUaUInt32_decode is;
     (x3, is) \<leftarrow> OpcUaString_opcUaBinaryDecode is;
     (x4, is) \<leftarrow> OpcUaString_opcUaBinaryDecode is;
     (x5, is) \<leftarrow> OpcUaString_opcUaBinaryDecode is;
     Some (\<lparr>UserTokenPolicy_policyId = x1, UserTokenPolicy_tokenType = x2,
            UserTokenPolicy_issuedTokenType = x3, UserTokenPolicy_issuerEndpointUrl = x4,
            UserTokenPolicy_securityPolicyUri = x5\<rparr>, is) }"

definition UserTokenPolicy_wf :: "UserTokenPolicy \<Rightarrow> bool" where
  "UserTokenPolicy_wf m \<longleftrightarrow>
     OpcUaString_wf (UserTokenPolicy_policyId m)
     \<and> OpcUaString_wf (UserTokenPolicy_issuedTokenType m)
     \<and> OpcUaString_wf (UserTokenPolicy_issuerEndpointUrl m)
     \<and> OpcUaString_wf (UserTokenPolicy_securityPolicyUri m)"

interpretation usertokenpolicy_codec: codec UserTokenPolicy_opcUaBinaryEncode
  UserTokenPolicy_opcUaBinaryDecode UserTokenPolicy_wf
  by unfold_locales
     (simp add: UserTokenPolicy_opcUaBinaryEncode_def UserTokenPolicy_opcUaBinaryDecode_def
        UserTokenPolicy_wf_def codec_rt)

declare usertokenpolicy_codec.dec_enc [codec_rt]

record EndpointDescription =
  EndpointDescription_endpointUrl :: OpcUaString
  EndpointDescription_applicationDescription :: ApplicationDescription
  EndpointDescription_serverCertificate :: OpcUaByteString
  EndpointDescription_messageSecurityMode :: u32
  EndpointDescription_securityPolicyUri :: OpcUaString
  EndpointDescription_userIdentityTokens :: "UserTokenPolicy list"
  EndpointDescription_transportProfileUri :: OpcUaString
  EndpointDescription_securityLevel :: u8

definition EndpointDescription_new :: EndpointDescription where
  "EndpointDescription_new =
     \<lparr>EndpointDescription_endpointUrl = OpcUaString_new,
       EndpointDescription_applicationDescription = ApplicationDescription_new,
       EndpointDescription_serverCertificate = OpcUaByteString_new,
       EndpointDescription_messageSecurityMode = 0,
       EndpointDescription_securityPolicyUri = OpcUaString_new,
       EndpointDescription_userIdentityTokens = [],
       EndpointDescription_transportProfileUri = OpcUaString_new,
       EndpointDescription_securityLevel = 0\<rparr>"

definition EndpointDescription_opcUaBinaryEncode :: "EndpointDescription \<Rightarrow> stream" where
  "EndpointDescription_opcUaBinaryEncode this =
     OpcUaString_opcUaBinaryEncode (EndpointDescription_endpointUrl this)
     @ ApplicationDescription_opcUaBinaryEncode (EndpointDescription_applicationDescription this)
     @ OpcUaByteString_opcUaBinaryEncode (EndpointDescription_serverCertificate this)
     @ OpcUaUInt32_encode (EndpointDescription_messageSecurityMode this)
     @ OpcUaString_opcUaBinaryEncode (EndpointDescription_securityPolicyUri this)
     @ array_encode UserTokenPolicy_opcUaBinaryEncode (EndpointDescription_userIdentityTokens this)
     @ OpcUaString_opcUaBinaryEncode (EndpointDescription_transportProfileUri this)
     @ OpcUaByte_encode (EndpointDescription_securityLevel this)"

definition EndpointDescription_opcUaBinaryDecode :: "EndpointDescription decoder" where
  "EndpointDescription_opcUaBinaryDecode is = do {
     (x1, is) \<leftarrow> OpcUaString_opcUaBinaryDecode is;
     (x2, is) \<leftarrow> ApplicationDescription_opcUaBinaryDecode is;
     (x3, is) \<leftarrow> OpcUaByteString_opcUaBinaryDecode is;
     (x4, is) \<leftarrow> OpcUaUInt32_decode is;
     (x5, is) \<leftarrow> OpcUaString_opcUaBinaryDecode is;
     (x6, is) \<leftarrow> array_decode UserTokenPolicy_opcUaBinaryDecode is;
     (x7, is) \<leftarrow> OpcUaString_opcUaBinaryDecode is;
     (x8, is) \<leftarrow> OpcUaByte_decode is;
     Some (\<lparr>EndpointDescription_endpointUrl = x1,
            EndpointDescription_applicationDescription = x2,
            EndpointDescription_serverCertificate = x3,
            EndpointDescription_messageSecurityMode = x4,
            EndpointDescription_securityPolicyUri = x5,
            EndpointDescription_userIdentityTokens = x6,
            EndpointDescription_transportProfileUri = x7,
            EndpointDescription_securityLevel = x8\<rparr>, is) }"

definition EndpointDescription_wf :: "EndpointDescription \<Rightarrow> bool" where
  "EndpointDescription_wf m \<longleftrightarrow>
     OpcUaString_wf (EndpointDescription_endpointUrl m)
     \<and> ApplicationDescription_wf (EndpointDescription_applicationDescription m)
     \<and> OpcUaByteString_wf (EndpointDescription_serverCertificate m)
     \<and> OpcUaString_wf (EndpointDescription_securityPolicyUri m)
     \<and> array_wf UserTokenPolicy_wf (EndpointDescription_userIdentityTokens m)
     \<and> OpcUaString_wf (EndpointDescription_transportProfileUri m)"

declare usertokenpolicy_codec.array_rt [codec_rt]

interpretation endpointdescription_codec: codec EndpointDescription_opcUaBinaryEncode
  EndpointDescription_opcUaBinaryDecode EndpointDescription_wf
  by unfold_locales
     (simp add: EndpointDescription_opcUaBinaryEncode_def EndpointDescription_opcUaBinaryDecode_def
        EndpointDescription_wf_def codec_rt)

declare endpointdescription_codec.dec_enc [codec_rt]

record FindServersRequest =
  FindServersRequest_endpointUrl :: OpcUaString
  FindServersRequest_localeIdArray :: "OpcUaString list"
  FindServersRequest_serverUriArray :: "OpcUaString list"

definition FindServersRequest_new :: FindServersRequest where
  "FindServersRequest_new =
     \<lparr>FindServersRequest_endpointUrl = OpcUaString_new,
       FindServersRequest_localeIdArray = [], FindServersRequest_serverUriArray = []\<rparr>"

definition FindServersRequest_opcUaBinaryEncode :: "FindServersRequest \<Rightarrow> stream" where
  "FindServersRequest_opcUaBinaryEncode this =
     OpcUaString_opcUaBinaryEncode (FindServersRequest_endpointUrl this)
     @ array_encode OpcUaString_opcUaBinaryEncode (FindServersRequest_localeIdArray this)
     @ array_encode OpcUaString_opcUaBinaryEncode (FindServersRequest_serverUriArray this)"

definition FindServersRequest_opcUaBinaryDecode :: "FindServersRequest decoder" where
  "FindServersRequest_opcUaBinaryDecode is = do {
     (x1, is) \<leftarrow> OpcUaString_opcUaBinaryDecode is;
     (x2, is) \<leftarrow> array_decode OpcUaString_opcUaBinaryDecode is;
     (x3, is) \<leftarrow> array_decode OpcUaString_opcUaBinaryDecode is;
     Some (\<lparr>FindServersRequest_endpointUrl = x1, FindServersRequest_localeIdArray = x2,
            FindServersRequest_serverUriArray = x3\<rparr>, is) }"

definition FindServersRequest_wf :: "FindServersRequest \<Rightarrow> bool" where
  "FindServersRequest_wf m \<longleftrightarrow>
     OpcUaString_wf (FindServersRequest_endpointUrl m)
     \<and> array_wf OpcUaString_wf (FindServersRequest_localeIdArray m)
     \<and> array_wf OpcUaString_wf (FindServersRequest_serverUriArray m)"

interpretation findserversrequest_codec: codec FindServersRequest_opcUaBinaryEncode
  FindServersRequest_opcUaBinaryDecode FindServersRequest_wf
  by unfold_locales
     (simp add: FindServersRequest_opcUaBinaryEncode_def FindServersRequest_opcUaBinaryDecode_def
        FindServersRequest_wf_def codec_rt)

declare findserversrequest_codec.dec_enc [codec_rt]

record FindServersResponse =
  FindServersResponse_serverArray :: "ApplicationDescription list"

definition FindServersResponse_new :: FindServersResponse where
  "FindServersResponse_new =
     \<lparr>FindServersResponse_serverArray = []\<rparr>"

definition FindServersResponse_opcUaBinaryEncode :: "FindServersResponse \<Rightarrow> stream" where
  "FindServersResponse_opcUaBinaryEncode this =
     array_encode ApplicationDescription_opcUaBinaryEncode (FindServersResponse_serverArray this)"

definition FindServersResponse_opcUaBinaryDecode :: "FindServersResponse decoder" where
  "FindServersResponse_opcUaBinaryDecode is = do {
     (x1, is) \<leftarrow> array_decode ApplicationDescription_opcUaBinaryDecode is;
     Some (\<lparr>FindServersResponse_serverArray = x1\<rparr>, is) }"

definition FindServersResponse_wf :: "FindServersResponse \<Rightarrow> bool" where
  "FindServersResponse_wf m \<longleftrightarrow>
     array_wf ApplicationDescription_wf (FindServersResponse_serverArray m)"

declare applicationdescription_codec.array_rt [codec_rt]

interpretation findserversresponse_codec: codec FindServersResponse_opcUaBinaryEncode
  FindServersResponse_opcUaBinaryDecode FindServersResponse_wf
  by unfold_locales
     (simp add: FindServersResponse_opcUaBinaryEncode_def FindServersResponse_opcUaBinaryDecode_def
        FindServersResponse_wf_def codec_rt)

declare findserversresponse_codec.dec_enc [codec_rt]

record GetEndpointsRequest =
  GetEndpointsRequest_endpointUrl :: OpcUaString
  GetEndpointsRequest_localeIdArray :: "OpcUaString list"
  GetEndpointsRequest_profileUriArray :: "OpcUaString list"

definition GetEndpointsRequest_new :: GetEndpointsRequest where
  "GetEndpointsRequest_new =
     \<lparr>GetEndpointsRequest_endpointUrl = OpcUaString_new,
       GetEndpointsRequest_localeIdArray = [], GetEndpointsRequest_profileUriArray = []\<rparr>"

definition GetEndpointsRequest_opcUaBinaryEncode :: "GetEndpointsRequest \<Rightarrow> stream" where
  "GetEndpointsRequest_opcUaBinaryEncode this =
     OpcUaString_opcUaBinaryEncode (GetEndpointsRequest_endpointUrl this)
     @ array_encode OpcUaString_opcUaBinaryEncode (GetEndpointsRequest_localeIdArray this)
     @ array_encode OpcUaString_opcUaBinaryEncode (GetEndpointsRequest_profileUriArray this)"

definition GetEndpointsRequest_opcUaBinaryDecode :: "GetEndpointsRequest decoder" where
  "GetEndpointsRequest_opcUaBinaryDecode is = do {
     (x1, is) \<leftarrow> OpcUaString_opcUaBinaryDecode is;
     (x2, is) \<leftarrow> array_decode OpcUaString_opcUaBinaryDecode is;
     (x3, is) \<leftarrow> array_decode OpcUaString_opcUaBinaryDecode is;
     Some (\<lparr>GetEndpointsRequest_endpointUrl = x1, GetEndpointsRequest_localeIdArray = x2,
            GetEndpointsRequest_profileUriArray = x3\<rparr>, is) }"

definition GetEndpointsRequest_wf :: "GetEndpointsRequest \<Rightarrow> bool" where
  "GetEndpointsRequest_wf m \<longleftrightarrow>
     OpcUaString_wf (GetEndpointsRequest_endpointUrl m)
     \<and> array_wf OpcUaString_wf (GetEndpointsRequest_localeIdArray m)
     \<and> array_wf OpcUaString_wf (GetEndpointsRequest_profileUriArray m)"

interpretation getendpointsrequest_codec: codec GetEndpointsRequest_opcUaBinaryEncode
  GetEndpointsRequest_opcUaBinaryDecode GetEndpointsRequest_wf
  by unfold_locales
     (simp add: GetEndpointsRequest_opcUaBinaryEncode_def GetEndpointsRequest_opcUaBinaryDecode_def
        GetEndpointsRequest_wf_def codec_rt)

declare getendpointsrequest_codec.dec_enc [codec_rt]

record GetEndpointsResponse =
  GetEndpointsResponse_endpointArray :: "EndpointDescription list"

definition GetEndpointsResponse_new :: GetEndpointsResponse where
  "GetEndpointsResponse_new =
     \<lparr>GetEndpointsResponse_endpointArray = []\<rparr>"

definition GetEndpointsResponse_opcUaBinaryEncode :: "GetEndpointsResponse \<Rightarrow> stream" where
  "GetEndpointsResponse_opcUaBinaryEncode this =
     array_encode EndpointDescription_opcUaBinaryEncode (GetEndpointsResponse_endpointArray this)"

definition GetEndpointsResponse_opcUaBinaryDecode :: "GetEndpointsResponse decoder" where
  "GetEndpointsResponse_opcUaBinaryDecode is = do {
     (x1, is) \<leftarrow> array_decode EndpointDescription_opcUaBinaryDecode is;
     Some (\<lparr>GetEndpointsResponse_endpointArray = x1\<rparr>, is) }"

definition GetEndpointsResponse_wf :: "GetEndpointsResponse \<Rightarrow> bool" where
  "GetEndpointsResponse_wf m \<longleftrightarrow>
     array_wf EndpointDescription_wf (GetEndpointsResponse_endpointArray m)"

declare endpointdescription_codec.array_rt [codec_rt]

interpretation getendpointsresponse_codec: codec GetEndpointsResponse_opcUaBinaryEncode
  GetEndpointsResponse_opcUaBinaryDecode GetEndpointsResponse_wf
  by unfold_locales
     (simp add: GetEndpointsResponse_opcUaBinaryEncode_def
        GetEndpointsResponse_opcUaBinaryDecode_def GetEndpointsResponse_wf_def codec_rt)

declare getendpointsresponse_codec.dec_enc [codec_rt]

record RegisteredServer =
  RegisteredServer_serverUri :: OpcUaString
  RegisteredServer_productUri :: OpcUaString
  RegisteredServer_serverNameArray :: "OpcUaLocalizedText list"
  RegisteredServer_serverType :: u32
  RegisteredServer_gatewayServerUri :: OpcUaString
  RegisteredServer_discoveryUrlArray :: "OpcUaString list"
  RegisteredServer_semaphoreFilePath :: OpcUaString
  RegisteredServer_isOnline :: bool

definition RegisteredServer_new :: RegisteredServer where
  "RegisteredServer_new =
     \<lparr>RegisteredServer_serverUri = OpcUaString_new,
       RegisteredServer_productUri = OpcUaString_new, RegisteredServer_serverNameArray = [],
       RegisteredServer_serverType = 0, RegisteredServer_gatewayServerUri = OpcUaString_new,
       RegisteredServer_discoveryUrlArray = [],
       RegisteredServer_semaphoreFilePath = OpcUaString_new, RegisteredServer_isOnline = False\<rparr>"

definition RegisteredServer_opcUaBinaryEncode :: "RegisteredServer \<Rightarrow> stream" where
  "RegisteredServer_opcUaBinaryEncode this =
     OpcUaString_opcUaBinaryEncode (RegisteredServer_serverUri this)
     @ OpcUaString_opcUaBinaryEncode (RegisteredServer_productUri this)
     @ array_encode OpcUaLocalizedText_opcUaBinaryEncode (RegisteredServer_serverNameArray this)
     @ OpcUaUInt32_encode (RegisteredServer_serverType this)
     @ OpcUaString_opcUaBinaryEncode (RegisteredServer_gatewayServerUri this)
     @ array_encode OpcUaString_opcUaBinaryEncode (RegisteredServer_discoveryUrlArray this)
     @ OpcUaString_opcUaBinaryEncode (RegisteredServer_semaphoreFilePath this)
     @ OpcUaBoolean_encode (RegisteredServer_isOnline this)"

definition RegisteredServer_opcUaBinaryDecode :: "RegisteredServer decoder" where
  "RegisteredServer_opcUaBinaryDecode is = do {
     (x1, is) \<leftarrow> OpcUaString_opcUaBinaryDecode is;
     (x2, is) \<leftarrow> OpcUaString_opcUaBinaryDecode is;
     (x3, is) \<leftarrow> array_decode (OpcUaLocalizedText_opcUaBinaryDecode OpcUaLocalizedText_new) is;
     (x4, is) \<leftarrow> OpcUaUInt32_decode is;
     (x5, is) \<leftarrow> OpcUaString_opcUaBinaryDecode is;
     (x6, is) \<leftarrow> array_decode OpcUaString_opcUaBinaryDecode is;
     (x7, is) \<leftarrow> OpcUaString_opcUaBinaryDecode is;
     (x8, is) \<leftarrow> OpcUaBoolean_decode is;
     Some (\<lparr>RegisteredServer_serverUri = x1, RegisteredServer_productUri = x2,
            RegisteredServer_serverNameArray = x3, RegisteredServer_serverType = x4,
            RegisteredServer_gatewayServerUri = x5, RegisteredServer_discoveryUrlArray = x6,
            RegisteredServer_semaphoreFilePath = x7, RegisteredServer_isOnline = x8\<rparr>, is) }"

definition RegisteredServer_wf :: "RegisteredServer \<Rightarrow> bool" where
  "RegisteredServer_wf m \<longleftrightarrow>
     OpcUaString_wf (RegisteredServer_serverUri m)
     \<and> OpcUaString_wf (RegisteredServer_productUri m)
     \<and> array_wf OpcUaLocalizedText_wf (RegisteredServer_serverNameArray m)
     \<and> OpcUaString_wf (RegisteredServer_gatewayServerUri m)
     \<and> array_wf OpcUaString_wf (RegisteredServer_discoveryUrlArray m)
     \<and> OpcUaString_wf (RegisteredServer_semaphoreFilePath m)"

interpretation registeredserver_codec: codec RegisteredServer_opcUaBinaryEncode
  RegisteredServer_opcUaBinaryDecode RegisteredServer_wf
  by unfold_locales
     (simp add: RegisteredServer_opcUaBinaryEncode_def RegisteredServer_opcUaBinaryDecode_def
        RegisteredServer_wf_def codec_rt)

declare registeredserver_codec.dec_enc [codec_rt]

record RegisterServerRequest =
  RegisterServerRequest_server :: RegisteredServer

definition RegisterServerRequest_new :: RegisterServerRequest where
  "RegisterServerRequest_new =
     \<lparr>RegisterServerRequest_server = RegisteredServer_new\<rparr>"

definition RegisterServerRequest_opcUaBinaryEncode :: "RegisterServerRequest \<Rightarrow> stream" where
  "RegisterServerRequest_opcUaBinaryEncode this =
     RegisteredServer_opcUaBinaryEncode (RegisterServerRequest_server this)"

definition RegisterServerRequest_opcUaBinaryDecode :: "RegisterServerRequest decoder" where
  "RegisterServerRequest_opcUaBinaryDecode is = do {
     (x1, is) \<leftarrow> RegisteredServer_opcUaBinaryDecode is;
     Some (\<lparr>RegisterServerRequest_server = x1\<rparr>, is) }"

definition RegisterServerRequest_wf :: "RegisterServerRequest \<Rightarrow> bool" where
  "RegisterServerRequest_wf m \<longleftrightarrow>
     RegisteredServer_wf (RegisterServerRequest_server m)"

interpretation registerserverrequest_codec: codec RegisterServerRequest_opcUaBinaryEncode
  RegisterServerRequest_opcUaBinaryDecode RegisterServerRequest_wf
  by unfold_locales
     (simp add: RegisterServerRequest_opcUaBinaryEncode_def
        RegisterServerRequest_opcUaBinaryDecode_def RegisterServerRequest_wf_def codec_rt)

declare registerserverrequest_codec.dec_enc [codec_rt]

record RegisterServerResponse =
  RegisterServerResponse_responseHeader :: ResponseHeader

definition RegisterServerResponse_new :: "OpcUaDateTime \<Rightarrow> RegisterServerResponse" where
  "RegisterServerResponse_new now =
     \<lparr>RegisterServerResponse_responseHeader = ResponseHeader_new now\<rparr>"

definition RegisterServerResponse_opcUaBinaryEncode :: "RegisterServerResponse \<Rightarrow> stream" where
  "RegisterServerResponse_opcUaBinaryEncode this =
     ResponseHeader_opcUaBinaryEncode (RegisterServerResponse_responseHeader this)"

definition RegisterServerResponse_opcUaBinaryDecode :: "RegisterServerResponse decoder" where
  "RegisterServerResponse_opcUaBinaryDecode is = do {
     (x1, is) \<leftarrow> ResponseHeader_opcUaBinaryDecode is;
     Some (\<lparr>RegisterServerResponse_responseHeader = x1\<rparr>, is) }"

definition RegisterServerResponse_wf :: "RegisterServerResponse \<Rightarrow> bool" where
  "RegisterServerResponse_wf m \<longleftrightarrow>
     ResponseHeader_wf (RegisterServerResponse_responseHeader m)"

interpretation registerserverresponse_codec: codec RegisterServerResponse_opcUaBinaryEncode
  RegisterServerResponse_opcUaBinaryDecode RegisterServerResponse_wf
  by unfold_locales
     (simp add: RegisterServerResponse_opcUaBinaryEncode_def
        RegisterServerResponse_opcUaBinaryDecode_def RegisterServerResponse_wf_def codec_rt)

declare registerserverresponse_codec.dec_enc [codec_rt]

section \<open>Sessions\<close>

record SignatureData =
  SignatureData_algorithm :: OpcUaString
  SignatureData_signature :: OpcUaByteString

definition SignatureData_new :: SignatureData where
  "SignatureData_new =
     \<lparr>SignatureData_algorithm = OpcUaString_new,
       SignatureData_signature = OpcUaByteString_new\<rparr>"

definition SignatureData_opcUaBinaryEncode :: "SignatureData \<Rightarrow> stream" where
  "SignatureData_opcUaBinaryEncode this =
     OpcUaString_opcUaBinaryEncode (SignatureData_algorithm this)
     @ OpcUaByteString_opcUaBinaryEncode (SignatureData_signature this)"

definition SignatureData_opcUaBinaryDecode :: "SignatureData decoder" where
  "SignatureData_opcUaBinaryDecode is = do {
     (x1, is) \<leftarrow> OpcUaString_opcUaBinaryDecode is;
     (x2, is) \<leftarrow> OpcUaByteString_opcUaBinaryDecode is;
     Some (\<lparr>SignatureData_algorithm = x1, SignatureData_signature = x2\<rparr>, is) }"

definition SignatureData_wf :: "SignatureData \<Rightarrow> bool" where
  "SignatureData_wf m \<longleftrightarrow>
     OpcUaString_wf (SignatureData_algorithm m)
     \<and> OpcUaByteString_wf (SignatureData_signature m)"

interpretation signaturedata_codec: codec SignatureData_opcUaBinaryEncode
  SignatureData_opcUaBinaryDecode SignatureData_wf
  by unfold_locales
     (simp add: SignatureData_opcUaBinaryEncode_def SignatureData_opcUaBinaryDecode_def
        SignatureData_wf_def codec_rt)

declare signaturedata_codec.dec_enc [codec_rt]

record CreateSessionRequest =
  CreateSessionRequest_clientDescription :: ApplicationDescription
  CreateSessionRequest_serverUri :: OpcUaString
  CreateSessionRequest_endpointUrl :: OpcUaString
  CreateSessionRequest_sessionName :: OpcUaString
  CreateSessionRequest_clientNonce :: OpcUaByteString
  CreateSessionRequest_clientCertificate :: OpcUaByteString
  CreateSessionRequest_requestSessionTimeout :: u64
  CreateSessionRequest_maxResponseMessageSize :: u32

definition CreateSessionRequest_new :: CreateSessionRequest where
  "CreateSessionRequest_new =
     \<lparr>CreateSessionRequest_clientDescription = ApplicationDescription_new,
       CreateSessionRequest_serverUri = OpcUaString_new,
       CreateSessionRequest_endpointUrl = OpcUaString_new,
       CreateSessionRequest_sessionName = OpcUaString_new,
       CreateSessionRequest_clientNonce = OpcUaByteString_new,
       CreateSessionRequest_clientCertificate = OpcUaByteString_new,
       CreateSessionRequest_requestSessionTimeout = 0,
       CreateSessionRequest_maxResponseMessageSize = 0\<rparr>"

definition CreateSessionRequest_opcUaBinaryEncode :: "CreateSessionRequest \<Rightarrow> stream" where
  "CreateSessionRequest_opcUaBinaryEncode this =
     ApplicationDescription_opcUaBinaryEncode (CreateSessionRequest_clientDescription this)
     @ OpcUaString_opcUaBinaryEncode (CreateSessionRequest_serverUri this)
     @ OpcUaString_opcUaBinaryEncode (CreateSessionRequest_endpointUrl this)
     @ OpcUaString_opcUaBinaryEncode (CreateSessionRequest_sessionName this)
     @ OpcUaByteString_opcUaBinaryEncode (CreateSessionRequest_clientNonce this)
     @ OpcUaByteString_opcUaBinaryEncode (CreateSessionRequest_clientCertificate this)
     @ OpcUaDouble_encode (CreateSessionRequest_requestSessionTimeout this)
     @ OpcUaUInt32_encode (CreateSessionRequest_maxResponseMessageSize this)"

definition CreateSessionRequest_opcUaBinaryDecode :: "CreateSessionRequest decoder" where
  "CreateSessionRequest_opcUaBinaryDecode is = do {
     (x1, is) \<leftarrow> ApplicationDescription_opcUaBinaryDecode is;
     (x2, is) \<leftarrow> OpcUaString_opcUaBinaryDecode is;
     (x3, is) \<leftarrow> OpcUaString_opcUaBinaryDecode is;
     (x4, is) \<leftarrow> OpcUaString_opcUaBinaryDecode is;
     (x5, is) \<leftarrow> OpcUaByteString_opcUaBinaryDecode is;
     (x6, is) \<leftarrow> OpcUaByteString_opcUaBinaryDecode is;
     (x7, is) \<leftarrow> OpcUaDouble_decode is;
     (x8, is) \<leftarrow> OpcUaUInt32_decode is;
     Some (\<lparr>CreateSessionRequest_clientDescription = x1, CreateSessionRequest_serverUri = x2,
            CreateSessionRequest_endpointUrl = x3, CreateSessionRequest_sessionName = x4,
            CreateSessionRequest_clientNonce = x5,
            CreateSessionRequest_clientCertificate = x6,
            CreateSessionRequest_requestSessionTimeout = x7,
            CreateSessionRequest_maxResponseMessageSize = x8\<rparr>, is) }"

definition CreateSessionRequest_wf :: "CreateSessionRequest \<Rightarrow> bool" where
  "CreateSessionRequest_wf m \<longleftrightarrow>
     ApplicationDescription_wf (CreateSessionRequest_clientDescription m)
     \<and> OpcUaString_wf (CreateSessionRequest_serverUri m)
     \<and> OpcUaString_wf (CreateSessionRequest_endpointUrl m)
     \<and> OpcUaString_wf (CreateSessionRequest_sessionName m)
     \<and> OpcUaByteString_wf (CreateSessionRequest_clientNonce m)
     \<and> OpcUaByteString_wf (CreateSessionRequest_clientCertificate m)"

interpretation createsessionrequest_codec: codec CreateSessionRequest_opcUaBinaryEncode
  CreateSessionRequest_opcUaBinaryDecode CreateSessionRequest_wf
  by unfold_locales
     (simp add: CreateSessionRequest_opcUaBinaryEncode_def
        CreateSessionRequest_opcUaBinaryDecode_def CreateSessionRequest_wf_def codec_rt)

declare createsessionrequest_codec.dec_enc [codec_rt]

record CreateSessionResponse =
  CreateSessionResponse_sessionId :: OpcUaNodeIdBase
  CreateSessionResponse_authenticationToken :: OpcUaNodeIdBase
  CreateSessionResponse_receivedSessionTimeout :: u64
  CreateSessionResponse_serverNonce :: OpcUaByteString
  CreateSessionResponse_serverCertificate :: OpcUaByteString
  CreateSessionResponse_serverEndpoints :: "EndpointDescription list"
  CreateSessionResponse_serverSoftwareCertificate :: OpcUaByteString
  CreateSessionResponse_signatureData :: SignatureData
  CreateSessionResponse_maxRequestMessageSize :: u32

definition CreateSessionResponse_new :: CreateSessionResponse where
  "CreateSessionResponse_new =
     \<lparr>CreateSessionResponse_sessionId = OpcUaNodeIdBase_new,
       CreateSessionResponse_authenticationToken = OpcUaNodeIdBase_new,
       CreateSessionResponse_receivedSessionTimeout = 0,
       CreateSessionResponse_serverNonce = OpcUaByteString_new,
       CreateSessionResponse_serverCertificate = OpcUaByteString_new,
       CreateSessionResponse_serverEndpoints = [],
       CreateSessionResponse_serverSoftwareCertificate = OpcUaByteString_new,
       CreateSessionResponse_signatureData = SignatureData_new,
       CreateSessionResponse_maxRequestMessageSize = 65536\<rparr>"

definition CreateSessionResponse_opcUaBinaryEncode :: "CreateSessionResponse \<Rightarrow> stream" where
  "CreateSessionResponse_opcUaBinaryEncode this =
     OpcUaNodeId_opcUaBinaryEncode (CreateSessionResponse_sessionId this)
     @ OpcUaNodeId_opcUaBinaryEncode (CreateSessionResponse_authenticationToken this)
     @ OpcUaDouble_encode (CreateSessionResponse_receivedSessionTimeout this)
     @ OpcUaByteString_opcUaBinaryEncode (CreateSessionResponse_serverNonce this)
     @ OpcUaByteString_opcUaBinaryEncode (CreateSessionResponse_serverCertificate this)
     @ array_encode EndpointDescription_opcUaBinaryEncode (CreateSessionResponse_serverEndpoints this)
     @ OpcUaByteString_opcUaBinaryEncode (CreateSessionResponse_serverSoftwareCertificate this)
     @ SignatureData_opcUaBinaryEncode (CreateSessionResponse_signatureData this)
     @ OpcUaUInt32_encode (CreateSessionResponse_maxRequestMessageSize this)"

definition CreateSessionResponse_opcUaBinaryDecode :: "CreateSessionResponse decoder" where
  "CreateSessionResponse_opcUaBinaryDecode is = do {
     (x1, is) \<leftarrow> OpcUaNodeId_opcUaBinaryDecode is;
     (x2, is) \<leftarrow> OpcUaNodeId_opcUaBinaryDecode is;
     (x3, is) \<leftarrow> OpcUaDouble_decode is;
     (x4, is) \<leftarrow> OpcUaByteString_opcUaBinaryDecode is;
     (x5, is) \<leftarrow> OpcUaByteString_opcUaBinaryDecode is;
     (x6, is) \<leftarrow> array_decode EndpointDescription_opcUaBinaryDecode is;
     (x7, is) \<leftarrow> OpcUaByteString_opcUaBinaryDecode is;
     (x8, is) \<leftarrow> SignatureData_opcUaBinaryDecode is;
     (x9, is) \<leftarrow> OpcUaUInt32_decode is;
     Some (\<lparr>CreateSessionResponse_sessionId = x1, CreateSessionResponse_authenticationToken = x2,
            CreateSessionResponse_receivedSessionTimeout = x3,
            CreateSessionResponse_serverNonce = x4,
            CreateSessionResponse_serverCertificate = x5,
            CreateSessionResponse_serverEndpoints = x6,
            CreateSessionResponse_serverSoftwareCertificate = x7,
            CreateSessionResponse_signatureData = x8,
            CreateSessionResponse_maxRequestMessageSize = x9\<rparr>, is) }"

definition CreateSessionResponse_wf :: "CreateSessionResponse \<Rightarrow> bool" where
  "CreateSessionResponse_wf m \<longleftrightarrow>
     OpcUaNodeId_wf (CreateSessionResponse_sessionId m)
     \<and> OpcUaNodeId_wf (CreateSessionResponse_authenticationToken m)
     \<and> OpcUaByteString_wf (CreateSessionResponse_serverNonce m)
     \<and> OpcUaByteString_wf (CreateSessionResponse_serverCertificate m)
     \<and> array_wf EndpointDescription_wf (CreateSessionResponse_serverEndpoints m)
     \<and> OpcUaByteString_wf (CreateSessionResponse_serverSoftwareCertificate m)
     \<and> SignatureData_wf (CreateSessionResponse_signatureData m)"

interpretation createsessionresponse_codec: codec CreateSessionResponse_opcUaBinaryEncode
  CreateSessionResponse_opcUaBinaryDecode CreateSessionResponse_wf
  by unfold_locales
     (simp add: CreateSessionResponse_opcUaBinaryEncode_def
        CreateSessionResponse_opcUaBinaryDecode_def CreateSessionResponse_wf_def codec_rt)

declare createsessionresponse_codec.dec_enc [codec_rt]

record ActivateSessionResponse =
  ActivateSessionResponse_serverNonce :: OpcUaByteString
  ActivateSessionResponse_results :: "u32 list"
  ActivateSessionResponse_diagnosticInfos :: "OpcUaDiagnosticInfo list"

definition ActivateSessionResponse_new :: ActivateSessionResponse where
  "ActivateSessionResponse_new =
     \<lparr>ActivateSessionResponse_serverNonce = OpcUaByteString_new,
       ActivateSessionResponse_results = [], ActivateSessionResponse_diagnosticInfos = []\<rparr>"

definition ActivateSessionResponse_opcUaBinaryEncode :: "ActivateSessionResponse \<Rightarrow> stream" where
  "ActivateSessionResponse_opcUaBinaryEncode this =
     OpcUaByteString_opcUaBinaryEncode (ActivateSessionResponse_serverNonce this)
     @ array_encode OpcUaInt32_encode (ActivateSessionResponse_results this)
     @ array_encode OpcUaDiagnosticInfo_opcUaBinaryEncode (ActivateSessionResponse_diagnosticInfos this)"

definition ActivateSessionResponse_opcUaBinaryDecode :: "ActivateSessionResponse decoder" where
  "ActivateSessionResponse_opcUaBinaryDecode is = do {
     (x1, is) \<leftarrow> OpcUaByteString_opcUaBinaryDecode is;
     (x2, is) \<leftarrow> array_decode OpcUaInt32_decode is;
     (x3, is) \<leftarrow> array_decode (OpcUaDiagnosticInfo_opcUaBinaryDecode OpcUaDiagnosticInfo_new) is;
     Some (\<lparr>ActivateSessionResponse_serverNonce = x1, ActivateSessionResponse_results = x2,
            ActivateSessionResponse_diagnosticInfos = x3\<rparr>, is) }"

definition ActivateSessionResponse_wf :: "ActivateSessionResponse \<Rightarrow> bool" where
  "ActivateSessionResponse_wf m \<longleftrightarrow>
     OpcUaByteString_wf (ActivateSessionResponse_serverNonce m)
     \<and> array_wf (\<lambda>_. True) (ActivateSessionResponse_results m)
     \<and> array_wf (\<lambda>d. OpcUaString_wf (di_additionalInfo d)) (ActivateSessionResponse_diagnosticInfos m)"

interpretation activatesessionresponse_codec: codec ActivateSessionResponse_opcUaBinaryEncode
  ActivateSessionResponse_opcUaBinaryDecode ActivateSessionResponse_wf
  by unfold_locales
     (simp add: ActivateSessionResponse_opcUaBinaryEncode_def
        ActivateSessionResponse_opcUaBinaryDecode_def ActivateSessionResponse_wf_def codec_rt)

declare activatesessionresponse_codec.dec_enc [codec_rt]

record CloseSessionRequest =
  CloseSessionRequest_requestHeader :: RequestHeader
  CloseSessionRequest_deleteSubscriptions :: bool

definition CloseSessionRequest_new :: "OpcUaDateTime \<Rightarrow> CloseSessionRequest" where
  "CloseSessionRequest_new now =
     \<lparr>CloseSessionRequest_requestHeader = RequestHeader_new now,
       CloseSessionRequest_deleteSubscriptions = False\<rparr>"

definition CloseSessionRequest_opcUaBinaryEncode :: "CloseSessionRequest \<Rightarrow> stream" where
  "CloseSessionRequest_opcUaBinaryEncode this =
     RequestHeader_opcUaBinaryEncode (CloseSessionRequest_requestHeader this)
     @ OpcUaBoolean_encode (CloseSessionRequest_deleteSubscriptions this)"

definition CloseSessionRequest_opcUaBinaryDecode :: "CloseSessionRequest decoder" where
  "CloseSessionRequest_opcUaBinaryDecode is = do {
     (x1, is) \<leftarrow> RequestHeader_opcUaBinaryDecode is;
     (x2, is) \<leftarrow> OpcUaBoolean_decode is;
     Some (\<lparr>CloseSessionRequest_requestHeader = x1, CloseSessionRequest_deleteSubscriptions = x2\<rparr>, is) }"

definition CloseSessionRequest_wf :: "CloseSessionRequest \<Rightarrow> bool" where
  "CloseSessionRequest_wf m \<longleftrightarrow>
     RequestHeader_wf (CloseSessionRequest_requestHeader m)"

interpretation closesessionrequest_codec: codec CloseSessionRequest_opcUaBinaryEncode
  CloseSessionRequest_opcUaBinaryDecode CloseSessionRequest_wf
  by unfold_locales
     (simp add: CloseSessionRequest_opcUaBinaryEncode_def CloseSessionRequest_opcUaBinaryDecode_def
        CloseSessionRequest_wf_def codec_rt)

declare closesessionrequest_codec.dec_enc [codec_rt]

text \<open>The body of the response to the closing of a session is empty.\<close>

type_synonym CloseSessionResponse = unit

definition CloseSessionResponse_opcUaBinaryEncode :: "CloseSessionResponse \<Rightarrow> stream" where
  "CloseSessionResponse_opcUaBinaryEncode this = []"

definition CloseSessionResponse_opcUaBinaryDecode :: "CloseSessionResponse decoder" where
  "CloseSessionResponse_opcUaBinaryDecode is = Some ((), is)"

interpretation closesessionresponse_codec: codec CloseSessionResponse_opcUaBinaryEncode
  CloseSessionResponse_opcUaBinaryDecode "\<lambda>_. True"
  by unfold_locales
     (simp add: CloseSessionResponse_opcUaBinaryEncode_def CloseSessionResponse_opcUaBinaryDecode_def)

record CancelRequest =
  CancelRequest_requestHandle :: u32

definition CancelRequest_new :: CancelRequest where
  "CancelRequest_new =
     \<lparr>CancelRequest_requestHandle = 0\<rparr>"

definition CancelRequest_opcUaBinaryEncode :: "CancelRequest \<Rightarrow> stream" where
  "CancelRequest_opcUaBinaryEncode this =
     OpcUaUInt32_encode (CancelRequest_requestHandle this)"

definition CancelRequest_opcUaBinaryDecode :: "CancelRequest decoder" where
  "CancelRequest_opcUaBinaryDecode is = do {
     (x1, is) \<leftarrow> OpcUaUInt32_decode is;
     Some (\<lparr>CancelRequest_requestHandle = x1\<rparr>, is) }"

interpretation cancelrequest_codec: codec CancelRequest_opcUaBinaryEncode
  CancelRequest_opcUaBinaryDecode "\<lambda>_. True"
  by unfold_locales
     (simp add: CancelRequest_opcUaBinaryEncode_def CancelRequest_opcUaBinaryDecode_def codec_rt)

declare cancelrequest_codec.dec_enc [OF TrueI, codec_rt]

record CancelResponse =
  CancelResponse_responseHeader :: ResponseHeader
  CancelResponse_cancelCount :: u32

definition CancelResponse_opcUaBinaryEncode :: "CancelResponse \<Rightarrow> stream" where
  "CancelResponse_opcUaBinaryEncode this =
     ResponseHeader_opcUaBinaryEncode (CancelResponse_responseHeader this)
     @ OpcUaInt32_encode (CancelResponse_cancelCount this)"

definition CancelResponse_opcUaBinaryDecode :: "CancelResponse decoder" where
  "CancelResponse_opcUaBinaryDecode is = do {
     (x1, is) \<leftarrow> ResponseHeader_opcUaBinaryDecode is;
     (x2, is) \<leftarrow> OpcUaInt32_decode is;
     Some (\<lparr>CancelResponse_responseHeader = x1, CancelResponse_cancelCount = x2\<rparr>, is) }"

definition CancelResponse_wf :: "CancelResponse \<Rightarrow> bool" where
  "CancelResponse_wf m \<longleftrightarrow>
     ResponseHeader_wf (CancelResponse_responseHeader m)"

interpretation cancelresponse_codec: codec CancelResponse_opcUaBinaryEncode
  CancelResponse_opcUaBinaryDecode CancelResponse_wf
  by unfold_locales
     (simp add: CancelResponse_opcUaBinaryEncode_def CancelResponse_opcUaBinaryDecode_def
        CancelResponse_wf_def codec_rt)

declare cancelresponse_codec.dec_enc [codec_rt]

section \<open>Identity tokens\<close>

text \<open>The tokens travel as the body of an extensible parameter.\<close>

record AnonymousIdentityToken =
  AnonymousIdentityToken_policyId :: OpcUaString

definition AnonymousIdentityToken_new :: AnonymousIdentityToken where
  "AnonymousIdentityToken_new =
     \<lparr>AnonymousIdentityToken_policyId = OpcUaString_new\<rparr>"

definition AnonymousIdentityToken_opcUaBinaryEncode :: "AnonymousIdentityToken \<Rightarrow> stream" where
  "AnonymousIdentityToken_opcUaBinaryEncode this =
     OpcUaString_opcUaBinaryEncode (AnonymousIdentityToken_policyId this)"

definition AnonymousIdentityToken_opcUaBinaryDecode :: "AnonymousIdentityToken decoder" where
  "AnonymousIdentityToken_opcUaBinaryDecode is = do {
     (x1, is) \<leftarrow> OpcUaString_opcUaBinaryDecode is;
     Some (\<lparr>AnonymousIdentityToken_policyId = x1\<rparr>, is) }"

definition AnonymousIdentityToken_wf :: "AnonymousIdentityToken \<Rightarrow> bool" where
  "AnonymousIdentityToken_wf m \<longleftrightarrow>
     OpcUaString_wf (AnonymousIdentityToken_policyId m)"

interpretation anonymousidentitytoken_codec: codec AnonymousIdentityToken_opcUaBinaryEncode
  AnonymousIdentityToken_opcUaBinaryDecode AnonymousIdentityToken_wf
  by unfold_locales
     (simp add: AnonymousIdentityToken_opcUaBinaryEncode_def
        AnonymousIdentityToken_opcUaBinaryDecode_def AnonymousIdentityToken_wf_def codec_rt)

declare anonymousidentitytoken_codec.dec_enc [codec_rt]

record UserNameIdentityToken =
  UserNameIdentityToken_policyId :: OpcUaString
  UserNameIdentityToken_userName :: OpcUaString
  UserNameIdentityToken_password :: OpcUaByteString
  UserNameIdentityToken_encryptionAlgorithm :: OpcUaString

definition UserNameIdentityToken_new :: UserNameIdentityToken where
  "UserNameIdentityToken_new =
     \<lparr>UserNameIdentityToken_policyId = OpcUaString_new,
       UserNameIdentityToken_userName = OpcUaString_new,
       UserNameIdentityToken_password = OpcUaByteString_new,
       UserNameIdentityToken_encryptionAlgorithm = OpcUaString_new\<rparr>"

definition UserNameIdentityToken_opcUaBinaryEncode :: "UserNameIdentityToken \<Rightarrow> stream" where
  "UserNameIdentityToken_opcUaBinaryEncode this =
     OpcUaString_opcUaBinaryEncode (UserNameIdentityToken_policyId this)
     @ OpcUaString_opcUaBinaryEncode (UserNameIdentityToken_userName this)
     @ OpcUaByteString_opcUaBinaryEncode (UserNameIdentityToken_password this)
     @ OpcUaString_opcUaBinaryEncode (UserNameIdentityToken_encryptionAlgorithm this)"

definition UserNameIdentityToken_opcUaBinaryDecode :: "UserNameIdentityToken decoder" where
  "UserNameIdentityToken_opcUaBinaryDecode is = do {
     (x1, is) \<leftarrow> OpcUaString_opcUaBinaryDecode is;
     (x2, is) \<leftarrow> OpcUaString_opcUaBinaryDecode is;
     (x3, is) \<leftarrow> OpcUaByteString_opcUaBinaryDecode is;
     (x4, is) \<leftarrow> OpcUaString_opcUaBinaryDecode is;
     Some (\<lparr>UserNameIdentityToken_policyId = x1, UserNameIdentityToken_userName = x2,
            UserNameIdentityToken_password = x3,
            UserNameIdentityToken_encryptionAlgorithm = x4\<rparr>, is) }"

definition UserNameIdentityToken_wf :: "UserNameIdentityToken \<Rightarrow> bool" where
  "UserNameIdentityToken_wf m \<longleftrightarrow>
     OpcUaString_wf (UserNameIdentityToken_policyId m)
     \<and> OpcUaString_wf (UserNameIdentityToken_userName m)
     \<and> OpcUaByteString_wf (UserNameIdentityToken_password m)
     \<and> OpcUaString_wf (UserNameIdentityToken_encryptionAlgorithm m)"

interpretation usernameidentitytoken_codec: codec UserNameIdentityToken_opcUaBinaryEncode
  UserNameIdentityToken_opcUaBinaryDecode UserNameIdentityToken_wf
  by unfold_locales
     (simp add: UserNameIdentityToken_opcUaBinaryEncode_def
        UserNameIdentityToken_opcUaBinaryDecode_def UserNameIdentityToken_wf_def codec_rt)

declare usernameidentitytoken_codec.dec_enc [codec_rt]

record X509IdentityToken =
  X509IdentityToken_policyId :: OpcUaString
  X509IdentityToken_certificateData :: OpcUaByteString

definition X509IdentityToken_new :: X509IdentityToken where
  "X509IdentityToken_new =
     \<lparr>X509IdentityToken_policyId = OpcUaString_new,
       X509IdentityToken_certificateData = OpcUaByteString_new\<rparr>"

definition X509IdentityToken_opcUaBinaryEncode :: "X509IdentityToken \<Rightarrow> stream" where
  "X509IdentityToken_opcUaBinaryEncode this =
     OpcUaString_opcUaBinaryEncode (X509IdentityToken_policyId this)
     @ OpcUaByteString_opcUaBinaryEncode (X509IdentityToken_certificateData this)"

definition X509IdentityToken_opcUaBinaryDecode :: "X509IdentityToken decoder" where
  "X509IdentityToken_opcUaBinaryDecode is = do {
     (x1, is) \<leftarrow> OpcUaString_opcUaBinaryDecode is;
     (x2, is) \<leftarrow> OpcUaByteString_opcUaBinaryDecode is;
     Some (\<lparr>X509IdentityToken_policyId = x1, X509IdentityToken_certificateData = x2\<rparr>, is) }"

definition X509IdentityToken_wf :: "X509IdentityToken \<Rightarrow> bool" where
  "X509IdentityToken_wf m \<longleftrightarrow>
     OpcUaString_wf (X509IdentityToken_policyId m)
     \<and> OpcUaByteString_wf (X509IdentityToken_certificateData m)"

interpretation x509identitytoken_codec: codec X509IdentityToken_opcUaBinaryEncode
  X509IdentityToken_opcUaBinaryDecode X509IdentityToken_wf
  by unfold_locales
     (simp add: X509IdentityToken_opcUaBinaryEncode_def X509IdentityToken_opcUaBinaryDecode_def
        X509IdentityToken_wf_def codec_rt)

declare x509identitytoken_codec.dec_enc [codec_rt]

record IssuedIdentityToken =
  IssuedIdentityToken_policyId :: OpcUaString
  IssuedIdentityToken_tokenData :: OpcUaByteString
  IssuedIdentityToken_encryptionAlgorithm :: OpcUaString

definition IssuedIdentityToken_new :: IssuedIdentityToken where
  "IssuedIdentityToken_new =
     \<lparr>IssuedIdentityToken_policyId = OpcUaString_new,
       IssuedIdentityToken_tokenData = OpcUaByteString_new,
       IssuedIdentityToken_encryptionAlgorithm = OpcUaString_new\<rparr>"

definition IssuedIdentityToken_opcUaBinaryEncode :: "IssuedIdentityToken \<Rightarrow> stream" where
  "IssuedIdentityToken_opcUaBinaryEncode this =
     OpcUaString_opcUaBinaryEncode (IssuedIdentityToken_policyId this)
     @ OpcUaByteString_opcUaBinaryEncode (IssuedIdentityToken_tokenData this)
     @ OpcUaString_opcUaBinaryEncode (IssuedIdentityToken_encryptionAlgorithm this)"

definition IssuedIdentityToken_opcUaBinaryDecode :: "IssuedIdentityToken decoder" where
  "IssuedIdentityToken_opcUaBinaryDecode is = do {
     (x1, is) \<leftarrow> OpcUaString_opcUaBinaryDecode is;
     (x2, is) \<leftarrow> OpcUaByteString_opcUaBinaryDecode is;
     (x3, is) \<leftarrow> OpcUaString_opcUaBinaryDecode is;
     Some (\<lparr>IssuedIdentityToken_policyId = x1, IssuedIdentityToken_tokenData = x2,
            IssuedIdentityToken_encryptionAlgorithm = x3\<rparr>, is) }"

definition IssuedIdentityToken_wf :: "IssuedIdentityToken \<Rightarrow> bool" where
  "IssuedIdentityToken_wf m \<longleftrightarrow>
     OpcUaString_wf (IssuedIdentityToken_policyId m)
     \<and> OpcUaByteString_wf (IssuedIdentityToken_tokenData m)
     \<and> OpcUaString_wf (IssuedIdentityToken_encryptionAlgorithm m)"

interpretation issuedidentitytoken_codec: codec IssuedIdentityToken_opcUaBinaryEncode
  IssuedIdentityToken_opcUaBinaryDecode IssuedIdentityToken_wf
  by unfold_locales
     (simp add: IssuedIdentityToken_opcUaBinaryEncode_def IssuedIdentityToken_opcUaBinaryDecode_def
        IssuedIdentityToken_wf_def codec_rt)

declare issuedidentitytoken_codec.dec_enc [codec_rt]

end
