(* ===== verification/NotificationMessages.thy ===== *)
theory NotificationMessages
  imports ValueMessages SubscriptionMessages SessionMessages
begin

text \<open>
  The messages of monitored items and notifications, of queries and of the activation of a session, which
  carry extensible parameters (\<^verbatim>\<open>OpcUaStackCore/ServiceSet\<close>).
\<close>

section \<open>Monitored items\<close>

record 'p MonitoringParameters =
  MonitoringParameters_clientHandle :: u32
  MonitoringParameters_samplingInterval :: u64
  MonitoringParameters_filter :: "'p ExtensibleParameter"
  MonitoringParameters_queueSize :: u32
  MonitoringParameters_discardOldest :: bool

definition MonitoringParameters_new :: "'p MonitoringParameters" where
  "MonitoringParameters_new =
     \<lparr>MonitoringParameters_clientHandle = 0,
       MonitoringParameters_samplingInterval = 0x407F400000000000,
       MonitoringParameters_filter = ExtensibleParameter_new, MonitoringParameters_queueSize = 1,
       MonitoringParameters_discardOldest = True\<rparr>"

definition MonitoringParameters_opcUaBinaryEncode ::
  "('e, 'p) Coders \<Rightarrow> 'p MonitoringParameters \<Rightarrow> stream option" where
  "MonitoringParameters_opcUaBinaryEncode cd this = do {
     b3 \<leftarrow> ExtensibleParameter_opcUaBinaryEncode cd (MonitoringParameters_filter this);
     Some (OpcUaUInt32_encode (MonitoringParameters_clientHandle this)
           @ OpcUaDouble_encode (MonitoringParameters_samplingInterval this)
           @ b3
           @ OpcUaUInt32_encode (MonitoringParameters_queueSize this)
           @ OpcUaBoolean_encode (MonitoringParameters_discardOldest this)) }"

definition MonitoringParameters_opcUaBinaryDecode :: "('e, 'p) Coders \<Rightarrow> 'p MonitoringParameters decoder" where
  "MonitoringParameters_opcUaBinaryDecode cd is = do {
     (x1, is) \<leftarrow> OpcUaUInt32_decode is;
     (x2, is) \<leftarrow> OpcUaDouble_decode is;
     (x3, is) \<leftarrow> ExtensibleParameter_opcUaBinaryDecode cd is;
     (x4, is) \<leftarrow> OpcUaUInt32_decode is;
     (x5, is) \<leftarrow> OpcUaBoolean_decode is;
     Some (\<lparr>MonitoringParameters_clientHandle = x1, MonitoringParameters_samplingInterval = x2,
            MonitoringParameters_filter = x3, MonitoringParameters_queueSize = x4,
            MonitoringParameters_discardOldest = x5\<rparr>, is) }"

definition MonitoringParameters_wf ::
  "('e, 'p) Coders \<Rightarrow> ('e, 'p) MessageLaws \<Rightarrow> 'p MonitoringParameters \<Rightarrow> bool" where
  "MonitoringParameters_wf cd laws m \<longleftrightarrow>
     ExtensibleParameter_wf cd laws (MonitoringParameters_filter m)"

context message_types
begin

lemma monitoringParameters_rt:
  "MonitoringParameters_wf cd laws m \<Longrightarrow> rt (MonitoringParameters_opcUaBinaryEncode cd) (MonitoringParameters_opcUaBinaryDecode cd) m"
  by (auto simp: rt_def MonitoringParameters_wf_def MonitoringParameters_opcUaBinaryEncode_def
      MonitoringParameters_opcUaBinaryDecode_def codec_rt
      elim!: rtE [OF parameter_rt])

end

record 'p MonitoredItemCreateRequestMessage =
  MonitoredItemCreateRequestMessage_itemToMonitor :: ReadValueId
  MonitoredItemCreateRequestMessage_monitoringMode :: u32
  MonitoredItemCreateRequestMessage_requestedParameters :: "'p MonitoringParameters"

definition MonitoredItemCreateRequestMessage_new :: "'p MonitoredItemCreateRequestMessage" where
  "MonitoredItemCreateRequestMessage_new =
     \<lparr>MonitoredItemCreateRequestMessage_itemToMonitor = ReadValueId_new,
       MonitoredItemCreateRequestMessage_monitoringMode = 2,
       MonitoredItemCreateRequestMessage_requestedParameters = MonitoringParameters_new\<rparr>"

definition MonitoredItemCreateRequestMessage_opcUaBinaryEncode ::
  "('e, 'p) Coders \<Rightarrow> 'p MonitoredItemCreateRequestMessage \<Rightarrow> stream option" where
  "MonitoredItemCreateRequestMessage_opcUaBinaryEncode cd this = do {
     b3 \<leftarrow> MonitoringParameters_opcUaBinaryEncode cd (MonitoredItemCreateRequestMessage_requestedParameters this);
     Some (ReadValueId_opcUaBinaryEncode (MonitoredItemCreateRequestMessage_itemToMonitor this)
           @ OpcUaUInt32_encode (MonitoredItemCreateRequestMessage_monitoringMode this)
           @ b3) }"

definition MonitoredItemCreateRequestMessage_opcUaBinaryDecode :: "('e, 'p) Coders \<Rightarrow> 'p MonitoredItemCreateRequestMessage decoder" where
  "MonitoredItemCreateRequestMessage_opcUaBinaryDecode cd is = do {
     (x1, is) \<leftarrow> ReadValueId_opcUaBinaryDecode is;
     (x2, is) \<leftarrow> OpcUaUInt32_decode is;
     (x3, is) \<leftarrow> MonitoringParameters_opcUaBinaryDecode cd is;
     Some (\<lparr>MonitoredItemCreateRequestMessage_itemToMonitor = x1,
            MonitoredItemCreateRequestMessage_monitoringMode = x2,
            MonitoredItemCreateRequestMessage_requestedParameters = x3\<rparr>, is) }"

definition MonitoredItemCreateRequestMessage_wf ::
  "('e, 'p) Coders \<Rightarrow> ('e, 'p) MessageLaws \<Rightarrow> 'p MonitoredItemCreateRequestMessage \<Rightarrow> bool" where
  "MonitoredItemCreateRequestMessage_wf cd laws m \<longleftrightarrow>
     ReadValueId_wf (MonitoredItemCreateRequestMessage_itemToMonitor m)
     \<and> MonitoringParameters_wf cd laws (MonitoredItemCreateRequestMessage_requestedParameters m)"

context message_types
begin

lemma monitoredItemCreateRequestMessage_rt:
  "MonitoredItemCreateRequestMessage_wf cd laws m \<Longrightarrow> rt (MonitoredItemCreateRequestMessage_opcUaBinaryEncode cd) (MonitoredItemCreateRequestMessage_opcUaBinaryDecode cd) m"
  by (auto simp: rt_def MonitoredItemCreateRequestMessage_wf_def
      MonitoredItemCreateRequestMessage_opcUaBinaryEncode_def
      MonitoredItemCreateRequestMessage_opcUaBinaryDecode_def codec_rt
      elim!: rtE [OF monitoringParameters_rt])

end

record 'p CreateMonitoredItemsRequest =
  CreateMonitoredItemsRequest_subscriptionId :: u32
  CreateMonitoredItemsRequest_timestampsToReturn :: u32
  CreateMonitoredItemsRequest_itemsToCreateArray :: "'p MonitoredItemCreateRequestMessage list"

definition CreateMonitoredItemsRequest_new :: "'p CreateMonitoredItemsRequest" where
  "CreateMonitoredItemsRequest_new =
     \<lparr>CreateMonitoredItemsRequest_subscriptionId = 0,
       CreateMonitoredItemsRequest_timestampsToReturn = 2,
       CreateMonitoredItemsRequest_itemsToCreateArray = []\<rparr>"

definition CreateMonitoredItemsRequest_opcUaBinaryEncode ::
  "('e, 'p) Coders \<Rightarrow> 'p CreateMonitoredItemsRequest \<Rightarrow> stream option" where
  "CreateMonitoredItemsRequest_opcUaBinaryEncode cd this = do {
     b3 \<leftarrow> parray_encode (MonitoredItemCreateRequestMessage_opcUaBinaryEncode cd) (CreateMonitoredItemsRequest_itemsToCreateArray this);
     Some (OpcUaUInt32_encode (CreateMonitoredItemsRequest_subscriptionId this)
           @ OpcUaUInt32_encode (CreateMonitoredItemsRequest_timestampsToReturn this)
           @ b3) }"

definition CreateMonitoredItemsRequest_opcUaBinaryDecode :: "('e, 'p) Coders \<Rightarrow> 'p CreateMonitoredItemsRequest decoder" where
  "CreateMonitoredItemsRequest_opcUaBinaryDecode cd is = do {
     (x1, is) \<leftarrow> OpcUaUInt32_decode is;
     (x2, is) \<leftarrow> OpcUaUInt32_decode is;
     (x3, is) \<leftarrow> array_decode (MonitoredItemCreateRequestMessage_opcUaBinaryDecode cd) is;
     Some (\<lparr>CreateMonitoredItemsRequest_subscriptionId = x1,
            CreateMonitoredItemsRequest_timestampsToReturn = x2,
            CreateMonitoredItemsRequest_itemsToCreateArray = x3\<rparr>, is) }"

definition CreateMonitoredItemsRequest_wf ::
  "('e, 'p) Coders \<Rightarrow> ('e, 'p) MessageLaws \<Rightarrow> 'p CreateMonitoredItemsRequest \<Rightarrow> bool" where
  "CreateMonitoredItemsRequest_wf cd laws m \<longleftrightarrow>
     array_wf (MonitoredItemCreateRequestMessage_wf cd laws) (CreateMonitoredItemsRequest_itemsToCreateArray m)"

context message_types
begin

lemma createMonitoredItemsRequest_rt:
  "CreateMonitoredItemsRequest_wf cd laws m \<Longrightarrow> rt (CreateMonitoredItemsRequest_opcUaBinaryEncode cd) (CreateMonitoredItemsRequest_opcUaBinaryDecode cd) m"
  by (auto simp: rt_def CreateMonitoredItemsRequest_wf_def
      CreateMonitoredItemsRequest_opcUaBinaryEncode_def
      CreateMonitoredItemsRequest_opcUaBinaryDecode_def codec_rt
      elim!: rtE [OF parray_rt [OF _ monitoredItemCreateRequestMessage_rt]])

end

record 'p MonitoredItemCreateResultMessage =
  MonitoredItemCreateResultMessage_statusCode :: u32
  MonitoredItemCreateResultMessage_monitoredItemId :: u32
  MonitoredItemCreateResultMessage_revisedSamplingInterval :: u64
  MonitoredItemCreateResultMessage_revisedQueueSize :: u32
  MonitoredItemCreateResultMessage_filterResult :: "'p ExtensibleParameter"

definition MonitoredItemCreateResultMessage_new :: "'p MonitoredItemCreateResultMessage" where
  "MonitoredItemCreateResultMessage_new =
     \<lparr>MonitoredItemCreateResultMessage_statusCode = 0,
       MonitoredItemCreateResultMessage_monitoredItemId = 0,
       MonitoredItemCreateResultMessage_revisedSamplingInterval = 0,
       MonitoredItemCreateResultMessage_revisedQueueSize = 0,
       MonitoredItemCreateResultMessage_filterResult = ExtensibleParameter_new\<rparr>"

definition MonitoredItemCreateResultMessage_opcUaBinaryEncode ::
  "('e, 'p) Coders \<Rightarrow> 'p MonitoredItemCreateResultMessage \<Rightarrow> stream option" where
  "MonitoredItemCreateResultMessage_opcUaBinaryEncode cd this = do {
     b5 \<leftarrow> ExtensibleParameter_opcUaBinaryEncode cd (MonitoredItemCreateResultMessage_filterResult this);
     Some (OpcUaUInt32_encode (MonitoredItemCreateResultMessage_statusCode this)
           @ OpcUaUInt32_encode (MonitoredItemCreateResultMessage_monitoredItemId this)
           @ OpcUaDouble_encode (MonitoredItemCreateResultMessage_revisedSamplingInterval this)
           @ OpcUaUInt32_encode (MonitoredItemCreateResultMessage_revisedQueueSize this)
           @ b5) }"

definition MonitoredItemCreateResultMessage_opcUaBinaryDecode :: "('e, 'p) Coders \<Rightarrow> 'p MonitoredItemCreateResultMessage decoder" where
  "MonitoredItemCreateResultMessage_opcUaBinaryDecode cd is = do {
     (x1, is) \<leftarrow> OpcUaUInt32_decode is;
     (x2, is) \<leftarrow> OpcUaUInt32_decode is;
     (x3, is) \<leftarrow> OpcUaDouble_decode is;
     (x4, is) \<leftarrow> OpcUaUInt32_decode is;
     (x5, is) \<leftarrow> ExtensibleParameter_opcUaBinaryDecode cd is;
     Some (\<lparr>MonitoredItemCreateResultMessage_statusCode = x1,
            MonitoredItemCreateResultMessage_monitoredItemId = x2,
            MonitoredItemCreateResultMessage_revisedSamplingInterval = x3,
            MonitoredItemCreateResultMessage_revisedQueueSize = x4,
            MonitoredItemCreateResultMessage_filterResult = x5\<rparr>, is) }"

definition MonitoredItemCreateResultMessage_wf ::
  "('e, 'p) Coders \<Rightarrow> ('e, 'p) MessageLaws \<Rightarrow> 'p MonitoredItemCreateResultMessage \<Rightarrow> bool" where
  "MonitoredItemCreateResultMessage_wf cd laws m \<longleftrightarrow>
     ExtensibleParameter_wf cd laws (MonitoredItemCreateResultMessage_filterResult m)"

context message_types
begin

lemma monitoredItemCreateResultMessage_rt:
  "MonitoredItemCreateResultMessage_wf cd laws m \<Longrightarrow> rt (MonitoredItemCreateResultMessage_opcUaBinaryEncode cd) (MonitoredItemCreateResultMessage_opcUaBinaryDecode cd) m"
  by (auto simp: rt_def MonitoredItemCreateResultMessage_wf_def
      MonitoredItemCreateResultMessage_opcUaBinaryEncode_def
      MonitoredItemCreateResultMessage_opcUaBinaryDecode_def codec_rt
      elim!: rtE [OF parameter_rt])

end

record 'p CreateMonitoredItemsResponse =
  CreateMonitoredItemsResponse_resultArray :: "'p MonitoredItemCreateResultMessage list"
  CreateMonitoredItemsResponse_diagnosticInfoArray :: "OpcUaDiagnosticInfo list"

definition CreateMonitoredItemsResponse_new :: "'p CreateMonitoredItemsResponse" where
  "CreateMonitoredItemsResponse_new =
     \<lparr>CreateMonitoredItemsResponse_resultArray = [],
       CreateMonitoredItemsResponse_diagnosticInfoArray = []\<rparr>"

definition CreateMonitoredItemsResponse_opcUaBinaryEncode ::
  "('e, 'p) Coders \<Rightarrow> 'p CreateMonitoredItemsResponse \<Rightarrow> stream option" where
  "CreateMonitoredItemsResponse_opcUaBinaryEncode cd this = do {
     b1 \<leftarrow> parray_encode (MonitoredItemCreateResultMessage_opcUaBinaryEncode cd) (CreateMonitoredItemsResponse_resultArray this);
     Some (b1
           @ array_encode OpcUaDiagnosticInfo_opcUaBinaryEncode (CreateMonitoredItemsResponse_diagnosticInfoArray this)) }"

definition CreateMonitoredItemsResponse_opcUaBinaryDecode :: "('e, 'p) Coders \<Rightarrow> 'p CreateMonitoredItemsResponse decoder" where
  "CreateMonitoredItemsResponse_opcUaBinaryDecode cd is = do {
     (x1, is) \<leftarrow> array_decode (MonitoredItemCreateResultMessage_opcUaBinaryDecode cd) is;
     (x2, is) \<leftarrow> array_decode (OpcUaDiagnosticInfo_opcUaBinaryDecode OpcUaDiagnosticInfo_new) is;
     Some (\<lparr>CreateMonitoredItemsResponse_resultArray = x1,
            CreateMonitoredItemsResponse_diagnosticInfoArray = x2\<rparr>, is) }"

definition CreateMonitoredItemsResponse_wf ::
  "('e, 'p) Coders \<Rightarrow> ('e, 'p) MessageLaws \<Rightarrow> 'p CreateMonitoredItemsResponse \<Rightarrow> bool" where
  "CreateMonitoredItemsResponse_wf cd laws m \<longleftrightarrow>
     array_wf (MonitoredItemCreateResultMessage_wf cd laws) (CreateMonitoredItemsResponse_resultArray m)
     \<and> array_wf (\<lambda>d. OpcUaString_wf (di_additionalInfo d)) (CreateMonitoredItemsResponse_diagnosticInfoArray m)"

context message_types
begin

lemma createMonitoredItemsResponse_rt:
  "CreateMonitoredItemsResponse_wf cd laws m \<Longrightarrow> rt (CreateMonitoredItemsResponse_opcUaBinaryEncode cd) (CreateMonitoredItemsResponse_opcUaBinaryDecode cd) m"
  by (auto simp: rt_def CreateMonitoredItemsResponse_wf_def
      CreateMonitoredItemsResponse_opcUaBinaryEncode_def
      CreateMonitoredItemsResponse_opcUaBinaryDecode_def codec_rt
      elim!: rtE [OF parray_rt [OF _ monitoredItemCreateResultMessage_rt]])

end

record 'p MonitoredItemModifyRequest =
  MonitoredItemModifyRequest_monitoredItemId :: u32
  MonitoredItemModifyRequest_requestedParameters :: "'p MonitoringParameters"

definition MonitoredItemModifyRequest_new :: "'p MonitoredItemModifyRequest" where
  "MonitoredItemModifyRequest_new =
     \<lparr>MonitoredItemModifyRequest_monitoredItemId = 0,
       MonitoredItemModifyRequest_requestedParameters = MonitoringParameters_new\<rparr>"

definition MonitoredItemModifyRequest_opcUaBinaryEncode ::
  "('e, 'p) Coders \<Rightarrow> 'p MonitoredItemModifyRequest \<Rightarrow> stream option" where
  "MonitoredItemModifyRequest_opcUaBinaryEncode cd this = do {
     b2 \<leftarrow> MonitoringParameters_opcUaBinaryEncode cd (MonitoredItemModifyRequest_requestedParameters this);
     Some (OpcUaUInt32_encode (MonitoredItemModifyRequest_monitoredItemId this)
           @ b2) }"

definition MonitoredItemModifyRequest_opcUaBinaryDecode :: "('e, 'p) Coders \<Rightarrow> 'p MonitoredItemModifyRequest decoder" where
  "MonitoredItemModifyRequest_opcUaBinaryDecode cd is = do {
     (x1, is) \<leftarrow> OpcUaUInt32_decode is;
     (x2, is) \<leftarrow> MonitoringParameters_opcUaBinaryDecode cd is;
     Some (\<lparr>MonitoredItemModifyRequest_monitoredItemId = x1,
            MonitoredItemModifyRequest_requestedParameters = x2\<rparr>, is) }"

definition MonitoredItemModifyRequest_wf ::
  "('e, 'p) Coders \<Rightarrow> ('e, 'p) MessageLaws \<Rightarrow> 'p MonitoredItemModifyRequest \<Rightarrow> bool" where
  "MonitoredItemModifyRequest_wf cd laws m \<longleftrightarrow>
     MonitoringParameters_wf cd laws (MonitoredItemModifyRequest_requestedParameters m)"

context message_types
begin

lemma monitoredItemModifyRequest_rt:
  "MonitoredItemModifyRequest_wf cd laws m \<Longrightarrow> rt (MonitoredItemModifyRequest_opcUaBinaryEncode cd) (MonitoredItemModifyRequest_opcUaBinaryDecode cd) m"
  by (auto simp: rt_def MonitoredItemModifyRequest_wf_def
      MonitoredItemModifyRequest_opcUaBinaryEncode_def
      MonitoredItemModifyRequest_opcUaBinaryDecode_def codec_rt
      elim!: rtE [OF monitoringParameters_rt])

end

record 'p ModifyMonitoredItemsRequest =
  ModifyMonitoredItemsRequest_subscriptionId :: u32
  ModifyMonitoredItemsRequest_timestampsToReturn :: u32
  ModifyMonitoredItemsRequest_itemsToModifyArray :: "'p MonitoredItemModifyRequest list"

definition ModifyMonitoredItemsRequest_new :: "'p ModifyMonitoredItemsRequest" where
  "ModifyMonitoredItemsRequest_new =
     \<lparr>ModifyMonitoredItemsRequest_subscriptionId = 0,
       ModifyMonitoredItemsRequest_timestampsToReturn = 0,
       ModifyMonitoredItemsRequest_itemsToModifyArray = []\<rparr>"

definition ModifyMonitoredItemsRequest_opcUaBinaryEncode ::
  "('e, 'p) Coders \<Rightarrow> 'p ModifyMonitoredItemsRequest \<Rightarrow> stream option" where
  "ModifyMonitoredItemsRequest_opcUaBinaryEncode cd this = do {
     b3 \<leftarrow> parray_encode (MonitoredItemModifyRequest_opcUaBinaryEncode cd) (ModifyMonitoredItemsRequest_itemsToModifyArray this);
     Some (OpcUaUInt32_encode (ModifyMonitoredItemsRequest_subscriptionId this)
           @ OpcUaUInt32_encode (ModifyMonitoredItemsRequest_timestampsToReturn this)
           @ b3) }"

definition ModifyMonitoredItemsRequest_opcUaBinaryDecode :: "('e, 'p) Coders \<Rightarrow> 'p ModifyMonitoredItemsRequest decoder" where
  "ModifyMonitoredItemsRequest_opcUaBinaryDecode cd is = do {
     (x1, is) \<leftarrow> OpcUaUInt32_decode is;
     (x2, is) \<leftarrow> OpcUaUInt32_decode is;
     (x3, is) \<leftarrow> array_decode (MonitoredItemModifyRequest_opcUaBinaryDecode cd) is;
     Some (\<lparr>ModifyMonitoredItemsRequest_subscriptionId = x1,
            ModifyMonitoredItemsRequest_timestampsToReturn = x2,
            ModifyMonitoredItemsRequest_itemsToModifyArray = x3\<rparr>, is) }"

definition ModifyMonitoredItemsRequest_wf ::
  "('e, 'p) Coders \<Rightarrow> ('e, 'p) MessageLaws \<Rightarrow> 'p ModifyMonitoredItemsRequest \<Rightarrow> bool" where
  "ModifyMonitoredItemsRequest_wf cd laws m \<longleftrightarrow>
     array_wf (MonitoredItemModifyRequest_wf cd laws) (ModifyMonitoredItemsRequest_itemsToModifyArray m)"

context message_types
begin

lemma modifyMonitoredItemsRequest_rt:
  "ModifyMonitoredItemsRequest_wf cd laws m \<Longrightarrow> rt (ModifyMonitoredItemsRequest_opcUaBinaryEncode cd) (ModifyMonitoredItemsRequest_opcUaBinaryDecode cd) m"
  by (auto simp: rt_def ModifyMonitoredItemsRequest_wf_def
      ModifyMonitoredItemsRequest_opcUaBinaryEncode_def
      ModifyMonitoredItemsRequest_opcUaBinaryDecode_def codec_rt
      elim!: rtE [OF parray_rt [OF _ monitoredItemModifyRequest_rt]])

end

record 'p MonitoredItemModifyResult =
  MonitoredItemModifyResult_statusCode :: u32
  MonitoredItemModifyResult_revisedSamplingInterval :: u64
  MonitoredItemModifyResult_revisedQueueSize :: u32
  MonitoredItemModifyResult_filterResult :: "'p ExtensibleParameter"

definition MonitoredItemModifyResult_new :: "'p MonitoredItemModifyResult" where
  "MonitoredItemModifyResult_new =
     \<lparr>MonitoredItemModifyResult_statusCode = 0,
       MonitoredItemModifyResult_revisedSamplingInterval = 0,
       MonitoredItemModifyResult_revisedQueueSize = 0,
       MonitoredItemModifyResult_filterResult = ExtensibleParameter_new\<rparr>"

definition MonitoredItemModifyResult_opcUaBinaryEncode ::
  "('e, 'p) Coders \<Rightarrow> 'p MonitoredItemModifyResult \<Rightarrow> stream option" where
  "MonitoredItemModifyResult_opcUaBinaryEncode cd this = do {
     b4 \<leftarrow> ExtensibleParameter_opcUaBinaryEncode cd (MonitoredItemModifyResult_filterResult this);
     Some (OpcUaUInt32_encode (MonitoredItemModifyResult_statusCode this)
           @ OpcUaDouble_encode (MonitoredItemModifyResult_revisedSamplingInterval this)
           @ OpcUaUInt32_encode (MonitoredItemModifyResult_revisedQueueSize this)
           @ b4) }"

definition MonitoredItemModifyResult_opcUaBinaryDecode :: "('e, 'p) Coders \<Rightarrow> 'p MonitoredItemModifyResult decoder" where
  "MonitoredItemModifyResult_opcUaBinaryDecode cd is = do {
     (x1, is) \<leftarrow> OpcUaUInt32_decode is;
     (x2, is) \<leftarrow> OpcUaDouble_decode is;
     (x3, is) \<leftarrow> OpcUaUInt32_decode is;
     (x4, is) \<leftarrow> ExtensibleParameter_opcUaBinaryDecode cd is;
     Some (\<lparr>MonitoredItemModifyResult_statusCode = x1,
            MonitoredItemModifyResult_revisedSamplingInterval = x2,
            MonitoredItemModifyResult_revisedQueueSize = x3,
            MonitoredItemModifyResult_filterResult = x4\<rparr>, is) }"

definition MonitoredItemModifyResult_wf ::
  "('e, 'p) Coders \<Rightarrow> ('e, 'p) MessageLaws \<Rightarrow> 'p MonitoredItemModifyResult \<Rightarrow> bool" where
  "MonitoredItemModifyResult_wf cd laws m \<longleftrightarrow>
     ExtensibleParameter_wf cd laws (MonitoredItemModifyResult_filterResult m)"

context message_types
begin

lemma monitoredItemModifyResult_rt:
  "MonitoredItemModifyResult_wf cd laws m \<Longrightarrow> rt (MonitoredItemModifyResult_opcUaBinaryEncode cd) (MonitoredItemModifyResult_opcUaBinaryDecode cd) m"
  by (auto simp: rt_def MonitoredItemModifyResult_wf_def
      MonitoredItemModifyResult_opcUaBinaryEncode_def
      MonitoredItemModifyResult_opcUaBinaryDecode_def codec_rt
      elim!: rtE [OF parameter_rt])

end

record 'p ModifyMonitoredItemsResponse =
  ModifyMonitoredItemsResponse_resultArray :: "'p MonitoredItemModifyResult list"
  ModifyMonitoredItemsResponse_diagnosticInfoArray :: "OpcUaDiagnosticInfo list"

definition ModifyMonitoredItemsResponse_new :: "'p ModifyMonitoredItemsResponse" where
  "ModifyMonitoredItemsResponse_new =
     \<lparr>ModifyMonitoredItemsResponse_resultArray = [],
       ModifyMonitoredItemsResponse_diagnosticInfoArray = []\<rparr>"

definition ModifyMonitoredItemsResponse_opcUaBinaryEncode ::
  "('e, 'p) Coders \<Rightarrow> 'p ModifyMonitoredItemsResponse \<Rightarrow> stream option" where
  "ModifyMonitoredItemsResponse_opcUaBinaryEncode cd this = do {
     b1 \<leftarrow> parray_encode (MonitoredItemModifyResult_opcUaBinaryEncode cd) (ModifyMonitoredItemsResponse_resultArray this);
     Some (b1
           @ array_encode OpcUaDiagnosticInfo_opcUaBinaryEncode (ModifyMonitoredItemsResponse_diagnosticInfoArray this)) }"

definition ModifyMonitoredItemsResponse_opcUaBinaryDecode :: "('e, 'p) Coders \<Rightarrow> 'p ModifyMonitoredItemsResponse decoder" where
  "ModifyMonitoredItemsResponse_opcUaBinaryDecode cd is = do {
     (x1, is) \<leftarrow> array_decode (MonitoredItemModifyResult_opcUaBinaryDecode cd) is;
     (x2, is) \<leftarrow> array_decode (OpcUaDiagnosticInfo_opcUaBinaryDecode OpcUaDiagnosticInfo_new) is;
     Some (\<lparr>ModifyMonitoredItemsResponse_resultArray = x1,
            ModifyMonitoredItemsResponse_diagnosticInfoArray = x2\<rparr>, is) }"

definition ModifyMonitoredItemsResponse_wf ::
  "('e, 'p) Coders \<Rightarrow> ('e, 'p) MessageLaws \<Rightarrow> 'p ModifyMonitoredItemsResponse \<Rightarrow> bool" where
  "ModifyMonitoredItemsResponse_wf cd laws m \<longleftrightarrow>
     array_wf (MonitoredItemModifyResult_wf cd laws) (ModifyMonitoredItemsResponse_resultArray m)
     \<and> array_wf (\<lambda>d. OpcUaString_wf (di_additionalInfo d)) (ModifyMonitoredItemsResponse_diagnosticInfoArray m)"

context message_types
begin

lemma modifyMonitoredItemsResponse_rt:
  "ModifyMonitoredItemsResponse_wf cd laws m \<Longrightarrow> rt (ModifyMonitoredItemsResponse_opcUaBinaryEncode cd) (ModifyMonitoredItemsResponse_opcUaBinaryDecode cd) m"
  by (auto simp: rt_def ModifyMonitoredItemsResponse_wf_def
      ModifyMonitoredItemsResponse_opcUaBinaryEncode_def
      ModifyMonitoredItemsResponse_opcUaBinaryDecode_def codec_rt
      elim!: rtE [OF parray_rt [OF _ monitoredItemModifyResult_rt]])

end

section \<open>Notifications\<close>

record 'e MonitoredItemNotificationMessage =
  MonitoredItemNotificationMessage_clientHandle :: u32
  MonitoredItemNotificationMessage_dataValue :: "'e OpcUaDataValue"

definition MonitoredItemNotificationMessage_new :: "'e MonitoredItemNotificationMessage" where
  "MonitoredItemNotificationMessage_new =
     \<lparr>MonitoredItemNotificationMessage_clientHandle = 0,
       MonitoredItemNotificationMessage_dataValue = OpcUaDataValue_new\<rparr>"

definition MonitoredItemNotificationMessage_opcUaBinaryEncode ::
  "('e, 'p) Coders \<Rightarrow> 'e MonitoredItemNotificationMessage \<Rightarrow> stream option" where
  "MonitoredItemNotificationMessage_opcUaBinaryEncode cd this = do {
     b2 \<leftarrow> OpcUaDataValue_opcUaBinaryEncode (cd_objects cd) (MonitoredItemNotificationMessage_dataValue this);
     Some (OpcUaUInt32_encode (MonitoredItemNotificationMessage_clientHandle this)
           @ b2) }"

definition MonitoredItemNotificationMessage_opcUaBinaryDecode :: "('e, 'p) Coders \<Rightarrow> 'e MonitoredItemNotificationMessage decoder" where
  "MonitoredItemNotificationMessage_opcUaBinaryDecode cd is = do {
     (x1, is) \<leftarrow> OpcUaUInt32_decode is;
     (x2, is) \<leftarrow> OpcUaDataValue_opcUaBinaryDecode (cd_objects cd) (cd_objectMap cd) OpcUaDataValue_new is;
     Some (\<lparr>MonitoredItemNotificationMessage_clientHandle = x1,
            MonitoredItemNotificationMessage_dataValue = x2\<rparr>, is) }"

definition MonitoredItemNotificationMessage_wf ::
  "('e, 'p) Coders \<Rightarrow> ('e, 'p) MessageLaws \<Rightarrow> 'e MonitoredItemNotificationMessage \<Rightarrow> bool" where
  "MonitoredItemNotificationMessage_wf cd laws m \<longleftrightarrow>
     DataValue_wf cd laws (MonitoredItemNotificationMessage_dataValue m)"

context message_types
begin

lemma monitoredItemNotificationMessage_rt:
  "MonitoredItemNotificationMessage_wf cd laws m \<Longrightarrow> rt (MonitoredItemNotificationMessage_opcUaBinaryEncode cd) (MonitoredItemNotificationMessage_opcUaBinaryDecode cd) m"
  by (auto simp: rt_def MonitoredItemNotificationMessage_wf_def
      MonitoredItemNotificationMessage_opcUaBinaryEncode_def
      MonitoredItemNotificationMessage_opcUaBinaryDecode_def codec_rt
      elim!: rtE [OF dataValue_rt])

end

record 'e DataChangeNotification =
  DataChangeNotification_monitoredItemNotificationArray :: "'e MonitoredItemNotificationMessage list"
  DataChangeNotification_diagnosticInfoArray :: "OpcUaDiagnosticInfo list"

definition DataChangeNotification_new :: "'e DataChangeNotification" where
  "DataChangeNotification_new =
     \<lparr>DataChangeNotification_monitoredItemNotificationArray = [],
       DataChangeNotification_diagnosticInfoArray = []\<rparr>"

definition DataChangeNotification_opcUaBinaryEncode ::
  "('e, 'p) Coders \<Rightarrow> 'e DataChangeNotification \<Rightarrow> stream option" where
  "DataChangeNotification_opcUaBinaryEncode cd this = do {
     b1 \<leftarrow> parray_encode (MonitoredItemNotificationMessage_opcUaBinaryEncode cd) (DataChangeNotification_monitoredItemNotificationArray this);
     Some (b1
           @ array_encode OpcUaDiagnosticInfo_opcUaBinaryEncode (DataChangeNotification_diagnosticInfoArray this)) }"

definition DataChangeNotification_opcUaBinaryDecode :: "('e, 'p) Coders \<Rightarrow> 'e DataChangeNotification decoder" where
  "DataChangeNotification_opcUaBinaryDecode cd is = do {
     (x1, is) \<leftarrow> array_decode (MonitoredItemNotificationMessage_opcUaBinaryDecode cd) is;
     (x2, is) \<leftarrow> array_decode (OpcUaDiagnosticInfo_opcUaBinaryDecode OpcUaDiagnosticInfo_new) is;
     Some (\<lparr>DataChangeNotification_monitoredItemNotificationArray = x1,
            DataChangeNotification_diagnosticInfoArray = x2\<rparr>, is) }"

definition DataChangeNotification_wf ::
  "('e, 'p) Coders \<Rightarrow> ('e, 'p) MessageLaws \<Rightarrow> 'e DataChangeNotification \<Rightarrow> bool" where
  "DataChangeNotification_wf cd laws m \<longleftrightarrow>
     array_wf (MonitoredItemNotificationMessage_wf cd laws) (DataChangeNotification_monitoredItemNotificationArray m)
     \<and> array_wf (\<lambda>d. OpcUaString_wf (di_additionalInfo d)) (DataChangeNotification_diagnosticInfoArray m)"

context message_types
begin

lemma dataChangeNotification_rt:
  "DataChangeNotification_wf cd laws m \<Longrightarrow> rt (DataChangeNotification_opcUaBinaryEncode cd) (DataChangeNotification_opcUaBinaryDecode cd) m"
  by (auto simp: rt_def DataChangeNotification_wf_def DataChangeNotification_opcUaBinaryEncode_def
      DataChangeNotification_opcUaBinaryDecode_def codec_rt
      elim!: rtE [OF parray_rt [OF _ monitoredItemNotificationMessage_rt]])

end

record 'e EventNotificationList =
  EventNotificationList_eventFieldListArray :: "'e EventFieldListMessage list"

definition EventNotificationList_new :: "'e EventNotificationList" where
  "EventNotificationList_new =
     \<lparr>EventNotificationList_eventFieldListArray = []\<rparr>"

definition EventNotificationList_opcUaBinaryEncode ::
  "('e, 'p) Coders \<Rightarrow> 'e EventNotificationList \<Rightarrow> stream option" where
  "EventNotificationList_opcUaBinaryEncode cd this = do {
     b1 \<leftarrow> parray_encode (EventFieldListMessage_opcUaBinaryEncode cd) (EventNotificationList_eventFieldListArray this);
     Some (b1) }"

definition EventNotificationList_opcUaBinaryDecode :: "('e, 'p) Coders \<Rightarrow> 'e EventNotificationList decoder" where
  "EventNotificationList_opcUaBinaryDecode cd is = do {
     (x1, is) \<leftarrow> array_decode (EventFieldListMessage_opcUaBinaryDecode cd) is;
     Some (\<lparr>EventNotificationList_eventFieldListArray = x1\<rparr>, is) }"

definition EventNotificationList_wf ::
  "('e, 'p) Coders \<Rightarrow> ('e, 'p) MessageLaws \<Rightarrow> 'e EventNotificationList \<Rightarrow> bool" where
  "EventNotificationList_wf cd laws m \<longleftrightarrow>
     array_wf (EventFieldListMessage_wf cd laws) (EventNotificationList_eventFieldListArray m)"

context message_types
begin

lemma eventNotificationList_rt:
  "EventNotificationList_wf cd laws m \<Longrightarrow> rt (EventNotificationList_opcUaBinaryEncode cd) (EventNotificationList_opcUaBinaryDecode cd) m"
  by (auto simp: rt_def EventNotificationList_wf_def EventNotificationList_opcUaBinaryEncode_def
      EventNotificationList_opcUaBinaryDecode_def codec_rt
      elim!: rtE [OF parray_rt [OF _ eventFieldListMessage_rt]])

end

record 'p NotificationMessage =
  NotificationMessage_sequenceNumber :: u32
  NotificationMessage_publishTime :: OpcUaDateTime
  NotificationMessage_notificationDataArray :: "'p ExtensibleParameter list"

definition NotificationMessage_new :: "'p NotificationMessage" where
  "NotificationMessage_new =
     \<lparr>NotificationMessage_sequenceNumber = 0, NotificationMessage_publishTime = 0,
       NotificationMessage_notificationDataArray = []\<rparr>"

definition NotificationMessage_opcUaBinaryEncode ::
  "('e, 'p) Coders \<Rightarrow> 'p NotificationMessage \<Rightarrow> stream option" where
  "NotificationMessage_opcUaBinaryEncode cd this = do {
     b3 \<leftarrow> parray_encode (ExtensibleParameter_opcUaBinaryEncode cd) (NotificationMessage_notificationDataArray this);
     Some (OpcUaUInt32_encode (NotificationMessage_sequenceNumber this)
           @ OpcUaDateTime_opcUaBinaryEncode (NotificationMessage_publishTime this)
           @ b3) }"

definition NotificationMessage_opcUaBinaryDecode :: "('e, 'p) Coders \<Rightarrow> 'p NotificationMessage decoder" where
  "NotificationMessage_opcUaBinaryDecode cd is = do {
     (x1, is) \<leftarrow> OpcUaUInt32_decode is;
     (x2, is) \<leftarrow> OpcUaDateTime_opcUaBinaryDecode is;
     (x3, is) \<leftarrow> array_decode (ExtensibleParameter_opcUaBinaryDecode cd) is;
     Some (\<lparr>NotificationMessage_sequenceNumber = x1, NotificationMessage_publishTime = x2,
            NotificationMessage_notificationDataArray = x3\<rparr>, is) }"

definition NotificationMessage_wf ::
  "('e, 'p) Coders \<Rightarrow> ('e, 'p) MessageLaws \<Rightarrow> 'p NotificationMessage \<Rightarrow> bool" where
  "NotificationMessage_wf cd laws m \<longleftrightarrow>
     array_wf (ExtensibleParameter_wf cd laws) (NotificationMessage_notificationDataArray m)"

context message_types
begin

lemma notificationMessage_rt:
  "NotificationMessage_wf cd laws m \<Longrightarrow> rt (NotificationMessage_opcUaBinaryEncode cd) (NotificationMessage_opcUaBinaryDecode cd) m"
  by (auto simp: rt_def NotificationMessage_wf_def NotificationMessage_opcUaBinaryEncode_def
      NotificationMessage_opcUaBinaryDecode_def codec_rt
      elim!: rtE [OF parray_rt [OF _ parameter_rt]])

end

record 'p PublishResponseMessage =
  PublishResponseMessage_subscriptionId :: u32
  PublishResponseMessage_availableSequenceNumberArray :: "u32 list"
  PublishResponseMessage_moreNotifications :: bool
  PublishResponseMessage_notficiationMessage :: "'p NotificationMessage"
  PublishResponseMessage_statusCodeArray :: "u32 list"
  PublishResponseMessage_diagnosticInfoArray :: "OpcUaDiagnosticInfo list"

definition PublishResponseMessage_new :: "'p PublishResponseMessage" where
  "PublishResponseMessage_new =
     \<lparr>PublishResponseMessage_subscriptionId = 0,
       PublishResponseMessage_availableSequenceNumberArray = [],
       PublishResponseMessage_moreNotifications = False,
       PublishResponseMessage_notficiationMessage = NotificationMessage_new,
       PublishResponseMessage_statusCodeArray = [],
       PublishResponseMessage_diagnosticInfoArray = []\<rparr>"

definition PublishResponseMessage_opcUaBinaryEncode ::
  "('e, 'p) Coders \<Rightarrow> 'p PublishResponseMessage \<Rightarrow> stream option" where
  "PublishResponseMessage_opcUaBinaryEncode cd this = do {
     b4 \<leftarrow> NotificationMessage_opcUaBinaryEncode cd (PublishResponseMessage_notficiationMessage this);
     Some (OpcUaUInt32_encode (PublishResponseMessage_subscriptionId this)
           @ array_encode OpcUaUInt32_encode (PublishResponseMessage_availableSequenceNumberArray this)
           @ OpcUaBoolean_encode (PublishResponseMessage_moreNotifications this)
           @ b4
           @ array_encode OpcUaInt32_encode (PublishResponseMessage_statusCodeArray this)
           @ array_encode OpcUaDiagnosticInfo_opcUaBinaryEncode (PublishResponseMessage_diagnosticInfoArray this)) }"

definition PublishResponseMessage_opcUaBinaryDecode :: "('e, 'p) Coders \<Rightarrow> 'p PublishResponseMessage decoder" where
  "PublishResponseMessage_opcUaBinaryDecode cd is = do {
     (x1, is) \<leftarrow> OpcUaUInt32_decode is;
     (x2, is) \<leftarrow> array_decode OpcUaUInt32_decode is;
     (x3, is) \<leftarrow> OpcUaBoolean_decode is;
     (x4, is) \<leftarrow> NotificationMessage_opcUaBinaryDecode cd is;
     (x5, is) \<leftarrow> array_decode OpcUaInt32_decode is;
     (x6, is) \<leftarrow> array_decode (OpcUaDiagnosticInfo_opcUaBinaryDecode OpcUaDiagnosticInfo_new) is;
     Some (\<lparr>PublishResponseMessage_subscriptionId = x1,
            PublishResponseMessage_availableSequenceNumberArray = x2,
            PublishResponseMessage_moreNotifications = x3,
            PublishResponseMessage_notficiationMessage = x4,
            PublishResponseMessage_statusCodeArray = x5,
            PublishResponseMessage_diagnosticInfoArray = x6\<rparr>, is) }"

definition PublishResponseMessage_wf ::
  "('e, 'p) Coders \<Rightarrow> ('e, 'p) MessageLaws \<Rightarrow> 'p PublishResponseMessage \<Rightarrow> bool" where
  "PublishResponseMessage_wf cd laws m \<longleftrightarrow>
     array_wf (\<lambda>_. True) (PublishResponseMessage_availableSequenceNumberArray m)
     \<and> NotificationMessage_wf cd laws (PublishResponseMessage_notficiationMessage m)
     \<and> array_wf (\<lambda>_. True) (PublishResponseMessage_statusCodeArray m)
     \<and> array_wf (\<lambda>d. OpcUaString_wf (di_additionalInfo d)) (PublishResponseMessage_diagnosticInfoArray m)"

context message_types
begin

lemma publishResponseMessage_rt:
  "PublishResponseMessage_wf cd laws m \<Longrightarrow> rt (PublishResponseMessage_opcUaBinaryEncode cd) (PublishResponseMessage_opcUaBinaryDecode cd) m"
  by (auto simp: rt_def PublishResponseMessage_wf_def PublishResponseMessage_opcUaBinaryEncode_def
      PublishResponseMessage_opcUaBinaryDecode_def codec_rt
      elim!: rtE [OF notificationMessage_rt])

end

record 'p RepublishResponse =
  RepublishResponse_notificationMessage :: "'p NotificationMessage"

definition RepublishResponse_new :: "'p RepublishResponse" where
  "RepublishResponse_new =
     \<lparr>RepublishResponse_notificationMessage = NotificationMessage_new\<rparr>"

definition RepublishResponse_opcUaBinaryEncode ::
  "('e, 'p) Coders \<Rightarrow> 'p RepublishResponse \<Rightarrow> stream option" where
  "RepublishResponse_opcUaBinaryEncode cd this = do {
     b1 \<leftarrow> NotificationMessage_opcUaBinaryEncode cd (RepublishResponse_notificationMessage this);
     Some (b1) }"

definition RepublishResponse_opcUaBinaryDecode :: "('e, 'p) Coders \<Rightarrow> 'p RepublishResponse decoder" where
  "RepublishResponse_opcUaBinaryDecode cd is = do {
     (x1, is) \<leftarrow> NotificationMessage_opcUaBinaryDecode cd is;
     Some (\<lparr>RepublishResponse_notificationMessage = x1\<rparr>, is) }"

definition RepublishResponse_wf ::
  "('e, 'p) Coders \<Rightarrow> ('e, 'p) MessageLaws \<Rightarrow> 'p RepublishResponse \<Rightarrow> bool" where
  "RepublishResponse_wf cd laws m \<longleftrightarrow>
     NotificationMessage_wf cd laws (RepublishResponse_notificationMessage m)"

context message_types
begin

lemma republishResponse_rt:
  "RepublishResponse_wf cd laws m \<Longrightarrow> rt (RepublishResponse_opcUaBinaryEncode cd) (RepublishResponse_opcUaBinaryDecode cd) m"
  by (auto simp: rt_def RepublishResponse_wf_def RepublishResponse_opcUaBinaryEncode_def
      RepublishResponse_opcUaBinaryDecode_def codec_rt
      elim!: rtE [OF notificationMessage_rt])

end

section \<open>Queries\<close>

record 'e QueryDataSet =
  QueryDataSet_nodeId :: OpcUaExpandedNodeId
  QueryDataSet_typeDefinitionNode :: OpcUaExpandedNodeId
  QueryDataSet_valueArray :: "'e OpcUaVariant list"

definition QueryDataSet_new :: "'e QueryDataSet" where
  "QueryDataSet_new =
     \<lparr>QueryDataSet_nodeId = OpcUaExpandedNodeId_new,
       QueryDataSet_typeDefinitionNode = OpcUaExpandedNodeId_new, QueryDataSet_valueArray = []\<rparr>"

definition QueryDataSet_opcUaBinaryEncode ::
  "('e, 'p) Coders \<Rightarrow> 'e QueryDataSet \<Rightarrow> stream option" where
  "QueryDataSet_opcUaBinaryEncode cd this = do {
     b3 \<leftarrow> parray_encode (OpcUaVariant_opcUaBinaryEncode (cd_objects cd)) (QueryDataSet_valueArray this);
     Some (OpcUaExpandedNodeId_opcUaBinaryEncode (QueryDataSet_nodeId this)
           @ OpcUaExpandedNodeId_opcUaBinaryEncode (QueryDataSet_typeDefinitionNode this)
           @ b3) }"

definition QueryDataSet_opcUaBinaryDecode :: "('e, 'p) Coders \<Rightarrow> 'e QueryDataSet decoder" where
  "QueryDataSet_opcUaBinaryDecode cd is = do {
     (x1, is) \<leftarrow> OpcUaExpandedNodeId_opcUaBinaryDecode OpcUaExpandedNodeId_new is;
     (x2, is) \<leftarrow> OpcUaExpandedNodeId_opcUaBinaryDecode OpcUaExpandedNodeId_new is;
     (x3, is) \<leftarrow> array_decode (OpcUaVariant_opcUaBinaryDecode (cd_objects cd) (cd_objectMap cd) OpcUaVariant_new) is;
     Some (\<lparr>QueryDataSet_nodeId = x1, QueryDataSet_typeDefinitionNode = x2,
            QueryDataSet_valueArray = x3\<rparr>, is) }"

definition QueryDataSet_wf ::
  "('e, 'p) Coders \<Rightarrow> ('e, 'p) MessageLaws \<Rightarrow> 'e QueryDataSet \<Rightarrow> bool" where
  "QueryDataSet_wf cd laws m \<longleftrightarrow>
     OpcUaExpandedNodeId_wf (QueryDataSet_nodeId m)
     \<and> OpcUaExpandedNodeId_wf (QueryDataSet_typeDefinitionNode m)
     \<and> array_wf (Variant_wf cd laws) (QueryDataSet_valueArray m)"

context message_types
begin

lemma queryDataSet_rt:
  "QueryDataSet_wf cd laws m \<Longrightarrow> rt (QueryDataSet_opcUaBinaryEncode cd) (QueryDataSet_opcUaBinaryDecode cd) m"
  by (auto simp: rt_def QueryDataSet_wf_def QueryDataSet_opcUaBinaryEncode_def
      QueryDataSet_opcUaBinaryDecode_def codec_rt
      elim!: rtE [OF parray_rt [OF _ variant_rt]])

end

record 'p QueryFirstRequest =
  QueryFirstRequest_view :: ViewDescription
  QueryFirstRequest_nodeTypeArray :: "NodeTypeDescription list"
  QueryFirstRequest_filter :: "'p ContentFilter"
  QueryFirstRequest_maxDataSetsToReturn :: u32
  QueryFirstRequest_maxReferencesToReturn :: u32

definition QueryFirstRequest_new :: "'p QueryFirstRequest" where
  "QueryFirstRequest_new =
     \<lparr>QueryFirstRequest_view = ViewDescription_new, QueryFirstRequest_nodeTypeArray = [],
       QueryFirstRequest_filter = ContentFilter_new, QueryFirstRequest_maxDataSetsToReturn = 0,
       QueryFirstRequest_maxReferencesToReturn = 0\<rparr>"

definition QueryFirstRequest_opcUaBinaryEncode ::
  "('e, 'p) Coders \<Rightarrow> 'p QueryFirstRequest \<Rightarrow> stream option" where
  "QueryFirstRequest_opcUaBinaryEncode cd this = do {
     b3 \<leftarrow> ContentFilter_opcUaBinaryEncode cd (QueryFirstRequest_filter this);
     Some (ViewDescription_opcUaBinaryEncode (QueryFirstRequest_view this)
           @ array_encode NodeTypeDescription_opcUaBinaryEncode (QueryFirstRequest_nodeTypeArray this)
           @ b3
           @ OpcUaUInt32_encode (QueryFirstRequest_maxDataSetsToReturn this)
           @ OpcUaUInt32_encode (QueryFirstRequest_maxReferencesToReturn this)) }"

definition QueryFirstRequest_opcUaBinaryDecode :: "('e, 'p) Coders \<Rightarrow> 'p QueryFirstRequest decoder" where
  "QueryFirstRequest_opcUaBinaryDecode cd is = do {
     (x1, is) \<leftarrow> ViewDescription_opcUaBinaryDecode is;
     (x2, is) \<leftarrow> array_decode NodeTypeDescription_opcUaBinaryDecode is;
     (x3, is) \<leftarrow> ContentFilter_opcUaBinaryDecode cd is;
     (x4, is) \<leftarrow> OpcUaUInt32_decode is;
     (x5, is) \<leftarrow> OpcUaUInt32_decode is;
     Some (\<lparr>QueryFirstRequest_view = x1, QueryFirstRequest_nodeTypeArray = x2,
            QueryFirstRequest_filter = x3, QueryFirstRequest_maxDataSetsToReturn = x4,
            QueryFirstRequest_maxReferencesToReturn = x5\<rparr>, is) }"

definition QueryFirstRequest_wf ::
  "('e, 'p) Coders \<Rightarrow> ('e, 'p) MessageLaws \<Rightarrow> 'p QueryFirstRequest \<Rightarrow> bool" where
  "QueryFirstRequest_wf cd laws m \<longleftrightarrow>
     ViewDescription_wf (QueryFirstRequest_view m)
     \<and> array_wf NodeTypeDescription_wf (QueryFirstRequest_nodeTypeArray m)
     \<and> ContentFilter_wf cd laws (QueryFirstRequest_filter m)"

declare nodetypedescription_codec.array_rt [codec_rt]

context message_types
begin

lemma queryFirstRequest_rt:
  "QueryFirstRequest_wf cd laws m \<Longrightarrow> rt (QueryFirstRequest_opcUaBinaryEncode cd) (QueryFirstRequest_opcUaBinaryDecode cd) m"
  by (auto simp: rt_def QueryFirstRequest_wf_def QueryFirstRequest_opcUaBinaryEncode_def
      QueryFirstRequest_opcUaBinaryDecode_def codec_rt
      elim!: rtE [OF contentFilter_rt])

end

record 'e QueryFirstResponse =
  QueryFirstResponse_queryDataSetArray :: "'e QueryDataSet list"
  QueryFirstResponse_continuationPoint :: OpcUaByteString
  QueryFirstResponse_parsingResultArray :: "ParsingResult list"
  QueryFirstResponse_diagnosticInfoArray :: "OpcUaDiagnosticInfo list"
  QueryFirstResponse_filterResult :: ContentFilterResultMessage

definition QueryFirstResponse_new :: "'e QueryFirstResponse" where
  "QueryFirstResponse_new =
     \<lparr>QueryFirstResponse_queryDataSetArray = [],
       QueryFirstResponse_continuationPoint = OpcUaByteString_new,
       QueryFirstResponse_parsingResultArray = [], QueryFirstResponse_diagnosticInfoArray = [],
       QueryFirstResponse_filterResult = ContentFilterResultMessage_new\<rparr>"

definition QueryFirstResponse_opcUaBinaryEncode ::
  "('e, 'p) Coders \<Rightarrow> 'e QueryFirstResponse \<Rightarrow> stream option" where
  "QueryFirstResponse_opcUaBinaryEncode cd this = do {
     b1 \<leftarrow> parray_encode (QueryDataSet_opcUaBinaryEncode cd) (QueryFirstResponse_queryDataSetArray this);
     Some (b1
           @ OpcUaByteString_opcUaBinaryEncode (QueryFirstResponse_continuationPoint this)
           @ array_encode ParsingResult_opcUaBinaryEncode (QueryFirstResponse_parsingResultArray this)
           @ array_encode OpcUaDiagnosticInfo_opcUaBinaryEncode (QueryFirstResponse_diagnosticInfoArray this)
           @ ContentFilterResultMessage_opcUaBinaryEncode (QueryFirstResponse_filterResult this)) }"

definition QueryFirstResponse_opcUaBinaryDecode :: "('e, 'p) Coders \<Rightarrow> 'e QueryFirstResponse decoder" where
  "QueryFirstResponse_opcUaBinaryDecode cd is = do {
     (x1, is) \<leftarrow> array_decode (QueryDataSet_opcUaBinaryDecode cd) is;
     (x2, is) \<leftarrow> OpcUaByteString_opcUaBinaryDecode is;
     (x3, is) \<leftarrow> array_decode ParsingResult_opcUaBinaryDecode is;
     (x4, is) \<leftarrow> array_decode (OpcUaDiagnosticInfo_opcUaBinaryDecode OpcUaDiagnosticInfo_new) is;
     (x5, is) \<leftarrow> ContentFilterResultMessage_opcUaBinaryDecode is;
     Some (\<lparr>QueryFirstResponse_queryDataSetArray = x1, QueryFirstResponse_continuationPoint = x2,
            QueryFirstResponse_parsingResultArray = x3,
            QueryFirstResponse_diagnosticInfoArray = x4, QueryFirstResponse_filterResult = x5\<rparr>, is) }"

definition QueryFirstResponse_wf ::
  "('e, 'p) Coders \<Rightarrow> ('e, 'p) MessageLaws \<Rightarrow> 'e QueryFirstResponse \<Rightarrow> bool" where
  "QueryFirstResponse_wf cd laws m \<longleftrightarrow>
     array_wf (QueryDataSet_wf cd laws) (QueryFirstResponse_queryDataSetArray m)
     \<and> OpcUaByteString_wf (QueryFirstResponse_continuationPoint m)
     \<and> array_wf ParsingResult_wf (QueryFirstResponse_parsingResultArray m)
     \<and> array_wf (\<lambda>d. OpcUaString_wf (di_additionalInfo d)) (QueryFirstResponse_diagnosticInfoArray m)
     \<and> ContentFilterResultMessage_wf (QueryFirstResponse_filterResult m)"

declare parsingresult_codec.array_rt [codec_rt]

context message_types
begin

lemma queryFirstResponse_rt:
  "QueryFirstResponse_wf cd laws m \<Longrightarrow> rt (QueryFirstResponse_opcUaBinaryEncode cd) (QueryFirstResponse_opcUaBinaryDecode cd) m"
  by (auto simp: rt_def QueryFirstResponse_wf_def QueryFirstResponse_opcUaBinaryEncode_def
      QueryFirstResponse_opcUaBinaryDecode_def codec_rt
      elim!: rtE [OF parray_rt [OF _ queryDataSet_rt]])

end

record 'e QueryNextResponse =
  QueryNextResponse_queryDataSetArray :: "'e QueryDataSet list"
  QueryNextResponse_revisedContinuationPoint :: OpcUaByteString

definition QueryNextResponse_new :: "'e QueryNextResponse" where
  "QueryNextResponse_new =
     \<lparr>QueryNextResponse_queryDataSetArray = [],
       QueryNextResponse_revisedContinuationPoint = OpcUaByteString_new\<rparr>"

definition QueryNextResponse_opcUaBinaryEncode ::
  "('e, 'p) Coders \<Rightarrow> 'e QueryNextResponse \<Rightarrow> stream option" where
  "QueryNextResponse_opcUaBinaryEncode cd this = do {
     b1 \<leftarrow> parray_encode (QueryDataSet_opcUaBinaryEncode cd) (QueryNextResponse_queryDataSetArray this);
     Some (b1
           @ OpcUaByteString_opcUaBinaryEncode (QueryNextResponse_revisedContinuationPoint this)) }"

definition QueryNextResponse_opcUaBinaryDecode :: "('e, 'p) Coders \<Rightarrow> 'e QueryNextResponse decoder" where
  "QueryNextResponse_opcUaBinaryDecode cd is = do {
     (x1, is) \<leftarrow> array_decode (QueryDataSet_opcUaBinaryDecode cd) is;
     (x2, is) \<leftarrow> OpcUaByteString_opcUaBinaryDecode is;
     Some (\<lparr>QueryNextResponse_queryDataSetArray = x1,
            QueryNextResponse_revisedContinuationPoint = x2\<rparr>, is) }"

definition QueryNextResponse_wf ::
  "('e, 'p) Coders \<Rightarrow> ('e, 'p) MessageLaws \<Rightarrow> 'e QueryNextResponse \<Rightarrow> bool" where
  "QueryNextResponse_wf cd laws m \<longleftrightarrow>
     array_wf (QueryDataSet_wf cd laws) (QueryNextResponse_queryDataSetArray m)
     \<and> OpcUaByteString_wf (QueryNextResponse_revisedContinuationPoint m)"

context message_types
begin

lemma queryNextResponse_rt:
  "QueryNextResponse_wf cd laws m \<Longrightarrow> rt (QueryNextResponse_opcUaBinaryEncode cd) (QueryNextResponse_opcUaBinaryDecode cd) m"
  by (auto simp: rt_def QueryNextResponse_wf_def QueryNextResponse_opcUaBinaryEncode_def
      QueryNextResponse_opcUaBinaryDecode_def codec_rt
      elim!: rtE [OF parray_rt [OF _ queryDataSet_rt]])

end

section \<open>Activation of a session\<close>

text \<open>A signed software certificate has no member and no byte.\<close>

type_synonym SignedSoftwareCertificate = unit

definition SignedSoftwareCertificate_opcUaBinaryEncode :: "SignedSoftwareCertificate \<Rightarrow> stream" where
  "SignedSoftwareCertificate_opcUaBinaryEncode this = []"

definition SignedSoftwareCertificate_opcUaBinaryDecode :: "SignedSoftwareCertificate decoder" where
  "SignedSoftwareCertificate_opcUaBinaryDecode is = Some ((), is)"

interpretation signedsoftwarecertificate_codec: codec SignedSoftwareCertificate_opcUaBinaryEncode
  SignedSoftwareCertificate_opcUaBinaryDecode "\<lambda>_. True"
  by unfold_locales
     (simp add: SignedSoftwareCertificate_opcUaBinaryEncode_def
        SignedSoftwareCertificate_opcUaBinaryDecode_def)

record 'p ActivateSessionRequest =
  ActivateSessionRequest_clientSignature :: SignatureData
  ActivateSessionRequest_signedSoftwareCertificate :: "SignedSoftwareCertificate list"
  ActivateSessionRequest_localeIds :: "OpcUaString list"
  ActivateSessionRequest_userIdentityToken :: "'p ExtensibleParameter"
  ActivateSessionRequest_userTokenSignature :: SignatureData

definition ActivateSessionRequest_new :: "'p ActivateSessionRequest" where
  "ActivateSessionRequest_new =
     \<lparr>ActivateSessionRequest_clientSignature = SignatureData_new,
       ActivateSessionRequest_signedSoftwareCertificate = [],
       ActivateSessionRequest_localeIds = [],
       ActivateSessionRequest_userIdentityToken = ExtensibleParameter_new,
       ActivateSessionRequest_userTokenSignature = SignatureData_new\<rparr>"

definition ActivateSessionRequest_opcUaBinaryEncode ::
  "('e, 'p) Coders \<Rightarrow> 'p ActivateSessionRequest \<Rightarrow> stream option" where
  "ActivateSessionRequest_opcUaBinaryEncode cd this = do {
     b4 \<leftarrow> ExtensibleParameter_opcUaBinaryEncode cd (ActivateSessionRequest_userIdentityToken this);
     Some (SignatureData_opcUaBinaryEncode (ActivateSessionRequest_clientSignature this)
           @ array_encode SignedSoftwareCertificate_opcUaBinaryEncode (ActivateSessionRequest_signedSoftwareCertificate this)
           @ array_encode OpcUaString_opcUaBinaryEncode (ActivateSessionRequest_localeIds this)
           @ b4
           @ SignatureData_opcUaBinaryEncode (ActivateSessionRequest_userTokenSignature this)) }"

definition ActivateSessionRequest_opcUaBinaryDecode :: "('e, 'p) Coders \<Rightarrow> 'p ActivateSessionRequest decoder" where
  "ActivateSessionRequest_opcUaBinaryDecode cd is = do {
     (x1, is) \<leftarrow> SignatureData_opcUaBinaryDecode is;
     (x2, is) \<leftarrow> array_decode SignedSoftwareCertificate_opcUaBinaryDecode is;
     (x3, is) \<leftarrow> array_decode OpcUaString_opcUaBinaryDecode is;
     (x4, is) \<leftarrow> ExtensibleParameter_opcUaBinaryDecode cd is;
     (x5, is) \<leftarrow> SignatureData_opcUaBinaryDecode is;
     Some (\<lparr>ActivateSessionRequest_clientSignature = x1,
            ActivateSessionRequest_signedSoftwareCertificate = x2,
            ActivateSessionRequest_localeIds = x3,
            ActivateSessionRequest_userIdentityToken = x4,
            ActivateSessionRequest_userTokenSignature = x5\<rparr>, is) }"

definition ActivateSessionRequest_wf ::
  "('e, 'p) Coders \<Rightarrow> ('e, 'p) MessageLaws \<Rightarrow> 'p ActivateSessionRequest \<Rightarrow> bool" where
  "ActivateSessionRequest_wf cd laws m \<longleftrightarrow>
     SignatureData_wf (ActivateSessionRequest_clientSignature m)
     \<and> array_wf (\<lambda>_. True) (ActivateSessionRequest_signedSoftwareCertificate m)
     \<and> array_wf OpcUaString_wf (ActivateSessionRequest_localeIds m)
     \<and> ExtensibleParameter_wf cd laws (ActivateSessionRequest_userIdentityToken m)
     \<and> SignatureData_wf (ActivateSessionRequest_userTokenSignature m)"

declare signedsoftwarecertificate_codec.array_rt [codec_rt]

context message_types
begin

lemma activateSessionRequest_rt:
  "ActivateSessionRequest_wf cd laws m \<Longrightarrow> rt (ActivateSessionRequest_opcUaBinaryEncode cd) (ActivateSessionRequest_opcUaBinaryDecode cd) m"
  by (auto simp: rt_def ActivateSessionRequest_wf_def ActivateSessionRequest_opcUaBinaryEncode_def
      ActivateSessionRequest_opcUaBinaryDecode_def codec_rt
      elim!: rtE [OF parameter_rt])

end

end
