(* ===== verification/DiagnosticsTypes.thy ===== *)
theory DiagnosticsTypes
  imports SessionMessages
begin

text \<open>
  The other structured types of \<^verbatim>\<open>OpcUaStackCore/StandardDataTypes\<close>: the diagnostics of sessions and
  subscriptions and the argument of a method.
\<close>

record StatusResult =
  StatusResult_statusCode :: u32
  StatusResult_diagnosticInfo :: OpcUaDiagnosticInfo

definition StatusResult_new :: StatusResult where
  "StatusResult_new =
     \<lparr>StatusResult_statusCode = 0, StatusResult_diagnosticInfo = OpcUaDiagnosticInfo_new\<rparr>"

definition StatusResult_opcUaBinaryEncode :: "StatusResult \<Rightarrow> stream" where
  "StatusResult_opcUaBinaryEncode this =
     OpcUaUInt32_encode (StatusResult_statusCode this)
     @ OpcUaDiagnosticInfo_opcUaBinaryEncode (StatusResult_diagnosticInfo this)"

definition StatusResult_opcUaBinaryDecode :: "StatusResult decoder" where
  "StatusResult_opcUaBinaryDecode is = do {
     (x1, is) \<leftarrow> OpcUaUInt32_decode is;
     (x2, is) \<leftarrow> OpcUaDiagnosticInfo_opcUaBinaryDecode OpcUaDiagnosticInfo_new is;
     Some (\<lparr>StatusResult_statusCode = x1, StatusResult_diagnosticInfo = x2\<rparr>, is) }"

definition StatusResult_wf :: "StatusResult \<Rightarrow> bool" where
  "StatusResult_wf m \<longleftrightarrow>
     OpcUaString_wf (di_additionalInfo (StatusResult_diagnosticInfo m))"

interpretation statusresult_codec: codec StatusResult_opcUaBinaryEncode
  StatusResult_opcUaBinaryDecode StatusResult_wf
  by unfold_locales
     (simp add: StatusResult_opcUaBinaryEncode_def StatusResult_opcUaBinaryDecode_def
        StatusResult_wf_def codec_rt)

declare statusresult_codec.dec_enc [codec_rt]

record ServerDiagnosticsSummaryDataType =
  ServerDiagnosticsSummaryDataType_serverViewCount :: u32
  ServerDiagnosticsSummaryDataType_currentSessionCount :: u32
  ServerDiagnosticsSummaryDataType_cumulatedSessionCount :: u32
  ServerDiagnosticsSummaryDataType_securityRejectedSessionCount :: u32
  ServerDiagnosticsSummaryDataType_rejectedSessionCount :: u32
  ServerDiagnosticsSummaryDataType_sessionTimeoutCount :: u32
  ServerDiagnosticsSummaryDataType_sessionAbortCount :: u32
  ServerDiagnosticsSummaryDataType_samplingRateCount :: u32
  ServerDiagnosticsSummaryDataType_publishingIntervalCount :: u32
  ServerDiagnosticsSummaryDataType_currentSubscriptionCount :: u32
  ServerDiagnosticsSummaryDataType_cumulatedSubscriptionCount :: u32
  ServerDiagnosticsSummaryDataType_securityRejectedRequestsCount :: u32
  ServerDiagnosticsSummaryDataType_rejectedRequestsCount :: u32

definition ServerDiagnosticsSummaryDataType_new :: ServerDiagnosticsSummaryDataType where
  "ServerDiagnosticsSummaryDataType_new =
     \<lparr>ServerDiagnosticsSummaryDataType_serverViewCount = 0,
       ServerDiagnosticsSummaryDataType_currentSessionCount = 0,
       ServerDiagnosticsSummaryDataType_cumulatedSessionCount = 0,
       ServerDiagnosticsSummaryDataType_securityRejectedSessionCount = 0,
       ServerDiagnosticsSummaryDataType_rejectedSessionCount = 0,
       ServerDiagnosticsSummaryDataType_sessionTimeoutCount = 0,
       ServerDiagnosticsSummaryDataType_sessionAbortCount = 0,
       ServerDiagnosticsSummaryDataType_samplingRateCount = 0,
       ServerDiagnosticsSummaryDataType_publishingIntervalCount = 0,
       ServerDiagnosticsSummaryDataType_currentSubscriptionCount = 0,
       ServerDiagnosticsSummaryDataType_cumulatedSubscriptionCount = 0,
       ServerDiagnosticsSummaryDataType_securityRejectedRequestsCount = 0,
       ServerDiagnosticsSummaryDataType_rejectedRequestsCount = 0\<rparr>"

definition ServerDiagnosticsSummaryDataType_opcUaBinaryEncode :: "ServerDiagnosticsSummaryDataType \<Rightarrow> stream" where
  "ServerDiagnosticsSummaryDataType_opcUaBinaryEncode this =
     OpcUaUInt32_encode (ServerDiagnosticsSummaryDataType_serverViewCount this)
     @ OpcUaUInt32_encode (ServerDiagnosticsSummaryDataType_currentSessionCount this)
     @ OpcUaUInt32_encode (ServerDiagnosticsSummaryDataType_cumulatedSessionCount this)
     @ OpcUaUInt32_encode (ServerDiagnosticsSummaryDataType_securityRejectedSessionCount this)
     @ OpcUaUInt32_encode (ServerDiagnosticsSummaryDataType_rejectedSessionCount this)
     @ OpcUaUInt32_encode (ServerDiagnosticsSummaryDataType_sessionTimeoutCount this)
     @ OpcUaUInt32_encode (ServerDiagnosticsSummaryDataType_sessionAbortCount this)
     @ OpcUaUInt32_encode (ServerDiagnosticsSummaryDataType_samplingRateCount this)
     @ OpcUaUInt32_encode (ServerDiagnosticsSummaryDataType_publishingIntervalCount this)
     @ OpcUaUInt32_encode (ServerDiagnosticsSummaryDataType_currentSubscriptionCount this)
     @ OpcUaUInt32_encode (ServerDiagnosticsSummaryDataType_cumulatedSubscriptionCount this)
     @ OpcUaUInt32_encode (ServerDiagnosticsSummaryDataType_securityRejectedRequestsCount this)
     @ OpcUaUInt32_encode (ServerDiagnosticsSummaryDataType_rejectedRequestsCount this)"

definition ServerDiagnosticsSummaryDataType_opcUaBinaryDecode :: "ServerDiagnosticsSummaryDataType decoder" where
  "ServerDiagnosticsSummaryDataType_opcUaBinaryDecode is = do {
     (x1, is) \<leftarrow> OpcUaUInt32_decode is;
     (x2, is) \<leftarrow> OpcUaUInt32_decode is;
     (x3, is) \<leftarrow> OpcUaUInt32_decode is;
     (x4, is) \<leftarrow> OpcUaUInt32_decode is;
     (x5, is) \<leftarrow> OpcUaUInt32_decode is;
     (x6, is) \<leftarrow> OpcUaUInt32_decode is;
     (x7, is) \<leftarrow> OpcUaUInt32_decode is;
     (x8, is) \<leftarrow> OpcUaUInt32_decode is;
     (x9, is) \<leftarrow> OpcUaUInt32_decode is;
     (x10, is) \<leftarrow> OpcUaUInt32_decode is;
     (x11, is) \<leftarrow> OpcUaUInt32_decode is;
     (x12, is) \<leftarrow> OpcUaUInt32_decode is;
     (x13, is) \<leftarrow> OpcUaUInt32_decode is;
     Some (\<lparr>ServerDiagnosticsSummaryDataType_serverViewCount = x1,
            ServerDiagnosticsSummaryDataType_currentSessionCount = x2,
            ServerDiagnosticsSummaryDataType_cumulatedSessionCount = x3,
            ServerDiagnosticsSummaryDataType_securityRejectedSessionCount = x4,
            ServerDiagnosticsSummaryDataType_rejectedSessionCount = x5,
            ServerDiagnosticsSummaryDataType_sessionTimeoutCount = x6,
            ServerDiagnosticsSummaryDataType_sessionAbortCount = x7,
            ServerDiagnosticsSummaryDataType_samplingRateCount = x8,
            ServerDiagnosticsSummaryDataType_publishingIntervalCount = x9,
            ServerDiagnosticsSummaryDataType_currentSubscriptionCount = x10,
            ServerDiagnosticsSummaryDataType_cumulatedSubscriptionCount = x11,
            ServerDiagnosticsSummaryDataType_securityRejectedRequestsCount = x12,
            ServerDiagnosticsSummaryDataType_rejectedRequestsCount = x13\<rparr>, is) }"

interpretation serverdiagnosticssummarydatatype_codec: codec
  ServerDiagnosticsSummaryDataType_opcUaBinaryEncode
  ServerDiagnosticsSummaryDataType_opcUaBinaryDecode "\<lambda>_. True"
  by unfold_locales
     (simp add: ServerDiagnosticsSummaryDataType_opcUaBinaryEncode_def
        ServerDiagnosticsSummaryDataType_opcUaBinaryDecode_def codec_rt)

declare serverdiagnosticssummarydatatype_codec.dec_enc [OF TrueI, codec_rt]

record SessionDiagnosticsDataType =
  SessionDiagnosticsDataType_sessionId :: OpcUaNodeIdBase
  SessionDiagnosticsDataType_sessionName :: OpcUaString
  SessionDiagnosticsDataType_clientDescription :: ApplicationDescription
  SessionDiagnosticsDataType_serverUri :: OpcUaString
  SessionDiagnosticsDataType_endpointUri :: OpcUaString
  SessionDiagnosticsDataType_localeIds :: "OpcUaString list"
  SessionDiagnosticsDataType_actualSessionTimeout :: u64
  SessionDiagnosticsDataType_maxResponseMessageSize :: u32
  SessionDiagnosticsDataType_clientConnectionTime :: OpcUaDateTime
  SessionDiagnosticsDataType_clientLastContactTime :: OpcUaDateTime
  SessionDiagnosticsDataType_currentSubscriptionsCount :: u32
  SessionDiagnosticsDataType_currentMonitoredItemsCount :: u32
  SessionDiagnosticsDataType_currentPublishRequestsInQueue :: u32
  SessionDiagnosticsDataType_currentPublishTimerExpirations :: u32

definition SessionDiagnosticsDataType_new :: SessionDiagnosticsDataType where
  "SessionDiagnosticsDataType_new =
     \<lparr>SessionDiagnosticsDataType_sessionId = OpcUaNodeIdBase_new,
       SessionDiagnosticsDataType_sessionName = OpcUaString_new,
       SessionDiagnosticsDataType_clientDescription = ApplicationDescription_new,
       SessionDiagnosticsDataType_serverUri = OpcUaString_new,
       SessionDiagnosticsDataType_endpointUri = OpcUaString_new,
       SessionDiagnosticsDataType_localeIds = [],
       SessionDiagnosticsDataType_actualSessionTimeout = 0,
       SessionDiagnosticsDataType_maxResponseMessageSize = 0,
       SessionDiagnosticsDataType_clientConnectionTime = 0,
       SessionDiagnosticsDataType_clientLastContactTime = 0,
       SessionDiagnosticsDataType_currentSubscriptionsCount = 0,
       SessionDiagnosticsDataType_currentMonitoredItemsCount = 0,
       SessionDiagnosticsDataType_currentPublishRequestsInQueue = 0,
       SessionDiagnosticsDataType_currentPublishTimerExpirations = 0\<rparr>"

definition SessionDiagnosticsDataType_opcUaBinaryEncode :: "SessionDiagnosticsDataType \<Rightarrow> stream" where
  "SessionDiagnosticsDataType_opcUaBinaryEncode this =
     OpcUaNodeId_opcUaBinaryEncode (SessionDiagnosticsDataType_sessionId this)
     @ OpcUaString_opcUaBinaryEncode (SessionDiagnosticsDataType_sessionName this)
     @ ApplicationDescription_opcUaBinaryEncode (SessionDiagnosticsDataType_clientDescription this)
     @ OpcUaString_opcUaBinaryEncode (SessionDiagnosticsDataType_serverUri this)
     @ OpcUaString_opcUaBinaryEncode (SessionDiagnosticsDataType_endpointUri this)
     @ array_encode OpcUaString_opcUaBinaryEncode (SessionDiagnosticsDataType_localeIds this)
     @ OpcUaDouble_encode (SessionDiagnosticsDataType_actualSessionTimeout this)
     @ OpcUaUInt32_encode (SessionDiagnosticsDataType_maxResponseMessageSize this)
     @ OpcUaDateTime_opcUaBinaryEncode (SessionDiagnosticsDataType_clientConnectionTime this)
     @ OpcUaDateTime_opcUaBinaryEncode (SessionDiagnosticsDataType_clientLastContactTime this)
     @ OpcUaUInt32_encode (SessionDiagnosticsDataType_currentSubscriptionsCount this)
     @ OpcUaUInt32_encode (SessionDiagnosticsDataType_currentMonitoredItemsCount this)
     @ OpcUaUInt32_encode (SessionDiagnosticsDataType_currentPublishRequestsInQueue this)
     @ OpcUaUInt32_encode (SessionDiagnosticsDataType_currentPublishTimerExpirations this)"

definition SessionDiagnosticsDataType_opcUaBinaryDecode :: "SessionDiagnosticsDataType decoder" where
  "SessionDiagnosticsDataType_opcUaBinaryDecode is = do {
     (x1, is) \<leftarrow> OpcUaNodeId_opcUaBinaryDecode is;
     (x2, is) \<leftarrow> OpcUaString_opcUaBinaryDecode is;
     (x3, is) \<leftarrow> ApplicationDescription_opcUaBinaryDecode is;
     (x4, is) \<leftarrow> OpcUaString_opcUaBinaryDecode is;
     (x5, is) \<leftarrow> OpcUaString_opcUaBinaryDecode is;
     (x6, is) \<leftarrow> array_decode OpcUaString_opcUaBinaryDecode is;
     (x7, is) \<leftarrow> OpcUaDouble_decode is;
     (x8, is) \<leftarrow> OpcUaUInt32_decode is;
     (x9, is) \<leftarrow> OpcUaDateTime_opcUaBinaryDecode is;
     (x10, is) \<leftarrow> OpcUaDateTime_opcUaBinaryDecode is;
     (x11, is) \<leftarrow> OpcUaUInt32_decode is;
     (x12, is) \<leftarrow> OpcUaUInt32_decode is;
     (x13, is) \<leftarrow> OpcUaUInt32_decode is;
     (x14, is) \<leftarrow> OpcUaUInt32_decode is;
     Some (\<lparr>SessionDiagnosticsDataType_sessionId = x1,
            SessionDiagnosticsDataType_sessionName = x2,
            SessionDiagnosticsDataType_clientDescription = x3,
            SessionDiagnosticsDataType_serverUri = x4,
            SessionDiagnosticsDataType_endpointUri = x5,
            SessionDiagnosticsDataType_localeIds = x6,
            SessionDiagnosticsDataType_actualSessionTimeout = x7,
            SessionDiagnosticsDataType_maxResponseMessageSize = x8,
            SessionDiagnosticsDataType_clientConnectionTime = x9,
            SessionDiagnosticsDataType_clientLastContactTime = x10,
            SessionDiagnosticsDataType_currentSubscriptionsCount = x11,
            SessionDiagnosticsDataType_currentMonitoredItemsCount = x12,
            SessionDiagnosticsDataType_currentPublishRequestsInQueue = x13,
            SessionDiagnosticsDataType_currentPublishTimerExpirations = x14\<rparr>, is) }"

definition SessionDiagnosticsDataType_wf :: "SessionDiagnosticsDataType \<Rightarrow> bool" where
  "SessionDiagnosticsDataType_wf m \<longleftrightarrow>
     OpcUaNodeId_wf (SessionDiagnosticsDataType_sessionId m)
     \<and> OpcUaString_wf (SessionDiagnosticsDataType_sessionName m)
     \<and> ApplicationDescription_wf (SessionDiagnosticsDataType_clientDescription m)
     \<and> OpcUaString_wf (SessionDiagnosticsDataType_serverUri m)
     \<and> OpcUaString_wf (SessionDiagnosticsDataType_endpointUri m)
     \<and> array_wf OpcUaString_wf (SessionDiagnosticsDataType_localeIds m)"

interpretation sessiondiagnosticsdatatype_codec: codec SessionDiagnosticsDataType_opcUaBinaryEncode
  SessionDiagnosticsDataType_opcUaBinaryDecode SessionDiagnosticsDataType_wf
  by unfold_locales
     (simp add: SessionDiagnosticsDataType_opcUaBinaryEncode_def
        SessionDiagnosticsDataType_opcUaBinaryDecode_def SessionDiagnosticsDataType_wf_def codec_rt)

declare sessiondiagnosticsdatatype_codec.dec_enc [codec_rt]

record SessionSecurityDiagnosticsDataType =
  SessionSecurityDiagnosticsDataType_sessionId :: OpcUaNodeIdBase
  SessionSecurityDiagnosticsDataType_clientUserIdOfSession :: OpcUaString
  SessionSecurityDiagnosticsDataType_clientUserIdHistory :: "OpcUaString list"
  SessionSecurityDiagnosticsDataType_authenticationMechanism :: OpcUaString
  SessionSecurityDiagnosticsDataType_encoding :: OpcUaString
  SessionSecurityDiagnosticsDataType_transportProtocol :: OpcUaString
  SessionSecurityDiagnosticsDataType_securityMode :: u32
  SessionSecurityDiagnosticsDataType_securityPolicyUri :: OpcUaString
  SessionSecurityDiagnosticsDataType_clientCertificate :: OpcUaByteString

definition SessionSecurityDiagnosticsDataType_new :: SessionSecurityDiagnosticsDataType where
  "SessionSecurityDiagnosticsDataType_new =
     \<lparr>SessionSecurityDiagnosticsDataType_sessionId = OpcUaNodeIdBase_new,
       SessionSecurityDiagnosticsDataType_clientUserIdOfSession = OpcUaString_new,
       SessionSecurityDiagnosticsDataType_clientUserIdHistory = [],
       SessionSecurityDiagnosticsDataType_authenticationMechanism = OpcUaString_new,
       SessionSecurityDiagnosticsDataType_encoding = OpcUaString_new,
       SessionSecurityDiagnosticsDataType_transportProtocol = OpcUaString_new,
       SessionSecurityDiagnosticsDataType_securityMode = 0,
       SessionSecurityDiagnosticsDataType_securityPolicyUri = OpcUaString_new,
       SessionSecurityDiagnosticsDataType_clientCertificate = OpcUaByteString_new\<rparr>"

definition SessionSecurityDiagnosticsDataType_opcUaBinaryEncode :: "SessionSecurityDiagnosticsDataType \<Rightarrow> stream" where
  "SessionSecurityDiagnosticsDataType_opcUaBinaryEncode this =
     OpcUaNodeId_opcUaBinaryEncode (SessionSecurityDiagnosticsDataType_sessionId this)
     @ OpcUaString_opcUaBinaryEncode (SessionSecurityDiagnosticsDataType_clientUserIdOfSession this)
     @ array_encode OpcUaString_opcUaBinaryEncode (SessionSecurityDiagnosticsDataType_clientUserIdHistory this)
     @ OpcUaString_opcUaBinaryEncode (SessionSecurityDiagnosticsDataType_authenticationMechanism this)
     @ OpcUaString_opcUaBinaryEncode (SessionSecurityDiagnosticsDataType_encoding this)
     @ OpcUaString_opcUaBinaryEncode (SessionSecurityDiagnosticsDataType_transportProtocol this)
     @ OpcUaUInt32_encode (SessionSecurityDiagnosticsDataType_securityMode this)
     @ OpcUaString_opcUaBinaryEncode (SessionSecurityDiagnosticsDataType_securityPolicyUri this)
     @ OpcUaByteString_opcUaBinaryEncode (SessionSecurityDiagnosticsDataType_clientCertificate this)"

definition SessionSecurityDiagnosticsDataType_opcUaBinaryDecode :: "SessionSecurityDiagnosticsDataType decoder" where
  "SessionSecurityDiagnosticsDataType_opcUaBinaryDecode is = do {
     (x1, is) \<leftarrow> OpcUaNodeId_opcUaBinaryDecode is;
     (x2, is) \<leftarrow> OpcUaString_opcUaBinaryDecode is;
     (x3, is) \<leftarrow> array_decode OpcUaString_opcUaBinaryDecode is;
     (x4, is) \<leftarrow> OpcUaString_opcUaBinaryDecode is;
     (x5, is) \<leftarrow> OpcUaString_opcUaBinaryDecode is;
     (x6, is) \<leftarrow> OpcUaString_opcUaBinaryDecode is;
     (x7, is) \<leftarrow> OpcUaUInt32_decode is;
     (x8, is) \<leftarrow> OpcUaString_opcUaBinaryDecode is;
     (x9, is) \<leftarrow> OpcUaByteString_opcUaBinaryDecode is;
     Some (\<lparr>SessionSecurityDiagnosticsDataType_sessionId = x1,
            SessionSecurityDiagnosticsDataType_clientUserIdOfSession = x2,
            SessionSecurityDiagnosticsDataType_clientUserIdHistory = x3,
            SessionSecurityDiagnosticsDataType_authenticationMechanism = x4,
            SessionSecurityDiagnosticsDataType_encoding = x5,
            SessionSecurityDiagnosticsDataType_transportProtocol = x6,
            SessionSecurityDiagnosticsDataType_securityMode = x7,
            SessionSecurityDiagnosticsDataType_securityPolicyUri = x8,
            SessionSecurityDiagnosticsDataType_clientCertificate = x9\<rparr>, is) }"

definition SessionSecurityDiagnosticsDataType_wf :: "SessionSecurityDiagnosticsDataType \<Rightarrow> bool" where
  "SessionSecurityDiagnosticsDataType_wf m \<longleftrightarrow>
     OpcUaNodeId_wf (SessionSecurityDiagnosticsDataType_sessionId m)
     \<and> OpcUaString_wf (SessionSecurityDiagnosticsDataType_clientUserIdOfSession m)
     \<and> array_wf OpcUaString_wf (SessionSecurityDiagnosticsDataType_clientUserIdHistory m)
     \<and> OpcUaString_wf (SessionSecurityDiagnosticsDataType_authenticationMechanism m)
     \<and> OpcUaString_wf (SessionSecurityDiagnosticsDataType_encoding m)
     \<and> OpcUaString_wf (SessionSecurityDiagnosticsDataType_transportProtocol m)
     \<and> OpcUaString_wf (SessionSecurityDiagnosticsDataType_securityPolicyUri m)
     \<and> OpcUaByteString_wf (SessionSecurityDiagnosticsDataType_clientCertificate m)"

interpretation sessionsecuritydiagnosticsdatatype_codec: codec
  SessionSecurityDiagnosticsDataType_opcUaBinaryEncode
  SessionSecurityDiagnosticsDataType_opcUaBinaryDecode SessionSecurityDiagnosticsDataType_wf
  by unfold_locales
     (simp add: SessionSecurityDiagnosticsDataType_opcUaBinaryEncode_def
        SessionSecurityDiagnosticsDataType_opcUaBinaryDecode_def
        SessionSecurityDiagnosticsDataType_wf_def codec_rt)

declare sessionsecuritydiagnosticsdatatype_codec.dec_enc [codec_rt]

record SubscriptionDiagnosticsDataType =
  SubscriptionDiagnosticsDataType_sessionId :: OpcUaNodeIdBase
  SubscriptionDiagnosticsDataType_subscriptionId :: u32
  SubscriptionDiagnosticsDataType_priority :: u8
  SubscriptionDiagnosticsDataType_publishingInterval :: u64
  SubscriptionDiagnosticsDataType_maxKeepAliveCount :: u32
  SubscriptionDiagnosticsDataType_maxLifetimeCount :: u32
  SubscriptionDiagnosticsDataType_maxNotificationsPerPublish :: u32
  SubscriptionDiagnosticsDataType_publishingEnabled :: bool
  SubscriptionDiagnosticsDataType_modifiyCount :: u32
  SubscriptionDiagnosticsDataType_enableCount :: u32
  SubscriptionDiagnosticsDataType_disableCount :: u32
  SubscriptionDiagnosticsDataType_republishRequestCount :: u32
  SubscriptionDiagnosticsDataType_republishMessageRequestCount :: u32
  SubscriptionDiagnosticsDataType_republishMessageCount :: u32
  SubscriptionDiagnosticsDataType_transferRequestCount :: u32
  SubscriptionDiagnosticsDataType_transferredToAltClientCount :: u32
  SubscriptionDiagnosticsDataType_transferredToSameClientCount :: u32
  SubscriptionDiagnosticsDataType_publishRequestCount :: u32
  SubscriptionDiagnosticsDataType_dataChangeNotificationsCount :: u32
  SubscriptionDiagnosticsDataType_eventNotificationsCount :: u32
  SubscriptionDiagnosticsDataType_notificationsCount :: u32
  SubscriptionDiagnosticsDataType_latePublishRequestCount :: u32
  SubscriptionDiagnosticsDataType_currentKeepAliveCount :: u32
  SubscriptionDiagnosticsDataType_currentLifetimeCount :: u32
  SubscriptionDiagnosticsDataType_unacknowledgedMessageCount :: u32
  SubscriptionDiagnosticsDataType_discardedMessageCount :: u32
  SubscriptionDiagnosticsDataType_monitoredItemCount :: u32
  SubscriptionDiagnosticsDataType_disabledMonitoredItemCount :: u32
  SubscriptionDiagnosticsDataType_monitoringQueueOverflowCount :: u32
  SubscriptionDiagnosticsDataType_nextSequenceNumber :: u32
  SubscriptionDiagnosticsDataType_eventQueueOverflowCount :: u32

definition SubscriptionDiagnosticsDataType_new :: SubscriptionDiagnosticsDataType where
  "SubscriptionDiagnosticsDataType_new =
     \<lparr>SubscriptionDiagnosticsDataType_sessionId = OpcUaNodeIdBase_new,
       SubscriptionDiagnosticsDataType_subscriptionId = 0,
       SubscriptionDiagnosticsDataType_priority = 0,
       SubscriptionDiagnosticsDataType_publishingInterval = 0,
       SubscriptionDiagnosticsDataType_maxKeepAliveCount = 0,
       SubscriptionDiagnosticsDataType_maxLifetimeCount = 0,
       SubscriptionDiagnosticsDataType_maxNotificationsPerPublish = 0,
       SubscriptionDiagnosticsDataType_publishingEnabled = False,
       SubscriptionDiagnosticsDataType_modifiyCount = 0,
       SubscriptionDiagnosticsDataType_enableCount = 0,
       SubscriptionDiagnosticsDataType_disableCount = 0,
       SubscriptionDiagnosticsDataType_republishRequestCount = 0,
       SubscriptionDiagnosticsDataType_republishMessageRequestCount = 0,
       SubscriptionDiagnosticsDataType_republishMessageCount = 0,
       SubscriptionDiagnosticsDataType_transferRequestCount = 0,
       SubscriptionDiagnosticsDataType_transferredToAltClientCount = 0,
       SubscriptionDiagnosticsDataType_transferredToSameClientCount = 0,
       SubscriptionDiagnosticsDataType_publishRequestCount = 0,
       SubscriptionDiagnosticsDataType_dataChangeNotificationsCount = 0,
       SubscriptionDiagnosticsDataType_eventNotificationsCount = 0,
       SubscriptionDiagnosticsDataType_notificationsCount = 0,
       SubscriptionDiagnosticsDataType_latePublishRequestCount = 0,
       SubscriptionDiagnosticsDataType_currentKeepAliveCount = 0,
       SubscriptionDiagnosticsDataType_currentLifetimeCount = 0,
       SubscriptionDiagnosticsDataType_unacknowledgedMessageCount = 0,
       SubscriptionDiagnosticsDataType_discardedMessageCount = 0,
       SubscriptionDiagnosticsDataType_monitoredItemCount = 0,
       SubscriptionDiagnosticsDataType_disabledMonitoredItemCount = 0,
       SubscriptionDiagnosticsDataType_monitoringQueueOverflowCount = 0,
       SubscriptionDiagnosticsDataType_nextSequenceNumber = 0,
       SubscriptionDiagnosticsDataType_eventQueueOverflowCount = 0\<rparr>"

definition SubscriptionDiagnosticsDataType_opcUaBinaryEncode :: "SubscriptionDiagnosticsDataType \<Rightarrow> stream" where
  "SubscriptionDiagnosticsDataType_opcUaBinaryEncode this =
     OpcUaNodeId_opcUaBinaryEncode (SubscriptionDiagnosticsDataType_sessionId this)
     @ OpcUaUInt32_encode (SubscriptionDiagnosticsDataType_subscriptionId this)
     @ OpcUaByte_encode (SubscriptionDiagnosticsDataType_priority this)
     @ OpcUaDouble_encode (SubscriptionDiagnosticsDataType_publishingInterval this)
     @ OpcUaUInt32_encode (SubscriptionDiagnosticsDataType_maxKeepAliveCount this)
     @ OpcUaUInt32_encode (SubscriptionDiagnosticsDataType_maxLifetimeCount this)
     @ OpcUaUInt32_encode (SubscriptionDiagnosticsDataType_maxNotificationsPerPublish this)
     @ OpcUaBoolean_encode (SubscriptionDiagnosticsDataType_publishingEnabled this)
     @ OpcUaUInt32_encode (SubscriptionDiagnosticsDataType_modifiyCount this)
     @ OpcUaUInt32_encode (SubscriptionDiagnosticsDataType_enableCount this)
     @ OpcUaUInt32_encode (SubscriptionDiagnosticsDataType_disableCount this)
     @ OpcUaUInt32_encode (SubscriptionDiagnosticsDataType_republishRequestCount this)
     @ OpcUaUInt32_encode (SubscriptionDiagnosticsDataType_republishMessageRequestCount this)
     @ OpcUaUInt32_encode (SubscriptionDiagnosticsDataType_republishMessageCount this)
     @ OpcUaUInt32_encode (SubscriptionDiagnosticsDataType_transferRequestCount this)
     @ OpcUaUInt32_encode (SubscriptionDiagnosticsDataType_transferredToAltClientCount this)
     @ OpcUaUInt32_encode (SubscriptionDiagnosticsDataType_transferredToSameClientCount this)
     @ OpcUaUInt32_encode (SubscriptionDiagnosticsDataType_publishRequestCount this)
     @ OpcUaUInt32_encode (SubscriptionDiagnosticsDataType_dataChangeNotificationsCount this)
     @ OpcUaUInt32_encode (SubscriptionDiagnosticsDataType_eventNotificationsCount this)
     @ OpcUaUInt32_encode (SubscriptionDiagnosticsDataType_notificationsCount this)
     @ OpcUaUInt32_encode (SubscriptionDiagnosticsDataType_latePublishRequestCount this)
     @ OpcUaUInt32_encode (SubscriptionDiagnosticsDataType_currentKeepAliveCount this)
     @ OpcUaUInt32_encode (SubscriptionDiagnosticsDataType_currentLifetimeCount this)
     @ OpcUaUInt32_encode (SubscriptionDiagnosticsDataType_unacknowledgedMessageCount this)
     @ OpcUaUInt32_encode (SubscriptionDiagnosticsDataType_discardedMessageCount this)
     @ OpcUaUInt32_encode (SubscriptionDiagnosticsDataType_monitoredItemCount this)
     @ OpcUaUInt32_encode (SubscriptionDiagnosticsDataType_disabledMonitoredItemCount this)
     @ OpcUaUInt32_encode (SubscriptionDiagnosticsDataType_monitoringQueueOverflowCount this)
     @ OpcUaUInt32_encode (SubscriptionDiagnosticsDataType_nextSequenceNumber this)
     @ OpcUaUInt32_encode (SubscriptionDiagnosticsDataType_eventQueueOverflowCount this)"

definition SubscriptionDiagnosticsDataType_opcUaBinaryDecode :: "SubscriptionDiagnosticsDataType decoder" where
  "SubscriptionDiagnosticsDataType_opcUaBinaryDecode is = do {
     (x1, is) \<leftarrow> OpcUaNodeId_opcUaBinaryDecode is;
     (x2, is) \<leftarrow> OpcUaUInt32_decode is;
     (x3, is) \<leftarrow> OpcUaByte_decode is;
     (x4, is) \<leftarrow> OpcUaDouble_decode is;
     (x5, is) \<leftarrow> OpcUaUInt32_decode is;
     (x6, is) \<leftarrow> OpcUaUInt32_decode is;
     (x7, is) \<leftarrow> OpcUaUInt32_decode is;
     (x8, is) \<leftarrow> OpcUaBoolean_decode is;
     (x9, is) \<leftarrow> OpcUaUInt32_decode is;
     (x10, is) \<leftarrow> OpcUaUInt32_decode is;
     (x11, is) \<leftarrow> OpcUaUInt32_decode is;
     (x12, is) \<leftarrow> OpcUaUInt32_decode is;
     (x13, is) \<leftarrow> OpcUaUInt32_decode is;
     (x14, is) \<leftarrow> OpcUaUInt32_decode is;
     (x15, is) \<leftarrow> OpcUaUInt32_decode is;
     (x16, is) \<leftarrow> OpcUaUInt32_decode is;
     (x17, is) \<leftarrow> OpcUaUInt32_decode is;
     (x18, is) \<leftarrow> OpcUaUInt32_decode is;
     (x19, is) \<leftarrow> OpcUaUInt32_decode is;
     (x20, is) \<leftarrow> OpcUaUInt32_decode is;
     (x21, is) \<leftarrow> OpcUaUInt32_decode is;
     (x22, is) \<leftarrow> OpcUaUInt32_decode is;
     (x23, is) \<leftarrow> OpcUaUInt32_decode is;
     (x24, is) \<leftarrow> OpcUaUInt32_decode is;
     (x25, is) \<leftarrow> OpcUaUInt32_decode is;
     (x26, is) \<leftarrow> OpcUaUInt32_decode is;
     (x27, is) \<leftarrow> OpcUaUInt32_decode is;
     (x28, is) \<leftarrow> OpcUaUInt32_decode is;
     (x29, is) \<leftarrow> OpcUaUInt32_decode is;
     (x30, is) \<leftarrow> OpcUaUInt32_decode is;
     (x31, is) \<leftarrow> OpcUaUInt32_decode is;
     Some (\<lparr>SubscriptionDiagnosticsDataType_sessionId = x1,
            SubscriptionDiagnosticsDataType_subscriptionId = x2,
            SubscriptionDiagnosticsDataType_priority = x3,
            SubscriptionDiagnosticsDataType_publishingInterval = x4,
            SubscriptionDiagnosticsDataType_maxKeepAliveCount = x5,
            SubscriptionDiagnosticsDataType_maxLifetimeCount = x6,
            SubscriptionDiagnosticsDataType_maxNotificationsPerPublish = x7,
            SubscriptionDiagnosticsDataType_publishingEnabled = x8,
            SubscriptionDiagnosticsDataType_modifiyCount = x9,
            SubscriptionDiagnosticsDataType_enableCount = x10,
            SubscriptionDiagnosticsDataType_disableCount = x11,
            SubscriptionDiagnosticsDataType_republishRequestCount = x12,
            SubscriptionDiagnosticsDataType_republishMessageRequestCount = x13,
            SubscriptionDiagnosticsDataType_republishMessageCount = x14,
            SubscriptionDiagnosticsDataType_transferRequestCount = x15,
            SubscriptionDiagnosticsDataType_transferredToAltClientCount = x16,
            SubscriptionDiagnosticsDataType_transferredToSameClientCount = x17,
            SubscriptionDiagnosticsDataType_publishRequestCount = x18,
            SubscriptionDiagnosticsDataType_dataChangeNotificationsCount = x19,
            SubscriptionDiagnosticsDataType_eventNotificationsCount = x20,
            SubscriptionDiagnosticsDataType_notificationsCount = x21,
            SubscriptionDiagnosticsDataType_latePublishRequestCount = x22,
            SubscriptionDiagnosticsDataType_currentKeepAliveCount = x23,
            SubscriptionDiagnosticsDataType_currentLifetimeCount = x24,
            SubscriptionDiagnosticsDataType_unacknowledgedMessageCount = x25,
            SubscriptionDiagnosticsDataType_discardedMessageCount = x26,
            SubscriptionDiagnosticsDataType_monitoredItemCount = x27,
            SubscriptionDiagnosticsDataType_disabledMonitoredItemCount = x28,
            SubscriptionDiagnosticsDataType_monitoringQueueOverflowCount = x29,
            SubscriptionDiagnosticsDataType_nextSequenceNumber = x30,
            SubscriptionDiagnosticsDataType_eventQueueOverflowCount = x31\<rparr>, is) }"

definition SubscriptionDiagnosticsDataType_wf :: "SubscriptionDiagnosticsDataType \<Rightarrow> bool" where
  "SubscriptionDiagnosticsDataType_wf m \<longleftrightarrow>
     OpcUaNodeId_wf (SubscriptionDiagnosticsDataType_sessionId m)"

interpretation subscriptiondiagnosticsdatatype_codec: codec
  SubscriptionDiagnosticsDataType_opcUaBinaryEncode
  SubscriptionDiagnosticsDataType_opcUaBinaryDecode SubscriptionDiagnosticsDataType_wf
  by unfold_locales
     (simp add: SubscriptionDiagnosticsDataType_opcUaBinaryEncode_def
        SubscriptionDiagnosticsDataType_opcUaBinaryDecode_def SubscriptionDiagnosticsDataType_wf_def
        codec_rt)

declare subscriptiondiagnosticsdatatype_codec.dec_enc [codec_rt]

section \<open>Arguments of methods\<close>

text \<open>
  The array dimensions are a pointer that may be null; a null array is written with length -1.
  \<^verbatim>\<open>operator==\<close> answers false when the array dimensions are equal, and dereferences them when both
  pointers are null, which is \<^term>\<open>None\<close>.
\<close>

record Argument =
  ar_name :: OpcUaString
  ar_dataType :: OpcUaNodeIdBase
  ar_valueRank :: u32
  ar_arrayDimensions :: "u32 OpcUaArray option"
  ar_description :: OpcUaLocalizedText

definition Argument_new :: Argument where
  "Argument_new = \<lparr>ar_name = OpcUaString_new, ar_dataType = OpcUaNodeIdBase_new, ar_valueRank = - 1,
     ar_arrayDimensions = Some (OpcUaArray_new 0 1), ar_description = OpcUaLocalizedText_new\<rparr>"

definition Argument_opcUaBinaryEncode :: "Argument \<Rightarrow> stream" where
  "Argument_opcUaBinaryEncode this =
     OpcUaString_opcUaBinaryEncode (ar_name this)
     @ OpcUaNodeId_opcUaBinaryEncode (ar_dataType this)
     @ OpcUaInt32_encode (ar_valueRank this)
     @ (case ar_arrayDimensions this of
          None \<Rightarrow> OpcUaInt32_encode (- 1)
        | Some a \<Rightarrow> OpcUaArray_opcUaBinaryEncode OpcUaUInt32_encode a)
     @ OpcUaLocalizedText_opcUaBinaryEncode (ar_description this)"

definition Argument_opcUaBinaryDecode :: "Argument decoder" where
  "Argument_opcUaBinaryDecode is = do {
     (n, is) \<leftarrow> OpcUaString_opcUaBinaryDecode is;
     (t, is) \<leftarrow> OpcUaNodeId_opcUaBinaryDecode is;
     (v, is) \<leftarrow> OpcUaInt32_decode is;
     (a, is) \<leftarrow> OpcUaArray_opcUaBinaryDecode OpcUaUInt32_decode 0 (OpcUaArray_new 0 1) is;
     (d, is) \<leftarrow> OpcUaLocalizedText_opcUaBinaryDecode OpcUaLocalizedText_new is;
     Some (\<lparr>ar_name = n, ar_dataType = t, ar_valueRank = v, ar_arrayDimensions = Some a,
            ar_description = d\<rparr>, is) }"

definition Argument_copyTo :: "Argument \<Rightarrow> Argument \<Rightarrow> Argument option" where
  "Argument_copyTo this other = do {
     dims \<leftarrow> (case ar_arrayDimensions this of
                None \<Rightarrow> Some (ar_arrayDimensions other)
              | Some a \<Rightarrow> (case ar_arrayDimensions other of
                             None \<Rightarrow> None
                           | Some b \<Rightarrow> Some (Some (OpcUaArray_copyTo id 0 a b))));
     Some (other\<lparr>ar_name := OpcUaString_copyTo (ar_name this) (ar_name other),
                 ar_dataType := OpcUaNodeIdBase_copyTo (ar_dataType this) (ar_dataType other),
                 ar_valueRank := ar_valueRank this,
                 ar_arrayDimensions := dims,
                 ar_description := OpcUaLocalizedText_copyTo (ar_description this) (ar_description other)\<rparr>) }"

definition Argument_equal :: "Argument \<Rightarrow> Argument \<Rightarrow> bool option" where
  "Argument_equal this argument =
     (case (ar_arrayDimensions this, ar_arrayDimensions argument) of
        (None, Some _) \<Rightarrow> Some False
      | (Some _, None) \<Rightarrow> Some False
      | (None, None) \<Rightarrow> None
      | (Some a, Some b) \<Rightarrow>
          if OpcUaArray_equal (\<noteq>) a b then Some False
          else Some (OpcUaString_equal (ar_name this) (ar_name argument)
                     \<and> OpcUaNodeIdBase_equal (ar_dataType this) (ar_dataType argument)
                     \<and> ar_valueRank this = ar_valueRank argument
                     \<and> OpcUaLocalizedText_equal (ar_description this) (ar_description argument)))"

lemma array_equal_refl: "OpcUaArray_equal (\<noteq>) a a"
proof -
  have "OpcUaArray_eq_loop (\<noteq>) xs xs" for xs :: "'a list" by (induction xs) auto
  then show ?thesis by (simp add: OpcUaArray_equal_def)
qed

definition Argument_wf :: "Argument \<Rightarrow> bool" where
  "Argument_wf a \<longleftrightarrow>
     OpcUaString_wf (ar_name a) \<and> OpcUaNodeId_wf (ar_dataType a) \<and> OpcUaLocalizedText_wf (ar_description a)
     \<and> (case ar_arrayDimensions a of
          None \<Rightarrow> True
        | Some d \<Rightarrow> OpcUaArray_inv d \<and> actArrayLen d < 2 ^ 31)"

definition Argument_dimensions :: "Argument \<Rightarrow> u32 list" where
  "Argument_dimensions a = (case ar_arrayDimensions a of None \<Rightarrow> [] | Some d \<Rightarrow> OpcUaArray_list d)"

lemma argument_dimensions_rt:
  assumes "Argument_wf a"
  shows "\<exists>b. OpcUaArray_opcUaBinaryDecode OpcUaUInt32_decode 0 (OpcUaArray_new 0 1)
               ((case ar_arrayDimensions a of
                   None \<Rightarrow> OpcUaInt32_encode (- 1)
                 | Some d \<Rightarrow> OpcUaArray_opcUaBinaryEncode OpcUaUInt32_encode d) @ rest) = Some (b, rest)
           \<and> OpcUaArray_list b = Argument_dimensions a \<and> OpcUaArray_inv b"
proof (cases "ar_arrayDimensions a")
  case None
  then show ?thesis
    by (simp add: OpcUaArray_opcUaBinaryDecode_def Argument_dimensions_def codec_rt)
next
  case (Some d)
  with assms have d: "OpcUaArray_inv d" "actArrayLen d < 2 ^ 31" by (simp_all add: Argument_wf_def)
  show ?thesis
  proof (cases "actArrayLen d = 0")
    case True
    with Some show ?thesis
      by (simp add: OpcUaArray_opcUaBinaryDecode_def OpcUaArray_opcUaBinaryEncode_def
          Argument_dimensions_def uint32_as_int32 codec_rt OpcUaArray_list_def [of d])
  next
    case False
    with d uint32_codec.array_round_trip [of d 0 "OpcUaArray_new 0 1" rest] Some show ?thesis
      by (auto simp: Argument_dimensions_def list_all_iff)
  qed
qed

lemma argument_rt:
  assumes "Argument_wf a"
  shows "\<exists>b. Argument_opcUaBinaryDecode (Argument_opcUaBinaryEncode a @ rest) = Some (b, rest)
           \<and> ar_name b = ar_name a \<and> ar_dataType b = ar_dataType a \<and> ar_valueRank b = ar_valueRank a
           \<and> ar_description b = ar_description a \<and> Argument_dimensions b = Argument_dimensions a"
proof -
  let ?r = "OpcUaLocalizedText_opcUaBinaryEncode (ar_description a) @ rest"
  obtain b where b: "OpcUaArray_opcUaBinaryDecode OpcUaUInt32_decode 0 (OpcUaArray_new 0 1)
       ((case ar_arrayDimensions a of
           None \<Rightarrow> OpcUaInt32_encode (- 1)
         | Some d \<Rightarrow> OpcUaArray_opcUaBinaryEncode OpcUaUInt32_encode d) @ ?r) = Some (b, ?r)"
    and l: "OpcUaArray_list b = Argument_dimensions a"
    using argument_dimensions_rt [OF assms, of ?r] by blast
  show ?thesis
    using assms b l
    by (simp add: Argument_opcUaBinaryEncode_def Argument_opcUaBinaryDecode_def Argument_wf_def codec_rt)
       (simp add: Argument_dimensions_def)
qed

end
