(* ===== verification/RegisteredTypes.thy ===== *)
theory RegisteredTypes
  imports ValueMessages NotificationMessages DiagnosticsTypes
begin

text \<open>
  The classes that \<^verbatim>\<open>Core::initExtensibleParameter\<close> registers for extensible parameters, and the
  interpretation of the contract \<open>message_types\<close> by them.  The operands of a filter are extensible
  parameters inside a parameter: they are the objects of the four operand classes, registered in
  \<open>operand_coders\<close>; what else is registered cannot be an operand that a filter evaluates.
  The extension objects inside variants are those of \<^verbatim>\<open>ExtensionObjects\<close>.
\<close>

section \<open>Operands of filters\<close>

definition object_coders :: "(StandardObject, unit) Coders" where
  "object_coders = \<lparr>cd_objects = StandardObject_ops, cd_objectMap = Core_extensionObjectMap,
     cd_parameterMap = [], cd_parameterEncode = \<lambda>_. None, cd_parameterDecode = \<lambda>_ _. None\<rparr>"

definition object_laws :: "(StandardObject, unit) MessageLaws" where
  "object_laws = \<lparr>ml_object = StandardObject_wf, ml_parameter = \<lambda>_ _. False\<rparr>"

lemma standardObject_law:
  "StandardObject_wf e x \<Longrightarrow>
     ep_decode StandardObject_ops (ep_factory StandardObject_ops e) (ep_encode StandardObject_ops x @ rest)
       = Some (x, rest)"
  by (cases "(e, x)" rule: StandardObject_wf.cases) (simp_all add: StandardObject_ops_def standard_rt)

interpretation objects: message_types object_coders object_laws
  by unfold_locales (simp_all add: object_coders_def object_laws_def standardObject_law)

datatype OperandObject =
    Operand_ElementOperand ElementOperand
  | Operand_LiteralOperand "StandardObject LiteralOperand"
  | Operand_AttributeOperand AttributeOperand
  | Operand_SimpleAttributeOperand SimpleAttributeOperand

text \<open>The class of an object is known by the number of its constructor.\<close>

fun OperandObject_class :: "OperandObject \<Rightarrow> nat" where
  "OperandObject_class (Operand_ElementOperand _) = 0"
| "OperandObject_class (Operand_LiteralOperand _) = 1"
| "OperandObject_class (Operand_AttributeOperand _) = 2"
| "OperandObject_class (Operand_SimpleAttributeOperand _) = 3"

fun OperandObject_encode :: "OperandObject \<Rightarrow> stream option" where
  "OperandObject_encode (Operand_ElementOperand x) = Some (ElementOperand_opcUaBinaryEncode x)"
| "OperandObject_encode (Operand_LiteralOperand x) = LiteralOperand_opcUaBinaryEncode object_coders x"
| "OperandObject_encode (Operand_AttributeOperand x) = Some (AttributeOperand_opcUaBinaryEncode x)"
| "OperandObject_encode (Operand_SimpleAttributeOperand x) = Some (SimpleAttributeOperand_opcUaBinaryEncode x)"

fun OperandObject_decode :: "OperandObject \<Rightarrow> OperandObject decoder" where
  "OperandObject_decode (Operand_ElementOperand _) is =
     map_option (map_prod Operand_ElementOperand id) (ElementOperand_opcUaBinaryDecode is)"
| "OperandObject_decode (Operand_LiteralOperand _) is =
     map_option (map_prod Operand_LiteralOperand id) (LiteralOperand_opcUaBinaryDecode object_coders is)"
| "OperandObject_decode (Operand_AttributeOperand _) is =
     map_option (map_prod Operand_AttributeOperand id) (AttributeOperand_opcUaBinaryDecode is)"
| "OperandObject_decode (Operand_SimpleAttributeOperand _) is =
     map_option (map_prod Operand_SimpleAttributeOperand id) (SimpleAttributeOperand_opcUaBinaryDecode is)"

fun OperandObject_valid :: "OperandObject \<Rightarrow> bool" where
  "OperandObject_valid (Operand_ElementOperand x) \<longleftrightarrow> True"
| "OperandObject_valid (Operand_LiteralOperand x) \<longleftrightarrow> LiteralOperand_wf object_coders object_laws x"
| "OperandObject_valid (Operand_AttributeOperand x) \<longleftrightarrow> AttributeOperand_wf x"
| "OperandObject_valid (Operand_SimpleAttributeOperand x) \<longleftrightarrow> SimpleAttributeOperand_wf x"

definition OperandObject_wf :: "OperandObject \<Rightarrow> OperandObject \<Rightarrow> bool" where
  "OperandObject_wf proto x \<longleftrightarrow> OperandObject_class proto = OperandObject_class x \<and> OperandObject_valid x"

definition operand_parameterMap :: "(OpcUaNodeIdBase \<times> OperandObject) list" where
  "operand_parameterMap = fold (\<lambda>(typeId, p) reg. snd (ExtensibleParameter_insertElement
       (OpcUaNodeIdBase_setNumeric typeId 0 OpcUaNodeIdBase_new) p reg))
     [(594, Operand_ElementOperand ElementOperand_new),
      (597, Operand_LiteralOperand LiteralOperand_new),
      (600, Operand_AttributeOperand AttributeOperand_new),
      (603, Operand_SimpleAttributeOperand SimpleAttributeOperand_new),
      (597, Operand_LiteralOperand LiteralOperand_new)] []"

lemma OperandObject_decode_class:
  "OperandObject_class a = OperandObject_class b \<Longrightarrow> OperandObject_decode a = OperandObject_decode b"
  by (cases a; cases b) (simp_all add: fun_eq_iff)

lemma OperandObject_rt:
  assumes "OperandObject_wf proto x"
  shows "rt OperandObject_encode (OperandObject_decode proto) x"
proof -
  have "rt OperandObject_encode (OperandObject_decode x) x" if "OperandObject_valid x"
    using that
    by (cases x) (auto simp: rt_def codec_rt
      elim!: rtE [OF objects.literalOperand_rt])
  with assms show ?thesis using OperandObject_decode_class [of proto x] by (simp add: OperandObject_wf_def)
qed

definition operand_coders :: "(StandardObject, OperandObject) Coders" where
  "operand_coders = \<lparr>cd_objects = StandardObject_ops, cd_objectMap = Core_extensionObjectMap,
     cd_parameterMap = operand_parameterMap, cd_parameterEncode = OperandObject_encode,
     cd_parameterDecode = OperandObject_decode\<rparr>"

definition operand_laws :: "(StandardObject, OperandObject) MessageLaws" where
  "operand_laws = \<lparr>ml_object = StandardObject_wf, ml_parameter = OperandObject_wf\<rparr>"

interpretation operands: message_types operand_coders operand_laws
  by unfold_locales
     (simp_all add: operand_coders_def operand_laws_def standardObject_law OperandObject_rt)

section \<open>Registered parameters\<close>

text \<open>The attributes of nodes are registered under the identifiers of their data types, not under those of
  their binary encodings.\<close>

datatype ParameterObject =
    Param_AnonymousIdentityToken AnonymousIdentityToken
  | Param_UserNameIdentityToken UserNameIdentityToken
  | Param_X509IdentityToken X509IdentityToken
  | Param_IssuedIdentityToken IssuedIdentityToken
  | Param_EventFilter "OperandObject EventFilterMessage"
  | Param_EventFilterResult EventFilterResult
  | Param_ElementOperand ElementOperand
  | Param_LiteralOperand "StandardObject LiteralOperand"
  | Param_AttributeOperand AttributeOperand
  | Param_SimpleAttributeOperand SimpleAttributeOperand
  | Param_DataChangeNotification "StandardObject DataChangeNotification"
  | Param_EventNotificationList "StandardObject EventNotificationList"
  | Param_ObjectAttributes ObjectAttributes
  | Param_VariableAttributes "StandardObject VariableAttributes"
  | Param_MethodAttributes MethodAttributes
  | Param_ObjectTypeAttributes ObjectTypeAttributes
  | Param_VariableTypeAttributes "StandardObject VariableTypeAttributes"
  | Param_ReferenceTypeAttributes ReferenceTypeAttributes
  | Param_DataTypeAttributes DataTypeAttributes
  | Param_ViewAttributes ViewAttributes
  | Param_ReadRawModifiedDetails ReadRawModifiedDetails
  | Param_ReadEventDetails "OperandObject ReadEventDetails"
  | Param_UpdateStructureDataDetails "StandardObject UpdateStructureDataDetails"
  | Param_HistoryData "StandardObject HistoryData"
  | Param_HistoryEvent "StandardObject HistoryEvent"

text \<open>The class of an object is known by the number of its constructor.\<close>

fun ParameterObject_class :: "ParameterObject \<Rightarrow> nat" where
  "ParameterObject_class (Param_AnonymousIdentityToken _) = 0"
| "ParameterObject_class (Param_UserNameIdentityToken _) = 1"
| "ParameterObject_class (Param_X509IdentityToken _) = 2"
| "ParameterObject_class (Param_IssuedIdentityToken _) = 3"
| "ParameterObject_class (Param_EventFilter _) = 4"
| "ParameterObject_class (Param_EventFilterResult _) = 5"
| "ParameterObject_class (Param_ElementOperand _) = 6"
| "ParameterObject_class (Param_LiteralOperand _) = 7"
| "ParameterObject_class (Param_AttributeOperand _) = 8"
| "ParameterObject_class (Param_SimpleAttributeOperand _) = 9"
| "ParameterObject_class (Param_DataChangeNotification _) = 10"
| "ParameterObject_class (Param_EventNotificationList _) = 11"
| "ParameterObject_class (Param_ObjectAttributes _) = 12"
| "ParameterObject_class (Param_VariableAttributes _) = 13"
| "ParameterObject_class (Param_MethodAttributes _) = 14"
| "ParameterObject_class (Param_ObjectTypeAttributes _) = 15"
| "ParameterObject_class (Param_VariableTypeAttributes _) = 16"
| "ParameterObject_class (Param_ReferenceTypeAttributes _) = 17"
| "ParameterObject_class (Param_DataTypeAttributes _) = 18"
| "ParameterObject_class (Param_ViewAttributes _) = 19"
| "ParameterObject_class (Param_ReadRawModifiedDetails _) = 20"
| "ParameterObject_class (Param_ReadEventDetails _) = 21"
| "ParameterObject_class (Param_UpdateStructureDataDetails _) = 22"
| "ParameterObject_class (Param_HistoryData _) = 23"
| "ParameterObject_class (Param_HistoryEvent _) = 24"

fun ParameterObject_encode :: "ParameterObject \<Rightarrow> stream option" where
  "ParameterObject_encode (Param_AnonymousIdentityToken x) = Some (AnonymousIdentityToken_opcUaBinaryEncode x)"
| "ParameterObject_encode (Param_UserNameIdentityToken x) = Some (UserNameIdentityToken_opcUaBinaryEncode x)"
| "ParameterObject_encode (Param_X509IdentityToken x) = Some (X509IdentityToken_opcUaBinaryEncode x)"
| "ParameterObject_encode (Param_IssuedIdentityToken x) = Some (IssuedIdentityToken_opcUaBinaryEncode x)"
| "ParameterObject_encode (Param_EventFilter x) = EventFilterMessage_opcUaBinaryEncode operand_coders x"
| "ParameterObject_encode (Param_EventFilterResult x) = Some (EventFilterResult_opcUaBinaryEncode x)"
| "ParameterObject_encode (Param_ElementOperand x) = Some (ElementOperand_opcUaBinaryEncode x)"
| "ParameterObject_encode (Param_LiteralOperand x) = LiteralOperand_opcUaBinaryEncode object_coders x"
| "ParameterObject_encode (Param_AttributeOperand x) = Some (AttributeOperand_opcUaBinaryEncode x)"
| "ParameterObject_encode (Param_SimpleAttributeOperand x) = Some (SimpleAttributeOperand_opcUaBinaryEncode x)"
| "ParameterObject_encode (Param_DataChangeNotification x) = DataChangeNotification_opcUaBinaryEncode object_coders x"
| "ParameterObject_encode (Param_EventNotificationList x) = EventNotificationList_opcUaBinaryEncode object_coders x"
| "ParameterObject_encode (Param_ObjectAttributes x) = Some (ObjectAttributes_opcUaBinaryEncode x)"
| "ParameterObject_encode (Param_VariableAttributes x) = VariableAttributes_opcUaBinaryEncode object_coders x"
| "ParameterObject_encode (Param_MethodAttributes x) = Some (MethodAttributes_opcUaBinaryEncode x)"
| "ParameterObject_encode (Param_ObjectTypeAttributes x) = Some (ObjectTypeAttributes_opcUaBinaryEncode x)"
| "ParameterObject_encode (Param_VariableTypeAttributes x) = VariableTypeAttributes_opcUaBinaryEncode object_coders x"
| "ParameterObject_encode (Param_ReferenceTypeAttributes x) = Some (ReferenceTypeAttributes_opcUaBinaryEncode x)"
| "ParameterObject_encode (Param_DataTypeAttributes x) = Some (DataTypeAttributes_opcUaBinaryEncode x)"
| "ParameterObject_encode (Param_ViewAttributes x) = Some (ViewAttributes_opcUaBinaryEncode x)"
| "ParameterObject_encode (Param_ReadRawModifiedDetails x) = Some (ReadRawModifiedDetails_opcUaBinaryEncode x)"
| "ParameterObject_encode (Param_ReadEventDetails x) = ReadEventDetails_opcUaBinaryEncode operand_coders x"
| "ParameterObject_encode (Param_UpdateStructureDataDetails x) = UpdateStructureDataDetails_opcUaBinaryEncode object_coders x"
| "ParameterObject_encode (Param_HistoryData x) = HistoryData_opcUaBinaryEncode object_coders x"
| "ParameterObject_encode (Param_HistoryEvent x) = HistoryEvent_opcUaBinaryEncode object_coders x"

fun ParameterObject_decode :: "ParameterObject \<Rightarrow> ParameterObject decoder" where
  "ParameterObject_decode (Param_AnonymousIdentityToken _) is =
     map_option (map_prod Param_AnonymousIdentityToken id) (AnonymousIdentityToken_opcUaBinaryDecode is)"
| "ParameterObject_decode (Param_UserNameIdentityToken _) is =
     map_option (map_prod Param_UserNameIdentityToken id) (UserNameIdentityToken_opcUaBinaryDecode is)"
| "ParameterObject_decode (Param_X509IdentityToken _) is =
     map_option (map_prod Param_X509IdentityToken id) (X509IdentityToken_opcUaBinaryDecode is)"
| "ParameterObject_decode (Param_IssuedIdentityToken _) is =
     map_option (map_prod Param_IssuedIdentityToken id) (IssuedIdentityToken_opcUaBinaryDecode is)"
| "ParameterObject_decode (Param_EventFilter _) is =
     map_option (map_prod Param_EventFilter id) (EventFilterMessage_opcUaBinaryDecode operand_coders is)"
| "ParameterObject_decode (Param_EventFilterResult _) is =
     map_option (map_prod Param_EventFilterResult id) (EventFilterResult_opcUaBinaryDecode is)"
| "ParameterObject_decode (Param_ElementOperand _) is =
     map_option (map_prod Param_ElementOperand id) (ElementOperand_opcUaBinaryDecode is)"
| "ParameterObject_decode (Param_LiteralOperand _) is =
     map_option (map_prod Param_LiteralOperand id) (LiteralOperand_opcUaBinaryDecode object_coders is)"
| "ParameterObject_decode (Param_AttributeOperand _) is =
     map_option (map_prod Param_AttributeOperand id) (AttributeOperand_opcUaBinaryDecode is)"
| "ParameterObject_decode (Param_SimpleAttributeOperand _) is =
     map_option (map_prod Param_SimpleAttributeOperand id) (SimpleAttributeOperand_opcUaBinaryDecode is)"
| "ParameterObject_decode (Param_DataChangeNotification _) is =
     map_option (map_prod Param_DataChangeNotification id) (DataChangeNotification_opcUaBinaryDecode object_coders is)"
| "ParameterObject_decode (Param_EventNotificationList _) is =
     map_option (map_prod Param_EventNotificationList id) (EventNotificationList_opcUaBinaryDecode object_coders is)"
| "ParameterObject_decode (Param_ObjectAttributes _) is =
     map_option (map_prod Param_ObjectAttributes id) (ObjectAttributes_opcUaBinaryDecode is)"
| "ParameterObject_decode (Param_VariableAttributes _) is =
     map_option (map_prod Param_VariableAttributes id) (VariableAttributes_opcUaBinaryDecode object_coders is)"
| "ParameterObject_decode (Param_MethodAttributes _) is =
     map_option (map_prod Param_MethodAttributes id) (MethodAttributes_opcUaBinaryDecode is)"
| "ParameterObject_decode (Param_ObjectTypeAttributes _) is =
     map_option (map_prod Param_ObjectTypeAttributes id) (ObjectTypeAttributes_opcUaBinaryDecode is)"
| "ParameterObject_decode (Param_VariableTypeAttributes _) is =
     map_option (map_prod Param_VariableTypeAttributes id) (VariableTypeAttributes_opcUaBinaryDecode object_coders is)"
| "ParameterObject_decode (Param_ReferenceTypeAttributes _) is =
     map_option (map_prod Param_ReferenceTypeAttributes id) (ReferenceTypeAttributes_opcUaBinaryDecode is)"
| "ParameterObject_decode (Param_DataTypeAttributes _) is =
     map_option (map_prod Param_DataTypeAttributes id) (DataTypeAttributes_opcUaBinaryDecode is)"
| "ParameterObject_decode (Param_ViewAttributes _) is =
     map_option (map_prod Param_ViewAttributes id) (ViewAttributes_opcUaBinaryDecode is)"
| "ParameterObject_decode (Param_ReadRawModifiedDetails _) is =
     map_option (map_prod Param_ReadRawModifiedDetails id) (ReadRawModifiedDetails_opcUaBinaryDecode is)"
| "ParameterObject_decode (Param_ReadEventDetails _) is =
     map_option (map_prod Param_ReadEventDetails id) (ReadEventDetails_opcUaBinaryDecode operand_coders is)"
| "ParameterObject_decode (Param_UpdateStructureDataDetails _) is =
     map_option (map_prod Param_UpdateStructureDataDetails id) (UpdateStructureDataDetails_opcUaBinaryDecode object_coders is)"
| "ParameterObject_decode (Param_HistoryData _) is =
     map_option (map_prod Param_HistoryData id) (HistoryData_opcUaBinaryDecode object_coders is)"
| "ParameterObject_decode (Param_HistoryEvent _) is =
     map_option (map_prod Param_HistoryEvent id) (HistoryEvent_opcUaBinaryDecode object_coders is)"

fun ParameterObject_valid :: "ParameterObject \<Rightarrow> bool" where
  "ParameterObject_valid (Param_AnonymousIdentityToken x) \<longleftrightarrow> AnonymousIdentityToken_wf x"
| "ParameterObject_valid (Param_UserNameIdentityToken x) \<longleftrightarrow> UserNameIdentityToken_wf x"
| "ParameterObject_valid (Param_X509IdentityToken x) \<longleftrightarrow> X509IdentityToken_wf x"
| "ParameterObject_valid (Param_IssuedIdentityToken x) \<longleftrightarrow> IssuedIdentityToken_wf x"
| "ParameterObject_valid (Param_EventFilter x) \<longleftrightarrow> EventFilterMessage_wf operand_coders operand_laws x"
| "ParameterObject_valid (Param_EventFilterResult x) \<longleftrightarrow> EventFilterResult_wf x"
| "ParameterObject_valid (Param_ElementOperand x) \<longleftrightarrow> True"
| "ParameterObject_valid (Param_LiteralOperand x) \<longleftrightarrow> LiteralOperand_wf object_coders object_laws x"
| "ParameterObject_valid (Param_AttributeOperand x) \<longleftrightarrow> AttributeOperand_wf x"
| "ParameterObject_valid (Param_SimpleAttributeOperand x) \<longleftrightarrow> SimpleAttributeOperand_wf x"
| "ParameterObject_valid (Param_DataChangeNotification x) \<longleftrightarrow> DataChangeNotification_wf object_coders object_laws x"
| "ParameterObject_valid (Param_EventNotificationList x) \<longleftrightarrow> EventNotificationList_wf object_coders object_laws x"
| "ParameterObject_valid (Param_ObjectAttributes x) \<longleftrightarrow> ObjectAttributes_wf x"
| "ParameterObject_valid (Param_VariableAttributes x) \<longleftrightarrow> VariableAttributes_wf object_coders object_laws x"
| "ParameterObject_valid (Param_MethodAttributes x) \<longleftrightarrow> MethodAttributes_wf x"
| "ParameterObject_valid (Param_ObjectTypeAttributes x) \<longleftrightarrow> ObjectTypeAttributes_wf x"
| "ParameterObject_valid (Param_VariableTypeAttributes x) \<longleftrightarrow> VariableTypeAttributes_wf object_coders object_laws x"
| "ParameterObject_valid (Param_ReferenceTypeAttributes x) \<longleftrightarrow> ReferenceTypeAttributes_wf x"
| "ParameterObject_valid (Param_DataTypeAttributes x) \<longleftrightarrow> DataTypeAttributes_wf x"
| "ParameterObject_valid (Param_ViewAttributes x) \<longleftrightarrow> ViewAttributes_wf x"
| "ParameterObject_valid (Param_ReadRawModifiedDetails x) \<longleftrightarrow> True"
| "ParameterObject_valid (Param_ReadEventDetails x) \<longleftrightarrow> ReadEventDetails_wf operand_coders operand_laws x"
| "ParameterObject_valid (Param_UpdateStructureDataDetails x) \<longleftrightarrow> UpdateStructureDataDetails_wf object_coders object_laws x"
| "ParameterObject_valid (Param_HistoryData x) \<longleftrightarrow> HistoryData_wf object_coders object_laws x"
| "ParameterObject_valid (Param_HistoryEvent x) \<longleftrightarrow> HistoryEvent_wf object_coders object_laws x"

definition ParameterObject_wf :: "ParameterObject \<Rightarrow> ParameterObject \<Rightarrow> bool" where
  "ParameterObject_wf proto x \<longleftrightarrow> ParameterObject_class proto = ParameterObject_class x \<and> ParameterObject_valid x"

definition Core_parameterMap :: "(OpcUaNodeIdBase \<times> ParameterObject) list" where
  "Core_parameterMap = fold (\<lambda>(typeId, p) reg. snd (ExtensibleParameter_insertElement
       (OpcUaNodeIdBase_setNumeric typeId 0 OpcUaNodeIdBase_new) p reg))
     [(321, Param_AnonymousIdentityToken AnonymousIdentityToken_new),
      (324, Param_UserNameIdentityToken UserNameIdentityToken_new),
      (327, Param_X509IdentityToken X509IdentityToken_new),
      (940, Param_IssuedIdentityToken IssuedIdentityToken_new),
      (727, Param_EventFilter EventFilterMessage_new),
      (736, Param_EventFilterResult EventFilterResult_new),
      (594, Param_ElementOperand ElementOperand_new),
      (597, Param_LiteralOperand LiteralOperand_new),
      (600, Param_AttributeOperand AttributeOperand_new),
      (603, Param_SimpleAttributeOperand SimpleAttributeOperand_new),
      (597, Param_LiteralOperand LiteralOperand_new),
      (811, Param_DataChangeNotification DataChangeNotification_new),
      (916, Param_EventNotificationList EventNotificationList_new),
      (352, Param_ObjectAttributes ObjectAttributes_new),
      (355, Param_VariableAttributes VariableAttributes_new),
      (358, Param_MethodAttributes MethodAttributes_new),
      (361, Param_ObjectTypeAttributes ObjectTypeAttributes_new),
      (364, Param_VariableTypeAttributes VariableTypeAttributes_new),
      (367, Param_ReferenceTypeAttributes ReferenceTypeAttributes_new),
      (370, Param_DataTypeAttributes DataTypeAttributes_new),
      (373, Param_ViewAttributes ViewAttributes_new),
      (649, Param_ReadRawModifiedDetails ReadRawModifiedDetails_new),
      (646, Param_ReadEventDetails ReadEventDetails_new),
      (11300, Param_UpdateStructureDataDetails UpdateStructureDataDetails_new),
      (658, Param_HistoryData HistoryData_new),
      (661, Param_HistoryEvent HistoryEvent_new),
      (727, Param_EventFilter EventFilterMessage_new)] []"

lemma ParameterObject_decode_class:
  "ParameterObject_class a = ParameterObject_class b \<Longrightarrow> ParameterObject_decode a = ParameterObject_decode b"
  by (cases a; cases b) (simp_all add: fun_eq_iff)

lemma ParameterObject_rt:
  assumes "ParameterObject_wf proto x"
  shows "rt ParameterObject_encode (ParameterObject_decode proto) x"
proof -
  have "rt ParameterObject_encode (ParameterObject_decode x) x" if "ParameterObject_valid x"
    using that
    by (cases x) (auto simp: rt_def codec_rt
      elim!: rtE [OF operands.eventFilterMessage_rt]
        rtE [OF objects.literalOperand_rt]
        rtE [OF objects.dataChangeNotification_rt]
        rtE [OF objects.eventNotificationList_rt]
        rtE [OF objects.variableAttributes_rt]
        rtE [OF objects.variableTypeAttributes_rt]
        rtE [OF operands.readEventDetails_rt]
        rtE [OF objects.updateStructureDataDetails_rt]
        rtE [OF objects.historyData_rt]
        rtE [OF objects.historyEvent_rt])
  with assms show ?thesis using ParameterObject_decode_class [of proto x] by (simp add: ParameterObject_wf_def)
qed

definition Core_coders :: "(StandardObject, ParameterObject) Coders" where
  "Core_coders = \<lparr>cd_objects = StandardObject_ops, cd_objectMap = Core_extensionObjectMap,
     cd_parameterMap = Core_parameterMap, cd_parameterEncode = ParameterObject_encode,
     cd_parameterDecode = ParameterObject_decode\<rparr>"

definition Core_laws :: "(StandardObject, ParameterObject) MessageLaws" where
  "Core_laws = \<lparr>ml_object = StandardObject_wf, ml_parameter = ParameterObject_wf\<rparr>"

interpretation core: message_types Core_coders Core_laws
  by unfold_locales
     (simp_all add: Core_coders_def Core_laws_def standardObject_law ParameterObject_rt)

end
