(* ===== verification/ServiceMessages.thy ===== *)
theory ServiceMessages
  imports RegisteredTypes
begin

text \<open>
  The services: a transaction pairs a request with its response and the identifiers of their encodings
  (\<^verbatim>\<open>ServiceTransactionTemplate\<close> and its instances in \<^verbatim>\<open>OpcUaStackCore/ServiceSet/*ServiceTransaction.h\<close>),
  and the \<^verbatim>\<open>TransactionManager\<close> finds the transaction of a message by the identifier it comes with.
  Only the body of a message is coded here; the session writes and reads the headers.

  The transactions of the application service carry callbacks of the application; of their members only the
  nodes and the results have a binary form.
\<close>

section \<open>Transactions\<close>

datatype ServiceTransaction =
    ServiceTransactionRead | ServiceTransactionWrite | ServiceTransactionHistoryRead
  | ServiceTransactionHistoryUpdate | ServiceTransactionCall | ServiceTransactionAddNodes
  | ServiceTransactionAddReferences | ServiceTransactionDeleteNodes
  | ServiceTransactionDeleteReferences | ServiceTransactionCreateSubscription
  | ServiceTransactionModifySubscription | ServiceTransactionSetPublishingMode
  | ServiceTransactionPublish | ServiceTransactionRepublish
  | ServiceTransactionTransferSubscriptions | ServiceTransactionDeleteSubscriptions
  | ServiceTransactionCreateMonitoredItems | ServiceTransactionDeleteMonitoredItems
  | ServiceTransactionModifyMonitoredItems | ServiceTransactionSetMonitoringMode
  | ServiceTransactionSetTriggering | ServiceTransactionBrowse | ServiceTransactionBrowseNext
  | ServiceTransactionTranslateBrowsePathsToNodeIds | ServiceTransactionRegisterNodes
  | ServiceTransactionUnregisterNodes | ServiceTransactionFindServers
  | ServiceTransactionGetEndpoints | ServiceTransactionRegisterServer
  | ServiceTransactionQueryFirst | ServiceTransactionQueryNext | ServiceTransactionCreateSession
  | ServiceTransactionActivateSession | ServiceTransactionCloseSession | ServiceTransactionCancel
  | ServiceTransactionRegisterForwardNode | ServiceTransactionRegisterForwardMethod
  | ServiceTransactionRegisterForwardGlobal

fun nodeTypeRequest :: "ServiceTransaction \<Rightarrow> u32" where
  "nodeTypeRequest ServiceTransactionRead = 631"
| "nodeTypeRequest ServiceTransactionWrite = 673"
| "nodeTypeRequest ServiceTransactionHistoryRead = 664"
| "nodeTypeRequest ServiceTransactionHistoryUpdate = 700"
| "nodeTypeRequest ServiceTransactionCall = 712"
| "nodeTypeRequest ServiceTransactionAddNodes = 488"
| "nodeTypeRequest ServiceTransactionAddReferences = 494"
| "nodeTypeRequest ServiceTransactionDeleteNodes = 500"
| "nodeTypeRequest ServiceTransactionDeleteReferences = 506"
| "nodeTypeRequest ServiceTransactionCreateSubscription = 787"
| "nodeTypeRequest ServiceTransactionModifySubscription = 793"
| "nodeTypeRequest ServiceTransactionSetPublishingMode = 799"
| "nodeTypeRequest ServiceTransactionPublish = 826"
| "nodeTypeRequest ServiceTransactionRepublish = 832"
| "nodeTypeRequest ServiceTransactionTransferSubscriptions = 841"
| "nodeTypeRequest ServiceTransactionDeleteSubscriptions = 847"
| "nodeTypeRequest ServiceTransactionCreateMonitoredItems = 751"
| "nodeTypeRequest ServiceTransactionDeleteMonitoredItems = 781"
| "nodeTypeRequest ServiceTransactionModifyMonitoredItems = 763"
| "nodeTypeRequest ServiceTransactionSetMonitoringMode = 769"
| "nodeTypeRequest ServiceTransactionSetTriggering = 775"
| "nodeTypeRequest ServiceTransactionBrowse = 527"
| "nodeTypeRequest ServiceTransactionBrowseNext = 533"
| "nodeTypeRequest ServiceTransactionTranslateBrowsePathsToNodeIds = 554"
| "nodeTypeRequest ServiceTransactionRegisterNodes = 560"
| "nodeTypeRequest ServiceTransactionUnregisterNodes = 566"
| "nodeTypeRequest ServiceTransactionFindServers = 422"
| "nodeTypeRequest ServiceTransactionGetEndpoints = 428"
| "nodeTypeRequest ServiceTransactionRegisterServer = 437"
| "nodeTypeRequest ServiceTransactionQueryFirst = 615"
| "nodeTypeRequest ServiceTransactionQueryNext = 621"
| "nodeTypeRequest ServiceTransactionCreateSession = 461"
| "nodeTypeRequest ServiceTransactionActivateSession = 467"
| "nodeTypeRequest ServiceTransactionCloseSession = 473"
| "nodeTypeRequest ServiceTransactionCancel = 479"
| "nodeTypeRequest ServiceTransactionRegisterForwardNode = 1000000"
| "nodeTypeRequest ServiceTransactionRegisterForwardMethod = 1000008"
| "nodeTypeRequest ServiceTransactionRegisterForwardGlobal = 1000006"

fun nodeTypeResponse :: "ServiceTransaction \<Rightarrow> u32" where
  "nodeTypeResponse ServiceTransactionRead = 634"
| "nodeTypeResponse ServiceTransactionWrite = 676"
| "nodeTypeResponse ServiceTransactionHistoryRead = 667"
| "nodeTypeResponse ServiceTransactionHistoryUpdate = 703"
| "nodeTypeResponse ServiceTransactionCall = 715"
| "nodeTypeResponse ServiceTransactionAddNodes = 491"
| "nodeTypeResponse ServiceTransactionAddReferences = 497"
| "nodeTypeResponse ServiceTransactionDeleteNodes = 503"
| "nodeTypeResponse ServiceTransactionDeleteReferences = 509"
| "nodeTypeResponse ServiceTransactionCreateSubscription = 790"
| "nodeTypeResponse ServiceTransactionModifySubscription = 796"
| "nodeTypeResponse ServiceTransactionSetPublishingMode = 802"
| "nodeTypeResponse ServiceTransactionPublish = 829"
| "nodeTypeResponse ServiceTransactionRepublish = 835"
| "nodeTypeResponse ServiceTransactionTransferSubscriptions = 844"
| "nodeTypeResponse ServiceTransactionDeleteSubscriptions = 850"
| "nodeTypeResponse ServiceTransactionCreateMonitoredItems = 754"
| "nodeTypeResponse ServiceTransactionDeleteMonitoredItems = 784"
| "nodeTypeResponse ServiceTransactionModifyMonitoredItems = 766"
| "nodeTypeResponse ServiceTransactionSetMonitoringMode = 772"
| "nodeTypeResponse ServiceTransactionSetTriggering = 778"
| "nodeTypeResponse ServiceTransactionBrowse = 530"
| "nodeTypeResponse ServiceTransactionBrowseNext = 536"
| "nodeTypeResponse ServiceTransactionTranslateBrowsePathsToNodeIds = 557"
| "nodeTypeResponse ServiceTransactionRegisterNodes = 563"
| "nodeTypeResponse ServiceTransactionUnregisterNodes = 569"
| "nodeTypeResponse ServiceTransactionFindServers = 425"
| "nodeTypeResponse ServiceTransactionGetEndpoints = 431"
| "nodeTypeResponse ServiceTransactionRegisterServer = 440"
| "nodeTypeResponse ServiceTransactionQueryFirst = 618"
| "nodeTypeResponse ServiceTransactionQueryNext = 624"
| "nodeTypeResponse ServiceTransactionCreateSession = 464"
| "nodeTypeResponse ServiceTransactionActivateSession = 470"
| "nodeTypeResponse ServiceTransactionCloseSession = 476"
| "nodeTypeResponse ServiceTransactionCancel = 482"
| "nodeTypeResponse ServiceTransactionRegisterForwardNode = 1000001"
| "nodeTypeResponse ServiceTransactionRegisterForwardMethod = 1000009"
| "nodeTypeResponse ServiceTransactionRegisterForwardGlobal = 1000007"

datatype ('e, 'p) ServiceRequest =
    Req_Read ReadRequest
  | Req_Write "'e WriteRequest"
  | Req_HistoryRead "'p HistoryReadRequest"
  | Req_HistoryUpdate "'p HistoryUpdateRequest"
  | Req_Call "'e CallRequest"
  | Req_AddNodes "'p AddNodesRequest"
  | Req_AddReferences AddReferencesRequest
  | Req_DeleteNodes DeleteNodesRequest
  | Req_DeleteReferences DeleteReferencesRequest
  | Req_CreateSubscription CreateSubscriptionRequest
  | Req_ModifySubscription ModifySubscriptionRequest
  | Req_SetPublishingMode SetPublishingModeRequest
  | Req_Publish PublishRequest
  | Req_Republish RepublishRequest
  | Req_TransferSubscriptions TransferSubscriptionsRequest
  | Req_DeleteSubscriptions DeleteSubscriptionsRequest
  | Req_CreateMonitoredItems "'p CreateMonitoredItemsRequest"
  | Req_DeleteMonitoredItems DeleteMonitoredItemsRequest
  | Req_ModifyMonitoredItems "'p ModifyMonitoredItemsRequest"
  | Req_SetMonitoringMode SetMonitoringModeRequest
  | Req_SetTriggering SetTriggeringRequest
  | Req_Browse BrowseRequest
  | Req_BrowseNext BrowseNextRequest
  | Req_TranslateBrowsePathsToNodeIds TranslateBrowsePathsToNodeIdsRequest
  | Req_RegisterNodes RegisterNodesRequest
  | Req_UnregisterNodes UnregisterNodesRequest
  | Req_FindServers FindServersRequest
  | Req_GetEndpoints GetEndpointsRequest
  | Req_RegisterServer RegisterServerRequest
  | Req_QueryFirst "'p QueryFirstRequest"
  | Req_QueryNext QueryNextRequest
  | Req_CreateSession CreateSessionRequest
  | Req_ActivateSession "'p ActivateSessionRequest"
  | Req_CloseSession CloseSessionRequest
  | Req_Cancel CancelRequest
  | Req_RegisterForwardNode "OpcUaNodeIdBase list"
  | Req_RegisterForwardMethod
  | Req_RegisterForwardGlobal

fun ServiceRequest_transaction :: "('e, 'p) ServiceRequest \<Rightarrow> ServiceTransaction" where
  "ServiceRequest_transaction (Req_Read _) = ServiceTransactionRead"
| "ServiceRequest_transaction (Req_Write _) = ServiceTransactionWrite"
| "ServiceRequest_transaction (Req_HistoryRead _) = ServiceTransactionHistoryRead"
| "ServiceRequest_transaction (Req_HistoryUpdate _) = ServiceTransactionHistoryUpdate"
| "ServiceRequest_transaction (Req_Call _) = ServiceTransactionCall"
| "ServiceRequest_transaction (Req_AddNodes _) = ServiceTransactionAddNodes"
| "ServiceRequest_transaction (Req_AddReferences _) = ServiceTransactionAddReferences"
| "ServiceRequest_transaction (Req_DeleteNodes _) = ServiceTransactionDeleteNodes"
| "ServiceRequest_transaction (Req_DeleteReferences _) = ServiceTransactionDeleteReferences"
| "ServiceRequest_transaction (Req_CreateSubscription _) = ServiceTransactionCreateSubscription"
| "ServiceRequest_transaction (Req_ModifySubscription _) = ServiceTransactionModifySubscription"
| "ServiceRequest_transaction (Req_SetPublishingMode _) = ServiceTransactionSetPublishingMode"
| "ServiceRequest_transaction (Req_Publish _) = ServiceTransactionPublish"
| "ServiceRequest_transaction (Req_Republish _) = ServiceTransactionRepublish"
| "ServiceRequest_transaction (Req_TransferSubscriptions _) = ServiceTransactionTransferSubscriptions"
| "ServiceRequest_transaction (Req_DeleteSubscriptions _) = ServiceTransactionDeleteSubscriptions"
| "ServiceRequest_transaction (Req_CreateMonitoredItems _) = ServiceTransactionCreateMonitoredItems"
| "ServiceRequest_transaction (Req_DeleteMonitoredItems _) = ServiceTransactionDeleteMonitoredItems"
| "ServiceRequest_transaction (Req_ModifyMonitoredItems _) = ServiceTransactionModifyMonitoredItems"
| "ServiceRequest_transaction (Req_SetMonitoringMode _) = ServiceTransactionSetMonitoringMode"
| "ServiceRequest_transaction (Req_SetTriggering _) = ServiceTransactionSetTriggering"
| "ServiceRequest_transaction (Req_Browse _) = ServiceTransactionBrowse"
| "ServiceRequest_transaction (Req_BrowseNext _) = ServiceTransactionBrowseNext"
| "ServiceRequest_transaction (Req_TranslateBrowsePathsToNodeIds _) = ServiceTransactionTranslateBrowsePathsToNodeIds"
| "ServiceRequest_transaction (Req_RegisterNodes _) = ServiceTransactionRegisterNodes"
| "ServiceRequest_transaction (Req_UnregisterNodes _) = ServiceTransactionUnregisterNodes"
| "ServiceRequest_transaction (Req_FindServers _) = ServiceTransactionFindServers"
| "ServiceRequest_transaction (Req_GetEndpoints _) = ServiceTransactionGetEndpoints"
| "ServiceRequest_transaction (Req_RegisterServer _) = ServiceTransactionRegisterServer"
| "ServiceRequest_transaction (Req_QueryFirst _) = ServiceTransactionQueryFirst"
| "ServiceRequest_transaction (Req_QueryNext _) = ServiceTransactionQueryNext"
| "ServiceRequest_transaction (Req_CreateSession _) = ServiceTransactionCreateSession"
| "ServiceRequest_transaction (Req_ActivateSession _) = ServiceTransactionActivateSession"
| "ServiceRequest_transaction (Req_CloseSession _) = ServiceTransactionCloseSession"
| "ServiceRequest_transaction (Req_Cancel _) = ServiceTransactionCancel"
| "ServiceRequest_transaction (Req_RegisterForwardNode x) = ServiceTransactionRegisterForwardNode"
| "ServiceRequest_transaction Req_RegisterForwardMethod = ServiceTransactionRegisterForwardMethod"
| "ServiceRequest_transaction Req_RegisterForwardGlobal = ServiceTransactionRegisterForwardGlobal"

fun opcUaBinaryEncodeRequest :: "('e, 'p) Coders \<Rightarrow> ('e, 'p) ServiceRequest \<Rightarrow> stream option" where
  "opcUaBinaryEncodeRequest cd (Req_Read x) = Some (ReadRequest_opcUaBinaryEncode x)"
| "opcUaBinaryEncodeRequest cd (Req_Write x) = WriteRequest_opcUaBinaryEncode cd x"
| "opcUaBinaryEncodeRequest cd (Req_HistoryRead x) = HistoryReadRequest_opcUaBinaryEncode cd x"
| "opcUaBinaryEncodeRequest cd (Req_HistoryUpdate x) = HistoryUpdateRequest_opcUaBinaryEncode cd x"
| "opcUaBinaryEncodeRequest cd (Req_Call x) = CallRequest_opcUaBinaryEncode cd x"
| "opcUaBinaryEncodeRequest cd (Req_AddNodes x) = AddNodesRequest_opcUaBinaryEncode cd x"
| "opcUaBinaryEncodeRequest cd (Req_AddReferences x) = Some (AddReferencesRequest_opcUaBinaryEncode x)"
| "opcUaBinaryEncodeRequest cd (Req_DeleteNodes x) = Some (DeleteNodesRequest_opcUaBinaryEncode x)"
| "opcUaBinaryEncodeRequest cd (Req_DeleteReferences x) = Some (DeleteReferencesRequest_opcUaBinaryEncode x)"
| "opcUaBinaryEncodeRequest cd (Req_CreateSubscription x) = Some (CreateSubscriptionRequest_opcUaBinaryEncode x)"
| "opcUaBinaryEncodeRequest cd (Req_ModifySubscription x) = Some (ModifySubscriptionRequest_opcUaBinaryEncode x)"
| "opcUaBinaryEncodeRequest cd (Req_SetPublishingMode x) = Some (SetPublishingModeRequest_opcUaBinaryEncode x)"
| "opcUaBinaryEncodeRequest cd (Req_Publish x) = Some (PublishRequest_opcUaBinaryEncode x)"
| "opcUaBinaryEncodeRequest cd (Req_Republish x) = Some (RepublishRequest_opcUaBinaryEncode x)"
| "opcUaBinaryEncodeRequest cd (Req_TransferSubscriptions x) = Some (TransferSubscriptionsRequest_opcUaBinaryEncode x)"
| "opcUaBinaryEncodeRequest cd (Req_DeleteSubscriptions x) = Some (DeleteSubscriptionsRequest_opcUaBinaryEncode x)"
| "opcUaBinaryEncodeRequest cd (Req_CreateMonitoredItems x) = CreateMonitoredItemsRequest_opcUaBinaryEncode cd x"
| "opcUaBinaryEncodeRequest cd (Req_DeleteMonitoredItems x) = Some (DeleteMonitoredItemsRequest_opcUaBinaryEncode x)"
| "opcUaBinaryEncodeRequest cd (Req_ModifyMonitoredItems x) = ModifyMonitoredItemsRequest_opcUaBinaryEncode cd x"
| "opcUaBinaryEncodeRequest cd (Req_SetMonitoringMode x) = Some (SetMonitoringModeRequest_opcUaBinaryEncode x)"
| "opcUaBinaryEncodeRequest cd (Req_SetTriggering x) = Some (SetTriggeringRequest_opcUaBinaryEncode x)"
| "opcUaBinaryEncodeRequest cd (Req_Browse x) = Some (BrowseRequest_opcUaBinaryEncode x)"
| "opcUaBinaryEncodeRequest cd (Req_BrowseNext x) = Some (BrowseNextRequest_opcUaBinaryEncode x)"
| "opcUaBinaryEncodeRequest cd (Req_TranslateBrowsePathsToNodeIds x) = Some (TranslateBrowsePathsToNodeIdsRequest_opcUaBinaryEncode x)"
| "opcUaBinaryEncodeRequest cd (Req_RegisterNodes x) = Some (RegisterNodesRequest_opcUaBinaryEncode x)"
| "opcUaBinaryEncodeRequest cd (Req_UnregisterNodes x) = Some (UnregisterNodesRequest_opcUaBinaryEncode x)"
| "opcUaBinaryEncodeRequest cd (Req_FindServers x) = Some (FindServersRequest_opcUaBinaryEncode x)"
| "opcUaBinaryEncodeRequest cd (Req_GetEndpoints x) = Some (GetEndpointsRequest_opcUaBinaryEncode x)"
| "opcUaBinaryEncodeRequest cd (Req_RegisterServer x) = Some (RegisterServerRequest_opcUaBinaryEncode x)"
| "opcUaBinaryEncodeRequest cd (Req_QueryFirst x) = QueryFirstRequest_opcUaBinaryEncode cd x"
| "opcUaBinaryEncodeRequest cd (Req_QueryNext x) = Some (QueryNextRequest_opcUaBinaryEncode x)"
| "opcUaBinaryEncodeRequest cd (Req_CreateSession x) = Some (CreateSessionRequest_opcUaBinaryEncode x)"
| "opcUaBinaryEncodeRequest cd (Req_ActivateSession x) = ActivateSessionRequest_opcUaBinaryEncode cd x"
| "opcUaBinaryEncodeRequest cd (Req_CloseSession x) = Some (CloseSessionRequest_opcUaBinaryEncode x)"
| "opcUaBinaryEncodeRequest cd (Req_Cancel x) = Some (CancelRequest_opcUaBinaryEncode x)"
| "opcUaBinaryEncodeRequest cd (Req_RegisterForwardNode x) = Some (array_encode OpcUaNodeId_opcUaBinaryEncode x)"
| "opcUaBinaryEncodeRequest cd Req_RegisterForwardMethod = Some []"
| "opcUaBinaryEncodeRequest cd Req_RegisterForwardGlobal = Some []"

fun opcUaBinaryDecodeRequest :: "('e, 'p) Coders \<Rightarrow> ServiceTransaction \<Rightarrow> ('e, 'p) ServiceRequest decoder" where
  "opcUaBinaryDecodeRequest cd ServiceTransactionRead is =
     map_option (map_prod Req_Read id) (ReadRequest_opcUaBinaryDecode is)"
| "opcUaBinaryDecodeRequest cd ServiceTransactionWrite is =
     map_option (map_prod Req_Write id) (WriteRequest_opcUaBinaryDecode cd is)"
| "opcUaBinaryDecodeRequest cd ServiceTransactionHistoryRead is =
     map_option (map_prod Req_HistoryRead id) (HistoryReadRequest_opcUaBinaryDecode cd is)"
| "opcUaBinaryDecodeRequest cd ServiceTransactionHistoryUpdate is =
     map_option (map_prod Req_HistoryUpdate id) (HistoryUpdateRequest_opcUaBinaryDecode cd is)"
| "opcUaBinaryDecodeRequest cd ServiceTransactionCall is =
     map_option (map_prod Req_Call id) (CallRequest_opcUaBinaryDecode cd is)"
| "opcUaBinaryDecodeRequest cd ServiceTransactionAddNodes is =
     map_option (map_prod Req_AddNodes id) (AddNodesRequest_opcUaBinaryDecode cd is)"
| "opcUaBinaryDecodeRequest cd ServiceTransactionAddReferences is =
     map_option (map_prod Req_AddReferences id) (AddReferencesRequest_opcUaBinaryDecode is)"
| "opcUaBinaryDecodeRequest cd ServiceTransactionDeleteNodes is =
     map_option (map_prod Req_DeleteNodes id) (DeleteNodesRequest_opcUaBinaryDecode is)"
| "opcUaBinaryDecodeRequest cd ServiceTransactionDeleteReferences is =
     map_option (map_prod Req_DeleteReferences id) (DeleteReferencesRequest_opcUaBinaryDecode is)"
| "opcUaBinaryDecodeRequest cd ServiceTransactionCreateSubscription is =
     map_option (map_prod Req_CreateSubscription id) (CreateSubscriptionRequest_opcUaBinaryDecode is)"
| "opcUaBinaryDecodeRequest cd ServiceTransactionModifySubscription is =
     map_option (map_prod Req_ModifySubscription id) (ModifySubscriptionRequest_opcUaBinaryDecode is)"
| "opcUaBinaryDecodeRequest cd ServiceTransactionSetPublishingMode is =
     map_option (map_prod Req_SetPublishingMode id) (SetPublishingModeRequest_opcUaBinaryDecode is)"
| "opcUaBinaryDecodeRequest cd ServiceTransactionPublish is =
     map_option (map_prod Req_Publish id) (PublishRequest_opcUaBinaryDecode is)"
| "opcUaBinaryDecodeRequest cd ServiceTransactionRepublish is =
     map_option (map_prod Req_Republish id) (RepublishRequest_opcUaBinaryDecode is)"
| "opcUaBinaryDecodeRequest cd ServiceTransactionTransferSubscriptions is =
     map_option (map_prod Req_TransferSubscriptions id) (TransferSubscriptionsRequest_opcUaBinaryDecode is)"
| "opcUaBinaryDecodeRequest cd ServiceTransactionDeleteSubscriptions is =
     map_option (map_prod Req_DeleteSubscriptions id) (DeleteSubscriptionsRequest_opcUaBinaryDecode is)"
| "opcUaBinaryDecodeRequest cd ServiceTransactionCreateMonitoredItems is =
     map_option (map_prod Req_CreateMonitoredItems id) (CreateMonitoredItemsRequest_opcUaBinaryDecode cd is)"
| "opcUaBinaryDecodeRequest cd ServiceTransactionDeleteMonitoredItems is =
     map_option (map_prod Req_DeleteMonitoredItems id) (DeleteMonitoredItemsRequest_opcUaBinaryDecode is)"
| "opcUaBinaryDecodeRequest cd ServiceTransactionModifyMonitoredItems is =
     map_option (map_prod Req_ModifyMonitoredItems id) (ModifyMonitoredItemsRequest_opcUaBinaryDecode cd is)"
| "opcUaBinaryDecodeRequest cd ServiceTransactionSetMonitoringMode is =
     map_option (map_prod Req_SetMonitoringMode id) (SetMonitoringModeRequest_opcUaBinaryDecode is)"
| "opcUaBinaryDecodeRequest cd ServiceTransactionSetTriggering is =
     map_option (map_prod Req_SetTriggering id) (SetTriggeringRequest_opcUaBinaryDecode is)"
| "opcUaBinaryDecodeRequest cd ServiceTransactionBrowse is =
     map_option (map_prod Req_Browse id) (BrowseRequest_opcUaBinaryDecode is)"
| "opcUaBinaryDecodeRequest cd ServiceTransactionBrowseNext is =
     map_option (map_prod Req_BrowseNext id) (BrowseNextRequest_opcUaBinaryDecode is)"
| "opcUaBinaryDecodeRequest cd ServiceTransactionTranslateBrowsePathsToNodeIds is =
     map_option (map_prod Req_TranslateBrowsePathsToNodeIds id) (TranslateBrowsePathsToNodeIdsRequest_opcUaBinaryDecode is)"
| "opcUaBinaryDecodeRequest cd ServiceTransactionRegisterNodes is =
     map_option (map_prod Req_RegisterNodes id) (RegisterNodesRequest_opcUaBinaryDecode is)"
| "opcUaBinaryDecodeRequest cd ServiceTransactionUnregisterNodes is =
     map_option (map_prod Req_UnregisterNodes id) (UnregisterNodesRequest_opcUaBinaryDecode is)"
| "opcUaBinaryDecodeRequest cd ServiceTransactionFindServers is =
     map_option (map_prod Req_FindServers id) (FindServersRequest_opcUaBinaryDecode is)"
| "opcUaBinaryDecodeRequest cd ServiceTransactionGetEndpoints is =
     map_option (map_prod Req_GetEndpoints id) (GetEndpointsRequest_opcUaBinaryDecode is)"
| "opcUaBinaryDecodeRequest cd ServiceTransactionRegisterServer is =
     map_option (map_prod Req_RegisterServer id) (RegisterServerRequest_opcUaBinaryDecode is)"
| "opcUaBinaryDecodeRequest cd ServiceTransactionQueryFirst is =
     map_option (map_prod Req_QueryFirst id) (QueryFirstRequest_opcUaBinaryDecode cd is)"
| "opcUaBinaryDecodeRequest cd ServiceTransactionQueryNext is =
     map_option (map_prod Req_QueryNext id) (QueryNextRequest_opcUaBinaryDecode is)"
| "opcUaBinaryDecodeRequest cd ServiceTransactionCreateSession is =
     map_option (map_prod Req_CreateSession id) (CreateSessionRequest_opcUaBinaryDecode is)"
| "opcUaBinaryDecodeRequest cd ServiceTransactionActivateSession is =
     map_option (map_prod Req_ActivateSession id) (ActivateSessionRequest_opcUaBinaryDecode cd is)"
| "opcUaBinaryDecodeRequest cd ServiceTransactionCloseSession is =
     map_option (map_prod Req_CloseSession id) (CloseSessionRequest_opcUaBinaryDecode is)"
| "opcUaBinaryDecodeRequest cd ServiceTransactionCancel is =
     map_option (map_prod Req_Cancel id) (CancelRequest_opcUaBinaryDecode is)"
| "opcUaBinaryDecodeRequest cd ServiceTransactionRegisterForwardNode is = 
     map_option (map_prod Req_RegisterForwardNode id) (array_decode OpcUaNodeId_opcUaBinaryDecode is)"
| "opcUaBinaryDecodeRequest cd ServiceTransactionRegisterForwardMethod is = Some (Req_RegisterForwardMethod, is)"
| "opcUaBinaryDecodeRequest cd ServiceTransactionRegisterForwardGlobal is = Some (Req_RegisterForwardGlobal, is)"

fun ServiceRequest_wf :: "('e, 'p) Coders \<Rightarrow> ('e, 'p) MessageLaws \<Rightarrow> ('e, 'p) ServiceRequest \<Rightarrow> bool" where
  "ServiceRequest_wf cd laws (Req_Read x) \<longleftrightarrow> ReadRequest_wf x"
| "ServiceRequest_wf cd laws (Req_Write x) \<longleftrightarrow> WriteRequest_wf cd laws x"
| "ServiceRequest_wf cd laws (Req_HistoryRead x) \<longleftrightarrow> HistoryReadRequest_wf cd laws x"
| "ServiceRequest_wf cd laws (Req_HistoryUpdate x) \<longleftrightarrow> HistoryUpdateRequest_wf cd laws x"
| "ServiceRequest_wf cd laws (Req_Call x) \<longleftrightarrow> CallRequest_wf cd laws x"
| "ServiceRequest_wf cd laws (Req_AddNodes x) \<longleftrightarrow> AddNodesRequest_wf cd laws x"
| "ServiceRequest_wf cd laws (Req_AddReferences x) \<longleftrightarrow> AddReferencesRequest_wf x"
| "ServiceRequest_wf cd laws (Req_DeleteNodes x) \<longleftrightarrow> DeleteNodesRequest_wf x"
| "ServiceRequest_wf cd laws (Req_DeleteReferences x) \<longleftrightarrow> DeleteReferencesRequest_wf x"
| "ServiceRequest_wf cd laws (Req_CreateSubscription x) \<longleftrightarrow> True"
| "ServiceRequest_wf cd laws (Req_ModifySubscription x) \<longleftrightarrow> True"
| "ServiceRequest_wf cd laws (Req_SetPublishingMode x) \<longleftrightarrow> SetPublishingModeRequest_wf x"
| "ServiceRequest_wf cd laws (Req_Publish x) \<longleftrightarrow> PublishRequest_wf x"
| "ServiceRequest_wf cd laws (Req_Republish x) \<longleftrightarrow> True"
| "ServiceRequest_wf cd laws (Req_TransferSubscriptions x) \<longleftrightarrow> TransferSubscriptionsRequest_wf x"
| "ServiceRequest_wf cd laws (Req_DeleteSubscriptions x) \<longleftrightarrow> DeleteSubscriptionsRequest_wf x"
| "ServiceRequest_wf cd laws (Req_CreateMonitoredItems x) \<longleftrightarrow> CreateMonitoredItemsRequest_wf cd laws x"
| "ServiceRequest_wf cd laws (Req_DeleteMonitoredItems x) \<longleftrightarrow> DeleteMonitoredItemsRequest_wf x"
| "ServiceRequest_wf cd laws (Req_ModifyMonitoredItems x) \<longleftrightarrow> ModifyMonitoredItemsRequest_wf cd laws x"
| "ServiceRequest_wf cd laws (Req_SetMonitoringMode x) \<longleftrightarrow> SetMonitoringModeRequest_wf x"
| "ServiceRequest_wf cd laws (Req_SetTriggering x) \<longleftrightarrow> SetTriggeringRequest_wf x"
| "ServiceRequest_wf cd laws (Req_Browse x) \<longleftrightarrow> BrowseRequest_wf x"
| "ServiceRequest_wf cd laws (Req_BrowseNext x) \<longleftrightarrow> BrowseNextRequest_wf x"
| "ServiceRequest_wf cd laws (Req_TranslateBrowsePathsToNodeIds x) \<longleftrightarrow> TranslateBrowsePathsToNodeIdsRequest_wf x"
| "ServiceRequest_wf cd laws (Req_RegisterNodes x) \<longleftrightarrow> RegisterNodesRequest_wf x"
| "ServiceRequest_wf cd laws (Req_UnregisterNodes x) \<longleftrightarrow> UnregisterNodesRequest_wf x"
| "ServiceRequest_wf cd laws (Req_FindServers x) \<longleftrightarrow> FindServersRequest_wf x"
| "ServiceRequest_wf cd laws (Req_GetEndpoints x) \<longleftrightarrow> GetEndpointsRequest_wf x"
| "ServiceRequest_wf cd laws (Req_RegisterServer x) \<longleftrightarrow> RegisterServerRequest_wf x"
| "ServiceRequest_wf cd laws (Req_QueryFirst x) \<longleftrightarrow> QueryFirstRequest_wf cd laws x"
| "ServiceRequest_wf cd laws (Req_QueryNext x) \<longleftrightarrow> QueryNextRequest_wf x"
| "ServiceRequest_wf cd laws (Req_CreateSession x) \<longleftrightarrow> CreateSessionRequest_wf x"
| "ServiceRequest_wf cd laws (Req_ActivateSession x) \<longleftrightarrow> ActivateSessionRequest_wf cd laws x"
| "ServiceRequest_wf cd laws (Req_CloseSession x) \<longleftrightarrow> CloseSessionRequest_wf x"
| "ServiceRequest_wf cd laws (Req_Cancel x) \<longleftrightarrow> True"
| "ServiceRequest_wf cd laws (Req_RegisterForwardNode x) \<longleftrightarrow> array_wf OpcUaNodeId_wf x"
| "ServiceRequest_wf cd laws Req_RegisterForwardMethod \<longleftrightarrow> True"
| "ServiceRequest_wf cd laws Req_RegisterForwardGlobal \<longleftrightarrow> True"

datatype ('e, 'p) ServiceResponse =
    Res_Read "'e ReadResponse"
  | Res_Write WriteResponse
  | Res_HistoryRead "'p HistoryReadResponse"
  | Res_HistoryUpdate HistoryUpdateResponse
  | Res_Call "'e CallResponse"
  | Res_AddNodes AddNodesResponse
  | Res_AddReferences AddReferencesResponse
  | Res_DeleteNodes DeleteNodesResponse
  | Res_DeleteReferences DeleteReferencesResponse
  | Res_CreateSubscription CreateSubscriptionResponse
  | Res_ModifySubscription ModifySubscriptionResponse
  | Res_SetPublishingMode SetPublishingModeResponse
  | Res_Publish "'p PublishResponseMessage"
  | Res_Republish "'p RepublishResponse"
  | Res_TransferSubscriptions TransferSubscriptionsResponse
  | Res_DeleteSubscriptions DeleteSubscriptionsResponse
  | Res_CreateMonitoredItems "'p CreateMonitoredItemsResponse"
  | Res_DeleteMonitoredItems DeleteMonitoredItemsResponse
  | Res_ModifyMonitoredItems "'p ModifyMonitoredItemsResponse"
  | Res_SetMonitoringMode SetMonitoringModeResponse
  | Res_SetTriggering SetTriggeringResponse
  | Res_Browse BrowseResponse
  | Res_BrowseNext BrowseNextResponse
  | Res_TranslateBrowsePathsToNodeIds TranslateBrowsePathsToNodeIdsResponse
  | Res_RegisterNodes RegisterNodesResponse
  | Res_UnregisterNodes UnregisterNodesResponse
  | Res_FindServers FindServersResponse
  | Res_GetEndpoints GetEndpointsResponse
  | Res_RegisterServer RegisterServerResponse
  | Res_QueryFirst "'e QueryFirstResponse"
  | Res_QueryNext "'e QueryNextResponse"
  | Res_CreateSession CreateSessionResponse
  | Res_ActivateSession ActivateSessionResponse
  | Res_CloseSession CloseSessionResponse
  | Res_Cancel CancelResponse
  | Res_RegisterForwardNode "u32 list"
  | Res_RegisterForwardMethod
  | Res_RegisterForwardGlobal

fun ServiceResponse_transaction :: "('e, 'p) ServiceResponse \<Rightarrow> ServiceTransaction" where
  "ServiceResponse_transaction (Res_Read _) = ServiceTransactionRead"
| "ServiceResponse_transaction (Res_Write _) = ServiceTransactionWrite"
| "ServiceResponse_transaction (Res_HistoryRead _) = ServiceTransactionHistoryRead"
| "ServiceResponse_transaction (Res_HistoryUpdate _) = ServiceTransactionHistoryUpdate"
| "ServiceResponse_transaction (Res_Call _) = ServiceTransactionCall"
| "ServiceResponse_transaction (Res_AddNodes _) = ServiceTransactionAddNodes"
| "ServiceResponse_transaction (Res_AddReferences _) = ServiceTransactionAddReferences"
| "ServiceResponse_transaction (Res_DeleteNodes _) = ServiceTransactionDeleteNodes"
| "ServiceResponse_transaction (Res_DeleteReferences _) = ServiceTransactionDeleteReferences"
| "ServiceResponse_transaction (Res_CreateSubscription _) = ServiceTransactionCreateSubscription"
| "ServiceResponse_transaction (Res_ModifySubscription _) = ServiceTransactionModifySubscription"
| "ServiceResponse_transaction (Res_SetPublishingMode _) = ServiceTransactionSetPublishingMode"
| "ServiceResponse_transaction (Res_Publish _) = ServiceTransactionPublish"
| "ServiceResponse_transaction (Res_Republish _) = ServiceTransactionRepublish"
| "ServiceResponse_transaction (Res_TransferSubscriptions _) = ServiceTransactionTransferSubscriptions"
| "ServiceResponse_transaction (Res_DeleteSubscriptions _) = ServiceTransactionDeleteSubscriptions"
| "ServiceResponse_transaction (Res_CreateMonitoredItems _) = ServiceTransactionCreateMonitoredItems"
| "ServiceResponse_transaction (Res_DeleteMonitoredItems _) = ServiceTransactionDeleteMonitoredItems"
| "ServiceResponse_transaction (Res_ModifyMonitoredItems _) = ServiceTransactionModifyMonitoredItems"
| "ServiceResponse_transaction (Res_SetMonitoringMode _) = ServiceTransactionSetMonitoringMode"
| "ServiceResponse_transaction (Res_SetTriggering _) = ServiceTransactionSetTriggering"
| "ServiceResponse_transaction (Res_Browse _) = ServiceTransactionBrowse"
| "ServiceResponse_transaction (Res_BrowseNext _) = ServiceTransactionBrowseNext"
| "ServiceResponse_transaction (Res_TranslateBrowsePathsToNodeIds _) = ServiceTransactionTranslateBrowsePathsToNodeIds"
| "ServiceResponse_transaction (Res_RegisterNodes _) = ServiceTransactionRegisterNodes"
| "ServiceResponse_transaction (Res_UnregisterNodes _) = ServiceTransactionUnregisterNodes"
| "ServiceResponse_transaction (Res_FindServers _) = ServiceTransactionFindServers"
| "ServiceResponse_transaction (Res_GetEndpoints _) = ServiceTransactionGetEndpoints"
| "ServiceResponse_transaction (Res_RegisterServer _) = ServiceTransactionRegisterServer"
| "ServiceResponse_transaction (Res_QueryFirst _) = ServiceTransactionQueryFirst"
| "ServiceResponse_transaction (Res_QueryNext _) = ServiceTransactionQueryNext"
| "ServiceResponse_transaction (Res_CreateSession _) = ServiceTransactionCreateSession"
| "ServiceResponse_transaction (Res_ActivateSession _) = ServiceTransactionActivateSession"
| "ServiceResponse_transaction (Res_CloseSession _) = ServiceTransactionCloseSession"
| "ServiceResponse_transaction (Res_Cancel _) = ServiceTransactionCancel"
| "ServiceResponse_transaction (Res_RegisterForwardNode x) = ServiceTransactionRegisterForwardNode"
| "ServiceResponse_transaction Res_RegisterForwardMethod = ServiceTransactionRegisterForwardMethod"
| "ServiceResponse_transaction Res_RegisterForwardGlobal = ServiceTransactionRegisterForwardGlobal"

fun opcUaBinaryEncodeResponse :: "('e, 'p) Coders \<Rightarrow> ('e, 'p) ServiceResponse \<Rightarrow> stream option" where
  "opcUaBinaryEncodeResponse cd (Res_Read x) = ReadResponse_opcUaBinaryEncode cd x"
| "opcUaBinaryEncodeResponse cd (Res_Write x) = Some (WriteResponse_opcUaBinaryEncode x)"
| "opcUaBinaryEncodeResponse cd (Res_HistoryRead x) = HistoryReadResponse_opcUaBinaryEncode cd x"
| "opcUaBinaryEncodeResponse cd (Res_HistoryUpdate x) = Some (HistoryUpdateResponse_opcUaBinaryEncode x)"
| "opcUaBinaryEncodeResponse cd (Res_Call x) = CallResponse_opcUaBinaryEncode cd x"
| "opcUaBinaryEncodeResponse cd (Res_AddNodes x) = Some (AddNodesResponse_opcUaBinaryEncode x)"
| "opcUaBinaryEncodeResponse cd (Res_AddReferences x) = Some (AddReferencesResponse_opcUaBinaryEncode x)"
| "opcUaBinaryEncodeResponse cd (Res_DeleteNodes x) = Some (DeleteNodesResponse_opcUaBinaryEncode x)"
| "opcUaBinaryEncodeResponse cd (Res_DeleteReferences x) = Some (DeleteReferencesResponse_opcUaBinaryEncode x)"
| "opcUaBinaryEncodeResponse cd (Res_CreateSubscription x) = Some (CreateSubscriptionResponse_opcUaBinaryEncode x)"
| "opcUaBinaryEncodeResponse cd (Res_ModifySubscription x) = Some (ModifySubscriptionResponse_opcUaBinaryEncode x)"
| "opcUaBinaryEncodeResponse cd (Res_SetPublishingMode x) = Some (SetPublishingModeResponse_opcUaBinaryEncode x)"
| "opcUaBinaryEncodeResponse cd (Res_Publish x) = PublishResponseMessage_opcUaBinaryEncode cd x"
| "opcUaBinaryEncodeResponse cd (Res_Republish x) = RepublishResponse_opcUaBinaryEncode cd x"
| "opcUaBinaryEncodeResponse cd (Res_TransferSubscriptions x) = Some (TransferSubscriptionsResponse_opcUaBinaryEncode x)"
| "opcUaBinaryEncodeResponse cd (Res_DeleteSubscriptions x) = Some (DeleteSubscriptionsResponse_opcUaBinaryEncode x)"
| "opcUaBinaryEncodeResponse cd (Res_CreateMonitoredItems x) = CreateMonitoredItemsResponse_opcUaBinaryEncode cd x"
| "opcUaBinaryEncodeResponse cd (Res_DeleteMonitoredItems x) = Some (DeleteMonitoredItemsResponse_opcUaBinaryEncode x)"
| "opcUaBinaryEncodeResponse cd (Res_ModifyMonitoredItems x) = ModifyMonitoredItemsResponse_opcUaBinaryEncode cd x"
| "opcUaBinaryEncodeResponse cd (Res_SetMonitoringMode x) = Some (SetMonitoringModeResponse_opcUaBinaryEncode x)"
| "opcUaBinaryEncodeResponse cd (Res_SetTriggering x) = Some (SetTriggeringResponse_opcUaBinaryEncode x)"
| "opcUaBinaryEncodeResponse cd (Res_Browse x) = Some (BrowseResponse_opcUaBinaryEncode x)"
| "opcUaBinaryEncodeResponse cd (Res_BrowseNext x) = Some (BrowseNextResponse_opcUaBinaryEncode x)"
| "opcUaBinaryEncodeResponse cd (Res_TranslateBrowsePathsToNodeIds x) = Some (TranslateBrowsePathsToNodeIdsResponse_opcUaBinaryEncode x)"
| "opcUaBinaryEncodeResponse cd (Res_RegisterNodes x) = Some (RegisterNodesResponse_opcUaBinaryEncode x)"
| "opcUaBinaryEncodeResponse cd (Res_UnregisterNodes x) = Some (UnregisterNodesResponse_opcUaBinaryEncode x)"
| "opcUaBinaryEncodeResponse cd (Res_FindServers x) = Some (FindServersResponse_opcUaBinaryEncode x)"
| "opcUaBinaryEncodeResponse cd (Res_GetEndpoints x) = Some (GetEndpointsResponse_opcUaBinaryEncode x)"
| "opcUaBinaryEncodeResponse cd (Res_RegisterServer x) = Some (RegisterServerResponse_opcUaBinaryEncode x)"
| "opcUaBinaryEncodeResponse cd (Res_QueryFirst x) = QueryFirstResponse_opcUaBinaryEncode cd x"
| "opcUaBinaryEncodeResponse cd (Res_QueryNext x) = QueryNextResponse_opcUaBinaryEncode cd x"
| "opcUaBinaryEncodeResponse cd (Res_CreateSession x) = Some (CreateSessionResponse_opcUaBinaryEncode x)"
| "opcUaBinaryEncodeResponse cd (Res_ActivateSession x) = Some (ActivateSessionResponse_opcUaBinaryEncode x)"
| "opcUaBinaryEncodeResponse cd (Res_CloseSession x) = Some (CloseSessionResponse_opcUaBinaryEncode x)"
| "opcUaBinaryEncodeResponse cd (Res_Cancel x) = Some (CancelResponse_opcUaBinaryEncode x)"
| "opcUaBinaryEncodeResponse cd (Res_RegisterForwardNode x) = Some (array_encode OpcUaInt32_encode x)"
| "opcUaBinaryEncodeResponse cd Res_RegisterForwardMethod = Some []"
| "opcUaBinaryEncodeResponse cd Res_RegisterForwardGlobal = Some []"

fun opcUaBinaryDecodeResponse :: "('e, 'p) Coders \<Rightarrow> ServiceTransaction \<Rightarrow> ('e, 'p) ServiceResponse decoder" where
  "opcUaBinaryDecodeResponse cd ServiceTransactionRead is =
     map_option (map_prod Res_Read id) (ReadResponse_opcUaBinaryDecode cd is)"
| "opcUaBinaryDecodeResponse cd ServiceTransactionWrite is =
     map_option (map_prod Res_Write id) (WriteResponse_opcUaBinaryDecode is)"
| "opcUaBinaryDecodeResponse cd ServiceTransactionHistoryRead is =
     map_option (map_prod Res_HistoryRead id) (HistoryReadResponse_opcUaBinaryDecode cd is)"
| "opcUaBinaryDecodeResponse cd ServiceTransactionHistoryUpdate is =
     map_option (map_prod Res_HistoryUpdate id) (HistoryUpdateResponse_opcUaBinaryDecode is)"
| "opcUaBinaryDecodeResponse cd ServiceTransactionCall is =
     map_option (map_prod Res_Call id) (CallResponse_opcUaBinaryDecode cd is)"
| "opcUaBinaryDecodeResponse cd ServiceTransactionAddNodes is =
     map_option (map_prod Res_AddNodes id) (AddNodesResponse_opcUaBinaryDecode is)"
| "opcUaBinaryDecodeResponse cd ServiceTransactionAddReferences is =
     map_option (map_prod Res_AddReferences id) (AddReferencesResponse_opcUaBinaryDecode is)"
| "opcUaBinaryDecodeResponse cd ServiceTransactionDeleteNodes is =
     map_option (map_prod Res_DeleteNodes id) (DeleteNodesResponse_opcUaBinaryDecode is)"
| "opcUaBinaryDecodeResponse cd ServiceTransactionDeleteReferences is =
     map_option (map_prod Res_DeleteReferences id) (DeleteReferencesResponse_opcUaBinaryDecode is)"
| "opcUaBinaryDecodeResponse cd ServiceTransactionCreateSubscription is =
     map_option (map_prod Res_CreateSubscription id) (CreateSubscriptionResponse_opcUaBinaryDecode is)"
| "opcUaBinaryDecodeResponse cd ServiceTransactionModifySubscription is =
     map_option (map_prod Res_ModifySubscription id) (ModifySubscriptionResponse_opcUaBinaryDecode is)"
| "opcUaBinaryDecodeResponse cd ServiceTransactionSetPublishingMode is =
     map_option (map_prod Res_SetPublishingMode id) (SetPublishingModeResponse_opcUaBinaryDecode is)"
| "opcUaBinaryDecodeResponse cd ServiceTransactionPublish is =
     map_option (map_prod Res_Publish id) (PublishResponseMessage_opcUaBinaryDecode cd is)"
| "opcUaBinaryDecodeResponse cd ServiceTransactionRepublish is =
     map_option (map_prod Res_Republish id) (RepublishResponse_opcUaBinaryDecode cd is)"
| "opcUaBinaryDecodeResponse cd ServiceTransactionTransferSubscriptions is =
     map_option (map_prod Res_TransferSubscriptions id) (TransferSubscriptionsResponse_opcUaBinaryDecode is)"
| "opcUaBinaryDecodeResponse cd ServiceTransactionDeleteSubscriptions is =
     map_option (map_prod Res_DeleteSubscriptions id) (DeleteSubscriptionsResponse_opcUaBinaryDecode is)"
| "opcUaBinaryDecodeResponse cd ServiceTransactionCreateMonitoredItems is =
     map_option (map_prod Res_CreateMonitoredItems id) (CreateMonitoredItemsResponse_opcUaBinaryDecode cd is)"
| "opcUaBinaryDecodeResponse cd ServiceTransactionDeleteMonitoredItems is =
     map_option (map_prod Res_DeleteMonitoredItems id) (DeleteMonitoredItemsResponse_opcUaBinaryDecode is)"
| "opcUaBinaryDecodeResponse cd ServiceTransactionModifyMonitoredItems is =
     map_option (map_prod Res_ModifyMonitoredItems id) (ModifyMonitoredItemsResponse_opcUaBinaryDecode cd is)"
| "opcUaBinaryDecodeResponse cd ServiceTransactionSetMonitoringMode is =
     map_option (map_prod Res_SetMonitoringMode id) (SetMonitoringModeResponse_opcUaBinaryDecode is)"
| "opcUaBinaryDecodeResponse cd ServiceTransactionSetTriggering is =
     map_option (map_prod Res_SetTriggering id) (SetTriggeringResponse_opcUaBinaryDecode is)"
| "opcUaBinaryDecodeResponse cd ServiceTransactionBrowse is =
     map_option (map_prod Res_Browse id) (BrowseResponse_opcUaBinaryDecode is)"
| "opcUaBinaryDecodeResponse cd ServiceTransactionBrowseNext is =
     map_option (map_prod Res_BrowseNext id) (BrowseNextResponse_opcUaBinaryDecode is)"
| "opcUaBinaryDecodeResponse cd ServiceTransactionTranslateBrowsePathsToNodeIds is =
     map_option (map_prod Res_TranslateBrowsePathsToNodeIds id) (TranslateBrowsePathsToNodeIdsResponse_opcUaBinaryDecode is)"
| "opcUaBinaryDecodeResponse cd ServiceTransactionRegisterNodes is =
     map_option (map_prod Res_RegisterNodes id) (RegisterNodesResponse_opcUaBinaryDecode is)"
| "opcUaBinaryDecodeResponse cd ServiceTransactionUnregisterNodes is =
     map_option (map_prod Res_UnregisterNodes id) (UnregisterNodesResponse_opcUaBinaryDecode is)"
| "opcUaBinaryDecodeResponse cd ServiceTransactionFindServers is =
     map_option (map_prod Res_FindServers id) (FindServersResponse_opcUaBinaryDecode is)"
| "opcUaBinaryDecodeResponse cd ServiceTransactionGetEndpoints is =
     map_option (map_prod Res_GetEndpoints id) (GetEndpointsResponse_opcUaBinaryDecode is)"
| "opcUaBinaryDecodeResponse cd ServiceTransactionRegisterServer is =
     map_option (map_prod Res_RegisterServer id) (RegisterServerResponse_opcUaBinaryDecode is)"
| "opcUaBinaryDecodeResponse cd ServiceTransactionQueryFirst is =
     map_option (map_prod Res_QueryFirst id) (QueryFirstResponse_opcUaBinaryDecode cd is)"
| "opcUaBinaryDecodeResponse cd ServiceTransactionQueryNext is =
     map_option (map_prod Res_QueryNext id) (QueryNextResponse_opcUaBinaryDecode cd is)"
| "opcUaBinaryDecodeResponse cd ServiceTransactionCreateSession is =
     map_option (map_prod Res_CreateSession id) (CreateSessionResponse_opcUaBinaryDecode is)"
| "opcUaBinaryDecodeResponse cd ServiceTransactionActivateSession is =
     map_option (map_prod Res_ActivateSession id) (ActivateSessionResponse_opcUaBinaryDecode is)"
| "opcUaBinaryDecodeResponse cd ServiceTransactionCloseSession is =
     map_option (map_prod Res_CloseSession id) (CloseSessionResponse_opcUaBinaryDecode is)"
| "opcUaBinaryDecodeResponse cd ServiceTransactionCancel is =
     map_option (map_prod Res_Cancel id) (CancelResponse_opcUaBinaryDecode is)"
| "opcUaBinaryDecodeResponse cd ServiceTransactionRegisterForwardNode is = 
     map_option (map_prod Res_RegisterForwardNode id) (array_decode OpcUaInt32_decode is)"
| "opcUaBinaryDecodeResponse cd ServiceTransactionRegisterForwardMethod is = Some (Res_RegisterForwardMethod, is)"
| "opcUaBinaryDecodeResponse cd ServiceTransactionRegisterForwardGlobal is = Some (Res_RegisterForwardGlobal, is)"

fun ServiceResponse_wf :: "('e, 'p) Coders \<Rightarrow> ('e, 'p) MessageLaws \<Rightarrow> ('e, 'p) ServiceResponse \<Rightarrow> bool" where
  "ServiceResponse_wf cd laws (Res_Read x) \<longleftrightarrow> ReadResponse_wf cd laws x"
| "ServiceResponse_wf cd laws (Res_Write x) \<longleftrightarrow> WriteResponse_wf x"
| "ServiceResponse_wf cd laws (Res_HistoryRead x) \<longleftrightarrow> HistoryReadResponse_wf cd laws x"
| "ServiceResponse_wf cd laws (Res_HistoryUpdate x) \<longleftrightarrow> HistoryUpdateResponse_wf x"
| "ServiceResponse_wf cd laws (Res_Call x) \<longleftrightarrow> CallResponse_wf cd laws x"
| "ServiceResponse_wf cd laws (Res_AddNodes x) \<longleftrightarrow> AddNodesResponse_wf x"
| "ServiceResponse_wf cd laws (Res_AddReferences x) \<longleftrightarrow> AddReferencesResponse_wf x"
| "ServiceResponse_wf cd laws (Res_DeleteNodes x) \<longleftrightarrow> DeleteNodesResponse_wf x"
| "ServiceResponse_wf cd laws (Res_DeleteReferences x) \<longleftrightarrow> DeleteReferencesResponse_wf x"
| "ServiceResponse_wf cd laws (Res_CreateSubscription x) \<longleftrightarrow> True"
| "ServiceResponse_wf cd laws (Res_ModifySubscription x) \<longleftrightarrow> True"
| "ServiceResponse_wf cd laws (Res_SetPublishingMode x) \<longleftrightarrow> SetPublishingModeResponse_wf x"
| "ServiceResponse_wf cd laws (Res_Publish x) \<longleftrightarrow> PublishResponseMessage_wf cd laws x"
| "ServiceResponse_wf cd laws (Res_Republish x) \<longleftrightarrow> RepublishResponse_wf cd laws x"
| "ServiceResponse_wf cd laws (Res_TransferSubscriptions x) \<longleftrightarrow> TransferSubscriptionsResponse_wf x"
| "ServiceResponse_wf cd laws (Res_DeleteSubscriptions x) \<longleftrightarrow> DeleteSubscriptionsResponse_wf x"
| "ServiceResponse_wf cd laws (Res_CreateMonitoredItems x) \<longleftrightarrow> CreateMonitoredItemsResponse_wf cd laws x"
| "ServiceResponse_wf cd laws (Res_DeleteMonitoredItems x) \<longleftrightarrow> DeleteMonitoredItemsResponse_wf x"
| "ServiceResponse_wf cd laws (Res_ModifyMonitoredItems x) \<longleftrightarrow> ModifyMonitoredItemsResponse_wf cd laws x"
| "ServiceResponse_wf cd laws (Res_SetMonitoringMode x) \<longleftrightarrow> SetMonitoringModeResponse_wf x"
| "ServiceResponse_wf cd laws (Res_SetTriggering x) \<longleftrightarrow> SetTriggeringResponse_wf x"
| "ServiceResponse_wf cd laws (Res_Browse x) \<longleftrightarrow> BrowseResponse_wf x"
| "ServiceResponse_wf cd laws (Res_BrowseNext x) \<longleftrightarrow> BrowseNextResponse_wf x"
| "ServiceResponse_wf cd laws (Res_TranslateBrowsePathsToNodeIds x) \<longleftrightarrow> TranslateBrowsePathsToNodeIdsResponse_wf x"
| "ServiceResponse_wf cd laws (Res_RegisterNodes x) \<longleftrightarrow> RegisterNodesResponse_wf x"
| "ServiceResponse_wf cd laws (Res_UnregisterNodes x) \<longleftrightarrow> True"
| "ServiceResponse_wf cd laws (Res_FindServers x) \<longleftrightarrow> FindServersResponse_wf x"
| "ServiceResponse_wf cd laws (Res_GetEndpoints x) \<longleftrightarrow> GetEndpointsResponse_wf x"
| "ServiceResponse_wf cd laws (Res_RegisterServer x) \<longleftrightarrow> RegisterServerResponse_wf x"
| "ServiceResponse_wf cd laws (Res_QueryFirst x) \<longleftrightarrow> QueryFirstResponse_wf cd laws x"
| "ServiceResponse_wf cd laws (Res_QueryNext x) \<longleftrightarrow> QueryNextResponse_wf cd laws x"
| "ServiceResponse_wf cd laws (Res_CreateSession x) \<longleftrightarrow> CreateSessionResponse_wf x"
| "ServiceResponse_wf cd laws (Res_ActivateSession x) \<longleftrightarrow> ActivateSessionResponse_wf x"
| "ServiceResponse_wf cd laws (Res_CloseSession x) \<longleftrightarrow> True"
| "ServiceResponse_wf cd laws (Res_Cancel x) \<longleftrightarrow> CancelResponse_wf x"
| "ServiceResponse_wf cd laws (Res_RegisterForwardNode x) \<longleftrightarrow> array_wf (\<lambda>_. True) x"
| "ServiceResponse_wf cd laws Res_RegisterForwardMethod \<longleftrightarrow> True"
| "ServiceResponse_wf cd laws Res_RegisterForwardGlobal \<longleftrightarrow> True"

context message_types
begin

lemma serviceRequest_rt:
  assumes "ServiceRequest_wf cd laws m"
  shows "rt (opcUaBinaryEncodeRequest cd) (opcUaBinaryDecodeRequest cd (ServiceRequest_transaction m)) m"
  using assms
  by (cases m) (auto simp: rt_def codec_rt
        UnregisterNodesResponse_opcUaBinaryEncode_def UnregisterNodesResponse_opcUaBinaryDecode_def
        CloseSessionResponse_opcUaBinaryEncode_def CloseSessionResponse_opcUaBinaryDecode_def
      elim!: rtE [OF activateSessionRequest_rt]
        rtE [OF addNodesRequest_rt]
        rtE [OF callRequest_rt]
        rtE [OF createMonitoredItemsRequest_rt]
        rtE [OF historyReadRequest_rt]
        rtE [OF historyUpdateRequest_rt]
        rtE [OF modifyMonitoredItemsRequest_rt]
        rtE [OF queryFirstRequest_rt]
        rtE [OF writeRequest_rt])

lemma serviceResponse_rt:
  assumes "ServiceResponse_wf cd laws m"
  shows "rt (opcUaBinaryEncodeResponse cd) (opcUaBinaryDecodeResponse cd (ServiceResponse_transaction m)) m"
  using assms
  by (cases m) (auto simp: rt_def codec_rt
        UnregisterNodesResponse_opcUaBinaryEncode_def UnregisterNodesResponse_opcUaBinaryDecode_def
        CloseSessionResponse_opcUaBinaryEncode_def CloseSessionResponse_opcUaBinaryDecode_def
      elim!: rtE [OF callResponse_rt]
        rtE [OF createMonitoredItemsResponse_rt]
        rtE [OF historyReadResponse_rt]
        rtE [OF modifyMonitoredItemsResponse_rt]
        rtE [OF publishResponseMessage_rt]
        rtE [OF queryFirstResponse_rt]
        rtE [OF queryNextResponse_rt]
        rtE [OF readResponse_rt]
        rtE [OF republishResponse_rt])

end

end
