(* ===== verification/ServiceTransactions.thy ===== *)
theory ServiceTransactions
  imports ServiceMessages
begin

text \<open>
  The transactions of the server (\<^verbatim>\<open>ServiceSet/TransactionManager.cpp\<close>) as \<^verbatim>\<open>ServiceManager::init\<close>
  registers them, and what is read back from the messages of the registered services.
\<close>

section \<open>Transaction manager\<close>

definition numericId :: "u32 \<Rightarrow> OpcUaNodeIdBase" where
  "numericId i = \<lparr>namespaceIndex = 0, nodeIdValue = NodeIdNumeric i\<rparr>"

type_synonym TransactionManager = "(OpcUaNodeIdBase \<times> ServiceTransaction) list"

definition TransactionManager_find :: "OpcUaNodeIdBase \<Rightarrow> TransactionManager \<Rightarrow> ServiceTransaction option" where
  "TransactionManager_find typeId tm = map_option snd (find (\<lambda>(k, _). OpcUaNodeIdBase_equal k typeId) tm)"

text \<open>The result is false in every case.\<close>

definition TransactionManager_registerTransaction ::
  "ServiceTransaction \<Rightarrow> TransactionManager \<Rightarrow> bool \<times> TransactionManager" where
  "TransactionManager_registerTransaction trx tm =
     (let typeIdRequest = numericId (nodeTypeRequest trx);
          typeIdResponse = numericId (nodeTypeResponse trx)
      in if TransactionManager_find typeIdRequest tm \<noteq> None then (False, tm)
         else if TransactionManager_find typeIdResponse tm \<noteq> None then (False, tm)
         else (False, tm @ [(typeIdRequest, trx), (typeIdResponse, trx)]))"

definition TransactionManager_getTransaction ::
  "OpcUaNodeIdBase \<Rightarrow> TransactionManager \<Rightarrow> ServiceTransaction option" where
  "TransactionManager_getTransaction typeId tm = TransactionManager_find typeId tm"

definition ServiceManager_transactions :: "ServiceTransaction list" where
  "ServiceManager_transactions =
     [ServiceTransactionRead, ServiceTransactionWrite, ServiceTransactionHistoryRead,
      ServiceTransactionHistoryUpdate, ServiceTransactionCall, ServiceTransactionAddNodes,
      ServiceTransactionAddReferences, ServiceTransactionDeleteNodes, ServiceTransactionDeleteReferences,
      ServiceTransactionCreateSubscription, ServiceTransactionDeleteSubscriptions,
      ServiceTransactionModifySubscription, ServiceTransactionPublish, ServiceTransactionRepublish,
      ServiceTransactionSetPublishingMode, ServiceTransactionTransferSubscriptions,
      ServiceTransactionCreateMonitoredItems, ServiceTransactionDeleteMonitoredItems,
      ServiceTransactionModifyMonitoredItems, ServiceTransactionSetMonitoringMode,
      ServiceTransactionSetTriggering, ServiceTransactionBrowse, ServiceTransactionBrowseNext,
      ServiceTransactionTranslateBrowsePathsToNodeIds, ServiceTransactionRegisterNodes,
      ServiceTransactionUnregisterNodes, ServiceTransactionRegisterServer,
      ServiceTransactionRegisterForwardNode, ServiceTransactionRegisterForwardMethod,
      ServiceTransactionRegisterForwardGlobal]"

definition ServiceManager_init :: TransactionManager where
  "ServiceManager_init =
     fold (\<lambda>trx tm. snd (TransactionManager_registerTransaction trx tm)) ServiceManager_transactions []"

lemma equal_numericId [simp]: "OpcUaNodeIdBase_equal (numericId i) (numericId j) \<longleftrightarrow> i = j"
  by (auto simp: numericId_def OpcUaNodeIdBase_equal_def OpcUaNodeIdBase_less_def)

definition trx_entries :: "ServiceTransaction \<Rightarrow> (u32 \<times> ServiceTransaction) list" where
  "trx_entries trx = [(nodeTypeRequest trx, trx), (nodeTypeResponse trx, trx)]"

definition of_entries :: "(u32 \<times> ServiceTransaction) list \<Rightarrow> TransactionManager" where
  "of_entries es = map (map_prod numericId id) es"

lemma find_entries: "TransactionManager_find (numericId i) (of_entries es) = map_of es i"
  by (induction es) (auto simp: TransactionManager_find_def of_entries_def)

lemma register_entries:
  "distinct (map fst (es @ concat (map trx_entries ts))) \<Longrightarrow>
     fold (\<lambda>trx tm. snd (TransactionManager_registerTransaction trx tm)) ts (of_entries es)
       = of_entries (es @ concat (map trx_entries ts))"
proof (induction ts arbitrary: es)
  case (Cons t ts)
  have "map_of es (nodeTypeRequest t) = None" "map_of es (nodeTypeResponse t) = None"
    using Cons.prems by (auto simp: trx_entries_def map_of_eq_None_iff)
  then have "snd (TransactionManager_registerTransaction t (of_entries es)) = of_entries (es @ trx_entries t)"
    by (simp add: TransactionManager_registerTransaction_def find_entries trx_entries_def)
       (simp add: of_entries_def)
  with Cons.IH [of "es @ trx_entries t"] Cons.prems show ?case by simp
qed simp

lemma transactions_distinct: "distinct (map fst (concat (map trx_entries ServiceManager_transactions)))"
  by (simp add: ServiceManager_transactions_def trx_entries_def)

lemma serviceManager_entries:
  "ServiceManager_init = of_entries (concat (map trx_entries ServiceManager_transactions))"
  using register_entries [of "[]" ServiceManager_transactions] transactions_distinct
  by (simp add: ServiceManager_init_def of_entries_def)

lemma registered_transaction:
  assumes "trx \<in> set ServiceManager_transactions" "(i, trx) \<in> set (trx_entries trx)"
  shows "TransactionManager_getTransaction (numericId i) ServiceManager_init = Some trx"
  using assms transactions_distinct
  by (auto simp: TransactionManager_getTransaction_def serviceManager_entries find_entries
      intro!: map_of_is_SomeI)

section \<open>Unregistered parameters\<close>

lemma core_parameter_ids:
  "map fst Core_parameterMap = map numericId [321, 324, 327, 940, 727, 736, 594, 597, 600, 603, 811, 916,
     352, 355, 358, 361, 364, 367, 370, 373, 649, 646, 11300, 658, 661]"
proof -
  have new: "OpcUaNodeIdBase_setNumeric i 0 OpcUaNodeIdBase_new = numericId i" for i
    by (simp add: OpcUaNodeIdBase_setNumeric_def OpcUaNodeIdBase_new_def numericId_def)
  show ?thesis
    by (simp add: Core_parameterMap_def ExtensibleParameter_insertElement_def
        ExtensibleParameter_findElement_def new)
qed

lemma parameter_find_None:
  "map fst reg = map numericId ks \<Longrightarrow> i \<notin> set ks \<Longrightarrow>
     ExtensibleParameter_findElement reg (numericId i) = None"
proof (induction reg arbitrary: ks)
  case (Cons r reg)
  then obtain k ks' where ks: "ks = k # ks'" "fst r = numericId k" "map fst reg = map numericId ks'" "i \<noteq> k"
    by (cases ks) auto
  with Cons.IH [OF ks(3)] Cons.prems(2) show ?case
    by (cases r) (simp add: ExtensibleParameter_findElement_def)
qed (simp add: ExtensibleParameter_findElement_def)

lemma numericId_wf [simp]: "OpcUaNodeId_wf (numericId i)"
  by (simp add: numericId_def OpcUaNodeId_wf_def)

lemma low_byte_zero: "(ucast (w :: u32) :: u8) = 0 \<longleftrightarrow> w AND 0xFF = 0"
proof -
  have "w AND 0xFF = take_bit 8 w"
    by (simp add: take_bit_eq_mask mask_eq_exp_minus_1)
  then show ?thesis
    by (auto simp: bit_eq_iff bit_take_bit_iff bit_ucast_iff)
qed

lemma filter_body_length:
  "length (DataChangeFilter_opcUaBinaryEncode f)
     = (if DataChangeFilter_trigger f \<noteq> 0 \<and> DataChangeFilter_deadbandType f \<noteq> 0 then 16 else 8)"
  by (simp add: DataChangeFilter_opcUaBinaryEncode_def uint32_codec.enc_width double_codec.enc_width)

lemma boolean_decode_filter:
  "OpcUaBoolean_decode (DataChangeFilter_opcUaBinaryEncode f @ rest)
     = Some (DataChangeFilter_trigger f AND 0xFF \<noteq> 0, tl (DataChangeFilter_opcUaBinaryEncode f) @ rest)"
  by (simp add: OpcUaBoolean_decode_def DataChangeFilter_opcUaBinaryEncode_def number_coder_defs byteOrder_defs
      le_bytes_def upt_conv_Cons low_byte_zero)

lemma unregistered_encoding:
  "i \<notin> {321, 324, 327, 940, 727, 736, 594, 597, 600, 603, 811, 916, 352, 355, 358, 361, 364, 367, 370, 373,
      649, 646, 11300, 658, 661} \<Longrightarrow>
   ExtensibleParameter_opcUaBinaryDecode Core_coders
      (OpcUaNodeId_opcUaBinaryEncode (numericId i) @ OpcUaByte_encode 0x01 @ rest)
    = Some (\<lparr>xp_parameterTypeId = numericId i, xp_parameter = None\<rparr>, rest)"
  by (simp add: ExtensibleParameter_opcUaBinaryDecode_def codec_rt Core_coders_def numericId_wf
      parameter_find_None [OF core_parameter_ids])

section \<open>Properties\<close>


text \<open>A monitored item for the events of the server: their severity, when it is above 500.\<close>

definition severity_operand :: SimpleAttributeOperand where
  "severity_operand = \<lparr>sao_typeId = numericId 2041,
     sao_browsePath = [\<lparr>qn_namespaceIndex = 0, qn_name = OpcUaString_of ''Severity''\<rparr>],
     sao_attributeId = 13, sao_indexRange = OpcUaString_new\<rparr>"

definition severity_filter :: "OperandObject EventFilterMessage" where
  "severity_filter = \<lparr>EventFilterMessage_selectClausesArray = [severity_operand],
     EventFilterMessage_whereClause = \<lparr>ContentFilter_elementsArray =
       [\<lparr>ContentFilterElementMessage_filterOperator = 2,
         ContentFilterElementMessage_filterOperandsArray =
           [\<lparr>xp_parameterTypeId = numericId 603,
             xp_parameter = Some (Operand_SimpleAttributeOperand severity_operand)\<rparr>,
            \<lparr>xp_parameterTypeId = numericId 597,
             xp_parameter = Some (Operand_LiteralOperand \<lparr>LiteralOperand_variant =
               \<lparr>arrayLength = - 1, arrayDimensionsVec = [], variantValueVec = [VUInt16 500]\<rparr>\<rparr>)\<rparr>]\<rparr>]\<rparr>\<rparr>"

definition sample_request :: "(StandardObject, ParameterObject) ServiceRequest" where
  "sample_request = Req_CreateMonitoredItems
     \<lparr>CreateMonitoredItemsRequest_subscriptionId = 7,
      CreateMonitoredItemsRequest_timestampsToReturn = 2,
      CreateMonitoredItemsRequest_itemsToCreateArray =
        [\<lparr>MonitoredItemCreateRequestMessage_itemToMonitor =
            ReadValueId_new\<lparr>ReadValueId_nodeId := numericId 2253, ReadValueId_attributeId := 12\<rparr>,
          MonitoredItemCreateRequestMessage_monitoringMode = 2,
          MonitoredItemCreateRequestMessage_requestedParameters =
            MonitoringParameters_new\<lparr>MonitoringParameters_filter :=
              \<lparr>xp_parameterTypeId = numericId 727,
               xp_parameter = Some (Param_EventFilter severity_filter)\<rparr>\<rparr>\<rparr>]\<rparr>"

lemma setNumeric_new [simp]: "OpcUaNodeIdBase_setNumeric i 0 OpcUaNodeIdBase_new = numericId i"
  by (simp add: OpcUaNodeIdBase_setNumeric_def OpcUaNodeIdBase_new_def numericId_def)

lemma operand_types:
  "ExtensibleParameter_findElement operand_parameterMap (numericId 603)
     = Some (Operand_SimpleAttributeOperand SimpleAttributeOperand_new)"
  "ExtensibleParameter_findElement operand_parameterMap (numericId 597)
     = Some (Operand_LiteralOperand LiteralOperand_new)"
  by (simp_all add: operand_parameterMap_def ExtensibleParameter_insertElement_def
      ExtensibleParameter_findElement_def)

lemma event_filter_type:
  "ExtensibleParameter_findElement Core_parameterMap (numericId 727) = Some (Param_EventFilter EventFilterMessage_new)"
  by (simp add: Core_parameterMap_def ExtensibleParameter_insertElement_def
      ExtensibleParameter_findElement_def)

lemma severity_operand_wf: "SimpleAttributeOperand_wf severity_operand"
  by (simp add: SimpleAttributeOperand_wf_def severity_operand_def array_wf_def OpcUaString_wf_def
      OpcUaString_new_def OpcUaString_of_def)

lemma severity_filter_wf: "EventFilterMessage_wf operand_coders operand_laws severity_filter"
  by (simp add: EventFilterMessage_wf_def severity_filter_def severity_operand_wf array_wf_def
      ContentFilter_wf_def ContentFilterElementMessage_wf_def ExtensibleParameter_wf_def operand_coders_def
      operand_laws_def operand_types OperandObject_wf_def LiteralOperand_wf_def Variant_wf_def
      OpcUaVariant_wf_def)

lemma sample_request_wf: "ServiceRequest_wf Core_coders Core_laws sample_request"
  by (simp add: sample_request_def CreateMonitoredItemsRequest_wf_def array_wf_def
      MonitoredItemCreateRequestMessage_wf_def MonitoringParameters_wf_def ReadValueId_wf_def
      ReadValueId_new_def OpcUaQualifiedName_new_def OpcUaString_new_def OpcUaString_wf_def
      ExtensibleParameter_wf_def Core_coders_def Core_laws_def event_filter_type ParameterObject_wf_def
      severity_filter_wf)



text \<open>A publish response with the value 5 of an item.\<close>

definition sample_notification :: "StandardObject DataChangeNotification" where
  "sample_notification = \<lparr>DataChangeNotification_monitoredItemNotificationArray =
       [\<lparr>MonitoredItemNotificationMessage_clientHandle = 3,
         MonitoredItemNotificationMessage_dataValue =
           \<lparr>dv_variant = Some \<lparr>arrayLength = - 1, arrayDimensionsVec = [], variantValueVec = [VUInt32 5]\<rparr>,
            dv_statusCode = 0, dv_sourceTimestamp = 9, dv_sourcePicoseconds = 0, dv_serverTimestamp = 9,
            dv_serverPicoseconds = 0\<rparr>\<rparr>],
     DataChangeNotification_diagnosticInfoArray = []\<rparr>"

definition sample_response :: "(StandardObject, ParameterObject) ServiceResponse" where
  "sample_response = Res_Publish
     \<lparr>PublishResponseMessage_subscriptionId = 7, PublishResponseMessage_availableSequenceNumberArray = [1],
      PublishResponseMessage_moreNotifications = False,
      PublishResponseMessage_notficiationMessage =
        \<lparr>NotificationMessage_sequenceNumber = 1, NotificationMessage_publishTime = 9,
         NotificationMessage_notificationDataArray =
           [\<lparr>xp_parameterTypeId = numericId 811,
             xp_parameter = Some (Param_DataChangeNotification sample_notification)\<rparr>]\<rparr>,
      PublishResponseMessage_statusCodeArray = [], PublishResponseMessage_diagnosticInfoArray = []\<rparr>"

lemma notification_type:
  "ExtensibleParameter_findElement Core_parameterMap (numericId 811)
     = Some (Param_DataChangeNotification DataChangeNotification_new)"
  by (simp add: Core_parameterMap_def ExtensibleParameter_insertElement_def
      ExtensibleParameter_findElement_def)

lemma sample_notification_wf: "DataChangeNotification_wf object_coders object_laws sample_notification"
  by (simp add: DataChangeNotification_wf_def sample_notification_def array_wf_def
      MonitoredItemNotificationMessage_wf_def DataValue_wf_def OpcUaDataValue_wf_def OpcUaVariant_wf_def)

lemma sample_response_wf: "ServiceResponse_wf Core_coders Core_laws sample_response"
  by (simp add: sample_response_def PublishResponseMessage_wf_def NotificationMessage_wf_def array_wf_def
      ExtensibleParameter_wf_def Core_coders_def Core_laws_def notification_type ParameterObject_wf_def
      sample_notification_wf)


text \<open>C33: The services a server looks up for the identifier of a message: exactly those it registered, each
  under the identifier of its request and under that of its response, although every registration
  reported a failure.\<close>

theorem transaction_lookup_exact:
  "(TransactionManager_getTransaction (numericId i) ServiceManager_init = Some trx
     \<longleftrightarrow> trx \<in> set ServiceManager_transactions \<and> (i = nodeTypeRequest trx \<or> i = nodeTypeResponse trx))
   \<and> \<not> fst (TransactionManager_registerTransaction trx tm)"
proof -
  have "map_of (concat (map trx_entries ServiceManager_transactions)) i = Some trx
      \<longleftrightarrow> (i, trx) \<in> set (concat (map trx_entries ServiceManager_transactions))"
    by (rule map_of_eq_Some_iff) (rule transactions_distinct)
  then show ?thesis
    by (auto simp: TransactionManager_getTransaction_def serviceManager_entries find_entries trx_entries_def
        TransactionManager_registerTransaction_def Let_def)
qed

text \<open>C34: The class of data change filters is not registered, so the parameters of a monitored item that
  has one are read wrongly: the filter is lost, the length of its body becomes the size of the queue, the
  first byte of the trigger the flag to discard the oldest notification, and the rest of the body, the
  queue size and the flag stay in the stream in front of the next item.\<close>

theorem data_change_filter_misread:
  "MonitoringParameters_opcUaBinaryDecode Core_coders
     (OpcUaUInt32_encode handle @ OpcUaDouble_encode interval
      @ OpcUaNodeId_opcUaBinaryEncode (numericId 724) @ OpcUaByte_encode 0x01
      @ OpcUaUInt32_encode (word_of_nat (length (DataChangeFilter_opcUaBinaryEncode f)))
      @ DataChangeFilter_opcUaBinaryEncode f
      @ OpcUaUInt32_encode queueSize @ OpcUaBoolean_encode discardOldest @ rest)
   = Some (\<lparr>MonitoringParameters_clientHandle = handle, MonitoringParameters_samplingInterval = interval,
       MonitoringParameters_filter = \<lparr>xp_parameterTypeId = numericId 724, xp_parameter = None\<rparr>,
       MonitoringParameters_queueSize = (if DataChangeFilter_trigger f \<noteq> 0 \<and> DataChangeFilter_deadbandType f \<noteq> 0
          then 16 else 8),
       MonitoringParameters_discardOldest = (DataChangeFilter_trigger f AND 0xFF \<noteq> 0)\<rparr>,
     tl (DataChangeFilter_opcUaBinaryEncode f)
       @ OpcUaUInt32_encode queueSize @ OpcUaBoolean_encode discardOldest @ rest)"
  by (simp add: MonitoringParameters_opcUaBinaryDecode_def unregistered_encoding codec_rt
      filter_body_length boolean_decode_filter)

end
