(* ===== verification/Spec2Isabelle.thy ===== *)
theory Spec2Isabelle
  imports DataValues OrderedMap TimerWheel AttributeAccess Acknowledgement AddressSpace MonitorItems FilterStack
    SubscriptionLife ServiceTransactions
begin

text \<open>
  OpcUaStack is an OPC UA communication stack in C++: a core library with the built-in data types and
  their binary encoding (\<^verbatim>\<open>OpcUaStackCore\<close>), a server library (\<^verbatim>\<open>OpcUaStackServer\<close>) and a client
  library.  The theories follow the source files; a definition \<^verbatim>\<open>C_op\<close> is the method
  \<^verbatim>\<open>C::op\<close> of the source.

  The data model.  \<^verbatim>\<open>ByteOrder\<close> has the byte stream and the number coders
  (\<^verbatim>\<open>BuildInTypes/ByteOrder.h\<close>, \<^verbatim>\<open>OpcUaNumber.cpp\<close>), \<^verbatim>\<open>ArrayContainer\<close> the container
  \<^verbatim>\<open>OpcUaArray\<close>, \<^verbatim>\<open>StringTypes\<close> the strings, byte strings and GUIDs, \<^verbatim>\<open>NodeIds\<close> the node
  identifiers, names and diagnostic information, \<^verbatim>\<open>StandardTypes\<close> the structured types of
  \<^verbatim>\<open>StandardDataTypes\<close>, \<^verbatim>\<open>ExtensionObjects\<close> the registry of structured types and their
  encoding, \<^verbatim>\<open>Variants\<close>, \<^verbatim>\<open>Variant\<close> and \<^verbatim>\<open>DataValues\<close> the variants and data
  values.  A stream is a list of bytes, an encoder maps a value to the bytes it writes, and a decoder maps
  a stream to the value and the rest of the stream, or to \<^term>\<open>None\<close> when the bytes run out.  The
  contract of a coder is the locale \<^verbatim>\<open>codec\<close>; every coder of the model interprets it, and the
  round trips of the composed types rest on these interpretations.

  The timers.  \<^verbatim>\<open>LinkedRings\<close> has the ring lists by pointers (\<^verbatim>\<open>Container/DoublyLinkedList.cpp\<close>
  and the slots of \<^verbatim>\<open>Utility/SlotTimer.cpp\<close>) and that they represent lists; \<^verbatim>\<open>SlotTimer\<close>
  the timer wheel over lists; \<^verbatim>\<open>TimerWheel\<close> its invariant over all reachable states, from which the
  precision of the timers follows.

  The address space.  \<^verbatim>\<open>AttributeAccess\<close> has the attributes of a node and their reading, writing and
  change test (\<^verbatim>\<open>AddressSpaceModel/Attribute.h\<close>, \<^verbatim>\<open>AttributeBase.cpp\<close>, \<^verbatim>\<open>AttributeAccess.cpp\<close>),
  \<^verbatim>\<open>ComparatorMap\<close> the \<^verbatim>\<open>std::map\<close> with a comparison, \<^verbatim>\<open>References\<close> the map of the references
  of a node and its iterator (\<^verbatim>\<open>ReferenceItemMap.cpp\<close>), \<^verbatim>\<open>InformationModel\<close> the nodes by identifier
  and the operations on them (\<^verbatim>\<open>InformationModel.cpp\<close>, \<^verbatim>\<open>InformationModelAccess.cpp\<close>), with the
  nodes in a heap because they are shared, and \<^verbatim>\<open>AddressSpace\<close> what holds of every address space that
  was built by its operations.  \<^verbatim>\<open>Machine\<close> has the generic reachability these invariants are stated over:
  the locale \<^verbatim>\<open>machine\<close> is interpreted by the references, the information model and the
  acknowledgements.

  Publishing.  \<^verbatim>\<open>Acknowledgement\<close> has the sequence numbers and the queue of unacknowledged messages of a
  subscription (\<^verbatim>\<open>AcknowledgementManager.cpp\<close>), \<^verbatim>\<open>MonitorItems\<close> the sampling and the queue of a
  monitored item (\<^verbatim>\<open>MonitorItem.cpp\<close>); \<^verbatim>\<open>Doubles\<close> the few operations on double values they use.
  \<^verbatim>\<open>Events\<close> has the variables of an event, their types and how a field is selected
  (\<^verbatim>\<open>EventType/EventVariables.cpp\<close>, \<^verbatim>\<open>EventBase.cpp\<close>), \<^verbatim>\<open>StandardEvents\<close> the 59 event classes of
  \<^verbatim>\<open>StandardEventType\<close>, \<^verbatim>\<open>EventItems\<close> the event items (\<^verbatim>\<open>EventItem.cpp\<close>), the map of handlers and the
  delivery of an event (\<^verbatim>\<open>ApplicationService.cpp\<close>).  \<^verbatim>\<open>MonitorManager\<close> has the manager of the items of a
  subscription and the part of the server it works on, \<^verbatim>\<open>Subscriptions\<close> the subscriptions of a session and
  their publishing, \<^verbatim>\<open>SubscriptionServer\<close> the requests of all sessions and the timer callbacks
  (\<^verbatim>\<open>MonitorManager.cpp\<close>, \<^verbatim>\<open>Subscription.cpp\<close>, \<^verbatim>\<open>SubscriptionManager.cpp\<close>,
  \<^verbatim>\<open>SubscriptionService.cpp\<close>).  \<^verbatim>\<open>Publishing\<close> shows what holds of the publish requests over whole
  histories of commands, \<^verbatim>\<open>SubscriptionLife\<close> what the timer of a subscription does: delivery of the
  queues, keepalive, lifetime.

  Filters.  \<^verbatim>\<open>TypeConversion\<close> has the conversion of variants (\<^verbatim>\<open>OpcUaTypeConversion.cpp\<close>; the
  conversions from and to text and floating point are the parameter \<^verbatim>\<open>lib_cast\<close>), \<^verbatim>\<open>Filters\<close> the
  filter nodes and their evaluation and \<^verbatim>\<open>FilterStack\<close> the builder and the decision
  (\<^verbatim>\<open>OpcUaStackCore/Filter\<close>).

  Not modelled: XML and JSON coders, sockets and threads, OpenSSL.  Time is a natural number of
  milliseconds, and a tick of the wheel is 10 ms.
\<close>

end
